(* ===== verification/Go_Prelude.thy ===== *)
theory Go_Prelude
  imports Complex_Main "HOL-Library.Char_ord" "HOL-Library.List_Lexorder"
    "HOL-Library.Product_Lexorder" "HOL-Library.Multiset"
begin

text \<open>
  What the components of Joulie share of the Go language and its standard library:
  \<^item> numbers: \<open>float64\<close> is modelled by exact reals (\<open>f64\<close>), \<open>math.Round\<close>, \<open>math.Ceil\<close>
    and the conversion \<open>int(x)\<close> by \<open>go_round\<close>, \<open>go_ceil\<close> and \<open>go_trunc\<close>; \<open>int\<close> by
    unbounded \<open>int\<close> or, for lengths and counters, \<open>nat\<close>;
  \<^item> strings: byte strings (\<open>string\<close>), with the functions of packages \<open>strings\<close> and
    \<open>strconv\<close> the code calls. White space and letter case are those of ASCII;
  \<^item> \<open>sort.Slice\<close> and \<open>sort.Strings\<close>: \<open>go_sort\<close>, a sort by the \<open>less\<close> function of
    the call. Every call in the modelled code passes a strict total order on the elements
    it sorts, so the result does not depend on the algorithm;
  \<^item> errors: a function that returns \<open>(T, error)\<close> has a result of type \<open>goerr + 'a\<close>.
\<close>

named_theorems go_string "facts on the modelled functions of package strings"
named_theorems go_num "unfolding of the modelled numeric conversions"

type_synonym f64 = real
type_synonym goerr = string
type_synonym strmap = "string \<Rightarrow> string option"

section \<open>Numbers\<close>

definition go_round :: "f64 \<Rightarrow> int" where
  "go_round x = (if x < 0 then - \<lfloor>- x + 1 / 2\<rfloor> else \<lfloor>x + 1 / 2\<rfloor>)"

definition go_ceil :: "f64 \<Rightarrow> int" where
  "go_ceil x = \<lceil>x\<rceil>"

definition go_trunc :: "f64 \<Rightarrow> int" where
  "go_trunc x = (if x < 0 then \<lceil>x\<rceil> else \<lfloor>x\<rfloor>)"

text \<open>Go's integer division truncates towards zero.\<close>

definition go_div :: "int \<Rightarrow> int \<Rightarrow> int" where
  "go_div a b = sgn a * sgn b * (\<bar>a\<bar> div \<bar>b\<bar>)"

definition go_mod :: "int \<Rightarrow> int \<Rightarrow> int" where
  "go_mod a b = a - b * go_div a b"

definition clampInt :: "int \<Rightarrow> int \<Rightarrow> int \<Rightarrow> int" where
  "clampInt v lo hi = (if v < lo then lo else if v > hi then hi else v)"

definition clamp01 :: "f64 \<Rightarrow> f64" where
  "clamp01 v = (if v < 0 then 0 else if v > 1 then 1 else v)"

lemma go_div_nonneg [go_num]: "0 \<le> a \<Longrightarrow> 0 < b \<Longrightarrow> go_div a b = a div b"
  by (cases "a = 0") (simp_all add: go_div_def)

lemma go_mod_nonneg [go_num]: "0 \<le> a \<Longrightarrow> 0 < b \<Longrightarrow> go_mod a b = a mod b"
  by (simp add: go_mod_def go_div_nonneg minus_mult_div_eq_mod)

lemma go_trunc_nonneg [go_num]: "0 \<le> x \<Longrightarrow> go_trunc x = \<lfloor>x\<rfloor>"
  by (simp add: go_trunc_def)

lemma go_round_nonneg [go_num]: "0 \<le> x \<Longrightarrow> go_round x = \<lfloor>x + 1 / 2\<rfloor>"
  by (simp add: go_round_def)

lemma go_round_mono: "0 \<le> x \<Longrightarrow> x \<le> y \<Longrightarrow> go_round x \<le> go_round y"
  by (simp add: go_round_nonneg floor_mono)

lemma go_round_of_int: "0 \<le> n \<Longrightarrow> go_round (of_int n) = n"
  by (simp add: go_round_nonneg floor_unique)

lemma clamp01_bounds: "0 \<le> clamp01 v" "clamp01 v \<le> 1"
  by (simp_all add: clamp01_def)

lemma clamp01_mono: "u \<le> v \<Longrightarrow> clamp01 u \<le> clamp01 v"
  by (simp add: clamp01_def)

lemma clamp01_id: "0 \<le> v \<Longrightarrow> v \<le> 1 \<Longrightarrow> clamp01 v = v"
  by (simp add: clamp01_def)

lemma clampInt_bounds: "lo \<le> hi \<Longrightarrow> lo \<le> clampInt v lo hi \<and> clampInt v lo hi \<le> hi"
  by (simp add: clampInt_def)

lemma clampInt_mono: "u \<le> v \<Longrightarrow> lo \<le> hi \<Longrightarrow> clampInt u lo hi \<le> clampInt v lo hi"
  by (simp add: clampInt_def)

section \<open>Strings\<close>

definition is_space :: "char \<Rightarrow> bool" where
  "is_space c \<longleftrightarrow> c \<in> set [CHR '' '', CHR 0x09, CHR 0x0A, CHR 0x0B, CHR 0x0C, CHR 0x0D]"

definition trim_by :: "(char \<Rightarrow> bool) \<Rightarrow> string \<Rightarrow> string" where
  "trim_by P s = rev (dropWhile P (rev (dropWhile P s)))"

definition TrimSpace :: "string \<Rightarrow> string" where
  "TrimSpace s = trim_by is_space s"

definition HasPrefix :: "string \<Rightarrow> string \<Rightarrow> bool" where
  "HasPrefix s p \<longleftrightarrow> take (length p) s = p"

definition HasSuffix :: "string \<Rightarrow> string \<Rightarrow> bool" where
  "HasSuffix s p \<longleftrightarrow> HasPrefix (rev s) (rev p)"

definition TrimPrefix :: "string \<Rightarrow> string \<Rightarrow> string" where
  "TrimPrefix s p = (if HasPrefix s p then drop (length p) s else s)"

definition TrimSuffix :: "string \<Rightarrow> string \<Rightarrow> string" where
  "TrimSuffix s p = (if HasSuffix s p then take (length s - length p) s else s)"

text \<open>\<open>CutPrefix\<close> and \<open>CutSuffix\<close> return the rest and whether the affix was there.\<close>

definition CutPrefix :: "string \<Rightarrow> string \<Rightarrow> string \<times> bool" where
  "CutPrefix s p = (TrimPrefix s p, HasPrefix s p)"

definition CutSuffix :: "string \<Rightarrow> string \<Rightarrow> string \<times> bool" where
  "CutSuffix s p = (TrimSuffix s p, HasSuffix s p)"

text \<open>\<open>strings.Cut\<close> with a one-byte separator, the only kind the code uses.\<close>

definition Cut :: "string \<Rightarrow> char \<Rightarrow> string \<times> string \<times> bool" where
  "Cut s c = (case dropWhile (\<lambda>x. x \<noteq> c) s of
                [] \<Rightarrow> (s, [], False)
              | _ # rest \<Rightarrow> (takeWhile (\<lambda>x. x \<noteq> c) s, rest, True))"

fun Contains :: "string \<Rightarrow> string \<Rightarrow> bool" where
  "Contains [] p = (p = [])"
| "Contains (c # s) p = (HasPrefix (c # s) p \<or> Contains s p)"

definition go_lower :: "char \<Rightarrow> char" where
  "go_lower c = (case map_of (zip ''ABCDEFGHIJKLMNOPQRSTUVWXYZ'' ''abcdefghijklmnopqrstuvwxyz'') c of
                   Some d \<Rightarrow> d | None \<Rightarrow> c)"

definition ToLower :: "string \<Rightarrow> string" where
  "ToLower s = map go_lower s"

definition go_upper :: "char \<Rightarrow> char" where
  "go_upper c = (case map_of (zip ''abcdefghijklmnopqrstuvwxyz'' ''ABCDEFGHIJKLMNOPQRSTUVWXYZ'') c of
                   Some d \<Rightarrow> d | None \<Rightarrow> c)"

definition ToUpper :: "string \<Rightarrow> string" where
  "ToUpper s = map go_upper s"

definition map_get :: "strmap \<Rightarrow> string \<Rightarrow> string" where
  "map_get m k = (case m k of Some v \<Rightarrow> v | None \<Rightarrow> [])"

lemma dropWhile_all_false: "\<forall>c\<in>set s. \<not> P c \<Longrightarrow> dropWhile P s = s"
  by (cases s) auto

lemma TrimSpace_id [go_string]: "\<forall>c\<in>set s. \<not> is_space c \<Longrightarrow> TrimSpace s = s"
  by (simp add: TrimSpace_def trim_by_def dropWhile_all_false)

lemma HasPrefix_append [simp]: "HasPrefix (p @ s) p"
  by (simp add: HasPrefix_def)

lemma HasSuffix_append [simp]: "HasSuffix (s @ p) p"
  by (simp add: HasSuffix_def)

lemma HasPrefix_iff: "HasPrefix s p \<longleftrightarrow> (\<exists>t. s = p @ t)"
  unfolding HasPrefix_def by (metis append_eq_conv_conj append_take_drop_id)

lemma HasSuffix_iff: "HasSuffix s p \<longleftrightarrow> (\<exists>t. s = t @ p)"
  unfolding HasSuffix_def HasPrefix_iff by (metis rev_append rev_rev_ident)

lemma TrimPrefix_append [simp]: "TrimPrefix (p @ s) p = s"
  by (simp add: TrimPrefix_def)

lemma TrimSuffix_append [simp]: "TrimSuffix (s @ p) p = s"
  by (simp add: TrimSuffix_def)

lemma dropWhile_upto: "c \<notin> set s \<Longrightarrow> dropWhile (\<lambda>x. x \<noteq> c) (s @ c # t) = c # t"
  by (induction s) auto

lemma takeWhile_upto: "c \<notin> set s \<Longrightarrow> takeWhile (\<lambda>x. x \<noteq> c) (s @ c # t) = s"
  by (induction s) auto

lemma dropWhile_none: "c \<notin> set s \<Longrightarrow> dropWhile (\<lambda>x. x \<noteq> c) s = []"
  by (induction s) auto

lemma Cut_append [simp]: "c \<notin> set s \<Longrightarrow> Cut (s @ c # t) c = (s, t, True)"
  by (simp add: Cut_def dropWhile_upto takeWhile_upto)

lemma Cut_none [simp]: "c \<notin> set s \<Longrightarrow> Cut s c = (s, [], False)"
  by (simp add: Cut_def dropWhile_none)

text \<open>The first of the values that is not blank, trimmed (three packages define it).\<close>

fun firstNonEmpty :: "string list \<Rightarrow> string" where
  "firstNonEmpty [] = []"
| "firstNonEmpty (v # vs) = (if TrimSpace v \<noteq> [] then TrimSpace v else firstNonEmpty vs)"

text \<open>
  \<open>strings.Trim\<close> with a cutset, \<open>strings.Fields\<close>, \<open>strings.Split\<close> at one byte,
  \<open>strings.Join\<close>, \<open>strings.Count\<close> of one byte and \<open>strings.EqualFold\<close>.
\<close>

definition Trim :: "string \<Rightarrow> string \<Rightarrow> string" where
  "Trim s cutset = trim_by (\<lambda>c. c \<in> set cutset) s"

fun Split :: "string \<Rightarrow> char \<Rightarrow> string list" where
  "Split [] sep = [[]]"
| "Split (c # s) sep =
     (if c = sep then [] # Split s sep
      else case Split s sep of [] \<Rightarrow> [[c]] | w # ws \<Rightarrow> (c # w) # ws)"

fun words_from :: "string \<Rightarrow> string \<Rightarrow> string list" where
  "words_from w [] = (if w = [] then [] else [rev w])"
| "words_from w (c # s) =
     (if is_space c then (if w = [] then words_from [] s else rev w # words_from [] s)
      else words_from (c # w) s)"

definition Fields :: "string \<Rightarrow> string list" where
  "Fields s = words_from [] s"

text \<open>\<open>strings.FieldsFunc\<close>: the maximal runs of characters that do not satisfy the predicate.\<close>

fun fieldsFrom :: "(char \<Rightarrow> bool) \<Rightarrow> string \<Rightarrow> string \<Rightarrow> string list" where
  "fieldsFrom sep cur [] = (if cur = [] then [] else [cur])"
| "fieldsFrom sep cur (c # s) =
     (if sep c then (if cur = [] then fieldsFrom sep [] s else cur # fieldsFrom sep [] s) else fieldsFrom sep (cur @ [c]) s)"

definition FieldsFunc :: "string \<Rightarrow> (char \<Rightarrow> bool) \<Rightarrow> string list" where
  "FieldsFunc s sep = fieldsFrom sep [] s"

fun Join :: "string list \<Rightarrow> string \<Rightarrow> string" where
  "Join [] sep = []"
| "Join [w] sep = w"
| "Join (w # v # ws) sep = w @ sep @ Join (v # ws) sep"

definition EqualFold :: "string \<Rightarrow> string \<Rightarrow> bool" where
  "EqualFold s t \<longleftrightarrow> ToLower s = ToLower t"

lemma trim_by_set: "set (trim_by P s) \<subseteq> set s"
  unfolding trim_by_def by (metis set_dropWhileD set_rev subsetI)

lemma trim_by_ends:
  assumes "trim_by P s \<noteq> []"
  shows "\<not> P (hd (trim_by P s))" and "\<not> P (last (trim_by P s))"
proof -
  define t where "t = dropWhile P s"
  have tr: "trim_by P s = rev (dropWhile P (rev t))" by (simp add: trim_by_def t_def)
  have ne: "dropWhile P (rev t) \<noteq> []" using assms tr by simp
  then show "\<not> P (last (trim_by P s))"
    using hd_dropWhile [of P "rev t"] tr by (simp add: last_rev)
  have "t \<noteq> []" using ne by auto
  then have h: "\<not> P (hd t)" using hd_dropWhile [of P s] by (simp add: t_def)
  obtain u where "rev t = u @ dropWhile P (rev t)" by (metis takeWhile_dropWhile_id)
  then have "t = trim_by P s @ rev u" using tr by (metis rev_append rev_rev_ident)
  then show "\<not> P (hd (trim_by P s))" using h assms by (metis hd_append2)
qed

lemma trim_by_id:
  assumes "s = [] \<or> (\<not> P (hd s) \<and> \<not> P (last s))"
  shows "trim_by P s = s"
proof (cases s)
  case (Cons c s')
  then have 1: "dropWhile P s = s" using assms by auto
  obtain d r where r: "rev s = d # r" using Cons by (metis list.exhaust rev_is_Nil_conv list.distinct(1))
  then have "\<not> P d" using assms Cons by (metis hd_rev list.sel(1) list.distinct(1))
  then have "dropWhile P (rev s) = rev s" using r by simp
  then show ?thesis using 1 by (simp add: trim_by_def)
qed (simp add: trim_by_def)

abbreviation upperLetters :: string where
  "upperLetters \<equiv> ''ABCDEFGHIJKLMNOPQRSTUVWXYZ''"

lemma go_lower_upper:
  "list_all (\<lambda>c. \<not> is_space c \<and> \<not> is_space (go_lower c) \<and> go_lower (go_lower c) = go_lower c) upperLetters"
  by code_simp

lemma go_lower_other: "c \<notin> set upperLetters \<Longrightarrow> go_lower c = c"
  unfolding go_lower_def by (auto split: option.split dest!: map_of_SomeD set_zip_leftD simp del: zip_Cons_Cons)

lemma is_space_go_lower: "is_space (go_lower c) = is_space c"
  using go_lower_upper go_lower_other [of c] unfolding list_all_iff by metis

lemma ToLower_idem: "ToLower (ToLower s) = ToLower s"
proof -
  have "go_lower (go_lower c) = go_lower c" for c
    using go_lower_upper go_lower_other [of c] unfolding list_all_iff by metis
  then show ?thesis by (simp add: ToLower_def)
qed

lemma TrimSpace_ToLower_TrimSpace: "TrimSpace (ToLower (TrimSpace s)) = ToLower (TrimSpace s)"
  using trim_by_ends [of is_space s]
  unfolding TrimSpace_def by (intro trim_by_id) (auto simp: ToLower_def hd_map last_map is_space_go_lower)

text \<open>\<open>strconv.Atoi\<close> and \<open>strconv.Itoa\<close>: an optional sign, decimal digits, 64-bit range.\<close>

definition digit_of :: "char \<Rightarrow> nat option" where
  "digit_of c = map_of (zip ''0123456789'' [0, 1, 2, 3, 4, 5, 6, 7, 8, 9]) c"

definition digit_char :: "nat \<Rightarrow> char" where
  "digit_char n = (''0123456789'' ! (n mod 10))"

fun digits_val :: "nat \<Rightarrow> string \<Rightarrow> nat option" where
  "digits_val acc [] = Some acc"
| "digits_val acc (c # cs) = (case digit_of c of None \<Rightarrow> None | Some d \<Rightarrow> digits_val (acc * 10 + d) cs)"

definition int64_ok :: "int \<Rightarrow> bool" where
  "int64_ok v \<longleftrightarrow> - (2 ^ 63) \<le> v \<and> v < 2 ^ 63"

definition Atoi :: "string \<Rightarrow> int option" where
  "Atoi s = (case s of
      [] \<Rightarrow> None
    | c # cs \<Rightarrow>
        (let body = (if c = CHR ''-'' \<or> c = CHR ''+'' then cs else s)
         in if body = [] then None
            else case digits_val 0 body of
                   None \<Rightarrow> None
                 | Some v \<Rightarrow>
                     (let i = (if c = CHR ''-'' then - int v else int v)
                      in if int64_ok i then Some i else None)))"

fun nat_str :: "nat \<Rightarrow> string" where
  "nat_str n = (if n < 10 then [digit_char n] else nat_str (n div 10) @ [digit_char n])"

declare nat_str.simps [simp del]

definition Itoa :: "int \<Rightarrow> string" where
  "Itoa i = (if i < 0 then CHR ''-'' # nat_str (nat (- i)) else nat_str (nat i))"

lemma lt10_cases: "n < 10 \<Longrightarrow> n = 0 \<or> n = 1 \<or> n = 2 \<or> n = 3 \<or> n = 4 \<or> n = 5 \<or> n = 6 \<or> n = 7 \<or> n = 8 \<or> n = (9::nat)"
  by arith

lemma digit_of_char: "digit_of (digit_char n) = Some (n mod 10)"
  using lt10_cases [of "n mod 10"] by (auto simp: digit_of_def digit_char_def)

lemma digits_val_append:
  "digits_val a (xs @ ys) = (case digits_val a xs of None \<Rightarrow> None | Some b \<Rightarrow> digits_val b ys)"
  by (induction xs arbitrary: a) (auto split: option.splits)

lemma digits_val_nat_str: "digits_val 0 (nat_str n) = Some n"
proof (induction n rule: nat_str.induct)
  case (1 n)
  then show ?case
    by (cases "n < 10") (simp_all add: nat_str.simps [of n] digits_val_append digit_of_char)
qed

lemma digit_char_in: "digit_char n \<in> set ''0123456789''"
  using lt10_cases [of "n mod 10"] by (auto simp: digit_char_def)

lemma nat_str_digits: "set (nat_str n) \<subseteq> set ''0123456789''"
proof (induction n rule: nat_str.induct)
  case (1 n)
  then show ?case
    using digit_char_in [of n] by (cases "n < 10") (simp_all add: nat_str.simps [of n])
qed

lemma nat_str_nonempty [simp]: "nat_str n \<noteq> []"
  by (simp add: nat_str.simps [of n])

lemma nat_str_Cons:
  assumes "nat_str n = c # cs"
  shows "c \<noteq> CHR ''-'' \<and> c \<noteq> CHR ''+''"
proof -
  have "c \<in> set ''0123456789''" using assms nat_str_digits [of n] by simp
  then show ?thesis by auto
qed

lemma Atoi_Itoa: "int64_ok i \<Longrightarrow> Atoi (Itoa i) = Some i"
proof (cases "i < 0")
  case True
  assume "int64_ok i"
  with True show ?thesis
    using digits_val_nat_str [of "nat (- i)"] by (simp add: Atoi_def Itoa_def)
next
  case False
  assume ok: "int64_ok i"
  obtain c cs where s: "nat_str (nat i) = c # cs" by (metis list.exhaust nat_str_nonempty)
  with nat_str_Cons [OF s] digits_val_nat_str [of "nat i"] False ok show ?thesis
    by (simp add: Atoi_def Itoa_def)
qed

lemma Atoi_int64: "Atoi s = Some i \<Longrightarrow> int64_ok i"
  by (auto simp: Atoi_def Let_def split: list.splits option.splits if_splits)

text \<open>The value \<open>strconv.Atoi\<close> returns beside its error: 0 for a syntax error, the nearest
  bound for a number out of range.\<close>

definition AtoiValue :: "string \<Rightarrow> int" where
  "AtoiValue s =
     (case Atoi s of
        Some v \<Rightarrow> v
      | None \<Rightarrow>
          (case s of
             [] \<Rightarrow> 0
           | c # cs \<Rightarrow>
               (let body = (if c = CHR ''-'' \<or> c = CHR ''+'' then cs else s)
                in if body = [] \<or> digits_val 0 body = None then 0
                   else if c = CHR ''-'' then - (2 ^ 63) else 2 ^ 63 - 1)))"

lemma AtoiValue_Some: "Atoi s = Some v \<Longrightarrow> AtoiValue s = v"
  by (simp add: AtoiValue_def)

text \<open>\<open>filepath.Base\<close>, \<open>filepath.Dir\<close> and \<open>filepath.Join\<close> on clean paths.\<close>

definition pathBase :: "string \<Rightarrow> string" where
  "pathBase p = (if p = [] then ''.'' else rev (takeWhile (\<lambda>c. c \<noteq> CHR ''/'') (rev p)))"

definition pathDir :: "string \<Rightarrow> string" where
  "pathDir p = (let d = rev (drop 1 (dropWhile (\<lambda>c. c \<noteq> CHR ''/'') (rev p)))
                in if d = [] then (if HasPrefix p ''/'' then ''/'' else ''.'') else d)"

definition pathJoin :: "string \<Rightarrow> string \<Rightarrow> string" where
  "pathJoin a b = a @ ''/'' @ b"

lemma words_from_word:
  "\<forall>c\<in>set s. \<not> is_space c \<Longrightarrow> words_from w (s @ t) = words_from (rev s @ w) t"
  by (induction s arbitrary: w) auto

definition plainWord :: "string \<Rightarrow> bool" where
  "plainWord w \<longleftrightarrow> w \<noteq> [] \<and> (\<forall>c\<in>set w. \<not> is_space c)"

lemma Fields_Join:
  assumes "list_all plainWord ws"
  shows "Fields (Join ws '' '') = ws"
  using assms
proof (induction ws "'' ''" rule: Join.induct)
  case (2 w)
  then show ?case using words_from_word [of w "[]" "[]"] by (simp add: Fields_def plainWord_def)
next
  case (3 w v ws)
  have "is_space (CHR '' '')" by (simp add: is_space_def)
  then show ?case
    using 3 words_from_word [of w "[]"] by (simp add: Fields_def plainWord_def)
qed (simp add: Fields_def)

lemma plainWord_append: "plainWord a \<Longrightarrow> plainWord b \<Longrightarrow> plainWord (a @ b)"
  by (auto simp: plainWord_def)

lemma Itoa_chars: "set (Itoa i) \<subseteq> set ''-0123456789''"
proof -
  define S where "S = set ''-0123456789''"
  have sub: "set ''0123456789'' \<subseteq> S" "CHR ''-'' \<in> S" unfolding S_def by code_simp+
  have "set (nat_str n) \<subseteq> S" for n by (rule subset_trans [OF nat_str_digits sub(1)])
  then have "set (Itoa i) \<subseteq> S" unfolding Itoa_def using sub(2) by simp
  then show ?thesis unfolding S_def .
qed

lemma itoa_char_facts: "list_all (\<lambda>c. \<not> is_space c \<and> c \<noteq> CHR '','' \<and> c \<noteq> CHR ''/'' \<and> c \<noteq> CHR ''='') ''-0123456789''"
  by code_simp

lemma Itoa_char: "c \<in> set (Itoa i) \<Longrightarrow> \<not> is_space c \<and> c \<noteq> CHR '','' \<and> c \<noteq> CHR ''/'' \<and> c \<noteq> CHR ''=''"
  using Itoa_chars [of i] itoa_char_facts unfolding list_all_iff by blast

lemma plainWord_Itoa: "plainWord (Itoa i)"
  using Itoa_char by (auto simp: plainWord_def) (simp add: Itoa_def split: if_splits)

lemma nat_str_inj: "nat_str m = nat_str n \<Longrightarrow> m = n"
  by (metis digits_val_nat_str option.inject)

lemma Itoa_inj: "Itoa i = Itoa j \<Longrightarrow> i = j"
proof -
  have "CHR ''-'' \<noteq> hd (nat_str n)" for n
    using nat_str_Cons [of n] by (cases "nat_str n") auto
  then show "Itoa i = Itoa j \<Longrightarrow> i = j"
    unfolding Itoa_def by (auto split: if_splits dest!: nat_str_inj) (metis list.sel(1))+
qed

lemma pathBase_file: "CHR ''/'' \<notin> set f \<Longrightarrow> f \<noteq> [] \<Longrightarrow> pathBase (d @ CHR ''/'' # f) = f"
proof -
  assume f: "CHR ''/'' \<notin> set f"
  have "takeWhile (\<lambda>c. c \<noteq> CHR ''/'') (rev f @ CHR ''/'' # rev d) = rev f"
    using f by (intro takeWhile_upto) simp
  then show ?thesis by (simp add: pathBase_def)
qed

section \<open>Sorting\<close>

fun go_insert :: "('a \<Rightarrow> 'a \<Rightarrow> bool) \<Rightarrow> 'a \<Rightarrow> 'a list \<Rightarrow> 'a list" where
  "go_insert lt x [] = [x]"
| "go_insert lt x (y # ys) = (if lt y x then y # go_insert lt x ys else x # y # ys)"

definition go_sort :: "('a \<Rightarrow> 'a \<Rightarrow> bool) \<Rightarrow> 'a list \<Rightarrow> 'a list" where
  "go_sort lt xs = foldr (go_insert lt) xs []"

lemma go_insert_key:
  fixes f :: "'a \<Rightarrow> 'k::linorder"
  assumes "\<And>a b. lt a b \<longleftrightarrow> f a < f b"
  shows "go_insert lt x ys = insort_key f x ys"
  by (induction ys) (auto simp: assms)

text \<open>A sort by a \<open>less\<close> that compares keys is the library's sort by that key.\<close>

lemma go_sort_key:
  fixes f :: "'a \<Rightarrow> 'k::linorder"
  assumes "\<And>a b. lt a b \<longleftrightarrow> f a < f b"
  shows "go_sort lt xs = sort_key f xs"
  unfolding go_sort_def sort_key_def
  by (induction xs) (auto simp: go_insert_key[OF assms])

lemma mset_go_insert: "mset (go_insert lt x ys) = add_mset x (mset ys)"
  by (induction ys) auto

lemma mset_go_sort [simp]: "mset (go_sort lt xs) = mset xs"
  unfolding go_sort_def by (induction xs) (auto simp: mset_go_insert)

lemma set_go_sort [simp]: "set (go_sort lt xs) = set xs"
  by (metis mset_go_sort set_mset_mset)

lemma length_go_sort [simp]: "length (go_sort lt xs) = length xs"
  by (metis mset_go_sort size_mset)

lemma distinct_go_sort [simp]: "distinct (go_sort lt xs) = distinct xs"
  by (metis mset_go_sort mset_eq_imp_distinct_iff)

text \<open>Two lists with the same elements, ranked by an injective key, sort to the same list.\<close>

lemma sort_key_cong_mset:
  fixes f :: "'a \<Rightarrow> 'k::linorder"
  assumes "mset xs = mset ys" and "inj_on f (set xs)"
  shows "sort_key f xs = sort_key f ys"
  using assms by (intro sort_key_inj_key_eq) auto

text \<open>Ranking by a flag first splits the list at the flag.\<close>

lemma sort_key_flag:
  fixes xs :: "'a::linorder list"
  shows "sort_key (\<lambda>x. (\<not> P x, x)) xs = sort (filter P xs) @ sort (filter (\<lambda>x. \<not> P x) xs)"
proof (rule sort_key_inj_key_eq)
  show "mset xs = mset (sort (filter P xs) @ sort (filter (\<lambda>x. \<not> P x) xs))"
    by (induction xs) auto
  show "inj_on (\<lambda>x. (\<not> P x, x)) (set xs)" by (rule inj_onI) simp
  have s: "sorted (map (\<lambda>x. (b, x)) (sort ys))" for b :: bool and ys :: "'a list"
    by (rule sorted_wrt_map_mono [of "(\<le>)"]) (simp_all add: sorted_sort)
  have 1: "map (\<lambda>x. (\<not> P x, x)) (sort (filter P xs)) = map (\<lambda>x. (False, x)) (sort (filter P xs))"
    and 2: "map (\<lambda>x. (\<not> P x, x)) (sort (filter (\<lambda>x. \<not> P x) xs))
            = map (\<lambda>x. (True, x)) (sort (filter (\<lambda>x. \<not> P x) xs))"
    by auto
  show "sorted (map (\<lambda>x. (\<not> P x, x)) (sort (filter P xs) @ sort (filter (\<lambda>x. \<not> P x) xs)))"
    unfolding map_append 1 2 sorted_append by (auto simp: s)
qed

end
