(* ===== verification/Joulie_Api.thy ===== *)
theory Joulie_Api
  imports Go_Prelude
begin

text \<open>
  The shared types and helpers of \<^verbatim>\<open>pkg/api\<close>: the in-memory structs the components
  exchange (\<^verbatim>\<open>types.go\<close>, \<^verbatim>\<open>governor.go\<close>), the object name of a node, and the classification
  of GPU extended resources (\<^verbatim>\<open>gpuresources.go\<close>). Pointers are options; a \<open>time.Time\<close> is
  \<open>None\<close> for the zero time and otherwise the nanoseconds since the epoch.
\<close>

type_synonym gotime = "int option"

section \<open>Hardware facts\<close>

record CPULandmarks =
  cl_minFreqMHz :: f64
  cl_nominalFreqMHz :: f64
  cl_maxBoostMHz :: f64
  cl_lowestNonlinearFreqMHz :: f64

record CPUCapRange =
  ccr_type :: string
  ccr_minWattsPerSocket :: f64
  ccr_maxWattsPerSocket :: f64

record NodeHardwareCPU =
  hc_vendor :: string
  hc_rawModel :: string
  hc_model :: string
  hc_sockets :: int
  hc_coresPerSocket :: int
  hc_totalCores :: int
  hc_driverFamily :: string
  hc_capRange :: CPUCapRange
  hc_landmarks :: CPULandmarks
  hc_controlAvailable :: bool
  hc_telemetryAvailable :: bool
  hc_warnings :: "string list"

record GPUCapRange =
  gcr_minWatts :: f64
  gcr_maxWatts :: f64
  gcr_defaultWatts :: f64

record GPUSlicing =
  gs_supported :: bool
  gs_modes :: "string list"

record NodeHardwareGPU =
  hg_present :: bool
  hg_vendor :: string
  hg_rawModel :: string
  hg_model :: string
  hg_count :: int
  hg_powerDomains :: int
  hg_capRange :: GPUCapRange
  hg_currentCapWatts :: f64
  hg_slicing :: GPUSlicing
  hg_controlAvailable :: bool
  hg_telemetryAvailable :: bool
  hg_warnings :: "string list"

section \<open>Twin spec and status\<close>

record CPUGovernorIntent =
  cgi_preset :: string
  cgi_boost :: string

record GPUGovernorIntent =
  ggi_preset :: string
  ggi_ceilingPctOfMax :: "f64 option"

record CapState =
  cs_cpuPct :: f64
  cs_gpuPct :: f64

record PowerMeasurement =
  pm_source :: string
  pm_measuredNodePowerW :: f64
  pm_cpuCappedPowerW :: f64
  pm_gpuCappedPowerW :: f64
  pm_nodeCappedPowerW :: f64
  pm_cpuTdpW :: f64
  pm_gpuTdpW :: f64
  pm_nodeTdpW :: f64
  pm_powerTrendWPerMin :: f64

record ControlResult =
  cr_backend :: string
  cr_result :: string
  cr_message :: string
  cr_applied :: string
  cr_updatedAt :: string

record ControlStatus =
  ctl_cpu :: "ControlResult option"
  ctl_gpu :: "ControlResult option"
  ctl_cpuGovernor :: "ControlResult option"
  ctl_gpuGovernor :: "ControlResult option"

text \<open>\<open>NodeTwinStatus\<close> without its conditions, which the API server library owns.\<close>

record NodeTwinStatus =
  ts_schedulableClass :: string
  ts_powerMeasurement :: "PowerMeasurement option"
  ts_headroomScore :: f64
  ts_coolingStressScore :: f64
  ts_psuStressScore :: f64
  ts_effectiveCapState :: CapState
  ts_estimatedPUE :: f64
  ts_controlStatus :: "ControlStatus option"
  ts_lastUpdated :: gotime

abbreviation CapResultApplied :: string where "CapResultApplied \<equiv> ''applied''"
abbreviation CapResultBlocked :: string where "CapResultBlocked \<equiv> ''blocked''"
abbreviation CapResultError :: string where "CapResultError \<equiv> ''error''"
abbreviation CapResultNone :: string where "CapResultNone \<equiv> ''none''"

section \<open>Object names\<close>

definition nameChars :: string where
  "nameChars = ''abcdefghijklmnopqrstuvwxyz0123456789-''"

definition ObjectNameForNode :: "string \<Rightarrow> string" where
  "ObjectNameForNode nodeName =
     Trim (map (\<lambda>r. if r \<in> set nameChars then r else CHR ''-'') (ToLower (TrimSpace nodeName))) ''-''"

section \<open>GPU resources\<close>

abbreviation GPUResourceWhole :: string where "GPUResourceWhole \<equiv> ''whole''"
abbreviation GPUResourcePartition :: string where "GPUResourcePartition \<equiv> ''partition''"
abbreviation GPUResourceShared :: string where "GPUResourceShared \<equiv> ''shared''"

definition migSlicesPerGPU :: int where
  "migSlicesPerGPU = 7"

definition amdComputePartitions :: "string \<Rightarrow> int" where
  "amdComputePartitions m = (case map_of [(''spx'', 1), (''dpx'', 2), (''tpx'', 3), (''qpx'', 4), (''cpx'', 8)] m of
                               Some n \<Rightarrow> n | None \<Rightarrow> 0)"

definition amdPartitionsPerGPU :: "string \<Rightarrow> int" where
  "amdPartitionsPerGPU name =
     (case CutPrefix name ''amd.com/'' of (rest, ok) \<Rightarrow>
        if \<not> ok then 0
        else case Cut rest CHR ''_'' of (compute, memory, ok) \<Rightarrow>
          if \<not> ok then 0
          else case CutPrefix memory ''nps'' of (nps, ok) \<Rightarrow>
            if \<not> ok \<or> nps = [] \<or> Trim nps ''0123456789'' \<noteq> [] then 0
            else amdComputePartitions compute)"

definition positiveAtoi :: "string \<Rightarrow> int option" where
  "positiveAtoi s = (case Atoi s of Some v \<Rightarrow> if v > 0 then Some v else None | None \<Rightarrow> None)"

definition migGSlices :: "string \<Rightarrow> int" where
  "migGSlices first =
     (case CutSuffix first ''g'' of (g, ok) \<Rightarrow>
        if ok then (case positiveAtoi g of Some v \<Rightarrow> v | None \<Rightarrow> 1) else 1)"

definition migComputeSlices :: "string \<Rightarrow> int" where
  "migComputeSlices profile =
     (case Cut profile CHR ''.'' of (first, rest, _) \<Rightarrow>
        case CutSuffix first ''c'' of (c, ok) \<Rightarrow>
          if ok then (case positiveAtoi c of
                        Some v \<Rightarrow> v
                      | None \<Rightarrow> migGSlices (fst (Cut rest CHR ''.'')))
          else migGSlices first)"

definition gpuBaseKind :: "string \<Rightarrow> string" where
  "gpuBaseKind base =
     (if base = ''gpu.intel.com/i915'' \<or> base = ''gpu.intel.com/xe'' then GPUResourceWhole
      else if HasSuffix base ''/gpu'' \<and> \<not> HasPrefix base ''/'' then GPUResourceWhole
      else if HasPrefix base ''nvidia.com/mig-'' \<and> length base > length ''nvidia.com/mig-'' then GPUResourcePartition
      else if amdPartitionsPerGPU base > 0 then GPUResourcePartition
      else [])"

definition GPUResourceKind :: "string \<Rightarrow> string" where
  "GPUResourceKind name =
     (case CutSuffix (ToLower (TrimSpace name)) ''.shared'' of (base, renamed) \<Rightarrow>
        (let kind = gpuBaseKind base
         in if kind \<noteq> [] \<and> renamed then GPUResourceShared else kind))"

definition migShare :: "string \<Rightarrow> f64" where
  "migShare profile =
     (let slices = migComputeSlices profile;
          slices = (if slices > migSlicesPerGPU then migSlicesPerGPU else slices)
      in real_of_int slices / real_of_int migSlicesPerGPU)"

definition GPUResourceShare :: "string \<Rightarrow> f64" where
  "GPUResourceShare name =
     (let base = fst (CutSuffix (ToLower (TrimSpace name)) ''.shared'');
          kind = GPUResourceKind base
      in if kind = GPUResourceWhole then 1
         else if kind = GPUResourcePartition
         then (let n = amdPartitionsPerGPU base
               in if n > 0 then 1 / real_of_int n
                  else migShare (TrimPrefix base ''nvidia.com/mig-''))
         else 0)"

abbreviation LabelHWGPUCount :: string where "LabelHWGPUCount \<equiv> ''joulie.io/hw.gpu-count''"
abbreviation LabelGFDGPUCount :: string where "LabelGFDGPUCount \<equiv> ''nvidia.com/gpu.count''"
abbreviation LabelGFDMIGStrategy :: string where "LabelGFDMIGStrategy \<equiv> ''nvidia.com/mig.strategy''"
abbreviation LabelGFDGPUProduct :: string where "LabelGFDGPUProduct \<equiv> ''nvidia.com/gpu.product''"
abbreviation LabelIntelGPUDeviceCount :: string where "LabelIntelGPUDeviceCount \<equiv> ''gpu.intel.com/device.count''"

text \<open>\<open>None\<close> when no label states a positive count.\<close>

definition GPUCountFromLabels :: "strmap \<Rightarrow> int option" where
  "GPUCountFromLabels labels =
     (case positiveAtoi (TrimSpace (map_get labels LabelHWGPUCount)) of
        Some v \<Rightarrow> Some v
      | None \<Rightarrow>
          if EqualFold (TrimSpace (map_get labels LabelGFDMIGStrategy)) ''single'' \<and>
             Contains (map_get labels LabelGFDGPUProduct) ''-MIG-'' then None
          else case positiveAtoi (TrimSpace (map_get labels LabelGFDGPUCount)) of
                 Some v \<Rightarrow> Some v
               | None \<Rightarrow> positiveAtoi (TrimSpace (map_get labels LabelIntelGPUDeviceCount)))"

definition GPUPowerDomains :: "int \<Rightarrow> int \<Rightarrow> int" where
  "GPUPowerDomains cnt powerDomains =
     (if powerDomains > 0 \<and> powerDomains < cnt then powerDomains else cnt)"

text \<open>\<open>strings.LastIndex\<close> of a substring: the last position where it starts.\<close>

definition LastIndex :: "string \<Rightarrow> string \<Rightarrow> nat option" where
  "LastIndex s p = (case filter (\<lambda>i. HasPrefix (drop i s) p) (rev [0..<Suc (length s)]) of
                      [] \<Rightarrow> None | i # _ \<Rightarrow> Some i)"

definition GPUProductBase :: "string \<Rightarrow> string" where
  "GPUProductBase product =
     (let p = TrimSuffix (TrimSpace product) ''-SHARED''
      in case LastIndex p ''-MIG-'' of
           Some i \<Rightarrow> if i > 0 then take i p else p
         | None \<Rightarrow> p)"

section \<open>Lemmas\<close>

lemma nameChars_plain: "list_all (\<lambda>c. go_lower c = c \<and> \<not> is_space c) nameChars"
  by code_simp

lemma dash_nameChars: "CHR ''-'' \<in> set nameChars"
  by (simp add: nameChars_def)

lemma ObjectName_chars: "set (ObjectNameForNode n) \<subseteq> set nameChars"
  unfolding ObjectNameForNode_def Trim_def using trim_by_set dash_nameChars by fastforce

lemma ObjectName_fixed:
  assumes "set s \<subseteq> set nameChars" and "s = [] \<or> (hd s \<noteq> CHR ''-'' \<and> last s \<noteq> CHR ''-'')"
  shows "ObjectNameForNode s = s"
proof -
  have "TrimSpace s = s" using assms(1) nameChars_plain by (intro TrimSpace_id) (auto simp: list_all_iff)
  moreover have "ToLower s = s" unfolding ToLower_def using assms(1) nameChars_plain by (intro map_idI) (auto simp: list_all_iff)
  moreover have "map (\<lambda>r. if r \<in> set nameChars then r else CHR ''-'') s = s"
    using assms(1) by (intro map_idI) auto
  ultimately show ?thesis using assms(2) by (simp add: ObjectNameForNode_def Trim_def trim_by_id)
qed

lemma positiveAtoi_pos: "positiveAtoi s = Some v \<Longrightarrow> 1 \<le> v"
  by (auto simp: positiveAtoi_def split: option.splits if_splits)

lemma migComputeSlices_pos: "1 \<le> migComputeSlices profile"
proof -
  have g: "1 \<le> migGSlices f" for f
    using positiveAtoi_pos by (auto simp: migGSlices_def split: prod.splits option.splits)
  then show ?thesis
    using positiveAtoi_pos unfolding migComputeSlices_def by (auto split: prod.splits option.splits)
qed

lemma amdComputePartitions_nonneg: "0 \<le> amdComputePartitions m"
  by (simp add: amdComputePartitions_def)

lemma migShare_bounds: "0 < migShare p" "0 \<le> migShare p" "migShare p \<le> 1"
  using migComputeSlices_pos [of p] by (auto simp: migShare_def migSlicesPerGPU_def Let_def)

lemma gpuBaseKind_cases: "gpuBaseKind b \<noteq> GPUResourceShared"
  by (simp add: gpuBaseKind_def)

section \<open>Properties\<close>

text \<open>The object name of a node holds only lower-case letters, digits and dashes, neither
  starts nor ends with a dash, and is its own object name, so the agent and the controller
  manager agree on it however often it is applied.\<close>

theorem ObjectNameForNode_canonical:
  "set (ObjectNameForNode n) \<subseteq> set ''abcdefghijklmnopqrstuvwxyz0123456789-'' \<and>
   (ObjectNameForNode n = [] \<or> (hd (ObjectNameForNode n) \<noteq> CHR ''-'' \<and> last (ObjectNameForNode n) \<noteq> CHR ''-'')) \<and>
   ObjectNameForNode (ObjectNameForNode n) = ObjectNameForNode n"
proof (intro conjI)
  show 1: "set (ObjectNameForNode n) \<subseteq> set ''abcdefghijklmnopqrstuvwxyz0123456789-''"
    using ObjectName_chars [of n] unfolding nameChars_def .
  show 2: "ObjectNameForNode n = [] \<or> (hd (ObjectNameForNode n) \<noteq> CHR ''-'' \<and> last (ObjectNameForNode n) \<noteq> CHR ''-'')"
    using trim_by_ends unfolding ObjectNameForNode_def Trim_def by fastforce
  show "ObjectNameForNode (ObjectNameForNode n) = ObjectNameForNode n"
    using 2 ObjectName_chars by (intro ObjectName_fixed)
qed

text \<open>One unit of a GPU resource stands for at most one GPU and never a negative share.
  A whole GPU that no plugin renamed counts one, and a partition more than nothing.\<close>

theorem GPUResourceShare_bounds:
  "0 \<le> GPUResourceShare name \<and> GPUResourceShare name \<le> 1 \<and>
   (\<not> HasSuffix (ToLower (TrimSpace name)) ''.shared'' \<longrightarrow>
      (GPUResourceKind name = GPUResourceWhole \<longrightarrow> GPUResourceShare name = 1) \<and>
      (GPUResourceKind name = GPUResourcePartition \<longrightarrow> 0 < GPUResourceShare name) \<and>
      (GPUResourceKind name = [] \<longrightarrow> GPUResourceShare name = 0))"
  by (auto simp: migShare_bounds GPUResourceShare_def GPUResourceKind_def Let_def CutSuffix_def TrimSuffix_def
      ToLower_idem TrimSpace_ToLower_TrimSpace gpuBaseKind_cases)

theorem GPUResourceShare_bounds_witness:
  "GPUResourceKind ''nvidia.com/mig-3g.47gb'' = GPUResourcePartition \<and> 0 < GPUResourceShare ''nvidia.com/mig-3g.47gb''"
proof -
  have "GPUResourceKind ''nvidia.com/mig-3g.47gb'' = GPUResourcePartition"
    and "\<not> HasSuffix (ToLower (TrimSpace ''nvidia.com/mig-3g.47gb'')) ''.shared''"
    by code_simp+
  then show ?thesis using GPUResourceShare_bounds [of "''nvidia.com/mig-3g.47gb''"] by simp
qed

end
