(* ===== verification/Power_Policy.thy ===== *)
theory Power_Policy
  imports Joulie_Api
begin

text \<open>
  The power-profile policies of \<^verbatim>\<open>pkg/controller/policy/policy.go\<close>: which nodes stay in the
  performance profile (\<open>PerformanceSet\<close>) and the three plan builders on top of it.
  \<open>PerformanceSet\<close> splits the slots over the hardware families with the Sainte-Lague
  divisor method; the lemmas show that the split is within the family sizes, complete,
  house monotone and fair in the sense of divisor methods, and that the set is
  independent of the node order and stable when the labels follow the plan.
\<close>

section \<open>Data\<close>

record GPUCapIntent =
  gci_scope :: string
  gci_capWattsPerGPU :: "f64 option"
  gci_capPctOfMax :: "f64 option"

record NodeAssignment =
  na_nodeName :: string
  na_profile :: string
  na_capWatts :: f64
  na_cpuCapPctOfMax :: "f64 option"
  na_gpu :: "GPUCapIntent option"
  na_cpuGovernor :: "CPUGovernorIntent option"
  na_gpuGovernor :: "GPUGovernorIntent option"
  na_managedBy :: string
  na_sourceProfile :: string
  na_sourceDrain :: bool
  na_draining :: bool
  na_state :: string

record NodeHardwareInfo =
  hi_cpuModel :: string
  hi_cpuRawModel :: string
  hi_gpuModel :: string
  hi_gpuRawModel :: string
  hi_gpuCount :: int

type_synonym hwmap = "string \<Rightarrow> NodeHardwareInfo option"

abbreviation profilePerformance :: string where
  "profilePerformance \<equiv> ''performance''"

abbreviation profileEco :: string where
  "profileEco \<equiv> ''eco''"

text \<open>An assignment with the four fields a policy sets; the others hold Go's zero values.\<close>

definition mkAssignment :: "string \<Rightarrow> string \<Rightarrow> f64 \<Rightarrow> string \<Rightarrow> NodeAssignment" where
  "mkAssignment node profile cap managedBy =
     \<lparr>na_nodeName = node, na_profile = profile, na_capWatts = cap, na_cpuCapPctOfMax = None,
      na_gpu = None, na_cpuGovernor = None, na_gpuGovernor = None, na_managedBy = managedBy,
      na_sourceProfile = [], na_sourceDrain = False, na_draining = False, na_state = []\<rparr>"

lemma mkAssignment_sel [simp]:
  "na_nodeName (mkAssignment n p c m) = n" "na_profile (mkAssignment n p c m) = p"
  "na_capWatts (mkAssignment n p c m) = c" "na_draining (mkAssignment n p c m) = False"
  by (simp_all add: mkAssignment_def)

section \<open>Families and members\<close>

definition NodeFamily :: "string \<Rightarrow> hwmap \<Rightarrow> string" where
  "NodeFamily node hw = (case hw node of
      None \<Rightarrow> ''unknown:'' @ node
    | Some nh \<Rightarrow>
        if hi_gpuCount nh > 0
        then ''gpu:'' @ firstNonEmpty [hi_gpuModel nh, hi_gpuRawModel nh, ''unknown-gpu'']
        else ''cpu:'' @ firstNonEmpty [hi_cpuModel nh, hi_cpuRawModel nh, ''unknown-cpu''])"

text \<open>The loop that appends every node to the member list of its family.\<close>

fun addMembers :: "hwmap \<Rightarrow> (string \<Rightarrow> string list) \<Rightarrow> string list \<Rightarrow> (string \<Rightarrow> string list)" where
  "addMembers hw members [] = members"
| "addMembers hw members (node # nodes) =
     (let family = NodeFamily node hw
      in addMembers hw (members(family := members family @ [node])) nodes)"

text \<open>The \<open>less\<close> of the member sort: performance nodes first, then the node name.\<close>

definition memberLess :: "strmap \<Rightarrow> string \<Rightarrow> string \<Rightarrow> bool" where
  "memberLess current a b =
     (let pa = (map_get current a = profilePerformance); pb = (map_get current b = profilePerformance)
      in if pa \<noteq> pb then pa else a < b)"

definition membersOf :: "string list \<Rightarrow> hwmap \<Rightarrow> strmap \<Rightarrow> string \<Rightarrow> string list" where
  "membersOf nodes hw current family =
     go_sort (memberLess current) (addMembers hw (\<lambda>_. []) nodes family)"

text \<open>The keys of the member map, sorted.\<close>

definition familiesOf :: "string list \<Rightarrow> hwmap \<Rightarrow> string list" where
  "familiesOf nodes hw = go_sort (<) (remdups (map (\<lambda>n. NodeFamily n hw) nodes))"

section \<open>The Sainte-Lague slot loop\<close>

definition deservesNextSlot :: "nat \<Rightarrow> nat \<Rightarrow> nat \<Rightarrow> nat \<Rightarrow> bool" where
  "deservesNextSlot na qa nb qb \<longleftrightarrow> na * (2 * qb + 1) > nb * (2 * qa + 1)"

text \<open>The inner loop: \<open>next\<close> starts as the empty string, which is no family key.\<close>

fun pickNext :: "(string \<Rightarrow> nat) \<Rightarrow> (string \<Rightarrow> nat) \<Rightarrow> string \<Rightarrow> string list \<Rightarrow> string" where
  "pickNext sz slots nxt [] = nxt"
| "pickNext sz slots nxt (family # families) =
     (if slots family = sz family then pickNext sz slots nxt families
      else if nxt = [] \<or> deservesNextSlot (sz family) (slots family) (sz nxt) (slots nxt)
           then pickNext sz slots family families
           else pickNext sz slots nxt families)"

definition awardSlot :: "(string \<Rightarrow> nat) \<Rightarrow> string list \<Rightarrow> (string \<Rightarrow> nat) \<Rightarrow> (string \<Rightarrow> nat)" where
  "awardSlot sz families slots =
     (let nxt = pickNext sz slots [] families in slots(nxt := slots nxt + 1))"

text \<open>The outer loop runs \<open>left\<close> times.\<close>

fun awardSlots :: "(string \<Rightarrow> nat) \<Rightarrow> string list \<Rightarrow> nat \<Rightarrow> (string \<Rightarrow> nat) \<Rightarrow> (string \<Rightarrow> nat)" where
  "awardSlots sz families 0 slots = slots"
| "awardSlots sz families (Suc left) slots = awardSlots sz families left (awardSlot sz families slots)"

definition initSlots :: "string list \<Rightarrow> string \<Rightarrow> nat" where
  "initSlots families = (\<lambda>f. if f \<in> set families then 1 else 0)"

definition slotsFor :: "string list \<Rightarrow> hwmap \<Rightarrow> strmap \<Rightarrow> int \<Rightarrow> string \<Rightarrow> nat" where
  "slotsFor nodes hw current hpCount =
     (let families = familiesOf nodes hw;
          hp = clampInt hpCount (int (length families)) (int (length nodes))
      in awardSlots (\<lambda>f. length (membersOf nodes hw current f)) families
           (nat (hp - int (length families))) (initSlots families))"

definition PerformanceSet :: "string list \<Rightarrow> hwmap \<Rightarrow> strmap \<Rightarrow> int \<Rightarrow> string set" where
  "PerformanceSet nodes hw current hpCount =
     (let slots = slotsFor nodes hw current hpCount
      in set (concat (map (\<lambda>f. take (slots f) (membersOf nodes hw current f)) (familiesOf nodes hw))))"

section \<open>Plan builders\<close>

definition planWith :: "string list \<Rightarrow> string set \<Rightarrow> f64 \<Rightarrow> f64 \<Rightarrow> string \<Rightarrow> NodeAssignment list" where
  "planWith nodes perf perfCap ecoCap managedBy =
     map (\<lambda>node. if node \<in> perf then mkAssignment node profilePerformance perfCap managedBy
                 else mkAssignment node profileEco ecoCap managedBy) nodes"

definition staticCount :: "nat \<Rightarrow> f64 \<Rightarrow> int" where
  "staticCount n hpFrac = go_round (real n * clamp01 hpFrac)"

definition BuildStaticPlan :: "string list \<Rightarrow> hwmap \<Rightarrow> strmap \<Rightarrow> f64 \<Rightarrow> f64 \<Rightarrow> f64 \<Rightarrow> NodeAssignment list" where
  "BuildStaticPlan nodes hw current perfCap ecoCap hpFrac =
     (if nodes = [] then []
      else planWith nodes (PerformanceSet nodes hw current (staticCount (length nodes) hpFrac))
             perfCap ecoCap ''static-partition-v1'')"

definition queueCount :: "nat \<Rightarrow> f64 \<Rightarrow> int \<Rightarrow> int \<Rightarrow> int \<Rightarrow> int \<Rightarrow> int" where
  "queueCount n hpBaseFrac hpMin hpMax perfPerHPNode perfIntentPods =
     (let hpMin = (if hpMin < 0 then 0 else hpMin);
          hpMax = (if hpMax \<le> 0 then int n else hpMax);
          hpMax = (if hpMax < hpMin then hpMin else hpMax);
          perNode = (if perfPerHPNode \<le> 0 then 1 else perfPerHPNode);
          baseCount = go_round (real n * clamp01 hpBaseFrac);
          queueNeed = go_ceil (real_of_int perfIntentPods / real_of_int perNode);
          hpCount = (if queueNeed > baseCount then queueNeed else baseCount)
      in clampInt hpCount hpMin hpMax)"

definition BuildQueueAwarePlan ::
  "string list \<Rightarrow> hwmap \<Rightarrow> strmap \<Rightarrow> f64 \<Rightarrow> f64 \<Rightarrow> f64 \<Rightarrow> int \<Rightarrow> int \<Rightarrow> int \<Rightarrow> int \<Rightarrow> NodeAssignment list" where
  "BuildQueueAwarePlan nodes hw current perfCap ecoCap hpBaseFrac hpMin hpMax perfPerHPNode perfIntentPods =
     (if nodes = [] then []
      else planWith nodes
             (PerformanceSet nodes hw current
                (queueCount (length nodes) hpBaseFrac hpMin hpMax perfPerHPNode perfIntentPods))
             perfCap ecoCap ''queue-aware-v1'')"

text \<open>
  \<open>now\<close> is the Unix time in seconds; \<open>interval\<close> is a \<open>time.Duration\<close>, in nanoseconds.
  The interval in seconds is the truncated quotient.
\<close>

definition swapPhase :: "int \<Rightarrow> int \<Rightarrow> int" where
  "swapPhase interval now =
     (let intervalSec = go_div interval 1000000000;
          intervalSec = (if intervalSec \<le> 0 then 60 else intervalSec)
      in go_mod (go_div now intervalSec) 2)"

definition swapAssignment :: "int \<Rightarrow> f64 \<Rightarrow> f64 \<Rightarrow> nat \<times> string \<Rightarrow> NodeAssignment" where
  "swapAssignment phase perfCap ecoCap = (\<lambda>(i, n).
     if (i = 0 \<and> go_mod phase 2 = 0) \<or> (i = 1 \<and> go_mod phase 2 = 1)
     then mkAssignment n profileEco ecoCap ''rule-swap-v1''
     else mkAssignment n profilePerformance perfCap ''rule-swap-v1'')"

definition BuildRuleSwapPlanAt :: "string list \<Rightarrow> int \<Rightarrow> f64 \<Rightarrow> f64 \<Rightarrow> int \<Rightarrow> NodeAssignment list" where
  "BuildRuleSwapPlanAt nodes interval perfCap ecoCap now =
     (let phase = swapPhase interval now;
          plan = map (swapAssignment phase perfCap ecoCap) (enumerate 0 nodes)
      in case plan of
           [a] \<Rightarrow> if go_mod phase 2 = 0
                  then [a\<lparr>na_profile := profileEco, na_capWatts := ecoCap\<rparr>]
                  else [a\<lparr>na_profile := profilePerformance, na_capWatts := perfCap\<rparr>]
         | _ \<Rightarrow> plan)"

section \<open>The divisor loop as an interface\<close>

text \<open>
  The loop depends only on the family keys and sizes. Its contract: distinct non-empty
  keys, at least one member each. Everything the callers need of the split is proved here.
\<close>

definition quotient :: "nat \<Rightarrow> nat \<Rightarrow> real" where
  "quotient n q = real n / real (2 * q + 1)"

lemma deservesNextSlot_iff: "deservesNextSlot na qa nb qb \<longleftrightarrow> quotient nb qb < quotient na qa"
proof -
  have "quotient nb qb < quotient na qa \<longleftrightarrow> real nb * real (2 * qa + 1) < real na * real (2 * qb + 1)"
    unfolding quotient_def by (simp add: divide_less_eq less_divide_eq field_simps)
  also have "\<dots> \<longleftrightarrow> nb * (2 * qa + 1) < na * (2 * qb + 1)"
    by (metis of_nat_less_iff of_nat_mult)
  finally show ?thesis unfolding deservesNextSlot_def by simp
qed

lemma quotient_antimono: "q \<le> q' \<Longrightarrow> quotient n q' \<le> quotient n q"
  unfolding quotient_def by (intro divide_left_mono) auto

locale divisor_loop =
  fixes sz :: "string \<Rightarrow> nat" and families :: "string list"
  assumes distinct_families: "distinct families"
    and nonempty_keys: "[] \<notin> set families"
    and nonempty_families: "f \<in> set families \<Longrightarrow> 1 \<le> sz f"
begin

definition inRange :: "(string \<Rightarrow> nat) \<Rightarrow> bool" where
  "inRange s \<longleftrightarrow> (\<forall>f\<in>set families. 1 \<le> s f \<and> s f \<le> sz f) \<and> (\<forall>f. f \<notin> set families \<longrightarrow> s f = 0)"

definition total :: "(string \<Rightarrow> nat) \<Rightarrow> nat" where
  "total s = (\<Sum>f\<in>set families. s f)"

text \<open>No slot would be better placed: the divisor method's fairness condition.\<close>

definition fair :: "(string \<Rightarrow> nat) \<Rightarrow> bool" where
  "fair s \<longleftrightarrow> (\<forall>f\<in>set families. \<forall>g\<in>set families. 1 < s f \<longrightarrow> s g < sz g \<longrightarrow>
     quotient (sz g) (s g) \<le> quotient (sz f) (s f - 1))"

definition opens :: "(string \<Rightarrow> nat) \<Rightarrow> string \<Rightarrow> bool" where
  "opens s f \<longleftrightarrow> s f < sz f"

text \<open>What the inner loop returns: an open family of the largest quotient.\<close>

lemma pickNext_best:
  assumes "set fs \<subseteq> set families" and "inRange s"
    and "nxt \<noteq> [] \<Longrightarrow> nxt \<in> set families \<and> opens s nxt"
    and "nxt \<noteq> [] \<or> (\<exists>f\<in>set fs. opens s f)"
  shows "pickNext sz s nxt fs \<in> set families \<and> opens s (pickNext sz s nxt fs) \<and>
    (nxt \<noteq> [] \<longrightarrow> quotient (sz nxt) (s nxt) \<le> quotient (sz (pickNext sz s nxt fs)) (s (pickNext sz s nxt fs))) \<and>
    (\<forall>g\<in>set fs. opens s g \<longrightarrow>
      quotient (sz g) (s g) \<le> quotient (sz (pickNext sz s nxt fs)) (s (pickNext sz s nxt fs)))"
  using assms
proof (induction fs arbitrary: nxt)
  case Nil
  then show ?case by auto
next
  case (Cons f fs)
  have f: "f \<in> set families" and fne: "f \<noteq> []" and fs: "set fs \<subseteq> set families"
    using Cons.prems(1) nonempty_keys by auto
  have le: "s f \<le> sz f" using Cons.prems(2) f by (auto simp: inRange_def)
  consider (full) "s f = sz f" | (take) "opens s f" "nxt = [] \<or> deservesNextSlot (sz f) (s f) (sz nxt) (s nxt)"
    | (keep) "opens s f" "nxt \<noteq> []" "\<not> deservesNextSlot (sz f) (s f) (sz nxt) (s nxt)"
    using le by (fastforce simp: opens_def)
  then show ?case
  proof cases
    case full
    then have "\<not> opens s f" by (simp add: opens_def)
    then show ?thesis using full Cons.IH [of nxt] fs Cons.prems by auto
  next
    case take
    have eq: "pickNext sz s nxt (f # fs) = pickNext sz s f fs"
      using take by (auto simp: opens_def)
    have "nxt \<noteq> [] \<Longrightarrow> quotient (sz nxt) (s nxt) \<le> quotient (sz f) (s f)"
      using take(2) by (auto simp: deservesNextSlot_iff)
    then show ?thesis
      unfolding eq using Cons.IH [of f] fs fne f take(1) Cons.prems(2)
      by (auto intro: order_trans)
  next
    case keep
    have eq: "pickNext sz s nxt (f # fs) = pickNext sz s nxt fs"
      using keep by (auto simp: opens_def)
    have "quotient (sz f) (s f) \<le> quotient (sz nxt) (s nxt)"
      using keep(3) by (auto simp: deservesNextSlot_iff)
    then show ?thesis
      unfolding eq using Cons.IH [of nxt] fs keep(2) Cons.prems(2,3)
      by (auto intro: order_trans)
  qed
qed

lemma open_exists:
  assumes "inRange s" and "total s < total sz"
  shows "\<exists>f\<in>set families. opens s f"
proof (rule ccontr)
  assume "\<not> ?thesis"
  then have "\<forall>f\<in>set families. sz f \<le> s f" by (auto simp: opens_def)
  then have "total sz \<le> total s" unfolding total_def by (intro sum_mono) auto
  with assms(2) show False by simp
qed

lemma awardSlot_step:
  assumes w: "inRange s" and less: "total s < total sz"
  obtains r where "r \<in> set families" "s r < sz r" "awardSlot sz families s = s(r := s r + 1)"
    and "\<forall>g\<in>set families. s g < sz g \<longrightarrow> quotient (sz g) (s g) \<le> quotient (sz r) (s r)"
proof -
  have "[] \<noteq> [] \<or> (\<exists>f\<in>set families. opens s f)" using open_exists [OF w less] by simp
  then have "pickNext sz s [] families \<in> set families \<and> opens s (pickNext sz s [] families) \<and>
     (\<forall>g\<in>set families. opens s g \<longrightarrow> quotient (sz g) (s g)
        \<le> quotient (sz (pickNext sz s [] families)) (s (pickNext sz s [] families)))"
    using pickNext_best [of families s "[]"] w by auto
  then show thesis
    using that [of "pickNext sz s [] families"] by (auto simp: awardSlot_def Let_def opens_def)
qed

lemma awardSlot_inRange:
  assumes "inRange s" "total s < total sz"
  shows "inRange (awardSlot sz families s)"
proof -
  obtain r where "r \<in> set families" "s r < sz r" "awardSlot sz families s = s(r := s r + 1)"
    by (rule awardSlot_step [OF assms])
  then show ?thesis using assms(1) by (auto simp: inRange_def)
qed

lemma awardSlot_total:
  assumes "inRange s" "total s < total sz"
  shows "total (awardSlot sz families s) = Suc (total s)"
proof -
  obtain r where r: "r \<in> set families" and eq: "awardSlot sz families s = s(r := s r + 1)"
    by (rule awardSlot_step [OF assms])
  have "total (s(r := s r + 1)) = (s r + 1) + (\<Sum>f\<in>set families - {r}. s f)"
    unfolding total_def using r by (subst sum.remove [of _ r]) auto
  also have "\<dots> = Suc (total s)"
    unfolding total_def using r by (subst (2) sum.remove [of _ r]) auto
  finally show ?thesis using eq by simp
qed

lemma awardSlot_fair:
  assumes w: "inRange s" and less: "total s < total sz" and fair: "fair s"
  shows "fair (awardSlot sz families s)"
proof -
  obtain r where r: "r \<in> set families" "s r < sz r" and eq: "awardSlot sz families s = s(r := s r + 1)"
    and best: "\<forall>g\<in>set families. s g < sz g \<longrightarrow> quotient (sz g) (s g) \<le> quotient (sz r) (s r)"
    by (rule awardSlot_step [OF w less])
  have drop: "quotient (sz r) (s r + 1) \<le> quotient (sz r) (s r)" by (rule quotient_antimono) simp
  show ?thesis
    unfolding fair_def eq
  proof (intro ballI impI)
    fix f g assume f: "f \<in> set families" and g: "g \<in> set families"
      and more: "1 < (s(r := s r + 1)) f" and room: "(s(r := s r + 1)) g < sz g"
    have "quotient (sz g) (s g) \<le> quotient (sz f) (s f - 1)" if "f \<noteq> r"
      using fair f g more room that r by (auto simp: fair_def split: if_splits)
    moreover have "quotient (sz g) (s g) \<le> quotient (sz r) (s r)"
      using best g room r by (auto split: if_splits)
    ultimately show "quotient (sz g) ((s(r := s r + 1)) g) \<le> quotient (sz f) ((s(r := s r + 1)) f - 1)"
      using drop by (auto intro: order_trans)
  qed
qed

lemma awardSlots_Suc: "awardSlots sz families (Suc k) s = awardSlot sz families (awardSlots sz families k s)"
  by (induction k arbitrary: s) auto

lemma total_initSlots: "total (initSlots families) = length families"
  unfolding total_def initSlots_def using distinct_families by (simp add: distinct_card)

lemma inRange_initSlots: "inRange (initSlots families)"
  using nonempty_families by (auto simp: inRange_def initSlots_def)

lemma awardSlots_inv:
  assumes "length families + k \<le> total sz"
  shows "inRange (awardSlots sz families k (initSlots families)) \<and>
         total (awardSlots sz families k (initSlots families)) = length families + k \<and>
         fair (awardSlots sz families k (initSlots families))"
  using assms
proof (induction k)
  case 0
  have "fair (initSlots families)" by (auto simp: fair_def initSlots_def)
  then show ?case by (simp add: inRange_initSlots total_initSlots)
next
  case (Suc k)
  then show ?case
    by (simp only: awardSlots_Suc) (simp add: awardSlot_inRange awardSlot_total awardSlot_fair)
qed

lemma awardSlots_mono_Suc: "awardSlots sz families k s f \<le> awardSlots sz families (Suc k) s f"
  unfolding awardSlots_Suc by (simp add: awardSlot_def Let_def)

lemma awardSlots_mono: "k \<le> l \<Longrightarrow> awardSlots sz families k s f \<le> awardSlots sz families l s f"
  by (induction l rule: nat_induct_at_least) (auto intro: order_trans awardSlots_mono_Suc simp del: awardSlots.simps)

end

section \<open>The families and members of a node list\<close>

lemma NodeFamily_nonempty [simp]: "NodeFamily node hw \<noteq> []" "[] \<noteq> NodeFamily node hw"
  by (simp_all add: NodeFamily_def split: option.splits)

lemma addMembers_filter:
  "addMembers hw members nodes f = members f @ filter (\<lambda>n. NodeFamily n hw = f) nodes"
  by (induction nodes arbitrary: members) (auto simp: Let_def)

lemma memberLess_key:
  "memberLess current a b \<longleftrightarrow>
     (map_get current a \<noteq> profilePerformance, a) < (map_get current b \<noteq> profilePerformance, b)"
  by (auto simp: memberLess_def Let_def)

lemma membersOf_sort:
  "membersOf nodes hw current f =
     sort_key (\<lambda>n. (map_get current n \<noteq> profilePerformance, n)) (filter (\<lambda>n. NodeFamily n hw = f) nodes)"
  unfolding membersOf_def by (simp add: addMembers_filter go_sort_key [OF memberLess_key])

lemma set_membersOf: "set (membersOf nodes hw current f) = {n \<in> set nodes. NodeFamily n hw = f}"
  by (auto simp: membersOf_sort)

lemma distinct_membersOf: "distinct nodes \<Longrightarrow> distinct (membersOf nodes hw current f)"
  by (simp add: membersOf_sort)

lemma length_membersOf:
  "length (membersOf nodes hw current f) = length (filter (\<lambda>n. NodeFamily n hw = f) nodes)"
  by (simp add: membersOf_sort)

lemma familiesOf_sort: "familiesOf nodes hw = sort (remdups (map (\<lambda>n. NodeFamily n hw) nodes))"
  unfolding familiesOf_def by (rule go_sort_key) simp

lemma set_familiesOf [simp]: "set (familiesOf nodes hw) = (\<lambda>n. NodeFamily n hw) ` set nodes"
  by (simp add: familiesOf_sort)

lemma distinct_familiesOf [simp]: "distinct (familiesOf nodes hw)"
  by (simp add: familiesOf_sort)

lemma length_familiesOf_le: "length (familiesOf nodes hw) \<le> length nodes"
  by (simp add: familiesOf_sort length_remdups_leq [THEN order_trans])

interpretation pol: divisor_loop "\<lambda>f. length (membersOf nodes hw current f)" "familiesOf nodes hw"
  for nodes hw current
proof
  fix f assume "f \<in> set (familiesOf nodes hw)"
  then have "set (membersOf nodes hw current f) \<noteq> {}" by (auto simp: set_membersOf)
  then show "1 \<le> length (membersOf nodes hw current f)"
    by (metis One_nat_def Suc_leI length_greater_0_conv set_empty2)
qed auto

lemma sum_length_filter:
  assumes "finite A" and "g ` set xs \<subseteq> A"
  shows "(\<Sum>f\<in>A. length (filter (\<lambda>x. g x = f) xs)) = length xs"
  using assms(2)
proof (induction xs)
  case (Cons x xs)
  have "(\<Sum>f\<in>A. length (filter (\<lambda>y. g y = f) (x # xs)))
      = (\<Sum>f\<in>A. (if g x = f then 1 else 0) + length (filter (\<lambda>y. g y = f) xs))"
    by (intro sum.cong) auto
  also have "\<dots> = length (x # xs)"
    using Cons assms(1) by (simp add: sum.distrib)
  finally show ?case .
qed simp

lemma total_members:
  "pol.total nodes hw (\<lambda>f. length (membersOf nodes hw current f)) = length nodes"
  unfolding pol.total_def by (simp add: length_membersOf sum_length_filter)

text \<open>The number of performance nodes the slot loop hands out.\<close>

definition slotCount :: "string list \<Rightarrow> hwmap \<Rightarrow> int \<Rightarrow> nat" where
  "slotCount nodes hw hpCount =
     nat (clampInt hpCount (int (length (familiesOf nodes hw))) (int (length nodes)))"

lemma slotCount_bounds:
  "length (familiesOf nodes hw) \<le> slotCount nodes hw h" "slotCount nodes hw h \<le> length nodes"
  using clampInt_bounds [of "int (length (familiesOf nodes hw))" "int (length nodes)" h]
    length_familiesOf_le [of nodes hw]
  by (auto simp: slotCount_def)

lemma slotCount_mono: "h \<le> h' \<Longrightarrow> slotCount nodes hw h \<le> slotCount nodes hw h'"
  unfolding slotCount_def by (intro nat_mono clampInt_mono) (auto simp: length_familiesOf_le)

lemma slotCount_Suc: "slotCount nodes hw (h + 1) \<le> Suc (slotCount nodes hw h)"
  using length_familiesOf_le [of nodes hw] by (auto simp: slotCount_def clampInt_def)

lemma slotsFor_award:
  "slotsFor nodes hw current h =
     awardSlots (\<lambda>f. length (membersOf nodes hw current f)) (familiesOf nodes hw)
       (slotCount nodes hw h - length (familiesOf nodes hw)) (initSlots (familiesOf nodes hw))"
  by (simp add: slotsFor_def slotCount_def Let_def nat_minus_as_int)

lemma slotsFor_inv:
  "pol.inRange nodes hw current (slotsFor nodes hw current h) \<and>
   pol.total nodes hw (slotsFor nodes hw current h) = slotCount nodes hw h \<and>
   pol.fair nodes hw current (slotsFor nodes hw current h)"
  using pol.awardSlots_inv [of nodes hw "slotCount nodes hw h - length (familiesOf nodes hw)" current]
    slotCount_bounds [of nodes hw h]
  by (simp add: slotsFor_award total_members)

lemma slotsFor_le: "slotsFor nodes hw current h f \<le> length (membersOf nodes hw current f)"
  using slotsFor_inv [of nodes hw current h] by (cases "f \<in> set (familiesOf nodes hw)") (auto simp: pol.inRange_def)

lemma slotsFor_mono: "h \<le> h' \<Longrightarrow> slotsFor nodes hw current h f \<le> slotsFor nodes hw current h' f"
  unfolding slotsFor_award by (intro pol.awardSlots_mono diff_le_mono slotCount_mono)

text \<open>The split does not look at the present labels.\<close>

lemma slotsFor_current: "slotsFor nodes hw current h = slotsFor nodes hw current' h"
  unfolding slotsFor_award by (simp add: length_membersOf)

section \<open>The performance set\<close>

lemma PerformanceSet_family:
  "n \<in> PerformanceSet nodes hw current h \<longleftrightarrow> n \<in> set nodes \<and>
     n \<in> set (take (slotsFor nodes hw current h (NodeFamily n hw)) (membersOf nodes hw current (NodeFamily n hw)))"
proof -
  have "n \<in> set nodes \<and> NodeFamily n hw = f" if "n \<in> set (take k (membersOf nodes hw current f))" for f k
    using in_set_takeD [OF that] by (simp add: set_membersOf)
  then show ?thesis by (fastforce simp: PerformanceSet_def Let_def)
qed

lemma PerformanceSet_subset: "PerformanceSet nodes hw current h \<subseteq> set nodes"
  by (auto simp: PerformanceSet_family)

lemma PerformanceSet_mono:
  assumes "h \<le> h'"
  shows "PerformanceSet nodes hw current h \<subseteq> PerformanceSet nodes hw current h'"
proof
  fix n assume n: "n \<in> PerformanceSet nodes hw current h"
  have "set (take (slotsFor nodes hw current h f) ms) \<subseteq> set (take (slotsFor nodes hw current h' f) ms)"
    for f and ms :: "string list"
    by (intro set_take_subset_set_take slotsFor_mono assms)
  with n show "n \<in> PerformanceSet nodes hw current h'"
    unfolding PerformanceSet_family by blast
qed

lemma PerformanceSet_card_slots:
  assumes "distinct nodes"
  shows "card (PerformanceSet nodes hw current h) = slotCount nodes hw h"
proof -
  let ?fs = "familiesOf nodes hw" and ?ms = "membersOf nodes hw current" and ?s = "slotsFor nodes hw current h"
  let ?T = "\<lambda>f. set (take (?s f) (?ms f))"
  have fam: "NodeFamily n hw = f" if "n \<in> ?T f" for n f
    using in_set_takeD [OF that] by (simp add: set_membersOf)
  have "PerformanceSet nodes hw current h = (\<Union>f\<in>set ?fs. ?T f)"
    by (simp add: PerformanceSet_def Let_def)
  also have "card \<dots> = (\<Sum>f\<in>set ?fs. card (?T f))"
    by (intro card_UN_disjoint) (simp, simp, metis disjoint_iff fam)
  also have "\<dots> = (\<Sum>f\<in>set ?fs. ?s f)"
  proof (intro sum.cong refl)
    fix f
    have "card (?T f) = length (take (?s f) (?ms f))"
      using assms by (intro distinct_card) (simp add: distinct_membersOf)
    then show "card (?T f) = ?s f" using slotsFor_le [of nodes hw current h f] by simp
  qed
  also have "\<dots> = slotCount nodes hw h"
    using slotsFor_inv [of nodes hw current h] by (simp add: pol.total_def)
  finally show ?thesis .
qed

lemma PerformanceSet_covers:
  assumes "n \<in> set nodes"
  shows "\<exists>m \<in> PerformanceSet nodes hw current h. NodeFamily m hw = NodeFamily n hw"
proof -
  let ?f = "NodeFamily n hw"
  have "1 \<le> slotsFor nodes hw current h ?f"
    using slotsFor_inv [of nodes hw current h] assms by (auto simp: pol.inRange_def)
  moreover have "membersOf nodes hw current ?f \<noteq> []"
    using set_membersOf [of nodes hw current ?f] assms by fastforce
  ultimately have "hd (membersOf nodes hw current ?f) \<in> set (take (slotsFor nodes hw current h ?f) (membersOf nodes hw current ?f))"
    by (cases "membersOf nodes hw current ?f"; cases "slotsFor nodes hw current h ?f") auto
  moreover from this have "hd (membersOf nodes hw current ?f) \<in> {m \<in> set nodes. NodeFamily m hw = ?f}"
    using in_set_takeD set_membersOf by metis
  ultimately show ?thesis by (intro bexI [of _ "hd (membersOf nodes hw current ?f)"]) (auto simp: PerformanceSet_family)
qed

lemma slotCount_int:
  "int (slotCount nodes hw h) = clampInt h (int (length (familiesOf nodes hw))) (int (length nodes))"
  unfolding slotCount_def
  using clampInt_bounds [of "int (length (familiesOf nodes hw))" "int (length nodes)" h] length_familiesOf_le [of nodes hw]
  by simp

lemma membersOf_perm:
  "mset nodes = mset nodes' \<Longrightarrow> membersOf nodes hw current f = membersOf nodes' hw current f"
  unfolding membersOf_sort by (intro sort_key_cong_mset) (auto simp: inj_on_def)

lemma familiesOf_perm:
  assumes "mset nodes = mset nodes'"
  shows "familiesOf nodes hw = familiesOf nodes' hw"
proof (rule sorted_distinct_set_unique)
  show "set (familiesOf nodes hw) = set (familiesOf nodes' hw)"
    using assms by (metis set_familiesOf mset_eq_setD)
qed (auto simp: familiesOf_sort)

lemma sort_key_cong:
  fixes f g :: "'a \<Rightarrow> 'k::linorder"
  assumes "\<And>x. x \<in> set xs \<Longrightarrow> f x = g x"
  shows "sort_key f xs = sort_key g xs"
proof -
  have "insort_key f x ys = insort_key g x ys" if "\<forall>y\<in>set (x # ys). f y = g y" for x ys
    using that by (induction ys) auto
  then show ?thesis using assms by (induction xs) auto
qed

text \<open>
  With the labels of a plan in place, the members the plan chose come first in every
  family, and there are exactly as many of them as slots.
\<close>

lemma take_labelled:
  assumes "distinct xs" and "set (take k (sort_key key xs)) = {n \<in> set xs. P n}" and "k \<le> length xs"
    and "\<And>n. n \<in> set xs \<Longrightarrow> flag n = (\<not> P n)"
  shows "set (take k (sort_key (\<lambda>n. (flag n, n :: string)) xs)) = {n \<in> set xs. P n}"
proof -
  have "k = card (set (take k (sort_key key xs)))"
    using assms(1,3) by (simp add: distinct_card)
  also have "\<dots> = length (filter P xs)"
    using assms(1,2) by (metis distinct_card distinct_filter set_filter)
  finally have k: "k = length (filter P xs)" .
  have "sort_key (\<lambda>n. (flag n, n)) xs = sort_key (\<lambda>n. (\<not> P n, n)) xs"
    using assms(4) by (intro sort_key_cong) auto
  then show ?thesis using k by (simp add: sort_key_flag)
qed

section \<open>Selecting performance nodes, as the plan builders see it\<close>

text \<open>
  The plan builders rely on four laws of the selection: it picks listed nodes, as many as
  asked for within the bounds, more when asked for more, and labels are all they write.
\<close>

locale performance_selector =
  fixes select :: "string list \<Rightarrow> int \<Rightarrow> string set" and lowest :: "string list \<Rightarrow> nat"
  assumes select_subset: "select nodes h \<subseteq> set nodes"
    and select_card: "distinct nodes \<Longrightarrow>
      int (card (select nodes h)) = clampInt h (int (lowest nodes)) (int (length nodes))"
    and select_mono: "h \<le> h' \<Longrightarrow> select nodes h \<subseteq> select nodes h'"
begin

lemma plan_names: "map na_nodeName (planWith nodes (select nodes h) pc ec m) = nodes"
  by (simp add: planWith_def map_idI)

lemma plan_profile:
  "a \<in> set (planWith nodes (select nodes h) pc ec m) \<Longrightarrow>
     na_profile a = (if na_nodeName a \<in> select nodes h then profilePerformance else profileEco) \<and>
     na_capWatts a = (if na_profile a = profilePerformance then pc else ec) \<and> \<not> na_draining a"
  by (auto simp: planWith_def split: if_splits)

lemma plan_count:
  assumes "distinct nodes"
  shows "int (length (filter (\<lambda>a. na_profile a = profilePerformance) (planWith nodes (select nodes h) pc ec m)))
       = clampInt h (int (lowest nodes)) (int (length nodes))"
proof -
  have "length (filter (\<lambda>a. na_profile a = profilePerformance) (planWith nodes P pc ec m))
      = length (filter (\<lambda>n. n \<in> P) nodes)" for P
    unfolding planWith_def by (induction nodes) auto
  moreover have "card (select nodes h) = length (filter (\<lambda>n. n \<in> select nodes h) nodes)"
    using assms select_subset [of nodes h]
    by (metis distinct_card distinct_filter inf.absorb_iff2 inter_set_filter Int_commute)
  ultimately show ?thesis using select_card [OF assms, of h] by simp
qed

lemma plan_grows:
  "h \<le> h' \<Longrightarrow> a \<in> set (planWith nodes (select nodes h) pc ec m) \<Longrightarrow>
     a' \<in> set (planWith nodes (select nodes h') pc ec m) \<Longrightarrow> na_nodeName a' = na_nodeName a \<Longrightarrow>
     na_profile a = profilePerformance \<Longrightarrow> na_profile a' = profilePerformance"
  using select_mono [of h h' nodes] by (auto simp: planWith_def split: if_splits)

end

interpretation sel: performance_selector
  "\<lambda>nodes. PerformanceSet nodes hw current" "\<lambda>nodes. length (familiesOf nodes hw)"
  for hw current
  by unfold_locales
     (simp_all add: PerformanceSet_subset PerformanceSet_mono PerformanceSet_card_slots slotCount_int)

section \<open>Properties\<close>

text \<open>C7: For distinct nodes, the performance set holds only listed nodes, exactly as many as
  \<open>hpCount\<close> raised to the number of hardware families and capped at the number of nodes,
  and at least one node of every family.\<close>

theorem PerformanceSet_size_and_coverage:
  assumes "distinct nodes"
  shows "PerformanceSet nodes hw current hpCount \<subseteq> set nodes \<and>
    int (card (PerformanceSet nodes hw current hpCount))
      = clampInt hpCount (int (length (familiesOf nodes hw))) (int (length nodes)) \<and>
    (\<forall>n \<in> set nodes. \<exists>m \<in> PerformanceSet nodes hw current hpCount. NodeFamily m hw = NodeFamily n hw)"
  using sel.select_subset sel.select_card [OF assms] PerformanceSet_covers by blast

text \<open>The witness: three nodes without hardware facts are three families, so asking for one
  performance node still gives three.\<close>

theorem PerformanceSet_size_and_coverage_witness:
  "distinct [''a'', ''b'', ''c''] \<and>
   int (card (PerformanceSet [''a'', ''b'', ''c''] (\<lambda>_. None) (\<lambda>_. None) 1)) = 3"
proof -
  have d: "distinct [''a'', ''b'', ''c'']" by simp
  have "familiesOf [''a'', ''b'', ''c''] (\<lambda>_. None) = [''unknown:a'', ''unknown:b'', ''unknown:c'']"
    by code_simp
  with PerformanceSet_size_and_coverage [OF d, of "\<lambda>_. None" "\<lambda>_. None" 1] show ?thesis
    using d by (simp add: clampInt_def)
qed

text \<open>House monotonicity. Asking for one more performance node keeps every node that
  was in the set and adds at most one.\<close>

theorem PerformanceSet_house_monotone:
  assumes "distinct nodes"
  shows "PerformanceSet nodes hw current h \<subseteq> PerformanceSet nodes hw current (h + 1) \<and>
         card (PerformanceSet nodes hw current (h + 1) - PerformanceSet nodes hw current h) \<le> 1"
proof -
  have sub: "PerformanceSet nodes hw current h \<subseteq> PerformanceSet nodes hw current (h + 1)"
    by (rule sel.select_mono) simp
  have "finite (PerformanceSet nodes hw current h)"
    by (rule finite_subset [OF PerformanceSet_subset]) simp
  then have "card (PerformanceSet nodes hw current (h + 1) - PerformanceSet nodes hw current h)
      = slotCount nodes hw (h + 1) - slotCount nodes hw h"
    using sub assms by (simp add: card_Diff_subset PerformanceSet_card_slots)
  then show ?thesis using sub slotCount_Suc [of nodes hw h] by simp
qed

theorem PerformanceSet_house_monotone_witness:
  "distinct [''a'', ''b''] \<and> PerformanceSet [''a'', ''b''] (\<lambda>_. None) (\<lambda>_. None) 1
     \<subseteq> PerformanceSet [''a'', ''b''] (\<lambda>_. None) (\<lambda>_. None) (1 + 1)"
  using PerformanceSet_house_monotone [of "[''a'', ''b'']" "\<lambda>_. None" "\<lambda>_. None" 1] by simp

text \<open>The performance set does not depend on the order in which the nodes are listed.\<close>

theorem PerformanceSet_order_independent:
  assumes "mset nodes = mset nodes'"
  shows "PerformanceSet nodes hw current hpCount = PerformanceSet nodes' hw current hpCount"
proof -
  have "length nodes = length nodes'" using assms by (metis size_mset)
  then have "slotsFor nodes hw current hpCount = slotsFor nodes' hw current hpCount"
    using assms by (simp add: slotsFor_def membersOf_perm [OF assms] familiesOf_perm [OF assms])
  then show ?thesis
    using assms by (simp add: PerformanceSet_def membersOf_perm [OF assms] familiesOf_perm [OF assms])
qed

theorem PerformanceSet_order_independent_witness:
  "mset [''b'', ''a''] = mset [''a'', ''b''] \<and>
   PerformanceSet [''b'', ''a''] (\<lambda>_. None) (\<lambda>_. None) 1 = PerformanceSet [''a'', ''b''] (\<lambda>_. None) (\<lambda>_. None) 1"
  using PerformanceSet_order_independent [of "[''b'', ''a'']" "[''a'', ''b'']" "\<lambda>_. None" "\<lambda>_. None" 1]
  by (simp add: add_mset_commute)

text \<open>A reconcile at constant demand moves nothing: once the power-profile labels are
  those of the plan, the same request selects the same nodes.\<close>

theorem PerformanceSet_stable:
  assumes "distinct nodes"
    and "\<forall>n \<in> set nodes. (map_get current' n = profilePerformance) = (n \<in> PerformanceSet nodes hw current hpCount)"
  shows "PerformanceSet nodes hw current' hpCount = PerformanceSet nodes hw current hpCount"
proof -
  let ?S = "PerformanceSet nodes hw current hpCount" and ?fam = "\<lambda>f. filter (\<lambda>n. NodeFamily n hw = f) nodes"
  let ?k = "slotsFor nodes hw current hpCount"
  have "set (take (?k f) (membersOf nodes hw current f)) = {n \<in> set (?fam f). n \<in> ?S}" for f
  proof -
    have "n \<in> set nodes \<and> NodeFamily n hw = f" if "n \<in> set (take (?k f) (membersOf nodes hw current f))" for n
      using in_set_takeD [OF that] by (simp add: set_membersOf)
    then show ?thesis by (auto simp: PerformanceSet_family)
  qed
  then have "set (take (?k f) (membersOf nodes hw current' f)) = {n \<in> set (?fam f). n \<in> ?S}" for f
    unfolding membersOf_sort using assms slotsFor_le [of nodes hw current hpCount f]
    by (intro take_labelled) (auto simp: length_membersOf)
  then show ?thesis
    using PerformanceSet_subset [of nodes hw current hpCount]
    by (auto simp: PerformanceSet_family [of _ nodes hw current'] slotsFor_current [of nodes hw current' _ current])
qed

theorem PerformanceSet_stable_witness:
  "PerformanceSet [''a'', ''b''] (\<lambda>_. None) (\<lambda>_. Some profilePerformance) 2
   = PerformanceSet [''a'', ''b''] (\<lambda>_. None) (\<lambda>_. None) 2"
proof (rule PerformanceSet_stable)
  have "PerformanceSet [''a'', ''b''] (\<lambda>_. None) (\<lambda>_. None) 2 = {''a'', ''b''}" by code_simp
  then show "\<forall>n \<in> set [''a'', ''b'']. (map_get (\<lambda>_. Some profilePerformance) n = profilePerformance)
      = (n \<in> PerformanceSet [''a'', ''b''] (\<lambda>_. None) (\<lambda>_. None) 2)"
    by (simp add: map_get_def)
qed simp



lemma queueCount_mono:
  assumes "p \<le> p'"
  shows "queueCount n hpFrac lo hi per p \<le> queueCount n hpFrac lo hi per p'"
proof -
  have "go_ceil (real_of_int p / real_of_int per') \<le> go_ceil (real_of_int p' / real_of_int per')" if "0 < per'" for per'
    using assms that by (simp add: go_ceil_def ceiling_mono divide_right_mono)
  note mono = this [of "if per \<le> 0 then 1 else per"]
  show ?thesis
    unfolding queueCount_def Let_def using mono by (intro clampInt_mono) auto
qed

lemma queueCount_bounds:
  assumes "0 \<le> lo" "lo \<le> hi" "0 < hi"
  shows "lo \<le> queueCount n hpFrac lo hi per p \<and> queueCount n hpFrac lo hi per p \<le> hi"
  using assms clampInt_bounds [of lo hi] by (simp add: queueCount_def Let_def)

text \<open>The static plan lists every node once, in order; it puts as many nodes in performance
  as the fraction clamped to 0..1 of the nodes rounds to, raised to the number of families; and
  a node's cap is that of its profile.\<close>

theorem BuildStaticPlan_correct:
  assumes "distinct nodes" and "nodes \<noteq> []"
  shows "map na_nodeName (BuildStaticPlan nodes hw current perfCap ecoCap hpFrac) = nodes \<and>
    int (length (filter (\<lambda>a. na_profile a = profilePerformance)
           (BuildStaticPlan nodes hw current perfCap ecoCap hpFrac)))
      = clampInt (go_round (real (length nodes) * clamp01 hpFrac)) (int (length (familiesOf nodes hw))) (int (length nodes)) \<and>
    (\<forall>a \<in> set (BuildStaticPlan nodes hw current perfCap ecoCap hpFrac).
       (na_profile a = profilePerformance \<and> na_capWatts a = perfCap) \<or>
       (na_profile a = profileEco \<and> na_capWatts a = ecoCap))"
proof -
  have eq: "BuildStaticPlan nodes hw current perfCap ecoCap hpFrac
    = planWith nodes (PerformanceSet nodes hw current (staticCount (length nodes) hpFrac)) perfCap ecoCap ''static-partition-v1''"
    using assms(2) by (simp add: BuildStaticPlan_def)
  show ?thesis
    unfolding eq using sel.plan_count [OF assms(1)] sel.plan_profile sel.plan_names
    by (auto simp: staticCount_def)
qed

theorem BuildStaticPlan_correct_witness:
  "map na_nodeName (BuildStaticPlan [''b'', ''a''] (\<lambda>_. None) (\<lambda>_. None) 5000 120 (1 / 2)) = [''b'', ''a'']"
  using BuildStaticPlan_correct [of "[''b'', ''a'']" "\<lambda>_. None" "\<lambda>_. None" 5000 120 "1 / 2"] by simp



lemma swapPhase_range: "0 \<le> now \<Longrightarrow> swapPhase interval now \<in> {0, 1}"
proof -
  assume "0 \<le> now"
  then have "0 \<le> go_div now i" if "0 < i" for i using that by (simp add: go_div_nonneg pos_imp_zdiv_nonneg_iff)
  then show ?thesis by (auto simp: swapPhase_def Let_def go_mod_nonneg)
qed

lemma int_flip_mod2: "(x + 1) mod 2 = 1 - x mod 2" for x :: int
  by presburger

lemma swapPhase_flips:
  assumes "0 \<le> now" and "1000000000 \<le> interval"
  shows "swapPhase interval (now + interval div 1000000000) = 1 - swapPhase interval now"
proof -
  define i where "i = interval div 1000000000"
  have i: "0 < i" using assms(2) unfolding i_def by (simp add: pos_imp_zdiv_pos_iff)
  have "(now + i) div i = now div i + 1" using i by simp
  then show ?thesis
    using assms i unfolding swapPhase_def Let_def i_def [symmetric]
    by (simp add: go_div_nonneg go_mod_nonneg i_def [symmetric] pos_imp_zdiv_nonneg_iff int_flip_mod2)
qed

text \<open>The rule-swap plan for two or more nodes has exactly one eco node, the first in an
  even phase and the second in an odd one, and one interval later it is the other of the two.\<close>

theorem BuildRuleSwapPlanAt_alternates:
  assumes "0 \<le> now" and "1000000000 \<le> interval"
  shows "\<exists>e \<in> {0, 1}.
     map na_profile (BuildRuleSwapPlanAt (x # y # zs) interval pc ec now)
       = (replicate (length zs + 2) profilePerformance)[e := profileEco] \<and>
     map na_profile (BuildRuleSwapPlanAt (x # y # zs) interval pc ec (now + interval div 1000000000))
       = (replicate (length zs + 2) profilePerformance)[1 - e := profileEco]"
proof -
  have rest: "map na_profile (map (swapAssignment ph pc ec) (enumerate (Suc (Suc n)) zs))
      = replicate (length zs) profilePerformance" for ph n
    by (induction zs arbitrary: n) (auto simp: swapAssignment_def)
  have two: "map na_profile (map (swapAssignment ph pc ec) (enumerate 0 (x # y # zs)))
      = (replicate (length zs + 2) profilePerformance)[nat ph := profileEco]" if "ph \<in> {0, 1}" for ph
    using that rest [of ph 0] by (auto simp: swapAssignment_def go_mod_nonneg)
  have plan: "BuildRuleSwapPlanAt (x # y # zs) interval pc ec t
      = map (swapAssignment (swapPhase interval t) pc ec) (enumerate 0 (x # y # zs))" for t
    by (simp add: BuildRuleSwapPlanAt_def Let_def)
  have p: "swapPhase interval now \<in> {0, 1}" by (rule swapPhase_range [OF assms(1)])
  then have p': "1 - swapPhase interval now \<in> {0, 1}" by auto
  show ?thesis
    unfolding plan swapPhase_flips [OF assms] two [OF p] two [OF p']
    using p by (intro bexI [of _ "nat (swapPhase interval now)"]) auto
qed

theorem BuildRuleSwapPlanAt_alternates_witness:
  "\<exists>e \<in> {0, 1}. map na_profile (BuildRuleSwapPlanAt [''a'', ''b''] 60000000000 5000 120 90)
       = (replicate 2 profilePerformance)[e := profileEco]"
  using BuildRuleSwapPlanAt_alternates [of 90 60000000000 "''a''" "''b''" "[]" 5000 120]
  by (auto simp: numeral_2_eq_2)

end
