(* ===== verification/Node_Fsm.thy ===== *)
theory Node_Fsm
  imports Power_Policy
begin

text \<open>
  The node power-profile state machine of \<^verbatim>\<open>pkg/controller/fsm/fsm.go\<close>: pod classification,
  the downgrade guard and the GPU unit counts. The Kubernetes objects the code reads are
  records of the fields it reads; a resource list is an association list from resource
  name to \<open>Quantity.Value()\<close>. The interface \<open>NodeOps\<close> is the locale \<open>node_ops\<close>,
  interpreted on the cache-backed implementation of \<^verbatim>\<open>cmd/controller-manager/main.go\<close>, whose
  pod list is a parameter (the API cache is not code of this repository).
\<close>

section \<open>Kubernetes objects\<close>

record NodeSelectorRequirement =
  nsr_key :: string
  nsr_operator :: string
  nsr_values :: "string list"

type_synonym NodeSelectorTerm = "NodeSelectorRequirement list"

record NodeAffinity =
  naff_required :: "NodeSelectorTerm list option"

record Affinity =
  aff_nodeAffinity :: "NodeAffinity option"

type_synonym ResourceList = "(string \<times> int) list"

record Container =
  con_requests :: ResourceList
  con_limits :: ResourceList
  con_restartPolicy :: "string option"

record Pod =
  pod_annotations :: strmap
  pod_nodeSelector :: strmap
  pod_affinity :: "Affinity option"
  pod_deletionTimestamp :: gotime
  pod_phase :: string
  pod_containers :: "Container list"
  pod_initContainers :: "Container list"

section \<open>States and labels\<close>

abbreviation StateActivePerformance :: string where "StateActivePerformance \<equiv> ''ActivePerformance''"
abbreviation StateDrainingPerformance :: string where "StateDrainingPerformance \<equiv> ''DrainingPerformance''"
abbreviation StateActiveEco :: string where "StateActiveEco \<equiv> ''ActiveEco''"
abbreviation StateUnknown :: string where "StateUnknown \<equiv> ''Unknown''"
abbreviation PowerProfileLabelKey :: string where "PowerProfileLabelKey \<equiv> ''joulie.io/power-profile''"
abbreviation WorkloadClassAnnotation :: string where "WorkloadClassAnnotation \<equiv> ''joulie.io/workload-class''"

definition AssignmentState :: "string \<Rightarrow> bool \<Rightarrow> string" where
  "AssignmentState profile draining =
     (if draining then StateDrainingPerformance
      else if profile = profilePerformance then StateActivePerformance
      else if profile = profileEco then StateActiveEco
      else StateUnknown)"

definition CurrentProfileOrDefault :: "string \<Rightarrow> string" where
  "CurrentProfileOrDefault s = (if s = profilePerformance \<or> s = profileEco then s else ''unknown'')"

definition ComputeDesiredLabels :: "string \<Rightarrow> int \<Rightarrow> string \<times> bool" where
  "ComputeDesiredLabels desired perfPods =
     (let p = CurrentProfileOrDefault desired
      in if p = profilePerformance then (profilePerformance, False)
         else if p = profileEco then (profileEco, perfPods > 0)
         else (''unknown'', False))"

section \<open>The downgrade guard\<close>

definition setLabels :: "NodeAssignment \<Rightarrow> string \<times> bool \<Rightarrow> NodeAssignment" where
  "setLabels a pd = a\<lparr>na_profile := fst pd, na_draining := snd pd,
                      na_state := AssignmentState (fst pd) (snd pd)\<rparr>"

text \<open>One turn of the loop. A node whose pods cannot be listed is left as planned.\<close>

definition guardOne :: "(string \<Rightarrow> goerr + int) \<Rightarrow> NodeAssignment \<Rightarrow> NodeAssignment" where
  "guardOne ops a =
     (if na_profile a \<noteq> profileEco then setLabels a (ComputeDesiredLabels (na_profile a) 0)
      else case ops (na_nodeName a) of
             Inl err \<Rightarrow> a
           | Inr cnt \<Rightarrow> setLabels a (ComputeDesiredLabels (na_profile a) cnt))"

definition ApplyDowngradeGuards :: "(string \<Rightarrow> goerr + int) \<Rightarrow> NodeAssignment list \<Rightarrow> NodeAssignment list" where
  "ApplyDowngradeGuards ops plan = map (guardOne ops) plan"

section \<open>Pod classification\<close>

fun containsString :: "string list \<Rightarrow> string \<Rightarrow> bool" where
  "containsString [] v = False"
| "containsString (x # xs) v = (TrimSpace x = v \<or> containsString xs v)"

definition requiredTerms :: "Pod \<Rightarrow> NodeSelectorTerm list option" where
  "requiredTerms p = (case pod_affinity p of
      None \<Rightarrow> None
    | Some a \<Rightarrow> (case aff_nodeAffinity a of None \<Rightarrow> None | Some na \<Rightarrow> naff_required na))"

definition exprExcludesEco :: "NodeSelectorRequirement \<Rightarrow> bool" where
  "exprExcludesEco e \<longleftrightarrow> nsr_key e = PowerProfileLabelKey \<and>
     ((nsr_operator e = ''NotIn'' \<and> containsString (nsr_values e) profileEco) \<or>
      (nsr_operator e = ''In'' \<and> length (nsr_values e) > 0 \<and> \<not> containsString (nsr_values e) profileEco))"

definition PodExcludesEco :: "Pod \<Rightarrow> bool" where
  "PodExcludesEco p \<longleftrightarrow>
     TrimSpace (map_get (pod_annotations p) WorkloadClassAnnotation) = profilePerformance \<or>
     TrimSpace (map_get (pod_nodeSelector p) PowerProfileLabelKey) = profilePerformance \<or>
     (case requiredTerms p of
        None \<Rightarrow> False
      | Some terms \<Rightarrow> list_ex (list_ex exprExcludesEco) terms)"

definition exprEcoOnly :: "NodeSelectorRequirement \<Rightarrow> bool" where
  "exprEcoOnly e \<longleftrightarrow> nsr_key e = PowerProfileLabelKey \<and> nsr_operator e = ''In'' \<and> length (nsr_values e) > 0 \<and>
     \<not> containsString (nsr_values e) profilePerformance \<and> containsString (nsr_values e) profileEco"

definition PodIsEcoOnly :: "Pod \<Rightarrow> bool" where
  "PodIsEcoOnly p \<longleftrightarrow>
     TrimSpace (map_get (pod_nodeSelector p) PowerProfileLabelKey) = profileEco \<or>
     (case requiredTerms p of
        None \<Rightarrow> False
      | Some terms \<Rightarrow> list_ex (list_ex exprEcoOnly) terms)"

definition IsPerformanceSensitivePod :: "Pod \<Rightarrow> bool" where
  "IsPerformanceSensitivePod p = PodExcludesEco p"

definition ClassifyPodByScheduling :: "Pod \<Rightarrow> string" where
  "ClassifyPodByScheduling p =
     (if PodExcludesEco p then ''performance-only'' else if PodIsEcoOnly p then ''eco-only'' else ''general'')"

fun CountPerformanceSensitivePods :: "Pod list \<Rightarrow> int" where
  "CountPerformanceSensitivePods [] = 0"
| "CountPerformanceSensitivePods (p # ps) =
     (if pod_deletionTimestamp p \<noteq> None then CountPerformanceSensitivePods ps
      else if pod_phase p = ''Succeeded'' \<or> pod_phase p = ''Failed'' \<or> pod_phase p = ''Pending''
      then CountPerformanceSensitivePods ps
      else if \<not> IsPerformanceSensitivePod p then CountPerformanceSensitivePods ps
      else 1 + CountPerformanceSensitivePods ps)"

fun CountPerformanceDemand :: "Pod list \<Rightarrow> int" where
  "CountPerformanceDemand [] = 0"
| "CountPerformanceDemand (p # ps) =
     (if pod_deletionTimestamp p \<noteq> None then CountPerformanceDemand ps
      else if pod_phase p = ''Succeeded'' \<or> pod_phase p = ''Failed'' then CountPerformanceDemand ps
      else if \<not> IsPerformanceSensitivePod p then CountPerformanceDemand ps
      else 1 + CountPerformanceDemand ps)"

section \<open>GPU units of a pod\<close>

definition MultiGPUPodMinGPUs :: int where
  "MultiGPUPodMinGPUs = 2"

fun addUnits :: "string set \<Rightarrow> int \<Rightarrow> ResourceList \<Rightarrow> string set \<times> int" where
  "addUnits seen units [] = (seen, units)"
| "addUnits seen units ((name, q) # rl) =
     (if name \<in> seen \<or> GPUResourceKind name = [] then addUnits seen units rl
      else addUnits (insert name seen) (units + q) rl)"

definition containerGPUUnits :: "Container \<Rightarrow> int" where
  "containerGPUUnits c =
     (case addUnits {} 0 (con_requests c) of (seen, units) \<Rightarrow> snd (addUnits seen units (con_limits c)))"

fun initUnits :: "int \<Rightarrow> int \<Rightarrow> Container list \<Rightarrow> int \<times> int" where
  "initUnits acc initMax [] = (acc, initMax)"
| "initUnits acc initMax (c # cs) =
     (let units = containerGPUUnits c
      in if con_restartPolicy c = Some ''Always'' then initUnits (acc + units) initMax cs
         else initUnits acc (if units > initMax then units else initMax) cs)"

definition PodGPUUnits :: "Pod \<Rightarrow> int" where
  "PodGPUUnits p =
     (let acc = sum_list (map containerGPUUnits (pod_containers p))
      in case initUnits acc 0 (pod_initContainers p) of (acc, initMax) \<Rightarrow> max acc initMax)"

fun HasRunningMultiGPUPod :: "Pod list \<Rightarrow> bool" where
  "HasRunningMultiGPUPod [] = False"
| "HasRunningMultiGPUPod (p # ps) =
     (if pod_deletionTimestamp p \<noteq> None \<or> pod_phase p \<noteq> ''Running'' then HasRunningMultiGPUPod ps
      else if PodGPUUnits p \<ge> MultiGPUPodMinGPUs then True
      else HasRunningMultiGPUPod ps)"

section \<open>The NodeOps interface\<close>

text \<open>\<open>cacheNodeOps\<close>: \<open>listPods\<close> is the pod list of the API cache, by node name.\<close>

definition RunningPerformanceSensitivePodCount :: "(string \<Rightarrow> goerr + Pod list) \<Rightarrow> string \<Rightarrow> goerr + int" where
  "RunningPerformanceSensitivePodCount listPods nodeName =
     (case listPods nodeName of Inl e \<Rightarrow> Inl e | Inr pods \<Rightarrow> Inr (CountPerformanceSensitivePods pods))"

locale node_ops =
  fixes running :: "string \<Rightarrow> goerr + int"
  assumes running_nonneg: "running n = Inr c \<Longrightarrow> 0 \<le> c"
begin

lemma guard_name [simp]: "na_nodeName (guardOne running a) = na_nodeName a"
  by (auto simp: guardOne_def setLabels_def split: sum.splits)

lemma guard_performance:
  "na_profile a = profilePerformance \<Longrightarrow>
     na_profile (guardOne running a) = profilePerformance \<and> \<not> na_draining (guardOne running a) \<and>
     na_state (guardOne running a) = StateActivePerformance"
  by (simp add: guardOne_def setLabels_def ComputeDesiredLabels_def CurrentProfileOrDefault_def AssignmentState_def)

lemma guard_eco:
  "na_profile a = profileEco \<Longrightarrow> running (na_nodeName a) = Inr c \<Longrightarrow>
     na_profile (guardOne running a) = profileEco \<and> na_draining (guardOne running a) = (c > 0) \<and>
     na_state (guardOne running a) = (if c = 0 then StateActiveEco else StateDrainingPerformance)"
  using running_nonneg [of "na_nodeName a" c]
  by (auto simp: guardOne_def setLabels_def ComputeDesiredLabels_def CurrentProfileOrDefault_def AssignmentState_def)

lemma guard_error:
  "na_profile a = profileEco \<Longrightarrow> running (na_nodeName a) = Inl e \<Longrightarrow> guardOne running a = a"
  by (simp add: guardOne_def)

lemma guard_active_eco:
  assumes "running (na_nodeName a) = Inr c" and "na_state (guardOne running a) = StateActiveEco"
  shows "c = 0 \<and> na_profile a = profileEco"
proof (cases "na_profile a = profileEco")
  case True
  with guard_eco [OF True assms(1)] assms(2) show ?thesis by (auto split: if_splits)
next
  case False
  with assms(2) show ?thesis
    by (auto simp: guardOne_def setLabels_def ComputeDesiredLabels_def CurrentProfileOrDefault_def AssignmentState_def
        split: if_splits)
qed

end

lemma CountPerformanceSensitivePods_nonneg: "0 \<le> CountPerformanceSensitivePods ps"
  by (induction ps) auto

interpretation cacheOps: node_ops "RunningPerformanceSensitivePodCount listPods" for listPods
  by unfold_locales
     (auto simp: RunningPerformanceSensitivePodCount_def CountPerformanceSensitivePods_nonneg split: sum.splits)

section \<open>Counting pods\<close>

definition runsPerformance :: "Pod \<Rightarrow> bool" where
  "runsPerformance p \<longleftrightarrow> pod_deletionTimestamp p = None \<and>
     pod_phase p \<notin> {''Succeeded'', ''Failed'', ''Pending''} \<and> IsPerformanceSensitivePod p"

lemma CountPerformanceSensitivePods_filter:
  "CountPerformanceSensitivePods ps = int (length (filter runsPerformance ps))"
  by (induction ps) (auto simp: runsPerformance_def)

lemma CountPerformanceDemand_filter:
  "CountPerformanceDemand ps = int (length (filter (\<lambda>p. pod_deletionTimestamp p = None \<and>
     pod_phase p \<notin> {''Succeeded'', ''Failed''} \<and> IsPerformanceSensitivePod p) ps))"
  by (induction ps) auto

lemma count_zero_iff: "CountPerformanceSensitivePods ps = 0 \<longleftrightarrow> (\<forall>p\<in>set ps. \<not> runsPerformance p)"
  by (auto simp: CountPerformanceSensitivePods_filter filter_empty_conv)

section \<open>Properties\<close>

text \<open>C6: The downgrade guard. Where the pods of a node can be listed, an assignment leaves the
  guard as active eco only if it was planned eco and no running pod of the node needs a
  performance node; a node with such pods stays labelled eco but draining; a node planned in
  performance passes unchanged. Node names and their order are kept.\<close>

theorem ApplyDowngradeGuards_safe:
  assumes "\<forall>a \<in> set plan. \<exists>pods. listPods (na_nodeName a) = Inr pods"
  shows "map na_nodeName (ApplyDowngradeGuards (RunningPerformanceSensitivePodCount listPods) plan) = map na_nodeName plan \<and>
    (\<forall>b \<in> set (ApplyDowngradeGuards (RunningPerformanceSensitivePodCount listPods) plan).
           na_state b = StateActiveEco \<longrightarrow>
           (\<forall>pods. listPods (na_nodeName b) = Inr pods \<longrightarrow> (\<forall>p \<in> set pods. \<not> runsPerformance p))) \<and>
    (\<forall>a \<in> set plan. na_profile a = profileEco \<longrightarrow>
           (\<exists>p \<in> set (projr (listPods (na_nodeName a))). runsPerformance p) \<longrightarrow>
           na_profile (guardOne (RunningPerformanceSensitivePodCount listPods) a) = profileEco \<and>
           na_draining (guardOne (RunningPerformanceSensitivePodCount listPods) a) \<and>
           na_state (guardOne (RunningPerformanceSensitivePodCount listPods) a) = StateDrainingPerformance) \<and>
    (\<forall>a \<in> set plan. na_profile a = profilePerformance \<longrightarrow>
           na_profile (guardOne (RunningPerformanceSensitivePodCount listPods) a) = profilePerformance \<and>
           \<not> na_draining (guardOne (RunningPerformanceSensitivePodCount listPods) a))"
proof (intro conjI)
  let ?ops = "RunningPerformanceSensitivePodCount listPods"
  have ops: "?ops n = Inr (CountPerformanceSensitivePods pods)" if "listPods n = Inr pods" for n pods
    using that by (simp add: RunningPerformanceSensitivePodCount_def)
  show "map na_nodeName (ApplyDowngradeGuards ?ops plan) = map na_nodeName plan"
    by (simp add: ApplyDowngradeGuards_def)
  show "\<forall>b \<in> set (ApplyDowngradeGuards ?ops plan). na_state b = StateActiveEco \<longrightarrow>
           (\<forall>pods. listPods (na_nodeName b) = Inr pods \<longrightarrow> (\<forall>p \<in> set pods. \<not> runsPerformance p))"
    using cacheOps.guard_active_eco [OF ops] by (auto simp: ApplyDowngradeGuards_def count_zero_iff [symmetric])
  show "\<forall>a \<in> set plan. na_profile a = profileEco \<longrightarrow>
           (\<exists>p \<in> set (projr (listPods (na_nodeName a))). runsPerformance p) \<longrightarrow>
           na_profile (guardOne ?ops a) = profileEco \<and> na_draining (guardOne ?ops a) \<and>
           na_state (guardOne ?ops a) = StateDrainingPerformance"
  proof (intro ballI impI)
    fix a assume a: "a \<in> set plan" "na_profile a = profileEco"
      and busy: "\<exists>p \<in> set (projr (listPods (na_nodeName a))). runsPerformance p"
    obtain pods where pods: "listPods (na_nodeName a) = Inr pods" using assms a(1) by blast
    have "CountPerformanceSensitivePods pods \<noteq> 0" using busy pods by (auto simp: count_zero_iff)
    then show "na_profile (guardOne ?ops a) = profileEco \<and> na_draining (guardOne ?ops a) \<and>
           na_state (guardOne ?ops a) = StateDrainingPerformance"
      using cacheOps.guard_eco [OF a(2) ops [OF pods]] CountPerformanceSensitivePods_nonneg [of pods] by auto
  qed
  show "\<forall>a \<in> set plan. na_profile a = profilePerformance \<longrightarrow>
           na_profile (guardOne ?ops a) = profilePerformance \<and> \<not> na_draining (guardOne ?ops a)"
    using cacheOps.guard_performance by blast
qed

definition examplePerfPod :: Pod where
  "examplePerfPod = \<lparr>pod_annotations = [WorkloadClassAnnotation \<mapsto> profilePerformance], pod_nodeSelector = Map.empty,
     pod_affinity = None, pod_deletionTimestamp = None, pod_phase = ''Running'', pod_containers = [], pod_initContainers = []\<rparr>"

theorem ApplyDowngradeGuards_safe_witness:
  "na_state (guardOne (RunningPerformanceSensitivePodCount (\<lambda>_. Inr [examplePerfPod]))
      (mkAssignment ''n1'' profileEco 120 ''m'')) = StateDrainingPerformance"
proof -
  let ?a = "mkAssignment ''n1'' profileEco 120 ''m''" and ?l = "\<lambda>_ :: string. Inr [examplePerfPod] :: goerr + Pod list"
  have "runsPerformance examplePerfPod"
    by (simp add: runsPerformance_def IsPerformanceSensitivePod_def PodExcludesEco_def examplePerfPod_def map_get_def
        TrimSpace_def trim_by_def is_space_def)
  then show ?thesis using ApplyDowngradeGuards_safe [of "[?a]" ?l] by (simp add: mkAssignment_def)
qed

text \<open>C12: The guard fails open. When the pods of a node cannot be listed, an assignment planned
  eco and not draining (as the reconcile sets it up) leaves the guard unchanged, as active eco,
  whatever runs on the node.\<close>

theorem ApplyDowngradeGuards_fails_open:
  assumes "listPods (na_nodeName a) = Inl e" and "na_profile a = profileEco" and "\<not> na_draining a"
    and "na_state a = AssignmentState (na_profile a) (na_draining a)"
  shows "ApplyDowngradeGuards (RunningPerformanceSensitivePodCount listPods) [a] = [a] \<and> na_state a = StateActiveEco"
proof -
  have "RunningPerformanceSensitivePodCount listPods (na_nodeName a) = Inl e"
    using assms(1) by (simp add: RunningPerformanceSensitivePodCount_def)
  then have "guardOne (RunningPerformanceSensitivePodCount listPods) a = a"
    by (rule cacheOps.guard_error [OF assms(2)])
  then show ?thesis using assms(2-4) by (simp add: ApplyDowngradeGuards_def AssignmentState_def)
qed

theorem ApplyDowngradeGuards_fails_open_witness:
  "ApplyDowngradeGuards (RunningPerformanceSensitivePodCount (\<lambda>_. Inl ''cache''))
     [setLabels (mkAssignment ''n1'' profileEco 120 ''m'') (profileEco, False)]
   = [setLabels (mkAssignment ''n1'' profileEco 120 ''m'') (profileEco, False)]"
  by (rule ApplyDowngradeGuards_fails_open [THEN conjunct1]) (simp_all add: setLabels_def)

text \<open>The two pod counts are what their comments say: the drain count is the number of pods
  that are neither deleted, finished nor pending and exclude eco nodes; the demand adds the
  pending ones, so it is never smaller.\<close>

theorem pod_counts_correct:
  "CountPerformanceSensitivePods ps = int (length (filter runsPerformance ps)) \<and>
   CountPerformanceDemand ps = CountPerformanceSensitivePods ps +
     int (length (filter (\<lambda>p. pod_deletionTimestamp p = None \<and> pod_phase p = ''Pending'' \<and> IsPerformanceSensitivePod p) ps))"
proof (induction ps)
  case (Cons p ps)
  then show ?case by (cases "pod_phase p = ''Pending''") (auto simp: runsPerformance_def)
qed simp

end
