(* ===== verification/Hw_Catalog.thy ===== *)
theory Hw_Catalog
  imports Go_Prelude
begin

text \<open>
  The hardware catalog of \<^verbatim>\<open>pkg/hwinv/catalog.go\<close>: the specs of known CPUs and GPUs, the name
  normalisation that matches a node's raw model string to a catalog entry, and the cap
  ranges a percent cap is resolved against. Reading the YAML file is not modelled: a
  \<open>Catalog\<close> is the decoded value. Go iterates over a map in an unspecified order, so a
  catalog holds its entries as an association list in any order, and the matching lemmas
  show when the order does not matter.
\<close>

section \<open>Catalog data\<close>

record PowerPoint =
  pp_loadPct :: f64
  pp_powerW :: f64

record CurveSource =
  cs_source :: string
  cs_points :: "PowerPoint list"

record CPUProxySpec =
  px_family :: string
  px_method :: string

record CPUOfficialSpec =
  co_vendor :: string
  co_baseGHz :: f64
  co_boostGHz :: f64
  co_tdpW :: f64
  co_cTdpRangeW :: "f64 list"
  co_driverFamily :: string

text \<open>\<open>cm_node2S\<close> folds the two pointers \<open>measuredCurves.node2S\<close>.\<close>

record CPUModelSpec =
  cm_aliases :: "string list"
  cm_provenance :: string
  cm_official :: CPUOfficialSpec
  cm_node2S :: "CurveSource option"
  cm_proxyFrom :: "CPUProxySpec option"

record GPUOfficialSpec =
  go_vendor :: string
  go_maxBoardPowerW :: f64
  go_minBoardPowerW :: f64

record GPUModelSpec =
  gm_aliases :: "string list"
  gm_provenance :: string
  gm_official :: GPUOfficialSpec

record Catalog =
  cat_version :: string
  cat_cpuModels :: "(string \<times> CPUModelSpec) list"
  cat_gpuModels :: "(string \<times> GPUModelSpec) list"

record NodeDescriptor =
  nd_cpuModelRaw :: string
  nd_cpuVendor :: string
  nd_cpuSockets :: int
  nd_cpuCores :: int
  nd_gpuModelRaw :: string
  nd_gpuVendor :: string
  nd_gpuCount :: int

definition descOf :: "string \<Rightarrow> int \<Rightarrow> int \<Rightarrow> string \<Rightarrow> int \<Rightarrow> NodeDescriptor" where
  "descOf cpu sockets cores gpu gpus =
     \<lparr>nd_cpuModelRaw = cpu, nd_cpuVendor = [], nd_cpuSockets = sockets, nd_cpuCores = cores,
      nd_gpuModelRaw = gpu, nd_gpuVendor = [], nd_gpuCount = gpus\<rparr>"

record MatchResult =
  mr_cpuKey :: string
  mr_cpuSpec :: "CPUModelSpec option"
  mr_gpuKey :: string
  mr_gpuSpec :: "GPUModelSpec option"
  mr_warnings :: "string list"

section \<open>Cap ranges\<close>

definition SocketCapMinFractionOfTDP :: f64 where
  "SocketCapMinFractionOfTDP = 55 / 100"

definition SocketCapRangeW :: "CPUOfficialSpec \<Rightarrow> (f64 \<times> f64) option" where
  "SocketCapRangeW o' =
     (if co_tdpW o' \<le> 0 then None else Some (SocketCapMinFractionOfTDP * co_tdpW o', co_tdpW o'))"

definition CapForPctW :: "f64 \<Rightarrow> f64 \<Rightarrow> f64 \<Rightarrow> f64" where
  "CapForPctW pct minW maxW =
     (let target = pct / 100 * maxW;
          target = (if target < minW then minW else target)
      in if target > maxW then maxW else target)"

record NodeCPUCapRange =
  ncr_key :: string
  ncr_sockets :: int
  ncr_socketMinW :: f64
  ncr_socketMaxW :: f64

definition MinW :: "NodeCPUCapRange \<Rightarrow> f64" where
  "MinW r = ncr_socketMinW r * real_of_int (ncr_sockets r)"

definition MaxW :: "NodeCPUCapRange \<Rightarrow> f64" where
  "MaxW r = ncr_socketMaxW r * real_of_int (ncr_sockets r)"

definition NodeCapForPctW :: "NodeCPUCapRange \<Rightarrow> f64 \<Rightarrow> f64" where
  "NodeCapForPctW r pct = CapForPctW pct (MinW r) (MaxW r)"

section \<open>Name normalisation\<close>

text \<open>
  \<open>cpuClockSuffixRE\<close> is white space, an optional \<open>cpu\<close> word and white space, an at sign,
  a decimal number, \<open>ghz\<close> or \<open>mhz\<close>, up to the end of the string. The character classes that
  follow one another are disjoint, so matching from a given start needs no backtracking.
\<close>

definition skipSpace :: "string \<Rightarrow> string" where
  "skipSpace s = dropWhile is_space s"

definition isClockDigit :: "char \<Rightarrow> bool" where
  "isClockDigit c \<longleftrightarrow> c \<in> set ''0123456789.''"

definition hzTail :: "string \<Rightarrow> bool" where
  "hzTail s = (case s of
      u # h # z # rest \<Rightarrow> u \<in> {CHR ''g'', CHR ''m''} \<and> h = CHR ''h'' \<and> z = CHR ''z'' \<and> skipSpace rest = []
    | _ \<Rightarrow> False)"

definition atTail :: "string \<Rightarrow> bool" where
  "atTail s = (case s of
      c # rest \<Rightarrow> c = CHR ''@'' \<and>
        (let num = skipSpace rest
         in takeWhile isClockDigit num \<noteq> [] \<and> hzTail (skipSpace (dropWhile isClockDigit num)))
    | [] \<Rightarrow> False)"

definition clockSuffixAt :: "string \<Rightarrow> bool" where
  "clockSuffixAt s =
     (let s1 = skipSpace s
      in s1 \<noteq> s \<and>
         (atTail s1 \<or>
          (HasPrefix s1 ''cpu'' \<and>
           (let s2 = drop 3 s1; s3 = skipSpace s2 in s3 \<noteq> s2 \<and> atTail s3))))"

fun stripClockSuffix :: "string \<Rightarrow> string" where
  "stripClockSuffix [] = []"
| "stripClockSuffix (c # s) = (if clockSuffixAt (c # s) then [] else c # stripClockSuffix s)"

text \<open>
  The \<open>strings.NewReplacer\<close> call: at each position the first pair that matches, in argument
  order. The two trademark signs are their UTF-8 bytes.
\<close>

fun replaceName :: "string \<Rightarrow> string" where
  "replaceName [] = []"
| "replaceName (c # s) =
     (if HasPrefix (c # s) ''(r)'' then replaceName (drop 2 s)
      else if HasPrefix (c # s) [CHR 0xC2, CHR 0xAE] then replaceName (drop 1 s)
      else if HasPrefix (c # s) [CHR 0xE2, CHR 0x84, CHR 0xA2] then replaceName (drop 2 s)
      else if c \<in> set ''()-_/,'' then CHR '' '' # replaceName s
      else c # replaceName s)"

text \<open>\<open>cpuClockTokenRE\<close>: digits, optionally a point and digits, then \<open>ghz\<close> or \<open>mhz\<close>.\<close>

definition isDigit :: "char \<Rightarrow> bool" where
  "isDigit c \<longleftrightarrow> c \<in> set ''0123456789''"

definition isClockToken :: "string \<Rightarrow> bool" where
  "isClockToken s =
     (let rest = dropWhile isDigit s
      in takeWhile isDigit s \<noteq> [] \<and>
         (rest \<in> {''ghz'', ''mhz''} \<or>
          (rest \<noteq> [] \<and> hd rest = CHR ''.'' \<and> takeWhile isDigit (tl rest) \<noteq> [] \<and>
           dropWhile isDigit (tl rest) \<in> {''ghz'', ''mhz''})))"

definition dropClockToken :: "string list \<Rightarrow> string list" where
  "dropClockToken kept =
     (if kept \<noteq> [] \<and> isClockToken (last kept)
      then (let kept = butlast kept
            in if kept \<noteq> [] \<and> last kept = ''cpu'' then butlast kept else kept)
      else kept)"

definition normalizeName :: "string \<Rightarrow> string" where
  "normalizeName raw =
     (let s = ToLower (TrimSpace raw)
      in if s = [] then []
         else let tokens = Fields (replaceName (stripClockSuffix s));
                  kept = filter (\<lambda>tok. tok \<noteq> ''r'' \<and> tok \<noteq> ''tm'') tokens
              in Join (dropClockToken kept) '' '')"

section \<open>Matching\<close>

text \<open>One entry answers to its key and to its aliases.\<close>

definition entryNames :: "string \<Rightarrow> string list \<Rightarrow> string list" where
  "entryNames key aliases = map normalizeName (key # aliases)"

fun matchEntry :: "('s \<Rightarrow> string list) \<Rightarrow> string \<Rightarrow> (string \<times> 's) list \<Rightarrow> (string \<times> 's) option" where
  "matchEntry aliasesOf needle [] = None"
| "matchEntry aliasesOf needle ((key, spec) # entries) =
     (if needle \<in> set (entryNames key (aliasesOf spec)) then Some (key, spec)
      else matchEntry aliasesOf needle entries)"

definition matchModel :: "('s \<Rightarrow> string list) \<Rightarrow> (string \<times> 's) list \<Rightarrow> string \<Rightarrow> (string \<times> 's) option" where
  "matchModel aliasesOf entries raw =
     (let needle = normalizeName raw in if needle = [] then None else matchEntry aliasesOf needle entries)"

definition MatchCPU :: "Catalog option \<Rightarrow> string \<Rightarrow> (string \<times> CPUModelSpec) option" where
  "MatchCPU c raw = (case c of None \<Rightarrow> None | Some cat \<Rightarrow> matchModel cm_aliases (cat_cpuModels cat) raw)"

definition MatchGPU :: "Catalog option \<Rightarrow> string \<Rightarrow> (string \<times> GPUModelSpec) option" where
  "MatchGPU c raw = (case c of None \<Rightarrow> None | Some cat \<Rightarrow> matchModel gm_aliases (cat_gpuModels cat) raw)"

definition MatchNode :: "Catalog option \<Rightarrow> NodeDescriptor \<Rightarrow> MatchResult" where
  "MatchNode c desc =
     (case c of
        None \<Rightarrow> \<lparr>mr_cpuKey = [], mr_cpuSpec = None, mr_gpuKey = [], mr_gpuSpec = None,
                 mr_warnings = (if nd_cpuModelRaw desc \<noteq> [] then [''catalog unavailable for cpu matching''] else []) @
                               (if nd_gpuModelRaw desc \<noteq> [] then [''catalog unavailable for gpu matching''] else [])\<rparr>
      | Some _ \<Rightarrow>
          \<lparr>mr_cpuKey = (case MatchCPU c (nd_cpuModelRaw desc) of Some (k, _) \<Rightarrow> k | None \<Rightarrow> []),
           mr_cpuSpec = (case MatchCPU c (nd_cpuModelRaw desc) of Some (_, s) \<Rightarrow> Some s | None \<Rightarrow> None),
           mr_gpuKey = (case MatchGPU c (nd_gpuModelRaw desc) of Some (k, _) \<Rightarrow> k | None \<Rightarrow> []),
           mr_gpuSpec = (case MatchGPU c (nd_gpuModelRaw desc) of Some (_, s) \<Rightarrow> Some s | None \<Rightarrow> None),
           mr_warnings =
             (if MatchCPU c (nd_cpuModelRaw desc) = None \<and> TrimSpace (nd_cpuModelRaw desc) \<noteq> []
              then [''cpu model not recognized: '' @ nd_cpuModelRaw desc] else []) @
             (if MatchGPU c (nd_gpuModelRaw desc) = None \<and> TrimSpace (nd_gpuModelRaw desc) \<noteq> []
              then [''gpu model not recognized: '' @ nd_gpuModelRaw desc] else [])\<rparr>)"

definition NodeCPUCapRangeW :: "Catalog option \<Rightarrow> string \<Rightarrow> int \<Rightarrow> goerr + NodeCPUCapRange" where
  "NodeCPUCapRangeW c rawModel sockets =
     (case MatchCPU c rawModel of
        None \<Rightarrow> Inl (''cpu model '' @ rawModel @ '' not in the hardware catalog'')
      | Some (key, spec) \<Rightarrow>
          (case SocketCapRangeW (cm_official spec) of
             None \<Rightarrow> Inl (''hardware catalog '' @ key @ '' has no TDP'')
           | Some (minW, maxW) \<Rightarrow>
               if sockets \<le> 0 then Inl (''socket count of '' @ key @ '' unknown'')
               else Inr \<lparr>ncr_key = key, ncr_sockets = sockets, ncr_socketMinW = minW, ncr_socketMaxW = maxW\<rparr>))"

text \<open>\<open>SimulatedNodeCPU\<close> and \<open>ParseIntString\<close>, which ignores the error of \<open>Atoi\<close>.\<close>

definition ParseIntString :: "string \<Rightarrow> int" where
  "ParseIntString raw = AtoiValue (TrimSpace raw)"

definition SimulatedNodeCPU :: "strmap \<Rightarrow> string \<times> int" where
  "SimulatedNodeCPU labels =
     (firstNonEmpty [map_get labels ''joulie.io/hw.cpu-model'',
                     map_get labels ''feature.node.kubernetes.io/cpu-model.name''],
      ParseIntString (map_get labels ''joulie.io/hw.cpu-sockets''))"

section \<open>Validation\<close>

definition validCPUEntry :: "string \<times> CPUModelSpec \<Rightarrow> bool" where
  "validCPUEntry = (\<lambda>(key, cpu).
     TrimSpace key \<noteq> [] \<and> co_tdpW (cm_official cpu) > 0 \<and>
     co_baseGHz (cm_official cpu) > 0 \<and> co_boostGHz (cm_official cpu) > 0 \<and>
     (case cm_node2S cpu of None \<Rightarrow> True | Some c \<Rightarrow> cs_points c \<noteq> []))"

definition validGPUEntry :: "string \<times> GPUModelSpec \<Rightarrow> bool" where
  "validGPUEntry = (\<lambda>(key, gpu). TrimSpace key \<noteq> [] \<and> go_maxBoardPowerW (gm_official gpu) > 0)"

text \<open>Whether \<open>ValidateCatalog\<close> returns no error; which of several errors it names depends on
  the map order and is not modelled.\<close>

definition ValidateCatalog :: "Catalog option \<Rightarrow> bool" where
  "ValidateCatalog c = (case c of
      None \<Rightarrow> True
    | Some cat \<Rightarrow> TrimSpace (cat_version cat) \<noteq> [] \<and>
        list_all validCPUEntry (cat_cpuModels cat) \<and> list_all validGPUEntry (cat_gpuModels cat))"

section \<open>Lemmas\<close>

lemma CapForPctW_bounds: "minW \<le> maxW \<Longrightarrow> minW \<le> CapForPctW pct minW maxW \<and> CapForPctW pct minW maxW \<le> maxW"
  by (simp add: CapForPctW_def Let_def)

lemma CapForPctW_le_max: "CapForPctW pct minW maxW \<le> maxW"
  by (simp add: CapForPctW_def Let_def)

lemma CapForPctW_mono:
  assumes "p \<le> q" "0 \<le> maxW"
  shows "CapForPctW p minW maxW \<le> CapForPctW q minW maxW"
proof -
  have "p / 100 * maxW \<le> q / 100 * maxW" using assms by (simp add: mult_right_mono)
  then show ?thesis by (simp add: CapForPctW_def Let_def)
qed

lemma CapForPctW_full: "0 \<le> maxW \<Longrightarrow> 100 \<le> pct \<Longrightarrow> CapForPctW pct minW maxW = maxW"
  using CapForPctW_mono [of 100 pct maxW minW] CapForPctW_le_max [of pct minW maxW]
  by (auto simp: CapForPctW_def Let_def split: if_splits)

lemma matchEntry_Some:
  "matchEntry al needle es = Some (k, s) \<Longrightarrow> (k, s) \<in> set es \<and> needle \<in> set (entryNames k (al s))"
  by (induction es) (auto split: if_splits)

lemma matchEntry_None: "matchEntry al needle es = None \<longleftrightarrow> (\<forall>(k, s) \<in> set es. needle \<notin> set (entryNames k (al s)))"
  by (induction es) (auto split: if_splits)

lemma normalizeName_Nil: "TrimSpace raw = [] \<Longrightarrow> normalizeName raw = []"
  by (simp add: normalizeName_def ToLower_def)

text \<open>A catalog is unambiguous when no two entries answer to the same normalised name.\<close>

definition unambiguous :: "('s \<Rightarrow> string list) \<Rightarrow> (string \<times> 's) list \<Rightarrow> bool" where
  "unambiguous al es \<longleftrightarrow> (\<forall>(k, s) \<in> set es. \<forall>(k', s') \<in> set es.
     set (entryNames k (al s)) \<inter> set (entryNames k' (al s')) - {[]} \<noteq> {} \<longrightarrow> (k, s) = (k', s'))"

lemma matchModel_order:
  assumes "unambiguous al es" and "set es = set es'"
  shows "matchModel al es raw = matchModel al es' raw"
proof (cases "normalizeName raw = []")
  case False
  let ?n = "normalizeName raw"
  have "matchEntry al ?n es = matchEntry al ?n es'"
  proof (cases "matchEntry al ?n es")
    case None
    then have "matchEntry al ?n es' = None" using assms(2) by (simp add: matchEntry_None)
    then show ?thesis using None by simp
  next
    case (Some ks)
    obtain k s where ks: "ks = (k, s)" by (cases ks)
    have 1: "(k, s) \<in> set es" "?n \<in> set (entryNames k (al s))" using matchEntry_Some Some ks by metis+
    then have "matchEntry al ?n es' \<noteq> None" using assms(2) matchEntry_None [of al ?n es'] by fastforce
    then obtain k' s' where 2: "matchEntry al ?n es' = Some (k', s')" by auto
    then have 3: "(k', s') \<in> set es" "?n \<in> set (entryNames k' (al s'))"
      using matchEntry_Some [OF 2] assms(2) by auto
    have "(k, s) = (k', s')" using assms(1) 1 3 False unfolding unambiguous_def by fastforce
    then show ?thesis using Some 2 ks by simp
  qed
  then show ?thesis by (simp add: matchModel_def Let_def)
qed (simp add: matchModel_def Let_def)

section \<open>Properties\<close>

text \<open>A percent cap resolved against a node's catalog range stays between the node's lowest
  and highest cap, grows with the percentage, and is the full TDP at 100 percent or more. The
  range exists for a validated catalog whenever the model is known and the socket count is
  positive, and then the lowest cap is 55 percent of the highest, above zero.\<close>

theorem NodeCPUCapRangeW_sound:
  assumes "ValidateCatalog (Some c)" and "MatchCPU (Some c) rawModel = Some (key, spec)" and "0 < sockets"
  shows "\<exists>r. NodeCPUCapRangeW (Some c) rawModel sockets = Inr r \<and> ncr_key r = key \<and>
       0 < MinW r \<and> MinW r = 55 / 100 * MaxW r \<and> MaxW r = co_tdpW (cm_official spec) * real_of_int sockets \<and>
       (\<forall>pct. MinW r \<le> NodeCapForPctW r pct \<and> NodeCapForPctW r pct \<le> MaxW r) \<and>
       (\<forall>p q. p \<le> q \<longrightarrow> NodeCapForPctW r p \<le> NodeCapForPctW r q) \<and>
       (\<forall>pct. 100 \<le> pct \<longrightarrow> NodeCapForPctW r pct = MaxW r)"
proof -
  have "(key, spec) \<in> set (cat_cpuModels c)"
    using assms(2) matchEntry_Some [of cm_aliases _ "cat_cpuModels c" key spec]
    by (auto simp: MatchCPU_def matchModel_def Let_def split: if_splits)
  then have tdp: "0 < co_tdpW (cm_official spec)"
    using assms(1) by (auto simp: ValidateCatalog_def list_all_iff validCPUEntry_def)
  define r where "r = \<lparr>ncr_key = key, ncr_sockets = sockets,
     ncr_socketMinW = SocketCapMinFractionOfTDP * co_tdpW (cm_official spec), ncr_socketMaxW = co_tdpW (cm_official spec)\<rparr>"
  have eq: "NodeCPUCapRangeW (Some c) rawModel sockets = Inr r"
    using assms(2,3) tdp by (simp add: NodeCPUCapRangeW_def SocketCapRangeW_def r_def)
  have max: "MaxW r = co_tdpW (cm_official spec) * real_of_int sockets" "0 < MaxW r"
    and min: "MinW r = 55 / 100 * MaxW r" "0 < MinW r"
    using tdp assms(3) by (simp_all add: MaxW_def MinW_def r_def SocketCapMinFractionOfTDP_def)
  then have "MinW r \<le> MaxW r" by simp
  then show ?thesis
    using eq max min CapForPctW_bounds CapForPctW_mono CapForPctW_full
    by (intro exI [of _ r]) (auto simp: NodeCapForPctW_def r_def)
qed

definition exampleCatalog :: Catalog where
  "exampleCatalog = \<lparr>cat_version = ''v1'',
     cat_cpuModels = [(''Intel-Xeon-Gold-6530'',
        \<lparr>cm_aliases = [''Intel Xeon Gold 6530''], cm_provenance = ''vendor'',
         cm_official = \<lparr>co_vendor = ''intel'', co_baseGHz = 21 / 10, co_boostGHz = 4, co_tdpW = 270,
                        co_cTdpRangeW = [], co_driverFamily = ''intel''\<rparr>,
         cm_node2S = None, cm_proxyFrom = None\<rparr>)],
     cat_gpuModels = []\<rparr>"

lemma exampleCatalog_match:
  "map_option fst (MatchCPU (Some exampleCatalog) ''Intel(R) Xeon(R) Gold 6530 CPU @ 2.10GHz'') = Some ''Intel-Xeon-Gold-6530''"
  by code_simp

theorem NodeCPUCapRangeW_sound_witness:
  "\<exists>r. NodeCPUCapRangeW (Some exampleCatalog) ''Intel(R) Xeon(R) Gold 6530 CPU @ 2.10GHz'' 2 = Inr r \<and> 0 < MinW r"
proof -
  have v: "ValidateCatalog (Some exampleCatalog)"
    by (simp add: ValidateCatalog_def exampleCatalog_def validCPUEntry_def TrimSpace_def trim_by_def is_space_def)
  obtain key spec where m: "MatchCPU (Some exampleCatalog) ''Intel(R) Xeon(R) Gold 6530 CPU @ 2.10GHz'' = Some (key, spec)"
    using exampleCatalog_match by auto
  show ?thesis using NodeCPUCapRangeW_sound [OF v m, of 2] by auto
qed

text \<open>Matching a model name does not depend on the order in which Go iterates over the
  catalog maps, as long as no two entries answer to the same normalised name.\<close>

theorem MatchNode_order_independent:
  assumes "unambiguous cm_aliases (cat_cpuModels c)" and "unambiguous gm_aliases (cat_gpuModels c)"
    and "set (cat_cpuModels c') = set (cat_cpuModels c)" and "set (cat_gpuModels c') = set (cat_gpuModels c)"
  shows "MatchNode (Some c') desc = MatchNode (Some c) desc"
proof -
  have "MatchCPU (Some c') raw = MatchCPU (Some c) raw" "MatchGPU (Some c') raw = MatchGPU (Some c) raw" for raw
    using matchModel_order [OF assms(1) assms(3) [symmetric]] matchModel_order [OF assms(2) assms(4) [symmetric]]
    by (simp_all add: MatchCPU_def MatchGPU_def)
  then show ?thesis by (simp add: MatchNode_def)
qed

theorem MatchNode_order_independent_witness:
  "MatchNode (Some exampleCatalog) (descOf ''x'' 1 1 [] 0)
     = MatchNode (Some (exampleCatalog\<lparr>cat_version := ''v2''\<rparr>)) (descOf ''x'' 1 1 [] 0)"
  by (rule MatchNode_order_independent) (simp_all add: unambiguous_def exampleCatalog_def)

end
