(* ===== verification/Digital_Twin.thy ===== *)
theory Digital_Twin
  imports Joulie_Api Hw_Catalog
begin

text \<open>
  The digital twin of \<^verbatim>\<open>pkg/controller/twin/twin.go\<close>: from a node's hardware facts, caps and
  measured power to the scores the scheduler reads. The input keeps the fields \<open>Compute\<close>
  reads; \<open>time.Now\<close> is not part of the modelled output.
\<close>

section \<open>Input and output\<close>

record TwinInput =
  ti_nodeName :: string
  ti_cpu :: NodeHardwareCPU
  ti_gpu :: NodeHardwareGPU
  ti_profile :: string
  ti_cpuCapPct :: f64
  ti_gpuCapPct :: f64
  ti_gpuCapNotApplied :: bool
  ti_draining :: bool
  ti_measuredNodePowerW :: f64
  ti_powerTrendWPerMin :: f64
  ti_clusterTotalPowerW :: f64
  ti_outsideTempC :: f64
  ti_outsideTempKnown :: bool
  ti_rack :: string
  ti_coolingZone :: string
  ti_rackTotalPowerW :: f64

text \<open>\<open>PowerMeasurementOutput\<close> has the fields of \<open>PowerMeasurement\<close> and is modelled by it.\<close>

record TwinOutput =
  to_schedulableClass :: string
  to_headroomScore :: f64
  to_coolingStressScore :: f64
  to_psuStressScore :: f64
  to_effectiveCapState :: CapState
  to_estimatedPUE :: f64
  to_powerMeasurement :: PowerMeasurement

section \<open>Scores\<close>

definition computePowerHeadroom :: "f64 \<Rightarrow> f64 \<Rightarrow> f64" where
  "computePowerHeadroom measuredPowerW nodeCappedPowerW =
     (if nodeCappedPowerW \<le> 0 then 100
      else min 100 ((nodeCappedPowerW - measuredPowerW) / nodeCappedPowerW * 100))"

definition tempMultiplier :: "f64 \<Rightarrow> bool \<Rightarrow> f64" where
  "tempMultiplier ambientTempC ambientKnown =
     (if \<not> ambientKnown then 1 else 1 / max (1 / 2) (1 - (ambientTempC - 20) * (2 / 100)))"

definition computeCoolingStress :: "f64 \<Rightarrow> f64 \<Rightarrow> f64 \<Rightarrow> bool \<Rightarrow> f64" where
  "computeCoolingStress measuredPowerW nodeTDPW ambientTempC ambientKnown =
     (if nodeTDPW \<le> 0 then 0
      else min 100 (max 0 (measuredPowerW / nodeTDPW * tempMultiplier ambientTempC ambientKnown * 100)))"

definition referenceRackCapacityW :: f64 where
  "referenceRackCapacityW = 50000"

definition computePSUStress :: "TwinInput \<Rightarrow> f64" where
  "computePSUStress i =
     (let powerW = (if ti_rackTotalPowerW i \<le> 0 then ti_clusterTotalPowerW i else ti_rackTotalPowerW i)
      in if powerW \<le> 0 then 0
         else min 100 (max 0 (powerW / referenceRackCapacityW * 100)))"

section \<open>Budgets\<close>

definition twinClass :: "TwinInput \<Rightarrow> string" where
  "twinClass i = (if ti_draining i then ''draining''
      else if ti_profile i = ''eco'' then ''eco''
      else if ti_profile i = ''performance'' then ''performance''
      else ''unknown'')"

definition defaultPct :: "f64 \<Rightarrow> f64" where
  "defaultPct pct = (if pct \<le> 0 then 100 else pct)"

definition twinSockets :: "NodeHardwareCPU \<Rightarrow> int" where
  "twinSockets cpu = (if hc_sockets cpu \<le> 0 \<and> ccr_maxWattsPerSocket (hc_capRange cpu) > 0 then 1 else hc_sockets cpu)"

definition twinCpuTDP :: "NodeHardwareCPU \<Rightarrow> f64" where
  "twinCpuTDP cpu = ccr_maxWattsPerSocket (hc_capRange cpu) * real_of_int (twinSockets cpu)"

definition twinGpuTDP :: "NodeHardwareGPU \<Rightarrow> f64" where
  "twinGpuTDP gpu = (if hg_present gpu
      then gcr_maxWatts (hg_capRange gpu) * real_of_int (GPUPowerDomains (hg_count gpu) (hg_powerDomains gpu))
      else 0)"

definition twinCpuCapped :: "TwinInput \<Rightarrow> f64" where
  "twinCpuCapped i =
     CapForPctW (defaultPct (ti_cpuCapPct i))
       (ccr_minWattsPerSocket (hc_capRange (ti_cpu i)) * real_of_int (twinSockets (ti_cpu i)))
       (twinCpuTDP (ti_cpu i))"

definition twinGpuCapped :: "TwinInput \<Rightarrow> f64" where
  "twinGpuCapped i = (if ti_gpuCapNotApplied i then twinGpuTDP (ti_gpu i)
      else twinGpuTDP (ti_gpu i) * defaultPct (ti_gpuCapPct i) / 100)"

definition TwinCompute :: "TwinInput \<Rightarrow> TwinOutput" where
  "TwinCompute i =
     (let cpuTDP = twinCpuTDP (ti_cpu i); gpuTDP = twinGpuTDP (ti_gpu i); nodeTDP = cpuTDP + gpuTDP;
          cpuCapped = twinCpuCapped i; gpuCapped = twinGpuCapped i; nodeCapped = cpuCapped + gpuCapped;
          cooling = computeCoolingStress (ti_measuredNodePowerW i) nodeTDP (ti_outsideTempC i)
                      (ti_outsideTempKnown i \<or> ti_outsideTempC i > 0)
      in \<lparr>to_schedulableClass = twinClass i,
          to_headroomScore = computePowerHeadroom (ti_measuredNodePowerW i) nodeCapped,
          to_coolingStressScore = cooling,
          to_psuStressScore = computePSUStress i,
          to_effectiveCapState = \<lparr>cs_cpuPct = defaultPct (ti_cpuCapPct i), cs_gpuPct = defaultPct (ti_gpuCapPct i)\<rparr>,
          to_estimatedPUE = 1 + 5 / 100 + cooling / 100 * (35 / 100),
          to_powerMeasurement =
            \<lparr>pm_source = [], pm_measuredNodePowerW = ti_measuredNodePowerW i,
             pm_cpuCappedPowerW = cpuCapped, pm_gpuCappedPowerW = gpuCapped, pm_nodeCappedPowerW = nodeCapped,
             pm_cpuTdpW = cpuTDP, pm_gpuTdpW = gpuTDP, pm_nodeTdpW = nodeTDP,
             pm_powerTrendWPerMin = ti_powerTrendWPerMin i\<rparr>\<rparr>)"

text \<open>\<open>last\<close> is the agent's last GPU cap result, if there is one.\<close>

definition GPUCapApplies :: "NodeHardwareGPU \<Rightarrow> ControlResult option \<Rightarrow> bool" where
  "GPUCapApplies gpu last' =
     (let fallback = (hg_count gpu \<le> 0 \<or> hg_controlAvailable gpu)
      in case last' of
           None \<Rightarrow> fallback
         | Some r \<Rightarrow> if cr_result r = CapResultBlocked \<or> cr_result r = CapResultError then False
                     else if cr_result r = CapResultApplied then True
                     else fallback)"

section \<open>Lemmas\<close>

lemma computePowerHeadroom_le: "computePowerHeadroom m c \<le> 100"
  by (simp add: computePowerHeadroom_def)

lemma computePowerHeadroom_antimono:
  "m \<le> m' \<Longrightarrow> computePowerHeadroom m' c \<le> computePowerHeadroom m c"
  by (simp add: computePowerHeadroom_def divide_right_mono min.coboundedI2)

lemma computePowerHeadroom_nonneg_iff:
  "0 < c \<Longrightarrow> 0 \<le> computePowerHeadroom m c \<longleftrightarrow> m \<le> c"
  by (simp add: computePowerHeadroom_def zero_le_divide_iff)

lemma tempMultiplier_bounds: "0 < tempMultiplier t k \<and> tempMultiplier t k \<le> 2"
proof -
  define x :: real where "x = max (1 / 2) (1 - (t - 20) * (2 / 100))"
  have x: "1 / 2 \<le> x" unfolding x_def by (rule max.cobounded1)
  then have "0 < 1 / x" "1 / x \<le> 2" by (simp_all add: divide_le_eq)
  then show ?thesis unfolding tempMultiplier_def x_def [symmetric] by simp
qed

lemma tempMultiplier_mono: "t \<le> t' \<Longrightarrow> tempMultiplier t k \<le> tempMultiplier t' k"
  unfolding tempMultiplier_def by (auto intro!: divide_left_mono mult_pos_pos max.mono simp: less_max_iff_disj)

lemma computeCoolingStress_bounds: "0 \<le> computeCoolingStress m t a k \<and> computeCoolingStress m t a k \<le> 100"
  by (simp add: computeCoolingStress_def)

lemma computeCoolingStress_mono:
  assumes "m \<le> m'" "a \<le> a'" "0 \<le> m"
  shows "computeCoolingStress m t a k \<le> computeCoolingStress m' t a' k"
proof (cases "t \<le> 0")
  case False
  have "m / t * tempMultiplier a k \<le> m' / t * tempMultiplier a' k"
    using assms False tempMultiplier_bounds [of a k] tempMultiplier_mono [OF assms(2), of k]
    by (intro mult_mono divide_right_mono) auto
  then have "m / t * tempMultiplier a k * 100 \<le> m' / t * tempMultiplier a' k * 100"
    by (rule mult_right_mono) simp
  then show ?thesis using False unfolding computeCoolingStress_def
    by (auto simp only: if_False not_le intro!: min.mono max.mono split: if_splits)
qed (simp add: computeCoolingStress_def)

lemma computePSUStress_bounds: "0 \<le> computePSUStress i \<and> computePSUStress i \<le> 100"
  by (simp add: computePSUStress_def Let_def)

lemma defaultPct_pos: "0 < defaultPct p"
  by (simp add: defaultPct_def)

text \<open>Hardware facts as the agent publishes them: no negative watts or counts, ordered ranges.\<close>

definition saneHardware :: "TwinInput \<Rightarrow> bool" where
  "saneHardware i \<longleftrightarrow>
     0 \<le> ccr_minWattsPerSocket (hc_capRange (ti_cpu i)) \<and>
     ccr_minWattsPerSocket (hc_capRange (ti_cpu i)) \<le> ccr_maxWattsPerSocket (hc_capRange (ti_cpu i)) \<and>
     0 \<le> hc_sockets (ti_cpu i) \<and> 0 \<le> gcr_maxWatts (hg_capRange (ti_gpu i)) \<and> 0 \<le> hg_count (ti_gpu i)"

lemma twinGpuTDP_nonneg: "saneHardware i \<Longrightarrow> 0 \<le> twinGpuTDP (ti_gpu i)"
  by (auto simp: twinGpuTDP_def saneHardware_def GPUPowerDomains_def)

lemma twinCpuTDP_nonneg: "saneHardware i \<Longrightarrow> 0 \<le> twinCpuTDP (ti_cpu i)"
  by (auto simp: twinCpuTDP_def saneHardware_def twinSockets_def)

lemma twinCpuCapped_bounds:
  assumes "saneHardware i"
  shows "0 \<le> twinCpuCapped i" "twinCpuCapped i \<le> twinCpuTDP (ti_cpu i)"
proof -
  have s: "0 \<le> twinSockets (ti_cpu i)" using assms by (auto simp: twinSockets_def saneHardware_def)
  have "ccr_minWattsPerSocket (hc_capRange (ti_cpu i)) * real_of_int (twinSockets (ti_cpu i)) \<le> twinCpuTDP (ti_cpu i)"
    using assms s by (auto simp: twinCpuTDP_def saneHardware_def intro!: mult_right_mono)
  moreover have "0 \<le> ccr_minWattsPerSocket (hc_capRange (ti_cpu i)) * real_of_int (twinSockets (ti_cpu i))"
    using assms s by (auto simp: saneHardware_def)
  ultimately show "0 \<le> twinCpuCapped i" "twinCpuCapped i \<le> twinCpuTDP (ti_cpu i)"
    using CapForPctW_bounds unfolding twinCpuCapped_def by (blast intro: order_trans)+
qed

lemma twinGpuCapped_bounds:
  assumes "saneHardware i" "ti_gpuCapPct i \<le> 100"
  shows "0 \<le> twinGpuCapped i" "twinGpuCapped i \<le> twinGpuTDP (ti_gpu i)"
proof -
  have "defaultPct (ti_gpuCapPct i) \<le> 100" using assms(2) by (simp add: defaultPct_def)
  then have "twinGpuTDP (ti_gpu i) * defaultPct (ti_gpuCapPct i) \<le> twinGpuTDP (ti_gpu i) * 100"
    using twinGpuTDP_nonneg [OF assms(1)] by (intro mult_left_mono)
  moreover have "0 \<le> twinGpuTDP (ti_gpu i) * defaultPct (ti_gpuCapPct i)"
    using twinGpuTDP_nonneg [OF assms(1)] defaultPct_pos [of "ti_gpuCapPct i"] by simp
  ultimately show "0 \<le> twinGpuCapped i" "twinGpuCapped i \<le> twinGpuTDP (ti_gpu i)"
    using twinGpuTDP_nonneg [OF assms(1)] by (auto simp: twinGpuCapped_def)
qed

section \<open>Properties\<close>

text \<open>Whatever the input, the twin's scores are in their ranges: headroom at most 100, cooling
  and PSU stress between 0 and 100, the PUE estimate between 1.05 and 1.40, and the cap
  percentages it reports positive.\<close>

theorem TwinCompute_ranges:
  "to_headroomScore (TwinCompute i) \<le> 100 \<and>
   0 \<le> to_coolingStressScore (TwinCompute i) \<and> to_coolingStressScore (TwinCompute i) \<le> 100 \<and>
   0 \<le> to_psuStressScore (TwinCompute i) \<and> to_psuStressScore (TwinCompute i) \<le> 100 \<and>
   105 / 100 \<le> to_estimatedPUE (TwinCompute i) \<and> to_estimatedPUE (TwinCompute i) \<le> 140 / 100 \<and>
   0 < cs_cpuPct (to_effectiveCapState (TwinCompute i)) \<and> 0 < cs_gpuPct (to_effectiveCapState (TwinCompute i)) \<and>
   to_schedulableClass (TwinCompute i) \<in> {''draining'', ''eco'', ''performance'', ''unknown''}"
proof -
  define c where "c = to_coolingStressScore (TwinCompute i)"
  have c: "0 \<le> c" "c \<le> 100"
    using computeCoolingStress_bounds by (simp_all add: c_def TwinCompute_def Let_def)
  have "to_estimatedPUE (TwinCompute i) = 1 + 5 / 100 + c / 100 * (35 / 100)"
    by (simp add: c_def TwinCompute_def Let_def)
  then have "105 / 100 \<le> to_estimatedPUE (TwinCompute i)" "to_estimatedPUE (TwinCompute i) \<le> 140 / 100"
    using c by (simp_all add: field_simps)
  then show ?thesis using c
    by (simp add: c_def TwinCompute_def Let_def computePowerHeadroom_le computePSUStress_bounds defaultPct_pos twinClass_def)
qed

text \<open>The power budget is sound: for hardware facts without negative values the capped budget
  of a node lies between 0 and its TDP whenever the GPU cap is at most 100 percent; a node with a
  known per-socket maximum has a positive budget even when its socket count is unknown, so it is
  never taken for a node without a budget; and with a positive budget the headroom is
  non-negative exactly when the measured power is within it.\<close>

theorem TwinCompute_budget:
  assumes "saneHardware i" and "ti_gpuCapPct i \<le> 100"
  shows "0 \<le> pm_nodeCappedPowerW (to_powerMeasurement (TwinCompute i)) \<and>
         pm_nodeCappedPowerW (to_powerMeasurement (TwinCompute i)) \<le> pm_nodeTdpW (to_powerMeasurement (TwinCompute i)) \<and>
         (0 < ccr_maxWattsPerSocket (hc_capRange (ti_cpu i)) \<longrightarrow>
          0 < pm_nodeCappedPowerW (to_powerMeasurement (TwinCompute i)) \<and>
          (0 \<le> to_headroomScore (TwinCompute i) \<longleftrightarrow>
           ti_measuredNodePowerW i \<le> pm_nodeCappedPowerW (to_powerMeasurement (TwinCompute i))))"
proof (intro conjI impI)
  note b = twinCpuCapped_bounds [OF assms(1)] twinGpuCapped_bounds [OF assms]
  then show "0 \<le> pm_nodeCappedPowerW (to_powerMeasurement (TwinCompute i))"
    "pm_nodeCappedPowerW (to_powerMeasurement (TwinCompute i)) \<le> pm_nodeTdpW (to_powerMeasurement (TwinCompute i))"
    by (simp_all add: TwinCompute_def Let_def)
  assume max: "0 < ccr_maxWattsPerSocket (hc_capRange (ti_cpu i))"
  have "1 \<le> twinSockets (ti_cpu i)" using max by (auto simp: twinSockets_def)
  then have tdp: "0 < twinCpuTDP (ti_cpu i)" using max by (simp add: twinCpuTDP_def)
  then have "0 < defaultPct (ti_cpuCapPct i) / 100 * twinCpuTDP (ti_cpu i)"
    using defaultPct_pos [of "ti_cpuCapPct i"] by simp
  then have "0 < twinCpuCapped i"
    using tdp unfolding twinCpuCapped_def CapForPctW_def Let_def by auto
  then show "0 < pm_nodeCappedPowerW (to_powerMeasurement (TwinCompute i))"
    "0 \<le> to_headroomScore (TwinCompute i) \<longleftrightarrow>
     ti_measuredNodePowerW i \<le> pm_nodeCappedPowerW (to_powerMeasurement (TwinCompute i))"
    using b computePowerHeadroom_nonneg_iff by (simp_all add: TwinCompute_def Let_def)
qed

definition exampleTwinInput :: TwinInput where
  "exampleTwinInput =
     \<lparr>ti_nodeName = ''n1'',
      ti_cpu = \<lparr>hc_vendor = ''amd'', hc_rawModel = [], hc_model = [], hc_sockets = 0, hc_coresPerSocket = 0,
                hc_totalCores = 0, hc_driverFamily = [],
                hc_capRange = \<lparr>ccr_type = ''package'', ccr_minWattsPerSocket = 150, ccr_maxWattsPerSocket = 280\<rparr>,
                hc_landmarks = \<lparr>cl_minFreqMHz = 0, cl_nominalFreqMHz = 0, cl_maxBoostMHz = 0, cl_lowestNonlinearFreqMHz = 0\<rparr>,
                hc_controlAvailable = True, hc_telemetryAvailable = True, hc_warnings = []\<rparr>,
      ti_gpu = \<lparr>hg_present = False, hg_vendor = [], hg_rawModel = [], hg_model = [], hg_count = 0, hg_powerDomains = 0,
                hg_capRange = \<lparr>gcr_minWatts = 0, gcr_maxWatts = 0, gcr_defaultWatts = 0\<rparr>, hg_currentCapWatts = 0,
                hg_slicing = \<lparr>gs_supported = False, gs_modes = []\<rparr>, hg_controlAvailable = False,
                hg_telemetryAvailable = False, hg_warnings = []\<rparr>,
      ti_profile = ''eco'', ti_cpuCapPct = 60, ti_gpuCapPct = 100, ti_gpuCapNotApplied = False, ti_draining = False,
      ti_measuredNodePowerW = 100, ti_powerTrendWPerMin = 0, ti_clusterTotalPowerW = 0, ti_outsideTempC = 0,
      ti_outsideTempKnown = False, ti_rack = [], ti_coolingZone = [], ti_rackTotalPowerW = 0\<rparr>"

theorem TwinCompute_budget_witness:
  "0 < pm_nodeCappedPowerW (to_powerMeasurement (TwinCompute exampleTwinInput)) \<and>
   pm_nodeCappedPowerW (to_powerMeasurement (TwinCompute exampleTwinInput)) = 168"
proof -
  have "saneHardware exampleTwinInput" "ti_gpuCapPct exampleTwinInput \<le> 100"
    "0 < ccr_maxWattsPerSocket (hc_capRange (ti_cpu exampleTwinInput))"
    by (simp_all add: saneHardware_def exampleTwinInput_def)
  moreover have "pm_nodeCappedPowerW (to_powerMeasurement (TwinCompute exampleTwinInput)) = 168"
    by (simp add: TwinCompute_def exampleTwinInput_def twinCpuCapped_def twinGpuCapped_def twinCpuTDP_def
        twinGpuTDP_def twinSockets_def defaultPct_def CapForPctW_def Let_def)
  ultimately show ?thesis using TwinCompute_budget [of exampleTwinInput] by simp
qed

text \<open>The scores follow the load: with everything else equal, a higher measured power never
  raises the headroom and never lowers the cooling stress, and a hotter known ambient never
  lowers the cooling stress.\<close>

theorem TwinCompute_monotone:
  assumes "0 \<le> ti_measuredNodePowerW i" and "ti_measuredNodePowerW i \<le> w"
  shows "to_headroomScore (TwinCompute (i\<lparr>ti_measuredNodePowerW := w\<rparr>)) \<le> to_headroomScore (TwinCompute i) \<and>
    to_coolingStressScore (TwinCompute i) \<le> to_coolingStressScore (TwinCompute (i\<lparr>ti_measuredNodePowerW := w\<rparr>)) \<and>
    (ti_outsideTempKnown i \<longrightarrow> ti_outsideTempC i \<le> t \<longrightarrow>
     to_coolingStressScore (TwinCompute i) \<le> to_coolingStressScore (TwinCompute (i\<lparr>ti_outsideTempC := t\<rparr>)))"
  using computePowerHeadroom_antimono [OF assms(2)] computeCoolingStress_mono [OF assms(2) order_refl assms(1)]
    computeCoolingStress_mono [OF order_refl _ assms(1)]
  by (simp add: TwinCompute_def Let_def twinCpuCapped_def twinGpuCapped_def)

theorem TwinCompute_monotone_witness:
  "to_headroomScore (TwinCompute (exampleTwinInput\<lparr>ti_measuredNodePowerW := 200\<rparr>)) \<le> to_headroomScore (TwinCompute exampleTwinInput)"
  using TwinCompute_monotone [of exampleTwinInput 200 0] by (simp add: exampleTwinInput_def)

end
