(* ===== verification/Go_Json.thy ===== *)
theory Go_Json
  imports Go_Prelude
begin

text \<open>
  The values the Go code holds as \<open>interface{}\<close> after decoding JSON or reading an
  unstructured object. A \<open>map[string]interface{}\<close> is a list of entries with distinct keys;
  a type assertion that fails gives the zero value, as in the code's \<open>x, _ := v.(T)\<close>.
\<close>

datatype json =
    JNull
  | JBool bool
  | JNum f64
  | JInt int
  | JStr string
  | JArr "json list"
  | JObj "(string \<times> json) list"

type_synonym jobj = "(string \<times> json) list"

text \<open>\<open>v.(map[string]interface{})\<close> and \<open>v.([]interface{})\<close>: \<open>None\<close> is the nil map.\<close>

fun asObj :: "json \<Rightarrow> jobj option" where
  "asObj (JObj m) = Some m"
| "asObj _ = None"

fun asArr :: "json \<Rightarrow> json list" where
  "asArr (JArr xs) = xs"
| "asArr _ = []"

text \<open>\<open>m[k]\<close> on a map: a missing key reads as nil.\<close>

definition jget :: "jobj \<Rightarrow> string \<Rightarrow> json" where
  "jget m k = (case map_of m k of Some v \<Rightarrow> v | None \<Rightarrow> JNull)"

definition jgetObj :: "jobj \<Rightarrow> string \<Rightarrow> jobj option" where
  "jgetObj m k = asObj (jget m k)"

text \<open>The keys of a map in the order \<open>sort.Strings\<close> leaves them.\<close>

definition sortedKeys :: "jobj \<Rightarrow> string list" where
  "sortedKeys m = go_sort (<) (remdups (map fst m))"

lemma set_sortedKeys [simp]: "set (sortedKeys m) = fst ` set m"
  by (simp add: sortedKeys_def)

text \<open>The order of the entries does not show: two lists with the same lookups have the same keys.\<close>

lemma sortedKeys_perm:
  assumes "map_of m = map_of m'"
  shows "sortedKeys m = sortedKeys m'"
proof -
  have "fst ` set m = fst ` set m'" using assms by (metis dom_map_of_conv_image_fst)
  then have "mset (remdups (map fst m)) = mset (remdups (map fst m'))"
    by (simp add: set_eq_iff_mset_remdups_eq [symmetric])
  then have "sort (remdups (map fst m)) = sort (remdups (map fst m'))"
    by (metis properties_for_sort mset_sort sorted_sort)
  then show ?thesis
    unfolding sortedKeys_def using go_sort_key [of "(<)" "\<lambda>x. x"] by metis
qed

end
