(* ===== verification/Power_Est.thy ===== *)
theory Power_Est
  imports Joulie_Api Go_Json
begin

text \<open>
  The marginal power estimate of \<^verbatim>\<open>pkg/scheduler/powerest\<close>: the demand of a pod
  (\<^verbatim>\<open>extract.go\<close>), the quantity parsers it uses, and the linear model that turns a demand
  into watts on one node (\<^verbatim>\<open>model.go\<close>). \<open>MarginalEstimate.Explanation\<close> is a text for
  the log and is left out.
\<close>

section \<open>Types\<close>

record PodDemand =
  pd_cpuCores :: f64
  pd_memoryBytes :: f64
  pd_gpuCount :: f64
  pd_gpuVendor :: string
  pd_workloadClass :: string

record NodePowerProfile =
  npp_nodeName :: string
  npp_cpuModel :: string
  npp_gpuModel :: string
  npp_cpuTotalCores :: int
  npp_cpuSockets :: int
  npp_cpuMaxWattsTotal :: f64
  npp_gpuCount :: int
  npp_gpuMaxWattsPerGPU :: f64
  npp_hasGPU :: bool
  npp_memoryBytes :: int

record MarginalEstimate =
  me_deltaCPUWatts :: f64
  me_deltaGPUWatts :: f64
  me_deltaTotalWatts :: f64

record Coefficients =
  cf_cpuUtilCoeff :: f64
  cf_memPowerCoeff :: f64
  cf_memPowerCap :: f64
  cf_gpuUtilCoeffStandard :: f64
  cf_gpuUtilCoeffPerformance :: f64
  cf_cpuWattsPerCoreFallback :: f64
  cf_gpuMaxWattsFallbackNVIDIA :: f64
  cf_gpuMaxWattsFallbackAMD :: f64
  cf_gpuMaxWattsFallbackGeneric :: f64

definition DefaultCoefficients :: Coefficients where
  "DefaultCoefficients =
     \<lparr>cf_cpuUtilCoeff = 7 / 10, cf_memPowerCoeff = 1 / 100, cf_memPowerCap = 13 / 10,
      cf_gpuUtilCoeffStandard = 65 / 100, cf_gpuUtilCoeffPerformance = 85 / 100,
      cf_cpuWattsPerCoreFallback = 35 / 10, cf_gpuMaxWattsFallbackNVIDIA = 350,
      cf_gpuMaxWattsFallbackAMD = 400, cf_gpuMaxWattsFallbackGeneric = 350\<rparr>"

section \<open>Quantities\<close>

text \<open>The loop of \<open>parseFloat\<close>: the value read so far, whether the point was passed, the divisor.\<close>

fun parseFloatLoop :: "f64 \<Rightarrow> bool \<Rightarrow> f64 \<Rightarrow> string \<Rightarrow> f64 option" where
  "parseFloatLoop result decimal divisor [] = Some result"
| "parseFloatLoop result decimal divisor (c # s) =
     (if c = CHR ''.'' then (if decimal then None else parseFloatLoop result True divisor s)
      else case digit_of c of
             None \<Rightarrow> None
           | Some d \<Rightarrow>
               if decimal then parseFloatLoop (result + real d / (divisor * 10)) decimal (divisor * 10) s
               else parseFloatLoop (result * 10 + real d) decimal divisor s)"

definition parseFloat :: "string \<Rightarrow> f64 option" where
  "parseFloat s = (if s = [] then None else parseFloatLoop 0 False 1 s)"

definition parseQuantityString :: "string \<Rightarrow> f64" where
  "parseQuantityString s0 =
     (let s = TrimSpace s0
      in if s = [] then 0
         else if HasSuffix s ''m''
         then (case parseFloat (TrimSuffix s ''m'') of None \<Rightarrow> 0 | Some v \<Rightarrow> v / 1000)
         else (case parseFloat s of None \<Rightarrow> 0 | Some v \<Rightarrow> v))"

fun parseQuantity :: "json \<Rightarrow> f64" where
  "parseQuantity (JNum v) = v"
| "parseQuantity (JInt v) = real_of_int v"
| "parseQuantity (JStr s) = parseQuantityString s"
| "parseQuantity _ = 0"

definition memMultipliers :: "(string \<times> f64) list" where
  "memMultipliers =
     [(''Ti'', 1024 * 1024 * 1024 * 1024), (''Gi'', 1024 * 1024 * 1024), (''Mi'', 1024 * 1024), (''Ki'', 1024),
      (''T'', 10 ^ 12), (''G'', 10 ^ 9), (''M'', 10 ^ 6), (''K'', 10 ^ 3)]"

fun memSuffixLoop :: "string \<Rightarrow> (string \<times> f64) list \<Rightarrow> f64" where
  "memSuffixLoop s [] = (case parseFloat s of None \<Rightarrow> 0 | Some v \<Rightarrow> v)"
| "memSuffixLoop s ((suffix, factor) # ms) =
     (if HasSuffix s suffix
      then (case parseFloat (TrimSuffix s suffix) of None \<Rightarrow> 0 | Some v \<Rightarrow> v * factor)
      else memSuffixLoop s ms)"

definition parseMemoryString :: "string \<Rightarrow> f64" where
  "parseMemoryString s0 = (let s = TrimSpace s0 in if s = [] then 0 else memSuffixLoop s memMultipliers)"

fun parseMemoryQuantity :: "json \<Rightarrow> f64" where
  "parseMemoryQuantity (JNum v) = v"
| "parseMemoryQuantity (JInt v) = real_of_int v"
| "parseMemoryQuantity (JStr s) = parseMemoryString s"
| "parseMemoryQuantity _ = 0"

section \<open>Demand of a pod\<close>

definition fallbackCPUCores :: "string \<Rightarrow> f64" where
  "fallbackCPUCores workloadClass = (if workloadClass = ''performance'' then 1 / 2 else 1 / 4)"

text \<open>The first section that holds a positive value for the key, requests before limits.\<close>

fun firstQuantity :: "(json \<Rightarrow> f64) \<Rightarrow> jobj \<Rightarrow> string \<Rightarrow> string list \<Rightarrow> f64" where
  "firstQuantity parse res key [] = 0"
| "firstQuantity parse res key (section # rest) =
     (case jgetObj res section of
        None \<Rightarrow> firstQuantity parse res key rest
      | Some sec \<Rightarrow>
          (case map_of sec key of
             None \<Rightarrow> firstQuantity parse res key rest
           | Some raw \<Rightarrow> if parse raw > 0 then parse raw else firstQuantity parse res key rest))"

definition extractQuantityCores :: "jobj \<Rightarrow> string \<Rightarrow> f64" where
  "extractQuantityCores res key = firstQuantity parseQuantity res key [''requests'', ''limits'']"

definition extractQuantityBytes :: "jobj \<Rightarrow> string \<Rightarrow> f64" where
  "extractQuantityBytes res key = firstQuantity parseMemoryQuantity res key [''requests'', ''limits'']"

definition vendorFromKey :: "string \<Rightarrow> string" where
  "vendorFromKey key =
     (if HasPrefix key ''nvidia.com'' then ''nvidia''
      else if HasPrefix key ''amd.com'' then ''amd''
      else if HasPrefix key ''gpu.intel.com'' then ''intel'' else [])"

fun gpuKeys :: "jobj \<Rightarrow> f64 \<times> string \<Rightarrow> string list \<Rightarrow> f64 \<times> string" where
  "gpuKeys sec (gpus, vendor) [] = (gpus, vendor)"
| "gpuKeys sec (gpus, vendor) (key # keys) =
     (let share = GPUResourceShare key; units = parseQuantity (jget sec key)
      in if share \<le> 0 \<or> units \<le> 0 then gpuKeys sec (gpus, vendor) keys
         else gpuKeys sec (gpus + units * share, if vendor = [] then vendorFromKey key else vendor) keys)"

fun gpuSections :: "jobj \<Rightarrow> string list \<Rightarrow> f64 \<times> string" where
  "gpuSections res [] = (0, [])"
| "gpuSections res (section # rest) =
     (case jgetObj res section of
        None \<Rightarrow> gpuSections res rest
      | Some sec \<Rightarrow>
          (let r = gpuKeys sec (0, []) (sortedKeys sec)
           in if fst r > 0 then r else gpuSections res rest))"

definition extractGPU :: "jobj \<Rightarrow> f64 \<times> string" where
  "extractGPU res = gpuSections res [''requests'', ''limits'']"

text \<open>The resources of a container entry: \<open>None\<close> where the loop continues.\<close>

definition containerResources :: "json \<Rightarrow> jobj option" where
  "containerResources c = (case asObj c of None \<Rightarrow> None | Some cm \<Rightarrow> jgetObj cm ''resources'')"

definition addContainer :: "json \<Rightarrow> PodDemand \<Rightarrow> PodDemand" where
  "addContainer c d =
     (case containerResources c of
        None \<Rightarrow> d
      | Some res \<Rightarrow>
          (let gv = extractGPU res
           in d\<lparr>pd_cpuCores := pd_cpuCores d + extractQuantityCores res ''cpu'',
                pd_memoryBytes := pd_memoryBytes d + extractQuantityBytes res ''memory'',
                pd_gpuCount := pd_gpuCount d + fst gv,
                pd_gpuVendor := (if snd gv \<noteq> [] then snd gv else pd_gpuVendor d)\<rparr>))"

definition addInitContainer :: "json \<Rightarrow> PodDemand \<Rightarrow> PodDemand" where
  "addInitContainer c d =
     (case containerResources c of
        None \<Rightarrow> d
      | Some res \<Rightarrow>
          (let gv = extractGPU res
           in d\<lparr>pd_gpuCount := (if fst gv > pd_gpuCount d then fst gv else pd_gpuCount d),
                pd_gpuVendor := (if snd gv \<noteq> [] \<and> pd_gpuVendor d = [] then snd gv else pd_gpuVendor d)\<rparr>))"

definition emptyDemand :: "string \<Rightarrow> PodDemand" where
  "emptyDemand workloadClass =
     \<lparr>pd_cpuCores = 0, pd_memoryBytes = 0, pd_gpuCount = 0, pd_gpuVendor = [], pd_workloadClass = workloadClass\<rparr>"

definition ExtractPodDemand :: "jobj \<Rightarrow> string \<Rightarrow> PodDemand" where
  "ExtractPodDemand pod workloadClass =
     (let d = emptyDemand workloadClass
      in case jgetObj pod ''spec'' of
           None \<Rightarrow> d\<lparr>pd_cpuCores := fallbackCPUCores workloadClass\<rparr>
         | Some spec \<Rightarrow>
             (let d = fold addContainer (asArr (jget spec ''containers'')) d;
                  d = fold addInitContainer (asArr (jget spec ''initContainers'')) d
              in if pd_cpuCores d \<le> 0 then d\<lparr>pd_cpuCores := fallbackCPUCores workloadClass\<rparr> else d))"

section \<open>The model\<close>

definition clamp :: "f64 \<Rightarrow> f64 \<Rightarrow> f64 \<Rightarrow> f64" where
  "clamp v lo hi = max lo (min hi v)"

definition gpuFallbackWatts :: "string \<Rightarrow> Coefficients \<Rightarrow> f64" where
  "gpuFallbackWatts vendor coeff =
     (if vendor = ''nvidia'' then cf_gpuMaxWattsFallbackNVIDIA coeff
      else if vendor = ''amd'' then cf_gpuMaxWattsFallbackAMD coeff
      else cf_gpuMaxWattsFallbackGeneric coeff)"

definition estCpuMaxW :: "NodePowerProfile \<Rightarrow> Coefficients \<Rightarrow> f64" where
  "estCpuMaxW node coeff =
     (if npp_cpuMaxWattsTotal node \<le> 0
      then max 150 (real_of_int (npp_cpuTotalCores node) * cf_cpuWattsPerCoreFallback coeff)
      else npp_cpuMaxWattsTotal node)"

definition estGpuMaxW :: "PodDemand \<Rightarrow> NodePowerProfile \<Rightarrow> Coefficients \<Rightarrow> f64" where
  "estGpuMaxW demand node coeff =
     (if npp_gpuMaxWattsPerGPU node \<le> 0 then gpuFallbackWatts (pd_gpuVendor demand) coeff
      else npp_gpuMaxWattsPerGPU node)"

definition EstimateMarginalImpact :: "PodDemand \<Rightarrow> NodePowerProfile option \<Rightarrow> Coefficients \<Rightarrow> MarginalEstimate" where
  "EstimateMarginalImpact demand node_opt coeff =
     (case node_opt of
        None \<Rightarrow> \<lparr>me_deltaCPUWatts = 0, me_deltaGPUWatts = 0, me_deltaTotalWatts = 0\<rparr>
      | Some node \<Rightarrow>
          (let totalCores = (if npp_cpuTotalCores node \<le> 0 then 1 else real_of_int (npp_cpuTotalCores node));
               utilShare = clamp (pd_cpuCores demand / totalCores) 0 1;
               memGiB = pd_memoryBytes demand / (1024 * 1024 * 1024);
               memMod = clamp (1 + memGiB * cf_memPowerCoeff coeff) 1 (cf_memPowerCap coeff);
               dCPU = estCpuMaxW node coeff * cf_cpuUtilCoeff coeff * utilShare * memMod;
               utilCoeff = (if pd_workloadClass demand = ''performance'' then cf_gpuUtilCoeffPerformance coeff
                            else cf_gpuUtilCoeffStandard coeff);
               dGPU = (if pd_gpuCount demand > 0 \<and> npp_hasGPU node
                       then pd_gpuCount demand * estGpuMaxW demand node coeff * utilCoeff else 0)
           in \<lparr>me_deltaCPUWatts = dCPU, me_deltaGPUWatts = dGPU, me_deltaTotalWatts = dCPU + dGPU\<rparr>))"

section \<open>Lemmas: quantities\<close>

lemma digit_of_point: "digit_of c = Some d \<Longrightarrow> c \<noteq> CHR ''.''"
  by (auto simp: digit_of_def)

lemma parseFloatLoop_int:
  "digits_val a s = Some n \<Longrightarrow> parseFloatLoop (real a) False dv s = Some (real n)"
proof (induction s arbitrary: a)
  case (Cons c s)
  then obtain d where d: "digit_of c = Some d" "digits_val (a * 10 + d) s = Some n"
    by (auto split: option.splits)
  from Cons.IH [OF d(2)] d(1) digit_of_point [OF d(1)] show ?case by simp
qed simp

lemma parseFloatLoop_frac:
  "digits_val a s = Some n \<Longrightarrow> dv \<noteq> 0 \<Longrightarrow>
   parseFloatLoop (r + real a / dv) True dv s = Some (r + real n / (dv * 10 ^ length s))"
proof (induction s arbitrary: a dv)
  case (Cons c s)
  then obtain d where d: "digit_of c = Some d" "digits_val (a * 10 + d) s = Some n"
    by (auto split: option.splits)
  have e: "r + real a / dv + real d / (dv * 10) = r + real (a * 10 + d) / (dv * 10)"
    using Cons.prems(2) by (simp add: field_simps)
  have step: "parseFloatLoop (r + real a / dv) True dv (c # s)
      = parseFloatLoop (r + real a / dv + real d / (dv * 10)) True (dv * 10) s"
    using d(1) digit_of_point [OF d(1)] by simp
  show ?case
    unfolding step e using Cons.IH [OF d(2), of "dv * 10"] Cons.prems(2) by (simp add: mult.assoc)
qed simp

lemma parseFloatLoop_point:
  "digits_val a s = Some n \<Longrightarrow> parseFloatLoop (real a) False dv (s @ CHR ''.'' # t) = parseFloatLoop (real n) True dv t"
proof (induction s arbitrary: a)
  case (Cons c s)
  then obtain d where d: "digit_of c = Some d" "digits_val (a * 10 + d) s = Some n"
    by (auto split: option.splits)
  from Cons.IH [OF d(2)] d(1) digit_of_point [OF d(1)] show ?case by simp
qed simp

text \<open>A decimal numeral: digits, or digits, a point and digits.\<close>

lemma parseFloat_nat: "parseFloat (nat_str n) = Some (real n)"
  using parseFloatLoop_int [OF digits_val_nat_str, of 1 n] by (simp add: parseFloat_def)

lemma parseFloat_dec:
  assumes "digits_val 0 t = Some k"
  shows "parseFloat (nat_str n @ CHR ''.'' # t) = Some (real n + real k / 10 ^ length t)"
  using parseFloatLoop_point [OF digits_val_nat_str, of 1 n t] parseFloatLoop_frac [OF assms, of 1 "real n"]
  by (simp add: parseFloat_def)

lemma parseFloatLoop_nonneg:
  "parseFloatLoop r dec dv s = Some v \<Longrightarrow> 0 \<le> r \<Longrightarrow> 0 < dv \<Longrightarrow> 0 \<le> v"
  by (induction r dec dv s rule: parseFloatLoop.induct) (auto split: if_splits option.splits)

lemma parseFloat_nonneg: "parseFloat s = Some v \<Longrightarrow> 0 \<le> v"
  by (auto simp: parseFloat_def split: if_splits dest: parseFloatLoop_nonneg)

lemma parseFloat_digits_only: "c \<notin> set ''0123456789.'' \<Longrightarrow> parseFloat (s @ [c]) = None"
proof -
  assume c: "c \<notin> set ''0123456789.''"
  have "parseFloatLoop r dec dv (s @ [c]) = None" for r dec dv
    using c by (induction s arbitrary: r dec dv) (auto simp: digit_of_def split: option.splits)
  then show ?thesis by (simp add: parseFloat_def)
qed

text \<open>The last byte of a numeral is a digit, so no suffix of the tables ends it.\<close>

definition quantityChars :: string where
  "quantityChars = ''0123456789KMGTikm.''"

lemma quantity_chars: "list_all (\<lambda>c. \<not> is_space c) quantityChars"
  by code_simp

lemma quantity_digits: "set ''0123456789'' \<subseteq> set quantityChars"
  by code_simp

lemma digits_no_space: "set s \<subseteq> set quantityChars \<Longrightarrow> TrimSpace s = s"
  using quantity_chars unfolding list_all_iff by (intro TrimSpace_id) blast

lemma nat_str_suffix:
  assumes "p \<noteq> []" "last p \<notin> set ''0123456789''"
  shows "\<not> HasSuffix (nat_str n) p"
proof
  assume "HasSuffix (nat_str n) p"
  then obtain t where "nat_str n = t @ p" by (auto simp: HasSuffix_iff)
  then have "set p \<subseteq> set ''0123456789''" using nat_str_digits [of n] by auto
  then show False using assms last_in_set by blast
qed

lemma HasSuffix_last: "HasSuffix (s @ [c]) (p @ [d]) \<longleftrightarrow> c = d \<and> HasSuffix s p"
  by (auto simp: HasSuffix_iff)

lemma HasSuffix_nil [simp]: "HasSuffix s []"
  by (auto simp: HasSuffix_iff)

lemma digits_val_chars: "digits_val a s = Some n \<Longrightarrow> set s \<subseteq> set ''0123456789''"
proof (induction s arbitrary: a)
  case (Cons c s)
  then obtain d where d: "digit_of c = Some d" "digits_val (a * 10 + d) s = Some n"
    by (auto split: option.splits)
  have "c \<in> set ''0123456789''"
    using d(1) unfolding digit_of_def by (auto dest!: map_of_SomeD set_zip_leftD simp del: zip_Cons_Cons)
  then show ?case using Cons.IH [OF d(2)] by simp
qed simp

lemma TrimSpace_nat_str: "set s \<subseteq> set quantityChars \<Longrightarrow> TrimSpace (nat_str n @ s) = nat_str n @ s"
  using subset_trans [OF nat_str_digits [of n] quantity_digits] unfolding set_append
  by (intro digits_no_space) (simp only: set_append Un_least)

lemma TrimSpace_nat_str' [simp]: "TrimSpace (nat_str n) = nat_str n"
  using TrimSpace_nat_str [of "[]" n] by simp

lemma parseQuantityString_nat: "parseQuantityString (nat_str n) = real n"
  using nat_str_suffix [of "''m''" n] by (simp add: parseQuantityString_def parseFloat_nat)

lemma parseQuantityString_milli: "parseQuantityString (nat_str n @ ''m'') = real n / 1000"
  using TrimSpace_nat_str [of "''m''" n] TrimSuffix_append [of "nat_str n" "''m''"]
  by (simp add: parseQuantityString_def parseFloat_nat quantityChars_def)

lemma parseQuantityString_dec:
  assumes "digits_val 0 t = Some k" and "t \<noteq> []"
  shows "parseQuantityString (nat_str n @ CHR ''.'' # t) = real n + real k / 10 ^ length t"
proof -
  let ?s = "nat_str n @ CHR ''.'' # t"
  have t: "set t \<subseteq> set ''0123456789''" using digits_val_chars [OF assms(1)] .
  have "CHR ''m'' \<noteq> last t" using assms(2) t last_in_set [OF assms(2)] by fastforce
  then have "\<not> HasSuffix ?s ''m''" using assms(2) unfolding HasSuffix_iff
    by (metis append_is_Nil_conv last_ConsR last_appendR last_snoc list.discI)
  moreover have "set (CHR ''.'' # t) \<subseteq> set quantityChars"
    using subset_trans [OF t quantity_digits] by (simp add: quantityChars_def)
  then have "TrimSpace ?s = ?s" by (rule TrimSpace_nat_str)
  ultimately show ?thesis using parseFloat_dec [OF assms(1), of n] by (simp add: parseQuantityString_def)
qed

lemma parseMemoryString_nat: "parseMemoryString (nat_str n) = real n"
  using nat_str_suffix [of _ n] by (simp add: parseMemoryString_def memMultipliers_def parseFloat_nat)

lemma parseMemoryString_suffix:
  assumes "(p, f) \<in> set memMultipliers"
  shows "parseMemoryString (nat_str n @ p) = real n * f"
proof -
  have "list_all (\<lambda>m. set (fst m) \<subseteq> set quantityChars) memMultipliers"
    by (simp add: memMultipliers_def quantityChars_def)
  then have p: "set p \<subseteq> set quantityChars" using assms unfolding list_all_iff by fastforce
  have "list_all (\<lambda>m. memSuffixLoop (nat_str n @ fst m) memMultipliers = real n * snd m) memMultipliers"
    by (simp add: memMultipliers_def HasSuffix_def HasPrefix_def TrimSuffix_def parseFloat_nat)
  then have "memSuffixLoop (nat_str n @ p) memMultipliers = real n * f"
    using assms unfolding list_all_iff by fastforce
  then show ?thesis using TrimSpace_nat_str [OF p, of n] by (simp add: parseMemoryString_def)
qed

lemma parseMemoryString_k: "parseMemoryString (nat_str n @ ''k'') = 0"
  using TrimSpace_nat_str [of "''k''" n] parseFloat_digits_only [of "CHR ''k''" "nat_str n"]
  by (simp add: parseMemoryString_def memMultipliers_def HasSuffix_def HasPrefix_def quantityChars_def)

section \<open>Lemmas: demand and estimate\<close>

lemma firstQuantity_nonneg: "0 \<le> firstQuantity parse res key ss"
  by (induction ss) (auto split: option.splits)

lemma gpuKeys_nonneg: "0 \<le> fst a \<Longrightarrow> 0 \<le> fst (gpuKeys sec a keys)"
  by (induction sec a keys rule: gpuKeys.induct) (auto simp: Let_def not_le)

lemma extractGPU_nonneg: "0 \<le> fst (extractGPU res)"
proof -
  have "0 \<le> fst (gpuSections res ss)" for ss
    by (induction ss) (auto simp: Let_def split: option.splits)
  then show ?thesis unfolding extractGPU_def .
qed

definition demandOk :: "string \<Rightarrow> PodDemand \<Rightarrow> bool" where
  "demandOk cls d \<longleftrightarrow> 0 \<le> pd_cpuCores d \<and> 0 \<le> pd_memoryBytes d \<and> 0 \<le> pd_gpuCount d \<and> pd_workloadClass d = cls"

lemma addContainer_ok: "demandOk cls d \<Longrightarrow> demandOk cls (addContainer c d)"
  using firstQuantity_nonneg extractGPU_nonneg
  by (auto simp: demandOk_def addContainer_def Let_def extractQuantityCores_def extractQuantityBytes_def split: option.splits)

lemma addInitContainer_ok: "demandOk cls d \<Longrightarrow> demandOk cls (addInitContainer c d)"
  by (auto simp: demandOk_def addInitContainer_def Let_def split: option.splits)

lemma fold_ok: "(\<And>c d. P d \<Longrightarrow> P (f c d)) \<Longrightarrow> P d \<Longrightarrow> P (fold f cs d)"
  by (induction cs arbitrary: d) auto

lemma ExtractPodDemand_ok: "demandOk cls (ExtractPodDemand pod cls) \<and> 0 < pd_cpuCores (ExtractPodDemand pod cls)"
proof (cases "jgetObj pod ''spec''")
  case None
  then show ?thesis by (simp add: ExtractPodDemand_def demandOk_def emptyDemand_def fallbackCPUCores_def)
next
  case (Some spec)
  define d where "d = fold addInitContainer (asArr (jget spec ''initContainers''))
      (fold addContainer (asArr (jget spec ''containers'')) (emptyDemand cls))"
  have "demandOk cls (emptyDemand cls)" by (simp add: demandOk_def emptyDemand_def)
  then have "demandOk cls d" unfolding d_def
    by (intro fold_ok [of "demandOk cls" addInitContainer] fold_ok [of "demandOk cls" addContainer] addInitContainer_ok addContainer_ok)
  moreover have "ExtractPodDemand pod cls = (if pd_cpuCores d \<le> 0 then d\<lparr>pd_cpuCores := fallbackCPUCores cls\<rparr> else d)"
    using Some by (simp add: ExtractPodDemand_def d_def Let_def)
  ultimately show ?thesis by (auto simp: demandOk_def fallbackCPUCores_def)
qed

lemma clamp_bounds: "lo \<le> hi \<Longrightarrow> lo \<le> clamp v lo hi \<and> clamp v lo hi \<le> hi"
  by (simp add: clamp_def)

lemma clamp_mono: "u \<le> v \<Longrightarrow> clamp u lo hi \<le> clamp v lo hi"
  by (auto simp: clamp_def)

text \<open>Coefficients as an operator would set them: no negative factor, a cap of at least one.\<close>

definition saneCoefficients :: "Coefficients \<Rightarrow> bool" where
  "saneCoefficients c \<longleftrightarrow> 0 \<le> cf_cpuUtilCoeff c \<and> 0 \<le> cf_memPowerCoeff c \<and> 1 \<le> cf_memPowerCap c \<and>
     0 \<le> cf_gpuUtilCoeffStandard c \<and> 0 \<le> cf_gpuUtilCoeffPerformance c \<and>
     0 \<le> cf_gpuMaxWattsFallbackNVIDIA c \<and> 0 \<le> cf_gpuMaxWattsFallbackAMD c \<and> 0 \<le> cf_gpuMaxWattsFallbackGeneric c"

lemma estCpuMaxW_pos: "0 < estCpuMaxW node c"
  by (auto simp: estCpuMaxW_def less_max_iff_disj)

lemma estGpuMaxW_nonneg: "saneCoefficients c \<Longrightarrow> 0 \<le> estGpuMaxW d node c"
  by (auto simp: estGpuMaxW_def gpuFallbackWatts_def saneCoefficients_def)

definition demandLe :: "PodDemand \<Rightarrow> PodDemand \<Rightarrow> bool" where
  "demandLe d d' \<longleftrightarrow> pd_cpuCores d \<le> pd_cpuCores d' \<and> pd_memoryBytes d \<le> pd_memoryBytes d' \<and>
     pd_gpuCount d \<le> pd_gpuCount d' \<and> pd_gpuVendor d = pd_gpuVendor d' \<and> pd_workloadClass d = pd_workloadClass d'"

definition estCpu :: "PodDemand \<Rightarrow> NodePowerProfile \<Rightarrow> Coefficients \<Rightarrow> f64" where
  "estCpu d node c = me_deltaCPUWatts (EstimateMarginalImpact d (Some node) c)"

definition estGpu :: "PodDemand \<Rightarrow> NodePowerProfile \<Rightarrow> Coefficients \<Rightarrow> f64" where
  "estGpu d node c = me_deltaGPUWatts (EstimateMarginalImpact d (Some node) c)"

text \<open>The two factors of the CPU part: the share of the cores and the memory modifier.\<close>

definition estShare :: "PodDemand \<Rightarrow> NodePowerProfile \<Rightarrow> f64" where
  "estShare d node = clamp (pd_cpuCores d / (if npp_cpuTotalCores node \<le> 0 then 1 else real_of_int (npp_cpuTotalCores node))) 0 1"

definition estMemMod :: "PodDemand \<Rightarrow> Coefficients \<Rightarrow> f64" where
  "estMemMod d c = clamp (1 + pd_memoryBytes d / (1024 * 1024 * 1024) * cf_memPowerCoeff c) 1 (cf_memPowerCap c)"

lemma estCpu_eq: "estCpu d node c = estCpuMaxW node c * cf_cpuUtilCoeff c * estShare d node * estMemMod d c"
  by (simp add: estCpu_def EstimateMarginalImpact_def estShare_def estMemMod_def Let_def)

lemma estShare_bounds: "0 \<le> estShare d node" "estShare d node \<le> 1"
  unfolding estShare_def using clamp_bounds [of 0 1] by auto

lemma estMemMod_bounds:
  assumes "saneCoefficients c"
  shows "1 \<le> estMemMod d c" "estMemMod d c \<le> cf_memPowerCap c"
  unfolding estMemMod_def using clamp_bounds [of 1 "cf_memPowerCap c"] assms by (auto simp: saneCoefficients_def)

lemma estCpuFactor_nonneg: "saneCoefficients c \<Longrightarrow> 0 \<le> estCpuMaxW node c * cf_cpuUtilCoeff c"
  using estCpuMaxW_pos [of node c] by (simp add: saneCoefficients_def)

lemma estCpu_bounds:
  assumes "saneCoefficients c"
  shows "0 \<le> estCpu d node c \<and> estCpu d node c \<le> estCpuMaxW node c * cf_cpuUtilCoeff c * cf_memPowerCap c"
proof -
  note k = estCpuFactor_nonneg [OF assms, of node] estShare_bounds [of d node] estMemMod_bounds [OF assms, of d]
  have "A * s * m \<le> A * M" if "0 \<le> A" "0 \<le> s" "s \<le> 1" "1 \<le> m" "m \<le> M" for A s m M :: real
    using that mult_mono [of "A * s" A m M] mult_left_le [of s A] by simp
  then show ?thesis using k by (simp add: estCpu_eq)
qed

lemma estCpu_mono:
  assumes c: "saneCoefficients c" and le: "demandLe d d'"
  shows "estCpu d node c \<le> estCpu d' node c"
proof -
  note k = estCpuFactor_nonneg [OF c, of node] estShare_bounds [of d node] estShare_bounds [of d' node]
    estMemMod_bounds [OF c, of d]
  have "estShare d node \<le> estShare d' node"
    unfolding estShare_def using le by (intro clamp_mono divide_right_mono) (auto simp: demandLe_def)
  moreover have "estMemMod d c \<le> estMemMod d' c"
    unfolding estMemMod_def using le c
    by (intro clamp_mono add_left_mono mult_right_mono divide_right_mono) (auto simp: demandLe_def saneCoefficients_def)
  moreover have "A * s * m \<le> A * s' * m'" if "0 \<le> A" "0 \<le> s" "s \<le> s'" "1 \<le> m" "m \<le> m'" for A s s' m m' :: real
    using that by (intro mult_mono mult_left_mono mult_nonneg_nonneg) auto
  ultimately show ?thesis unfolding estCpu_eq using k by blast
qed

lemma estGpu_eq:
  "estGpu d node c = (if 0 < pd_gpuCount d \<and> npp_hasGPU node
     then pd_gpuCount d * estGpuMaxW d node c *
       (if pd_workloadClass d = ''performance'' then cf_gpuUtilCoeffPerformance c else cf_gpuUtilCoeffStandard c) else 0)"
  by (simp add: estGpu_def EstimateMarginalImpact_def Let_def)

lemma estGpu_nonneg: "saneCoefficients c \<Longrightarrow> 0 \<le> estGpu d node c"
  using estGpuMaxW_nonneg [of c d node] by (auto simp: estGpu_eq saneCoefficients_def)

lemma estGpu_bound:
  assumes "saneCoefficients c" "0 \<le> pd_gpuCount d"
  shows "estGpu d node c \<le> (if pd_gpuCount d = 0 \<or> \<not> npp_hasGPU node then 0
    else pd_gpuCount d * estGpuMaxW d node c * max (cf_gpuUtilCoeffPerformance c) (cf_gpuUtilCoeffStandard c))"
  using estGpuMaxW_nonneg [OF assms(1), of d node] assms
  by (auto simp: estGpu_eq saneCoefficients_def intro!: mult_left_mono)

lemma estGpu_mono:
  assumes c: "saneCoefficients c" and le: "demandLe d d'"
  shows "estGpu d node c \<le> estGpu d' node c"
proof (cases "0 < pd_gpuCount d \<and> npp_hasGPU node")
  case True
  have "estGpuMaxW d' node c = estGpuMaxW d node c" using le by (simp add: estGpuMaxW_def demandLe_def)
  moreover have "0 \<le> cf_gpuUtilCoeffPerformance c" "0 \<le> cf_gpuUtilCoeffStandard c" using c by (simp_all add: saneCoefficients_def)
  ultimately show ?thesis
    using True le estGpuMaxW_nonneg [OF c, of d node] by (auto simp: estGpu_eq demandLe_def intro!: mult_right_mono)
next
  case False
  then have "estGpu d node c = 0" by (auto simp: estGpu_eq)
  then show ?thesis using estGpu_nonneg [OF c] by simp
qed

lemma estTotal_eq: "me_deltaTotalWatts (EstimateMarginalImpact d (Some node) c) = estCpu d node c + estGpu d node c"
  by (simp add: estCpu_def estGpu_def EstimateMarginalImpact_def Let_def)

lemma DefaultCoefficients_sane: "saneCoefficients DefaultCoefficients"
  by (simp add: saneCoefficients_def DefaultCoefficients_def)

lemma demandLe_refl: "demandLe d d"
  by (simp add: demandLe_def)

section \<open>Properties\<close>

text \<open>The quantity parsers read what Kubernetes writes in decimal notation: an integer, an
  integer of milli-units and a decimal fraction of a CPU quantity, and an integer number of
  bytes with each binary or decimal suffix of the table, have exactly their value.\<close>

theorem quantities_exact:
  assumes "digits_val 0 t = Some k" and "t \<noteq> []"
  shows "parseQuantity (JStr (nat_str n)) = real n \<and>
         parseQuantity (JStr (nat_str n @ ''m'')) = real n / 1000 \<and>
         parseQuantity (JStr (nat_str n @ CHR ''.'' # t)) = real n + real k / 10 ^ length t \<and>
         parseMemoryQuantity (JStr (nat_str n)) = real n \<and>
         (\<forall>(p, f) \<in> set memMultipliers. parseMemoryQuantity (JStr (nat_str n @ p)) = real n * f)"
  using parseQuantityString_nat parseQuantityString_milli parseQuantityString_dec [OF assms]
    parseMemoryString_nat parseMemoryString_suffix by auto

theorem quantities_exact_witness:
  "parseQuantity (JStr (nat_str 1 @ ''.50'')) = 3 / 2 \<and>
   parseMemoryQuantity (JStr (nat_str 2 @ ''Gi'')) = 2 * (1024 * 1024 * 1024)"
proof -
  have "digits_val 0 ''50'' = Some 50" "''50'' \<noteq> []" by (simp_all add: digit_of_def)
  note t = quantities_exact [OF this]
  have "(''Gi'', 1024 * 1024 * 1024) \<in> set memMultipliers" by (simp add: memMultipliers_def)
  then show ?thesis using t [of 1] t [of 2] by (auto simp del: parseQuantity.simps parseMemoryQuantity.simps)
qed

text \<open>A byte quantity with the decimal suffix \<open>k\<close>, which is how Kubernetes spells 1000,
  reads as 0; the table holds \<open>K\<close> instead.\<close>

theorem memory_suffix_k_reads_zero: "parseMemoryQuantity (JStr (nat_str n @ ''k'')) = 0"
  using parseMemoryString_k by simp

text \<open>C11: The demand of a pod is never negative, keeps its workload class, and always has a
  positive number of cores; with it the estimate on a node with hardware facts is a
  non-negative number of watts, CPU plus GPU. Its CPU part is at most the node's CPU maximum
  times the utilisation coefficient and the memory cap, its GPU part at most the GPUs asked for times the maximum of one GPU
  times the larger utilisation coefficient (and zero without a GPU on either side), so the total is bounded by the two; and
  the total does not shrink when the demand grows. Without hardware facts the estimate is zero.\<close>

theorem EstimateMarginalImpact_sound:
  assumes "saneCoefficients c" and "demandLe (ExtractPodDemand pod cls) d'"
  shows "0 < pd_cpuCores (ExtractPodDemand pod cls) \<and> 0 \<le> pd_memoryBytes (ExtractPodDemand pod cls) \<and>
    0 \<le> pd_gpuCount (ExtractPodDemand pod cls) \<and> pd_workloadClass (ExtractPodDemand pod cls) = cls \<and>
    (let d = ExtractPodDemand pod cls; e = EstimateMarginalImpact d (Some node) c;
         cpuMax = estCpuMaxW node c * cf_cpuUtilCoeff c * cf_memPowerCap c;
         gpuMax = (if pd_gpuCount d = 0 \<or> \<not> npp_hasGPU node then 0
                   else pd_gpuCount d * estGpuMaxW d node c * max (cf_gpuUtilCoeffPerformance c) (cf_gpuUtilCoeffStandard c))
     in 0 \<le> me_deltaCPUWatts e \<and> me_deltaCPUWatts e \<le> cpuMax \<and>
       0 \<le> me_deltaGPUWatts e \<and> me_deltaGPUWatts e \<le> gpuMax \<and>
       me_deltaTotalWatts e = me_deltaCPUWatts e + me_deltaGPUWatts e \<and> me_deltaTotalWatts e \<le> cpuMax + gpuMax \<and>
       me_deltaTotalWatts e \<le> me_deltaTotalWatts (EstimateMarginalImpact d' (Some node) c)) \<and>
    me_deltaTotalWatts (EstimateMarginalImpact (ExtractPodDemand pod cls) None c) = 0"
proof -
  let ?d = "ExtractPodDemand pod cls"
  let ?g = "if pd_gpuCount ?d = 0 \<or> \<not> npp_hasGPU node then 0
    else pd_gpuCount ?d * estGpuMaxW ?d node c * max (cf_gpuUtilCoeffPerformance c) (cf_gpuUtilCoeffStandard c)"
  have d: "0 < pd_cpuCores ?d" "0 \<le> pd_memoryBytes ?d" "0 \<le> pd_gpuCount ?d" "pd_workloadClass ?d = cls"
    using ExtractPodDemand_ok [of cls pod] by (simp_all add: demandOk_def)
  have g: "estGpu ?d node c \<le> ?g" by (rule estGpu_bound [OF assms(1) d(3)])
  note b = estCpu_bounds [OF assms(1), of ?d node] estGpu_nonneg [OF assms(1), of ?d node] g
  have "estCpu ?d node c + estGpu ?d node c \<le> estCpuMaxW node c * cf_cpuUtilCoeff c * cf_memPowerCap c + ?g"
    "estCpu ?d node c + estGpu ?d node c \<le> estCpu d' node c + estGpu d' node c"
    using b estCpu_mono [OF assms] estGpu_mono [OF assms] by (blast intro: add_mono)+
  moreover have "me_deltaTotalWatts (EstimateMarginalImpact ?d None c) = 0" by (simp add: EstimateMarginalImpact_def)
  ultimately show ?thesis unfolding Let_def estTotal_eq estCpu_def [symmetric] estGpu_def [symmetric] using b d by blast
qed

text \<open>A performance pod with 4 cores, 2 GiB and 2 GPUs on a node with 32 cores, 400 W of CPU and 4 GPUs of 300 W.\<close>

definition exampleGpuPod :: jobj where
  "exampleGpuPod = [(''spec'', JObj [(''containers'', JArr [JObj [(''resources'', JObj [(''requests'',
     JObj [(''cpu'', JStr ''4''), (''memory'', JStr ''2Gi''), (''nvidia.com/gpu'', JStr ''2'')])])]])])]"

definition exampleGpuNode :: NodePowerProfile where
  "exampleGpuNode = \<lparr>npp_nodeName = ''n1'', npp_cpuModel = [], npp_gpuModel = [], npp_cpuTotalCores = 32, npp_cpuSockets = 2,
     npp_cpuMaxWattsTotal = 400, npp_gpuCount = 4, npp_gpuMaxWattsPerGPU = 300, npp_hasGPU = True, npp_memoryBytes = 0\<rparr>"

definition exampleDemand :: PodDemand where
  "exampleDemand = \<lparr>pd_cpuCores = 4, pd_memoryBytes = 2 * (1024 * 1024 * 1024), pd_gpuCount = 2, pd_gpuVendor = ''nvidia'',
     pd_workloadClass = ''performance''\<rparr>"

lemma exampleGpuPod_demand: "ExtractPodDemand exampleGpuPod ''performance'' = exampleDemand"
  by code_simp

theorem EstimateMarginalImpact_sound_witness:
  "let e = EstimateMarginalImpact (ExtractPodDemand exampleGpuPod ''performance'') (Some exampleGpuNode) DefaultCoefficients in
     me_deltaCPUWatts e = 357 / 10 \<and> me_deltaGPUWatts e = 510 \<and>
     me_deltaCPUWatts e \<le> 364 \<and> me_deltaGPUWatts e \<le> 510 \<and> me_deltaTotalWatts e \<le> 874 \<and>
     me_deltaTotalWatts e \<le> me_deltaTotalWatts (EstimateMarginalImpact (exampleDemand\<lparr>pd_gpuCount := 4\<rparr>) (Some exampleGpuNode) DefaultCoefficients)"
proof -
  have le: "demandLe (ExtractPodDemand exampleGpuPod ''performance'') (exampleDemand\<lparr>pd_gpuCount := 4\<rparr>)"
    unfolding exampleGpuPod_demand by (simp add: demandLe_def exampleDemand_def)
  have e: "me_deltaCPUWatts (EstimateMarginalImpact exampleDemand (Some exampleGpuNode) DefaultCoefficients) = 357 / 10"
    "me_deltaGPUWatts (EstimateMarginalImpact exampleDemand (Some exampleGpuNode) DefaultCoefficients) = 510"
    by (simp_all add: EstimateMarginalImpact_def exampleDemand_def exampleGpuNode_def DefaultCoefficients_def clamp_def estCpuMaxW_def estGpuMaxW_def Let_def)
  show ?thesis
    using EstimateMarginalImpact_sound [OF DefaultCoefficients_sane le, of exampleGpuNode] e
    unfolding exampleGpuPod_demand
    by (simp add: Let_def exampleDemand_def exampleGpuNode_def DefaultCoefficients_def estCpuMaxW_def estGpuMaxW_def)
qed

end
