(* ===== verification/Crd_Types.thy ===== *)
theory Crd_Types
  imports Go_Prelude
begin

text \<open>
  The custom resources of \<^verbatim>\<open>api/v1alpha1\<close>: the typed \<open>NodeHardware\<close> and \<open>NodeTwin\<close>
  objects as the scheduler, the controller manager and the agent read and write them. A pointer
  field is an option. The Kubernetes object and type metadata and the status conditions belong
  to the API machinery and are left out; the names have the prefix \<open>V1\<close> because
  \<^verbatim>\<open>pkg/api\<close> has in-memory structs of the same names.
\<close>

section \<open>NodeHardware\<close>

record V1NodeHardwareSpec =
  nhs_nodeName :: string

record V1CPUEPPInventory =
  cei_current :: string
  cei_available :: "string list"

record V1CPUBoostInventory =
  cbi_state :: string
  cbi_scope :: string

record V1GovernorPresetSupport =
  gps_preset :: string
  gps_result :: string
  gps_native :: string

record V1CPUGovernorState =
  cgs_policies :: string
  cgs_governor :: string
  cgs_epp :: string
  cgs_boost :: string

record V1CPUGovernorBaseline =
  cgb_groups :: "V1CPUGovernorState list"
  cgb_recordedAt :: string

record V1CPUGovernorInventory =
  cgv_driver :: string
  cgv_driverMode :: string
  cgv_current :: string
  cgv_available :: "string list"
  cgv_epp :: "V1CPUEPPInventory option"
  cgv_boost :: "V1CPUBoostInventory option"
  cgv_presets :: "V1GovernorPresetSupport list"
  cgv_baseline :: "V1CPUGovernorBaseline option"
  cgv_writable :: bool

record V1CPUCapRange =
  vcr_type :: string
  vcr_minWattsPerSocket :: f64
  vcr_maxWattsPerSocket :: f64

record V1CPULandmarks =
  vcl_minFreqMHz :: f64
  vcl_nominalFreqMHz :: f64
  vcl_maxBoostMHz :: f64
  vcl_lowestNonlinearFreqMHz :: f64

record V1NodeHardwareCPU =
  vhc_rawModel :: string
  vhc_model :: string
  vhc_vendor :: string
  vhc_sockets :: int
  vhc_totalCores :: int
  vhc_coresPerSocket :: int
  vhc_driverFamily :: string
  vhc_capRange :: "V1CPUCapRange option"
  vhc_landmarks :: "V1CPULandmarks option"
  vhc_controlAvailable :: bool
  vhc_telemetryAvailable :: bool
  vhc_warnings :: "string list"
  vhc_governor :: "V1CPUGovernorInventory option"

record V1ClockRangeMHz =
  crm_min :: f64
  crm_max :: f64

record V1GPUClockRanges =
  gck_graphics :: "V1ClockRangeMHz option"
  gck_memory :: "V1ClockRangeMHz option"
  gck_fabric :: "V1ClockRangeMHz option"

record V1GPUGovernorDeviceState =
  gds_busID :: string
  gds_level :: string

record V1GPUGovernorBaseline =
  ggb_devices :: "V1GPUGovernorDeviceState list"
  ggb_recordedAt :: string

record V1GPUGovernorInventory =
  ggv_mechanism :: string
  ggv_current :: string
  ggv_presets :: "V1GovernorPresetSupport list"
  ggv_clockRangesMHz :: "V1GPUClockRanges option"
  ggv_baseline :: "V1GPUGovernorBaseline option"
  ggv_writable :: bool
  ggv_uniform :: bool

record V1GPUCapRange =
  vgr_minWatts :: f64
  vgr_maxWatts :: f64
  vgr_defaultWatts :: f64

record V1GPUSlicing =
  vgs_supported :: bool
  vgs_modes :: "string list"

record V1NodeHardwareGPU =
  vhg_present :: bool
  vhg_rawModel :: string
  vhg_model :: string
  vhg_vendor :: string
  vhg_count :: int
  vhg_powerDomains :: int
  vhg_capRangePerGPU :: "V1GPUCapRange option"
  vhg_currentCapWatts :: f64
  vhg_slicing :: "V1GPUSlicing option"
  vhg_controlAvailable :: bool
  vhg_telemetryAvailable :: bool
  vhg_warnings :: "string list"
  vhg_governor :: "V1GPUGovernorInventory option"

record V1NodeHardwareMemory =
  vhm_totalBytes :: int

record V1NodeHardwareNetwork =
  vhn_linkClass :: string

record V1CatalogKey =
  cky_cpu :: string
  cky_gpu :: string

record V1CatalogExactness =
  cex_cpu :: string
  cex_gpu :: string

record V1InventoryResolution =
  ivr_hardwareCatalogKey :: "V1CatalogKey option"
  ivr_exactness :: "V1CatalogExactness option"

record V1NodeHardwareCapabilities =
  nhc_cpuControl :: bool
  nhc_gpuControl :: bool
  nhc_cpuTelemetry :: bool
  nhc_gpuTelemetry :: bool

record V1NodeHardwareQuality =
  nhq_overall :: string
  nhq_warnings :: "string list"

record V1NodeHardwareStatus =
  nht_cpu :: "V1NodeHardwareCPU option"
  nht_gpu :: "V1NodeHardwareGPU option"
  nht_memory :: "V1NodeHardwareMemory option"
  nht_network :: "V1NodeHardwareNetwork option"
  nht_inventoryResolution :: "V1InventoryResolution option"
  nht_capabilities :: "V1NodeHardwareCapabilities option"
  nht_quality :: "V1NodeHardwareQuality option"
  nht_updatedAt :: string

record V1NodeHardware =
  nh_spec :: V1NodeHardwareSpec
  nh_status :: V1NodeHardwareStatus

section \<open>NodeTwin\<close>

record V1CPUGovernorIntent =
  vci_preset :: string
  vci_boost :: string

record V1NodeTwinCPU =
  ntc_packagePowerCapWatts :: "f64 option"
  ntc_packagePowerCapPctOfMax :: "f64 option"
  ntc_governor :: "V1CPUGovernorIntent option"

record V1GPUGovernorIntent =
  vgi_preset :: string
  vgi_computeClockCeilingPctOfMax :: "f64 option"

record V1GPUPowerCap =
  gpc_scope :: string
  gpc_capWattsPerGPU :: "f64 option"
  gpc_capPctOfMax :: "f64 option"

record V1NodeTwinGPU =
  ntg_powerCap :: "V1GPUPowerCap option"
  ntg_governor :: "V1GPUGovernorIntent option"

record V1NodeTwinPolicy =
  ntp_name :: string

record V1NodeTwinScheduling =
  nts_draining :: bool

record V1NodeTwinSpec =
  nsp_nodeName :: string
  nsp_profile :: string
  nsp_cpu :: "V1NodeTwinCPU option"
  nsp_gpu :: "V1NodeTwinGPU option"
  nsp_policy :: "V1NodeTwinPolicy option"
  nsp_scheduling :: "V1NodeTwinScheduling option"

record V1PowerMeasurement =
  vpm_source :: string
  vpm_measuredNodePowerW :: f64
  vpm_cpuCappedPowerW :: f64
  vpm_gpuCappedPowerW :: f64
  vpm_nodeCappedPowerW :: f64
  vpm_cpuTdpW :: f64
  vpm_gpuTdpW :: f64
  vpm_nodeTdpW :: f64
  vpm_powerTrendWPerMin :: f64

record V1CapState =
  vcs_cpuPct :: f64
  vcs_gpuPct :: f64

record V1ControlResult =
  vrs_backend :: string
  vrs_result :: string
  vrs_message :: string
  vrs_applied :: string
  vrs_updatedAt :: string

record V1ControlStatus =
  vct_cpu :: "V1ControlResult option"
  vct_gpu :: "V1ControlResult option"
  vct_cpuGovernor :: "V1ControlResult option"
  vct_gpuGovernor :: "V1ControlResult option"

record V1NodeTwinStatus =
  vts_schedulableClass :: string
  vts_powerMeasurement :: "V1PowerMeasurement option"
  vts_predictedPowerHeadroomScore :: f64
  vts_predictedCoolingStressScore :: f64
  vts_predictedPsuStressScore :: f64
  vts_effectiveCapState :: "V1CapState option"
  vts_estimatedPUE :: f64
  vts_controlStatus :: "V1ControlStatus option"
  vts_lastUpdated :: string

record V1NodeTwin =
  nt_spec :: V1NodeTwinSpec
  nt_status :: V1NodeTwinStatus

end
