(* ===== verification/Sched_Extender.thy ===== *)
theory Sched_Extender
  imports Power_Est Crd_Types "HOL-Library.AList"
begin

text \<open>
  The scheduler extender of \<^verbatim>\<open>cmd/scheduler/main.go\<close>: the filter, the node score and its
  priority, and the two maps rebuilt from the informer cache at most once per \<open>CACHE_TTL\<close>.
  A Go map is an association list with distinct keys; the clock, the environment, the
  informer's lists and \<open>time.Parse\<close> of a timestamp are arguments. Metrics and logging are
  left out, and JSON fields are matched by their exact names, as kube-scheduler sends them.
\<close>

section \<open>Extender protocol\<close>

record NodeItem =
  ni_name :: string
  ni_labels :: "strmap option"

record ExtenderArgs =
  ea_pod :: json
  ea_nodes :: "NodeItem list option"
  ea_nodeNames :: "string list option"

record ExtenderFilterResult =
  fr_nodes :: "NodeItem list option"
  fr_nodeNames :: "string list option"
  fr_failedNodes :: "(string \<times> string) list"
  fr_error :: string

record HostPriority =
  hp_host :: string
  hp_score :: int

record nodeHWInfo =
  hw_gpuPresent :: bool
  hw_gpuCount :: int
  hw_cpuTotalCores :: int
  hw_cpuSockets :: int
  hw_cpuMaxWattsTotal :: f64
  hw_gpuMaxWattsPerGPU :: f64
  hw_cpuModel :: string
  hw_gpuModel :: string
  hw_gpuVendor :: string
  hw_memoryBytes :: int

type_synonym TwinStates = "(string \<times> NodeTwinStatus) list"
type_synonym HWInfos = "(string \<times> nodeHWInfo) list"

section \<open>Workload class\<close>

text \<open>
  \<open>pod.Metadata.Annotations\<close> of the decoded \<open>PodSpec\<close>: the decoder skips a value of
  another type, leaving the nil map, and stores the empty string for an annotation that is
  not a string.
\<close>

definition podAnnotations :: "json \<Rightarrow> strmap option" where
  "podAnnotations pod =
     (case asObj pod of None \<Rightarrow> None | Some p \<Rightarrow>
       (case jgetObj p ''metadata'' of None \<Rightarrow> None | Some m \<Rightarrow>
         (case jgetObj m ''annotations'' of None \<Rightarrow> None | Some as \<Rightarrow>
           Some (\<lambda>k. case map_of as k of None \<Rightarrow> None | Some (JStr s) \<Rightarrow> Some s | Some _ \<Rightarrow> Some []))))"

definition podWorkloadClass :: "strmap option \<Rightarrow> string" where
  "podWorkloadClass annotations =
     (case annotations of
        None \<Rightarrow> ''standard''
      | Some as \<Rightarrow> if map_get as ''joulie.io/workload-class'' \<noteq> [] then map_get as ''joulie.io/workload-class''
                  else ''standard'')"

section \<open>Filter\<close>

definition shouldFilterNode :: "string \<Rightarrow> TwinStates \<Rightarrow> strmap option \<Rightarrow> bool \<Rightarrow> string" where
  "shouldFilterNode nodeName states labels isPerformance =
     (if \<not> isPerformance then []
      else if (case map_of states nodeName of
                 Some st \<Rightarrow> ts_schedulableClass st = ''eco'' \<or> ts_schedulableClass st = ''draining''
               | None \<Rightarrow> False)
      then ''joulie: performance pod rejected from eco/draining node''
      else if (case labels of Some l \<Rightarrow> map_get l ''joulie.io/power-profile'' = ''eco'' | None \<Rightarrow> False)
      then ''joulie: performance pod rejected from eco node (label fallback)''
      else [])"

text \<open>The loop over the candidates: those that pass, in order, and the reasons by node name.\<close>

fun filterLoop :: "('n \<Rightarrow> string) \<Rightarrow> ('n \<Rightarrow> string) \<Rightarrow> 'n list \<Rightarrow> (string \<times> string) list \<Rightarrow> 'n list \<times> (string \<times> string) list" where
  "filterLoop name reason [] failed = ([], failed)"
| "filterLoop name reason (n # ns) failed =
     (if reason n \<noteq> [] then filterLoop name reason ns (AList.update (name n) (reason n) failed)
      else case filterLoop name reason ns failed of (passed, failed') \<Rightarrow> (n # passed, failed'))"

definition filterNodes :: "TwinStates \<Rightarrow> ExtenderArgs \<Rightarrow> ExtenderFilterResult" where
  "filterNodes states args =
     (let isPerformance = (podWorkloadClass (podAnnotations (ea_pod args)) = ''performance'')
      in case ea_nodes args of
           Some items \<Rightarrow>
             (case filterLoop ni_name (\<lambda>n. shouldFilterNode (ni_name n) states (ni_labels n) isPerformance) items [] of
                (passed, failed) \<Rightarrow>
                  \<lparr>fr_nodes = Some passed, fr_nodeNames = None, fr_failedNodes = failed, fr_error = []\<rparr>)
         | None \<Rightarrow>
             (case ea_nodeNames args of
                Some names \<Rightarrow>
                  (case filterLoop (\<lambda>n. n) (\<lambda>n. shouldFilterNode n states None isPerformance) names [] of
                     (passed, failed) \<Rightarrow>
                       \<lparr>fr_nodes = None, fr_nodeNames = Some passed, fr_failedNodes = failed, fr_error = []\<rparr>)
              | None \<Rightarrow> \<lparr>fr_nodes = None, fr_nodeNames = None, fr_failedNodes = [], fr_error = []\<rparr>))"

section \<open>Score\<close>

text \<open>\<open>now\<close> is \<open>time.Now()\<close> and \<open>threshold\<close> is \<open>twinStalenessThreshold\<close>, in nanoseconds.\<close>

definition isTwinStale :: "int \<Rightarrow> int \<Rightarrow> NodeTwinStatus \<Rightarrow> bool" where
  "isTwinStale now threshold ts =
     (case ts_lastUpdated ts of None \<Rightarrow> True | Some t \<Rightarrow> now - t > threshold)"

definition trendOf :: "NodeTwinStatus \<Rightarrow> f64" where
  "trendOf st = (case ts_powerMeasurement st of Some pm \<Rightarrow> pm_powerTrendWPerMin pm | None \<Rightarrow> 0)"

definition computeClusterTrend :: "int \<Rightarrow> int \<Rightarrow> TwinStates \<Rightarrow> f64" where
  "computeClusterTrend now threshold states =
     (let live = filter (\<lambda>s. \<not> isTwinStale now threshold (snd s) \<and> ts_powerMeasurement (snd s) \<noteq> None) states
      in if live = [] then 0 else sum_list (map (\<lambda>s. trendOf (snd s)) live))"

definition computePerfPressure :: "int \<Rightarrow> int \<Rightarrow> TwinStates \<Rightarrow> f64" where
  "computePerfPressure now threshold states =
     (let perf = filter (\<lambda>s. ts_schedulableClass (snd s) = ''performance'' \<and> \<not> isTwinStale now threshold (snd s)) states
      in if perf = [] then 0
         else sum_list (map (\<lambda>s. 100 - ts_headroomScore (snd s)) perf) / real (length perf))"

definition hwInfoToProfile :: "string \<Rightarrow> nodeHWInfo \<Rightarrow> NodePowerProfile" where
  "hwInfoToProfile nodeName hw =
     \<lparr>npp_nodeName = nodeName, npp_cpuModel = hw_cpuModel hw, npp_gpuModel = hw_gpuModel hw,
      npp_cpuTotalCores = hw_cpuTotalCores hw, npp_cpuSockets = hw_cpuSockets hw,
      npp_cpuMaxWattsTotal = hw_cpuMaxWattsTotal hw, npp_gpuCount = hw_gpuCount hw,
      npp_gpuMaxWattsPerGPU = hw_gpuMaxWattsPerGPU hw, npp_hasGPU = hw_gpuPresent hw,
      npp_memoryBytes = hw_memoryBytes hw\<rparr>"

definition podMarginalW :: "Coefficients \<Rightarrow> HWInfos \<Rightarrow> string \<Rightarrow> PodDemand option \<Rightarrow> f64" where
  "podMarginalW coeff hwInfo nodeName podDemand =
     (case podDemand of None \<Rightarrow> 0 | Some d \<Rightarrow>
       (case map_of hwInfo nodeName of None \<Rightarrow> 0 | Some hw \<Rightarrow>
          me_deltaTotalWatts (EstimateMarginalImpact d (Some (hwInfoToProfile nodeName hw)) coeff)))"

definition projectedHeadroom :: "NodeTwinStatus \<Rightarrow> f64 \<Rightarrow> f64" where
  "projectedHeadroom st marginalW =
     (let measured = (case ts_powerMeasurement st of Some pm \<Rightarrow> pm_measuredNodePowerW pm | None \<Rightarrow> 0);
          capped = (case ts_powerMeasurement st of Some pm \<Rightarrow> pm_nodeCappedPowerW pm | None \<Rightarrow> 0)
      in if capped > 0 then min 100 ((capped - (measured + marginalW)) / capped * 100)
         else ts_headroomScore st)"

definition trendBonus :: "NodeTwinStatus \<Rightarrow> f64 \<Rightarrow> f64" where
  "trendBonus st clusterTrend =
     (if trendOf st \<noteq> 0
      then - max (-25) (min 25 (trendOf st / (if \<bar>clusterTrend\<bar> > 500 then 2 else 6)))
      else 0)"

definition profileBonus :: "string \<Rightarrow> NodeTwinStatus \<Rightarrow> f64 \<Rightarrow> f64" where
  "profileBonus wpClass st perfPressure =
     (if wpClass = ''standard'' \<and> ts_schedulableClass st = ''eco'' then 10 else 0) -
     (if wpClass = ''standard'' \<and> ts_schedulableClass st = ''performance'' then perfPressure * (3 / 10) else 0)"

definition rawScore :: "NodeTwinStatus \<Rightarrow> f64 \<Rightarrow> string \<Rightarrow> f64 \<Rightarrow> f64 \<Rightarrow> f64" where
  "rawScore st marginalW wpClass perfPressure clusterTrend =
     projectedHeadroom st marginalW * (7 / 10) + (100 - ts_coolingStressScore st) * (15 / 100)
     + trendBonus st clusterTrend + profileBonus wpClass st perfPressure"

definition scoreNode ::
  "int \<Rightarrow> int \<Rightarrow> Coefficients \<Rightarrow> string \<Rightarrow> TwinStates \<Rightarrow> HWInfos \<Rightarrow> string \<Rightarrow> f64 \<Rightarrow> f64 \<Rightarrow> PodDemand option \<Rightarrow> int" where
  "scoreNode now threshold coeff nodeName states hwInfo wpClass perfPressure clusterTrend podDemand =
     (case map_of states nodeName of
        None \<Rightarrow> 50
      | Some st \<Rightarrow>
          if isTwinStale now threshold st then 50
          else (let score = rawScore st (podMarginalW coeff hwInfo nodeName podDemand) wpClass perfPressure clusterTrend;
                    score = (if score < 0 then 0 else score);
                    score = (if score > 100 then 100 else score)
                in go_trunc score))"

definition maxExtenderPriority :: int where
  "maxExtenderPriority = 10"

definition extenderPriority :: "int \<Rightarrow> int" where
  "extenderPriority score = go_div (score * maxExtenderPriority + 50) 100"

definition prioritizeNodes ::
  "int \<Rightarrow> int \<Rightarrow> Coefficients \<Rightarrow> TwinStates \<Rightarrow> HWInfos \<Rightarrow> ExtenderArgs \<Rightarrow> HostPriority list" where
  "prioritizeNodes now threshold coeff states hwInfo args =
     (let wpClass = podWorkloadClass (podAnnotations (ea_pod args));
          podDemand = map_option (\<lambda>raw. ExtractPodDemand raw wpClass) (asObj (ea_pod args));
          perfPressure = computePerfPressure now threshold states;
          clusterTrend = computeClusterTrend now threshold states;
          prio = (\<lambda>name. \<lparr>hp_host = name,
                     hp_score = extenderPriority (scoreNode now threshold coeff name states hwInfo wpClass
                                  perfPressure clusterTrend podDemand)\<rparr>)
      in case ea_nodes args of
           Some items \<Rightarrow> map (\<lambda>n. prio (ni_name n)) items
         | None \<Rightarrow> (case ea_nodeNames args of Some names \<Rightarrow> map prio names | None \<Rightarrow> []))"

section \<open>Objects\<close>

text \<open>\<open>parseTime\<close> is \<open>time.Parse(time.RFC3339, s)\<close>, \<open>None\<close> where it fails.\<close>

definition twinStatusFromObject :: "(string \<Rightarrow> int option) \<Rightarrow> V1NodeTwin \<Rightarrow> string \<times> NodeTwinStatus" where
  "twinStatusFromObject parseTime nt =
     (let st = nt_status nt
      in (nsp_nodeName (nt_spec nt),
          \<lparr>ts_schedulableClass = vts_schedulableClass st,
           ts_powerMeasurement = map_option (\<lambda>pm.
             \<lparr>pm_source = vpm_source pm, pm_measuredNodePowerW = vpm_measuredNodePowerW pm,
              pm_cpuCappedPowerW = vpm_cpuCappedPowerW pm, pm_gpuCappedPowerW = vpm_gpuCappedPowerW pm,
              pm_nodeCappedPowerW = vpm_nodeCappedPowerW pm, pm_cpuTdpW = vpm_cpuTdpW pm,
              pm_gpuTdpW = vpm_gpuTdpW pm, pm_nodeTdpW = vpm_nodeTdpW pm,
              pm_powerTrendWPerMin = vpm_powerTrendWPerMin pm\<rparr>) (vts_powerMeasurement st),
           ts_headroomScore = vts_predictedPowerHeadroomScore st,
           ts_coolingStressScore = vts_predictedCoolingStressScore st,
           ts_psuStressScore = vts_predictedPsuStressScore st,
           ts_effectiveCapState = (case vts_effectiveCapState st of
               None \<Rightarrow> \<lparr>cs_cpuPct = 0, cs_gpuPct = 0\<rparr>
             | Some cs \<Rightarrow> \<lparr>cs_cpuPct = vcs_cpuPct cs, cs_gpuPct = vcs_gpuPct cs\<rparr>),
           ts_estimatedPUE = vts_estimatedPUE st,
           ts_controlStatus = None,
           ts_lastUpdated = (if vts_lastUpdated st \<noteq> [] then parseTime (vts_lastUpdated st) else None)\<rparr>))"

definition hwInfoFromObject :: "V1NodeHardware \<Rightarrow> string \<times> nodeHWInfo" where
  "hwInfoFromObject nh =
     (let st = nh_status nh;
          sockets = (case nht_cpu st of Some cpu \<Rightarrow> vhc_sockets cpu | None \<Rightarrow> 0);
          maxCpu = (case nht_cpu st of None \<Rightarrow> 0 | Some cpu \<Rightarrow>
             (case vhc_capRange cpu of None \<Rightarrow> 0 | Some cr \<Rightarrow>
                vcr_maxWattsPerSocket cr * real_of_int (if sockets \<le> 0 then 1 else sockets)));
          cnt = (case nht_gpu st of Some gpu \<Rightarrow> vhg_count gpu | None \<Rightarrow> 0);
          maxGpu = (case nht_gpu st of None \<Rightarrow> 0 | Some gpu \<Rightarrow>
             (case vhg_capRangePerGPU gpu of None \<Rightarrow> 0 | Some cr \<Rightarrow>
                (let d = GPUPowerDomains (vhg_count gpu) (vhg_powerDomains gpu)
                 in if d < vhg_count gpu then vgr_maxWatts cr * real_of_int d / real_of_int (vhg_count gpu)
                    else vgr_maxWatts cr)))
      in (nhs_nodeName (nh_spec nh),
          \<lparr>hw_gpuPresent = (case nht_gpu st of Some gpu \<Rightarrow> vhg_present gpu \<or> cnt > 0 | None \<Rightarrow> False),
           hw_gpuCount = cnt,
           hw_cpuTotalCores = (case nht_cpu st of Some cpu \<Rightarrow> vhc_totalCores cpu | None \<Rightarrow> 0),
           hw_cpuSockets = sockets, hw_cpuMaxWattsTotal = maxCpu, hw_gpuMaxWattsPerGPU = maxGpu,
           hw_cpuModel = (case nht_cpu st of Some cpu \<Rightarrow> vhc_model cpu | None \<Rightarrow> []),
           hw_gpuModel = (case nht_gpu st of Some gpu \<Rightarrow> vhg_model gpu | None \<Rightarrow> []),
           hw_gpuVendor = (case nht_gpu st of Some gpu \<Rightarrow> vhg_vendor gpu | None \<Rightarrow> []),
           hw_memoryBytes = (case nht_memory st of Some m \<Rightarrow> vhm_totalBytes m | None \<Rightarrow> 0)\<rparr>))"

section \<open>The TTL caches\<close>

record 'v TtlCache =
  tc_value :: "'v option"
  tc_lastRefresh :: gotime

definition cacheFresh :: "int \<Rightarrow> int \<Rightarrow> 'v TtlCache \<Rightarrow> bool" where
  "cacheFresh ttl now c \<longleftrightarrow>
     (case tc_lastRefresh c of None \<Rightarrow> False | Some t \<Rightarrow> now - t < ttl) \<and> tc_value c \<noteq> None"

fun keyed :: "('o \<Rightarrow> string \<times> 'v) \<Rightarrow> 'o list \<Rightarrow> (string \<times> 'v) list \<Rightarrow> (string \<times> 'v) list" where
  "keyed f [] m = m"
| "keyed f (x # xs) m = (if fst (f x) \<noteq> [] then keyed f xs (AList.update (fst (f x)) (snd (f x)) m) else keyed f xs m)"

text \<open>
  The critical section under the write lock. \<open>reader\<close> is \<open>None\<close> while the informer cache has
  not synced; \<open>Some (Inl e)\<close> is a list that fails. \<open>now\<close> is the time of the second
  check and \<open>done\<close> the time after the list.
\<close>

definition twinRefresh ::
  "int \<Rightarrow> (string \<Rightarrow> int option) \<Rightarrow> (goerr + V1NodeTwin list) option \<Rightarrow> int \<Rightarrow> int \<Rightarrow> TwinStates TtlCache \<Rightarrow> TwinStates \<times> TwinStates TtlCache" where
  "twinRefresh ttl parseTime reader now done c =
     (if cacheFresh ttl now c then (the (tc_value c), c)
      else case reader of
             None \<Rightarrow> ([], c)
           | Some (Inl err) \<Rightarrow> ([], c)
           | Some (Inr items) \<Rightarrow>
               (let states = keyed (twinStatusFromObject parseTime) items []
                in (states, \<lparr>tc_value = Some states, tc_lastRefresh = Some done\<rparr>)))"

definition hardwareRefresh ::
  "int \<Rightarrow> (goerr + V1NodeHardware list) option \<Rightarrow> int \<Rightarrow> int \<Rightarrow> HWInfos TtlCache \<Rightarrow> HWInfos \<times> HWInfos TtlCache" where
  "hardwareRefresh ttl reader now done c =
     (if cacheFresh ttl now c then (the (tc_value c), c)
      else case reader of
             None \<Rightarrow> ([], c)
           | Some (Inl err) \<Rightarrow> ([], c)
           | Some (Inr items) \<Rightarrow>
               (let hw = keyed hwInfoFromObject items []
                in (hw, \<lparr>tc_value = Some hw, tc_lastRefresh = Some done\<rparr>)))"

text \<open>The whole function when no other request runs.\<close>

definition getNodeTwinStates ::
  "int \<Rightarrow> (string \<Rightarrow> int option) \<Rightarrow> (goerr + V1NodeTwin list) option \<Rightarrow> int \<Rightarrow> TwinStates TtlCache \<Rightarrow> TwinStates \<times> TwinStates TtlCache" where
  "getNodeTwinStates ttl parseTime reader now c =
     (if cacheFresh ttl now c then (the (tc_value c), c) else twinRefresh ttl parseTime reader now now c)"

definition getNodeHardwareInfo ::
  "int \<Rightarrow> (goerr + V1NodeHardware list) option \<Rightarrow> int \<Rightarrow> HWInfos TtlCache \<Rightarrow> HWInfos \<times> HWInfos TtlCache" where
  "getNodeHardwareInfo ttl reader now c =
     (if cacheFresh ttl now c then (the (tc_value c), c) else hardwareRefresh ttl reader now now c)"

text \<open>
  Requests that run at the same time. A request first checks the cache under the read lock
  (\<open>hit\<close> or \<open>miss\<close>), then runs the critical section under the write lock (\<open>refresh\<close>); the clock
  advances in between. \<open>cw_refreshes\<close> is the history of the refresh times, newest first.
\<close>

datatype 'v request = Arrived | AwaitsLock | Served 'v

record 'v CacheWorld =
  cw_now :: int
  cw_cache :: "'v TtlCache"
  cw_requests :: "nat \<Rightarrow> 'v request"
  cw_refreshes :: "int list"

inductive cacheStep ::
  "int \<Rightarrow> ('r \<Rightarrow> int \<Rightarrow> int \<Rightarrow> 'v TtlCache \<Rightarrow> 'v \<times> 'v TtlCache) \<Rightarrow> 'v CacheWorld \<Rightarrow> 'v CacheWorld \<Rightarrow> bool"
  for ttl :: int and refresh :: "'r \<Rightarrow> int \<Rightarrow> int \<Rightarrow> 'v TtlCache \<Rightarrow> 'v \<times> 'v TtlCache" where
  tick: "cw_now w \<le> t \<Longrightarrow> cacheStep ttl refresh w (w\<lparr>cw_now := t\<rparr>)"
| arrive: "cacheStep ttl refresh w (w\<lparr>cw_requests := (cw_requests w)(i := Arrived)\<rparr>)"
| hit: "cw_requests w i = Arrived \<Longrightarrow> cacheFresh ttl (cw_now w) (cw_cache w) \<Longrightarrow>
        cacheStep ttl refresh w (w\<lparr>cw_requests := (cw_requests w)(i := Served (the (tc_value (cw_cache w))))\<rparr>)"
| miss: "cw_requests w i = Arrived \<Longrightarrow> \<not> cacheFresh ttl (cw_now w) (cw_cache w) \<Longrightarrow>
         cacheStep ttl refresh w (w\<lparr>cw_requests := (cw_requests w)(i := AwaitsLock)\<rparr>)"
| locked: "cw_requests w i = AwaitsLock \<Longrightarrow> cw_now w \<le> t \<Longrightarrow> refresh r (cw_now w) t (cw_cache w) = (v, c) \<Longrightarrow>
         cacheStep ttl refresh w
           (w\<lparr>cw_now := t, cw_cache := c, cw_requests := (cw_requests w)(i := Served v),
              cw_refreshes := (if c = cw_cache w then cw_refreshes w else t # cw_refreshes w)\<rparr>)"

definition initialCache :: "'v TtlCache" where
  "initialCache = \<lparr>tc_value = None, tc_lastRefresh = None\<rparr>"

definition initialWorld :: "int \<Rightarrow> 'v CacheWorld" where
  "initialWorld now = \<lparr>cw_now = now, cw_cache = initialCache, cw_requests = (\<lambda>_. Arrived), cw_refreshes = []\<rparr>"

section \<open>Lemmas: the caches\<close>

text \<open>
  The contract the two refresh functions share: a fresh cache is served as it is; a stale
  one is either left alone or replaced by the value returned, stamped with the time after the list.
\<close>

locale ttl_cache =
  fixes ttl :: int and refresh :: "'r \<Rightarrow> int \<Rightarrow> int \<Rightarrow> 'v TtlCache \<Rightarrow> 'v \<times> 'v TtlCache"
  assumes refresh_fresh: "cacheFresh ttl now c \<Longrightarrow> refresh r now t c = (the (tc_value c), c)"
    and refresh_stale: "\<not> cacheFresh ttl now c \<Longrightarrow> refresh r now t c = (v, c') \<Longrightarrow>
           c' = c \<or> c' = \<lparr>tc_value = Some v, tc_lastRefresh = Some t\<rparr>"
begin

definition cacheInv :: "'v CacheWorld \<Rightarrow> bool" where
  "cacheInv w \<longleftrightarrow>
     (case cw_refreshes w of
        [] \<Rightarrow> tc_value (cw_cache w) = None
      | t # _ \<Rightarrow> tc_lastRefresh (cw_cache w) = Some t \<and> tc_value (cw_cache w) \<noteq> None \<and> t \<le> cw_now w) \<and>
     sorted_wrt (\<lambda>later earlier. earlier + ttl \<le> later) (cw_refreshes w)"

lemma stale_gap:
  assumes "cacheInv w" "\<not> cacheFresh ttl (cw_now w) (cw_cache w)" "y \<in> set (cw_refreshes w)"
  shows "y + ttl \<le> cw_now w"
  using assms by (auto simp: cacheInv_def cacheFresh_def split: list.splits)

lemma inv_locked:
  assumes inv: "cacheInv w" and t: "cw_now w \<le> t" and r: "refresh r (cw_now w) t (cw_cache w) = (v, c)"
  shows "cacheInv (w\<lparr>cw_now := t, cw_cache := c, cw_requests := q,
           cw_refreshes := (if c = cw_cache w then cw_refreshes w else t # cw_refreshes w)\<rparr>)"
proof (cases "c = cw_cache w")
  case True
  then show ?thesis using inv t by (auto simp: cacheInv_def split: list.splits)
next
  case False
  then have stale: "\<not> cacheFresh ttl (cw_now w) (cw_cache w)" using r refresh_fresh by auto
  have "c = \<lparr>tc_value = Some v, tc_lastRefresh = Some t\<rparr>" using refresh_stale [OF stale r] False by simp
  then show ?thesis using False inv t stale_gap [OF inv stale] by (fastforce simp: cacheInv_def)
qed

lemma inv_step: "cacheStep ttl refresh w w' \<Longrightarrow> cacheInv w \<Longrightarrow> cacheInv w'"
proof (induction rule: cacheStep.induct)
  case (locked w i t r v c)
  then show ?case by (intro inv_locked)
qed (auto simp: cacheInv_def split: list.splits)

lemma inv_reachable: "(cacheStep ttl refresh)\<^sup>*\<^sup>* (initialWorld now) w \<Longrightarrow> cacheInv w"
proof (induction rule: rtranclp_induct)
  case base
  then show ?case by (simp add: cacheInv_def initialWorld_def initialCache_def)
qed (rule inv_step)

lemma refreshes_spaced:
  "(cacheStep ttl refresh)\<^sup>*\<^sup>* (initialWorld now) w \<Longrightarrow>
   sorted_wrt (\<lambda>later earlier. earlier + ttl \<le> later) (cw_refreshes w)"
  using inv_reachable by (simp add: cacheInv_def)

end

interpretation twinCache: ttl_cache ttl "twinRefresh ttl parseTime"
  for ttl parseTime
  by unfold_locales (auto simp: twinRefresh_def Let_def split: option.splits sum.splits)

interpretation hardwareCache: ttl_cache ttl "hardwareRefresh ttl"
  for ttl
  by unfold_locales (auto simp: hardwareRefresh_def Let_def split: option.splits sum.splits)

section \<open>Lemmas: filter and score\<close>

lemma filterLoop_passed: "fst (filterLoop name reason ns failed) = filter (\<lambda>n. reason n = []) ns"
  by (induction name reason ns failed rule: filterLoop.induct) (auto split: prod.splits)

lemma filterLoop_dom:
  "fst ` set (snd (filterLoop name reason ns failed)) = fst ` set failed \<union> name ` {n \<in> set ns. reason n \<noteq> []}"
proof (induction name reason ns failed rule: filterLoop.induct)
  case (2 name reason n ns failed)
  show ?case
  proof (cases "reason n = []")
    case True
    then have "{m \<in> set (n # ns). reason m \<noteq> []} = {m \<in> set ns. reason m \<noteq> []}" by auto
    then show ?thesis using 2(2) True by (cases "filterLoop name reason ns failed") simp
  next
    case False
    then have "{m \<in> set (n # ns). reason m \<noteq> []} = insert n {m \<in> set ns. reason m \<noteq> []}" by auto
    then show ?thesis using 2(1) [OF False] False by (simp add: dom_update)
  qed
qed simp

lemma shouldFilter_standard: "shouldFilterNode n states l False = []"
  by (simp add: shouldFilterNode_def)

lemma shouldFilter_performance:
  "shouldFilterNode n states l True = [] \<longleftrightarrow>
     (\<forall>st. map_of states n = Some st \<longrightarrow> ts_schedulableClass st \<noteq> ''eco'' \<and> ts_schedulableClass st \<noteq> ''draining'') \<and>
     (\<forall>lab. l = Some lab \<longrightarrow> map_get lab ''joulie.io/power-profile'' \<noteq> ''eco'')"
  by (auto simp: shouldFilterNode_def split: option.splits)

lemma extenderPriority_mono: "0 \<le> a \<Longrightarrow> a \<le> b \<Longrightarrow> extenderPriority a \<le> extenderPriority b"
  by (simp add: extenderPriority_def maxExtenderPriority_def go_div_nonneg zdiv_mono1)

lemma extenderPriority_bounds: "0 \<le> a \<Longrightarrow> a \<le> 100 \<Longrightarrow> 0 \<le> extenderPriority a \<and> extenderPriority a \<le> 10"
  using extenderPriority_mono [of 0 a] extenderPriority_mono [of a 100]
  by (simp add: extenderPriority_def maxExtenderPriority_def go_div_nonneg)

definition clampScore :: "f64 \<Rightarrow> int" where
  "clampScore s = \<lfloor>min 100 (max 0 s)\<rfloor>"

lemma scoreNode_live:
  assumes "map_of states n = Some st" "\<not> isTwinStale now th st"
  shows "scoreNode now th coeff n states hw cls pp ct d = clampScore (rawScore st (podMarginalW coeff hw n d) cls pp ct)"
  using assms by (simp add: scoreNode_def clampScore_def go_trunc_def Let_def min_def max_def)

lemma clampScore_bounds: "0 \<le> clampScore s \<and> clampScore s \<le> 100"
proof -
  have "\<lfloor>min 100 (max 0 s)\<rfloor> \<le> \<lfloor>100 :: real\<rfloor>" by (intro floor_mono) simp
  then show ?thesis by (simp add: clampScore_def)
qed

lemma clampScore_mono: "s \<le> s' \<Longrightarrow> clampScore s \<le> clampScore s'"
  unfolding clampScore_def by (intro floor_mono min.mono max.mono) simp_all

lemma scoreNode_bounds: "0 \<le> scoreNode now th coeff n states hw cls pp ct d \<and> scoreNode now th coeff n states hw cls pp ct d \<le> 100"
proof (cases "map_of states n")
  case (Some st)
  then show ?thesis
    by (cases "isTwinStale now th st") (simp add: scoreNode_def, metis scoreNode_live clampScore_bounds)
qed (simp add: scoreNode_def)

lemma projectedHeadroom_antimono: "m \<le> m' \<Longrightarrow> projectedHeadroom st m' \<le> projectedHeadroom st m"
proof -
  assume m: "m \<le> m'"
  have "min 100 ((c - (p + m')) / c * 100) \<le> min 100 ((c - (p + m)) / c * 100)" if "0 < c" for c p :: real
    using that m by (intro min.mono mult_right_mono divide_right_mono) auto
  then show ?thesis unfolding projectedHeadroom_def Let_def by (auto simp only: split: if_splits)
qed

lemma rawScore_antimono: "m \<le> m' \<Longrightarrow> rawScore st m' cls pp ct \<le> rawScore st m cls pp ct"
  using projectedHeadroom_antimono [of m m' st] by (simp add: rawScore_def)

lemma podMarginalW_mono:
  "saneCoefficients coeff \<Longrightarrow> demandLe d d' \<Longrightarrow> podMarginalW coeff hw n (Some d) \<le> podMarginalW coeff hw n (Some d')"
  using estCpu_mono estGpu_mono by (auto simp: podMarginalW_def estTotal_eq intro!: add_mono split: option.splits)

lemma sum_list_map_nonneg: "(\<And>x. x \<in> set xs \<Longrightarrow> 0 \<le> f x) \<Longrightarrow> 0 \<le> sum_list (map f xs)" for f :: "'a \<Rightarrow> real"
  by (rule sum_list_nonneg) auto

lemma computePerfPressure_nonneg:
  "\<forall>s \<in> set states. ts_headroomScore (snd s) \<le> 100 \<Longrightarrow> 0 \<le> computePerfPressure now th states"
  unfolding computePerfPressure_def Let_def by (force intro!: sum_list_map_nonneg divide_nonneg_nonneg)

lemma class_irrelevant [simp]:
  "projectedHeadroom (st\<lparr>ts_schedulableClass := c\<rparr>) m = projectedHeadroom st m"
  "trendBonus (st\<lparr>ts_schedulableClass := c\<rparr>) ct = trendBonus st ct"
  by (simp_all add: projectedHeadroom_def trendBonus_def trendOf_def Let_def)

section \<open>Properties\<close>

text \<open>What the comment of \<open>filterNodes\<close> promises of a candidate.\<close>

definition eligible :: "TwinStates \<Rightarrow> ExtenderArgs \<Rightarrow> string \<Rightarrow> strmap option \<Rightarrow> bool" where
  "eligible states args name labels \<longleftrightarrow>
     (podWorkloadClass (podAnnotations (ea_pod args)) = ''performance'' \<longrightarrow>
       (\<forall>st. map_of states name = Some st \<longrightarrow> ts_schedulableClass st \<noteq> ''eco'' \<and> ts_schedulableClass st \<noteq> ''draining'') \<and>
       (\<forall>lab. labels = Some lab \<longrightarrow> map_get lab ''joulie.io/power-profile'' \<noteq> ''eco''))"

lemma eligible_iff:
  "eligible states args name labels \<longleftrightarrow>
     shouldFilterNode name states labels (podWorkloadClass (podAnnotations (ea_pod args)) = ''performance'') = []"
  by (cases "podWorkloadClass (podAnnotations (ea_pod args)) = ''performance''")
     (simp_all add: eligible_def shouldFilter_performance shouldFilter_standard)

text \<open>C8: The filter keeps exactly the eligible candidates, in order, and reports the others, and
  only them, as failed: a performance pod never passes a node whose twin is eco or draining or
  whose label says eco, and any other pod passes every node. The same holds for candidates sent
  by name, where no labels are known.\<close>

theorem filterNodes_correct:
  "(ea_nodes args = Some items \<longrightarrow>
      fr_nodes (filterNodes states args) = Some (filter (\<lambda>n. eligible states args (ni_name n) (ni_labels n)) items) \<and>
      fst ` set (fr_failedNodes (filterNodes states args))
        = ni_name ` {n \<in> set items. \<not> eligible states args (ni_name n) (ni_labels n)}) \<and>
   (ea_nodes args = None \<longrightarrow> ea_nodeNames args = Some names \<longrightarrow>
      fr_nodeNames (filterNodes states args) = Some (filter (\<lambda>n. eligible states args n None) names) \<and>
      fst ` set (fr_failedNodes (filterNodes states args)) = {n \<in> set names. \<not> eligible states args n None})"
proof -
  let ?p = "podWorkloadClass (podAnnotations (ea_pod args)) = ''performance''"
  let ?r = "\<lambda>n. shouldFilterNode (ni_name n) states (ni_labels n) ?p" and ?q = "\<lambda>n. shouldFilterNode n states None ?p"
  show ?thesis
    using filterLoop_passed [of ni_name ?r items "[]"] filterLoop_dom [of ni_name ?r items "[]"]
      filterLoop_passed [of "\<lambda>n. n" ?q names "[]"] filterLoop_dom [of "\<lambda>n. n" ?q names "[]"]
    by (simp add: filterNodes_def Let_def eligible_iff split_beta)
qed

definition examplePerfArgs :: ExtenderArgs where
  "examplePerfArgs =
     \<lparr>ea_pod = JObj [(''metadata'', JObj [(''annotations'', JObj [(''joulie.io/workload-class'', JStr ''performance'')])])],
      ea_nodes = Some [\<lparr>ni_name = ''eco1'', ni_labels = Some [''joulie.io/power-profile'' \<mapsto> ''eco'']\<rparr>,
                       \<lparr>ni_name = ''perf1'', ni_labels = None\<rparr>],
      ea_nodeNames = None\<rparr>"

theorem filterNodes_correct_witness:
  "fr_nodes (filterNodes [] examplePerfArgs) = Some [\<lparr>ni_name = ''perf1'', ni_labels = None\<rparr>]"
  using filterNodes_correct [of examplePerfArgs "the (ea_nodes examplePerfArgs)" "[]" "[]"]
  by (simp add: examplePerfArgs_def eligible_def podAnnotations_def podWorkloadClass_def jgetObj_def jget_def map_get_def)

text \<open>Every candidate gets one priority, in the order of the request, between 0 and the
  extender maximum of 10; a node with no twin or a stale one gets the neutral 5.\<close>

theorem prioritizeNodes_range:
  assumes "ea_nodes args = Some items"
  shows "map hp_host (prioritizeNodes now th coeff states hw args) = map ni_name items \<and>
    (\<forall>h \<in> set (prioritizeNodes now th coeff states hw args). 0 \<le> hp_score h \<and> hp_score h \<le> maxExtenderPriority \<and>
      ((\<forall>st. map_of states (hp_host h) = Some st \<longrightarrow> isTwinStale now th st) \<longrightarrow> hp_score h = 5))"
proof -
  have "scoreNode now th coeff n states hw cls pp ct d = 50"
    if "\<forall>st. map_of states n = Some st \<longrightarrow> isTwinStale now th st" for n cls pp ct d
    using that by (auto simp: scoreNode_def split: option.splits)
  then show ?thesis
    using assms extenderPriority_bounds scoreNode_bounds
    by (auto simp: prioritizeNodes_def Let_def maxExtenderPriority_def) (simp add: extenderPriority_def maxExtenderPriority_def go_div_nonneg)
qed

theorem prioritizeNodes_range_witness:
  "map hp_host (prioritizeNodes 0 0 DefaultCoefficients [] [] examplePerfArgs) = [''eco1'', ''perf1'']"
  using prioritizeNodes_range [of examplePerfArgs "the (ea_nodes examplePerfArgs)" 0 0 DefaultCoefficients "[]" "[]"]
  by (simp add: examplePerfArgs_def)

text \<open>On a node whose twin is live, a pod with a larger demand never gets a higher score; and
  for a standard pod a live eco node scores at least as high as an otherwise equal performance
  node where the pod would add no less power, since the twin's headroom never exceeds 100.\<close>

theorem scoreNode_steers:
  assumes "saneCoefficients coeff" and "demandLe d d'"
    and "map_of states n = Some st" and "\<not> isTwinStale now th st" and "ts_schedulableClass st = ''performance''"
    and "map_of states m = Some (st\<lparr>ts_schedulableClass := ''eco''\<rparr>)"
    and "podMarginalW coeff hw m (Some d) \<le> podMarginalW coeff hw n (Some d)"
    and "\<forall>s \<in> set states. ts_headroomScore (snd s) \<le> 100"
  shows "scoreNode now th coeff n states hw cls pp ct (Some d') \<le> scoreNode now th coeff n states hw cls pp ct (Some d) \<and>
    scoreNode now th coeff n states hw ''standard'' (computePerfPressure now th states) ct (Some d)
      \<le> scoreNode now th coeff m states hw ''standard'' (computePerfPressure now th states) ct (Some d)"
proof
  show "scoreNode now th coeff n states hw cls pp ct (Some d') \<le> scoreNode now th coeff n states hw cls pp ct (Some d)"
    unfolding scoreNode_live [OF assms(3,4)]
    by (intro clampScore_mono rawScore_antimono podMarginalW_mono assms)
  let ?eco = "st\<lparr>ts_schedulableClass := ''eco''\<rparr>" and ?pp = "computePerfPressure now th states"
  have live: "\<not> isTwinStale now th ?eco" using assms(4) by (simp add: isTwinStale_def)
  have "rawScore st (podMarginalW coeff hw n (Some d)) ''standard'' ?pp ct
      \<le> rawScore ?eco (podMarginalW coeff hw m (Some d)) ''standard'' ?pp ct"
    using projectedHeadroom_antimono [OF assms(7), of st] computePerfPressure_nonneg [OF assms(8), of now th] assms(5)
    by (simp add: rawScore_def profileBonus_def)
  then show "scoreNode now th coeff n states hw ''standard'' ?pp ct (Some d) \<le> scoreNode now th coeff m states hw ''standard'' ?pp ct (Some d)"
    unfolding scoreNode_live [OF assms(3,4)] scoreNode_live [OF assms(6) live] by (rule clampScore_mono)
qed

definition exampleStatus :: "string \<Rightarrow> f64 \<Rightarrow> f64 \<Rightarrow> NodeTwinStatus" where
  "exampleStatus cls headroom trend =
     \<lparr>ts_schedulableClass = cls,
      ts_powerMeasurement = Some \<lparr>pm_source = [], pm_measuredNodePowerW = 100, pm_cpuCappedPowerW = 200,
        pm_gpuCappedPowerW = 0, pm_nodeCappedPowerW = 200, pm_cpuTdpW = 300, pm_gpuTdpW = 0, pm_nodeTdpW = 300,
        pm_powerTrendWPerMin = trend\<rparr>,
      ts_headroomScore = headroom, ts_coolingStressScore = 0, ts_psuStressScore = 0,
      ts_effectiveCapState = \<lparr>cs_cpuPct = 100, cs_gpuPct = 100\<rparr>, ts_estimatedPUE = 1,
      ts_controlStatus = None, ts_lastUpdated = Some 0\<rparr>"

theorem scoreNode_steers_witness:
  "scoreNode 0 0 DefaultCoefficients ''p'' [(''p'', exampleStatus ''performance'' 50 0), (''e'', exampleStatus ''eco'' 50 0)] []
      ''standard'' (computePerfPressure 0 0 [(''p'', exampleStatus ''performance'' 50 0), (''e'', exampleStatus ''eco'' 50 0)]) 0
      (Some (emptyDemand []))
   \<le> scoreNode 0 0 DefaultCoefficients ''e'' [(''p'', exampleStatus ''performance'' 50 0), (''e'', exampleStatus ''eco'' 50 0)] []
      ''standard'' (computePerfPressure 0 0 [(''p'', exampleStatus ''performance'' 50 0), (''e'', exampleStatus ''eco'' 50 0)]) 0
      (Some (emptyDemand []))"
  by (rule scoreNode_steers [OF DefaultCoefficients_sane demandLe_refl, where st = "exampleStatus ''performance'' 50 0", THEN conjunct2])
     (simp_all add: exampleStatus_def isTwinStale_def podMarginalW_def)

text \<open>However requests interleave, the twin map and the hardware map are each rebuilt from the
  informer cache at most once per \<open>CACHE_TTL\<close>: any two rebuilds are at least that far apart,
  also when several requests miss at once and queue for the lock. A request served alone gets
  the empty map or a map rebuilt less than \<open>CACHE_TTL\<close> ago or in this very call.\<close>

theorem caches_refresh_spacing:
  assumes "(cacheStep ttl (twinRefresh ttl parseTime))\<^sup>*\<^sup>* (initialWorld now) w"
    and "(cacheStep ttl (hardwareRefresh ttl))\<^sup>*\<^sup>* (initialWorld now) w'"
  shows "sorted_wrt (\<lambda>later earlier. earlier + ttl \<le> later) (cw_refreshes w) \<and>
    sorted_wrt (\<lambda>later earlier. earlier + ttl \<le> later) (cw_refreshes w') \<and>
    (\<forall>reader t c v c'. getNodeTwinStates ttl parseTime reader t c = (v, c') \<longrightarrow>
       v = [] \<or> (tc_value c' = Some v \<and> (cacheFresh ttl t c' \<or> tc_lastRefresh c' = Some t)))"
proof -
  have "v = [] \<or> (tc_value c' = Some v \<and> (cacheFresh ttl t c' \<or> tc_lastRefresh c' = Some t))"
    if "getNodeTwinStates ttl parseTime reader t c = (v, c')" for reader t c v c'
    using that by (auto simp: getNodeTwinStates_def twinRefresh_def cacheFresh_def Let_def split: if_splits option.splits sum.splits)
  then show ?thesis
    using twinCache.refreshes_spaced [OF assms(1)] hardwareCache.refreshes_spaced [OF assms(2)] by blast
qed

theorem caches_refresh_spacing_witness:
  "sorted_wrt (\<lambda>later earlier. earlier + 30 \<le> later) (cw_refreshes (initialWorld 0 :: TwinStates CacheWorld))"
proof -
  have "(cacheStep 30 (hardwareRefresh 30))\<^sup>*\<^sup>* (initialWorld 0) (initialWorld 0)" by simp
  from caches_refresh_spacing [OF rtranclp.rtrancl_refl this] show ?thesis by blast
qed

text \<open>Two comments the code does not follow: the cluster trend is the sum, not the average, of
  the node trends, and the pressure exceeds 100 where performance nodes are over budget.\<close>

lemma computeClusterTrend_sums:
  "computeClusterTrend 0 0 [(''a'', exampleStatus ''eco'' 0 10), (''b'', exampleStatus ''eco'' 0 20)] = 30"
  by (simp add: computeClusterTrend_def trendOf_def isTwinStale_def exampleStatus_def)

lemma computePerfPressure_unbounded:
  "computePerfPressure 0 0 [(''a'', exampleStatus ''performance'' (- 100) 0)] = 200"
  by (simp add: computePerfPressure_def isTwinStale_def exampleStatus_def)

end
