(* ===== verification/Dvfs_Control.thy ===== *)
theory Dvfs_Control
  imports Joulie_Api
begin

text \<open>
  The DVFS controller of \<^verbatim>\<open>pkg/agent/dvfs/dvfs.go\<close>: the power reading from RAPL counters,
  the control loop with its moving average, trip counts and cooldown, the writes to the
  cpufreq files, and the discovery of those files. The host's sysfs is the record \<open>Host\<close>:
  what a glob matches, what a path resolves to, the contents, and which files take a write.
  Globs of the code are constant patterns, which \<open>filepath.Glob\<close> never rejects; the paths it
  returns are clean. The HTTP control client is a function from action, cap and percentage
  to an optional error. Runs of the controller are in \<open>Agent_Caps\<close>, beside the percent caps that act on it. Metrics are only present or absent; the values set on them and the wording of the
  status line are left out.
\<close>

section \<open>Host files and paths\<close>

record Host =
  ho_glob :: "string \<Rightarrow> string list"
  ho_resolve :: "string \<Rightarrow> string option"
  ho_files :: strmap
  ho_writable :: "string \<Rightarrow> bool"

definition readInt64 :: "Host \<Rightarrow> string \<Rightarrow> int option" where
  "readInt64 h path = (case ho_files h path of None \<Rightarrow> None | Some s \<Rightarrow> Atoi (TrimSpace s))"

definition writeFile :: "Host \<Rightarrow> string \<Rightarrow> string \<Rightarrow> Host option" where
  "writeFile h path v = (if ho_writable h path then Some (h\<lparr>ho_files := (ho_files h)(path \<mapsto> v)\<rparr>) else None)"

section \<open>Controller\<close>

record CPU =
  cpu_index :: int
  cpu_maxFile :: string
  cpu_curFile :: string
  cpu_minKHz :: int
  cpu_maxKHz :: int

record energySample =
  es_lastUJ :: int
  es_lastTime :: int
  es_rangeUJ :: int

type_synonym PowerReading = "goerr + f64 option"

record Controller =
  ct_cpus :: "CPU list"
  ct_samples :: "string \<Rightarrow> energySample option"
  ct_emaAlpha :: f64
  ct_emaPowerW :: f64
  ct_emaInit :: bool
  ct_highMarginW :: f64
  ct_lowMarginW :: f64
  ct_stepPct :: int
  ct_throttlePct :: int
  ct_minFreqKHz :: int
  ct_cooldown :: int
  ct_lastAction :: gotime
  ct_aboveCount :: int
  ct_belowCount :: int
  ct_tripCount :: int
  ct_hasMetrics :: bool
  ct_powerReader :: "PowerReading option"

record DvfsConfig =
  dc_emaAlpha :: f64
  dc_highMarginW :: f64
  dc_lowMarginW :: f64
  dc_stepPct :: int
  dc_minFreqKHz :: int
  dc_cooldown :: int
  dc_tripCount :: int

definition Active :: "Controller \<Rightarrow> bool" where
  "Active d \<longleftrightarrow> ct_throttlePct d > 0"

definition HasHostControl :: "Controller \<Rightarrow> bool" where
  "HasHostControl d \<longleftrightarrow> length (ct_cpus d) > 0"

section \<open>Discovery\<close>

abbreviation HostSysRoot :: string where "HostSysRoot \<equiv> ''/host-sys''"
abbreviation PowercapRoot :: string where "PowercapRoot \<equiv> ''/host-sys/class/powercap''"

definition cpuFreqGlobs :: "string list" where
  "cpuFreqGlobs = [HostSysRoot @ ''/devices/system/cpu/cpu*/cpufreq/scaling_max_freq'',
                   HostSysRoot @ ''/devices/system/cpu/cpufreq/policy*/scaling_max_freq'']"

definition resolveOr :: "Host \<Rightarrow> string \<Rightarrow> string" where
  "resolveOr h key = (case ho_resolve h key of Some r \<Rightarrow> r | None \<Rightarrow> key)"

text \<open>The first match for every resolved key; \<open>keyOf\<close> is the path that is resolved.\<close>

fun dedupe :: "(string \<Rightarrow> string) \<Rightarrow> string set \<Rightarrow> string list \<Rightarrow> string list" where
  "dedupe keyOf seen [] = []"
| "dedupe keyOf seen (f # fs) =
     (if keyOf f \<in> seen then dedupe keyOf seen fs else f # dedupe keyOf (insert (keyOf f) seen) fs)"

definition CPUIndexFromPath :: "string \<Rightarrow> int option" where
  "CPUIndexFromPath dir =
     (let base = pathBase dir
      in if HasPrefix base ''policy'' then Atoi (TrimPrefix base ''policy'')
         else (let base = (if HasPrefix base ''cpufreq'' then pathBase (pathDir dir) else base)
               in if \<not> HasPrefix base ''cpu'' then None else Atoi (TrimPrefix base ''cpu'')))"

definition cpuOf :: "Host \<Rightarrow> string \<Rightarrow> CPU option" where
  "cpuOf h maxf =
     (let dir = pathDir maxf
      in case CPUIndexFromPath dir of None \<Rightarrow> None | Some idx \<Rightarrow>
           (case readInt64 h (pathJoin dir ''cpuinfo_min_freq'') of None \<Rightarrow> None | Some minKHz \<Rightarrow>
              (case readInt64 h (pathJoin dir ''cpuinfo_max_freq'') of None \<Rightarrow> None | Some maxKHz \<Rightarrow>
                 Some \<lparr>cpu_index = idx, cpu_maxFile = maxf, cpu_curFile = pathJoin dir ''scaling_cur_freq'',
                       cpu_minKHz = minKHz, cpu_maxKHz = maxKHz\<rparr>)))"

definition CPUFreqList :: "Host \<Rightarrow> CPU list" where
  "CPUFreqList h =
     (let matches = dedupe (\<lambda>f. resolveOr h (pathDir f)) {} (concat (map (ho_glob h) cpuFreqGlobs))
      in go_sort (\<lambda>a b. cpu_index a < cpu_index b) (List.map_filter (cpuOf h) matches))"

definition energyFileGlobs :: "string list" where
  "energyFileGlobs =
     [PowercapRoot @ ''/*/energy_uj'', PowercapRoot @ ''/*:*/energy_uj'', PowercapRoot @ ''/*:*:*/energy_uj'',
      HostSysRoot @ ''/devices/virtual/powercap/intel-rapl/*/energy_uj'',
      HostSysRoot @ ''/devices/virtual/powercap/intel-rapl/*/*/energy_uj'']"

definition countColons :: "string \<Rightarrow> nat" where
  "countColons s = length (filter (\<lambda>c. c = CHR '':'') s)"

definition IsPackageEnergyFile :: "string \<Rightarrow> bool" where
  "IsPackageEnergyFile path \<longleftrightarrow> countColons (pathBase (pathDir path)) = 1"

definition EnergyFiles :: "Host \<Rightarrow> string list" where
  "EnergyFiles h =
     filter IsPackageEnergyFile
       (go_sort (<) (dedupe (resolveOr h) {} (concat (map (ho_glob h) energyFileGlobs))))"

fun zoneLoop :: "Host \<Rightarrow> string list \<Rightarrow> string list \<times> string list \<times> bool" where
  "zoneLoop h [] = ([], [], False)"
| "zoneLoop h (dir # dirs) =
     (case zoneLoop h dirs of (named, fallback, sawName) \<Rightarrow>
       (let fallback' = (if countColons (pathBase dir) = 1 then dir # fallback else fallback)
        in case ho_files h (pathJoin dir ''name'') of
             None \<Rightarrow> (named, fallback', sawName)
           | Some raw \<Rightarrow> (if HasPrefix (TrimSpace raw) ''package-'' then dir # named else named, fallback', True)))"

definition RAPLPackageZones :: "Host \<Rightarrow> string list" where
  "RAPLPackageZones h =
     (case zoneLoop h (go_sort (<) (ho_glob h (PowercapRoot @ ''/*''))) of
        (named, fallback, sawName) \<Rightarrow> if sawName then named else fallback)"

definition RAPLCapFiles :: "Host \<Rightarrow> string list" where
  "RAPLCapFiles h =
     go_sort (<) (filter (\<lambda>f. ho_files h f \<noteq> None)
       (map (\<lambda>z. pathJoin z ''constraint_0_power_limit_uw'') (RAPLPackageZones h)))"

definition New :: "Host \<Rightarrow> DvfsConfig \<Rightarrow> bool \<Rightarrow> Controller" where
  "New h cfg metrics =
     \<lparr>ct_cpus = CPUFreqList h, ct_samples = Map.empty, ct_emaAlpha = dc_emaAlpha cfg, ct_emaPowerW = 0,
      ct_emaInit = False, ct_highMarginW = dc_highMarginW cfg, ct_lowMarginW = dc_lowMarginW cfg,
      ct_stepPct = dc_stepPct cfg, ct_throttlePct = 0, ct_minFreqKHz = dc_minFreqKHz cfg,
      ct_cooldown = dc_cooldown cfg, ct_lastAction = None, ct_aboveCount = 0, ct_belowCount = 0,
      ct_tripCount = dc_tripCount cfg, ct_hasMetrics = metrics, ct_powerReader = None\<rparr>"

section \<open>Power reading\<close>

text \<open>One counter: the updated sample and the watts since the last reading, if there are any.\<close>

definition readCounter :: "Host \<Rightarrow> int \<Rightarrow> string \<Rightarrow> energySample option \<Rightarrow> int \<Rightarrow> energySample \<times> f64 option" where
  "readCounter h now f sample currentUJ =
     (case sample of
        None \<Rightarrow>
          (\<lparr>es_lastUJ = currentUJ, es_lastTime = now,
            es_rangeUJ = (case ho_files h (pathJoin (pathDir f) ''max_energy_range_uj'') of Some s \<Rightarrow> AtoiValue (TrimSpace s) | None \<Rightarrow> 0)\<rparr>, None)
      | Some s \<Rightarrow>
          (let delta = currentUJ - es_lastUJ s;
               delta = (if delta < 0 \<and> es_rangeUJ s > 0 then delta + es_rangeUJ s else delta);
               dt = real_of_int (now - es_lastTime s) / 1000000000
           in (s\<lparr>es_lastUJ := currentUJ, es_lastTime := now\<rparr>,
               if dt \<le> 0 \<or> delta < 0 then None else Some (real_of_int delta / 1000000 / dt))))"

fun readCounters :: "Host \<Rightarrow> int \<Rightarrow> string list \<Rightarrow> (string \<Rightarrow> energySample option) \<Rightarrow> f64 option \<Rightarrow> (string \<Rightarrow> energySample option) \<times> f64 option" where
  "readCounters h now [] samples acc = (samples, acc)"
| "readCounters h now (f # fs) samples acc =
     (case readInt64 h f of
        None \<Rightarrow> readCounters h now fs samples acc
      | Some currentUJ \<Rightarrow>
          (case readCounter h now f (samples f) currentUJ of
             (s, w) \<Rightarrow>
               readCounters h now fs (samples(f \<mapsto> s))
                 (case w of None \<Rightarrow> acc | Some w \<Rightarrow> Some (case acc of None \<Rightarrow> w | Some a \<Rightarrow> a + w))))"

definition readPowerWatts :: "Host \<Rightarrow> int \<Rightarrow> Controller \<Rightarrow> PowerReading \<times> Controller" where
  "readPowerWatts h now d =
     (case ct_powerReader d of
        Some r \<Rightarrow> (r, d)
      | None \<Rightarrow>
          (case readCounters h now (EnergyFiles h) (ct_samples d) None of
             (samples, totalW) \<Rightarrow> (Inr totalW, d\<lparr>ct_samples := samples\<rparr>)))"

section \<open>Throttling\<close>

type_synonym ControlClient = "string \<Rightarrow> f64 \<Rightarrow> int \<Rightarrow> goerr option"

fun writeTargets :: "Host \<Rightarrow> (string \<times> int) list \<Rightarrow> nat \<Rightarrow> (goerr option \<times> nat) \<times> Host" where
  "writeTargets h [] written = ((None, written), h)"
| "writeTargets h ((file, target) # ts) written =
     (case writeFile h file (Itoa target) of
        None \<Rightarrow> ((Some (''write '' @ file), written), h)
      | Some h' \<Rightarrow> writeTargets h' ts (written + 1))"

definition throttleCount :: "nat \<Rightarrow> int \<Rightarrow> int" where
  "throttleCount cnt pct = go_ceil (real cnt * real_of_int pct / 100)"

definition freqTarget :: "Controller \<Rightarrow> int \<Rightarrow> nat \<times> CPU \<Rightarrow> string \<times> int" where
  "freqTarget d throttled ic =
     (case ic of (i, c) \<Rightarrow>
        (cpu_maxFile c, if int i < throttled then max (cpu_minKHz c) (min (cpu_maxKHz c) (ct_minFreqKHz d)) else cpu_maxKHz c))"

definition applyThrottlePct :: "Host \<Rightarrow> Controller \<Rightarrow> int \<Rightarrow> ControlClient option \<Rightarrow> f64 \<Rightarrow> (goerr option \<times> nat) \<times> Host" where
  "applyThrottlePct h d pct client capWatts =
     (if pct < 0 \<or> pct > 100 then ((Some ''invalid throttle pct'', 0), h)
      else case client of
             Some apply' \<Rightarrow>
               (case apply' ''dvfs.set_throttle_pct'' capWatts pct of
                  Some err \<Rightarrow> ((Some err, 0), h)
                | None \<Rightarrow> ((None, 1), h))
           | None \<Rightarrow>
               if length (ct_cpus d) = 0 then ((Some ''no cpufreq scaling_max_freq files found'', 0), h)
               else writeTargets h
                      (map (freqTarget d (throttleCount (length (ct_cpus d)) pct)) (enumerate 0 (ct_cpus d))) 0)"

definition RestoreAllMax :: "Host \<Rightarrow> Controller \<Rightarrow> (goerr option \<times> nat) \<times> Controller \<times> Host" where
  "RestoreAllMax h d =
     (case applyThrottlePct h d 0 None 0 of
        ((err, written), h') \<Rightarrow> ((err, written), (if err = None then d\<lparr>ct_throttlePct := 0\<rparr> else d), h'))"

section \<open>The control loop\<close>

datatype DvfsOutcome =
    Skipped
  | CooldownHold
  | ThrottledUp int int nat
  | ThrottledDown int int nat
  | Held

definition updateEma :: "f64 \<Rightarrow> Controller \<Rightarrow> Controller" where
  "updateEma powerW d =
     (if \<not> ct_emaInit d then d\<lparr>ct_emaPowerW := powerW, ct_emaInit := True\<rparr>
      else d\<lparr>ct_emaPowerW := ct_emaAlpha d * powerW + (1 - ct_emaAlpha d) * ct_emaPowerW d\<rparr>)"

definition inCooldown :: "int \<Rightarrow> Controller \<Rightarrow> bool" where
  "inCooldown now d = (case ct_lastAction d of None \<Rightarrow> False | Some t \<Rightarrow> now - t < ct_cooldown d)"

definition countTrips :: "f64 \<Rightarrow> Controller \<Rightarrow> Controller" where
  "countTrips capWatts d =
     (if ct_emaPowerW d > capWatts + ct_highMarginW d
      then d\<lparr>ct_aboveCount := ct_aboveCount d + 1, ct_belowCount := 0\<rparr>
      else if ct_emaPowerW d < capWatts - ct_lowMarginW d
      then d\<lparr>ct_belowCount := ct_belowCount d + 1, ct_aboveCount := 0\<rparr>
      else d\<lparr>ct_aboveCount := 0, ct_belowCount := 0\<rparr>)"

definition Reconcile :: "Host \<Rightarrow> int \<Rightarrow> f64 \<Rightarrow> ControlClient option \<Rightarrow> Controller \<Rightarrow> (goerr + DvfsOutcome) \<times> Controller \<times> Host" where
  "Reconcile h now capWatts client d0 =
     (if capWatts \<le> 0 then (Inr Skipped, d0, h)
      else if \<not> ct_hasMetrics d0 then (Inl ''dvfs: Metrics not initialized'', d0, h)
      else case readPowerWatts h now d0 of
             (Inl err, d) \<Rightarrow> (Inl err, d, h)
           | (Inr None, d) \<Rightarrow> (Inr Skipped, d, h)
           | (Inr (Some powerW), d) \<Rightarrow>
               (let d = updateEma powerW d
                in if inCooldown now d then (Inr CooldownHold, d, h)
                   else (let d = countTrips capWatts d; oldPct = ct_throttlePct d
                         in if ct_aboveCount d \<ge> ct_tripCount d
                            then (let d = d\<lparr>ct_throttlePct := min 100 (oldPct + ct_stepPct d), ct_aboveCount := 0,
                                            ct_lastAction := Some now\<rparr>
                                  in case applyThrottlePct h d (ct_throttlePct d) client capWatts of
                                       ((Some err, _), h') \<Rightarrow> (Inl err, d, h')
                                     | ((None, written), h') \<Rightarrow> (Inr (ThrottledUp oldPct (ct_throttlePct d) written), d, h'))
                            else if ct_belowCount d \<ge> ct_tripCount d
                            then (let d = d\<lparr>ct_throttlePct := max 0 (oldPct - ct_stepPct d), ct_belowCount := 0,
                                            ct_lastAction := Some now\<rparr>
                                  in case applyThrottlePct h d (ct_throttlePct d) client capWatts of
                                       ((Some err, _), h') \<Rightarrow> (Inl err, d, h')
                                     | ((None, written), h') \<Rightarrow> (Inr (ThrottledDown oldPct (ct_throttlePct d) written), d, h'))
                            else (Inr Held, d, h))))"

section \<open>Lemmas: discovery and writes\<close>

lemma dedupe_keys:
  "distinct (map keyOf (dedupe keyOf seen fs)) \<and> keyOf ` set (dedupe keyOf seen fs) = keyOf ` set fs - seen"
  by (induction keyOf seen fs rule: dedupe.induct) auto

lemma dedupe_subset: "set (dedupe keyOf seen fs) \<subseteq> set fs"
  by (induction keyOf seen fs rule: dedupe.induct) auto

lemma cpuOf_maxFile: "cpuOf h f = Some c \<Longrightarrow> cpu_maxFile c = f"
  by (auto simp: cpuOf_def Let_def split: option.splits)

lemma map_filter_files: "map cpu_maxFile (List.map_filter (cpuOf h) fs) = filter (\<lambda>f. cpuOf h f \<noteq> None) fs"
  by (induction fs) (auto simp: List.map_filter_simps cpuOf_maxFile)

lemma distinct_map_go_sort: "distinct (map f (go_sort lt xs)) = distinct (map f xs)"
  by (metis mset_eq_imp_distinct_iff mset_go_sort mset_map)

text \<open>One entry per policy directory, hence no file twice.\<close>

lemma CPUFreqList_policies: "distinct (map (\<lambda>c. resolveOr h (pathDir (cpu_maxFile c))) (CPUFreqList h))"
proof -
  let ?key = "\<lambda>f. resolveOr h (pathDir f)" and ?fs = "concat (map (ho_glob h) cpuFreqGlobs)"
  have eq: "map (\<lambda>c. ?key (cpu_maxFile c)) xs = map ?key (map cpu_maxFile xs)" for xs by simp
  have "distinct (map ?key (filter P (dedupe ?key {} ?fs)))" for P
    using dedupe_keys [of ?key "{}" ?fs] by (simp add: distinct_map_filter)
  then show ?thesis
    unfolding CPUFreqList_def Let_def distinct_map_go_sort unfolding eq map_filter_files by blast
qed

lemma CPUFreqList_distinct: "distinct (map cpu_maxFile (CPUFreqList h))"
  using CPUFreqList_policies [of h] distinct_map [of "\<lambda>f. resolveOr h (pathDir f)" "map cpu_maxFile (CPUFreqList h)"]
  by (simp add: comp_def)

lemma writeTargets_ok:
  assumes "\<forall>(f, v) \<in> set ts. ho_writable h f" and "distinct (map fst ts)"
  shows "\<exists>h'. writeTargets h ts n = ((None, n + length ts), h') \<and> ho_writable h' = ho_writable h \<and>
    (\<forall>(f, v) \<in> set ts. ho_files h' f = Some (Itoa v)) \<and> (\<forall>f. f \<notin> fst ` set ts \<longrightarrow> ho_files h' f = ho_files h f)"
  using assms
proof (induction ts arbitrary: h n)
  case (Cons t ts)
  obtain f v where t: "t = (f, v)" by force
  let ?h = "h\<lparr>ho_files := (ho_files h)(f \<mapsto> Itoa v)\<rparr>"
  have w: "writeFile h f (Itoa v) = Some ?h" using Cons.prems(1) t by (simp add: writeFile_def)
  have "\<forall>(f, v) \<in> set ts. ho_writable ?h f" "distinct (map fst ts)" using Cons.prems by auto
  then obtain h' where h': "writeTargets ?h ts (n + 1) = ((None, n + 1 + length ts), h')" "ho_writable h' = ho_writable ?h"
      "\<forall>(f, v) \<in> set ts. ho_files h' f = Some (Itoa v)" "\<forall>f. f \<notin> fst ` set ts \<longrightarrow> ho_files h' f = ho_files ?h f"
    using Cons.IH by blast
  have "f \<notin> fst ` set ts" using Cons.prems(2) t by auto
  then show ?case using h' w t by (intro exI [of _ h']) auto
qed simp

lemma map_fst_freqTarget: "map fst (map (freqTarget d k) (enumerate n cs)) = map cpu_maxFile cs"
  by (induction cs arbitrary: n) (auto simp: freqTarget_def)

lemma set_freqTargets:
  "set (map (freqTarget d k) (enumerate 0 cs)) = {freqTarget d k (i, cs ! i) |i. i < length cs}"
  by (auto simp: in_set_enumerate_eq image_iff)

section \<open>Lemmas: the loop\<close>

lemma readPowerWatts_frame: "readPowerWatts h t d = (r, d') \<Longrightarrow> \<exists>s. d' = d\<lparr>ct_samples := s\<rparr>"
  by (auto simp: readPowerWatts_def split: option.splits prod.splits) (metis Controller.surjective Controller.update_convs(2))

text \<open>The control state apart from the readings: what the loop may and may not do to it.\<close>

definition ctlInv :: "DvfsConfig \<Rightarrow> Controller \<Rightarrow> bool" where
  "ctlInv cfg d \<longleftrightarrow>
     ct_stepPct d = dc_stepPct cfg \<and> ct_tripCount d = dc_tripCount cfg \<and> ct_cooldown d = dc_cooldown cfg \<and>
     0 \<le> ct_throttlePct d \<and> ct_throttlePct d \<le> 100 \<and>
     0 \<le> ct_aboveCount d \<and> ct_aboveCount d < dc_tripCount cfg \<and> 0 \<le> ct_belowCount d \<and> ct_belowCount d < dc_tripCount cfg \<and>
     (ct_aboveCount d = 0 \<or> ct_belowCount d = 0)"

lemma ctlInv_readings:
  "ctlInv cfg d \<Longrightarrow> ctlInv cfg (d\<lparr>ct_samples := s\<rparr>)" "ctlInv cfg d \<Longrightarrow> ctlInv cfg (d\<lparr>ct_powerReader := p\<rparr>)"
  "ctlInv cfg d \<Longrightarrow> ctlInv cfg (updateEma w d)"
  by (simp_all add: ctlInv_def updateEma_def)

lemma frame_simps [simp]:
  "ct_lastAction (updateEma w d) = ct_lastAction d" "ct_cooldown (updateEma w d) = ct_cooldown d"
  "ct_throttlePct (updateEma w d) = ct_throttlePct d" "ct_tripCount (updateEma w d) = ct_tripCount d"
  "ct_stepPct (updateEma w d) = ct_stepPct d" "ct_aboveCount (updateEma w d) = ct_aboveCount d"
  "ct_belowCount (updateEma w d) = ct_belowCount d" "ct_highMarginW (updateEma w d) = ct_highMarginW d"
  "ct_lowMarginW (updateEma w d) = ct_lowMarginW d" "ct_cpus (updateEma w d) = ct_cpus d"
  "ct_lastAction (countTrips c d) = ct_lastAction d" "ct_throttlePct (countTrips c d) = ct_throttlePct d"
  "ct_tripCount (countTrips c d) = ct_tripCount d" "ct_stepPct (countTrips c d) = ct_stepPct d"
  "ct_cooldown (countTrips c d) = ct_cooldown d" "ct_cpus (countTrips c d) = ct_cpus d"
  "ct_emaPowerW (countTrips c d) = ct_emaPowerW d" "ct_highMarginW (countTrips c d) = ct_highMarginW d"
  "ct_lowMarginW (countTrips c d) = ct_lowMarginW d"
  by (simp_all add: updateEma_def countTrips_def)

lemma Reconcile_measured:
  assumes "\<not> cap \<le> 0" and "ct_hasMetrics d" and "readPowerWatts h t d = (Inr (Some w), d\<lparr>ct_samples := s\<rparr>)"
    and "e = countTrips cap (updateEma w (d\<lparr>ct_samples := s\<rparr>))"
  shows "Reconcile h t cap client d =
  (if inCooldown t d then (Inr CooldownHold, updateEma w (d\<lparr>ct_samples := s\<rparr>), h)
   else if ct_tripCount e \<le> ct_aboveCount e
   then (let d = e\<lparr>ct_throttlePct := min 100 (ct_throttlePct e + ct_stepPct e), ct_aboveCount := 0, ct_lastAction := Some t\<rparr>
         in case applyThrottlePct h d (ct_throttlePct d) client cap of
              ((Some err, _), h') \<Rightarrow> (Inl err, d, h')
            | ((None, written), h') \<Rightarrow> (Inr (ThrottledUp (ct_throttlePct e) (ct_throttlePct d) written), d, h'))
   else if ct_tripCount e \<le> ct_belowCount e
   then (let d = e\<lparr>ct_throttlePct := max 0 (ct_throttlePct e - ct_stepPct e), ct_belowCount := 0, ct_lastAction := Some t\<rparr>
         in case applyThrottlePct h d (ct_throttlePct d) client cap of
              ((Some err, _), h') \<Rightarrow> (Inl err, d, h')
            | ((None, written), h') \<Rightarrow> (Inr (ThrottledDown (ct_throttlePct e) (ct_throttlePct d) written), d, h'))
   else (Inr Held, e, h))"
proof -
  have cool: "inCooldown t (updateEma w (d\<lparr>ct_samples := s\<rparr>)) = inCooldown t d"
    by (simp add: inCooldown_def split: option.split)
  show ?thesis using assms(1,2) by (simp add: Reconcile_def assms(3) Let_def assms(4) [symmetric] cool)
qed

text \<open>
  What a turn can do, by the controller it leaves: nothing but readings, counting,
  or one step up or down.
\<close>

lemma Reconcile_cases:
  assumes "Reconcile h t cap client d = (r, d', h')"
  obtains s where "d' = d\<lparr>ct_samples := s\<rparr>" "\<nexists>a b n. r = Inr (ThrottledUp a b n) \<or> r = Inr (ThrottledDown a b n)"
  | s w where "d' = updateEma w (d\<lparr>ct_samples := s\<rparr>)" "r = Inr CooldownHold"
  | s w e where "\<not> inCooldown t d" "e = countTrips cap (updateEma w (d\<lparr>ct_samples := s\<rparr>))" "ct_tripCount e \<le> ct_aboveCount e"
      "d' = e\<lparr>ct_throttlePct := min 100 (ct_throttlePct e + ct_stepPct e), ct_aboveCount := 0, ct_lastAction := Some t\<rparr>"
      "\<nexists>a b n. r = Inr (ThrottledDown a b n)"
  | s w e where "\<not> inCooldown t d" "e = countTrips cap (updateEma w (d\<lparr>ct_samples := s\<rparr>))" "ct_aboveCount e < ct_tripCount e"
      "ct_tripCount e \<le> ct_belowCount e"
      "d' = e\<lparr>ct_throttlePct := max 0 (ct_throttlePct e - ct_stepPct e), ct_belowCount := 0, ct_lastAction := Some t\<rparr>"
      "\<nexists>a b n. r = Inr (ThrottledUp a b n)"
  | s w e where "\<not> inCooldown t d" "e = countTrips cap (updateEma w (d\<lparr>ct_samples := s\<rparr>))" "ct_aboveCount e < ct_tripCount e"
      "ct_belowCount e < ct_tripCount e" "d' = e" "r = Inr Held"
proof (cases "cap \<le> 0 \<or> \<not> ct_hasMetrics d")
  case True
  then have "d' = d\<lparr>ct_samples := ct_samples d\<rparr>" "r = Inr Skipped \<or> (\<exists>e. r = Inl e)"
    using assms by (auto simp: Reconcile_def split: if_splits)
  then show thesis using that(1) by blast
next
  case False
  then have pos: "\<not> cap \<le> 0" and met: "ct_hasMetrics d" by simp_all
  obtain p d1 where p: "readPowerWatts h t d = (p, d1)" by force
  obtain s where s: "d1 = d\<lparr>ct_samples := s\<rparr>" using readPowerWatts_frame [OF p] by blast
  show thesis
  proof (cases "\<exists>w. p = Inr (Some w)")
    case no: False
    then have "d' = d\<lparr>ct_samples := s\<rparr>" "r = Inr Skipped \<or> (\<exists>e. r = Inl e)"
      using assms pos met p s by (auto simp: Reconcile_def split: sum.splits option.splits)
    then show thesis using that(1) by blast
  next
    case True
    then obtain w where w: "p = Inr (Some w)" by blast
    define e where "e = countTrips cap (updateEma w (d\<lparr>ct_samples := s\<rparr>))"
    note A = assms [unfolded Reconcile_measured [OF pos met p [unfolded w s] e_def] Let_def]
    consider "inCooldown t d" | (up) "\<not> inCooldown t d" "ct_tripCount e \<le> ct_aboveCount e"
      | (down) "\<not> inCooldown t d" "ct_aboveCount e < ct_tripCount e" "ct_tripCount e \<le> ct_belowCount e"
      | (hold) "\<not> inCooldown t d" "ct_aboveCount e < ct_tripCount e" "ct_belowCount e < ct_tripCount e"
      by linarith
    then show thesis
    proof cases
      case 1
      then show ?thesis using A by (intro that(2)) auto
    next
      case up
      then show ?thesis using A by (intro that(3) [OF up(1) e_def up(2)]) (auto split: prod.splits option.splits)
    next
      case down
      then show ?thesis using A by (intro that(4) [OF down(1) e_def down(2,3)]) (auto split: prod.splits option.splits)
    next
      case hold
      then show ?thesis using A by (intro that(5) [OF hold(1) e_def hold(2,3)]) auto
    qed
  qed
qed

lemma countTrips_inv:
  assumes "ctlInv cfg d"
  shows "0 \<le> ct_aboveCount (countTrips c d) \<and> 0 \<le> ct_belowCount (countTrips c d) \<and>
    (ct_aboveCount (countTrips c d) = 0 \<or> ct_belowCount (countTrips c d) = 0) \<and>
    ct_aboveCount (countTrips c d) \<le> dc_tripCount cfg \<and> ct_belowCount (countTrips c d) \<le> dc_tripCount cfg"
  using assms by (auto simp: ctlInv_def countTrips_def)

lemma Reconcile_inv:
  assumes "Reconcile h t cap client d = (r, d', h')" and inv: "ctlInv cfg d"
    and cfg: "0 \<le> dc_stepPct cfg" "1 \<le> dc_tripCount cfg"
  shows "ctlInv cfg d' \<and> (ct_lastAction d' = ct_lastAction d \<or> (ct_lastAction d' = Some t \<and> \<not> inCooldown t d))"
  using assms(1)
proof (cases rule: Reconcile_cases)
  case (1 s)
  then show ?thesis using ctlInv_readings(1) [OF inv] by simp
next
  case (2 s w)
  then show ?thesis using ctlInv_readings(3) [OF ctlInv_readings(1) [OF inv]] by simp
next
  case (3 s w e)
  have "ctlInv cfg (updateEma w (d\<lparr>ct_samples := s\<rparr>))" using ctlInv_readings inv by blast
  note e = countTrips_inv [OF this, of cap, folded 3(2)] this
  from 3(2) have "ct_throttlePct e = ct_throttlePct d" "ct_stepPct e = dc_stepPct cfg" "ct_tripCount e = dc_tripCount cfg"
    "ct_cooldown e = dc_cooldown cfg" using e(2) by (simp_all add: ctlInv_def)
  then show ?thesis using 3 e cfg inv by (auto simp: ctlInv_def)
next
  case (4 s w e)
  have "ctlInv cfg (updateEma w (d\<lparr>ct_samples := s\<rparr>))" using ctlInv_readings inv by blast
  note e = countTrips_inv [OF this, of cap, folded 4(2)] this
  from 4(2) have "ct_throttlePct e = ct_throttlePct d" "ct_stepPct e = dc_stepPct cfg" "ct_tripCount e = dc_tripCount cfg"
    "ct_cooldown e = dc_cooldown cfg" using e(2) by (simp_all add: ctlInv_def)
  then show ?thesis using 4 e cfg inv by (auto simp: ctlInv_def)
next
  case (5 s w e)
  have "ctlInv cfg (updateEma w (d\<lparr>ct_samples := s\<rparr>))" using ctlInv_readings inv by blast
  note e = countTrips_inv [OF this, of cap, folded 5(2)] this
  from 5(2) have "ct_throttlePct e = ct_throttlePct d" "ct_stepPct e = dc_stepPct cfg" "ct_tripCount e = dc_tripCount cfg"
    "ct_cooldown e = dc_cooldown cfg" "ct_lastAction e = ct_lastAction d" using e(2) by (simp_all add: ctlInv_def)
  then show ?thesis using 5 e cfg inv by (auto simp: ctlInv_def)
qed

section \<open>Properties\<close>

definition exampleHost :: Host where
  "exampleHost = \<lparr>ho_glob = (\<lambda>_. []), ho_resolve = (\<lambda>_. None), ho_files = Map.empty, ho_writable = (\<lambda>_. True)\<rparr>"

definition exampleDvfsConfig :: DvfsConfig where
  "exampleDvfsConfig = \<lparr>dc_emaAlpha = 1 / 5, dc_highMarginW = 10, dc_lowMarginW = 15, dc_stepPct = 10,
     dc_minFreqKHz = 1500000, dc_cooldown = 20, dc_tripCount = 2\<rparr>"

text \<open>Hysteresis. A turn raises the throttle only outside the cooldown, when the moving average
  after the new reading is above the cap by more than the high margin and the trip count is
  reached, lowers it only when the average is below the cap by more than the low margin, and
  then by one step, clamped; otherwise it leaves it.\<close>

theorem Reconcile_hysteresis:
  assumes "Reconcile h t cap client d = (r, d', h')" and "0 \<le> ct_stepPct d"
    and "0 \<le> ct_throttlePct d" and "ct_throttlePct d \<le> 100"
    and "1 \<le> ct_tripCount d" and "ct_aboveCount d < ct_tripCount d" and "ct_belowCount d < ct_tripCount d"
  shows "(ct_throttlePct d < ct_throttlePct d' \<longrightarrow>
            \<not> inCooldown t d \<and> ct_emaPowerW d' > cap + ct_highMarginW d \<and> ct_aboveCount d + 1 = ct_tripCount d \<and>
            ct_throttlePct d' = min 100 (ct_throttlePct d + ct_stepPct d)) \<and>
         (ct_throttlePct d' < ct_throttlePct d \<longrightarrow>
            \<not> inCooldown t d \<and> ct_emaPowerW d' < cap - ct_lowMarginW d \<and> ct_belowCount d + 1 = ct_tripCount d \<and>
            ct_throttlePct d' = max 0 (ct_throttlePct d - ct_stepPct d))"
  using assms(1)
proof (cases rule: Reconcile_cases)
  case (3 s w e)
  then show ?thesis using assms(2-7) by (auto simp: countTrips_def split: if_splits)
next
  case (4 s w e)
  then show ?thesis using assms(2-7) by (auto simp: countTrips_def split: if_splits)
qed simp_all

definition exampleHotController :: Controller where
  "exampleHotController = (New exampleHost exampleDvfsConfig True)\<lparr>ct_powerReader := Some (Inr (Some 200)), ct_aboveCount := 1\<rparr>"

lemma exampleHot_reconcile:
  "\<exists>d' h'. Reconcile exampleHost 0 100 (Some (\<lambda>_ _ _. None)) exampleHotController = (Inr (ThrottledUp 0 10 1), d', h') \<and>
     ct_throttlePct d' = 10"
  by (simp add: Reconcile_def exampleHotController_def readPowerWatts_def updateEma_def inCooldown_def countTrips_def
      New_def exampleDvfsConfig_def applyThrottlePct_def Let_def)

theorem Reconcile_hysteresis_witness:
  "\<exists>d' h'. Reconcile exampleHost 0 100 (Some (\<lambda>_ _ _. None)) exampleHotController = (Inr (ThrottledUp 0 10 1), d', h') \<and>
     ct_throttlePct d' = min 100 (ct_throttlePct exampleHotController + ct_stepPct exampleHotController)"
proof -
  obtain d' h' where R: "Reconcile exampleHost 0 100 (Some (\<lambda>_ _ _. None)) exampleHotController = (Inr (ThrottledUp 0 10 1), d', h')"
    and ten: "ct_throttlePct d' = 10" using exampleHot_reconcile by blast
  have "ct_throttlePct d' = min 100 (ct_throttlePct exampleHotController + ct_stepPct exampleHotController)"
    using Reconcile_hysteresis [OF R] ten by (simp add: exampleHotController_def New_def exampleDvfsConfig_def)
  then show ?thesis using R by blast
qed

lemma ball_fst: "(\<And>f. f \<in> fst ` S \<Longrightarrow> P f) \<Longrightarrow> \<forall>(f, v) \<in> S. P f"
  by force

lemma throttleCount_bounds:
  "0 \<le> pct \<Longrightarrow> pct \<le> 100 \<Longrightarrow> 0 \<le> throttleCount n pct \<and> throttleCount n pct \<le> int n"
proof -
  assume pct: "0 \<le> pct" "pct \<le> 100"
  have "real n * real_of_int pct \<le> real n * 100" using pct by (intro mult_left_mono) simp_all
  then have "real n * real_of_int pct / 100 \<le> real n" by simp
  moreover have "0 \<le> real n * real_of_int pct / 100" using pct by simp
  ultimately show ?thesis by (simp add: throttleCount_def go_ceil_def ceiling_le_iff)
qed

lemma throttleCount_ends [simp]: "throttleCount n 0 = 0" "throttleCount n 100 = int n"
  by (simp_all add: throttleCount_def go_ceil_def)

text \<open>On a host whose cpufreq files take writes, throttling the CPUs the discovery found
  succeeds and writes every one of them: the first \<open>ceil(n * pct / 100)\<close> get the configured
  minimum clamped to the CPU's own range, the others their maximum, and nothing else changes.
  So percentage 0 restores every maximum, and a percentage outside 0..100 is refused without
  a write.\<close>

theorem applyThrottlePct_correct:
  assumes "ct_cpus d = CPUFreqList h" and "ct_cpus d \<noteq> []" and "\<forall>c \<in> set (ct_cpus d). ho_writable h (cpu_maxFile c)"
    and "0 \<le> pct" and "pct \<le> 100"
  shows "\<exists>h'. applyThrottlePct h d pct None cap = ((None, length (ct_cpus d)), h') \<and>
    (\<forall>i < length (ct_cpus d). ho_files h' (cpu_maxFile (ct_cpus d ! i)) =
       Some (Itoa (if int i < throttleCount (length (ct_cpus d)) pct
                   then max (cpu_minKHz (ct_cpus d ! i)) (min (cpu_maxKHz (ct_cpus d ! i)) (ct_minFreqKHz d))
                   else cpu_maxKHz (ct_cpus d ! i)))) \<and>
    (\<forall>f. f \<notin> cpu_maxFile ` set (ct_cpus d) \<longrightarrow> ho_files h' f = ho_files h f) \<and>
    0 \<le> throttleCount (length (ct_cpus d)) pct \<and> throttleCount (length (ct_cpus d)) pct \<le> int (length (ct_cpus d)) \<and>
    (\<forall>bad. bad < 0 \<or> 100 < bad \<longrightarrow> applyThrottlePct h d bad None cap = ((Some ''invalid throttle pct'', 0), h))"
proof -
  let ?k = "throttleCount (length (ct_cpus d)) pct" and ?cs = "ct_cpus d"
  let ?ts = "map (freqTarget d ?k) (enumerate 0 ?cs)"
  have files: "map fst ?ts = map cpu_maxFile ?cs" by (rule map_fst_freqTarget)
  then have fs: "fst ` set ?ts = cpu_maxFile ` set ?cs" by (metis list.set_map)
  have "ho_writable h f" if "f \<in> fst ` set ?ts" for f using that assms(3) unfolding fs by blast
  then have w: "\<forall>(f, v) \<in> set ?ts. ho_writable h f" by (rule ball_fst)
  have dis: "distinct (map fst ?ts)" using CPUFreqList_distinct [of h] unfolding files unfolding assms(1) .
  obtain h' where h: "writeTargets h ?ts 0 = ((None, 0 + length ?ts), h') \<and> ho_writable h' = ho_writable h \<and>
      (\<forall>(f, v) \<in> set ?ts. ho_files h' f = Some (Itoa v)) \<and> (\<forall>f. f \<notin> fst ` set ?ts \<longrightarrow> ho_files h' f = ho_files h f)"
    using writeTargets_ok [OF w dis] by (rule exE)
  note h' = h [THEN conjunct1] h [THEN conjunct2, THEN conjunct2, THEN conjunct1] h [THEN conjunct2, THEN conjunct2, THEN conjunct2]
  have "applyThrottlePct h d pct None cap = ((None, length ?cs), h')"
    using h'(1) assms(2,4,5) by (simp add: applyThrottlePct_def)
  moreover have "ho_files h' (cpu_maxFile (?cs ! i)) = Some (Itoa (snd (freqTarget d ?k (i, ?cs ! i))))" if "i < length ?cs" for i
  proof -
    have "freqTarget d ?k (i, ?cs ! i) \<in> set ?ts" unfolding set_freqTargets using that by blast
    then show ?thesis using h'(2) by (auto simp: freqTarget_def)
  qed
  ultimately show ?thesis
    using h'(3) throttleCount_bounds [OF assms(4,5)] unfolding fs
    by (intro exI [of _ h']) (simp add: freqTarget_def applyThrottlePct_def)
qed

definition exampleCpuHost :: Host where
  "exampleCpuHost =
     \<lparr>ho_glob = (\<lambda>p. if p = ''/host-sys/devices/system/cpu/cpu*/cpufreq/scaling_max_freq''
                     then [''/c/cpu0/cpufreq/f'', ''/c/cpu1/cpufreq/f''] else [''/c/policy0/f'']),
      ho_resolve = (\<lambda>p. Some (if p = ''/c/cpu1/cpufreq'' then ''/c/policy1'' else ''/c/policy0'')),
      ho_files = (\<lambda>p. if HasSuffix p ''cpuinfo_min_freq'' then Some ''800'' else Some ''3000''),
      ho_writable = (\<lambda>_. True)\<rparr>"

lemma exampleCpuHost_list:
  "map (\<lambda>c. (cpu_index c, cpu_maxFile c, cpu_minKHz c, cpu_maxKHz c)) (CPUFreqList exampleCpuHost)
     = [(0, ''/c/cpu0/cpufreq/f'', 800, 3000), (1, ''/c/cpu1/cpufreq/f'', 800, 3000)]"
  by code_simp

theorem applyThrottlePct_correct_witness:
  "\<exists>h'. applyThrottlePct exampleCpuHost (New exampleCpuHost exampleDvfsConfig True) 50 None 100 = ((None, 2), h')"
proof -
  let ?d = "New exampleCpuHost exampleDvfsConfig True"
  have "length (map (\<lambda>c. (cpu_index c, cpu_maxFile c, cpu_minKHz c, cpu_maxKHz c)) (CPUFreqList exampleCpuHost)) = 2"
    unfolding exampleCpuHost_list by simp
  then have len: "length (ct_cpus ?d) = 2" "ct_cpus ?d = CPUFreqList exampleCpuHost" by (simp_all add: New_def)
  then have "ct_cpus ?d \<noteq> []" by auto
  moreover have "\<forall>c \<in> set (ct_cpus ?d). ho_writable exampleCpuHost (cpu_maxFile c)" by (simp add: exampleCpuHost_def)
  ultimately show ?thesis
    using applyThrottlePct_correct [OF len(2), of 50 100] len(1) by auto
qed

text \<open>A RAPL counter gives the true average power between two readings even when it wrapped:
  if the counter shows the energy modulo its range, and less than one range was consumed, the
  watts read are the energy over the time. The first reading of a counter gives no power, and
  a reading never gives negative power.\<close>

theorem readCounter_exact:
  assumes "0 < es_rangeUJ s" and "E \<le> E'" and "E' - E < es_rangeUJ s" and "es_lastUJ s = E mod es_rangeUJ s"
    and "es_lastTime s < now"
  shows "snd (readCounter h now f (Some s) (E' mod es_rangeUJ s)) =
      Some (real_of_int (E' - E) / 1000000 / (real_of_int (now - es_lastTime s) / 1000000000)) \<and>
    snd (readCounter h now f None v) = None \<and>
    (\<forall>x w. snd (readCounter h now f (Some x) v) = Some w \<longrightarrow> 0 \<le> w)"
proof -
  let ?R = "es_rangeUJ s"
  have "E div ?R \<le> E' div ?R" using assms by (intro zdiv_mono1)
  moreover have "E' div ?R \<le> (E + ?R) div ?R" using assms by (intro zdiv_mono1) auto
  ultimately have "E' div ?R = E div ?R \<or> E' div ?R = E div ?R + 1" using assms(1) by auto
  moreover have "E' mod ?R - E mod ?R = E' - E - ?R * (E' div ?R - E div ?R)"
    by (simp add: minus_mult_div_eq_mod [symmetric] algebra_simps)
  ultimately have "E' mod ?R - E mod ?R = E' - E \<or> E' mod ?R - E mod ?R = E' - E - ?R" by auto
  then have "(let delta = E' mod ?R - E mod ?R in if delta < 0 \<and> ?R > 0 then delta + ?R else delta) = E' - E"
    using assms by (auto simp: Let_def)
  then have d: "(let delta = E' mod ?R - es_lastUJ s; delta = (if delta < 0 \<and> ?R > 0 then delta + ?R else delta) in delta) = E' - E"
    unfolding assms(4) by (simp add: Let_def)
  have "snd (readCounter h now f (Some s) (E' mod ?R)) =
      Some (real_of_int (E' - E) / 1000000 / (real_of_int (now - es_lastTime s) / 1000000000))"
    using assms(2,5) d by (simp add: readCounter_def Let_def)
  then show ?thesis by (auto simp: readCounter_def Let_def divide_nonneg_nonneg)
qed

theorem readCounter_exact_witness:
  "snd (readCounter exampleHost 1000000000 ''f'' (Some \<lparr>es_lastUJ = 900 mod 1000, es_lastTime = 0, es_rangeUJ = 1000\<rparr>) (1100 mod 1000))
     = Some (200 / 1000000)"
  using readCounter_exact [of "\<lparr>es_lastUJ = 900 mod 1000, es_lastTime = 0, es_rangeUJ = 1000\<rparr>" 900 1100 1000000000 exampleHost "''f''" 0]
  by simp

text \<open>The discovery keeps one CPU entry per cpufreq policy and one file per energy counter, the
  first path that reaches it, however many symbolic links lead there; no counter is lost
  except those that are not package-level, so a package is neither counted twice nor dropped.\<close>

theorem discovery_dedupes:
  "distinct (map (\<lambda>c. resolveOr h (pathDir (cpu_maxFile c))) (CPUFreqList h)) \<and>
   distinct (map (resolveOr h) (EnergyFiles h)) \<and>
   resolveOr h ` set (dedupe (resolveOr h) {} (concat (map (ho_glob h) energyFileGlobs)))
     = resolveOr h ` (\<Union>p \<in> set energyFileGlobs. set (ho_glob h p)) \<and>
   set (EnergyFiles h) = {f \<in> set (dedupe (resolveOr h) {} (concat (map (ho_glob h) energyFileGlobs))). IsPackageEnergyFile f}"
proof -
  have "distinct (map (resolveOr h) (go_sort (<) (dedupe (resolveOr h) {} (concat (map (ho_glob h) energyFileGlobs)))))"
    unfolding distinct_map_go_sort using dedupe_keys by blast
  then show ?thesis
    using CPUFreqList_policies dedupe_keys [of "resolveOr h" "{}" "concat (map (ho_glob h) energyFileGlobs)"]
    by (auto simp: EnergyFiles_def distinct_map_filter)
qed

end
