(* ===== verification/Governor.thy ===== *)
theory Governor
  imports Joulie_Api
begin

text \<open>
  The governor presets of \<^verbatim>\<open>pkg/governor\<close>: the facts and plans of \<^verbatim>\<open>types.go\<close>, the paths of
  \<^verbatim>\<open>paths.go\<close>, the CPU presets of \<^verbatim>\<open>cpu.go\<close>, the GPU presets of \<^verbatim>\<open>nvidia.go\<close> and
  \<^verbatim>\<open>amdgpu.go\<close>, and the native spelling and its parser of \<^verbatim>\<open>native.go\<close>. A plan is pure: the
  writes or commands that would set a preset, and the state they set.
\<close>

section \<open>Preset, boost and result words\<close>

abbreviation CPUGovernorPresetPerformance :: string where "CPUGovernorPresetPerformance \<equiv> ''performance''"
abbreviation CPUGovernorPresetBalanced :: string where "CPUGovernorPresetBalanced \<equiv> ''balanced''"
abbreviation CPUGovernorPresetEfficiency :: string where "CPUGovernorPresetEfficiency \<equiv> ''efficiency''"
abbreviation CPUGovernorBoostOn :: string where "CPUGovernorBoostOn \<equiv> ''on''"
abbreviation CPUGovernorBoostOff :: string where "CPUGovernorBoostOff \<equiv> ''off''"
abbreviation GPUGovernorPresetAuto :: string where "GPUGovernorPresetAuto \<equiv> ''auto''"
abbreviation GPUGovernorPresetSustained :: string where "GPUGovernorPresetSustained \<equiv> ''sustained''"
abbreviation GPUGovernorPresetEfficient :: string where "GPUGovernorPresetEfficient \<equiv> ''efficient''"
abbreviation GPUGovernorPresetLow :: string where "GPUGovernorPresetLow \<equiv> ''low''"
abbreviation GPUGovernorPresetPeak :: string where "GPUGovernorPresetPeak \<equiv> ''peak''"
abbreviation GovernorResultApplied :: string where "GovernorResultApplied \<equiv> ''applied''"
abbreviation GovernorResultEquivalent :: string where "GovernorResultEquivalent \<equiv> ''equivalent''"
abbreviation GovernorResultUnsupported :: string where "GovernorResultUnsupported \<equiv> ''unsupported''"
abbreviation GovernorResultNotApplied :: string where "GovernorResultNotApplied \<equiv> ''not-applied''"
abbreviation GovernorResultRefused :: string where "GovernorResultRefused \<equiv> ''refused''"
abbreviation GovernorResultError :: string where "GovernorResultError \<equiv> ''error''"
abbreviation GovernorStateUnknown :: string where "GovernorStateUnknown \<equiv> ''unknown''"
abbreviation GovernorStateUnlocked :: string where "GovernorStateUnlocked \<equiv> ''unlocked''"
abbreviation GovernorCurrentMixed :: string where "GovernorCurrentMixed \<equiv> ''mixed''"
abbreviation CPUBoostScopeGlobal :: string where "CPUBoostScopeGlobal \<equiv> ''global''"
abbreviation CPUBoostScopePerCPU :: string where "CPUBoostScopePerCPU \<equiv> ''per-cpu''"
abbreviation CPUBoostScopeNoTurbo :: string where "CPUBoostScopeNoTurbo \<equiv> ''no-turbo''"

definition CPUGovernorPresetValues :: "string list" where
  "CPUGovernorPresetValues = [CPUGovernorPresetPerformance, CPUGovernorPresetBalanced, CPUGovernorPresetEfficiency]"

definition CPUGovernorBoostValues :: "string list" where
  "CPUGovernorBoostValues = [CPUGovernorBoostOn, CPUGovernorBoostOff]"

definition GPUGovernorPresetValues :: "string list" where
  "GPUGovernorPresetValues = [GPUGovernorPresetAuto, GPUGovernorPresetSustained, GPUGovernorPresetEfficient,
     GPUGovernorPresetLow, GPUGovernorPresetPeak]"

section \<open>Facts and plans\<close>

definition DefaultCeilingPctOfMax :: f64 where
  "DefaultCeilingPctOfMax = 80"

record CPUFacts =
  cf_driver :: string
  cf_driverMode :: string
  cf_hwp :: bool
  cf_governors :: "string list"
  cf_epps :: "string list"
  cf_boostScope :: string
  cf_policies :: "int list"

record AMDFacts =
  af_busID :: string
  af_deviceID :: string
  af_family :: string
  af_level :: string
  af_od :: bool
  af_sclkMHz :: "int \<times> int"
  af_mclkMHz :: "int \<times> int"
  af_fclkMHz :: "int \<times> int"

record NVFacts =
  nf_arch :: string
  nf_supportedSMMHz :: "int list"
  nf_supportedMemMHz :: "int list"
  nf_memLockRuntime :: bool
  nf_lockedGPU :: bool
  nf_lockedMem :: bool

record Write =
  wr_relPath :: string
  wr_value :: string

type_synonym ClockLock = "(int \<times> int) option"

record State =
  st_governor :: string
  st_epp :: string
  st_boost :: string
  st_level :: string
  st_sclkMaxMHz :: int
  st_gpuLockMHz :: ClockLock
  st_memLockMHz :: ClockLock

definition zeroState :: State where
  "zeroState = \<lparr>st_governor = [], st_epp = [], st_boost = [], st_level = [], st_sclkMaxMHz = 0,
                st_gpuLockMHz = None, st_memLockMHz = None\<rparr>"

record Plan =
  pl_writes :: "Write list"
  pl_args :: "string list list"
  pl_state :: State
  pl_native :: string
  pl_result :: string

definition unsupportedPlan :: Plan where
  "unsupportedPlan = \<lparr>pl_writes = [], pl_args = [], pl_state = zeroState, pl_native = [], pl_result = GovernorResultUnsupported\<rparr>"

section \<open>Paths\<close>

abbreviation CPUFreqRelDir :: string where "CPUFreqRelDir \<equiv> ''devices/system/cpu/cpufreq''"
abbreviation GlobalBoostRelPath :: string where "GlobalBoostRelPath \<equiv> ''devices/system/cpu/cpufreq/boost''"
abbreviation NoTurboRelPath :: string where "NoTurboRelPath \<equiv> ''devices/system/cpu/intel_pstate/no_turbo''"
abbreviation PCIDevicesRelDir :: string where "PCIDevicesRelDir \<equiv> ''bus/pci/devices''"
abbreviation PolicyGovernorFile :: string where "PolicyGovernorFile \<equiv> ''scaling_governor''"
abbreviation PolicyEPPFile :: string where "PolicyEPPFile \<equiv> ''energy_performance_preference''"
abbreviation PolicyBoostFile :: string where "PolicyBoostFile \<equiv> ''boost''"
abbreviation AMDLevelFile :: string where "AMDLevelFile \<equiv> ''power_dpm_force_performance_level''"
abbreviation AMDODFile :: string where "AMDODFile \<equiv> ''pp_od_clk_voltage''"
abbreviation AMDLevelAuto :: string where "AMDLevelAuto \<equiv> ''auto''"

definition PolicyRelPath :: "int \<Rightarrow> string \<Rightarrow> string" where
  "PolicyRelPath n file = CPUFreqRelDir @ ''/policy'' @ Itoa n @ ''/'' @ file"

definition AMDDeviceRelPath :: "string \<Rightarrow> string \<Rightarrow> string" where
  "AMDDeviceRelPath busID file = PCIDevicesRelDir @ ''/'' @ ToLower busID @ ''/'' @ file"

definition IsODWrite :: "Write \<Rightarrow> bool" where
  "IsODWrite w = HasSuffix (wr_relPath w) (''/'' @ AMDODFile)"

section \<open>CPU presets\<close>

abbreviation govPerformance :: string where "govPerformance \<equiv> ''performance''"
abbreviation govPowersave :: string where "govPowersave \<equiv> ''powersave''"
abbreviation govSchedutil :: string where "govSchedutil \<equiv> ''schedutil''"
abbreviation govOndemand :: string where "govOndemand \<equiv> ''ondemand''"
abbreviation govConservative :: string where "govConservative \<equiv> ''conservative''"
abbreviation eppBalancePerformance :: string where "eppBalancePerformance \<equiv> ''balance_performance''"
abbreviation eppBalancePower :: string where "eppBalancePower \<equiv> ''balance_power''"

record cpuChoice =
  cc_governor :: string
  cc_epp :: string
  cc_result :: string

definition cpuActiveDriver :: "string \<Rightarrow> bool" where
  "cpuActiveDriver driver \<longleftrightarrow> driver = ''intel_pstate'' \<or> driver = ''amd-pstate-epp''"

definition cpuRowHasEPP :: "CPUFacts \<Rightarrow> bool" where
  "cpuRowHasEPP f =
     (if cf_driver f = ''amd-pstate-epp'' then True
      else if cf_driver f = ''intel_pstate'' \<or> cf_driver f = ''intel_cpufreq'' then cf_hwp f
      else False)"

definition cpuGovernorWords :: "string \<Rightarrow> string \<Rightarrow> string list" where
  "cpuGovernorWords driver preset =
     (if preset = CPUGovernorPresetPerformance then [govPerformance]
      else if cpuActiveDriver driver then [govPowersave]
      else if preset = CPUGovernorPresetBalanced then [govSchedutil, govOndemand]
      else [govConservative, govSchedutil])"

definition cpuEPPWord :: "string \<Rightarrow> string" where
  "cpuEPPWord preset =
     (if preset = CPUGovernorPresetBalanced then eppBalancePerformance
      else if preset = CPUGovernorPresetEfficiency then eppBalancePower else [])"

text \<open>The loop over the governor words: the first available one and whether it is not the first.\<close>

fun firstAvailable :: "string list \<Rightarrow> nat \<Rightarrow> string list \<Rightarrow> (string \<times> nat) option" where
  "firstAvailable avail i [] = None"
| "firstAvailable avail i (w # ws) = (if w \<in> set avail then Some (w, i) else firstAvailable avail (i + 1) ws)"

definition unsupportedChoice :: cpuChoice where
  "unsupportedChoice = \<lparr>cc_governor = [], cc_epp = [], cc_result = GovernorResultUnsupported\<rparr>"

definition chooseCPU :: "CPUFacts \<Rightarrow> string \<Rightarrow> cpuChoice" where
  "chooseCPU f preset =
     (if cf_driver f = [] \<or> length (cf_policies f) = 0 then unsupportedChoice
      else case firstAvailable (cf_governors f) 0 (cpuGovernorWords (cf_driver f) preset) of
             None \<Rightarrow> unsupportedChoice
           | Some (gov, i) \<Rightarrow>
               (let c = \<lparr>cc_governor = gov, cc_epp = [],
                         cc_result = (if i > 0 then GovernorResultEquivalent else GovernorResultApplied)\<rparr>;
                    c = (let want = cpuEPPWord preset
                         in if want \<noteq> [] \<and> cpuRowHasEPP f
                            then (if want \<in> set (cf_epps f) then c\<lparr>cc_epp := want\<rparr>
                                  else c\<lparr>cc_result := GovernorResultEquivalent\<rparr>)
                            else c)
                in if cpuActiveDriver (cf_driver f) \<and> preset = CPUGovernorPresetEfficiency \<and> cc_epp c = []
                   then c\<lparr>cc_result := GovernorResultEquivalent\<rparr> else c))"

definition sortedPolicies :: "int list \<Rightarrow> int list" where
  "sortedPolicies ps = remdups_adj (sort ps)"

definition boostBit :: "string \<Rightarrow> bool \<Rightarrow> string" where
  "boostBit boost inverted = (if (boost = CPUGovernorBoostOn) \<noteq> inverted then ''1'' else ''0'')"

definition CPUBoostWrites :: "CPUFacts \<Rightarrow> int list \<Rightarrow> string \<Rightarrow> Write list" where
  "CPUBoostWrites f policies boost =
     (if cf_boostScope f = CPUBoostScopeGlobal then [\<lparr>wr_relPath = GlobalBoostRelPath, wr_value = boostBit boost False\<rparr>]
      else if cf_boostScope f = CPUBoostScopeNoTurbo then [\<lparr>wr_relPath = NoTurboRelPath, wr_value = boostBit boost True\<rparr>]
      else if cf_boostScope f = CPUBoostScopePerCPU
      then map (\<lambda>n. \<lparr>wr_relPath = PolicyRelPath n PolicyBoostFile, wr_value = boostBit boost False\<rparr>) policies
      else [])"

definition boostNative :: "string \<Rightarrow> string \<Rightarrow> string" where
  "boostNative scope boost =
     (if scope = CPUBoostScopeNoTurbo then ''no_turbo='' @ boostBit boost True else ''boost='' @ boostBit boost False)"

definition NativeCPU :: "string \<Rightarrow> string \<Rightarrow> string" where
  "NativeCPU governor epp = (if epp = [] then governor else governor @ '' epp='' @ epp)"

definition PlanCPU :: "CPUFacts \<Rightarrow> string \<Rightarrow> string \<Rightarrow> goerr + Plan" where
  "PlanCPU f preset boost =
     (if preset \<notin> set CPUGovernorPresetValues then Inl ''unknown CPU preset''
      else if boost \<noteq> [] \<and> boost \<notin> set CPUGovernorBoostValues then Inl ''unknown CPU boost''
      else (let c = chooseCPU f preset
            in if cc_result c = GovernorResultUnsupported then Inr unsupportedPlan
               else (let policies = sortedPolicies (cf_policies f);
                         boostWrites = (if boost \<noteq> [] then CPUBoostWrites f policies boost else [])
                     in if boost \<noteq> [] \<and> boostWrites = [] then Inr unsupportedPlan
                        else Inr \<lparr>pl_writes =
                                    map (\<lambda>n. \<lparr>wr_relPath = PolicyRelPath n PolicyGovernorFile, wr_value = cc_governor c\<rparr>) policies @
                                    (if cc_epp c \<noteq> []
                                     then map (\<lambda>n. \<lparr>wr_relPath = PolicyRelPath n PolicyEPPFile, wr_value = cc_epp c\<rparr>) policies
                                     else []) @ boostWrites,
                                  pl_args = [],
                                  pl_state = zeroState\<lparr>st_governor := cc_governor c, st_epp := cc_epp c, st_boost := boost\<rparr>,
                                  pl_native = NativeCPU (cc_governor c) (cc_epp c) @
                                    (if boost \<noteq> [] then '' '' @ boostNative (cf_boostScope f) boost else []),
                                  pl_result = cc_result c\<rparr>)))"

record CPUGroup =
  cg_policies :: "int list"
  cg_governor :: string
  cg_epp :: string
  cg_boost :: string

definition groupWrites :: "string \<Rightarrow> (CPUGroup \<Rightarrow> string) \<Rightarrow> CPUGroup \<Rightarrow> Write list" where
  "groupWrites file word g =
     (if word g = [] then []
      else map (\<lambda>n. \<lparr>wr_relPath = PolicyRelPath n file, wr_value = word g\<rparr>) (sortedPolicies (cg_policies g)))"

definition PlanCPUGroups :: "CPUFacts \<Rightarrow> CPUGroup list \<Rightarrow> Write list \<times> Write list \<times> Write list" where
  "PlanCPUGroups f groups =
     (concat (map (groupWrites PolicyGovernorFile cg_governor) groups),
      concat (map (groupWrites PolicyEPPFile cg_epp) groups),
      if cf_boostScope f = CPUBoostScopePerCPU
      then concat (map (\<lambda>g. if cg_boost g \<noteq> [] then CPUBoostWrites f (sortedPolicies (cg_policies g)) (cg_boost g) else []) groups)
      else (case find (\<lambda>g. cg_boost g \<noteq> []) groups of
              Some g \<Rightarrow> CPUBoostWrites f [] (cg_boost g)
            | None \<Rightarrow> []))"

definition cpuMatches :: "CPUFacts \<Rightarrow> string \<Rightarrow> string \<Rightarrow> string \<Rightarrow> bool" where
  "cpuMatches f governor epp p \<longleftrightarrow>
     (let c = chooseCPU f p
      in cc_result c \<noteq> GovernorResultUnsupported \<and> cc_governor c = governor \<and> (cc_epp c = [] \<or> cc_epp c = epp))"

definition ReverseCPU :: "CPUFacts \<Rightarrow> string \<Rightarrow> string \<Rightarrow> string option" where
  "ReverseCPU f governor epp =
     (case filter (cpuMatches f governor epp) CPUGovernorPresetValues of [p] \<Rightarrow> Some p | _ \<Rightarrow> None)"

definition PresetsCPU :: "CPUFacts \<Rightarrow> string list" where
  "PresetsCPU f = filter (\<lambda>p. cc_result (chooseCPU f p) \<noteq> GovernorResultUnsupported) CPUGovernorPresetValues"

definition AMDPstateEPPPreferences :: "string list" where
  "AMDPstateEPPPreferences = [''default'', ''performance'', ''balance_performance'', ''balance_power'', ''power'']"

definition EPPSupport :: "string \<Rightarrow> string \<Rightarrow> string list \<Rightarrow> string list" where
  "EPPSupport driver gov listed =
     (if driver = ''amd-pstate-epp'' \<and> gov = govPerformance \<and> listed = [govPerformance]
      then AMDPstateEPPPreferences else listed)"

section \<open>NVIDIA presets\<close>

abbreviation NVArchAmpere :: string where "NVArchAmpere \<equiv> ''ampere''"
abbreviation NVArchAda :: string where "NVArchAda \<equiv> ''ada''"
abbreviation NVArchHopper :: string where "NVArchHopper \<equiv> ''hopper''"
abbreviation NVArchBlackwell :: string where "NVArchBlackwell \<equiv> ''blackwell''"

record nvChoice =
  nc_gpu :: ClockLock
  nc_mem :: ClockLock
  nc_result :: string

definition nvKnownArch :: "string \<Rightarrow> bool" where
  "nvKnownArch arch \<longleftrightarrow> arch \<in> set [NVArchAmpere, NVArchAda, NVArchHopper, NVArchBlackwell]"

definition nvMemLockable :: "NVFacts \<Rightarrow> bool" where
  "nvMemLockable f \<longleftrightarrow> nf_memLockRuntime f \<and> (nf_arch f = NVArchAmpere \<or> nf_arch f = NVArchAda)"

definition distinctMHz :: "int list \<Rightarrow> int list" where
  "distinctMHz xs = remdups_adj (sort (filter (\<lambda>x. x > 0) xs))"

definition nvUnsupported :: nvChoice where
  "nvUnsupported = \<lparr>nc_gpu = None, nc_mem = None, nc_result = GovernorResultUnsupported\<rparr>"

definition nvApplied :: "ClockLock \<Rightarrow> ClockLock \<Rightarrow> nvChoice" where
  "nvApplied gpu mem = \<lparr>nc_gpu = gpu, nc_mem = mem, nc_result = GovernorResultApplied\<rparr>"

definition ceilClock :: "f64 \<Rightarrow> int list \<Rightarrow> int" where
  "ceilClock target sm = fold (\<lambda>c acc. if real_of_int c \<le> target then c else acc) sm (hd sm)"

definition chooseNvidia :: "NVFacts \<Rightarrow> string \<Rightarrow> f64 \<Rightarrow> nvChoice" where
  "chooseNvidia f preset ceilingPct =
     (if \<not> nvKnownArch (nf_arch f) then nvUnsupported
      else (let sm = distinctMHz (nf_supportedSMMHz f); mem = distinctMHz (nf_supportedMemMHz f);
                memLock = (nvMemLockable f \<and> length mem > 1);
                memUnknown = (nvMemLockable f \<and> length mem = 0)
            in if preset = GPUGovernorPresetAuto then nvApplied None None
               else if preset = GPUGovernorPresetSustained
               then (if memLock then nvApplied None (Some (last mem, last mem))
                     else if memUnknown then nvUnsupported
                     else \<lparr>nc_gpu = None, nc_mem = None, nc_result = GovernorResultEquivalent\<rparr>)
               else if preset = GPUGovernorPresetEfficient
               then (if sm = [] then nvUnsupported
                     else nvApplied (Some (hd sm, ceilClock (ceilingPct * real_of_int (last sm) / 100) sm)) None)
               else if preset = GPUGovernorPresetLow \<or> preset = GPUGovernorPresetPeak
               then (if sm = [] \<or> memUnknown then nvUnsupported
                     else (let pick = (\<lambda>xs. if preset = GPUGovernorPresetLow then hd xs else last xs)
                           in nvApplied (Some (pick sm, pick sm)) (if memLock then Some (pick mem, pick mem) else None)))
               else nvUnsupported))"

definition checkGPUPreset :: "string \<Rightarrow> f64 \<Rightarrow> goerr option" where
  "checkGPUPreset preset ceilingPct =
     (if preset \<notin> set GPUGovernorPresetValues then Some ''unknown GPU preset''
      else if preset = GPUGovernorPresetEfficient \<and> \<not> (ceilingPct > 0 \<and> ceilingPct \<le> 100)
      then Some ''compute clock ceiling is outside (0, 100]''
      else None)"

definition lockArg :: "int \<times> int \<Rightarrow> string" where
  "lockArg l = Itoa (fst l) @ '','' @ Itoa (snd l)"

definition nvidiaNative :: "State \<Rightarrow> string" where
  "nvidiaNative s =
     Join ((case st_gpuLockMHz s of Some l \<Rightarrow> [''-lgc '' @ lockArg l] | None \<Rightarrow> []) @
           (case st_memLockMHz s of Some l \<Rightarrow> [''-lmc '' @ lockArg l] | None \<Rightarrow> [])) '' ''"

definition NativeNvidia :: "State \<Rightarrow> string" where
  "NativeNvidia s = (if nvidiaNative s \<noteq> [] then nvidiaNative s else GovernorStateUnlocked)"

definition nvArgs :: "NVFacts \<Rightarrow> string \<Rightarrow> nvChoice \<Rightarrow> string list list" where
  "nvArgs f busID c =
     (case nc_gpu c of
        Some l \<Rightarrow> [[''-i'', busID, ''-lgc'', lockArg l]]
      | None \<Rightarrow> if nf_lockedGPU f then [[''-i'', busID, ''-rgc'']] else []) @
     (case nc_mem c of
        Some l \<Rightarrow> [[''-i'', busID, ''-lmc'', lockArg l]]
      | None \<Rightarrow> if nf_lockedMem f \<and> nvMemLockable f then [[''-i'', busID, ''-rmc'']] else [])"

definition PlanNvidia :: "NVFacts \<Rightarrow> string \<Rightarrow> string \<Rightarrow> f64 \<Rightarrow> goerr + Plan" where
  "PlanNvidia f busID preset ceilingPct =
     (case checkGPUPreset preset ceilingPct of
        Some err \<Rightarrow> Inl err
      | None \<Rightarrow>
          if busID = [] then Inl ''NVIDIA GPU without a bus id''
          else (let c = chooseNvidia f preset ceilingPct
                in if nc_result c = GovernorResultUnsupported then Inr unsupportedPlan
                   else (let args = nvArgs f busID c;
                             st = zeroState\<lparr>st_gpuLockMHz := nc_gpu c, st_memLockMHz := nc_mem c\<rparr>;
                             native = (if nvidiaNative st = []
                                       then (if args \<noteq> [] then GovernorStateUnlocked else GovernorStateUnknown)
                                       else nvidiaNative st)
                         in Inr \<lparr>pl_writes = [], pl_args = args, pl_state = st, pl_native = native,
                                 pl_result = (if preset = GPUGovernorPresetAuto \<and> args = []
                                              then GovernorResultEquivalent else nc_result c)\<rparr>)))"

fun nvReverseLoop :: "NVFacts \<Rightarrow> ClockLock \<Rightarrow> ClockLock \<Rightarrow> string \<Rightarrow> string list \<Rightarrow> string + string" where
  "nvReverseLoop f gpu mem equivalent [] = Inl equivalent"
| "nvReverseLoop f gpu mem equivalent (p # ps) =
     (if p = GPUGovernorPresetEfficient then nvReverseLoop f gpu mem equivalent ps
      else (let c = chooseNvidia f p DefaultCeilingPctOfMax
            in if nc_result c = GovernorResultUnsupported \<or> nc_gpu c \<noteq> gpu \<or> nc_mem c \<noteq> mem
               then nvReverseLoop f gpu mem equivalent ps
               else if nc_result c = GovernorResultApplied then Inr p
               else nvReverseLoop f gpu mem (if equivalent = [] then p else equivalent) ps))"

definition ReverseNvidia :: "NVFacts \<Rightarrow> ClockLock \<Rightarrow> ClockLock \<Rightarrow> string option" where
  "ReverseNvidia f gpu mem =
     (case nvReverseLoop f gpu mem [] GPUGovernorPresetValues of
        Inr p \<Rightarrow> Some p
      | Inl equivalent \<Rightarrow>
          if equivalent \<noteq> [] then Some equivalent
          else (let sm = distinctMHz (nf_supportedSMMHz f)
                in case gpu of
                     Some l \<Rightarrow> if nvKnownArch (nf_arch f) \<and> mem = None \<and> sm \<noteq> [] \<and> fst l = hd sm \<and> snd l \<in> set sm
                               then Some GPUGovernorPresetEfficient else None
                   | None \<Rightarrow> None))"

section \<open>AMD presets\<close>

abbreviation AMDFamilyNavi31 :: string where "AMDFamilyNavi31 \<equiv> ''navi31''"
abbreviation AMDFamilyAldebaran :: string where "AMDFamilyAldebaran \<equiv> ''aldebaran''"
abbreviation AMDFamilyMI300 :: string where "AMDFamilyMI300 \<equiv> ''mi300''"
abbreviation amdLevelHigh :: string where "amdLevelHigh \<equiv> ''high''"
abbreviation amdLevelLow :: string where "amdLevelLow \<equiv> ''low''"
abbreviation amdLevelManual :: string where "amdLevelManual \<equiv> ''manual''"
abbreviation amdLevelProfilePeak :: string where "amdLevelProfilePeak \<equiv> ''profile_peak''"

definition amdLevels :: "string \<Rightarrow> (string \<times> string) list" where
  "amdLevels family =
     (if family = AMDFamilyNavi31 \<or> family = AMDFamilyAldebaran
      then [(GPUGovernorPresetAuto, AMDLevelAuto), (GPUGovernorPresetSustained, amdLevelHigh),
            (GPUGovernorPresetLow, amdLevelLow), (GPUGovernorPresetPeak, amdLevelProfilePeak)]
      else if family = AMDFamilyMI300 then [(GPUGovernorPresetAuto, AMDLevelAuto)]
      else [])"

definition amdODCeiling :: "string \<Rightarrow> bool" where
  "amdODCeiling family \<longleftrightarrow> family = AMDFamilyAldebaran \<or> family = AMDFamilyMI300"

text \<open>\<open>None\<close> is a choice whose \<open>ok\<close> is false; otherwise the level and the sclk maximum.\<close>

definition chooseAMD :: "AMDFacts \<Rightarrow> string \<Rightarrow> f64 \<Rightarrow> (string \<times> int) option" where
  "chooseAMD f preset ceilingPct =
     (if preset \<noteq> GPUGovernorPresetEfficient then map_option (\<lambda>level. (level, 0)) (map_of (amdLevels (af_family f)) preset)
      else (let minMHz = fst (af_sclkMHz f); maxMHz = snd (af_sclkMHz f)
            in if \<not> amdODCeiling (af_family f) \<or> \<not> af_od f \<or> maxMHz \<le> 0 then None
               else Some (amdLevelManual, max \<lfloor>ceilingPct * real_of_int maxMHz / 100\<rfloor> minMHz)))"

definition PlanAMDLevel :: "string \<Rightarrow> string \<Rightarrow> Write" where
  "PlanAMDLevel busID level = \<lparr>wr_relPath = AMDDeviceRelPath busID AMDLevelFile, wr_value = level\<rparr>"

definition PlanAMDODReset :: "string \<Rightarrow> Write list" where
  "PlanAMDODReset busID =
     (let od = AMDDeviceRelPath busID AMDODFile in [\<lparr>wr_relPath = od, wr_value = ''r''\<rparr>, \<lparr>wr_relPath = od, wr_value = ''c''\<rparr>])"

definition PlanAMD :: "AMDFacts \<Rightarrow> string \<Rightarrow> f64 \<Rightarrow> goerr + Plan" where
  "PlanAMD f preset ceilingPct =
     (case checkGPUPreset preset ceilingPct of
        Some err \<Rightarrow> Inl err
      | None \<Rightarrow>
          if af_busID f = [] then Inl ''amdgpu device without a bus id''
          else (case chooseAMD f preset ceilingPct of
                  None \<Rightarrow> Inr unsupportedPlan
                | Some (level, sclkMax) \<Rightarrow>
                    (let od = AMDDeviceRelPath (af_busID f) AMDODFile
                     in Inr \<lparr>pl_writes = PlanAMDLevel (af_busID f) level #
                               (if sclkMax > 0
                                then [\<lparr>wr_relPath = od, wr_value = ''s 1 '' @ Itoa sclkMax\<rparr>, \<lparr>wr_relPath = od, wr_value = ''c''\<rparr>]
                                else []),
                             pl_args = [],
                             pl_state = zeroState\<lparr>st_level := level, st_sclkMaxMHz := sclkMax\<rparr>,
                             pl_native = level @ (if sclkMax > 0 then '' sclk_max='' @ Itoa sclkMax else []),
                             pl_result = GovernorResultApplied\<rparr>)))"

definition ReverseAMD :: "AMDFacts \<Rightarrow> string \<Rightarrow> int \<times> int \<Rightarrow> string option" where
  "ReverseAMD f level odSclkMHz =
     (case find (\<lambda>p. p \<noteq> GPUGovernorPresetEfficient \<and>
                     (case chooseAMD f p DefaultCeilingPctOfMax of Some (l, _) \<Rightarrow> l = level | None \<Rightarrow> False)) GPUGovernorPresetValues of
        Some p \<Rightarrow> Some p
      | None \<Rightarrow>
          (let lo = fst (af_sclkMHz f); hi = snd (af_sclkMHz f)
           in case chooseAMD f GPUGovernorPresetEfficient 100 of
                Some (l, _) \<Rightarrow> if l = level \<and> fst odSclkMHz \<le> lo \<and> lo \<le> snd odSclkMHz \<and> snd odSclkMHz \<le> hi
                               then Some GPUGovernorPresetEfficient else None
              | None \<Rightarrow> None))"

end
