(* ===== verification/Governor_Native.thy ===== *)
theory Governor_Native
  imports Governor
begin

text \<open>
  The native spelling of a governor state and what follows a write: \<open>ParseNative\<close> and
  \<open>InForce\<close> of \<^verbatim>\<open>pkg/governor/native.go\<close>, \<open>Classify\<close> and \<open>ClassifyRun\<close> of
  \<^verbatim>\<open>pkg/governor/classify.go\<close>; and the lemmas on the presets of all three mechanisms. A Go
  error is the record \<open>WriteErr\<close> of what the code asks of it: the errno in its chain by name,
  whether it is \<open>exec.ErrNotFound\<close>, the exit code in its chain, and its text.
\<close>

section \<open>Parsing the native spelling\<close>

definition parseCPUWord :: "string \<Rightarrow> State \<Rightarrow> State" where
  "parseCPUWord w s =
     (case Cut w (CHR ''='') of (key, value, _) \<Rightarrow>
        if key = ''epp'' then s\<lparr>st_epp := value\<rparr>
        else if key = ''boost'' \<or> key = ''no_turbo''
        then (let on = (if key = ''no_turbo'' then value \<noteq> ''1'' else value = ''1'')
              in s\<lparr>st_boost := (if on then CPUGovernorBoostOn else CPUGovernorBoostOff)\<rparr>)
        else s)"

definition parseAMDWord :: "string \<Rightarrow> State \<Rightarrow> State" where
  "parseAMDWord w s =
     (if HasPrefix w ''sclk_max=''
      then s\<lparr>st_sclkMaxMHz := AtoiValue (TrimPrefix w ''sclk_max='')\<rparr> else s)"

definition parseLockArg :: "string \<Rightarrow> ClockLock" where
  "parseLockArg v =
     (case Cut v (CHR '','') of (lo, hi, ok) \<Rightarrow>
        (case (Atoi (TrimSpace lo), Atoi (TrimSpace hi)) of
           (Some a, Some b) \<Rightarrow> if ok then Some (a, b) else None
         | _ \<Rightarrow> None))"

fun parseNvidiaWords :: "string list \<Rightarrow> State \<Rightarrow> State" where
  "parseNvidiaWords (w # v # ws) s =
     parseNvidiaWords (v # ws)
       (if w = ''-lgc'' then s\<lparr>st_gpuLockMHz := parseLockArg v\<rparr>
        else if w = ''-lmc'' then s\<lparr>st_memLockMHz := parseLockArg v\<rparr> else s)"
| "parseNvidiaWords _ s = s"

abbreviation GovernorBackendCPUFreq :: string where "GovernorBackendCPUFreq \<equiv> ''cpufreq''"
abbreviation GovernorBackendAMDGPUSysfs :: string where "GovernorBackendAMDGPUSysfs \<equiv> ''amdgpu-sysfs''"
abbreviation GovernorBackendNvidiaSMI :: string where "GovernorBackendNvidiaSMI \<equiv> ''nvidia-smi''"

definition ParseNative :: "string \<Rightarrow> string \<Rightarrow> State" where
  "ParseNative backend native =
     (let words = Fields native
      in if backend = GovernorBackendCPUFreq
         then (case words of [] \<Rightarrow> zeroState | w # ws \<Rightarrow> fold parseCPUWord ws (zeroState\<lparr>st_governor := w\<rparr>))
         else if backend = GovernorBackendAMDGPUSysfs
         then (case words of [] \<Rightarrow> zeroState | w # ws \<Rightarrow> fold parseAMDWord ws (zeroState\<lparr>st_level := w\<rparr>))
         else if backend = GovernorBackendNvidiaSMI then parseNvidiaWords words zeroState
         else zeroState)"

section \<open>What is in force\<close>

definition writeField :: "Write \<Rightarrow> string" where
  "writeField w =
     (let base = pathBase (wr_relPath w)
      in if base = PolicyGovernorFile then ''governor''
         else if base = PolicyEPPFile then ''epp''
         else if base = PolicyBoostFile \<or> base = pathBase NoTurboRelPath then ''boost''
         else if base = AMDLevelFile then ''level''
         else if base = AMDODFile then ''sclk_max''
         else [])"

definition fieldAll :: "Plan \<Rightarrow> string \<Rightarrow> nat" where
  "fieldAll p f = length (filter (\<lambda>w. writeField w = f) (pl_writes p))"

definition fieldDone :: "Plan \<Rightarrow> Write list \<Rightarrow> string \<Rightarrow> nat" where
  "fieldDone p taken f = length (filter (\<lambda>w. writeField w = f \<and> w \<in> set taken) (pl_writes p))"

definition wordInForce :: "Plan \<Rightarrow> Write list \<Rightarrow> string \<Rightarrow> bool" where
  "wordInForce p taken w \<longleftrightarrow>
     (let f = fst (Cut w (CHR ''='')); f = (if f = ''no_turbo'' then ''boost'' else f)
      in fieldAll p f > 0 \<and> fieldDone p taken f = fieldAll p f)"

definition InForce :: "Plan \<Rightarrow> Write list \<Rightarrow> string" where
  "InForce p taken =
     (let head = (if fieldAll p ''level'' > 0 then ''level'' else ''governor'')
      in case Fields (pl_native p) of
           [] \<Rightarrow> []
         | w # ws \<Rightarrow>
             if fieldDone p taken head = 0 then []
             else Join ((if fieldDone p taken head < fieldAll p head then GovernorCurrentMixed else w) #
                        filter (wordInForce p taken) ws) '' '')"

section \<open>Sorting the outcome of a write\<close>

record WriteErr =
  we_errno :: "string option"
  we_notFound :: bool
  we_exitCode :: "int option"
  we_text :: string

definition smiExitResults :: "int \<Rightarrow> string option" where
  "smiExitResults code = map_of [(4, GovernorResultRefused), (2, GovernorResultUnsupported),
     (3, GovernorResultUnsupported), (13, GovernorResultUnsupported)] code"

definition errnoNames :: "string list" where
  "errnoNames = [''EACCES'', ''EPERM'', ''EROFS'', ''EINVAL'', ''EOPNOTSUPP'', ''EBUSY'']"

definition refusedPhrases :: "string list" where
  "refusedPhrases = [''insufficient permission'', ''permission denied'', ''no permission'', ''not permitted'',
     ''requires root'', ''requires elevation'']"

definition unsupportedPhrases :: "string list" where
  "unsupportedPhrases = [''not supported'', ''unsupported'', ''does not work'', ''invalid argument'', ''invalid combination'']"

definition Classify :: "WriteErr option \<Rightarrow> string \<Rightarrow> string \<Rightarrow> string \<times> string" where
  "Classify writeErr want readback =
     (case writeErr of
        None \<Rightarrow>
          if TrimSpace want = TrimSpace readback then (GovernorResultApplied, [])
          else (GovernorResultNotApplied, ''wrote '' @ TrimSpace want @ '' but read back '' @ TrimSpace readback)
      | Some e \<Rightarrow>
          (case we_errno e of
             Some errno \<Rightarrow>
               if errno \<notin> set errnoNames then (GovernorResultError, we_text e)
               else if errno \<in> set [''EACCES'', ''EPERM'', ''EROFS''] then (GovernorResultRefused, errno @ '': '' @ we_text e)
               else (GovernorResultUnsupported, errno @ '': '' @ we_text e)
           | None \<Rightarrow>
               if we_notFound e then (GovernorResultError, we_text e)
               else (case (case we_exitCode e of Some code \<Rightarrow> smiExitResults code | None \<Rightarrow> None) of
                       Some result \<Rightarrow> (result, we_text e)
                     | None \<Rightarrow>
                         if list_ex (Contains (ToLower (we_text e))) refusedPhrases then (GovernorResultRefused, we_text e)
                         else if list_ex (Contains (ToLower (we_text e))) unsupportedPhrases
                         then (GovernorResultUnsupported, we_text e)
                         else (GovernorResultError, we_text e))))"

definition ClassifyRun :: "string \<Rightarrow> WriteErr option \<Rightarrow> string \<Rightarrow> string \<times> string" where
  "ClassifyRun command runErr out =
     (case runErr of
        Some e \<Rightarrow> Classify runErr [] []
      | None \<Rightarrow>
          (case find (\<lambda>line. Contains (ToLower line) ''not supported'') (Split out (CHR 0x0A)) of
             Some line \<Rightarrow> (GovernorResultUnsupported, command @ '': '' @ TrimSpace line)
           | None \<Rightarrow> (GovernorResultApplied, [])))"

section \<open>Lemmas: choices\<close>

lemma firstAvailable_in: "firstAvailable avail i ws = Some (w, j) \<Longrightarrow> w \<in> set ws \<and> w \<in> set avail"
  by (induction avail i ws rule: firstAvailable.induct) (auto split: if_splits)

definition cpuWords :: "string list" where
  "cpuWords = [govPerformance, govPowersave, govSchedutil, govOndemand, govConservative]"

lemma cpuGovernorWords_sub: "set (cpuGovernorWords driver preset) \<subseteq> set cpuWords"
  by (simp add: cpuGovernorWords_def cpuWords_def)

lemma chooseCPU_supported:
  assumes "cc_result (chooseCPU f preset) \<noteq> GovernorResultUnsupported"
  shows "cc_governor (chooseCPU f preset) \<in> set cpuWords \<and> cc_governor (chooseCPU f preset) \<in> set (cf_governors f) \<and>
    cc_epp (chooseCPU f preset) \<in> {[], cpuEPPWord preset} \<and>
    (cc_epp (chooseCPU f preset) \<noteq> [] \<longrightarrow> cc_epp (chooseCPU f preset) \<in> set (cf_epps f)) \<and>
    cc_result (chooseCPU f preset) \<in> {GovernorResultApplied, GovernorResultEquivalent} \<and> cf_policies f \<noteq> []"
proof -
  obtain gov i where g: "firstAvailable (cf_governors f) 0 (cpuGovernorWords (cf_driver f) preset) = Some (gov, i)"
    and ne: "cf_driver f \<noteq> []" "cf_policies f \<noteq> []"
    using assms by (auto simp: chooseCPU_def unsupportedChoice_def split: if_splits option.splits)
  have "gov \<in> set cpuWords" "gov \<in> set (cf_governors f)"
    using firstAvailable_in [OF g] cpuGovernorWords_sub by blast+
  then show ?thesis using g ne by (auto simp: chooseCPU_def Let_def)
qed

lemma cpuEPPWord_cases: "cpuEPPWord preset \<in> {[], eppBalancePerformance, eppBalancePower}"
  by (simp add: cpuEPPWord_def)

text \<open>What a supported CPU plan consists of.\<close>

definition cpuPlanOf :: "CPUFacts \<Rightarrow> cpuChoice \<Rightarrow> string \<Rightarrow> Plan" where
  "cpuPlanOf f c boost =
     \<lparr>pl_writes =
        map (\<lambda>n. \<lparr>wr_relPath = PolicyRelPath n PolicyGovernorFile, wr_value = cc_governor c\<rparr>) (sortedPolicies (cf_policies f)) @
        (if cc_epp c \<noteq> []
         then map (\<lambda>n. \<lparr>wr_relPath = PolicyRelPath n PolicyEPPFile, wr_value = cc_epp c\<rparr>) (sortedPolicies (cf_policies f))
         else []) @ (if boost \<noteq> [] then CPUBoostWrites f (sortedPolicies (cf_policies f)) boost else []),
      pl_args = [],
      pl_state = zeroState\<lparr>st_governor := cc_governor c, st_epp := cc_epp c, st_boost := boost\<rparr>,
      pl_native = NativeCPU (cc_governor c) (cc_epp c) @
        (if boost \<noteq> [] then '' '' @ boostNative (cf_boostScope f) boost else []),
      pl_result = cc_result c\<rparr>"

lemma PlanCPU_cases:
  assumes "PlanCPU f preset boost = Inr p"
  obtains "p = unsupportedPlan" "preset \<in> set CPUGovernorPresetValues"
  | "p = cpuPlanOf f (chooseCPU f preset) boost" "preset \<in> set CPUGovernorPresetValues"
    "boost = [] \<or> boost \<in> set CPUGovernorBoostValues" "cc_result (chooseCPU f preset) \<noteq> GovernorResultUnsupported"
    "boost \<noteq> [] \<longrightarrow> CPUBoostWrites f (sortedPolicies (cf_policies f)) boost \<noteq> []"
  using assms by (auto simp: PlanCPU_def cpuPlanOf_def Let_def split: if_splits)

lemma chooseNvidia_result: "nc_result (chooseNvidia f preset pct) \<in> {GovernorResultApplied, GovernorResultEquivalent, GovernorResultUnsupported}"
  by (simp add: chooseNvidia_def nvApplied_def nvUnsupported_def Let_def)

lemma PlanNvidia_cases:
  assumes "PlanNvidia f busID preset pct = Inr p"
  obtains "p = unsupportedPlan"
  | "nc_result (chooseNvidia f preset pct) \<noteq> GovernorResultUnsupported" "pl_writes p = []"
    "pl_args p = nvArgs f busID (chooseNvidia f preset pct)"
    "pl_state p = zeroState\<lparr>st_gpuLockMHz := nc_gpu (chooseNvidia f preset pct), st_memLockMHz := nc_mem (chooseNvidia f preset pct)\<rparr>"
    "pl_native p = (if nvidiaNative (pl_state p) = []
        then (if pl_args p \<noteq> [] then GovernorStateUnlocked else GovernorStateUnknown) else nvidiaNative (pl_state p))"
    "pl_result p \<in> {GovernorResultApplied, GovernorResultEquivalent}"
  using assms chooseNvidia_result [of f preset pct]
  by (auto simp: PlanNvidia_def Let_def split: if_splits option.splits)

definition amdWords :: "string list" where
  "amdWords = [AMDLevelAuto, amdLevelHigh, amdLevelLow, amdLevelManual, amdLevelProfilePeak]"

lemma chooseAMD_cases:
  assumes "chooseAMD f preset pct = Some (level, mhz)" and "preset = GPUGovernorPresetEfficient \<Longrightarrow> 0 < pct"
  shows "level \<in> set amdWords \<and> 0 \<le> mhz"
proof (cases "preset = GPUGovernorPresetEfficient")
  case True
  then have "0 < snd (af_sclkMHz f)" and m: "level = amdLevelManual" "mhz = max \<lfloor>pct * real_of_int (snd (af_sclkMHz f)) / 100\<rfloor> (fst (af_sclkMHz f))"
    using assms(1) by (auto simp: chooseAMD_def Let_def split: if_splits)
  then have "0 \<le> \<lfloor>pct * real_of_int (snd (af_sclkMHz f)) / 100\<rfloor>" using assms(2) [OF True] by simp
  then show ?thesis unfolding m by (simp only: amdWords_def le_max_iff_disj) simp
next
  case False
  then have "map_of (amdLevels (af_family f)) preset = Some level" "mhz = 0" using assms(1) by (auto simp: chooseAMD_def)
  then show ?thesis using map_of_SomeD [of "amdLevels (af_family f)"]
    by (fastforce simp: amdLevels_def amdWords_def split: if_splits)
qed

lemma PlanAMD_cases:
  assumes "PlanAMD f preset pct = Inr p"
  obtains "p = unsupportedPlan"
  | level mhz where "chooseAMD f preset pct = Some (level, mhz)" "level \<in> set amdWords" "0 \<le> mhz"
    "pl_writes p = PlanAMDLevel (af_busID f) level #
       (if mhz > 0 then [\<lparr>wr_relPath = AMDDeviceRelPath (af_busID f) AMDODFile, wr_value = ''s 1 '' @ Itoa mhz\<rparr>,
                         \<lparr>wr_relPath = AMDDeviceRelPath (af_busID f) AMDODFile, wr_value = ''c''\<rparr>] else [])"
    "pl_args p = []" "pl_state p = zeroState\<lparr>st_level := level, st_sclkMaxMHz := mhz\<rparr>"
    "pl_native p = level @ (if mhz > 0 then '' sclk_max='' @ Itoa mhz else [])" "pl_result p = GovernorResultApplied"
proof (cases "chooseAMD f preset pct")
  case None
  then show ?thesis using assms that(1) by (auto simp: PlanAMD_def split: option.splits if_splits)
next
  case (Some c)
  obtain level mhz where c: "chooseAMD f preset pct = Some (level, mhz)" using Some by (cases c) auto
  have "preset = GPUGovernorPresetEfficient \<Longrightarrow> 0 < pct"
    using assms by (auto simp: PlanAMD_def checkGPUPreset_def split: if_splits option.splits)
  note lm = chooseAMD_cases [OF c this]
  have P: "p = \<lparr>pl_writes = PlanAMDLevel (af_busID f) level #
       (if mhz > 0 then [\<lparr>wr_relPath = AMDDeviceRelPath (af_busID f) AMDODFile, wr_value = ''s 1 '' @ Itoa mhz\<rparr>,
                         \<lparr>wr_relPath = AMDDeviceRelPath (af_busID f) AMDODFile, wr_value = ''c''\<rparr>] else []),
      pl_args = [], pl_state = zeroState\<lparr>st_level := level, st_sclkMaxMHz := mhz\<rparr>,
      pl_native = level @ (if mhz > 0 then '' sclk_max='' @ Itoa mhz else []), pl_result = GovernorResultApplied\<rparr>"
    using assms c by (simp add: PlanAMD_def Let_def split: option.splits if_splits)
  show ?thesis by (rule that(2) [OF c]) (use lm P in simp_all)
qed

text \<open>
  The contract of the three planners (the comment of \<open>Plan\<close>): the result is one of three
  words, a plan speaks to one mechanism only, and an unsupported plan has nothing to do and
  sets no state.
\<close>

locale preset_planner =
  fixes plan :: "'a \<Rightarrow> goerr + Plan"
  assumes result_word: "plan x = Inr p \<Longrightarrow> pl_result p \<in> {GovernorResultApplied, GovernorResultEquivalent, GovernorResultUnsupported}"
    and unsupported_empty: "plan x = Inr p \<Longrightarrow> pl_result p = GovernorResultUnsupported \<Longrightarrow> p = unsupportedPlan"
    and one_mechanism: "plan x = Inr p \<Longrightarrow> pl_writes p = [] \<or> pl_args p = []"
begin

lemma plan_contract:
  assumes "plan x = Inr p"
  shows "pl_result p \<in> {GovernorResultApplied, GovernorResultEquivalent, GovernorResultUnsupported} \<and>
    (pl_writes p = [] \<or> pl_args p = []) \<and>
    (pl_result p = GovernorResultUnsupported \<longrightarrow> pl_writes p = [] \<and> pl_args p = [] \<and> pl_state p = zeroState \<and> pl_native p = [])"
  using result_word [OF assms] unsupported_empty [OF assms] one_mechanism [OF assms]
  by (auto simp: unsupportedPlan_def)

end

interpretation cpuPlanner: preset_planner "\<lambda>(f, preset, boost). PlanCPU f preset boost"
proof unfold_locales
  fix x p assume "(\<lambda>(f, preset, boost). PlanCPU f preset boost) x = Inr p"
  then obtain f preset boost where P: "PlanCPU f preset boost = Inr p" by (cases x) auto
  show "pl_result p \<in> {GovernorResultApplied, GovernorResultEquivalent, GovernorResultUnsupported}"
    "pl_result p = GovernorResultUnsupported \<Longrightarrow> p = unsupportedPlan" "pl_writes p = [] \<or> pl_args p = []"
    using P by (rule PlanCPU_cases; use chooseCPU_supported in \<open>auto simp: unsupportedPlan_def cpuPlanOf_def\<close>)+
qed

interpretation nvidiaPlanner: preset_planner "\<lambda>(f, busID, preset, pct). PlanNvidia f busID preset pct"
proof unfold_locales
  fix x p assume "(\<lambda>(f, busID, preset, pct). PlanNvidia f busID preset pct) x = Inr p"
  then obtain f busID preset pct where P: "PlanNvidia f busID preset pct = Inr p" by (cases x) auto
  show "pl_result p \<in> {GovernorResultApplied, GovernorResultEquivalent, GovernorResultUnsupported}"
    "pl_result p = GovernorResultUnsupported \<Longrightarrow> p = unsupportedPlan" "pl_writes p = [] \<or> pl_args p = []"
    using P by (rule PlanNvidia_cases; auto simp: unsupportedPlan_def)+
qed

interpretation amdPlanner: preset_planner "\<lambda>(f, preset, pct). PlanAMD f preset pct"
proof unfold_locales
  fix x p assume "(\<lambda>(f, preset, pct). PlanAMD f preset pct) x = Inr p"
  then obtain f preset pct where P: "PlanAMD f preset pct = Inr p" by (cases x) auto
  show "pl_result p \<in> {GovernorResultApplied, GovernorResultEquivalent, GovernorResultUnsupported}"
    "pl_result p = GovernorResultUnsupported \<Longrightarrow> p = unsupportedPlan" "pl_writes p = [] \<or> pl_args p = []"
    using P by (rule PlanAMD_cases; auto simp: unsupportedPlan_def)+
qed

section \<open>Lemmas: the native spelling\<close>

lemma Join_Cons: "Join (w # ws) sep = w @ concat (map (\<lambda>v. sep @ v) ws)"
  by (induction ws arbitrary: w) auto

text \<open>A word with a key, kept whole so that lemmas on it apply.\<close>

definition eppNative :: "string \<Rightarrow> string" where
  "eppNative e = ''epp='' @ e"

definition sclkNative :: "int \<Rightarrow> string" where
  "sclkNative mhz = ''sclk_max='' @ Itoa mhz"

lemma plain_words: "list_all plainWord (cpuWords @ amdWords @ [eppNative eppBalancePerformance, eppNative eppBalancePower,
    ''boost=0'', ''boost=1'', ''no_turbo=0'', ''no_turbo=1'', ''-lgc'', ''-lmc'', GovernorStateUnlocked, GovernorStateUnknown])"
  by code_simp

lemma plain_cpuWord: "w \<in> set cpuWords \<Longrightarrow> plainWord w"
  using plain_words unfolding list_all_iff by simp

lemma plain_amdWord: "w \<in> set amdWords \<Longrightarrow> plainWord w"
  using plain_words unfolding list_all_iff by simp

lemma plain_lit [simp]:
  "plainWord (eppNative eppBalancePerformance)" "plainWord (eppNative eppBalancePower)" "plainWord ''boost=0''"
  "plainWord ''boost=1''" "plainWord ''no_turbo=0''" "plainWord ''no_turbo=1''" "plainWord ''-lgc''" "plainWord ''-lmc''"
  "plainWord GovernorStateUnlocked" "plainWord GovernorStateUnknown"
  using plain_words by simp_all

text \<open>The words of a CPU plan.\<close>

definition cpuNativeWords :: "CPUFacts \<Rightarrow> cpuChoice \<Rightarrow> string \<Rightarrow> string list" where
  "cpuNativeWords f c boost =
     cc_governor c # (if cc_epp c \<noteq> [] then [eppNative (cc_epp c)] else []) @
     (if boost \<noteq> [] then [boostNative (cf_boostScope f) boost] else [])"

lemma cpu_native_join: "pl_native (cpuPlanOf f c boost) = Join (cpuNativeWords f c boost) '' ''"
  by (simp add: cpuPlanOf_def cpuNativeWords_def Join_Cons NativeCPU_def eppNative_def)

lemma boostNative_cases: "boostNative scope boost \<in> {''boost=0'', ''boost=1'', ''no_turbo=0'', ''no_turbo=1''}"
  by (simp add: boostNative_def boostBit_def)

lemma cpu_native_fields:
  assumes "cc_result (chooseCPU f preset) \<noteq> GovernorResultUnsupported"
  shows "Fields (pl_native (cpuPlanOf f (chooseCPU f preset) boost)) = cpuNativeWords f (chooseCPU f preset) boost"
  unfolding cpu_native_join
proof (rule Fields_Join)
  have "cc_epp (chooseCPU f preset) \<in> {[], eppBalancePerformance, eppBalancePower}"
    using chooseCPU_supported [OF assms] cpuEPPWord_cases [of preset] by auto
  moreover have "plainWord (boostNative (cf_boostScope f) boost)"
    using boostNative_cases [of "cf_boostScope f" boost] by auto
  moreover have "plainWord (cc_governor (chooseCPU f preset))"
    using chooseCPU_supported [OF assms] by (intro plain_cpuWord) simp
  ultimately show "list_all plainWord (cpuNativeWords f (chooseCPU f preset) boost)"
    by (auto simp: cpuNativeWords_def)
qed

lemma Cut_word: "CHR ''='' \<notin> set k \<Longrightarrow> Cut (k @ CHR ''='' # v) (CHR ''='') = (k, v, True)"
  by (rule Cut_append)

lemma parseCPUWord_epp: "parseCPUWord (eppNative e) s = s\<lparr>st_epp := e\<rparr>"
  using Cut_word [of "''epp''" e] by (simp add: parseCPUWord_def eppNative_def)

lemma parseCPUWord_boost:
  "boost \<in> set CPUGovernorBoostValues \<Longrightarrow> parseCPUWord (boostNative scope boost) s = s\<lparr>st_boost := boost\<rparr>"
  using Cut_word [of "''boost''"] Cut_word [of "''no_turbo''"]
  by (auto simp: parseCPUWord_def boostNative_def boostBit_def CPUGovernorBoostValues_def)

lemma ParseNative_cpu:
  assumes "PlanCPU f preset boost = Inr p"
  shows "ParseNative GovernorBackendCPUFreq (pl_native p) = pl_state p"
  using assms
proof (cases rule: PlanCPU_cases)
  case 1
  then show ?thesis by (simp add: unsupportedPlan_def ParseNative_def Fields_def)
next
  case 2
  have "pl_state p = zeroState\<lparr>st_governor := cc_governor (chooseCPU f preset), st_epp := cc_epp (chooseCPU f preset), st_boost := boost\<rparr>"
    using 2(1) by (simp add: cpuPlanOf_def)
  moreover have "Fields (pl_native p) = cpuNativeWords f (chooseCPU f preset) boost"
    using cpu_native_fields [OF 2(4)] 2(1) by simp
  ultimately show ?thesis using 2(3)
    by (auto simp: ParseNative_def cpuNativeWords_def parseCPUWord_epp parseCPUWord_boost zeroState_def)
qed

lemma ParseNative_amd:
  assumes "PlanAMD f preset pct = Inr p" and "int64_ok (st_sclkMaxMHz (pl_state p))"
  shows "ParseNative GovernorBackendAMDGPUSysfs (pl_native p) = pl_state p"
  using assms(1)
proof (cases rule: PlanAMD_cases)
  case 1
  then show ?thesis by (simp add: unsupportedPlan_def ParseNative_def Fields_def)
next
  case (2 level mhz)
  let ?ws = "level # (if mhz > 0 then [sclkNative mhz] else [])"
  have "plainWord (sclkNative mhz)"
    unfolding sclkNative_def using plainWord_Itoa by (intro plainWord_append) (simp_all add: plainWord_def is_space_def)
  then have "Fields (Join ?ws '' '') = ?ws"
    using plain_amdWord [OF 2(2)] by (intro Fields_Join) simp
  moreover have "pl_native p = Join ?ws '' ''" using 2(7) by (simp add: Join_Cons sclkNative_def)
  ultimately have F: "Fields (pl_native p) = ?ws" by (simp only:)
  have "parseAMDWord (sclkNative mhz) s = s\<lparr>st_sclkMaxMHz := mhz\<rparr>" for s
    using Atoi_Itoa [of mhz] assms(2) 2(6) HasPrefix_append [of "''sclk_max=''" "Itoa mhz"] TrimPrefix_append [of "''sclk_max=''" "Itoa mhz"]
    by (simp add: parseAMDWord_def sclkNative_def AtoiValue_Some)
  then show ?thesis using F 2(3,6) by (auto simp: ParseNative_def zeroState_def)
qed

lemma TrimSpace_Itoa: "TrimSpace (Itoa i) = Itoa i"
  using Itoa_char by (intro TrimSpace_id) blast

lemma parseLockArg_lockArg: "int64_ok a \<Longrightarrow> int64_ok b \<Longrightarrow> parseLockArg (lockArg (a, b)) = Some (a, b)"
proof -
  assume ok: "int64_ok a" "int64_ok b"
  have "CHR '','' \<notin> set (Itoa a)" using Itoa_char by blast
  then have "Cut (lockArg (a, b)) (CHR '','') = (Itoa a, Itoa b, True)" by (simp add: lockArg_def)
  then show ?thesis using ok by (simp add: parseLockArg_def TrimSpace_Itoa Atoi_Itoa)
qed

lemma plain_lockArg: "plainWord (lockArg l)"
proof -
  have "plainWord '',''" by (simp add: plainWord_def is_space_def)
  then show ?thesis unfolding lockArg_def by (intro plainWord_append plainWord_Itoa)
qed

lemma lockArg_not_flag: "lockArg l \<noteq> ''-lgc'' \<and> lockArg l \<noteq> ''-lmc''"
proof -
  have "CHR '','' \<in> set (lockArg l)" by (simp add: lockArg_def)
  then show ?thesis by auto
qed

definition lockWords :: "State \<Rightarrow> string list" where
  "lockWords s = (case st_gpuLockMHz s of Some l \<Rightarrow> [''-lgc'', lockArg l] | None \<Rightarrow> []) @
                 (case st_memLockMHz s of Some l \<Rightarrow> [''-lmc'', lockArg l] | None \<Rightarrow> [])"

lemma nvidiaNative_join: "nvidiaNative s = Join (lockWords s) '' ''"
  by (simp add: nvidiaNative_def lockWords_def Join_Cons split: option.splits)

lemma Fields_nvidiaNative: "Fields (nvidiaNative s) = lockWords s"
  unfolding nvidiaNative_join
  by (rule Fields_Join) (auto simp: lockWords_def plain_lockArg split: option.splits)

definition lockOk :: "ClockLock \<Rightarrow> bool" where
  "lockOk l \<longleftrightarrow> (case l of None \<Rightarrow> True | Some (a, b) \<Rightarrow> int64_ok a \<and> int64_ok b)"

lemma parse_lockWords:
  assumes "lockOk g" "lockOk m"
  shows "parseNvidiaWords (lockWords (zeroState\<lparr>st_gpuLockMHz := g, st_memLockMHz := m\<rparr>)) zeroState
     = zeroState\<lparr>st_gpuLockMHz := g, st_memLockMHz := m\<rparr>"
  using assms lockArg_not_flag
  by (auto simp: lockWords_def lockOk_def parseLockArg_lockArg zeroState_def split: option.splits prod.splits)

lemma ParseNative_nvidia:
  assumes "PlanNvidia f busID preset pct = Inr p" and "lockOk (st_gpuLockMHz (pl_state p))" and "lockOk (st_memLockMHz (pl_state p))"
  shows "ParseNative GovernorBackendNvidiaSMI (pl_native p) = pl_state p"
  using assms(1)
proof (cases rule: PlanNvidia_cases)
  case 1
  then show ?thesis by (simp add: unsupportedPlan_def ParseNative_def Fields_def)
next
  case 2
  let ?g = "nc_gpu (chooseNvidia f preset pct)" and ?m = "nc_mem (chooseNvidia f preset pct)"
  have ok: "lockOk ?g" "lockOk ?m" using assms(2,3) 2(4) by simp_all
  show ?thesis
  proof (cases "nvidiaNative (pl_state p) = []")
    case False
    then show ?thesis
      using parse_lockWords [OF ok] 2(4,5) Fields_nvidiaNative [of "pl_state p"] by (simp add: ParseNative_def)
  next
    case True
    then have "lockWords (pl_state p) = []" using Fields_nvidiaNative [of "pl_state p"] by (simp add: Fields_def)
    then have "pl_state p = zeroState" using 2(4) by (auto simp: lockWords_def zeroState_def split: option.splits)
    moreover have "Fields (Join [GovernorStateUnlocked] '' '') = [GovernorStateUnlocked]"
      "Fields (Join [GovernorStateUnknown] '' '') = [GovernorStateUnknown]" by (rule Fields_Join, simp)+
    ultimately show ?thesis using True 2(5) by (auto simp: ParseNative_def)
  qed
qed

section \<open>Lemmas: carrying out a plan\<close>

text \<open>The contents of /sys after the writes, in order, each taken.\<close>

definition runWrites :: "Write list \<Rightarrow> strmap \<Rightarrow> strmap" where
  "runWrites ws m = fold (\<lambda>w m. m(wr_relPath w \<mapsto> wr_value w)) ws m"

lemma runWrites_append: "runWrites (xs @ ys) m = runWrites ys (runWrites xs m)"
  by (simp add: runWrites_def)

lemma runWrites_other: "k \<notin> wr_relPath ` set ws \<Longrightarrow> runWrites ws m k = m k"
  unfolding runWrites_def by (induction ws arbitrary: m) auto

lemma runWrites_const:
  assumes "k \<in> wr_relPath ` set ws" and "\<And>w. w \<in> set ws \<Longrightarrow> wr_value w = v"
  shows "runWrites ws m k = Some v"
  using assms
proof (induction ws arbitrary: m)
  case (Cons w ws)
  then show ?case
    by (cases "k \<in> wr_relPath ` set ws")
       (auto simp: runWrites_def [of "w # ws"] runWrites_def [of ws, symmetric] runWrites_other)
qed simp

lemma set_sortedPolicies [simp]: "set (sortedPolicies ps) = set ps"
  by (simp add: sortedPolicies_def)

lemma append_slash_inj:
  "CHR ''/'' \<notin> set a \<Longrightarrow> CHR ''/'' \<notin> set b \<Longrightarrow> a @ CHR ''/'' # x = b @ CHR ''/'' # y \<longleftrightarrow> a = b \<and> x = y"
  by (metis Cut_append prod.inject)

lemma PolicyRelPath_inj [simp]: "PolicyRelPath n f = PolicyRelPath m g \<longleftrightarrow> n = m \<and> f = g"
proof -
  have "CHR ''/'' \<notin> set (Itoa i)" for i using Itoa_char by blast
  then have "Itoa n @ CHR ''/'' # f = Itoa m @ CHR ''/'' # g \<longleftrightarrow> Itoa n = Itoa m \<and> f = g"
    by (intro append_slash_inj)
  then show ?thesis using Itoa_inj by (auto simp: PolicyRelPath_def)
qed

lemma PolicyRelPath_boostFiles [simp]:
  "PolicyRelPath n f \<noteq> GlobalBoostRelPath" "PolicyRelPath n f \<noteq> NoTurboRelPath"
  by (simp_all add: PolicyRelPath_def)

lemma boost_paths: "wr_relPath ` set (CPUBoostWrites f ps b) \<subseteq> {GlobalBoostRelPath, NoTurboRelPath} \<union> (\<lambda>n. PolicyRelPath n PolicyBoostFile) ` set ps"
  by (auto simp: CPUBoostWrites_def)

lemma pathBase_policy [simp]: "CHR ''/'' \<notin> set file \<Longrightarrow> file \<noteq> [] \<Longrightarrow> pathBase (PolicyRelPath n file) = file"
  using pathBase_file [where f = "file" and d = "CPUFreqRelDir @ ''/policy'' @ Itoa n"] by (simp add: PolicyRelPath_def)

lemma pathBase_boost: "pathBase NoTurboRelPath = ''no_turbo''" "pathBase GlobalBoostRelPath = ''boost''"
  by (simp_all add: pathBase_def)

lemma writeField_policy [simp]:
  "writeField \<lparr>wr_relPath = PolicyRelPath n PolicyGovernorFile, wr_value = v\<rparr> = ''governor''"
  "writeField \<lparr>wr_relPath = PolicyRelPath n PolicyEPPFile, wr_value = v\<rparr> = ''epp''"
  by (simp_all add: writeField_def)

lemma writeField_boost: "w \<in> set (CPUBoostWrites f ps b) \<Longrightarrow> writeField w = ''boost''"
  by (auto simp: CPUBoostWrites_def writeField_def pathBase_boost split: if_splits)

lemma filter_writeField_boost:
  "filter (\<lambda>w. writeField w = k) (CPUBoostWrites f ps b) = (if k = ''boost'' then CPUBoostWrites f ps b else [])"
  using writeField_boost [of _ f ps b] by (auto simp: filter_id_conv filter_empty_conv)

lemma fieldAll_cpu:
  "fieldAll (cpuPlanOf f c boost) ''level'' = 0"
  "fieldAll (cpuPlanOf f c boost) ''governor'' = length (sortedPolicies (cf_policies f))"
  "fieldAll (cpuPlanOf f c boost) ''epp'' = (if cc_epp c \<noteq> [] then length (sortedPolicies (cf_policies f)) else 0)"
  "fieldAll (cpuPlanOf f c boost) ''boost'' = (if boost \<noteq> [] then length (CPUBoostWrites f (sortedPolicies (cf_policies f)) boost) else 0)"
  by (simp_all add: fieldAll_def cpuPlanOf_def filter_map comp_def filter_writeField_boost)

lemma fieldDone_all: "set (pl_writes p) \<subseteq> set taken \<Longrightarrow> fieldDone p taken k = fieldAll p k"
  unfolding fieldDone_def fieldAll_def by (metis (mono_tags, lifting) filter_cong subsetD)

lemma fieldDone_none: "set (pl_writes p) \<inter> set taken = {} \<Longrightarrow> fieldDone p taken k = 0"
  unfolding fieldDone_def by (auto simp: filter_empty_conv)

lemma sortedPolicies_nonempty: "ps \<noteq> [] \<Longrightarrow> sortedPolicies ps \<noteq> []"
  using set_sortedPolicies [of ps] by (metis set_empty)

lemma Cut_key_epp: "fst (Cut (eppNative e) (CHR ''='')) = ''epp''"
  using Cut_word [of "''epp''" e] by (simp add: eppNative_def)

lemma Cut_key_boost: "fst (Cut (boostNative scope b) (CHR ''='')) \<in> {''boost'', ''no_turbo''}"
  using Cut_word [of "''boost''"] Cut_word [of "''no_turbo''"] by (simp add: boostNative_def)

lemma wordInForce_cpu:
  assumes "set (pl_writes (cpuPlanOf f c boost)) \<subseteq> set taken" and "cf_policies f \<noteq> []"
    and "boost \<noteq> [] \<Longrightarrow> CPUBoostWrites f (sortedPolicies (cf_policies f)) boost \<noteq> []"
    and "w \<in> set (tl (cpuNativeWords f c boost))"
  shows "wordInForce (cpuPlanOf f c boost) taken w"
proof -
  have "w = eppNative (cc_epp c) \<and> cc_epp c \<noteq> [] \<or> w = boostNative (cf_boostScope f) boost \<and> boost \<noteq> []"
    using assms(4) by (auto simp: cpuNativeWords_def split: if_splits)
  then show ?thesis
    using sortedPolicies_nonempty [OF assms(2)] assms(3) Cut_key_epp [of "cc_epp c"] Cut_key_boost [of "cf_boostScope f" boost]
    by (auto simp: wordInForce_def fieldDone_all [OF assms(1)] fieldAll_cpu)
qed

lemma smi_results: "smiExitResults code = Some res \<Longrightarrow> res = GovernorResultRefused \<or> res = GovernorResultUnsupported"
  by (auto simp: smiExitResults_def split: if_splits)

lemma Classify_error:
  "fst (Classify (Some x) want readback) = GovernorResultRefused \<or> fst (Classify (Some x) want readback) = GovernorResultUnsupported \<or>
   fst (Classify (Some x) want readback) = GovernorResultError"
proof (cases "we_errno x")
  case None
  then show ?thesis
    by (cases "case we_exitCode x of Some code \<Rightarrow> smiExitResults code | None \<Rightarrow> None")
       (simp_all add: Classify_def, metis option.case_eq_if option.distinct(1) smi_results)
qed (simp add: Classify_def)

section \<open>Properties\<close>

text \<open>The three planners keep the contract of \<open>Plan\<close>: the result is applied, equivalent or
  unsupported; a plan holds sysfs writes or tool invocations, never both; and an unsupported
  plan holds neither and sets no state. A CPU plan fails exactly for an unknown preset or
  boost word.\<close>

theorem plans_contract:
  assumes "PlanCPU cf preset boost = Inr p \<or> PlanNvidia nf busID preset pct = Inr p \<or> PlanAMD af preset pct = Inr p"
  shows "pl_result p \<in> {GovernorResultApplied, GovernorResultEquivalent, GovernorResultUnsupported} \<and>
    (pl_writes p = [] \<or> pl_args p = []) \<and>
    (pl_result p = GovernorResultUnsupported \<longrightarrow> pl_writes p = [] \<and> pl_args p = [] \<and> pl_state p = zeroState \<and> pl_native p = []) \<and>
    ((\<exists>e. PlanCPU cf preset boost = Inl e) \<longleftrightarrow>
       preset \<notin> set CPUGovernorPresetValues \<or> boost \<noteq> [] \<and> boost \<notin> set CPUGovernorBoostValues)"
proof -
  have "(\<exists>e. PlanCPU cf preset boost = Inl e) \<longleftrightarrow>
       preset \<notin> set CPUGovernorPresetValues \<or> boost \<noteq> [] \<and> boost \<notin> set CPUGovernorBoostValues"
    by (simp add: PlanCPU_def Let_def)
  moreover have "pl_result p \<in> {GovernorResultApplied, GovernorResultEquivalent, GovernorResultUnsupported} \<and>
    (pl_writes p = [] \<or> pl_args p = []) \<and>
    (pl_result p = GovernorResultUnsupported \<longrightarrow> pl_writes p = [] \<and> pl_args p = [] \<and> pl_state p = zeroState \<and> pl_native p = [])"
    using assms
  proof (elim disjE)
    assume "PlanCPU cf preset boost = Inr p"
    then show ?thesis by (intro cpuPlanner.plan_contract [of "(cf, preset, boost)"]) (simp only: prod.case)
  next
    assume "PlanNvidia nf busID preset pct = Inr p"
    then show ?thesis by (intro nvidiaPlanner.plan_contract [of "(nf, busID, preset, pct)"]) (simp only: prod.case)
  next
    assume "PlanAMD af preset pct = Inr p"
    then show ?thesis by (intro amdPlanner.plan_contract [of "(af, preset, pct)"]) (simp only: prod.case)
  qed
  ultimately show ?thesis by simp
qed

definition exampleCPUFacts :: CPUFacts where
  "exampleCPUFacts = \<lparr>cf_driver = ''intel_pstate'', cf_driverMode = ''active'', cf_hwp = True,
     cf_governors = [''performance'', ''powersave''], cf_epps = [''balance_performance'', ''balance_power''],
     cf_boostScope = CPUBoostScopeNoTurbo, cf_policies = [1, 0]\<rparr>"

definition examplePlan :: Plan where
  "examplePlan = cpuPlanOf exampleCPUFacts (chooseCPU exampleCPUFacts ''efficiency'') ''off''"

lemma examplePlan_ok: "PlanCPU exampleCPUFacts ''efficiency'' ''off'' = Inr examplePlan"
  by code_simp

theorem plans_contract_witness:
  "pl_result examplePlan \<in> {GovernorResultApplied, GovernorResultEquivalent, GovernorResultUnsupported}"
  using plans_contract [of exampleCPUFacts "''efficiency''" "''off''" examplePlan] examplePlan_ok by blast

text \<open>What the boost files of the node's scope show for a policy: boost on, off, or neither.\<close>

definition boostRead :: "string option \<Rightarrow> bool \<Rightarrow> bool option" where
  "boostRead v inverted =
     (if v = Some ''1'' then Some (\<not> inverted) else if v = Some ''0'' then Some inverted else None)"

definition boostShown :: "CPUFacts \<Rightarrow> strmap \<Rightarrow> int \<Rightarrow> bool option" where
  "boostShown f m n =
     (if cf_boostScope f = CPUBoostScopeGlobal then boostRead (m GlobalBoostRelPath) False
      else if cf_boostScope f = CPUBoostScopeNoTurbo then boostRead (m NoTurboRelPath) True
      else if cf_boostScope f = CPUBoostScopePerCPU then boostRead (m (PolicyRelPath n PolicyBoostFile)) False
      else None)"

lemma boost_shown:
  assumes "CPUBoostWrites f ps boost \<noteq> []" and "n \<in> set ps"
  shows "boostShown f (runWrites (CPUBoostWrites f ps boost) m) n = Some (boost = CPUGovernorBoostOn)"
proof -
  have "runWrites (map (\<lambda>n. \<lparr>wr_relPath = PolicyRelPath n PolicyBoostFile, wr_value = v\<rparr>) ps) m (PolicyRelPath n PolicyBoostFile) = Some v" for v
    using assms(2) by (intro runWrites_const) (auto simp: image_image)
  then show ?thesis using assms(1) by (auto simp: boostShown_def boostRead_def boostBit_def CPUBoostWrites_def runWrites_def split: if_splits)
qed

text \<open>C14: A CPU plan that is not unsupported brings every policy to its state: after its writes
  each policy has the planned governor and, where the plan has one, the planned preference; the boost files, whether one
  switch for the node, the inverted \<open>no_turbo\<close> or one per policy, show for every policy the boost that was asked for, and
  none is written where none was asked for; the governor is one the driver offers and the preference one it lists; under
  the performance preset no preference is written. All governor writes come first, and every other write is to a
  preference or boost file.\<close>

theorem PlanCPU_sets_state:
  assumes "PlanCPU f preset boost = Inr p" and "pl_result p \<noteq> GovernorResultUnsupported"
  shows "(\<forall>n \<in> set (cf_policies f).
      runWrites (pl_writes p) m (PolicyRelPath n PolicyGovernorFile) = Some (st_governor (pl_state p)) \<and>
      (st_epp (pl_state p) \<noteq> [] \<longrightarrow> runWrites (pl_writes p) m (PolicyRelPath n PolicyEPPFile) = Some (st_epp (pl_state p))) \<and>
      (boost \<noteq> [] \<longrightarrow> boostShown f (runWrites (pl_writes p) m) n = Some (boost = ''on''))) \<and>
    st_boost (pl_state p) = boost \<and>
    (boost = [] \<longrightarrow> (\<forall>k \<in> {GlobalBoostRelPath, NoTurboRelPath} \<union> range (\<lambda>n. PolicyRelPath n PolicyBoostFile). runWrites (pl_writes p) m k = m k)) \<and>
    st_governor (pl_state p) \<in> set (cf_governors f) \<and>
    (st_epp (pl_state p) \<noteq> [] \<longrightarrow> st_epp (pl_state p) \<in> set (cf_epps f) \<and> preset \<noteq> CPUGovernorPresetPerformance) \<and>
    (\<exists>rest. pl_writes p = map (\<lambda>n. \<lparr>wr_relPath = PolicyRelPath n PolicyGovernorFile, wr_value = st_governor (pl_state p)\<rparr>)
        (sortedPolicies (cf_policies f)) @ rest \<and> (\<forall>w \<in> set rest. writeField w \<in> {''epp'', ''boost''}))"
  using assms(1)
proof (cases rule: PlanCPU_cases)
  case 1
  then show ?thesis using assms(2) by (simp add: unsupportedPlan_def)
next
  case 2
  let ?c = "chooseCPU f preset" and ?ps = "sortedPolicies (cf_policies f)"
  let ?gov = "map (\<lambda>n. \<lparr>wr_relPath = PolicyRelPath n PolicyGovernorFile, wr_value = cc_governor ?c\<rparr>) ?ps"
  let ?epp = "if cc_epp ?c \<noteq> [] then map (\<lambda>n. \<lparr>wr_relPath = PolicyRelPath n PolicyEPPFile, wr_value = cc_epp ?c\<rparr>) ?ps else []"
  let ?boost = "if boost \<noteq> [] then CPUBoostWrites f ?ps boost else []"
  have ws: "pl_writes p = ?gov @ ?epp @ ?boost" and st: "st_governor (pl_state p) = cc_governor ?c" "st_epp (pl_state p) = cc_epp ?c" "st_boost (pl_state p) = boost"
    using 2(1) by (simp_all add: cpuPlanOf_def)
  note c = chooseCPU_supported [OF 2(4)]
  have bp: "PolicyRelPath n PolicyGovernorFile \<notin> wr_relPath ` set ?boost" "PolicyRelPath n PolicyEPPFile \<notin> wr_relPath ` set ?boost" for n
    using boost_paths [of f ?ps boost] by auto
  have "runWrites ?gov m (PolicyRelPath n PolicyGovernorFile) = Some (cc_governor ?c)" if "n \<in> set (cf_policies f)" for n
    using that by (intro runWrites_const) (auto simp: image_image)
  then have g: "runWrites (pl_writes p) m (PolicyRelPath n PolicyGovernorFile) = Some (cc_governor ?c)" if "n \<in> set (cf_policies f)" for n
    using that bp(1) by (simp add: ws runWrites_append runWrites_other image_iff)
  have e: "runWrites (pl_writes p) m (PolicyRelPath n PolicyEPPFile) = Some (cc_epp ?c)"
    if "n \<in> set (cf_policies f)" "cc_epp ?c \<noteq> []" for n
    unfolding ws runWrites_append runWrites_other [OF bp(2)] using that by (intro runWrites_const) (auto simp: image_image)
  have b: "boostShown f (runWrites (pl_writes p) m) n = Some (boost = ''on'')" if "n \<in> set (cf_policies f)" "boost \<noteq> []" for n
    unfolding ws runWrites_append if_P [OF that(2)] using 2(5) that by (intro boost_shown) auto
  have q: "runWrites (pl_writes p) m k = m k"
    if "boost = []" "k \<in> {GlobalBoostRelPath, NoTurboRelPath} \<union> range (\<lambda>n. PolicyRelPath n PolicyBoostFile)" for k
    using that PolicyRelPath_boostFiles unfolding ws by (intro runWrites_other) (auto dest: sym)
  have "preset \<noteq> CPUGovernorPresetPerformance" if "cc_epp ?c \<noteq> []" using that c by (auto simp: cpuEPPWord_def)
  moreover have "\<forall>w \<in> set (?epp @ ?boost). writeField w \<in> {''epp'', ''boost''}" using writeField_boost by auto
  ultimately show ?thesis using g e b q c st ws by auto
qed

theorem PlanCPU_sets_state_witness:
  "runWrites (pl_writes examplePlan) Map.empty (PolicyRelPath 0 PolicyGovernorFile) = Some ''powersave'' \<and>
   boostShown exampleCPUFacts (runWrites (pl_writes examplePlan) Map.empty) 0 = Some False"
proof -
  have "pl_result examplePlan \<noteq> GovernorResultUnsupported" "st_governor (pl_state examplePlan) = ''powersave''" by code_simp+
  then show ?thesis
    using PlanCPU_sets_state [OF examplePlan_ok, of Map.empty] by (simp add: exampleCPUFacts_def)
qed

text \<open>C15: The native spelling loses nothing: for each of the three mechanisms \<open>ParseNative\<close> reads
  back the state of a plan from its \<open>Native\<close>, for clocks that fit a 64-bit integer, as every Go
  \<open>int\<close> does.\<close>

theorem ParseNative_roundtrip:
  assumes "PlanAMD af gpreset pct = Inr pa \<Longrightarrow> int64_ok (st_sclkMaxMHz (pl_state pa))"
    and "PlanNvidia nf busID gpreset pct = Inr pn \<Longrightarrow> lockOk (st_gpuLockMHz (pl_state pn)) \<and> lockOk (st_memLockMHz (pl_state pn))"
  shows "(PlanCPU cf preset boost = Inr pc \<longrightarrow> ParseNative GovernorBackendCPUFreq (pl_native pc) = pl_state pc) \<and>
    (PlanAMD af gpreset pct = Inr pa \<longrightarrow> ParseNative GovernorBackendAMDGPUSysfs (pl_native pa) = pl_state pa) \<and>
    (PlanNvidia nf busID gpreset pct = Inr pn \<longrightarrow> ParseNative GovernorBackendNvidiaSMI (pl_native pn) = pl_state pn)"
  using assms by (intro conjI impI ParseNative_cpu ParseNative_amd ParseNative_nvidia) simp_all

definition exampleNVFacts :: NVFacts where
  "exampleNVFacts = \<lparr>nf_arch = NVArchAda, nf_supportedSMMHz = [2520, 210, 2000], nf_supportedMemMHz = [405, 10251],
     nf_memLockRuntime = True, nf_lockedGPU = False, nf_lockedMem = False\<rparr>"

definition exampleAMDFacts :: AMDFacts where
  "exampleAMDFacts = \<lparr>af_busID = ''0000:C1:00.0'', af_deviceID = ''0x740f'', af_family = AMDFamilyAldebaran, af_level = ''auto'',
     af_od = True, af_sclkMHz = (500, 1700), af_mclkMHz = (400, 1600), af_fclkMHz = (0, 0)\<rparr>"

definition exampleNVPlan :: Plan where
  "exampleNVPlan = \<lparr>pl_writes = [], pl_args = [[''-i'', ''b'', ''-lgc'', lockArg (210, 210)], [''-i'', ''b'', ''-lmc'', lockArg (405, 405)]],
     pl_state = zeroState\<lparr>st_gpuLockMHz := Some (210, 210), st_memLockMHz := Some (405, 405)\<rparr>,
     pl_native = ''-lgc '' @ lockArg (210, 210) @ '' -lmc '' @ lockArg (405, 405), pl_result = GovernorResultApplied\<rparr>"

lemma exampleNVPlan_ok: "PlanNvidia exampleNVFacts ''b'' ''low'' 80 = Inr exampleNVPlan"
  by (simp add: PlanNvidia_def checkGPUPreset_def GPUGovernorPresetValues_def chooseNvidia_def nvKnownArch_def exampleNVFacts_def
      distinctMHz_def nvMemLockable_def nvApplied_def nvArgs_def exampleNVPlan_def nvidiaNative_def)

theorem ParseNative_roundtrip_witness:
  "ParseNative GovernorBackendCPUFreq (pl_native examplePlan) = pl_state examplePlan \<and>
   ParseNative GovernorBackendNvidiaSMI (pl_native exampleNVPlan) = pl_state exampleNVPlan"
proof -
  have ok: "lockOk (st_gpuLockMHz (pl_state exampleNVPlan)) \<and> lockOk (st_memLockMHz (pl_state exampleNVPlan))"
    by (simp add: exampleNVPlan_def lockOk_def int64_ok_def)
  have amd: "PlanAMD exampleAMDFacts ''low'' 80 \<noteq> Inr unsupportedPlan"
    by (simp add: PlanAMD_def checkGPUPreset_def GPUGovernorPresetValues_def chooseAMD_def amdLevels_def exampleAMDFacts_def
        unsupportedPlan_def Let_def)
  show ?thesis
    using ParseNative_roundtrip [of exampleAMDFacts "''low''" 80 unsupportedPlan exampleNVFacts "''b''" exampleNVPlan
        exampleCPUFacts "''efficiency''" "''off''" examplePlan] ok amd examplePlan_ok exampleNVPlan_ok by simp
qed

text \<open>\<open>InForce\<close> is faithful at both ends: when every write of a CPU plan was taken it spells
  the whole plan, and when none was it is empty; when the governor took on some policies only,
  its first word is \<open>mixed\<close>.\<close>

theorem InForce_cpu:
  assumes "PlanCPU f preset boost = Inr p" and "pl_result p \<noteq> GovernorResultUnsupported"
  shows "(set (pl_writes p) \<subseteq> set taken \<longrightarrow> InForce p taken = pl_native p) \<and>
    (set (pl_writes p) \<inter> set taken = {} \<longrightarrow> InForce p taken = []) \<and>
    (0 < fieldDone p taken ''governor'' \<and> fieldDone p taken ''governor'' < fieldAll p ''governor'' \<longrightarrow>
       (\<exists>ws. InForce p taken = Join (GovernorCurrentMixed # ws) '' ''))"
  using assms(1)
proof (cases rule: PlanCPU_cases)
  case 1
  then show ?thesis using assms(2) by (simp add: unsupportedPlan_def)
next
  case 2
  let ?c = "chooseCPU f preset"
  have F: "Fields (pl_native p) = cpuNativeWords f ?c boost" using cpu_native_fields [OF 2(4)] 2(1) by simp
  then obtain ws where F: "Fields (pl_native p) = cc_governor ?c # ws" and ws: "ws = tl (cpuNativeWords f ?c boost)"
    by (simp add: cpuNativeWords_def)
  have pol: "cf_policies f \<noteq> []" using chooseCPU_supported [OF 2(4)] by simp
  have lvl: "fieldAll p ''level'' = 0" and gov: "fieldAll p ''governor'' > 0"
    using 2(1) sortedPolicies_nonempty [OF pol] by (simp_all add: fieldAll_cpu)
  have "InForce p taken = pl_native p" if t: "set (pl_writes p) \<subseteq> set taken"
  proof -
    have "\<forall>w \<in> set ws. wordInForce p taken w" using wordInForce_cpu [of f ?c boost taken] 2(1,5) t pol ws by blast
    then have "InForce p taken = Join (cc_governor ?c # ws) '' ''"
      using F lvl gov by (simp add: InForce_def fieldDone_all [OF t] filter_id_conv)
    then show ?thesis using 2(1) cpu_native_join [of f ?c boost] ws by (simp add: cpuNativeWords_def)
  qed
  moreover have "InForce p taken = []" if "set (pl_writes p) \<inter> set taken = {}"
    using F lvl fieldDone_none [OF that] by (simp add: InForce_def)
  ultimately show ?thesis using F lvl by (auto simp: InForce_def)
qed

theorem InForce_cpu_witness:
  "InForce examplePlan (pl_writes examplePlan) = pl_native examplePlan \<and> InForce examplePlan [] = []"
proof -
  have "pl_result examplePlan \<noteq> GovernorResultUnsupported" by code_simp
  note I = InForce_cpu [OF examplePlan_ok this]
  show ?thesis using I [of "pl_writes examplePlan"] I [of "[]"] by simp
qed

text \<open>A write is classified as applied exactly when it gave no error and reads back as written
  up to surrounding white space; a silent no-op is not-applied; a permission errno is refused.
  The other results of an error are refused, unsupported or error, never applied.\<close>

theorem Classify_sound:
  "(fst (Classify e want readback) = GovernorResultApplied \<longleftrightarrow> e = None \<and> TrimSpace want = TrimSpace readback) \<and>
   (fst (Classify e want readback) = GovernorResultNotApplied \<longleftrightarrow> e = None \<and> TrimSpace want \<noteq> TrimSpace readback) \<and>
   fst (Classify e want readback) \<in> {GovernorResultApplied, GovernorResultNotApplied, GovernorResultRefused, GovernorResultUnsupported, GovernorResultError} \<and>
   fst (Classify (Some \<lparr>we_errno = Some ''EACCES'', we_notFound = nf, we_exitCode = x, we_text = t\<rparr>) want readback) = GovernorResultRefused"
proof (cases e)
  case None
  then show ?thesis by (simp add: Classify_def errnoNames_def)
next
  case (Some x)
  then show ?thesis using Classify_error [of x want readback] by (auto simp: Classify_def [of "Some \<lparr>we_errno = _, we_notFound = _, we_exitCode = _, we_text = _\<rparr>"] errnoNames_def)
qed

lemma distinctMHz_props: "sorted (distinctMHz xs)" "distinct (distinctMHz xs)" "\<forall>x \<in> set (distinctMHz xs). 0 < x"
proof -
  have "sorted ys \<Longrightarrow> distinct (remdups_adj ys)" for ys :: "int list"
    by (induction ys rule: remdups_adj.induct) (auto simp: order_less_le)
  then show "sorted (distinctMHz xs)" "distinct (distinctMHz xs)" "\<forall>x \<in> set (distinctMHz xs). 0 < x"
    by (auto simp: distinctMHz_def sorted_remdups_adj)
qed

lemma ceilClock_exact:
  assumes "sorted sm" "distinct sm" "c \<in> set sm"
  shows "ceilClock (real_of_int c) sm = c"
proof -
  obtain xs ys where sm: "sm = xs @ c # ys" using assms(3) by (meson split_list)
  have "\<forall>y \<in> set ys. c < y" using assms(1,2) unfolding sm by (auto simp: sorted_append order_less_le)
  then have "fold (\<lambda>x acc. if real_of_int x \<le> real_of_int c then x else acc) ys c = c"
    by (induction ys) auto
  then show ?thesis by (simp add: ceilClock_def sm)
qed

lemma last_max: "sorted xs \<Longrightarrow> x \<in> set xs \<Longrightarrow> x \<le> last xs" for x :: int
  by (induction xs) auto

definition nvGives :: "NVFacts \<Rightarrow> string \<Rightarrow> f64 \<Rightarrow> ClockLock \<Rightarrow> ClockLock \<Rightarrow> bool" where
  "nvGives f p pct gpu mem \<longleftrightarrow>
     nc_gpu (chooseNvidia f p pct) = gpu \<and> nc_mem (chooseNvidia f p pct) = mem \<and> nc_result (chooseNvidia f p pct) \<noteq> GovernorResultUnsupported"

lemma nvReverseLoop_sound:
  "(nvReverseLoop f gpu mem e ps = Inr p \<longrightarrow> nvGives f p DefaultCeilingPctOfMax gpu mem) \<and>
   (nvReverseLoop f gpu mem e ps = Inl e' \<longrightarrow> e' = e \<or> nvGives f e' DefaultCeilingPctOfMax gpu mem)"
proof (induction ps arbitrary: e)
  case (Cons q ps)
  let ?c = "chooseNvidia f q DefaultCeilingPctOfMax"
  have step: "nvReverseLoop f gpu mem e (q # ps) =
     (if q = GPUGovernorPresetEfficient \<or> \<not> nvGives f q DefaultCeilingPctOfMax gpu mem then nvReverseLoop f gpu mem e ps
      else if nc_result ?c = GovernorResultApplied then Inr q
      else nvReverseLoop f gpu mem (if e = [] then q else e) ps)"
    by (simp add: nvGives_def Let_def)
  show ?case unfolding step using Cons.IH [of e] Cons.IH [of "if e = [] then q else e"] by (auto split: if_splits)
qed simp

lemma nvGives_efficient:
  assumes "nvKnownArch (nf_arch f)" and "l = (hd sm, snd l)" and "snd l \<in> set sm" and "sm = distinctMHz (nf_supportedSMMHz f)"
  shows "\<exists>pct. 0 < pct \<and> pct \<le> 100 \<and> nvGives f GPUGovernorPresetEfficient pct (Some l) None"
proof -
  have sm: "sorted sm" "distinct sm" "\<forall>x \<in> set sm. 0 < x" using distinctMHz_props assms(4) by auto
  have "sm \<noteq> []" using assms(3) by auto
  let ?pct = "100 * real_of_int (snd l) / real_of_int (last sm)"
  have pos: "0 < snd l" "snd l \<le> last sm" using sm assms(3) last_max by auto
  then have "?pct * real_of_int (last sm) / 100 = real_of_int (snd l)" by simp
  then have "chooseNvidia f GPUGovernorPresetEfficient ?pct = nvApplied (Some (hd sm, snd l)) None"
    using assms(1,4) \<open>sm \<noteq> []\<close> ceilClock_exact [OF sm(1,2) assms(3)] by (simp add: chooseNvidia_def Let_def)
  then have "nvGives f GPUGovernorPresetEfficient ?pct (Some l) None" using assms(2) by (simp add: nvGives_def nvApplied_def)
  moreover have "0 < ?pct" "?pct \<le> 100" using pos by (simp_all add: divide_le_eq)
  ultimately show ?thesis by blast
qed

lemma ReverseNvidia_sound:
  assumes "ReverseNvidia f gpu mem = Some p"
  shows "\<exists>pct. 0 < pct \<and> pct \<le> 100 \<and> nvGives f p pct gpu mem"
proof (cases "\<exists>q. nvReverseLoop f gpu mem [] GPUGovernorPresetValues = q \<and> (q = Inr p \<or> q = Inl p \<and> p \<noteq> [])")
  case True
  then have "nvGives f p DefaultCeilingPctOfMax gpu mem" using nvReverseLoop_sound [of f gpu mem "[]" GPUGovernorPresetValues] by auto
  then show ?thesis by (intro exI [of _ DefaultCeilingPctOfMax]) (simp add: DefaultCeilingPctOfMax_def)
next
  case False
  obtain l where l: "gpu = Some l" "nvKnownArch (nf_arch f)" "mem = None" "fst l = hd (distinctMHz (nf_supportedSMMHz f))"
      "snd l \<in> set (distinctMHz (nf_supportedSMMHz f))" "p = GPUGovernorPresetEfficient"
    using assms False by (auto simp: ReverseNvidia_def Let_def split: sum.splits option.splits if_splits)
  have "l = (hd (distinctMHz (nf_supportedSMMHz f)), snd l)" using l(4) by (simp add: prod_eq_iff)
  then show ?thesis using nvGives_efficient [OF l(2) _ l(5) refl] l(1,3,6) by blast
qed

lemma ReverseAMD_sound:
  assumes "ReverseAMD f level od = Some p" and "0 \<le> fst (af_sclkMHz f)"
  shows "\<exists>pct mhz. 0 < pct \<and> pct \<le> 100 \<and> chooseAMD f p pct = Some (level, mhz) \<and> (p = GPUGovernorPresetEfficient \<longrightarrow> mhz = snd od)"
proof (cases "p = GPUGovernorPresetEfficient")
  case False
  then obtain mhz where "chooseAMD f p DefaultCeilingPctOfMax = Some (level, mhz)"
    using assms(1) by (auto simp: ReverseAMD_def Let_def find_Some_iff split: option.splits if_splits prod.splits)
  then show ?thesis using False
    by (intro exI [of _ DefaultCeilingPctOfMax]) (simp add: DefaultCeilingPctOfMax_def)
next
  case True
  let ?lo = "fst (af_sclkMHz f)" and ?hi = "snd (af_sclkMHz f)"
  obtain m where c: "chooseAMD f GPUGovernorPresetEfficient 100 = Some (level, m)" and od: "?lo \<le> snd od" "snd od \<le> ?hi"
    using assms(1) True by (auto simp: ReverseAMD_def Let_def find_Some_iff split: option.splits if_splits prod.splits)
  then have fam: "amdODCeiling (af_family f)" "af_od f" "0 < ?hi" "level = amdLevelManual"
    by (auto simp: chooseAMD_def Let_def split: if_splits)
  have "\<exists>pct. 0 < pct \<and> pct \<le> 100 \<and> \<lfloor>pct * real_of_int ?hi / 100\<rfloor> = snd od"
  proof (cases "snd od = 0")
    case True
    then show ?thesis using fam(3) by (intro exI [of _ "50 / real_of_int ?hi"]) (auto simp: divide_le_eq floor_eq_iff)
  next
    case False
    then have "0 < snd od" using od(1) assms(2) by simp
    then show ?thesis using fam(3) od(2) by (intro exI [of _ "100 * real_of_int (snd od) / real_of_int ?hi"]) (auto simp: divide_le_eq)
  qed
  then show ?thesis using True fam od(1) by (auto simp: chooseAMD_def Let_def)
qed

lemma ReverseCPU_iff:
  "ReverseCPU f gov epp = Some p \<longleftrightarrow>
     p \<in> set CPUGovernorPresetValues \<and> cpuMatches f gov epp p \<and> (\<forall>q \<in> set CPUGovernorPresetValues. cpuMatches f gov epp q \<longrightarrow> q = p)"
  by (auto simp: ReverseCPU_def CPUGovernorPresetValues_def)

text \<open>The reverse mappings are sound: the CPU preset named is the only one whose choice gives
  the governor and, where it has one, the preference; the GPU preset named gives, at some
  compute clock ceiling in (0, 100], exactly the locks or the performance level and sclk
  ceiling that were read.\<close>

theorem Reverse_sound:
  assumes "0 \<le> fst (af_sclkMHz af)"
  shows "(ReverseCPU cf gov epp = Some p \<longleftrightarrow> p \<in> set CPUGovernorPresetValues \<and> cpuMatches cf gov epp p \<and>
      (\<forall>q \<in> set CPUGovernorPresetValues. cpuMatches cf gov epp q \<longrightarrow> q = p)) \<and>
    (ReverseNvidia nf gpu mem = Some q \<longrightarrow> (\<exists>pct. 0 < pct \<and> pct \<le> 100 \<and> nvGives nf q pct gpu mem)) \<and>
    (ReverseAMD af level od = Some r \<longrightarrow>
      (\<exists>pct mhz. 0 < pct \<and> pct \<le> 100 \<and> chooseAMD af r pct = Some (level, mhz) \<and> (r = GPUGovernorPresetEfficient \<longrightarrow> mhz = snd od)))"
  using assms by (intro conjI impI ReverseCPU_iff ReverseNvidia_sound ReverseAMD_sound)

theorem Reverse_sound_witness:
  "\<exists>pct. 0 < pct \<and> pct \<le> 100 \<and> nvGives exampleNVFacts ''efficient'' pct (Some (210, 2000)) None"
proof -
  have "ReverseNvidia exampleNVFacts (Some (210, 2000)) None = Some ''efficient''"
    by (simp add: ReverseNvidia_def GPUGovernorPresetValues_def chooseNvidia_def nvKnownArch_def exampleNVFacts_def
        distinctMHz_def nvMemLockable_def nvApplied_def)
  then show ?thesis
    using Reverse_sound [of exampleAMDFacts exampleCPUFacts "[]" "[]" "[]" exampleNVFacts "Some (210, 2000)" None "''efficient''"]
    by (simp add: exampleAMDFacts_def)
qed

end
