(* ===== verification/Controller_Plan.thy ===== *)
theory Controller_Plan
  imports Node_Fsm Hw_Catalog Crd_Types Governor_Native
begin

text \<open>
  The planning half of the controller manager: \<^verbatim>\<open>cmd/controller-manager/main.go\<close> up to the caps
  of every node, and the governor configuration of \<^verbatim>\<open>governor_config.go\<close>. What a reconcile
  reads from the API cache is the record \<open>Cluster\<close>; the arguments of the reconcile and the
  installed options are the record \<open>PlanConfig\<close>. The label selector is the predicate
  \<open>pc_selector\<close> (the Kubernetes library owns its syntax). Log lines, warnings and metrics are
  left out.
\<close>

section \<open>Objects and options\<close>

text \<open>A node, with the label map and the quantities the code reads.\<close>

record KNode =
  kn_name :: string
  kn_labels :: strmap
  kn_unschedulable :: bool
  kn_capacityCPU :: "int option"
  kn_allocatable :: ResourceList

record GPUModelCaps =
  gmc_minCapWatts :: f64
  gmc_maxCapWatts :: f64

record NodeHardware =
  chw_name :: string
  chw_nodeName :: string
  chw_cpuModel :: string
  chw_cpuRawModel :: string
  chw_cpuSockets :: int
  chw_cpuTotalCores :: int
  chw_gpuModel :: string
  chw_gpuRawModel :: string
  chw_gpuCount :: int
  chw_gpuPowerDomains :: int
  chw_cpuCapMinWatts :: f64
  chw_cpuCapMaxWatts :: f64
  chw_cpuCapKnown :: bool
  chw_gpuCapMinWatts :: f64
  chw_gpuCapMaxWatts :: f64
  chw_gpuCapKnown :: bool
  chw_cpuControlAvailable :: bool
  chw_gpuControlAvailable :: bool
  chw_gpuReported :: bool
  chw_warnings :: "string list"
  chw_cpuGovernorPresets :: "string list"
  chw_gpuGovernorPresets :: "string list"
  chw_cpuBoostAvailable :: bool
  chw_gpuGovernorGap :: bool

definition zeroHardware :: NodeHardware where
  "zeroHardware =
     \<lparr>chw_name = [], chw_nodeName = [], chw_cpuModel = [], chw_cpuRawModel = [], chw_cpuSockets = 0, chw_cpuTotalCores = 0,
      chw_gpuModel = [], chw_gpuRawModel = [], chw_gpuCount = 0, chw_gpuPowerDomains = 0,
      chw_cpuCapMinWatts = 0, chw_cpuCapMaxWatts = 0, chw_cpuCapKnown = False,
      chw_gpuCapMinWatts = 0, chw_gpuCapMaxWatts = 0, chw_gpuCapKnown = False,
      chw_cpuControlAvailable = False, chw_gpuControlAvailable = False, chw_gpuReported = False, chw_warnings = [],
      chw_cpuGovernorPresets = [], chw_gpuGovernorPresets = [], chw_cpuBoostAvailable = False, chw_gpuGovernorGap = False\<rparr>"

type_synonym hardwareMap = "string \<Rightarrow> NodeHardware option"

text \<open>Reading a Go map of structs at a missing key gives the zero struct.\<close>

definition hwAt :: "hardwareMap \<Rightarrow> string \<Rightarrow> NodeHardware" where
  "hwAt hw n = (case hw n of Some h \<Rightarrow> h | None \<Rightarrow> zeroHardware)"

record capOptions =
  co_cpuCapsOnUncappableGPUNodes :: bool

section \<open>Governor configuration\<close>

abbreviation governorControlOff :: string where "governorControlOff \<equiv> ''off''"
abbreviation governorControlCPU :: string where "governorControlCPU \<equiv> ''cpu''"
abbreviation governorControlGPU :: string where "governorControlGPU \<equiv> ''gpu''"
abbreviation governorControlAll :: string where "governorControlAll \<equiv> ''all''"

record gpuGovernorModelPresets =
  gmp_performance :: "string option"
  gmp_eco :: "string option"
  gmp_ecoCeilingPctOfMax :: "f64 option"

record governorConfig =
  gc_control :: string
  gc_cpuPerformancePreset :: string
  gc_cpuEcoPreset :: string
  gc_cpuEcoBoost :: string
  gc_cpuOnGPUNodes :: bool
  gc_gpuPerformancePreset :: string
  gc_gpuEcoPreset :: string
  gc_gpuCeilingPctOfMax :: f64
  gc_gpuModelPresets :: "string \<Rightarrow> gpuGovernorModelPresets option"
  gc_gpuSustainedOnlyMultiGPU :: bool

definition defaultGovernorConfig :: governorConfig where
  "defaultGovernorConfig =
     \<lparr>gc_control = governorControlOff, gc_cpuPerformancePreset = CPUGovernorPresetPerformance,
      gc_cpuEcoPreset = CPUGovernorPresetEfficiency, gc_cpuEcoBoost = [], gc_cpuOnGPUNodes = False,
      gc_gpuPerformancePreset = [], gc_gpuEcoPreset = GPUGovernorPresetEfficient,
      gc_gpuCeilingPctOfMax = DefaultCeilingPctOfMax, gc_gpuModelPresets = Map.empty,
      gc_gpuSustainedOnlyMultiGPU = False\<rparr>"

text \<open>The environment is a partial map; \<open>os.Getenv\<close> of an unset variable is empty.\<close>

definition envOrDefault :: "strmap \<Rightarrow> string \<Rightarrow> string \<Rightarrow> string" where
  "envOrDefault env key def = (let v = TrimSpace (map_get env key) in if v = [] then def else v)"

definition boolEnvWords :: "(string \<times> bool) list" where
  "boolEnvWords = [(''true'', True), (''1'', True), (''yes'', True), (''on'', True),
                   (''false'', False), (''0'', False), (''no'', False), (''off'', False)]"

definition boolEnv :: "strmap \<Rightarrow> string \<Rightarrow> bool \<Rightarrow> bool" where
  "boolEnv env key def =
     (let raw = TrimSpace (map_get env key)
      in if raw = [] then def
         else case map_of boolEnvWords (ToLower raw) of Some v \<Rightarrow> v | None \<Rightarrow> def)"

definition intEnv :: "strmap \<Rightarrow> string \<Rightarrow> int \<Rightarrow> int" where
  "intEnv env key def =
     (let s = TrimSpace (map_get env key)
      in if s = [] then def else case Atoi s of Some v \<Rightarrow> v | None \<Rightarrow> def)"

definition gpuGovernorPresetChoices :: "string list" where
  "gpuGovernorPresetChoices = [] # GPUGovernorPresetValues"

definition checkGovernorPreset :: "string \<Rightarrow> string \<Rightarrow> string list \<Rightarrow> string" where
  "checkGovernorPreset value def accepted =
     (let v = ToLower (TrimSpace value) in if v \<in> set accepted then v else def)"

definition validCeilingPct :: "f64 \<Rightarrow> bool" where
  "validCeilingPct pct \<longleftrightarrow> pct > 0 \<and> pct \<le> 100"

text \<open>One entry of \<open>GPU_GOVERNOR_MODEL_PRESETS_JSON\<close> after decoding: an invalid field is dropped.\<close>

definition checkModelPreset :: "string option \<Rightarrow> string option" where
  "checkModelPreset preset =
     (case preset of
        None \<Rightarrow> None
      | Some s \<Rightarrow> (let v = ToLower (TrimSpace s) in if v \<in> set gpuGovernorPresetChoices then Some v else None))"

definition checkModelPresets :: "gpuGovernorModelPresets \<Rightarrow> gpuGovernorModelPresets" where
  "checkModelPresets m =
     \<lparr>gmp_performance = checkModelPreset (gmp_performance m), gmp_eco = checkModelPreset (gmp_eco m),
      gmp_ecoCeilingPctOfMax =
        (case gmp_ecoCeilingPctOfMax m of None \<Rightarrow> None | Some p \<Rightarrow> if validCeilingPct p then Some p else None)\<rparr>"

text \<open>\<open>unmarshal\<close> is \<open>json.Unmarshal\<close> into the map of entries, \<open>None\<close> for its error.\<close>

definition parseGPUGovernorModelPresets ::
  "(string \<Rightarrow> (string \<Rightarrow> gpuGovernorModelPresets option) option) \<Rightarrow> string \<Rightarrow> (string \<Rightarrow> gpuGovernorModelPresets option)" where
  "parseGPUGovernorModelPresets unmarshal raw =
     (let raw = TrimSpace raw
      in if raw = [] then Map.empty
         else case unmarshal raw of
                None \<Rightarrow> Map.empty
              | Some out \<Rightarrow> (\<lambda>model. map_option checkModelPresets (out model)))"

text \<open>\<open>parseFloat64\<close> is \<open>strconv.ParseFloat\<close> at 64 bits, \<open>None\<close> for its error (and for the
  infinities and the not-a-number, which the range check refuses as well).\<close>

definition ceilingFromEnv :: "(string \<Rightarrow> f64 option) \<Rightarrow> strmap \<Rightarrow> f64 \<Rightarrow> f64" where
  "ceilingFromEnv parseFloat64 env def =
     (let v = envOrDefault env ''GPU_GOVERNOR_ECO_CEILING_PCT_OF_MAX'' []
      in if v = [] then def
         else case parseFloat64 v of None \<Rightarrow> def | Some pct \<Rightarrow> if validCeilingPct pct then pct else def)"

definition loadGovernorConfig ::
  "(string \<Rightarrow> f64 option) \<Rightarrow> (string \<Rightarrow> (string \<Rightarrow> gpuGovernorModelPresets option) option) \<Rightarrow> strmap \<Rightarrow> governorConfig" where
  "loadGovernorConfig parseFloat64 unmarshal env =
     (let cfg = defaultGovernorConfig;
          control = ToLower (envOrDefault env ''GOVERNOR_CONTROL'' (gc_control cfg));
          boost = ToLower (envOrDefault env ''CPU_GOVERNOR_ECO_BOOST'' [])
      in \<lparr>gc_control =
            (if control \<in> set [governorControlOff, governorControlCPU, governorControlGPU, governorControlAll]
             then control else gc_control cfg),
          gc_cpuPerformancePreset =
            checkGovernorPreset (envOrDefault env ''CPU_GOVERNOR_PERFORMANCE_PRESET'' (gc_cpuPerformancePreset cfg))
              (gc_cpuPerformancePreset cfg) CPUGovernorPresetValues,
          gc_cpuEcoPreset =
            checkGovernorPreset (envOrDefault env ''CPU_GOVERNOR_ECO_PRESET'' (gc_cpuEcoPreset cfg))
              (gc_cpuEcoPreset cfg) CPUGovernorPresetValues,
          gc_cpuEcoBoost = (if boost \<in> set CPUGovernorBoostValues then boost else gc_cpuEcoBoost cfg),
          gc_cpuOnGPUNodes = boolEnv env ''CPU_GOVERNOR_ON_GPU_NODES'' (gc_cpuOnGPUNodes cfg),
          gc_gpuPerformancePreset =
            (case env ''GPU_GOVERNOR_PERFORMANCE_PRESET'' of
               Some v \<Rightarrow> checkGovernorPreset v (gc_gpuPerformancePreset cfg) gpuGovernorPresetChoices
             | None \<Rightarrow> gc_gpuPerformancePreset cfg),
          gc_gpuEcoPreset =
            (case env ''GPU_GOVERNOR_ECO_PRESET'' of
               Some v \<Rightarrow> checkGovernorPreset v (gc_gpuEcoPreset cfg) gpuGovernorPresetChoices
             | None \<Rightarrow> gc_gpuEcoPreset cfg),
          gc_gpuCeilingPctOfMax = ceilingFromEnv parseFloat64 env (gc_gpuCeilingPctOfMax cfg),
          gc_gpuModelPresets =
            parseGPUGovernorModelPresets unmarshal (envOrDefault env ''GPU_GOVERNOR_MODEL_PRESETS_JSON'' ''{}''),
          gc_gpuSustainedOnlyMultiGPU =
            boolEnv env ''GPU_GOVERNOR_SUSTAINED_ONLY_MULTI_GPU'' (gc_gpuSustainedOnlyMultiGPU cfg)\<rparr>)"

definition cpuEnabled :: "governorConfig \<Rightarrow> bool" where
  "cpuEnabled c \<longleftrightarrow> gc_control c = governorControlCPU \<or> gc_control c = governorControlAll"

definition gpuEnabled :: "governorConfig \<Rightarrow> bool" where
  "gpuEnabled c \<longleftrightarrow> gc_control c = governorControlGPU \<or> gc_control c = governorControlAll"

fun modelEntry :: "(string \<Rightarrow> gpuGovernorModelPresets option) \<Rightarrow> string list \<Rightarrow> gpuGovernorModelPresets option" where
  "modelEntry presets [] = None"
| "modelEntry presets (k # ks) =
     (case presets (TrimSpace k) of
        Some m \<Rightarrow> if TrimSpace k = [] then modelEntry presets ks else Some m
      | None \<Rightarrow> modelEntry presets ks)"

definition gpuPresetFor :: "governorConfig \<Rightarrow> string \<Rightarrow> string list \<Rightarrow> string \<times> f64" where
  "gpuPresetFor c profile keys =
     (let preset = (if profile = profilePerformance then gc_gpuPerformancePreset c else gc_gpuEcoPreset c);
          ceiling = gc_gpuCeilingPctOfMax c
      in case modelEntry (gc_gpuModelPresets c) keys of
           None \<Rightarrow> (preset, ceiling)
         | Some m \<Rightarrow>
             (let override = (if profile = profilePerformance then gmp_performance m else gmp_eco m)
              in (case override of Some p \<Rightarrow> p | None \<Rightarrow> preset,
                  case gmp_ecoCeilingPctOfMax m of Some p \<Rightarrow> p | None \<Rightarrow> ceiling)))"

definition cpuGovernorIntent :: "governorConfig \<Rightarrow> string \<Rightarrow> bool \<Rightarrow> NodeHardware \<Rightarrow> CPUGovernorIntent option" where
  "cpuGovernorIntent c profile hasGPU nh =
     (if cpuEnabled c \<and> (\<not> hasGPU \<or> gc_cpuOnGPUNodes c)
      then (let preset = (if profile = profilePerformance then gc_cpuPerformancePreset c else gc_cpuEcoPreset c);
                boost = (if profile = profilePerformance then [] else gc_cpuEcoBoost c)
            in if preset = [] then None
               else if preset \<notin> set (chw_cpuGovernorPresets nh) then None
               else Some \<lparr>cgi_preset = preset, cgi_boost = (if boost \<noteq> [] \<and> chw_cpuBoostAvailable nh then boost else [])\<rparr>)
      else None)"

definition gpuGovernorIntent :: "governorConfig \<Rightarrow> string \<Rightarrow> bool \<Rightarrow> NodeHardware \<Rightarrow> string \<Rightarrow> bool \<Rightarrow> GPUGovernorIntent option" where
  "gpuGovernorIntent c profile hasGPU nh gpuProduct multiGPUPod =
     (if gpuEnabled c \<and> hasGPU
      then (case gpuPresetFor c profile [gpuProduct, chw_gpuModel nh, chw_gpuRawModel nh] of (preset, pct) \<Rightarrow>
              (let preset = (if preset = GPUGovernorPresetSustained \<and> gc_gpuSustainedOnlyMultiGPU c \<and> \<not> multiGPUPod
                             then [] else preset)
               in if preset = [] then None
                  else if preset \<notin> set (chw_gpuGovernorPresets nh) \<and> \<not> chw_gpuGovernorGap nh then None
                  else Some \<lparr>ggi_preset = preset,
                             ggi_ceilingPctOfMax = (if preset = GPUGovernorPresetEfficient then Some pct else None)\<rparr>))
      else None)"

definition governorIntents ::
  "governorConfig \<Rightarrow> string \<Rightarrow> bool \<Rightarrow> NodeHardware \<Rightarrow> string \<Rightarrow> bool \<Rightarrow> CPUGovernorIntent option \<times> GPUGovernorIntent option" where
  "governorIntents c profile hasGPU nh gpuProduct multiGPUPod =
     (cpuGovernorIntent c profile hasGPU nh, gpuGovernorIntent c profile hasGPU nh gpuProduct multiGPUPod)"

section \<open>Node hardware\<close>

definition governorPresetNames :: "V1GovernorPresetSupport list \<Rightarrow> string list" where
  "governorPresetNames presets = filter (\<lambda>p. p \<noteq> []) (map gps_preset presets)"

definition parseCPUHardware :: "V1NodeHardwareCPU \<Rightarrow> NodeHardware \<Rightarrow> NodeHardware" where
  "parseCPUHardware cpu nh =
     (let nh = nh\<lparr>chw_cpuModel := vhc_model cpu, chw_cpuRawModel := vhc_rawModel cpu, chw_cpuSockets := vhc_sockets cpu,
                  chw_cpuTotalCores := vhc_totalCores cpu, chw_cpuControlAvailable := vhc_controlAvailable cpu\<rparr>;
          nh = (case vhc_capRange cpu of
                  Some cr \<Rightarrow> nh\<lparr>chw_cpuCapMinWatts := vcr_minWattsPerSocket cr, chw_cpuCapMaxWatts := vcr_maxWattsPerSocket cr,
                                chw_cpuCapKnown := True\<rparr>
                | None \<Rightarrow> nh)
      in case vhc_governor cpu of
           Some g \<Rightarrow> nh\<lparr>chw_cpuGovernorPresets := governorPresetNames (cgv_presets g), chw_cpuBoostAvailable := cgv_boost g \<noteq> None\<rparr>
         | None \<Rightarrow> nh)"

definition parseGPUHardware :: "V1NodeHardwareGPU \<Rightarrow> NodeHardware \<Rightarrow> NodeHardware" where
  "parseGPUHardware gpu nh =
     (let nh = nh\<lparr>chw_gpuModel := vhg_model gpu, chw_gpuRawModel := vhg_rawModel gpu, chw_gpuCount := vhg_count gpu,
                  chw_gpuPowerDomains := vhg_powerDomains gpu, chw_gpuControlAvailable := vhg_controlAvailable gpu,
                  chw_gpuReported := True\<rparr>;
          nh = (case vhg_capRangePerGPU gpu of
                  Some cr \<Rightarrow> nh\<lparr>chw_gpuCapMinWatts := vgr_minWatts cr, chw_gpuCapMaxWatts := vgr_maxWatts cr, chw_gpuCapKnown := True\<rparr>
                | None \<Rightarrow> nh)
      in case vhg_governor gpu of
           Some g \<Rightarrow> nh\<lparr>chw_gpuGovernorPresets := governorPresetNames (ggv_presets g),
                        chw_gpuGovernorGap := (ggv_mechanism g = [] \<and> ggv_baseline g \<noteq> None)\<rparr>
         | None \<Rightarrow> nh)"

text \<open>An object comes with the name of its metadata.\<close>

definition parseNodeHardware :: "string \<times> V1NodeHardware \<Rightarrow> NodeHardware" where
  "parseNodeHardware obj =
     (let st = nh_status (snd obj);
          nh = zeroHardware\<lparr>chw_name := fst obj, chw_nodeName := nhs_nodeName (nh_spec (snd obj))\<rparr>;
          nh = (case nht_cpu st of Some cpu \<Rightarrow> parseCPUHardware cpu nh | None \<Rightarrow> nh);
          nh = (case nht_gpu st of Some gpu \<Rightarrow> parseGPUHardware gpu nh | None \<Rightarrow> nh)
      in case nht_quality st of Some q \<Rightarrow> nh\<lparr>chw_warnings := chw_warnings nh @ nhq_warnings q\<rparr> | None \<Rightarrow> nh)"

text \<open>The catalog lookup both ways of learning a node's hardware share.\<close>

definition withCatalog :: "Catalog option \<Rightarrow> NodeHardware \<Rightarrow> NodeHardware" where
  "withCatalog catalog nh =
     (case catalog of
        None \<Rightarrow> nh
      | Some _ \<Rightarrow>
          (let m = MatchNode catalog (descOf (chw_cpuRawModel nh) (chw_cpuSockets nh) (chw_cpuTotalCores nh)
                                        (chw_gpuRawModel nh) (chw_gpuCount nh));
               nh = (if mr_cpuSpec m \<noteq> None then nh\<lparr>chw_cpuModel := mr_cpuKey m\<rparr> else nh);
               nh = (if mr_gpuSpec m \<noteq> None then nh\<lparr>chw_gpuModel := mr_gpuKey m\<rparr> else nh)
           in nh\<lparr>chw_warnings := chw_warnings nh @ mr_warnings m\<rparr>))"

datatype ListErr = NotFoundErr | NoMatchErr | OtherErr goerr

definition listNodeHardware :: "ListErr + (string \<times> V1NodeHardware) list \<Rightarrow> Catalog option \<Rightarrow> goerr + hardwareMap" where
  "listNodeHardware listed catalog =
     (case listed of
        Inl (OtherErr e) \<Rightarrow> Inl e
      | Inl _ \<Rightarrow> Inr Map.empty
      | Inr items \<Rightarrow>
          Inr (fold (\<lambda>obj out. let nh = withCatalog catalog (parseNodeHardware obj) in out(chw_nodeName nh \<mapsto> nh)) items Map.empty))"

definition discoverGPUCount :: "KNode \<Rightarrow> int" where
  "discoverGPUCount node =
     (case GPUCountFromLabels (kn_labels node) of
        Some n \<Rightarrow> n
      | None \<Rightarrow> sum_list (map snd (filter (\<lambda>(k, q). GPUResourceKind k \<noteq> []) (kn_allocatable node))))"

fun resolveGPUProduct :: "strmap \<Rightarrow> string list \<Rightarrow> string" where
  "resolveGPUProduct labels [] = []"
| "resolveGPUProduct labels (k # ks) =
     (let key = TrimSpace k; v = GPUProductBase (map_get labels key)
      in if key = [] \<or> v = [] then resolveGPUProduct labels ks else v)"

definition parseCSVList :: "string \<Rightarrow> string list" where
  "parseCSVList s = filter (\<lambda>v. v \<noteq> []) (map TrimSpace (Split s (CHR '','')))"

definition nodeHardwareFromLabels :: "KNode \<Rightarrow> Catalog option \<Rightarrow> string list \<Rightarrow> NodeHardware" where
  "nodeHardwareFromLabels node catalog keys =
     (let l = kn_labels node
      in withCatalog catalog
           (zeroHardware\<lparr>chw_name := ObjectNameForNode (kn_name node), chw_nodeName := kn_name node,
              chw_cpuRawModel := firstNonEmpty [map_get l ''joulie.io/hw.cpu-model'', map_get l ''feature.node.kubernetes.io/cpu-model.name''],
              chw_cpuSockets := ParseIntString (firstNonEmpty [map_get l ''joulie.io/hw.cpu-sockets'', map_get l ''feature.node.kubernetes.io/cpu-sockets'']),
              chw_cpuTotalCores := (case kn_capacityCPU node of Some q \<Rightarrow> q | None \<Rightarrow> 0),
              chw_gpuRawModel := resolveGPUProduct l (''joulie.io/hw.gpu-model'' # keys),
              chw_gpuCount := discoverGPUCount node\<rparr>))"

definition estimateNodePowerW :: "NodeHardware \<Rightarrow> f64 \<Rightarrow> f64 \<Rightarrow> f64" where
  "estimateNodePowerW nh cpuCapPct gpuCapPct =
     (if chw_cpuCapMaxWatts nh > 0 then chw_cpuCapMaxWatts nh * real_of_int (chw_cpuSockets nh) * (cpuCapPct / 100) else 0) +
     (if chw_gpuCapMaxWatts nh > 0
      then chw_gpuCapMaxWatts nh * real_of_int (GPUPowerDomains (chw_gpuCount nh) (chw_gpuPowerDomains nh)) * (gpuCapPct / 100)
      else 0)"

section \<open>Caps\<close>

definition agentReportsNoGPUControl :: "NodeHardware \<Rightarrow> bool" where
  "agentReportsNoGPUControl nh \<longleftrightarrow> chw_gpuReported nh \<and> \<not> chw_gpuControlAvailable nh"

definition computeAbsoluteCPUCap :: "string \<Rightarrow> NodeHardware \<Rightarrow> Catalog option \<Rightarrow> f64 \<Rightarrow> f64 \<Rightarrow> f64 option" where
  "computeAbsoluteCPUCap profile nh catalog perfCap ecoCap =
     (let target = (if profile = profilePerformance then perfCap else ecoCap)
      in if chw_cpuCapKnown nh \<and> chw_cpuCapMaxWatts nh > 0
         then (let target = (if target < chw_cpuCapMinWatts nh then chw_cpuCapMinWatts nh else target)
               in Some (if target > chw_cpuCapMaxWatts nh then chw_cpuCapMaxWatts nh else target))
         else if catalog = None then None
         else (case mr_cpuSpec (MatchNode catalog (descOf (chw_cpuRawModel nh) (chw_cpuSockets nh) (chw_cpuTotalCores nh) [] 0)) of
                 None \<Rightarrow> None
               | Some spec \<Rightarrow>
                   (let maxW = co_tdpW (cm_official spec) * (if chw_cpuSockets nh > 0 then real_of_int (chw_cpuSockets nh) else 1)
                    in if maxW \<le> 0 then None
                       else (let target = (if target > maxW then maxW else target);
                                 minW = maxW * SocketCapMinFractionOfTDP
                             in Some (if target < minW then minW else target)))))"

definition computeInventoryGPUCap :: "string \<Rightarrow> NodeHardware \<Rightarrow> Catalog option \<Rightarrow> f64 \<Rightarrow> f64 \<Rightarrow> f64 option" where
  "computeInventoryGPUCap profile nh catalog gpuPerfCapPct gpuEcoCapPct =
     (let capPct = (if profile = profilePerformance then gpuPerfCapPct else gpuEcoCapPct)
      in if capPct \<le> 0 then None
         else if chw_gpuCapKnown nh \<and> chw_gpuCapMaxWatts nh > 0
         then (let absW = capPct / 100 * chw_gpuCapMaxWatts nh;
                   absW = (if absW < chw_gpuCapMinWatts nh \<and> chw_gpuCapMinWatts nh > 0 then chw_gpuCapMinWatts nh else absW)
               in Some (if absW > chw_gpuCapMaxWatts nh then chw_gpuCapMaxWatts nh else absW))
         else if catalog = None then None
         else (case mr_gpuSpec (MatchNode catalog (descOf [] 0 0 (chw_gpuRawModel nh) (chw_gpuCount nh))) of
                 None \<Rightarrow> None
               | Some spec \<Rightarrow>
                   (let maxW = go_maxBoardPowerW (gm_official spec);
                        minW = go_minBoardPowerW (gm_official spec)
                    in if maxW \<le> 0 then None
                       else (let minW = (if minW \<le> 0 then maxW * (1 / 2) else minW);
                                 absW = capPct / 100 * maxW;
                                 absW = (if absW < minW then minW else absW)
                             in Some (if absW > maxW then maxW else absW)))))"

definition modelGPUCap :: "GPUModelCaps \<Rightarrow> f64 \<Rightarrow> f64" where
  "modelGPUCap caps capPct =
     (let minW = (if gmc_minCapWatts caps \<le> 0 then 1 else gmc_minCapWatts caps);
          absW = capPct / 100 * gmc_maxCapWatts caps;
          absW = (if absW < minW then minW else absW)
      in if absW > gmc_maxCapWatts caps then gmc_maxCapWatts caps else absW)"

definition computeGPUIntentForNodeWithHardware ::
  "KNode \<Rightarrow> string \<Rightarrow> f64 \<Rightarrow> f64 \<Rightarrow> bool \<Rightarrow> (string \<Rightarrow> GPUModelCaps option) \<Rightarrow> string list \<Rightarrow> NodeHardware \<Rightarrow> Catalog option \<Rightarrow> GPUCapIntent option" where
  "computeGPUIntentForNodeWithHardware node profile gpuPerfCapPct gpuEcoCapPct gpuWriteAbsolute gpuModelCaps keys nh catalog =
     (let capPct = (if profile = profilePerformance then gpuPerfCapPct else gpuEcoCapPct)
      in if chw_gpuCount nh \<le> 0 \<and> discoverGPUCount node \<le> 0 then None
         else if capPct \<le> 0 then None
         else (let intent = \<lparr>gci_scope = ''perGpu'', gci_capWattsPerGPU = None, gci_capPctOfMax = Some capPct\<rparr>
               in if \<not> gpuWriteAbsolute then Some intent
                  else case computeInventoryGPUCap profile nh catalog gpuPerfCapPct gpuEcoCapPct of
                         Some absW \<Rightarrow> Some (intent\<lparr>gci_capWattsPerGPU := Some absW\<rparr>)
                       | None \<Rightarrow>
                           (let product = resolveGPUProduct (kn_labels node) keys
                            in if product = [] then Some intent
                               else case gpuModelCaps product of
                                      Some caps \<Rightarrow> Some (if gmc_maxCapWatts caps > 0
                                                         then intent\<lparr>gci_capWattsPerGPU := Some (modelGPUCap caps capPct)\<rparr> else intent)
                                    | None \<Rightarrow> Some intent)))"

section \<open>The plan of a reconcile\<close>

record PlanConfig =
  pc_selector :: "strmap \<Rightarrow> bool"
  pc_reservedLabel :: string
  pc_profileLabel :: string
  pc_interval :: int
  pc_perfCap :: f64
  pc_ecoCap :: f64
  pc_policyType :: string
  pc_staticHPFrac :: f64
  pc_queueHPBaseFrac :: f64
  pc_queueHPMin :: int
  pc_queueHPMax :: int
  pc_queuePerfPerHPNode :: int
  pc_cpuPerfCapPct :: f64
  pc_cpuEcoCapPct :: f64
  pc_cpuWriteAbsolute :: bool
  pc_gpuPerfCapPct :: f64
  pc_gpuEcoCapPct :: f64
  pc_gpuWriteAbsolute :: bool
  pc_gpuModelCaps :: "string \<Rightarrow> GPUModelCaps option"
  pc_gpuProductLabelKeys :: "string list"
  pc_catalog :: "Catalog option"
  pc_capOptions :: capOptions
  pc_governor :: governorConfig

record Cluster =
  cl_nodes :: "goerr + KNode list"
  cl_pods :: "goerr + Pod list"
  cl_podsOn :: "string \<Rightarrow> goerr + Pod list"
  cl_nodeHardware :: "ListErr + (string \<times> V1NodeHardware) list"

definition toHardwareInfoMap :: "hardwareMap \<Rightarrow> hwmap" where
  "toHardwareInfoMap hw = (\<lambda>k. map_option (\<lambda>v.
     \<lparr>hi_cpuModel = chw_cpuModel v, hi_cpuRawModel = chw_cpuRawModel v, hi_gpuModel = chw_gpuModel v,
      hi_gpuRawModel = chw_gpuRawModel v, hi_gpuCount = chw_gpuCount v\<rparr>) (hw k))"

definition performancePodDemand :: "Cluster \<Rightarrow> goerr + int" where
  "performancePodDemand cl = (case cl_pods cl of Inl e \<Rightarrow> Inl e | Inr pods \<Rightarrow> Inr (CountPerformanceDemand pods))"

text \<open>\<open>now\<close> is the Unix time \<open>BuildRuleSwapPlan\<close> reads from the clock.\<close>

definition buildPlanByPolicy :: "PlanConfig \<Rightarrow> Cluster \<Rightarrow> string list \<Rightarrow> hardwareMap \<Rightarrow> strmap \<Rightarrow> int \<Rightarrow> NodeAssignment list" where
  "buildPlanByPolicy cfg cl nodes nodeHardware current now =
     (let hw = toHardwareInfoMap nodeHardware;
          static = BuildStaticPlan nodes hw current (pc_perfCap cfg) (pc_ecoCap cfg)
      in if pc_policyType cfg = ''static_partition'' \<or> pc_policyType cfg = [] then static (pc_staticHPFrac cfg)
         else if pc_policyType cfg = ''queue_aware_v1''
         then (case performancePodDemand cl of
                 Inl e \<Rightarrow> static (pc_queueHPBaseFrac cfg)
               | Inr pods \<Rightarrow>
                   BuildQueueAwarePlan nodes hw current (pc_perfCap cfg) (pc_ecoCap cfg) (pc_queueHPBaseFrac cfg)
                     (pc_queueHPMin cfg) (pc_queueHPMax cfg) (pc_queuePerfPerHPNode cfg) pods)
         else if pc_policyType cfg = ''rule_swap_v1''
         then BuildRuleSwapPlanAt nodes (pc_interval cfg) (pc_perfCap cfg) (pc_ecoCap cfg) now
         else static (pc_staticHPFrac cfg))"

definition runningMultiGPUPodOnNode :: "Cluster \<Rightarrow> string \<Rightarrow> bool" where
  "runningMultiGPUPodOnNode cl nodeName =
     (case cl_podsOn cl nodeName of Inl e \<Rightarrow> False | Inr pods \<Rightarrow> HasRunningMultiGPUPod pods)"

definition eligibleNode :: "PlanConfig \<Rightarrow> KNode \<Rightarrow> bool" where
  "eligibleNode cfg n \<longleftrightarrow>
     \<not> kn_unschedulable n \<and> map_get (kn_labels n) (pc_reservedLabel cfg) \<noteq> ''true'' \<and> pc_selector cfg (kn_labels n)"

definition eligibleNames :: "PlanConfig \<Rightarrow> KNode list \<Rightarrow> string list" where
  "eligibleNames cfg nodes = go_sort (<) (map kn_name (filter (eligibleNode cfg) nodes))"

definition nodeObjs :: "KNode list \<Rightarrow> string \<Rightarrow> KNode option" where
  "nodeObjs nodes = fold (\<lambda>n m. m(kn_name n \<mapsto> n)) nodes Map.empty"

definition nodesByName :: "PlanConfig \<Rightarrow> KNode list \<Rightarrow> strmap" where
  "nodesByName cfg nodes =
     fold (\<lambda>n m. m(kn_name n \<mapsto> CurrentProfileOrDefault (map_get (kn_labels n) (pc_profileLabel cfg)))) nodes Map.empty"

definition fillHardware :: "PlanConfig \<Rightarrow> (string \<Rightarrow> KNode option) \<Rightarrow> string \<Rightarrow> hardwareMap \<Rightarrow> hardwareMap" where
  "fillHardware cfg objs nodeName hw =
     (case objs nodeName of
        None \<Rightarrow> hw
      | Some n \<Rightarrow>
          (case hw nodeName of
             None \<Rightarrow> hw(nodeName \<mapsto> nodeHardwareFromLabels n (pc_catalog cfg) (pc_gpuProductLabelKeys cfg))
           | Some nh \<Rightarrow>
               if chw_gpuCount nh \<le> 0 then hw(nodeName \<mapsto> nh\<lparr>chw_gpuCount := discoverGPUCount n\<rparr>) else hw))"

definition initAssignment :: "strmap \<Rightarrow> NodeAssignment \<Rightarrow> NodeAssignment" where
  "initAssignment current a =
     a\<lparr>na_sourceProfile := CurrentProfileOrDefault (map_get current (na_nodeName a)), na_draining := False,
       na_state := AssignmentState (na_profile a) False\<rparr>"

definition capProfileOf :: "NodeAssignment \<Rightarrow> string" where
  "capProfileOf a = (if na_draining a then profilePerformance else na_profile a)"

text \<open>The CPU part of one turn of the cap loop.\<close>

definition capCPU :: "PlanConfig \<Rightarrow> hardwareMap \<Rightarrow> NodeAssignment \<Rightarrow> NodeAssignment" where
  "capCPU cfg hw a =
     (let capProfile = capProfileOf a;
          nh = hwAt hw (na_nodeName a);
          hasGPU = (chw_gpuCount nh > 0);
          byProfile = (\<not> hasGPU \<or> co_cpuCapsOnUncappableGPUNodes (pc_capOptions cfg) \<and> agentReportsNoGPUControl nh);
          a = a\<lparr>na_capWatts := (if capProfile = profilePerformance \<or> \<not> byProfile then pc_perfCap cfg else pc_ecoCap cfg)\<rparr>
      in if \<not> byProfile then a
         else if pc_cpuWriteAbsolute cfg
         then (let a = a\<lparr>na_cpuCapPctOfMax := None\<rparr>
               in case hw (na_nodeName a) of
                    None \<Rightarrow> a
                  | Some nh \<Rightarrow>
                      (case computeAbsoluteCPUCap capProfile nh (pc_catalog cfg) (pc_perfCap cfg) (pc_ecoCap cfg) of
                         Some absW \<Rightarrow> a\<lparr>na_capWatts := absW\<rparr>
                       | None \<Rightarrow> a))
         else a\<lparr>na_cpuCapPctOfMax :=
                  Some (if capProfile = profilePerformance then pc_cpuPerfCapPct cfg else pc_cpuEcoCapPct cfg)\<rparr>)"

definition capNode :: "PlanConfig \<Rightarrow> Cluster \<Rightarrow> (string \<Rightarrow> KNode option) \<Rightarrow> hardwareMap \<Rightarrow> NodeAssignment \<Rightarrow> NodeAssignment" where
  "capNode cfg cl objs hw a =
     (let capProfile = capProfileOf a;
          nh = hwAt hw (na_nodeName a);
          hasGPU = (chw_gpuCount nh > 0);
          a = capCPU cfg hw a;
          a = (case objs (na_nodeName a) of
                 Some n \<Rightarrow>
                   a\<lparr>na_gpu := computeGPUIntentForNodeWithHardware n capProfile (pc_gpuPerfCapPct cfg) (pc_gpuEcoCapPct cfg)
                        (pc_gpuWriteAbsolute cfg) (pc_gpuModelCaps cfg) (pc_gpuProductLabelKeys cfg) nh (pc_catalog cfg)\<rparr>
               | None \<Rightarrow> a);
          gpuProduct = (case objs (na_nodeName a) of
                          Some n \<Rightarrow> resolveGPUProduct (kn_labels n) (pc_gpuProductLabelKeys cfg) | None \<Rightarrow> []);
          govs = governorIntents (pc_governor cfg) capProfile hasGPU nh gpuProduct (runningMultiGPUPodOnNode cl (na_nodeName a))
      in a\<lparr>na_cpuGovernor := fst govs, na_gpuGovernor := snd govs\<rparr>)"

text \<open>
  The reconcile up to its writes: the plan, the hardware it used and the node objects, or the
  error that ends it. An empty list of eligible nodes ends it with an empty plan.
\<close>

definition planReconcile ::
  "PlanConfig \<Rightarrow> Cluster \<Rightarrow> int \<Rightarrow> goerr + NodeAssignment list \<times> hardwareMap \<times> (string \<Rightarrow> KNode option)" where
  "planReconcile cfg cl now =
     (case cl_nodes cl of
        Inl e \<Rightarrow> Inl (''list nodes: '' @ e)
      | Inr nodes \<Rightarrow>
          (let eligible = eligibleNames cfg nodes; objs = nodeObjs nodes; current = nodesByName cfg nodes
           in if eligible = [] then Inr ([], Map.empty, objs)
              else case listNodeHardware (cl_nodeHardware cl) (pc_catalog cfg) of
                     Inl e \<Rightarrow> Inl (''list node hardware: '' @ e)
                   | Inr listed \<Rightarrow>
                       (let hw = fold (fillHardware cfg objs) eligible listed;
                            plan = map (initAssignment current) (buildPlanByPolicy cfg cl eligible hw current now);
                            plan = ApplyDowngradeGuards (RunningPerformanceSensitivePodCount (cl_podsOn cl)) plan
                        in Inr (map (capNode cfg cl objs hw) plan, hw, objs))))"

section \<open>Lemmas: plans\<close>

text \<open>What a policy leaves of an assignment: a known profile and no percent cap.\<close>

definition planned :: "NodeAssignment \<Rightarrow> bool" where
  "planned a \<longleftrightarrow> na_profile a \<in> {profilePerformance, profileEco} \<and> na_cpuCapPctOfMax a = None"

lemma planned_update: "planned a \<Longrightarrow> p \<in> {profilePerformance, profileEco} \<Longrightarrow> planned (a\<lparr>na_profile := p, na_capWatts := c\<rparr>)"
  by (simp add: planned_def)

lemma planWith_shape:
  "map na_nodeName (planWith nodes perf pc ec mb) = nodes" "\<forall>a \<in> set (planWith nodes perf pc ec mb). planned a"
  by (auto simp: planWith_def mkAssignment_def planned_def intro: map_idI)

lemma swap_shape:
  "map na_nodeName (map (swapAssignment ph pc ec) (enumerate k nodes)) = nodes"
  "\<forall>a \<in> set (map (swapAssignment ph pc ec) (enumerate k nodes)). planned a"
  by (induction nodes arbitrary: k) (auto simp: swapAssignment_def mkAssignment_def planned_def split: prod.splits)

lemma BuildRuleSwapPlanAt_shape:
  "map na_nodeName (BuildRuleSwapPlanAt nodes i pc ec now) = nodes \<and> (\<forall>a \<in> set (BuildRuleSwapPlanAt nodes i pc ec now). planned a)"
proof -
  define plan where "plan = map (swapAssignment (swapPhase i now) pc ec) (enumerate 0 nodes)"
  have names: "map na_nodeName plan = nodes" and ok: "\<forall>a \<in> set plan. planned a" unfolding plan_def by (rule swap_shape)+
  show ?thesis
  proof (cases "\<exists>b. plan = [b]")
    case True
    then obtain b where b: "plan = [b]" ..
    then have "\<exists>p \<in> {profilePerformance, profileEco}. \<exists>c. BuildRuleSwapPlanAt nodes i pc ec now = [b\<lparr>na_profile := p, na_capWatts := c\<rparr>]"
      by (simp add: BuildRuleSwapPlanAt_def Let_def flip: plan_def) blast
    moreover have "planned b" using ok b by simp
    ultimately show ?thesis using names b planned_update by fastforce
  next
    case False
    then have "BuildRuleSwapPlanAt nodes i pc ec now = plan"
      by (simp add: BuildRuleSwapPlanAt_def Let_def flip: plan_def split: list.split)
    then show ?thesis using names ok by simp
  qed
qed

text \<open>Whatever the policy, the plan has one assignment per node, in order.\<close>

lemma buildPlanByPolicy_shape:
  assumes "nodes \<noteq> []"
  shows "map na_nodeName (buildPlanByPolicy cfg cl nodes hw cur now) = nodes \<and>
    (\<forall>a \<in> set (buildPlanByPolicy cfg cl nodes hw cur now). planned a)"
  using assms
  by (simp add: buildPlanByPolicy_def BuildStaticPlan_def BuildQueueAwarePlan_def Let_def planWith_shape BuildRuleSwapPlanAt_shape
      split: sum.split)

text \<open>The cap step changes caps and governors only.\<close>

lemma capCPU_frame [simp]:
  "na_nodeName (capCPU cfg hw a) = na_nodeName a" "na_profile (capCPU cfg hw a) = na_profile a"
  "na_draining (capCPU cfg hw a) = na_draining a" "na_state (capCPU cfg hw a) = na_state a"
  "na_gpu (capCPU cfg hw a) = na_gpu a"
  by (simp_all add: capCPU_def Let_def split: option.split)

lemma capNode_frame [simp]:
  "na_nodeName (capNode cfg cl objs hw a) = na_nodeName a" "na_profile (capNode cfg cl objs hw a) = na_profile a"
  "na_draining (capNode cfg cl objs hw a) = na_draining a" "na_state (capNode cfg cl objs hw a) = na_state a"
  "na_capWatts (capNode cfg cl objs hw a) = na_capWatts (capCPU cfg hw a)"
  "na_cpuCapPctOfMax (capNode cfg cl objs hw a) = na_cpuCapPctOfMax (capCPU cfg hw a)"
  by (simp_all add: capNode_def Let_def split: option.split)

lemma capProfileOf_capNode [simp]: "capProfileOf (capNode cfg cl objs hw a) = capProfileOf a"
  by (simp add: capProfileOf_def)

lemma capNode_governors:
  "na_cpuGovernor (capNode cfg cl objs hw a) =
     cpuGovernorIntent (pc_governor cfg) (capProfileOf a) (chw_gpuCount (hwAt hw (na_nodeName a)) > 0) (hwAt hw (na_nodeName a))"
  "na_gpuGovernor (capNode cfg cl objs hw a) =
     gpuGovernorIntent (pc_governor cfg) (capProfileOf a) (chw_gpuCount (hwAt hw (na_nodeName a)) > 0) (hwAt hw (na_nodeName a))
       (case objs (na_nodeName a) of Some n \<Rightarrow> resolveGPUProduct (kn_labels n) (pc_gpuProductLabelKeys cfg) | None \<Rightarrow> [])
       (runningMultiGPUPodOnNode cl (na_nodeName a))"
  by (simp_all add: capNode_def governorIntents_def Let_def split: option.split)

lemma capNode_gpu:
  "na_gpu (capNode cfg cl objs hw a) =
     (case objs (na_nodeName a) of
        Some n \<Rightarrow> computeGPUIntentForNodeWithHardware n (capProfileOf a) (pc_gpuPerfCapPct cfg) (pc_gpuEcoCapPct cfg)
                    (pc_gpuWriteAbsolute cfg) (pc_gpuModelCaps cfg) (pc_gpuProductLabelKeys cfg) (hwAt hw (na_nodeName a)) (pc_catalog cfg)
      | None \<Rightarrow> na_gpu a)"
  by (simp add: capNode_def Let_def split: option.split)

lemma gpuIntent_pct:
  "computeGPUIntentForNodeWithHardware n profile pp ep wa caps keys nh cat = Some g \<Longrightarrow>
     gci_capPctOfMax g = Some (if profile = profilePerformance then pp else ep)"
  by (auto simp: computeGPUIntentForNodeWithHardware_def Let_def split: if_splits option.splits)

text \<open>The CPU caps a node gets, by the profile it runs at.\<close>

lemma capCPU_caps:
  assumes "na_cpuCapPctOfMax a = None" and "prof = capProfileOf a" and "nh = hwAt hw (na_nodeName a)"
  shows "na_cpuCapPctOfMax (capCPU cfg hw a) \<in> {None, Some (if prof = profilePerformance then pc_cpuPerfCapPct cfg else pc_cpuEcoCapPct cfg)} \<and>
    (na_capWatts (capCPU cfg hw a) = pc_perfCap cfg \<and> (prof = profilePerformance \<or> chw_gpuCount nh > 0) \<or>
     na_capWatts (capCPU cfg hw a) = pc_ecoCap cfg \<and> prof \<noteq> profilePerformance \<or>
     computeAbsoluteCPUCap prof nh (pc_catalog cfg) (pc_perfCap cfg) (pc_ecoCap cfg) = Some (na_capWatts (capCPU cfg hw a)))"
  using assms by (auto simp: capCPU_def Let_def hwAt_def split: option.splits)

text \<open>Node objects by name; in the API names are unique.\<close>

lemma nodeObjs_Some: "nodeObjs nodes n = Some k \<Longrightarrow> k \<in> set nodes \<and> kn_name k = n"
proof (induction nodes rule: rev_induct)
  case Nil
  then show ?case by (simp add: nodeObjs_def)
next
  case (snoc x xs)
  then show ?case by (auto simp: nodeObjs_def split: if_splits)
qed

text \<open>A successful reconcile plans from one base plan of the policy.\<close>

lemma planReconcile_base:
  assumes "planReconcile cfg cl now = Inr (plan, hw, objs)" and "cl_nodes cl = Inr nodes"
  obtains base where "plan = map (\<lambda>b. capNode cfg cl objs hw (guardOne (RunningPerformanceSensitivePodCount (cl_podsOn cl))
      (initAssignment (nodesByName cfg nodes) b))) base"
    "map na_nodeName base = eligibleNames cfg nodes" "\<forall>b \<in> set base. planned b" "objs = nodeObjs nodes"
proof (cases "eligibleNames cfg nodes = []")
  case True
  then have "plan = []" "objs = nodeObjs nodes" using assms by (simp_all add: planReconcile_def)
  then show thesis using that [of "[]"] True by simp
next
  case False
  let ?base = "buildPlanByPolicy cfg cl (eligibleNames cfg nodes) hw (nodesByName cfg nodes) now"
  obtain listed where "listNodeHardware (cl_nodeHardware cl) (pc_catalog cfg) = Inr listed"
    using assms False by (cases "listNodeHardware (cl_nodeHardware cl) (pc_catalog cfg)") (simp_all add: planReconcile_def)
  then have "plan = map (capNode cfg cl objs hw) (ApplyDowngradeGuards (RunningPerformanceSensitivePodCount (cl_podsOn cl))
      (map (initAssignment (nodesByName cfg nodes)) ?base))" and "objs = nodeObjs nodes"
    using assms False by (auto simp: planReconcile_def Let_def)
  then show thesis
    using that [of ?base] buildPlanByPolicy_shape [OF False] by (simp add: ApplyDowngradeGuards_def comp_def)
qed

lemma planReconcile_is:
  assumes "planReconcile cfg cl now = Inr (plan, hw, objs)" and "cl_nodes cl = Inr nodes" and "eligibleNames cfg nodes \<noteq> []"
  shows "plan = map (\<lambda>b. capNode cfg cl objs hw (guardOne (RunningPerformanceSensitivePodCount (cl_podsOn cl))
    (initAssignment (nodesByName cfg nodes) b))) (buildPlanByPolicy cfg cl (eligibleNames cfg nodes) hw (nodesByName cfg nodes) now)"
  using assms by (auto simp: planReconcile_def ApplyDowngradeGuards_def Let_def split: sum.splits)

lemma planReconcile_names:
  assumes "planReconcile cfg cl now = Inr (plan, hw, objs)" and "cl_nodes cl = Inr nodes"
  shows "map na_nodeName plan = eligibleNames cfg nodes"
  using assms by (rule planReconcile_base) (simp add: comp_def initAssignment_def)

lemma nodeObjs_None: "nodeObjs nodes n = None \<longleftrightarrow> n \<notin> kn_name ` set nodes"
  by (induction nodes rule: rev_induct) (auto simp: nodeObjs_def)

section \<open>Properties\<close>

lemma guard_draining:
  "planned b \<Longrightarrow> cl_podsOn cl (na_nodeName b) = Inr pods \<Longrightarrow> \<exists>p \<in> set pods. runsPerformance p \<Longrightarrow>
     capProfileOf (guardOne (RunningPerformanceSensitivePodCount (cl_podsOn cl)) (initAssignment cur b)) = profilePerformance"
  using CountPerformanceSensitivePods_nonneg [of pods] count_zero_iff [of pods]
  by (auto simp: planned_def guardOne_def initAssignment_def setLabels_def ComputeDesiredLabels_def CurrentProfileOrDefault_def
      RunningPerformanceSensitivePodCount_def capProfileOf_def)

lemma guardOne_capPct [simp]: "na_cpuCapPctOfMax (guardOne ops a) = na_cpuCapPctOfMax a"
  by (auto simp: guardOne_def setLabels_def split: sum.splits)

text \<open>What the guard makes of a planned node: the profile of the plan, and draining for an eco node with running performance
  pods; a node whose pods cannot be listed does not drain.\<close>

definition performancePodsRun :: "Cluster \<Rightarrow> string \<Rightarrow> bool" where
  "performancePodsRun cl n \<longleftrightarrow> (case cl_podsOn cl n of Inl _ \<Rightarrow> False | Inr pods \<Rightarrow> (\<exists>p \<in> set pods. runsPerformance p))"

lemma guard_labels:
  assumes "planned b" and "g = guardOne (RunningPerformanceSensitivePodCount (cl_podsOn cl)) (initAssignment cur b)"
  shows "na_profile g = na_profile b \<and> na_draining g = (na_profile b = profileEco \<and> performancePodsRun cl (na_nodeName b)) \<and>
    na_state g = AssignmentState (na_profile b) (na_draining g)"
  using assms CountPerformanceSensitivePods_nonneg count_zero_iff
  by (auto simp: planned_def guardOne_def initAssignment_def setLabels_def ComputeDesiredLabels_def CurrentProfileOrDefault_def
      RunningPerformanceSensitivePodCount_def performancePodsRun_def less_le split: sum.splits)

text \<open>C16: A successful reconcile plans every eligible node exactly once, in name order, each with the profile the policy
  gave it, performance or eco, which is the label it writes. A node drains exactly when it is planned for eco while the
  cache lists a running pod on it that needs performance, and its state says so; a node planned for performance never drains.
  And performance is never taken from a running performance pod: on a node where the cache lists one, the CPU gets the
  performance cap (the configured watts, those resolved for the performance profile, or the performance percentage), a GPU
  cap is the performance percentage, and a CPU governor is the performance preset with boost left alone, whatever the policy
  planned.\<close>

theorem planReconcile_safe:
  assumes "planReconcile cfg cl now = Inr (plan, hw, objs)" and "cl_nodes cl = Inr nodes" and "distinct (map kn_name nodes)"
  shows "map na_nodeName plan = eligibleNames cfg nodes \<and> distinct (map na_nodeName plan) \<and>
    (eligibleNames cfg nodes \<noteq> [] \<longrightarrow> map na_profile plan =
       map na_profile (buildPlanByPolicy cfg cl (eligibleNames cfg nodes) hw (nodesByName cfg nodes) now)) \<and>
    (\<forall>a \<in> set plan. na_profile a \<in> {profilePerformance, profileEco} \<and>
       na_draining a = (na_profile a = profileEco \<and> performancePodsRun cl (na_nodeName a)) \<and>
       na_state a = AssignmentState (na_profile a) (na_draining a)) \<and>
    (\<forall>a \<in> set plan. \<forall>pods. cl_podsOn cl (na_nodeName a) = Inr pods \<and> (\<exists>p \<in> set pods. runsPerformance p) \<longrightarrow>
       na_cpuCapPctOfMax a \<in> {None, Some (pc_cpuPerfCapPct cfg)} \<and>
       (na_capWatts a = pc_perfCap cfg \<or>
        computeAbsoluteCPUCap profilePerformance (hwAt hw (na_nodeName a)) (pc_catalog cfg) (pc_perfCap cfg) (pc_ecoCap cfg)
          = Some (na_capWatts a)) \<and>
       (\<forall>g. na_gpu a = Some g \<longrightarrow> gci_capPctOfMax g = Some (pc_gpuPerfCapPct cfg)) \<and>
       (\<forall>g. na_cpuGovernor a = Some g \<longrightarrow> cgi_preset g = gc_cpuPerformancePreset (pc_governor cfg) \<and> cgi_boost g = []))"
proof -
  have names: "map na_nodeName plan = eligibleNames cfg nodes" using assms(1,2) by (rule planReconcile_names)
  have "distinct (map kn_name (filter (eligibleNode cfg) nodes))" using assms(3) by (simp add: distinct_map_filter)
  then have dis: "distinct (map na_nodeName plan)" unfolding names eligibleNames_def by simp
  obtain base where plan: "plan = map (\<lambda>b. capNode cfg cl objs hw (guardOne (RunningPerformanceSensitivePodCount (cl_podsOn cl))
      (initAssignment (nodesByName cfg nodes) b))) base" and ok: "\<forall>b \<in> set base. planned b"
      and objs: "map na_nodeName base = eligibleNames cfg nodes" "objs = nodeObjs nodes"
    using assms(1,2) by (rule planReconcile_base)
  have profiles: "map na_profile plan = map na_profile (buildPlanByPolicy cfg cl (eligibleNames cfg nodes) hw (nodesByName cfg nodes) now)"
    if some: "eligibleNames cfg nodes \<noteq> []"
    unfolding planReconcile_is [OF assms(1,2) some] using buildPlanByPolicy_shape [OF some] guard_labels [OF _ refl]
    by (auto simp: comp_def intro!: map_cong)
  have labels: "na_profile a \<in> {profilePerformance, profileEco} \<and>
       na_draining a = (na_profile a = profileEco \<and> performancePodsRun cl (na_nodeName a)) \<and>
       na_state a = AssignmentState (na_profile a) (na_draining a)" if a: "a \<in> set plan" for a
  proof -
    obtain b where b: "b \<in> set base" "a = capNode cfg cl objs hw (guardOne (RunningPerformanceSensitivePodCount (cl_podsOn cl))
        (initAssignment (nodesByName cfg nodes) b))" using a plan by auto
    then show ?thesis using guard_labels [OF bspec [OF ok b(1)] refl, of cl "nodesByName cfg nodes"] ok
      by (simp add: planned_def initAssignment_def)
  qed
  have "na_cpuCapPctOfMax a \<in> {None, Some (pc_cpuPerfCapPct cfg)} \<and>
       (na_capWatts a = pc_perfCap cfg \<or>
        computeAbsoluteCPUCap profilePerformance (hwAt hw (na_nodeName a)) (pc_catalog cfg) (pc_perfCap cfg) (pc_ecoCap cfg)
          = Some (na_capWatts a)) \<and>
       (\<forall>g. na_gpu a = Some g \<longrightarrow> gci_capPctOfMax g = Some (pc_gpuPerfCapPct cfg)) \<and>
       (\<forall>g. na_cpuGovernor a = Some g \<longrightarrow> cgi_preset g = gc_cpuPerformancePreset (pc_governor cfg) \<and> cgi_boost g = [])"
    if a: "a \<in> set plan" and pods: "cl_podsOn cl (na_nodeName a) = Inr pods" "\<exists>p \<in> set pods. runsPerformance p" for a pods
  proof -
    obtain b where b: "b \<in> set base" "a = capNode cfg cl objs hw (guardOne (RunningPerformanceSensitivePodCount (cl_podsOn cl))
        (initAssignment (nodesByName cfg nodes) b))" (is "a = capNode cfg cl objs hw ?g") using a plan by auto
    have nm: "na_nodeName ?g = na_nodeName a" "na_nodeName b = na_nodeName a" unfolding b(2) by (simp_all add: initAssignment_def)
    have prof: "capProfileOf ?g = profilePerformance" using guard_draining ok b(1) pods nm(2) by metis
    have none: "na_cpuCapPctOfMax ?g = None" using ok b(1) by (simp add: planned_def initAssignment_def)
    note caps = capCPU_caps [OF none prof [symmetric] refl, of cfg hw, unfolded nm]
    have gpu: "\<forall>g. na_gpu a = Some g \<longrightarrow> gci_capPctOfMax g = Some (pc_gpuPerfCapPct cfg)"
    proof -
      have "na_nodeName a \<in> set (eligibleNames cfg nodes)" using a unfolding names [symmetric] by simp
      then obtain n where "objs (na_nodeName a) = Some n"
        using nodeObjs_None [of nodes "na_nodeName a"] unfolding objs(2) eligibleNames_def by fastforce
      then show ?thesis unfolding b(2) capNode_gpu prof using nm(1) b(2) gpuIntent_pct by fastforce
    qed
    have gov: "\<forall>g. na_cpuGovernor a = Some g \<longrightarrow> cgi_preset g = gc_cpuPerformancePreset (pc_governor cfg) \<and> cgi_boost g = []"
      unfolding b(2) capNode_governors prof by (auto simp: cpuGovernorIntent_def Let_def split: if_splits)
    show ?thesis using caps gpu gov unfolding b(2) capNode_frame by simp
  qed
  then show ?thesis using names dis profiles labels by blast
qed

definition exampleNode :: "string \<Rightarrow> KNode" where
  "exampleNode n = \<lparr>kn_name = n, kn_labels = Map.empty, kn_unschedulable = False, kn_capacityCPU = None, kn_allocatable = []\<rparr>"

definition examplePlanConfig :: PlanConfig where
  "examplePlanConfig =
     \<lparr>pc_selector = (\<lambda>_. True), pc_reservedLabel = ''joulie.io/reserved'', pc_profileLabel = PowerProfileLabelKey,
      pc_interval = 60000000000, pc_perfCap = 5000, pc_ecoCap = 120, pc_policyType = ''rule_swap_v1'',
      pc_staticHPFrac = 1 / 2, pc_queueHPBaseFrac = 3 / 5, pc_queueHPMin = 1, pc_queueHPMax = 1000000,
      pc_queuePerfPerHPNode = 10, pc_cpuPerfCapPct = 100, pc_cpuEcoCapPct = 60, pc_cpuWriteAbsolute = False,
      pc_gpuPerfCapPct = 100, pc_gpuEcoCapPct = 60, pc_gpuWriteAbsolute = False, pc_gpuModelCaps = Map.empty,
      pc_gpuProductLabelKeys = [], pc_catalog = None,
      pc_capOptions = \<lparr>co_cpuCapsOnUncappableGPUNodes = False\<rparr>, pc_governor = defaultGovernorConfig\<rparr>"

definition exampleCluster :: Cluster where
  "exampleCluster =
     \<lparr>cl_nodes = Inr [exampleNode ''b'', exampleNode ''a''], cl_pods = Inr [examplePerfPod],
      cl_podsOn = (\<lambda>n. Inr (if n = ''a'' then [examplePerfPod] else [])), cl_nodeHardware = Inl NotFoundErr\<rparr>"

lemma example_eligible: "eligibleNames examplePlanConfig [exampleNode ''b'', exampleNode ''a''] = [''a'', ''b'']"
  by code_simp

lemma examplePerfPod_runs: "runsPerformance examplePerfPod"
  by code_simp

theorem planReconcile_safe_witness:
  "\<exists>plan hw objs a. planReconcile examplePlanConfig exampleCluster 0 = Inr (plan, hw, objs) \<and>
     map na_nodeName plan = [''a'', ''b''] \<and> a \<in> set plan \<and> na_nodeName a = ''a'' \<and> na_cpuCapPctOfMax a \<in> {None, Some 100} \<and>
     na_draining a = (na_profile a = ''eco'') \<and> na_state a = AssignmentState (na_profile a) (na_draining a)"
proof -
  have nodes: "cl_nodes exampleCluster = Inr [exampleNode ''b'', exampleNode ''a'']" by (simp add: exampleCluster_def)
  have "\<exists>plan hw objs. planReconcile examplePlanConfig exampleCluster 0 = Inr (plan, hw, objs)"
    unfolding planReconcile_def nodes by (simp add: listNodeHardware_def exampleCluster_def Let_def)
  then obtain plan hw objs where R: "planReconcile examplePlanConfig exampleCluster 0 = Inr (plan, hw, objs)" by blast
  have dis: "distinct (map kn_name [exampleNode ''b'', exampleNode ''a''])" by (simp add: exampleNode_def)
  note S = planReconcile_safe [OF R nodes dis, unfolded example_eligible]
  have "''a'' \<in> set (map na_nodeName plan)" using S by simp
  then obtain a where a: "a \<in> set plan" "na_nodeName a = ''a''" by auto
  have "cl_podsOn exampleCluster (na_nodeName a) = Inr [examplePerfPod]" by (simp add: exampleCluster_def a(2))
  then have "na_cpuCapPctOfMax a \<in> {None, Some (pc_cpuPerfCapPct examplePlanConfig)}" using S a(1) examplePerfPod_runs by fastforce
  moreover have "performancePodsRun exampleCluster (na_nodeName a)"
    using examplePerfPod_runs by (simp add: performancePodsRun_def exampleCluster_def a(2))
  ultimately show ?thesis using R S a by (auto simp: examplePlanConfig_def)
qed

section \<open>Governor intents\<close>

definition validModelPresets :: "gpuGovernorModelPresets \<Rightarrow> bool" where
  "validModelPresets m \<longleftrightarrow>
     (\<forall>p. gmp_performance m = Some p \<or> gmp_eco m = Some p \<longrightarrow> p \<in> set gpuGovernorPresetChoices) \<and>
     (\<forall>p. gmp_ecoCeilingPctOfMax m = Some p \<longrightarrow> validCeilingPct p)"

definition validGovernorConfig :: "governorConfig \<Rightarrow> bool" where
  "validGovernorConfig c \<longleftrightarrow>
     gc_control c \<in> set [governorControlOff, governorControlCPU, governorControlGPU, governorControlAll] \<and>
     gc_cpuPerformancePreset c \<in> set CPUGovernorPresetValues \<and> gc_cpuEcoPreset c \<in> set CPUGovernorPresetValues \<and>
     (gc_cpuEcoBoost c = [] \<or> gc_cpuEcoBoost c \<in> set CPUGovernorBoostValues) \<and>
     gc_gpuPerformancePreset c \<in> set gpuGovernorPresetChoices \<and> gc_gpuEcoPreset c \<in> set gpuGovernorPresetChoices \<and>
     validCeilingPct (gc_gpuCeilingPctOfMax c) \<and> (\<forall>k m. gc_gpuModelPresets c k = Some m \<longrightarrow> validModelPresets m)"

lemma checkGovernorPreset_in: "def \<in> set accepted \<Longrightarrow> checkGovernorPreset v def accepted \<in> set accepted"
  by (simp add: checkGovernorPreset_def Let_def)

lemma checkModelPresets_valid: "validModelPresets (checkModelPresets m)"
  by (auto simp: validModelPresets_def checkModelPresets_def checkModelPreset_def Let_def split: option.splits if_splits)

lemma ceilingFromEnv_valid: "validCeilingPct def \<Longrightarrow> validCeilingPct (ceilingFromEnv pf env def)"
  by (simp add: ceilingFromEnv_def Let_def split: option.split)

lemma parsePresets_valid: "parseGPUGovernorModelPresets um raw k = Some m \<Longrightarrow> validModelPresets m"
  by (auto simp: parseGPUGovernorModelPresets_def Let_def checkModelPresets_valid split: if_splits option.splits)

lemma defaults_valid:
  "CPUGovernorPresetPerformance \<in> set CPUGovernorPresetValues" "CPUGovernorPresetEfficiency \<in> set CPUGovernorPresetValues"
  "[] \<in> set gpuGovernorPresetChoices" "GPUGovernorPresetEfficient \<in> set gpuGovernorPresetChoices"
  "validCeilingPct DefaultCeilingPctOfMax"
  by (simp_all add: CPUGovernorPresetValues_def gpuGovernorPresetChoices_def GPUGovernorPresetValues_def validCeilingPct_def
      DefaultCeilingPctOfMax_def)

lemma loadGovernorConfig_valid: "validGovernorConfig (loadGovernorConfig pf um env)"
  unfolding validGovernorConfig_def loadGovernorConfig_def Let_def governorConfig.simps defaultGovernorConfig_def
proof (intro conjI allI impI)
  show "(case env ''GPU_GOVERNOR_PERFORMANCE_PRESET'' of None \<Rightarrow> []
     | Some v \<Rightarrow> checkGovernorPreset v [] gpuGovernorPresetChoices) \<in> set gpuGovernorPresetChoices"
    by (simp add: checkGovernorPreset_in defaults_valid split: option.split)
  show "(case env ''GPU_GOVERNOR_ECO_PRESET'' of None \<Rightarrow> GPUGovernorPresetEfficient
     | Some v \<Rightarrow> checkGovernorPreset v GPUGovernorPresetEfficient gpuGovernorPresetChoices) \<in> set gpuGovernorPresetChoices"
    by (simp add: checkGovernorPreset_in defaults_valid split: option.split)
qed (simp_all add: checkGovernorPreset_in defaults_valid ceilingFromEnv_valid parsePresets_valid)

lemma modelEntry_Some: "modelEntry presets ks = Some m \<Longrightarrow> \<exists>k. presets k = Some m"
  by (induction presets ks rule: modelEntry.induct) (auto split: option.splits if_splits)

lemma gpuPresetFor_valid:
  assumes "validGovernorConfig c"
  shows "fst (gpuPresetFor c profile keys) \<in> set gpuGovernorPresetChoices \<and> validCeilingPct (snd (gpuPresetFor c profile keys))"
proof (cases "modelEntry (gc_gpuModelPresets c) keys")
  case None
  then show ?thesis using assms by (simp add: gpuPresetFor_def validGovernorConfig_def)
next
  case (Some m)
  then have "validModelPresets m" using modelEntry_Some assms unfolding validGovernorConfig_def by blast
  then show ?thesis using Some assms
    by (simp add: gpuPresetFor_def validGovernorConfig_def validModelPresets_def split: option.split)
qed

lemma cpuIntent_valid:
  "validGovernorConfig c \<Longrightarrow> cpuGovernorIntent c profile hasGPU nh = Some g \<Longrightarrow>
     cgi_preset g \<in> set CPUGovernorPresetValues \<and> (cgi_boost g = [] \<or> cgi_boost g \<in> set CPUGovernorBoostValues) \<and>
     cgi_preset g \<in> set (chw_cpuGovernorPresets nh) \<and> (cgi_boost g \<noteq> [] \<longrightarrow> chw_cpuBoostAvailable nh)"
  by (auto simp: validGovernorConfig_def cpuGovernorIntent_def Let_def split: if_splits)

lemma gpuIntent_valid:
  assumes "validGovernorConfig c" and "gpuGovernorIntent c profile hasGPU nh gpuProd multi = Some g"
  shows "ggi_preset g \<in> set GPUGovernorPresetValues \<and>
     (ggi_preset g = GPUGovernorPresetEfficient \<longrightarrow> (\<exists>pct. ggi_ceilingPctOfMax g = Some pct \<and> validCeilingPct pct)) \<and>
     (ggi_preset g \<in> set (chw_gpuGovernorPresets nh) \<or> chw_gpuGovernorGap nh)"
proof -
  obtain preset pct where P: "gpuPresetFor c profile [gpuProd, chw_gpuModel nh, chw_gpuRawModel nh] = (preset, pct)" by force
  have v: "preset \<in> set gpuGovernorPresetChoices" "validCeilingPct pct" using gpuPresetFor_valid [OF assms(1)] P by (metis fst_conv snd_conv)+
  then have "preset \<noteq> [] \<Longrightarrow> preset \<in> set GPUGovernorPresetValues" by (simp add: gpuGovernorPresetChoices_def)
  then show ?thesis using assms(2) v(2) by (auto simp: gpuGovernorIntent_def P Let_def split: if_splits)
qed

lemma ToLower_off: "ToLower governorControlOff = governorControlOff"
  by code_simp

text \<open>A governor configuration read from any environment is valid, and a value that is not one
  of the control words leaves every governor unwritten, so a typo never turns writes on. Every
  intent such a configuration gives is one the node's agent listed (or, for GPUs, one written
  through a discovery gap), and the agent's planners accept it: they return a plan, not an error.\<close>

theorem governor_intents_accepted:
  assumes "c = loadGovernorConfig parseFloat64 unmarshal env"
  shows "validGovernorConfig c \<and>
    (ToLower (TrimSpace (map_get env ''GOVERNOR_CONTROL'')) \<notin> {governorControlCPU, governorControlGPU, governorControlAll} \<longrightarrow>
       governorIntents c profile hasGPU nh gpuProd multi = (None, None)) \<and>
    (\<forall>g. fst (governorIntents c profile hasGPU nh gpuProd multi) = Some g \<longrightarrow>
       cgi_preset g \<in> set (chw_cpuGovernorPresets nh) \<and> (\<exists>p. PlanCPU cf (cgi_preset g) (cgi_boost g) = Inr p)) \<and>
    (\<forall>g. snd (governorIntents c profile hasGPU nh gpuProd multi) = Some g \<longrightarrow>
       (ggi_preset g \<in> set (chw_gpuGovernorPresets nh) \<or> chw_gpuGovernorGap nh) \<and>
       (let pct = (case ggi_ceilingPctOfMax g of Some p \<Rightarrow> p | None \<Rightarrow> DefaultCeilingPctOfMax)
        in (busID \<noteq> [] \<longrightarrow> (\<exists>p. PlanNvidia nf busID (ggi_preset g) pct = Inr p)) \<and>
           (af_busID af \<noteq> [] \<longrightarrow> (\<exists>p. PlanAMD af (ggi_preset g) pct = Inr p))))"
proof -
  have v: "validGovernorConfig c" unfolding assms by (rule loadGovernorConfig_valid)
  show ?thesis
  proof (intro conjI allI impI)
    show "validGovernorConfig c" by (rule v)
    show "governorIntents c profile hasGPU nh gpuProd multi = (None, None)"
      if "ToLower (TrimSpace (map_get env ''GOVERNOR_CONTROL'')) \<notin> {governorControlCPU, governorControlGPU, governorControlAll}"
    proof -
      have "gc_control c = governorControlOff"
        using that unfolding assms loadGovernorConfig_def
        by (auto simp: Let_def envOrDefault_def defaultGovernorConfig_def ToLower_off)
      then show ?thesis
        by (simp add: governorIntents_def cpuGovernorIntent_def gpuGovernorIntent_def cpuEnabled_def gpuEnabled_def)
    qed
  next
    fix g assume "fst (governorIntents c profile hasGPU nh gpuProd multi) = Some g"
    then have "cpuGovernorIntent c profile hasGPU nh = Some g" by (simp add: governorIntents_def)
    note ok = cpuIntent_valid [OF v this]
    show "cgi_preset g \<in> set (chw_cpuGovernorPresets nh)" using ok by simp
    show "\<exists>p. PlanCPU cf (cgi_preset g) (cgi_boost g) = Inr p" using ok by (auto simp: PlanCPU_def Let_def)
  next
    fix g assume "snd (governorIntents c profile hasGPU nh gpuProd multi) = Some g"
    then have "gpuGovernorIntent c profile hasGPU nh gpuProd multi = Some g" by (simp add: governorIntents_def)
    note ok = gpuIntent_valid [OF v this]
    show "ggi_preset g \<in> set (chw_gpuGovernorPresets nh) \<or> chw_gpuGovernorGap nh" using ok by simp
    let ?pct = "case ggi_ceilingPctOfMax g of Some p \<Rightarrow> p | None \<Rightarrow> DefaultCeilingPctOfMax"
    have "checkGPUPreset (ggi_preset g) ?pct = None" using ok by (auto simp: checkGPUPreset_def validCeilingPct_def)
    then show "let pct = ?pct in (busID \<noteq> [] \<longrightarrow> (\<exists>p. PlanNvidia nf busID (ggi_preset g) pct = Inr p)) \<and>
             (af_busID af \<noteq> [] \<longrightarrow> (\<exists>p. PlanAMD af (ggi_preset g) pct = Inr p))"
      by (simp add: Let_def PlanNvidia_def PlanAMD_def split: option.split)
  qed
qed

definition exampleEnv :: strmap where
  "exampleEnv = [''GOVERNOR_CONTROL'' \<mapsto> ''All'', ''CPU_GOVERNOR_ECO_BOOST'' \<mapsto> ''off'']"

definition exampleGovernorHardware :: NodeHardware where
  "exampleGovernorHardware = zeroHardware\<lparr>chw_cpuGovernorPresets := [''performance'', ''efficiency''], chw_cpuBoostAvailable := True\<rparr>"

lemma exampleGovernor_intent:
  "fst (governorIntents (loadGovernorConfig (\<lambda>_. None) (\<lambda>_. None) exampleEnv) profileEco False exampleGovernorHardware [] False)
     = Some \<lparr>cgi_preset = ''efficiency'', cgi_boost = ''off''\<rparr>"
  by code_simp

theorem governor_intents_accepted_witness:
  "\<exists>p. PlanCPU exampleCPUFacts ''efficiency'' ''off'' = Inr p"
proof -
  let ?c = "loadGovernorConfig (\<lambda>_. None) (\<lambda>_. None) exampleEnv"
  show ?thesis
    using governor_intents_accepted [OF refl, of "\<lambda>_. None" "\<lambda>_. None" exampleEnv profileEco False exampleGovernorHardware "[]" False
        exampleCPUFacts] exampleGovernor_intent by fastforce
qed

section \<open>Absolute caps\<close>

definition catalogCpuMaxW :: "Catalog option \<Rightarrow> NodeHardware \<Rightarrow> f64" where
  "catalogCpuMaxW catalog nh =
     (case mr_cpuSpec (MatchNode catalog (descOf (chw_cpuRawModel nh) (chw_cpuSockets nh) (chw_cpuTotalCores nh) [] 0)) of
        None \<Rightarrow> 0
      | Some spec \<Rightarrow> co_tdpW (cm_official spec) * (if chw_cpuSockets nh > 0 then real_of_int (chw_cpuSockets nh) else 1))"

lemma absoluteCPUCap_bounds:
  assumes "computeAbsoluteCPUCap p nh cat pc ec = Some w"
  shows "if chw_cpuCapKnown nh \<and> chw_cpuCapMaxWatts nh > 0
    then w \<le> chw_cpuCapMaxWatts nh \<and> (chw_cpuCapMinWatts nh \<le> chw_cpuCapMaxWatts nh \<longrightarrow> chw_cpuCapMinWatts nh \<le> w)
    else 0 < w \<and> SocketCapMinFractionOfTDP * catalogCpuMaxW cat nh \<le> w \<and> w \<le> catalogCpuMaxW cat nh"
proof (cases "chw_cpuCapKnown nh \<and> chw_cpuCapMaxWatts nh > 0")
  case True
  then show ?thesis using assms by (auto simp: computeAbsoluteCPUCap_def Let_def)
next
  case False
  have frac: "0 < SocketCapMinFractionOfTDP" "SocketCapMinFractionOfTDP \<le> 1" by (simp_all add: SocketCapMinFractionOfTDP_def)
  obtain maxW where m: "maxW = catalogCpuMaxW cat nh" "0 < maxW"
    and w: "w = (let t = (if p = profilePerformance then pc else ec); t = (if t > maxW then maxW else t)
                 in if t < maxW * SocketCapMinFractionOfTDP then maxW * SocketCapMinFractionOfTDP else t)"
    using assms False
    by (auto simp: computeAbsoluteCPUCap_def catalogCpuMaxW_def Let_def split: if_splits option.splits)
  have "maxW * SocketCapMinFractionOfTDP \<le> maxW" using mult_left_mono [OF frac(2), of maxW] m(2) by simp
  moreover have "0 < maxW * SocketCapMinFractionOfTDP" using m(2) frac(1) by simp
  ultimately show ?thesis unfolding m(1) [symmetric] using False w by (auto simp: Let_def mult.commute)
qed

lemma absoluteCPUCap_mono:
  assumes "computeAbsoluteCPUCap profileEco nh cat pc ec = Some w" "computeAbsoluteCPUCap profilePerformance nh cat pc ec = Some w'" "ec \<le> pc"
  shows "w \<le> w'"
  using assms by (auto simp: computeAbsoluteCPUCap_def Let_def split: if_splits option.splits)

text \<open>The GPU caps of both sources as one clamp into the range of the source.\<close>

definition clampW :: "f64 \<Rightarrow> f64 \<Rightarrow> f64 \<Rightarrow> f64" where
  "clampW v lo hi = (let v = (if v < lo then lo else v) in if v > hi then hi else v)"

definition gpuCapRange :: "NodeHardware \<Rightarrow> Catalog option \<Rightarrow> (f64 \<times> f64) option" where
  "gpuCapRange nh catalog =
     (if chw_gpuCapKnown nh \<and> chw_gpuCapMaxWatts nh > 0 then Some (chw_gpuCapMinWatts nh, chw_gpuCapMaxWatts nh)
      else case mr_gpuSpec (MatchNode catalog (descOf [] 0 0 (chw_gpuRawModel nh) (chw_gpuCount nh))) of
             None \<Rightarrow> None
           | Some spec \<Rightarrow>
               (let maxW = go_maxBoardPowerW (gm_official spec); minW = go_minBoardPowerW (gm_official spec)
                in if maxW \<le> 0 then None else Some (if minW \<le> 0 then maxW * (1 / 2) else minW, maxW)))"

lemma gpuCapRange_pos: "gpuCapRange nh cat = Some (lo, hi) \<Longrightarrow> 0 < hi"
  by (auto simp: gpuCapRange_def Let_def split: if_splits option.splits)

lemma clampW_bounds: "clampW v lo hi \<le> hi" "lo \<le> hi \<Longrightarrow> lo \<le> clampW v lo hi" "v \<le> v' \<Longrightarrow> clampW v lo hi \<le> clampW v' lo hi"
    "0 < v \<Longrightarrow> 0 < hi \<Longrightarrow> 0 < clampW v lo hi"
  by (simp_all add: clampW_def Let_def)

lemma inventoryGPUCap_clamp:
  assumes "pct = (if p = profilePerformance then pp else ep)"
  shows "computeInventoryGPUCap p nh cat pp ep =
    (if pct \<le> 0 then None else map_option (\<lambda>(lo, hi). clampW (pct / 100 * hi) lo hi) (gpuCapRange nh cat))"
proof (cases "chw_gpuCapKnown nh \<and> chw_gpuCapMaxWatts nh > 0")
  case True
  then have "0 < pct / 100 * chw_gpuCapMaxWatts nh" if "\<not> pct \<le> 0" using that by simp
  then have "\<not> pct \<le> 0 \<Longrightarrow> (pct / 100 * chw_gpuCapMaxWatts nh < chw_gpuCapMinWatts nh \<and> chw_gpuCapMinWatts nh > 0) =
      (pct / 100 * chw_gpuCapMaxWatts nh < chw_gpuCapMinWatts nh)" by linarith
  then show ?thesis
    using True unfolding computeInventoryGPUCap_def gpuCapRange_def Let_def assms [symmetric]
    by (cases "pct \<le> 0") (auto simp: clampW_def Let_def)
next
  case False
  have none: "mr_gpuSpec (MatchNode None d) = None" for d by (simp add: MatchNode_def)
  show ?thesis
    using False unfolding computeInventoryGPUCap_def gpuCapRange_def Let_def assms [symmetric]
    by (auto simp: clampW_def Let_def none split: option.split)
qed

text \<open>The absolute caps are safe for the hardware: a CPU cap lies in the range the agent
  reported, or between the floor fraction and the whole of the catalog's TDP over all sockets; a
  GPU cap is positive and lies in the range of its source; and the eco cap is never above the
  performance cap when the configured ones are ordered.\<close>

theorem absolute_caps_in_range:
  assumes "ec \<le> pc" and "ep \<le> pp"
  shows "(\<forall>p w. computeAbsoluteCPUCap p nh cat pc ec = Some w \<longrightarrow>
      (if chw_cpuCapKnown nh \<and> chw_cpuCapMaxWatts nh > 0
       then w \<le> chw_cpuCapMaxWatts nh \<and> (chw_cpuCapMinWatts nh \<le> chw_cpuCapMaxWatts nh \<longrightarrow> chw_cpuCapMinWatts nh \<le> w)
       else 0 < w \<and> SocketCapMinFractionOfTDP * catalogCpuMaxW cat nh \<le> w \<and> w \<le> catalogCpuMaxW cat nh)) \<and>
    (\<forall>p w. computeInventoryGPUCap p nh cat pp ep = Some w \<longrightarrow>
      (\<exists>lo hi. gpuCapRange nh cat = Some (lo, hi) \<and> 0 < w \<and> w \<le> hi \<and> (lo \<le> hi \<longrightarrow> lo \<le> w))) \<and>
    (\<forall>w w'. computeAbsoluteCPUCap profileEco nh cat pc ec = Some w \<and> computeAbsoluteCPUCap profilePerformance nh cat pc ec = Some w' \<longrightarrow> w \<le> w') \<and>
    (\<forall>w w'. computeInventoryGPUCap profileEco nh cat pp ep = Some w \<and> computeInventoryGPUCap profilePerformance nh cat pp ep = Some w' \<longrightarrow> w \<le> w')"
proof (intro conjI allI impI)
  fix p w assume "computeAbsoluteCPUCap p nh cat pc ec = Some w"
  then show "if chw_cpuCapKnown nh \<and> chw_cpuCapMaxWatts nh > 0
       then w \<le> chw_cpuCapMaxWatts nh \<and> (chw_cpuCapMinWatts nh \<le> chw_cpuCapMaxWatts nh \<longrightarrow> chw_cpuCapMinWatts nh \<le> w)
       else 0 < w \<and> SocketCapMinFractionOfTDP * catalogCpuMaxW cat nh \<le> w \<and> w \<le> catalogCpuMaxW cat nh"
    by (rule absoluteCPUCap_bounds)
next
  fix p w assume "computeInventoryGPUCap p nh cat pp ep = Some w"
  then show "\<exists>lo hi. gpuCapRange nh cat = Some (lo, hi) \<and> 0 < w \<and> w \<le> hi \<and> (lo \<le> hi \<longrightarrow> lo \<le> w)"
    using gpuCapRange_pos clampW_bounds by (fastforce simp: inventoryGPUCap_clamp [OF refl] split: if_splits)
next
  fix w w'
  assume "computeAbsoluteCPUCap profileEco nh cat pc ec = Some w \<and> computeAbsoluteCPUCap profilePerformance nh cat pc ec = Some w'"
  then show "w \<le> w'" using absoluteCPUCap_mono assms(1) by blast
next
  fix w w'
  assume "computeInventoryGPUCap profileEco nh cat pp ep = Some w \<and> computeInventoryGPUCap profilePerformance nh cat pp ep = Some w'"
  then obtain lo hi where "gpuCapRange nh cat = Some (lo, hi)" "w = clampW (ep / 100 * hi) lo hi" "w' = clampW (pp / 100 * hi) lo hi"
    by (auto simp: inventoryGPUCap_clamp [OF refl] split: if_splits)
  then show "w \<le> w'" using gpuCapRange_pos assms(2) by (auto intro!: clampW_bounds(3) mult_right_mono)
qed

theorem absolute_caps_in_range_witness:
  "computeAbsoluteCPUCap profileEco (zeroHardware\<lparr>chw_cpuCapKnown := True, chw_cpuCapMinWatts := 150, chw_cpuCapMaxWatts := 300\<rparr>) None 5000 120 = Some 150 \<and>
   (150::real) \<le> 300"
proof -
  let ?nh = "zeroHardware\<lparr>chw_cpuCapKnown := True, chw_cpuCapMinWatts := 150, chw_cpuCapMaxWatts := 300\<rparr>"
  have eco: "computeAbsoluteCPUCap profileEco ?nh None 5000 120 = Some 150"
    and perf: "computeAbsoluteCPUCap profilePerformance ?nh None 5000 120 = Some 300"
    by (simp_all add: computeAbsoluteCPUCap_def zeroHardware_def)
  show ?thesis using absolute_caps_in_range [of 120 5000 60 100 ?nh None] eco perf by fastforce
qed

end
