(* ===== verification/Controller_Twin.thy ===== *)
theory Controller_Twin
  imports Controller_Plan Digital_Twin
begin

text \<open>
  The publishing half of the controller manager: \<^verbatim>\<open>cmd/controller-manager/twinstate.go\<close>, the
  hardware view of \<^verbatim>\<open>reader.go\<close>, the choice of the power source of \<^verbatim>\<open>nodepower.go\<close>, and the
  second half of the reconcile of \<^verbatim>\<open>main.go\<close>, which writes the NodeTwin spec, the node label and
  the NodeTwin status of every planned node. The API server is the record \<open>TwinStore\<close>: the
  objects by name, and for every verb and object the error it answers with, if any, and what other
  clients do to the object before the verb arrives. Status
  conditions are merged by the API library and only the condition's status and reason are
  modelled; the messages, log lines and metrics are left out.
\<close>

section \<open>Facility and topology\<close>

text \<open>The readings the twin uses; a reading with its known flag is an option (a poll that fails
  leaves the value 0 beside a false flag).\<close>

record facilitySnapshot =
  fs_ambientC :: "f64 option"
  fs_itPowerW :: f64
  fs_zoneAmbientC :: "string \<Rightarrow> f64 option"
  fs_rackPowerW :: "string \<Rightarrow> f64 option"
  fs_nodeInletC :: "string \<Rightarrow> f64 option"

record nodeTopology =
  tpo_rack :: string
  tpo_coolingZone :: string
  tpo_rackTotalPowerW :: f64
  tpo_zoneAmbientC :: "f64 option"
  tpo_inletC :: "f64 option"

definition nodeTopologyFor :: "string \<Rightarrow> string \<Rightarrow> string \<Rightarrow> (string \<Rightarrow> f64) \<Rightarrow> facilitySnapshot \<Rightarrow> nodeTopology option" where
  "nodeTopologyFor nodeName rack zone rackPowerEstimates facility =
     (let rackW = (if rack = [] then 0
                   else case fs_rackPowerW facility rack of Some w \<Rightarrow> w | None \<Rightarrow> rackPowerEstimates rack);
          zoneC = (if zone = [] then None else fs_zoneAmbientC facility zone);
          inletC = fs_nodeInletC facility nodeName
      in if rack = [] \<and> zone = [] \<and> inletC = None then None
         else Some \<lparr>tpo_rack = rack, tpo_coolingZone = zone, tpo_rackTotalPowerW = rackW,
                    tpo_zoneAmbientC = zoneC, tpo_inletC = inletC\<rparr>)"

text \<open>The ambient temperature of a twin: the node's inlet, its cooling zone's, the outdoor one.\<close>

definition ambientFor :: "facilitySnapshot \<Rightarrow> nodeTopology option \<Rightarrow> f64 option" where
  "ambientFor facility topo =
     (case topo of
        None \<Rightarrow> fs_ambientC facility
      | Some t \<Rightarrow>
          (case tpo_inletC t of
             Some c \<Rightarrow> Some c
           | None \<Rightarrow> (case tpo_zoneAmbientC t of Some c \<Rightarrow> Some c | None \<Rightarrow> fs_ambientC facility)))"

definition cpuPctOf :: "NodeAssignment \<Rightarrow> f64" where
  "cpuPctOf a = (case na_cpuCapPctOfMax a of Some p \<Rightarrow> p | None \<Rightarrow> 100)"

definition gpuPctOf :: "NodeAssignment \<Rightarrow> f64" where
  "gpuPctOf a = (case na_gpu a of None \<Rightarrow> 100 | Some g \<Rightarrow> (case gci_capPctOfMax g of Some p \<Rightarrow> p | None \<Rightarrow> 100))"

definition rackOf :: "(string \<Rightarrow> KNode option) \<Rightarrow> string \<Rightarrow> string" where
  "rackOf objs n = (case objs n of Some k \<Rightarrow> map_get (kn_labels k) ''joulie.io/rack'' | None \<Rightarrow> [])"

definition zoneOf :: "(string \<Rightarrow> KNode option) \<Rightarrow> string \<Rightarrow> string" where
  "zoneOf objs n = (case objs n of Some k \<Rightarrow> map_get (kn_labels k) ''joulie.io/cooling-zone'' | None \<Rightarrow> [])"

definition rackPowerEstimates :: "(string \<Rightarrow> KNode option) \<Rightarrow> hardwareMap \<Rightarrow> NodeAssignment list \<Rightarrow> string \<Rightarrow> f64" where
  "rackPowerEstimates objs hw plan =
     fold (\<lambda>a m. let rack = rackOf objs (na_nodeName a)
                 in if rack = [] then m
                    else m(rack := m rack + estimateNodePowerW (hwAt hw (na_nodeName a)) (cpuPctOf a) (gpuPctOf a)))
       plan (\<lambda>_. 0)"

section \<open>Hardware of the twin\<close>

definition zeroCPU :: NodeHardwareCPU where
  "zeroCPU = \<lparr>hc_vendor = [], hc_rawModel = [], hc_model = [], hc_sockets = 0, hc_coresPerSocket = 0, hc_totalCores = 0,
     hc_driverFamily = [], hc_capRange = \<lparr>ccr_type = [], ccr_minWattsPerSocket = 0, ccr_maxWattsPerSocket = 0\<rparr>,
     hc_landmarks = \<lparr>cl_minFreqMHz = 0, cl_nominalFreqMHz = 0, cl_maxBoostMHz = 0, cl_lowestNonlinearFreqMHz = 0\<rparr>,
     hc_controlAvailable = False, hc_telemetryAvailable = False, hc_warnings = []\<rparr>"

definition zeroGPU :: NodeHardwareGPU where
  "zeroGPU = \<lparr>hg_present = False, hg_vendor = [], hg_rawModel = [], hg_model = [], hg_count = 0, hg_powerDomains = 0,
     hg_capRange = \<lparr>gcr_minWatts = 0, gcr_maxWatts = 0, gcr_defaultWatts = 0\<rparr>, hg_currentCapWatts = 0,
     hg_slicing = \<lparr>gs_supported = False, gs_modes = []\<rparr>, hg_controlAvailable = False, hg_telemetryAvailable = False,
     hg_warnings = []\<rparr>"

definition twinCPUFromNodeHardware :: "V1NodeHardwareCPU \<Rightarrow> NodeHardwareCPU" where
  "twinCPUFromNodeHardware cpu =
     (let c = zeroCPU\<lparr>hc_vendor := vhc_vendor cpu, hc_model := vhc_model cpu, hc_rawModel := vhc_rawModel cpu,
                hc_sockets := vhc_sockets cpu, hc_totalCores := vhc_totalCores cpu, hc_driverFamily := vhc_driverFamily cpu\<rparr>
      in case vhc_capRange cpu of
           None \<Rightarrow> c
         | Some cr \<Rightarrow> c\<lparr>hc_capRange := (hc_capRange c)\<lparr>ccr_maxWattsPerSocket := vcr_maxWattsPerSocket cr,
                          ccr_minWattsPerSocket := vcr_minWattsPerSocket cr\<rparr>\<rparr>)"

definition twinGPUFromNodeHardware :: "V1NodeHardwareGPU \<Rightarrow> NodeHardwareGPU" where
  "twinGPUFromNodeHardware gpu =
     (let g = zeroGPU\<lparr>hg_present := vhg_present gpu, hg_vendor := vhg_vendor gpu, hg_model := vhg_model gpu,
                hg_rawModel := vhg_rawModel gpu, hg_count := vhg_count gpu,
                hg_controlAvailable := vhg_controlAvailable gpu, hg_powerDomains := vhg_powerDomains gpu\<rparr>;
          g = (case vhg_capRangePerGPU gpu of
                 None \<Rightarrow> g
               | Some cr \<Rightarrow> g\<lparr>hg_capRange := (hg_capRange g)\<lparr>gcr_maxWatts := vgr_maxWatts cr, gcr_minWatts := vgr_minWatts cr\<rparr>\<rparr>)
      in case vhg_slicing gpu of
           None \<Rightarrow> g
         | Some s \<Rightarrow> g\<lparr>hg_slicing := (hg_slicing g)\<lparr>gs_supported := vgs_supported s\<rparr>\<rparr>)"

definition twinHardwareFromNodeHardware :: "V1NodeHardware \<Rightarrow> NodeHardwareCPU \<times> NodeHardwareGPU" where
  "twinHardwareFromNodeHardware obj =
     (case nht_cpu (nh_status obj) of Some c \<Rightarrow> twinCPUFromNodeHardware c | None \<Rightarrow> zeroCPU,
      case nht_gpu (nh_status obj) of Some g \<Rightarrow> twinGPUFromNodeHardware g | None \<Rightarrow> zeroGPU)"

definition enrichGPU :: "Catalog option \<Rightarrow> NodeHardwareGPU \<Rightarrow> NodeHardwareGPU" where
  "enrichGPU catalog g =
     (if hg_count g > 0 \<and> gcr_maxWatts (hg_capRange g) \<le> 0
      then (case MatchGPU catalog (if hg_model g = [] then hg_rawModel g else hg_model g) of
              None \<Rightarrow> g
            | Some (_, spec) \<Rightarrow>
                (let o' = gm_official spec;
                     r = (hg_capRange g)\<lparr>gcr_maxWatts := go_maxBoardPowerW o'\<rparr>;
                     r = (if go_minBoardPowerW o' > 0 then r\<lparr>gcr_minWatts := go_minBoardPowerW o'\<rparr> else r)
                 in g\<lparr>hg_capRange := r, hg_present := True\<rparr>))
      else g)"

definition enrichCPU :: "Catalog option \<Rightarrow> NodeHardwareCPU \<Rightarrow> NodeHardwareCPU" where
  "enrichCPU catalog c =
     (if ccr_maxWattsPerSocket (hc_capRange c) \<le> 0
      then (let q = (if hc_model c = [] then hc_rawModel c else hc_model c);
                c = (if q = [] then c
                     else case MatchCPU catalog q of
                            None \<Rightarrow> c
                          | Some (_, spec) \<Rightarrow>
                              (case SocketCapRangeW (cm_official spec) of
                                 None \<Rightarrow> c
                               | Some (minW, maxW) \<Rightarrow>
                                   c\<lparr>hc_capRange := (hc_capRange c)\<lparr>ccr_maxWattsPerSocket := maxW, ccr_minWattsPerSocket := minW\<rparr>\<rparr>))
            in if ccr_maxWattsPerSocket (hc_capRange c) \<le> 0 \<and> hc_totalCores c > 0
               then (let sockets = (if hc_sockets c \<le> 0 then 1 else hc_sockets c)
                     in c\<lparr>hc_sockets := sockets,
                          hc_capRange := (hc_capRange c)\<lparr>ccr_maxWattsPerSocket := real_of_int (go_div (hc_totalCores c) sockets) * 5\<rparr>\<rparr>)
               else c)
      else c)"

definition enrichHardwareFromCatalog :: "Catalog option \<Rightarrow> NodeHardwareCPU \<times> NodeHardwareGPU \<Rightarrow> NodeHardwareCPU \<times> NodeHardwareGPU" where
  "enrichHardwareFromCatalog catalog hw =
     (if catalog = None then hw else (enrichCPU catalog (fst hw), enrichGPU catalog (snd hw)))"

definition twinHardware :: "Catalog option \<Rightarrow> V1NodeHardware option \<Rightarrow> NodeHardwareCPU \<times> NodeHardwareGPU" where
  "twinHardware catalog obj =
     (case obj of None \<Rightarrow> (zeroCPU, zeroGPU) | Some o' \<Rightarrow> enrichHardwareFromCatalog catalog (twinHardwareFromNodeHardware o'))"

section \<open>Measured power\<close>

text \<open>The settings of the source, with the two clients as functions of the node name.\<close>

record NodePowerSource =
  nps_source :: string
  nps_promAddress :: string
  nps_prometheus :: "string \<Rightarrow> f64 option"
  nps_httpEndpoint :: string
  nps_http :: "string \<Rightarrow> goerr + f64"

definition resolveNodePower :: "NodePowerSource \<Rightarrow> string \<Rightarrow> f64 \<times> string" where
  "resolveNodePower src nodeName =
     (if nps_source src = ''prometheus''
      then (if nps_promAddress src \<noteq> []
            then (case nps_prometheus src nodeName of
                    Some w \<Rightarrow> if w > 0 then (w, ''prometheus'') else (0, ''prometheus-no-data'')
                  | None \<Rightarrow> (0, ''prometheus-no-data''))
            else (0, ''prometheus-no-data''))
      else if nps_source src = ''http''
      then (if nps_httpEndpoint src \<noteq> []
            then (case nps_http src nodeName of Inl e \<Rightarrow> (0, ''http-error'') | Inr w \<Rightarrow> (w, ''http''))
            else (0, ''http-no-endpoint''))
      else (0, ''static''))"

record powerSample =
  ps_watts :: f64
  ps_at :: int

type_synonym PowerSamples = "string \<Rightarrow> powerSample list"

definition powerTrendWindow :: int where
  "powerTrendWindow = 300000000000"

text \<open>The first sample after the cutoff; none after it keeps all.\<close>

fun firstValid :: "int \<Rightarrow> powerSample list \<Rightarrow> powerSample list option" where
  "firstValid cutoff [] = None"
| "firstValid cutoff (s # ss) = (if ps_at s > cutoff then Some (s # ss) else firstValid cutoff ss)"

definition nodePowerTrend :: "int \<Rightarrow> string \<Rightarrow> f64 \<Rightarrow> PowerSamples \<Rightarrow> f64 \<times> PowerSamples" where
  "nodePowerTrend now nodeName currentPower all =
     (let samples = all nodeName @ [\<lparr>ps_watts = currentPower, ps_at = now\<rparr>];
          samples = (case firstValid (now - powerTrendWindow) samples of Some ss \<Rightarrow> ss | None \<Rightarrow> samples);
          elapsed = real_of_int (ps_at (last samples) - ps_at (hd samples)) / 60000000000
      in (if length samples < 2 \<or> elapsed < 1 / 10 then 0 else (ps_watts (last samples) - ps_watts (hd samples)) / elapsed,
          all(nodeName := samples)))"

definition implausibleNodePower :: "f64 \<Rightarrow> f64 \<Rightarrow> bool" where
  "implausibleNodePower measuredW nodeTdpW \<longleftrightarrow> \<not> (nodeTdpW \<le> 0 \<or> measuredW \<le> 0) \<and> measuredW > 2 * nodeTdpW"

section \<open>The API objects\<close>

text \<open>
  \<open>sto_err\<close> is the error of a verb on a name; the verb \<open>conditions\<close> stands for decoding what the object's
  \<open>status.conditions\<close> holds. \<open>sto_meanwhile\<close> is what another client does to a NodeTwin between the Get of an upsert and
  its write with that verb, \<open>None\<close> where nobody writes the object in between: every write gives the object a new
  resource version, whatever it changes.
\<close>

record TwinStore =
  sto_twins :: "string \<Rightarrow> V1NodeTwin option"
  sto_nodes :: "string \<Rightarrow> KNode option"
  sto_err :: "string \<Rightarrow> string \<Rightarrow> goerr option"
  sto_meanwhile :: "string \<Rightarrow> string \<Rightarrow> (V1NodeTwin option \<Rightarrow> V1NodeTwin option) option"

definition twinSpecOf :: "NodeAssignment \<Rightarrow> V1NodeTwinSpec" where
  "twinSpecOf a =
     \<lparr>nsp_nodeName = na_nodeName a, nsp_profile = na_profile a,
      nsp_cpu = Some
        \<lparr>ntc_packagePowerCapWatts = (if na_cpuCapPctOfMax a = None \<and> na_capWatts a > 0 then Some (na_capWatts a) else None),
         ntc_packagePowerCapPctOfMax = na_cpuCapPctOfMax a,
         ntc_governor = map_option (\<lambda>g. \<lparr>vci_preset = cgi_preset g, vci_boost = cgi_boost g\<rparr>) (na_cpuGovernor a)\<rparr>,
      nsp_gpu =
        (if na_gpu a = None \<and> na_gpuGovernor a = None then None
         else Some \<lparr>ntg_powerCap = map_option (\<lambda>g. \<lparr>gpc_scope = ''perGpu'', gpc_capWattsPerGPU = gci_capWattsPerGPU g,
                                                   gpc_capPctOfMax = gci_capPctOfMax g\<rparr>) (na_gpu a),
                    ntg_governor = map_option (\<lambda>g. \<lparr>vgi_preset = ggi_preset g,
                                                   vgi_computeClockCeilingPctOfMax = ggi_ceilingPctOfMax g\<rparr>) (na_gpuGovernor a)\<rparr>),
      nsp_policy = Some \<lparr>ntp_name = na_managedBy a\<rparr>,
      nsp_scheduling = Some \<lparr>nts_draining = na_draining a\<rparr>\<rparr>"

definition emptyTwinStatus :: V1NodeTwinStatus where
  "emptyTwinStatus = \<lparr>vts_schedulableClass = [], vts_powerMeasurement = None, vts_predictedPowerHeadroomScore = 0,
     vts_predictedCoolingStressScore = 0, vts_predictedPsuStressScore = 0, vts_effectiveCapState = None,
     vts_estimatedPUE = 0, vts_controlStatus = None, vts_lastUpdated = []\<rparr>"

text \<open>The errors of the API server that depend on what the object is when a write arrives.\<close>

definition alreadyExists :: "string \<Rightarrow> goerr" where
  "alreadyExists name = ''nodetwins.joulie.io '' @ CHR 0x22 # name @ CHR 0x22 # '' already exists''"

definition notFoundError :: "string \<Rightarrow> goerr" where
  "notFoundError name = ''nodetwins.joulie.io '' @ CHR 0x22 # name @ CHR 0x22 # '' not found''"

definition conflictError :: "string \<Rightarrow> goerr" where
  "conflictError name = ''Operation cannot be fulfilled on nodetwins.joulie.io '' @ CHR 0x22 # name @
     CHR 0x22 # '': the object has been modified; please apply your changes to the latest version and try again''"

definition meanwhile :: "string \<Rightarrow> string \<Rightarrow> TwinStore \<Rightarrow> TwinStore" where
  "meanwhile verb name s =
     (case sto_meanwhile s verb name of
        None \<Rightarrow> s
      | Some f \<Rightarrow> s\<lparr>sto_twins := (sto_twins s)(name := f (sto_twins s name))\<rparr>)"

text \<open>
  A create fails on an object that is there by now; an update, which carries the resource version of the Get, fails on one
  that was written or deleted since; a merge patch applies to whatever the object is when it arrives.
\<close>

definition createTwin :: "string \<Rightarrow> V1NodeTwin \<Rightarrow> TwinStore \<Rightarrow> goerr option \<times> TwinStore" where
  "createTwin name obj s0 =
     (let s = meanwhile ''create'' name s0
      in case sto_err s ''create'' name of
           Some e \<Rightarrow> (Some e, s)
         | None \<Rightarrow>
             (case sto_twins s name of
                Some _ \<Rightarrow> (Some (alreadyExists name), s)
              | None \<Rightarrow> (None, s\<lparr>sto_twins := (sto_twins s)(name \<mapsto> obj)\<rparr>)))"

definition updateTwin :: "string \<Rightarrow> V1NodeTwin \<Rightarrow> TwinStore \<Rightarrow> goerr option \<times> TwinStore" where
  "updateTwin name obj s0 =
     (let s = meanwhile ''update'' name s0
      in case sto_err s ''update'' name of
           Some e \<Rightarrow> (Some e, s)
         | None \<Rightarrow>
             (case sto_twins s name of
                None \<Rightarrow> (Some (notFoundError name), s)
              | Some _ \<Rightarrow>
                  if sto_meanwhile s ''update'' name \<noteq> None then (Some (conflictError name), s)
                  else (None, s\<lparr>sto_twins := (sto_twins s)(name \<mapsto> obj)\<rparr>)))"

definition mergeTwin :: "string \<Rightarrow> string \<Rightarrow> (V1NodeTwin \<Rightarrow> V1NodeTwin) \<Rightarrow> TwinStore \<Rightarrow> goerr option \<times> TwinStore" where
  "mergeTwin verb name patch s0 =
     (let s = meanwhile verb name s0
      in case sto_err s verb name of
           Some e \<Rightarrow> (Some e, s)
         | None \<Rightarrow>
             (case sto_twins s name of
                None \<Rightarrow> (Some (notFoundError name), s)
              | Some obj \<Rightarrow> (None, s\<lparr>sto_twins := (sto_twins s)(name \<mapsto> patch obj)\<rparr>)))"

definition wrapErr :: "string \<Rightarrow> goerr option \<times> TwinStore \<Rightarrow> goerr option \<times> TwinStore" where
  "wrapErr what r = (map_option (\<lambda>e. what @ '': '' @ e) (fst r), snd r)"

definition upsertNodeTwinSpec :: "NodeAssignment \<Rightarrow> TwinStore \<Rightarrow> goerr option \<times> TwinStore" where
  "upsertNodeTwinSpec a s =
     (let name = ObjectNameForNode (na_nodeName a); spec = twinSpecOf a
      in case sto_err s ''get'' name of
           Some e \<Rightarrow> (Some (''get NodeTwin '' @ name @ '': '' @ e), s)
         | None \<Rightarrow>
             (case sto_twins s name of
                None \<Rightarrow> wrapErr (''create NodeTwin '' @ name) (createTwin name \<lparr>nt_spec = spec, nt_status = emptyTwinStatus\<rparr> s)
              | Some existing \<Rightarrow>
                  if nt_spec existing = spec then (None, s)
                  else wrapErr (''update NodeTwin '' @ name) (updateTwin name (existing\<lparr>nt_spec := spec\<rparr>) s)))"

definition upsertNodeLabels :: "string \<Rightarrow> NodeAssignment \<Rightarrow> TwinStore \<Rightarrow> goerr option \<times> TwinStore" where
  "upsertNodeLabels profileLabel a s =
     (let n = na_nodeName a
      in case sto_err s ''get-node'' n of
           Some e \<Rightarrow> (Some e, s)
         | None \<Rightarrow>
             (case sto_nodes s n of
                None \<Rightarrow> (Some ''not found'', s)
              | Some node \<Rightarrow>
                  if TrimSpace (map_get (kn_labels node) profileLabel) = na_profile a then (None, s)
                  else (case sto_err s ''patch-node'' n of
                          Some e \<Rightarrow> (Some e, s)
                        | None \<Rightarrow> (None, s\<lparr>sto_nodes := (sto_nodes s)
                                   (n \<mapsto> node\<lparr>kn_labels := (kn_labels node)(profileLabel \<mapsto> na_profile a)\<rparr>)\<rparr>))))"

text \<open>The status patch: every field the controller manager owns; the agent's control status stays.\<close>

definition patchStatus :: "(int \<Rightarrow> string) \<Rightarrow> NodeTwinStatus \<Rightarrow> V1NodeTwinStatus \<Rightarrow> V1NodeTwinStatus" where
  "patchStatus fmtTime st old =
     old\<lparr>vts_schedulableClass := ts_schedulableClass st,
         vts_predictedPowerHeadroomScore := ts_headroomScore st,
         vts_predictedCoolingStressScore := ts_coolingStressScore st,
         vts_predictedPsuStressScore := ts_psuStressScore st,
         vts_estimatedPUE := ts_estimatedPUE st,
         vts_lastUpdated := (case ts_lastUpdated st of Some t \<Rightarrow> fmtTime t | None \<Rightarrow> ''0001-01-01T00:00:00Z''),
         vts_effectiveCapState := Some \<lparr>vcs_cpuPct = cs_cpuPct (ts_effectiveCapState st), vcs_gpuPct = cs_gpuPct (ts_effectiveCapState st)\<rparr>,
         vts_powerMeasurement :=
           (case ts_powerMeasurement st of
              None \<Rightarrow> vts_powerMeasurement old
            | Some pm \<Rightarrow> Some \<lparr>vpm_source = pm_source pm, vpm_measuredNodePowerW = pm_measuredNodePowerW pm,
                vpm_cpuCappedPowerW = pm_cpuCappedPowerW pm, vpm_gpuCappedPowerW = pm_gpuCappedPowerW pm,
                vpm_nodeCappedPowerW = pm_nodeCappedPowerW pm, vpm_cpuTdpW = pm_cpuTdpW pm, vpm_gpuTdpW = pm_gpuTdpW pm,
                vpm_nodeTdpW = pm_nodeTdpW pm, vpm_powerTrendWPerMin = pm_powerTrendWPerMin pm\<rparr>)\<rparr>"

definition minimalTwin :: "string \<Rightarrow> V1NodeTwin" where
  "minimalTwin nodeName =
     \<lparr>nt_spec = \<lparr>nsp_nodeName = nodeName, nsp_profile = ''unknown'', nsp_cpu = None, nsp_gpu = None, nsp_policy = None,
                 nsp_scheduling = None\<rparr>, nt_status = emptyTwinStatus\<rparr>"

text \<open>The patch of the status subresource, and the full patch when that fails.\<close>

definition patchTwin :: "(int \<Rightarrow> string) \<Rightarrow> string \<Rightarrow> string \<Rightarrow> NodeTwinStatus \<Rightarrow> TwinStore \<Rightarrow> goerr option \<times> TwinStore" where
  "patchTwin fmtTime nodeName name st s0 =
     (let patch = (\<lambda>obj. obj\<lparr>nt_status := patchStatus fmtTime st (nt_status obj)\<rparr>)
      in case mergeTwin ''patch-status'' name patch s0 of
           (None, s) \<Rightarrow> (None, s)
         | (Some _, s) \<Rightarrow> wrapErr (''patch NodeTwin '' @ nodeName @ '' status'') (mergeTwin ''patch'' name patch s))"

text \<open>
  The status of a node; \<open>conds\<close> says whether the status has conditions, which are then merged into the ones the object
  holds: a condition field in another shape ends the upsert before it writes. A create that finds the object there by now
  is no error, and the patch goes to that object.
\<close>

definition upsertNodeTwinStatus :: "(int \<Rightarrow> string) \<Rightarrow> string \<Rightarrow> bool \<Rightarrow> NodeTwinStatus \<Rightarrow> TwinStore \<Rightarrow> goerr option \<times> TwinStore" where
  "upsertNodeTwinStatus fmtTime nodeName conds st s =
     (let name = ObjectNameForNode nodeName
      in case sto_err s ''get'' name of
           Some e \<Rightarrow> (Some (''get NodeTwin '' @ nodeName @ '': '' @ e), s)
         | None \<Rightarrow>
             (case sto_twins s name of
                Some _ \<Rightarrow>
                  (case if conds then sto_err s ''conditions'' name else None of
                     Some e \<Rightarrow> (Some (''NodeTwin '' @ nodeName @ '' status.conditions: '' @ e), s)
                   | None \<Rightarrow> patchTwin fmtTime nodeName name st s)
              | None \<Rightarrow>
                  (case createTwin name (minimalTwin nodeName) s of
                     (Some e, s1) \<Rightarrow>
                       if e = alreadyExists name then patchTwin fmtTime nodeName name st s1
                       else (Some (''create NodeTwin '' @ nodeName @ '': '' @ e), s1)
                   | (None, s1) \<Rightarrow> patchTwin fmtTime nodeName name st s1)))"

section \<open>The twin of one node\<close>

text \<open>What a reconcile reads beside the plan.\<close>

record TwinEnv =
  te_getHardware :: "string \<Rightarrow> ListErr + V1NodeHardware"
  te_getTwin :: "string \<Rightarrow> ListErr + V1NodeTwin"
  te_catalog :: "Catalog option"
  te_facility :: facilitySnapshot
  te_power :: NodePowerSource
  te_fmtTime :: "int \<Rightarrow> string"
  te_parseTime :: "string \<Rightarrow> int option"

definition readNodeHardware :: "TwinEnv \<Rightarrow> string \<Rightarrow> goerr + V1NodeHardware option" where
  "readNodeHardware env nodeName =
     (case te_getHardware env (ObjectNameForNode nodeName) of
        Inr obj \<Rightarrow> Inr (Some obj)
      | Inl (OtherErr e) \<Rightarrow> Inl e
      | Inl _ \<Rightarrow> Inr None)"

definition fetchGPUControlResult :: "TwinEnv \<Rightarrow> string \<Rightarrow> ControlResult option" where
  "fetchGPUControlResult env nodeName =
     (case te_getTwin env (ObjectNameForNode nodeName) of
        Inl e \<Rightarrow> None
      | Inr obj \<Rightarrow>
          (case vts_controlStatus (nt_status obj) of
             None \<Rightarrow> None
           | Some cs \<Rightarrow> map_option (\<lambda>g. \<lparr>cr_backend = vrs_backend g, cr_result = vrs_result g, cr_message = vrs_message g,
                                         cr_applied = [], cr_updatedAt = []\<rparr>) (vct_gpu cs)))"

definition AgentReportingStaleAfter :: int where
  "AgentReportingStaleAfter = 3 * 300000000000"

text \<open>Status and reason of the \<open>AgentReporting\<close> condition.\<close>

definition agentReportingCondition :: "(string \<Rightarrow> int option) \<Rightarrow> V1NodeHardware option \<Rightarrow> int \<Rightarrow> bool \<times> string" where
  "agentReportingCondition parseTime obj now =
     (case obj of
        None \<Rightarrow> (False, ''NoNodeHardware'')
      | Some o' \<Rightarrow>
          (case parseTime (nht_updatedAt (nh_status o')) of
             Some t \<Rightarrow> if now - t > AgentReportingStaleAfter then (False, ''NodeHardwareStale'') else (True, ''NodeHardwareCurrent'')
           | None \<Rightarrow> (True, ''NodeHardwareCurrent'')))"

definition twinInputFor ::
  "TwinEnv \<Rightarrow> string \<Rightarrow> string \<Rightarrow> f64 \<Rightarrow> f64 \<Rightarrow> bool \<Rightarrow> nodeTopology option \<Rightarrow> NodeHardwareCPU \<times> NodeHardwareGPU \<Rightarrow> f64 \<Rightarrow> f64 \<Rightarrow> TwinInput" where
  "twinInputFor env nodeName profile cpuCapPct gpuCapPct draining topo hw measured trend =
     (let ambient = ambientFor (te_facility env) topo
      in \<lparr>ti_nodeName = nodeName, ti_cpu = fst hw, ti_gpu = snd hw, ti_profile = profile,
          ti_cpuCapPct = cpuCapPct, ti_gpuCapPct = gpuCapPct,
          ti_gpuCapNotApplied = (\<not> GPUCapApplies (snd hw) (fetchGPUControlResult env nodeName)),
          ti_draining = draining, ti_measuredNodePowerW = measured, ti_powerTrendWPerMin = trend,
          ti_clusterTotalPowerW = fs_itPowerW (te_facility env),
          ti_outsideTempC = (case ambient of Some c \<Rightarrow> c | None \<Rightarrow> 0), ti_outsideTempKnown = (ambient \<noteq> None),
          ti_rack = (case topo of Some t \<Rightarrow> tpo_rack t | None \<Rightarrow> []),
          ti_coolingZone = (case topo of Some t \<Rightarrow> tpo_coolingZone t | None \<Rightarrow> []),
          ti_rackTotalPowerW = (case topo of Some t \<Rightarrow> tpo_rackTotalPowerW t | None \<Rightarrow> 0)\<rparr>)"

definition twinStatusOf :: "TwinOutput \<Rightarrow> f64 \<Rightarrow> string \<Rightarrow> f64 \<Rightarrow> int \<Rightarrow> NodeTwinStatus" where
  "twinStatusOf out measured source trend now =
     \<lparr>ts_schedulableClass = to_schedulableClass out,
      ts_powerMeasurement = Some ((to_powerMeasurement out)\<lparr>pm_source := source, pm_measuredNodePowerW := measured,
         pm_powerTrendWPerMin := trend\<rparr>),
      ts_headroomScore = to_headroomScore out, ts_coolingStressScore = to_coolingStressScore out,
      ts_psuStressScore = to_psuStressScore out, ts_effectiveCapState = to_effectiveCapState out,
      ts_estimatedPUE = to_estimatedPUE out, ts_controlStatus = None, ts_lastUpdated = Some now\<rparr>"

definition reconcileNodeTwin ::
  "TwinEnv \<Rightarrow> int \<Rightarrow> string \<Rightarrow> string \<Rightarrow> f64 \<Rightarrow> f64 \<Rightarrow> bool \<Rightarrow> nodeTopology option \<Rightarrow> PowerSamples \<times> TwinStore \<Rightarrow>
   ((bool \<times> string) option \<times> goerr option) \<times> PowerSamples \<times> TwinStore" where
  "reconcileNodeTwin env now nodeName profile cpuCapPct gpuCapPct draining topo ss =
     (let hwObj = readNodeHardware env nodeName;
          hw = twinHardware (te_catalog env) (case hwObj of Inr o' \<Rightarrow> o' | Inl _ \<Rightarrow> None);
          (measured, source) = resolveNodePower (te_power env) nodeName;
          (trend, samples) = nodePowerTrend now nodeName measured (fst ss);
          out = TwinCompute (twinInputFor env nodeName profile cpuCapPct gpuCapPct draining topo hw measured trend);
          agent = (case hwObj of Inr o' \<Rightarrow> Some (agentReportingCondition (te_parseTime env) o' now) | Inl _ \<Rightarrow> None);
          (err, s) = upsertNodeTwinStatus (te_fmtTime env) nodeName (agent \<noteq> None) (twinStatusOf out measured source trend now) (snd ss)
      in ((agent, err), samples, s))"

section \<open>The writes of a reconcile\<close>

text \<open>
  The loop over the plan: a failed spec or label write ends the reconcile with its error; a
  failed status write is only logged.
\<close>

fun publishPlan ::
  "TwinEnv \<Rightarrow> string \<Rightarrow> int \<Rightarrow> (string \<Rightarrow> nodeTopology option) \<Rightarrow> NodeAssignment list \<Rightarrow> PowerSamples \<times> TwinStore \<Rightarrow>
   goerr option \<times> PowerSamples \<times> TwinStore" where
  "publishPlan env profileLabel now topoOf [] ss = (None, ss)"
| "publishPlan env profileLabel now topoOf (a # plan) (samples, s) =
     (case upsertNodeTwinSpec a s of
        (Some e, s1) \<Rightarrow> (Some e, samples, s1)
      | (None, s1) \<Rightarrow>
          (case upsertNodeLabels profileLabel a s1 of
             (Some e, s2) \<Rightarrow> (Some e, samples, s2)
           | (None, s2) \<Rightarrow>
               publishPlan env profileLabel now topoOf plan
                 (snd (reconcileNodeTwin env now (na_nodeName a) (na_profile a) (cpuPctOf a) (gpuPctOf a) (na_draining a)
                         (topoOf (na_nodeName a)) (samples, s2)))))"

definition reconcileWithCatalog ::
  "PlanConfig \<Rightarrow> Cluster \<Rightarrow> TwinEnv \<Rightarrow> int \<Rightarrow> int \<Rightarrow> PowerSamples \<times> TwinStore \<Rightarrow> goerr option \<times> PowerSamples \<times> TwinStore" where
  "reconcileWithCatalog cfg cl env unixNow now ss =
     (case planReconcile cfg cl unixNow of
        Inl e \<Rightarrow> (Some e, ss)
      | Inr (plan, hw, objs) \<Rightarrow>
          (let est = rackPowerEstimates objs hw plan;
               topoOf = (\<lambda>n. nodeTopologyFor n (rackOf objs n) (zoneOf objs n) est (te_facility env))
           in publishPlan env (pc_profileLabel cfg) now topoOf plan ss))"

section \<open>Lemmas: the power trend\<close>

lemma firstValid_filter:
  "sorted_wrt (\<lambda>a b. ps_at a < ps_at b) ss \<Longrightarrow>
     firstValid cutoff ss = (let v = filter (\<lambda>s. ps_at s > cutoff) ss in if v = [] then None else Some v)"
proof (induction ss)
  case (Cons s ss)
  show ?case
  proof (cases "ps_at s > cutoff")
    case True
    then have "filter (\<lambda>x. ps_at x > cutoff) ss = ss" using Cons.prems by (intro filter_True) auto
    then show ?thesis using True by simp
  next
    case False
    then show ?thesis using Cons by (simp add: Let_def)
  qed
qed simp

lemma nodePowerTrend_samples:
  assumes "sorted_wrt (\<lambda>a b. ps_at a < ps_at b) (all n)" and "\<forall>s \<in> set (all n). ps_at s < now"
  shows "snd (nodePowerTrend now n w all) =
    all(n := filter (\<lambda>s. ps_at s > now - powerTrendWindow) (all n) @ [\<lparr>ps_watts = w, ps_at = now\<rparr>])"
proof -
  let ?new = "\<lparr>ps_watts = w, ps_at = now\<rparr>"
  have "sorted_wrt (\<lambda>a b. ps_at a < ps_at b) (all n @ [?new])" using assms by (auto simp: sorted_wrt_append)
  from firstValid_filter [OF this, of "now - powerTrendWindow"] show ?thesis
    by (simp add: nodePowerTrend_def powerTrendWindow_def Let_def)
qed

text \<open>The power trend of a node. With samples in time order the window holds exactly the
  samples of the last five minutes and the new one, again in time order, so it never grows with
  the age of the process; other nodes are untouched; and on a node whose power moves at a constant
  rate the trend is that rate in watts per minute, or 0 before six seconds of data.\<close>

theorem nodePowerTrend_correct:
  assumes "sorted_wrt (\<lambda>a b. ps_at a < ps_at b) (all n)" and "\<forall>s \<in> set (all n). ps_at s < now"
    and "\<forall>s \<in> set (all n). ps_watts s = base + rate * (real_of_int (ps_at s) / 60000000000)"
    and "w = base + rate * (real_of_int now / 60000000000)"
    and "nodePowerTrend now n w all = (trend, all')"
  shows "sorted_wrt (\<lambda>a b. ps_at a < ps_at b) (all' n) \<and> last (all' n) = \<lparr>ps_watts = w, ps_at = now\<rparr> \<and>
    set (all' n) = {s \<in> set (all n). now - powerTrendWindow < ps_at s} \<union> {\<lparr>ps_watts = w, ps_at = now\<rparr>} \<and>
    (\<forall>m. m \<noteq> n \<longrightarrow> all' m = all m) \<and>
    trend = (if real_of_int (now - ps_at (hd (all' n))) / 60000000000 < 1 / 10 then 0 else rate)"
proof -
  let ?new = "\<lparr>ps_watts = w, ps_at = now\<rparr>" and ?old = "filter (\<lambda>s. ps_at s > now - powerTrendWindow) (all n)"
  have all': "all' = all(n := ?old @ [?new])" using nodePowerTrend_samples [of all n now w] assms(1,2,5) by simp
  have sorted: "sorted_wrt (\<lambda>a b. ps_at a < ps_at b) (?old @ [?new])"
    using assms(1,2) by (auto simp: sorted_wrt_append sorted_wrt_filter)
  define first where "first = hd (?old @ [?new])"
  have mem: "first \<in> set (?old @ [?new])" unfolding first_def by (rule hd_in_set) simp
  then have fw: "ps_watts first = base + rate * (real_of_int (ps_at first) / 60000000000)"
    using assms(3,4) by auto
  have trend: "trend = (if length (?old @ [?new]) < 2 \<or> real_of_int (now - ps_at first) / 60000000000 < 1 / 10 then 0
      else (w - ps_watts first) / (real_of_int (now - ps_at first) / 60000000000))"
    using assms(5) all' first_def by (auto simp: nodePowerTrend_def Let_def dest!: fun_cong [of _ _ n])
  have one: "real_of_int (now - ps_at first) / 60000000000 < 1 / 10" if "length (?old @ [?new]) < 2"
    using that unfolding first_def by (cases ?old) auto
  have "(w - ps_watts first) / (real_of_int (now - ps_at first) / 60000000000) = rate"
    if "\<not> real_of_int (now - ps_at first) / 60000000000 < 1 / 10"
  proof -
    have "w - ps_watts first = rate * (real_of_int (now - ps_at first) / 60000000000)"
      unfolding assms(4) fw by (simp add: algebra_simps diff_divide_distrib)
    then show ?thesis using that by simp
  qed
  then have "trend = (if real_of_int (now - ps_at first) / 60000000000 < 1 / 10 then 0 else rate)"
    using trend one by auto
  then show ?thesis unfolding all' using sorted first_def by auto
qed

theorem nodePowerTrend_correct_witness:
  "fst (nodePowerTrend 120000000000 ''a'' 300 (\<lambda>_. [\<lparr>ps_watts = 100, ps_at = 0\<rparr>])) = 100"
proof -
  obtain trend all' where R: "nodePowerTrend 120000000000 ''a'' 300 (\<lambda>_. [\<lparr>ps_watts = 100, ps_at = 0\<rparr>]) = (trend, all')" by force
  have "trend = (if real_of_int (120000000000 - ps_at (hd (all' ''a''))) / 60000000000 < 1 / 10 then 0 else 100)"
    using nodePowerTrend_correct [of "\<lambda>_. [\<lparr>ps_watts = 100, ps_at = 0\<rparr>]" "''a''" 120000000000 100 100 300 trend all'] R by simp
  moreover have "hd (all' ''a'') = \<lparr>ps_watts = 100, ps_at = 0\<rparr>"
    using R by (auto simp: nodePowerTrend_def powerTrendWindow_def Let_def)
  ultimately show ?thesis using R by simp
qed

section \<open>Lemmas: the writes\<close>

text \<open>A store that answers every verb, and that nobody else writes between the Get and the write of an upsert.\<close>

definition reachable :: "TwinStore \<Rightarrow> bool" where
  "reachable s \<longleftrightarrow> (\<forall>verb name. sto_err s verb name = None \<and> sto_meanwhile s verb name = None)"

definition classOf :: "string \<Rightarrow> bool \<Rightarrow> string" where
  "classOf profile draining =
     (if draining then ''draining'' else if profile = ''eco'' then ''eco'' else if profile = ''performance'' then ''performance'' else ''unknown'')"

lemma reachable_updates [simp]:
  "reachable (s\<lparr>sto_twins := f\<rparr>) = reachable s" "reachable (s\<lparr>sto_nodes := g\<rparr>) = reachable s"
  by (simp_all add: reachable_def)

lemma meanwhile_ok [simp]: "reachable s \<Longrightarrow> meanwhile verb name s = s"
  by (simp add: meanwhile_def reachable_def)

lemma reachable_err: "reachable s \<Longrightarrow> sto_err s verb name = None"
  by (simp add: reachable_def)

lemma reachable_writes:
  assumes "reachable s"
  shows "sto_twins s name = None \<Longrightarrow> createTwin name obj s = (None, s\<lparr>sto_twins := (sto_twins s)(name \<mapsto> obj)\<rparr>)"
    and "sto_twins s name \<noteq> None \<Longrightarrow> updateTwin name obj s = (None, s\<lparr>sto_twins := (sto_twins s)(name \<mapsto> obj)\<rparr>)"
    and "sto_twins s name = Some t \<Longrightarrow> mergeTwin verb name patch s = (None, s\<lparr>sto_twins := (sto_twins s)(name \<mapsto> patch t)\<rparr>)"
  using assms by (auto simp: createTwin_def updateTwin_def mergeTwin_def reachable_def meanwhile_def)

lemma wrapErr_None [simp]: "wrapErr what (None, s) = (None, s)"
  by (simp add: wrapErr_def)

text \<open>The agent's half of an object, which the controller manager must not change.\<close>

definition agentPart :: "V1NodeTwin option \<Rightarrow> V1ControlStatus option" where
  "agentPart t = (case t of None \<Rightarrow> None | Some o' \<Rightarrow> vts_controlStatus (nt_status o'))"

lemma upsertNodeTwinSpec_ok:
  assumes "reachable s" and "name = ObjectNameForNode (na_nodeName a)"
  obtains t where "upsertNodeTwinSpec a s = (None, s\<lparr>sto_twins := (sto_twins s)(name \<mapsto> t)\<rparr>)" "nt_spec t = twinSpecOf a"
    "agentPart (Some t) = agentPart (sto_twins s name)"
proof (cases "sto_twins s name")
  case None
  then show thesis
    using that [of "\<lparr>nt_spec = twinSpecOf a, nt_status = emptyTwinStatus\<rparr>"] assms reachable_writes(1) [OF assms(1)]
    by (simp add: upsertNodeTwinSpec_def reachable_err Let_def agentPart_def emptyTwinStatus_def)
next
  case (Some old)
  show thesis
  proof (cases "nt_spec old = twinSpecOf a")
    case True
    have "s = s\<lparr>sto_twins := (sto_twins s)(name \<mapsto> old)\<rparr>" using Some by (simp add: fun_upd_idem)
    then show thesis
      using that [of old] True Some assms by (simp add: upsertNodeTwinSpec_def reachable_err Let_def)
  next
    case False
    then show thesis
      using that [of "old\<lparr>nt_spec := twinSpecOf a\<rparr>"] Some assms reachable_writes(2) [OF assms(1)]
      by (simp add: upsertNodeTwinSpec_def reachable_err Let_def agentPart_def)
  qed
qed

lemma upsertNodeLabels_ok:
  assumes "reachable s" and "sto_nodes s (na_nodeName a) = Some k" and "TrimSpace (na_profile a) = na_profile a"
  obtains k' where "upsertNodeLabels pl a s = (None, s\<lparr>sto_nodes := (sto_nodes s)(na_nodeName a \<mapsto> k')\<rparr>)"
    "TrimSpace (map_get (kn_labels k') pl) = na_profile a"
proof (cases "TrimSpace (map_get (kn_labels k) pl) = na_profile a")
  case True
  have "s = s\<lparr>sto_nodes := (sto_nodes s)(na_nodeName a \<mapsto> k)\<rparr>" using assms(2) by (simp add: fun_upd_idem)
  then show thesis using that [of k] True assms by (simp add: upsertNodeLabels_def reachable_def Let_def)
next
  case False
  then show thesis
    using that [of "k\<lparr>kn_labels := (kn_labels k)(pl \<mapsto> na_profile a)\<rparr>"] assms
    by (simp add: upsertNodeLabels_def reachable_def Let_def map_get_def)
qed

lemma patchStatus_frame [simp]:
  "vts_schedulableClass (patchStatus f st old) = ts_schedulableClass st" "vts_controlStatus (patchStatus f st old) = vts_controlStatus old"
  "vts_lastUpdated (patchStatus f st old) = (case ts_lastUpdated st of Some t \<Rightarrow> f t | None \<Rightarrow> ''0001-01-01T00:00:00Z'')"
  by (simp_all add: patchStatus_def)

lemma upsertNodeTwinStatus_ok:
  assumes "reachable s" and "sto_twins s (ObjectNameForNode n) = Some t"
  shows "upsertNodeTwinStatus f n conds st s =
    (None, s\<lparr>sto_twins := (sto_twins s)(ObjectNameForNode n \<mapsto> t\<lparr>nt_status := patchStatus f st (nt_status t)\<rparr>)\<rparr>)"
  using assms reachable_writes(3) [OF assms(1)] by (simp add: upsertNodeTwinStatus_def patchTwin_def Let_def reachable_err)

lemma TwinCompute_class: "to_schedulableClass (TwinCompute i) = twinClass i"
  by (simp add: TwinCompute_def Let_def)

text \<open>One node: the spec of the plan, the class of its profile, and the agent's half kept.\<close>

definition published :: "TwinEnv \<Rightarrow> string \<Rightarrow> int \<Rightarrow> TwinStore \<Rightarrow> TwinStore \<Rightarrow> NodeAssignment \<Rightarrow> bool" where
  "published env pl now s s' a \<longleftrightarrow>
     (\<exists>t k. sto_twins s' (ObjectNameForNode (na_nodeName a)) = Some t \<and> nt_spec t = twinSpecOf a \<and>
        vts_schedulableClass (nt_status t) = classOf (na_profile a) (na_draining a) \<and>
        vts_lastUpdated (nt_status t) = te_fmtTime env now \<and>
        agentPart (Some t) = agentPart (sto_twins s (ObjectNameForNode (na_nodeName a))) \<and>
        sto_nodes s' (na_nodeName a) = Some k \<and> TrimSpace (map_get (kn_labels k) pl) = na_profile a)"

lemma reconcileNodeTwin_ok:
  assumes "reachable s" and "sto_twins s (ObjectNameForNode n) = Some t"
  obtains st samples' where
    "snd (reconcileNodeTwin env now n profile cp gp draining topo (samples, s)) =
       (samples', s\<lparr>sto_twins := (sto_twins s)(ObjectNameForNode n \<mapsto> t\<lparr>nt_status := patchStatus (te_fmtTime env) st (nt_status t)\<rparr>)\<rparr>)"
    "ts_schedulableClass st = classOf profile draining" "ts_lastUpdated st = Some now"
proof -
  obtain measured source where P: "resolveNodePower (te_power env) n = (measured, source)" by force
  obtain trend samples' where T: "nodePowerTrend now n measured samples = (trend, samples')" by force
  let ?hw = "twinHardware (te_catalog env) (case readNodeHardware env n of Inr o' \<Rightarrow> o' | Inl _ \<Rightarrow> None)"
  let ?st = "twinStatusOf (TwinCompute (twinInputFor env n profile cp gp draining topo ?hw measured trend)) measured source trend now"
  have "ts_schedulableClass ?st = classOf profile draining" "ts_lastUpdated ?st = Some now"
    by (simp_all add: twinStatusOf_def TwinCompute_class twinClass_def twinInputFor_def classOf_def Let_def)
  then show thesis
    using that [of samples' ?st] upsertNodeTwinStatus_ok [OF assms, of "te_fmtTime env" _ ?st]
    by (simp add: reconcileNodeTwin_def P T Let_def)
qed

lemma publishPlan_step:
  assumes "reachable s" and "sto_nodes s (na_nodeName a) = Some k" and "TrimSpace (na_profile a) = na_profile a"
  obtains samples1 s1 where
    "publishPlan env pl now topoOf (a # plan) (samples, s) = publishPlan env pl now topoOf plan (samples1, s1)"
    "reachable s1" "published env pl now s s1 a"
    "\<And>m. m \<noteq> ObjectNameForNode (na_nodeName a) \<Longrightarrow> sto_twins s1 m = sto_twins s m"
    "\<And>m. m \<noteq> na_nodeName a \<Longrightarrow> sto_nodes s1 m = sto_nodes s m"
proof -
  let ?n = "na_nodeName a" and ?o = "ObjectNameForNode (na_nodeName a)"
  obtain t where spec: "upsertNodeTwinSpec a s = (None, s\<lparr>sto_twins := (sto_twins s)(?o \<mapsto> t)\<rparr>)" "nt_spec t = twinSpecOf a"
      "agentPart (Some t) = agentPart (sto_twins s ?o)"
    using upsertNodeTwinSpec_ok [OF assms(1) refl] by blast
  let ?s1 = "s\<lparr>sto_twins := (sto_twins s)(?o \<mapsto> t)\<rparr>"
  have r1: "reachable ?s1" "sto_nodes ?s1 ?n = Some k" using assms(1,2) by simp_all
  obtain k' where lab: "upsertNodeLabels pl a ?s1 = (None, ?s1\<lparr>sto_nodes := (sto_nodes ?s1)(?n \<mapsto> k')\<rparr>)"
      "TrimSpace (map_get (kn_labels k') pl) = na_profile a"
    using upsertNodeLabels_ok [OF r1 assms(3)] by blast
  let ?s2 = "?s1\<lparr>sto_nodes := (sto_nodes ?s1)(?n \<mapsto> k')\<rparr>"
  have r2: "reachable ?s2" "sto_twins ?s2 ?o = Some t" using assms(1) by simp_all
  obtain st samples' where twin: "snd (reconcileNodeTwin env now ?n (na_profile a) (cpuPctOf a) (gpuPctOf a) (na_draining a) (topoOf ?n) (samples, ?s2))
      = (samples', ?s2\<lparr>sto_twins := (sto_twins ?s2)(?o \<mapsto> t\<lparr>nt_status := patchStatus (te_fmtTime env) st (nt_status t)\<rparr>)\<rparr>)"
      "ts_schedulableClass st = classOf (na_profile a) (na_draining a)" "ts_lastUpdated st = Some now"
    using reconcileNodeTwin_ok [OF r2] by metis
  show thesis
  proof (rule that)
    show "publishPlan env pl now topoOf (a # plan) (samples, s) = publishPlan env pl now topoOf plan
        (samples', ?s2\<lparr>sto_twins := (sto_twins ?s2)(?o \<mapsto> t\<lparr>nt_status := patchStatus (te_fmtTime env) st (nt_status t)\<rparr>)\<rparr>)"
      using spec(1) lab(1) twin(1) by simp
  qed (use spec lab(2) twin(2,3) assms(1) in \<open>simp_all add: published_def agentPart_def\<close>)
qed

lemma publishPlan_ok:
  assumes "reachable s" and "distinct (map (\<lambda>a. ObjectNameForNode (na_nodeName a)) plan)"
    and "\<forall>a \<in> set plan. sto_nodes s (na_nodeName a) \<noteq> None \<and> TrimSpace (na_profile a) = na_profile a"
  shows "\<exists>samples' s'. publishPlan env pl now topoOf plan (samples, s) = (None, samples', s') \<and>
    (\<forall>a \<in> set plan. published env pl now s s' a) \<and>
    (\<forall>m. m \<notin> (\<lambda>a. ObjectNameForNode (na_nodeName a)) ` set plan \<longrightarrow> sto_twins s' m = sto_twins s m) \<and>
    (\<forall>m. m \<notin> na_nodeName ` set plan \<longrightarrow> sto_nodes s' m = sto_nodes s m)"
  using assms
proof (induction plan arbitrary: samples s)
  case (Cons a plan)
  obtain k where k: "sto_nodes s (na_nodeName a) = Some k" and trim: "TrimSpace (na_profile a) = na_profile a" using Cons.prems(3) by auto
  obtain samples1 s1 where S: "publishPlan env pl now topoOf (a # plan) (samples, s) = publishPlan env pl now topoOf plan (samples1, s1)"
      "reachable s1" "published env pl now s s1 a" "\<And>m. m \<noteq> ObjectNameForNode (na_nodeName a) \<Longrightarrow> sto_twins s1 m = sto_twins s m"
      "\<And>m. m \<noteq> na_nodeName a \<Longrightarrow> sto_nodes s1 m = sto_nodes s m"
    using publishPlan_step [OF Cons.prems(1) k trim] by metis
  have fresh: "ObjectNameForNode (na_nodeName a) \<notin> (\<lambda>b. ObjectNameForNode (na_nodeName b)) ` set plan"
    and dis: "distinct (map (\<lambda>a. ObjectNameForNode (na_nodeName a)) plan)" using Cons.prems(2) by simp_all
  then have fresh': "na_nodeName a \<notin> na_nodeName ` set plan" by auto
  then have nodes: "\<forall>b \<in> set plan. sto_nodes s1 (na_nodeName b) \<noteq> None \<and> TrimSpace (na_profile b) = na_profile b"
    using Cons.prems(3) S(5) by (metis (no_types, lifting) image_eqI list.set_intros(2))
  obtain samples' s' where R: "publishPlan env pl now topoOf plan (samples1, s1) = (None, samples', s')"
      "\<forall>b \<in> set plan. published env pl now s1 s' b"
      "\<forall>m. m \<notin> (\<lambda>a. ObjectNameForNode (na_nodeName a)) ` set plan \<longrightarrow> sto_twins s' m = sto_twins s1 m"
      "\<forall>m. m \<notin> na_nodeName ` set plan \<longrightarrow> sto_nodes s' m = sto_nodes s1 m"
    using Cons.IH [OF S(2) dis nodes] by metis
  have "published env pl now s s' a"
    using S(3) R(3) [rule_format, OF fresh] R(4) [rule_format, OF fresh'] unfolding published_def by simp
  moreover have "published env pl now s s' b" if "b \<in> set plan" for b
  proof -
    have "ObjectNameForNode (na_nodeName b) \<noteq> ObjectNameForNode (na_nodeName a)" using fresh that unfolding image_iff by metis
    then show ?thesis using R(2) that S(4) unfolding published_def by metis
  qed
  ultimately show ?case using S R by auto
qed simp

lemma profile_trims: "na_profile a \<in> {profilePerformance, profileEco} \<Longrightarrow> TrimSpace (na_profile a) = na_profile a"
proof -
  have "list_all (\<lambda>p. TrimSpace p = p) [profilePerformance, profileEco]" by code_simp
  then show "na_profile a \<in> {profilePerformance, profileEco} \<Longrightarrow> ?thesis" unfolding list_all_iff by (metis list.set_intros(1) list.set_intros(2) insertE singletonD)
qed

lemma planReconcile_profiles:
  assumes "planReconcile cfg cl u = Inr (plan, hw, objs)" and "cl_nodes cl = Inr nodes" and "a \<in> set plan"
  shows "na_profile a \<in> {profilePerformance, profileEco}"
proof -
  obtain base where "plan = map (\<lambda>b. capNode cfg cl objs hw (guardOne (RunningPerformanceSensitivePodCount (cl_podsOn cl))
      (initAssignment (nodesByName cfg nodes) b))) base" and ok: "\<forall>b \<in> set base. planned b"
    using planReconcile_base [OF assms(1,2)] by metis
  then obtain b where "b \<in> set base" "na_profile a = na_profile (guardOne (RunningPerformanceSensitivePodCount (cl_podsOn cl))
      (initAssignment (nodesByName cfg nodes) b))" using assms(3) by auto
  then show ?thesis using ok
    by (auto simp: planned_def guardOne_def setLabels_def initAssignment_def ComputeDesiredLabels_def CurrentProfileOrDefault_def
        split: sum.splits)
qed

section \<open>Properties\<close>

lemma reconcileWithCatalog_ok:
  assumes "planReconcile cfg cl u = Inr (plan, hw, objs)" and "cl_nodes cl = Inr nodes"
    and "distinct (map ObjectNameForNode (eligibleNames cfg nodes))"
    and "reachable s" and "\<forall>n \<in> set (eligibleNames cfg nodes). sto_nodes s n \<noteq> None"
  shows "\<exists>samples' s'. reconcileWithCatalog cfg cl env u now (samples, s) = (None, samples', s') \<and>
    (\<forall>a \<in> set plan. \<exists>t k. sto_twins s' (ObjectNameForNode (na_nodeName a)) = Some t \<and> nt_spec t = twinSpecOf a \<and>
        vts_schedulableClass (nt_status t) = classOf (na_profile a) (na_draining a) \<and>
        vts_lastUpdated (nt_status t) = te_fmtTime env now \<and>
        agentPart (Some t) = agentPart (sto_twins s (ObjectNameForNode (na_nodeName a))) \<and>
        sto_nodes s' (na_nodeName a) = Some k \<and> TrimSpace (map_get (kn_labels k) (pc_profileLabel cfg)) = na_profile a) \<and>
    (\<forall>m. m \<notin> ObjectNameForNode ` set (eligibleNames cfg nodes) \<longrightarrow> sto_twins s' m = sto_twins s m) \<and>
    (\<forall>m. m \<notin> set (eligibleNames cfg nodes) \<longrightarrow> sto_nodes s' m = sto_nodes s m)"
proof -
  have names: "map na_nodeName plan = eligibleNames cfg nodes" using assms(1,2) by (rule planReconcile_names)
  have nset: "na_nodeName ` set plan = set (eligibleNames cfg nodes)" unfolding names [symmetric] by simp
  have "map (\<lambda>a. ObjectNameForNode (na_nodeName a)) plan = map ObjectNameForNode (eligibleNames cfg nodes)"
    unfolding names [symmetric] by simp
  then have dis: "distinct (map (\<lambda>a. ObjectNameForNode (na_nodeName a)) plan)" using assms(3) by simp
  have ok: "\<forall>a \<in> set plan. sto_nodes s (na_nodeName a) \<noteq> None \<and> TrimSpace (na_profile a) = na_profile a"
    using assms(5) nset profile_trims planReconcile_profiles [OF assms(1,2)] by blast
  have r: "reachable s" by (rule assms(4))
  have oset: "(\<lambda>a. ObjectNameForNode (na_nodeName a)) ` set plan = ObjectNameForNode ` set (eligibleNames cfg nodes)"
    unfolding nset [symmetric] by (simp add: image_image)
  let ?topo = "\<lambda>n. nodeTopologyFor n (rackOf objs n) (zoneOf objs n) (rackPowerEstimates objs hw plan) (te_facility env)"
  show ?thesis
    using publishPlan_ok [OF r dis ok, of env "pc_profileLabel cfg" now ?topo samples] assms(1)
    unfolding reconcileWithCatalog_def Let_def published_def oset nset by simp
qed

text \<open>C21: A reconcile against a reachable API server, with no other client writing the same objects while it does, publishes
  its whole plan: it ends without an
  error and every planned node has one NodeTwin whose spec is the assignment, whose status has the
  class of the profile (draining while it drains) and the time of the reconcile, and a node label
  with the profile; the control status, which the agent owns, and every other object are left as
  they were.\<close>

theorem reconcile_publishes:
  assumes "planReconcile cfg cl u = Inr (plan, hw, objs)" and "cl_nodes cl = Inr nodes"
    and "distinct (map ObjectNameForNode (eligibleNames cfg nodes))"
    and "reachable s" and "\<forall>n \<in> set (eligibleNames cfg nodes). sto_nodes s n \<noteq> None"
  shows "\<exists>samples' s'. reconcileWithCatalog cfg cl env u now (samples, s) = (None, samples', s') \<and>
    (\<forall>a \<in> set plan. \<exists>t k. sto_twins s' (ObjectNameForNode (na_nodeName a)) = Some t \<and> nt_spec t = twinSpecOf a \<and>
        vts_schedulableClass (nt_status t) = classOf (na_profile a) (na_draining a) \<and>
        vts_lastUpdated (nt_status t) = te_fmtTime env now \<and>
        agentPart (Some t) = agentPart (sto_twins s (ObjectNameForNode (na_nodeName a))) \<and>
        sto_nodes s' (na_nodeName a) = Some k \<and> TrimSpace (map_get (kn_labels k) (pc_profileLabel cfg)) = na_profile a) \<and>
    (\<forall>m. m \<notin> ObjectNameForNode ` set (eligibleNames cfg nodes) \<longrightarrow> sto_twins s' m = sto_twins s m) \<and>
    (\<forall>m. m \<notin> set (eligibleNames cfg nodes) \<longrightarrow> sto_nodes s' m = sto_nodes s m)"
  using assms by (rule reconcileWithCatalog_ok)

definition exampleTwinEnv :: TwinEnv where
  "exampleTwinEnv =
     \<lparr>te_getHardware = (\<lambda>_. Inl NotFoundErr), te_getTwin = (\<lambda>_. Inl NotFoundErr), te_catalog = None,
      te_facility = \<lparr>fs_ambientC = None, fs_itPowerW = 0, fs_zoneAmbientC = Map.empty, fs_rackPowerW = Map.empty, fs_nodeInletC = Map.empty\<rparr>,
      te_power = \<lparr>nps_source = ''static'', nps_promAddress = [], nps_prometheus = (\<lambda>_. None), nps_httpEndpoint = [], nps_http = (\<lambda>_. Inl [])\<rparr>,
      te_fmtTime = Itoa, te_parseTime = Atoi\<rparr>"

definition exampleStore :: TwinStore where
  "exampleStore = \<lparr>sto_twins = Map.empty, sto_nodes = (\<lambda>n. Some (exampleNode n)), sto_err = (\<lambda>_ _. None), sto_meanwhile = (\<lambda>_ _. None)\<rparr>"

lemma exampleCluster_nodes: "cl_nodes exampleCluster = Inr [exampleNode ''b'', exampleNode ''a'']"
  by (simp add: exampleCluster_def)

lemma example_plan_exists: "\<exists>plan hw objs. planReconcile examplePlanConfig exampleCluster 0 = Inr (plan, hw, objs)"
  unfolding planReconcile_def exampleCluster_nodes by (simp add: listNodeHardware_def exampleCluster_def Let_def)

lemma example_object_names: "map ObjectNameForNode [''a'', ''b''] = [''a'', ''b'']"
  by code_simp

theorem reconcile_publishes_witness:
  "\<exists>samples s t. reconcileWithCatalog examplePlanConfig exampleCluster exampleTwinEnv 0 0 (\<lambda>_. [], exampleStore) = (None, samples, s) \<and>
     sto_twins s ''a'' = Some t \<and> vts_controlStatus (nt_status t) = None"
proof -
  obtain plan hw objs where R: "planReconcile examplePlanConfig exampleCluster 0 = Inr (plan, hw, objs)"
    using example_plan_exists by blast
  note N = exampleCluster_nodes
  have names: "map na_nodeName plan = [''a'', ''b'']" using planReconcile_names [OF R N] example_eligible by simp
  then obtain a where a: "a \<in> set plan" "na_nodeName a = ''a''" by (cases plan) auto
  have dis: "distinct (map ObjectNameForNode (eligibleNames examplePlanConfig [exampleNode ''b'', exampleNode ''a'']))"
    unfolding example_eligible example_object_names by simp
  have st: "reachable exampleStore"
    "\<forall>n \<in> set (eligibleNames examplePlanConfig [exampleNode ''b'', exampleNode ''a'']). sto_nodes exampleStore n \<noteq> None"
    "sto_twins exampleStore = Map.empty" by (simp_all add: exampleStore_def reachable_def)
  have "ObjectNameForNode (na_nodeName a) = ''a''" using example_object_names a(2) by simp
  then show ?thesis
    using reconcile_publishes [OF R N dis st(1,2), of exampleTwinEnv 0 "\<lambda>_. []"] a(1) st(3) by (fastforce simp: agentPart_def)
qed

end
