(* ===== verification/Agent_Status.thy ===== *)
theory Agent_Status
  imports Controller_Twin "HOL-Library.Word"
begin

text \<open>
  What the node agent writes to the API server and how it divides the nodes among its pods
  (\<^verbatim>\<open>cmd/agent/main.go\<close>): the deduplication of unchanged writes (\<open>shouldWrite\<close>), the merge patch
  of \<open>status.controlStatus\<close> in the NodeTwin, and the shards of pool mode. The object store is
  the one the controller manager writes (\<open>TwinStore\<close>), so the two writers meet on the same
  objects. Times are in nanoseconds, as \<open>time.Duration\<close>.
\<close>

section \<open>Writes that would change nothing\<close>

definition StatusRewriteInterval :: int where
  "StatusRewriteInterval = 300000000000"

record lastWrite =
  lw_payload :: string
  lw_at :: int

type_synonym lastWrites = "string \<Rightarrow> lastWrite option"

definition shouldWrite :: "string \<Rightarrow> string \<Rightarrow> int \<Rightarrow> lastWrites \<Rightarrow> bool \<times> lastWrites" where
  "shouldWrite key payload now ws =
     (if (case ws key of
            Some lw \<Rightarrow> lw_payload lw = payload \<and> now - lw_at lw < StatusRewriteInterval
          | None \<Rightarrow> False)
      then (False, ws)
      else (True, ws(key \<mapsto> \<lparr>lw_payload = payload, lw_at = now\<rparr>)))"

section \<open>The control status of the NodeTwin\<close>

record governorStatus =
  gst_backend :: string
  gst_result :: string
  gst_message :: string
  gst_applied :: string

definition emptyGovernorStatus :: governorStatus where
  "emptyGovernorStatus = \<lparr>gst_backend = [], gst_result = [], gst_message = [], gst_applied = []\<rparr>"

text \<open>
  An entry as the agent builds it: \<open>applied\<close> is a key of the patch only when it is set. The API
  server merges it into the stored entry (a JSON merge patch), so a key that is absent keeps its
  stored value; \<open>None\<close> for the entry is the \<open>null\<close> that removes it.
\<close>

record statusEntry =
  sen_backend :: string
  sen_result :: string
  sen_message :: string
  sen_applied :: "string option"
  sen_updatedAt :: string

definition mergeEntry :: "statusEntry option \<Rightarrow> V1ControlResult option \<Rightarrow> V1ControlResult option" where
  "mergeEntry entry old =
     map_option (\<lambda>e. \<lparr>vrs_backend = sen_backend e, vrs_result = sen_result e, vrs_message = sen_message e,
        vrs_applied = (case sen_applied e of Some a \<Rightarrow> a | None \<Rightarrow> (case old of Some r \<Rightarrow> vrs_applied r | None \<Rightarrow> [])),
        vrs_updatedAt = sen_updatedAt e\<rparr>) entry"

definition emptyControlStatus :: V1ControlStatus where
  "emptyControlStatus = \<lparr>vct_cpu = None, vct_gpu = None, vct_cpuGovernor = None, vct_gpuGovernor = None\<rparr>"

abbreviation componentCPUGovernor :: string where "componentCPUGovernor \<equiv> ''cpuGovernor''"
abbreviation componentGPUGovernor :: string where "componentGPUGovernor \<equiv> ''gpuGovernor''"

definition mergeComponent :: "string \<Rightarrow> statusEntry option \<Rightarrow> V1ControlStatus \<Rightarrow> V1ControlStatus" where
  "mergeComponent component entry cs =
     (if component = ''cpu'' then cs\<lparr>vct_cpu := mergeEntry entry (vct_cpu cs)\<rparr>
      else if component = ''gpu'' then cs\<lparr>vct_gpu := mergeEntry entry (vct_gpu cs)\<rparr>
      else if component = componentCPUGovernor then cs\<lparr>vct_cpuGovernor := mergeEntry entry (vct_cpuGovernor cs)\<rparr>
      else if component = componentGPUGovernor then cs\<lparr>vct_gpuGovernor := mergeEntry entry (vct_gpuGovernor cs)\<rparr>
      else cs)"

definition mergeControlStatus :: "string \<Rightarrow> statusEntry option \<Rightarrow> V1NodeTwin \<Rightarrow> V1NodeTwin" where
  "mergeControlStatus component entry t =
     (let cs = (case vts_controlStatus (nt_status t) of Some cs \<Rightarrow> cs | None \<Rightarrow> emptyControlStatus)
      in t\<lparr>nt_status := (nt_status t)\<lparr>vts_controlStatus := Some (mergeComponent component entry cs)\<rparr>\<rparr>)"

text \<open>What the agent keeps between ticks about the API: its last writes, and the store itself.\<close>

record AgentApi =
  aa_writes :: lastWrites
  aa_store :: TwinStore

text \<open>A patch of an object that is not there is no error to the agent.\<close>

definition patchObject :: "string \<Rightarrow> string \<Rightarrow> statusEntry option \<Rightarrow> TwinStore \<Rightarrow> TwinStore" where
  "patchObject name component entry s =
     (case sto_twins s name of
        None \<Rightarrow> s
      | Some t \<Rightarrow> s\<lparr>sto_twins := (sto_twins s)(name \<mapsto> mergeControlStatus component entry t)\<rparr>)"

definition patchNodeTwinControlStatus ::
  "int \<Rightarrow> string \<Rightarrow> string \<Rightarrow> string \<Rightarrow> statusEntry option \<Rightarrow> AgentApi \<Rightarrow> goerr option \<times> AgentApi" where
  "patchNodeTwinControlStatus now nodeName component fingerprint entry api =
     (let name = ObjectNameForNode nodeName
      in case shouldWrite (''controlStatus|'' @ name @ ''|'' @ component) fingerprint now (aa_writes api) of
           (False, _) \<Rightarrow> (None, api)
         | (True, ws) \<Rightarrow>
             (let api = api\<lparr>aa_writes := ws\<rparr>; s = aa_store api
              in case sto_err s ''patch-status'' name of
                   None \<Rightarrow> (None, api\<lparr>aa_store := patchObject name component entry s\<rparr>)
                 | Some _ \<Rightarrow>
                     (case sto_err s ''patch'' name of
                        None \<Rightarrow> (None, api\<lparr>aa_store := patchObject name component entry s\<rparr>)
                      | Some e \<Rightarrow> (Some e, api))))"

definition updateNodeTwinControlStatus ::
  "(int \<Rightarrow> string) \<Rightarrow> int \<Rightarrow> string \<Rightarrow> string \<Rightarrow> string \<Rightarrow> string \<Rightarrow> string \<Rightarrow> AgentApi \<Rightarrow> goerr option \<times> AgentApi" where
  "updateNodeTwinControlStatus fmtTime now nodeName component backend result message api =
     patchNodeTwinControlStatus now nodeName component (backend @ ''|'' @ result @ ''|'' @ message)
       (Some \<lparr>sen_backend = backend, sen_result = result, sen_message = message, sen_applied = None,
              sen_updatedAt = fmtTime now\<rparr>) api"

definition updateNodeTwinGovernorStatus ::
  "(int \<Rightarrow> string) \<Rightarrow> int \<Rightarrow> string \<Rightarrow> string \<Rightarrow> governorStatus option \<Rightarrow> AgentApi \<Rightarrow> goerr option \<times> AgentApi" where
  "updateNodeTwinGovernorStatus fmtTime now nodeName component s api =
     (case s of
        None \<Rightarrow> patchNodeTwinControlStatus now nodeName component ''removed'' None api
      | Some g \<Rightarrow>
          patchNodeTwinControlStatus now nodeName component
            (gst_backend g @ ''|'' @ gst_result g @ ''|'' @ gst_message g @ ''|'' @ gst_applied g)
            (Some \<lparr>sen_backend = gst_backend g, sen_result = gst_result g, sen_message = gst_message g,
                   sen_applied = (if gst_applied g \<noteq> [] then Some (gst_applied g) else None), sen_updatedAt = fmtTime now\<rparr>) api)"

section \<open>Shards of pool mode\<close>

unbundle bit_operations_syntax

text \<open>The 32-bit FNV-1a hash of \<open>hash/fnv\<close>, on the bytes of the name.\<close>

definition fnvStep :: "32 word \<Rightarrow> char \<Rightarrow> 32 word" where
  "fnvStep h c = (h XOR of_char c) * 16777619"

definition fnv32a :: "string \<Rightarrow> 32 word" where
  "fnv32a s = foldl fnvStep 2166136261 s"

definition ownsNodeForShard :: "string \<Rightarrow> int \<Rightarrow> int \<Rightarrow> bool" where
  "ownsNodeForShard nodeName shards shardID \<longleftrightarrow>
     (shards \<le> 1 \<or> uint (fnv32a nodeName mod (word_of_int shards :: 32 word)) = shardID)"

definition resolvePoolShardID :: "strmap \<Rightarrow> int" where
  "resolvePoolShardID env =
     (let raw = TrimSpace (map_get env ''POOL_SHARD_ID'')
      in case (if raw \<noteq> [] then Atoi raw else None) of
           Some v \<Rightarrow> v
         | None \<Rightarrow>
             (let podName = TrimSpace (map_get env ''POD_NAME'')
              in if podName = [] then 0
                 else if CHR ''-'' \<notin> set podName \<or> last podName = CHR ''-'' then 0
                 else (case Atoi (rev (takeWhile (\<lambda>c. c \<noteq> CHR ''-'') (rev podName))) of Some v \<Rightarrow> v | None \<Rightarrow> 0)))"

text \<open>The guards of \<open>runPoolMode\<close>: a pod runs only with a shard id that exists.\<close>

definition poolShardOk :: "int \<Rightarrow> int \<Rightarrow> bool" where
  "poolShardOk shards shardID \<longleftrightarrow> shards > 0 \<and> 0 \<le> shardID \<and> shardID < shards"

section \<open>Lemmas: shards\<close>

lemma owned_by_residue:
  assumes "1 < shards" "shards < 2 ^ 32"
  shows "ownsNodeForShard n shards i \<longleftrightarrow> i = uint (fnv32a n) mod shards"
proof -
  have "uint (word_of_int shards :: 32 word) = shards" using assms by (simp add: uint_word_of_int)
  then have "uint (fnv32a n mod word_of_int shards) = uint (fnv32a n) mod shards" by (simp add: uint_mod)
  then show ?thesis using assms by (auto simp: ownsNodeForShard_def)
qed

text \<open>Pool mode gives every node to exactly one pod: of the shard ids a pool of a given size can have,
  exactly one owns the node, whatever its name. No node is reconciled twice and none is left out.\<close>

theorem shards_partition:
  assumes "1 \<le> shards" "shards < 2 ^ 32"
  shows "\<exists>!shardID. poolShardOk shards shardID \<and> ownsNodeForShard nodeName shards shardID"
proof (cases "shards = 1")
  case True
  then show ?thesis by (intro ex1I [of _ 0]) (auto simp: poolShardOk_def ownsNodeForShard_def)
next
  case False
  then have "1 < shards" using assms by simp
  then show ?thesis
    using owned_by_residue [OF _ assms(2)]
    by (intro ex1I [of _ "uint (fnv32a nodeName) mod shards"]) (auto simp: poolShardOk_def)
qed

section \<open>Lemmas: two writers of one object\<close>

text \<open>
  A writer with a view of the state that its own actions update and no other action touches:
  in any interleaving its view is what its own actions alone make of it.
\<close>

locale writer_view =
  fixes run :: "'a \<Rightarrow> 's \<Rightarrow> 's" and mine :: "'a \<Rightarrow> bool" and view :: "'s \<Rightarrow> 'v"
    and effect :: "'a \<Rightarrow> 'v \<Rightarrow> 'v" and ok :: "'s \<Rightarrow> bool"
  assumes own: "ok s \<Longrightarrow> mine a \<Longrightarrow> view (run a s) = effect a (view s)"
    and foreign: "ok s \<Longrightarrow> \<not> mine a \<Longrightarrow> view (run a s) = view s"
    and keeps_ok: "ok s \<Longrightarrow> ok (run a s)"
begin

lemma run_ok: "ok s \<Longrightarrow> ok (fold run as s)"
  by (induction as arbitrary: s) (auto simp: keeps_ok)

lemma interleaved: "ok s \<Longrightarrow> view (fold run as s) = fold effect (filter mine as) (view s)"
  by (induction as arbitrary: s) (auto simp: own foreign keeps_ok)

end

datatype twinWrite =
    AgentStatus int string string "statusEntry option"
  | ManagerSpec NodeAssignment
  | ManagerStatus "int \<Rightarrow> string" bool NodeTwinStatus

fun byAgent :: "twinWrite \<Rightarrow> bool" where
  "byAgent (AgentStatus _ _ _ _) = True"
| "byAgent _ = False"

fun writeTwin :: "string \<Rightarrow> twinWrite \<Rightarrow> AgentApi \<Rightarrow> AgentApi" where
  "writeTwin n (AgentStatus now component fingerprint entry) api = snd (patchNodeTwinControlStatus now n component fingerprint entry api)"
| "writeTwin n (ManagerSpec a) api = api\<lparr>aa_store := snd (upsertNodeTwinSpec (a\<lparr>na_nodeName := n\<rparr>) (aa_store api))\<rparr>"
| "writeTwin n (ManagerStatus fmtTime conds st) api = api\<lparr>aa_store := snd (upsertNodeTwinStatus fmtTime n conds st (aa_store api))\<rparr>"

definition twinOf :: "string \<Rightarrow> AgentApi \<Rightarrow> V1NodeTwin option" where
  "twinOf n api = sto_twins (aa_store api) (ObjectNameForNode n)"

text \<open>The two halves: the control status with the agent's write record, and everything else.\<close>

definition agentHalf :: "string \<Rightarrow> AgentApi \<Rightarrow> lastWrites \<times> V1ControlStatus option" where
  "agentHalf n api = (aa_writes api, agentPart (twinOf n api))"

definition withoutControl :: "V1NodeTwin \<Rightarrow> V1NodeTwin" where
  "withoutControl t = t\<lparr>nt_status := (nt_status t)\<lparr>vts_controlStatus := None\<rparr>\<rparr>"

definition managerHalf :: "string \<Rightarrow> AgentApi \<Rightarrow> V1NodeTwin option" where
  "managerHalf n api = map_option withoutControl (twinOf n api)"

fun agentEffect :: "string \<Rightarrow> twinWrite \<Rightarrow> lastWrites \<times> V1ControlStatus option \<Rightarrow> lastWrites \<times> V1ControlStatus option" where
  "agentEffect n (AgentStatus now component fingerprint entry) (ws, cs) =
     (case shouldWrite (''controlStatus|'' @ ObjectNameForNode n @ ''|'' @ component) fingerprint now ws of
        (False, _) \<Rightarrow> (ws, cs)
      | (True, ws') \<Rightarrow> (ws', Some (mergeComponent component entry (case cs of Some c \<Rightarrow> c | None \<Rightarrow> emptyControlStatus))))"
| "agentEffect n _ v = v"

fun managerEffect :: "string \<Rightarrow> twinWrite \<Rightarrow> V1NodeTwin option \<Rightarrow> V1NodeTwin option" where
  "managerEffect n (ManagerSpec a) v = map_option (\<lambda>t. t\<lparr>nt_spec := twinSpecOf (a\<lparr>na_nodeName := n\<rparr>)\<rparr>) v"
| "managerEffect n (ManagerStatus fmtTime conds st) v = map_option (\<lambda>t. t\<lparr>nt_status := patchStatus fmtTime st (nt_status t)\<rparr>) v"
| "managerEffect n _ v = v"

definition twinThere :: "string \<Rightarrow> AgentApi \<Rightarrow> bool" where
  "twinThere n api \<longleftrightarrow> reachable (aa_store api) \<and> twinOf n api \<noteq> None"

lemma withoutControl_merge [simp]: "withoutControl (mergeControlStatus c e t) = withoutControl t"
  by (simp add: withoutControl_def mergeControlStatus_def Let_def)

lemma agent_write:
  assumes "reachable (aa_store api)" "twinOf n api = Some t"
  shows "writeTwin n (AgentStatus now c fp e) api =
    (case shouldWrite (''controlStatus|'' @ ObjectNameForNode n @ ''|'' @ c) fp now (aa_writes api) of
       (False, _) \<Rightarrow> api
     | (True, ws) \<Rightarrow> \<lparr>aa_writes = ws, aa_store = (aa_store api)\<lparr>sto_twins := (sto_twins (aa_store api))
         (ObjectNameForNode n \<mapsto> mergeControlStatus c e t)\<rparr>\<rparr>)"
  using assms by (simp add: patchNodeTwinControlStatus_def patchObject_def twinOf_def reachable_err Let_def split: prod.splits bool.splits)

lemma spec_write:
  assumes "reachable (aa_store api)" "twinOf n api = Some t"
  shows "writeTwin n (ManagerSpec a) api = api\<lparr>aa_store := (aa_store api)\<lparr>sto_twins := (sto_twins (aa_store api))
    (ObjectNameForNode n \<mapsto> t\<lparr>nt_spec := twinSpecOf (a\<lparr>na_nodeName := n\<rparr>)\<rparr>)\<rparr>\<rparr>"
proof (cases "nt_spec t = twinSpecOf (a\<lparr>na_nodeName := n\<rparr>)")
  case True
  then have "t\<lparr>nt_spec := twinSpecOf (a\<lparr>na_nodeName := n\<rparr>)\<rparr> = t" by (cases t) simp
  then have "api\<lparr>aa_store := (aa_store api)\<lparr>sto_twins := (sto_twins (aa_store api))
      (ObjectNameForNode n \<mapsto> t\<lparr>nt_spec := twinSpecOf (a\<lparr>na_nodeName := n\<rparr>)\<rparr>)\<rparr>\<rparr> = api"
    using assms(2) by (simp add: twinOf_def fun_upd_idem)
  then show ?thesis
    using True assms by (simp add: upsertNodeTwinSpec_def twinOf_def reachable_err Let_def)
next
  case False
  then show ?thesis
    using assms reachable_writes(2) [OF assms(1)] by (simp add: upsertNodeTwinSpec_def twinOf_def reachable_err Let_def)
qed

lemma status_write:
  assumes "reachable (aa_store api)" "twinOf n api = Some t"
  shows "writeTwin n (ManagerStatus f conds st) api = api\<lparr>aa_store := (aa_store api)\<lparr>sto_twins := (sto_twins (aa_store api))
    (ObjectNameForNode n \<mapsto> t\<lparr>nt_status := patchStatus f st (nt_status t)\<rparr>)\<rparr>\<rparr>"
  using assms upsertNodeTwinStatus_ok [of "aa_store api" n t f conds st] by (simp add: twinOf_def)

lemmas twin_writes = agent_write spec_write status_write

lemma patchStatus_withoutControl:
  "(patchStatus f st old)\<lparr>vts_controlStatus := x\<rparr> = patchStatus f st (old\<lparr>vts_controlStatus := x\<rparr>)"
  by (cases old) (simp add: patchStatus_def split: option.split)

lemma twinThere_write: "twinThere n api \<Longrightarrow> twinThere n (writeTwin n a api)"
  by (cases a) (auto simp: twinThere_def twin_writes twinOf_def simp del: writeTwin.simps split: prod.splits bool.splits)

interpretation agentWriter: writer_view "writeTwin n" byAgent "agentHalf n" "agentEffect n" "twinThere n" for n
proof unfold_locales
  fix api a assume ok: "twinThere n api"
  then obtain t where t: "reachable (aa_store api)" "twinOf n api = Some t" by (auto simp: twinThere_def)
  show "byAgent a \<Longrightarrow> agentHalf n (writeTwin n a api) = agentEffect n a (agentHalf n api)"
    using t by (cases a) (auto simp: twin_writes agentHalf_def twinOf_def agentPart_def mergeControlStatus_def Let_def
        simp del: writeTwin.simps split: prod.splits bool.splits)
  show "\<not> byAgent a \<Longrightarrow> agentHalf n (writeTwin n a api) = agentHalf n api"
    using t by (cases a) (auto simp: twin_writes agentHalf_def twinOf_def agentPart_def simp del: writeTwin.simps)
  show "twinThere n (writeTwin n a api)" by (rule twinThere_write [OF ok])
qed

interpretation managerWriter: writer_view "writeTwin n" "\<lambda>a. \<not> byAgent a" "managerHalf n" "managerEffect n" "twinThere n" for n
proof unfold_locales
  fix api a assume ok: "twinThere n api"
  then obtain t where t: "reachable (aa_store api)" "twinOf n api = Some t" by (auto simp: twinThere_def)
  show "\<not> byAgent a \<Longrightarrow> managerHalf n (writeTwin n a api) = managerEffect n a (managerHalf n api)"
    using t by (cases a) (auto simp: twin_writes managerHalf_def twinOf_def withoutControl_def patchStatus_withoutControl
        simp del: writeTwin.simps)
  show "\<not> \<not> byAgent a \<Longrightarrow> managerHalf n (writeTwin n a api) = managerHalf n api"
    using t by (cases a) (auto simp: twin_writes managerHalf_def twinOf_def simp del: writeTwin.simps split: prod.splits bool.splits)
  show "twinThere n (writeTwin n a api)" by (rule twinThere_write [OF ok])
qed


definition exampleTwin :: V1NodeTwin where
  "exampleTwin = \<lparr>nt_spec = nt_spec (minimalTwin ''n1''), nt_status = emptyTwinStatus\<lparr>vts_controlStatus := Some (emptyControlStatus
     \<lparr>vct_cpuGovernor := Some \<lparr>vrs_backend = ''cpufreq'', vrs_result = ''applied'', vrs_message = [],
        vrs_applied = ''performance'', vrs_updatedAt = ''t0''\<rparr>\<rparr>)\<rparr>\<rparr>"

definition exampleApi :: AgentApi where
  "exampleApi = \<lparr>aa_writes = Map.empty, aa_store = \<lparr>sto_twins = (\<lambda>k. if k = ''n1'' then Some exampleTwin else None),
     sto_nodes = Map.empty, sto_err = (\<lambda>_ _. None), sto_meanwhile = (\<lambda>_ _. None)\<rparr>\<rparr>"

lemma example_name: "ObjectNameForNode ''n1'' = ''n1''"
  by code_simp

definition exampleWrites :: "twinWrite list" where
  "exampleWrites =
     [ManagerStatus (\<lambda>_. ''t1'') True \<lparr>ts_schedulableClass = ''eco'', ts_powerMeasurement = None, ts_headroomScore = 40,
        ts_coolingStressScore = 10, ts_psuStressScore = 20, ts_effectiveCapState = \<lparr>cs_cpuPct = 60, cs_gpuPct = 100\<rparr>,
        ts_estimatedPUE = 1, ts_controlStatus = None, ts_lastUpdated = Some 1\<rparr>,
      AgentStatus 1 ''cpuGovernor'' ''removed'' None, ManagerSpec (mkAssignment ''n1'' ''eco'' 100 ''static'')]"


text \<open>C25: A governor status without an applied setting does not clear the one that is stored: the entry the agent
  builds leaves the key out, and a merge patch keeps a stored key that the patch does not name. After a published
  status with an empty applied field the NodeTwin still names the earlier setting.\<close>

theorem governor_status_keeps_stale_applied:
  assumes "reachable (aa_store api)" and "sto_twins (aa_store api) (ObjectNameForNode n) = Some t"
    and "vts_controlStatus (nt_status t) = Some cs" and "vct_cpuGovernor cs = Some old"
    and "aa_writes api (''controlStatus|'' @ ObjectNameForNode n @ ''|'' @ componentCPUGovernor) = None"
    and "gst_applied g = []"
  shows "\<exists>api' cs' new. updateNodeTwinGovernorStatus fmtTime now n componentCPUGovernor (Some g) api = (None, api') \<and>
    agentPart (twinOf n api') = Some cs' \<and> vct_cpuGovernor cs' = Some new \<and>
    vrs_result new = gst_result g \<and> vrs_applied new = vrs_applied old"
  using assms
  by (simp add: updateNodeTwinGovernorStatus_def patchNodeTwinControlStatus_def shouldWrite_def patchObject_def reachable_def
      twinOf_def agentPart_def mergeControlStatus_def mergeComponent_def mergeEntry_def Let_def)

theorem governor_status_keeps_stale_applied_witness:
  "\<exists>api' cs' new. updateNodeTwinGovernorStatus (\<lambda>_. ''t1'') 1 ''n1'' componentCPUGovernor
      (Some \<lparr>gst_backend = ''cpufreq'', gst_result = ''unsupported'', gst_message = ''no'', gst_applied = []\<rparr>) exampleApi = (None, api') \<and>
    agentPart (twinOf ''n1'' api') = Some cs' \<and> vct_cpuGovernor cs' = Some new \<and>
    vrs_result new = ''unsupported'' \<and> vrs_applied new = ''performance''"
  using governor_status_keeps_stale_applied [of exampleApi "''n1''" exampleTwin "the (vts_controlStatus (nt_status exampleTwin))"
      "the (vct_cpuGovernor (the (vts_controlStatus (nt_status exampleTwin))))"
      "\<lparr>gst_backend = ''cpufreq'', gst_result = ''unsupported'', gst_message = ''no'', gst_applied = []\<rparr>" "\<lambda>_. ''t1''" 1]
  by (simp add: exampleApi_def exampleTwin_def example_name reachable_def emptyControlStatus_def)

end
