(* ===== verification/Gov_Discovery.thy ===== *)
theory Gov_Discovery
  imports Dvfs_Control Governor_Native Crd_Types
begin

text \<open>
  What the agent reads of the governors of its node, without writing: \<^verbatim>\<open>pkg/governor/discover\<close>
  (cpufreq policies and amdgpu devices under a sysfs root, NVIDIA GPUs through nvidia-smi) and
  \<^verbatim>\<open>cmd/agent/governor_discovery.go\<close> (the published inventory, the baseline grouped by equal
  state and its list of policies in the kernel's form). The host is the one of the DVFS
  controller with the further calls discovery makes; a query of nvidia-smi is a function from
  its arguments to its output or error.
\<close>

section \<open>Host\<close>

record SysHost = Host +
  sh_readDir :: "string \<Rightarrow> string list option"
  sh_readlink :: "string \<Rightarrow> string option"
  sh_exists :: "string \<Rightarrow> bool"
  sh_writable :: "string \<Rightarrow> bool"

type_synonym Runner = "string list \<Rightarrow> goerr + string"

definition ReadWord :: "SysHost \<Rightarrow> string \<Rightarrow> string option" where
  "ReadWord h path = map_option TrimSpace (ho_files h path)"

definition sysWord :: "SysHost \<Rightarrow> string \<Rightarrow> string" where
  "sysWord h path = (case ReadWord h path of Some s \<Rightarrow> s | None \<Rightarrow> [])"

definition Writable :: "SysHost \<Rightarrow> string list \<Rightarrow> bool" where
  "Writable h paths \<longleftrightarrow> paths \<noteq> [] \<and> list_all (sh_writable h) paths"

text \<open>\<open>strconv.ParseUint\<close> in base 16 at 64 bits, of a lower-case string.\<close>

definition hexDigit :: "char \<Rightarrow> nat option" where
  "hexDigit c = map_of (zip ''0123456789abcdef'' [0..<16]) c"

fun hexVal :: "nat \<Rightarrow> string \<Rightarrow> nat option" where
  "hexVal acc [] = Some acc"
| "hexVal acc (c # s) = (case hexDigit c of None \<Rightarrow> None | Some d \<Rightarrow> hexVal (acc * 16 + d) s)"

definition ParseHex64 :: "string \<Rightarrow> nat option" where
  "ParseHex64 s = (if s = [] then None else case hexVal 0 s of Some v \<Rightarrow> if v < 2 ^ 64 then Some v else None | None \<Rightarrow> None)"

section \<open>cpufreq\<close>

definition hostSysPath :: "string \<Rightarrow> string" where
  "hostSysPath rel = pathJoin HostSysRoot rel"

definition PolicyIDs :: "SysHost \<Rightarrow> int list" where
  "PolicyIDs h =
     sort (List.map_filter (\<lambda>m. Atoi (TrimPrefix (pathBase m) ''policy'')) (ho_glob h (hostSysPath (CPUFreqRelDir @ ''/policy*''))))"

record Policy =
  pol_ID :: int
  pol_governor :: string
  pol_epp :: string
  pol_boost :: string

record discoverCPU =
  dcp_facts :: CPUFacts
  dcp_policies :: "Policy list"
  dcp_hasEPP :: bool
  dcp_files :: "string list"

definition IsIntelPstate :: "string \<Rightarrow> bool" where
  "IsIntelPstate driver \<longleftrightarrow> driver = ''intel_pstate'' \<or> driver = ''intel_cpufreq''"

abbreviation procCPUInfoPath :: string where "procCPUInfoPath \<equiv> ''/proc/cpuinfo''"

definition hasHWP :: "SysHost \<Rightarrow> bool" where
  "hasHWP h =
     (case ho_files h procCPUInfoPath of
        None \<Rightarrow> False
      | Some b \<Rightarrow>
          (case find (\<lambda>line. case Cut line (CHR '':'') of (key, _, ok) \<Rightarrow> ok \<and> TrimSpace key = ''flags'') (Split b (CHR 0x0A)) of
             None \<Rightarrow> False
           | Some line \<Rightarrow> ''hwp'' \<in> set (Fields (fst (snd (Cut line (CHR '':'')))))))"

definition CPUDriverModeValues :: "string list" where
  "CPUDriverModeValues = [''active'', ''passive'', ''guided'']"

definition driverMode :: "SysHost \<Rightarrow> string \<Rightarrow> string" where
  "driverMode h driver =
     (let status = (if IsIntelPstate driver then sysWord h (hostSysPath ''devices/system/cpu/intel_pstate/status'')
                    else if HasPrefix driver ''amd-pstate'' then sysWord h (hostSysPath ''devices/system/cpu/amd_pstate/status'')
                    else [])
      in if status \<in> set CPUDriverModeValues then status else [])"

definition boostScope :: "SysHost \<Rightarrow> string \<Rightarrow> int \<Rightarrow> string" where
  "boostScope h driver firstPolicy =
     (let perCPU = sh_exists h (hostSysPath (PolicyRelPath firstPolicy PolicyBoostFile))
      in if IsIntelPstate driver \<and> sh_exists h (hostSysPath NoTurboRelPath) then CPUBoostScopeNoTurbo
         else if HasPrefix driver ''amd-pstate'' \<and> perCPU then CPUBoostScopePerCPU
         else if sh_exists h (hostSysPath GlobalBoostRelPath) then CPUBoostScopeGlobal
         else if perCPU then CPUBoostScopePerCPU
         else [])"

definition boostWord :: "string \<Rightarrow> bool \<Rightarrow> string" where
  "boostWord v inverted =
     (if v \<noteq> ''0'' \<and> v \<noteq> ''1'' then []
      else if (v = ''1'') \<noteq> inverted then CPUGovernorBoostOn
      else CPUGovernorBoostOff)"

definition policyWord :: "SysHost \<Rightarrow> int \<Rightarrow> string \<Rightarrow> string" where
  "policyWord h n f = sysWord h (hostSysPath (PolicyRelPath n f))"

text \<open>The state of one policy, given the scope of boost and its node-wide word.\<close>

definition policyState :: "SysHost \<Rightarrow> bool \<Rightarrow> string \<Rightarrow> string \<Rightarrow> int \<Rightarrow> Policy" where
  "policyState h hasEPP scope globalBoost n =
     \<lparr>pol_ID = n, pol_governor = policyWord h n PolicyGovernorFile,
      pol_epp = (if hasEPP then policyWord h n PolicyEPPFile else []),
      pol_boost = (if scope = CPUBoostScopePerCPU then boostWord (policyWord h n PolicyBoostFile) False else globalBoost)\<rparr>"

definition policyFiles :: "bool \<Rightarrow> string \<Rightarrow> int \<Rightarrow> string list" where
  "policyFiles hasEPP scope n =
     hostSysPath (PolicyRelPath n PolicyGovernorFile) #
     (if hasEPP then [hostSysPath (PolicyRelPath n PolicyEPPFile)] else []) @
     (if scope = CPUBoostScopePerCPU then [hostSysPath (PolicyRelPath n PolicyBoostFile)] else [])"

definition ReadCPU :: "SysHost \<Rightarrow> discoverCPU option" where
  "ReadCPU h =
     (case filter (\<lambda>n. policyWord h n PolicyGovernorFile \<noteq> []) (PolicyIDs h) of
        [] \<Rightarrow> None
      | first # rest \<Rightarrow>
          (let ids = first # rest;
               driver = policyWord h first ''scaling_driver'';
               hasEPP = sh_exists h (hostSysPath (PolicyRelPath first PolicyEPPFile));
               scope = boostScope h driver first;
               globalBoost = (if scope = CPUBoostScopeGlobal then boostWord (sysWord h (hostSysPath GlobalBoostRelPath)) False
                              else if scope = CPUBoostScopeNoTurbo then boostWord (sysWord h (hostSysPath NoTurboRelPath)) True
                              else [])
           in Some \<lparr>dcp_facts =
                     \<lparr>cf_driver = driver, cf_driverMode = driverMode h driver,
                      cf_hwp = (hasHWP h \<or> (IsIntelPstate driver \<and> hasEPP)),
                      cf_governors = Fields (policyWord h first ''scaling_available_governors''),
                      cf_epps = (if hasEPP then EPPSupport driver (policyWord h first PolicyGovernorFile)
                                   (Fields (policyWord h first ''energy_performance_available_preferences'')) else []),
                      cf_boostScope = scope, cf_policies = ids\<rparr>,
                   dcp_policies = map (policyState h hasEPP scope globalBoost) ids,
                   dcp_hasEPP = hasEPP,
                   dcp_files = concat (map (policyFiles hasEPP scope) ids) @
                     (if scope = CPUBoostScopeGlobal then [hostSysPath GlobalBoostRelPath]
                      else if scope = CPUBoostScopeNoTurbo then [hostSysPath NoTurboRelPath] else [])\<rparr>))"

record Landmarks =
  lm_minMHz :: f64
  lm_maxBoostMHz :: f64
  lm_nominalMHz :: f64

definition readMHz :: "(string \<Rightarrow> f64 option) \<Rightarrow> SysHost \<Rightarrow> string \<Rightarrow> f64 option" where
  "readMHz parseFloat64 h path =
     (case ReadWord h path of
        None \<Rightarrow> None
      | Some s \<Rightarrow> (case parseFloat64 s of None \<Rightarrow> None | Some khz \<Rightarrow> if khz \<le> 0 then None else Some (khz / 1000)))"

definition addLandmarks :: "(string \<Rightarrow> f64 option) \<Rightarrow> SysHost \<Rightarrow> int \<Rightarrow> Landmarks \<Rightarrow> Landmarks" where
  "addLandmarks parseFloat64 h n lm =
     (let rd = (\<lambda>f. readMHz parseFloat64 h (hostSysPath (PolicyRelPath n f)));
          lm = (case rd ''cpuinfo_min_freq'' of
                  Some mhz \<Rightarrow> if lm_minMHz lm = 0 \<or> mhz < lm_minMHz lm then lm\<lparr>lm_minMHz := mhz\<rparr> else lm | None \<Rightarrow> lm);
          lm = (case rd ''cpuinfo_max_freq'' of
                  Some mhz \<Rightarrow> if mhz > lm_maxBoostMHz lm then lm\<lparr>lm_maxBoostMHz := mhz\<rparr> else lm | None \<Rightarrow> lm)
      in case rd ''base_frequency'' of
           Some mhz \<Rightarrow> if mhz > lm_nominalMHz lm then lm\<lparr>lm_nominalMHz := mhz\<rparr> else lm
         | None \<Rightarrow> lm)"

definition ReadLandmarks :: "(string \<Rightarrow> f64 option) \<Rightarrow> SysHost \<Rightarrow> Landmarks" where
  "ReadLandmarks parseFloat64 h =
     fold (addLandmarks parseFloat64 h) (PolicyIDs h) \<lparr>lm_minMHz = 0, lm_maxBoostMHz = 0, lm_nominalMHz = 0\<rparr>"

section \<open>amdgpu\<close>

definition amdFamilies :: "(string \<times> string) list" where
  "amdFamilies =
     [(''0x7448'', AMDFamilyNavi31), (''0x744c'', AMDFamilyNavi31), (''0x745e'', AMDFamilyNavi31),
      (''0x7408'', AMDFamilyAldebaran), (''0x740c'', AMDFamilyAldebaran), (''0x740f'', AMDFamilyAldebaran),
      (''0x74a0'', AMDFamilyMI300), (''0x74a1'', AMDFamilyMI300), (''0x74a5'', AMDFamilyMI300)]"

definition AMDFamily :: "string \<Rightarrow> string" where
  "AMDFamily deviceID = (case map_of amdFamilies (ToLower deviceID) of Some f \<Rightarrow> f | None \<Rightarrow> [])"

text \<open>One line of a DPM table: the clock of a numbered level.\<close>

definition dpmLine :: "string \<Rightarrow> int option" where
  "dpmLine line =
     (case Cut line (CHR '':'') of (key, value, ok) \<Rightarrow>
        if \<not> ok \<or> Atoi (TrimSpace key) = None then None
        else case Fields value of
               [] \<Rightarrow> None
             | f # _ \<Rightarrow>
                 (case Atoi (TrimSuffix (TrimSuffix f ''Mhz'') ''MHz'') of
                    None \<Rightarrow> None
                  | Some mhz \<Rightarrow> if mhz \<le> 0 then None else Some mhz))"

definition widenMHz :: "int \<Rightarrow> int \<times> int \<Rightarrow> int \<times> int" where
  "widenMHz mhz r = (if fst r = 0 \<or> mhz < fst r then mhz else fst r, max (snd r) mhz)"

definition DPMRangeMHz :: "SysHost \<Rightarrow> string \<Rightarrow> int \<times> int" where
  "DPMRangeMHz h path =
     (case ReadWord h path of
        None \<Rightarrow> (0, 0)
      | Some s \<Rightarrow> fold widenMHz (List.map_filter dpmLine (Split s (CHR 0x0A))) (0, 0))"

record AMDDevice =
  ad_facts :: AMDFacts
  ad_files :: "string list"

definition amdDeviceOf :: "SysHost \<Rightarrow> string \<Rightarrow> AMDDevice option" where
  "amdDeviceOf h entry =
     (let dev = pathJoin (hostSysPath PCIDevicesRelDir) entry;
          levelFile = pathJoin dev AMDLevelFile; level = sysWord h levelFile;
          odFile = pathJoin dev AMDODFile
      in if sysWord h (pathJoin dev ''vendor'') \<noteq> ''0x1002'' \<or> level = [] then None
         else if (case sh_readlink h (pathJoin dev ''driver'') of Some target \<Rightarrow> pathBase target \<noteq> ''amdgpu'' | None \<Rightarrow> False) then None
         else (let deviceID = ToLower (sysWord h (pathJoin dev ''device'')); od = sh_exists h odFile
               in Some \<lparr>ad_facts =
                          \<lparr>af_busID = ToLower entry, af_deviceID = deviceID, af_family = AMDFamily deviceID, af_level = level,
                           af_od = od, af_sclkMHz = DPMRangeMHz h (pathJoin dev ''pp_dpm_sclk''),
                           af_mclkMHz = DPMRangeMHz h (pathJoin dev ''pp_dpm_mclk''),
                           af_fclkMHz = DPMRangeMHz h (pathJoin dev ''pp_dpm_fclk'')\<rparr>,
                        ad_files = levelFile # (if od then [odFile] else [])\<rparr>))"

definition ReadAMD :: "SysHost \<Rightarrow> AMDDevice list" where
  "ReadAMD h =
     (case sh_readDir h (hostSysPath PCIDevicesRelDir) of
        None \<Rightarrow> []
      | Some entries \<Rightarrow> List.map_filter (amdDeviceOf h) entries)"

section \<open>nvidia-smi\<close>

definition nvProductArch :: "(string \<times> string) list" where
  "nvProductArch =
     map (\<lambda>t. (t, NVArchAmpere)) [''A100'', ''A800'', ''A40'', ''A30'', ''A10'', ''A16'', ''A2''] @
     map (\<lambda>t. (t, NVArchAda)) [''L4'', ''L40'', ''L40S'', ''L20'', ''ADA''] @
     map (\<lambda>t. (t, NVArchHopper)) [''H100'', ''H200'', ''H800'', ''H20'', ''GH200''] @
     map (\<lambda>t. (t, NVArchBlackwell)) [''B100'', ''B200'', ''B300'', ''GB200'', ''GB300'', ''BLACKWELL'']"

definition nvFamilyArch :: "(string \<times> string) list" where
  "nvFamilyArch = [(''ampere'', NVArchAmpere), (''ada'', NVArchAda), (''ada-lovelace'', NVArchAda),
     (''hopper'', NVArchHopper), (''blackwell'', NVArchBlackwell)]"

definition nvComputeArch :: "int \<Rightarrow> int \<Rightarrow> string" where
  "nvComputeArch major minor =
     (if major = 8 \<and> minor = 9 then NVArchAda else if major = 8 then NVArchAmpere
      else if major = 9 then NVArchHopper else if major = 10 \<or> major = 12 then NVArchBlackwell else [])"

definition NvidiaArch :: "strmap \<Rightarrow> string \<Rightarrow> string" where
  "NvidiaArch nodeLabels product' =
     (case Atoi (map_get nodeLabels ''nvidia.com/gpu.compute.major'') of
        Some major \<Rightarrow> nvComputeArch major (AtoiValue (map_get nodeLabels ''nvidia.com/gpu.compute.minor''))
      | None \<Rightarrow>
          (case find (\<lambda>tok. map_of nvProductArch tok \<noteq> None)
                  (FieldsFunc (ToUpper product') (\<lambda>c. c = CHR '' '' \<or> c = CHR ''-'')) of
             Some tok \<Rightarrow> the (map_of nvProductArch tok)
           | None \<Rightarrow> (case map_of nvFamilyArch (ToLower (map_get nodeLabels ''nvidia.com/gpu.family'')) of
                        Some arch \<Rightarrow> arch | None \<Rightarrow> [])))"

definition clockQueryArgs :: "string \<Rightarrow> string list" where
  "clockQueryArgs reasonsField =
     [''--query-gpu='' @ ''pci.bus_id,clocks.sm,clocks.mem,clocks.max.sm,clocks.max.mem,pstate,'' @ reasonsField,
      ''--format=csv,noheader,nounits'']"

abbreviation reasonsFieldThrottle :: string where "reasonsFieldThrottle \<equiv> ''clocks_throttle_reasons.active''"
abbreviation reasonsFieldEvent :: string where "reasonsFieldEvent \<equiv> ''clocks_event_reasons.active''"
abbreviation NvidiaSupportedClocksArgs :: "string list" where "NvidiaSupportedClocksArgs \<equiv> [''-q'', ''-d'', ''SUPPORTED_CLOCKS'']"

record NvidiaClocks =
  ncl_busID :: string
  ncl_smMHz :: int
  ncl_memMHz :: int
  ncl_maxSMMHz :: int
  ncl_maxMemMHz :: int
  ncl_reasons :: nat
  ncl_clocksOK :: bool
  ncl_reasonsOK :: bool

definition splitCSV :: "string \<Rightarrow> string list" where
  "splitCSV line = map (\<lambda>p. TrimSpace (Trim (TrimSpace p) [CHR 0x22])) (Split line (CHR '',''))"

definition parseMHz :: "(string \<Rightarrow> f64 option) \<Rightarrow> string \<Rightarrow> int option" where
  "parseMHz parseFloat64 s =
     (case Fields s of
        [] \<Rightarrow> None
      | f # _ \<Rightarrow> (case parseFloat64 f of None \<Rightarrow> None | Some v \<Rightarrow> if v \<le> 0 then None else Some (go_trunc v)))"

definition orZero :: "int option \<Rightarrow> int" where
  "orZero v = (case v of Some x \<Rightarrow> x | None \<Rightarrow> 0)"

definition FieldRejected :: "goerr \<Rightarrow> bool" where
  "FieldRejected err = Contains err ''is not a valid field to query''"

text \<open>The row of one GPU; \<open>None\<close> for a line with too few fields or no bus id.\<close>

definition clockRow :: "(string \<Rightarrow> f64 option) \<Rightarrow> string \<Rightarrow> NvidiaClocks option" where
  "clockRow parseFloat64 line =
     (let p = splitCSV line
      in if length p < 5 \<or> hd p = [] then None
         else (let sm = parseMHz parseFloat64 (p ! 1); mem = parseMHz parseFloat64 (p ! 2);
                   reasons = (if length p \<ge> 7 then ParseHex64 (TrimPrefix (ToLower (p ! 6)) ''0x'') else None)
               in Some \<lparr>ncl_busID = hd p, ncl_smMHz = orZero sm, ncl_memMHz = orZero mem,
                        ncl_maxSMMHz = orZero (parseMHz parseFloat64 (p ! 3)), ncl_maxMemMHz = orZero (parseMHz parseFloat64 (p ! 4)),
                        ncl_reasons = (case reasons of Some v \<Rightarrow> v | None \<Rightarrow> 0),
                        ncl_clocksOK = (sm \<noteq> None \<and> mem \<noteq> None), ncl_reasonsOK = (reasons \<noteq> None)\<rparr>))"

definition QueryNvidiaClocks :: "(string \<Rightarrow> f64 option) \<Rightarrow> Runner \<Rightarrow> goerr + NvidiaClocks list" where
  "QueryNvidiaClocks parseFloat64 run =
     (case (case run (clockQueryArgs reasonsFieldThrottle) of
              Inl err \<Rightarrow> if FieldRejected err then run (clockQueryArgs reasonsFieldEvent) else Inl err
            | Inr out \<Rightarrow> Inr out) of
        Inl err \<Rightarrow> Inl err
      | Inr out \<Rightarrow> Inr (List.map_filter (clockRow parseFloat64) (Split (TrimSpace out) (CHR 0x0A))))"

record NvidiaSupported =
  nsu_sm :: "int list"
  nsu_mem :: "int list"

definition emptySupported :: NvidiaSupported where
  "emptySupported = \<lparr>nsu_sm = [], nsu_mem = []\<rparr>"

text \<open>The state of the scan: the GPUs seen and the key of the current one.\<close>

definition supportedLine ::
  "(string \<Rightarrow> f64 option) \<Rightarrow> string \<Rightarrow> (string \<Rightarrow> NvidiaSupported option) \<times> string option \<Rightarrow>
   (string \<Rightarrow> NvidiaSupported option) \<times> string option" where
  "supportedLine parseFloat64 line st =
     (case st of (res, cur) \<Rightarrow>
       (let t = TrimSpace line; rest = TrimPrefix t ''GPU ''
        in if HasPrefix t ''GPU '' \<and> CHR '':'' \<in> set rest \<and> \<not> list_ex (\<lambda>c. c = CHR '' '' \<or> c = CHR 0x09) (TrimSpace rest)
           then (let k = ToLower (TrimSpace rest) in (res(k \<mapsto> emptySupported), Some k))
           else (case (Cut t (CHR '':''), cur) of
                   ((key, value, True), Some k) \<Rightarrow>
                     (case (parseMHz parseFloat64 value, res k) of
                        (Some mhz, Some s) \<Rightarrow>
                          if TrimSpace key = ''Memory'' then (res(k \<mapsto> s\<lparr>nsu_mem := nsu_mem s @ [mhz]\<rparr>), cur)
                          else if TrimSpace key = ''Graphics'' then (res(k \<mapsto> s\<lparr>nsu_sm := nsu_sm s @ [mhz]\<rparr>), cur)
                          else st
                      | _ \<Rightarrow> st)
                 | _ \<Rightarrow> st)))"

definition ParseNvidiaSupportedClocks :: "(string \<Rightarrow> f64 option) \<Rightarrow> string \<Rightarrow> string \<Rightarrow> NvidiaSupported option" where
  "ParseNvidiaSupportedClocks parseFloat64 out =
     fst (fold (supportedLine parseFloat64) (Split out (CHR 0x0A)) (Map.empty, None))"

record NvidiaGPU =
  ng_busID :: string
  ng_facts :: NVFacts
  ng_maxSMMHz :: int
  ng_maxMemMHz :: int

definition NvidiaFacts :: "string \<Rightarrow> int list \<Rightarrow> int list \<Rightarrow> NVFacts" where
  "NvidiaFacts arch smMHz memMHz =
     \<lparr>nf_arch = arch, nf_supportedSMMHz = smMHz, nf_supportedMemMHz = memMHz, nf_memLockRuntime = (arch \<noteq> NVArchHopper),
      nf_lockedGPU = False, nf_lockedMem = False\<rparr>"

datatype nvidiaErr = ErrNvidiaClockQuery | ErrNvidiaSupportedClocks

definition ReadNvidia :: "(string \<Rightarrow> f64 option) \<Rightarrow> Runner \<Rightarrow> string \<Rightarrow> nvidiaErr + NvidiaGPU list" where
  "ReadNvidia parseFloat64 run arch =
     (case QueryNvidiaClocks parseFloat64 run of
        Inl _ \<Rightarrow> Inl ErrNvidiaClockQuery
      | Inr [] \<Rightarrow> Inl ErrNvidiaClockQuery
      | Inr rows \<Rightarrow>
          (case run NvidiaSupportedClocksArgs of
             Inl _ \<Rightarrow> Inl ErrNvidiaSupportedClocks
           | Inr text \<Rightarrow>
               (let supported = ParseNvidiaSupportedClocks parseFloat64 text
                in Inr (map (\<lambda>r. (let s = (case supported (ToLower (ncl_busID r)) of Some s \<Rightarrow> s | None \<Rightarrow> emptySupported)
                                  in \<lparr>ng_busID = ncl_busID r, ng_facts = NvidiaFacts arch (nsu_sm s) (nsu_mem s),
                                      ng_maxSMMHz = ncl_maxSMMHz r, ng_maxMemMHz = ncl_maxMemMHz r\<rparr>)) rows))))"

section \<open>Inventory and baseline\<close>

record cpuGovernorDiscovery =
  cgd_facts :: CPUFacts
  cgd_policies :: "Policy list"
  cgd_inventory :: V1CPUGovernorInventory

record nvidiaGovernorFacts =
  ngf_busID :: string
  ngf_facts :: NVFacts

record gpuGovernorDiscovery =
  ggd_amd :: "AMDFacts list"
  ggd_nvidia :: "nvidiaGovernorFacts list"
  ggd_devices :: "V1GPUGovernorDeviceState list"
  ggd_inventory :: V1GPUGovernorInventory

definition uniformOrMixed :: "string list \<Rightarrow> string" where
  "uniformOrMixed values =
     (case values of [] \<Rightarrow> [] | v # vs \<Rightarrow> if list_all (\<lambda>w. w = v) vs then v else GovernorCurrentMixed)"

definition discoverCPULandmarks :: "(string \<Rightarrow> f64 option) \<Rightarrow> SysHost \<Rightarrow> V1CPULandmarks option" where
  "discoverCPULandmarks parseFloat64 h =
     (let lm = ReadLandmarks parseFloat64 h
      in if lm = \<lparr>lm_minMHz = 0, lm_maxBoostMHz = 0, lm_nominalMHz = 0\<rparr> then None
         else Some \<lparr>vcl_minFreqMHz = lm_minMHz lm, vcl_nominalFreqMHz = lm_nominalMHz lm, vcl_maxBoostMHz = lm_maxBoostMHz lm,
                    vcl_lowestNonlinearFreqMHz = 0\<rparr>)"

definition cpuPresetSupport :: "CPUFacts \<Rightarrow> V1GovernorPresetSupport list" where
  "cpuPresetSupport f =
     List.map_filter (\<lambda>p. case PlanCPU f p [] of
        Inl _ \<Rightarrow> None
      | Inr plan \<Rightarrow> if pl_result plan = GovernorResultUnsupported then None
                    else Some \<lparr>gps_preset = p, gps_result = pl_result plan, gps_native = pl_native plan\<rparr>) (PresetsCPU f)"

definition discoverCPUGovernor :: "SysHost \<Rightarrow> cpuGovernorDiscovery option" where
  "discoverCPUGovernor h =
     map_option (\<lambda>c.
       (let f = dcp_facts c; ps = dcp_policies c; state = uniformOrMixed (map pol_boost ps)
        in \<lparr>cgd_facts = f, cgd_policies = ps,
            cgd_inventory =
              \<lparr>cgv_driver = cf_driver f, cgv_driverMode = cf_driverMode f, cgv_current = uniformOrMixed (map pol_governor ps),
               cgv_available = cf_governors f,
               cgv_epp = (if dcp_hasEPP c then Some \<lparr>cei_current = uniformOrMixed (map pol_epp ps), cei_available = cf_epps f\<rparr> else None),
               cgv_boost = (if cf_boostScope f \<noteq> []
                            then Some \<lparr>cbi_state = (if state = GovernorCurrentMixed then [] else state), cbi_scope = cf_boostScope f\<rparr> else None),
               cgv_presets = cpuPresetSupport f, cgv_baseline = None, cgv_writable = Writable h (dcp_files c)\<rparr>\<rparr>)) (ReadCPU h)"

text \<open>The kernel's list form: a maximal run of consecutive numbers is one part.\<close>

fun runEnd :: "int \<Rightarrow> int list \<Rightarrow> int \<times> int list" where
  "runEnd i [] = (i, [])"
| "runEnd i (j # js) = (if j = i + 1 then runEnd j js else (i, j # js))"

lemma runEnd_length: "length (snd (runEnd i js)) \<le> length js"
  by (induction i js rule: runEnd.induct) auto

function cpuListParts :: "int list \<Rightarrow> string list" where
  "cpuListParts [] = []"
| "cpuListParts (i # ids) =
     (case runEnd i ids of (j, rest) \<Rightarrow> (if j > i then Itoa i @ ''-'' @ Itoa j else Itoa i) # cpuListParts rest)"
  by pat_completeness auto

termination
  by (relation "measure length") (auto, metis runEnd_length le_imp_less_Suc snd_conv)

definition formatCPUList :: "int list \<Rightarrow> string" where
  "formatCPUList ids = Join (cpuListParts ids) '',''"

definition policyKey :: "Policy \<Rightarrow> string \<times> string \<times> string" where
  "policyKey s = (pol_governor s, pol_epp s, pol_boost s)"

definition cpuBaseline :: "cpuGovernorDiscovery \<Rightarrow> V1CPUGovernorState list" where
  "cpuBaseline c =
     (let ps = cgd_policies c
      in map (\<lambda>k. \<lparr>cgs_policies = formatCPUList (map pol_ID (filter (\<lambda>s. policyKey s = k) ps)),
                   cgs_governor = fst k, cgs_epp = fst (snd k), cgs_boost = snd (snd k)\<rparr>)
             (rev (remdups (rev (map policyKey ps)))))"

definition widenRange :: "f64 \<Rightarrow> f64 \<Rightarrow> V1ClockRangeMHz option \<Rightarrow> V1ClockRangeMHz option" where
  "widenRange lo hi r =
     (if lo \<le> 0 \<and> hi \<le> 0 then r
      else (let x = (case r of Some x \<Rightarrow> x | None \<Rightarrow> \<lparr>crm_min = 0, crm_max = 0\<rparr>);
                x = (if lo > 0 \<and> (crm_min x = 0 \<or> lo < crm_min x) then x\<lparr>crm_min := lo\<rparr> else x)
            in Some (if hi > crm_max x then x\<lparr>crm_max := hi\<rparr> else x)))"

definition gpuClockRanges :: "V1GPUClockRanges \<Rightarrow> V1GPUClockRanges option" where
  "gpuClockRanges r = (if gck_graphics r = None \<and> gck_memory r = None \<and> gck_fabric r = None then None else Some r)"

definition gpuPresetSupport :: "(string \<Rightarrow> (goerr + Plan) list) \<Rightarrow> V1GovernorPresetSupport list" where
  "gpuPresetSupport plans =
     List.map_filter (\<lambda>p.
       (let ps = plans p
        in if ps \<noteq> [] \<and> list_all (\<lambda>r. case r of Inl _ \<Rightarrow> False | Inr pl \<Rightarrow> pl_result pl \<noteq> GovernorResultUnsupported) ps
           then Some \<lparr>gps_preset = p,
                  gps_result = (if list_ex (\<lambda>r. case r of Inl _ \<Rightarrow> False | Inr pl \<Rightarrow> pl_result pl = GovernorResultEquivalent) ps
                                then GovernorResultEquivalent else GovernorResultApplied),
                  gps_native = (case hd ps of Inr pl \<Rightarrow> pl_native pl | Inl _ \<Rightarrow> [])\<rparr>
           else None)) GPUGovernorPresetValues"

definition widenAMD :: "AMDFacts \<Rightarrow> V1GPUClockRanges \<Rightarrow> V1GPUClockRanges" where
  "widenAMD f r =
     (let w = (\<lambda>p. widenRange (real_of_int (fst p)) (real_of_int (snd p)))
      in \<lparr>gck_graphics = w (af_sclkMHz f) (gck_graphics r), gck_memory = w (af_mclkMHz f) (gck_memory r),
          gck_fabric = w (af_fclkMHz f) (gck_fabric r)\<rparr>)"

definition noRanges :: V1GPUClockRanges where
  "noRanges = \<lparr>gck_graphics = None, gck_memory = None, gck_fabric = None\<rparr>"

definition discoverAMDGovernor :: "SysHost \<Rightarrow> gpuGovernorDiscovery option" where
  "discoverAMDGovernor h =
     (let devices = ReadAMD h; fs = map ad_facts devices; current = uniformOrMixed (map af_level fs)
      in if devices = [] then None
         else Some \<lparr>ggd_amd = fs, ggd_nvidia = [],
                    ggd_devices = map (\<lambda>f. \<lparr>gds_busID = af_busID f, gds_level = af_level f\<rparr>) fs,
                    ggd_inventory =
                      \<lparr>ggv_mechanism = GovernorBackendAMDGPUSysfs, ggv_current = current,
                       ggv_presets = gpuPresetSupport (\<lambda>p. map (\<lambda>f. PlanAMD f p DefaultCeilingPctOfMax) fs),
                       ggv_clockRangesMHz = gpuClockRanges (fold widenAMD fs noRanges), ggv_baseline = None,
                       ggv_writable = Writable h (concat (map ad_files devices)), ggv_uniform = (current \<noteq> GovernorCurrentMixed)\<rparr>\<rparr>)"

definition minMaxMHz :: "int list \<Rightarrow> f64 \<times> f64" where
  "minMaxMHz xs = (if xs = [] then (0, 0) else (real_of_int (Min (set xs)), real_of_int (Max (set xs))))"

definition widenNvidia :: "NvidiaGPU \<Rightarrow> V1GPUClockRanges \<Rightarrow> V1GPUClockRanges" where
  "widenNvidia g r =
     (let (smLo, smHi) = minMaxMHz (nf_supportedSMMHz (ng_facts g)); (memLo, memHi) = minMaxMHz (nf_supportedMemMHz (ng_facts g))
      in r\<lparr>gck_graphics := widenRange smLo (max smHi (real_of_int (ng_maxSMMHz g))) (gck_graphics r),
           gck_memory := widenRange memLo (max memHi (real_of_int (ng_maxMemMHz g))) (gck_memory r)\<rparr>)"

definition nvidiaDiscovery :: "NvidiaGPU list \<Rightarrow> gpuGovernorDiscovery" where
  "nvidiaDiscovery gpus =
     \<lparr>ggd_amd = [], ggd_nvidia = map (\<lambda>g. \<lparr>ngf_busID = ng_busID g, ngf_facts = ng_facts g\<rparr>) gpus,
      ggd_devices = map (\<lambda>g. \<lparr>gds_busID = ng_busID g, gds_level = GovernorStateUnknown\<rparr>) gpus,
      ggd_inventory =
        \<lparr>ggv_mechanism = GovernorBackendNvidiaSMI, ggv_current = GovernorStateUnknown,
         ggv_presets = gpuPresetSupport (\<lambda>p. map (\<lambda>g. PlanNvidia (ng_facts g) (ng_busID g) p DefaultCeilingPctOfMax) gpus),
         ggv_clockRangesMHz = gpuClockRanges (fold widenNvidia gpus noRanges), ggv_baseline = None,
         ggv_writable = True, ggv_uniform = False\<rparr>\<rparr>"

section \<open>The static facts of NVIDIA GPUs\<close>

record GPUDevice =
  gd_index :: int
  gd_vendor :: string
  gd_product :: string
  gd_powerWatts :: f64
  gd_currentCapWatts :: f64
  gd_minCapWatts :: f64
  gd_maxCapWatts :: f64
  gd_defaultCapWatts :: f64
  gd_busID :: string
  gd_hwmonDir :: string
  gd_capUnknown :: bool
  gd_capUnsupported :: string

definition nvidiaFactsTTL :: int where
  "nvidiaFactsTTL = 600000000000"

type_synonym nvidiaFactsKey = "string \<times> (int \<times> string \<times> f64 \<times> f64) list"

definition nvidiaFactsKeyOf :: "string \<Rightarrow> GPUDevice list \<Rightarrow> nvidiaFactsKey" where
  "nvidiaFactsKeyOf arch devices =
     (arch, map (\<lambda>d. (gd_index d, gd_product d, gd_minCapWatts d, gd_maxCapWatts d)) devices)"

text \<open>The cache is empty, or holds the GPUs with their key, the failure count at the read and its time.\<close>

record nvidiaFacts =
  nfa_key :: nvidiaFactsKey
  nfa_failures :: nat
  nfa_at :: int
  nfa_gpus :: "NvidiaGPU list"

type_synonym nvidiaFactsCache = "nvidiaFacts option"

definition readFacts ::
  "(string \<Rightarrow> f64 option) \<Rightarrow> Runner \<Rightarrow> int \<Rightarrow> nat \<Rightarrow> string \<Rightarrow> GPUDevice list \<Rightarrow> nvidiaFactsCache \<Rightarrow>
   (nvidiaErr + NvidiaGPU list) \<times> nvidiaFactsCache" where
  "readFacts parseFloat64 run now failures arch devices cache =
     (let key = nvidiaFactsKeyOf arch devices
      in case (case cache of
                 Some c \<Rightarrow> if nfa_key c = key \<and> nfa_failures c = failures \<and> now - nfa_at c < nvidiaFactsTTL then Some (nfa_gpus c) else None
               | None \<Rightarrow> None) of
           Some gpus \<Rightarrow> (Inr gpus, cache)
         | None \<Rightarrow>
             (case ReadNvidia parseFloat64 run arch of
                Inl err \<Rightarrow> (Inl err, None)
              | Inr gpus \<Rightarrow> (Inr gpus, Some \<lparr>nfa_key = key, nfa_failures = failures, nfa_at = now, nfa_gpus = gpus\<rparr>)))"

abbreviation warnNvidiaClockQuery :: string where
  "warnNvidiaClockQuery \<equiv> ''gpu governor not discovered: the nvidia-smi clock query failed''"
abbreviation warnNvidiaSupportedClocks :: string where
  "warnNvidiaSupportedClocks \<equiv> ''gpu governor not discovered: nvidia-smi -q -d SUPPORTED_CLOCKS failed''"

definition discoverNvidiaGovernor ::
  "(string \<Rightarrow> f64 option) \<Rightarrow> Runner \<Rightarrow> int \<Rightarrow> nat \<Rightarrow> strmap \<Rightarrow> string \<Rightarrow> GPUDevice list \<Rightarrow> nvidiaFactsCache \<Rightarrow>
   (gpuGovernorDiscovery option \<times> string) \<times> nvidiaFactsCache" where
  "discoverNvidiaGovernor parseFloat64 run now failures nodeLabels product' devices cache =
     (let arch = NvidiaArch nodeLabels product'
      in if arch = [] then ((None, []), cache)
         else case readFacts parseFloat64 run now failures arch devices cache of
                (Inl ErrNvidiaSupportedClocks, cache) \<Rightarrow> ((None, warnNvidiaSupportedClocks), cache)
              | (Inl ErrNvidiaClockQuery, cache) \<Rightarrow> ((None, warnNvidiaClockQuery), cache)
              | (Inr gpus, cache) \<Rightarrow> ((Some (nvidiaDiscovery gpus), []), cache))"

record governorDiscovery =
  gdi_cpu :: "cpuGovernorDiscovery option"
  gdi_gpu :: "gpuGovernorDiscovery option"
  gdi_gpuWarnings :: "string list"
  gdi_gpuKept :: "gpuGovernorDiscovery option"
  gdi_cpuBaseline :: "V1CPUGovernorBaseline option"
  gdi_gpuBaseline :: "V1GPUGovernorBaseline option"

definition discoverGovernors ::
  "(string \<Rightarrow> f64 option) \<Rightarrow> SysHost \<Rightarrow> Runner \<Rightarrow> int \<Rightarrow> nat \<Rightarrow> strmap \<Rightarrow> string \<Rightarrow> string \<Rightarrow> GPUDevice list \<Rightarrow> nvidiaFactsCache \<Rightarrow>
   governorDiscovery \<times> nvidiaFactsCache" where
  "discoverGovernors parseFloat64 h run now failures nodeLabels gpuVendor gpuRawModel devices cache =
     (let cache = (if gpuVendor \<noteq> ''nvidia'' \<or> devices = [] then None else cache);
          ((gpu, warning), cache) =
            (if gpuVendor = ''amd'' then ((discoverAMDGovernor h, []), cache)
             else if gpuVendor = ''nvidia'' \<and> devices \<noteq> []
             then discoverNvidiaGovernor parseFloat64 run now failures nodeLabels gpuRawModel devices cache
             else ((None, []), cache))
      in (\<lparr>gdi_cpu = discoverCPUGovernor h, gdi_gpu = gpu, gdi_gpuWarnings = (if warning \<noteq> [] then [warning] else []),
           gdi_gpuKept = None, gdi_cpuBaseline = None, gdi_gpuBaseline = None\<rparr>, cache))"

end
