(* ===== verification/Agent_Governor.thy ===== *)
theory Agent_Governor
  imports Agent_Status Gov_Discovery
begin

text \<open>
  Governor control of the node agent (\<^verbatim>\<open>cmd/agent/governor_control.go\<close>): the state machine that
  applies an intent once, verifies it, handles drift, contention, refusals and retries, and puts
  the baseline back; and its CPU mechanism. The node is a state the kernel owns: writing an
  attribute either fails with an error and leaves the node as it is, or gives the next state of
  the node, in which the attribute may read anything; \<open>NodeIO\<close> collects these calls. The two
  metrics of the file (\<open>countWrite\<close>, \<open>setState\<close>) and its log lines are left out. Times are in
  nanoseconds; the zero \<open>time.Time\<close> is \<open>None\<close>.
\<close>

section \<open>The node\<close>

record 'h NodeIO =
  io_write :: "string \<Rightarrow> string \<Rightarrow> 'h \<Rightarrow> WriteErr + 'h"
  io_read :: "string \<Rightarrow> 'h \<Rightarrow> string option"
  io_run :: "string list \<Rightarrow> 'h \<Rightarrow> (WriteErr option \<times> string) \<times> 'h"
  io_query :: "string list \<Rightarrow> 'h \<Rightarrow> goerr + string"
  io_wait :: "'h \<Rightarrow> 'h"
  io_cancelled :: "'h \<Rightarrow> bool"

definition readSysfsWord :: "'h NodeIO \<Rightarrow> string \<Rightarrow> 'h \<Rightarrow> string option" where
  "readSysfsWord io path h = map_option TrimSpace (io_read io path h)"

text \<open>The word without the \<open>ok\<close>: empty when the attribute cannot be read.\<close>

definition attrWord :: "'h NodeIO \<Rightarrow> string \<Rightarrow> 'h \<Rightarrow> string" where
  "attrWord io rel h = (case readSysfsWord io (hostSysPath rel) h of Some s \<Rightarrow> s | None \<Rightarrow> [])"

fun writeVerified :: "'h NodeIO \<Rightarrow> Write list \<Rightarrow> 'h \<Rightarrow> (nat \<times> Write list \<times> string \<times> string) \<times> 'h" where
  "writeVerified io [] h = ((0, [], [], []), h)"
| "writeVerified io (w # ws) h =
     (case io_write io (hostSysPath (wr_relPath w)) (wr_value w) h of
        Inl e \<Rightarrow> ((0, [], Classify (Some e) (wr_value w) []), h)
      | Inr h \<Rightarrow>
          (case Classify None (wr_value w) (attrWord io (wr_relPath w) h) of
             (result, message) \<Rightarrow>
               if result \<noteq> GovernorResultApplied then ((1, [], result, wr_relPath w @ '': '' @ message), h)
               else (case writeVerified io ws h of
                       ((wrote, taken, r), h) \<Rightarrow> ((wrote + 1, w # taken, r), h))))"

text \<open>\<open>%q\<close> of a string without quotes or control characters.\<close>

definition quoted :: "string \<Rightarrow> string" where
  "quoted s = CHR 0x22 # s @ [CHR 0x22]"

fun checkWrites :: "'h NodeIO \<Rightarrow> Write list \<Rightarrow> 'h \<Rightarrow> bool \<times> string" where
  "checkWrites io [] h = (True, [])"
| "checkWrites io (w # ws) h =
     (if attrWord io (wr_relPath w) h \<noteq> wr_value w
      then (False, wr_relPath w @ '' reads '' @ quoted (attrWord io (wr_relPath w) h) @ '', the agent wrote '' @ quoted (wr_value w))
      else checkWrites io ws h)"

definition differing :: "'h NodeIO \<Rightarrow> Write list \<Rightarrow> 'h \<Rightarrow> Write list" where
  "differing io ws h = filter (\<lambda>w. attrWord io (wr_relPath w) h \<noteq> wr_value w) ws"

section \<open>State\<close>

definition governorReapplyEvery :: int where "governorReapplyEvery = 300000000000"
definition governorDriftWindow :: int where "governorDriftWindow = 1800000000000"
definition governorDriftLimit :: nat where "governorDriftLimit = 3"
definition governorRetryAfter :: int where "governorRetryAfter = 1800000000000"

abbreviation GovernorResultDrift :: string where "GovernorResultDrift \<equiv> ''drift''"
abbreviation GovernorResultContended :: string where "GovernorResultContended \<equiv> ''contended''"
abbreviation GovernorResultDisabled :: string where "GovernorResultDisabled \<equiv> ''disabled''"
abbreviation GovernorResultRestored :: string where "GovernorResultRestored \<equiv> ''restored''"
abbreviation GovernorResultAppliedUnverified :: string where "GovernorResultAppliedUnverified \<equiv> ''applied-unverified''"

record agentGovernorConfig =
  agc_writes :: bool
  agc_restoreOnExit :: bool

definition governorConfigFromEnv :: "strmap \<Rightarrow> agentGovernorConfig" where
  "governorConfigFromEnv env =
     \<lparr>agc_writes = boolEnv env ''GOVERNOR_WRITES'' False, agc_restoreOnExit = boolEnv env ''GOVERNOR_RESTORE_ON_EXIT'' True\<rparr>"

record governorOutcome =
  out_status :: governorStatus
  out_wrote :: nat
  out_attempted :: bool

record nvidiaRecord =
  nvr_gpu :: ClockLock
  nvr_mem :: ClockLock

record governorComponent =
  gk_name :: string
  gk_intent :: string
  gk_preset :: string
  gk_expect :: "Write list"
  gk_od :: "(string \<times> int) list"
  gk_odDevices :: "string list"
  gk_nv :: "(string \<times> nvidiaRecord) list"
  gk_nvGood :: "string \<Rightarrow> nat"
  gk_nvSeed :: "State option"
  gk_changed :: bool
  gk_boostWritten :: bool
  gk_globalBoostSeen :: string
  gk_verified :: bool
  gk_drifted :: bool
  gk_drifts :: "int list"
  gk_contended :: bool
  gk_refused :: bool
  gk_retryAt :: "int option"
  gk_lastApply :: "int option"
  gk_status :: governorStatus
  gk_good :: governorStatus
  gk_statusWritten :: bool

definition newComponent :: "string \<Rightarrow> governorComponent" where
  "newComponent name =
     \<lparr>gk_name = name, gk_intent = [], gk_preset = [], gk_expect = [], gk_od = [], gk_odDevices = [], gk_nv = [],
      gk_nvGood = (\<lambda>_. 0), gk_nvSeed = None, gk_changed = False, gk_boostWritten = False, gk_globalBoostSeen = [],
      gk_verified = False, gk_drifted = False, gk_drifts = [], gk_contended = False, gk_refused = False,
      gk_retryAt = None, gk_lastApply = None, gk_status = emptyGovernorStatus, gk_good = emptyGovernorStatus,
      gk_statusWritten = False\<rparr>"

definition startIntent :: "string \<Rightarrow> string \<Rightarrow> governorComponent \<Rightarrow> governorComponent" where
  "startIntent key preset c =
     c\<lparr>gk_intent := key, gk_preset := preset, gk_expect := [], gk_od := [], gk_verified := False, gk_drifted := False,
       gk_contended := False, gk_drifts := [], gk_retryAt := None, gk_nvGood := (\<lambda>_. 0)\<rparr>"

section \<open>The step of one component\<close>

text \<open>The mechanism-specific parts: apply the intent, compare the node with it, and issue it again.\<close>

record 'h governorOps =
  op_apply :: "governorComponent \<times> 'h \<Rightarrow> governorOutcome \<times> governorComponent \<times> 'h"
  op_check :: "governorComponent \<times> 'h \<Rightarrow> (bool \<times> bool \<times> string) \<times> governorComponent"
  op_reissue :: "int \<Rightarrow> governorComponent \<times> 'h \<Rightarrow> bool"

text \<open>Whether at least \<open>d\<close> passed since a time that may be the zero time.\<close>

definition elapsed :: "int \<Rightarrow> int option \<Rightarrow> int \<Rightarrow> bool" where
  "elapsed now t d = (case t of None \<Rightarrow> True | Some t \<Rightarrow> now - t \<ge> d)"

text \<open>The bookkeeping of an apply, by its result.\<close>

definition afterApply :: "int \<Rightarrow> governorOutcome \<Rightarrow> governorComponent \<Rightarrow> governorComponent" where
  "afterApply now out c =
     (let st = out_status out; res = gst_result st
      in c\<lparr>gk_lastApply := Some now, gk_changed := (gk_changed c \<or> out_wrote out > 0), gk_status := st, gk_good := st,
           gk_verified := (gk_expect c = [] \<and> gk_od c = []), gk_drifted := False,
           gk_refused := (gk_refused c \<or> res = GovernorResultRefused),
           gk_retryAt := (if res = GovernorResultUnsupported \<or> res = GovernorResultNotApplied
                          then Some (now + governorRetryAfter) else None)\<rparr>)"

definition applyNow :: "'h governorOps \<Rightarrow> int \<Rightarrow> governorComponent \<times> 'h \<Rightarrow> governorComponent \<times> 'h" where
  "applyNow ops now s = (case op_apply ops s of (out, c, h) \<Rightarrow> (afterApply now out c, h))"

text \<open>The status of a check that found a difference: the applied setting stays named.\<close>

definition badStatus :: "governorComponent \<Rightarrow> string \<Rightarrow> string \<Rightarrow> governorStatus" where
  "badStatus c result msg =
     \<lparr>gst_backend = gst_backend (gk_good c), gst_result = result, gst_message = msg, gst_applied = gst_applied (gk_good c)\<rparr>"

definition contendedMessage :: "nat \<Rightarrow> string \<Rightarrow> string" where
  "contendedMessage n msg =
     Itoa (int n) @ '' drifts within 30m0s: another writer holds the setting; no more writes for this intent ('' @ msg @ '')''"

definition noteDrift :: "int \<Rightarrow> string \<Rightarrow> governorComponent \<Rightarrow> governorComponent" where
  "noteDrift now msg c =
     (let drifts = filter (\<lambda>t. now - t < governorDriftWindow) (gk_drifts c) @ [now];
          stop = (length drifts \<ge> governorDriftLimit)
      in c\<lparr>gk_drifted := True, gk_drifts := drifts, gk_contended := (gk_contended c \<or> stop),
           gk_status := (if stop then badStatus c GovernorResultContended (contendedMessage (length drifts) msg)
                         else badStatus c GovernorResultDrift msg)\<rparr>)"

text \<open>The setting holds: a pending drift is over.\<close>

definition settled :: "governorComponent \<Rightarrow> governorComponent" where
  "settled c =
     c\<lparr>gk_verified := True, gk_drifted := False,
       gk_status := (if gst_result (gk_status c) = GovernorResultDrift then gk_good c else gk_status c)\<rparr>"

definition checkNow :: "'h governorOps \<Rightarrow> int \<Rightarrow> governorComponent \<times> 'h \<Rightarrow> governorComponent \<times> 'h" where
  "checkNow ops now s =
     (case op_check ops s of
        ((ok, reset, msg), c) \<Rightarrow>
          if ok then (settled c, snd s)
          else if \<not> gk_verified c
          then (c\<lparr>gk_status := badStatus c GovernorResultNotApplied msg, gk_retryAt := Some (now + governorRetryAfter)\<rparr>, snd s)
          else if reset then applyNow ops now (c, snd s)
          else (let c' = (if gk_drifted c then c else noteDrift now msg c)
                in if \<not> gk_drifted c \<and> length (gk_drifts c') \<ge> governorDriftLimit then (c', snd s)
                   else if elapsed now (gk_lastApply c') governorReapplyEvery then applyNow ops now (c', snd s)
                   else (c', snd s)))"

definition govStep :: "'h governorOps \<Rightarrow> int \<Rightarrow> string \<Rightarrow> string \<Rightarrow> governorComponent \<times> 'h \<Rightarrow> governorComponent \<times> 'h" where
  "govStep ops now key preset s =
     (let c = fst s
      in if gk_refused c then s
         else if key \<noteq> gk_intent c then applyNow ops now (startIntent key preset c, snd s)
         else if gk_contended c then s
         else case gk_retryAt c of
                Some t \<Rightarrow> if now < t then s else applyNow ops now s
              | None \<Rightarrow>
                  if gst_result (gk_status c) = GovernorResultError
                  then (if elapsed now (gk_lastApply c) governorReapplyEvery then applyNow ops now s else s)
                  else if op_reissue ops now s then checkNow ops now (applyNow ops now s)
                  else checkNow ops now s)"

section \<open>Publishing, holding and releasing\<close>

text \<open>What a reconcile of the governors acts on: the clock, the node and its name, the API server.\<close>

record 'h GovEnv =
  ge_now :: int
  ge_nodeName :: string
  ge_fmtTime :: "int \<Rightarrow> string"
  ge_io :: "'h NodeIO"
  ge_simulateOnly :: bool
  ge_cpuHTTP :: bool
  ge_gpuHTTP :: bool
  ge_nodeLabels :: strmap
  ge_remote :: bool
  ge_cfg :: agentGovernorConfig
  ge_parseFloat :: "string \<Rightarrow> f64 option"
  ge_fmtFloat :: "f64 \<Rightarrow> string"

type_synonym 'h govState = "governorComponent \<times> 'h \<times> AgentApi"

definition publish :: "'h GovEnv \<Rightarrow> 'h govState \<Rightarrow> 'h govState" where
  "publish e s =
     (case s of (c, h, api) \<Rightarrow>
        (case updateNodeTwinGovernorStatus (ge_fmtTime e) (ge_now e) (ge_nodeName e) (gk_name c) (Some (gk_status c)) api of
           (None, api) \<Rightarrow> (c\<lparr>gk_statusWritten := True\<rparr>, h, api)
         | (Some _, api) \<Rightarrow> (c, h, api)))"

definition stepAndPublish :: "'h GovEnv \<Rightarrow> 'h governorOps \<Rightarrow> string \<Rightarrow> string \<Rightarrow> 'h govState \<Rightarrow> 'h govState" where
  "stepAndPublish e ops key preset s =
     (case s of (c, h, api) \<Rightarrow> (case govStep ops (ge_now e) key preset (c, h) of (c, h) \<Rightarrow> publish e (c, h, api)))"

definition hold :: "'h GovEnv \<Rightarrow> string \<Rightarrow> governorStatus \<Rightarrow> 'h govState \<Rightarrow> 'h govState" where
  "hold e preset st s =
     (case s of (c, h, api) \<Rightarrow> publish e (c\<lparr>gk_intent := [], gk_preset := preset, gk_status := st\<rparr>, h, api))"

definition blocked :: "'h GovEnv \<Rightarrow> bool \<Rightarrow> string \<Rightarrow> string \<Rightarrow> governorStatus option" where
  "blocked e http missing missingResult =
     (let st = (\<lambda>backend result message. Some \<lparr>gst_backend = backend, gst_result = result, gst_message = message, gst_applied = []\<rparr>)
      in if ge_simulateOnly e then st ''none'' GovernorResultDisabled ''simulate-only mode: no governor write''
         else if \<not> agc_writes (ge_cfg e) then st ''none'' GovernorResultDisabled ''GOVERNOR_WRITES is false: discovery only''
         else if ge_remote e then st ''none'' GovernorResultUnsupported ''pool mode: the agent does not run on this node''
         else if http then st ''http'' GovernorResultUnsupported ''the HTTP control backend has no governor action''
         else if missing \<noteq> [] then st ''none'' missingResult missing
         else None)"

definition mayRestore :: "'h GovEnv \<Rightarrow> governorComponent \<Rightarrow> bool" where
  "mayRestore e c \<longleftrightarrow> \<not> ge_simulateOnly e \<and> \<not> ge_remote e \<and> \<not> gk_refused c"

definition restoreWritesOff :: "'h GovEnv \<Rightarrow> governorComponent \<Rightarrow> bool" where
  "restoreWritesOff e c \<longleftrightarrow> \<not> agc_writes (ge_cfg e) \<and> gk_changed c \<and> \<not> gk_contended c \<and> mayRestore e c"

text \<open>What a restore leaves of the component, by its result.\<close>

definition afterRestore :: "int \<Rightarrow> governorOutcome \<Rightarrow> governorComponent \<Rightarrow> governorComponent" where
  "afterRestore now out c =
     (let st = out_status out;
          c = c\<lparr>gk_intent := [], gk_preset := [], gk_expect := [], gk_od := [], gk_drifts := [], gk_drifted := False,
                gk_lastApply := Some now, gk_status := st, gk_good := st, gk_retryAt := None\<rparr>
      in if gst_result st = GovernorResultRestored
         then c\<lparr>gk_changed := False, gk_boostWritten := False, gk_globalBoostSeen := [], gk_odDevices := []\<rparr>
         else if gst_result st = GovernorResultRefused then c\<lparr>gk_refused := True\<rparr>
         else c\<lparr>gk_retryAt := Some (now + governorRetryAfter)\<rparr>)"

definition release ::
  "'h GovEnv \<Rightarrow> (governorComponent \<times> 'h \<Rightarrow> governorOutcome \<times> governorComponent \<times> 'h) option \<Rightarrow> 'h govState \<Rightarrow> 'h govState" where
  "release e restore s =
     (case s of (c, h, api) \<Rightarrow>
       (let canWrite = mayRestore e c;
            c = (if gk_contended c then c\<lparr>gk_changed := False, gk_contended := False\<rparr> else c)
        in if gk_changed c \<and> canWrite
           then (case restore of
                   None \<Rightarrow> (c, h, api)
                 | Some r \<Rightarrow>
                     if (case gk_retryAt c of Some t \<Rightarrow> ge_now e < t | None \<Rightarrow> False) then (c, h, api)
                     else (case r (c, h) of (out, c, h) \<Rightarrow> publish e (afterRestore (ge_now e) out c, h, api)))
           else (let c = c\<lparr>gk_intent := [], gk_preset := [], gk_expect := [], gk_od := [], gk_retryAt := None\<rparr>
                 in if gk_statusWritten c \<and> gst_result (gk_status c) \<noteq> GovernorResultRestored
                    then (case updateNodeTwinGovernorStatus (ge_fmtTime e) (ge_now e) (ge_nodeName e) (gk_name c) None api of
                            (Some _, api) \<Rightarrow> (c, h, api)
                          | (None, api) \<Rightarrow> (c\<lparr>gk_statusWritten := False, gk_status := emptyGovernorStatus\<rparr>, h, api))
                    else (c, h, api))))"

section \<open>The CPU governor\<close>

text \<open>One part of a CPU list: a number or a range.\<close>

definition cpuPartHas :: "int \<Rightarrow> string \<Rightarrow> bool" where
  "cpuPartHas n part =
     (case Cut (TrimSpace part) (CHR ''-'') of (lo, hi, isRange) \<Rightarrow>
        (case Atoi lo of
           None \<Rightarrow> False
         | Some a \<Rightarrow>
             if isRange then (case Atoi hi of None \<Rightarrow> False | Some b \<Rightarrow> a \<le> n \<and> n \<le> b)
             else a \<le> n \<and> n \<le> a))"

definition cpuListHas :: "string \<Rightarrow> int \<Rightarrow> bool" where
  "cpuListHas s n = list_ex (cpuPartHas n) (Split s (CHR '',''))"

definition cpuBaselineGroups :: "cpuGovernorDiscovery \<Rightarrow> V1CPUGovernorBaseline option \<Rightarrow> CPUGroup list" where
  "cpuBaselineGroups d b =
     (case b of
        None \<Rightarrow> []
      | Some b \<Rightarrow>
          filter (\<lambda>g. cg_policies g \<noteq> [])
            (map (\<lambda>grp. \<lparr>cg_policies = filter (cpuListHas (cgs_policies grp)) (cf_policies (cgd_facts d)),
                         cg_governor = cgs_governor grp, cg_epp = cgs_epp grp, cg_boost = cgs_boost grp\<rparr>) (cgb_groups b)))"

definition cpuBaselineBoostWrites ::
  "'h NodeIO \<Rightarrow> cpuGovernorDiscovery \<Rightarrow> V1CPUGovernorBaseline option \<Rightarrow> string \<Rightarrow> 'h \<Rightarrow> Write list" where
  "cpuBaselineBoostWrites io d b globalSeen h =
     (case PlanCPUGroups (cgd_facts d) (cpuBaselineGroups d b) of
        (_, _, writes) \<Rightarrow>
          differing io (writes @ (if globalSeen \<noteq> [] \<and> cf_boostScope (cgd_facts d) = CPUBoostScopePerCPU
                                  then [\<lparr>wr_relPath = GlobalBoostRelPath, wr_value = globalSeen\<rparr>] else [])) h)"

definition cpuStatus :: "string \<Rightarrow> string \<Rightarrow> string \<Rightarrow> governorStatus" where
  "cpuStatus result message applied =
     \<lparr>gst_backend = GovernorBackendCPUFreq, gst_result = result, gst_message = message, gst_applied = applied\<rparr>"

text \<open>The writes of an apply: the plan's, with the global boost before or the baseline's boost after.\<close>

definition cpuApplyWrites ::
  "'h NodeIO \<Rightarrow> cpuGovernorDiscovery \<Rightarrow> V1CPUGovernorBaseline option \<Rightarrow> string \<Rightarrow> Write list \<Rightarrow> governorComponent \<times> 'h \<Rightarrow>
   Write list \<times> governorComponent" where
  "cpuApplyWrites io d b boost planWrites s =
     (case s of (c, h) \<Rightarrow>
        if boost = CPUGovernorBoostOn \<and> cf_boostScope (cgd_facts d) = CPUBoostScopePerCPU
        then (if readSysfsWord io (hostSysPath GlobalBoostRelPath) h = Some ''0''
              then (\<lparr>wr_relPath = GlobalBoostRelPath, wr_value = ''1''\<rparr> # planWrites,
                    if gk_globalBoostSeen c = [] then c\<lparr>gk_globalBoostSeen := ''0''\<rparr> else c)
              else (planWrites, c))
        else if boost = [] \<and> gk_boostWritten c
        then (planWrites @ cpuBaselineBoostWrites io d b (gk_globalBoostSeen c) h, c)
        else (planWrites, c))"

definition applyCPU ::
  "'h NodeIO \<Rightarrow> cpuGovernorDiscovery \<Rightarrow> V1CPUGovernorBaseline option \<Rightarrow> CPUGovernorIntent \<Rightarrow> governorComponent \<times> 'h \<Rightarrow>
   governorOutcome \<times> governorComponent \<times> 'h" where
  "applyCPU io d b intent s =
     (case s of (c, h) \<Rightarrow>
        (case PlanCPU (cgd_facts d) (cgi_preset intent) (cgi_boost intent) of
           Inl err \<Rightarrow> (\<lparr>out_status = cpuStatus GovernorResultError err [], out_wrote = 0, out_attempted = False\<rparr>, c, h)
         | Inr plan \<Rightarrow>
             if pl_result plan = GovernorResultUnsupported
             then (\<lparr>out_status = cpuStatus GovernorResultUnsupported
                       (''preset '' @ quoted (cgi_preset intent) @ '' (boost '' @ quoted (cgi_boost intent) @ '') is not supported by the '' @
                        cf_driver (cgd_facts d) @ '' driver of this node'') [],
                    out_wrote = 0, out_attempted = False\<rparr>, c, h)
             else (case cpuApplyWrites io d b (cgi_boost intent) (pl_writes plan) (c, h) of (writes, c) \<Rightarrow>
                    (case writeVerified io writes h of ((wrote, taken, result, msg), h) \<Rightarrow>
                      (let c = (if wrote > 0 \<and> cgi_boost intent \<noteq> [] then c\<lparr>gk_boostWritten := True\<rparr> else c)
                       in if result \<noteq> []
                          then (\<lparr>out_status = cpuStatus result msg (InForce plan taken), out_wrote = wrote, out_attempted = True\<rparr>, c, h)
                          else (let c = (if cgi_boost intent = [] \<and> gk_boostWritten c
                                         then c\<lparr>gk_boostWritten := False, gk_globalBoostSeen := []\<rparr> else c)
                                in (\<lparr>out_status = cpuStatus (pl_result plan) [] (pl_native plan), out_wrote = wrote, out_attempted = True\<rparr>,
                                    c\<lparr>gk_expect := writes\<rparr>, h)))))))"

definition cpuBaselineNative :: "V1CPUGovernorBaseline \<Rightarrow> string" where
  "cpuBaselineNative b = uniformOrMixed (remdups_adj (map (\<lambda>grp. NativeCPU (cgs_governor grp) (cgs_epp grp)) (cgb_groups b)))"

text \<open>The phases of a restore, each planned against the node as the earlier ones left it.\<close>

fun restorePhases :: "'h NodeIO \<Rightarrow> ('h \<Rightarrow> Write list) list \<Rightarrow> 'h \<Rightarrow> (nat \<times> string \<times> string) \<times> 'h" where
  "restorePhases io [] h = ((0, [], []), h)"
| "restorePhases io (phase # phases) h =
     (case writeVerified io (phase h) h of
        ((wrote, _, result, msg), h) \<Rightarrow>
          if result \<noteq> [] then ((wrote, result, msg), h)
          else (case restorePhases io phases h of ((total', r), h) \<Rightarrow> ((wrote + total', r), h)))"

definition restoreCPU ::
  "'h NodeIO \<Rightarrow> cpuGovernorDiscovery \<Rightarrow> V1CPUGovernorBaseline option \<Rightarrow> governorComponent \<times> 'h \<Rightarrow>
   governorOutcome \<times> governorComponent \<times> 'h" where
  "restoreCPU io d baseline s =
     (case s of (c, h) \<Rightarrow>
        (case baseline of
           None \<Rightarrow> (\<lparr>out_status = cpuStatus GovernorResultError ''no baseline to restore'' [], out_wrote = 0, out_attempted = False\<rparr>, c, h)
         | Some b \<Rightarrow>
             (case PlanCPUGroups (cgd_facts d) (cpuBaselineGroups d baseline) of (governors, epps, _) \<Rightarrow>
               (case restorePhases io
                       [differing io governors, differing io epps,
                        \<lambda>h. if \<not> gk_boostWritten c \<and> gk_globalBoostSeen c = [] then []
                            else cpuBaselineBoostWrites io d baseline (gk_globalBoostSeen c) h] h of
                  ((total', result, msg), h) \<Rightarrow>
                    if result \<noteq> []
                    then (\<lparr>out_status = cpuStatus result (''restore: '' @ msg) [], out_wrote = total', out_attempted = True\<rparr>, c, h)
                    else (\<lparr>out_status = cpuStatus GovernorResultRestored ''baseline restored'' (cpuBaselineNative b),
                           out_wrote = total', out_attempted = total' > 0\<rparr>, c, h)))))"

definition cpuOps :: "'h NodeIO \<Rightarrow> cpuGovernorDiscovery \<Rightarrow> V1CPUGovernorBaseline option \<Rightarrow> CPUGovernorIntent \<Rightarrow> 'h governorOps" where
  "cpuOps io d b intent =
     \<lparr>op_apply = applyCPU io d b intent,
      op_check = (\<lambda>(c, h). case checkWrites io (gk_expect c) h of (ok, msg) \<Rightarrow> ((ok, False, msg), c)),
      op_reissue = (\<lambda>_ _. False)\<rparr>"

definition cpuIntentKey :: "CPUGovernorIntent \<Rightarrow> string" where
  "cpuIntentKey intent = cgi_preset intent @ ''|'' @ cgi_boost intent"

definition reconcileCPU ::
  "'h GovEnv \<Rightarrow> cpuGovernorDiscovery option \<Rightarrow> V1CPUGovernorBaseline option \<Rightarrow> CPUGovernorIntent option \<Rightarrow> 'h govState \<Rightarrow> 'h govState" where
  "reconcileCPU e d b intent s =
     (case intent of
        Some i \<Rightarrow>
          if restoreWritesOff e (fst s) then release e (map_option (\<lambda>d. restoreCPU (ge_io e) d b) d) s
          else (case blocked e (ge_cpuHTTP e) (if d = None then ''no cpufreq governor on this node'' else []) GovernorResultUnsupported of
                  Some st \<Rightarrow> hold e (cgi_preset i) st s
                | None \<Rightarrow>
                    (case d of
                       None \<Rightarrow> s
                     | Some d \<Rightarrow> stepAndPublish e (cpuOps (ge_io e) d b i) (cpuIntentKey i) (cgi_preset i) s))
      | None \<Rightarrow> release e (map_option (\<lambda>d. restoreCPU (ge_io e) d b) d) s)"

section \<open>Lemmas: the state machine\<close>

text \<open>
  The contract of a mechanism: applying and checking leave the bookkeeping of the state machine
  alone. \<open>control\<close> is that bookkeeping.
\<close>

definition control :: "governorComponent \<Rightarrow> string \<times> string \<times> bool \<times> bool \<times> bool \<times> int list \<times> bool \<times> bool \<times> int option \<times> int option" where
  "control c = (gk_intent c, gk_preset c, gk_changed c, gk_verified c, gk_drifted c, gk_drifts c, gk_contended c, gk_refused c,
     gk_retryAt c, gk_lastApply c)"

locale governor_mechanism =
  fixes ops :: "'h governorOps"
  assumes apply_control: "op_apply ops (c, h) = (out, c', h') \<Longrightarrow> control c' = control c"
    and check_control: "op_check ops (c, h) = (r, c') \<Longrightarrow> control c' = control c"
begin

lemma applyNow_control:
  assumes "applyNow ops now (c, h) = (c', h')"
  shows "gk_intent c' = gk_intent c" "gk_contended c' = gk_contended c" "gk_drifts c' = gk_drifts c"
    "gk_lastApply c' = Some now" "gk_retryAt c' \<in> {None, Some (now + governorRetryAfter)}"
    "gk_refused c \<Longrightarrow> gk_refused c'" "\<not> gk_drifted c'"
proof -
  obtain out c1 h1 where A: "op_apply ops (c, h) = (out, c1, h1)" by (metis prod_cases3)
  have F: "gk_intent c1 = gk_intent c" "gk_contended c1 = gk_contended c" "gk_drifts c1 = gk_drifts c" "gk_refused c1 = gk_refused c"
    using apply_control [OF A] unfolding control_def by simp_all
  have c': "c' = afterApply now out c1" using assms unfolding applyNow_def A by simp
  show "gk_intent c' = gk_intent c" "gk_contended c' = gk_contended c" "gk_drifts c' = gk_drifts c"
    "gk_lastApply c' = Some now" "gk_retryAt c' \<in> {None, Some (now + governorRetryAfter)}"
    "gk_refused c \<Longrightarrow> gk_refused c'" "\<not> gk_drifted c'"
    unfolding c' afterApply_def Let_def by (simp_all add: F)
qed

lemma refused_stops: "gk_refused c \<Longrightarrow> govStep ops now key preset (c, h) = (c, h)"
  by (simp add: govStep_def)

lemma contended_stops: "gk_contended c \<Longrightarrow> gk_intent c = key \<Longrightarrow> govStep ops now key preset (c, h) = (c, h)"
  by (simp add: govStep_def)

lemma new_intent_applies:
  assumes "\<not> gk_refused c" "key \<noteq> gk_intent c" "govStep ops now key preset (c, h) = (c', h')"
  shows "gk_intent c' = key" "gk_lastApply c' = Some now" "gk_retryAt c' \<in> {None, Some (now + governorRetryAfter)}"
    "gk_drifts c' = []" "\<not> gk_contended c'"
proof -
  have "applyNow ops now (startIntent key preset c, h) = (c', h')" using assms by (simp add: govStep_def)
  from applyNow_control [OF this] show "gk_intent c' = key" "gk_lastApply c' = Some now"
    "gk_retryAt c' \<in> {None, Some (now + governorRetryAfter)}" "gk_drifts c' = []" "\<not> gk_contended c'"
    by (auto simp: startIntent_def)
qed

end

text \<open>A mechanism whose setting reads back and is never lost to a reset, as the CPU's.\<close>

locale steady_mechanism = governor_mechanism +
  assumes no_reissue: "\<not> op_reissue ops now s"
    and no_reset: "op_check ops s = ((ok, reset, msg), c') \<Longrightarrow> \<not> reset"
begin

text \<open>A check that does not apply leaves the node alone; one that applies does so after the reapply interval.\<close>

lemma checkNow_cases:
  assumes "checkNow ops now (c, h) = (c', h')" "\<not> gk_contended c"
    "length (gk_drifts c) < governorDriftLimit" "gk_retryAt c = None"
  obtains "h' = h" "gk_lastApply c' = gk_lastApply c" "gk_intent c' = gk_intent c"
    "gk_retryAt c' \<in> {None, Some (now + governorRetryAfter)}"
    "gk_contended c' \<or> length (gk_drifts c') < governorDriftLimit"
  | "elapsed now (gk_lastApply c) governorReapplyEvery" "gk_lastApply c' = Some now" "gk_intent c' = gk_intent c"
    "gk_retryAt c' \<in> {None, Some (now + governorRetryAfter)}"
    "gk_contended c' \<or> length (gk_drifts c') < governorDriftLimit"
proof -
  obtain ok reset msg c1 where C: "op_check ops (c, h) = ((ok, reset, msg), c1)" by (metis prod.collapse)
  note F = check_control [OF C]
  have nr: "\<not> reset" by (rule no_reset [OF C])
  define c2 where "c2 = (if gk_drifted c1 then c1 else noteDrift now msg c1)"
  have n: "gk_intent c2 = gk_intent c" "gk_lastApply c2 = gk_lastApply c" "gk_retryAt c2 = None"
    "\<not> gk_drifted c1 \<Longrightarrow> length (gk_drifts c2) \<ge> governorDriftLimit \<Longrightarrow> gk_contended c2"
    "gk_drifted c1 \<Longrightarrow> gk_drifts c2 = gk_drifts c"
    using F assms(4) by (auto simp: c2_def noteDrift_def control_def Let_def)
  consider "ok" | "\<not> ok" "\<not> gk_verified c1" | "\<not> ok" "gk_verified c1" "\<not> gk_drifted c1" "length (gk_drifts c2) \<ge> governorDriftLimit"
    | "\<not> ok" "gk_verified c1" "gk_drifted c1 \<or> length (gk_drifts c2) < governorDriftLimit" "elapsed now (gk_lastApply c2) governorReapplyEvery"
    | "\<not> ok" "gk_verified c1" "gk_drifted c1 \<or> length (gk_drifts c2) < governorDriftLimit" "\<not> elapsed now (gk_lastApply c2) governorReapplyEvery"
    by (metis not_le)
  then show thesis
  proof cases
    case 1
    then have "(c', h') = (settled c1, h)" using assms(1) by (simp add: checkNow_def C)
    then show thesis using that(1) assms(2-4) F by (simp add: settled_def control_def)
  next
    case 2
    then have "(c', h') = (c1\<lparr>gk_status := badStatus c1 GovernorResultNotApplied msg, gk_retryAt := Some (now + governorRetryAfter)\<rparr>, h)"
      using assms(1) by (simp add: checkNow_def C)
    then show thesis using that(1) assms(2-4) F by (simp add: control_def)
  next
    case 3
    then have "(c', h') = (c2, h)" using assms(1) nr by (simp add: checkNow_def C Let_def c2_def)
    then show thesis using that(1) n 3 by simp
  next
    case 4
    then have A: "applyNow ops now (c2, h) = (c', h')" using assms(1) nr by (auto simp: checkNow_def C Let_def c2_def split: if_splits)
    have "length (gk_drifts c2) < governorDriftLimit" using 4(3) n(5) assms(3) by auto
    then show thesis using that(2) applyNow_control [OF A] n 4(4) by auto
  next
    case 5
    then have "(c', h') = (c2, h)" using assms(1) nr by (auto simp: checkNow_def C Let_def c2_def split: if_splits)
    moreover have "length (gk_drifts c2) < governorDriftLimit" using 5(3) n(5) assms(3) by auto
    ultimately show thesis using that(1) n by simp
  qed
qed

end

section \<open>Runs under one intent\<close>

text \<open>
  A run of the control loop under one intent: at each reconcile, later than the one before, the
  node may be in any state other writers left it in, and the discovery, hence the mechanism, may
  be a new one. \<open>gw_writes\<close> collects the times of the reconciles that applied the intent or
  changed the node.
\<close>

record 'h GovWorld =
  gw_now :: int
  gw_comp :: governorComponent
  gw_host :: 'h
  gw_writes :: "int list"

inductive govRunStep :: "('h governorOps \<Rightarrow> bool) \<Rightarrow> string \<Rightarrow> string \<Rightarrow> 'h GovWorld \<Rightarrow> 'h GovWorld \<Rightarrow> bool"
  for mech key preset where
  reconcile: "mech ops \<Longrightarrow> gw_now w < t \<Longrightarrow> govStep ops t key preset (gw_comp w, h) = (c', h') \<Longrightarrow>
    govRunStep mech key preset w
      \<lparr>gw_now = t, gw_comp = c', gw_host = h',
       gw_writes = (if gk_lastApply c' = Some t \<or> h' \<noteq> h then t # gw_writes w else gw_writes w)\<rparr>"

definition appliedBefore :: "int \<Rightarrow> governorComponent \<Rightarrow> bool" where
  "appliedBefore now c \<longleftrightarrow> (case gk_lastApply c of None \<Rightarrow> True | Some t \<Rightarrow> t \<le> now)"

definition runInv :: "string \<Rightarrow> 'h GovWorld \<Rightarrow> bool" where
  "runInv key w \<longleftrightarrow>
     appliedBefore (gw_now w) (gw_comp w) \<and>
     sorted_wrt (\<lambda>later earlier. earlier + governorReapplyEvery \<le> later) (gw_writes w) \<and>
     (case gw_writes w of
        [] \<Rightarrow> gk_intent (gw_comp w) \<noteq> key
      | t # _ \<Rightarrow> gk_intent (gw_comp w) = key \<and> gk_lastApply (gw_comp w) = Some t \<and>
          (case gk_retryAt (gw_comp w) of None \<Rightarrow> True | Some r \<Rightarrow> t + governorRetryAfter \<le> r) \<and>
          (gk_contended (gw_comp w) \<or> length (gk_drifts (gw_comp w)) < governorDriftLimit))"

lemma spaced_Cons:
  "sorted_wrt (\<lambda>later earlier. earlier + d \<le> later) (u # ws) \<Longrightarrow> u + d \<le> t \<Longrightarrow> 0 \<le> d \<Longrightarrow>
   sorted_wrt (\<lambda>later earlier. earlier + d \<le> later) (t # u # ws)" for d :: int
  by force

context steady_mechanism
begin

lemma same_intent_step:
  assumes "govStep ops t key preset (c, h) = (c', h')" and "gk_intent c = key" and "gk_lastApply c = Some u" and "u < t"
    and "case gk_retryAt c of None \<Rightarrow> True | Some r \<Rightarrow> u + governorRetryAfter \<le> r"
    and "gk_contended c \<or> length (gk_drifts c) < governorDriftLimit"
  shows "gk_intent c' = key \<and> (gk_contended c' \<or> length (gk_drifts c') < governorDriftLimit) \<and>
    ((h' = h \<and> gk_lastApply c' = Some u \<and> (case gk_retryAt c' of None \<Rightarrow> True | Some r \<Rightarrow> u + governorRetryAfter \<le> r)) \<or>
     (u + governorReapplyEvery \<le> t \<and> gk_lastApply c' = Some t \<and> (case gk_retryAt c' of None \<Rightarrow> True | Some r \<Rightarrow> t + governorRetryAfter \<le> r)))"
proof -
  have again: ?thesis if A: "applyNow ops t (c, h) = (c', h')" and "u + governorReapplyEvery \<le> t"
    using applyNow_control [OF A] that(2) assms(2,6) by auto
  have idle: ?thesis if "(c', h') = (c, h)" using that assms by simp
  consider "gk_refused c \<or> gk_contended c" | r where "gk_retryAt c = Some r" "\<not> gk_refused c" "\<not> gk_contended c"
    | "gk_retryAt c = None" "\<not> gk_refused c" "\<not> gk_contended c" "gst_result (gk_status c) = GovernorResultError"
    | "gk_retryAt c = None" "\<not> gk_refused c" "\<not> gk_contended c" "gst_result (gk_status c) \<noteq> GovernorResultError" by blast
  then show ?thesis
  proof cases
    case 1
    then have "(c', h') = (c, h)" using assms(1,2) refused_stops contended_stops by metis
    then show ?thesis by (rule idle)
  next
    case 2
    then have E: "(if t < r then (c, h) else applyNow ops t (c, h)) = (c', h')" using assms(1,2) by (simp add: govStep_def)
    show ?thesis
    proof (cases "t < r")
      case True
      then show ?thesis using E by (intro idle) simp
    next
      case False
      have "governorReapplyEvery \<le> governorRetryAfter" by (simp add: governorReapplyEvery_def governorRetryAfter_def)
      then show ?thesis using E False 2(1) assms(5) by (intro again) simp_all
    qed
  next
    case 3
    then have E: "(if u + governorReapplyEvery \<le> t then applyNow ops t (c, h) else (c, h)) = (c', h')"
      using assms(1-3) by (simp add: govStep_def elapsed_def algebra_simps)
    show ?thesis using E again idle by (cases "u + governorReapplyEvery \<le> t") (simp_all only: if_True if_False)
  next
    case 4
    then have C: "checkNow ops t (c, h) = (c', h')" using assms(1,2) no_reissue by (simp add: govStep_def)
    have l: "length (gk_drifts c) < governorDriftLimit" using 4 assms(6) by simp
    show ?thesis
      by (rule checkNow_cases [OF C 4(3) l 4(1)]) (use assms(2,3,4) in \<open>auto simp: elapsed_def\<close>)
  qed
qed

end

lemma runInv_step:
  assumes "govRunStep mech key preset w w'" and "\<And>ops. mech ops \<Longrightarrow> steady_mechanism ops" and inv: "runInv key w"
  shows "runInv key w'"
  using assms(1)
proof cases
  case (reconcile ops t h c' h')
  have S: "steady_mechanism ops" by (rule assms(2) [OF reconcile(2)])
  have M: "governor_mechanism ops" using S by (simp add: steady_mechanism_def)
  have before: "appliedBefore t (gw_comp w)" using inv reconcile(3) by (auto simp: runInv_def appliedBefore_def split: option.splits)
  show ?thesis
  proof (cases "gw_writes w")
    case Nil
    then have n: "gk_intent (gw_comp w) \<noteq> key" using inv by (simp add: runInv_def)
    show ?thesis
    proof (cases "gk_refused (gw_comp w)")
      case True
      have "(c', h') = (gw_comp w, h)" using governor_mechanism.refused_stops [OF M True] reconcile(4) by simp
      moreover have "gk_lastApply (gw_comp w) \<noteq> Some t"
        using inv reconcile(3) by (auto simp: runInv_def appliedBefore_def split: option.splits)
      ultimately show ?thesis using inv reconcile(1) before Nil by (simp add: runInv_def)
    next
      case False
      note A = governor_mechanism.new_intent_applies [OF M False not_sym [OF n] reconcile(4)]
      show ?thesis using A Nil reconcile(1) by (auto simp: runInv_def appliedBefore_def governorDriftLimit_def)
    qed
  next
    case (Cons u us)
    have I: "gk_intent (gw_comp w) = key" "gk_lastApply (gw_comp w) = Some u"
      "case gk_retryAt (gw_comp w) of None \<Rightarrow> True | Some r \<Rightarrow> u + governorRetryAfter \<le> r"
      "gk_contended (gw_comp w) \<or> length (gk_drifts (gw_comp w)) < governorDriftLimit"
      "sorted_wrt (\<lambda>later earlier. earlier + governorReapplyEvery \<le> later) (u # us)" "u \<le> gw_now w"
      using inv Cons by (auto simp: runInv_def appliedBefore_def)
    have u: "u < t" using I(6) reconcile(3) by simp
    note step = steady_mechanism.same_intent_step [OF S reconcile(4) I(1,2) u I(3,4)]
    show ?thesis
    proof (cases "gk_lastApply c' = Some t \<or> h' \<noteq> h")
      case True
      then have "u + governorReapplyEvery \<le> t" "gk_lastApply c' = Some t"
        "case gk_retryAt c' of None \<Rightarrow> True | Some r \<Rightarrow> t + governorRetryAfter \<le> r" using step u by auto
      then show ?thesis using step reconcile(1) Cons True spaced_Cons [OF I(5)]
        by (auto simp: runInv_def appliedBefore_def governorReapplyEvery_def)
    next
      case False
      then show ?thesis using step reconcile(1) Cons u I(5) by (auto simp: runInv_def appliedBefore_def)
    qed
  qed
qed

lemma runInv_run:
  assumes "(govRunStep mech key preset)\<^sup>*\<^sup>* w w'" and "\<And>ops. mech ops \<Longrightarrow> steady_mechanism ops" and "runInv key w"
  shows "runInv key w'"
  using assms(1,3) by (induction rule: rtranclp_induct) (use runInv_step [OF _ assms(2)] in blast)+

text \<open>Once a setting is refused or contended nothing is written for the intent any more.\<close>

definition stopped :: "string \<Rightarrow> governorComponent \<Rightarrow> bool" where
  "stopped key c \<longleftrightarrow> gk_refused c \<or> (gk_contended c \<and> gk_intent c = key)"

lemma stopped_run:
  assumes "(govRunStep mech key preset)\<^sup>*\<^sup>* w w'" and "\<And>ops. mech ops \<Longrightarrow> governor_mechanism ops"
    and "stopped key (gw_comp w)" and "appliedBefore (gw_now w) (gw_comp w)"
  shows "gw_comp w' = gw_comp w \<and> gw_writes w' = gw_writes w \<and> appliedBefore (gw_now w') (gw_comp w')"
  using assms(1)
proof (induction rule: rtranclp_induct)
  case (step y z)
  from step(2) show ?case
  proof cases
    case (reconcile ops t h c' h')
    have M: "governor_mechanism ops" by (rule assms(2) [OF reconcile(2)])
    have "stopped key (gw_comp y)" using step(3) assms(3) by simp
    then have "(c', h') = (gw_comp y, h)"
      using governor_mechanism.refused_stops [OF M] governor_mechanism.contended_stops [OF M] reconcile(4)
      by (auto simp: stopped_def)
    moreover have "gk_lastApply (gw_comp y) \<noteq> Some t"
      using step(3) reconcile(3) by (auto simp: appliedBefore_def split: option.splits)
    moreover have "appliedBefore t (gw_comp y)" using step(3) reconcile(3) by (auto simp: appliedBefore_def split: option.splits)
    ultimately show ?thesis using step(3) reconcile(1) by simp
  qed
qed (use assms(4) in simp)

section \<open>Lemmas: the CPU mechanism\<close>

lemma control_updates [simp]:
  "control (c\<lparr>gk_expect := x\<rparr>) = control c" "control (c\<lparr>gk_boostWritten := y\<rparr>) = control c"
  "control (c\<lparr>gk_globalBoostSeen := z\<rparr>) = control c" "control (c\<lparr>gk_od := od\<rparr>) = control c"
  "control (c\<lparr>gk_odDevices := ds\<rparr>) = control c" "control (c\<lparr>gk_nv := nv\<rparr>) = control c"
  "control (c\<lparr>gk_nvGood := ng\<rparr>) = control c" "control (c\<lparr>gk_status := st\<rparr>) = control c" "control (c\<lparr>gk_good := st\<rparr>) = control c"
  by (simp_all add: control_def)

lemma cpuApplyWrites_control: "cpuApplyWrites io d b boost ws (c, h) = (ws', c') \<Longrightarrow> control c' = control c"
  unfolding cpuApplyWrites_def by (auto split: if_splits)

lemma applyCPU_control: "applyCPU io d b intent (c, h) = (out, c', h') \<Longrightarrow> control c' = control c"
  unfolding applyCPU_def
  by (auto simp: Let_def split: sum.splits if_splits prod.splits dest: cpuApplyWrites_control)

interpretation cpuMech: steady_mechanism "cpuOps io d b intent" for io d b intent
  by unfold_locales (auto simp: cpuOps_def split: prod.splits dest: applyCPU_control)

text \<open>The CPU mechanism of one intent, whatever the discovery and the baseline of the reconcile.\<close>

definition cpuMechanism :: "'h NodeIO \<Rightarrow> string \<Rightarrow> 'h governorOps \<Rightarrow> bool" where
  "cpuMechanism io key ops \<longleftrightarrow> (\<exists>d b intent. cpuIntentKey intent = key \<and> ops = cpuOps io d b intent)"

lemma cpuMechanism_steady: "cpuMechanism io key ops \<Longrightarrow> steady_mechanism ops"
  using cpuMech.steady_mechanism_axioms by (auto simp: cpuMechanism_def)


text \<open>A node that is a table of files, each of which takes any value.\<close>

definition fileIO :: "strmap NodeIO" where
  "fileIO = \<lparr>io_write = (\<lambda>p v h. if h p = None then Inl \<lparr>we_errno = Some ''ENOENT'', we_notFound = False, we_exitCode = None, we_text = p\<rparr>
                                else Inr (h(p \<mapsto> v))),
     io_read = (\<lambda>p h. h p), io_run = (\<lambda>_ h. ((None, []), h)), io_query = (\<lambda>_ _. Inl ''no tool''), io_wait = (\<lambda>h. h),
     io_cancelled = (\<lambda>_. False)\<rparr>"

definition exampleInventory :: V1CPUGovernorInventory where
  "exampleInventory = \<lparr>cgv_driver = ''acpi-cpufreq'', cgv_driverMode = [], cgv_current = ''ondemand'', cgv_available = [], cgv_epp = None,
     cgv_boost = None, cgv_presets = [], cgv_baseline = None, cgv_writable = True\<rparr>"

definition exampleDiscovery :: cpuGovernorDiscovery where
  "exampleDiscovery = \<lparr>cgd_facts = \<lparr>cf_driver = ''acpi-cpufreq'', cf_driverMode = [], cf_hwp = False,
       cf_governors = [''ondemand'', ''performance''], cf_epps = [], cf_boostScope = [], cf_policies = [0]\<rparr>,
     cgd_policies = [\<lparr>pol_ID = 0, pol_governor = ''ondemand'', pol_epp = [], pol_boost = []\<rparr>], cgd_inventory = exampleInventory\<rparr>"

definition exampleIntent :: CPUGovernorIntent where
  "exampleIntent = \<lparr>cgi_preset = ''performance'', cgi_boost = []\<rparr>"

abbreviation exampleGovernorPath :: string where
  "exampleGovernorPath \<equiv> ''/host-sys/devices/system/cpu/cpufreq/policy0/scaling_governor''"

definition exampleWorld :: "strmap GovWorld" where
  "exampleWorld = \<lparr>gw_now = 0, gw_comp = newComponent componentCPUGovernor, gw_host = [exampleGovernorPath \<mapsto> ''ondemand''], gw_writes = []\<rparr>"

definition exampleStep :: "governorComponent \<times> strmap" where
  "exampleStep = govStep (cpuOps fileIO exampleDiscovery None exampleIntent) 1 (cpuIntentKey exampleIntent) ''performance''
     (gw_comp exampleWorld, gw_host exampleWorld)"

definition exampleWorld1 :: "strmap GovWorld" where
  "exampleWorld1 = \<lparr>gw_now = 1, gw_comp = fst exampleStep, gw_host = snd exampleStep, gw_writes = [1]\<rparr>"

lemma exampleStep_applies: "gk_lastApply (fst exampleStep) = Some 1 \<and> snd exampleStep exampleGovernorPath = Some ''performance''"
  by code_simp

lemma exampleWorld_step:
  "govRunStep (cpuMechanism fileIO (cpuIntentKey exampleIntent)) (cpuIntentKey exampleIntent) ''performance'' exampleWorld exampleWorld1"
  using govRunStep.reconcile [of "cpuMechanism fileIO (cpuIntentKey exampleIntent)" "cpuOps fileIO exampleDiscovery None exampleIntent"
      exampleWorld 1 "cpuIntentKey exampleIntent" "''performance''" "gw_host exampleWorld" "fst exampleStep" "snd exampleStep"]
    exampleStep_applies
  by (auto simp: cpuMechanism_def exampleStep_def exampleWorld1_def exampleWorld_def)


section \<open>Lemmas: the CPU list\<close>

lemma Split_append: "sep \<notin> set w \<Longrightarrow> Split (w @ sep # s) sep = w # Split s sep"
  by (induction w) auto

lemma Split_none: "sep \<notin> set w \<Longrightarrow> Split w sep = [w]"
  by (induction w) auto

lemma Split_Join: "ws \<noteq> [] \<Longrightarrow> \<forall>w\<in>set ws. sep \<notin> set w \<Longrightarrow> Split (Join ws [sep]) sep = ws"
  by (induction ws "[sep]" rule: Join.induct) (auto simp: Split_append Split_none)

lemma runEnd_set: "runEnd i js = (j, rest) \<Longrightarrow> i \<le> j \<and> insert i (set js) = {i..j} \<union> set rest"
proof (induction i js arbitrary: j rest rule: runEnd.induct)
  case (2 i k ks)
  show ?case
  proof (cases "k = i + 1")
    case True
    then have IH: "k \<le> j \<and> insert k (set ks) = {k..j} \<union> set rest" using 2 by simp
    then have "insert i {k..j} = {i..j}" using True by auto
    then show ?thesis using IH True by auto
  next
    case False
    then show ?thesis using 2(2) by auto
  qed
qed auto

lemma runEnd_bounds: "runEnd i js = (j, rest) \<Longrightarrow> set rest \<subseteq> set js \<and> (j = i \<or> j \<in> set js)"
  by (induction i js arbitrary: j rest rule: runEnd.induct) (auto split: if_splits)

lemma Itoa_no_dash: "0 \<le> i \<Longrightarrow> CHR ''-'' \<notin> set (Itoa i)"
  using nat_str_digits [of "nat i"] by (auto simp: Itoa_def)

lemma Itoa_no_comma: "CHR '','' \<notin> set (Itoa i)"
  using Itoa_char by blast

lemma TrimSpace_noSpace: "\<forall>c\<in>set s. \<not> is_space c \<Longrightarrow> TrimSpace s = s"
  by (rule TrimSpace_id)

lemma cpuPartHas_one:
  assumes "0 \<le> i" "int64_ok i"
  shows "cpuPartHas n (Itoa i) \<longleftrightarrow> n = i"
  using assms Itoa_no_dash [of i] by (auto simp: cpuPartHas_def TrimSpace_Itoa Atoi_Itoa)

lemma cpuPartHas_range:
  assumes "0 \<le> i" "int64_ok i" "int64_ok j"
  shows "cpuPartHas n (Itoa i @ ''-'' @ Itoa j) \<longleftrightarrow> i \<le> n \<and> n \<le> j"
proof -
  have "TrimSpace (Itoa i @ ''-'' @ Itoa j) = Itoa i @ ''-'' @ Itoa j"
    using Itoa_char by (intro TrimSpace_noSpace) (auto simp: is_space_def)
  moreover have "Cut (Itoa i @ CHR ''-'' # Itoa j) (CHR ''-'') = (Itoa i, Itoa j, True)"
    by (rule Cut_append) (rule Itoa_no_dash [OF assms(1)])
  ultimately show ?thesis using assms by (simp add: cpuPartHas_def Atoi_Itoa)
qed

lemma cpuListParts_has:
  assumes "\<forall>i\<in>set ids. 0 \<le> i \<and> int64_ok i"
  shows "list_ex (cpuPartHas n) (cpuListParts ids) \<longleftrightarrow> n \<in> set ids"
  using assms
proof (induction ids rule: cpuListParts.induct)
  case (2 i ids)
  obtain j rest where R: "runEnd i ids = (j, rest)" by force
  note S = runEnd_set [OF R] and B = runEnd_bounds [OF R]
  have IH: "list_ex (cpuPartHas n) (cpuListParts rest) \<longleftrightarrow> n \<in> set rest" using 2 R B by auto
  have ok: "0 \<le> i" "int64_ok i" "int64_ok j" using 2(2) B by auto
  have "cpuPartHas n (if j > i then Itoa i @ ''-'' @ Itoa j else Itoa i) \<longleftrightarrow> n \<in> {i..j}"
    using S cpuPartHas_range [OF ok] cpuPartHas_one [OF ok(1,2)] by auto
  moreover have "n \<in> set (i # ids) \<longleftrightarrow> n \<in> {i..j} \<or> n \<in> set rest" using S by (metis Un_iff list.simps(15))
  ultimately show ?case using IH R by simp
qed simp

lemma cpuListParts_no_comma: "w \<in> set (cpuListParts ids) \<Longrightarrow> CHR '','' \<notin> set w"
  by (induction ids rule: cpuListParts.induct) (auto simp: Itoa_no_comma split: prod.splits if_splits)

lemma cpuListHas_format:
  assumes "\<forall>i\<in>set ids. 0 \<le> i \<and> int64_ok i"
  shows "cpuListHas (formatCPUList ids) n \<longleftrightarrow> n \<in> set ids"
proof (cases "ids = []")
  case True
  then show ?thesis by (simp add: cpuListHas_def formatCPUList_def cpuPartHas_def TrimSpace_def trim_by_def Atoi_def)
next
  case False
  then have "cpuListParts ids \<noteq> []" by (cases ids) (simp_all split: prod.splits)
  then have "Split (formatCPUList ids) (CHR '','') = cpuListParts ids"
    unfolding formatCPUList_def using cpuListParts_no_comma by (intro Split_Join) blast+
  then show ?thesis using cpuListParts_has [OF assms] by (simp add: cpuListHas_def)
qed

section \<open>Lemmas: writing and reading back\<close>

text \<open>
  The governors and preferences a write may change: the one written and, since a driver sets the
  energy-performance preference with the governor, that policy's preference. \<open>attributesIndependent\<close>
  says that a write changes no other governor and no other preference; in particular a write of a boost
  attribute changes none. It says nothing of the other attributes: a global boost write may set the boost of every
  policy, and turbo and boost writes the frequency limits, as they do on Linux.
\<close>

definition isPolicyWord :: "string \<Rightarrow> bool" where
  "isPolicyWord q \<longleftrightarrow> (\<exists>n. q = PolicyRelPath n PolicyGovernorFile \<or> q = PolicyRelPath n PolicyEPPFile)"

lemma isPolicyWords [simp]: "isPolicyWord (PolicyRelPath n PolicyGovernorFile)" "isPolicyWord (PolicyRelPath n PolicyEPPFile)"
  by (auto simp: isPolicyWord_def)

definition touches :: "string \<Rightarrow> string \<Rightarrow> bool" where
  "touches p q \<longleftrightarrow> q = p \<or> (\<exists>n. p = PolicyRelPath n PolicyGovernorFile \<and> q = PolicyRelPath n PolicyEPPFile)"

definition attributesIndependent :: "'h NodeIO \<Rightarrow> bool" where
  "attributesIndependent io \<longleftrightarrow>
     (\<forall>p q v h h'. io_write io (hostSysPath p) v h = Inr h' \<and> isPolicyWord q \<and> \<not> touches p q \<longrightarrow>
        io_read io (hostSysPath q) h' = io_read io (hostSysPath q) h)"

definition consistentWrites :: "Write list \<Rightarrow> bool" where
  "consistentWrites ws \<longleftrightarrow> (\<forall>w\<in>set ws. \<forall>w'\<in>set ws. touches (wr_relPath w) (wr_relPath w') \<longrightarrow> w = w')"

lemma Classify_None: "fst (Classify None want readback) = GovernorResultApplied \<longleftrightarrow> TrimSpace want = TrimSpace readback"
  by (simp add: Classify_def)

lemma TrimSpace_idem [simp]: "TrimSpace (TrimSpace s) = TrimSpace s"
  unfolding TrimSpace_def using trim_by_ends [of is_space s] by (intro trim_by_id) blast

lemma TrimSpace_Nil [simp]: "TrimSpace [] = []"
  by (simp add: TrimSpace_def trim_by_def)

lemma attrWord_trimmed [simp]: "TrimSpace (attrWord io rel h) = attrWord io rel h"
  by (simp add: attrWord_def readSysfsWord_def split: option.split)

lemma Classify_result_nonempty: "fst (Classify (Some e) want readback) \<noteq> []"
  using Classify_error [of e want readback] by auto

text \<open>One write that succeeded, and the rest.\<close>

lemma writeVerified_Cons:
  assumes "writeVerified io (w # ws) h = ((n, taken, [], m), h'')"
  obtains h' n' taken' where "io_write io (hostSysPath (wr_relPath w)) (wr_value w) h = Inr h'"
    "attrWord io (wr_relPath w) h' = TrimSpace (wr_value w)" "writeVerified io ws h' = ((n', taken', [], m), h'')"
proof (cases "io_write io (hostSysPath (wr_relPath w)) (wr_value w) h")
  case (Inl e)
  then have "Classify (Some e) (wr_value w) [] = ([], m)" using assms by simp
  then show thesis using Classify_result_nonempty [of e "wr_value w" "[]"] by simp
next
  case (Inr h')
  obtain result message where C: "Classify None (wr_value w) (attrWord io (wr_relPath w) h') = (result, message)" by force
  obtain n' taken' r h3 where W: "writeVerified io ws h' = ((n', taken', r), h3)" by (metis prod_cases3 prod.collapse)
  show thesis
  proof (cases "result = GovernorResultApplied")
    case True
    then have "TrimSpace (wr_value w) = attrWord io (wr_relPath w) h'" using Classify_None C by (metis attrWord_trimmed fst_conv)
    then show thesis using that [of h' n' taken'] assms Inr C W True by simp
  next
    case False
    moreover have "result \<noteq> []" using C by (auto simp: Classify_def split: if_splits)
    ultimately show thesis using assms Inr C by simp
  qed
qed

lemma write_frame:
  assumes "attributesIndependent io" "io_write io (hostSysPath p) v h = Inr h'" "\<not> touches p q" "isPolicyWord q"
  shows "attrWord io q h' = attrWord io q h"
  using assms unfolding attributesIndependent_def attrWord_def readSysfsWord_def by metis

lemma writeVerified_frame:
  assumes "attributesIndependent io" "writeVerified io ws h = ((n, taken, [], m), h')" "\<forall>w\<in>set ws. \<not> touches (wr_relPath w) q" "isPolicyWord q"
  shows "attrWord io q h' = attrWord io q h"
  using assms(2,3)
proof (induction ws arbitrary: h n taken)
  case (Cons w ws)
  obtain h1 n' taken' where "io_write io (hostSysPath (wr_relPath w)) (wr_value w) h = Inr h1"
    "writeVerified io ws h1 = ((n', taken', [], m), h')" using writeVerified_Cons [OF Cons.prems(1)] by metis
  then show ?case using Cons.IH [of h1] Cons.prems(2) write_frame [OF assms(1) _ _ assms(4)] by simp
qed simp

lemma writeVerified_holds:
  assumes "attributesIndependent io" "writeVerified io ws h = ((n, taken, [], m), h')" "consistentWrites ws" "w \<in> set ws" "\<forall>w\<in>set ws. isPolicyWord (wr_relPath w)"
  shows "attrWord io (wr_relPath w) h' = TrimSpace (wr_value w)"
  using assms(2-5)
proof (induction ws arbitrary: h n taken)
  case (Cons v ws)
  obtain h1 n' taken' where W: "attrWord io (wr_relPath v) h1 = TrimSpace (wr_value v)"
    "writeVerified io ws h1 = ((n', taken', [], m), h')" using writeVerified_Cons [OF Cons.prems(1)] by metis
  have c: "consistentWrites ws" using Cons.prems(2) by (simp add: consistentWrites_def)
  show ?case
  proof (cases "w \<in> set ws")
    case True
    then show ?thesis using Cons.IH [OF W(2) c] Cons.prems(4) by simp
  next
    case False
    then have "w = v" using Cons.prems(3) by simp
    moreover have "\<forall>w'\<in>set ws. \<not> touches (wr_relPath w') (wr_relPath v)"
      using Cons.prems(2) False \<open>w = v\<close> by (auto simp: consistentWrites_def)
    ultimately show ?thesis using writeVerified_frame [OF assms(1) W(2)] W(1) Cons.prems(4) by simp
  qed
qed simp

text \<open>A phase that writes only what differs leaves every one of its attributes at its value.\<close>

lemma phase_holds:
  assumes "attributesIndependent io" "writeVerified io (differing io ws h) h = ((n, taken, [], m), h')" "consistentWrites ws"
    "\<forall>w\<in>set ws. TrimSpace (wr_value w) = wr_value w" "w \<in> set ws" "\<forall>w\<in>set ws. isPolicyWord (wr_relPath w)"
  shows "attrWord io (wr_relPath w) h' = wr_value w"
proof (cases "w \<in> set (differing io ws h)")
  case True
  have "consistentWrites (differing io ws h)" using assms(3) by (auto simp: consistentWrites_def differing_def)
  moreover have "\<forall>w\<in>set (differing io ws h). isPolicyWord (wr_relPath w)" using assms(6) by (simp add: differing_def)
  ultimately show ?thesis using writeVerified_holds [OF assms(1,2) _ True] assms(4,5) by simp
next
  case False
  then have "attrWord io (wr_relPath w) h = wr_value w" using assms(5) by (simp add: differing_def)
  moreover have "\<forall>w'\<in>set (differing io ws h). \<not> touches (wr_relPath w') (wr_relPath w)"
    using assms(3,5) False by (auto simp: consistentWrites_def differing_def)
  ultimately show ?thesis using writeVerified_frame [OF assms(1,2)] assms(5,6) by simp
qed

lemma restorePhases_Cons:
  assumes "restorePhases io (phase # phases) h = ((n, [], m), h'')"
  obtains h' n' n'' taken m' where "writeVerified io (phase h) h = ((n', taken, [], m'), h')" "restorePhases io phases h' = ((n'', [], m), h'')"
proof -
  obtain n' taken result msg h' where W: "writeVerified io (phase h) h = ((n', taken, result, msg), h')" by (metis prod_cases4 prod.collapse)
  obtain n'' r h3 where R: "restorePhases io phases h' = ((n'', r), h3)" by (metis prod.collapse)
  show thesis using assms W R that by (cases "result = []") auto
qed

section \<open>Lemmas: the baseline\<close>

text \<open>The writes of a baseline recorded by a discovery: one for every policy that is still there.\<close>

definition baselineOf :: "cpuGovernorDiscovery \<Rightarrow> string \<Rightarrow> V1CPUGovernorBaseline" where
  "baselineOf d0 at' = \<lparr>cgb_groups = cpuBaseline d0, cgb_recordedAt = at'\<rparr>"

definition policiesOk :: "Policy list \<Rightarrow> bool" where
  "policiesOk ps \<longleftrightarrow> distinct (map pol_ID ps) \<and> (\<forall>p\<in>set ps. 0 \<le> pol_ID p \<and> int64_ok (pol_ID p))"

lemma sortedPolicies_set [simp]: "set (sortedPolicies ps) = set ps"
  by (simp add: sortedPolicies_def)

lemma baseline_groups:
  assumes "policiesOk (cgd_policies d0)"
  shows "set (cpuBaselineGroups d (Some (baselineOf d0 at'))) =
    {g. cg_policies g \<noteq> [] \<and> (\<exists>k \<in> policyKey ` set (cgd_policies d0).
       g = \<lparr>cg_policies = filter (\<lambda>n. n \<in> pol_ID ` {p \<in> set (cgd_policies d0). policyKey p = k}) (cf_policies (cgd_facts d)),
            cg_governor = fst k, cg_epp = fst (snd k), cg_boost = snd (snd k)\<rparr>)}"
proof -
  have "cpuListHas (formatCPUList (map pol_ID (filter (\<lambda>s. policyKey s = k) (cgd_policies d0)))) =
      (\<lambda>n. n \<in> pol_ID ` {p \<in> set (cgd_policies d0). policyKey p = k})" for k
    using assms by (intro ext, subst cpuListHas_format) (auto simp: policiesOk_def)
  then show ?thesis
    unfolding cpuBaselineGroups_def baselineOf_def cpuBaseline_def Let_def by (simp add: image_image image_iff) blast
qed

lemma baseline_writes:
  assumes "policiesOk (cgd_policies d0)" and key: "\<And>g k. word \<lparr>cg_policies = g, cg_governor = fst k, cg_epp = fst (snd k), cg_boost = snd (snd k)\<rparr> = sel k"
  shows "set (concat (map (groupWrites f word) (cpuBaselineGroups d (Some (baselineOf d0 at'))))) =
    {\<lparr>wr_relPath = PolicyRelPath (pol_ID p) f, wr_value = sel (policyKey p)\<rparr> | p.
       p \<in> set (cgd_policies d0) \<and> pol_ID p \<in> set (cf_policies (cgd_facts d)) \<and> sel (policyKey p) \<noteq> []}" (is "?L = ?R")
proof
  show "?L \<subseteq> ?R"
  proof
    fix w assume "w \<in> ?L"
    then obtain g where g: "g \<in> set (cpuBaselineGroups d (Some (baselineOf d0 at')))" "w \<in> set (groupWrites f word g)" by auto
    obtain q where q: "q \<in> set (cgd_policies d0)" "g = \<lparr>cg_policies = filter (\<lambda>n. n \<in> pol_ID ` {p \<in> set (cgd_policies d0). policyKey p = policyKey q})
        (cf_policies (cgd_facts d)), cg_governor = fst (policyKey q), cg_epp = fst (snd (policyKey q)), cg_boost = snd (snd (policyKey q))\<rparr>"
      using g(1) unfolding baseline_groups [OF assms(1)] by blast
    have s: "word g = sel (policyKey q)" unfolding q(2) by (rule key)
    obtain n where n: "n \<in> set (cg_policies g)" "w = \<lparr>wr_relPath = PolicyRelPath n f, wr_value = word g\<rparr>" "word g \<noteq> []"
      using g(2) by (auto simp: groupWrites_def split: if_splits)
    obtain p where "p \<in> set (cgd_policies d0)" "policyKey p = policyKey q" "n = pol_ID p" "n \<in> set (cf_policies (cgd_facts d))"
      using n(1) unfolding q(2) by auto
    then show "w \<in> ?R" using n s by auto
  qed
  show "?R \<subseteq> ?L"
  proof
    fix w assume "w \<in> ?R"
    then obtain p where p: "p \<in> set (cgd_policies d0)" "pol_ID p \<in> set (cf_policies (cgd_facts d))" "sel (policyKey p) \<noteq> []"
      "w = \<lparr>wr_relPath = PolicyRelPath (pol_ID p) f, wr_value = sel (policyKey p)\<rparr>" by blast
    let ?g = "\<lparr>cg_policies = filter (\<lambda>n. n \<in> pol_ID ` {q \<in> set (cgd_policies d0). policyKey q = policyKey p}) (cf_policies (cgd_facts d)),
            cg_governor = fst (policyKey p), cg_epp = fst (snd (policyKey p)), cg_boost = snd (snd (policyKey p))\<rparr>"
    have m: "pol_ID p \<in> set (cg_policies ?g)" using p by auto
    then have "cg_policies ?g \<noteq> []" by (metis empty_iff empty_set)
    then have "?g \<in> set (cpuBaselineGroups d (Some (baselineOf d0 at')))"
      unfolding baseline_groups [OF assms(1)] using p(1) by blast
    moreover have "w \<in> set (groupWrites f word ?g)" using p m by (auto simp: groupWrites_def key)
    ultimately have "\<exists>g \<in> set (cpuBaselineGroups d (Some (baselineOf d0 at'))). w \<in> set (groupWrites f word g)" by (intro bexI)
    then show "w \<in> ?L" by (simp only: set_concat set_map UN_iff bex_simps)
  qed
qed

lemma baseline_consistent:
  assumes "policiesOk (cgd_policies d0)"
    and ws: "set ws \<subseteq> {\<lparr>wr_relPath = PolicyRelPath (pol_ID p) f, wr_value = v p\<rparr> | p. p \<in> set (cgd_policies d0)}"
  shows "consistentWrites ws"
  unfolding consistentWrites_def
proof (intro ballI impI)
  fix w w' assume "w \<in> set ws" "w' \<in> set ws" and t: "touches (wr_relPath w) (wr_relPath w')"
  then obtain p p' where p: "p \<in> set (cgd_policies d0)" "p' \<in> set (cgd_policies d0)"
    "w = \<lparr>wr_relPath = PolicyRelPath (pol_ID p) f, wr_value = v p\<rparr>" "w' = \<lparr>wr_relPath = PolicyRelPath (pol_ID p') f, wr_value = v p'\<rparr>"
    using ws by blast
  then have "pol_ID p = pol_ID p'" using t by (auto simp: touches_def)
  then have "p = p'" using assms(1) p(1,2) by (auto simp: policiesOk_def distinct_map dest: inj_onD)
  then show "w = w'" using p by simp
qed

lemma PlanCPUGroups_boost:
  assumes "PlanCPUGroups f gs = (g, e, ws)" "w \<in> set ws"
  obtains ps b where "w \<in> set (CPUBoostWrites f ps b)"
  using assms that by (auto simp: PlanCPUGroups_def split: if_splits option.splits)

lemma boost_untouched:
  assumes "w \<in> set (cpuBaselineBoostWrites io d b globalSeen h)" "f \<noteq> PolicyBoostFile"
  shows "\<not> touches (wr_relPath w) (PolicyRelPath n f)"
proof -
  define gb nt where "gb = GlobalBoostRelPath" and "nt = NoTurboRelPath"
  have ne: "PolicyRelPath m x \<noteq> gb" "PolicyRelPath m x \<noteq> nt" for m x unfolding gb_def nt_def by simp_all
  obtain g e ws where P: "PlanCPUGroups (cgd_facts d) (cpuBaselineGroups d b) = (g, e, ws)" by (metis prod_cases3)
  have "w \<in> set ws \<or> wr_relPath w = gb"
    using assms(1) unfolding cpuBaselineBoostWrites_def P gb_def by (auto simp: differing_def split: if_splits)
  moreover have "\<exists>m. wr_relPath w \<in> {gb, nt, PolicyRelPath m PolicyBoostFile}" if w: "w \<in> set ws"
  proof -
    obtain ps x where "w \<in> set (CPUBoostWrites (cgd_facts d) ps x)" by (rule PlanCPUGroups_boost [OF P w])
    then have "wr_relPath w \<in> {gb, nt} \<union> (\<lambda>n. PolicyRelPath n PolicyBoostFile) ` set ps"
      using boost_paths [of "cgd_facts d" ps x] unfolding gb_def nt_def by blast
    then show ?thesis by blast
  qed
  ultimately obtain m where "wr_relPath w \<in> {gb, nt, PolicyRelPath m PolicyBoostFile}" by blast
  then consider "wr_relPath w = gb" | "wr_relPath w = nt" | "wr_relPath w = PolicyRelPath m PolicyBoostFile" by blast
  then show ?thesis
  proof cases
    case 3
    then show ?thesis using assms(2) by (auto simp: touches_def)
  qed (metis touches_def ne)+
qed

lemma writeVerified_result:
  "writeVerified io ws h = ((n, taken, r, m), h') \<Longrightarrow> r \<noteq> GovernorResultRestored"
proof (induction ws arbitrary: h n taken r m h')
  case (Cons w ws)
  show ?case
  proof (cases "io_write io (hostSysPath (wr_relPath w)) (wr_value w) h")
    case (Inl e)
    then have "r = fst (Classify (Some e) (wr_value w) [])" using Cons.prems by auto
    then show ?thesis using Classify_error [of e "wr_value w" "[]"] by auto
  next
    case (Inr h1)
    obtain result message where C: "Classify None (wr_value w) (attrWord io (wr_relPath w) h1) = (result, message)" by force
    then have res: "result \<noteq> GovernorResultRestored" by (auto simp: Classify_def split: if_splits)
    obtain n' taken' r' m' h2 where W: "writeVerified io ws h1 = ((n', taken', r', m'), h2)" by (metis prod_cases4 prod.collapse)
    show ?thesis using Cons.prems Inr C W res Cons.IH [OF W] by (cases "result = GovernorResultApplied") auto
  qed
qed simp

lemma restorePhases_result:
  "restorePhases io phases h = ((n, r, m), h') \<Longrightarrow> r \<noteq> GovernorResultRestored"
proof (induction phases arbitrary: h n r m h')
  case (Cons phase phases)
  obtain n' taken' r' m' h2 where W: "writeVerified io (phase h) h = ((n', taken', r', m'), h2)" by (metis prod_cases4 prod.collapse)
  obtain n'' r'' m'' h3 where R: "restorePhases io phases h2 = ((n'', r'', m''), h3)" by (metis prod_cases3 prod.collapse)
  show ?case using Cons.prems W R Cons.IH [OF R] writeVerified_result [OF W] by (cases "r' = []") auto
qed simp

lemma restoreCPU_phases:
  assumes "restoreCPU io d (Some b) (c, h) = (out, c', h')" "gst_result (out_status out) = GovernorResultRestored"
    and P: "PlanCPUGroups (cgd_facts d) (cpuBaselineGroups d (Some b)) = (governors, epps, boost)"
  obtains h1 h2 n1 t1 m1 n2 t2 m2 n3 t3 m3 ws where
    "writeVerified io (differing io governors h) h = ((n1, t1, [], m1), h1)"
    "writeVerified io (differing io epps h1) h1 = ((n2, t2, [], m2), h2)"
    "writeVerified io ws h2 = ((n3, t3, [], m3), h')"
    "set ws \<subseteq> set (cpuBaselineBoostWrites io d (Some b) (gk_globalBoostSeen c) h2)"
proof -
  let ?boost = "\<lambda>h. if \<not> gk_boostWritten c \<and> gk_globalBoostSeen c = [] then [] else cpuBaselineBoostWrites io d (Some b) (gk_globalBoostSeen c) h"
  obtain n r m h3 where R: "restorePhases io [differing io governors, differing io epps, ?boost] h = ((n, r, m), h3)"
    by (metis prod_cases3 prod.collapse)
  have "r \<noteq> [] \<Longrightarrow> gst_result (out_status out) = r" "h3 = h'"
    using assms(1) P R by (auto simp: restoreCPU_def cpuStatus_def split: if_splits)
  then have rh: "r = []" "h3 = h'" using assms(2) restorePhases_result [OF R] by auto
  note R1 = R [unfolded rh]
  obtain h1 n1 n1' t1 m1 where W1: "writeVerified io (differing io governors h) h = ((n1, t1, [], m1), h1)"
    "restorePhases io [differing io epps, ?boost] h1 = ((n1', [], m), h')" by (rule restorePhases_Cons [OF R1])
  obtain h2 n2 n2' t2 m2 where W2: "writeVerified io (differing io epps h1) h1 = ((n2, t2, [], m2), h2)"
    "restorePhases io [?boost] h2 = ((n2', [], m), h')" by (rule restorePhases_Cons [OF W1(2)])
  obtain h4 n3 n3' t3 m3 where W3: "writeVerified io (?boost h2) h2 = ((n3, t3, [], m3), h4)"
    "restorePhases io [] h4 = ((n3', [], m), h')" by (rule restorePhases_Cons [OF W2(2)])
  have "h4 = h'" using W3(2) by simp
  then show thesis using that [OF W1(1) W2(1), of "?boost h2"] W3(1) by auto
qed

text \<open>C24: What the agent restores is what it found. Take the baseline a discovery recorded (policies grouped by
  equal state, each group's policies printed as a CPU list, as NodeHardware stores it), and any later state of the
  node, on which a write may change its own attribute, a governor write the preference of its policy, and boost writes
  any boost and frequency attribute. When the restore from it reports success, every policy of that discovery that is still there reads the
  governor it had then and, where it had one, the energy-performance preference it had then.\<close>

theorem restoreCPU_roundtrip:
  assumes io: "attributesIndependent io" and ok: "policiesOk (cgd_policies d0)"
    and trimmed: "\<forall>p\<in>set (cgd_policies d0). TrimSpace (pol_governor p) = pol_governor p \<and> TrimSpace (pol_epp p) = pol_epp p"
    and restored: "restoreCPU io d (Some (baselineOf d0 at')) (c, h) = (out, c', h')" "gst_result (out_status out) = GovernorResultRestored"
    and p: "p \<in> set (cgd_policies d0)" "pol_ID p \<in> set (cf_policies (cgd_facts d))"
  shows "(pol_governor p \<noteq> [] \<longrightarrow> attrWord io (PolicyRelPath (pol_ID p) PolicyGovernorFile) h' = pol_governor p) \<and>
    (pol_epp p \<noteq> [] \<longrightarrow> attrWord io (PolicyRelPath (pol_ID p) PolicyEPPFile) h' = pol_epp p)"
proof -
  obtain govs epps boost where P: "PlanCPUGroups (cgd_facts d) (cpuBaselineGroups d (Some (baselineOf d0 at'))) = (govs, epps, boost)"
    by (metis prod_cases3)
  have G: "set govs = {\<lparr>wr_relPath = PolicyRelPath (pol_ID p) PolicyGovernorFile, wr_value = fst (policyKey p)\<rparr> | p.
      p \<in> set (cgd_policies d0) \<and> pol_ID p \<in> set (cf_policies (cgd_facts d)) \<and> fst (policyKey p) \<noteq> []}"
    using P baseline_writes [OF ok, of cg_governor fst PolicyGovernorFile d at'] by (auto simp: PlanCPUGroups_def)
  have E: "set epps = {\<lparr>wr_relPath = PolicyRelPath (pol_ID p) PolicyEPPFile, wr_value = fst (snd (policyKey p))\<rparr> | p.
      p \<in> set (cgd_policies d0) \<and> pol_ID p \<in> set (cf_policies (cgd_facts d)) \<and> fst (snd (policyKey p)) \<noteq> []}"
    using P baseline_writes [OF ok, of cg_epp "\<lambda>k. fst (snd k)" PolicyEPPFile d at'] by (auto simp: PlanCPUGroups_def)
  have cG: "consistentWrites govs" by (rule baseline_consistent [OF ok]) (use G in auto)
  have cE: "consistentWrites epps" by (rule baseline_consistent [OF ok]) (use E in auto)
  have tG: "\<forall>w\<in>set govs. TrimSpace (wr_value w) = wr_value w" and tE: "\<forall>w\<in>set epps. TrimSpace (wr_value w) = wr_value w"
    using trimmed unfolding G E by (auto simp: policyKey_def)
  obtain h1 h2 n1 t1 m1 n2 t2 m2 n3 t3 m3 ws where
    W: "writeVerified io (differing io govs h) h = ((n1, t1, [], m1), h1)"
      "writeVerified io (differing io epps h1) h1 = ((n2, t2, [], m2), h2)" "writeVerified io ws h2 = ((n3, t3, [], m3), h')"
    and b: "set ws \<subseteq> set (cpuBaselineBoostWrites io d (Some (baselineOf d0 at')) (gk_globalBoostSeen c) h2)"
    by (rule restoreCPU_phases [OF restored P])
  have wG: "\<forall>w\<in>set govs. isPolicyWord (wr_relPath w)" and wE: "\<forall>w\<in>set epps. isPolicyWord (wr_relPath w)" unfolding G E by auto
  have eppLeaves: "\<forall>w\<in>set (differing io epps h1). \<not> touches (wr_relPath w) (PolicyRelPath n PolicyGovernorFile)" for n
    using E by (auto simp: differing_def touches_def)
  have boostLeaves: "\<forall>w\<in>set ws. \<not> touches (wr_relPath w) (PolicyRelPath n f)" if "f \<noteq> PolicyBoostFile" for n f
    using boost_untouched [OF subsetD [OF b] that] by blast
  have "attrWord io (PolicyRelPath (pol_ID p) PolicyGovernorFile) h' = pol_governor p" if "pol_governor p \<noteq> []"
  proof -
    have "\<lparr>wr_relPath = PolicyRelPath (pol_ID p) PolicyGovernorFile, wr_value = pol_governor p\<rparr> \<in> set govs"
      using G p that by (auto simp: policyKey_def)
    from phase_holds [OF io W(1) cG tG this wG] show ?thesis
      using writeVerified_frame [OF io W(2) eppLeaves] writeVerified_frame [OF io W(3) boostLeaves] by simp
  qed
  moreover have "attrWord io (PolicyRelPath (pol_ID p) PolicyEPPFile) h' = pol_epp p" if "pol_epp p \<noteq> []"
  proof -
    have "\<lparr>wr_relPath = PolicyRelPath (pol_ID p) PolicyEPPFile, wr_value = pol_epp p\<rparr> \<in> set epps"
      using E p that by (auto simp: policyKey_def)
    from phase_holds [OF io W(2) cE tE this wE] show ?thesis
      using writeVerified_frame [OF io W(3) boostLeaves] by simp
  qed
  ultimately show ?thesis by simp
qed

lemma fileIO_independent: "attributesIndependent fileIO"
  by (auto simp: attributesIndependent_def fileIO_def touches_def hostSysPath_def pathJoin_def split: if_splits)

definition exampleRestore :: "governorOutcome \<times> governorComponent \<times> strmap" where
  "exampleRestore = restoreCPU fileIO exampleDiscovery (Some (baselineOf exampleDiscovery ''t0''))
     (newComponent componentCPUGovernor, [exampleGovernorPath \<mapsto> ''performance''])"

lemma exampleRestore_restored: "gst_result (out_status (fst exampleRestore)) = GovernorResultRestored"
  by code_simp

theorem restoreCPU_roundtrip_witness:
  "attrWord fileIO (PolicyRelPath 0 PolicyGovernorFile) (snd (snd exampleRestore)) = ''ondemand''"
proof -
  have ok: "policiesOk (cgd_policies exampleDiscovery)" by (simp add: policiesOk_def exampleDiscovery_def int64_ok_def)
  have tr: "\<forall>p\<in>set (cgd_policies exampleDiscovery). TrimSpace (pol_governor p) = pol_governor p \<and> TrimSpace (pol_epp p) = pol_epp p"
    by code_simp
  have run: "restoreCPU fileIO exampleDiscovery (Some (baselineOf exampleDiscovery ''t0''))
      (newComponent componentCPUGovernor, [exampleGovernorPath \<mapsto> ''performance'']) =
      (fst exampleRestore, fst (snd exampleRestore), snd (snd exampleRestore))" by (simp add: exampleRestore_def)
  have p: "\<lparr>pol_ID = 0, pol_governor = ''ondemand'', pol_epp = [], pol_boost = []\<rparr> \<in> set (cgd_policies exampleDiscovery)"
    "0 \<in> set (cf_policies (cgd_facts exampleDiscovery))" by (simp_all add: exampleDiscovery_def)
  show ?thesis
    using restoreCPU_roundtrip [OF fileIO_independent ok tr run exampleRestore_restored p(1)] p(2) by simp
qed

end
