(* ===== verification/Agent_Gpu_Governor.thy ===== *)
theory Agent_Gpu_Governor
  imports Agent_Governor "HOL-Library.AList"
begin

text \<open>
  The GPU half of \<^verbatim>\<open>cmd/agent/governor_control.go\<close> and the life cycle of the governor control: amdgpu
  levels and overdrive ceilings, written in lockstep over the devices; NVIDIA clock locks, which have no
  getter, with the agent's own record of them, their undo when a later command of the plan fails, and their
  verification from busy samples; reading the stored baselines, taking over what an earlier run left, and
  the restore on exit.
\<close>

section \<open>amdgpu\<close>

fun odScan :: "bool \<Rightarrow> string list \<Rightarrow> int \<times> bool" where
  "odScan inside [] = (0, False)"
| "odScan inside (line # rest) =
     (let t = TrimSpace line
      in if HasSuffix t '':'' then odScan (t = ''OD_SCLK:'') rest
         else (case Cut t (CHR '':'') of (key, value, ok) \<Rightarrow>
                 if \<not> inside \<or> \<not> ok \<or> TrimSpace key \<noteq> ''1'' then odScan inside rest
                 else (let v = TrimSpace (TrimSuffix (TrimSuffix (TrimSpace value) ''Mhz'') ''MHz'')
                       in (AtoiValue v, Atoi v \<noteq> None))))"

definition odSclkMax :: "string \<Rightarrow> int \<times> bool" where
  "odSclkMax text = odScan False (Split text (CHR 0x0A))"

text \<open>Polls of \<open>pp_od_clk_voltage\<close>: at most \<open>governorODSettle\<close> over \<open>governorODPoll\<close> of them.\<close>

definition governorODPolls :: nat where
  "governorODPolls = 250"

definition odPending :: "'h NodeIO \<Rightarrow> Write list \<Rightarrow> 'h \<Rightarrow> nat" where
  "odPending io ws h = length (filter (\<lambda>w. attrWord io (wr_relPath w) h = TrimSpace (wr_value w)) ws)"

fun waitODReadback :: "'h NodeIO \<Rightarrow> Write list \<Rightarrow> nat \<Rightarrow> 'h \<Rightarrow> goerr option \<times> 'h" where
  "waitODReadback io ws polls h =
     (if odPending io ws h = 0 then (None, h)
      else case polls of
             0 \<Rightarrow> (Some (Itoa (int (odPending io ws h)) @ '' pp_od_clk_voltage file(s) did not print the table again within 5s after '' @
                        quoted (wr_value (hd ws))), h)
           | Suc n \<Rightarrow> if io_cancelled io h then (Some ''context canceled'', h) else waitODReadback io ws n (io_wait io h))"

declare waitODReadback.simps [simp del]

text \<open>One write of every device: the writes read back, the overdrive commands issued, their number, the failure.\<close>

fun amdRound :: "'h NodeIO \<Rightarrow> Write list \<Rightarrow> 'h \<Rightarrow> (Write list \<times> Write list \<times> nat \<times> string \<times> string) \<times> 'h" where
  "amdRound io [] h = (([], [], 0, [], []), h)"
| "amdRound io (w # ws) h =
     (if IsODWrite w
      then (case io_write io (hostSysPath (wr_relPath w)) (wr_value w) h of
              Inl e \<Rightarrow> (case Classify (Some e) (wr_value w) [] of
                          (result, message) \<Rightarrow> (([], [], 0, result, wr_relPath w @ '': '' @ message), h))
            | Inr h \<Rightarrow> (case amdRound io ws h of ((expect, od, n, r), h) \<Rightarrow> ((expect, w # od, n + 1, r), h)))
      else (case writeVerified io [w] h of
              ((n, _, res, msg), h) \<Rightarrow>
                if res \<noteq> [] then (([], [], n, res, msg), h)
                else (case amdRound io ws h of ((expect, od, n', r), h) \<Rightarrow> ((w # expect, od, n + n', r), h))))"

lemma steps_shrink:
  "filter (\<lambda>s. s \<noteq> []) steps \<noteq> [] \<Longrightarrow> sum_list (map length (map tl steps)) < sum_list (map length steps)"
proof (induction steps)
  case (Cons s steps)
  then show ?case
    by (cases s; cases "filter (\<lambda>s. s \<noteq> []) steps") (auto simp: filter_empty_conv intro: add_le_less_mono less_imp_le,
        metis (mono_tags, lifting) add.commute add_le_mono length_tl diff_le_self le_imp_less_Suc list.map_comp sum_list_mono comp_apply)
qed simp

function writeAMDSteps :: "'h NodeIO \<Rightarrow> Write list list \<Rightarrow> 'h \<Rightarrow> (Write list \<times> Write list \<times> nat \<times> string \<times> string) \<times> 'h" where
  "writeAMDSteps io steps h =
     (let heads = map hd (filter (\<lambda>s. s \<noteq> []) steps)
      in if heads = [] then (([], [], 0, [], []), h)
         else (case amdRound io heads h of
                 ((expect, od, n, res, msg), h) \<Rightarrow>
                   if res \<noteq> [] then ((expect, expect, n, res, msg), h)
                   else (case (if od = [] then (None, h) else waitODReadback io od governorODPolls h) of
                           (Some err, h) \<Rightarrow> ((expect, expect, n, GovernorResultError, err), h)
                         | (None, h) \<Rightarrow>
                             (case writeAMDSteps io (map tl steps) h of
                                ((expect', taken', n', r), h) \<Rightarrow> ((expect @ expect', expect @ od @ taken', n + n', r), h)))))"
  by pat_completeness auto

termination
  by (relation "measure (\<lambda>(io, steps, h). sum_list (map length steps))") (auto dest!: steps_shrink)

declare writeAMDSteps.simps [simp del]

definition gpuStatus :: "string \<Rightarrow> string \<Rightarrow> string \<Rightarrow> string \<Rightarrow> governorStatus" where
  "gpuStatus backend result message applied =
     \<lparr>gst_backend = backend, gst_result = result, gst_message = message, gst_applied = applied\<rparr>"

definition outcomeOf :: "governorStatus \<Rightarrow> nat \<Rightarrow> bool \<Rightarrow> governorOutcome" where
  "outcomeOf st n tried = \<lparr>out_status = st, out_wrote = n, out_attempted = tried\<rparr>"

definition amdInForce :: "Plan list \<Rightarrow> Write list \<Rightarrow> string" where
  "amdInForce plans taken = uniformOrMixed (map (\<lambda>p. InForce p taken) plans)"

text \<open>The plans of every device, or the status of the first one without a plan.\<close>

fun amdPlans :: "string \<Rightarrow> f64 \<Rightarrow> AMDFacts list \<Rightarrow> governorStatus + Plan list" where
  "amdPlans preset pct [] = Inr []"
| "amdPlans preset pct (f # fs) =
     (case PlanAMD f preset pct of
        Inl err \<Rightarrow> Inl (gpuStatus GovernorBackendAMDGPUSysfs GovernorResultError err [])
      | Inr plan \<Rightarrow>
          if pl_result plan = GovernorResultUnsupported
          then Inl (gpuStatus GovernorBackendAMDGPUSysfs GovernorResultUnsupported
                 (''preset '' @ quoted preset @ '' is not supported by the GPU at '' @ af_busID f @ '' (device '' @ af_deviceID f @ '')'') [])
          else (case amdPlans preset pct fs of Inl st \<Rightarrow> Inl st | Inr plans \<Rightarrow> Inr (plan # plans)))"

definition plansResult :: "Plan list \<Rightarrow> string" where
  "plansResult plans =
     (if list_ex (\<lambda>p. pl_result p = GovernorResultEquivalent) plans then GovernorResultEquivalent else GovernorResultApplied)"

definition odCeilings :: "AMDFacts list \<Rightarrow> Plan list \<Rightarrow> (string \<times> int) list" where
  "odCeilings fs plans =
     fold (\<lambda>(f, p) m. if st_sclkMaxMHz (pl_state p) > 0 then AList.update (af_busID f) (st_sclkMaxMHz (pl_state p)) m else m)
       (zip fs plans) []"

definition checkODCeiling :: "'h NodeIO \<Rightarrow> string \<Rightarrow> int \<Rightarrow> 'h \<Rightarrow> bool \<times> string" where
  "checkODCeiling io bus mhz h =
     (let rel = AMDDeviceRelPath bus AMDODFile
      in case odSclkMax (attrWord io rel h) of
           (got, ok) \<Rightarrow> if \<not> ok \<or> got \<noteq> mhz
                        then (False, rel @ '': OD_SCLK maximum reads '' @ Itoa got @ '', the agent set '' @ Itoa mhz)
                        else (True, []))"

definition firstBadCeiling :: "'h NodeIO \<Rightarrow> (string \<times> int) list \<Rightarrow> 'h \<Rightarrow> (string \<times> string) option" where
  "firstBadCeiling io od h =
     map_option (\<lambda>(bus, mhz). (bus, snd (checkODCeiling io bus mhz h)))
       (find (\<lambda>(bus, mhz). \<not> fst (checkODCeiling io bus mhz h)) od)"

definition applyAMD ::
  "'h NodeIO \<Rightarrow> gpuGovernorDiscovery \<Rightarrow> string \<Rightarrow> f64 \<Rightarrow> governorComponent \<times> 'h \<Rightarrow> governorOutcome \<times> governorComponent \<times> 'h" where
  "applyAMD io d preset pct s =
     (case s of (c, h) \<Rightarrow>
        (case amdPlans preset pct (ggd_amd d) of
           Inl st \<Rightarrow> (outcomeOf st 0 False, c, h)
         | Inr plans \<Rightarrow>
             (let od = odCeilings (ggd_amd d) plans; st = gpuStatus GovernorBackendAMDGPUSysfs
              in case writeAMDSteps io (map pl_writes plans) h of
                   ((expect, taken, wrote, res, msg), h) \<Rightarrow>
                     (let c = (if wrote > 0 \<and> od \<noteq> [] then c\<lparr>gk_odDevices := remdups (map fst od @ gk_odDevices c)\<rparr> else c)
                      in if res \<noteq> [] then (outcomeOf (st res msg (amdInForce plans taken)) wrote True, c, h)
                         else (case firstBadCeiling io od h of
                                 Some (bus, msg) \<Rightarrow>
                                   (outcomeOf (st GovernorResultNotApplied msg
                                      (amdInForce plans (filter (\<lambda>w. wr_relPath w \<noteq> AMDDeviceRelPath bus AMDODFile) taken))) wrote True, c, h)
                               | None \<Rightarrow>
                                   (outcomeOf (st (plansResult plans) [] (uniformOrMixed (map pl_native plans))) wrote True,
                                    c\<lparr>gk_expect := expect, gk_od := od\<rparr>, h))))))"

definition checkAMD :: "'h NodeIO \<Rightarrow> governorComponent \<times> 'h \<Rightarrow> (bool \<times> bool \<times> string) \<times> governorComponent" where
  "checkAMD io s =
     (case s of (c, h) \<Rightarrow>
        ((case find (\<lambda>w. attrWord io (wr_relPath w) h \<noteq> wr_value w) (gk_expect c) of
            Some w \<Rightarrow> (False, attrWord io (wr_relPath w) h = AMDLevelAuto, snd (checkWrites io [w] h))
          | None \<Rightarrow> (case firstBadCeiling io (gk_od c) h of
                       Some (_, msg) \<Rightarrow> (False, False, msg)
                     | None \<Rightarrow> (True, False, []))), c))"

text \<open>The restore of one baseline device that is present: the reset of an edited range, the level.\<close>

definition amdRestoreSteps ::
  "'h NodeIO \<Rightarrow> governorComponent \<Rightarrow> 'h \<Rightarrow> AMDFacts list \<Rightarrow> V1GPUGovernorDeviceState \<Rightarrow> (string \<times> Write list \<times> Write list) option" where
  "amdRestoreSteps io c h fs dev =
     (case find (\<lambda>f. ToLower (af_busID f) = ToLower (gds_busID dev)) (rev fs) of
        None \<Rightarrow> None
      | Some f \<Rightarrow>
          if gds_level dev = [] then None
          else Some (gds_level dev,
                     if af_od f \<and> gds_level dev \<noteq> AMDLevelAuto \<and> (af_busID f \<in> set (gk_odDevices c) \<or> ''*'' \<in> set (gk_odDevices c))
                     then PlanAMDODReset (af_busID f) else [],
                     differing io [PlanAMDLevel (af_busID f) (gds_level dev)] h))"

definition restoreAMD ::
  "'h NodeIO \<Rightarrow> gpuGovernorDiscovery \<Rightarrow> V1GPUGovernorBaseline option \<Rightarrow> governorComponent \<times> 'h \<Rightarrow>
   governorOutcome \<times> governorComponent \<times> 'h" where
  "restoreAMD io d baseline s =
     (case s of (c, h) \<Rightarrow>
       (let st = gpuStatus GovernorBackendAMDGPUSysfs
        in case baseline of
             None \<Rightarrow> (outcomeOf (st GovernorResultError ''no baseline to restore'' []) 0 False, c, h)
           | Some b \<Rightarrow>
               (let devs = List.map_filter (amdRestoreSteps io c h (ggd_amd d)) (ggb_devices b);
                    nonEmpty = filter (\<lambda>ws. ws \<noteq> [])
                in case writeAMDSteps io (nonEmpty (map (\<lambda>(_, od, _). od) devs)) h of
                     ((_, _, n1, res, msg), h) \<Rightarrow>
                       if res \<noteq> [] then (outcomeOf (st res (''restore: '' @ msg) []) n1 True, c, h)
                       else (case writeAMDSteps io (nonEmpty (map (\<lambda>(_, _, lv). lv) devs)) h of
                               ((_, _, n2, res, msg), h) \<Rightarrow>
                                 if res \<noteq> [] then (outcomeOf (st res (''restore: '' @ msg) []) (n1 + n2) True, c, h)
                                 else (outcomeOf (st GovernorResultRestored ''baseline restored'' (uniformOrMixed (map fst devs)))
                                         (n1 + n2) (n1 + n2 > 0), c, h)))))"

definition amdOps :: "'h NodeIO \<Rightarrow> gpuGovernorDiscovery \<Rightarrow> string \<Rightarrow> f64 \<Rightarrow> 'h governorOps" where
  "amdOps io d preset pct = \<lparr>op_apply = applyAMD io d preset pct, op_check = checkAMD io, op_reissue = (\<lambda>_ _. False)\<rparr>"

section \<open>NVIDIA\<close>

definition nvidiaVerifySamples :: nat where "nvidiaVerifySamples = 3"
definition nvidiaVerifyTolerance :: f64 where "nvidiaVerifyTolerance = 102 / 100"

definition noLocks :: nvidiaRecord where
  "noLocks = \<lparr>nvr_gpu = None, nvr_mem = None\<rparr>"

definition holdsLock :: "nvidiaRecord \<Rightarrow> bool" where
  "holdsLock r \<longleftrightarrow> nvr_gpu r \<noteq> None \<or> nvr_mem r \<noteq> None"

definition seedNvidia :: "gpuGovernorDiscovery \<Rightarrow> governorComponent \<Rightarrow> governorComponent" where
  "seedNvidia d c =
     (case gk_nvSeed c of
        None \<Rightarrow> c
      | Some st \<Rightarrow>
          c\<lparr>gk_nv := fold (\<lambda>n. AList.update (ngf_busID n) \<lparr>nvr_gpu = st_gpuLockMHz st, nvr_mem = st_memLockMHz st\<rparr>) (ggd_nvidia d) (gk_nv c),
            gk_nvSeed := None\<rparr>)"

definition nvidiaLocked :: "governorComponent \<Rightarrow> bool" where
  "nvidiaLocked c = list_ex (\<lambda>(bus, r). holdsLock r) (gk_nv c)"

definition nvidiaFactsOf :: "governorComponent \<Rightarrow> nvidiaGovernorFacts \<Rightarrow> NVFacts" where
  "nvidiaFactsOf c n =
     (case map_of (gk_nv c) (ngf_busID n) of
        None \<Rightarrow> ngf_facts n
      | Some r \<Rightarrow> (ngf_facts n)\<lparr>nf_lockedGPU := (nvr_gpu r \<noteq> None), nf_lockedMem := (nvr_mem r \<noteq> None)\<rparr>)"

definition recordArg :: "State \<Rightarrow> string \<Rightarrow> nvidiaRecord \<Rightarrow> nvidiaRecord" where
  "recordArg st a r =
     (if a = ''-lgc'' then r\<lparr>nvr_gpu := st_gpuLockMHz st\<rparr>
      else if a = ''-lmc'' then r\<lparr>nvr_mem := st_memLockMHz st\<rparr>
      else if a = ''-rgc'' then r\<lparr>nvr_gpu := None\<rparr>
      else if a = ''-rmc'' then r\<lparr>nvr_mem := None\<rparr> else r)"

definition recordNvidia :: "string \<Rightarrow> string list \<Rightarrow> State \<Rightarrow> governorComponent \<Rightarrow> governorComponent" where
  "recordNvidia bus args st c =
     (let r = (case map_of (gk_nv c) bus of Some r \<Rightarrow> r | None \<Rightarrow> noLocks)
      in c\<lparr>gk_nv := AList.update bus (fold (recordArg st) args r) (gk_nv c)\<rparr>)"

definition runNvidiaSmi :: "'h NodeIO \<Rightarrow> string list \<Rightarrow> 'h \<Rightarrow> (string \<times> string) \<times> 'h" where
  "runNvidiaSmi io args h =
     (case io_run io args h of ((err, out), h) \<Rightarrow> (ClassifyRun (''nvidia-smi '' @ Join args '' '') err out, h))"

text \<open>The lock a command set, with the reset that clears it.\<close>

definition lockResetOf :: "string list \<Rightarrow> (string \<times> string) option" where
  "lockResetOf args =
     (case filter (\<lambda>a. a = ''-lgc'' \<or> a = ''-lmc'') args of
        [] \<Rightarrow> None
      | as \<Rightarrow> Some (last as, if last as = ''-lgc'' then ''-rgc'' else ''-rmc''))"

text \<open>The commands come last first.\<close>

fun undoNvidiaLocks :: "'h NodeIO \<Rightarrow> string \<Rightarrow> string list list \<Rightarrow> governorComponent \<times> 'h \<Rightarrow> (nat \<times> bool \<times> string) \<times> governorComponent \<times> 'h" where
  "undoNvidiaLocks io bus [] s = ((0, False, []), s)"
| "undoNvidiaLocks io bus (args # rest) (c, h) =
     (case lockResetOf args of
        None \<Rightarrow> undoNvidiaLocks io bus rest (c, h)
      | Some (lock, reset) \<Rightarrow>
          (case runNvidiaSmi io [''-i'', bus, reset] h of
             ((res, msg), h) \<Rightarrow>
               if res \<noteq> GovernorResultApplied
               then (case undoNvidiaLocks io bus rest (c, h) of
                       ((undone, _, note), s) \<Rightarrow>
                         ((undone, True, ''; the '' @ lock @ '' lock set before stays, its reset failed: '' @ msg @ note), s))
               else (case undoNvidiaLocks io bus rest (recordNvidia bus [''-i'', bus, reset] zeroState c, h) of
                       ((undone, kept, note), s) \<Rightarrow>
                         ((undone + 1, kept, ''; the '' @ lock @ '' lock set before was reset with '' @ reset @ note), s))))"

definition lockState :: "governorComponent \<Rightarrow> string \<Rightarrow> State" where
  "lockState c bus =
     (case map_of (gk_nv c) bus of
        None \<Rightarrow> zeroState
      | Some r \<Rightarrow> zeroState\<lparr>st_gpuLockMHz := nvr_gpu r, st_memLockMHz := nvr_mem r\<rparr>)"

text \<open>The commands of one GPU: how many ran, and for the one that failed its result, message and what stayed.\<close>

fun runNvidiaArgs ::
  "'h NodeIO \<Rightarrow> string \<Rightarrow> State \<Rightarrow> string list list \<Rightarrow> string list list \<Rightarrow> governorComponent \<times> 'h \<Rightarrow>
   (nat \<times> (string \<times> string \<times> string) option) \<times> governorComponent \<times> 'h" where
  "runNvidiaArgs io bus st done' [] s = ((0, None), s)"
| "runNvidiaArgs io bus st done' (args # rest) (c, h) =
     (case runNvidiaSmi io args h of
        ((result, message), h) \<Rightarrow>
          if result \<noteq> GovernorResultApplied
          then (case undoNvidiaLocks io bus (rev done') (c, h) of
                  ((undone, kept, note), c, h) \<Rightarrow>
                    (let stayed = (if kept \<or> list_ex (\<lambda>a. ''-rgc'' \<in> set a \<or> ''-rmc'' \<in> set a) done'
                                   then NativeNvidia (lockState c bus) else [])
                     in ((undone, Some (result, message @ note, stayed)), c, h)))
          else (case runNvidiaArgs io bus st (done' @ [args]) rest (recordNvidia bus args st c, h) of
                  ((n, failed), s) \<Rightarrow> ((n + 1, failed), s)))"

fun runNvidiaPlans ::
  "'h NodeIO \<Rightarrow> (string \<times> Plan) list \<Rightarrow> string list \<Rightarrow> governorComponent \<times> 'h \<Rightarrow>
   (nat \<times> string \<times> string \<times> string) \<times> governorComponent \<times> 'h" where
  "runNvidiaPlans io [] natives s = ((0, [], [], []), s)"
| "runNvidiaPlans io ((bus, plan) # rest) natives s =
     (case runNvidiaArgs io bus (pl_state plan) [] (pl_args plan) s of
        ((n, Some (result, message, stayed)), s) \<Rightarrow> ((n, result, message, uniformOrMixed (natives @ [stayed])), s)
      | ((n, None), s) \<Rightarrow>
          (case runNvidiaPlans io rest (natives @ [pl_native plan]) s of ((n', r), s) \<Rightarrow> ((n + n', r), s)))"

fun nvidiaPlans :: "governorComponent \<Rightarrow> string \<Rightarrow> f64 \<Rightarrow> nvidiaGovernorFacts list \<Rightarrow> governorStatus + (string \<times> Plan) list" where
  "nvidiaPlans c preset pct [] = Inr []"
| "nvidiaPlans c preset pct (n # ns) =
     (case PlanNvidia (nvidiaFactsOf c n) (ngf_busID n) preset pct of
        Inl err \<Rightarrow> Inl (gpuStatus GovernorBackendNvidiaSMI GovernorResultError err [])
      | Inr plan \<Rightarrow>
          if pl_result plan = GovernorResultUnsupported
          then Inl (gpuStatus GovernorBackendNvidiaSMI GovernorResultUnsupported
                 (''preset '' @ quoted preset @ '' is not supported by the GPU at '' @ ngf_busID n) [])
          else (case nvidiaPlans c preset pct ns of Inl st \<Rightarrow> Inl st | Inr plans \<Rightarrow> Inr ((ngf_busID n, plan) # plans)))"

definition nvidiaVerified :: "governorComponent \<Rightarrow> bool" where
  "nvidiaVerified c = list_all (\<lambda>(bus, r). holdsLock r \<longrightarrow> gk_nvGood c bus \<ge> nvidiaVerifySamples) (gk_nv c)"

definition applyNvidia ::
  "'h NodeIO \<Rightarrow> gpuGovernorDiscovery \<Rightarrow> string \<Rightarrow> f64 \<Rightarrow> governorComponent \<times> 'h \<Rightarrow> governorOutcome \<times> governorComponent \<times> 'h" where
  "applyNvidia io d preset pct s =
     (case nvidiaPlans (fst s) preset pct (ggd_nvidia d) of
        Inl st \<Rightarrow> (outcomeOf st 0 False, s)
      | Inr plans \<Rightarrow>
          (case runNvidiaPlans io plans [] s of
             ((issued, res, msg, inForce), c, h) \<Rightarrow>
               if res \<noteq> [] then (outcomeOf (gpuStatus GovernorBackendNvidiaSMI res msg inForce) issued True, c, h)
               else (let result = plansResult (map snd plans);
                         result = (if result = GovernorResultApplied \<and> nvidiaLocked c \<and> \<not> nvidiaVerified c
                                   then GovernorResultAppliedUnverified else result)
                     in (outcomeOf (gpuStatus GovernorBackendNvidiaSMI result [] (uniformOrMixed (map (\<lambda>p. pl_native (snd p)) plans))) issued True, c, h))))"

definition sampleOf :: "'h GovEnv \<Rightarrow> 'h \<Rightarrow> string \<Rightarrow> NvidiaClocks option" where
  "sampleOf e h bus =
     (case QueryNvidiaClocks (ge_parseFloat e) (\<lambda>args. io_query (ge_io e) args h) of
        Inl _ \<Rightarrow> None
      | Inr rows \<Rightarrow> find (\<lambda>r. ncl_busID r = bus) (rev (filter (\<lambda>r. ncl_clocksOK r \<and> ncl_reasonsOK r) rows)))"

definition withinLock :: "ClockLock \<Rightarrow> f64 \<Rightarrow> bool" where
  "withinLock l v =
     (case l of None \<Rightarrow> True
      | Some (lo, hi) \<Rightarrow> v \<le> real_of_int hi * nvidiaVerifyTolerance \<and> v \<ge> real_of_int lo / nvidiaVerifyTolerance)"

definition sampleGood :: "nvidiaRecord \<Rightarrow> NvidiaClocks \<Rightarrow> bool" where
  "sampleGood r x \<longleftrightarrow>
     (case nvr_gpu r of None \<Rightarrow> True | Some (_, hi) \<Rightarrow> real_of_int (ncl_smMHz x) \<le> real_of_int hi * nvidiaVerifyTolerance) \<and>
     withinLock (nvr_mem r) (real_of_int (ncl_memMHz x))"

definition countSample :: "'h GovEnv \<Rightarrow> 'h \<Rightarrow> string \<times> nvidiaRecord \<Rightarrow> (string \<Rightarrow> nat) \<Rightarrow> string \<Rightarrow> nat" where
  "countSample e h br good =
     (case br of (bus, r) \<Rightarrow>
        (case sampleOf e h bus of
           None \<Rightarrow> good
         | Some x \<Rightarrow>
             if odd (ncl_reasons x) \<or> \<not> holdsLock r then good
             else good(bus := (if sampleGood r x then good bus + 1 else 0))))"

definition verifyNvidia :: "'h GovEnv \<Rightarrow> governorComponent \<times> 'h \<Rightarrow> (bool \<times> bool \<times> string) \<times> governorComponent" where
  "verifyNvidia e s =
     (case s of (c, h) \<Rightarrow>
        ((True, False, []),
         if gst_result (gk_status c) \<noteq> GovernorResultAppliedUnverified then c
         else (let c = c\<lparr>gk_nvGood := fold (countSample e h) (gk_nv c) (gk_nvGood c)\<rparr>;
                   st = (gk_status c)\<lparr>gst_result := GovernorResultApplied, gst_message := ''verified by 3 busy samples per GPU''\<rparr>
               in if nvidiaVerified c then c\<lparr>gk_status := st, gk_good := st\<rparr> else c)))"

definition nvidiaPersistenceOff :: "'h NodeIO \<Rightarrow> 'h \<Rightarrow> string list option" where
  "nvidiaPersistenceOff io h =
     (case io_query io [''--query-gpu=pci.bus_id,persistence_mode'', ''--format=csv,noheader''] h of
        Inl _ \<Rightarrow> None
      | Inr out \<Rightarrow>
          Some (List.map_filter (\<lambda>line.
            (let p = map (\<lambda>q. TrimSpace (Trim q [CHR 0x22])) (Split line (CHR '',''))
             in if length p \<ge> 2 \<and> EqualFold (p ! 1) ''Disabled'' then Some (hd p) else None)) (Split (TrimSpace out) (CHR 0x0A))))"

definition nvidiaReissueDue :: "'h NodeIO \<Rightarrow> int \<Rightarrow> governorComponent \<times> 'h \<Rightarrow> bool" where
  "nvidiaReissueDue io now s =
     (case s of (c, h) \<Rightarrow>
        nvidiaLocked c \<and>
        (elapsed now (gk_lastApply c) governorReapplyEvery \<or>
         (case nvidiaPersistenceOff io h of
            None \<Rightarrow> False
          | Some off \<Rightarrow> list_ex (\<lambda>(bus, r). holdsLock r \<and> bus \<in> set off) (gk_nv c))))"

definition restoreNvidia ::
  "'h NodeIO \<Rightarrow> gpuGovernorDiscovery \<Rightarrow> governorComponent \<times> 'h \<Rightarrow> governorOutcome \<times> governorComponent \<times> 'h" where
  "restoreNvidia io d s =
     (let plans = List.map_filter (\<lambda>n. case PlanNvidia (nvidiaFactsOf (fst s) n) (ngf_busID n) GPUGovernorPresetAuto 0 of
                     Inl _ \<Rightarrow> None
                   | Inr plan \<Rightarrow> if pl_args plan = [] then None else Some (ngf_busID n, plan)) (ggd_nvidia d)
      in case runNvidiaPlans io plans [] s of
           ((issued, res, msg, _), c, h) \<Rightarrow>
             if res \<noteq> [] then (outcomeOf (gpuStatus GovernorBackendNvidiaSMI res (''restore: '' @ msg) []) issued True, c, h)
             else (outcomeOf (gpuStatus GovernorBackendNvidiaSMI GovernorResultRestored ''the agent's clock locks reset'' GovernorStateUnlocked)
                     issued (issued > 0), c, h))"

definition nvidiaOps :: "'h GovEnv \<Rightarrow> gpuGovernorDiscovery \<Rightarrow> string \<Rightarrow> f64 \<Rightarrow> 'h governorOps" where
  "nvidiaOps e d preset pct =
     \<lparr>op_apply = applyNvidia (ge_io e) d preset pct, op_check = verifyNvidia e, op_reissue = nvidiaReissueDue (ge_io e)\<rparr>"

section \<open>The governor control of one node\<close>

definition restoreGPU ::
  "'h NodeIO \<Rightarrow> gpuGovernorDiscovery \<Rightarrow> V1GPUGovernorBaseline option \<Rightarrow> governorComponent \<times> 'h \<Rightarrow>
   governorOutcome \<times> governorComponent \<times> 'h" where
  "restoreGPU io d b s = (if ggd_nvidia d \<noteq> [] then restoreNvidia io d s else restoreAMD io d b s)"

text \<open>Why there is no GPU governor to act on: none on the node, or a tool that failed.\<close>

definition gpuMissing :: "'h GovEnv \<Rightarrow> governorDiscovery \<Rightarrow> string \<Rightarrow> string \<Rightarrow> string \<times> string" where
  "gpuMissing e gov gpuVendor gpuRawModel =
     (if gdi_gpu gov \<noteq> None then ([], GovernorResultUnsupported)
      else if gdi_gpuWarnings gov \<noteq> [] then (Join (gdi_gpuWarnings gov) ''; '', GovernorResultError)
      else if gpuVendor = ''nvidia'' \<and> NvidiaArch (ge_nodeLabels e) gpuRawModel \<noteq> []
      then (''nvidia-smi listed no GPU: NVIDIA governor presets need nvidia-smi in the agent'', GovernorResultError)
      else (''no GPU governor on this node'', GovernorResultUnsupported))"

definition gpuCeiling :: "GPUGovernorIntent \<Rightarrow> f64" where
  "gpuCeiling i = (case ggi_ceilingPctOfMax i of Some v \<Rightarrow> v | None \<Rightarrow> DefaultCeilingPctOfMax)"

definition gpuIntentKey :: "'h GovEnv \<Rightarrow> GPUGovernorIntent \<Rightarrow> string" where
  "gpuIntentKey e i = ggi_preset i @ ''|'' @ ge_fmtFloat e (gpuCeiling i)"

definition gpuOps :: "'h GovEnv \<Rightarrow> gpuGovernorDiscovery \<Rightarrow> GPUGovernorIntent \<Rightarrow> 'h governorOps" where
  "gpuOps e d i =
     (if ggd_nvidia d \<noteq> [] then nvidiaOps e d (ggi_preset i) (gpuCeiling i) else amdOps (ge_io e) d (ggi_preset i) (gpuCeiling i))"

definition reconcileGPU ::
  "'h GovEnv \<Rightarrow> governorDiscovery \<Rightarrow> string \<Rightarrow> string \<Rightarrow> V1GPUGovernorBaseline option \<Rightarrow> GPUGovernorIntent option \<Rightarrow>
   'h govState \<Rightarrow> 'h govState" where
  "reconcileGPU e gov gpuVendor gpuRawModel b intent s =
     (let d = gdi_gpu gov;
          s = (case d of Some d' \<Rightarrow> if ggd_nvidia d' \<noteq> [] then (seedNvidia d' (fst s), snd s) else s | None \<Rightarrow> s);
          restore = map_option (\<lambda>d. restoreGPU (ge_io e) d b) d
      in case intent of
           None \<Rightarrow> release e restore s
         | Some i \<Rightarrow>
             if restoreWritesOff e (fst s) then release e restore s
             else (case blocked e (ge_gpuHTTP e) (fst (gpuMissing e gov gpuVendor gpuRawModel)) (snd (gpuMissing e gov gpuVendor gpuRawModel)) of
                     Some st \<Rightarrow> hold e (ggi_preset i) st s
                   | None \<Rightarrow>
                       (case d of
                          None \<Rightarrow> s
                        | Some d \<Rightarrow> stepAndPublish e (gpuOps e d i) (gpuIntentKey e i) (ggi_preset i) s)))"

record governorControl =
  gco_loaded :: bool
  gco_cpuBaseline :: "V1CPUGovernorBaseline option"
  gco_gpuBaseline :: "V1GPUGovernorBaseline option"
  gco_cpu :: governorComponent
  gco_gpu :: governorComponent
  gco_last :: governorDiscovery
  gco_lastGPU :: "gpuGovernorDiscovery option"

definition noDiscovery :: governorDiscovery where
  "noDiscovery = \<lparr>gdi_cpu = None, gdi_gpu = None, gdi_gpuWarnings = [], gdi_gpuKept = None, gdi_cpuBaseline = None, gdi_gpuBaseline = None\<rparr>"

definition newGovernorControl :: governorControl where
  "newGovernorControl =
     \<lparr>gco_loaded = False, gco_cpuBaseline = None, gco_gpuBaseline = None, gco_cpu = newComponent componentCPUGovernor,
      gco_gpu = newComponent componentGPUGovernor, gco_last = noDiscovery, gco_lastGPU = None\<rparr>"

definition governorResultWrote :: "V1ControlResult \<Rightarrow> bool" where
  "governorResultWrote r \<longleftrightarrow>
     (if vrs_result r \<in> set [[], GovernorResultDisabled, GovernorResultRestored] then False
      else if vrs_result r = GovernorResultUnsupported then vrs_applied r \<noteq> []
      else True)"

definition storedCPUBaseline :: "V1NodeHardware \<Rightarrow> V1CPUGovernorBaseline option" where
  "storedCPUBaseline nh =
     (case nht_cpu (nh_status nh) of None \<Rightarrow> None | Some c \<Rightarrow>
        (case vhc_governor c of None \<Rightarrow> None | Some g \<Rightarrow>
           (case cgv_baseline g of Some b \<Rightarrow> if cgb_groups b \<noteq> [] then Some b else None | None \<Rightarrow> None)))"

definition storedGPUBaseline :: "V1NodeHardware \<Rightarrow> V1GPUGovernorBaseline option" where
  "storedGPUBaseline nh =
     (case nht_gpu (nh_status nh) of None \<Rightarrow> None | Some c \<Rightarrow>
        (case vhg_governor c of None \<Rightarrow> None | Some g \<Rightarrow>
           (case ggv_baseline g of Some b \<Rightarrow> if ggb_devices b \<noteq> [] then Some b else None | None \<Rightarrow> None)))"

definition takeStatus :: "V1ControlResult option \<Rightarrow> governorComponent \<Rightarrow> governorComponent" where
  "takeStatus res c =
     (case res of
        None \<Rightarrow> c
      | Some r \<Rightarrow> c\<lparr>gk_status := \<lparr>gst_backend = vrs_backend r, gst_result = vrs_result r, gst_message = vrs_message r, gst_applied = vrs_applied r\<rparr>,
                    gk_statusWritten := True\<rparr>)"

definition seedCPU :: "V1ControlResult option \<Rightarrow> governorComponent \<Rightarrow> governorComponent" where
  "seedCPU res c0 =
     (let c = takeStatus res c0
      in case res of
           Some r \<Rightarrow> if governorResultWrote r
                     then c\<lparr>gk_changed := True, gk_boostWritten := (st_boost (ParseNative (vrs_backend r) (vrs_applied r)) \<noteq> [])\<rparr> else c
         | None \<Rightarrow> c)"

definition seedGPU :: "V1ControlResult option \<Rightarrow> governorComponent \<Rightarrow> governorComponent" where
  "seedGPU res c0 =
     (let c = takeStatus res c0
      in case res of
           Some r \<Rightarrow>
             if governorResultWrote r
             then (let st = ParseNative (vrs_backend r) (vrs_applied r); c = c\<lparr>gk_changed := True\<rparr>
                   in if vrs_backend r = GovernorBackendNvidiaSMI then c\<lparr>gk_nvSeed := Some st\<rparr>
                      else if vrs_backend r = GovernorBackendAMDGPUSysfs \<and> st_sclkMaxMHz st > 0 then c\<lparr>gk_odDevices := [''*'']\<rparr>
                      else c)
             else c
         | None \<Rightarrow> c)"

text \<open>\<open>desired\<close> is the pair of last governor results in the NodeTwin status, \<open>None\<close> without a NodeTwin.\<close>

type_synonym lastResults = "V1ControlResult option \<times> V1ControlResult option"

definition seed :: "lastResults \<Rightarrow> governorControl \<Rightarrow> governorControl" where
  "seed desired g = g\<lparr>gco_cpu := seedCPU (fst desired) (gco_cpu g), gco_gpu := seedGPU (snd desired) (gco_gpu g)\<rparr>"

text \<open>Reading the stored baselines once; \<open>None\<close> is an error other than not found, and nothing is loaded.\<close>

definition loadBaselines :: "ListErr + V1NodeHardware \<Rightarrow> lastResults option \<Rightarrow> governorControl \<Rightarrow> governorControl option" where
  "loadBaselines got desired g =
     (if gco_loaded g then Some g
      else (case (case got of
                    Inr obj \<Rightarrow> Some (g\<lparr>gco_cpuBaseline := storedCPUBaseline obj, gco_gpuBaseline := storedGPUBaseline obj, gco_loaded := True\<rparr>)
                  | Inl NotFoundErr \<Rightarrow> Some (g\<lparr>gco_loaded := True\<rparr>)
                  | Inl _ \<Rightarrow> None) of
              None \<Rightarrow> None
            | Some g \<Rightarrow> Some (case desired of Some r \<Rightarrow> seed r g | None \<Rightarrow> g)))"

definition followCPUBaseline :: "string \<Rightarrow> cpuGovernorDiscovery option \<Rightarrow> governorControl \<Rightarrow> governorControl" where
  "followCPUBaseline now d g =
     (case d of
        None \<Rightarrow> g
      | Some d \<Rightarrow>
          if gco_cpuBaseline g = None \<or> \<not> gk_changed (gco_cpu g)
          then (if (case gco_cpuBaseline g of None \<Rightarrow> True | Some b \<Rightarrow> cgb_groups b \<noteq> cpuBaseline d)
                then g\<lparr>gco_cpuBaseline := Some \<lparr>cgb_groups = cpuBaseline d, cgb_recordedAt = now\<rparr>\<rparr> else g)
          else g)"

definition followGPUBaseline :: "string \<Rightarrow> gpuGovernorDiscovery option \<Rightarrow> governorControl \<Rightarrow> governorControl" where
  "followGPUBaseline now d g =
     (case d of
        None \<Rightarrow> g
      | Some d \<Rightarrow>
          if gco_gpuBaseline g = None \<or> \<not> gk_changed (gco_gpu g)
          then (let devices = (if gco_gpuBaseline g = None \<and> gk_changed (gco_gpu g)
                               then map (\<lambda>x. if gds_level x \<noteq> GovernorStateUnknown then x\<lparr>gds_level := AMDLevelAuto\<rparr> else x) (ggd_devices d)
                               else ggd_devices d)
                in if (case gco_gpuBaseline g of None \<Rightarrow> True | Some b \<Rightarrow> ggb_devices b \<noteq> devices)
                   then g\<lparr>gco_gpuBaseline := Some \<lparr>ggb_devices = devices, ggb_recordedAt = now\<rparr>\<rparr> else g)
          else g)"

definition publishGPU :: "governorComponent \<Rightarrow> gpuGovernorDiscovery \<Rightarrow> gpuGovernorDiscovery" where
  "publishGPU c d =
     (let d = (if gk_refused c then d\<lparr>ggd_inventory := (ggd_inventory d)\<lparr>ggv_writable := False\<rparr>\<rparr> else d)
      in if ggd_nvidia d \<noteq> [] \<and> nvidiaLocked c \<and> gst_applied (gk_status c) \<noteq> []
         then d\<lparr>ggd_inventory := (ggd_inventory d)\<lparr>ggv_current := gst_applied (gk_status c)\<rparr>\<rparr> else d)"

text \<open>
  The control keeps the discovery itself as \<open>lastGPU\<close>, not a copy, so the fields set for the NodeHardware status last in it.
\<close>

definition prepare :: "string \<Rightarrow> ListErr + V1NodeHardware \<Rightarrow> lastResults option \<Rightarrow> governorDiscovery \<Rightarrow> governorControl \<Rightarrow>
  governorDiscovery \<times> governorControl" where
  "prepare now got desired gov g =
     (case loadBaselines got desired g of
        None \<Rightarrow> (gov, g)
      | Some g \<Rightarrow>
          (let kept = (if gdi_gpu gov = None then gco_lastGPU g else None);
               g = followGPUBaseline now (gdi_gpu gov) (followCPUBaseline now (gdi_cpu gov) g);
               gov = gov\<lparr>gdi_gpuKept := (if kept \<noteq> None then kept else gdi_gpuKept gov),
                         gdi_cpuBaseline := gco_cpuBaseline g, gdi_gpuBaseline := gco_gpuBaseline g\<rparr>;
               gov = (if gk_refused (gco_cpu g)
                      then gov\<lparr>gdi_cpu := map_option (\<lambda>d. d\<lparr>cgd_inventory := (cgd_inventory d)\<lparr>cgv_writable := False\<rparr>\<rparr>) (gdi_cpu gov)\<rparr> else gov);
               gov = gov\<lparr>gdi_gpu := map_option (publishGPU (gco_gpu g)) (gdi_gpu gov),
                         gdi_gpuKept := map_option (publishGPU (gco_gpu g)) (gdi_gpuKept gov)\<rparr>
           in (gov, g\<lparr>gco_last := gov, gco_lastGPU := (if gdi_gpu gov \<noteq> None then gdi_gpu gov else gco_lastGPU g)\<rparr>)))"

definition reconcileGovernors ::
  "'h GovEnv \<Rightarrow> governorDiscovery \<Rightarrow> string \<Rightarrow> string \<Rightarrow> CPUGovernorIntent option \<Rightarrow> GPUGovernorIntent option \<Rightarrow>
   governorControl \<times> 'h \<times> AgentApi \<Rightarrow> governorControl \<times> 'h \<times> AgentApi" where
  "reconcileGovernors e gov gpuVendor gpuRawModel cpuIntent gpuIntent s =
     (case s of (g, h, api) \<Rightarrow>
        if \<not> gco_loaded g then (g, h, api)
        else (case reconcileCPU e (gdi_cpu gov) (gco_cpuBaseline g) cpuIntent (gco_cpu g, h, api) of
                (cpu, h, api) \<Rightarrow>
                  (case reconcileGPU e gov gpuVendor gpuRawModel (gco_gpuBaseline g) gpuIntent (gco_gpu g, h, api) of
                     (gpu, h, api) \<Rightarrow> (g\<lparr>gco_cpu := cpu, gco_gpu := gpu\<rparr>, h, api))))"

definition exitRelease ::
  "'h GovEnv \<Rightarrow> (governorComponent \<times> 'h \<Rightarrow> governorOutcome \<times> governorComponent \<times> 'h) option \<Rightarrow> 'h govState \<Rightarrow> 'h govState" where
  "exitRelease e restore s =
     (case s of (c, h, api) \<Rightarrow>
        if \<not> gk_changed c then s else release (e\<lparr>ge_simulateOnly := False\<rparr>) restore (c\<lparr>gk_retryAt := None\<rparr>, h, api))"

definition restoreOnExit :: "'h GovEnv \<Rightarrow> governorControl \<times> 'h \<times> AgentApi \<Rightarrow> governorControl \<times> 'h \<times> AgentApi" where
  "restoreOnExit e s =
     (case s of (g, h, api) \<Rightarrow>
        if \<not> agc_restoreOnExit (ge_cfg e) \<or> \<not> gco_loaded g then (g, h, api)
        else (case exitRelease e (map_option (\<lambda>d. restoreCPU (ge_io e) d (gco_cpuBaseline g)) (gdi_cpu (gco_last g))) (gco_cpu g, h, api) of
                (cpu, h, api) \<Rightarrow>
                  (case exitRelease e (map_option (\<lambda>d. restoreGPU (ge_io e) d (gco_gpuBaseline g)) (gdi_gpu (gco_last g))) (gco_gpu g, h, api) of
                     (gpu, h, api) \<Rightarrow> (g\<lparr>gco_cpu := cpu, gco_gpu := gpu\<rparr>, h, api))))"

section \<open>Lemmas: who may write\<close>

lemma follow_components [simp]:
  "gco_cpu (followCPUBaseline now d g) = gco_cpu g" "gco_gpu (followCPUBaseline now d g) = gco_gpu g"
  "gco_cpu (followGPUBaseline now d' g) = gco_cpu g" "gco_gpu (followGPUBaseline now d' g) = gco_gpu g"
  by (simp_all add: followCPUBaseline_def followGPUBaseline_def Let_def split: option.split)

text \<open>Preparing changes a component only when it loads the results of an earlier run.\<close>

lemma prepare_components:
  assumes "prepare now got desired gov g = (gov', g')" "desired = None \<or> gco_loaded g"
  shows "gco_cpu g' = gco_cpu g \<and> gco_gpu g' = gco_gpu g"
proof (cases "loadBaselines got desired g")
  case None
  then show ?thesis using assms(1) by (simp add: prepare_def)
next
  case (Some g1)
  have "gco_cpu g1 = gco_cpu g \<and> gco_gpu g1 = gco_gpu g"
    using Some assms(2) by (auto simp: loadBaselines_def split: if_splits sum.splits ListErr.splits)
  then show ?thesis using assms(1) Some by (auto simp: prepare_def Let_def)
qed

lemma publish_keeps:
  assumes "publish e (c, h, api) = (c', h', api')"
  shows "h' = h \<and> gk_changed c' = gk_changed c"
  using assms by (auto simp: publish_def split: prod.splits option.splits)

lemma hold_keeps:
  assumes "hold e preset st (c, h, api) = (c', h', api')"
  shows "h' = h \<and> gk_changed c' = gk_changed c"
  using publish_keeps [of e "c\<lparr>gk_intent := [], gk_preset := preset, gk_status := st\<rparr>"] assms by (simp add: hold_def)

lemma release_idle:
  assumes "release e restore (c, h, api) = (c', h', api')" and "\<not> (gk_changed c \<and> mayRestore e c)"
  shows "h' = h \<and> (gk_changed c' \<longrightarrow> gk_changed c)"
  using assms by (auto simp: release_def Let_def split: if_splits prod.splits option.splits)

text \<open>A component the agent must leave alone: in simulate-only or pool mode, or with writes off and nothing of its own written.\<close>

definition handsOff :: "'h GovEnv \<Rightarrow> governorComponent \<Rightarrow> bool" where
  "handsOff e c \<longleftrightarrow> ge_simulateOnly e \<or> ge_remote e \<or> (\<not> agc_writes (ge_cfg e) \<and> \<not> gk_changed c)"

lemma handsOff_blocked: "handsOff e c \<Longrightarrow> blocked e http missing missingResult \<noteq> None"
  by (auto simp: handsOff_def blocked_def Let_def)

lemma handsOff_idle: "handsOff e c \<Longrightarrow> \<not> (gk_changed c \<and> mayRestore e c)"
  by (auto simp: handsOff_def mayRestore_def)

lemma handsOff_mono: "handsOff e c \<Longrightarrow> (gk_changed c' \<longrightarrow> gk_changed c) \<Longrightarrow> handsOff e c'"
  by (auto simp: handsOff_def)

lemma reconcileCPU_handsOff:
  assumes "reconcileCPU e d b intent (c, h, api) = (c', h', api')" and "handsOff e c"
  shows "h' = h \<and> handsOff e c'"
proof -
  note rel = release_idle [OF _ handsOff_idle [OF assms(2)]] and hld = hold_keeps
  show ?thesis
  proof (cases "intent = None \<or> restoreWritesOff e c")
    case True
    then have "release e (map_option (\<lambda>d. restoreCPU (ge_io e) d b) d) (c, h, api) = (c', h', api')"
      using assms(1) by (auto simp: reconcileCPU_def split: option.splits)
    from rel [OF this] show ?thesis using handsOff_mono [OF assms(2)] by blast
  next
    case False
    then obtain i where i: "intent = Some i" by (cases intent) auto
    obtain st where B: "blocked e (ge_cpuHTTP e) (if d = None then ''no cpufreq governor on this node'' else []) GovernorResultUnsupported = Some st"
      using handsOff_blocked [OF assms(2)] by blast
    have "hold e (cgi_preset i) st (c, h, api) = (c', h', api')" using assms(1) False i B by (simp add: reconcileCPU_def)
    from hld [OF this] show ?thesis using handsOff_mono [OF assms(2)] by blast
  qed
qed

lemma seedNvidia_changed [simp]: "gk_changed (seedNvidia d c) = gk_changed c"
  by (simp add: seedNvidia_def split: option.split)

lemma reconcileGPU_handsOff:
  assumes "reconcileGPU e gov v m b intent (c, h, api) = (c', h', api')" and "handsOff e c"
  shows "h' = h \<and> handsOff e c'"
proof -
  define c1 where "c1 = (case gdi_gpu gov of Some d \<Rightarrow> if ggd_nvidia d \<noteq> [] then seedNvidia d c else c | None \<Rightarrow> c)"
  have p: "handsOff e c1" using assms(2) by (auto simp: c1_def handsOff_def split: option.splits)
  have s: "(case gdi_gpu gov of None \<Rightarrow> (c, h, api) | Some d' \<Rightarrow> if ggd_nvidia d' \<noteq> [] then (seedNvidia d' c, h, api) else (c, h, api)) = (c1, h, api)"
    by (auto simp: c1_def split: option.splits)
  have E: "(case intent of
           None \<Rightarrow> release e (map_option (\<lambda>d. restoreGPU (ge_io e) d b) (gdi_gpu gov)) (c1, h, api)
         | Some i \<Rightarrow>
             if restoreWritesOff e c1 then release e (map_option (\<lambda>d. restoreGPU (ge_io e) d b) (gdi_gpu gov)) (c1, h, api)
             else (case blocked e (ge_gpuHTTP e) (fst (gpuMissing e gov v m)) (snd (gpuMissing e gov v m)) of
                     Some st \<Rightarrow> hold e (ggi_preset i) st (c1, h, api)
                   | None \<Rightarrow>
                       (case gdi_gpu gov of
                          None \<Rightarrow> (c1, h, api)
                        | Some d \<Rightarrow> stepAndPublish e (gpuOps e d i) (gpuIntentKey e i) (ggi_preset i) (c1, h, api)))) = (c', h', api')"
    using assms(1) unfolding reconcileGPU_def Let_def fst_conv snd_conv s .
  show ?thesis
  proof (cases "intent = None \<or> restoreWritesOff e c1")
    case True
    then have "release e (map_option (\<lambda>d. restoreGPU (ge_io e) d b) (gdi_gpu gov)) (c1, h, api) = (c', h', api')"
      using E by (cases intent) auto
    from release_idle [OF this handsOff_idle [OF p]] show ?thesis using handsOff_mono [OF p] by blast
  next
    case False
    then obtain i where i: "intent = Some i" by (cases intent) auto
    obtain st where B: "blocked e (ge_gpuHTTP e) (fst (gpuMissing e gov v m)) (snd (gpuMissing e gov v m)) = Some st"
      using handsOff_blocked [OF p] by blast
    have "hold e (ggi_preset i) st (c1, h, api) = (c', h', api')" using E False i B by simp
    from hold_keeps [OF this] show ?thesis using handsOff_mono [OF p] by blast
  qed
qed

text \<open>Without intents and without a change of its own to take back, the control leaves the node alone in every mode.\<close>

lemma reconcileGovernors_idle:
  assumes "\<not> gk_changed (gco_cpu g)" "\<not> gk_changed (gco_gpu g)"
    and "reconcileGovernors e gov v m None None (g, h, api) = (g', h', api')"
  shows "h' = h \<and> \<not> gk_changed (gco_cpu g') \<and> \<not> gk_changed (gco_gpu g')"
proof (cases "gco_loaded g")
  case True
  obtain cpu h1 api1 where C: "reconcileCPU e (gdi_cpu gov) (gco_cpuBaseline g) None (gco_cpu g, h, api) = (cpu, h1, api1)"
    by (metis prod_cases3)
  obtain gpu h2 api2 where G: "reconcileGPU e gov v m (gco_gpuBaseline g) None (gco_gpu g, h1, api1) = (gpu, h2, api2)"
    by (metis prod_cases3)
  have "release e (map_option (\<lambda>d. restoreCPU (ge_io e) d (gco_cpuBaseline g)) (gdi_cpu gov)) (gco_cpu g, h, api) = (cpu, h1, api1)"
    using C by (simp add: reconcileCPU_def)
  from release_idle [OF this] have "h1 = h \<and> \<not> gk_changed cpu" using assms(1) by blast
  moreover have "h2 = h1 \<and> \<not> gk_changed gpu"
  proof -
    obtain c1 where R: "release e (map_option (\<lambda>d. restoreGPU (ge_io e) d (gco_gpuBaseline g)) (gdi_gpu gov)) (c1, h1, api1) = (gpu, h2, api2)"
      and c1: "\<not> gk_changed c1"
    proof (cases "gdi_gpu gov")
      case None
      then show ?thesis using that [of "gco_gpu g"] G assms(2) by (simp add: reconcileGPU_def)
    next
      case (Some d)
      then show ?thesis using that [of "if ggd_nvidia d \<noteq> [] then seedNvidia d (gco_gpu g) else gco_gpu g"] G assms(2)
        by (simp add: reconcileGPU_def split: if_splits)
    qed
    show ?thesis using release_idle [OF R] c1 by blast
  qed
  ultimately show ?thesis using assms(3) True C G by (auto simp: reconcileGovernors_def)
next
  case False
  then show ?thesis using assms by (simp add: reconcileGovernors_def)
qed

lemma reconcileGovernors_handsOff:
  assumes "handsOff e (gco_cpu g)" "handsOff e (gco_gpu g)"
    and "reconcileGovernors e gov gpuVendor gpuRawModel cpuIntent gpuIntent (g, h, api) = (g', h', api')"
  shows "h' = h \<and> handsOff e (gco_cpu g') \<and> handsOff e (gco_gpu g')"
proof (cases "gco_loaded g")
  case True
  obtain cpu h1 api1 where C: "reconcileCPU e (gdi_cpu gov) (gco_cpuBaseline g) cpuIntent (gco_cpu g, h, api) = (cpu, h1, api1)"
    by (metis prod_cases3)
  obtain gpu h2 api2 where G: "reconcileGPU e gov gpuVendor gpuRawModel (gco_gpuBaseline g) gpuIntent (gco_gpu g, h1, api1) = (gpu, h2, api2)"
    by (metis prod_cases3)
  show ?thesis
    using assms(3) True C G reconcileCPU_handsOff [OF C assms(1)] reconcileGPU_handsOff [OF G assms(2)]
    by (auto simp: reconcileGovernors_def)
next
  case False
  then show ?thesis using assms by (simp add: reconcileGovernors_def)
qed

text \<open>An agent that may not write does not. In simulate-only mode, in pool mode, and with \<open>GOVERNOR_WRITES\<close>
  false while nothing of an earlier run is in force, a reconcile of the governors leaves the node as it is, whatever
  the intents, the discovery, the mechanisms and the state of the control, and the same holds of the next one.\<close>

theorem governor_writes_off:
  assumes "handsOff e (gco_cpu g)" "handsOff e (gco_gpu g)"
    and "reconcileGovernors e gov gpuVendor gpuRawModel cpuIntent gpuIntent (g, h, api) = (g', h', api')"
  shows "h' = h \<and> handsOff e (gco_cpu g') \<and> handsOff e (gco_gpu g')"
  using assms by (rule reconcileGovernors_handsOff)

definition exampleGovEnv :: "bool \<Rightarrow> bool \<Rightarrow> strmap GovEnv" where
  "exampleGovEnv simulate writes =
     \<lparr>ge_now = 5, ge_nodeName = ''n1'', ge_fmtTime = (\<lambda>_. ''t''), ge_io = fileIO, ge_simulateOnly = simulate, ge_cpuHTTP = False,
      ge_gpuHTTP = False, ge_nodeLabels = Map.empty, ge_remote = False, ge_cfg = \<lparr>agc_writes = writes, agc_restoreOnExit = True\<rparr>,
      ge_parseFloat = (\<lambda>_. None), ge_fmtFloat = (\<lambda>_. ''80'')\<rparr>"

definition exampleFound :: governorDiscovery where
  "exampleFound = noDiscovery\<lparr>gdi_cpu := Some exampleDiscovery\<rparr>"

definition exampleHostState :: strmap where
  "exampleHostState = [exampleGovernorPath \<mapsto> ''ondemand'']"

definition exampleQuiet :: "governorControl \<times> strmap \<times> AgentApi" where
  "exampleQuiet = reconcileGovernors (exampleGovEnv False False) exampleFound [] [] (Some exampleIntent) None
     (newGovernorControl\<lparr>gco_loaded := True\<rparr>, exampleHostState, exampleApi)"

theorem governor_writes_off_witness: "fst (snd exampleQuiet) = exampleHostState"
proof -
  have p: "handsOff (exampleGovEnv False False) (gco_cpu (newGovernorControl\<lparr>gco_loaded := True\<rparr>))"
    "handsOff (exampleGovEnv False False) (gco_gpu (newGovernorControl\<lparr>gco_loaded := True\<rparr>))"
    by (simp_all add: handsOff_def exampleGovEnv_def newGovernorControl_def newComponent_def)
  have "reconcileGovernors (exampleGovEnv False False) exampleFound [] [] (Some exampleIntent) None
     (newGovernorControl\<lparr>gco_loaded := True\<rparr>, exampleHostState, exampleApi) = (fst exampleQuiet, fst (snd exampleQuiet), snd (snd exampleQuiet))"
    by (simp add: exampleQuiet_def)
  from governor_writes_off [OF p this] show ?thesis by simp
qed

text \<open>The restore on exit does not look at simulate-only mode: it acts under an empty environment, so an agent that
  runs with \<open>SIMULATE_ONLY\<close> and has taken over a change of an earlier run writes the CPU baseline to the node when it stops,
  although every reconcile before held the node untouched.\<close>

theorem exit_restore_ignores_simulate_only:
  assumes "ge_simulateOnly e" "\<not> ge_remote e" "agc_restoreOnExit (ge_cfg e)" "gco_loaded g"
    and "gk_changed (gco_cpu g)" "\<not> gk_refused (gco_cpu g)" "\<not> gk_contended (gco_cpu g)" "\<not> gk_changed (gco_gpu g)"
    and "gdi_cpu (gco_last g) = Some d"
  shows "fst (snd (restoreOnExit e (g, h, api))) =
    snd (snd (restoreCPU (ge_io e) d (gco_cpuBaseline g) ((gco_cpu g)\<lparr>gk_retryAt := None\<rparr>, h)))"
proof -
  obtain out c1 h1 where R: "restoreCPU (ge_io e) d (gco_cpuBaseline g) ((gco_cpu g)\<lparr>gk_retryAt := None\<rparr>, h) = (out, c1, h1)"
    by (metis prod_cases3)
  obtain c2 h2 api2 where P: "publish (e\<lparr>ge_simulateOnly := False\<rparr>) (afterRestore (ge_now e) out c1, h1, api) = (c2, h2, api2)"
    by (metis prod_cases3)
  have "exitRelease e (Some (restoreCPU (ge_io e) d (gco_cpuBaseline g))) (gco_cpu g, h, api) = (c2, h2, api2)"
    using assms R P by (simp add: exitRelease_def release_def mayRestore_def)
  then show ?thesis
    using assms R publish_keeps [OF P] by (simp add: restoreOnExit_def exitRelease_def)
qed

definition exampleTakenOver :: governorControl where
  "exampleTakenOver = newGovernorControl\<lparr>gco_loaded := True, gco_last := exampleFound,
     gco_cpuBaseline := Some (baselineOf exampleDiscovery ''t0''),
     gco_cpu := seedCPU (Some \<lparr>vrs_backend = ''cpufreq'', vrs_result = ''applied'', vrs_message = [], vrs_applied = ''performance'', vrs_updatedAt = []\<rparr>)
       (newComponent componentCPUGovernor)\<rparr>"

lemma exampleTakenOver_changed:
  "gk_changed (gco_cpu exampleTakenOver) \<and> \<not> gk_refused (gco_cpu exampleTakenOver) \<and> \<not> gk_contended (gco_cpu exampleTakenOver)"
  by code_simp

lemma exampleTakenOver_written:
  "snd (snd (restoreCPU fileIO exampleDiscovery (gco_cpuBaseline exampleTakenOver) ((gco_cpu exampleTakenOver)\<lparr>gk_retryAt := None\<rparr>,
     [exampleGovernorPath \<mapsto> ''performance'']))) exampleGovernorPath = Some ''ondemand''"
  by code_simp

theorem exit_restore_ignores_simulate_only_witness:
  "fst (snd (restoreOnExit (exampleGovEnv True True) (exampleTakenOver, [exampleGovernorPath \<mapsto> ''performance''], exampleApi))) exampleGovernorPath
     = Some ''ondemand''"
  using exit_restore_ignores_simulate_only [of "exampleGovEnv True True" exampleTakenOver exampleDiscovery] exampleTakenOver_changed exampleTakenOver_written
  by (simp add: exampleGovEnv_def exampleTakenOver_def newGovernorControl_def newComponent_def exampleFound_def)

end
