(* ===== verification/Sim_Counter.thy ===== *)
theory Sim_Counter
  imports Dvfs_Control
begin

text \<open>
  The energy counters the hardware emulator writes (\<^verbatim>\<open>simulator/pkg/hwemu/counter.go\<close>, \<open>MaxEnergyRangeUJ\<close> and \<open>QuantizeUW\<close> of
  \<^verbatim>\<open>types.go\<close>), and what the agent's reading of them (\<open>Dvfs_Control.readCounter\<close>) makes of them. Units are positive and at most
  \<open>10 ^ 9\<close> nJ, so every product stays below \<open>2 ^ 63\<close>; the count is taken modulo \<open>2 ^ 32\<close>, which the wrap of \<open>uint64\<close> does not change.
\<close>

section \<open>Counters\<close>

definition nodeCounterSpan :: int where
  "nodeCounterSpan = 2 ^ 32"

record nodeCounter =
  nc_unitNJ :: int
  nc_seed :: int

definition MaxEnergyRangeUJ :: "int \<Rightarrow> int" where
  "MaxEnergyRangeUJ unitNJ = go_div ((2 ^ 32 - 1) * unitNJ) 1000"

definition QuantizeUW :: "int \<Rightarrow> int \<Rightarrow> int" where
  "QuantizeUW v unitUW = (if unitUW \<le> 0 then v else go_div v unitUW * unitUW)"

definition nodeNewCounter :: "int \<Rightarrow> int \<Rightarrow> nodeCounter" where
  "nodeNewCounter unitNJ energyUJ0 =
     (let e = go_mod (if energyUJ0 < 0 then 0 else energyUJ0) (go_div (nodeCounterSpan * unitNJ) 1000);
          seed = go_div (e * 1000 + unitNJ - 1) unitNJ
      in \<lparr>nc_unitNJ = unitNJ, nc_seed = seed mod nodeCounterSpan\<rparr>)"

definition nodeCounts :: "nodeCounter \<Rightarrow> f64 \<Rightarrow> int" where
  "nodeCounts c joules = (if joules > 0 then \<lfloor>joules * 10 ^ 9 / of_int (nc_unitNJ c)\<rfloor> else 0)"

definition energyUJ :: "nodeCounter \<Rightarrow> f64 \<Rightarrow> int" where
  "energyUJ c joules =
     (let raw = (nc_seed c + nodeCounts c joules) mod nodeCounterSpan in go_div (raw * nc_unitNJ c) 1000)"

definition nodeUnitFromRange :: "int \<Rightarrow> int" where
  "nodeUnitFromRange rangeUJ = go_round (of_int rangeUJ * 1000 / of_int (nodeCounterSpan - 1))"

definition nodeMilliJoules :: "int \<Rightarrow> f64 \<Rightarrow> int" where
  "nodeMilliJoules seedMJ joules = (if joules \<le> 0 then seedMJ else seedMJ + \<lfloor>joules * 1000\<rfloor>)"

definition nodeMicroJoules :: "int \<Rightarrow> f64 \<Rightarrow> int" where
  "nodeMicroJoules seedUJ joules = (if joules \<le> 0 then seedUJ else seedUJ + \<lfloor>joules * 10 ^ 6\<rfloor>)"

section \<open>What a count shows\<close>

definition shown :: "int \<Rightarrow> int \<Rightarrow> int" where
  "shown u raw = raw * u div 1000"

lemma energyUJ_shown:
  "0 \<le> nc_unitNJ c \<Longrightarrow> energyUJ c j = shown (nc_unitNJ c) ((nc_seed c + nodeCounts c j) mod nodeCounterSpan)"
  by (simp add: energyUJ_def shown_def Let_def go_num nodeCounterSpan_def)

lemma shown_mono: "0 \<le> u \<Longrightarrow> r \<le> r' \<Longrightarrow> shown u r \<le> shown u r'"
  unfolding shown_def by (intro zdiv_mono1 mult_right_mono) auto

lemma shown_nonneg: "0 \<le> u \<Longrightarrow> 0 \<le> r \<Longrightarrow> 0 \<le> shown u r"
  by (simp add: shown_def pos_imp_zdiv_nonneg_iff)

lemma MaxEnergyRangeUJ_shown: "0 \<le> u \<Longrightarrow> MaxEnergyRangeUJ u = shown u (nodeCounterSpan - 1)"
  by (simp add: MaxEnergyRangeUJ_def shown_def nodeCounterSpan_def go_num)

lemma shown_bounds: "shown u r * 1000 \<le> r * u" "r * u < shown u r * 1000 + 1000"
proof -
  have "r * u = shown u r * 1000 + r * u mod 1000" by (simp add: shown_def)
  moreover have "0 \<le> r * u mod 1000" "r * u mod 1000 < 1000" by simp_all
  ultimately show "shown u r * 1000 \<le> r * u" "r * u < shown u r * 1000 + 1000" by linarith+
qed

text \<open>The count a counter resumes at: the smallest one that shows at least \<open>e\<close>.\<close>

definition seedOf :: "int \<Rightarrow> int \<Rightarrow> int" where
  "seedOf u e = (e * 1000 + u - 1) div u"

lemma seedOf_bounds:
  assumes "0 < u"
  shows "e * 1000 \<le> seedOf u e * u" "seedOf u e * u < e * 1000 + u"
proof -
  have "(e * 1000 + u - 1) = seedOf u e * u + (e * 1000 + u - 1) mod u" by (simp add: seedOf_def)
  then show "e * 1000 \<le> seedOf u e * u" "seedOf u e * u < e * 1000 + u"
    using pos_mod_bound[OF assms, of "e * 1000 + u - 1"] pos_mod_sign[OF assms, of "e * 1000 + u - 1"] by linarith+
qed

lemma seedOf_least:
  assumes "0 < u" and "e * 1000 \<le> r * u"
  shows "seedOf u e \<le> r"
proof -
  have "seedOf u e * u < (r + 1) * u" using seedOf_bounds(2)[OF assms(1), of e] assms(2) by (simp add: algebra_simps)
  then show ?thesis using assms(1) by simp
qed

lemma nodeNewCounter_seed:
  assumes u: "1000 \<le> u" and "0 \<le> e" and "e \<le> MaxEnergyRangeUJ u"
  shows "nodeNewCounter u e = \<lparr>nc_unitNJ = u, nc_seed = seedOf u e\<rparr> \<and> 0 \<le> seedOf u e \<and> seedOf u e < nodeCounterSpan"
proof -
  have e1: "e * 1000 \<le> (nodeCounterSpan - 1) * u"
    using assms shown_bounds(1)[of u "nodeCounterSpan - 1"] by (simp add: MaxEnergyRangeUJ_shown)
  then have least: "seedOf u e \<le> nodeCounterSpan - 1" using u by (intro seedOf_least) auto
  have nn: "0 \<le> seedOf u e" using u assms(2) by (simp add: seedOf_def pos_imp_zdiv_nonneg_iff)
  have "nodeCounterSpan * u = (nodeCounterSpan - 1) * u + u" by (simp add: algebra_simps)
  then have "(e + 1) * 1000 \<le> nodeCounterSpan * u" using e1 u unfolding distrib_right by simp
  then have "e + 1 \<le> nodeCounterSpan * u div 1000" by (simp add: less_eq_div_iff_mult_less_eq)
  then have "go_mod e (go_div (nodeCounterSpan * u) 1000) = e"
    using u assms(2) by (simp add: go_num nodeCounterSpan_def)
  moreover have "go_div (e * 1000 + u - 1) u = seedOf u e" using u assms(2) by (simp add: go_num seedOf_def)
  moreover have "seedOf u e mod nodeCounterSpan = seedOf u e" using nn least by (simp add: mod_pos_pos_trivial)
  ultimately show ?thesis using nn least assms(2) by (simp add: nodeNewCounter_def Let_def)
qed

lemma energyUJ_range:
  assumes "0 \<le> nc_unitNJ c"
  shows "0 \<le> energyUJ c j \<and> energyUJ c j \<le> MaxEnergyRangeUJ (nc_unitNJ c)"
proof -
  let ?r = "(nc_seed c + nodeCounts c j) mod nodeCounterSpan"
  have "0 \<le> ?r" "?r \<le> nodeCounterSpan - 1" by (simp_all add: nodeCounterSpan_def)
  then show ?thesis using assms by (simp add: energyUJ_shown MaxEnergyRangeUJ_shown shown_mono shown_nonneg)
qed

text \<open>A node of the emulator that starts over a live tree never moves an energy counter back: resumed from what the file shows,
  the counter shows exactly that value when the file was written by the emulator (so a restart is invisible), and from any other value
  in the range it moves forward by less than one count.\<close>

theorem nodeNewCounter_resumes:
  assumes "1000 \<le> nc_unitNJ c" and "0 \<le> e" and "e \<le> MaxEnergyRangeUJ (nc_unitNJ c)"
  shows "energyUJ (nodeNewCounter (nc_unitNJ c) (energyUJ c joules)) 0 = energyUJ c joules
    \<and> e \<le> energyUJ (nodeNewCounter (nc_unitNJ c) e) 0
    \<and> (energyUJ (nodeNewCounter (nc_unitNJ c) e) 0 - e) * 1000 < nc_unitNJ c"
proof -
  let ?u = "nc_unitNJ c"
  have at0: "energyUJ (nodeNewCounter ?u x) 0 = shown ?u (seedOf ?u x)" if "0 \<le> x" "x \<le> MaxEnergyRangeUJ ?u" for x
    using nodeNewCounter_seed[OF assms(1) that] assms(1) by (simp add: energyUJ_shown nodeCounts_def mod_pos_pos_trivial)
  have up: "x \<le> shown ?u (seedOf ?u x)" for x
  proof -
    have "x * 1000 div 1000 \<le> seedOf ?u x * ?u div 1000" using seedOf_bounds(1)[of ?u x] assms(1) by (intro zdiv_mono1) auto
    then show ?thesis by (simp add: shown_def)
  qed
  have "(shown ?u (seedOf ?u e) - e) * 1000 < ?u"
    using shown_bounds(1)[of ?u "seedOf ?u e"] seedOf_bounds(2)[of ?u e] assms(1) unfolding left_diff_distrib by simp
  moreover have "energyUJ (nodeNewCounter ?u (energyUJ c joules)) 0 = energyUJ c joules"
  proof -
    define r where "r = (nc_seed c + nodeCounts c joules) mod nodeCounterSpan"
    have x: "energyUJ c joules = shown ?u r" using assms(1) by (simp add: energyUJ_shown r_def)
    have "seedOf ?u (shown ?u r) \<le> r" using assms(1) shown_bounds(1)[of ?u r] by (intro seedOf_least) auto
    then have "shown ?u (seedOf ?u (shown ?u r)) \<le> shown ?u r" using assms(1) by (intro shown_mono) auto
    then show ?thesis using at0[of "energyUJ c joules"] energyUJ_range[of c joules] assms(1) up[of "shown ?u r"] unfolding x by simp
  qed
  ultimately show ?thesis using at0[OF assms(2,3)] up[of e] by simp
qed

theorem nodeNewCounter_resumes_witness:
  "100 \<le> energyUJ (nodeNewCounter 61035 100) 0"
  using nodeNewCounter_resumes[of "\<lparr>nc_unitNJ = 61035, nc_seed = 0\<rparr>" 100 0] by (simp add: MaxEnergyRangeUJ_def go_div_def)

text \<open>The energy unit of a zone is recovered from the range the emulator writes for it: reading the unit back from the range of
  any unit up to \<open>10 ^ 9\<close> nJ gives the unit.\<close>

theorem nodeUnitFromRange_roundtrip:
  assumes "0 \<le> u" and "u \<le> 10 ^ 9"
  shows "nodeUnitFromRange (MaxEnergyRangeUJ u) = u"
proof -
  let ?R = "MaxEnergyRangeUJ u" and ?n = "nodeCounterSpan - 1"
  have R: "?R * 1000 \<le> ?n * u" "?n * u < ?R * 1000 + 1000" using shown_bounds[where u = u and r = ?n] assms(1) by (simp_all add: MaxEnergyRangeUJ_shown)
  have n: "(2000 :: real) < of_int ?n" by (simp add: nodeCounterSpan_def)
  have "of_int (?R * 1000) \<le> (of_int (?n * u) :: real)" "(of_int (?n * u) :: real) < of_int (?R * 1000 + 1000)" using R by (simp_all only: of_int_le_iff of_int_less_iff)
  then have "of_int ?R * 1000 / of_int ?n \<le> (of_int u :: real)" "(of_int u :: real) < of_int ?R * 1000 / of_int ?n + 1 / 2"
    using n by (simp_all add: divide_le_eq field_simps)
  then have "\<lfloor>of_int ?R * 1000 / of_int ?n + 1 / 2 :: real\<rfloor> = u" by (intro floor_unique) auto
  moreover have "0 \<le> ?R" using assms(1) by (simp add: MaxEnergyRangeUJ_shown shown_nonneg nodeCounterSpan_def)
  ultimately show ?thesis using n by (simp add: nodeUnitFromRange_def go_round_nonneg)
qed

theorem nodeUnitFromRange_roundtrip_witness: "nodeUnitFromRange (MaxEnergyRangeUJ 61035) = 61035"
  using nodeUnitFromRange_roundtrip[of 61035] by simp

section \<open>The agent reading the emulated counter\<close>

lemma shown_step:
  assumes "1000 \<le> u" and "r < r'"
  shows "shown u r < shown u r'"
proof -
  have "(r + 1) * u \<le> r' * u" using assms by (intro mult_right_mono) auto
  then have "r * u + 1000 \<le> r' * u" using assms(1) unfolding distrib_right by simp
  then have "(r * u + 1000) div 1000 \<le> r' * u div 1000" by (rule zdiv_mono1) simp
  then show ?thesis by (simp add: shown_def)
qed

text \<open>The difference the agent takes, corrected for one wrap, is the number of counts up to one, and up to two whole uJ.\<close>

definition agentDelta :: "int \<Rightarrow> int \<Rightarrow> int \<Rightarrow> int" where
  "agentDelta R a b = (if b - a < 0 \<and> R > 0 then b - a + R else b - a)"

lemma agentDelta_counts:
  assumes u: "1000 \<le> u" and d: "0 \<le> d" "d < nodeCounterSpan" and a: "0 \<le> a" "a < nodeCounterSpan"
    and D: "D = agentDelta (MaxEnergyRangeUJ u) (shown u a) (shown u ((a + d) mod nodeCounterSpan))"
  shows "0 \<le> D \<and> \<bar>D * 1000 - d * u\<bar> < u + 2000"
proof (cases "a + d < nodeCounterSpan")
  case True
  then have m: "(a + d) mod nodeCounterSpan = a + d" using a d by (simp add: mod_pos_pos_trivial)
  have "shown u a \<le> shown u (a + d)" using u d by (intro shown_mono) auto
  then have "D = shown u (a + d) - shown u a" unfolding D m by (simp add: agentDelta_def)
  moreover have "(a + d) * u = a * u + d * u" by (simp add: distrib_right)
  ultimately show ?thesis using shown_bounds[where u = u and r = a] shown_bounds[where u = u and r = "a + d"] u \<open>shown u a \<le> _\<close>
    by (simp add: left_diff_distrib abs_less_iff)
next
  case False
  let ?b = "a + d - nodeCounterSpan" and ?R = "MaxEnergyRangeUJ u"
  have m: "(a + d) mod nodeCounterSpan = ?b" using False a d
    by (metis diff_add_cancel diff_ge_0_iff_ge diff_less_eq add_strict_mono minus_mod_self2 mod_pos_pos_trivial not_less)
  have "?b < a" "0 \<le> ?b" using False a d by auto
  then have lt: "shown u ?b < shown u a" "0 \<le> shown u ?b" using u by (simp_all add: shown_step shown_nonneg)
  have R: "?R = shown u (nodeCounterSpan - 1)" using u by (simp add: MaxEnergyRangeUJ_shown)
  have le: "shown u a \<le> ?R" unfolding R using u a by (intro shown_mono) auto
  have D': "D = shown u ?b - shown u a + ?R" unfolding D m using lt le by (simp add: agentDelta_def)
  have "?b * u = a * u + d * u - nodeCounterSpan * u" "(nodeCounterSpan - 1) * u = nodeCounterSpan * u - u" by (simp_all add: algebra_simps)
  then show ?thesis
    using shown_bounds[where u = u and r = a] shown_bounds[where u = u and r = ?b] shown_bounds[where u = u and r = "nodeCounterSpan - 1"] lt le u
    unfolding D' R by (simp add: left_diff_distrib distrib_right abs_less_iff)
qed

lemma nodeCounts_floor:
  assumes "0 < nc_unitNJ c" and "0 \<le> j"
  shows "nodeCounts c j = \<lfloor>j * 10 ^ 9 / of_int (nc_unitNJ c)\<rfloor>"
  using assms by (cases "j = 0") (simp_all add: nodeCounts_def)

lemma floor_diff:
  fixes x y :: real
  assumes "x \<le> y"
  shows "0 \<le> \<lfloor>y\<rfloor> - \<lfloor>x\<rfloor>" "\<bar>of_int (\<lfloor>y\<rfloor> - \<lfloor>x\<rfloor>) - (y - x)\<bar> < 1"
proof -
  show "0 \<le> \<lfloor>y\<rfloor> - \<lfloor>x\<rfloor>" using floor_mono[OF assms] by simp
  have "of_int \<lfloor>x\<rfloor> \<le> x" "x < of_int \<lfloor>x\<rfloor> + 1" "of_int \<lfloor>y\<rfloor> \<le> y" "y < of_int \<lfloor>y\<rfloor> + 1" by linarith+
  then show "\<bar>of_int (\<lfloor>y\<rfloor> - \<lfloor>x\<rfloor>) - (y - x)\<bar> < 1" unfolding of_int_diff by linarith
qed

lemma readCounter_agentDelta:
  "snd (readCounter h now f (Some \<lparr>es_lastUJ = e, es_lastTime = t, es_rangeUJ = R\<rparr>) cur) =
    (if real_of_int (now - t) / 10 ^ 9 \<le> 0 \<or> agentDelta R e cur < 0 then None
     else Some (real_of_int (agentDelta R e cur) / 1000000 / (real_of_int (now - t) / 10 ^ 9)))"
  by (simp add: readCounter_def agentDelta_def Let_def)

text \<open>C3: The emulated counter tells the agent the true power: between two readings of a RAPL file the emulator keeps, in which less
  energy than the counter's span was used, the watts the agent computes differ from the average power by less than two energy units
  (and the two uJ lost to whole numbers) over the time between the readings, also when the counter wrapped in between.\<close>

theorem agent_reads_emulated_power:
  assumes u: "1000 \<le> nc_unitNJ c" and j: "0 \<le> j" "j \<le> j'"
    and span: "(j' - j) * 10 ^ 9 / of_int (nc_unitNJ c) < 2 ^ 32 - 1"
    and time: "t < now" and "dt = real_of_int (now - t) / 10 ^ 9"
  shows "\<exists>w. snd (readCounter h now f (Some \<lparr>es_lastUJ = energyUJ c j, es_lastTime = t, es_rangeUJ = MaxEnergyRangeUJ (nc_unitNJ c)\<rparr>)
        (energyUJ c j')) = Some w
      \<and> \<bar>w - (j' - j) / dt\<bar> < (2 * of_int (nc_unitNJ c) + 2000) / 10 ^ 9 / dt"
proof -
  let ?u = "nc_unitNJ c"
  define x where "x = j * 10 ^ 9 / of_int ?u"
  define x' where "x' = j' * 10 ^ 9 / of_int ?u"
  have u0: "(0 :: real) < of_int ?u" using u by simp
  have xx: "x \<le> x'" unfolding x_def x'_def using j(2) u0 by (intro divide_right_mono) auto
  have diff: "x' - x = (j' - j) * 10 ^ 9 / of_int ?u" by (simp add: x_def x'_def left_diff_distrib diff_divide_distrib)
  define d where "d = nodeCounts c j' - nodeCounts c j"
  have d: "0 \<le> d" "\<bar>of_int d - (x' - x)\<bar> < 1"
    using floor_diff[OF xx] nodeCounts_floor[of c j] nodeCounts_floor[of c j'] u j by (simp_all add: d_def x_def x'_def)
  have "(of_int d :: real) < 2 ^ 32" using d(2) span unfolding diff by linarith
  then have dspan: "d < nodeCounterSpan" unfolding nodeCounterSpan_def by (metis of_int_less_iff of_int_numeral of_int_power)
  define a where "a = (nc_seed c + nodeCounts c j) mod nodeCounterSpan"
  have a: "0 \<le> a" "a < nodeCounterSpan" by (simp_all add: a_def nodeCounterSpan_def)
  have raw': "(nc_seed c + nodeCounts c j') mod nodeCounterSpan = (a + d) mod nodeCounterSpan"
    unfolding a_def d_def by (simp add: mod_simps)
  have e: "energyUJ c j = shown ?u a" "energyUJ c j' = shown ?u ((a + d) mod nodeCounterSpan)"
    using u raw' by (simp_all add: energyUJ_shown a_def)
  define D where "D = agentDelta (MaxEnergyRangeUJ ?u) (shown ?u a) (shown ?u ((a + d) mod nodeCounterSpan))"
  have D: "0 \<le> D" "\<bar>D * 1000 - d * ?u\<bar> < ?u + 2000" using agentDelta_counts[OF u d(1) dspan a D_def] by auto
  have dt: "0 < dt" using time assms(6) by simp
  have w: "snd (readCounter h now f (Some \<lparr>es_lastUJ = energyUJ c j, es_lastTime = t, es_rangeUJ = MaxEnergyRangeUJ ?u\<rparr>) (energyUJ c j'))
      = Some (real_of_int D / 1000000 / dt)"
    using D(1) dt unfolding readCounter_agentDelta e D_def[symmetric] energySample.select_convs assms(6) by simp
  have near: "\<bar>real_of_int D * 1000 - (j' - j) * 10 ^ 9\<bar> < 2 * of_int ?u + 2000"
  proof -
    have "(j' - j) * 10 ^ 9 = (x' - x) * of_int ?u" using u0 by (simp add: diff)
    moreover have "\<bar>of_int d * of_int ?u - (x' - x) * of_int ?u\<bar> < (of_int ?u :: real)"
      using d(2) u0 by (simp add: abs_mult flip: left_diff_distrib)
    moreover have "real_of_int \<bar>D * 1000 - d * ?u\<bar> < real_of_int (?u + 2000)" using D(2) by (simp only: of_int_less_iff)
    then have "\<bar>real_of_int D * 1000 - of_int d * of_int ?u\<bar> < of_int ?u + 2000" by simp
    ultimately show ?thesis by linarith
  qed
  have "real_of_int D / 1000000 / dt - (j' - j) / dt = (real_of_int D * 1000 - (j' - j) * 10 ^ 9) / 10 ^ 9 / dt"
    using dt by (simp add: field_simps)
  then have "\<bar>real_of_int D / 1000000 / dt - (j' - j) / dt\<bar> = \<bar>real_of_int D * 1000 - (j' - j) * 10 ^ 9\<bar> / 10 ^ 9 / dt"
    using dt by simp
  also have "\<dots> < (2 * of_int ?u + 2000) / 10 ^ 9 / dt" using near dt by (intro divide_strict_right_mono) auto
  finally show ?thesis using w by blast
qed

theorem agent_reads_emulated_power_witness:
  "\<exists>w. snd (readCounter exampleHost 1000000000 ''f'' (Some \<lparr>es_lastUJ = energyUJ \<lparr>nc_unitNJ = 61035, nc_seed = 0\<rparr> 100, es_lastTime = 0,
       es_rangeUJ = MaxEnergyRangeUJ 61035\<rparr>) (energyUJ \<lparr>nc_unitNJ = 61035, nc_seed = 0\<rparr> 300)) = Some w \<and> \<bar>w - 200\<bar> < 1 / 1000"
proof -
  obtain w where "snd (readCounter exampleHost 1000000000 ''f'' (Some \<lparr>es_lastUJ = energyUJ \<lparr>nc_unitNJ = 61035, nc_seed = 0\<rparr> 100, es_lastTime = 0,
       es_rangeUJ = MaxEnergyRangeUJ 61035\<rparr>) (energyUJ \<lparr>nc_unitNJ = 61035, nc_seed = 0\<rparr> 300)) = Some w" "\<bar>w - 200\<bar> < 124070 / 1000000000"
    using agent_reads_emulated_power[of "\<lparr>nc_unitNJ = 61035, nc_seed = 0\<rparr>" 100 300 0 1000000000 1 exampleHost "''f''"] by auto
  then show ?thesis by (intro exI[of _ w]) simp
qed

end
