(* ===== verification/Agent_Caps.thy ===== *)
theory Agent_Caps
  imports Agent_Gpu_Governor Sim_Counter
begin

text \<open>
  The power caps the node agent sets (\<^verbatim>\<open>cmd/agent/main.go\<close>, \<^verbatim>\<open>amdgpu.go\<close>, \<^verbatim>\<open>intelgpu.go\<close>): RAPL
  package limits, the range a percent cap resolves against, the DVFS throttle a percent cap
  falls back to, the GPU inventories of the three vendors and the GPU caps. The node is a
  \<open>SysHost\<close>; \<open>Kernel\<close> holds what the operating system does with a write to an attribute and
  with a run of a tool, either of which may change the node in any way or fail. Formatting a
  number for a message is the parameter \<open>fmt\<close> (the number of digits, then the value).
  The runs of the DVFS controller of \<open>Dvfs_Control\<close> are here too, since a percent cap acts on the same controller.
\<close>

section \<open>The operating system\<close>

record Kernel =
  k_write :: "string \<Rightarrow> string \<Rightarrow> SysHost \<Rightarrow> WriteErr + SysHost"
  k_run :: "string \<Rightarrow> string list \<Rightarrow> SysHost \<Rightarrow> (WriteErr option \<times> string) \<times> SysHost"
  k_wait :: "SysHost \<Rightarrow> SysHost"
  k_cancelled :: "SysHost \<Rightarrow> bool"

definition runCommand :: "Kernel \<Rightarrow> string \<Rightarrow> string list \<Rightarrow> SysHost \<Rightarrow> (WriteErr + string) \<times> SysHost" where
  "runCommand k name args h =
     (case k_run k name args h of
        ((None, out), h) \<Rightarrow> (Inr out, h)
      | ((Some e, out), h) \<Rightarrow>
          (Inl (e\<lparr>we_text := name @ '' '' @ Join args '' '' @ '' failed: '' @ we_text e @ '' ('' @ TrimSpace out @ '')''\<rparr>), h))"

definition kernelIO :: "Kernel \<Rightarrow> SysHost NodeIO" where
  "kernelIO k =
     \<lparr>io_write = k_write k, io_read = (\<lambda>path h. ho_files h path),
      io_run = (\<lambda>args h. case runCommand k ''nvidia-smi'' args h of
                  (Inl e, h) \<Rightarrow> ((Some e, []), h) | (Inr out, h) \<Rightarrow> ((None, out), h)),
      io_query = (\<lambda>args h. case runCommand k ''nvidia-smi'' args h of (Inl e, _) \<Rightarrow> Inl (we_text e) | (Inr out, _) \<Rightarrow> Inr out),
      io_wait = k_wait k, io_cancelled = k_cancelled k\<rparr>"

section \<open>RAPL package caps\<close>

definition raplConstraintMaxUW :: "SysHost \<Rightarrow> string \<Rightarrow> int option" where
  "raplConstraintMaxUW h limitFile =
     (case CutSuffix (pathBase limitFile) ''_power_limit_uw'' of (base, ok) \<Rightarrow>
        if \<not> ok then None
        else (case readInt64 (Host.truncate h) (pathJoin (pathDir limitFile) (base @ ''_max_power_uw'')) of
                None \<Rightarrow> None
              | Some v \<Rightarrow> if v \<le> 0 then None else Some v))"

definition capUWFor :: "SysHost \<Rightarrow> f64 \<Rightarrow> string \<Rightarrow> int" where
  "capUWFor h watts f =
     (let uw = go_trunc (watts * 1000000)
      in case raplConstraintMaxUW h f of Some maxUW \<Rightarrow> (if uw > maxUW then maxUW else uw) | None \<Rightarrow> uw)"

fun writeRAPLCaps :: "Kernel \<Rightarrow> f64 \<Rightarrow> string list \<Rightarrow> SysHost \<Rightarrow> (nat \<times> string list) \<times> SysHost" where
  "writeRAPLCaps k watts [] h = ((0, []), h)"
| "writeRAPLCaps k watts (f # fs) h =
     (case k_write k f (Itoa (capUWFor h watts f)) h of
        Inl e \<Rightarrow> (case writeRAPLCaps k watts fs h of ((n, failures), h) \<Rightarrow> ((n, (f @ '': '' @ we_text e) # failures), h))
      | Inr h \<Rightarrow> (case writeRAPLCaps k watts fs h of ((n, failures), h) \<Rightarrow> ((n + 1, failures), h)))"

definition applyRAPLPackageCap :: "Kernel \<Rightarrow> string \<Rightarrow> f64 \<Rightarrow> SysHost \<Rightarrow> (goerr + bool \<times> nat) \<times> SysHost" where
  "applyRAPLPackageCap k cpuVendor watts h =
     (if cpuVendor \<noteq> ''AuthenticAMD'' \<and> cpuVendor \<noteq> ''GenuineIntel'' then (Inr (False, 0), h)
      else if watts \<le> 0 then (Inl ''power cap watts must be > 0'', h)
      else if RAPLCapFiles (Host.truncate h) = [] then (Inr (False, 0), h)
      else (case writeRAPLCaps k watts (RAPLCapFiles (Host.truncate h)) h of
              ((n, failures), h) \<Rightarrow>
                (if n = 0 then Inl (''write rapl cap: '' @ Join failures ''; '') else Inr (True, n), h)))"

section \<open>Percent caps of the CPU\<close>

definition readWattsUW :: "SysHost \<Rightarrow> string \<Rightarrow> f64 option" where
  "readWattsUW h path =
     (case readInt64 (Host.truncate h) path of None \<Rightarrow> None | Some v \<Rightarrow> if v > 0 then Some (real_of_int v / 1000000) else None)"

text \<open>The lowest maximum and the highest minimum of the package zones.\<close>

definition readRAPLPackageCapRangeWatts :: "SysHost \<Rightarrow> (f64 \<times> f64) option" where
  "readRAPLPackageCapRangeWatts h =
     (let zones = RAPLPackageZones (Host.truncate h);
          maxVals = List.map_filter (\<lambda>z. readWattsUW h (pathJoin z ''constraint_0_max_power_uw'')) zones;
          minVals = List.map_filter (\<lambda>z. readWattsUW h (pathJoin z ''constraint_0_min_power_uw'')) zones
      in if maxVals = [] then None
         else Some (foldl (\<lambda>m v. if v < m then v else m) (hd maxVals) maxVals,
                    if minVals = [] then 0 else foldl (\<lambda>m v. if v > m then v else m) (hd minVals) minVals))"

record cpuCapRange =
  ccr_minW :: f64
  ccr_maxW :: f64
  ccr_source :: string
  ccr_catalog :: bool

definition cpuCapRangeFromCatalog :: "(nat \<Rightarrow> f64 \<Rightarrow> string) \<Rightarrow> Catalog option \<Rightarrow> strmap \<Rightarrow> goerr + cpuCapRange" where
  "cpuCapRangeFromCatalog fmt catalog nodeLabels =
     (case SimulatedNodeCPU nodeLabels of (model, sockets) \<Rightarrow>
        (case NodeCPUCapRangeW catalog model sockets of
           Inl err \<Rightarrow> Inl err
         | Inr nr \<Rightarrow>
             Inr \<lparr>ccr_minW = MinW nr, ccr_maxW = MaxW nr,
                  ccr_source = ''hardware catalog '' @ ncr_key nr @ '': '' @ Itoa (ncr_sockets nr) @ '' sockets x '' @
                    fmt 2 (ncr_socketMinW nr) @ ''-'' @ fmt 2 (ncr_socketMaxW nr) @ ''W'',
                  ccr_catalog = True\<rparr>))"

text \<open>The watts and the range they come from, or why there is none.\<close>

definition resolveCPUCapFromPct ::
  "(nat \<Rightarrow> f64 \<Rightarrow> string) \<Rightarrow> Catalog option \<Rightarrow> SysHost \<Rightarrow> f64 \<Rightarrow> strmap \<Rightarrow> bool \<Rightarrow> string + f64 \<times> cpuCapRange" where
  "resolveCPUCapFromPct fmt catalog h pct nodeLabels httpRAPL =
     (let ofRange = (\<lambda>r. Inr (CapForPctW pct (ccr_minW r) (ccr_maxW r), r))
      in if pct \<le> 0 then Inl ''pct must be > 0''
         else (case readRAPLPackageCapRangeWatts h of
                 Some (maxW, minW) \<Rightarrow>
                   if maxW > 0
                   then (let n = length (RAPLPackageZones (Host.truncate h))
                         in if httpRAPL \<and> n > 1
                            then ofRange \<lparr>ccr_minW = minW * real n, ccr_maxW = maxW * real n,
                                   ccr_source = ''rapl files: '' @ Itoa (int n) @ '' packages x '' @ fmt 2 minW @ ''-'' @ fmt 2 maxW @ ''W'',
                                   ccr_catalog = False\<rparr>
                            else ofRange \<lparr>ccr_minW = minW, ccr_maxW = maxW,
                                   ccr_source = ''rapl files min='' @ fmt 2 minW @ ''W max='' @ fmt 2 maxW @ ''W'', ccr_catalog = False\<rparr>)
                   else if \<not> httpRAPL then Inl ''rapl cap range unavailable''
                   else (case cpuCapRangeFromCatalog fmt catalog nodeLabels of
                           Inl err \<Rightarrow> Inl (''rapl cap range unavailable and '' @ err) | Inr r \<Rightarrow> ofRange r)
               | None \<Rightarrow>
                   if \<not> httpRAPL then Inl ''rapl cap range unavailable''
                   else (case cpuCapRangeFromCatalog fmt catalog nodeLabels of
                           Inl err \<Rightarrow> Inl (''rapl cap range unavailable and '' @ err) | Inr r \<Rightarrow> ofRange r)))"

text \<open>The outcome of a cap: backend, result, message and the error returned.\<close>

type_synonym capOutcome = "string \<times> string \<times> string \<times> goerr option"

definition observedTarget :: "SysHost \<Rightarrow> int \<Rightarrow> f64 \<Rightarrow> Controller option \<Rightarrow> f64 \<times> Controller option" where
  "observedTarget h now pct dvfsCtl =
     (case dvfsCtl of
        None \<Rightarrow> (0, None)
      | Some d \<Rightarrow>
          (case readPowerWatts (Host.truncate h) now d of
             (Inr (Some observed), d) \<Rightarrow> (pct / 100 * observed, Some d)
           | (_, d) \<Rightarrow> (0, Some d)))"

definition throttleOnHost :: "int \<Rightarrow> f64 \<Rightarrow> string \<Rightarrow> Controller option \<Rightarrow> SysHost \<Rightarrow> capOutcome \<times> Controller option \<times> SysHost" where
  "throttleOnHost throttlePct targetWatts msg dvfsCtl h =
     (case dvfsCtl of
        None \<Rightarrow> ((''none'', ''blocked'', ''pct intent unresolved and no dvfs backend available'', None), None, h)
      | Some d \<Rightarrow>
          if \<not> HasHostControl d
          then ((''none'', ''blocked'', ''pct intent unresolved and no dvfs backend available'', None), Some d, h)
          else (case applyThrottlePct (Host.truncate h) d throttlePct None targetWatts of
                  ((Some err, _), h') \<Rightarrow> ((''dvfs'', ''error'', err, Some err), Some d, Host.extend h' (Host.more h))
                | ((None, written), h') \<Rightarrow>
                    ((''dvfs'', ''applied'', msg @ '' cpus='' @ Itoa (int written), None), Some (d\<lparr>ct_throttlePct := throttlePct\<rparr>),
                     Host.extend h' (Host.more h))))"

definition applyCPUPercentIntent ::
  "(nat \<Rightarrow> f64 \<Rightarrow> string) \<Rightarrow> int \<Rightarrow> f64 \<Rightarrow> ControlClient option \<Rightarrow> Controller option \<Rightarrow> SysHost \<Rightarrow>
   capOutcome \<times> Controller option \<times> SysHost" where
  "applyCPUPercentIntent fmt now pct0 controlClient dvfsCtl0 h =
     (if pct0 \<le> 0 then ((''none'', ''blocked'', ''cpu cap pct must be > 0'', None), dvfsCtl0, h)
      else (let pct = (if pct0 > 100 then 100 else pct0);
                throttlePct = go_round (100 - pct)
            in case observedTarget h now pct dvfsCtl0 of
                 (targetWatts, dvfsCtl) \<Rightarrow>
                   (let msg = ''applied cpu cap pct='' @ fmt 2 pct @ ''% via dvfs throttle='' @ Itoa throttlePct @ ''%'' @
                          (if targetWatts > 0 then '' target='' @ fmt 2 targetWatts @ ''W'' else [])
                    in case controlClient of
                         None \<Rightarrow> throttleOnHost throttlePct targetWatts msg dvfsCtl h
                       | Some send \<Rightarrow>
                           (case send ''dvfs.set_throttle_pct'' targetWatts throttlePct of
                              None \<Rightarrow> ((''dvfs'', ''applied'', msg, None), map_option (\<lambda>d. d\<lparr>ct_throttlePct := throttlePct\<rparr>) dvfsCtl, h)
                            | Some err \<Rightarrow>
                                if (case dvfsCtl of Some d \<Rightarrow> HasHostControl d | None \<Rightarrow> False)
                                then throttleOnHost throttlePct targetWatts msg dvfsCtl h
                                else ((''none'', ''error'', ''dvfs http control failed: '' @ err, Some err), dvfsCtl, h)))))"

section \<open>NVIDIA inventory and cap\<close>

record GPUPowerCap =
  gcap_scope :: string
  gcap_capWattsPerGPU :: "f64 option"
  gcap_capPctOfMax :: "f64 option"

definition splitCSVLine :: "string \<Rightarrow> string list" where
  "splitCSVLine s = map (\<lambda>p. TrimSpace (Trim p [CHR 0x22])) (Split s (CHR '',''))"

definition zeroDevice :: GPUDevice where
  "zeroDevice = \<lparr>gd_index = 0, gd_vendor = [], gd_product = [], gd_powerWatts = 0, gd_currentCapWatts = 0, gd_minCapWatts = 0,
     gd_maxCapWatts = 0, gd_defaultCapWatts = 0, gd_busID = [], gd_hwmonDir = [], gd_capUnknown = False, gd_capUnsupported = []\<rparr>"

text \<open>\<open>parseFloat64\<close> gives a finite number or nothing, which is the test of \<open>nvidiaWatts\<close> for NaN and infinity.\<close>

definition nvidiaWatts :: "(string \<Rightarrow> f64 option) \<Rightarrow> string \<Rightarrow> f64 option" where
  "nvidiaWatts parseFloat64 s =
     (case parseFloat64 (TrimSpace s) of None \<Rightarrow> None | Some v \<Rightarrow> if v < 0 then None else Some v)"

definition wattsOrZero :: "(string \<Rightarrow> f64 option) \<Rightarrow> string \<Rightarrow> f64" where
  "wattsOrZero parseFloat64 s = (case nvidiaWatts parseFloat64 s of Some v \<Rightarrow> v | None \<Rightarrow> 0)"

definition nvidiaDefaultLimit :: "(string \<Rightarrow> f64 option) \<Rightarrow> string list \<Rightarrow> f64" where
  "nvidiaDefaultLimit parseFloat64 parts = (if length parts < 7 then 0 else wattsOrZero parseFloat64 (parts ! 6))"

text \<open>The limit fields that printed a token in place of a number.\<close>

definition limitTokens :: "(string \<Rightarrow> f64 option) \<Rightarrow> string list \<Rightarrow> string list" where
  "limitTokens parseFloat64 parts =
     map (\<lambda>(field, s). field @ '' '' @ (if s = [] then ''(empty)'' else s))
       (filter (\<lambda>(field, s). nvidiaWatts parseFloat64 s = None)
          [(''power.min_limit'', parts ! 1), (''power.max_limit'', parts ! 2), (''power.limit'', parts ! 3)])"

definition nvidiaDeviceOf :: "(string \<Rightarrow> f64 option) \<Rightarrow> string \<Rightarrow> GPUDevice option" where
  "nvidiaDeviceOf parseFloat64 line =
     (let parts = splitCSVLine line
      in if length parts < 6 then None
         else Some (zeroDevice\<lparr>gd_index := AtoiValue (TrimSpace (parts ! 0)), gd_vendor := ''nvidia'', gd_product := TrimSpace (parts ! 5),
                gd_minCapWatts := wattsOrZero parseFloat64 (parts ! 1), gd_maxCapWatts := wattsOrZero parseFloat64 (parts ! 2),
                gd_currentCapWatts := wattsOrZero parseFloat64 (parts ! 3), gd_powerWatts := wattsOrZero parseFloat64 (parts ! 4),
                gd_capUnsupported := Join (limitTokens parseFloat64 parts) '', '',
                gd_defaultCapWatts := nvidiaDefaultLimit parseFloat64 parts\<rparr>))"

definition nvidiaInventoryQuery :: string where
  "nvidiaInventoryQuery = ''--query-gpu=index,power.min_limit,power.max_limit,power.limit,power.draw,name,power.default_limit''"

definition listNvidiaDevices :: "(string \<Rightarrow> f64 option) \<Rightarrow> Kernel \<Rightarrow> SysHost \<Rightarrow> goerr + GPUDevice list" where
  "listNvidiaDevices parseFloat64 k h =
     (case fst (runCommand k ''nvidia-smi'' [nvidiaInventoryQuery, ''--format=csv,noheader,nounits''] h) of
        Inl e \<Rightarrow> Inl (we_text e)
      | Inr out \<Rightarrow> Inr (List.map_filter (nvidiaDeviceOf parseFloat64) (Split (TrimSpace out) (CHR 0x0A))))"

definition nvidiaCapSets :: "GPUDevice list \<Rightarrow> GPUDevice list \<times> GPUDevice list" where
  "nvidiaCapSets devices = (filter (\<lambda>d. gd_capUnsupported d = []) devices, filter (\<lambda>d. gd_capUnsupported d \<noteq> []) devices)"

definition nvidiaUnsupportedNote :: "GPUDevice list \<Rightarrow> string" where
  "nvidiaUnsupportedNote unsupported =
     ''no settable power limit on '' @
     Join (map (\<lambda>tokens. ''gpu '' @ Join (map (\<lambda>d. Itoa (gd_index d)) (filter (\<lambda>d. gd_capUnsupported d = tokens) unsupported)) '','' @
                  '': nvidia-smi prints '' @ tokens)
             (rev (remdups (rev (map gd_capUnsupported unsupported))))) ''; ''"

text \<open>The errors of a run of caps over the devices, in order; \<open>errors.Join\<close> of none is no error.\<close>

definition joinErrs :: "goerr list \<Rightarrow> goerr option" where
  "joinErrs errs = (if errs = [] then None else Some (Join errs [CHR 0x0A]))"

definition notSupportedLine :: "string \<Rightarrow> string option" where
  "notSupportedLine out = find (\<lambda>line. Contains (ToLower line) ''not supported'') (Split out (CHR 0x0A))"

fun capNvidiaDevices :: "Kernel \<Rightarrow> int \<Rightarrow> GPUDevice list \<Rightarrow> SysHost \<Rightarrow> goerr list \<times> SysHost" where
  "capNvidiaDevices k target [] h = ([], h)"
| "capNvidiaDevices k target (d # ds) h =
     (if gd_capUnsupported d \<noteq> [] \<or> go_round (gd_currentCapWatts d) = target then capNvidiaDevices k target ds h
      else (let what = ''nvidia-smi set cap gpu='' @ Itoa (gd_index d) @ '': ''
            in case runCommand k ''nvidia-smi'' [''-i'', Itoa (gd_index d), ''-pl'', Itoa target] h of
                 (Inl e, h) \<Rightarrow> (case capNvidiaDevices k target ds h of (errs, h) \<Rightarrow> ((what @ we_text e) # errs, h))
               | (Inr out, h) \<Rightarrow>
                   (case capNvidiaDevices k target ds h of
                      (errs, h) \<Rightarrow> (case notSupportedLine out of Some line \<Rightarrow> ((what @ TrimSpace line) # errs, h) | None \<Rightarrow> (errs, h)))))"

definition applyNvidiaGPUCap :: "Kernel \<Rightarrow> GPUDevice list \<Rightarrow> f64 \<Rightarrow> SysHost \<Rightarrow> goerr option \<times> SysHost" where
  "applyNvidiaGPUCap k devices capWatts h =
     (case capNvidiaDevices k (go_round capWatts) devices h of (errs, h) \<Rightarrow> (joinErrs errs, h))"

section \<open>AMD inventory and cap\<close>

abbreviation amdgpuPCIDevicesDir :: string where "amdgpuPCIDevicesDir \<equiv> ''bus/pci/devices''"

text \<open>The first hwmon directory under a PCI function whose name is one of \<open>names\<close>, in order.\<close>

definition hwmonNamed :: "SysHost \<Rightarrow> string \<Rightarrow> string list \<Rightarrow> string option" where
  "hwmonNamed h dev names =
     find (\<lambda>d. sysWord h (pathJoin d ''name'') \<in> set names) (go_sort (<) (ho_glob h (pathJoin (pathJoin dev ''hwmon'') ''hwmon*'')))"

definition driverAllowed :: "SysHost \<Rightarrow> string \<Rightarrow> string list \<Rightarrow> bool" where
  "driverAllowed h dev names =
     (case sh_readlink h (pathJoin dev ''driver'') of Some target \<Rightarrow> pathBase target \<in> set names | None \<Rightarrow> True)"

definition amdgpuHwmonDir :: "SysHost \<Rightarrow> string \<Rightarrow> string" where
  "amdgpuHwmonDir h dev =
     (if sysWord h (pathJoin dev ''vendor'') \<noteq> ''0x1002'' \<or> \<not> driverAllowed h dev [''amdgpu''] then []
      else (case hwmonNamed h dev [''amdgpu''] of
              None \<Rightarrow> []
            | Some d \<Rightarrow> if sh_exists h (pathJoin d ''power1_cap'') then d else []))"

text \<open>\<open>None\<close> is a file that cannot be read; what is no number reads zero.\<close>

definition readHwmonWatts :: "SysHost \<Rightarrow> string \<Rightarrow> f64 option" where
  "readHwmonWatts h path =
     (case ho_files h path of
        None \<Rightarrow> None
      | Some s \<Rightarrow> Some (case Atoi (TrimSpace s) of None \<Rightarrow> 0 | Some v \<Rightarrow> if v < 0 then 0 else real_of_int v / 1000000))"

definition hwmonWattsOrZero :: "SysHost \<Rightarrow> string \<Rightarrow> f64" where
  "hwmonWattsOrZero h path = (case readHwmonWatts h path of Some w \<Rightarrow> w | None \<Rightarrow> 0)"

record amdgpuCaps =
  amc_cap :: f64
  amc_min :: f64
  amc_max :: f64

type_synonym amdgpuLastCaps = "string \<Rightarrow> amdgpuCaps option"

definition readAmdgpuRange :: "SysHost \<Rightarrow> string \<Rightarrow> f64 \<times> f64" where
  "readAmdgpuRange h dir = (hwmonWattsOrZero h (pathJoin dir ''power1_cap_min''), hwmonWattsOrZero h (pathJoin dir ''power1_cap_max''))"

definition withCaps :: "amdgpuCaps \<Rightarrow> GPUDevice \<Rightarrow> GPUDevice" where
  "withCaps c d = d\<lparr>gd_currentCapWatts := amc_cap c, gd_minCapWatts := amc_min c, gd_maxCapWatts := amc_max c\<rparr>"

text \<open>One device of the listing, with the caps remembered after it.\<close>

definition amdDeviceCaps :: "SysHost \<Rightarrow> string \<Rightarrow> GPUDevice \<Rightarrow> amdgpuLastCaps \<Rightarrow> GPUDevice \<times> amdgpuLastCaps" where
  "amdDeviceCaps h hw d caps =
     (case readHwmonWatts h (pathJoin hw ''power1_cap'') of
        Some capW \<Rightarrow>
          (let c = \<lparr>amc_cap = capW, amc_min = fst (readAmdgpuRange h hw), amc_max = snd (readAmdgpuRange h hw)\<rparr>
           in (withCaps c d, caps(hw \<mapsto> c)))
      | None \<Rightarrow> (case caps hw of Some c \<Rightarrow> (withCaps c d, caps) | None \<Rightarrow> (d\<lparr>gd_capUnknown := True\<rparr>, caps)))"

fun amdDevicesFrom :: "SysHost \<Rightarrow> string list \<Rightarrow> int \<Rightarrow> amdgpuLastCaps \<Rightarrow> GPUDevice list \<times> amdgpuLastCaps" where
  "amdDevicesFrom h [] i caps = ([], caps)"
| "amdDevicesFrom h (e # es) i caps =
     (let hw = amdgpuHwmonDir h (pathJoin (hostSysPath amdgpuPCIDevicesDir) e)
      in if hw = [] then amdDevicesFrom h es i caps
         else (case amdDeviceCaps h hw (zeroDevice\<lparr>gd_index := i, gd_vendor := ''amd'', gd_busID := ToLower e, gd_hwmonDir := hw\<rparr>) caps of
                 (d, caps) \<Rightarrow> (case amdDevicesFrom h es (i + 1) caps of (ds, caps) \<Rightarrow> (d # ds, caps))))"

abbreviation errNoAMDGPUHwmon :: goerr where "errNoAMDGPUHwmon \<equiv> ''no amdgpu hwmon device under bus/pci/devices''"

definition listAmdDevices :: "SysHost \<Rightarrow> amdgpuLastCaps \<Rightarrow> (goerr + GPUDevice list) \<times> amdgpuLastCaps" where
  "listAmdDevices h caps =
     (case sh_readDir h (hostSysPath amdgpuPCIDevicesDir) of
        None \<Rightarrow> (Inl errNoAMDGPUHwmon, caps)
      | Some entries \<Rightarrow>
          (case amdDevicesFrom h entries 0 caps of
             (devices, caps) \<Rightarrow> (if devices = [] then Inl errNoAMDGPUHwmon else Inr devices, caps)))"

definition amdgpuSysfsPresent :: "SysHost \<Rightarrow> amdgpuLastCaps \<Rightarrow> bool \<times> amdgpuLastCaps" where
  "amdgpuSysfsPresent h caps = (case listAmdDevices h caps of (r, caps) \<Rightarrow> ((case r of Inr _ \<Rightarrow> True | Inl _ \<Rightarrow> False), caps))"

definition amdgpuOwnCap :: "GPUDevice \<Rightarrow> bool" where
  "amdgpuOwnCap d \<longleftrightarrow> gd_hwmonDir d \<noteq> [] \<and> (gd_currentCapWatts d > 0 \<or> gd_capUnknown d)"

definition amdgpuCapDevices :: "GPUDevice list \<Rightarrow> GPUDevice list" where
  "amdgpuCapDevices devices = filter amdgpuOwnCap devices"

definition amdgpuCapSets :: "GPUDevice list \<Rightarrow> GPUDevice list \<times> GPUDevice list" where
  "amdgpuCapSets devices =
     (let capped = amdgpuCapDevices devices; ranged = filter (\<lambda>d. \<not> gd_capUnknown d) capped
      in (capped, if ranged = [] then capped else ranged))"

definition mismatch :: "string \<Rightarrow> string \<Rightarrow> SysHost \<Rightarrow> string \<Rightarrow> string \<Rightarrow> goerr" where
  "mismatch busID attr h path want =
     ''gpu '' @ busID @ '': '' @ attr @ '' reads '' @ quoted (sysWord h path) @ '' after writing '' @ want"

fun capAmdDevices :: "Kernel \<Rightarrow> int \<Rightarrow> GPUDevice list \<Rightarrow> amdgpuLastCaps \<times> SysHost \<Rightarrow> goerr list \<times> amdgpuLastCaps \<times> SysHost" where
  "capAmdDevices k target [] s = ([], s)"
| "capAmdDevices k target (d # ds) s =
     (case s of (caps, h) \<Rightarrow>
        let f = pathJoin (gd_hwmonDir d) ''power1_cap''; want = Itoa (target * 1000000)
        in if \<not> amdgpuOwnCap d \<or> (\<not> gd_capUnknown d \<and> go_round (gd_currentCapWatts d) = target) then capAmdDevices k target ds (caps, h)
           else (case k_write k f want h of
                   Inl e \<Rightarrow>
                     (case capAmdDevices k target ds (caps, h) of
                        (errs, s) \<Rightarrow> ((''gpu '' @ gd_busID d @ '': write power1_cap: '' @ we_text e) # errs, s))
                 | Inr h \<Rightarrow>
                     if ReadWord h f \<noteq> Some want
                     then (case capAmdDevices k target ds (caps, h) of (errs, s) \<Rightarrow> (mismatch (gd_busID d) ''power1_cap'' h f want # errs, s))
                     else (let r = (if gd_capUnknown d then readAmdgpuRange h (gd_hwmonDir d) else (gd_minCapWatts d, gd_maxCapWatts d))
                           in capAmdDevices k target ds
                                (caps(gd_hwmonDir d \<mapsto> \<lparr>amc_cap = real_of_int target, amc_min = fst r, amc_max = snd r\<rparr>), h))))"

definition applyAmdGPUCap :: "Kernel \<Rightarrow> GPUDevice list \<Rightarrow> f64 \<Rightarrow> amdgpuLastCaps \<times> SysHost \<Rightarrow> goerr option \<times> amdgpuLastCaps \<times> SysHost" where
  "applyAmdGPUCap k devices capWatts s =
     (case capAmdDevices k (go_round capWatts) devices s of (errs, s) \<Rightarrow> (joinErrs errs, s))"

section \<open>Intel inventory and cap\<close>

definition intelGPUModels :: "string \<Rightarrow> string" where
  "intelGPUModels did =
     (case map_of [(''0x56c0'', ''Intel Data Center GPU Flex 170''), (''0x56c1'', ''Intel Data Center GPU Flex 140''),
        (''0x56c2'', ''Intel Data Center GPU Flex 170V''), (''0x0b69'', ''Intel Data Center GPU Max 1450''),
        (''0x0b6e'', ''Intel Data Center GPU Max 1100C''), (''0x0bd4'', ''Intel Data Center GPU Max 1550VG''),
        (''0x0bd5'', ''Intel Data Center GPU Max 1550''), (''0x0bd6'', ''Intel Data Center GPU Max 1550''),
        (''0x0bd7'', ''Intel Data Center GPU Max 1350''), (''0x0bd8'', ''Intel Data Center GPU Max 1350''),
        (''0x0bd9'', ''Intel Data Center GPU Max 1100''), (''0x0bda'', ''Intel Data Center GPU Max 1100''),
        (''0x0bdb'', ''Intel Data Center GPU Max 1100'')] did of Some m \<Rightarrow> m | None \<Rightarrow> [])"

definition intelGPUCapFile :: "SysHost \<Rightarrow> string \<Rightarrow> string \<Rightarrow> string" where
  "intelGPUCapFile h dir name =
     (case find (\<lambda>ch. sh_exists h (pathJoin dir (ch @ ''_max''))) (''power1'' # (if name = ''xe'' then [''power2''] else [])) of
        Some ch \<Rightarrow> ch @ ''_max'' | None \<Rightarrow> [])"

definition intelRatedFile :: "string \<Rightarrow> string" where
  "intelRatedFile capFile = TrimSuffix capFile ''_max'' @ ''_rated_max''"

text \<open>The PCI class word in hexadecimal, read as a signed 64-bit number; its base class is display or accelerator.\<close>

definition intelPCIClass :: "string \<Rightarrow> bool" where
  "intelPCIClass cls =
     (case ParseHex64 (ToLower (TrimPrefix cls ''0x'')) of
        Some c \<Rightarrow> c < 2 ^ 63 \<and> c div 65536 \<in> {0x03, 0x12} | None \<Rightarrow> False)"

text \<open>The hwmon directory and the cap file of an Intel GPU; empty when the function is none.\<close>

definition intelGPUHwmon :: "SysHost \<Rightarrow> string \<Rightarrow> string \<times> string" where
  "intelGPUHwmon h dev =
     (if sysWord h (pathJoin dev ''vendor'') \<noteq> ''0x8086'' \<or> \<not> intelPCIClass (sysWord h (pathJoin dev ''class''))
         \<or> \<not> driverAllowed h dev [''i915'', ''xe''] then ([], [])
      else (case hwmonNamed h dev [''i915'', ''xe''] of
              None \<Rightarrow> ([], [])
            | Some d \<Rightarrow> (let f = intelGPUCapFile h d (sysWord h (pathJoin d ''name'')) in if f \<noteq> [] then (d, f) else ([], []))))"

definition intelGPUCap :: "SysHost \<Rightarrow> GPUDevice \<Rightarrow> string" where
  "intelGPUCap h d =
     (if gd_hwmonDir d = [] then [] else intelGPUCapFile h (gd_hwmonDir d) (sysWord h (pathJoin (gd_hwmonDir d) ''name'')))"

definition intelDeviceOf :: "SysHost \<Rightarrow> int \<Rightarrow> string \<Rightarrow> GPUDevice option" where
  "intelDeviceOf h i e =
     (let dev = pathJoin (hostSysPath amdgpuPCIDevicesDir) e
      in case intelGPUHwmon h dev of (hw, capFile) \<Rightarrow>
           if hw = [] then None
           else (let d = zeroDevice\<lparr>gd_index := i, gd_vendor := ''intel'', gd_product := intelGPUModels (ToLower (sysWord h (pathJoin dev ''device''))),
                       gd_busID := ToLower e, gd_hwmonDir := hw, gd_maxCapWatts := hwmonWattsOrZero h (pathJoin hw (intelRatedFile capFile))\<rparr>
                 in Some (case readHwmonWatts h (pathJoin hw capFile) of
                            Some w \<Rightarrow> d\<lparr>gd_currentCapWatts := w\<rparr> | None \<Rightarrow> d\<lparr>gd_capUnknown := True\<rparr>)))"

fun intelDevicesFrom :: "SysHost \<Rightarrow> string list \<Rightarrow> int \<Rightarrow> GPUDevice list" where
  "intelDevicesFrom h [] i = []"
| "intelDevicesFrom h (e # es) i =
     (case intelDeviceOf h i e of None \<Rightarrow> intelDevicesFrom h es i | Some d \<Rightarrow> d # intelDevicesFrom h es (i + 1))"

definition listIntelDevices :: "SysHost \<Rightarrow> goerr + GPUDevice list" where
  "listIntelDevices h =
     (let err = ''no i915 or xe hwmon device with a power limit under bus/pci/devices''
      in case sh_readDir h (hostSysPath amdgpuPCIDevicesDir) of
           None \<Rightarrow> Inl err
         | Some entries \<Rightarrow> (let devices = intelDevicesFrom h entries 0 in if devices = [] then Inl err else Inr devices))"

definition intelGPUSysfsPresent :: "SysHost \<Rightarrow> bool" where
  "intelGPUSysfsPresent h = (case listIntelDevices h of Inr _ \<Rightarrow> True | Inl _ \<Rightarrow> False)"

definition intelGPULabelled :: "SysHost \<Rightarrow> strmap \<Rightarrow> bool" where
  "intelGPULabelled h labels \<longleftrightarrow>
     map_get labels ''gpu.intel.com/family'' \<in> {''Flex_Series'', ''Max_Series''} \<or>
     ((map_get labels ''intel.feature.node.kubernetes.io/gpu'' = ''true'' \<or>
       list_ex (\<lambda>key. map_get labels (''feature.node.kubernetes.io/'' @ key @ ''.present'') = ''true'')
         [''pci-8086'', ''pci-0300_8086'', ''pci-0380_8086'', ''pci-1200_8086'']) \<and> intelGPUSysfsPresent h)"

definition intelGPURanged :: "GPUDevice list \<Rightarrow> GPUDevice list" where
  "intelGPURanged devices = filter (\<lambda>d. gd_maxCapWatts d > 0) devices"

definition intelGPUUnknownRange :: "SysHost \<Rightarrow> GPUDevice list \<Rightarrow> string" where
  "intelGPUUnknownRange h devices =
     (case devices of
        [] \<Rightarrow> ''no Intel GPU with a power limit''
      | d # _ \<Rightarrow> ''the power limit range of the Intel GPUs is unknown: gpu '' @ gd_busID d @ '' has no '' @
                  intelRatedFile (intelGPUCap h d) @ '', so no cap is written'')"

text \<open>The whole watts written to a device: never above its default limit.\<close>

definition intelTarget :: "f64 \<Rightarrow> GPUDevice \<Rightarrow> int" where
  "intelTarget capWatts d = min (go_round capWatts) \<lfloor>gd_maxCapWatts d\<rfloor>"

definition capIntelDevice :: "Kernel \<Rightarrow> f64 \<Rightarrow> GPUDevice \<Rightarrow> SysHost \<Rightarrow> goerr list \<times> SysHost" where
  "capIntelDevice k capWatts d h =
     (let f = intelGPUCap h d; path = pathJoin (gd_hwmonDir d) f; want = Itoa (intelTarget capWatts d * 1000000); gpu = ''gpu '' @ gd_busID d @ '': ''
      in if f = [] then ([gpu @ ''no power1_max or power2_max''], h)
         else if gd_maxCapWatts d \<le> 0 then ([gpu @ ''no '' @ intelRatedFile f @ '', the power limit range is unknown, not written''], h)
         else if \<not> gd_capUnknown d \<and> go_round (gd_currentCapWatts d) = intelTarget capWatts d then ([], h)
         else (case k_write k path want h of
                 Inl e \<Rightarrow> ([gpu @ ''write '' @ f @ '': '' @ we_text e], h)
               | Inr h \<Rightarrow> (if ReadWord h path \<noteq> Some want then [mismatch (gd_busID d) f h path want] else [], h)))"

fun capIntelDevices :: "Kernel \<Rightarrow> f64 \<Rightarrow> GPUDevice list \<Rightarrow> SysHost \<Rightarrow> goerr list \<times> SysHost" where
  "capIntelDevices k capWatts [] h = ([], h)"
| "capIntelDevices k capWatts (d # ds) h =
     (case capIntelDevice k capWatts d h of (e, h) \<Rightarrow> (case capIntelDevices k capWatts ds h of (es, h) \<Rightarrow> (e @ es, h)))"

definition applyIntelGPUCap :: "Kernel \<Rightarrow> GPUDevice list \<Rightarrow> f64 \<Rightarrow> SysHost \<Rightarrow> goerr option \<times> SysHost" where
  "applyIntelGPUCap k devices capWatts h = (case capIntelDevices k capWatts devices h of (errs, h) \<Rightarrow> (joinErrs errs, h))"

section \<open>The GPU cap of a node\<close>

definition nodeGPUCount :: "KNode \<Rightarrow> int" where
  "nodeGPUCount node =
     (case GPUCountFromLabels (kn_labels node) of
        Some n \<Rightarrow> n
      | None \<Rightarrow> sum_list (map snd (filter (\<lambda>(r, q). GPUResourceKind r \<noteq> []) (kn_allocatable node))))"

text \<open>The first device whose range the watts leave, with the message that says so.\<close>

definition outOfRange :: "(nat \<Rightarrow> f64 \<Rightarrow> string) \<Rightarrow> f64 \<Rightarrow> GPUDevice \<Rightarrow> string option" where
  "outOfRange fmt w d =
     (if gd_minCapWatts d > 0 \<and> w < gd_minCapWatts d
      then Some (''requested cap '' @ fmt 1 w @ ''W below min '' @ fmt 1 (gd_minCapWatts d) @ ''W on gpu '' @ Itoa (gd_index d))
      else if gd_maxCapWatts d > 0 \<and> w > gd_maxCapWatts d
      then Some (''requested cap '' @ fmt 1 w @ ''W above max '' @ fmt 1 (gd_maxCapWatts d) @ ''W on gpu '' @ Itoa (gd_index d))
      else None)"

fun firstOutOfRange :: "(nat \<Rightarrow> f64 \<Rightarrow> string) \<Rightarrow> f64 \<Rightarrow> GPUDevice list \<Rightarrow> string option" where
  "firstOutOfRange fmt w [] = None"
| "firstOutOfRange fmt w (d # ds) = (case outOfRange fmt w d of Some msg \<Rightarrow> Some msg | None \<Rightarrow> firstOutOfRange fmt w ds)"

definition devicePctCap :: "f64 \<Rightarrow> GPUDevice \<Rightarrow> f64" where
  "devicePctCap pct d =
     (let w = pct / 100 * gd_maxCapWatts d in if gd_minCapWatts d > 0 \<and> w < gd_minCapWatts d then gd_minCapWatts d else w)"

fun minPctCap :: "f64 \<Rightarrow> f64 \<Rightarrow> GPUDevice list \<Rightarrow> f64 option" where
  "minPctCap pct acc [] = Some acc"
| "minPctCap pct acc (d # ds) =
     (if gd_maxCapWatts d \<le> 0 then None
      else minPctCap pct (if acc = 0 \<or> devicePctCap pct d < acc then devicePctCap pct d else acc) ds)"

definition resolveGPUCapPerDevice :: "(nat \<Rightarrow> f64 \<Rightarrow> string) \<Rightarrow> GPUPowerCap \<Rightarrow> GPUDevice list \<Rightarrow> string + f64" where
  "resolveGPUCapPerDevice fmt intent devices =
     (let pctCap = (case gcap_capPctOfMax intent of
            None \<Rightarrow> Inl ''missing capWattsPerGpu or capPctOfMax''
          | Some pct \<Rightarrow>
              if pct \<le> 0 then Inl ''missing capWattsPerGpu or capPctOfMax''
              else (case minPctCap pct 0 devices of
                      None \<Rightarrow> Inl ''cannot resolve capPctOfMax without device max power limits''
                    | Some w \<Rightarrow> if w \<le> 0 then Inl ''failed to resolve cap from percentage'' else Inr w))
      in case gcap_capWattsPerGPU intent of
           Some w \<Rightarrow> if w > 0 then (case firstOutOfRange fmt w devices of Some msg \<Rightarrow> Inl msg | None \<Rightarrow> Inr w) else pctCap
         | None \<Rightarrow> pctCap)"

record gpuInventory =
  gin_vendor :: string
  gin_devices :: "GPUDevice list"
  gin_err :: "goerr option"

text \<open>The devices a cap is written to, those it is resolved against, and the note on those left out; or why nothing is capped.\<close>

definition capTargets :: "SysHost \<Rightarrow> gpuInventory \<Rightarrow> string + GPUDevice list \<times> GPUDevice list \<times> string" where
  "capTargets h inventory =
     (let devices = gin_devices inventory
      in if gin_vendor inventory = ''nvidia''
         then (case nvidiaCapSets devices of (settable, unsupported) \<Rightarrow>
                 let note = (if unsupported \<noteq> [] then nvidiaUnsupportedNote unsupported else [])
                 in if settable = [] then Inl note else Inr (settable, settable, note))
         else if gin_vendor inventory = ''amd''
         then (case amdgpuCapSets devices of (capped, ranged) \<Rightarrow>
                 if capped = [] then Inl ''no amdgpu device has a power cap of its own'' else Inr (capped, ranged, []))
         else if gin_vendor inventory = ''intel''
         then (if intelGPURanged devices = [] then Inl (intelGPUUnknownRange h devices) else Inr (devices, intelGPURanged devices, []))
         else Inr (devices, devices, []))"

type_synonym GPUControl = "string \<Rightarrow> f64 \<Rightarrow> goerr option"

definition applyToDevices ::
  "(nat \<Rightarrow> f64 \<Rightarrow> string) \<Rightarrow> Kernel \<Rightarrow> string \<Rightarrow> GPUDevice list \<Rightarrow> f64 \<Rightarrow> string \<Rightarrow> amdgpuLastCaps \<times> SysHost \<Rightarrow>
   (string \<times> string \<times> string) \<times> amdgpuLastCaps \<times> SysHost" where
  "applyToDevices fmt k vendor devices capPerGPU skippedNote s =
     (let okMsg = ''applied gpu cap '' @ fmt 1 capPerGPU @ ''W on '' @ Itoa (int (length devices)) @ '' devices'';
          outcome = (\<lambda>backend err note.
            (backend, (case err of None \<Rightarrow> ''applied'' | Some _ \<Rightarrow> ''error''), (case err of None \<Rightarrow> okMsg | Some e \<Rightarrow> e) @ note))
      in case s of (caps, h) \<Rightarrow>
           if vendor = ''nvidia''
           then (case applyNvidiaGPUCap k devices capPerGPU h of
                   (err, h) \<Rightarrow> (outcome ''host-nvidia'' err (if skippedNote \<noteq> [] then ''; '' @ skippedNote else []), caps, h))
           else if vendor = ''amd''
           then (case applyAmdGPUCap k devices capPerGPU (caps, h) of (err, s) \<Rightarrow> (outcome ''host-amd'' err [], s))
           else if vendor = ''intel''
           then (case applyIntelGPUCap k devices capPerGPU h of (err, h) \<Rightarrow> (outcome ''host-intel'' err [], caps, h))
           else ((''none'', ''blocked'', ''unsupported gpu vendor '' @ quoted vendor), caps, h))"

definition sendGPUCap :: "GPUControl \<Rightarrow> f64 \<Rightarrow> string \<Rightarrow> string \<times> string \<times> string" where
  "sendGPUCap send capPerGPU okMsg =
     (case send ''gpu.set_power_cap_watts'' capPerGPU of Some e \<Rightarrow> (''http'', ''error'', e) | None \<Rightarrow> (''http'', ''applied'', okMsg))"

definition applyGPUIntentFrom ::
  "(nat \<Rightarrow> f64 \<Rightarrow> string) \<Rightarrow> Kernel \<Rightarrow> KNode \<Rightarrow> GPUPowerCap \<Rightarrow> GPUControl option \<Rightarrow> gpuInventory \<Rightarrow> amdgpuLastCaps \<times> SysHost \<Rightarrow>
   (string \<times> string \<times> string) \<times> amdgpuLastCaps \<times> SysHost" where
  "applyGPUIntentFrom fmt k node intent httpClient inventory s =
     (let absolute = (case gcap_capWattsPerGPU intent of Some w \<Rightarrow> if w > 0 then Some w else None | None \<Rightarrow> None)
      in if nodeGPUCount node \<le> 0 \<and> \<not> (gin_err inventory = None \<and> gin_devices inventory \<noteq> [])
         then ((''none'', ''blocked'', ''node has no allocatable GPU resources''), s)
         else (case (httpClient, absolute) of
                 (Some send, Some w) \<Rightarrow> (sendGPUCap send w (''applied gpu cap '' @ fmt 1 w @ ''W''), s)
               | _ \<Rightarrow>
                   if gin_vendor inventory = ''none'' then ((''none'', ''blocked'', ''no supported GPU backend detected''), s)
                   else (case gin_err inventory of
                           Some e \<Rightarrow> ((''none'', ''error'', ''gpu inventory failed: '' @ e), s)
                         | None \<Rightarrow>
                             if gin_devices inventory = [] then ((''none'', ''blocked'', ''no GPU devices discovered''), s)
                             else (case capTargets (snd s) inventory of
                                     Inl msg \<Rightarrow> ((''none'', ''blocked'', msg), s)
                                   | Inr (devices, resolveFrom, note) \<Rightarrow>
                                       (case resolveGPUCapPerDevice fmt intent resolveFrom of
                                          Inl msg \<Rightarrow> ((''none'', ''blocked'', msg), s)
                                        | Inr capPerGPU \<Rightarrow>
                                            (case httpClient of
                                               Some send \<Rightarrow>
                                                 (sendGPUCap send capPerGPU (''applied gpu cap '' @ fmt 1 capPerGPU @ ''W on '' @
                                                    Itoa (int (length devices)) @ '' devices''), s)
                                             | None \<Rightarrow> applyToDevices fmt k (gin_vendor inventory) devices capPerGPU note s))))))"

section \<open>Lemmas: RAPL caps\<close>

text \<open>
  The behaviour of RAPL the cap relies on: a write of a limit either is refused and changes nothing, or changes that
  limit alone, which then reads as the value cut down to whole power units, as the kernel keeps it (and as the emulator's
  \<open>QuantizeUW\<close> has it); how the file spells the number is left open. \<open>ok\<close> says which limits take a write, \<open>unitUW\<close> is the
  power unit of the limit's zone in microwatts.
\<close>

definition keepsLimits :: "Kernel \<Rightarrow> (string \<Rightarrow> bool) \<Rightarrow> (string \<Rightarrow> int) \<Rightarrow> bool" where
  "keepsLimits k ok unitUW \<longleftrightarrow>
     (\<forall>p n h. HasSuffix p ''_power_limit_uw'' \<and> 0 \<le> n \<and> int64_ok n \<longrightarrow>
        (case k_write k p (Itoa n) h of
           Inl _ \<Rightarrow> \<not> ok p
         | Inr h' \<Rightarrow> ok p \<and> (\<exists>shown. Atoi (TrimSpace shown) = Some (QuantizeUW n (unitUW p)) \<and>
                                    h' = h\<lparr>ho_files := (ho_files h)(p \<mapsto> shown)\<rparr>)))"

text \<open>The limit a file shows.\<close>

definition limitUW :: "SysHost \<Rightarrow> string \<Rightarrow> int option" where
  "limitUW h p = Option.bind (ho_files h p) (\<lambda>s. Atoi (TrimSpace s))"

text \<open>Cut to whole units, a limit is never raised, and lowered by less than one unit.\<close>

lemma QuantizeUW_bounds:
  "0 \<le> n \<Longrightarrow> 0 \<le> QuantizeUW n u \<and> QuantizeUW n u \<le> n \<and> n - QuantizeUW n u < max 1 u"
proof (cases "u \<le> 0")
  case False
  assume n: "0 \<le> n"
  have "n - n div u * u = n mod u" "0 \<le> n mod u" "n mod u < u" using False by (simp_all add: minus_div_mult_eq_mod)
  moreover have "0 \<le> n div u * u" using False n by (simp add: pos_imp_zdiv_nonneg_iff)
  moreover have "QuantizeUW n u = n div u * u" using False n by (simp add: QuantizeUW_def go_num)
  ultimately show ?thesis by linarith
qed (simp add: QuantizeUW_def)

lemma max_file_not_limit: "x @ ''_max_power_uw'' \<noteq> y @ ''_power_limit_uw''"
proof
  assume "x @ ''_max_power_uw'' = y @ ''_power_limit_uw''"
  then have "rev (x @ ''_max_power_uw'') = rev (y @ ''_power_limit_uw'')" by simp
  then show False by simp
qed

lemma truncate_files [simp]: "ho_files (Host.truncate h) = ho_files h"
  by (cases h) (simp add: Host.truncate_def)

lemma raplConstraintMaxUW_cong:
  assumes "\<And>x. ho_files h' (x @ ''_max_power_uw'') = ho_files h (x @ ''_max_power_uw'')"
  shows "raplConstraintMaxUW h' f = raplConstraintMaxUW h f"
proof -
  have "ho_files h' (pathJoin d (base @ ''_max_power_uw'')) = ho_files h (pathJoin d (base @ ''_max_power_uw''))" for d base
    using assms [of "d @ ''/'' @ base"] by (simp add: pathJoin_def)
  then show ?thesis by (cases "CutSuffix (pathBase f) ''_power_limit_uw''") (simp add: raplConstraintMaxUW_def readInt64_def)
qed

lemma capUWFor_write:
  "HasSuffix g ''_power_limit_uw'' \<Longrightarrow> capUWFor (h\<lparr>ho_files := (ho_files h)(g \<mapsto> v)\<rparr>) watts f = capUWFor h watts f"
  using max_file_not_limit raplConstraintMaxUW_cong [of "h\<lparr>ho_files := (ho_files h)(g \<mapsto> v)\<rparr>" h f]
  by (auto simp: capUWFor_def HasSuffix_iff)

lemma RAPLCapFiles_suffix: "list_all (\<lambda>f. HasSuffix f ''_power_limit_uw'') (RAPLCapFiles h)"
proof -
  have "\<exists>x. pathJoin z ''constraint_0_power_limit_uw'' = x @ ''_power_limit_uw''" for z
    by (rule exI [of _ "z @ ''/constraint_0''"]) (simp add: pathJoin_def)
  then show ?thesis by (auto simp: RAPLCapFiles_def list_all_iff HasSuffix_iff)
qed

lemma capUWFor_bounds:
  assumes "0 < watts"
  shows "0 \<le> capUWFor h watts f" "real_of_int (capUWFor h watts f) \<le> watts * 1000000"
    "raplConstraintMaxUW h f = Some m \<Longrightarrow> capUWFor h watts f \<le> m"
proof -
  have pos: "raplConstraintMaxUW h f = Some m \<Longrightarrow> 0 < m" for m
    by (auto simp: raplConstraintMaxUW_def split: prod.splits option.splits if_splits)
  have t: "0 \<le> go_trunc (watts * 1000000)" "real_of_int (go_trunc (watts * 1000000)) \<le> watts * 1000000"
    using assms by (simp_all add: go_trunc_nonneg)
  show "0 \<le> capUWFor h watts f" "real_of_int (capUWFor h watts f) \<le> watts * 1000000"
    using t pos by (auto simp: capUWFor_def Let_def split: option.splits intro: less_imp_le)
  show "raplConstraintMaxUW h f = Some m \<Longrightarrow> capUWFor h watts f \<le> m" by (simp add: capUWFor_def Let_def)
qed

lemma capUWFor_int64: "0 < watts \<Longrightarrow> watts * 1000000 < 2 ^ 63 \<Longrightarrow> int64_ok (capUWFor h watts f)"
  using capUWFor_bounds(1,2) [of watts h f] by (simp add: int64_ok_def)

lemma writeRAPLCaps_files:
  assumes "keepsLimits k ok unitUW" "list_all (\<lambda>f. HasSuffix f ''_power_limit_uw'') fs" "0 < watts" "watts * 1000000 < 2 ^ 63"
  shows "\<exists>fails h'. writeRAPLCaps k watts fs h = ((length (filter ok fs), fails), h') \<and>
    (\<forall>p. if p \<in> set fs \<and> ok p then limitUW h' p = Some (QuantizeUW (capUWFor h watts p) (unitUW p)) else ho_files h' p = ho_files h p)"
  using assms(2)
proof (induction fs arbitrary: h)
  case (Cons f fs)
  have suf: "HasSuffix f ''_power_limit_uw''" and rest: "list_all (\<lambda>f. HasSuffix f ''_power_limit_uw'') fs" using Cons.prems by simp_all
  have K: "case k_write k f (Itoa (capUWFor h watts f)) h of Inl _ \<Rightarrow> \<not> ok f
      | Inr h' \<Rightarrow> ok f \<and> (\<exists>shown. Atoi (TrimSpace shown) = Some (QuantizeUW (capUWFor h watts f) (unitUW f)) \<and>
          h' = h\<lparr>ho_files := (ho_files h)(f \<mapsto> shown)\<rparr>)"
    using assms(1) suf capUWFor_bounds(1) [OF assms(3)] capUWFor_int64 [OF assms(3,4)] unfolding keepsLimits_def by blast
  show ?case
  proof (cases "k_write k f (Itoa (capUWFor h watts f)) h")
    case (Inl e)
    then have "\<not> ok f" using K by simp
    moreover obtain fails h' where "writeRAPLCaps k watts fs h = ((length (filter ok fs), fails), h')"
      "\<forall>p. if p \<in> set fs \<and> ok p then limitUW h' p = Some (QuantizeUW (capUWFor h watts p) (unitUW p)) else ho_files h' p = ho_files h p"
      using Cons.IH [OF rest, of h] by blast
    ultimately show ?thesis using Inl by auto
  next
    case (Inr h1)
    then obtain shown where ok: "ok f" and s: "Atoi (TrimSpace shown) = Some (QuantizeUW (capUWFor h watts f) (unitUW f))"
      and h1: "h1 = h\<lparr>ho_files := (ho_files h)(f \<mapsto> shown)\<rparr>" using K by auto
    have same: "capUWFor h1 watts p = capUWFor h watts p" for p unfolding h1 by (rule capUWFor_write [OF suf])
    obtain fails h' where F: "writeRAPLCaps k watts fs h1 = ((length (filter ok fs), fails), h')"
      "\<forall>p. if p \<in> set fs \<and> ok p then limitUW h' p = Some (QuantizeUW (capUWFor h watts p) (unitUW p)) else ho_files h' p = ho_files h1 p"
      using Cons.IH [OF rest, of h1] unfolding same by blast
    have "if p \<in> set (f # fs) \<and> ok p then limitUW h' p = Some (QuantizeUW (capUWFor h watts p) (unitUW p)) else ho_files h' p = ho_files h p" for p
      using F(2) [rule_format, of p] ok s by (cases "p = f"; cases "p \<in> set fs") (auto simp: h1 limitUW_def split: if_splits)
    then show ?thesis using Inr F(1) ok by auto
  qed
qed simp

lemma capUWFor_is:
  "case raplConstraintMaxUW h p of None \<Rightarrow> capUWFor h watts p = go_trunc (watts * 1000000)
   | Some m \<Rightarrow> capUWFor h watts p = min m (go_trunc (watts * 1000000))"
  by (simp add: capUWFor_def Let_def split: option.split)

text \<open>The limit a zone ends with: at most the watts asked for, and where the zone states no maximum within a power unit of them.\<close>

lemma capUWFor_within:
  assumes "0 < watts"
  shows "real_of_int (QuantizeUW (capUWFor h watts p) u) \<le> watts * 1000000 \<and>
    (raplConstraintMaxUW h p = None \<longrightarrow> watts * 1000000 - 1 - real_of_int (max 1 u) < real_of_int (QuantizeUW (capUWFor h watts p) u))"
proof -
  note q = QuantizeUW_bounds [OF capUWFor_bounds(1) [OF assms], of h p u]
  have "real_of_int (QuantizeUW (capUWFor h watts p) u) \<le> real_of_int (capUWFor h watts p)"
    "real_of_int (capUWFor h watts p) - real_of_int (max 1 u) < real_of_int (QuantizeUW (capUWFor h watts p) u)" using q by linarith+
  moreover have "watts * 1000000 - 1 < real_of_int (capUWFor h watts p)" if "raplConstraintMaxUW h p = None"
    using capUWFor_is [of h watts p] that assms by (simp add: go_trunc_nonneg)
  ultimately show ?thesis using capUWFor_bounds(2) [OF assms, of h p] by linarith
qed

lemma applyRAPLPackageCap_effect:
  assumes "keepsLimits k ok unitUW" "vendor \<in> {''AuthenticAMD'', ''GenuineIntel''}" "0 < watts" "watts * 1000000 < 2 ^ 63"
    and "applyRAPLPackageCap k vendor watts h = (r, h')"
  shows "(\<forall>p. if p \<in> set (RAPLCapFiles (Host.truncate h)) \<and> ok p
         then limitUW h' p = Some (QuantizeUW (capUWFor h watts p) (unitUW p)) else ho_files h' p = ho_files h p) \<and>
    (\<forall>p. 0 \<le> QuantizeUW (capUWFor h watts p) (unitUW p) \<and> QuantizeUW (capUWFor h watts p) (unitUW p) \<le> capUWFor h watts p \<and>
         capUWFor h watts p - QuantizeUW (capUWFor h watts p) (unitUW p) < max 1 (unitUW p)) \<and>
    (\<forall>p. 0 \<le> capUWFor h watts p \<and> real_of_int (capUWFor h watts p) \<le> watts * 1000000 \<and>
         (case raplConstraintMaxUW h p of None \<Rightarrow> capUWFor h watts p = go_trunc (watts * 1000000)
          | Some m \<Rightarrow> capUWFor h watts p = min m (go_trunc (watts * 1000000)))) \<and>
    ((\<exists>n. r = Inr (True, n)) = (\<exists>f\<in>set (RAPLCapFiles (Host.truncate h)). ok f)) \<and>
    (r = Inr (False, 0)) = (RAPLCapFiles (Host.truncate h) = [])"
proof -
  let ?fs = "RAPLCapFiles (Host.truncate h)"
  have v: "\<not> (vendor \<noteq> ''AuthenticAMD'' \<and> vendor \<noteq> ''GenuineIntel'')" using assms(2) by blast
  note q = QuantizeUW_bounds [OF capUWFor_bounds(1) [OF assms(3)]]
  note b = capUWFor_bounds(1,2) [OF assms(3)] capUWFor_is
  have main: "(\<forall>p. if p \<in> set ?fs \<and> ok p then limitUW h' p = Some (QuantizeUW (capUWFor h watts p) (unitUW p)) else ho_files h' p = ho_files h p) \<and>
    ((\<exists>n. r = Inr (True, n)) = (\<exists>f\<in>set ?fs. ok f)) \<and> (r = Inr (False, 0)) = (?fs = [])"
  proof (cases "?fs = []")
    case True
    then show ?thesis using assms(3,5) v by (auto simp: applyRAPLPackageCap_def split: if_splits)
  next
    case False
    obtain fails h1 where W: "writeRAPLCaps k watts ?fs h = ((length (filter ok ?fs), fails), h1)"
      "\<forall>p. if p \<in> set ?fs \<and> ok p then limitUW h1 p = Some (QuantizeUW (capUWFor h watts p) (unitUW p)) else ho_files h1 p = ho_files h p"
      using writeRAPLCaps_files [OF assms(1) RAPLCapFiles_suffix assms(3,4)] by blast
    have E: "applyRAPLPackageCap k vendor watts h =
      (if length (filter ok ?fs) = 0 then Inl (''write rapl cap: '' @ Join fails ''; '') else Inr (True, length (filter ok ?fs)), h1)"
      unfolding applyRAPLPackageCap_def if_not_P [OF v] W(1) using False assms(3) by simp
    have F: "(length (filter ok ?fs) = 0) = (\<not> (\<exists>f\<in>set ?fs. ok f))" by (simp add: filter_empty_conv)
    have r: "h' = h1" "r = (if length (filter ok ?fs) = 0 then Inl (''write rapl cap: '' @ Join fails ''; '') else Inr (True, length (filter ok ?fs)))"
      using E assms(5) by simp_all
    have "((\<exists>n. r = Inr (True, n)) = (\<exists>f\<in>set ?fs. ok f)) \<and> (r = Inr (False, 0)) = (?fs = [])"
      unfolding r(2) F using False by simp
    then show ?thesis using W(2) unfolding r(1) by blast
  qed
  show ?thesis using main q b by blast
qed


text \<open>An example kernel: a limit is kept in units of 125000 uW, an eighth of a watt, and reads with a line end, as sysfs shows it.\<close>

definition exampleUnit :: "string \<Rightarrow> int" where
  "exampleUnit _ = 125000"

definition exampleKernel :: "(string \<Rightarrow> bool) \<Rightarrow> Kernel" where
  "exampleKernel ok =
     \<lparr>k_write = (\<lambda>p v h. if ok p
                  then Inr (h\<lparr>ho_files := (ho_files h)(p \<mapsto> (case Atoi v of None \<Rightarrow> v
                    | Some n \<Rightarrow> Itoa (if HasSuffix p ''_power_limit_uw'' then QuantizeUW n (exampleUnit p) else n) @ [CHR 0x0A]))\<rparr>)
                  else Inl \<lparr>we_errno = Some ''EACCES'', we_notFound = False, we_exitCode = None, we_text = ''permission denied''\<rparr>),
      k_run = (\<lambda>_ _ h. ((None, []), h)), k_wait = (\<lambda>h. h), k_cancelled = (\<lambda>_. False)\<rparr>"

lemma TrimSpace_Itoa_nl: "TrimSpace (Itoa n @ [CHR 0x0A]) = Itoa n"
proof -
  have s: "\<forall>c \<in> set (Itoa n). \<not> is_space c" using Itoa_char by blast
  then have "dropWhile is_space (Itoa n @ [CHR 0x0A]) = (if Itoa n = [] then [] else Itoa n @ [CHR 0x0A])"
    by (cases "Itoa n") (simp_all add: is_space_def)
  moreover have "dropWhile is_space (rev (Itoa n @ [CHR 0x0A])) = rev (Itoa n)"
    using s by (simp add: is_space_def dropWhile_all_false)
  ultimately show ?thesis by (simp add: TrimSpace_def trim_by_def)
qed

lemma exampleKernel_keeps: "keepsLimits (exampleKernel ok) ok exampleUnit"
proof -
  have "int64_ok (QuantizeUW n u)" if "0 \<le> n" "int64_ok n" for n u
    using QuantizeUW_bounds [of n u] that by (simp add: int64_ok_def)
  then show ?thesis by (auto simp: keepsLimits_def exampleKernel_def Atoi_Itoa TrimSpace_Itoa_nl
      intro!: exI [where x = "Itoa (QuantizeUW n u) @ [CHR 0x0A]" for n u])
qed

definition exampleZone :: "string \<Rightarrow> string" where
  "exampleZone z = PowercapRoot @ ''/intel-rapl:'' @ z"

definition exampleRAPLHost :: SysHost where
  "exampleRAPLHost =
     \<lparr>ho_glob = (\<lambda>pat. if pat = PowercapRoot @ ''/*'' then [exampleZone ''0'', exampleZone ''1''] else []),
      ho_resolve = (\<lambda>_. None),
      ho_files = (\<lambda>p. if p \<in> {exampleZone ''0/constraint_0_power_limit_uw'', exampleZone ''1/constraint_0_power_limit_uw''} then Some ''200000000''
         else if p = exampleZone ''0/constraint_0_max_power_uw'' then Some (Itoa 150100000) else None),
      ho_writable = (\<lambda>_. True), sh_readDir = (\<lambda>_. None), sh_readlink = (\<lambda>_. None), sh_exists = (\<lambda>_. False), sh_writable = (\<lambda>_. True)\<rparr>"

definition exampleOk :: "string \<Rightarrow> bool" where
  "exampleOk p \<longleftrightarrow> p \<noteq> exampleZone ''1/constraint_0_power_limit_uw''"

lemma exampleRAPLHost_files:
  "RAPLCapFiles (Host.truncate exampleRAPLHost) = [exampleZone ''0/constraint_0_power_limit_uw'', exampleZone ''1/constraint_0_power_limit_uw'']"
  by code_simp

lemma exampleZones_ok: "exampleOk (exampleZone ''0/constraint_0_power_limit_uw'') \<and> \<not> exampleOk (exampleZone ''1/constraint_0_power_limit_uw'')"
  by code_simp

lemma exampleZone_paths:
  "CutSuffix (pathBase (exampleZone ''0/constraint_0_power_limit_uw'')) ''_power_limit_uw'' = (''constraint_0'', True)"
  "pathJoin (pathDir (exampleZone ''0/constraint_0_power_limit_uw'')) (''constraint_0'' @ ''_max_power_uw'') = exampleZone ''0/constraint_0_max_power_uw''"
  by code_simp+

lemma exampleZone_max: "raplConstraintMaxUW exampleRAPLHost (exampleZone ''0/constraint_0_power_limit_uw'') = Some 150100000"
proof -
  have "ho_files exampleRAPLHost (exampleZone ''0/constraint_0_max_power_uw'') = Some (Itoa 150100000)"
    by (simp add: exampleRAPLHost_def exampleZone_def)
  then show ?thesis unfolding raplConstraintMaxUW_def exampleZone_paths(1) prod.case exampleZone_paths(2)
    by (simp add: readInt64_def TrimSpace_Itoa Atoi_Itoa int64_ok_def)
qed

lemma exampleZone_cap:
  "QuantizeUW (capUWFor exampleRAPLHost 180 (exampleZone ''0/constraint_0_power_limit_uw'')) (exampleUnit p) = 150000000"
  unfolding capUWFor_def exampleZone_max Let_def by (simp add: go_trunc_def QuantizeUW_def exampleUnit_def go_num)


section \<open>Runs of the DVFS controller\<close>

text \<open>
  A run of the agent as its DVFS controller sees it: the controller is created on a host, and at non-decreasing times the
  agent sets where it reads the power from, runs a turn of its control loop (\<open>Reconcile\<close>), takes the throttle back when RAPL
  has become available (\<open>RestoreAllMax\<close>), or carries out a percent intent, which sets the throttle itself
  (\<open>applyCPUPercentIntent\<close>, with \<open>ReadPowerWatts\<close>, \<open>ApplyThrottlePct\<close> and \<open>SetThrottlePct\<close>). The host, the readings, the caps
  and the control client of each step are arbitrary. \<open>dw_changes\<close> records the times of the actions of the control loop, newest
  first.
\<close>

record DvfsWorld =
  dw_now :: int
  dw_ctl :: Controller
  dw_changes :: "int list"

inductive dvfsStep :: "DvfsWorld \<Rightarrow> DvfsWorld \<Rightarrow> bool" where
  reconcile: "dw_now w \<le> t \<Longrightarrow> Reconcile h t capWatts client (dw_ctl w) = (r, d, h') \<Longrightarrow>
    dvfsStep w \<lparr>dw_now = t, dw_ctl = d,
      dw_changes = (if ct_lastAction d = ct_lastAction (dw_ctl w) then dw_changes w else t # dw_changes w)\<rparr>"
| reading: "dvfsStep w (w\<lparr>dw_ctl := (dw_ctl w)\<lparr>ct_powerReader := p\<rparr>\<rparr>)"
| restore: "dw_now w \<le> t \<Longrightarrow> RestoreAllMax h (dw_ctl w) = (r, d, h') \<Longrightarrow>
    dvfsStep w \<lparr>dw_now = t, dw_ctl = d, dw_changes = dw_changes w\<rparr>"
| percent: "dw_now w \<le> t \<Longrightarrow> applyCPUPercentIntent fmt t pct client (Some (dw_ctl w)) host = (outcome, Some d, host') \<Longrightarrow>
    dvfsStep w \<lparr>dw_now = t, dw_ctl = d, dw_changes = dw_changes w\<rparr>"

definition dvfsStart :: "Host \<Rightarrow> DvfsConfig \<Rightarrow> int \<Rightarrow> DvfsWorld" where
  "dvfsStart h cfg now = \<lparr>dw_now = now, dw_ctl = New h cfg True, dw_changes = []\<rparr>"

text \<open>A percent intent touches the samples and the throttle, which it sets to what the percentage leaves over.\<close>

lemma percent_throttle: "0 < pct \<Longrightarrow> pct \<le> 100 \<Longrightarrow> 0 \<le> go_round (100 - pct) \<and> go_round (100 - pct) \<le> 100"
  by (simp add: go_round_def)

lemma percent_controller:
  assumes "applyCPUPercentIntent fmt t pct client (Some d) h = (outcome, Some d', h')"
  shows "\<exists>s p. d' = d\<lparr>ct_samples := s, ct_throttlePct := p\<rparr> \<and>
    (p = ct_throttlePct d \<or> 0 < pct \<and> p = go_round (100 - (if pct > 100 then 100 else pct)))"
proof -
  have same: "d\<lparr>ct_samples := s\<rparr> = d\<lparr>ct_samples := s, ct_throttlePct := ct_throttlePct d\<rparr>" for s by (cases d) simp
  have host: "throttleOnHost p tw msg (Some (d\<lparr>ct_samples := s\<rparr>)) h = (outcome, Some d', h') \<Longrightarrow>
      d' = d\<lparr>ct_samples := s, ct_throttlePct := ct_throttlePct d\<rparr> \<or> d' = d\<lparr>ct_samples := s, ct_throttlePct := p\<rparr>" for p tw msg s
    using same by (auto simp: throttleOnHost_def split: if_splits prod.splits option.splits)
  show ?thesis
  proof (cases "pct \<le> 0")
    case True
    then have "d' = d\<lparr>ct_samples := ct_samples d, ct_throttlePct := ct_throttlePct d\<rparr>" using assms by (simp add: applyCPUPercentIntent_def)
    then show ?thesis by blast
  next
    case False
    obtain r d1 where R: "readPowerWatts (Host.truncate h) t d = (r, d1)" by force
    then obtain s where s: "d1 = d\<lparr>ct_samples := s\<rparr>" using readPowerWatts_frame by blast
    have "snd (observedTarget h t (if pct > 100 then 100 else pct) (Some d)) = Some (d\<lparr>ct_samples := s\<rparr>)"
      using R s by (simp add: observedTarget_def split: sum.split option.split)
    then obtain tw where O: "observedTarget h t (if pct > 100 then 100 else pct) (Some d) = (tw, Some (d\<lparr>ct_samples := s\<rparr>))"
      by (metis prod.collapse)
    have "d' = d\<lparr>ct_samples := s, ct_throttlePct := ct_throttlePct d\<rparr> \<or>
        d' = d\<lparr>ct_samples := s, ct_throttlePct := go_round (100 - (if pct > 100 then 100 else pct))\<rparr>"
      using assms False same [of s] O by (auto simp: applyCPUPercentIntent_def Let_def split: option.splits if_splits dest!: host)
    moreover have "0 < pct" using False by simp
    ultimately show ?thesis by blast
  qed
qed

definition worldInv :: "DvfsConfig \<Rightarrow> DvfsWorld \<Rightarrow> bool" where
  "worldInv cfg w \<longleftrightarrow> ctlInv cfg (dw_ctl w) \<and>
     (case dw_changes w of [] \<Rightarrow> ct_lastAction (dw_ctl w) = None | t # _ \<Rightarrow> ct_lastAction (dw_ctl w) = Some t) \<and>
     sorted_wrt (\<lambda>later earlier. earlier + dc_cooldown cfg \<le> later) (dw_changes w)"

lemma worldInv_step:
  assumes "dvfsStep w w'" and inv: "worldInv cfg w" and cfg: "0 \<le> dc_stepPct cfg" "1 \<le> dc_tripCount cfg" "0 \<le> dc_cooldown cfg"
  shows "worldInv cfg w'"
  using assms(1)
proof cases
  case (reconcile t h cap client r d h')
  have ctl: "ctlInv cfg (dw_ctl w)" using inv by (simp add: worldInv_def)
  note d = Reconcile_inv [OF reconcile(3) ctl cfg(1,2)]
  show ?thesis
  proof (cases "ct_lastAction d = ct_lastAction (dw_ctl w)")
    case True
    then show ?thesis using d inv reconcile(1) by (simp add: worldInv_def split: list.splits)
  next
    case False
    then have act: "ct_lastAction d = Some t" "\<not> inCooldown t (dw_ctl w)" using d by auto
    have "y + dc_cooldown cfg \<le> t" if "y \<in> set (dw_changes w)" for y
      using inv act(2) that cfg(3) by (cases "dw_changes w") (auto simp: worldInv_def inCooldown_def ctlInv_def)
    then show ?thesis using d act inv False reconcile(1) by (auto simp: worldInv_def)
  qed
next
  case (reading p)
  then show ?thesis using inv by (auto simp: worldInv_def ctlInv_readings split: list.splits)
next
  case (restore t h r d h')
  then have "d = dw_ctl w \<or> d = (dw_ctl w)\<lparr>ct_throttlePct := 0\<rparr>"
    by (auto simp: RestoreAllMax_def split: prod.splits if_splits)
  then show ?thesis using inv restore(1) by (auto simp: worldInv_def ctlInv_def split: list.splits)
next
  case (percent t fmt pct client host outcome d host')
  then show ?thesis using inv percent_controller [OF percent(3)] percent_throttle by (auto simp: worldInv_def ctlInv_def split: list.splits)
qed

lemma worldInv_run:
  assumes "dvfsStep\<^sup>*\<^sup>* (dvfsStart h cfg now) w" and "0 \<le> dc_stepPct cfg" "1 \<le> dc_tripCount cfg" "0 \<le> dc_cooldown cfg"
  shows "worldInv cfg w"
  using assms(1)
proof (induction rule: rtranclp_induct)
  case base
  then show ?case using assms(3) by (simp add: worldInv_def dvfsStart_def New_def ctlInv_def)
qed (use assms(2-4) worldInv_step in blast)


text \<open>
  A run: the power is 200 W under a cap of 100 W; turns at 0 and 1 throttle by one step, the turn at 5 waits for the
  cooldown, a percent intent of 60 at 6 sets the throttle to 40, and turns at 21 and 22 add another step.
\<close>

definition exampleTurn :: "int \<Rightarrow> DvfsWorld \<Rightarrow> DvfsWorld" where
  "exampleTurn t w =
     (case Reconcile exampleHost t 100 (Some (\<lambda>_ _ _. None)) (dw_ctl w) of
        (r, d, h) \<Rightarrow> \<lparr>dw_now = t, dw_ctl = d,
          dw_changes = (if ct_lastAction d = ct_lastAction (dw_ctl w) then dw_changes w else t # dw_changes w)\<rparr>)"

lemma exampleTurn_step: "dw_now w \<le> t \<Longrightarrow> dvfsStep w (exampleTurn t w)"
proof -
  assume t: "dw_now w \<le> t"
  obtain r d h where R: "Reconcile exampleHost t 100 (Some (\<lambda>_ _ _. None)) (dw_ctl w) = (r, d, h)" by (metis prod_cases3)
  from dvfsStep.reconcile [OF t R] show ?thesis by (simp add: exampleTurn_def R)
qed

definition exampleHot :: DvfsWorld where
  "exampleHot = (dvfsStart exampleHost exampleDvfsConfig 0)\<lparr>dw_ctl := (New exampleHost exampleDvfsConfig True)\<lparr>ct_powerReader := Some (Inr (Some 200))\<rparr>\<rparr>"

lemmas turn_simps = exampleTurn_def Reconcile_def readPowerWatts_def updateEma_def inCooldown_def countTrips_def applyThrottlePct_def Let_def

lemma exampleHot_turns:
  "dw_now (exampleTurn 5 (exampleTurn 1 (exampleTurn 0 exampleHot))) = 5"
  "dw_changes (exampleTurn 5 (exampleTurn 1 (exampleTurn 0 exampleHot))) = [1]"
  "dw_ctl (exampleTurn 5 (exampleTurn 1 (exampleTurn 0 exampleHot))) =
     (New exampleHost exampleDvfsConfig True)\<lparr>ct_powerReader := Some (Inr (Some 200)), ct_emaPowerW := 200, ct_emaInit := True,
       ct_throttlePct := 10, ct_lastAction := Some 1\<rparr>"
  by (simp_all add: turn_simps exampleHot_def dvfsStart_def New_def exampleDvfsConfig_def)

definition exampleIntent :: DvfsWorld where
  "exampleIntent = \<lparr>dw_now = 6, dw_ctl = (New exampleHost exampleDvfsConfig True)\<lparr>ct_powerReader := Some (Inr (Some 200)), ct_emaPowerW := 200,
     ct_emaInit := True, ct_throttlePct := 40, ct_lastAction := Some 1\<rparr>, dw_changes = [1]\<rparr>"

lemma exampleIntent_step: "dvfsStep (exampleTurn 5 (exampleTurn 1 (exampleTurn 0 exampleHot))) exampleIntent"
proof -
  let ?w = "exampleTurn 5 (exampleTurn 1 (exampleTurn 0 exampleHot))"
  have "\<exists>outcome. applyCPUPercentIntent (\<lambda>_ _. []) 6 60 (Some (\<lambda>_ _ _. None)) (Some (dw_ctl ?w)) exampleRAPLHost =
      (outcome, Some (dw_ctl exampleIntent), exampleRAPLHost)"
    unfolding exampleHot_turns
    by (simp add: applyCPUPercentIntent_def observedTarget_def readPowerWatts_def exampleIntent_def New_def go_round_def)
  then obtain outcome where "applyCPUPercentIntent (\<lambda>_ _. []) 6 60 (Some (\<lambda>_ _ _. None)) (Some (dw_ctl ?w)) exampleRAPLHost =
      (outcome, Some (dw_ctl exampleIntent), exampleRAPLHost)" by blast
  from dvfsStep.percent [OF _ this] show ?thesis using exampleHot_turns by (simp add: exampleIntent_def)
qed

lemma exampleHot_end:
  "dw_changes (exampleTurn 22 (exampleTurn 21 exampleIntent)) = [22, 1]" "dw_now (exampleTurn 21 exampleIntent) = 21"
  "ct_throttlePct (dw_ctl (exampleTurn 22 (exampleTurn 21 exampleIntent))) = 50"
  by (simp_all add: turn_simps exampleIntent_def New_def exampleDvfsConfig_def)

lemma exampleHot_run: "dvfsStep\<^sup>*\<^sup>* (dvfsStart exampleHost exampleDvfsConfig 0) (exampleTurn 22 (exampleTurn 21 exampleIntent))"
proof -
  have "dvfsStep (dvfsStart exampleHost exampleDvfsConfig 0) exampleHot"
    using dvfsStep.reading [of "dvfsStart exampleHost exampleDvfsConfig 0"] by (simp add: exampleHot_def dvfsStart_def)
  moreover have "dvfsStep exampleHot (exampleTurn 0 exampleHot)" by (rule exampleTurn_step) (simp add: exampleHot_def dvfsStart_def)
  moreover have now: "dw_now (exampleTurn t v) = t" for t v by (simp add: exampleTurn_def split: prod.split)
  ultimately show ?thesis
    using exampleIntent_step exampleTurn_step [of "exampleTurn 0 exampleHot" 1] exampleTurn_step [of "exampleTurn 1 (exampleTurn 0 exampleHot)" 5]
      exampleTurn_step [of exampleIntent 21] exampleTurn_step [of "exampleTurn 21 exampleIntent" 22]
    by (auto simp: exampleIntent_def intro: rtranclp.rtrancl_into_rtrancl)
qed


section \<open>Lemmas: GPU caps\<close>

definition inRange :: "f64 \<Rightarrow> GPUDevice \<Rightarrow> bool" where
  "inRange w d \<longleftrightarrow> (gd_minCapWatts d > 0 \<longrightarrow> gd_minCapWatts d \<le> w) \<and> (gd_maxCapWatts d > 0 \<longrightarrow> w \<le> gd_maxCapWatts d)"

lemma firstOutOfRange_None: "firstOutOfRange fmt w ds = None \<longleftrightarrow> (\<forall>d\<in>set ds. inRange w d)"
  by (induction ds) (auto simp: outOfRange_def inRange_def)

lemma devicePctCap_pos: "0 < pct \<Longrightarrow> 0 < gd_maxCapWatts d \<Longrightarrow> 0 < devicePctCap pct d"
  by (simp add: devicePctCap_def Let_def)

lemma minPctCap_acc:
  assumes "0 < pct" "0 < acc" "minPctCap pct acc ds = Some w"
  shows "0 < w \<and> w \<le> acc \<and> (\<forall>d\<in>set ds. 0 < gd_maxCapWatts d \<and> w \<le> devicePctCap pct d) \<and> (w = acc \<or> (\<exists>d\<in>set ds. w = devicePctCap pct d))"
  using assms(2,3)
proof (induction ds arbitrary: acc)
  case (Cons d ds)
  have m: "0 < gd_maxCapWatts d" using Cons.prems(2) by (auto split: if_splits)
  define acc' where "acc' = (if devicePctCap pct d < acc then devicePctCap pct d else acc)"
  have "0 < acc'" using devicePctCap_pos [OF assms(1) m] Cons.prems(1) by (simp add: acc'_def)
  moreover have "minPctCap pct acc' ds = Some w" using Cons.prems m by (simp add: acc'_def)
  ultimately show ?case using Cons.IH [of acc'] m by (fastforce simp: acc'_def split: if_splits)
qed simp

lemma minPctCap_min:
  assumes "0 < pct" "ds \<noteq> []" "minPctCap pct 0 ds = Some w"
  shows "0 < w \<and> (\<forall>d\<in>set ds. 0 < gd_maxCapWatts d \<and> w \<le> devicePctCap pct d) \<and> (\<exists>d\<in>set ds. w = devicePctCap pct d)"
proof -
  obtain d es where ds: "ds = d # es" using assms(2) by (cases ds) auto
  have m: "0 < gd_maxCapWatts d" using assms(3) by (simp add: ds split: if_splits)
  from minPctCap_acc [OF assms(1) devicePctCap_pos [OF assms(1) m], of es w] show ?thesis
    using assms(3) m by (auto simp: ds)
qed

lemma devicePctCap_range:
  assumes "0 < pct" "pct \<le> 100" "0 < gd_maxCapWatts d" "gd_minCapWatts d \<le> gd_maxCapWatts d"
  shows "inRange (devicePctCap pct d) d"
proof -
  have "pct / 100 * gd_maxCapWatts d \<le> 1 * gd_maxCapWatts d" using assms by (intro mult_right_mono) simp_all
  then show ?thesis using assms by (auto simp: inRange_def devicePctCap_def Let_def)
qed

text \<open>What a GPU cap resolves to. A cap in watts is taken as it is, exactly when it lies in the known range of every
  device. A percent cap is the least of the devices' own percent caps, each raised to its minimum; where all devices
  share one range and the percentage is at most 100, it lies in that range.\<close>

theorem resolveGPUCapPerDevice_correct:
  assumes "resolveGPUCapPerDevice fmt intent ds = Inr w" "ds \<noteq> []"
  shows "(\<forall>w0. gcap_capWattsPerGPU intent = Some w0 \<and> 0 < w0 \<longrightarrow> w = w0 \<and> (\<forall>d\<in>set ds. inRange w d)) \<and>
    (gcap_capWattsPerGPU intent = None \<longrightarrow>
       (\<exists>pct. gcap_capPctOfMax intent = Some pct \<and> 0 < pct \<and> 0 < w \<and>
          w \<in> devicePctCap pct ` set ds \<and> (\<forall>d\<in>set ds. w \<le> devicePctCap pct d) \<and>
          (\<forall>lo hi. pct \<le> 100 \<and> lo \<le> hi \<and> (\<forall>d\<in>set ds. gd_minCapWatts d = lo \<and> gd_maxCapWatts d = hi) \<longrightarrow> (\<forall>d\<in>set ds. inRange w d))))"
proof (intro conjI impI allI)
  fix w0 assume "gcap_capWattsPerGPU intent = Some w0 \<and> 0 < w0"
  then show "w = w0" "\<forall>d\<in>set ds. inRange w d"
    using assms(1) firstOutOfRange_None [of fmt w0 ds] by (auto simp: resolveGPUCapPerDevice_def split: option.splits)
next
  assume n: "gcap_capWattsPerGPU intent = None"
  then obtain pct where P: "gcap_capPctOfMax intent = Some pct" "0 < pct" "minPctCap pct 0 ds = Some w"
    using assms(1) by (auto simp: resolveGPUCapPerDevice_def Let_def split: option.splits if_splits)
  note M = minPctCap_min [OF P(2) assms(2) P(3)]
  have "\<forall>d\<in>set ds. inRange w d"
    if u: "pct \<le> 100 \<and> lo \<le> hi \<and> (\<forall>d\<in>set ds. gd_minCapWatts d = lo \<and> gd_maxCapWatts d = hi)" for lo hi
  proof
    fix d assume d: "d \<in> set ds"
    obtain e where e: "e \<in> set ds" "w = devicePctCap pct e" using M by blast
    have "inRange w e" unfolding e(2) using u M e(1) P(2) by (intro devicePctCap_range) auto
    then show "inRange w d" using u d e(1) by (simp add: inRange_def)
  qed
  then show "\<exists>pct. gcap_capPctOfMax intent = Some pct \<and> 0 < pct \<and> 0 < w \<and>
          w \<in> devicePctCap pct ` set ds \<and> (\<forall>d\<in>set ds. w \<le> devicePctCap pct d) \<and>
          (\<forall>lo hi. pct \<le> 100 \<and> lo \<le> hi \<and> (\<forall>d\<in>set ds. gd_minCapWatts d = lo \<and> gd_maxCapWatts d = hi) \<longrightarrow> (\<forall>d\<in>set ds. inRange w d))"
    using P M by blast
qed

definition exampleGPU :: "int \<Rightarrow> f64 \<Rightarrow> f64 \<Rightarrow> GPUDevice" where
  "exampleGPU i lo hi = zeroDevice\<lparr>gd_index := i, gd_minCapWatts := lo, gd_maxCapWatts := hi\<rparr>"

lemma example_pct_cap:
  "resolveGPUCapPerDevice fmt \<lparr>gcap_scope = [], gcap_capWattsPerGPU = None, gcap_capPctOfMax = Some 50\<rparr> [exampleGPU 0 200 700, exampleGPU 1 60 75] = Inr 60"
  by (simp add: resolveGPUCapPerDevice_def exampleGPU_def zeroDevice_def devicePctCap_def)

theorem resolveGPUCapPerDevice_correct_witness: "(60::f64) \<in> devicePctCap 50 ` set [exampleGPU 0 200 700, exampleGPU 1 60 75]"
  using resolveGPUCapPerDevice_correct [OF example_pct_cap] by simp

text \<open>A percent cap can leave the range of a device. On a node with two kinds of GPU, 50 percent resolves to 60 W,
  the minimum of the small one, below the minimum of the large one; asked for in watts the same cap is refused.\<close>

theorem gpu_pct_cap_leaves_range:
  "\<exists>ds w. resolveGPUCapPerDevice fmt \<lparr>gcap_scope = [], gcap_capWattsPerGPU = None, gcap_capPctOfMax = Some 50\<rparr> ds = Inr w \<and>
     (\<exists>d\<in>set ds. w < gd_minCapWatts d) \<and>
     (\<exists>msg. resolveGPUCapPerDevice fmt \<lparr>gcap_scope = [], gcap_capWattsPerGPU = Some w, gcap_capPctOfMax = None\<rparr> ds = Inl msg)"
proof (intro exI conjI)
  show "resolveGPUCapPerDevice fmt \<lparr>gcap_scope = [], gcap_capWattsPerGPU = None, gcap_capPctOfMax = Some 50\<rparr> [exampleGPU 0 200 700, exampleGPU 1 60 75] = Inr 60"
    by (rule example_pct_cap)
  show "\<exists>d\<in>set [exampleGPU 0 200 700, exampleGPU 1 60 75]. 60 < gd_minCapWatts d" by (simp add: exampleGPU_def)
  show "resolveGPUCapPerDevice fmt \<lparr>gcap_scope = [], gcap_capWattsPerGPU = Some 60, gcap_capPctOfMax = None\<rparr> [exampleGPU 0 200 700, exampleGPU 1 60 75] =
     Inl (''requested cap '' @ fmt 1 60 @ ''W below min '' @ fmt 1 200 @ ''W on gpu '' @ Itoa 0)"
    by (simp add: resolveGPUCapPerDevice_def exampleGPU_def outOfRange_def zeroDevice_def)
qed

end
