(* ===== verification/Agent_Hardware.thy ===== *)
theory Agent_Hardware
  imports Agent_Caps
begin

text \<open>
  Hardware discovery of the node agent (\<^verbatim>\<open>cmd/agent/main.go\<close>, \<open>discoverHardwareWith\<close>) and the NodeHardware status it
  publishes (\<open>upsertNodeHardwareStatus\<close>, \<open>addGovernorStatus\<close>). Labels come from the Node object, files and
  tools from the host. The status is the typed one; the unstructured map the code builds has a key exactly for
  the fields set here.
\<close>

section \<open>Labels and processor\<close>

definition nfdGPUClasses :: "string list" where
  "nfdGPUClasses = [''0300'', ''0302'', ''0380'', ''1200'']"

definition hasNFDGPUVendor :: "strmap \<Rightarrow> string \<Rightarrow> bool" where
  "hasNFDGPUVendor labels vendorHex \<longleftrightarrow>
     map_get labels (''feature.node.kubernetes.io/pci-'' @ vendorHex @ ''.present'') = ''true'' \<or>
     list_ex (\<lambda>cls. map_get labels (''feature.node.kubernetes.io/pci-'' @ cls @ ''_'' @ vendorHex @ ''.present'') = ''true'') nfdGPUClasses"

definition normalizeCPUVendor :: "string \<Rightarrow> string" where
  "normalizeCPUVendor raw =
     (let v = TrimSpace raw
      in if v = [] then []
         else if ToUpper v \<in> set [''AUTHENTICAMD'', ''AMD''] then ''AuthenticAMD''
         else if ToUpper v \<in> set [''GENUINEINTEL'', ''INTEL''] then ''GenuineIntel''
         else v)"

definition discoverCPUVendor :: "strmap \<Rightarrow> string" where
  "discoverCPUVendor labels =
     (let v = normalizeCPUVendor (map_get labels ''feature.node.kubernetes.io/cpu-vendor'')
      in if v \<noteq> [] then v else normalizeCPUVendor (map_get labels ''feature.node.kubernetes.io/cpu-model.vendor_id''))"

text \<open>The model name and the number of sockets in \<open>/proc/cpuinfo\<close>.\<close>

fun cpuInfoLines :: "string list \<Rightarrow> string \<Rightarrow> string list \<Rightarrow> string \<times> string list" where
  "cpuInfoLines [] model ids = (model, ids)"
| "cpuInfoLines (line # rest) model ids =
     (case Cut line (CHR '':'') of (key, value, found) \<Rightarrow>
        if found \<and> TrimSpace key = ''model name'' then cpuInfoLines rest (if model = [] then TrimSpace value else model) ids
        else if found \<and> TrimSpace key = ''physical id'' then cpuInfoLines rest model (TrimSpace value # ids)
        else cpuInfoLines rest model ids)"

definition readProcCPUInfo :: "SysHost \<Rightarrow> string \<times> int" where
  "readProcCPUInfo h =
     (case ho_files h procCPUInfoPath of
        None \<Rightarrow> ([], 0)
      | Some s \<Rightarrow> (case cpuInfoLines (Split s (CHR 0x0A)) [] [] of (model, ids) \<Rightarrow> (model, int (length (remdups ids)))))"

definition discoverCPURawModel :: "SysHost \<Rightarrow> strmap \<Rightarrow> string" where
  "discoverCPURawModel h labels =
     (let v = firstNonEmpty [map_get labels ''feature.node.kubernetes.io/cpu-model.name'', map_get labels ''joulie.io/hw.cpu-model'',
                             map_get labels ''beta.kubernetes.io/instance-type'']
      in if v \<noteq> [] then v else fst (readProcCPUInfo h))"

definition discoverCPUSockets :: "SysHost \<Rightarrow> strmap \<Rightarrow> int" where
  "discoverCPUSockets h labels =
     (case find (\<lambda>v. v > 0) (map (\<lambda>key. ParseIntString (map_get labels key))
             [''feature.node.kubernetes.io/cpu-sockets'', ''joulie.io/hw.cpu-sockets'']) of
        Some v \<Rightarrow> v
      | None \<Rightarrow> if snd (readProcCPUInfo h) > 0 then snd (readProcCPUInfo h)
                else int (length (RAPLPackageZones (Host.truncate h))))"

definition cpuCoresFromNode :: "KNode \<Rightarrow> int" where
  "cpuCoresFromNode node = (case kn_capacityCPU node of Some q \<Rightarrow> q | None \<Rightarrow> 0)"

definition detectCPUDriverFamily :: "SysHost \<Rightarrow> string" where
  "detectCPUDriverFamily h = sysWord h ''/host-sys/devices/system/cpu/cpufreq/policy0/scaling_driver''"

section \<open>The GPU inventory\<close>

definition runsOk :: "Kernel \<Rightarrow> SysHost \<Rightarrow> string \<Rightarrow> string list \<Rightarrow> bool" where
  "runsOk k h name args = (case fst (runCommand k name args h) of Inr _ \<Rightarrow> True | Inl _ \<Rightarrow> False)"

definition detectGPUVendor :: "Kernel \<Rightarrow> SysHost \<Rightarrow> strmap \<Rightarrow> amdgpuLastCaps \<Rightarrow> string \<times> amdgpuLastCaps" where
  "detectGPUVendor k h labels caps =
     (if hasNFDGPUVendor labels ''10de'' then (''nvidia'', caps)
      else if hasNFDGPUVendor labels ''1002'' then (''amd'', caps)
      else if intelGPULabelled h labels then (''intel'', caps)
      else if sh_exists h ''/dev/nvidiactl'' then (''nvidia'', caps)
      else if runsOk k h ''nvidia-smi'' [''-L''] then (''nvidia'', caps)
      else if runsOk k h ''rocm-smi'' [''--showproductname''] then (''amd'', caps)
      else (case amdgpuSysfsPresent h caps of
              (True, caps) \<Rightarrow> (''amd'', caps)
            | (False, caps) \<Rightarrow> (if intelGPUSysfsPresent h then ''intel'' else ''none'', caps)))"

definition listGPUDevices ::
  "(string \<Rightarrow> f64 option) \<Rightarrow> Kernel \<Rightarrow> SysHost \<Rightarrow> string \<Rightarrow> amdgpuLastCaps \<Rightarrow> (goerr + GPUDevice list) \<times> amdgpuLastCaps" where
  "listGPUDevices parseFloat64 k h vendor caps =
     (if vendor = ''nvidia'' then (listNvidiaDevices parseFloat64 k h, caps)
      else if vendor = ''amd'' then listAmdDevices h caps
      else if vendor = ''intel'' then (listIntelDevices h, caps)
      else (Inr [], caps))"

record HardwareInfo =
  hwi_cpuVendor :: string
  hwi_cpuRawModel :: string
  hwi_cpuModel :: string
  hwi_cpuSockets :: int
  hwi_cpuTotalCores :: int
  hwi_cpuCoresPerSock :: int
  hwi_cpuDriverFamily :: string
  hwi_cpuCapRange :: "(f64 \<times> f64) option"
  hwi_cpuControl :: bool
  hwi_cpuTelemetry :: bool
  hwi_gpuVendors :: "string list"
  hwi_gpuVendor :: string
  hwi_gpuRawModel :: string
  hwi_gpuModel :: string
  hwi_gpuCount :: int
  hwi_gpuPowerDomains :: int
  hwi_gpuCapMinWatts :: f64
  hwi_gpuCapMaxWatts :: f64
  hwi_gpuCapDefaultW :: f64
  hwi_gpuCurrentCapW :: f64
  hwi_gpuCapKnown :: bool
  hwi_gpuControl :: bool
  hwi_gpuTelemetry :: bool
  hwi_gpuWarnings :: "string list"
  hwi_warnings :: "string list"
  hwi_cpuLandmarks :: "V1CPULandmarks option"
  hwi_governors :: governorDiscovery
  hwi_gpuDevices :: "GPUDevice list"
  hwi_gpuListErr :: "goerr option"

definition gpuLabelModel :: "strmap \<Rightarrow> string" where
  "gpuLabelModel labels =
     firstNonEmpty [map_get labels ''joulie.io/gpu.product'', GPUProductBase (map_get labels ''nvidia.com/gpu.product''),
       map_get labels ''amd.com/gpu.product-name'', map_get labels ''beta.amd.com/gpu.product-name'', map_get labels ''amd.com/gpu.product'',
       map_get labels ''gpu.intel.com/product'', map_get labels ''amd.com/gpu.family'']"

text \<open>The device whose range and cap are published, with the warnings about devices without a settable limit.\<close>

definition refDevice :: "string \<Rightarrow> GPUDevice list \<Rightarrow> GPUDevice \<times> string list" where
  "refDevice vendor devices =
     (if vendor = ''amd''
      then (case snd (amdgpuCapSets devices) of d # _ \<Rightarrow> (d, []) | [] \<Rightarrow> (zeroDevice, []))
      else if vendor = ''intel''
      then (case intelGPURanged devices of d # _ \<Rightarrow> (d, []) | [] \<Rightarrow> (zeroDevice, []))
      else if vendor = ''nvidia''
      then (case nvidiaCapSets devices of (settable, unsupported) \<Rightarrow>
              (case settable of d # _ \<Rightarrow> d | [] \<Rightarrow> zeroDevice\<lparr>gd_currentCapWatts := gd_currentCapWatts (hd devices)\<rparr>,
               if unsupported \<noteq> [] then [nvidiaUnsupportedNote unsupported] else []))
      else (hd devices, []))"

definition gpuVendorLabels :: "strmap \<Rightarrow> string list" where
  "gpuVendorLabels labels =
     map snd (filter (\<lambda>(hex, v). hasNFDGPUVendor labels hex) [(''10de'', ''nvidia''), (''1002'', ''amd''), (''8086'', ''intel'')])"

definition matchKey :: "(string \<times> 'a) option \<Rightarrow> string" where
  "matchKey m = (case m of Some (key, _) \<Rightarrow> key | None \<Rightarrow> [])"

definition discoverHardwareWith ::
  "(string \<Rightarrow> f64 option) \<Rightarrow> Catalog option \<Rightarrow> Kernel \<Rightarrow> int \<Rightarrow> nat \<Rightarrow> KNode \<Rightarrow> SysHost \<Rightarrow> amdgpuLastCaps \<times> nvidiaFactsCache \<Rightarrow>
   HardwareInfo \<times> amdgpuLastCaps \<times> nvidiaFactsCache" where
  "discoverHardwareWith parseFloat64 catalog k now failures node h s =
     (case s of (caps, cache) \<Rightarrow>
      let labels = kn_labels node;
          sockets = discoverCPUSockets h labels; cores = cpuCoresFromNode node;
          rawModel = discoverCPURawModel h labels; cpuModel = matchKey (MatchCPU catalog rawModel);
          range = readRAPLPackageCapRangeWatts h;
          labelled = gpuVendorLabels labels;
          (detected, caps) = (if labelled = [] then detectGPUVendor k h labels caps else ([], caps));
          vendors = (if labelled = [] \<and> detected \<in> set [''nvidia'', ''amd''] then [detected] else labelled);
          (vendor, caps) = detectGPUVendor k h labels caps;
          (listed, caps) = listGPUDevices parseFloat64 k h vendor caps;
          devices = (case listed of Inr ds \<Rightarrow> ds | Inl _ \<Rightarrow> []);
          cnt = (if devices = [] then nodeGPUCount node else int (length devices));
          labelModel = gpuLabelModel labels;
          (ref, refWarnings) = (if devices = [] then (zeroDevice, []) else refDevice vendor devices);
          gpuRaw = (if devices = [] then labelModel else firstNonEmpty [gd_product (hd devices), labelModel]);
          gpuModel = matchKey (MatchGPU catalog gpuRaw);
          (governors, cache) =
            discoverGovernors parseFloat64 h (\<lambda>args. io_query (kernelIO k) args h) now failures labels vendor gpuRaw devices cache
      in (\<lparr>hwi_cpuVendor = discoverCPUVendor labels, hwi_cpuRawModel = rawModel, hwi_cpuModel = cpuModel, hwi_cpuSockets = sockets,
           hwi_cpuTotalCores = cores, hwi_cpuCoresPerSock = (if sockets > 0 \<and> cores > 0 then go_div cores sockets else 0),
           hwi_cpuDriverFamily = detectCPUDriverFamily h, hwi_cpuCapRange = range,
           hwi_cpuControl = (range \<noteq> None \<or> detectCPUDriverFamily h \<noteq> []), hwi_cpuTelemetry = True,
           hwi_gpuVendors = vendors, hwi_gpuVendor = vendor, hwi_gpuRawModel = gpuRaw, hwi_gpuModel = gpuModel, hwi_gpuCount = cnt,
           hwi_gpuPowerDomains = (if vendor = ''amd'' \<and> devices \<noteq> [] then int (length (amdgpuCapDevices devices)) else 0),
           hwi_gpuCapMinWatts = gd_minCapWatts ref, hwi_gpuCapMaxWatts = gd_maxCapWatts ref, hwi_gpuCapDefaultW = gd_defaultCapWatts ref,
           hwi_gpuCurrentCapW = gd_currentCapWatts ref, hwi_gpuCapKnown = (gd_maxCapWatts ref > 0), hwi_gpuControl = (gd_maxCapWatts ref > 0),
           hwi_gpuTelemetry = (devices \<noteq> [] \<or> cnt > 0), hwi_gpuWarnings = refWarnings,
           hwi_warnings = (if cpuModel = [] \<and> rawModel \<noteq> [] then [''cpu model not recognized''] else []) @
                          (if cnt > 0 \<and> gpuModel = [] \<and> gpuRaw \<noteq> [] then [''gpu model not recognized''] else []),
           hwi_cpuLandmarks = discoverCPULandmarks parseFloat64 h, hwi_governors = governors,
           hwi_gpuDevices = devices, hwi_gpuListErr = (case listed of Inl e \<Rightarrow> Some e | Inr _ \<Rightarrow> None)\<rparr>, caps, cache))"

section \<open>The NodeHardware status\<close>

definition gpuCapDefaultWatts :: "HardwareInfo \<Rightarrow> f64" where
  "gpuCapDefaultWatts hw =
     (let d = hwi_gpuCapDefaultW hw
      in if d > 0 \<and> d \<ge> hwi_gpuCapMinWatts hw \<and> d \<le> hwi_gpuCapMaxWatts hw then d else hwi_gpuCapMaxWatts hw)"

definition overallQuality :: "HardwareInfo \<Rightarrow> string" where
  "overallQuality hw =
     (if hwi_cpuModel hw \<noteq> [] \<and> (hwi_gpuCount hw = 0 \<or> hwi_gpuModel hw \<noteq> []) then ''exact''
      else if hwi_cpuRawModel hw \<noteq> [] \<or> hwi_gpuRawModel hw \<noteq> [] then ''heuristic''
      else ''unavailable'')"

definition warningSlice :: "bool \<Rightarrow> string \<Rightarrow> string list" where
  "warningSlice cond warning = (if cond then [warning] else [])"

definition exactness :: "string \<Rightarrow> string \<Rightarrow> string" where
  "exactness model rawModel = (if model \<noteq> [] then ''exact'' else if rawModel \<noteq> [] then ''proxy'' else ''generic'')"

text \<open>\<open>cmp.Or\<close> of optional values: the first one there is.\<close>

fun firstSome :: "'a option list \<Rightarrow> 'a option" where
  "firstSome [] = None"
| "firstSome (Some x # _) = Some x"
| "firstSome (None # xs) = firstSome xs"

definition cpuGovernorBlock :: "HardwareInfo \<Rightarrow> V1NodeHardware option \<Rightarrow> V1CPUGovernorInventory option" where
  "cpuGovernorBlock hw obj =
     map_option (\<lambda>c. (cgd_inventory c)\<lparr>cgv_baseline := firstSome [gdi_cpuBaseline (hwi_governors hw), Option.bind obj storedCPUBaseline,
        Some \<lparr>cgb_groups = cpuBaseline c, cgb_recordedAt = []\<rparr>]\<rparr>) (gdi_cpu (hwi_governors hw))"

definition storedGPUGovernor :: "V1NodeHardware option \<Rightarrow> V1GPUGovernorInventory option" where
  "storedGPUGovernor obj = Option.bind (Option.bind obj (\<lambda>o'. nht_gpu (nh_status o'))) vhg_governor"

definition emptyGPUInventory :: V1GPUGovernorInventory where
  "emptyGPUInventory = \<lparr>ggv_mechanism = [], ggv_current = [], ggv_presets = [], ggv_clockRangesMHz = None, ggv_baseline = None,
     ggv_writable = False, ggv_uniform = False\<rparr>"

definition gpuGovernorBlock :: "HardwareInfo \<Rightarrow> V1NodeHardware option \<Rightarrow> V1GPUGovernorInventory option" where
  "gpuGovernorBlock hw obj =
     (let gov = hwi_governors hw; stored = Option.bind obj storedGPUBaseline
      in case firstSome [gdi_gpu gov, gdi_gpuKept gov] of
           Some g \<Rightarrow> Some ((ggd_inventory g)\<lparr>ggv_baseline := firstSome [gdi_gpuBaseline gov, stored, Some \<lparr>ggb_devices = ggd_devices g, ggb_recordedAt = []\<rparr>]\<rparr>)
         | None \<Rightarrow>
             (case firstSome [gdi_gpuBaseline gov, stored] of
                None \<Rightarrow> None
              | Some kept \<Rightarrow>
                  Some ((case storedGPUGovernor obj of Some g \<Rightarrow> g | None \<Rightarrow> emptyGPUInventory)\<lparr>ggv_baseline := Some kept\<rparr>)))"

definition nodeHardwareStatus :: "HardwareInfo \<Rightarrow> V1NodeHardware option \<Rightarrow> string \<Rightarrow> V1NodeHardwareStatus" where
  "nodeHardwareStatus hw obj updatedAt =
     \<lparr>nht_cpu = Some
        \<lparr>vhc_rawModel = hwi_cpuRawModel hw, vhc_model = hwi_cpuModel hw, vhc_vendor = hwi_cpuVendor hw, vhc_sockets = hwi_cpuSockets hw,
         vhc_totalCores = hwi_cpuTotalCores hw, vhc_coresPerSocket = hwi_cpuCoresPerSock hw, vhc_driverFamily = hwi_cpuDriverFamily hw,
         vhc_capRange = map_option (\<lambda>(maxW, minW). \<lparr>vcr_type = ''package'', vcr_minWattsPerSocket = minW, vcr_maxWattsPerSocket = maxW\<rparr>) (hwi_cpuCapRange hw),
         vhc_landmarks = hwi_cpuLandmarks hw, vhc_controlAvailable = hwi_cpuControl hw, vhc_telemetryAvailable = hwi_cpuTelemetry hw,
         vhc_warnings = warningSlice (hwi_cpuModel hw = [] \<and> hwi_cpuRawModel hw \<noteq> []) ''cpu model not recognized'',
         vhc_governor = cpuGovernorBlock hw obj\<rparr>,
      nht_gpu = Some
        \<lparr>vhg_present = (hwi_gpuCapKnown hw \<and> hwi_gpuCount hw > 0), vhg_rawModel = hwi_gpuRawModel hw, vhg_model = hwi_gpuModel hw,
         vhg_vendor = hwi_gpuVendor hw, vhg_count = hwi_gpuCount hw,
         vhg_powerDomains = (if hwi_gpuPowerDomains hw > 0 \<and> hwi_gpuPowerDomains hw < hwi_gpuCount hw then hwi_gpuPowerDomains hw else 0),
         vhg_capRangePerGPU = (if hwi_gpuCapKnown hw
            then Some \<lparr>vgr_minWatts = hwi_gpuCapMinWatts hw, vgr_maxWatts = hwi_gpuCapMaxWatts hw, vgr_defaultWatts = gpuCapDefaultWatts hw\<rparr> else None),
         vhg_currentCapWatts = hwi_gpuCurrentCapW hw, vhg_slicing = None, vhg_controlAvailable = hwi_gpuControl hw,
         vhg_telemetryAvailable = hwi_gpuTelemetry hw,
         vhg_warnings = warningSlice (hwi_gpuCount hw > 0 \<and> hwi_gpuModel hw = [] \<and> hwi_gpuRawModel hw \<noteq> []) ''gpu model not recognized'' @
                        hwi_gpuWarnings hw @ gdi_gpuWarnings (hwi_governors hw),
         vhg_governor = gpuGovernorBlock hw obj\<rparr>,
      nht_memory = None, nht_network = None,
      nht_inventoryResolution = Some \<lparr>ivr_hardwareCatalogKey = Some \<lparr>cky_cpu = hwi_cpuModel hw, cky_gpu = hwi_gpuModel hw\<rparr>,
         ivr_exactness = Some \<lparr>cex_cpu = exactness (hwi_cpuModel hw) (hwi_cpuRawModel hw), cex_gpu = exactness (hwi_gpuModel hw) (hwi_gpuRawModel hw)\<rparr>\<rparr>,
      nht_capabilities = Some \<lparr>nhc_cpuControl = hwi_cpuControl hw, nhc_gpuControl = hwi_gpuControl hw,
         nhc_cpuTelemetry = hwi_cpuTelemetry hw, nhc_gpuTelemetry = hwi_gpuTelemetry hw\<rparr>,
      nht_quality = Some \<lparr>nhq_overall = overallQuality hw, nhq_warnings = hwi_warnings hw\<rparr>,
      nht_updatedAt = updatedAt\<rparr>"

text \<open>
  The NodeHardware objects of the API server; \<open>hws_err\<close> is the error of a verb on a name, \<open>hws_raced\<close> the object
  another writer creates between the get that did not find it and the create.
\<close>

record HwStore =
  hws_objs :: "string \<Rightarrow> V1NodeHardware option"
  hws_err :: "string \<Rightarrow> string \<Rightarrow> goerr option"
  hws_raced :: "string \<Rightarrow> V1NodeHardware option"

definition newNodeHardware :: "string \<Rightarrow> V1NodeHardware" where
  "newNodeHardware nodeName =
     \<lparr>nh_spec = \<lparr>nhs_nodeName = nodeName\<rparr>,
      nh_status = \<lparr>nht_cpu = None, nht_gpu = None, nht_memory = None, nht_network = None, nht_inventoryResolution = None,
        nht_capabilities = None, nht_quality = None, nht_updatedAt = []\<rparr>\<rparr>"

definition putHardware :: "string \<Rightarrow> V1NodeHardware \<Rightarrow> HwStore \<Rightarrow> HwStore" where
  "putHardware name obj s = s\<lparr>hws_objs := (hws_objs s)(name \<mapsto> obj)\<rparr>"

definition getOrCreateHardware :: "string \<Rightarrow> HwStore \<Rightarrow> (goerr + V1NodeHardware) \<times> HwStore" where
  "getOrCreateHardware nodeName s =
     (let name = ObjectNameForNode nodeName
      in case hws_err s ''get'' name of
           Some e \<Rightarrow> (Inl e, s)
         | None \<Rightarrow>
             (case hws_objs s name of
                Some obj \<Rightarrow> (Inr obj, s)
              | None \<Rightarrow>
                  (case hws_raced s name of
                     Some obj \<Rightarrow>
                       (let s = putHardware name obj s
                        in case hws_err s ''get-again'' name of Some e \<Rightarrow> (Inl e, s) | None \<Rightarrow> (Inr obj, s))
                   | None \<Rightarrow>
                       (case hws_err s ''create'' name of
                          Some e \<Rightarrow> (Inl e, s)
                        | None \<Rightarrow> (Inr (newNodeHardware nodeName), putHardware name (newNodeHardware nodeName) s)))))"

definition hwKey :: "string \<Rightarrow> string" where
  "hwKey name = ''nodeHardware|'' @ name"

text \<open>
  The conversions of a status, which are library code: \<open>hwc_governor\<close> is the error of turning its landmarks and governor
  blocks into objects (\<open>addGovernorStatus\<close>), \<open>hwc_marshal\<close> is \<open>json.Marshal\<close> of the status without its time, and
  \<open>hwc_set\<close> is the error of \<open>SetNestedField\<close>.
\<close>

record HwCodec =
  hwc_governor :: "V1NodeHardwareStatus \<Rightarrow> goerr option"
  hwc_marshal :: "V1NodeHardwareStatus \<Rightarrow> goerr + string"
  hwc_set :: "V1NodeHardwareStatus \<Rightarrow> goerr option"

definition upsertNodeHardwareStatus ::
  "(int \<Rightarrow> string) \<Rightarrow> HwCodec \<Rightarrow> int \<Rightarrow> string \<Rightarrow> HardwareInfo \<Rightarrow> lastWrites \<times> HwStore \<Rightarrow> goerr option \<times> lastWrites \<times> HwStore" where
  "upsertNodeHardwareStatus fmtTime codec now nodeName hw st =
     (case st of (ws, s) \<Rightarrow>
        let name = ObjectNameForNode nodeName
        in case getOrCreateHardware nodeName s of
             (Inl e, s) \<Rightarrow> (Some e, ws, s)
           | (Inr obj, s) \<Rightarrow>
               (let plain = nodeHardwareStatus hw (Some obj) []; status = nodeHardwareStatus hw (Some obj) (fmtTime now)
                in case hwc_governor codec plain of
                     Some e \<Rightarrow> (Some (''NodeHardware governor status: '' @ e), ws, s)
                   | None \<Rightarrow>
                       (case hwc_marshal codec plain of
                          Inl e \<Rightarrow> (Some (''marshal NodeHardware status: '' @ e), ws, s)
                        | Inr fingerprint \<Rightarrow>
                            (case shouldWrite (hwKey name) fingerprint now ws of
                               (False, _) \<Rightarrow> (None, ws, s)
                             | (True, ws) \<Rightarrow>
                                 (case hwc_set codec status of
                                    Some e \<Rightarrow> (Some (''set NodeHardware status: '' @ e), ws, s)
                                  | None \<Rightarrow>
                                      (let obj' = obj\<lparr>nh_status := status\<rparr>
                                       in case hws_err s ''update-status'' name of
                                            None \<Rightarrow> (None, ws, putHardware name obj' s)
                                          | Some _ \<Rightarrow>
                                              (case hws_err s ''update'' name of
                                                 None \<Rightarrow> (None, ws, putHardware name obj' s)
                                               | Some e \<Rightarrow> (Some e, ws, s))))))))"

text \<open>A codec that converts every status.\<close>

definition codecOk :: "HwCodec \<Rightarrow> bool" where
  "codecOk codec \<longleftrightarrow> (\<forall>st. hwc_governor codec st = None \<and> (\<exists>s. hwc_marshal codec st = Inr s) \<and> hwc_set codec st = None)"

section \<open>Lemmas: the agent stays reported\<close>

text \<open>The API server answers every verb on the node's object, and no other writer creates it.\<close>

definition hwReachable :: "string \<Rightarrow> HwStore \<Rightarrow> bool" where
  "hwReachable nodeName s \<longleftrightarrow>
     (\<forall>verb. hws_err s verb (ObjectNameForNode nodeName) = None) \<and> hws_raced s (ObjectNameForNode nodeName) = None"

text \<open>What the store and the memory of the last writes hold of one node after a tick at \<open>now\<close>.\<close>

definition freshHardware :: "(int \<Rightarrow> string) \<Rightarrow> string \<Rightarrow> int \<Rightarrow> lastWrites \<times> HwStore \<Rightarrow> bool" where
  "freshHardware fmtTime nodeName now st \<longleftrightarrow>
     hwReachable nodeName (snd st) \<and>
     (\<exists>lw obj. fst st (hwKey (ObjectNameForNode nodeName)) = Some lw \<and> hws_objs (snd st) (ObjectNameForNode nodeName) = Some obj \<and>
        nht_updatedAt (nh_status obj) = fmtTime (lw_at lw) \<and> now - lw_at lw < StatusRewriteInterval)"

text \<open>A memory that claims a write only where the object carries it.\<close>

definition honestWrites :: "(int \<Rightarrow> string) \<Rightarrow> string \<Rightarrow> lastWrites \<times> HwStore \<Rightarrow> bool" where
  "honestWrites fmtTime nodeName st \<longleftrightarrow>
     (\<forall>lw. fst st (hwKey (ObjectNameForNode nodeName)) = Some lw \<longrightarrow>
        (\<exists>obj. hws_objs (snd st) (ObjectNameForNode nodeName) = Some obj \<and> nht_updatedAt (nh_status obj) = fmtTime (lw_at lw)))"

lemma freshHardware_honest: "freshHardware fmtTime nodeName now st \<Longrightarrow> honestWrites fmtTime nodeName st"
  by (auto simp: freshHardware_def honestWrites_def)

lemma interval_pos: "0 < StatusRewriteInterval"
  by (simp add: StatusRewriteInterval_def)

lemma upsert_fresh:
  assumes "hwReachable nodeName s" "honestWrites fmtTime nodeName (ws, s)" "codecOk codec"
  shows "\<exists>st. upsertNodeHardwareStatus fmtTime codec now nodeName hw (ws, s) = (None, st) \<and> freshHardware fmtTime nodeName now st"
proof -
  define name where "name = ObjectNameForNode nodeName"
  define key where "key = hwKey name"
  have r: "hws_err s verb name = None" "hws_raced s name = None" for verb using assms(1) by (simp_all add: hwReachable_def name_def)
  obtain obj s1 where G: "getOrCreateHardware nodeName s = (Inr obj, s1)" and s1: "hwReachable nodeName s1" "hws_objs s1 name = Some obj"
    and frame: "\<And>o'. hws_objs s name = Some o' \<Longrightarrow> obj = o'"
    using r assms(1) by (cases "hws_objs s name") (auto simp: getOrCreateHardware_def putHardware_def hwReachable_def name_def [symmetric])
  have e1: "hws_err s1 verb name = None" for verb using s1(1) by (simp add: hwReachable_def name_def)
  define obj' where "obj' = obj\<lparr>nh_status := nodeHardwareStatus hw (Some obj) (fmtTime now)\<rparr>"
  obtain pay where pay: "hwc_marshal codec (nodeHardwareStatus hw (Some obj) []) = Inr pay" using assms(3) by (auto simp: codecOk_def)
  have conv: "hwc_governor codec st = None" "hwc_set codec st = None" for st using assms(3) by (simp_all add: codecOk_def)
  have up: "nht_updatedAt (nh_status obj') = fmtTime now" by (simp add: obj'_def nodeHardwareStatus_def)
  show ?thesis
  proof (cases "case ws key of Some lw \<Rightarrow> lw_payload lw = pay \<and> now - lw_at lw < StatusRewriteInterval | None \<Rightarrow> False")
    case True
    then obtain lw where lw: "ws key = Some lw" "lw_payload lw = pay" "now - lw_at lw < StatusRewriteInterval" by (auto split: option.splits)
    then obtain o' where o': "hws_objs s name = Some o'" "nht_updatedAt (nh_status o') = fmtTime (lw_at lw)"
      using assms(2) by (auto simp: honestWrites_def key_def name_def)
    have "upsertNodeHardwareStatus fmtTime codec now nodeName hw (ws, s) = (None, ws, s1)"
      using lw by (simp add: upsertNodeHardwareStatus_def name_def [symmetric] key_def [symmetric] G shouldWrite_def pay conv Let_def)
    moreover have "freshHardware fmtTime nodeName now (ws, s1)"
      using s1 lw o' frame [OF o'(1)] by (auto simp: freshHardware_def key_def name_def)
    ultimately show ?thesis by blast
  next
    case False
    have "shouldWrite key pay now ws = (True, ws(key \<mapsto> \<lparr>lw_payload = pay, lw_at = now\<rparr>))"
      using False by (simp only: shouldWrite_def if_False)
    then have "upsertNodeHardwareStatus fmtTime codec now nodeName hw (ws, s) =
      (None, ws(key \<mapsto> \<lparr>lw_payload = pay, lw_at = now\<rparr>), putHardware name obj' s1)"
      by (simp add: upsertNodeHardwareStatus_def name_def [symmetric] key_def [symmetric] G pay conv obj'_def e1 Let_def)
    moreover have "freshHardware fmtTime nodeName now (ws(key \<mapsto> \<lparr>lw_payload = pay, lw_at = now\<rparr>), putHardware name obj' s1)"
      using s1(1) up interval_pos by (simp add: freshHardware_def hwReachable_def putHardware_def key_def name_def)
    ultimately show ?thesis by blast
  qed
qed

text \<open>The ticks of an agent: their times and what discovery found at each.\<close>

fun hwTicks ::
  "(int \<Rightarrow> string) \<Rightarrow> HwCodec \<Rightarrow> string \<Rightarrow> (int \<times> HardwareInfo) list \<Rightarrow> lastWrites \<times> HwStore \<Rightarrow> lastWrites \<times> HwStore" where
  "hwTicks fmtTime codec nodeName [] st = st"
| "hwTicks fmtTime codec nodeName ((t, hw) # ticks) st =
     hwTicks fmtTime codec nodeName ticks (snd (upsertNodeHardwareStatus fmtTime codec t nodeName hw st))"

lemma hwTicks_fresh:
  assumes "hwReachable nodeName (snd st)" "honestWrites fmtTime nodeName st" "codecOk codec" "ticks \<noteq> []"
  shows "freshHardware fmtTime nodeName (fst (last ticks)) (hwTicks fmtTime codec nodeName ticks st)"
  using assms
proof (induction ticks arbitrary: st)
  case (Cons tick ticks)
  obtain t hw where tick: "tick = (t, hw)" by fastforce
  obtain ws s where st: "st = (ws, s)" by fastforce
  obtain st1 where U: "upsertNodeHardwareStatus fmtTime codec t nodeName hw st = (None, st1)" and F: "freshHardware fmtTime nodeName t st1"
    using upsert_fresh [of nodeName s fmtTime ws codec t hw] Cons.prems unfolding st by fastforce
  show ?case
  proof (cases "ticks = []")
    case True
    then show ?thesis using F U by (simp add: tick)
  next
    case False
    have "freshHardware fmtTime nodeName (fst (last ticks)) (hwTicks fmtTime codec nodeName ticks st1)"
      using Cons.IH [OF _ freshHardware_honest [OF F] Cons.prems(3) False] F by (simp add: freshHardware_def)
    then show ?thesis using False U by (simp add: tick)
  qed
qed simp

text \<open>C27: A running agent counts as reporting. Against a reachable API server, from the start with nothing remembered and
  whatever discovery finds at each tick, the object holds a time stamp younger than the rewrite interval after every tick;
  so as long as the next tick comes within twice that interval less the second RFC 3339 drops, the controller manager's
  condition stays \<open>NodeHardwareCurrent\<close> at every moment in between.\<close>

theorem running_agent_reports:
  assumes "hwReachable nodeName s" "ticks \<noteq> []"
    and "\<forall>t. \<exists>u. parseTime (fmtTime t) = Some u \<and> t - 1000000000 < u \<and> u \<le> t"
    and "fst (last ticks) \<le> now" "now - fst (last ticks) \<le> 2 * StatusRewriteInterval - 1000000000"
    and "codecOk codec"
  shows "\<exists>obj. hws_objs (snd (hwTicks fmtTime codec nodeName ticks (Map.empty, s))) (ObjectNameForNode nodeName) = Some obj \<and>
    agentReportingCondition parseTime (Some obj) now = (True, ''NodeHardwareCurrent'')"
proof -
  have "honestWrites fmtTime nodeName (Map.empty, s)" by (simp add: honestWrites_def)
  from hwTicks_fresh [OF _ this assms(6,2)] assms(1)
  have F: "freshHardware fmtTime nodeName (fst (last ticks)) (hwTicks fmtTime codec nodeName ticks (Map.empty, s))" by simp
  then obtain lw :: lastWrite and obj where O: "hws_objs (snd (hwTicks fmtTime codec nodeName ticks (Map.empty, s))) (ObjectNameForNode nodeName) = Some obj"
    "nht_updatedAt (nh_status obj) = fmtTime (lw_at lw)" "fst (last ticks) - lw_at lw < StatusRewriteInterval"
    unfolding freshHardware_def by blast
  obtain u where u: "parseTime (fmtTime (lw_at lw)) = Some u" "lw_at lw - 1000000000 < u" using assms(3) by blast
  have "now - u \<le> AgentReportingStaleAfter"
    using O(3) u(2) assms(5) by (simp add: AgentReportingStaleAfter_def StatusRewriteInterval_def)
  then show ?thesis using O u by (auto simp: agentReportingCondition_def)
qed

definition exampleHwStore :: HwStore where
  "exampleHwStore = \<lparr>hws_objs = Map.empty, hws_err = (\<lambda>_ _. None), hws_raced = Map.empty\<rparr>"

text \<open>A clock face that reads back: a time in unary.\<close>

definition exampleStamp :: "int \<Rightarrow> string" where
  "exampleStamp t = (if t < 0 then replicate (nat (- t)) (CHR ''-'') else replicate (nat t) (CHR ''+''))"

definition exampleParse :: "string \<Rightarrow> int option" where
  "exampleParse s = Some (if CHR ''-'' \<in> set s then - int (length s) else int (length s))"

lemma exampleParse_stamp: "exampleParse (exampleStamp t) = Some t"
  by (simp add: exampleParse_def exampleStamp_def)

definition exampleCodec :: HwCodec where
  "exampleCodec = \<lparr>hwc_governor = (\<lambda>_. None), hwc_marshal = (\<lambda>_. Inr []), hwc_set = (\<lambda>_. None)\<rparr>"

lemma exampleCodec_ok: "codecOk exampleCodec"
  by (simp add: codecOk_def exampleCodec_def)

definition exampleNode :: KNode where
  "exampleNode = \<lparr>kn_name = ''n1'', kn_labels = Map.empty, kn_unschedulable = False, kn_capacityCPU = Some 64, kn_allocatable = []\<rparr>"

definition exampleHardware :: HardwareInfo where
  "exampleHardware = fst (discoverHardwareWith (\<lambda>_. None) None (exampleKernel (\<lambda>_. True)) 0 0 exampleNode exampleRAPLHost (Map.empty, None))"

text \<open>Two ticks a minute apart on a node without an object; the controller manager looks five minutes later.\<close>

theorem running_agent_reports_witness:
  "\<exists>obj. hws_objs (snd (hwTicks exampleStamp exampleCodec ''n1'' [(0, exampleHardware), (60000000000, exampleHardware)] (Map.empty, exampleHwStore)))
       (ObjectNameForNode ''n1'') = Some obj \<and> agentReportingCondition exampleParse (Some obj) 360000000000 = (True, ''NodeHardwareCurrent'')"
  by (rule running_agent_reports) (simp_all add: hwReachable_def exampleHwStore_def StatusRewriteInterval_def exampleParse_stamp exampleCodec_ok)

text \<open>C28: A status write that fails is not tried again for the rewrite interval: the agent remembers it as done before
  the API server has answered, so with the same hardware the next ticks write nothing, although the server may be back
  and the object still holds the old status.\<close>

theorem failed_hardware_write_not_retried:
  assumes "hws_err s ''get'' name = None" "hws_objs s name = Some obj" "name = ObjectNameForNode nodeName"
    and "hws_err s ''update-status'' name = Some e1" "hws_err s ''update'' name = Some e2"
    and "now \<le> later" "later - now < StatusRewriteInterval" "codecOk codec"
  shows "\<exists>ws'. upsertNodeHardwareStatus fmtTime codec now nodeName hw (Map.empty, s) = (Some e2, ws', s) \<and>
    upsertNodeHardwareStatus fmtTime codec later nodeName hw (ws', s\<lparr>hws_err := (\<lambda>_ _. None)\<rparr>) = (None, ws', s\<lparr>hws_err := (\<lambda>_ _. None)\<rparr>)"
proof -
  define key where "key = hwKey name"
  obtain pay where pay: "hwc_marshal codec (nodeHardwareStatus hw (Some obj) []) = Inr pay" using assms(8) by (auto simp: codecOk_def)
  have conv: "hwc_governor codec st = None" "hwc_set codec st = None" for st using assms(8) by (simp_all add: codecOk_def)
  define ws where "ws = [key \<mapsto> \<lparr>lw_payload = pay, lw_at = now\<rparr>]"
  have "upsertNodeHardwareStatus fmtTime codec now nodeName hw (Map.empty, s) = (Some e2, ws, s)"
    using assms(1,2,4,5) by (simp add: upsertNodeHardwareStatus_def getOrCreateHardware_def assms(3) [symmetric] shouldWrite_def ws_def key_def pay conv Let_def)
  moreover have "upsertNodeHardwareStatus fmtTime codec later nodeName hw (ws, s\<lparr>hws_err := (\<lambda>_ _. None)\<rparr>) = (None, ws, s\<lparr>hws_err := (\<lambda>_ _. None)\<rparr>)"
    using assms(2,7) by (simp add: upsertNodeHardwareStatus_def getOrCreateHardware_def assms(3) [symmetric] shouldWrite_def ws_def key_def pay conv Let_def)
  ultimately show ?thesis by blast
qed

definition exampleFailing :: HwStore where
  "exampleFailing = exampleHwStore\<lparr>hws_objs := [ObjectNameForNode ''n1'' \<mapsto> newNodeHardware ''n1''],
     hws_err := (\<lambda>verb _. if verb = ''get'' then None else Some ''timeout'')\<rparr>"

theorem failed_hardware_write_not_retried_witness:
  "\<exists>ws'. upsertNodeHardwareStatus exampleStamp exampleCodec 0 ''n1'' exampleHardware (Map.empty, exampleFailing) = (Some ''timeout'', ws', exampleFailing) \<and>
     upsertNodeHardwareStatus exampleStamp exampleCodec 1000000000 ''n1'' exampleHardware (ws', exampleFailing\<lparr>hws_err := (\<lambda>_ _. None)\<rparr>) =
       (None, ws', exampleFailing\<lparr>hws_err := (\<lambda>_ _. None)\<rparr>)"
  by (rule failed_hardware_write_not_retried) (simp_all add: exampleFailing_def StatusRewriteInterval_def exampleCodec_ok)

end
