(* ===== verification/Agent_Reconcile.thy ===== *)
theory Agent_Reconcile
  imports Agent_Hardware
begin

text \<open>
  One tick of the node agent (\<^verbatim>\<open>cmd/agent/main.go\<close>, \<open>reconcileOnce\<close>) and its daemons: the desired state read from the
  NodeTwin, the telemetry configuration, the order of the steps (governor baseline, NodeHardware, governors, GPU cap,
  CPU cap by RAPL, by the HTTP backend or by the DVFS fallback), and the pool of nodes a pool agent keeps. A tick reads the
  clock once; what the API server, the control backends and the operating system answer are inputs of the tick. The text
  of a DVFS action, log lines and metrics are left out.
\<close>

section \<open>Desired state\<close>

record AgentTwinSpec =
  ats_name :: string
  ats_nodeName :: string
  ats_profile :: string
  ats_powerWatts :: "f64 option"
  ats_powerPctOfMax :: "f64 option"
  ats_gpu :: "GPUPowerCap option"
  ats_policyName :: string
  ats_cpuGovernor :: "CPUGovernorIntent option"
  ats_gpuGovernor :: "GPUGovernorIntent option"
  ats_lastCPUGovernor :: "V1ControlResult option"
  ats_lastGPUGovernor :: "V1ControlResult option"

definition gpuCapFromSpec :: "V1NodeTwinGPU \<Rightarrow> GPUPowerCap option" where
  "gpuCapFromSpec g =
     (case ntg_powerCap g of
        None \<Rightarrow> None
      | Some pc \<Rightarrow>
          if gpc_capWattsPerGPU pc = None \<and> gpc_capPctOfMax pc = None then None
          else Some \<lparr>gcap_scope = (if TrimSpace (gpc_scope pc) = [] then ''perGpu'' else TrimSpace (gpc_scope pc)),
                     gcap_capWattsPerGPU = gpc_capWattsPerGPU pc, gcap_capPctOfMax = gpc_capPctOfMax pc\<rparr>)"

definition nodeTwinSpecFromObject :: "string \<Rightarrow> V1NodeTwin \<Rightarrow> AgentTwinSpec" where
  "nodeTwinSpecFromObject name nt =
     (let spec = nt_spec nt; cpu = nsp_cpu spec; cs = vts_controlStatus (nt_status nt)
      in \<lparr>ats_name = name, ats_nodeName = nsp_nodeName spec, ats_profile = nsp_profile spec,
          ats_powerWatts = Option.bind cpu ntc_packagePowerCapWatts, ats_powerPctOfMax = Option.bind cpu ntc_packagePowerCapPctOfMax,
          ats_gpu = Option.bind (nsp_gpu spec) gpuCapFromSpec,
          ats_policyName = (case nsp_policy spec of Some p \<Rightarrow> ntp_name p | None \<Rightarrow> []),
          ats_cpuGovernor = map_option (\<lambda>g. \<lparr>cgi_preset = vci_preset g, cgi_boost = vci_boost g\<rparr>) (Option.bind cpu ntc_governor),
          ats_gpuGovernor = map_option (\<lambda>g. \<lparr>ggi_preset = vgi_preset g, ggi_ceilingPctOfMax = vgi_computeClockCeilingPctOfMax g\<rparr>)
            (Option.bind (nsp_gpu spec) ntg_governor),
          ats_lastCPUGovernor = Option.bind cs vct_cpuGovernor, ats_lastGPUGovernor = Option.bind cs vct_gpuGovernor\<rparr>)"

definition getNodeTwinSpec :: "ListErr + V1NodeTwin \<Rightarrow> string \<Rightarrow> goerr + AgentTwinSpec option" where
  "getNodeTwinSpec got nodeName =
     (case got of
        Inl NotFoundErr \<Rightarrow> Inr None
      | Inl NoMatchErr \<Rightarrow> Inl ''no matches for kind''
      | Inl (OtherErr e) \<Rightarrow> Inl e
      | Inr nt \<Rightarrow>
          (let np = nodeTwinSpecFromObject (ObjectNameForNode nodeName) nt
           in if ats_nodeName np \<noteq> [] \<and> ats_nodeName np \<noteq> nodeName
              then Inl (''NodeTwin '' @ ObjectNameForNode nodeName @ '' belongs to node '' @ quoted (ats_nodeName np) @ '', not '' @ quoted nodeName)
              else Inr (Some np)))"

text \<open>The desired state is the spec without the node, the profile and the policy.\<close>

record DesiredState =
  ds_name :: string
  ds_powerWatts :: "f64 option"
  ds_powerPctOfMax :: "f64 option"
  ds_gpu :: "GPUPowerCap option"
  ds_cpuGovernor :: "CPUGovernorIntent option"
  ds_gpuGovernor :: "GPUGovernorIntent option"
  ds_lastCPUGovernor :: "V1ControlResult option"
  ds_lastGPUGovernor :: "V1ControlResult option"

definition resolveDesiredStateForNode :: "ListErr + V1NodeTwin \<Rightarrow> string \<Rightarrow> goerr + DesiredState option" where
  "resolveDesiredStateForNode got nodeName =
     (case getNodeTwinSpec got nodeName of
        Inl e \<Rightarrow> Inl (''get NodeTwin: '' @ e)
      | Inr np \<Rightarrow>
          Inr (map_option (\<lambda>np. \<lparr>ds_name = ats_name np, ds_powerWatts = ats_powerWatts np, ds_powerPctOfMax = ats_powerPctOfMax np,
             ds_gpu = ats_gpu np, ds_cpuGovernor = ats_cpuGovernor np, ds_gpuGovernor = ats_gpuGovernor np,
             ds_lastCPUGovernor = ats_lastCPUGovernor np, ds_lastGPUGovernor = ats_lastGPUGovernor np\<rparr>) np))"

section \<open>Configuration\<close>

record TelemetryConfig =
  tc_cpuSourceType :: string
  tc_httpEndpoint :: string
  tc_timeoutSeconds :: int
  tc_cpuControlType :: string
  tc_controlHTTPEndpoint :: string
  tc_controlMode :: string
  tc_gpuControlType :: string
  tc_gpuControlHTTPEndpoint :: string
  tc_gpuControlMode :: string

definition envWord :: "strmap \<Rightarrow> string \<Rightarrow> string" where
  "envWord env key = ToLower (TrimSpace (map_get env key))"

definition resolveTelemetryConfigFromEnv :: "strmap \<Rightarrow> TelemetryConfig option" where
  "resolveTelemetryConfigFromEnv env =
     (let src = envWord env ''TELEMETRY_CPU_SOURCE''; cpu = envWord env ''TELEMETRY_CPU_CONTROL''; gpu = envWord env ''TELEMETRY_GPU_CONTROL''
      in if src = [] \<and> cpu = [] \<and> gpu = [] then None
         else Some \<lparr>tc_cpuSourceType = src, tc_httpEndpoint = TrimSpace (map_get env ''TELEMETRY_CPU_HTTP_ENDPOINT''),
                tc_timeoutSeconds = (case Atoi (TrimSpace (map_get env ''TELEMETRY_HTTP_TIMEOUT_SECONDS'')) of Some n \<Rightarrow> n | None \<Rightarrow> 0),
                tc_cpuControlType = cpu, tc_controlHTTPEndpoint = TrimSpace (map_get env ''TELEMETRY_CPU_CONTROL_HTTP_ENDPOINT''),
                tc_controlMode = envWord env ''TELEMETRY_CPU_CONTROL_MODE'', tc_gpuControlType = gpu,
                tc_gpuControlHTTPEndpoint = TrimSpace (map_get env ''TELEMETRY_GPU_CONTROL_HTTP_ENDPOINT''),
                tc_gpuControlMode = envWord env ''TELEMETRY_GPU_CONTROL_MODE''\<rparr>)"

text \<open>The clients of the control backends; \<open>http\<close> gives the answers of the backend at an endpoint.\<close>

definition controlClientFromTelemetry :: "TelemetryConfig option \<Rightarrow> (string \<Rightarrow> ControlClient) \<Rightarrow> ControlClient option" where
  "controlClientFromTelemetry cfg http =
     (case cfg of
        None \<Rightarrow> None
      | Some c \<Rightarrow> if tc_cpuControlType c \<noteq> ''http'' \<or> tc_controlHTTPEndpoint c = [] then None else Some (http (tc_controlHTTPEndpoint c)))"

definition gpuControlClientFromTelemetry :: "TelemetryConfig option \<Rightarrow> (string \<Rightarrow> GPUControl) \<Rightarrow> GPUControl option" where
  "gpuControlClientFromTelemetry cfg http =
     (case cfg of
        None \<Rightarrow> None
      | Some c \<Rightarrow> if tc_gpuControlType c \<noteq> ''http'' \<or> tc_gpuControlHTTPEndpoint c = [] then None else Some (http (tc_gpuControlHTTPEndpoint c)))"

definition setDVFSPowerReaderForTelemetry :: "TelemetryConfig option \<Rightarrow> (string \<Rightarrow> PowerReading) \<Rightarrow> Controller \<Rightarrow> Controller" where
  "setDVFSPowerReaderForTelemetry cfg http d =
     d\<lparr>ct_powerReader :=
        (case cfg of
           None \<Rightarrow> None
         | Some c \<Rightarrow> if tc_cpuSourceType c = ''http'' \<and> tc_httpEndpoint c \<noteq> [] then Some (http (tc_httpEndpoint c)) else None)\<rparr>"

definition newDVFSControllerFromEnv ::
  "(string \<Rightarrow> f64 option) \<Rightarrow> (string \<Rightarrow> int option) \<Rightarrow> strmap \<Rightarrow> SysHost \<Rightarrow> Controller" where
  "newDVFSControllerFromEnv parseFloat64 parseDuration env h =
     (let val = (\<lambda>parse key def. case parse (TrimSpace (map_get env key)) of Some v \<Rightarrow> v | None \<Rightarrow> def);
          num = (\<lambda>key def. if TrimSpace (map_get env key) = [] then def else case parseFloat64 (TrimSpace (map_get env key)) of Some v \<Rightarrow> v | None \<Rightarrow> def);
          whole = (\<lambda>key def. val Atoi key def)
      in New (Host.truncate h)
           \<lparr>dc_emaAlpha = num ''DVFS_EMA_ALPHA'' (3 / 10), dc_highMarginW = num ''DVFS_HIGH_MARGIN_W'' 10, dc_lowMarginW = num ''DVFS_LOW_MARGIN_W'' 15,
            dc_stepPct = whole ''DVFS_STEP_PCT'' 10, dc_minFreqKHz = whole ''DVFS_MIN_FREQ_KHZ'' 1500000,
            dc_cooldown = (if TrimSpace (map_get env ''DVFS_COOLDOWN'') = [] then 20000000000
                           else case parseDuration (TrimSpace (map_get env ''DVFS_COOLDOWN'')) of Some v \<Rightarrow> v | None \<Rightarrow> 20000000000),
            dc_tripCount = whole ''DVFS_TRIP_COUNT'' 2\<rparr> True)"

section \<open>The controller of a node\<close>

record NodeController =
  nc_nodeName :: string
  nc_dvfs :: "Controller option"
  nc_simulateOnly :: bool
  nc_lastRaplKey :: string
  nc_lastSuccessfulSpecRead :: gotime
  nc_specReadTimeout :: int
  nc_capsRelaxed :: bool
  nc_governor :: governorControl
  nc_gpuFacts :: nvidiaFactsCache
  nc_httpThrottleCleared :: bool
  nc_amdCaps :: amdgpuLastCaps

text \<open>A new controller; the DVFS controller is there because its globs never fail.\<close>

definition newNodeController ::
  "(string \<Rightarrow> f64 option) \<Rightarrow> (string \<Rightarrow> int option) \<Rightarrow> strmap \<Rightarrow> SysHost \<Rightarrow> int \<Rightarrow> string \<Rightarrow> bool \<Rightarrow> NodeController" where
  "newNodeController parseFloat64 parseDuration env h now nodeName simulateOnly =
     \<lparr>nc_nodeName = nodeName, nc_dvfs = Some (newDVFSControllerFromEnv parseFloat64 parseDuration env h), nc_simulateOnly = simulateOnly,
      nc_lastRaplKey = [], nc_lastSuccessfulSpecRead = Some now,
      nc_specReadTimeout = (if TrimSpace (map_get env ''SPEC_READ_TIMEOUT'') = [] then 300000000000
                            else case parseDuration (TrimSpace (map_get env ''SPEC_READ_TIMEOUT'')) of Some v \<Rightarrow> v | None \<Rightarrow> 300000000000),
      nc_capsRelaxed = False, nc_governor = newGovernorControl, nc_gpuFacts = None, nc_httpThrottleCleared = False, nc_amdCaps = Map.empty\<rparr>"

text \<open>What a tick reads from outside: the clock, the objects, the backends, the operating system, the configuration.\<close>

record TickEnv =
  tk_now :: int
  tk_fmtTime :: "int \<Rightarrow> string"
  tk_kernel :: Kernel
  tk_govCfg :: agentGovernorConfig
  tk_remote :: bool
  tk_parseFloat :: "string \<Rightarrow> f64 option"
  tk_fmtFloat :: "f64 \<Rightarrow> string"
  tk_fmt :: "nat \<Rightarrow> f64 \<Rightarrow> string"
  tk_catalog :: "Catalog option"
  tk_toolFailures :: nat
  tk_getNode :: "goerr + KNode"
  tk_getTwin :: "ListErr + V1NodeTwin"
  tk_getHardware :: "ListErr + V1NodeHardware"
  tk_telemetry :: "TelemetryConfig option"
  tk_control :: "string \<Rightarrow> ControlClient"
  tk_gpuControl :: "string \<Rightarrow> GPUControl"
  tk_reading :: "string \<Rightarrow> PowerReading"
  tk_codec :: HwCodec
  tk_actionText :: "DvfsOutcome \<Rightarrow> string"

record AgentWorld =
  aw_nc :: NodeController
  aw_host :: SysHost
  aw_api :: AgentApi
  aw_hw :: HwStore

definition setStatus :: "TickEnv \<Rightarrow> string \<Rightarrow> string \<times> string \<times> string \<Rightarrow> AgentWorld \<Rightarrow> AgentWorld" where
  "setStatus tk component st w =
     (case st of (backend, result, message) \<Rightarrow>
        w\<lparr>aw_api := snd (updateNodeTwinControlStatus (tk_fmtTime tk) (tk_now tk) (nc_nodeName (aw_nc w)) component backend result message (aw_api w))\<rparr>)"

section \<open>The CPU cap\<close>

text \<open>The cap in watts, whether a percentage resolved into it, and the note for the status.\<close>

definition resolveWatts :: "TickEnv \<Rightarrow> SysHost \<Rightarrow> strmap \<Rightarrow> bool \<Rightarrow> DesiredState \<Rightarrow> f64 option \<times> bool \<times> string" where
  "resolveWatts tk h labels httpRAPL sel =
     (case (case ds_powerWatts sel of Some w \<Rightarrow> if w \<le> 0 then None else Some w | None \<Rightarrow> None) of
        Some w \<Rightarrow> (Some w, False, [])
      | None \<Rightarrow>
          (case ds_powerPctOfMax sel of
             None \<Rightarrow> (None, False, [])
           | Some pct \<Rightarrow>
               (case resolveCPUCapFromPct (tk_fmt tk) (tk_catalog tk) h pct labels httpRAPL of
                  Inl _ \<Rightarrow> (None, False, [])
                | Inr (w, r) \<Rightarrow>
                    (Some w, True,
                     if ccr_catalog r then '': '' @ tk_fmt tk 2 w @ ''W for '' @ tk_fmt tk 2 pct @ ''%, range from the '' @ ccr_source r else []))))"

definition applyCPUPercentFallback :: "TickEnv \<Rightarrow> f64 \<Rightarrow> ControlClient option \<Rightarrow> AgentWorld \<Rightarrow> goerr option \<times> AgentWorld" where
  "applyCPUPercentFallback tk pct client w =
     (let nc = (if client \<noteq> None then (aw_nc w)\<lparr>nc_httpThrottleCleared := False\<rparr> else aw_nc w)
      in case applyCPUPercentIntent (tk_fmt tk) (tk_now tk) pct client (nc_dvfs nc) (aw_host w) of
           ((backend, result, msg, err), d, h) \<Rightarrow>
             (err, setStatus tk ''cpu'' (backend, result, msg) (w\<lparr>aw_nc := nc\<lparr>nc_dvfs := d\<rparr>, aw_host := h\<rparr>)))"

datatype raplResult = RaplApplied | RaplNotApplied | RaplPercentFallback | RaplError goerr

definition tryRAPL :: "TickEnv \<Rightarrow> string \<Rightarrow> bool \<Rightarrow> bool \<Rightarrow> ControlClient option \<Rightarrow> f64 \<Rightarrow> SysHost \<Rightarrow> raplResult \<times> SysHost" where
  "tryRAPL tk cpuVendor preferDVFS fromPct client watts h =
     (if preferDVFS then (RaplNotApplied, h)
      else (case client of
              Some send \<Rightarrow>
                (case send ''rapl.set_power_cap_watts'' watts (- 1) of
                   None \<Rightarrow> (RaplApplied, h)
                 | Some _ \<Rightarrow> (if fromPct then RaplPercentFallback else RaplNotApplied, h))
            | None \<Rightarrow>
                (case applyRAPLPackageCap (tk_kernel tk) cpuVendor watts h of
                   (Inl e, h) \<Rightarrow> (RaplError e, h)
                 | (Inr (ok, _), h) \<Rightarrow> (if ok then RaplApplied else RaplNotApplied, h))))"

definition clearHTTPThrottle :: "ControlClient option \<Rightarrow> NodeController \<Rightarrow> NodeController" where
  "clearHTTPThrottle client nc =
     (case client of
        Some send \<Rightarrow>
          if nc_httpThrottleCleared nc then nc
          else (case send ''dvfs.set_throttle_pct'' 0 0 of None \<Rightarrow> nc\<lparr>nc_httpThrottleCleared := True\<rparr> | Some _ \<Rightarrow> nc)
      | None \<Rightarrow> nc)"

definition restoreDVFS :: "AgentWorld \<Rightarrow> AgentWorld" where
  "restoreDVFS w =
     (case nc_dvfs (aw_nc w) of
        None \<Rightarrow> w
      | Some d \<Rightarrow>
          if Active d
          then (case RestoreAllMax (Host.truncate (aw_host w)) d of
                  (_, d, h) \<Rightarrow> w\<lparr>aw_nc := (aw_nc w)\<lparr>nc_dvfs := Some d\<rparr>, aw_host := Host.extend h (Host.more (aw_host w))\<rparr>)
          else w)"

definition afterRAPL :: "TickEnv \<Rightarrow> string \<Rightarrow> f64 \<Rightarrow> string \<Rightarrow> ControlClient option \<Rightarrow> AgentWorld \<Rightarrow> AgentWorld" where
  "afterRAPL tk name watts note client w =
     (let w = setStatus tk ''cpu'' (''rapl'', ''applied'', ''RAPL package cap applied'' @ note) w;
          nc = (aw_nc w)\<lparr>nc_lastRaplKey := name @ ''|rapl|'' @ tk_fmt tk 2 watts\<rparr>
      in restoreDVFS (w\<lparr>aw_nc := clearHTTPThrottle client nc\<rparr>))"

definition dvfsFallback :: "TickEnv \<Rightarrow> f64 \<Rightarrow> ControlClient option \<Rightarrow> AgentWorld \<Rightarrow> goerr option \<times> AgentWorld" where
  "dvfsFallback tk watts client w0 =
     (let w = w0\<lparr>aw_nc := (aw_nc w0)\<lparr>nc_lastRaplKey := []\<rparr>\<rparr>
      in case nc_dvfs (aw_nc w) of
           None \<Rightarrow> (None, setStatus tk ''cpu'' (''none'', ''blocked'', ''RAPL unavailable and DVFS disabled'') w)
         | Some d \<Rightarrow>
             if client = None \<and> \<not> HasHostControl d
             then (None, setStatus tk ''cpu'' (''none'', ''blocked'', ''RAPL unavailable, no cpufreq host control, and no HTTP control backend'') w)
             else (case Reconcile (Host.truncate (aw_host w)) (tk_now tk) watts client d of
                     (r, d, h) \<Rightarrow>
                       (let nc = (aw_nc w)\<lparr>nc_dvfs := Some d, nc_httpThrottleCleared := (nc_httpThrottleCleared (aw_nc w) \<and> client = None)\<rparr>;
                            w = w\<lparr>aw_nc := nc, aw_host := Host.extend h (Host.more (aw_host w))\<rparr>
                        in case r of
                             Inl e \<Rightarrow> (Some (''dvfs fallback failed: '' @ e), setStatus tk ''cpu'' (''dvfs'', ''error'', e) w)
                           | Inr act \<Rightarrow> (None, setStatus tk ''cpu'' (''dvfs'', ''applied'', tk_actionText tk act) w))))"

definition applyCPUWatts ::
  "TickEnv \<Rightarrow> string \<Rightarrow> bool \<Rightarrow> ControlClient option \<Rightarrow> DesiredState \<Rightarrow> f64 \<Rightarrow> bool \<Rightarrow> string \<Rightarrow> AgentWorld \<Rightarrow> goerr option \<times> AgentWorld" where
  "applyCPUWatts tk cpuVendor preferDVFS client sel watts fromPct note w =
     (case tryRAPL tk cpuVendor preferDVFS fromPct client watts (aw_host w) of
        (r, h) \<Rightarrow>
          (let w = w\<lparr>aw_host := h\<rparr>
           in case r of
                RaplError e \<Rightarrow> (Some e, w)
              | RaplApplied \<Rightarrow> (None, afterRAPL tk (ds_name sel) watts note client w)
              | RaplNotApplied \<Rightarrow> dvfsFallback tk watts client w
              | RaplPercentFallback \<Rightarrow>
                  (case ds_powerPctOfMax sel of
                     Some pct \<Rightarrow> applyCPUPercentFallback tk pct client (w\<lparr>aw_nc := (aw_nc w)\<lparr>nc_lastRaplKey := []\<rparr>\<rparr>)
                   | None \<Rightarrow> (None, w))))"

section \<open>One tick\<close>

text \<open>The desired state of the tick: an error to return, or the state (none when it is gone or too old to trust).\<close>

definition readDesired :: "TickEnv \<Rightarrow> NodeController \<Rightarrow> goerr + DesiredState option \<times> NodeController" where
  "readDesired tk nc =
     (case resolveDesiredStateForNode (tk_getTwin tk) (nc_nodeName nc) of
        Inl e \<Rightarrow>
          (case nc_lastSuccessfulSpecRead nc of
             Some t \<Rightarrow> if tk_now tk - t > nc_specReadTimeout nc then Inr (None, nc\<lparr>nc_capsRelaxed := True\<rparr>) else Inl e
           | None \<Rightarrow> Inl e)
      | Inr None \<Rightarrow> Inr (None, nc\<lparr>nc_lastSuccessfulSpecRead := Some (tk_now tk)\<rparr>)
      | Inr (Some sel) \<Rightarrow> Inr (Some sel, nc\<lparr>nc_lastSuccessfulSpecRead := Some (tk_now tk), nc_capsRelaxed := False\<rparr>))"

definition tickGovEnv :: "TickEnv \<Rightarrow> KNode \<Rightarrow> NodeController \<Rightarrow> SysHost GovEnv" where
  "tickGovEnv tk node nc =
     \<lparr>ge_now = tk_now tk, ge_nodeName = nc_nodeName nc, ge_fmtTime = tk_fmtTime tk, ge_io = kernelIO (tk_kernel tk),
      ge_simulateOnly = nc_simulateOnly nc, ge_cpuHTTP = (controlClientFromTelemetry (tk_telemetry tk) (tk_control tk) \<noteq> None),
      ge_gpuHTTP = (gpuControlClientFromTelemetry (tk_telemetry tk) (tk_gpuControl tk) \<noteq> None), ge_nodeLabels = kn_labels node,
      ge_remote = tk_remote tk, ge_cfg = tk_govCfg tk, ge_parseFloat = tk_parseFloat tk, ge_fmtFloat = tk_fmtFloat tk\<rparr>"

text \<open>The steps up to the governors: discovery, the governor baseline, NodeHardware, the power reader, the governors.\<close>

definition governNode ::
  "TickEnv \<Rightarrow> KNode \<Rightarrow> DesiredState option \<Rightarrow> HardwareInfo \<times> AgentWorld \<Rightarrow> HardwareInfo \<times> AgentWorld" where
  "governNode tk node sel s =
     (case s of (hw, w) \<Rightarrow>
      let nc = aw_nc w;
          (governors, g) = prepare (tk_fmtTime tk (tk_now tk)) (tk_getHardware tk)
            (map_option (\<lambda>d. (ds_lastCPUGovernor d, ds_lastGPUGovernor d)) sel) (hwi_governors hw) (nc_governor nc);
          hw = hw\<lparr>hwi_governors := governors\<rparr>;
          (_, ws, hws) = upsertNodeHardwareStatus (tk_fmtTime tk) (tk_codec tk) (tk_now tk) (nc_nodeName nc) hw (aa_writes (aw_api w), aw_hw w);
          nc = nc\<lparr>nc_dvfs := map_option (setDVFSPowerReaderForTelemetry (tk_telemetry tk) (tk_reading tk)) (nc_dvfs nc)\<rparr>;
          (g, h, api) = reconcileGovernors (tickGovEnv tk node nc) governors (hwi_gpuVendor hw) (hwi_gpuRawModel hw)
            (Option.bind sel ds_cpuGovernor) (Option.bind sel ds_gpuGovernor) (g, aw_host w, (aw_api w)\<lparr>aa_writes := ws\<rparr>)
      in (hw, w\<lparr>aw_nc := nc\<lparr>nc_governor := g\<rparr>, aw_host := h, aw_api := api, aw_hw := hws\<rparr>))"

definition applyGPUCap :: "TickEnv \<Rightarrow> KNode \<Rightarrow> DesiredState \<Rightarrow> HardwareInfo \<Rightarrow> AgentWorld \<Rightarrow> AgentWorld" where
  "applyGPUCap tk node sel hw w =
     (case ds_gpu sel of
        Some intent \<Rightarrow>
          (case applyGPUIntentFrom (tk_fmt tk) (tk_kernel tk) node intent (gpuControlClientFromTelemetry (tk_telemetry tk) (tk_gpuControl tk))
                  \<lparr>gin_vendor = hwi_gpuVendor hw, gin_devices = hwi_gpuDevices hw, gin_err = hwi_gpuListErr hw\<rparr> (nc_amdCaps (aw_nc w), aw_host w) of
             (st, caps, h) \<Rightarrow> setStatus tk ''gpu'' st (w\<lparr>aw_nc := (aw_nc w)\<lparr>nc_amdCaps := caps\<rparr>, aw_host := h\<rparr>))
      | None \<Rightarrow>
          setStatus tk ''gpu''
            (''none'', ''none'', if hwi_gpuCount hw > 0 then ''no GPU cap intent for GPU node; leaving current GPU state unchanged'' else ''no GPU cap intent'') w)"

definition applyCaps :: "TickEnv \<Rightarrow> KNode \<Rightarrow> DesiredState \<Rightarrow> HardwareInfo \<Rightarrow> AgentWorld \<Rightarrow> goerr option \<times> AgentWorld" where
  "applyCaps tk node sel hw w =
     (let client = controlClientFromTelemetry (tk_telemetry tk) (tk_control tk);
          preferDVFS = (case tk_telemetry tk of Some c \<Rightarrow> tc_cpuControlType c = ''http'' \<and> tc_controlMode c = ''dvfs'' | None \<Rightarrow> False)
      in case resolveWatts tk (aw_host w) (kn_labels node) (client \<noteq> None \<and> \<not> preferDVFS) sel of
           (cap, fromPct, note) \<Rightarrow>
             if nc_simulateOnly (aw_nc w)
             then (None, setStatus tk ''gpu'' (''none'', if ds_gpu sel \<noteq> None then ''applied'' else ''none'',
                           if ds_gpu sel \<noteq> None then ''simulate-only mode'' else ''no GPU cap intent'')
                     (setStatus tk ''cpu'' (''none'', ''applied'', ''simulate-only mode'') w))
             else (let w = applyGPUCap tk node sel hw w
                   in case cap of
                        Some watts \<Rightarrow> applyCPUWatts tk (hwi_cpuVendor hw) preferDVFS client sel watts fromPct note w
                      | None \<Rightarrow>
                          (case ds_powerPctOfMax sel of
                             Some pct \<Rightarrow> applyCPUPercentFallback tk pct client w
                           | None \<Rightarrow> (None, w))))"

definition reconcileOnce :: "TickEnv \<Rightarrow> AgentWorld \<Rightarrow> goerr option \<times> AgentWorld" where
  "reconcileOnce tk w =
     (case tk_getNode tk of
        Inl e \<Rightarrow> (Some (''get node: '' @ e), w)
      | Inr node \<Rightarrow>
          (case discoverHardwareWith (tk_parseFloat tk) (tk_catalog tk) (tk_kernel tk) (tk_now tk) (tk_toolFailures tk) node (aw_host w)
                  (nc_amdCaps (aw_nc w), nc_gpuFacts (aw_nc w)) of
             (hw, caps, cache) \<Rightarrow>
               (let nc = (aw_nc w)\<lparr>nc_amdCaps := caps, nc_gpuFacts := cache\<rparr>
                in case readDesired tk nc of
                     Inl e \<Rightarrow> (Some e, w\<lparr>aw_nc := nc\<rparr>)
                   | Inr (sel, nc) \<Rightarrow>
                       (case governNode tk node sel (hw, w\<lparr>aw_nc := nc\<rparr>) of
                          (hw, w) \<Rightarrow>
                            (case sel of
                               None \<Rightarrow>
                                 (None, (setStatus tk ''gpu'' (''none'', ''none'', ''no NodeTwin selected'')
                                     (setStatus tk ''cpu'' (''none'', ''none'', ''no NodeTwin selected'') w))
                                   \<lparr>aw_nc := (aw_nc w)\<lparr>nc_lastRaplKey := []\<rparr>\<rparr>)
                             | Some sel \<Rightarrow> applyCaps tk node sel hw w)))))"

section \<open>Agents of a pool\<close>

text \<open>
  The controllers of a pool agent, one per node it owns. A pool agent does not run on the nodes it manages, so their
  ticks are remote. The caps last read from AMD devices are one map of the process. \<open>start\<close> makes the controller of a node seen for the first time.
\<close>

record PoolWorld =
  pw_controllers :: "string \<Rightarrow> NodeController option"
  pw_amdCaps :: amdgpuLastCaps
  pw_host :: SysHost
  pw_api :: AgentApi
  pw_hw :: HwStore

definition poolNode :: "(string \<Rightarrow> TickEnv) \<Rightarrow> (string \<Rightarrow> NodeController) \<Rightarrow> string \<Rightarrow> PoolWorld \<Rightarrow> PoolWorld" where
  "poolNode tk start name p =
     (let nc = (case pw_controllers p name of Some c \<Rightarrow> c | None \<Rightarrow> start name)\<lparr>nc_amdCaps := pw_amdCaps p\<rparr>;
          w = snd (reconcileOnce ((tk name)\<lparr>tk_remote := True\<rparr>) \<lparr>aw_nc = nc, aw_host = pw_host p, aw_api = pw_api p, aw_hw = pw_hw p\<rparr>)
      in \<lparr>pw_controllers = (pw_controllers p)(name \<mapsto> aw_nc w), pw_amdCaps = nc_amdCaps (aw_nc w), pw_host = aw_host w, pw_api = aw_api w, pw_hw = aw_hw w\<rparr>)"

text \<open>One turn of the loop; a failed listing skips it, and controllers of nodes no longer listed are dropped.\<close>

definition poolTick :: "(string \<Rightarrow> TickEnv) \<Rightarrow> (string \<Rightarrow> NodeController) \<Rightarrow> int \<Rightarrow> int \<Rightarrow> goerr + string list \<Rightarrow> PoolWorld \<Rightarrow> PoolWorld" where
  "poolTick tk start shards shardID listed p =
     (case listed of
        Inl _ \<Rightarrow> p
      | Inr names \<Rightarrow>
          (let owned = filter (\<lambda>n. ownsNodeForShard n shards shardID) names;
               p = fold (poolNode tk start) owned p
           in p\<lparr>pw_controllers := (\<lambda>n. if n \<in> set owned then pw_controllers p n else None)\<rparr>))"

section \<open>Lemmas: what a tick leaves alone\<close>

lemma setStatus_frame [simp]: "aw_host (setStatus tk c st w) = aw_host w" "aw_nc (setStatus tk c st w) = aw_nc w"
  by (simp_all add: setStatus_def split: prod.split)

lemma readDesired_simulate: "readDesired tk nc = Inr (sel, nc') \<Longrightarrow> nc_simulateOnly nc' = nc_simulateOnly nc \<and> nc_governor nc' = nc_governor nc \<and> nc_dvfs nc' = nc_dvfs nc"
  by (auto simp: readDesired_def split: sum.splits option.splits if_splits)

text \<open>What governing a node does: it reconciles the governors with what preparing made of the discovery.\<close>

lemma governNode_governors:
  assumes "governNode tk node sel (hw, w) = (hw', w')"
  obtains gov g g' h' api api' where
    "prepare (tk_fmtTime tk (tk_now tk)) (tk_getHardware tk) (map_option (\<lambda>d. (ds_lastCPUGovernor d, ds_lastGPUGovernor d)) sel)
       (hwi_governors hw) (nc_governor (aw_nc w)) = (gov, g)"
    "reconcileGovernors (tickGovEnv tk node (aw_nc w)) gov (hwi_gpuVendor hw) (hwi_gpuRawModel hw)
       (Option.bind sel ds_cpuGovernor) (Option.bind sel ds_gpuGovernor) (g, aw_host w, api) = (g', h', api')"
    "aw_host w' = h'" "nc_governor (aw_nc w') = g'" "nc_simulateOnly (aw_nc w') = nc_simulateOnly (aw_nc w)"
    "hw' = hw\<lparr>hwi_governors := gov\<rparr>"
    "nc_dvfs (aw_nc w') = map_option (setDVFSPowerReaderForTelemetry (tk_telemetry tk) (tk_reading tk)) (nc_dvfs (aw_nc w))"
    "nc_capsRelaxed (aw_nc w') = nc_capsRelaxed (aw_nc w)"
proof -
  obtain gov g where P: "prepare (tk_fmtTime tk (tk_now tk)) (tk_getHardware tk) (map_option (\<lambda>d. (ds_lastCPUGovernor d, ds_lastGPUGovernor d)) sel)
       (hwi_governors hw) (nc_governor (aw_nc w)) = (gov, g)" by fastforce
  obtain err ws hws where U: "upsertNodeHardwareStatus (tk_fmtTime tk) (tk_codec tk) (tk_now tk) (nc_nodeName (aw_nc w)) (hw\<lparr>hwi_governors := gov\<rparr>)
      (aa_writes (aw_api w), aw_hw w) = (err, ws, hws)" by (metis prod_cases3)
  obtain g' h' api' where R: "reconcileGovernors (tickGovEnv tk node (aw_nc w)) gov (hwi_gpuVendor hw) (hwi_gpuRawModel hw)
       (Option.bind sel ds_cpuGovernor) (Option.bind sel ds_gpuGovernor) (g, aw_host w, (aw_api w)\<lparr>aa_writes := ws\<rparr>) = (g', h', api')"
    by (metis prod_cases3)
  have E: "tickGovEnv tk node ((aw_nc w)\<lparr>nc_dvfs := d\<rparr>) = tickGovEnv tk node (aw_nc w)" for d by (simp add: tickGovEnv_def)
  show thesis
    by (rule that [OF P R]) (use assms in \<open>auto simp: governNode_def P U R E Let_def\<close>)
qed

lemma governNode_simulate:
  assumes "governNode tk node sel (hw, w) = (hw', w')" "nc_simulateOnly (aw_nc w)"
  shows "aw_host w' = aw_host w \<and> nc_simulateOnly (aw_nc w')"
proof -
  from assms(1) obtain gov g g' h' api api' where
    R: "reconcileGovernors (tickGovEnv tk node (aw_nc w)) gov (hwi_gpuVendor hw) (hwi_gpuRawModel hw)
       (Option.bind sel ds_cpuGovernor) (Option.bind sel ds_gpuGovernor) (g, aw_host w, api) = (g', h', api')"
    and w': "aw_host w' = h'" "nc_simulateOnly (aw_nc w') = nc_simulateOnly (aw_nc w)"
    by (rule governNode_governors)
  have "handsOff (tickGovEnv tk node (aw_nc w)) c" for c using assms(2) by (simp add: handsOff_def tickGovEnv_def)
  from reconcileGovernors_handsOff [OF this this R] show ?thesis using w' assms(2) by simp
qed

text \<open>A simulate-only agent never touches its node. Whatever the NodeTwin asks for, the hardware is, the backends
  answer and the agent remembers, a tick in simulate-only mode leaves the node exactly as it was, and the agent stays in
  that mode.\<close>

theorem simulate_only_tick:
  assumes "nc_simulateOnly (aw_nc w)" "reconcileOnce tk w = (err, w')"
  shows "aw_host w' = aw_host w \<and> nc_simulateOnly (aw_nc w')"
proof (cases "tk_getNode tk")
  case (Inl e)
  then show ?thesis using assms by (auto simp: reconcileOnce_def)
next
  case (Inr node)
  obtain hw caps cache where D: "discoverHardwareWith (tk_parseFloat tk) (tk_catalog tk) (tk_kernel tk) (tk_now tk) (tk_toolFailures tk) node (aw_host w)
       (nc_amdCaps (aw_nc w), nc_gpuFacts (aw_nc w)) = (hw, caps, cache)" by (metis prod_cases3)
  define nc where "nc = (aw_nc w)\<lparr>nc_amdCaps := caps, nc_gpuFacts := cache\<rparr>"
  have nc: "nc_simulateOnly nc" using assms(1) by (simp add: nc_def)
  show ?thesis
  proof (cases "readDesired tk nc")
    case (Inl e)
    then show ?thesis using assms(2) nc by (auto simp: reconcileOnce_def \<open>tk_getNode tk = Inr node\<close> D nc_def [symmetric])
  next
    case (Inr p)
    obtain sel nc1 where p: "p = (sel, nc1)" by fastforce
    obtain hw1 w1 where G: "governNode tk node sel (hw, w\<lparr>aw_nc := nc1\<rparr>) = (hw1, w1)" by fastforce
    have nc1: "nc_simulateOnly nc1" using readDesired_simulate Inr nc p by fastforce
    have w1: "aw_host w1 = aw_host w" "nc_simulateOnly (aw_nc w1)" using governNode_simulate [OF G] nc1 by simp_all
    have E: "reconcileOnce tk w = (case sel of
        None \<Rightarrow> (None, (setStatus tk ''gpu'' (''none'', ''none'', ''no NodeTwin selected'')
                   (setStatus tk ''cpu'' (''none'', ''none'', ''no NodeTwin selected'') w1))\<lparr>aw_nc := (aw_nc w1)\<lparr>nc_lastRaplKey := []\<rparr>\<rparr>)
      | Some sel \<Rightarrow> applyCaps tk node sel hw1 w1)"
      using G by (simp add: reconcileOnce_def \<open>tk_getNode tk = Inr node\<close> D nc_def [symmetric] Inr p)
    show ?thesis
    proof (cases sel)
      case None
      then show ?thesis using assms(2) E w1 by auto
    next
      case (Some d)
      then show ?thesis using assms(2) E w1 by (auto simp: applyCaps_def Let_def split: prod.splits)
    qed
  qed
qed

text \<open>C30: When the NodeTwin cannot be read for longer than the timeout, the caps stay. The tick takes the state as
  relaxed and reports no error, but neither the package limits nor any other setting of the node changes: the last caps
  written remain in force, although the configuration reference says every cap is relaxed.\<close>

theorem stale_spec_keeps_caps:
  assumes "tk_getNode tk = Inr node" "resolveDesiredStateForNode (tk_getTwin tk) (nc_nodeName (aw_nc w)) = Inl e"
    and "nc_lastSuccessfulSpecRead (aw_nc w) = Some t" "tk_now tk - t > nc_specReadTimeout (aw_nc w)"
    and "\<not> gk_changed (gco_cpu (nc_governor (aw_nc w)))" "\<not> gk_changed (gco_gpu (nc_governor (aw_nc w)))"
    and "reconcileOnce tk w = (err, w')"
  shows "err = None \<and> nc_capsRelaxed (aw_nc w') \<and> aw_host w' = aw_host w"
proof -
  obtain hw caps cache where D: "discoverHardwareWith (tk_parseFloat tk) (tk_catalog tk) (tk_kernel tk) (tk_now tk) (tk_toolFailures tk) node (aw_host w)
       (nc_amdCaps (aw_nc w), nc_gpuFacts (aw_nc w)) = (hw, caps, cache)" by (metis prod_cases3)
  define nc where "nc = (aw_nc w)\<lparr>nc_amdCaps := caps, nc_gpuFacts := cache, nc_capsRelaxed := True\<rparr>"
  have R: "readDesired tk ((aw_nc w)\<lparr>nc_amdCaps := caps, nc_gpuFacts := cache\<rparr>) = Inr (None, nc)"
    using assms(2-4) by (simp add: readDesired_def nc_def)
  obtain hw1 w1 where G: "governNode tk node None (hw, w\<lparr>aw_nc := nc\<rparr>) = (hw1, w1)" by fastforce
  then obtain gov g g' h' api api' where
    P: "prepare (tk_fmtTime tk (tk_now tk)) (tk_getHardware tk) None (hwi_governors hw) (nc_governor nc) = (gov, g)" and
    Q: "reconcileGovernors (tickGovEnv tk node nc) gov (hwi_gpuVendor hw) (hwi_gpuRawModel hw) None None (g, aw_host w, api) = (g', h', api')" and
    w1: "aw_host w1 = h'" and relaxed: "nc_capsRelaxed (aw_nc w1)"
    by (rule governNode_governors) (simp add: nc_def)
  have "nc_governor nc = nc_governor (aw_nc w)" by (simp add: nc_def)
  then have "h' = aw_host w"
    using reconcileGovernors_idle [OF _ _ Q] prepare_components [OF P] assms(5,6) by simp
  then show ?thesis using assms(7) w1 relaxed by (auto simp: reconcileOnce_def assms(1) D R G)
qed

section \<open>Lemmas: what a tick enforces\<close>

lemma setReader_active [simp]: "Active (setDVFSPowerReaderForTelemetry cfg http d) = Active d"
  by (simp add: Active_def setDVFSPowerReaderForTelemetry_def)

lemma discover_vendor:
  "discoverHardwareWith parseFloat64 catalog k now failures node h s = (hw, caps, cache) \<Longrightarrow> hwi_cpuVendor hw = discoverCPUVendor (kn_labels node)"
  by (auto simp: discoverHardwareWith_def Let_def split: prod.splits)

text \<open>Governors that are off and have nothing to take back: the node is as before, and so is what the caps look at.\<close>

lemma governNode_off:
  assumes "governNode tk node sel (hw, w) = (hw', w')" "\<not> agc_writes (tk_govCfg tk)" "gco_loaded (nc_governor (aw_nc w))"
    and "\<not> gk_changed (gco_cpu (nc_governor (aw_nc w)))" "\<not> gk_changed (gco_gpu (nc_governor (aw_nc w)))"
  shows "aw_host w' = aw_host w \<and> hwi_cpuVendor hw' = hwi_cpuVendor hw \<and> nc_simulateOnly (aw_nc w') = nc_simulateOnly (aw_nc w) \<and>
    nc_dvfs (aw_nc w') = map_option (setDVFSPowerReaderForTelemetry (tk_telemetry tk) (tk_reading tk)) (nc_dvfs (aw_nc w))"
proof -
  from assms(1) obtain gov g g' h' api api' where
    P: "prepare (tk_fmtTime tk (tk_now tk)) (tk_getHardware tk) (map_option (\<lambda>d. (ds_lastCPUGovernor d, ds_lastGPUGovernor d)) sel)
       (hwi_governors hw) (nc_governor (aw_nc w)) = (gov, g)" and
    R: "reconcileGovernors (tickGovEnv tk node (aw_nc w)) gov (hwi_gpuVendor hw) (hwi_gpuRawModel hw)
       (Option.bind sel ds_cpuGovernor) (Option.bind sel ds_gpuGovernor) (g, aw_host w, api) = (g', h', api')"
    and w': "aw_host w' = h'" "nc_simulateOnly (aw_nc w') = nc_simulateOnly (aw_nc w)" "hw' = hw\<lparr>hwi_governors := gov\<rparr>"
      "nc_dvfs (aw_nc w') = map_option (setDVFSPowerReaderForTelemetry (tk_telemetry tk) (tk_reading tk)) (nc_dvfs (aw_nc w))"
    by (rule governNode_governors)
  have "handsOff (tickGovEnv tk node (aw_nc w)) (gco_cpu g)" "handsOff (tickGovEnv tk node (aw_nc w)) (gco_gpu g)"
    using prepare_components [OF P] assms(2-5) by (simp_all add: handsOff_def tickGovEnv_def)
  from reconcileGovernors_handsOff [OF this R] show ?thesis using w' by simp
qed

text \<open>A RAPL cap on the node itself: the limits hold it, no other file changes, and an idle DVFS controller stays idle.\<close>

lemma applyCPUWatts_rapl:
  assumes "keepsLimits (tk_kernel tk) ok unitUW" "vendor \<in> {''AuthenticAMD'', ''GenuineIntel''}" "0 < watts" "watts * 1000000 < 2 ^ 63"
    and "\<exists>f\<in>set (RAPLCapFiles (Host.truncate (aw_host w))). ok f" "\<forall>d. nc_dvfs (aw_nc w) = Some d \<longrightarrow> \<not> Active d"
    and "applyCPUWatts tk vendor False None sel watts fromPct note w = (err, w')"
  shows "err = None \<and> (\<forall>p. if p \<in> set (RAPLCapFiles (Host.truncate (aw_host w))) \<and> ok p
    then limitUW (aw_host w') p = Some (QuantizeUW (capUWFor (aw_host w) watts p) (unitUW p))
    else ho_files (aw_host w') p = ho_files (aw_host w) p)"
proof -
  obtain r h' where A: "applyRAPLPackageCap (tk_kernel tk) vendor watts (aw_host w) = (r, h')" by fastforce
  note eff = applyRAPLPackageCap_effect [OF assms(1-4) A]
  then obtain n where r: "r = Inr (True, n)" using assms(5) by blast
  have T: "tryRAPL tk vendor False fromPct None watts (aw_host w) = (RaplApplied, h')" using A r by (simp add: tryRAPL_def)
  have "aw_host (afterRAPL tk (ds_name sel) watts note None (w\<lparr>aw_host := h'\<rparr>)) = h'"
    using assms(6) by (auto simp: afterRAPL_def restoreDVFS_def clearHTTPThrottle_def Let_def split: option.splits)
  then have "err = None \<and> aw_host w' = h'" using assms(7) T by (auto simp: applyCPUWatts_def)
  then show ?thesis using eff by blast
qed

text \<open>A tick that only has a CPU cap to set, on the node itself.\<close>

lemma tick_rapl:
  assumes "tk_getNode tk = Inr node" "resolveDesiredStateForNode (tk_getTwin tk) (nc_nodeName (aw_nc w)) = Inr (Some sel)"
    and "tk_telemetry tk = None" "\<not> nc_simulateOnly (aw_nc w)" "ds_gpu sel = None"
    and "\<not> agc_writes (tk_govCfg tk)" "gco_loaded (nc_governor (aw_nc w))"
    and "\<not> gk_changed (gco_cpu (nc_governor (aw_nc w)))" "\<not> gk_changed (gco_gpu (nc_governor (aw_nc w)))"
    and "\<forall>d. nc_dvfs (aw_nc w) = Some d \<longrightarrow> \<not> Active d"
    and "keepsLimits (tk_kernel tk) ok unitUW" "discoverCPUVendor (kn_labels node) \<in> {''AuthenticAMD'', ''GenuineIntel''}"
    and "\<exists>f\<in>set (RAPLCapFiles (Host.truncate (aw_host w))). ok f"
    and "resolveWatts tk (aw_host w) (kn_labels node) False sel = (Some watts, fromPct, note)" "0 < watts" "watts * 1000000 < 2 ^ 63"
    and "reconcileOnce tk w = (err, w')"
  shows "err = None \<and> (\<forall>p. if p \<in> set (RAPLCapFiles (Host.truncate (aw_host w))) \<and> ok p
    then limitUW (aw_host w') p = Some (QuantizeUW (capUWFor (aw_host w) watts p) (unitUW p))
    else ho_files (aw_host w') p = ho_files (aw_host w) p)"
proof -
  obtain hw caps cache where D: "discoverHardwareWith (tk_parseFloat tk) (tk_catalog tk) (tk_kernel tk) (tk_now tk) (tk_toolFailures tk) node (aw_host w)
       (nc_amdCaps (aw_nc w), nc_gpuFacts (aw_nc w)) = (hw, caps, cache)" by (metis prod_cases3)
  define nc where "nc = (aw_nc w)\<lparr>nc_amdCaps := caps, nc_gpuFacts := cache, nc_lastSuccessfulSpecRead := Some (tk_now tk), nc_capsRelaxed := False\<rparr>"
  have R: "readDesired tk ((aw_nc w)\<lparr>nc_amdCaps := caps, nc_gpuFacts := cache\<rparr>) = Inr (Some sel, nc)"
    using assms(2) by (simp add: readDesired_def nc_def)
  obtain hw1 w1 where G: "governNode tk node (Some sel) (hw, w\<lparr>aw_nc := nc\<rparr>) = (hw1, w1)" by fastforce
  have w1: "aw_host w1 = aw_host w" "hwi_cpuVendor hw1 = discoverCPUVendor (kn_labels node)" "\<not> nc_simulateOnly (aw_nc w1)"
    "\<forall>d. nc_dvfs (aw_nc w1) = Some d \<longrightarrow> \<not> Active d"
    using governNode_off [OF G assms(6)] assms(4,7-10) discover_vendor [OF D] by (auto simp: nc_def)
  define w2 where "w2 = applyGPUCap tk node sel hw1 w1"
  have w2: "aw_host w2 = aw_host w" "aw_nc w2 = aw_nc w1" using w1(1) assms(5) by (simp_all add: w2_def applyGPUCap_def)
  have "reconcileOnce tk w = applyCPUWatts tk (hwi_cpuVendor hw1) False None sel watts fromPct note w2"
    using assms(3,14) w1 by (simp add: reconcileOnce_def assms(1) D R G applyCaps_def w2_def controlClientFromTelemetry_def)
  then have A: "applyCPUWatts tk (discoverCPUVendor (kn_labels node)) False None sel watts fromPct note w2 = (err, w')"
    using assms(17) w1(2) by simp
  show ?thesis
    using applyCPUWatts_rapl [OF assms(11,12,15,16) _ _ A] assms(13) w1(4) unfolding w2 by blast
qed

definition exampleTick :: "Kernel \<Rightarrow> V1NodeTwin \<Rightarrow> TickEnv" where
  "exampleTick k twin =
     \<lparr>tk_now = 0, tk_fmtTime = exampleStamp, tk_kernel = k, tk_govCfg = \<lparr>agc_writes = False, agc_restoreOnExit = True\<rparr>, tk_remote = False,
      tk_parseFloat = (\<lambda>_. None), tk_fmtFloat = (\<lambda>_. []), tk_fmt = (\<lambda>_ _. []), tk_catalog = None, tk_toolFailures = 0,
      tk_getNode = Inr (Agent_Hardware.exampleNode\<lparr>kn_labels := [''feature.node.kubernetes.io/cpu-vendor'' \<mapsto> ''Intel'']\<rparr>), tk_getTwin = Inr twin,
      tk_getHardware = Inl NotFoundErr, tk_telemetry = None, tk_control = (\<lambda>_ _ _ _. None), tk_gpuControl = (\<lambda>_ _ _. None),
      tk_reading = (\<lambda>_. Inr None), tk_codec = exampleCodec, tk_actionText = (\<lambda>_. [])\<rparr>"

definition exampleController :: "bool \<Rightarrow> NodeController" where
  "exampleController simulate =
     \<lparr>nc_nodeName = ''n1'', nc_dvfs = None, nc_simulateOnly = simulate, nc_lastRaplKey = [], nc_lastSuccessfulSpecRead = Some (- 600000000000),
      nc_specReadTimeout = 300000000000, nc_capsRelaxed = False, nc_governor = newGovernorControl\<lparr>gco_loaded := True\<rparr>, nc_gpuFacts = None,
      nc_httpThrottleCleared = False, nc_amdCaps = Map.empty\<rparr>"

definition exampleAgent :: "bool \<Rightarrow> AgentWorld" where
  "exampleAgent simulate = \<lparr>aw_nc = exampleController simulate, aw_host = exampleRAPLHost, aw_api = exampleApi, aw_hw = exampleHwStore\<rparr>"

text \<open>The twin of node \<open>n1\<close> with a cap of 180 W.\<close>

definition exampleCapTwin :: V1NodeTwin where
  "exampleCapTwin = \<lparr>nt_spec = \<lparr>nsp_nodeName = ''n1'', nsp_profile = ''eco'',
      nsp_cpu = Some \<lparr>ntc_packagePowerCapWatts = Some 180, ntc_packagePowerCapPctOfMax = None, ntc_governor = None\<rparr>,
      nsp_gpu = None, nsp_policy = None, nsp_scheduling = None\<rparr>, nt_status = emptyTwinStatus\<rparr>"

theorem simulate_only_tick_witness:
  "aw_host (snd (reconcileOnce (exampleTick (exampleKernel (\<lambda>_. True)) exampleCapTwin) (exampleAgent True))) = exampleRAPLHost"
proof -
  obtain err w' where R: "reconcileOnce (exampleTick (exampleKernel (\<lambda>_. True)) exampleCapTwin) (exampleAgent True) = (err, w')" by fastforce
  have "nc_simulateOnly (aw_nc (exampleAgent True))" by (simp add: exampleAgent_def exampleController_def)
  from simulate_only_tick [OF this R] show ?thesis unfolding R by (simp add: exampleAgent_def)
qed

text \<open>The same node not simulated, with an API server that does not answer for ten minutes.\<close>

theorem stale_spec_keeps_caps_witness:
  "aw_host (snd (reconcileOnce ((exampleTick (exampleKernel (\<lambda>_. True)) exampleCapTwin)\<lparr>tk_getTwin := Inl (OtherErr ''timeout'')\<rparr>) (exampleAgent False))) = exampleRAPLHost"
proof -
  let ?tk = "(exampleTick (exampleKernel (\<lambda>_. True)) exampleCapTwin)\<lparr>tk_getTwin := Inl (OtherErr ''timeout'')\<rparr>"
  obtain err w' where R: "reconcileOnce ?tk (exampleAgent False) = (err, w')" by fastforce
  have "resolveDesiredStateForNode (tk_getTwin ?tk) (nc_nodeName (aw_nc (exampleAgent False))) = Inl (''get NodeTwin: '' @ ''timeout'')"
    by (simp add: resolveDesiredStateForNode_def getNodeTwinSpec_def)
  from stale_spec_keeps_caps [OF _ this _ _ _ _ R] have "aw_host w' = aw_host (exampleAgent False)"
    by (simp add: exampleAgent_def exampleController_def exampleTick_def newGovernorControl_def newComponent_def)
  then show ?thesis unfolding R by (simp add: exampleAgent_def)
qed

lemma poolNodes_dom: "dom (pw_controllers (fold (poolNode tk start) names p)) = dom (pw_controllers p) \<union> set names"
  by (induction names arbitrary: p) (auto simp: poolNode_def Let_def)

text \<open>C31: After a turn of the pool loop with a listing, a pool agent has a controller for exactly the listed nodes of its
  shard, whatever it had before, and of the pods a pool of that size can have exactly one has a controller for a listed node:
  no node is reconciled twice and none is left out.\<close>

theorem poolTick_controllers:
  assumes "1 \<le> shards" "shards < 2 ^ 32"
  shows "(\<forall>i. dom (pw_controllers (poolTick tk start shards i (Inr names) p)) = {n \<in> set names. ownsNodeForShard n shards i}) \<and>
    (\<forall>n. n \<in> set names \<longrightarrow> (\<exists>!i. poolShardOk shards i \<and> n \<in> dom (pw_controllers (poolTick tk start shards i (Inr names) p))))"
proof -
  have D: "dom (pw_controllers (poolTick tk start shards i (Inr names) p)) = {n \<in> set names. ownsNodeForShard n shards i}" for i
    using poolNodes_dom [of tk start "filter (\<lambda>n. ownsNodeForShard n shards i) names" p]
    by (auto simp: poolTick_def Let_def dom_def split: if_splits)
  show ?thesis unfolding D using shards_partition [OF assms] by simp
qed

definition examplePool :: PoolWorld where
  "examplePool = \<lparr>pw_controllers = Map.empty, pw_amdCaps = Map.empty, pw_host = exampleRAPLHost, pw_api = exampleApi, pw_hw = exampleHwStore\<rparr>"

theorem poolTick_controllers_witness:
  "\<exists>!i. poolShardOk 3 i \<and> ''n1'' \<in> dom (pw_controllers (poolTick (\<lambda>_. exampleTick (exampleKernel (\<lambda>_. True)) exampleCapTwin)
     (\<lambda>_. exampleController False) 3 i (Inr [''n1'', ''n2'']) examplePool))"
proof -
  have "''n1'' \<in> set [''n1'', ''n2'']" "(1::int) \<le> 3" "(3::int) < 2 ^ 32" by simp_all
  with poolTick_controllers show ?thesis by blast
qed

end
