(* ===== verification/Pod_Cache.thy ===== *)
theory Pod_Cache
  imports Controller_Plan
begin

text \<open>
  The pod cache of the controller manager (\<^verbatim>\<open>cmd/controller-manager/reader.go\<close>): what the informer keeps of a pod, and
  the index by node name that answers the per-node list. A \<open>PodObject\<close> is a pod as the API server sends it: the fields
  the state machine reads, the identity the cache keeps, and the names of the fields it drops.
\<close>

section \<open>What the cache keeps\<close>

record PodObject = Pod +
  po_name :: string
  po_namespace :: string
  po_uid :: string
  po_resourceVersion :: string
  po_labels :: strmap
  po_ownerReferences :: "string list"
  po_nodeName :: string
  po_otherFields :: "string list"

definition podNodeNameIndex :: "PodObject \<Rightarrow> string list" where
  "podNodeNameIndex pod = (if po_nodeName pod = [] then [] else [po_nodeName pod])"

text \<open>The entries of a resource list that are GPU resources; the nil map is the empty list.\<close>

definition gpuEntries :: "ResourceList \<Rightarrow> ResourceList" where
  "gpuEntries rl = filter (\<lambda>(name, q). GPUResourceKind name \<noteq> []) rl"

fun gpuResourcesOnly :: "Container list \<Rightarrow> Container list" where
  "gpuResourcesOnly [] = []"
| "gpuResourcesOnly (c # cs) =
     (let requests = gpuEntries (con_requests c); limits = gpuEntries (con_limits c)
      in if requests = [] \<and> limits = [] then gpuResourcesOnly cs
         else \<lparr>con_requests = requests, con_limits = limits, con_restartPolicy = con_restartPolicy c\<rparr> # gpuResourcesOnly cs)"

definition podTransform :: "PodObject \<Rightarrow> PodObject" where
  "podTransform pod =
     \<lparr>pod_annotations = pod_annotations pod, pod_nodeSelector = pod_nodeSelector pod, pod_affinity = pod_affinity pod,
      pod_deletionTimestamp = pod_deletionTimestamp pod, pod_phase = pod_phase pod,
      pod_containers = gpuResourcesOnly (pod_containers pod), pod_initContainers = gpuResourcesOnly (pod_initContainers pod),
      po_name = po_name pod, po_namespace = po_namespace pod, po_uid = po_uid pod, po_resourceVersion = po_resourceVersion pod,
      po_labels = po_labels pod, po_ownerReferences = po_ownerReferences pod, po_nodeName = po_nodeName pod, po_otherFields = []\<rparr>"

text \<open>The lists a reconcile gets from a cache that holds \<open>pods\<close>: all of them, and those of one node through the index.\<close>

definition cachedCluster ::
  "goerr + KNode list \<Rightarrow> PodObject list \<Rightarrow> ListErr + (string \<times> V1NodeHardware) list \<Rightarrow> Cluster" where
  "cachedCluster nodes pods hardware =
     \<lparr>cl_nodes = nodes, cl_pods = Inr (map Pod.truncate pods),
      cl_podsOn = (\<lambda>n. Inr (map Pod.truncate (filter (\<lambda>p. n \<in> set (podNodeNameIndex p)) pods))), cl_nodeHardware = hardware\<rparr>"

section \<open>Lemmas: GPU units\<close>

lemma addUnits_gpuEntries: "addUnits seen units (gpuEntries rl) = addUnits seen units rl"
  by (induction seen units rl rule: addUnits.induct) (auto simp: gpuEntries_def)

lemma containerGPUUnits_gpuEntries:
  "containerGPUUnits \<lparr>con_requests = gpuEntries (con_requests c), con_limits = gpuEntries (con_limits c), con_restartPolicy = r\<rparr> = containerGPUUnits c"
  by (simp add: containerGPUUnits_def addUnits_gpuEntries)

text \<open>A container without GPU entries has no units, so leaving it out changes nothing.\<close>

lemma containerGPUUnits_none: "gpuEntries (con_requests c) = [] \<Longrightarrow> gpuEntries (con_limits c) = [] \<Longrightarrow> containerGPUUnits c = 0"
  by (metis addUnits.simps(1) addUnits_gpuEntries case_prod_conv containerGPUUnits_def snd_conv)

lemma gpuResourcesOnly_units: "sum_list (map containerGPUUnits (gpuResourcesOnly cs)) = sum_list (map containerGPUUnits cs)"
  by (induction cs) (simp_all add: Let_def containerGPUUnits_none containerGPUUnits_gpuEntries)

lemma initUnits_gpuResourcesOnly: "0 \<le> initMax \<Longrightarrow> initUnits acc initMax (gpuResourcesOnly cs) = initUnits acc initMax cs"
  by (induction cs arbitrary: acc initMax) (simp_all add: Let_def containerGPUUnits_none containerGPUUnits_gpuEntries)

lemmas pod_fields = Pod.defs

lemma PodGPUUnits_podTransform: "PodGPUUnits (Pod.truncate (podTransform p)) = PodGPUUnits (Pod.truncate p)"
  by (simp add: PodGPUUnits_def podTransform_def pod_fields gpuResourcesOnly_units initUnits_gpuResourcesOnly)

lemma IsPerformanceSensitivePod_podTransform:
  "IsPerformanceSensitivePod (Pod.truncate (podTransform p)) = IsPerformanceSensitivePod (Pod.truncate p)"
  by (simp add: IsPerformanceSensitivePod_def PodExcludesEco_def requiredTerms_def podTransform_def pod_fields)

lemma transform_frame:
  "pod_phase (Pod.truncate (podTransform p)) = pod_phase (Pod.truncate p)"
  "pod_deletionTimestamp (Pod.truncate (podTransform p)) = pod_deletionTimestamp (Pod.truncate p)"
  "podNodeNameIndex (podTransform p) = podNodeNameIndex p"
  by (simp_all add: podTransform_def pod_fields podNodeNameIndex_def)

lemma counts_podTransform:
  "CountPerformanceDemand (map (Pod.truncate \<circ> podTransform) ps) = CountPerformanceDemand (map Pod.truncate ps)"
  "CountPerformanceSensitivePods (map (Pod.truncate \<circ> podTransform) ps) = CountPerformanceSensitivePods (map Pod.truncate ps)"
  "HasRunningMultiGPUPod (map (Pod.truncate \<circ> podTransform) ps) = HasRunningMultiGPUPod (map Pod.truncate ps)"
  by (induction ps) (simp_all add: transform_frame IsPerformanceSensitivePod_podTransform PodGPUUnits_podTransform)

lemma filter_index_podTransform:
  "filter (\<lambda>p. n \<in> set (podNodeNameIndex p)) (map podTransform ps) = map podTransform (filter (\<lambda>p. n \<in> set (podNodeNameIndex p)) ps)"
  by (simp add: filter_map comp_def transform_frame)

lemma cluster_counts:
  "performancePodDemand (cachedCluster ns (map podTransform pods) hs) = performancePodDemand (cachedCluster ns pods hs)"
  "RunningPerformanceSensitivePodCount (cl_podsOn (cachedCluster ns (map podTransform pods) hs)) =
     RunningPerformanceSensitivePodCount (cl_podsOn (cachedCluster ns pods hs))"
  "runningMultiGPUPodOnNode (cachedCluster ns (map podTransform pods) hs) = runningMultiGPUPodOnNode (cachedCluster ns pods hs)"
  "cl_nodes (cachedCluster ns (map podTransform pods) hs) = cl_nodes (cachedCluster ns pods hs)"
  "cl_nodeHardware (cachedCluster ns (map podTransform pods) hs) = cl_nodeHardware (cachedCluster ns pods hs)"
  by (auto simp: cachedCluster_def performancePodDemand_def RunningPerformanceSensitivePodCount_def runningMultiGPUPodOnNode_def
      fun_eq_iff filter_index_podTransform counts_podTransform)

section \<open>Property\<close>

text \<open>C17: Dropping pod fields in the cache changes no plan. The plan a reconcile makes from a cache of transformed pods,
  found by node through the index, is the plan it would make from the pods as the API server sends them, whatever the nodes,
  the pods, the hardware and the configuration: same profiles, drains, caps and governor intents, same error.\<close>

theorem pod_cache_equivalent:
  "planReconcile cfg (cachedCluster ns (map podTransform pods) hs) u = planReconcile cfg (cachedCluster ns pods hs) u"
  unfolding planReconcile_def buildPlanByPolicy_def capNode_def cluster_counts ..

end
