(* ===== verification/Prom_Names.thy ===== *)
theory Prom_Names
  imports Go_Prelude
begin

text \<open>
  The names of Joulie's metrics: the entries of \<^verbatim>\<open>pkg/otel/semconv\<close> the controller manager reads, and their Prometheus
  spelling under each translation strategy (\<^verbatim>\<open>pkg/otel/promname/promname.go\<close>). Names are ASCII, as every entry of the
  table is, so a character of the model is a rune of the code.
\<close>

section \<open>Metrics\<close>

datatype Kind = Counter | Gauge | UpDownCounter | Histogram

record Metric =
  me_name :: string
  me_unit :: string
  me_kind :: Kind

definition HwHostEnergy :: Metric where "HwHostEnergy = \<lparr>me_name = ''hw.host.energy'', me_unit = ''J'', me_kind = Counter\<rparr>"
definition HwHostPower :: Metric where "HwHostPower = \<lparr>me_name = ''hw.host.power'', me_unit = ''W'', me_kind = Gauge\<rparr>"
definition HwHostAmbientTemperature :: Metric where
  "HwHostAmbientTemperature = \<lparr>me_name = ''hw.host.ambient_temperature'', me_unit = ''Cel'', me_kind = Gauge\<rparr>"
definition HwEnergy :: Metric where "HwEnergy = \<lparr>me_name = ''hw.energy'', me_unit = ''J'', me_kind = Counter\<rparr>"
definition HwPower :: Metric where "HwPower = \<lparr>me_name = ''hw.power'', me_unit = ''W'', me_kind = Gauge\<rparr>"
definition HwGPUUtilization :: Metric where "HwGPUUtilization = \<lparr>me_name = ''hw.gpu.utilization'', me_unit = ''1'', me_kind = Gauge\<rparr>"
definition JoulieFacilityAmbientTemperature :: Metric where
  "JoulieFacilityAmbientTemperature = \<lparr>me_name = ''joulie.facility.ambient_temperature'', me_unit = ''Cel'', me_kind = Gauge\<rparr>"
definition JoulieFacilityITEnergy :: Metric where
  "JoulieFacilityITEnergy = \<lparr>me_name = ''joulie.facility.it.energy'', me_unit = ''J'', me_kind = Counter\<rparr>"
definition JoulieFacilityITPower :: Metric where
  "JoulieFacilityITPower = \<lparr>me_name = ''joulie.facility.it.power'', me_unit = ''W'', me_kind = Gauge\<rparr>"
definition JoulieFacilityCoolingEnergy :: Metric where
  "JoulieFacilityCoolingEnergy = \<lparr>me_name = ''joulie.facility.cooling.energy'', me_unit = ''J'', me_kind = Counter\<rparr>"
definition JoulieFacilityCoolingPower :: Metric where
  "JoulieFacilityCoolingPower = \<lparr>me_name = ''joulie.facility.cooling.power'', me_unit = ''W'', me_kind = Gauge\<rparr>"
definition JoulieCoolingZoneAmbientTemperature :: Metric where
  "JoulieCoolingZoneAmbientTemperature = \<lparr>me_name = ''joulie.cooling_zone.ambient_temperature'', me_unit = ''Cel'', me_kind = Gauge\<rparr>"
definition JoulieRackEnergy :: Metric where "JoulieRackEnergy = \<lparr>me_name = ''joulie.rack.energy'', me_unit = ''J'', me_kind = Counter\<rparr>"
definition JoulieRackPower :: Metric where "JoulieRackPower = \<lparr>me_name = ''joulie.rack.power'', me_unit = ''W'', me_kind = Gauge\<rparr>"

definition NodeInputs :: "Metric list" where
  "NodeInputs = [HwEnergy, HwPower, HwHostEnergy, HwHostPower]"

definition FacilityInputMetrics :: "Metric list" where
  "FacilityInputMetrics =
     [JoulieFacilityAmbientTemperature, JoulieFacilityITEnergy, JoulieFacilityITPower, JoulieFacilityCoolingEnergy,
      JoulieFacilityCoolingPower, JoulieCoolingZoneAmbientTemperature, JoulieRackEnergy, JoulieRackPower, HwHostAmbientTemperature]"

section \<open>Strategies\<close>

text \<open>A strategy is its spelling; a string outside the four behaves as the default.\<close>

type_synonym Strategy = string

abbreviation UnderscoreEscapingWithSuffixes :: Strategy where "UnderscoreEscapingWithSuffixes \<equiv> ''UnderscoreEscapingWithSuffixes''"
abbreviation NoUTF8EscapingWithSuffixes :: Strategy where "NoUTF8EscapingWithSuffixes \<equiv> ''NoUTF8EscapingWithSuffixes''"
abbreviation UnderscoreEscapingWithoutSuffixes :: Strategy where "UnderscoreEscapingWithoutSuffixes \<equiv> ''UnderscoreEscapingWithoutSuffixes''"
abbreviation NoTranslation :: Strategy where "NoTranslation \<equiv> ''NoTranslation''"

definition Strategies :: "Strategy list" where
  "Strategies = [UnderscoreEscapingWithSuffixes, NoUTF8EscapingWithSuffixes, UnderscoreEscapingWithoutSuffixes, NoTranslation]"

definition ParseStrategy :: "string \<Rightarrow> goerr + Strategy" where
  "ParseStrategy s =
     (case find (EqualFold s) Strategies of
        Some st \<Rightarrow> Inr st
      | None \<Rightarrow> Inl (''promname: unknown translation strategy '' @ s @ '', want one of '' @ Join Strategies '', ''))"

definition Escapes :: "Strategy \<Rightarrow> bool" where
  "Escapes s \<longleftrightarrow> s \<noteq> NoUTF8EscapingWithSuffixes \<and> s \<noteq> NoTranslation"

definition hasSuffixes :: "Strategy \<Rightarrow> bool" where
  "hasSuffixes s \<longleftrightarrow> s \<noteq> UnderscoreEscapingWithoutSuffixes \<and> s \<noteq> NoTranslation"

section \<open>Characters and tokens\<close>

definition isDigit :: "char \<Rightarrow> bool" where
  "isDigit r \<longleftrightarrow> CHR ''0'' \<le> r \<and> r \<le> CHR ''9''"

definition compliantLabelChar :: "char \<Rightarrow> bool" where
  "compliantLabelChar r \<longleftrightarrow> (CHR ''a'' \<le> r \<and> r \<le> CHR ''z'') \<or> (CHR ''A'' \<le> r \<and> r \<le> CHR ''Z'') \<or> isDigit r"

definition compliantMetricChar :: "char \<Rightarrow> bool" where
  "compliantMetricChar r \<longleftrightarrow> compliantLabelChar r \<or> r = CHR '':''"

definition containsToken :: "string list \<Rightarrow> string \<Rightarrow> bool" where
  "containsToken tokens v \<longleftrightarrow> v \<in> set tokens"

definition removeToken :: "string list \<Rightarrow> string \<Rightarrow> string list" where
  "removeToken tokens v = filter (\<lambda>t. t \<noteq> v) tokens"

definition trimSuffixAndDelimiter :: "string \<Rightarrow> string \<Rightarrow> string" where
  "trimSuffixAndDelimiter name suffix =
     (if HasSuffix name suffix \<and> length name > length suffix + 1 then take (length name - (length suffix + 1)) name else name)"

fun collapseUnderscores :: "bool \<Rightarrow> string \<Rightarrow> string" where
  "collapseUnderscores prev [] = []"
| "collapseUnderscores prev (r # s) =
     (if r = CHR ''_'' then (if prev then collapseUnderscores True s else r # collapseUnderscores True s)
      else r # collapseUnderscores False s)"

definition cleanUpUnit :: "string \<Rightarrow> string" where
  "cleanUpUnit unit = TrimPrefix (collapseUnderscores False (map (\<lambda>r. if compliantMetricChar r then r else CHR ''_'') unit)) ''_''"

definition sanitizeLabelName :: "string \<Rightarrow> string" where
  "sanitizeLabelName name = map (\<lambda>r. if compliantLabelChar r then r else CHR ''_'') name"

section \<open>Units\<close>

definition unitWords :: "(string \<times> string) list" where
  "unitWords =
     [(''d'', ''days''), (''h'', ''hours''), (''min'', ''minutes''), (''s'', ''seconds''), (''ms'', ''milliseconds''),
      (''us'', ''microseconds''), (''ns'', ''nanoseconds''), (''By'', ''bytes''), (''KiBy'', ''kibibytes''), (''MiBy'', ''mebibytes''),
      (''GiBy'', ''gibibytes''), (''TiBy'', ''tibibytes''), (''KBy'', ''kilobytes''), (''MBy'', ''megabytes''), (''GBy'', ''gigabytes''),
      (''TBy'', ''terabytes''), (''m'', ''meters''), (''V'', ''volts''), (''A'', ''amperes''), (''J'', ''joules''), (''W'', ''watts''),
      (''g'', ''grams''), (''Cel'', ''celsius''), (''Hz'', ''hertz''), (''1'', []), (''%'', ''percent'')]"

definition perUnitWords :: "(string \<times> string) list" where
  "perUnitWords =
     [(''s'', ''second''), (''m'', ''minute''), (''h'', ''hour''), (''d'', ''day''), (''w'', ''week''), (''mo'', ''month''), (''y'', ''year'')]"

text \<open>The word of one part of a unit; a blank part or an annotation in braces adds nothing.\<close>

definition unitWord :: "(string \<times> string) list \<Rightarrow> string \<Rightarrow> string" where
  "unitWord words part =
     (let u = TrimSpace part
      in if u = [] \<or> CHR ''{'' \<in> set u \<or> CHR ''}'' \<in> set u then [] else case map_of words u of Some w \<Rightarrow> w | None \<Rightarrow> u)"

definition unitSuffixes :: "string \<Rightarrow> string \<times> string" where
  "unitSuffixes unit =
     (case Cut unit (CHR ''/'') of
        (part, rest, _) \<Rightarrow>
          (let per = unitWord perUnitWords rest in (unitWord unitWords part, if per \<noteq> [] then ''per_'' @ per else [])))"

section \<open>Metric and label names\<close>

definition utf8MetricName :: "string \<Rightarrow> string \<Rightarrow> bool \<Rightarrow> bool \<Rightarrow> string" where
  "utf8MetricName name unit counter gauge =
     (case unitSuffixes unit of (main, per) \<Rightarrow>
        let ratio = (unit = ''1'' \<and> gauge);
            name = (if ratio then trimSuffixAndDelimiter name ''ratio'' else name);
            name = (if counter then trimSuffixAndDelimiter name ''total'' else name);
            name = (if per \<noteq> [] then trimSuffixAndDelimiter name per else name);
            name = (if main \<noteq> [] \<and> \<not> HasSuffix name main then name @ ''_'' @ main else name);
            name = (if per \<noteq> [] then name @ ''_'' @ per else name);
            name = (if counter then name @ ''_total'' else name)
        in if ratio then name @ ''_ratio'' else name)"

definition addUnitTokens :: "string list \<Rightarrow> string \<Rightarrow> string \<Rightarrow> string list" where
  "addUnitTokens tokens main per =
     (let main = (if containsToken tokens main then [] else main);
          per = (if per = ''per_'' then []
                 else (let per = TrimSuffix per ''_'' in if containsToken tokens per then [] else per));
          main = (if per \<noteq> [] then TrimSuffix main ''_'' else main)
      in tokens @ (if main \<noteq> [] then [main] else []) @ (if per \<noteq> [] then [per] else []))"

text \<open>A name must not start with a digit.\<close>

definition guardDigit :: "string \<Rightarrow> string \<Rightarrow> string" where
  "guardDigit prefix out = (if out \<noteq> [] \<and> isDigit (hd out) then prefix @ out else out)"

definition escapedMetricName :: "string \<Rightarrow> string \<Rightarrow> bool \<Rightarrow> bool \<Rightarrow> string" where
  "escapedMetricName name unit counter gauge =
     (case unitSuffixes unit of (main, per) \<Rightarrow>
        let tokens = addUnitTokens (FieldsFunc name (\<lambda>r. \<not> compliantMetricChar r)) (cleanUpUnit main) (cleanUpUnit per);
            tokens = (if counter then removeToken tokens ''total'' @ [''total''] else tokens);
            tokens = (if unit = ''1'' \<and> gauge then removeToken tokens ''ratio'' @ [''ratio''] else tokens)
        in guardDigit ''_'' (Join tokens ''_''))"

definition onlyUnderscores :: "string \<Rightarrow> bool" where
  "onlyUnderscores s \<longleftrightarrow> (\<forall>c \<in> set s. c = CHR ''_'')"

definition MetricName :: "Strategy \<Rightarrow> Metric \<Rightarrow> string" where
  "MetricName s m =
     (let counter = (me_kind m = Counter); gauge = (me_kind m = Gauge)
      in if \<not> Escapes s
         then (if \<not> hasSuffixes s then me_name m else utf8MetricName (me_name m) (me_unit m) counter gauge)
         else (let out = (if hasSuffixes s then escapedMetricName (me_name m) (me_unit m) counter gauge
                          else guardDigit ''_'' (Join (FieldsFunc (me_name m) (\<lambda>r. \<not> compliantMetricChar r \<and> r \<noteq> CHR ''_'')) ''_''))
               in if out = [] \<or> (out \<noteq> me_name m \<and> onlyUnderscores out) then [] else out))"

definition LabelName :: "Strategy \<Rightarrow> string \<Rightarrow> string" where
  "LabelName s attr =
     (if attr = [] then []
      else if \<not> Escapes s then (if onlyUnderscores attr then [] else attr)
      else (let out = sanitizeLabelName attr;
                out = (if isDigit (hd out) then ''key_'' @ out
                       else if HasPrefix out ''_'' \<and> \<not> HasPrefix out ''__'' then ''key'' @ out else out)
            in if onlyUnderscores out then [] else out))"

section \<open>Lemmas: the characters of a name\<close>

lemma fieldsFrom_chars: "t \<in> set (fieldsFrom sep cur s) \<Longrightarrow> c \<in> set t \<Longrightarrow> c \<in> set cur \<or> \<not> sep c"
  by (induction sep cur s rule: fieldsFrom.induct) (auto split: if_splits)

lemma FieldsFunc_chars: "t \<in> set (FieldsFunc s sep) \<Longrightarrow> c \<in> set t \<Longrightarrow> \<not> sep c"
  using fieldsFrom_chars [of t sep "[]" s c] by (auto simp: FieldsFunc_def)

lemma Join_chars: "c \<in> set (Join ts sep) \<Longrightarrow> c \<in> set sep \<or> (\<exists>t \<in> set ts. c \<in> set t)"
  by (induction ts sep rule: Join.induct) auto

lemma collapseUnderscores_chars: "set (collapseUnderscores prev s) \<subseteq> set s"
  by (induction prev s rule: collapseUnderscores.induct) auto

lemma set_TrimPrefix: "set (TrimPrefix s p) \<subseteq> set s"
  by (auto simp: TrimPrefix_def dest: in_set_dropD)

lemma set_TrimSuffix: "set (TrimSuffix s p) \<subseteq> set s"
  by (auto simp: TrimSuffix_def dest: in_set_takeD)

text \<open>The characters of a Prometheus name without quotes.\<close>

definition metricChar :: "char \<Rightarrow> bool" where
  "metricChar c \<longleftrightarrow> compliantMetricChar c \<or> c = CHR ''_''"

lemma cleanUpUnit_chars: "c \<in> set (cleanUpUnit u) \<Longrightarrow> metricChar c"
  using set_TrimPrefix collapseUnderscores_chars unfolding cleanUpUnit_def metricChar_def by fastforce

lemma addUnitTokens_chars:
  assumes "\<forall>t \<in> set tokens. \<forall>c \<in> set t. metricChar c" "\<forall>c \<in> set main. metricChar c" "\<forall>c \<in> set per. metricChar c"
    and "t \<in> set (addUnitTokens tokens main per)" "c \<in> set t"
  shows "metricChar c"
  using assms set_TrimSuffix [of per "''_''"] set_TrimSuffix [of main "''_''"] set_TrimSuffix [of "[]" "''_''"]
  unfolding addUnitTokens_def Let_def by (auto split: if_splits)

lemma guardDigit_chars: "c \<in> set (guardDigit ''_'' out) \<Longrightarrow> c \<in> set out \<or> c = CHR ''_''"
  by (auto simp: guardDigit_def split: if_splits)

lemma guardDigit_first: "guardDigit ''_'' out = c # rest \<Longrightarrow> \<not> isDigit c"
  by (cases out) (auto simp: guardDigit_def isDigit_def split: if_splits)

lemma word_chars: "\<forall>c \<in> set ''total''. metricChar c" "\<forall>c \<in> set ''ratio''. metricChar c"
  by code_simp+

lemma escapedMetricName_chars: "c \<in> set (escapedMetricName name unit counter gauge) \<Longrightarrow> metricChar c"
proof -
  obtain main per where U: "unitSuffixes unit = (main, per)" by fastforce
  define base where "base = addUnitTokens (FieldsFunc name (\<lambda>r. \<not> compliantMetricChar r)) (cleanUpUnit main) (cleanUpUnit per)"
  have base: "metricChar c" if "t \<in> set base" "c \<in> set t" for t c
    using addUnitTokens_chars [OF _ _ _ that [unfolded base_def]] FieldsFunc_chars cleanUpUnit_chars by (auto simp: metricChar_def)
  have moved: "metricChar c" if "t \<in> set (removeToken ts w @ [w])" "c \<in> set t" "\<forall>t \<in> set ts. \<forall>c \<in> set t. metricChar c" "\<forall>c \<in> set w. metricChar c"
    for t c ts w using that by (auto simp: removeToken_def)
  assume "c \<in> set (escapedMetricName name unit counter gauge)"
  then show ?thesis
    using base moved word_chars unfolding escapedMetricName_def U prod.case Let_def base_def [symmetric]
    by (auto dest!: guardDigit_chars Join_chars simp: metricChar_def [of "CHR ''_''"] split: if_splits)
qed

lemma MetricName_escaped:
  assumes "Escapes s" "MetricName s m = c # rest"
  shows "\<not> isDigit c \<and> (\<forall>x \<in> set (c # rest). metricChar x)"
proof -
  define out where "out = (if hasSuffixes s then escapedMetricName (me_name m) (me_unit m) (me_kind m = Counter) (me_kind m = Gauge)
    else guardDigit ''_'' (Join (FieldsFunc (me_name m) (\<lambda>r. \<not> compliantMetricChar r \<and> r \<noteq> CHR ''_'')) ''_''))"
  have out: "out = c # rest" using assms by (simp add: MetricName_def Let_def out_def [symmetric] split: if_splits)
  have "metricChar x" if "x \<in> set out" for x
    using that escapedMetricName_chars [of x] unfolding out_def
    by (auto dest!: guardDigit_chars Join_chars FieldsFunc_chars simp: metricChar_def split: if_splits)
  moreover have "\<not> isDigit c"
    using guardDigit_first out unfolding out_def escapedMetricName_def by (auto simp: Let_def split: if_splits prod.splits)
  ultimately show ?thesis using out by simp
qed

lemma sanitize_chars: "c \<in> set (sanitizeLabelName a) \<Longrightarrow> compliantLabelChar c \<or> c = CHR ''_''"
  by (auto simp: sanitizeLabelName_def)

lemma LabelName_escaped:
  assumes "Escapes s" "LabelName s a = c # rest"
  shows "\<not> isDigit c \<and> (\<forall>x \<in> set (c # rest). compliantLabelChar x \<or> x = CHR ''_'')"
proof -
  have ne: "a \<noteq> []" using assms by (auto simp: LabelName_def)
  then obtain d r where d: "sanitizeLabelName a = d # r" by (cases a) (auto simp: sanitizeLabelName_def)
  have chars: "\<forall>x \<in> set (d # r). compliantLabelChar x \<or> x = CHR ''_''" unfolding d [symmetric] using sanitize_chars by blast
  have "\<forall>x \<in> set ''key_''. compliantLabelChar x \<or> x = CHR ''_''" "\<not> isDigit (CHR ''k'')" by code_simp+
  then show ?thesis
    using assms ne chars unfolding LabelName_def Let_def d
    by (auto split: if_splits)
qed

text \<open>Examples of the table, as the comments of the code give them.\<close>

lemma HwEnergy_names:
  "map (\<lambda>s. MetricName s HwEnergy) Strategies = [''hw_energy_joules_total'', ''hw.energy_joules_total'', ''hw_energy'', ''hw.energy'']"
  by code_simp

lemma node_label: "LabelName UnderscoreEscapingWithSuffixes ''k8s.node.name'' = ''k8s_node_name''"
  by code_simp

end
