(* ===== verification/Controller_Inputs.thy ===== *)
theory Controller_Inputs
  imports Prom_Names Go_Json
begin

text \<open>
  The measured inputs of the controller manager (\<^verbatim>\<open>pkg/controller/inputs\<close>): the PromQL a spec asks for (\<^verbatim>\<open>names.go\<close>,
  \<^verbatim>\<open>nodepower.go\<close>, \<^verbatim>\<open>facility.go\<close>), the unit and signal of the carbon intensity (\<^verbatim>\<open>carbon.go\<close>), and the answers of the
  Prometheus HTTP API (\<^verbatim>\<open>prom.go\<close>). Decoding JSON text is the parameter \<open>unmarshal\<close>; what the code then asks of the value
  is modelled, field names matched exactly. \<open>strconv.ParseFloat\<close> is the parameter \<open>parseFloat\<close>. A sample may be NaN or infinite,
  which no reader distinguishes further. Errors are the constructors of \<open>inputErr\<close> with the values their texts name.
\<close>

datatype sampleValue = Finite f64 | NotFinite

datatype inputErr =
    NoAddress
  | Unreachable string
  | AnswerTooLong
  | PromError int string string
  | NoData
  | BadSample
  | BadResult string
  | BadResultType string
  | DuplicateSeries nat string string
  | ManySeries nat
  | NotFiniteValue
  | WindowTooShort int
  | WindowNotSeconds int
  | PresetWithQuery string
  | PresetNeedsQuery
  | UnknownPreset string
  | UnknownScope string
  | NoHostScope
  | UnknownResourceAttributes string
  | UnknownNaming string
  | UnknownFacilityPreset string
  | UnknownFacilityInput string
  | BadCarbonUnit string
  | BadCarbonSignal string
  | NegativeCarbon f64

section \<open>Spelling PromQL\<close>

text \<open>The unquoted names of PromQL: \<open>[a-zA-Z_][a-zA-Z0-9_]*\<close> for labels, with colons for metrics.\<close>

definition legacyLabel :: "string \<Rightarrow> bool" where
  "legacyLabel s \<longleftrightarrow> s \<noteq> [] \<and> \<not> isDigit (hd s) \<and> list_all (\<lambda>c. compliantLabelChar c \<or> c = CHR ''_'') s"

definition isBareMetricName :: "string \<Rightarrow> bool" where
  "isBareMetricName s \<longleftrightarrow> s \<noteq> [] \<and> \<not> isDigit (hd s) \<and> list_all metricChar s"

text \<open>\<open>strconv.Quote\<close> on ASCII text.\<close>

definition hexDigit :: "nat \<Rightarrow> char" where
  "hexDigit n = ''0123456789abcdef'' ! (n mod 16)"

definition quoteChar :: "char \<Rightarrow> string" where
  "quoteChar c =
     (if c = CHR 0x22 \<or> c = CHR 0x5C then [CHR 0x5C, c]
      else case map_of [(CHR 0x07, CHR ''a''), (CHR 0x08, CHR ''b''), (CHR 0x0C, CHR ''f''), (CHR 0x0A, CHR ''n''), (CHR 0x0D, CHR ''r''),
                        (CHR 0x09, CHR ''t''), (CHR 0x0B, CHR ''v'')] c of
             Some e \<Rightarrow> [CHR 0x5C, e]
           | None \<Rightarrow> if CHR '' '' \<le> c \<and> c \<le> CHR ''~'' then [c]
                     else [CHR 0x5C, CHR ''x'', hexDigit (of_char c div 16), hexDigit (of_char c)])"

definition Quote :: "string \<Rightarrow> string" where
  "Quote s = CHR 0x22 # concat (map quoteChar s) @ [CHR 0x22]"

definition labelName :: "string \<Rightarrow> string" where
  "labelName name = (if legacyLabel name then name else Quote name)"

definition labelList :: "string list \<Rightarrow> string" where
  "labelList names = ''('' @ Join (map labelName names) '', '' @ '')''"

record matcher =
  mt_label :: string
  mt_op :: string
  mt_value :: string

definition selector :: "string \<Rightarrow> matcher list \<Rightarrow> string" where
  "selector metric ms =
     (let quoted = \<not> isBareMetricName metric;
          parts = (if quoted then [Quote metric] else []) @ map (\<lambda>m. labelName (mt_label m) @ mt_op m @ Quote (mt_value m)) ms
      in if \<not> quoted then (if parts = [] then metric else metric @ ''{'' @ Join parts '', '' @ ''}'')
         else ''{'' @ Join parts '', '' @ ''}'')"

definition rate :: "string \<Rightarrow> string \<Rightarrow> string" where
  "rate sel window = ''rate('' @ sel @ ''['' @ window @ ''])''"

definition joinTargetInfo :: "string \<Rightarrow> string \<Rightarrow> string" where
  "joinTargetInfo x nodeLabel =
     (let on = labelList [''job'', ''instance'']
      in x @ '' * on '' @ on @ '' group_left '' @ labelList [nodeLabel] @ '' max by '' @ labelList [''job'', ''instance'', nodeLabel] @
         '' (target_info and on '' @ on @ '' '' @ x @ '')'')"

definition labelledOrJoined :: "string \<Rightarrow> string \<Rightarrow> string" where
  "labelledOrJoined metric nodeLabel =
     selector metric [\<lparr>mt_label = nodeLabel, mt_op = ''!='', mt_value = []\<rparr>] @ '' or '' @
     joinTargetInfo (selector metric [\<lparr>mt_label = nodeLabel, mt_op = ''='', mt_value = []\<rparr>]) nodeLabel"

text \<open>A closing parenthesis goes on a line of its own after text that may end in a comment.\<close>

definition wrapAggregation :: "string \<Rightarrow> string \<Rightarrow> string \<Rightarrow> string" where
  "wrapAggregation agg label q =
     (let end' = (if CHR ''#'' \<in> set q then [CHR 0x0A, CHR '')''] else '')'')
      in if label = [] then agg @ ''('' @ q @ end' else agg @ '' by '' @ labelList [label] @ '' ('' @ q @ end')"

record otelNames =
  on_node :: string
  on_hwType :: string
  on_hwID :: string
  on_zone :: string
  on_rack :: string
  on_energy :: string
  on_power :: string
  on_hostEnergy :: string
  on_hostPower :: string
  on_hostAmbient :: string
  on_facilityAmbient :: string
  on_facilityITEnergy :: string
  on_facilityITPower :: string
  on_facilityCoolingEnergy :: string
  on_facilityCoolingPower :: string
  on_zoneAmbient :: string
  on_rackEnergy :: string
  on_rackPower :: string

definition namesFor :: "Strategy \<Rightarrow> otelNames" where
  "namesFor s =
     \<lparr>on_node = LabelName s ''k8s.node.name'', on_hwType = LabelName s ''hw.type'', on_hwID = LabelName s ''hw.id'',
      on_zone = LabelName s ''joulie.cooling_zone.name'', on_rack = LabelName s ''joulie.rack.name'',
      on_energy = MetricName s HwEnergy, on_power = MetricName s HwPower, on_hostEnergy = MetricName s HwHostEnergy,
      on_hostPower = MetricName s HwHostPower, on_hostAmbient = MetricName s HwHostAmbientTemperature,
      on_facilityAmbient = MetricName s JoulieFacilityAmbientTemperature, on_facilityITEnergy = MetricName s JoulieFacilityITEnergy,
      on_facilityITPower = MetricName s JoulieFacilityITPower, on_facilityCoolingEnergy = MetricName s JoulieFacilityCoolingEnergy,
      on_facilityCoolingPower = MetricName s JoulieFacilityCoolingPower, on_zoneAmbient = MetricName s JoulieCoolingZoneAmbientTemperature,
      on_rackEnergy = MetricName s JoulieRackEnergy, on_rackPower = MetricName s JoulieRackPower\<rparr>"

definition parseNaming :: "Strategy \<Rightarrow> inputErr + Strategy" where
  "parseNaming s =
     (if s = [] then Inr UnderscoreEscapingWithSuffixes else case ParseStrategy s of Inr st \<Rightarrow> Inr st | Inl _ \<Rightarrow> Inl (UnknownNaming s))"

definition MinWindow :: int where "MinWindow = 10 * 1000000000"
definition DefaultWindow :: int where "DefaultWindow = 5 * 60 * 1000000000"

definition PromDuration :: "int \<Rightarrow> inputErr + string" where
  "PromDuration d =
     (if d < MinWindow then Inl (WindowTooShort d)
      else if d mod 60000000000 = 0 then Inr (Itoa (d div 60000000000) @ ''m'')
      else if d mod 1000000000 = 0 then Inr (Itoa (d div 1000000000) @ ''s'')
      else Inl (WindowNotSeconds d))"

section \<open>The node power query\<close>

abbreviation NodePowerPresetOTel :: string where "NodePowerPresetOTel \<equiv> ''otel''"
abbreviation NodePowerPresetKepler :: string where "NodePowerPresetKepler \<equiv> ''kepler''"
abbreviation NodePowerPresetKeplerLegacy :: string where "NodePowerPresetKeplerLegacy \<equiv> ''kepler-legacy''"
abbreviation NodePowerPresetCustom :: string where "NodePowerPresetCustom \<equiv> ''custom''"
abbreviation ScopeComponents :: string where "ScopeComponents \<equiv> ''components''"
abbreviation ScopeHost :: string where "ScopeHost \<equiv> ''host''"
abbreviation ResourceAttributesAuto :: string where "ResourceAttributesAuto \<equiv> ''auto''"
abbreviation ResourceAttributesLabels :: string where "ResourceAttributesLabels \<equiv> ''labels''"
abbreviation ResourceAttributesTargetInfo :: string where "ResourceAttributesTargetInfo \<equiv> ''target_info''"
abbreviation NodePlaceholder :: string where "NodePlaceholder \<equiv> ''{node}''"

record NodePowerSpec =
  ps_preset :: string
  ps_scope :: string
  ps_naming :: Strategy
  ps_resourceAttributes :: string
  ps_window :: int
  ps_nodeLabel :: string
  ps_customQuery :: string

record Query =
  q_promQL :: string
  q_groupLabel :: string
  q_perNode :: bool

definition noQuery :: Query where
  "noQuery = \<lparr>q_promQL = [], q_groupLabel = [], q_perNode = False\<rparr>"

definition defaultPreset :: "NodePowerSpec \<Rightarrow> string" where
  "defaultPreset s =
     (if ps_preset s \<noteq> [] then ps_preset s else if ps_customQuery s \<noteq> [] then NodePowerPresetCustom else NodePowerPresetOTel)"

definition checkPreset :: "string \<Rightarrow> string \<Rightarrow> inputErr option" where
  "checkPreset preset query =
     (if preset = NodePowerPresetOTel \<or> preset = NodePowerPresetKepler \<or> preset = NodePowerPresetKeplerLegacy
      then (if query \<noteq> [] then Some (PresetWithQuery preset) else None)
      else if preset = NodePowerPresetCustom then (if TrimSpace query = [] then Some PresetNeedsQuery else None)
      else Some (UnknownPreset preset))"

definition WithDefaults :: "NodePowerSpec \<Rightarrow> inputErr + NodePowerSpec" where
  "WithDefaults s =
     (let preset = defaultPreset s; scope = (if ps_scope s = [] then ScopeComponents else ps_scope s);
          attrs = (if ps_resourceAttributes s = [] then ResourceAttributesAuto else ps_resourceAttributes s)
      in case checkPreset preset (ps_customQuery s) of
           Some e \<Rightarrow> Inl e
         | None \<Rightarrow>
             if scope \<noteq> ScopeComponents \<and> scope \<noteq> ScopeHost then Inl (UnknownScope scope)
             else if preset = NodePowerPresetKepler \<and> scope = ScopeHost then Inl NoHostScope
             else if attrs \<noteq> ResourceAttributesAuto \<and> attrs \<noteq> ResourceAttributesLabels \<and> attrs \<noteq> ResourceAttributesTargetInfo
             then Inl (UnknownResourceAttributes attrs)
             else (case parseNaming (ps_naming s) of
                     Inl e \<Rightarrow> Inl e
                   | Inr naming \<Rightarrow>
                       Inr (s\<lparr>ps_preset := preset, ps_scope := scope, ps_resourceAttributes := attrs, ps_naming := naming,
                              ps_window := (if ps_window s = 0 then DefaultWindow else ps_window s)\<rparr>)))"

definition otelNodePower :: "otelNames \<Rightarrow> string \<Rightarrow> string \<Rightarrow> string \<Rightarrow> bool \<Rightarrow> string" where
  "otelNodePower n node scope window targetInfo =
     (let joined = (\<lambda>x. if targetInfo then joinTargetInfo x node else x)
      in if scope = ScopeHost
         then (let key = labelList [node]
               in ''max by '' @ key @ '' ('' @ joined (rate (selector (on_hostEnergy n) []) window) @ '') or on '' @ key @
                  '' max by '' @ key @ '' ('' @ joined (selector (on_hostPower n) []) @ '')'')
         else (let components = \<lparr>mt_label = on_hwType n, mt_op = ''=~'', mt_value = ''cpu|gpu''\<rparr>;
                   key = labelList [node, on_hwType n, on_hwID n]
               in ''sum by '' @ labelList [node] @ '' (max by '' @ key @ '' ('' @ joined (rate (selector (on_energy n) [components]) window) @
                  '') or on '' @ key @ '' max by '' @ key @ '' ('' @ joined (selector (on_power n) [components]) @ ''))''))"

definition keplerComponents :: "string \<Rightarrow> string \<Rightarrow> (string \<times> string) list \<Rightarrow> string" where
  "keplerComponents node window branches =
     ''sum by '' @ labelList [node] @ '' ('' @
     Join (map (\<lambda>(sel, component). ''label_replace('' @ rate sel window @ '', '' @ Quote ''joulie_component'' @ '', '' @ Quote component @
       '', '' @ Quote [] @ '', '' @ Quote [] @ '')'') branches) '' or '' @ '')''"

definition orLabel :: "string \<Rightarrow> string \<Rightarrow> string" where
  "orLabel own preset = (if own \<noteq> [] then own else preset)"

text \<open>The query of a spec whose defaults are filled in, and its target-info form under \<open>auto\<close>.\<close>

definition presetQuery :: "NodePowerSpec \<Rightarrow> string \<Rightarrow> Query \<times> Query" where
  "presetQuery s window =
     (if ps_preset s = NodePowerPresetOTel
      then (let n = namesFor (ps_naming s); node = orLabel (ps_nodeLabel s) (on_node n);
                form = (\<lambda>ti. \<lparr>q_promQL = otelNodePower n node (ps_scope s) window ti, q_groupLabel = node, q_perNode = False\<rparr>)
            in if ps_resourceAttributes s = ResourceAttributesLabels then (form False, noQuery)
               else if ps_resourceAttributes s = ResourceAttributesTargetInfo then (form True, noQuery)
               else (form False, form True))
      else if ps_preset s = NodePowerPresetKepler
      then (let node = orLabel (ps_nodeLabel s) ''node_name'';
                zones = \<lparr>mt_label = ''zone'', mt_op = ''=~'', mt_value = ''package(-[0-9]+-die-[0-9]+)?''\<rparr>
            in (\<lparr>q_promQL = keplerComponents node window
                   [(selector ''kepler_node_cpu_active_joules_total'' [zones], ''cpu_active''),
                    (selector ''kepler_node_cpu_idle_joules_total'' [zones], ''cpu_idle''),
                    (selector ''kepler_node_gpu_joules_total'' [], ''gpu'')], q_groupLabel = node, q_perNode = False\<rparr>, noQuery))
      else if ps_preset s = NodePowerPresetKeplerLegacy
      then (let node = orLabel (ps_nodeLabel s) ''exported_instance''
            in (\<lparr>q_promQL =
                   (if ps_scope s = ScopeHost
                    then ''sum by '' @ labelList [node] @ '' ('' @ rate (selector ''kepler_node_platform_joules_total'' []) window @ '')''
                    else keplerComponents node window
                      [(selector ''kepler_node_package_joules_total'' [], ''cpu''), (selector ''kepler_node_gpu_joules_total'' [], ''gpu'')]),
                 q_groupLabel = node, q_perNode = False\<rparr>, noQuery))
      else if Contains (ps_customQuery s) NodePlaceholder
      then (\<lparr>q_promQL = ps_customQuery s, q_groupLabel = [], q_perNode = True\<rparr>, noQuery)
      else (let node = orLabel (ps_nodeLabel s) (on_node (namesFor (ps_naming s)))
            in (\<lparr>q_promQL = wrapAggregation ''sum'' node (ps_customQuery s), q_groupLabel = node, q_perNode = False\<rparr>, noQuery)))"

definition nodePowerQuery :: "NodePowerSpec \<Rightarrow> inputErr + Query \<times> Query" where
  "nodePowerQuery s =
     (case WithDefaults s of
        Inl e \<Rightarrow> Inl e
      | Inr s \<Rightarrow> (case PromDuration (ps_window s) of Inl e \<Rightarrow> Inl e | Inr window \<Rightarrow> Inr (presetQuery s window)))"

section \<open>The carbon intensity\<close>

definition ParseCarbonSignal :: "string \<Rightarrow> inputErr + string" where
  "ParseCarbonSignal s =
     (let v = ToLower (TrimSpace s) in if v = ''marginal'' \<or> v = ''average'' then Inr v else Inl (BadCarbonSignal s))"

definition carbonUnitMassGrams :: "string \<Rightarrow> f64 option" where
  "carbonUnitMassGrams = map_of [(''g'', 1), (''kg'', 1000), (''t'', 1000000), (''lb'', 45359237 / 100000), (''lbs'', 45359237 / 100000)]"

definition carbonUnitEnergyKWh :: "string \<Rightarrow> f64 option" where
  "carbonUnitEnergyKWh = map_of [(''kwh'', 1), (''mwh'', 1000)]"

fun cutGas :: "string \<Rightarrow> string list \<Rightarrow> string" where
  "cutGas mass [] = mass"
| "cutGas mass (gas # gases) = (case CutSuffix mass gas of (m, found) \<Rightarrow> if found then m else cutGas mass gases)"

definition CarbonUnitFactor :: "string \<Rightarrow> inputErr + f64" where
  "CarbonUnitFactor unit =
     (let u = ToLower (Join (Fields unit) [])
      in if u = [] then Inr 1
         else (case Cut u (CHR ''/'') of
                 (mass, energy, ok) \<Rightarrow>
                   if ok
                   then (case (carbonUnitMassGrams (cutGas mass [''co2eq'', ''co2e'', ''co2'']), carbonUnitEnergyKWh energy) of
                           (Some g, Some kwh) \<Rightarrow> Inr (g / kwh)
                         | _ \<Rightarrow> Inl (BadCarbonUnit unit))
                   else Inl (BadCarbonUnit unit)))"

record CarbonIntensitySpec =
  cis_unit :: string
  cis_signal :: string

record CarbonIntensity =
  ci_gramsPerKWh :: f64
  ci_signal :: string

definition checkCarbon :: "CarbonIntensitySpec \<Rightarrow> inputErr option" where
  "checkCarbon s =
     (case CarbonUnitFactor (cis_unit s) of
        Inl e \<Rightarrow> Some e
      | Inr _ \<Rightarrow> (case ParseCarbonSignal (cis_signal s) of Inl e \<Rightarrow> Some e | Inr _ \<Rightarrow> None))"

definition readCarbon :: "CarbonIntensitySpec \<Rightarrow> sampleValue \<Rightarrow> inputErr + CarbonIntensity" where
  "readCarbon s v =
     (case (CarbonUnitFactor (cis_unit s), ParseCarbonSignal (cis_signal s)) of
        (Inl e, _) \<Rightarrow> Inl e
      | (_, Inl e) \<Rightarrow> Inl e
      | (Inr factor, Inr signal) \<Rightarrow>
          (case v of
             NotFinite \<Rightarrow> Inl NotFiniteValue
           | Finite x \<Rightarrow> if x < 0 then Inl (NegativeCarbon x) else Inr \<lparr>ci_gramsPerKWh = x * factor, ci_signal = signal\<rparr>))"

section \<open>The facility queries\<close>

definition FacilityInputs :: "string list" where
  "FacilityInputs = [''ambient_temp'', ''it_power'', ''cooling_power'', ''zone_ambient_temp'', ''rack_power'', ''node_inlet_temp'', ''carbon_intensity'']"

record FacilitySpec =
  fsp_preset :: string
  fsp_naming :: Strategy
  fsp_window :: int
  fsp_overrides :: "(string \<times> string) list"
  fsp_carbon :: CarbonIntensitySpec

text \<open>The key label of an input and the aggregation of a bare metric name.\<close>

definition facilityInputShape :: "string \<Rightarrow> otelNames \<Rightarrow> (string \<times> string) option" where
  "facilityInputShape input n =
     (if input = ''ambient_temp'' \<or> input = ''carbon_intensity'' then Some ([], ''avg'')
      else if input = ''it_power'' \<or> input = ''cooling_power'' then Some ([], ''sum'')
      else if input = ''zone_ambient_temp'' then Some (on_zone n, ''avg'')
      else if input = ''rack_power'' then Some (on_rack n, ''sum'')
      else if input = ''node_inlet_temp'' then Some (on_node n, ''avg'')
      else None)"

definition energyOrPower :: "string \<Rightarrow> string \<Rightarrow> string \<Rightarrow> string \<Rightarrow> string" where
  "energyOrPower key energy pow window =
     (let e = wrapAggregation ''sum'' key (rate (selector energy []) window); p = wrapAggregation ''sum'' key (selector pow [])
      in if key = [] then e @ '' or '' @ p else e @ '' or on '' @ labelList [key] @ '' '' @ p)"

definition single :: "string \<Rightarrow> Query" where
  "single q = \<lparr>q_promQL = q, q_groupLabel = [], q_perNode = False\<rparr>"

definition keyedBy :: "string \<Rightarrow> string \<Rightarrow> Query" where
  "keyedBy label q = \<lparr>q_promQL = q, q_groupLabel = label, q_perNode = False\<rparr>"

definition presetQueries :: "string \<Rightarrow> otelNames \<Rightarrow> string \<Rightarrow> string \<Rightarrow> Query option" where
  "presetQueries preset n window =
     (if preset = ''otel''
      then [''ambient_temp'' \<mapsto> single (wrapAggregation ''avg'' [] (selector (on_facilityAmbient n) [])),
            ''it_power'' \<mapsto> single (energyOrPower [] (on_facilityITEnergy n) (on_facilityITPower n) window),
            ''cooling_power'' \<mapsto> single (energyOrPower [] (on_facilityCoolingEnergy n) (on_facilityCoolingPower n) window),
            ''zone_ambient_temp'' \<mapsto> keyedBy (on_zone n) (wrapAggregation ''avg'' (on_zone n) (selector (on_zoneAmbient n) [])),
            ''rack_power'' \<mapsto> keyedBy (on_rack n) (energyOrPower (on_rack n) (on_rackEnergy n) (on_rackPower n) window),
            ''node_inlet_temp'' \<mapsto> keyedBy (on_node n) (wrapAggregation ''max'' (on_node n) (labelledOrJoined (on_hostAmbient n) (on_node n)))]
      else if preset = ''legacy''
      then [''ambient_temp'' \<mapsto> single (wrapAggregation ''avg'' [] ''datacenter_ambient_temperature_celsius''),
            ''it_power'' \<mapsto> single (wrapAggregation ''sum'' [] ''datacenter_total_it_power_watts''),
            ''cooling_power'' \<mapsto> single (wrapAggregation ''sum'' [] ''datacenter_cooling_power_watts'')]
      else Map.empty)"

fun overrideQueries :: "otelNames \<Rightarrow> CarbonIntensitySpec \<Rightarrow> (string \<times> string) list \<Rightarrow> (string \<Rightarrow> Query option) \<Rightarrow> inputErr + (string \<Rightarrow> Query option)" where
  "overrideQueries n carbon [] out = Inr out"
| "overrideQueries n carbon ((input, q) # overrides) out =
     (if TrimSpace q = [] then overrideQueries n carbon overrides out
      else case facilityInputShape input n of
             None \<Rightarrow> Inl (UnknownFacilityInput input)
           | Some (key, agg) \<Rightarrow>
               (case (if input = ''carbon_intensity'' then checkCarbon carbon else None) of
                  Some e \<Rightarrow> Inl e
                | None \<Rightarrow>
                    overrideQueries n carbon overrides
                      (out(input \<mapsto> keyedBy key (if isBareMetricName q then wrapAggregation agg key q else q)))))"

definition Queries :: "FacilitySpec \<Rightarrow> inputErr + (string \<Rightarrow> Query option)" where
  "Queries s =
     (let preset = (if fsp_preset s = [] then ''otel'' else fsp_preset s)
      in if preset \<noteq> ''otel'' \<and> preset \<noteq> ''legacy'' \<and> preset \<noteq> ''custom'' then Inl (UnknownFacilityPreset preset)
         else (case parseNaming (fsp_naming s) of
                 Inl e \<Rightarrow> Inl e
               | Inr naming \<Rightarrow>
                   (case PromDuration (if fsp_window s = 0 then DefaultWindow else fsp_window s) of
                      Inl e \<Rightarrow> Inl e
                    | Inr window \<Rightarrow>
                        overrideQueries (namesFor naming) (fsp_carbon s) (fsp_overrides s) (presetQueries preset (namesFor naming) window))))"

section \<open>Answers of Prometheus\<close>

record Sample =
  sa_labels :: strmap
  sa_value :: sampleValue
  sa_time :: int

record Result =
  res_type :: string
  res_samples :: "Sample list"
  res_warnings :: "string list"

record Issues =
  iss_series :: nat
  iss_missingLabel :: nat
  iss_nonFinite :: nat
  iss_duplicates :: nat

text \<open>A string field of a struct: absent and null are the empty string, another type is an error.\<close>

definition strField :: "jobj \<Rightarrow> string \<Rightarrow> string option" where
  "strField m k = (case jget m k of JNull \<Rightarrow> Some [] | JStr s \<Rightarrow> Some s | _ \<Rightarrow> None)"

fun allStrings :: "json list \<Rightarrow> string list option" where
  "allStrings [] = Some []"
| "allStrings (JStr s # vs) = map_option ((#) s) (allStrings vs)"
| "allStrings (JNull # vs) = map_option ((#) []) (allStrings vs)"
| "allStrings (_ # vs) = None"

definition strList :: "json \<Rightarrow> string list option" where
  "strList v = (case v of JNull \<Rightarrow> Some [] | JArr vs \<Rightarrow> allStrings vs | _ \<Rightarrow> None)"

text \<open>The fields of the envelope the code decodes; \<open>None\<close> where the body does not have these types.\<close>

record envelope =
  env_status :: string
  env_errorType :: string
  env_error :: string
  env_warnings :: "string list"
  env_resultType :: string
  env_result :: "json option"

definition decodeEnvelope :: "json \<Rightarrow> envelope option" where
  "decodeEnvelope v =
     (case v of
        JObj m \<Rightarrow>
          (case (strField m ''status'', strField m ''errorType'', strField m ''error'', strList (jget m ''warnings'')) of
             (Some status, Some errorType, Some err, Some warnings) \<Rightarrow>
               (let env = (\<lambda>ty r. \<lparr>env_status = status, env_errorType = errorType, env_error = err, env_warnings = warnings,
                     env_resultType = ty, env_result = r\<rparr>)
                in case jget m ''data'' of
                     JNull \<Rightarrow> Some (env [] None)
                   | JObj d \<Rightarrow> map_option (\<lambda>ty. env ty (map_of d ''result'')) (strField d ''resultType'')
                   | _ \<Rightarrow> None)
           | _ \<Rightarrow> None)
      | JNull \<Rightarrow> Some \<lparr>env_status = [], env_errorType = [], env_error = [], env_warnings = [], env_resultType = [], env_result = None\<rparr>
      | _ \<Rightarrow> None)"

definition excerpt :: "string \<Rightarrow> string" where
  "excerpt body = TrimSpace (take 200 body)"

definition DecodeResponse :: "(string \<Rightarrow> json option) \<Rightarrow> int \<Rightarrow> string \<Rightarrow> inputErr + envelope" where
  "DecodeResponse unmarshal status body =
     (case Option.bind (unmarshal body) decodeEnvelope of
        None \<Rightarrow> Inl (PromError status [] (excerpt body))
      | Some r \<Rightarrow>
          if env_status r = [] then Inl (PromError status [] (excerpt body))
          else if status < 200 \<or> status > 299 \<or> env_status r \<noteq> ''success''
          then Inl (PromError status (env_errorType r) (if env_error r = [] then excerpt body else env_error r))
          else Inr r)"

text \<open>A \<open>[time, "value"]\<close> pair; null reads as the zero value of its type. The time is in milliseconds.\<close>

definition ParseSample :: "(string \<Rightarrow> sampleValue option) \<Rightarrow> json list \<Rightarrow> inputErr + int \<times> sampleValue" where
  "ParseSample parseFloat pair =
     (case pair of
        [t, v] \<Rightarrow>
          (case ((case t of JNum x \<Rightarrow> Some x | JNull \<Rightarrow> Some 0 | _ \<Rightarrow> None), (case v of JStr s \<Rightarrow> parseFloat s | JNull \<Rightarrow> parseFloat [] | _ \<Rightarrow> None)) of
             (Some ts, Some x) \<Rightarrow> Inr (go_round (ts * 1000), x)
           | _ \<Rightarrow> Inl BadSample)
      | _ \<Rightarrow> Inl BadSample)"

fun labelMap :: "(string \<times> json) list \<Rightarrow> strmap option" where
  "labelMap [] = Some Map.empty"
| "labelMap ((k, v) # m) =
     (case (labelMap m, case v of JStr s \<Rightarrow> Some s | JNull \<Rightarrow> Some [] | _ \<Rightarrow> None) of
        (Some f, Some s) \<Rightarrow> Some (f(k \<mapsto> s))
      | _ \<Rightarrow> None)"

text \<open>One series of a vector: its labels and its pair, if it decodes.\<close>

definition vectorItem :: "json \<Rightarrow> (strmap \<times> json list) option" where
  "vectorItem v =
     (case v of
        JNull \<Rightarrow> Some (Map.empty, [])
      | JObj m \<Rightarrow>
          (case ((case jget m ''metric'' of JNull \<Rightarrow> Some Map.empty | JObj ls \<Rightarrow> labelMap ls | _ \<Rightarrow> None),
                 (case jget m ''value'' of JNull \<Rightarrow> Some [] | JArr xs \<Rightarrow> Some xs | _ \<Rightarrow> None)) of
             (Some labels, Some pair) \<Rightarrow> Some (labels, pair)
           | _ \<Rightarrow> None)
      | _ \<Rightarrow> None)"

fun collect :: "'a option list \<Rightarrow> 'a list option" where
  "collect [] = Some []"
| "collect (None # xs) = None"
| "collect (Some x # xs) = map_option ((#) x) (collect xs)"

fun parseItems :: "(string \<Rightarrow> sampleValue option) \<Rightarrow> (strmap \<times> json list) list \<Rightarrow> inputErr + Sample list" where
  "parseItems parseFloat [] = Inr []"
| "parseItems parseFloat ((labels, pair) # items) =
     (case ParseSample parseFloat pair of
        Inl e \<Rightarrow> Inl e
      | Inr (t, v) \<Rightarrow>
          (case parseItems parseFloat items of
             Inl e \<Rightarrow> Inl e
           | Inr samples \<Rightarrow> Inr (\<lparr>sa_labels = labels, sa_value = v, sa_time = t\<rparr> # samples)))"

definition Instant :: "(string \<Rightarrow> sampleValue option) \<Rightarrow> envelope \<Rightarrow> inputErr + Result" where
  "Instant parseFloat r =
     (let result = (\<lambda>samples. \<lparr>res_type = env_resultType r, res_samples = samples, res_warnings = env_warnings r\<rparr>)
      in if env_resultType r = ''vector''
         then (case (case env_result r of Some JNull \<Rightarrow> Some [] | Some (JArr vs) \<Rightarrow> collect (map vectorItem vs) | _ \<Rightarrow> None) of
                 None \<Rightarrow> Inl (BadResult ''vector'')
               | Some items \<Rightarrow> (case parseItems parseFloat items of Inl e \<Rightarrow> Inl e | Inr samples \<Rightarrow> Inr (result samples)))
         else if env_resultType r = ''scalar''
         then (case (case env_result r of Some JNull \<Rightarrow> Some [] | Some (JArr vs) \<Rightarrow> Some vs | _ \<Rightarrow> None) of
                 None \<Rightarrow> Inl (BadResult ''scalar'')
               | Some pair \<Rightarrow>
                   (case ParseSample parseFloat pair of
                      Inl e \<Rightarrow> Inl e
                    | Inr (t, v) \<Rightarrow> Inr (result [\<lparr>sa_labels = Map.empty, sa_value = v, sa_time = t\<rparr>])))
         else Inl (BadResultType (env_resultType r)))"

definition ParseResponse :: "(string \<Rightarrow> json option) \<Rightarrow> (string \<Rightarrow> sampleValue option) \<Rightarrow> int \<Rightarrow> string \<Rightarrow> inputErr + Result" where
  "ParseResponse unmarshal parseFloat status body =
     (case DecodeResponse unmarshal status body of Inl e \<Rightarrow> Inl e | Inr r \<Rightarrow> Instant parseFloat r)"

section \<open>Reading a result\<close>

text \<open>The loop of \<open>ByLabel\<close>: the map so far, the counts and the first repeated key.\<close>

fun byLabelLoop ::
  "string \<Rightarrow> Sample list \<Rightarrow> (string \<Rightarrow> f64 option) \<times> Issues \<times> string \<Rightarrow> (string \<Rightarrow> f64 option) \<times> Issues \<times> string" where
  "byLabelLoop label [] s = s"
| "byLabelLoop label (x # xs) (out, iss, dup) =
     byLabelLoop label xs
       (case map_get (sa_labels x) label of
          [] \<Rightarrow> (out, iss\<lparr>iss_missingLabel := iss_missingLabel iss + 1\<rparr>, dup)
        | key \<Rightarrow>
            (case sa_value x of
               NotFinite \<Rightarrow> (out, iss\<lparr>iss_nonFinite := iss_nonFinite iss + 1\<rparr>, dup)
             | Finite v \<Rightarrow>
                 if out key \<noteq> None then (out, iss\<lparr>iss_duplicates := iss_duplicates iss + 1\<rparr>, if dup = [] then key else dup)
                 else (out(key \<mapsto> v), iss, dup)))"

definition ByLabel :: "Result \<Rightarrow> string \<Rightarrow> (inputErr + (string \<Rightarrow> f64 option)) \<times> Issues" where
  "ByLabel r label =
     (case byLabelLoop label (res_samples r)
             (Map.empty, \<lparr>iss_series = length (res_samples r), iss_missingLabel = 0, iss_nonFinite = 0, iss_duplicates = 0\<rparr>, []) of
        (out, iss, dup) \<Rightarrow>
          (if iss_duplicates iss > 0 then Inl (DuplicateSeries (iss_duplicates iss) label dup) else Inr out, iss))"

definition Single :: "Result \<Rightarrow> inputErr + f64" where
  "Single r =
     (case res_samples r of
        [] \<Rightarrow> Inl NoData
      | [s] \<Rightarrow> (case sa_value s of Finite v \<Rightarrow> Inr v | NotFinite \<Rightarrow> Inl NotFiniteValue)
      | _ \<Rightarrow> Inl (ManySeries (length (res_samples r))))"

fun sumFinite :: "Sample list \<Rightarrow> f64" where
  "sumFinite [] = 0"
| "sumFinite (s # ss) = (case sa_value s of Finite v \<Rightarrow> v + sumFinite ss | NotFinite \<Rightarrow> sumFinite ss)"

section \<open>Lemmas: names and specs\<close>

lemma legal_names:
  assumes "Escapes s"
  shows "MetricName s m = [] \<or> isBareMetricName (MetricName s m)" "LabelName s a = [] \<or> legacyLabel (LabelName s a)"
proof -
  show "MetricName s m = [] \<or> isBareMetricName (MetricName s m)"
    using MetricName_escaped [OF assms, of m] by (cases "MetricName s m") (auto simp: isBareMetricName_def list_all_iff)
  show "LabelName s a = [] \<or> legacyLabel (LabelName s a)"
    using LabelName_escaped [OF assms, of a] by (cases "LabelName s a") (auto simp: legacyLabel_def list_all_iff)
qed

lemma ParseStrategy_own: "s \<in> set Strategies \<Longrightarrow> ParseStrategy s = Inr s"
proof -
  have "list_all (\<lambda>s. ParseStrategy s = Inr s) Strategies" by code_simp
  then show "s \<in> set Strategies \<Longrightarrow> ParseStrategy s = Inr s" by (simp add: list_all_iff)
qed

lemma ParseStrategy_in: "ParseStrategy s = Inr st \<Longrightarrow> st \<in> set Strategies"
  by (auto simp: ParseStrategy_def find_Some_iff split: option.splits)

lemma parseNaming_in: "parseNaming s = Inr st \<Longrightarrow> st \<in> set Strategies \<and> st \<noteq> []"
proof -
  have "list_all (\<lambda>s. s \<noteq> []) Strategies" "UnderscoreEscapingWithSuffixes \<in> set Strategies" by code_simp+
  then show "parseNaming s = Inr st \<Longrightarrow> st \<in> set Strategies \<and> st \<noteq> []"
    by (auto simp: parseNaming_def list_all_iff dest!: ParseStrategy_in split: if_splits sum.splits)
qed

lemma parseNaming_own: "st \<in> set Strategies \<Longrightarrow> st \<noteq> [] \<Longrightarrow> parseNaming st = Inr st"
  by (simp add: parseNaming_def ParseStrategy_own)

text \<open>What \<open>WithDefaults\<close> accepts.\<close>

definition wellFormedSpec :: "NodePowerSpec \<Rightarrow> bool" where
  "wellFormedSpec s \<longleftrightarrow>
     ps_preset s \<noteq> [] \<and> checkPreset (ps_preset s) (ps_customQuery s) = None \<and> ps_scope s \<in> {ScopeComponents, ScopeHost} \<and>
     \<not> (ps_preset s = NodePowerPresetKepler \<and> ps_scope s = ScopeHost) \<and>
     ps_resourceAttributes s \<in> {ResourceAttributesAuto, ResourceAttributesLabels, ResourceAttributesTargetInfo} \<and>
     ps_naming s \<in> set Strategies \<and> ps_naming s \<noteq> [] \<and> ps_window s \<noteq> 0"

lemma defaultPreset_nonempty: "defaultPreset s \<noteq> []"
  by (simp add: defaultPreset_def)

lemma WithDefaults_wellFormed:
  assumes "WithDefaults s = Inr s'"
  shows "wellFormedSpec s'"
proof -
  define scope where "scope = (if ps_scope s = [] then ScopeComponents else ps_scope s)"
  define attrs where "attrs = (if ps_resourceAttributes s = [] then ResourceAttributesAuto else ps_resourceAttributes s)"
  define preset where "preset = defaultPreset s"
  from assms obtain naming where
    ok: "checkPreset preset (ps_customQuery s) = None" "scope = ScopeComponents \<or> scope = ScopeHost"
      "\<not> (preset = NodePowerPresetKepler \<and> scope = ScopeHost)"
      "attrs = ResourceAttributesAuto \<or> attrs = ResourceAttributesLabels \<or> attrs = ResourceAttributesTargetInfo"
      "parseNaming (ps_naming s) = Inr naming" and
    s': "s' = s\<lparr>ps_preset := preset, ps_scope := scope, ps_resourceAttributes := attrs, ps_naming := naming,
           ps_window := (if ps_window s = 0 then DefaultWindow else ps_window s)\<rparr>"
    unfolding WithDefaults_def Let_def scope_def [symmetric] attrs_def [symmetric] preset_def [symmetric]
    by (simp split: option.splits if_splits sum.splits)
  have "ps_window s' \<noteq> 0" unfolding s' by (simp add: DefaultWindow_def)
  moreover have "preset \<noteq> []" unfolding preset_def by (rule defaultPreset_nonempty)
  ultimately show ?thesis
    using ok parseNaming_in [OF ok(5)] unfolding wellFormedSpec_def s' by simp
qed

lemma WithDefaults_fixed:
  assumes "wellFormedSpec s"
  shows "WithDefaults s = Inr s"
proof -
  have "defaultPreset s = ps_preset s" "ps_scope s \<noteq> []" "ps_resourceAttributes s \<noteq> []"
    using assms by (auto simp: wellFormedSpec_def defaultPreset_def)
  then show ?thesis
    using assms by (simp add: WithDefaults_def wellFormedSpec_def Let_def parseNaming_own)
qed

lemma WithDefaults_iff: "WithDefaults s = Inr s \<longleftrightarrow> wellFormedSpec s"
  using WithDefaults_wellFormed WithDefaults_fixed by blast

section \<open>Lemmas: reading by label\<close>

text \<open>The readings of a result by label: the samples with the label and a finite value, in order.\<close>

definition readings :: "string \<Rightarrow> Sample list \<Rightarrow> (string \<times> f64) list" where
  "readings label xs =
     concat (map (\<lambda>x. case sa_value x of Finite v \<Rightarrow> if map_get (sa_labels x) label = [] then [] else [(map_get (sa_labels x) label, v)]
       | NotFinite \<Rightarrow> []) xs)"

lemma readings_simps [simp]:
  "readings label [] = []"
  "map_get (sa_labels x) label = [] \<Longrightarrow> readings label (x # xs) = readings label xs"
  "sa_value x = NotFinite \<Longrightarrow> readings label (x # xs) = readings label xs"
  "sa_value x = Finite v \<Longrightarrow> map_get (sa_labels x) label \<noteq> [] \<Longrightarrow> readings label (x # xs) = (map_get (sa_labels x) label, v) # readings label xs"
  by (auto simp: readings_def split: sampleValue.splits)

text \<open>The first reading of every key wins and every later one is counted.\<close>

fun firstReadings :: "(string \<times> f64) list \<Rightarrow> (string \<Rightarrow> f64 option) \<Rightarrow> (string \<Rightarrow> f64 option)" where
  "firstReadings [] out = out"
| "firstReadings ((k, v) # kvs) out = firstReadings kvs (if out k \<noteq> None then out else out(k \<mapsto> v))"

fun repeats :: "string list \<Rightarrow> string set \<Rightarrow> nat" where
  "repeats [] seen = 0"
| "repeats (k # ks) seen = (if k \<in> seen then 1 else 0) + repeats ks (insert k seen)"

lemma byLabelLoop_eq:
  assumes "byLabelLoop label xs (out, iss, dup) = (out', iss', dup')"
  shows "out' = firstReadings (readings label xs) out \<and> iss_series iss' = iss_series iss \<and>
    iss_duplicates iss' = iss_duplicates iss + repeats (map fst (readings label xs)) (dom out) \<and>
    iss_missingLabel iss' = iss_missingLabel iss + length (filter (\<lambda>x. map_get (sa_labels x) label = []) xs) \<and>
    iss_nonFinite iss' = iss_nonFinite iss + length (filter (\<lambda>x. map_get (sa_labels x) label \<noteq> [] \<and> sa_value x = NotFinite) xs)"
  using assms
proof (induction xs arbitrary: out iss dup)
  case (Cons x xs)
  show ?case
  proof (cases "map_get (sa_labels x) label")
    case Nil
    then show ?thesis using Cons.IH Cons.prems by fastforce
  next
    case key: (Cons a as)
    show ?thesis
    proof (cases "sa_value x")
      case (Finite v)
      show ?thesis
      proof (cases "out (a # as) = None")
        case True
        define next' where "next' = out(a # as \<mapsto> v)"
        have "byLabelLoop label xs (next', iss, dup) = (out', iss', dup')"
          using Cons.prems Finite True key by (simp add: next'_def)
        moreover have "dom next' = insert (a # as) (dom out)" "a # as \<notin> dom out" using True by (auto simp: next'_def)
        ultimately show ?thesis using Cons.IH Finite key True by (simp add: next'_def [symmetric])
      next
        case False
        then have dom: "insert (a # as) (dom out) = dom out" by (auto simp: domIff)
        have "byLabelLoop label xs (out, iss\<lparr>iss_duplicates := iss_duplicates iss + 1\<rparr>, if dup = [] then a # as else dup) = (out', iss', dup')"
          using Cons.prems Finite False key by simp
        from Cons.IH [OF this] show ?thesis
          using Finite key False dom by (auto simp: domIff)
      qed
    next
      case NotFinite
      then show ?thesis using Cons.IH Cons.prems key by fastforce
    qed
  qed
qed simp

lemma repeats_zero: "repeats ks seen = 0 \<longleftrightarrow> distinct ks \<and> set ks \<inter> seen = {}"
  by (induction ks arbitrary: seen) auto

lemma firstReadings_distinct:
  "distinct (map fst kvs) \<Longrightarrow> fst ` set kvs \<inter> dom out = {} \<Longrightarrow> firstReadings kvs out = (\<lambda>k. case map_of kvs k of Some v \<Rightarrow> Some v | None \<Rightarrow> out k)"
proof (induction kvs arbitrary: out)
  case (Cons kv kvs)
  obtain k v where kv: "kv = (k, v)" by fastforce
  define next' where "next' = out(k \<mapsto> v)"
  have new: "out k = None" and k: "k \<notin> fst ` set kvs" using Cons.prems kv by (auto simp: dom_def)
  have "fst ` set kvs \<inter> dom next' = {}" using Cons.prems(2) k kv by (auto simp: next'_def)
  then have "firstReadings kvs next' = (\<lambda>j. case map_of kvs j of Some w \<Rightarrow> Some w | None \<Rightarrow> next' j)"
    using Cons.IH Cons.prems(1) by simp
  then have "firstReadings (kv # kvs) out = (\<lambda>j. case map_of kvs j of Some w \<Rightarrow> Some w | None \<Rightarrow> next' j)"
    using new kv by (simp add: next'_def)
  moreover have "map_of kvs k = None" using k by (simp add: map_of_eq_None_iff)
  ultimately show ?case using kv by (auto simp: fun_eq_iff next'_def split: option.splits)
qed simp

lemma ByLabel_cases:
  "fst (ByLabel r label) = Inr out \<longleftrightarrow> distinct (map fst (readings label (res_samples r))) \<and> out = map_of (readings label (res_samples r))"
proof -
  obtain out' iss' dup' where L: "byLabelLoop label (res_samples r) (Map.empty, \<lparr>iss_series = length (res_samples r), iss_missingLabel = 0,
      iss_nonFinite = 0, iss_duplicates = 0\<rparr>, []) = (out', iss', dup')" by (metis prod_cases3)
  note eq = byLabelLoop_eq [OF L]
  have "iss_duplicates iss' = 0 \<longleftrightarrow> distinct (map fst (readings label (res_samples r)))" using eq by (simp add: repeats_zero)
  moreover have "distinct (map fst (readings label (res_samples r))) \<Longrightarrow> out' = map_of (readings label (res_samples r))"
    using eq firstReadings_distinct [of "readings label (res_samples r)" Map.empty] by (auto simp: fun_eq_iff split: option.splits)
  ultimately show ?thesis unfolding ByLabel_def L by auto
qed

lemma otelNodePower_nonempty: "otelNodePower n node scope window ti \<noteq> []"
  by (simp add: otelNodePower_def Let_def)

lemma presetQuery_fallback:
  assumes "wellFormedSpec s"
  shows "snd (presetQuery s w) \<noteq> noQuery \<longleftrightarrow> ps_preset s = NodePowerPresetOTel \<and> ps_resourceAttributes s = ResourceAttributesAuto"
proof (cases "ps_preset s = NodePowerPresetOTel")
  case True
  consider (auto) "ps_resourceAttributes s = ResourceAttributesAuto" | (labels) "ps_resourceAttributes s = ResourceAttributesLabels"
    | (info) "ps_resourceAttributes s = ResourceAttributesTargetInfo" using assms unfolding wellFormedSpec_def by blast
  then show ?thesis
    by cases (simp_all add: True presetQuery_def Let_def noQuery_def otelNodePower_nonempty)
next
  case False
  then show ?thesis by (simp add: presetQuery_def Let_def)
qed

lemma PromDuration_ok: "(\<exists>w. PromDuration d = Inr w) \<longleftrightarrow> d \<ge> MinWindow \<and> d mod 1000000000 = 0"
proof -
  have "d mod 1000000000 = 0" if "d mod 60000000000 = 0"
  proof -
    have "d mod 60000000000 mod 1000000000 = d mod 1000000000" by (rule mod_mod_cancel) simp
    then show ?thesis using that by simp
  qed
  then show ?thesis unfolding PromDuration_def by (cases "d < MinWindow"; cases "d mod 60000000000 = 0"; cases "d mod 1000000000 = 0") simp_all
qed

text \<open>Every sample is a reading, lacks the label or is not finite.\<close>

lemma readings_count:
  "length xs = length (readings label xs) + length (filter (\<lambda>x. map_get (sa_labels x) label = []) xs) +
     length (filter (\<lambda>x. map_get (sa_labels x) label \<noteq> [] \<and> sa_value x = NotFinite) xs)"
proof (induction xs)
  case (Cons x xs)
  then show ?case by (cases "map_get (sa_labels x) label = []"; cases "sa_value x") simp_all
qed simp

lemma repeats_count: "length ks = repeats ks seen + card (set ks - seen)"
proof (induction ks arbitrary: seen)
  case (Cons k ks)
  have "set (k # ks) - seen = (if k \<in> seen then set ks - insert k seen else insert k (set ks - insert k seen))" by auto
  then show ?case using Cons.IH [of "insert k seen"] by simp
qed simp

lemma dom_firstReadings: "dom (firstReadings kvs out) = dom out \<union> fst ` set kvs"
  by (induction kvs out rule: firstReadings.induct) auto

section \<open>Properties\<close>

text \<open>C20: The names put into PromQL without quotes are names PromQL reads: under a strategy that escapes, the Prometheus
  spelling of every metric is a bare metric name and that of every attribute a bare label name, whatever the characters and
  the unit, or it is empty, which the translator rejects. A strategy that keeps the dots is one whose names are quoted.\<close>

theorem prometheus_names_legal:
  assumes "Escapes s"
  shows "(MetricName s m = [] \<or> isBareMetricName (MetricName s m)) \<and> (LabelName s a = [] \<or> legacyLabel (LabelName s a)) \<and>
    (LabelName s a \<noteq> [] \<longrightarrow> labelName (LabelName s a) = LabelName s a)"
  using legal_names(1) [OF assms, of m] legal_names(2) [OF assms, of a] by (auto simp: labelName_def)

theorem prometheus_names_legal_witness:
  "Escapes UnderscoreEscapingWithSuffixes \<and> isBareMetricName (MetricName UnderscoreEscapingWithSuffixes HwEnergy)"
proof -
  have "Escapes UnderscoreEscapingWithSuffixes" "MetricName UnderscoreEscapingWithSuffixes HwEnergy \<noteq> []" by code_simp+
  with prometheus_names_legal [of UnderscoreEscapingWithSuffixes HwEnergy] show ?thesis by blast
qed

text \<open>A node power spec that is accepted is complete and stays so: filling its defaults again changes nothing, its
  query exists exactly when its window can be written in PromQL, and the second form of the query exists exactly under the
  otel preset with the automatic choice of the node label. A spec with a combination no preset serves is refused.\<close>

theorem node_power_spec_accepted:
  assumes "WithDefaults s = Inr s'"
  shows "wellFormedSpec s' \<and> WithDefaults s' = Inr s' \<and> nodePowerQuery s = nodePowerQuery s' \<and>
    ((\<exists>q. nodePowerQuery s = Inr q) \<longleftrightarrow> ps_window s' \<ge> MinWindow \<and> ps_window s' mod 1000000000 = 0) \<and>
    (\<forall>p f. nodePowerQuery s = Inr (p, f) \<longrightarrow>
       (f \<noteq> noQuery \<longleftrightarrow> ps_preset s' = NodePowerPresetOTel \<and> ps_resourceAttributes s' = ResourceAttributesAuto))"
proof -
  have wf: "wellFormedSpec s'" using assms by (rule WithDefaults_wellFormed)
  then have fixed: "WithDefaults s' = Inr s'" by (rule WithDefaults_fixed)
  have eq: "nodePowerQuery s = nodePowerQuery s'" unfolding nodePowerQuery_def assms fixed ..
  have ex: "(\<exists>q. nodePowerQuery s' = Inr q) \<longleftrightarrow> (\<exists>w. PromDuration (ps_window s') = Inr w)"
    unfolding nodePowerQuery_def fixed by (cases "PromDuration (ps_window s')") auto
  have fallback: "f \<noteq> noQuery \<longleftrightarrow> ps_preset s' = NodePowerPresetOTel \<and> ps_resourceAttributes s' = ResourceAttributesAuto"
    if q: "nodePowerQuery s' = Inr (p, f)" for p f
  proof -
    obtain w where "presetQuery s' w = (p, f)" using q unfolding nodePowerQuery_def fixed by (auto split: sum.splits)
    then show ?thesis using presetQuery_fallback [OF wf, of w] by simp
  qed
  show ?thesis unfolding eq ex PromDuration_ok using wf fixed fallback by blast
qed

definition exampleSpec :: NodePowerSpec where
  "exampleSpec = \<lparr>ps_preset = [], ps_scope = [], ps_naming = [], ps_resourceAttributes = [], ps_window = 0, ps_nodeLabel = [], ps_customQuery = []\<rparr>"

theorem node_power_spec_accepted_witness: "\<exists>s' q. WithDefaults exampleSpec = Inr s' \<and> nodePowerQuery exampleSpec = Inr q"
proof -
  have A: "WithDefaults exampleSpec = Inr (exampleSpec\<lparr>ps_preset := NodePowerPresetOTel, ps_scope := ScopeComponents,
      ps_resourceAttributes := ResourceAttributesAuto, ps_naming := UnderscoreEscapingWithSuffixes, ps_window := DefaultWindow\<rparr>)"
    by code_simp
  have window: "DefaultWindow \<ge> MinWindow \<and> DefaultWindow mod 1000000000 = 0" by (simp add: DefaultWindow_def MinWindow_def)
  obtain s' where s': "WithDefaults exampleSpec = Inr s'" "ps_window s' = DefaultWindow" using A by simp
  have "\<exists>q. nodePowerQuery exampleSpec = Inr q" using node_power_spec_accepted [OF s'(1)] window unfolding s'(2) by blast
  then show ?thesis using s'(1) by blast
qed

text \<open>Reading an answer by label gives every value that can be attributed and drops none silently. It succeeds exactly
  when no two usable series share a key, and then holds for each key its value; every series of the answer is a key of the
  map, lacks the label, is not finite or repeats a key.\<close>

theorem ByLabel_correct:
  "(\<forall>out. fst (ByLabel r label) = Inr out \<longleftrightarrow>
      distinct (map fst (readings label (res_samples r))) \<and> out = map_of (readings label (res_samples r))) \<and>
   length (res_samples r) =
     card (fst ` set (readings label (res_samples r))) + iss_missingLabel (snd (ByLabel r label)) +
       iss_nonFinite (snd (ByLabel r label)) + iss_duplicates (snd (ByLabel r label))"
proof -
  obtain out iss dup where L: "byLabelLoop label (res_samples r) (Map.empty, \<lparr>iss_series = length (res_samples r), iss_missingLabel = 0,
      iss_nonFinite = 0, iss_duplicates = 0\<rparr>, []) = (out, iss, dup)" by (metis prod_cases3)
  have "snd (ByLabel r label) = iss" unfolding ByLabel_def L by simp
  then show ?thesis
    using ByLabel_cases [of r label] byLabelLoop_eq [OF L] readings_count [of "res_samples r" label]
      repeats_count [of "map fst (readings label (res_samples r))" "{}"] by simp
qed

end
