(* ===== verification/Otlp_Power.thy ===== *)
theory Otlp_Power
  imports Controller_Inputs "HOL-Library.AList"
begin

text \<open>
  Power from an HTTP telemetry endpoint. \<^verbatim>\<open>pkg/otel/otlpjson/power.go\<close> turns successive metrics exports of a node into
  watts: energy counters as rates over the producer's clock, power gauges as the fallback, one value per component.
  \<^verbatim>\<open>pkg/agent/control/http.go\<close> and \<^verbatim>\<open>cmd/controller-manager/nodepower_http.go\<close> read the agent's and the controller
  manager's endpoint with it. The exports are decoded values (\<^verbatim>\<open>types.go\<close>); JSON text is decoded by the parameters
  \<open>unmarshal\<close> and \<open>decodeMetrics\<close>, floats are written by the parameter \<open>fmtFloat\<close>. Times of points are \<open>uint64\<close> nanoseconds, and
  every difference the code takes is of a larger and a smaller one; the reader's clock is an \<open>int\<close>.
\<close>

section \<open>Exports\<close>

datatype AnyValue = VString string | VBool bool | VInt int | VDouble f64 | VArray "AnyValue list" | VUnset

fun Text :: "(f64 \<Rightarrow> string) \<Rightarrow> AnyValue \<Rightarrow> string" where
  "Text fmtFloat (VString s) = s"
| "Text fmtFloat (VBool b) = (if b then ''true'' else ''false'')"
| "Text fmtFloat (VInt i) = Itoa i"
| "Text fmtFloat (VDouble x) = fmtFloat x"
| "Text fmtFloat (VArray vs) = ''['' @ Join (map (Text fmtFloat) vs) '','' @ '']''"
| "Text fmtFloat VUnset = []"

type_synonym KeyValue = "string \<times> AnyValue"

record NumberDataPoint =
  dp_attributes :: "KeyValue list"
  dp_start :: nat
  dp_time :: nat
  dp_value :: "sampleValue option"

datatype MetricPoints = SumPoints "NumberDataPoint list" int | GaugePoints "NumberDataPoint list" | OtherPoints

record OtlpMetric =
  om_name :: string
  om_data :: MetricPoints

record ResourceMetrics =
  rm_attributes :: "KeyValue list"
  rm_metrics :: "OtlpMetric list list"

type_synonym MetricsData = "ResourceMetrics list"

section \<open>Selecting points\<close>

record Selector =
  sel_node :: string
  sel_hwTypes :: "string list"
  sel_host :: bool

text \<open>A key of the reader's state. The code joins the parts with zero bytes.\<close>

definition selectorKey :: "Selector \<Rightarrow> string" where
  "selectorKey s = sel_node s @ [CHR 0x00] @ (if sel_host s then ''true'' else ''false'') @ [CHR 0x00] @ Join (go_sort (<) (sel_hwTypes s)) [CHR 0x00]"

definition powerPoints :: "MetricPoints \<Rightarrow> NumberDataPoint list \<times> bool" where
  "powerPoints m = (case m of SumPoints ps temporality \<Rightarrow> (ps, temporality = 1) | GaugePoints ps \<Rightarrow> (ps, False) | OtherPoints \<Rightarrow> ([], False))"

fun powerAttr :: "(f64 \<Rightarrow> string) \<Rightarrow> KeyValue list \<Rightarrow> string \<Rightarrow> string option" where
  "powerAttr fmtFloat [] key = None"
| "powerAttr fmtFloat ((k, v) # kvs) key = (if k = key then Some (Text fmtFloat v) else powerAttr fmtFloat kvs key)"

definition attrText :: "(f64 \<Rightarrow> string) \<Rightarrow> KeyValue list \<Rightarrow> string \<Rightarrow> string" where
  "attrText fmtFloat kvs key = (case powerAttr fmtFloat kvs key of Some s \<Rightarrow> s | None \<Rightarrow> [])"

type_synonym powerComponent = "string \<times> string"

definition powerSelect :: "(f64 \<Rightarrow> string) \<Rightarrow> Selector \<Rightarrow> KeyValue list \<Rightarrow> powerComponent option" where
  "powerSelect fmtFloat s attrs =
     (if sel_host s then Some ([], [])
      else (let t = attrText fmtFloat attrs ''hw.type''
            in if t \<in> set (sel_hwTypes s) then Some (t, attrText fmtFloat attrs ''hw.id'') else None))"

definition powerValue :: "NumberDataPoint \<Rightarrow> f64 option" where
  "powerValue p = (case dp_value p of Some (Finite v) \<Rightarrow> if v < 0 then None else Some v | _ \<Rightarrow> None)"

definition powerSeconds :: "nat \<Rightarrow> f64" where
  "powerSeconds ns = real ns / 1000000000"

definition powerAttrsID :: "(f64 \<Rightarrow> string) \<Rightarrow> KeyValue list \<Rightarrow> string" where
  "powerAttrsID fmtFloat attrs = Join (go_sort (<) (map (\<lambda>(k, v). k @ ''='' @ Text fmtFloat v) attrs)) [CHR 0x00]"

definition resourceID :: "(f64 \<Rightarrow> string) \<Rightarrow> KeyValue list \<Rightarrow> string" where
  "resourceID fmtFloat attrs =
     concat (map (\<lambda>k. attrText fmtFloat attrs k @ [CHR 0x00]) [''service.namespace'', ''service.name'', ''service.instance.id''])"

section \<open>Energy series\<close>

record powerSeries =
  se_start :: nat
  se_time :: nat
  se_energyJ :: f64
  se_watts :: f64
  se_hasWatts :: bool
  se_kept :: int

text \<open>The next state of a series: a new lifetime, an energy that fell and a gap longer than the window start it afresh; a
  point that is not newer keeps the last rate while the reader's clock is within the window.\<close>

definition stepSeries :: "int \<Rightarrow> int \<Rightarrow> powerSeries option \<Rightarrow> nat \<Rightarrow> nat \<Rightarrow> f64 \<Rightarrow> powerSeries" where
  "stepSeries bound now prev start t v =
     (let fresh = \<lparr>se_start = start, se_time = t, se_energyJ = v, se_watts = 0, se_hasWatts = False, se_kept = now\<rparr>
      in case prev of
           None \<Rightarrow> fresh
         | Some old \<Rightarrow>
             if se_start old \<noteq> 0 \<and> start \<noteq> 0 \<and> start \<noteq> se_start old then fresh
             else if t \<le> se_time old then (if now - se_kept old > bound then old\<lparr>se_watts := 0, se_hasWatts := False\<rparr> else old)
             else if v < se_energyJ old then fresh
             else if int (t - se_time old) > bound then fresh
             else fresh\<lparr>se_watts := (v - se_energyJ old) / powerSeconds (t - se_time old), se_hasWatts := True\<rparr>)"

record powerReading =
  rd_energyW :: f64
  rd_energyOK :: bool
  rd_energyCold :: bool
  rd_gaugeW :: f64
  rd_gaugeOK :: bool

definition emptyReading :: powerReading where
  "emptyReading = \<lparr>rd_energyW = 0, rd_energyOK = False, rd_energyCold = False, rd_gaugeW = 0, rd_gaugeOK = False\<rparr>"

type_synonym seriesMap = "string \<Rightarrow> powerSeries option"
type_synonym components = "(powerComponent \<times> powerReading) list"

definition readingOf :: "components \<Rightarrow> powerComponent \<Rightarrow> powerReading" where
  "readingOf comps c = (case map_of comps c of Some rd \<Rightarrow> rd | None \<Rightarrow> emptyReading)"

definition addEnergy :: "f64 \<Rightarrow> powerReading \<Rightarrow> powerReading" where
  "addEnergy w rd = rd\<lparr>rd_energyW := max (rd_energyW rd) w, rd_energyOK := True\<rparr>"

text \<open>One point. The component gets its reading before the point is dropped for its times, as in the code.\<close>

definition readPoint ::
  "(f64 \<Rightarrow> string) \<Rightarrow> int \<Rightarrow> int \<Rightarrow> Selector \<Rightarrow> seriesMap \<Rightarrow> string \<Rightarrow> bool \<Rightarrow> bool \<Rightarrow> NumberDataPoint \<Rightarrow>
   seriesMap \<times> components \<Rightarrow> seriesMap \<times> components" where
  "readPoint fmtFloat bound now s prev idPrefix isPower delta p st =
     (case st of (next', comps) \<Rightarrow>
        (case (powerSelect fmtFloat s (dp_attributes p), powerValue p) of
           (Some c, Some v) \<Rightarrow>
             (let rd = readingOf comps c; put = (\<lambda>rd. AList.update c rd comps)
              in if isPower then (next', put (rd\<lparr>rd_gaugeW := max (rd_gaugeW rd) v, rd_gaugeOK := True\<rparr>))
                 else if delta
                 then (if dp_start p = 0 \<or> dp_time p \<le> dp_start p then (next', put rd)
                       else (next', put (addEnergy (v / powerSeconds (dp_time p - dp_start p)) rd)))
                 else if dp_time p = 0 then (next', put rd)
                 else (let id = idPrefix @ powerAttrsID fmtFloat (dp_attributes p);
                           old = (case next' id of Some o' \<Rightarrow> Some o' | None \<Rightarrow> prev id);
                           cur = stepSeries bound now old (dp_start p) (dp_time p) v
                       in (next'(id \<mapsto> cur),
                           put (if se_hasWatts cur then addEnergy (se_watts cur) rd else rd\<lparr>rd_energyCold := True\<rparr>))))
         | _ \<Rightarrow> st))"

definition readMetric ::
  "(f64 \<Rightarrow> string) \<Rightarrow> int \<Rightarrow> int \<Rightarrow> Selector \<Rightarrow> seriesMap \<Rightarrow> string \<Rightarrow> OtlpMetric \<Rightarrow> seriesMap \<times> components \<Rightarrow> seriesMap \<times> components" where
  "readMetric fmtFloat bound now s prev resID m st =
     (let energyName = (if sel_host s then ''hw.host.energy'' else ''hw.energy''); powerName = (if sel_host s then ''hw.host.power'' else ''hw.power'')
      in if om_name m \<noteq> energyName \<and> om_name m \<noteq> powerName then st
         else (case powerPoints (om_data m) of
                 (points, delta) \<Rightarrow>
                   fold (readPoint fmtFloat bound now s prev (resID @ om_name m @ [CHR 0x00]) (om_name m = powerName) delta) points st))"

definition readResource ::
  "(f64 \<Rightarrow> string) \<Rightarrow> int \<Rightarrow> int \<Rightarrow> Selector \<Rightarrow> seriesMap \<Rightarrow> ResourceMetrics \<Rightarrow> seriesMap \<times> components \<Rightarrow> seriesMap \<times> components" where
  "readResource fmtFloat bound now s prev rm st =
     (if (case powerAttr fmtFloat (rm_attributes rm) ''k8s.node.name'' of Some node \<Rightarrow> node \<noteq> sel_node s | None \<Rightarrow> False) then st
      else fold (readMetric fmtFloat bound now s prev (resourceID fmtFloat (rm_attributes rm))) (concat (rm_metrics rm)) st)"

text \<open>The sum over the components; a component with nothing but a cold energy series ends it.\<close>

fun sumComponents :: "powerReading list \<Rightarrow> f64 \<Rightarrow> nat \<Rightarrow> f64 option" where
  "sumComponents [] tot counted = (if counted > 0 then Some tot else None)"
| "sumComponents (rd # rds) tot counted =
     (if rd_energyOK rd then sumComponents rds (tot + rd_energyW rd) (counted + 1)
      else if rd_gaugeOK rd then sumComponents rds (tot + rd_gaugeW rd) (counted + 1)
      else if rd_energyCold rd then None
      else sumComponents rds tot counted)"

record PowerReader =
  pr_maxInterval :: int
  pr_series :: "string \<Rightarrow> seriesMap option"

definition DefaultPowerMaxInterval :: int where
  "DefaultPowerMaxInterval = 5 * 60 * 1000000000"

definition readerBound :: "PowerReader \<Rightarrow> int" where
  "readerBound r = (if pr_maxInterval r \<le> 0 then DefaultPowerMaxInterval else pr_maxInterval r)"

definition Watts :: "(f64 \<Rightarrow> string) \<Rightarrow> int \<Rightarrow> MetricsData \<Rightarrow> Selector \<Rightarrow> PowerReader \<Rightarrow> f64 option \<times> PowerReader" where
  "Watts fmtFloat now md s r =
     (let key = selectorKey s; prev = (case pr_series r key of Some m \<Rightarrow> m | None \<Rightarrow> Map.empty)
      in case fold (readResource fmtFloat (readerBound r) now s prev) md (Map.empty, []) of
           (next', comps) \<Rightarrow>
             (sumComponents (map (\<lambda>c. readingOf comps c) (go_sort (<) (map fst comps))) 0 0,
              r\<lparr>pr_series := (if next' = Map.empty then (pr_series r)(key := None) else (pr_series r)(key \<mapsto> next'))\<rparr>))"

section \<open>Reading an endpoint\<close>

datatype telemetryErr =
    Transport string
  | HTTPStatus int
  | BodyTooLong
  | BadMetrics
  | BadJSON

definition MaxTelemetryBody :: int where
  "MaxTelemetryBody = 8388608"

text \<open>A client answers a GET with an error, or with a status and the body or the error of reading it.\<close>

type_synonym httpGet = "string \<Rightarrow> string + int \<times> (string + string)"

definition FetchTelemetry :: "httpGet \<Rightarrow> string \<Rightarrow> telemetryErr + string" where
  "FetchTelemetry get url =
     (case get url of
        Inl e \<Rightarrow> Inl (Transport e)
      | Inr (status, body) \<Rightarrow>
          if status < 200 \<or> status > 299 then Inl (HTTPStatus status)
          else (case body of
                  Inl e \<Rightarrow> Inl (Transport e)
                | Inr b \<Rightarrow> if int (length b) > MaxTelemetryBody then Inl BodyTooLong else Inr b))"

definition IsMetricsData :: "(string \<Rightarrow> json option) \<Rightarrow> string \<Rightarrow> bool" where
  "IsMetricsData unmarshal body = (case unmarshal body of Some (JObj doc) \<Rightarrow> map_of doc ''resourceMetrics'' \<noteq> None | _ \<Rightarrow> False)"

definition positiveWatts :: "jobj \<Rightarrow> f64 option" where
  "positiveWatts m = (case jget m ''packagePowerWatts'' of JNum v \<Rightarrow> if v > 0 then Some v else None | _ \<Rightarrow> None)"

definition legacyWatts :: "jobj \<Rightarrow> f64 option" where
  "legacyWatts doc =
     (case positiveWatts doc of
        Some v \<Rightarrow> Some v
      | None \<Rightarrow> (case jgetObj doc ''cpu'' of Some cpu \<Rightarrow> positiveWatts cpu | None \<Rightarrow> None))"

text \<open>The JSON library: a document as a value, and as a metrics export (\<open>DecodeMetrics\<close>).\<close>

record jsonLib =
  jl_unmarshal :: "string \<Rightarrow> json option"
  jl_metrics :: "string \<Rightarrow> MetricsData option"
  jl_fmtFloat :: "f64 \<Rightarrow> string"

text \<open>The watts, whether the body was the legacy document, and the reader afterwards.\<close>

definition ReadPower :: "jsonLib \<Rightarrow> int \<Rightarrow> string \<Rightarrow> Selector \<Rightarrow> PowerReader \<Rightarrow> (telemetryErr + f64 option) \<times> bool \<times> PowerReader" where
  "ReadPower lib now body s r =
     (if IsMetricsData (jl_unmarshal lib) body
      then (case jl_metrics lib body of
              None \<Rightarrow> (Inl BadMetrics, False, r)
            | Some md \<Rightarrow> (case Watts (jl_fmtFloat lib) now md s r of (w, r') \<Rightarrow> (Inr w, False, r')))
      else (case jl_unmarshal lib body of
              Some (JObj doc) \<Rightarrow> (Inr (legacyWatts doc), True, r)
            | Some JNull \<Rightarrow> (Inr None, True, r)
            | _ \<Rightarrow> (Inl BadJSON, False, r)))"

text \<open>\<open>strings.ReplaceAll(s, "{node}", name)\<close>.\<close>

function replaceNode :: "string \<Rightarrow> string \<Rightarrow> string" where
  "replaceNode name s =
     (if s = [] then []
      else if HasPrefix s ''{node}'' then name @ replaceNode name (drop 6 s)
      else hd s # replaceNode name (tl s))"
  by pat_completeness auto

termination by (relation "measure (\<lambda>(_, s). length s)") auto

declare replaceNode.simps [simp del]

section \<open>The agent's clients\<close>

record httpPowerState =
  hps_otlp :: PowerReader
  hps_legacyWarned :: bool

definition emptyReader :: "int \<Rightarrow> PowerReader" where
  "emptyReader window = \<lparr>pr_maxInterval = window, pr_series = Map.empty\<rparr>"

text \<open>The states of the process, by endpoint and node.\<close>

type_synonym httpPowerStates = "(string \<times> string) \<Rightarrow> httpPowerState option"

definition httpState :: "httpPowerStates \<Rightarrow> string \<Rightarrow> string \<Rightarrow> httpPowerState" where
  "httpState states endpoint node =
     (case states (endpoint, node) of Some st \<Rightarrow> st | None \<Rightarrow> \<lparr>hps_otlp = emptyReader 0, hps_legacyWarned = False\<rparr>)"

definition ReadPowerWatts ::
  "jsonLib \<Rightarrow> httpGet \<Rightarrow> int \<Rightarrow> string \<Rightarrow> string \<Rightarrow> httpPowerStates \<Rightarrow> (telemetryErr + f64 option) \<times> httpPowerStates" where
  "ReadPowerWatts lib get now endpoint node states =
     (case FetchTelemetry get (replaceNode node endpoint) of
        Inl e \<Rightarrow> (Inl e, states)
      | Inr body \<Rightarrow>
          (let st = httpState states endpoint node
           in case ReadPower lib now body \<lparr>sel_node = node, sel_hwTypes = [''cpu''], sel_host = False\<rparr> (hps_otlp st) of
                (res, legacy, r) \<Rightarrow>
                  (res, states((endpoint, node) \<mapsto> \<lparr>hps_otlp = r, hps_legacyWarned = hps_legacyWarned st \<or> legacy\<rparr>))))"

text \<open>A command is the body of one POST; the endpoint answers with an error or with a status and a body.\<close>

record controlCommand =
  cc_url :: string
  cc_fields :: jobj

datatype controlErr = ControlTransport string | ControlStatus int | NotApplied string string

type_synonym httpPost = "controlCommand \<Rightarrow> string + int \<times> string"

definition controlResponseError :: "(string \<Rightarrow> json option) \<Rightarrow> int \<Rightarrow> string \<Rightarrow> controlErr option" where
  "controlResponseError decodeFirst status body =
     (if status < 200 \<or> status \<ge> 300 then Some (ControlStatus status)
      else (case decodeFirst (take 65536 body) of
              Some (JObj m) \<Rightarrow>
                (case (jget m ''ok'', strField m ''result'', strField m ''message'') of
                   (JBool False, Some result, Some message) \<Rightarrow> Some (NotApplied result message)
                 | _ \<Rightarrow> None)
            | _ \<Rightarrow> None))"

definition sendControl :: "(string \<Rightarrow> json option) \<Rightarrow> httpPost \<Rightarrow> controlCommand \<Rightarrow> controlErr option" where
  "sendControl decodeFirst post cmd =
     (case post cmd of Inl e \<Rightarrow> Some (ControlTransport e) | Inr (status, body) \<Rightarrow> controlResponseError decodeFirst status body)"

definition ApplyCPUControl ::
  "(string \<Rightarrow> json option) \<Rightarrow> httpPost \<Rightarrow> string \<Rightarrow> string \<Rightarrow> string \<Rightarrow> string \<Rightarrow> f64 \<Rightarrow> int \<Rightarrow> controlErr option" where
  "ApplyCPUControl decodeFirst post ts endpoint node action capWatts throttlePct =
     sendControl decodeFirst post
       \<lparr>cc_url = replaceNode node endpoint,
        cc_fields = [(''node'', JStr node), (''action'', JStr action), (''capWatts'', JNum capWatts), (''throttlePct'', JInt throttlePct), (''ts'', JStr ts)]\<rparr>"

definition ApplyGPUControl ::
  "(string \<Rightarrow> json option) \<Rightarrow> httpPost \<Rightarrow> string \<Rightarrow> string \<Rightarrow> string \<Rightarrow> string \<Rightarrow> f64 \<Rightarrow> controlErr option" where
  "ApplyGPUControl decodeFirst post ts endpoint node action capWattsPerGPU =
     sendControl decodeFirst post
       \<lparr>cc_url = replaceNode node endpoint,
        cc_fields = [(''node'', JStr node), (''action'', JStr action), (''capWattsPerGpu'', JNum capWattsPerGPU), (''ts'', JStr ts)]\<rparr>"

section \<open>The controller manager's client\<close>

type_synonym nodePowerHTTPReaders = "(string \<times> int) \<Rightarrow> PowerReader option"

definition nodePowerHTTPReader :: "nodePowerHTTPReaders \<Rightarrow> string \<Rightarrow> int \<Rightarrow> PowerReader" where
  "nodePowerHTTPReader readers endpoint window = (case readers (endpoint, window) of Some r \<Rightarrow> r | None \<Rightarrow> emptyReader window)"

definition nodePowerHTTPSelector :: "string \<Rightarrow> string \<Rightarrow> Selector" where
  "nodePowerHTTPSelector nodeName scope =
     (if scope = ''host'' then \<lparr>sel_node = nodeName, sel_hwTypes = [], sel_host = True\<rparr>
      else \<lparr>sel_node = nodeName, sel_hwTypes = [''cpu'', ''gpu''], sel_host = False\<rparr>)"

definition queryNodePowerHTTP ::
  "jsonLib \<Rightarrow> httpGet \<Rightarrow> int \<Rightarrow> string \<Rightarrow> NodePowerSpec \<Rightarrow> string \<Rightarrow> nodePowerHTTPReaders \<Rightarrow> (telemetryErr + f64) \<times> nodePowerHTTPReaders" where
  "queryNodePowerHTTP lib get now endpoint spec nodeName readers =
     (case FetchTelemetry get (replaceNode nodeName endpoint) of
        Inl e \<Rightarrow> (Inl e, readers)
      | Inr body \<Rightarrow>
          (case ReadPower lib now body (nodePowerHTTPSelector nodeName (ps_scope spec)) (nodePowerHTTPReader readers endpoint (ps_window spec)) of
             (res, legacy, r) \<Rightarrow>
               ((case res of Inl e \<Rightarrow> Inl e | Inr None \<Rightarrow> Inr 0 | Inr (Some w) \<Rightarrow> Inr w), readers((endpoint, ps_window spec) \<mapsto> r))))"

section \<open>Lemmas: readings are never negative\<close>

text \<open>A reader whose kept rates are non-negative.\<close>

definition seriesOK :: "seriesMap \<Rightarrow> bool" where
  "seriesOK m \<longleftrightarrow> (\<forall>se \<in> ran m. se_watts se \<ge> 0)"

definition readerOK :: "PowerReader \<Rightarrow> bool" where
  "readerOK r \<longleftrightarrow> (\<forall>m \<in> ran (pr_series r). seriesOK m)"

definition readingOK :: "powerReading \<Rightarrow> bool" where
  "readingOK rd \<longleftrightarrow> rd_energyW rd \<ge> 0 \<and> rd_gaugeW rd \<ge> 0"

definition compsOK :: "components \<Rightarrow> bool" where
  "compsOK comps \<longleftrightarrow> (\<forall>rd \<in> ran (map_of comps). readingOK rd)"

lemma powerSeconds_nonneg [simp]: "0 \<le> powerSeconds n"
  by (simp add: powerSeconds_def)

lemma powerValue_nonneg: "powerValue p = Some v \<Longrightarrow> 0 \<le> v"
  by (auto simp: powerValue_def split: option.splits sampleValue.splits if_splits)

lemma stepSeries_nonneg:
  "(\<And>old. prev = Some old \<Longrightarrow> 0 \<le> se_watts old) \<Longrightarrow> 0 \<le> se_watts (stepSeries bound now prev start t v)"
  by (auto simp: stepSeries_def Let_def split: option.splits)

lemma readingOf_OK: "compsOK comps \<Longrightarrow> readingOK (readingOf comps c)"
  by (cases "map_of comps c") (auto simp: compsOK_def readingOf_def readingOK_def emptyReading_def intro: ranI)

lemma compsOK_update: "compsOK comps \<Longrightarrow> readingOK rd \<Longrightarrow> compsOK (AList.update c rd comps)"
  by (auto simp: compsOK_def update_conv' ran_def split: if_splits)

lemma seriesOK_lookup: "seriesOK m \<Longrightarrow> m i = Some se \<Longrightarrow> 0 \<le> se_watts se"
  by (auto simp: seriesOK_def ran_def)

lemma seriesOK_upd: "seriesOK m \<Longrightarrow> 0 \<le> se_watts se \<Longrightarrow> seriesOK (m(i \<mapsto> se))"
  by (auto simp: seriesOK_def ran_def)

lemma readPoint_OK:
  assumes "seriesOK prev" "seriesOK (fst st)" "compsOK (snd st)"
  shows "seriesOK (fst (readPoint fmtFloat bound now s prev pre isPower delta p st)) \<and>
         compsOK (snd (readPoint fmtFloat bound now s prev pre isPower delta p st))"
proof (cases "(powerSelect fmtFloat s (dp_attributes p), powerValue p)")
  case (Pair sel val)
  obtain next' comps where st: "st = (next', comps)" by (cases st)
  show ?thesis
  proof (cases sel)
    case None
    then show ?thesis using Pair assms by (simp add: readPoint_def st)
  next
    case sel: (Some c)
    show ?thesis
    proof (cases val)
      case None
      then show ?thesis using Pair assms sel by (simp add: readPoint_def st)
    next
      case (Some v)
      then have v: "0 \<le> v" using Pair powerValue_nonneg [of p v] by simp
      define i where "i = pre @ powerAttrsID fmtFloat (dp_attributes p)"
      define old where "old = (case next' i of Some o' \<Rightarrow> Some o' | None \<Rightarrow> prev i)"
      define cur where "cur = stepSeries bound now old (dp_start p) (dp_time p) v"
      have cur: "0 \<le> se_watts cur"
        unfolding cur_def by (rule stepSeries_nonneg)
          (use assms in \<open>auto simp: old_def st split: option.splits intro: seriesOK_lookup\<close>)
      have rd: "readingOK (readingOf comps c)" using assms by (simp add: st readingOf_OK)
      have add: "0 \<le> w \<Longrightarrow> readingOK (addEnergy w (readingOf comps c))" for w
        using rd by (simp add: addEnergy_def readingOK_def)
      have others: "readingOK (readingOf comps c\<lparr>rd_energyCold := True\<rparr>)"
        "readingOK (readingOf comps c\<lparr>rd_gaugeW := max (rd_gaugeW (readingOf comps c)) v, rd_gaugeOK := True\<rparr>)"
        using rd v by (auto simp: readingOK_def)
      show ?thesis
        using assms Pair sel Some v rd add others cur
        by (simp add: readPoint_def st Let_def compsOK_update seriesOK_upd flip: i_def old_def cur_def)
    qed
  qed
qed

lemma fold_OK:
  assumes "\<And>x st. P st \<Longrightarrow> P (f x st)" "P st"
  shows "P (fold f xs st)"
  using assms(2) by (induction xs arbitrary: st) (auto intro: assms(1))

lemma readResource_OK:
  assumes "seriesOK prev" "seriesOK (fst st) \<and> compsOK (snd st)"
  shows "seriesOK (fst (readResource fmtFloat bound now s prev rm st)) \<and> compsOK (snd (readResource fmtFloat bound now s prev rm st))"
proof -
  have metric: "seriesOK (fst (readMetric fmtFloat bound now s prev i m st)) \<and> compsOK (snd (readMetric fmtFloat bound now s prev i m st))"
    if "seriesOK (fst st) \<and> compsOK (snd st)" for i m st
  proof (cases "powerPoints (om_data m)")
    case (Pair points delta)
    have "seriesOK (fst (fold (readPoint fmtFloat bound now s prev j pw delta) points st)) \<and>
          compsOK (snd (fold (readPoint fmtFloat bound now s prev j pw delta) points st))" for j pw
      by (rule fold_OK [where P = "\<lambda>st. seriesOK (fst st) \<and> compsOK (snd st)"]) (use assms(1) readPoint_OK that in blast)+
    then show ?thesis using that by (simp only: readMetric_def Let_def Pair prod.case split: if_split) blast
  qed
  have "seriesOK (fst (fold (readMetric fmtFloat bound now s prev i) ms st)) \<and>
        compsOK (snd (fold (readMetric fmtFloat bound now s prev i) ms st))" for i ms
    by (rule fold_OK [where P = "\<lambda>st. seriesOK (fst st) \<and> compsOK (snd st)"]) (use metric assms(2) in blast)+
  then show ?thesis using assms(2) unfolding readResource_def by (simp split: if_split)
qed

lemma sumComponents_nonneg:
  "sumComponents rds tot k = Some w \<Longrightarrow> 0 \<le> tot \<Longrightarrow> \<forall>rd \<in> set rds. readingOK rd \<Longrightarrow> 0 \<le> w"
  by (induction rds tot k rule: sumComponents.induct) (auto simp: readingOK_def split: if_splits)

lemma Watts_OK:
  assumes "readerOK r"
  shows "readerOK (snd (Watts fmtFloat now md s r)) \<and> (\<forall>w. fst (Watts fmtFloat now md s r) = Some w \<longrightarrow> 0 \<le> w)"
proof -
  define prev where "prev = (case pr_series r (selectorKey s) of Some m \<Rightarrow> m | None \<Rightarrow> Map.empty)"
  have prev: "seriesOK prev"
    using assms by (auto simp: prev_def readerOK_def seriesOK_def ran_def split: option.splits)
  obtain next' comps where F: "fold (readResource fmtFloat (readerBound r) now s prev) md (Map.empty, []) = (next', comps)" by force
  have "seriesOK (fst (fold (readResource fmtFloat (readerBound r) now s prev) md (Map.empty, []))) \<and>
        compsOK (snd (fold (readResource fmtFloat (readerBound r) now s prev) md (Map.empty, [])))"
    by (rule fold_OK [where P = "\<lambda>st. seriesOK (fst st) \<and> compsOK (snd st)"])
      (use prev readResource_OK in blast, simp add: seriesOK_def compsOK_def)
  then have next': "seriesOK next'" and comps: "compsOK comps" by (simp_all add: F)
  have "readerOK (snd (Watts fmtFloat now md s r))"
    using assms next' unfolding Watts_def Let_def prev_def [symmetric] F by (auto simp: readerOK_def ran_def)
  moreover have "0 \<le> w" if "fst (Watts fmtFloat now md s r) = Some w" for w
    using that comps unfolding Watts_def Let_def prev_def [symmetric] F by (auto simp: readingOf_OK elim!: sumComponents_nonneg)
  ultimately show ?thesis by blast
qed

text \<open>What a reader answers to the documents it is given, each with the time of its clock.\<close>

fun readRun :: "(f64 \<Rightarrow> string) \<Rightarrow> (int \<times> MetricsData \<times> Selector) list \<Rightarrow> PowerReader \<Rightarrow> f64 option list" where
  "readRun fmtFloat [] r = []"
| "readRun fmtFloat ((now, md, s) # docs) r = (case Watts fmtFloat now md s r of (w, r') \<Rightarrow> w # readRun fmtFloat docs r')"

lemma readRun_nonneg: "readerOK r \<Longrightarrow> Some w \<in> set (readRun fmtFloat docs r) \<Longrightarrow> 0 \<le> w"
proof (induction docs arbitrary: r)
  case (Cons d docs)
  obtain now md s where d: "d = (now, md, s)" by (cases d)
  obtain x r' where W: "Watts fmtFloat now md s r = (x, r')" by force
  then have "readerOK r'" "\<And>v. x = Some v \<Longrightarrow> 0 \<le> v" using Watts_OK [OF Cons.prems(1), of fmtFloat now md s] by simp_all
  then show ?case using Cons.prems(2) Cons.IH [of r'] by (auto simp: d W)
qed simp

lemma readerOK_empty: "readerOK (emptyReader window)"
  by (simp add: readerOK_def emptyReader_def)

section \<open>Lemmas: a steady producer is read exactly\<close>

text \<open>One export of the cumulative energies \<open>E\<close> of the components with the attributes \<open>as\<close>, at the time \<open>t\<close> of the producer.\<close>

definition energyPoint :: "nat \<Rightarrow> nat \<Rightarrow> (KeyValue list \<Rightarrow> f64) \<Rightarrow> KeyValue list \<Rightarrow> NumberDataPoint" where
  "energyPoint start t E a = \<lparr>dp_attributes = a, dp_start = start, dp_time = t, dp_value = Some (Finite (E a))\<rparr>"

definition energyExport :: "KeyValue list \<Rightarrow> Selector \<Rightarrow> nat \<Rightarrow> KeyValue list list \<Rightarrow> nat \<Rightarrow> (KeyValue list \<Rightarrow> f64) \<Rightarrow> MetricsData" where
  "energyExport res s start as t E =
     [\<lparr>rm_attributes = res, rm_metrics = [[\<lparr>om_name = if sel_host s then ''hw.host.energy'' else ''hw.energy'',
        om_data = SumPoints (map (energyPoint start t E) as) 2\<rparr>]]\<rparr>]"

text \<open>The components are selected and told apart, and the resource names the node or none.\<close>

definition producerOf :: "(f64 \<Rightarrow> string) \<Rightarrow> Selector \<Rightarrow> KeyValue list \<Rightarrow> KeyValue list list \<Rightarrow> bool" where
  "producerOf fmtFloat s res as \<longleftrightarrow>
     as \<noteq> [] \<and> distinct (map (powerAttrsID fmtFloat) as) \<and>
     list_all (\<lambda>a. powerSelect fmtFloat s a \<noteq> None) as \<and> distinct (map (powerSelect fmtFloat s) as) \<and>
     (case powerAttr fmtFloat res ''k8s.node.name'' of Some node \<Rightarrow> node = sel_node s | None \<Rightarrow> True)"

text \<open>Samples of a producer that runs on: the reader's clock, the producer's time and its energies. Times go forward by
  no more than the window, energies do not fall.\<close>

type_synonym energySampleAt = "int \<times> nat \<times> (KeyValue list \<Rightarrow> f64)"

fun steady :: "int \<Rightarrow> KeyValue list list \<Rightarrow> energySampleAt list \<Rightarrow> bool" where
  "steady bound as [] \<longleftrightarrow> True"
| "steady bound as [(now, t, E)] \<longleftrightarrow> 0 < t \<and> list_all (\<lambda>a. 0 \<le> E a) as"
| "steady bound as ((now, t, E) # (now', t', E') # xs) \<longleftrightarrow>
     0 < t \<and> list_all (\<lambda>a. 0 \<le> E a) as \<and> t < t' \<and> int (t' - t) \<le> bound \<and> list_all (\<lambda>a. E a \<le> E' a) as \<and> steady bound as ((now', t', E') # xs)"

definition energyRate :: "KeyValue list list \<Rightarrow> energySampleAt \<Rightarrow> energySampleAt \<Rightarrow> f64" where
  "energyRate as x y = (\<Sum>a\<leftarrow>as. snd (snd y) a - snd (snd x) a) / powerSeconds (fst (snd y) - fst (snd x))"

lemma AList_update_new: "c \<notin> fst ` set cs \<Longrightarrow> AList.update c rd cs = cs @ [(c, rd)]"
  by (induction cs) auto

definition curOf :: "(f64 \<Rightarrow> string) \<Rightarrow> int \<Rightarrow> int \<Rightarrow> seriesMap \<Rightarrow> string \<Rightarrow> nat \<Rightarrow> nat \<Rightarrow> (KeyValue list \<Rightarrow> f64) \<Rightarrow> KeyValue list \<Rightarrow> powerSeries" where
  "curOf fmtFloat bound now prev pre start t E a = stepSeries bound now (prev (pre @ powerAttrsID fmtFloat a)) start t (E a)"

definition firstReading :: "powerSeries \<Rightarrow> powerReading" where
  "firstReading cur = (if se_hasWatts cur then addEnergy (se_watts cur) emptyReading else emptyReading\<lparr>rd_energyCold := True\<rparr>)"

lemma readPoint_new:
  assumes "powerSelect fmtFloat s a = Some c" "0 \<le> E a" "0 < t"
    and "next' (pre @ powerAttrsID fmtFloat a) = None" "c \<notin> fst ` set cs"
  shows "readPoint fmtFloat bound now s prev pre False False (energyPoint start t E a) (next', cs) =
         (next'(pre @ powerAttrsID fmtFloat a \<mapsto> curOf fmtFloat bound now prev pre start t E a),
          cs @ [(c, firstReading (curOf fmtFloat bound now prev pre start t E a))])"
proof -
  have "map_of cs c = None" using assms(5) by (simp add: map_of_eq_None_iff)
  then have "readingOf cs c = emptyReading" by (simp add: readingOf_def)
  moreover have "powerValue (energyPoint start t E a) = Some (E a)" using assms(2) by (simp add: powerValue_def energyPoint_def)
  ultimately show ?thesis
    using assms by (simp add: readPoint_def energyPoint_def AList_update_new firstReading_def curOf_def Let_def)
qed

lemma fold_new_points:
  assumes "list_all (\<lambda>a. powerSelect fmtFloat s a \<noteq> None) as" "list_all (\<lambda>a. 0 \<le> E a) as" "0 < t"
    and "distinct (map (powerAttrsID fmtFloat) as)" "distinct (map (powerSelect fmtFloat s) as)"
    and "\<forall>a \<in> set as. next' (pre @ powerAttrsID fmtFloat a) = None" "\<forall>a \<in> set as. the (powerSelect fmtFloat s a) \<notin> fst ` set cs"
  shows "fold (readPoint fmtFloat bound now s prev pre False False) (map (energyPoint start t E) as) (next', cs) =
         (fold (\<lambda>a m. m(pre @ powerAttrsID fmtFloat a \<mapsto> curOf fmtFloat bound now prev pre start t E a)) as next',
          cs @ map (\<lambda>a. (the (powerSelect fmtFloat s a), firstReading (curOf fmtFloat bound now prev pre start t E a))) as)"
  using assms
proof (induction as arbitrary: next' cs)
  case (Cons a as)
  define i where "i = pre @ powerAttrsID fmtFloat a"
  define cur where "cur = curOf fmtFloat bound now prev pre start t E a"
  define nx where "nx = next'(i \<mapsto> cur)"
  obtain c where c: "powerSelect fmtFloat s a = Some c" using Cons.prems(1) by auto
  have step: "readPoint fmtFloat bound now s prev pre False False (energyPoint start t E a) (next', cs) = (nx, cs @ [(c, firstReading cur)])"
    unfolding nx_def i_def cur_def by (rule readPoint_new) (use Cons.prems c in auto)
  have sel: "powerSelect fmtFloat s b \<noteq> Some c" "powerSelect fmtFloat s b \<noteq> None" if "b \<in> set as" for b
    using Cons.prems(1,5) that c by (auto simp: list_all_iff image_iff)
  have "\<forall>b \<in> set as. nx (pre @ powerAttrsID fmtFloat b) = None"
    using Cons.prems(4,6) by (auto simp: nx_def i_def image_iff)
  moreover have "\<forall>b \<in> set as. the (powerSelect fmtFloat s b) \<notin> fst ` set (cs @ [(c, firstReading cur)])"
  proof
    fix b assume b: "b \<in> set as"
    then obtain c' where "powerSelect fmtFloat s b = Some c'" "c' \<noteq> c" using sel by blast
    moreover have "the (powerSelect fmtFloat s b) \<notin> fst ` set cs" using Cons.prems(7) b by simp
    ultimately show "the (powerSelect fmtFloat s b) \<notin> fst ` set (cs @ [(c, firstReading cur)])" by simp
  qed
  moreover have "list_all (\<lambda>a. powerSelect fmtFloat s a \<noteq> None) as" "list_all (\<lambda>a. 0 \<le> E a) as"
    "distinct (map (powerAttrsID fmtFloat) as)" "distinct (map (powerSelect fmtFloat s) as)"
    using Cons.prems by simp_all
  ultimately have "fold (readPoint fmtFloat bound now s prev pre False False) (map (energyPoint start t E) as) (nx, cs @ [(c, firstReading cur)]) =
     (fold (\<lambda>a m. m(pre @ powerAttrsID fmtFloat a \<mapsto> curOf fmtFloat bound now prev pre start t E a)) as nx,
      (cs @ [(c, firstReading cur)]) @ map (\<lambda>a. (the (powerSelect fmtFloat s a), firstReading (curOf fmtFloat bound now prev pre start t E a))) as)"
    using Cons.prems(3) by (intro Cons.IH)
  then show ?case by (simp only: step c list.map fold.simps comp_apply nx_def i_def cur_def append_assoc append_Cons append_Nil option.sel)
qed simp

lemma fold_upd_other: "\<forall>a \<in> set as. k a \<noteq> i \<Longrightarrow> fold (\<lambda>a m. m(k a \<mapsto> v a)) as m i = m i"
  by (induction as arbitrary: m) auto

lemma fold_upd_lookup:
  "distinct (map k as) \<Longrightarrow> a \<in> set as \<Longrightarrow> fold (\<lambda>a m. m(k a \<mapsto> v a)) as m (k a) = Some (v a)"
proof (induction as arbitrary: m)
  case (Cons b as)
  show ?case
  proof (cases "a \<in> set as")
    case True
    then show ?thesis using Cons by simp
  next
    case False
    then have "b = a" "\<forall>b \<in> set as. k b \<noteq> k a" using Cons.prems by (auto simp: image_iff)
    then have "fold (\<lambda>a m. m(k a \<mapsto> v a)) as (m(k a \<mapsto> v a)) (k a) = Some (v a)" by (subst fold_upd_other) simp_all
    then show ?thesis using \<open>b = a\<close> by (simp only: fold.simps comp_apply)
  qed
qed simp

lemma sumComponents_energy:
  "\<forall>rd \<in> set rds. rd_energyOK rd \<Longrightarrow> rds \<noteq> [] \<or> 0 < k \<Longrightarrow> sumComponents rds tot k = Some (tot + sum_list (map rd_energyW rds))"
  by (induction rds arbitrary: tot k) auto

lemma sumComponents_cold:
  "rds \<noteq> [] \<Longrightarrow> \<forall>rd \<in> set rds. \<not> rd_energyOK rd \<and> \<not> rd_gaugeOK rd \<and> rd_energyCold rd \<Longrightarrow> sumComponents rds tot k = None"
  by (cases rds) auto

lemma readingOf_distinct:
  "distinct (map k as) \<Longrightarrow> a \<in> set as \<Longrightarrow> readingOf (map (\<lambda>a. (k a, v a)) as) (k a) = v a"
proof -
  assume k: "distinct (map k as)" and a: "a \<in> set as"
  have "map_of (map (\<lambda>a. (k a, v a)) as) (k a) = Some (v a)"
    by (rule map_of_is_SomeI) (use k a in \<open>simp_all add: comp_def\<close>)
  then show ?thesis by (simp add: readingOf_def)
qed

lemma sum_list_mset_eq: "mset xs = mset ys \<Longrightarrow> sum_list xs = (sum_list ys :: 'a :: comm_monoid_add)"
  by (metis sum_mset_sum_list)

text \<open>The sum does not depend on the order the components are sorted into.\<close>

lemma sum_sorted_components:
  fixes f :: "powerReading \<Rightarrow> f64"
  assumes "distinct (map k as)"
  shows "sum_list (map f (map (readingOf (map (\<lambda>a. (k a, v a)) as)) (go_sort (<) (map fst (map (\<lambda>a. (k a, v a)) as))))) = (\<Sum>a\<leftarrow>as. f (v a))"
proof -
  define cs where "cs = map (\<lambda>a. (k a, v a)) as"
  have "sum_list (map (\<lambda>c. f (readingOf cs c)) (go_sort (<) (map k as))) = sum_list (map (\<lambda>c. f (readingOf cs c)) (map k as))"
    by (rule sum_list_mset_eq) (simp only: mset_map mset_go_sort)
  also have "\<dots> = (\<Sum>a\<leftarrow>as. f (v a))"
    using assms by (simp add: comp_def cs_def readingOf_distinct cong: map_cong)
  finally show ?thesis by (simp add: comp_def cs_def)
qed

lemma set_sorted_components:
  assumes "distinct (map k as)"
  shows "set (map (readingOf (map (\<lambda>a. (k a, v a)) as)) (go_sort (<) (map fst (map (\<lambda>a. (k a, v a)) as)))) = v ` set as"
  using assms by (auto simp: comp_def readingOf_distinct image_iff)

lemma Watts_export:
  assumes P: "producerOf fmtFloat s res as" and E: "list_all (\<lambda>a. 0 \<le> E a) as" and t: "0 < t"
    and prev: "prev = (case pr_series r (selectorKey s) of Some m \<Rightarrow> m | None \<Rightarrow> Map.empty)"
    and pre: "pre = resourceID fmtFloat res @ (if sel_host s then ''hw.host.energy'' else ''hw.energy'') @ [CHR 0x00]"
    and cur: "cur = curOf fmtFloat (readerBound r) now prev pre start t E"
  shows "\<exists>m. snd (Watts fmtFloat now (energyExport res s start as t E) s r) = r\<lparr>pr_series := (pr_series r)(selectorKey s \<mapsto> m)\<rparr> \<and>
             (\<forall>a \<in> set as. m (pre @ powerAttrsID fmtFloat a) = Some (cur a))"
    "list_all (\<lambda>a. \<not> se_hasWatts (cur a)) as \<Longrightarrow> fst (Watts fmtFloat now (energyExport res s start as t E) s r) = None"
    "list_all (\<lambda>a. se_hasWatts (cur a) \<and> 0 \<le> se_watts (cur a)) as \<Longrightarrow>
     fst (Watts fmtFloat now (energyExport res s start as t E) s r) = Some (\<Sum>a\<leftarrow>as. se_watts (cur a))"
proof -
  define k where "k = (\<lambda>a. the (powerSelect fmtFloat s a))"
  define cs where "cs = map (\<lambda>a. (k a, firstReading (cur a))) as"
  define m where "m = fold (\<lambda>a m. m(pre @ powerAttrsID fmtFloat a \<mapsto> cur a)) as Map.empty"
  have ids: "distinct (map (\<lambda>a. pre @ powerAttrsID fmtFloat a) as)" and ne: "as \<noteq> []"
    using P by (auto simp: producerOf_def distinct_map inj_on_def)
  have k: "distinct (map k as)"
  proof -
    have "inj_on the (set (map (powerSelect fmtFloat s) as))"
      using P by (intro inj_onI option.expand) (auto simp: producerOf_def list_all_iff)
    then have "distinct (map the (map (powerSelect fmtFloat s) as))"
      using P by (simp only: distinct_map [of the] producerOf_def)
    then show ?thesis by (simp add: k_def comp_def)
  qed
  have pts: "fold (readPoint fmtFloat (readerBound r) now s prev pre False False) (map (energyPoint start t E) as) (Map.empty, []) = (m, cs)"
    unfolding m_def cs_def k_def cur using P E t by (subst fold_new_points) (simp_all add: producerOf_def)
  have "readResource fmtFloat (readerBound r) now s prev rm (Map.empty, []) = (m, cs)"
    if "rm = hd (energyExport res s start as t E)" for rm
    using P pts that
    by (cases "sel_host s"; cases "powerAttr fmtFloat res ''k8s.node.name''")
      (simp_all add: readResource_def energyExport_def readMetric_def powerPoints_def pre producerOf_def)
  then have F: "fold (readResource fmtFloat (readerBound r) now s prev) (energyExport res s start as t E) (Map.empty, []) = (m, cs)"
    by (simp add: energyExport_def)
  have m: "m (pre @ powerAttrsID fmtFloat a) = Some (cur a)" if "a \<in> set as" for a
    unfolding m_def using fold_upd_lookup [OF ids that] .
  have "m \<noteq> Map.empty" using m ne by (cases as) auto
  then have W: "Watts fmtFloat now (energyExport res s start as t E) s r =
      (sumComponents (map (readingOf cs) (go_sort (<) (map fst cs))) 0 0, r\<lparr>pr_series := (pr_series r)(selectorKey s \<mapsto> m)\<rparr>)"
    unfolding Watts_def Let_def prev [symmetric] F by simp
  show "\<exists>m. snd (Watts fmtFloat now (energyExport res s start as t E) s r) = r\<lparr>pr_series := (pr_series r)(selectorKey s \<mapsto> m)\<rparr> \<and>
             (\<forall>a \<in> set as. m (pre @ powerAttrsID fmtFloat a) = Some (cur a))"
    using W m by auto
  have set_cs: "set (map (readingOf cs) (go_sort (<) (map fst cs))) = (\<lambda>a. firstReading (cur a)) ` set as"
    unfolding cs_def by (rule set_sorted_components [OF k])
  have ne_cs: "map (readingOf cs) (go_sort (<) (map fst cs)) \<noteq> []"
    using set_cs ne by (metis image_is_empty list.set(1) set_empty)
  show "fst (Watts fmtFloat now (energyExport res s start as t E) s r) = None" if "list_all (\<lambda>a. \<not> se_hasWatts (cur a)) as"
    unfolding W fst_conv by (rule sumComponents_cold [OF ne_cs], unfold set_cs) (use that in \<open>auto simp: list_all_iff firstReading_def emptyReading_def\<close>)
  show "fst (Watts fmtFloat now (energyExport res s start as t E) s r) = Some (\<Sum>a\<leftarrow>as. se_watts (cur a))"
    if "list_all (\<lambda>a. se_hasWatts (cur a) \<and> 0 \<le> se_watts (cur a)) as"
  proof -
    have "sumComponents (map (readingOf cs) (go_sort (<) (map fst cs))) 0 0 =
          Some (0 + sum_list (map rd_energyW (map (readingOf cs) (go_sort (<) (map fst cs)))))"
      by (rule sumComponents_energy, unfold set_cs) (use that ne_cs in \<open>auto simp: list_all_iff firstReading_def addEnergy_def\<close>)
    also have "sum_list (map rd_energyW (map (readingOf cs) (go_sort (<) (map fst cs)))) = (\<Sum>a\<leftarrow>as. rd_energyW (firstReading (cur a)))"
      unfolding cs_def by (rule sum_sorted_components [OF k])
    also have "\<dots> = (\<Sum>a\<leftarrow>as. se_watts (cur a))"
      using that by (intro arg_cong [where f = sum_list] map_cong) (auto simp: list_all_iff firstReading_def addEnergy_def emptyReading_def)
    finally show ?thesis by (simp add: W)
  qed
qed

text \<open>What a reader keeps of a sample.\<close>

definition holdsSample :: "(f64 \<Rightarrow> string) \<Rightarrow> string \<Rightarrow> nat \<Rightarrow> KeyValue list list \<Rightarrow> energySampleAt \<Rightarrow> seriesMap \<Rightarrow> bool" where
  "holdsSample fmtFloat pre start as x m \<longleftrightarrow>
     (\<forall>a \<in> set as. \<exists>se. m (pre @ powerAttrsID fmtFloat a) = Some se \<and>
        se_start se = start \<and> se_time se = fst (snd x) \<and> se_energyJ se = snd (snd x) a)"

lemma stepSeries_advances:
  assumes "se_start old = start" "se_time old < t" "se_energyJ old \<le> v" "int (t - se_time old) \<le> bound"
  shows "stepSeries bound now (Some old) start t v =
    \<lparr>se_start = start, se_time = t, se_energyJ = v, se_watts = (v - se_energyJ old) / powerSeconds (t - se_time old), se_hasWatts = True, se_kept = now\<rparr>"
  using assms by (simp add: stepSeries_def)

definition seriesPrefix :: "(f64 \<Rightarrow> string) \<Rightarrow> Selector \<Rightarrow> KeyValue list \<Rightarrow> string" where
  "seriesPrefix fmtFloat s res = resourceID fmtFloat res @ (if sel_host s then ''hw.host.energy'' else ''hw.energy'') @ [CHR 0x00]"

lemma readerBound_series [simp]: "readerBound (r\<lparr>pr_series := m\<rparr>) = readerBound r"
  by (simp add: readerBound_def)

lemma Watts_first:
  assumes P: "producerOf fmtFloat s res as" and x: "0 < t" "list_all (\<lambda>a. 0 \<le> E a) as"
    and none: "pr_series r (selectorKey s) = None"
  shows "\<exists>m. Watts fmtFloat now (energyExport res s start as t E) s r = (None, r\<lparr>pr_series := (pr_series r)(selectorKey s \<mapsto> m)\<rparr>) \<and>
    holdsSample fmtFloat (seriesPrefix fmtFloat s res) start as (now, t, E) m"
proof -
  define cur where "cur = curOf fmtFloat (readerBound r) now Map.empty (seriesPrefix fmtFloat s res) start t E"
  have cur: "cur a = \<lparr>se_start = start, se_time = t, se_energyJ = E a, se_watts = 0, se_hasWatts = False, se_kept = now\<rparr>" for a
    by (simp add: cur_def curOf_def stepSeries_def)
  note W = Watts_export [OF P x(2,1) _ seriesPrefix_def cur_def, unfolded none option.case, OF refl]
  have "fst (Watts fmtFloat now (energyExport res s start as t E) s r) = None"
    by (rule W(2)) (simp add: cur list_all_iff)
  moreover obtain m where "snd (Watts fmtFloat now (energyExport res s start as t E) s r) = r\<lparr>pr_series := (pr_series r)(selectorKey s \<mapsto> m)\<rparr>"
    "\<forall>a \<in> set as. m (seriesPrefix fmtFloat s res @ powerAttrsID fmtFloat a) = Some (cur a)"
    using W(1) by blast
  ultimately show ?thesis by (intro exI [of _ m]) (simp add: prod_eq_iff holdsSample_def cur)
qed

lemma Watts_next:
  assumes P: "producerOf fmtFloat s res as" and y: "0 < t'" "list_all (\<lambda>a. 0 \<le> E' a) as"
    and held: "pr_series r (selectorKey s) = Some m0" "holdsSample fmtFloat (seriesPrefix fmtFloat s res) start as (now, t, E) m0"
    and step: "t < t'" "int (t' - t) \<le> readerBound r" "list_all (\<lambda>a. E a \<le> E' a) as"
  shows "\<exists>m. Watts fmtFloat now' (energyExport res s start as t' E') s r =
      (Some (energyRate as (now, t, E) (now', t', E')), r\<lparr>pr_series := (pr_series r)(selectorKey s \<mapsto> m)\<rparr>) \<and>
    holdsSample fmtFloat (seriesPrefix fmtFloat s res) start as (now', t', E') m"
proof -
  define cur where "cur = curOf fmtFloat (readerBound r) now' m0 (seriesPrefix fmtFloat s res) start t' E'"
  have cur: "cur a = \<lparr>se_start = start, se_time = t', se_energyJ = E' a, se_watts = (E' a - E a) / powerSeconds (t' - t), se_hasWatts = True, se_kept = now'\<rparr>"
    if a: "a \<in> set as" for a
  proof -
    obtain se where "m0 (seriesPrefix fmtFloat s res @ powerAttrsID fmtFloat a) = Some se"
      "se_start se = start" "se_time se = t" "se_energyJ se = E a"
      using held(2) a by (auto simp: holdsSample_def)
    then show ?thesis using step a stepSeries_advances [of se start t' "E' a" "readerBound r" now']
      by (simp add: cur_def curOf_def list_all_iff)
  qed
  note W = Watts_export [OF P y(2,1) _ seriesPrefix_def cur_def, unfolded held(1) option.case, OF refl]
  have "fst (Watts fmtFloat now' (energyExport res s start as t' E') s r) = Some (\<Sum>a\<leftarrow>as. se_watts (cur a))"
    by (rule W(3)) (use step(3) in \<open>simp add: cur list_all_iff\<close>)
  moreover have "(\<Sum>a\<leftarrow>as. se_watts (cur a)) = energyRate as (now, t, E) (now', t', E')"
    by (simp add: cur energyRate_def divide_inverse sum_list_mult_const cong: map_cong)
  moreover obtain m where "snd (Watts fmtFloat now' (energyExport res s start as t' E') s r) = r\<lparr>pr_series := (pr_series r)(selectorKey s \<mapsto> m)\<rparr>"
    "\<forall>a \<in> set as. m (seriesPrefix fmtFloat s res @ powerAttrsID fmtFloat a) = Some (cur a)"
    using W(1) by blast
  ultimately show ?thesis by (intro exI [of _ m]) (simp add: prod_eq_iff holdsSample_def cur)
qed

text \<open>The documents of the samples.\<close>

definition exportsOf :: "KeyValue list \<Rightarrow> Selector \<Rightarrow> nat \<Rightarrow> KeyValue list list \<Rightarrow> energySampleAt list \<Rightarrow> (int \<times> MetricsData \<times> Selector) list" where
  "exportsOf res s start as xs = map (\<lambda>(now, t, E). (now, energyExport res s start as t E, s)) xs"

lemma readRun_held:
  assumes "producerOf fmtFloat s res as"
  shows "steady (readerBound r) as (x # xs) \<Longrightarrow> pr_series r (selectorKey s) = Some m0 \<Longrightarrow>
    holdsSample fmtFloat (seriesPrefix fmtFloat s res) start as x m0 \<Longrightarrow>
    readRun fmtFloat (exportsOf res s start as xs) r = map2 (\<lambda>x y. Some (energyRate as x y)) (x # xs) xs"
proof (induction xs arbitrary: x r m0)
  case Nil
  then show ?case by (simp add: exportsOf_def)
next
  case (Cons y ys)
  obtain now t E where x: "x = (now, t, E)" by (cases x)
  obtain now' t' E' where y: "y = (now', t', E')" by (cases y)
  have st: "steady (readerBound r) as (y # ys)" "t < t'" "int (t' - t) \<le> readerBound r" "list_all (\<lambda>a. E a \<le> E' a) as"
    using Cons.prems(1) unfolding x y steady.simps by blast+
  have y0: "0 < t'" "list_all (\<lambda>a. 0 \<le> E' a) as" using st(1) by (cases ys; force simp: y)+
  obtain m where m: "Watts fmtFloat now' (energyExport res s start as t' E') s r =
      (Some (energyRate as x y), r\<lparr>pr_series := (pr_series r)(selectorKey s \<mapsto> m)\<rparr>)"
    "holdsSample fmtFloat (seriesPrefix fmtFloat s res) start as y m"
    using Watts_next [OF assms y0 Cons.prems(2) Cons.prems(3) [unfolded x] st(2-4), of now'] unfolding x y by blast
  have "readRun fmtFloat (exportsOf res s start as ys) (r\<lparr>pr_series := (pr_series r)(selectorKey s \<mapsto> m)\<rparr>) =
        map2 (\<lambda>x y. Some (energyRate as x y)) (y # ys) ys"
    by (rule Cons.IH [OF _ _ m(2)]) (use st(1) in simp_all)
  then show ?case using m(1) by (simp add: exportsOf_def y)
qed

lemma readRun_steady:
  assumes P: "producerOf fmtFloat s res as" and st: "steady (readerBound r) as (x # xs)" and none: "pr_series r (selectorKey s) = None"
  shows "readRun fmtFloat (exportsOf res s start as (x # xs)) r = None # map2 (\<lambda>x y. Some (energyRate as x y)) (x # xs) xs"
proof -
  obtain now t E where x: "x = (now, t, E)" by (cases x)
  have x0: "0 < t" "list_all (\<lambda>a. 0 \<le> E a) as" using st by (cases xs; force simp: x)+
  obtain m where m: "Watts fmtFloat now (energyExport res s start as t E) s r = (None, r\<lparr>pr_series := (pr_series r)(selectorKey s \<mapsto> m)\<rparr>)"
    "holdsSample fmtFloat (seriesPrefix fmtFloat s res) start as x m"
    using Watts_first [OF P x0 none] unfolding x by blast
  have "readRun fmtFloat (exportsOf res s start as xs) (r\<lparr>pr_series := (pr_series r)(selectorKey s \<mapsto> m)\<rparr>) =
        map2 (\<lambda>x y. Some (energyRate as x y)) (x # xs) xs"
    by (rule readRun_held [OF P _ _ m(2)]) (use st in simp_all)
  then show ?thesis using m(1) by (simp add: exportsOf_def x)
qed

section \<open>Properties\<close>

text \<open>Whatever documents a power reader is given, for whatever selectors and at whatever times, it never answers with a
  negative power.\<close>

theorem PowerReader_nonneg:
  shows "Some w \<in> set (readRun fmtFloat docs (emptyReader window)) \<Longrightarrow> 0 \<le> w"
  by (rule readRun_nonneg [OF readerOK_empty])

definition exampleAttrs :: "string \<Rightarrow> KeyValue list" where
  "exampleAttrs i = [(''hw.type'', VString ''cpu''), (''hw.id'', VString i)]"

definition exampleSelector :: Selector where
  "exampleSelector = \<lparr>sel_node = ''n1'', sel_hwTypes = [''cpu''], sel_host = False\<rparr>"

lemma example_producer: "producerOf (\<lambda>_. []) exampleSelector [(''k8s.node.name'', VString ''n1'')] [exampleAttrs ''0'', exampleAttrs ''1'']"
  by code_simp

text \<open>A gauge of 40 W.\<close>

definition exampleGauge :: MetricsData where
  "exampleGauge = [\<lparr>rm_attributes = [], rm_metrics = [[\<lparr>om_name = ''hw.power'', om_data = GaugePoints [\<lparr>dp_attributes = exampleAttrs ''0'',
     dp_start = 0, dp_time = 5, dp_value = Some (Finite 40)\<rparr>]\<rparr>]]\<rparr>]"

lemma example_gauge_run: "readRun (\<lambda>_. []) [(0, exampleGauge, exampleSelector)] (emptyReader 0) = [Some 40]"
proof -
  have "powerSelect (\<lambda>_. []) exampleSelector (exampleAttrs ''0'') = Some (''cpu'', ''0'')" by code_simp
  then show ?thesis
    by (simp add: Watts_def exampleGauge_def readResource_def readMetric_def powerPoints_def readPoint_def powerValue_def readingOf_def
        emptyReading_def emptyReader_def Let_def go_sort_def exampleSelector_def)
qed

theorem PowerReader_nonneg_witness:
  "Some 40 \<in> set (readRun (\<lambda>_. []) [(0, exampleGauge, exampleSelector)] (emptyReader 0)) \<and> (0 :: f64) \<le> 40"
  using PowerReader_nonneg [of 40 "\<lambda>_. []" "[(0, exampleGauge, exampleSelector)]" 0] unfolding example_gauge_run by simp

text \<open>C19: Of a producer that runs on (its times go forward by at most the window, its energies do not fall, its components
  are told apart), a new reader answers nothing to the first document and to every later one exactly the energy all
  components used since the document before over the time the producer's clock went on, whatever the reader's own clock
  does.\<close>

theorem PowerReader_exact:
  assumes "producerOf fmtFloat s res as" "steady (readerBound (emptyReader window)) as (x # xs)"
  shows "readRun fmtFloat (exportsOf res s start as (x # xs)) (emptyReader window) =
    None # map2 (\<lambda>x y. Some (energyRate as x y)) (x # xs) xs"
  by (rule readRun_steady [OF assms]) (simp add: emptyReader_def)

theorem PowerReader_exact_witness:
  "readRun (\<lambda>_. []) (exportsOf [(''k8s.node.name'', VString ''n1'')] exampleSelector 7 [exampleAttrs ''0'', exampleAttrs ''1'']
      [(0, 1000000000, \<lambda>_. 100), (9, 3000000000, \<lambda>_. 150)]) (emptyReader 0) = [None, Some 50]"
proof -
  have "steady (readerBound (emptyReader 0)) [exampleAttrs ''0'', exampleAttrs ''1''] [(0, 1000000000, \<lambda>_. 100), (9, 3000000000, \<lambda>_. 150)]"
    by (simp add: readerBound_def emptyReader_def DefaultPowerMaxInterval_def)
  from PowerReader_exact [OF example_producer this, of 7] show ?thesis by (simp add: energyRate_def powerSeconds_def)
qed

end
