(* ===== verification/Controller_Measure.thy ===== *)
theory Controller_Measure
  imports Controller_Twin Otlp_Power Gov_Discovery
begin

text \<open>
  The measured inputs as the controller manager runs them: the Prometheus client of \<^verbatim>\<open>pkg/controller/inputs/prom.go\<close>,
  node power (\<^verbatim>\<open>cmd/controller-manager/nodepower.go\<close>) with its choice between the two forms of the query, the facility
  poll (\<^verbatim>\<open>facility.go\<close>), and the configuration of both (\<^verbatim>\<open>inputs_config.go\<close>, \<^verbatim>\<open>deprecated.go\<close>). The package variables of the
  program are the record \<open>inputState\<close>; it also holds what was asked of Prometheus and what was logged, newest first. The
  HTTP transport, URL encoding and the texts of errors are parameters; query counters are left out.
\<close>

section \<open>The Prometheus client\<close>

record promLib =
  prl_encode :: "string \<Rightarrow> string"
  prl_unmarshal :: "string \<Rightarrow> json option"
  prl_parseFloat :: "string \<Rightarrow> sampleValue option"

definition MaxResponseBytes :: int where
  "MaxResponseBytes = 67108864"

definition TrimRightSlash :: "string \<Rightarrow> string" where
  "TrimRightSlash s = rev (dropWhile (\<lambda>c. c = CHR ''/'') (rev s))"

definition promQuery :: "promLib \<Rightarrow> httpGet \<Rightarrow> string \<Rightarrow> string \<Rightarrow> inputErr + Result" where
  "promQuery lib get address q =
     (if address = [] then Inl NoAddress
      else (case get (TrimRightSlash address @ ''/api/v1/query?query='' @ prl_encode lib q) of
              Inl e \<Rightarrow> Inl (Unreachable e)
            | Inr (status, Inl e) \<Rightarrow> Inl (Unreachable e)
            | Inr (status, Inr body) \<Rightarrow>
                if int (length body) > MaxResponseBytes then Inl AnswerTooLong
                else ParseResponse (prl_unmarshal lib) (prl_parseFloat lib) status body))"

section \<open>State\<close>

datatype logLine = ErrorLine string string | WorksAgain string | HintLine string | FormLine string

record inputState =
  ist_errLast :: "string \<Rightarrow> (string \<times> int) option"
  ist_hintsSeen :: "string list"
  ist_autoForm :: string
  ist_round :: "(string \<Rightarrow> f64 option) option option"
  ist_asked :: "string list"
  ist_lines :: "(int \<times> logLine) list"

definition initialInputState :: inputState where
  "initialInputState = \<lparr>ist_errLast = Map.empty, ist_hintsSeen = [], ist_autoForm = [], ist_round = None, ist_asked = [], ist_lines = []\<rparr>"

text \<open>What the reader uses of its surroundings: the answers of the configured Prometheus, the clock and the texts of errors.\<close>

record inputEnv =
  ie_query :: "string \<Rightarrow> inputErr + Result"
  ie_now :: int
  ie_text :: "inputErr \<Rightarrow> string"

definition nodePowerErrorRepeat :: int where
  "nodePowerErrorRepeat = 10 * 60 * 1000000000"

definition logNodePowerError :: "int \<Rightarrow> string \<Rightarrow> string option \<Rightarrow> inputState \<Rightarrow> inputState" where
  "logNodePowerError now key err st =
     (case err of
        None \<Rightarrow>
          (case ist_errLast st key of
             None \<Rightarrow> st
           | Some _ \<Rightarrow> st\<lparr>ist_errLast := (ist_errLast st)(key := None), ist_lines := (now, WorksAgain key) # ist_lines st\<rparr>)
      | Some text \<Rightarrow>
          if (case ist_errLast st key of None \<Rightarrow> True | Some (last', when) \<Rightarrow> last' \<noteq> text \<or> now - when \<ge> nodePowerErrorRepeat)
          then st\<lparr>ist_errLast := (ist_errLast st)(key \<mapsto> (text, now)), ist_lines := (now, ErrorLine key text) # ist_lines st\<rparr>
          else st)"

definition nodePowerHintOnce :: "int \<Rightarrow> string \<Rightarrow> inputState \<Rightarrow> inputState" where
  "nodePowerHintOnce now key st =
     (if key \<in> set (ist_hintsSeen st) then st
      else st\<lparr>ist_hintsSeen := key # ist_hintsSeen st, ist_lines := (now, HintLine key) # ist_lines st\<rparr>)"

definition logQueryWarnings :: "int \<Rightarrow> string list \<Rightarrow> inputState \<Rightarrow> inputState" where
  "logQueryWarnings now warnings st = fold (\<lambda>w. nodePowerHintOnce now (''warning:'' @ w)) warnings st"

section \<open>Node power from Prometheus\<close>

record nodePowerRead =
  npr_values :: "string \<Rightarrow> f64 option"
  npr_issues :: Issues
  npr_err :: "inputErr option"

definition noIssues :: Issues where
  "noIssues = \<lparr>iss_series = 0, iss_missingLabel = 0, iss_nonFinite = 0, iss_duplicates = 0\<rparr>"

text \<open>\<open>len(r.values)\<close>: the series of the answer that have a key and a finite value.\<close>

definition lenValues :: "nodePowerRead \<Rightarrow> nat" where
  "lenValues r =
     (case npr_err r of Some _ \<Rightarrow> 0 | None \<Rightarrow> iss_series (npr_issues r) - iss_missingLabel (npr_issues r) - iss_nonFinite (npr_issues r))"

definition readResult :: "nodePowerRead \<Rightarrow> string" where
  "readResult r =
     (if npr_err r \<noteq> None then ''error''
      else if lenValues r = 0 then ''no_data''
      else if iss_missingLabel (npr_issues r) > 0 \<or> iss_nonFinite (npr_issues r) > 0 then ''partial''
      else ''success'')"

definition runGroupedNodePower :: "inputEnv \<Rightarrow> Query \<Rightarrow> inputState \<Rightarrow> nodePowerRead \<times> inputState" where
  "runGroupedNodePower env q st0 =
     (let st = st0\<lparr>ist_asked := q_promQL q # ist_asked st0\<rparr>; key = ''query:'' @ q_promQL q
      in case ie_query env (q_promQL q) of
           Inl e \<Rightarrow>
             (\<lparr>npr_values = Map.empty, npr_issues = noIssues, npr_err = Some e\<rparr>, logNodePowerError (ie_now env) key (Some (ie_text env e)) st)
         | Inr res \<Rightarrow>
             (let st' = logQueryWarnings (ie_now env) (res_warnings res) st
              in case ByLabel res (q_groupLabel q) of
                   (Inl e, iss) \<Rightarrow>
                     (\<lparr>npr_values = Map.empty, npr_issues = iss, npr_err = Some e\<rparr>,
                      logNodePowerError (ie_now env) key (Some (ie_text env e)) st')
                 | (Inr values, iss) \<Rightarrow>
                     (\<lparr>npr_values = values, npr_issues = iss, npr_err = None\<rparr>, logNodePowerError (ie_now env) key None st')))"

definition hintNodePower :: "int \<Rightarrow> NodePowerSpec \<Rightarrow> string \<Rightarrow> nodePowerRead \<Rightarrow> inputState \<Rightarrow> inputState" where
  "hintNodePower now spec form r st =
     (if (case npr_err r of
            Some (PromError status ty msg) \<Rightarrow> status = 422 \<or> Contains msg ''many-to-many'' \<or> Contains msg ''duplicate series''
          | _ \<Rightarrow> False)
      then nodePowerHintOnce now ''join'' st
      else if npr_err r \<noteq> None \<and> iss_duplicates (npr_issues r) > 0 then nodePowerHintOnce now ''duplicates'' st
      else if npr_err r \<noteq> None then st
      else if iss_missingLabel (npr_issues r) > 0 then nodePowerHintOnce now (''label:'' @ ps_preset spec @ '':'' @ form) st
      else if iss_series (npr_issues r) = 0 then nodePowerHintOnce now (''nodata:'' @ ps_preset spec) st
      else st)"

definition autoFormWorks :: "string \<Rightarrow> nodePowerRead \<Rightarrow> bool" where
  "autoFormWorks form r \<longleftrightarrow>
     \<not> (npr_err r \<noteq> None \<or> lenValues r = 0) \<and> (form \<noteq> ResourceAttributesLabels \<or> iss_missingLabel (npr_issues r) = 0)"

definition setNodePowerAutoForm :: "int \<Rightarrow> string \<Rightarrow> inputState \<Rightarrow> inputState" where
  "setNodePowerAutoForm now form st =
     (let st' = st\<lparr>ist_autoForm := form\<rparr>
      in if ist_autoForm st = form then st' else st'\<lparr>ist_lines := (now, FormLine form) # ist_lines st'\<rparr>)"

definition groupedNodePower :: "inputEnv \<Rightarrow> NodePowerSpec \<Rightarrow> Query \<Rightarrow> Query \<Rightarrow> inputState \<Rightarrow> (string \<Rightarrow> f64 option) \<times> inputState" where
  "groupedNodePower env spec primary fallback st =
     (if q_promQL fallback = []
      then (case runGroupedNodePower env primary st of
              (r, st') \<Rightarrow> (npr_values r, hintNodePower (ie_now env) spec (ps_resourceAttributes spec) r st'))
      else (let first = (if ist_autoForm st = [] then ResourceAttributesLabels else ist_autoForm st);
                (second, firstQ, secondQ) =
                  (if first = ResourceAttributesTargetInfo then (ResourceAttributesLabels, fallback, primary)
                   else (ResourceAttributesTargetInfo, primary, fallback))
            in case runGroupedNodePower env firstQ st of
                 (r1, st1) \<Rightarrow>
                   if autoFormWorks first r1 then (npr_values r1, setNodePowerAutoForm (ie_now env) first st1)
                   else (case runGroupedNodePower env secondQ st1 of
                           (r2, st2) \<Rightarrow>
                             if autoFormWorks second r2 then (npr_values r2, setNodePowerAutoForm (ie_now env) second st2)
                             else (if lenValues r2 > lenValues r1 then npr_values r2 else npr_values r1,
                                   hintNodePower (ie_now env) spec second r2 (hintNodePower (ie_now env) spec first r1 st2)))))"

definition perNodePower :: "inputEnv \<Rightarrow> Query \<Rightarrow> string \<Rightarrow> inputState \<Rightarrow> f64 option \<times> inputState" where
  "perNodePower env q nodeName st0 =
     (let promQL = replaceNode nodeName (q_promQL q); st = st0\<lparr>ist_asked := promQL # ist_asked st0\<rparr>; key = ''node:'' @ nodeName
      in case ie_query env promQL of
           Inl e \<Rightarrow> (None, logNodePowerError (ie_now env) key (Some (ie_text env e)) st)
         | Inr res \<Rightarrow>
             (let st' = logQueryWarnings (ie_now env) (res_warnings res) (logNodePowerError (ie_now env) key None st)
              in if list_all (\<lambda>s. sa_value s = NotFinite) (res_samples res) then (None, st')
                 else (Some (sumFinite (res_samples res)),
                       if length (res_samples res) > 1 then nodePowerHintOnce (ie_now env) (''series:'' @ nodeName) st' else st')))"

text \<open>A round is the reconcile's context: the first node runs the query, the others share its answer.\<close>

definition withNodePowerRound :: "inputState \<Rightarrow> inputState" where
  "withNodePowerRound st = st\<lparr>ist_round := Some None\<rparr>"

definition roundNodePower ::
  "(inputState \<Rightarrow> (string \<Rightarrow> f64 option) \<times> inputState) \<Rightarrow> inputState \<Rightarrow> (string \<Rightarrow> f64 option) \<times> inputState" where
  "roundNodePower run st =
     (case ist_round st of
        None \<Rightarrow> run st
      | Some (Some values) \<Rightarrow> (values, st)
      | Some None \<Rightarrow> (case run st of (values, st') \<Rightarrow> (values, st'\<lparr>ist_round := Some (Some values)\<rparr>)))"

definition prometheusNodePower :: "inputEnv \<Rightarrow> NodePowerSpec \<Rightarrow> string \<Rightarrow> inputState \<Rightarrow> f64 option \<times> inputState" where
  "prometheusNodePower env spec0 nodeName st =
     (case WithDefaults spec0 of
        Inl e \<Rightarrow> (None, nodePowerHintOnce (ie_now env) ''spec'' st)
      | Inr spec \<Rightarrow>
          (case nodePowerQuery spec of
             Inl e \<Rightarrow> (None, nodePowerHintOnce (ie_now env) ''spec'' st)
           | Inr (primary, fallback) \<Rightarrow>
               if q_perNode primary then perNodePower env primary nodeName st
               else (case roundNodePower (groupedNodePower env spec primary fallback) st of (values, st') \<Rightarrow> (values nodeName, st'))))"

section \<open>Resolving the power of a node\<close>

text \<open>The settings \<open>install\<close> leaves in the package variables, and the state of both sources.\<close>

record nodePowerConfig =
  npc_source :: string
  npc_httpEndpoint :: string
  npc_promAddress :: string
  npc_spec :: NodePowerSpec

record powerState =
  pst_inputs :: inputState
  pst_readers :: nodePowerHTTPReaders

record powerWorld =
  pw_env :: inputEnv
  pw_json :: jsonLib
  pw_get :: httpGet
  pw_httpText :: "telemetryErr \<Rightarrow> string"

definition resolvePower :: "nodePowerConfig \<Rightarrow> powerWorld \<Rightarrow> string \<Rightarrow> powerState \<Rightarrow> (f64 \<times> string) \<times> powerState" where
  "resolvePower cfg w nodeName st =
     (if npc_source cfg = ''prometheus''
      then (if npc_promAddress cfg = [] then ((0, ''prometheus-no-data''), st)
            else (case prometheusNodePower (pw_env w) (npc_spec cfg) nodeName (pst_inputs st) of
                    (v, ist) \<Rightarrow>
                      ((case v of Some x \<Rightarrow> if x > 0 then (x, ''prometheus'') else (0, ''prometheus-no-data'') | None \<Rightarrow> (0, ''prometheus-no-data'')),
                       st\<lparr>pst_inputs := ist\<rparr>)))
      else if npc_source cfg = ''http''
      then (if npc_httpEndpoint cfg = [] then ((0, ''http-no-endpoint''), st)
            else (case queryNodePowerHTTP (pw_json w) (pw_get w) (ie_now (pw_env w)) (npc_httpEndpoint cfg) (npc_spec cfg) nodeName (pst_readers st) of
                    (res, readers) \<Rightarrow>
                      (let key = ''http:'' @ nodeName;
                           err = (case res of Inl e \<Rightarrow> Some (pw_httpText w e) | Inr _ \<Rightarrow> None)
                       in ((case res of Inl e \<Rightarrow> (0, ''http-error'') | Inr x \<Rightarrow> (x, ''http'')),
                           st\<lparr>pst_readers := readers, pst_inputs := logNodePowerError (ie_now (pw_env w)) key err (pst_inputs st)\<rparr>))))
      else ((0, ''static''), st))"

fun resolveAll :: "nodePowerConfig \<Rightarrow> powerWorld \<Rightarrow> string list \<Rightarrow> powerState \<Rightarrow> (f64 \<times> string) list \<times> powerState" where
  "resolveAll cfg w [] st = ([], st)"
| "resolveAll cfg w (n # ns) st =
     (case resolvePower cfg w n st of (v, st') \<Rightarrow> (case resolveAll cfg w ns st' of (vs, st'') \<Rightarrow> (v # vs, st'')))"

section \<open>The facility poll\<close>

text \<open>A poll holds more than the twin reads (\<^typ>\<open>facilitySnapshot\<close>): the cooling power and the carbon intensity.\<close>

record facilityPoll = facilitySnapshot +
  fp_itKnown :: bool
  fp_coolingPowerW :: f64
  fp_coolingKnown :: bool
  fp_carbon :: CarbonIntensity
  fp_carbonKnown :: bool

definition zeroCarbon :: CarbonIntensity where
  "zeroCarbon = \<lparr>ci_gramsPerKWh = 0, ci_signal = []\<rparr>"

definition emptyPoll :: facilityPoll where
  "emptyPoll = \<lparr>fs_ambientC = None, fs_itPowerW = 0, fs_zoneAmbientC = Map.empty, fs_rackPowerW = Map.empty, fs_nodeInletC = Map.empty,
     fp_itKnown = False, fp_coolingPowerW = 0, fp_coolingKnown = False, fp_carbon = zeroCarbon, fp_carbonKnown = False\<rparr>"

record facilityConfig =
  fc_enabled :: bool
  fc_prometheusAddress :: string
  fc_pollInterval :: int
  fc_spec :: FacilitySpec

record facilityMetrics =
  fm_readings :: facilityPoll
  fm_lastUpdated :: "int option"
  fm_lastResult :: "string \<Rightarrow> string option"
  fm_lines :: "(string \<times> string) list"

definition queryPrometheusScalar :: "(string \<Rightarrow> inputErr + Result) \<Rightarrow> string \<Rightarrow> inputErr + f64" where
  "queryPrometheusScalar query q = (case query q of Inl e \<Rightarrow> Inl e | Inr res \<Rightarrow> Single res)"

definition facilitySingleResult :: "inputErr option \<Rightarrow> string" where
  "facilitySingleResult err = (case err of None \<Rightarrow> ''success'' | Some NoData \<Rightarrow> ''no_data'' | Some _ \<Rightarrow> ''error'')"

definition readFacilityKeyed :: "inputErr + Result \<Rightarrow> string \<Rightarrow> (string \<Rightarrow> f64 option) \<times> string" where
  "readFacilityKeyed answer label =
     (case answer of
        Inl e \<Rightarrow> (Map.empty, ''error'')
      | Inr res \<Rightarrow>
          (case ByLabel res label of
             (Inl e, iss) \<Rightarrow> (Map.empty, ''error'')
           | (Inr m, iss) \<Rightarrow>
               if iss_series iss - iss_missingLabel iss - iss_nonFinite iss = 0 then (Map.empty, ''no_data'')
               else if iss_missingLabel iss > 0 \<or> iss_nonFinite iss > 0 then (m, ''partial'')
               else (m, ''success'')))"

text \<open>The result of an input is logged when it changed; the first poll counts as following a success.\<close>

definition noteFacilityResult :: "string \<Rightarrow> string \<Rightarrow> facilityMetrics \<Rightarrow> facilityMetrics" where
  "noteFacilityResult input result fm =
     (let prev = (case fm_lastResult fm input of Some p \<Rightarrow> p | None \<Rightarrow> ''success'');
          fm' = fm\<lparr>fm_lastResult := (fm_lastResult fm)(input \<mapsto> result)\<rparr>
      in if result = prev then fm' else fm'\<lparr>fm_lines := (input, result) # fm_lines fm'\<rparr>)"

definition readingOr0 :: "inputErr + f64 \<Rightarrow> f64" where
  "readingOr0 r = (case r of Inr v \<Rightarrow> v | Inl _ \<Rightarrow> 0)"

text \<open>A single value: the carbon intensity is converted, which may fail after the query succeeded.\<close>

definition readSingle :: "CarbonIntensitySpec \<Rightarrow> string \<Rightarrow> inputErr + f64 \<Rightarrow> facilityPoll \<Rightarrow> facilityPoll \<times> inputErr option" where
  "readSingle carbon input v s =
     (case (if input = ''carbon_intensity'' then (case v of Inl e \<Rightarrow> Inl e | Inr x \<Rightarrow> readCarbon carbon (Finite x)) else Inr zeroCarbon) of
        c \<Rightarrow>
          (let err = (case v of Inl e \<Rightarrow> Some e | Inr _ \<Rightarrow> (case c of Inl e \<Rightarrow> Some e | Inr _ \<Rightarrow> None)); known = (err = None)
           in (if input = ''ambient_temp'' then s\<lparr>fs_ambientC := (if known then Some (readingOr0 v) else None)\<rparr>
               else if input = ''it_power'' then s\<lparr>fs_itPowerW := readingOr0 v, fp_itKnown := known\<rparr>
               else if input = ''cooling_power'' then s\<lparr>fp_coolingPowerW := readingOr0 v, fp_coolingKnown := known\<rparr>
               else if input = ''carbon_intensity'' then s\<lparr>fp_carbon := (case c of Inr x \<Rightarrow> x | Inl _ \<Rightarrow> zeroCarbon), fp_carbonKnown := known\<rparr>
               else s,
               err)))"

definition storeKeyed :: "string \<Rightarrow> (string \<Rightarrow> f64 option) \<Rightarrow> facilityPoll \<Rightarrow> facilityPoll" where
  "storeKeyed input m s =
     (if input = ''zone_ambient_temp'' then s\<lparr>fs_zoneAmbientC := m\<rparr>
      else if input = ''rack_power'' then s\<lparr>fs_rackPowerW := m\<rparr>
      else if input = ''node_inlet_temp'' then s\<lparr>fs_nodeInletC := m\<rparr>
      else s)"

definition pollInput ::
  "(string \<Rightarrow> inputErr + Result) \<Rightarrow> CarbonIntensitySpec \<Rightarrow> (string \<Rightarrow> Query option) \<Rightarrow> string \<Rightarrow> facilityPoll \<times> facilityMetrics \<Rightarrow> facilityPoll \<times> facilityMetrics" where
  "pollInput query carbon queries input st =
     (case queries input of
        None \<Rightarrow> st
      | Some q \<Rightarrow>
          if q_groupLabel q = []
          then (case readSingle carbon input (queryPrometheusScalar query (q_promQL q)) (fst st) of
                  (s, err) \<Rightarrow> (s, noteFacilityResult input (facilitySingleResult err) (snd st)))
          else (case readFacilityKeyed (query (q_promQL q)) (q_groupLabel q) of
                  (m, result) \<Rightarrow> (storeKeyed input m (fst st), noteFacilityResult input result (snd st))))"

definition fetchFacilityMetrics :: "(string \<Rightarrow> inputErr + Result) \<Rightarrow> int \<Rightarrow> facilityConfig \<Rightarrow> facilityMetrics \<Rightarrow> facilityMetrics" where
  "fetchFacilityMetrics query now cfg fm =
     (case Queries (fc_spec cfg) of
        Inl e \<Rightarrow> fm
      | Inr queries \<Rightarrow>
          (case fold (pollInput query (fsp_carbon (fc_spec cfg)) queries) FacilityInputs (emptyPoll, fm) of
             (s, fm') \<Rightarrow> fm'\<lparr>fm_readings := s, fm_lastUpdated := Some now\<rparr>))"

text \<open>The snapshot as a policy reads it.\<close>

record Facility =
  fa_carbonIntensity :: "CarbonIntensity option"
  fa_ambientC :: "f64 option"
  fa_itPowerW :: "f64 option"
  fa_coolingPowerW :: "f64 option"
  fa_zoneAmbientC :: "string \<Rightarrow> f64 option"
  fa_rackPowerW :: "string \<Rightarrow> f64 option"
  fa_nodeInletC :: "string \<Rightarrow> f64 option"

definition forPolicy :: "facilityPoll \<Rightarrow> Facility" where
  "forPolicy s =
     \<lparr>fa_carbonIntensity = (if fp_carbonKnown s then Some (fp_carbon s) else None), fa_ambientC = fs_ambientC s,
      fa_itPowerW = (if fp_itKnown s then Some (fs_itPowerW s) else None),
      fa_coolingPowerW = (if fp_coolingKnown s then Some (fp_coolingPowerW s) else None),
      fa_zoneAmbientC = fs_zoneAmbientC s, fa_rackPowerW = fs_rackPowerW s, fa_nodeInletC = fs_nodeInletC s\<rparr>"

section \<open>Configuration\<close>

record inputConfig =
  ic_prometheusAddress :: string
  ic_nodePower :: nodePowerConfig
  ic_facility :: facilityConfig

datatype configErr =
    BadTranslation string
  | BadWindow inputErr
  | NotADuration string
  | NodePowerInput inputErr
  | BadPollInterval int
  | CarbonNeeds inputErr
  | FacilityInputErr inputErr

definition facilityQueryEnv :: "string \<Rightarrow> string" where
  "facilityQueryEnv input = ''FACILITY_'' @ ToUpper input @ ''_QUERY''"

definition inputEnvAliases :: "(string \<times> string) list" where
  "inputEnvAliases = [(''FACILITY_AMBIENT_TEMP_QUERY'', ''FACILITY_AMBIENT_TEMP_METRIC''), (''FACILITY_IT_POWER_QUERY'', ''FACILITY_IT_POWER_METRIC''),
     (''FACILITY_COOLING_POWER_QUERY'', ''FACILITY_COOLING_POWER_METRIC'')]"

definition envOrDeprecated :: "strmap \<Rightarrow> string \<Rightarrow> string \<Rightarrow> string" where
  "envOrDeprecated env key def =
     (let v = TrimSpace (map_get env key)
      in if v \<noteq> [] then v
         else case map_of inputEnvAliases key of None \<Rightarrow> def | Some old \<Rightarrow> (let w = TrimSpace (map_get env old) in if w = [] then def else w))"

definition durationEnv :: "(string \<Rightarrow> int option) \<Rightarrow> strmap \<Rightarrow> string \<Rightarrow> int \<Rightarrow> int" where
  "durationEnv parseDuration env key def =
     (let s = TrimSpace (map_get env key)
      in if s = [] then def else case parseDuration s of Some d \<Rightarrow> d | None \<Rightarrow> def)"

definition defaultFacilityPrometheusAddress :: string where
  "defaultFacilityPrometheusAddress = ''http://prometheus-operated.monitoring:9090''"

definition loadNaming :: "strmap \<Rightarrow> configErr + Strategy" where
  "loadNaming env =
     (let v = envOrDefault env ''PROMETHEUS_NAME_TRANSLATION'' []
      in if v = [] then Inr UnderscoreEscapingWithSuffixes else case ParseStrategy v of Inl _ \<Rightarrow> Inl (BadTranslation v) | Inr s \<Rightarrow> Inr s)"

definition loadWindow :: "(string \<Rightarrow> int option) \<Rightarrow> strmap \<Rightarrow> configErr + int" where
  "loadWindow parseDuration env =
     (let v = envOrDefault env ''PROMETHEUS_RATE_WINDOW'' [];
          check = (\<lambda>w. case PromDuration w of Inl e \<Rightarrow> Inl (BadWindow e) | Inr _ \<Rightarrow> Inr w)
      in if v = [] then check DefaultWindow else case parseDuration v of None \<Rightarrow> Inl (NotADuration v) | Some d \<Rightarrow> check d)"

definition loadNodePower :: "strmap \<Rightarrow> string \<Rightarrow> Strategy \<Rightarrow> int \<Rightarrow> configErr + nodePowerConfig" where
  "loadNodePower env address naming window =
     (let source0 = ToLower (envOrDefault env ''NODE_POWER_SOURCE'' ''static'');
          source = (if source0 \<in> {''static'', ''prometheus'', ''http''} then source0 else ''static'')
      in case WithDefaults
             \<lparr>ps_preset = ToLower (envOrDefault env ''NODE_POWER_PRESET'' []), ps_scope = ToLower (envOrDefault env ''NODE_POWER_SCOPE'' ''components''),
              ps_naming = naming, ps_resourceAttributes = ToLower (envOrDefault env ''PROMETHEUS_RESOURCE_ATTRIBUTES'' ''auto''),
              ps_window = window, ps_nodeLabel = envOrDefault env ''NODE_POWER_NODE_LABEL'' [],
              ps_customQuery = envOrDefault env ''NODE_POWER_PROMETHEUS_QUERY'' []\<rparr> of
           Inl e \<Rightarrow> Inl (NodePowerInput e)
         | Inr spec \<Rightarrow>
             (case nodePowerQuery spec of
                Inl e \<Rightarrow> Inl (NodePowerInput e)
              | Inr _ \<Rightarrow>
                  Inr \<lparr>npc_source = source, npc_httpEndpoint = envOrDefault env ''NODE_POWER_HTTP_ENDPOINT'' [],
                       npc_promAddress = envOrDefault env ''NODE_POWER_PROMETHEUS_ADDRESS'' address, npc_spec = spec\<rparr>))"

definition facilityOverrides :: "strmap \<Rightarrow> (string \<times> string) list" where
  "facilityOverrides env = filter (\<lambda>(i, v). v \<noteq> []) (map (\<lambda>i. (i, envOrDeprecated env (facilityQueryEnv i) [])) FacilityInputs)"

definition loadFacility :: "(string \<Rightarrow> int option) \<Rightarrow> strmap \<Rightarrow> string \<Rightarrow> Strategy \<Rightarrow> int \<Rightarrow> configErr + facilityConfig" where
  "loadFacility parseDuration env address naming window =
     (let interval = durationEnv parseDuration env ''FACILITY_POLL_INTERVAL'' 30000000000;
          overrides = facilityOverrides env;
          carbon = \<lparr>cis_unit = envOrDefault env ''FACILITY_CARBON_INTENSITY_UNIT'' [],
                    cis_signal = ToLower (TrimSpace (envOrDefault env ''FACILITY_CARBON_INTENSITY_SIGNAL'' []))\<rparr>;
          spec = \<lparr>fsp_preset = ToLower (envOrDefault env ''FACILITY_PRESET'' ''otel''), fsp_naming = naming, fsp_window = window,
                  fsp_overrides = overrides, fsp_carbon = carbon\<rparr>
      in if interval \<le> 0 then Inl (BadPollInterval interval)
         else (case (if map_of overrides ''carbon_intensity'' \<noteq> None then checkCarbon carbon else None) of
                 Some e \<Rightarrow> Inl (CarbonNeeds e)
               | None \<Rightarrow>
                   (case Queries spec of
                      Inl e \<Rightarrow> Inl (FacilityInputErr e)
                    | Inr _ \<Rightarrow>
                        Inr \<lparr>fc_enabled = boolEnv env ''ENABLE_FACILITY_METRICS'' False,
                             fc_prometheusAddress = envOrDefault env ''FACILITY_PROMETHEUS_ADDRESS'' (firstNonEmpty [address, defaultFacilityPrometheusAddress]),
                             fc_pollInterval = interval, fc_spec = spec\<rparr>)))"

definition loadInputConfig :: "(string \<Rightarrow> int option) \<Rightarrow> strmap \<Rightarrow> configErr + inputConfig" where
  "loadInputConfig parseDuration env =
     (let address = envOrDefault env ''PROMETHEUS_ADDRESS'' []
      in case loadNaming env of
           Inl e \<Rightarrow> Inl e
         | Inr naming \<Rightarrow>
             (case loadWindow parseDuration env of
                Inl e \<Rightarrow> Inl e
              | Inr window \<Rightarrow>
                  (case loadNodePower env address naming window of
                     Inl e \<Rightarrow> Inl e
                   | Inr np \<Rightarrow>
                       (case loadFacility parseDuration env address naming window of
                          Inl e \<Rightarrow> Inl e
                        | Inr fc \<Rightarrow> Inr \<lparr>ic_prometheusAddress = address, ic_nodePower = np, ic_facility = fc\<rparr>))))"

section \<open>Lemmas: node power\<close>

lemma log_fields [simp]:
  "ist_asked (logNodePowerError now key err st) = ist_asked st" "ist_round (logNodePowerError now key err st) = ist_round st"
  "ist_autoForm (logNodePowerError now key err st) = ist_autoForm st"
  by (auto simp: logNodePowerError_def split: option.splits prod.splits)

lemma hint_fields [simp]:
  "ist_asked (nodePowerHintOnce now key st) = ist_asked st" "ist_round (nodePowerHintOnce now key st) = ist_round st"
  "ist_autoForm (nodePowerHintOnce now key st) = ist_autoForm st" "ist_errLast (nodePowerHintOnce now key st) = ist_errLast st"
  by (auto simp: nodePowerHintOnce_def)

lemma warnings_fields [simp]:
  "ist_asked (logQueryWarnings now ws st) = ist_asked st" "ist_round (logQueryWarnings now ws st) = ist_round st"
  "ist_autoForm (logQueryWarnings now ws st) = ist_autoForm st" "ist_errLast (logQueryWarnings now ws st) = ist_errLast st"
  by (induction ws arbitrary: st) (auto simp: logQueryWarnings_def)

lemma hintNodePower_fields [simp]:
  "ist_asked (hintNodePower now spec form r st) = ist_asked st" "ist_round (hintNodePower now spec form r st) = ist_round st"
  "ist_autoForm (hintNodePower now spec form r st) = ist_autoForm st"
  by (simp_all add: hintNodePower_def)

lemma setForm_fields [simp]:
  "ist_asked (setNodePowerAutoForm now form st) = ist_asked st" "ist_round (setNodePowerAutoForm now form st) = ist_round st"
  "ist_autoForm (setNodePowerAutoForm now form st) = form"
  by (simp_all add: setNodePowerAutoForm_def Let_def)

text \<open>What a grouped query reads depends on the answer only.\<close>

definition readOf :: "inputEnv \<Rightarrow> Query \<Rightarrow> nodePowerRead" where
  "readOf env q =
     (case ie_query env (q_promQL q) of
        Inl e \<Rightarrow> \<lparr>npr_values = Map.empty, npr_issues = noIssues, npr_err = Some e\<rparr>
      | Inr res \<Rightarrow>
          (case ByLabel res (q_groupLabel q) of
             (Inl e, iss) \<Rightarrow> \<lparr>npr_values = Map.empty, npr_issues = iss, npr_err = Some e\<rparr>
           | (Inr values, iss) \<Rightarrow> \<lparr>npr_values = values, npr_issues = iss, npr_err = None\<rparr>))"

lemma runGrouped_read: "fst (runGroupedNodePower env q st) = readOf env q"
  by (auto simp: runGroupedNodePower_def readOf_def Let_def split: sum.splits prod.splits)

lemma runGrouped_fields [simp]:
  "ist_asked (snd (runGroupedNodePower env q st)) = q_promQL q # ist_asked st" "ist_round (snd (runGroupedNodePower env q st)) = ist_round st"
  "ist_autoForm (snd (runGroupedNodePower env q st)) = ist_autoForm st"
  by (auto simp: runGroupedNodePower_def Let_def split: sum.splits prod.splits)

lemma runGrouped_pair:
  obtains st' where "runGroupedNodePower env q st = (readOf env q, st')" "ist_asked st' = q_promQL q # ist_asked st"
    "ist_round st' = ist_round st" "ist_autoForm st' = ist_autoForm st"
  using runGrouped_read [of env q st] runGrouped_fields [of env q st] by (cases "runGroupedNodePower env q st") auto

text \<open>The form automatic mode reads first, and its query.\<close>

definition firstForm :: "inputState \<Rightarrow> string" where
  "firstForm st = (if ist_autoForm st = [] then ResourceAttributesLabels else ist_autoForm st)"

definition formQuery :: "Query \<Rightarrow> Query \<Rightarrow> string \<Rightarrow> Query" where
  "formQuery primary fallback form = (if form = ResourceAttributesTargetInfo then fallback else primary)"

definition otherForm :: "string \<Rightarrow> string" where
  "otherForm form = (if form = ResourceAttributesTargetInfo then ResourceAttributesLabels else ResourceAttributesTargetInfo)"

lemma forms_eq:
  "(if f = ResourceAttributesTargetInfo then (ResourceAttributesLabels, fallback, primary) else (ResourceAttributesTargetInfo, primary, fallback)) =
   (otherForm f, formQuery primary fallback f, formQuery primary fallback (otherForm f))"
  by (simp add: otherForm_def formQuery_def)

lemma grouped_auto:
  fixes st :: inputState and primary fallback :: Query
  assumes "q_promQL fallback \<noteq> []"
  defines "f \<equiv> firstForm st"
  defines "q1 \<equiv> formQuery primary fallback f" and "q2 \<equiv> formQuery primary fallback (otherForm f)"
  shows "groupedNodePower env spec primary fallback st =
    (case runGroupedNodePower env q1 st of
       (r1, st1) \<Rightarrow>
         if autoFormWorks f r1 then (npr_values r1, setNodePowerAutoForm (ie_now env) f st1)
         else (case runGroupedNodePower env q2 st1 of
                 (r2, st2) \<Rightarrow>
                   if autoFormWorks (otherForm f) r2 then (npr_values r2, setNodePowerAutoForm (ie_now env) (otherForm f) st2)
                   else (if lenValues r2 > lenValues r1 then npr_values r2 else npr_values r1,
                         hintNodePower (ie_now env) spec (otherForm f) r2 (hintNodePower (ie_now env) spec f r1 st2))))"
  using assms(1) unfolding q1_def q2_def f_def groupedNodePower_def Let_def firstForm_def [symmetric] forms_eq prod.case by simp

lemma grouped_fields:
  shows "length (ist_asked (snd (groupedNodePower env spec primary fallback st))) \<le> length (ist_asked st) + 2"
    "ist_round (snd (groupedNodePower env spec primary fallback st)) = ist_round st"
proof -
  have "length (ist_asked (snd (groupedNodePower env spec primary fallback st))) \<le> length (ist_asked st) + 2 \<and>
        ist_round (snd (groupedNodePower env spec primary fallback st)) = ist_round st"
  proof (cases "q_promQL fallback = []")
    case True
    then show ?thesis
      by (cases "runGroupedNodePower env primary st")
        (use runGrouped_fields [of env primary st] in \<open>simp add: groupedNodePower_def\<close>)
  next
    case False
    define f where "f = firstForm st"
    obtain st1 where 1: "runGroupedNodePower env (formQuery primary fallback f) st = (readOf env (formQuery primary fallback f), st1)"
      "length (ist_asked st1) = Suc (length (ist_asked st))" "ist_round st1 = ist_round st"
      using runGrouped_pair by (metis length_Cons)
    obtain st2 where 2: "runGroupedNodePower env (formQuery primary fallback (otherForm f)) st1 = (readOf env (formQuery primary fallback (otherForm f)), st2)"
      "length (ist_asked st2) = Suc (length (ist_asked st1))" "ist_round st2 = ist_round st1"
      using runGrouped_pair by (metis length_Cons)
    show ?thesis unfolding grouped_auto [OF False] using 1 2 by (simp flip: f_def)
  qed
  then show "length (ist_asked (snd (groupedNodePower env spec primary fallback st))) \<le> length (ist_asked st) + 2"
    "ist_round (snd (groupedNodePower env spec primary fallback st)) = ist_round st" by simp_all
qed

text \<open>Within a round every node is looked up in the same values.\<close>

lemma resolve_in_round:
  assumes src: "npc_source cfg = ''prometheus''" "npc_promAddress cfg \<noteq> []"
    and spec: "WithDefaults (npc_spec cfg) = Inr spec" "nodePowerQuery spec = Inr (primary, fallback)" "\<not> q_perNode primary"
    and round: "ist_round (pst_inputs st) = Some (Some values)"
  shows "resolveAll cfg w ns st =
    (map (resolveNodePower \<lparr>nps_source = npc_source cfg, nps_promAddress = npc_promAddress cfg, nps_prometheus = values,
            nps_httpEndpoint = npc_httpEndpoint cfg, nps_http = http\<rparr>) ns, st)"
  using assms by (induction ns) (simp_all add: resolvePower_def prometheusNodePower_def roundNodePower_def resolveNodePower_def)

lemma resolve_round:
  assumes src: "npc_source cfg = ''prometheus''" "npc_promAddress cfg \<noteq> []"
    and spec: "WithDefaults (npc_spec cfg) = Inr spec" "nodePowerQuery spec = Inr (primary, fallback)" "\<not> q_perNode primary"
    and round: "ist_round (pst_inputs st) = Some None"
  shows "fst (resolveAll cfg w ns st) =
      map (resolveNodePower \<lparr>nps_source = npc_source cfg, nps_promAddress = npc_promAddress cfg,
            nps_prometheus = fst (groupedNodePower (pw_env w) spec primary fallback (pst_inputs st)),
            nps_httpEndpoint = npc_httpEndpoint cfg, nps_http = http\<rparr>) ns \<and>
    length (ist_asked (pst_inputs (snd (resolveAll cfg w ns st)))) \<le> length (ist_asked (pst_inputs st)) + 2"
proof (cases ns)
  case Nil
  then show ?thesis by simp
next
  case (Cons n ms)
  obtain vals ist where g: "groupedNodePower (pw_env w) spec primary fallback (pst_inputs st) = (vals, ist)" by force
  define st' where "st' = st\<lparr>pst_inputs := ist\<lparr>ist_round := Some (Some vals)\<rparr>\<rparr>"
  have one: "resolvePower cfg w n st = (resolveNodePower \<lparr>nps_source = npc_source cfg, nps_promAddress = npc_promAddress cfg, nps_prometheus = vals,
            nps_httpEndpoint = npc_httpEndpoint cfg, nps_http = http\<rparr> n, st')"
    using assms by (simp add: resolvePower_def prometheusNodePower_def roundNodePower_def resolveNodePower_def g st'_def)
  have "ist_round (pst_inputs st') = Some (Some vals)" by (simp add: st'_def)
  from resolve_in_round [OF src spec this, of w ms http]
  have "resolveAll cfg w ns st = (map (resolveNodePower \<lparr>nps_source = npc_source cfg, nps_promAddress = npc_promAddress cfg, nps_prometheus = vals,
            nps_httpEndpoint = npc_httpEndpoint cfg, nps_http = http\<rparr>) ns, st')"
    by (simp add: Cons one)
  moreover have "length (ist_asked (pst_inputs st')) \<le> length (ist_asked (pst_inputs st)) + 2"
    using grouped_fields(1) [of "pw_env w" spec primary fallback "pst_inputs st"] by (simp add: g st'_def)
  ultimately show ?thesis by (simp add: g)
qed

section \<open>Lemmas: the log\<close>

fun lineKey :: "logLine \<Rightarrow> string option" where
  "lineKey (ErrorLine key text) = Some key"
| "lineKey (WorksAgain key) = Some key"
| "lineKey _ = None"

text \<open>The lines about one key, newest first; an error line repeats the line before it only after the pause.\<close>

definition linesOf :: "string \<Rightarrow> inputState \<Rightarrow> (int \<times> logLine) list" where
  "linesOf key st = filter (\<lambda>(_, l). lineKey l = Some key) (ist_lines st)"

fun repeatsSpaced :: "(int \<times> logLine) list \<Rightarrow> bool" where
  "repeatsSpaced ((t', l') # (t, l) # ls) \<longleftrightarrow>
     (l' = l \<and> (\<exists>k text. l = ErrorLine k text) \<longrightarrow> t' - t \<ge> nodePowerErrorRepeat) \<and>
     (\<forall>k. l' = WorksAgain k \<longrightarrow> (\<exists>text. l = ErrorLine k text)) \<and> repeatsSpaced ((t, l) # ls)"
| "repeatsSpaced [(t, l)] \<longleftrightarrow> (\<exists>k text. l = ErrorLine k text)"
| "repeatsSpaced [] \<longleftrightarrow> True"

text \<open>What the table of last errors says of the newest line of a key.\<close>

fun newestOK :: "string \<Rightarrow> (string \<times> int) option \<Rightarrow> (int \<times> logLine) list \<Rightarrow> bool" where
  "newestOK key last' [] \<longleftrightarrow> last' = None"
| "newestOK key last' ((t, l) # ls) \<longleftrightarrow> (\<forall>msg. l = ErrorLine key msg \<longrightarrow> last' = Some (msg, t)) \<and> (l = WorksAgain key \<longrightarrow> last' = None)"

definition logInv :: "inputState \<Rightarrow> bool" where
  "logInv st \<longleftrightarrow> (\<forall>key. repeatsSpaced (linesOf key st) \<and> newestOK key (ist_errLast st key) (linesOf key st))"

lemma linesOf_shape: "x \<in> set (linesOf key st) \<Longrightarrow> (\<exists>text. snd x = ErrorLine key text) \<or> snd x = WorksAgain key"
  by (cases x; cases "snd x") (auto simp: linesOf_def)

lemma linesOf_cases:
  assumes "logInv st"
  obtains (none) "linesOf key st = []" "ist_errLast st key = None"
    | (err) t msg ls where "linesOf key st = (t, ErrorLine key msg) # ls" "ist_errLast st key = Some (msg, t)"
    | (ok) t ls where "linesOf key st = (t, WorksAgain key) # ls" "ist_errLast st key = None"
proof (cases "linesOf key st")
  case Nil
  then show ?thesis using assms none unfolding logInv_def by (metis newestOK.simps(1))
next
  case (Cons x ls)
  obtain t l where x: "x = (t, l)" by (cases x)
  have shape: "(\<exists>msg. l = ErrorLine key msg) \<or> l = WorksAgain key"
    using linesOf_shape [of x key st] Cons x by simp
  have last': "(\<forall>msg. l = ErrorLine key msg \<longrightarrow> ist_errLast st key = Some (msg, t)) \<and> (l = WorksAgain key \<longrightarrow> ist_errLast st key = None)"
    using assms Cons x unfolding logInv_def by (metis newestOK.simps(2))
  from shape show ?thesis using last' err ok Cons x by auto
qed

lemma logInv_initial: "logInv initialInputState"
  by (simp add: logInv_def linesOf_def initialInputState_def)

lemma logInv_cong: "ist_lines st' = ist_lines st \<Longrightarrow> ist_errLast st' = ist_errLast st \<Longrightarrow> logInv st' = logInv st"
  by (simp add: logInv_def linesOf_def)

lemma logInv_other_line:
  assumes "logInv st" "lineKey l = None" "ist_lines st' = (t, l) # ist_lines st" "ist_errLast st' = ist_errLast st"
  shows "logInv st'"
  using assms by (simp add: logInv_def linesOf_def)

lemma logInv_line:
  assumes inv: "logInv st" and l: "lineKey l = Some key" "ist_lines st' = (now, l) # ist_lines st"
    and last': "\<And>k. k \<noteq> key \<Longrightarrow> ist_errLast st' k = ist_errLast st k"
    and spaced: "repeatsSpaced ((now, l) # linesOf key st)"
    and own: "\<And>msg. l = ErrorLine key msg \<Longrightarrow> ist_errLast st' key = Some (msg, now)" "l = WorksAgain key \<Longrightarrow> ist_errLast st' key = None"
  shows "logInv st'"
proof -
  have "linesOf key st' = (now, l) # linesOf key st" using l by (simp add: linesOf_def)
  moreover have "linesOf k st' = linesOf k st" if "k \<noteq> key" for k using l that by (simp add: linesOf_def)
  ultimately have "repeatsSpaced (linesOf k st') \<and> newestOK k (ist_errLast st' k) (linesOf k st')" for k
    using inv last' spaced own unfolding logInv_def by (cases "k = key") simp_all
  then show ?thesis by (simp add: logInv_def)
qed

lemma logInv_log:
  assumes "logInv st"
  shows "logInv (logNodePowerError now key err st)"
proof (cases err)
  case None
  show ?thesis
  proof (cases "ist_errLast st key")
    case last': (Some x)
    obtain t msg ls where ls: "linesOf key st = (t, ErrorLine key msg) # ls"
      by (rule linesOf_cases [OF assms, of key]) (use last' in auto)
    have "repeatsSpaced (linesOf key st)" using assms by (simp add: logInv_def)
    then have "repeatsSpaced ((now, WorksAgain key) # linesOf key st)" using ls by simp
    then show ?thesis using None last'
      by (intro logInv_line [OF assms, where l = "WorksAgain key" and key = key and now = now]) (simp_all add: logNodePowerError_def)
  qed (use None assms in \<open>simp add: logNodePowerError_def\<close>)
next
  case (Some msg)
  define due where "due \<longleftrightarrow> (case ist_errLast st key of None \<Rightarrow> True | Some (last', when) \<Rightarrow> last' \<noteq> msg \<or> now - when \<ge> nodePowerErrorRepeat)"
  show ?thesis
  proof (cases due)
    case True
    have inv: "repeatsSpaced (linesOf key st)" using assms by (simp add: logInv_def)
    have "repeatsSpaced ((now, ErrorLine key msg) # linesOf key st)"
      by (rule linesOf_cases [OF assms, of key]) (use inv True in \<open>auto simp: due_def\<close>)
    moreover have "logNodePowerError now key err st =
        st\<lparr>ist_errLast := (ist_errLast st)(key \<mapsto> (msg, now)), ist_lines := (now, ErrorLine key msg) # ist_lines st\<rparr>"
      using Some True by (simp add: logNodePowerError_def due_def)
    ultimately show ?thesis
      by (intro logInv_line [OF assms, where l = "ErrorLine key msg" and key = key and now = now]) simp_all
  next
    case False
    then show ?thesis using Some assms by (simp add: logNodePowerError_def flip: due_def)
  qed
qed

lemma logInv_hint: "logInv st \<Longrightarrow> logInv (nodePowerHintOnce now key st)"
  by (cases "key \<in> set (ist_hintsSeen st)")
    (auto simp: nodePowerHintOnce_def intro: logInv_other_line [where l = "HintLine key"])

lemma logInv_warnings: "logInv st \<Longrightarrow> logInv (logQueryWarnings now ws st)"
  by (induction ws arbitrary: st) (auto simp: logQueryWarnings_def logInv_hint)

lemma logInv_asked: "logInv (st\<lparr>ist_asked := qs\<rparr>) = logInv st" "logInv (st\<lparr>ist_round := rd\<rparr>) = logInv st"
  by (simp_all add: logInv_def linesOf_def)

lemma logInv_hintNodePower: "logInv st \<Longrightarrow> logInv (hintNodePower now spec form r st)"
  by (simp add: hintNodePower_def logInv_hint)

lemma logInv_setForm: "logInv st \<Longrightarrow> logInv (setNodePowerAutoForm now form st)"
proof (cases "ist_autoForm st = form")
  case True
  then show "logInv st \<Longrightarrow> ?thesis" by (simp add: setNodePowerAutoForm_def Let_def logInv_def linesOf_def)
next
  case False
  then show "logInv st \<Longrightarrow> ?thesis" by (rule_tac logInv_other_line [where l = "FormLine form"]) (simp_all add: setNodePowerAutoForm_def Let_def)
qed

lemma logInv_runGrouped: "logInv st \<Longrightarrow> logInv (snd (runGroupedNodePower env q st))"
proof -
  assume "logInv st"
  then have inv: "logInv (logNodePowerError now key err (st\<lparr>ist_asked := qs\<rparr>))"
    "logInv (logNodePowerError now key err (logQueryWarnings now ws (st\<lparr>ist_asked := qs\<rparr>)))" for now key err qs ws
    by (simp_all only: logInv_asked logInv_log logInv_warnings)
  show ?thesis
  proof (cases "ie_query env (q_promQL q)")
    case (Inl e)
    then show ?thesis by (simp add: runGroupedNodePower_def Let_def inv)
  next
    case (Inr res)
    obtain m iss where "ByLabel res (q_groupLabel q) = (m, iss)" by (meson surj_pair)
    then show ?thesis using Inr by (cases m) (simp_all add: runGroupedNodePower_def Let_def inv)
  qed
qed

lemma logInv_grouped:
  assumes "logInv st"
  shows "logInv (snd (groupedNodePower env spec primary fallback st))"
proof -
  have run: "runGroupedNodePower env q s = (r, s') \<Longrightarrow> logInv s \<Longrightarrow> logInv s'" for q s r s'
    using logInv_runGrouped [of s env q] by simp
  show ?thesis using assms
    unfolding groupedNodePower_def Let_def
    by (auto split: prod.splits if_splits intro!: logInv_setForm logInv_hintNodePower dest: run simp del: runGrouped_fields)
qed

lemma logInv_resolve:
  assumes "logInv (pst_inputs st)"
  shows "logInv (pst_inputs (snd (resolvePower cfg w n st)))"
proof -
  have "logInv (snd (perNodePower env q n s))" if "logInv s" for env q s
    using that by (simp add: perNodePower_def Let_def logInv_asked logInv_log logInv_warnings logInv_hint split: sum.split)
  moreover have "logInv (snd (roundNodePower (groupedNodePower env spec p f) s))" if "logInv s" for env spec p f s
    using logInv_grouped [OF that, of env spec p f] that
    by (cases "groupedNodePower env spec p f s") (simp add: roundNodePower_def logInv_asked split: option.split)
  ultimately have prom: "logInv (snd (prometheusNodePower env spec n s))" if "logInv s" for env spec s
    using that by (simp add: prometheusNodePower_def logInv_hint split: sum.split prod.split) (metis snd_conv)
  obtain v ist where P: "prometheusNodePower (pw_env w) (npc_spec cfg) n (pst_inputs st) = (v, ist)" by (meson surj_pair)
  then have "logInv ist" using prom [OF assms, of "pw_env w" "npc_spec cfg"] by simp
  moreover obtain res readers where
    "queryNodePowerHTTP (pw_json w) (pw_get w) (ie_now (pw_env w)) (npc_httpEndpoint cfg) (npc_spec cfg) n (pst_readers st) = (res, readers)"
    by (meson surj_pair)
  ultimately show ?thesis using assms P by (simp add: resolvePower_def Let_def logInv_log)
qed

text \<open>Reconciles of the controller manager: each opens a round and resolves the nodes of the cluster, in a world of its own.\<close>

fun measureRun :: "nodePowerConfig \<Rightarrow> (powerWorld \<times> string list) list \<Rightarrow> powerState \<Rightarrow> powerState" where
  "measureRun cfg [] st = st"
| "measureRun cfg ((w, ns) # rounds) st =
     measureRun cfg rounds (snd (resolveAll cfg w ns (st\<lparr>pst_inputs := withNodePowerRound (pst_inputs st)\<rparr>)))"

definition initialPowerState :: powerState where
  "initialPowerState = \<lparr>pst_inputs = initialInputState, pst_readers = Map.empty\<rparr>"

lemma logInv_resolveAll: "logInv (pst_inputs st) \<Longrightarrow> logInv (pst_inputs (snd (resolveAll cfg w ns st)))"
proof (induction ns arbitrary: st)
  case (Cons n ns)
  obtain v st' where "resolvePower cfg w n st = (v, st')" by (meson surj_pair)
  moreover from this have "logInv (pst_inputs st')" using logInv_resolve [OF Cons.prems, of cfg w n] by simp
  ultimately show ?case using Cons.IH [of st'] by (cases "resolveAll cfg w ns st'") simp
qed simp

lemma logInv_measureRun: "logInv (pst_inputs st) \<Longrightarrow> logInv (pst_inputs (measureRun cfg rounds st))"
  by (induction cfg rounds st rule: measureRun.induct) (simp_all add: logInv_resolveAll withNodePowerRound_def logInv_asked)

section \<open>Lemmas: the facility poll\<close>

text \<open>What a poll knows, input by input: the value of a query that answers with one finite value, the keyed values of a query
  that answers with keyed ones, and nothing else.\<close>

definition scalarOf :: "(string \<Rightarrow> inputErr + Result) \<Rightarrow> (string \<Rightarrow> Query option) \<Rightarrow> string \<Rightarrow> f64 option" where
  "scalarOf query queries input =
     (case queries input of
        None \<Rightarrow> None
      | Some q \<Rightarrow> if q_groupLabel q = [] then (case queryPrometheusScalar query (q_promQL q) of Inr v \<Rightarrow> Some v | Inl _ \<Rightarrow> None) else None)"

definition keyedOf :: "(string \<Rightarrow> inputErr + Result) \<Rightarrow> (string \<Rightarrow> Query option) \<Rightarrow> string \<Rightarrow> string \<Rightarrow> f64 option" where
  "keyedOf query queries input =
     (case queries input of
        None \<Rightarrow> Map.empty
      | Some q \<Rightarrow> if q_groupLabel q = [] then Map.empty else fst (readFacilityKeyed (query (q_promQL q)) (q_groupLabel q)))"

definition carbonOf :: "(string \<Rightarrow> inputErr + Result) \<Rightarrow> CarbonIntensitySpec \<Rightarrow> (string \<Rightarrow> Query option) \<Rightarrow> CarbonIntensity option" where
  "carbonOf query carbon queries =
     Option.bind (scalarOf query queries ''carbon_intensity'') (\<lambda>v. case readCarbon carbon (Finite v) of Inr c \<Rightarrow> Some c | Inl _ \<Rightarrow> None)"

definition knownReadings :: "(string \<Rightarrow> inputErr + Result) \<Rightarrow> CarbonIntensitySpec \<Rightarrow> (string \<Rightarrow> Query option) \<Rightarrow> Facility" where
  "knownReadings query carbon queries =
     \<lparr>fa_carbonIntensity = carbonOf query carbon queries, fa_ambientC = scalarOf query queries ''ambient_temp'',
      fa_itPowerW = scalarOf query queries ''it_power'', fa_coolingPowerW = scalarOf query queries ''cooling_power'',
      fa_zoneAmbientC = keyedOf query queries ''zone_ambient_temp'', fa_rackPowerW = keyedOf query queries ''rack_power'',
      fa_nodeInletC = keyedOf query queries ''node_inlet_temp''\<rparr>"

definition pollReading :: "(string \<Rightarrow> inputErr + Result) \<Rightarrow> CarbonIntensitySpec \<Rightarrow> (string \<Rightarrow> Query option) \<Rightarrow> string \<Rightarrow> facilityPoll \<Rightarrow> facilityPoll" where
  "pollReading query carbon queries input s =
     (case queries input of
        None \<Rightarrow> s
      | Some q \<Rightarrow>
          if q_groupLabel q = [] then fst (readSingle carbon input (queryPrometheusScalar query (q_promQL q)) s)
          else storeKeyed input (fst (readFacilityKeyed (query (q_promQL q)) (q_groupLabel q))) s)"

lemma pollInput_reading: "fst (pollInput query carbon queries input st) = pollReading query carbon queries input (fst st)"
  by (auto simp: pollInput_def pollReading_def split: option.split prod.split)

lemma fold_pollInput: "fst (fold (pollInput query carbon queries) is st) = fold (pollReading query carbon queries) is (fst st)"
  by (induction "is" arbitrary: st) (simp_all add: pollInput_reading)

lemma poll_ambient:
  "fs_ambientC s = None \<Longrightarrow> pollReading query carbon queries ''ambient_temp'' s = s\<lparr>fs_ambientC := scalarOf query queries ''ambient_temp''\<rparr>"
  by (simp add: pollReading_def scalarOf_def readSingle_def Let_def readingOr0_def storeKeyed_def split: option.split sum.split)

lemma poll_it:
  "fs_itPowerW s = 0 \<Longrightarrow> \<not> fp_itKnown s \<Longrightarrow> pollReading query carbon queries ''it_power'' s =
   s\<lparr>fs_itPowerW := (case scalarOf query queries ''it_power'' of Some v \<Rightarrow> v | None \<Rightarrow> 0), fp_itKnown := scalarOf query queries ''it_power'' \<noteq> None\<rparr>"
  by (simp add: pollReading_def scalarOf_def readSingle_def Let_def readingOr0_def storeKeyed_def split: option.split sum.split)

lemma poll_cooling:
  "fp_coolingPowerW s = 0 \<Longrightarrow> \<not> fp_coolingKnown s \<Longrightarrow> pollReading query carbon queries ''cooling_power'' s =
   s\<lparr>fp_coolingPowerW := (case scalarOf query queries ''cooling_power'' of Some v \<Rightarrow> v | None \<Rightarrow> 0),
     fp_coolingKnown := scalarOf query queries ''cooling_power'' \<noteq> None\<rparr>"
  by (simp add: pollReading_def scalarOf_def readSingle_def Let_def readingOr0_def storeKeyed_def split: option.split sum.split)

lemma poll_carbon:
  "fp_carbon s = zeroCarbon \<Longrightarrow> \<not> fp_carbonKnown s \<Longrightarrow> pollReading query carbon queries ''carbon_intensity'' s =
   s\<lparr>fp_carbon := (case carbonOf query carbon queries of Some c \<Rightarrow> c | None \<Rightarrow> zeroCarbon), fp_carbonKnown := carbonOf query carbon queries \<noteq> None\<rparr>"
  by (simp add: pollReading_def carbonOf_def scalarOf_def readSingle_def Let_def storeKeyed_def split: option.split sum.split)

lemma poll_keyed:
  "fs_zoneAmbientC s = Map.empty \<Longrightarrow> pollReading query carbon queries ''zone_ambient_temp'' s = s\<lparr>fs_zoneAmbientC := keyedOf query queries ''zone_ambient_temp''\<rparr>"
  "fs_rackPowerW s = Map.empty \<Longrightarrow> pollReading query carbon queries ''rack_power'' s = s\<lparr>fs_rackPowerW := keyedOf query queries ''rack_power''\<rparr>"
  "fs_nodeInletC s = Map.empty \<Longrightarrow> pollReading query carbon queries ''node_inlet_temp'' s = s\<lparr>fs_nodeInletC := keyedOf query queries ''node_inlet_temp''\<rparr>"
  by (simp_all add: pollReading_def keyedOf_def readSingle_def Let_def storeKeyed_def split: option.split sum.split)

lemma poll_known: "forPolicy (fold (pollReading query carbon queries) FacilityInputs emptyPoll) = knownReadings query carbon queries"
  unfolding FacilityInputs_def
  by (simp add: emptyPoll_def poll_ambient poll_it poll_cooling poll_carbon poll_keyed forPolicy_def knownReadings_def split: option.split)

lemma fetch_known:
  assumes "Queries (fc_spec cfg) = Inr queries"
  shows "forPolicy (fm_readings (fetchFacilityMetrics query now cfg fm)) = knownReadings query (fsp_carbon (fc_spec cfg)) queries"
proof -
  obtain s fm' where F: "fold (pollInput query (fsp_carbon (fc_spec cfg)) queries) FacilityInputs (emptyPoll, fm) = (s, fm')" by (meson surj_pair)
  then have "s = fold (pollReading query (fsp_carbon (fc_spec cfg)) queries) FacilityInputs emptyPoll"
    using fold_pollInput [of query "fsp_carbon (fc_spec cfg)" queries FacilityInputs "(emptyPoll, fm)"] by simp
  then show ?thesis using assms F poll_known by (simp add: fetchFacilityMetrics_def)
qed

section \<open>Lemmas: configuration\<close>

lemma loadFacility_Inr:
  assumes "loadFacility parseDuration env address naming window = Inr fc"
  shows "0 < fc_pollInterval fc \<and> (\<exists>queries. Queries (fc_spec fc) = Inr queries)"
  using assms by (auto simp: loadFacility_def Let_def split: if_splits option.splits sum.splits)

lemma loadNodePower_Inr:
  assumes "loadNodePower env address naming window = Inr np"
  shows "npc_source np \<in> {''static'', ''prometheus'', ''http''} \<and> (\<exists>q. nodePowerQuery (npc_spec np) = Inr q) \<and>
    (\<exists>spec. WithDefaults spec = Inr (npc_spec np))"
proof -
  define S where "S = {''static'', ''prometheus'', ''http''}"
  have "''static'' \<in> S" by (simp add: S_def)
  then show ?thesis using assms unfolding loadNodePower_def Let_def S_def [symmetric] by (auto split: sum.splits)
qed

lemma loadInputConfig_Inr:
  assumes "loadInputConfig parseDuration env = Inr cfg"
  obtains address naming window where "loadNodePower env address naming window = Inr (ic_nodePower cfg)"
    "loadFacility parseDuration env address naming window = Inr (ic_facility cfg)"
  using assms by (auto simp: loadInputConfig_def Let_def split: sum.splits)

section \<open>Properties\<close>

text \<open>A configuration of the measured inputs that loads can be read: the source is one of the three, the node power spec
  is well formed and has its query, the poll interval is positive and the facility spec has its queries. So no reconcile
  and no poll fails for its configuration.\<close>

theorem loadInputConfig_sound:
  assumes "loadInputConfig parseDuration env = Inr cfg"
  shows "npc_source (ic_nodePower cfg) \<in> {''static'', ''prometheus'', ''http''} \<and> wellFormedSpec (npc_spec (ic_nodePower cfg)) \<and>
    (\<exists>q. nodePowerQuery (npc_spec (ic_nodePower cfg)) = Inr q) \<and> 0 < fc_pollInterval (ic_facility cfg) \<and>
    (\<exists>queries. Queries (fc_spec (ic_facility cfg)) = Inr queries)"
  by (rule loadInputConfig_Inr [OF assms]) (use loadNodePower_Inr loadFacility_Inr WithDefaults_wellFormed in blast)

definition exampleInputEnv :: strmap where
  "exampleInputEnv = [''NODE_POWER_SOURCE'' \<mapsto> ''prometheus'', ''PROMETHEUS_ADDRESS'' \<mapsto> ''http://prom'', ''ENABLE_FACILITY_METRICS'' \<mapsto> ''true'']"

definition exampleInputConfig :: inputConfig where
  "exampleInputConfig = projr (loadInputConfig (\<lambda>_. None) exampleInputEnv)"

lemma exampleInputConfig_loads: "loadInputConfig (\<lambda>_. None) exampleInputEnv = Inr exampleInputConfig"
proof -
  have "isl (loadInputConfig (\<lambda>_. None) exampleInputEnv) = False" by code_simp
  then show ?thesis unfolding exampleInputConfig_def by (cases "loadInputConfig (\<lambda>_. None) exampleInputEnv") simp_all
qed

lemma exampleInputConfig_fields:
  "npc_source (ic_nodePower exampleInputConfig) = ''prometheus''" "npc_promAddress (ic_nodePower exampleInputConfig) = ''http://prom''"
  by code_simp+

theorem loadInputConfig_sound_witness:
  "loadInputConfig (\<lambda>_. None) exampleInputEnv = Inr exampleInputConfig \<and> wellFormedSpec (npc_spec (ic_nodePower exampleInputConfig))"
  using loadInputConfig_sound [OF exampleInputConfig_loads] exampleInputConfig_loads by blast

text \<open>C18: A reconcile that reads node power from Prometheus with a grouped query asks at most two queries, however many nodes
  it resolves, and resolves every node as \<^const>\<open>resolveNodePower\<close> does with the values of that one answer: no node is read
  from an answer of its own or of an earlier reconcile.\<close>

theorem reconcile_reads_one_answer:
  assumes "loadInputConfig parseDuration vars = Inr c" and cfg: "cfg = ic_nodePower c"
    and src: "npc_source cfg = ''prometheus''" "npc_promAddress cfg \<noteq> []"
    and query: "nodePowerQuery (npc_spec cfg) = Inr (primary, fallback)" "\<not> q_perNode primary"
  shows "let st = s\<lparr>pst_inputs := withNodePowerRound (pst_inputs s)\<rparr>;
             answer = fst (groupedNodePower (pw_env w) (npc_spec cfg) primary fallback (pst_inputs st))
         in fst (resolveAll cfg w ns st) =
              map (resolveNodePower \<lparr>nps_source = npc_source cfg, nps_promAddress = npc_promAddress cfg, nps_prometheus = answer,
                     nps_httpEndpoint = npc_httpEndpoint cfg, nps_http = http\<rparr>) ns \<and>
            length (ist_asked (pst_inputs (snd (resolveAll cfg w ns st)))) \<le> length (ist_asked (pst_inputs s)) + 2"
proof -
  have "WithDefaults (npc_spec cfg) = Inr (npc_spec cfg)"
    by (rule loadInputConfig_Inr [OF assms(1)]) (use cfg loadNodePower_Inr WithDefaults_wellFormed WithDefaults_fixed in blast)
  then show ?thesis unfolding Let_def
    using resolve_round [OF src _ query, of "s\<lparr>pst_inputs := withNodePowerRound (pst_inputs s)\<rparr>" w ns http]
    by (simp add: withNodePowerRound_def)
qed

definition exampleWorld :: powerWorld where
  "exampleWorld =
     \<lparr>pw_env = \<lparr>ie_query = \<lambda>_. Inl (Unreachable []), ie_now = 0, ie_text = \<lambda>_. ''unreachable''\<rparr>,
      pw_json = \<lparr>jl_unmarshal = \<lambda>_. None, jl_metrics = \<lambda>_. None, jl_fmtFloat = \<lambda>_. []\<rparr>, pw_get = \<lambda>_. Inl [], pw_httpText = \<lambda>_. []\<rparr>"

theorem reconcile_reads_one_answer_witness:
  "\<exists>primary fallback. nodePowerQuery (npc_spec (ic_nodePower exampleInputConfig)) = Inr (primary, fallback) \<and>
     length (ist_asked (pst_inputs (snd (resolveAll (ic_nodePower exampleInputConfig) exampleWorld [''a'', ''b'', ''c'']
       (initialPowerState\<lparr>pst_inputs := withNodePowerRound (pst_inputs initialPowerState)\<rparr>))))) \<le> 2"
proof -
  have "\<not> isl (nodePowerQuery (npc_spec (ic_nodePower exampleInputConfig))) \<and>
    \<not> q_perNode (fst (projr (nodePowerQuery (npc_spec (ic_nodePower exampleInputConfig)))))"
    by code_simp
  then obtain primary fallback where q: "nodePowerQuery (npc_spec (ic_nodePower exampleInputConfig)) = Inr (primary, fallback)" "\<not> q_perNode primary"
    by (cases "nodePowerQuery (npc_spec (ic_nodePower exampleInputConfig))") auto
  have "length (ist_asked (pst_inputs (snd (resolveAll (ic_nodePower exampleInputConfig) exampleWorld [''a'', ''b'', ''c'']
       (initialPowerState\<lparr>pst_inputs := withNodePowerRound (pst_inputs initialPowerState)\<rparr>))))) \<le> length (ist_asked (pst_inputs initialPowerState)) + 2"
    using reconcile_reads_one_answer [OF exampleInputConfig_loads refl exampleInputConfig_fields(1) _ q, of initialPowerState exampleWorld "[''a'', ''b'', ''c'']"]
    unfolding Let_def exampleInputConfig_fields by blast
  then show ?thesis using q(1) by (simp add: initialPowerState_def initialInputState_def)
qed

text \<open>Automatic mode reads the form that worked last: while it works, only its query is asked. When it fails and the other
  form works, the other one is read and kept. So whenever either form works, the values are those of a working form, and that
  form is the one recorded for the next reconcile.\<close>

theorem auto_form_follows_what_works:
  fixes st :: inputState and env :: inputEnv and spec :: NodePowerSpec and primary fallback :: Query
  assumes "q_promQL fallback \<noteq> []"
  defines "f \<equiv> firstForm st" and "works \<equiv> \<lambda>form. autoFormWorks form (readOf env (formQuery primary fallback form))"
    and "after \<equiv> groupedNodePower env spec primary fallback st"
  shows "(works f \<longrightarrow> ist_autoForm (snd after) = f \<and> ist_asked (snd after) = q_promQL (formQuery primary fallback f) # ist_asked st) \<and>
    (\<not> works f \<and> works (otherForm f) \<longrightarrow> ist_autoForm (snd after) = otherForm f) \<and>
    (works f \<or> works (otherForm f) \<longrightarrow>
       works (ist_autoForm (snd after)) \<and> fst after = npr_values (readOf env (formQuery primary fallback (ist_autoForm (snd after))))) \<and>
    (\<not> works f \<and> \<not> works (otherForm f) \<longrightarrow> ist_autoForm (snd after) = ist_autoForm st)"
proof -
  obtain st1 where 1: "runGroupedNodePower env (formQuery primary fallback f) st = (readOf env (formQuery primary fallback f), st1)"
    "ist_asked st1 = q_promQL (formQuery primary fallback f) # ist_asked st" "ist_autoForm st1 = ist_autoForm st"
    using runGrouped_pair by metis
  obtain st2 where 2: "runGroupedNodePower env (formQuery primary fallback (otherForm f)) st1 = (readOf env (formQuery primary fallback (otherForm f)), st2)"
    "ist_autoForm st2 = ist_autoForm st1"
    using runGrouped_pair by metis
  show ?thesis
    unfolding after_def works_def grouped_auto [OF assms(1)] f_def [symmetric] using 1 2 by simp
qed

definition exampleForms :: inputEnv where
  "exampleForms = \<lparr>ie_query = \<lambda>q. if q = ''ti'' then Inr \<lparr>res_type = ''vector'', res_samples = [\<lparr>sa_labels = [''node'' \<mapsto> ''a''], sa_value = Finite 3, sa_time = 0\<rparr>],
       res_warnings = []\<rparr> else Inl (Unreachable []), ie_now = 0, ie_text = \<lambda>_. []\<rparr>"

theorem auto_form_follows_what_works_witness:
  "ist_autoForm (snd (groupedNodePower exampleForms exampleSpec \<lparr>q_promQL = ''l'', q_groupLabel = ''node'', q_perNode = False\<rparr>
     \<lparr>q_promQL = ''ti'', q_groupLabel = ''node'', q_perNode = False\<rparr> initialInputState)) = ''target_info''"
  using auto_form_follows_what_works [of "\<lparr>q_promQL = ''ti'', q_groupLabel = ''node'', q_perNode = False\<rparr>" initialInputState exampleForms
      "\<lparr>q_promQL = ''l'', q_groupLabel = ''node'', q_perNode = False\<rparr>" exampleSpec]
  by (simp add: firstForm_def otherForm_def formQuery_def readOf_def autoFormWorks_def lenValues_def exampleForms_def initialInputState_def ByLabel_def map_get_def)

text \<open>Over any run of reconciles, whatever the sources answer, the log holds one line per failing read: of the lines about
  one query or node, an error is repeated unchanged only ten minutes after it was last logged, and a line that the read works
  again follows an error.\<close>

theorem error_log_spaced: "repeatsSpaced (linesOf key (pst_inputs (measureRun cfg rounds initialPowerState)))"
  using logInv_measureRun [of initialPowerState cfg rounds] logInv_initial by (simp add: logInv_def initialPowerState_def)

text \<open>With a loaded configuration a facility poll leaves the policy exactly what the queries of this poll answered: a value
  for a query with one finite value, the keyed values of a grouped query, and for every other input nothing, whatever an
  earlier poll had read.\<close>

theorem facility_poll_fresh:
  assumes "loadInputConfig parseDuration vars = Inr cfg"
  shows "\<exists>queries. Queries (fc_spec (ic_facility cfg)) = Inr queries \<and>
    forPolicy (fm_readings (fetchFacilityMetrics query now (ic_facility cfg) fm)) = knownReadings query (fsp_carbon (fc_spec (ic_facility cfg))) queries"
  by (rule loadInputConfig_Inr [OF assms]) (use loadFacility_Inr fetch_known in blast)

theorem facility_poll_fresh_witness:
  "\<exists>queries. Queries (fc_spec (ic_facility exampleInputConfig)) = Inr queries \<and>
    fa_ambientC (forPolicy (fm_readings (fetchFacilityMetrics (\<lambda>_. Inl (Unreachable [])) 0 (ic_facility exampleInputConfig)
      \<lparr>fm_readings = emptyPoll\<lparr>fs_ambientC := Some 20\<rparr>, fm_lastUpdated = None, fm_lastResult = Map.empty, fm_lines = []\<rparr>))) = None"
proof -
  obtain queries where "Queries (fc_spec (ic_facility exampleInputConfig)) = Inr queries"
    "forPolicy (fm_readings (fetchFacilityMetrics (\<lambda>_. Inl (Unreachable [])) 0 (ic_facility exampleInputConfig)
      \<lparr>fm_readings = emptyPoll\<lparr>fs_ambientC := Some 20\<rparr>, fm_lastUpdated = None, fm_lastResult = Map.empty, fm_lines = []\<rparr>)) =
     knownReadings (\<lambda>_. Inl (Unreachable [])) (fsp_carbon (fc_spec (ic_facility exampleInputConfig))) queries"
    using facility_poll_fresh [OF exampleInputConfig_loads] by blast
  then show ?thesis by (simp add: knownReadings_def scalarOf_def queryPrometheusScalar_def split: option.split)
qed

end
