(* ===== verification/Sim_Power.thy ===== *)
theory Sim_Power
  imports Go_Prelude "HOL-Library.Word"
begin

unbundle bit_operations_syntax

text \<open>
  The power models of the simulator (\<^verbatim>\<open>simulator/pkg/phys\<close>): CPUs on a measured curve or an analytic formula and the search
  for the frequency a cap allows (\<^verbatim>\<open>model.go\<close>, \<^verbatim>\<open>cpu.go\<close>), GPUs under a cap and a clock (\<^verbatim>\<open>gpuclock.go\<close>), and the rate of a
  peer copy (\<^verbatim>\<open>transfer.go\<close>, \<^verbatim>\<open>transfer_gate.go\<close>). \<open>math.Pow\<close> is \<open>powr\<close>: every base is non-negative and every exponent
  positive. The Go interface \<open>PowerModel\<close> is the locale \<open>power_model\<close>.
\<close>

section \<open>Device state and curves\<close>

record DeviceState =
  ds_utilization :: f64
  ds_freqScale :: f64
  ds_capWatts :: f64
  ds_maxCapWatts :: f64
  ds_idlePowerWatts :: f64
  ds_memoryIntensity :: f64
  ds_ioIntensity :: f64
  ds_cpuFeedIntensity :: f64
  ds_temperatureC :: f64
  ds_thermalThrottle :: f64
  ds_class :: string

record SimPowerPoint =
  pp_loadPct :: f64
  pp_powerW :: f64

fun curveFrom :: "SimPowerPoint list \<Rightarrow> f64 \<Rightarrow> f64" where
  "curveFrom (a # b # ps) load =
     (if load \<le> pp_loadPct b
      then (let span = pp_loadPct b - pp_loadPct a
            in if span \<le> 0 then pp_powerW b else pp_powerW a + (load - pp_loadPct a) / span * (pp_powerW b - pp_powerW a))
      else curveFrom (b # ps) load)"
| "curveFrom [a] load = pp_powerW a"
| "curveFrom [] load = 0"

definition interpolateCurve :: "SimPowerPoint list \<Rightarrow> f64 \<Rightarrow> f64" where
  "interpolateCurve points load =
     (if points = [] then 0 else curveFrom points (max (pp_loadPct (hd points)) (min load (pp_loadPct (List.last points)))))"

definition applyThermalPenalty :: "f64 \<Rightarrow> DeviceState \<Rightarrow> f64" where
  "applyThermalPenalty v s = clamp01 (v * (1 - clamp01 (ds_thermalThrottle s)))"

definition cpuClassWeights :: "string \<Rightarrow> f64 \<times> f64 \<times> f64" where
  "cpuClassWeights c =
     (if c = ''cpu.compute_bound'' then (75/100, 20/100, 5/100)
      else if c = ''cpu.memory_bound'' then (20/100, 75/100, 5/100)
      else if c = ''cpu.io_bound'' then (10/100, 10/100, 80/100)
      else (45/100, 35/100, 20/100))"

definition cpuBoundnessWeights :: "DeviceState \<Rightarrow> string \<Rightarrow> f64 \<times> f64 \<times> f64" where
  "cpuBoundnessWeights s c =
     (let mem = clamp01 (ds_memoryIntensity s); io = clamp01 (ds_ioIntensity s); (c0, m0, i0) = cpuClassWeights c;
          compute = clamp01 (55/100 * c0 + 45/100 * (1 - max mem io));
          memory = clamp01 (55/100 * m0 + 45/100 * mem);
          ioWeight = clamp01 (55/100 * i0 + 45/100 * io);
          tot = compute + memory + ioWeight
      in if tot \<le> 0 then (45/100, 35/100, 20/100) else (compute / tot, memory / tot, ioWeight / tot))"

definition gpuClassWeights :: "string \<Rightarrow> f64 \<times> f64" where
  "gpuClassWeights c =
     (if c = ''gpu.compute_bound'' then (80/100, 20/100)
      else if c = ''gpu.memory_bound'' \<or> c = ''gpu.bandwidth_bound'' then (20/100, 80/100)
      else (50/100, 50/100))"

definition gpuBoundnessWeights :: "DeviceState \<Rightarrow> string \<Rightarrow> f64 \<times> f64" where
  "gpuBoundnessWeights s c =
     (let mem = clamp01 (ds_memoryIntensity s); feed = clamp01 (ds_cpuFeedIntensity s); (c0, m0) = gpuClassWeights c;
          compute = clamp01 (60/100 * clamp01 (c0 + 10/100 * feed) + 40/100 * (1 - mem));
          memory = clamp01 (60/100 * m0 + 40/100 * mem);
          tot = compute + memory
      in if tot \<le> 0 then (1/2, 1/2) else (compute / tot, memory / tot))"

section \<open>CPU models\<close>

text \<open>An exponent or parameter that is not positive stands for its default.\<close>

definition orDefault :: "f64 \<Rightarrow> f64 \<Rightarrow> f64" where
  "orDefault v def = (if v \<le> 0 then def else v)"

record MeasuredCurveCPUModel =
  mc_points :: "SimPowerPoint list"
  mc_knee :: f64
  mc_betaFreq :: f64

definition capped :: "f64 \<Rightarrow> f64 \<Rightarrow> f64" where
  "capped capW p = (if capW > 0 \<and> p > capW then capW else p)"

definition measuredPower :: "MeasuredCurveCPUModel \<Rightarrow> DeviceState \<Rightarrow> f64" where
  "measuredPower m s =
     (if mc_points m = [] then 0
      else (let util = clamp01 (ds_utilization s); beta = orDefault (mc_betaFreq m) 1;
                idle = interpolateCurve (mc_points m) 0;
                p = idle + max 0 (interpolateCurve (mc_points m) (util * 100) - idle) * clamp01 (ds_freqScale s) powr beta;
                p = p * (1 - 35/100 * clamp01 (ds_thermalThrottle s))
            in capped (ds_capWatts s) p))"

definition kneeThroughput :: "f64 \<Rightarrow> DeviceState \<Rightarrow> string \<Rightarrow> f64" where
  "kneeThroughput knee0 s c =
     (let f = clamp01 (ds_freqScale s); knee = orDefault knee0 (7/10);
          memoryScale = (if f \<ge> knee then 1 - 12/100 * (1 - f) else 1 - 12/100 * (1 - knee) - 45/100 * ((knee - f) / max (1/10) knee));
          ioScale = 1 - 5/100 * (1 - f);
          (wc, wm, wi) = cpuBoundnessWeights s c
      in applyThermalPenalty (clamp01 (wc * f + wm * memoryScale + wi * ioScale)) s)"

record ProxyCurveCPUModel =
  pc_base :: MeasuredCurveCPUModel
  pc_dynamicScale :: f64
  pc_highLoadSteepness :: f64

definition proxyPower :: "ProxyCurveCPUModel \<Rightarrow> DeviceState \<Rightarrow> f64" where
  "proxyPower m s =
     (case mc_points (pc_base m) of
        [] \<Rightarrow> 0
      | p0 # ps \<Rightarrow>
          (let u = clamp01 (ds_utilization s) * 100;
               idle = pp_powerW p0;
               dyn0 = max 0 (interpolateCurve (p0 # ps) u - idle) * pc_dynamicScale m;
               dyn = (if pc_highLoadSteepness m > 0 \<and> u > 70 then dyn0 * (1 + (u - 70) / 30 * pc_highLoadSteepness m) else dyn0)
           in capped (ds_capWatts s) (idle + dyn)))"

record AnalyticCPUModel =
  an_idleW :: f64
  an_maxW :: f64
  an_alphaUtil :: f64
  an_betaFreq :: f64
  an_knee :: f64

definition analyticActivity :: "DeviceState \<Rightarrow> f64" where
  "analyticActivity s = max (35/100) (min 1 (1 - 30/100 * clamp01 (ds_memoryIntensity s) - 45/100 * clamp01 (ds_ioIntensity s)))"

definition analyticPower :: "AnalyticCPUModel \<Rightarrow> DeviceState \<Rightarrow> f64" where
  "analyticPower m s =
     (let util = clamp01 (ds_utilization s); freq = clamp01 (ds_freqScale s);
          alpha = orDefault (an_alphaUtil m) 1; beta = orDefault (an_betaFreq m) 1;
          p = an_idleW m + (an_maxW m - an_idleW m) * clamp01 (util * analyticActivity s) powr alpha * freq powr beta
      in p * (1 - 35/100 * clamp01 (ds_thermalThrottle s)))"

definition analyticSolve :: "AnalyticCPUModel \<Rightarrow> DeviceState \<Rightarrow> f64 \<Rightarrow> f64 \<Rightarrow> f64 \<Rightarrow> f64" where
  "analyticSolve m s util capW minScale =
     (if an_maxW m \<le> an_idleW m then 1
      else (let alpha = orDefault (an_alphaUtil m) 1; beta = orDefault (an_betaFreq m) 1;
                den = (an_maxW m - an_idleW m) * clamp01 (util * analyticActivity s) powr alpha
            in if den \<le> 0 then 1
               else (let x = (capW - an_idleW m) / den in if x \<le> 0 then minScale else x powr (1 / beta))))"

text \<open>The bisection of any other model: \<open>n\<close> halvings of the interval.\<close>

fun bisect :: "(f64 \<Rightarrow> f64) \<Rightarrow> f64 \<Rightarrow> nat \<Rightarrow> f64 \<Rightarrow> f64 \<Rightarrow> f64" where
  "bisect pow capW 0 lo hi = lo"
| "bisect pow capW (Suc n) lo hi =
     (let mid = (lo + hi) / 2 in if pow mid > capW then bisect pow capW n lo mid else bisect pow capW n mid hi)"

datatype PowerModel = Measured MeasuredCurveCPUModel | Proxy ProxyCurveCPUModel | Analytic AnalyticCPUModel

fun modelPower :: "PowerModel \<Rightarrow> DeviceState \<Rightarrow> f64" where
  "modelPower (Measured m) s = measuredPower m s"
| "modelPower (Proxy m) s = proxyPower m s"
| "modelPower (Analytic m) s = analyticPower m s"

fun modelThroughput :: "PowerModel \<Rightarrow> DeviceState \<Rightarrow> string \<Rightarrow> f64" where
  "modelThroughput (Measured m) s c = kneeThroughput (mc_knee m) s c"
| "modelThroughput (Proxy m) s c = kneeThroughput (mc_knee (pc_base m)) s c"
| "modelThroughput (Analytic m) s c = kneeThroughput (an_knee m) s c"

definition probeAt :: "DeviceState \<Rightarrow> f64 \<Rightarrow> DeviceState" where
  "probeAt s f = s\<lparr>ds_capWatts := 0, ds_freqScale := f\<rparr>"

definition SolveFreqScaleForCap :: "PowerModel \<Rightarrow> DeviceState \<Rightarrow> f64 \<Rightarrow> f64 \<Rightarrow> f64" where
  "SolveFreqScaleForCap m s capW minScale0 =
     (let util = clamp01 (ds_utilization s); minScale = clamp01 minScale0
      in if util \<le> 0 then 1
         else (case m of
                 Analytic a \<Rightarrow> analyticSolve a s util capW minScale
               | _ \<Rightarrow>
                   if modelPower m (probeAt s 1) \<le> capW then 1
                   else bisect (\<lambda>f. modelPower m (probeAt s f)) capW 22 minScale 1))"

definition FirstOrderToward :: "f64 \<Rightarrow> f64 \<Rightarrow> f64 \<Rightarrow> f64 \<Rightarrow> f64" where
  "FirstOrderToward current target dt tauSec =
     (if tauSec \<le> 0 then target
      else if dt \<le> 0 then current
      else (let step = (if dt / tauSec > 1 then 1 else dt / tauSec) in current + (target - current) * step))"

section \<open>GPU boards under a cap\<close>

record CappedBoardGPUModel =
  gb_idleW :: f64
  gb_maxW :: f64
  gb_computeGamma :: f64
  gb_memoryEpsilon :: f64
  gb_memoryGamma :: f64

definition naturalPower :: "CappedBoardGPUModel \<Rightarrow> f64 \<Rightarrow> DeviceState \<Rightarrow> f64" where
  "naturalPower m util0 s =
     (let util = clamp01 util0; dyn = max 0 (gb_maxW m - gb_idleW m);
          computeCurve = gb_idleW m + dyn * util powr (102/100);
          memoryCurve = gb_idleW m + dyn * (35/100 * sqrt util + 30/100 * util);
          (wc, wm) = gpuBoundnessWeights s (ds_class s)
      in wc * computeCurve + wm * memoryCurve)"

definition boardCap :: "CappedBoardGPUModel \<Rightarrow> DeviceState \<Rightarrow> f64" where
  "boardCap m s = (if ds_capWatts s > 0 then ds_capWatts s else if ds_maxCapWatts s > 0 then ds_maxCapWatts s else gb_maxW m)"

definition boardPower :: "CappedBoardGPUModel \<Rightarrow> DeviceState \<Rightarrow> f64" where
  "boardPower m s =
     (let capW = (if boardCap m s \<le> 0 then 1 else boardCap m s);
          pNat = min (naturalPower m (clamp01 (ds_utilization s)) s) capW
      in max pNat (gb_idleW m))"

text \<open>The compute and memory scale of a capped board, and whether the cap binds.\<close>

definition gpuCapScales :: "CappedBoardGPUModel \<Rightarrow> DeviceState \<Rightarrow> f64 \<times> f64 \<times> bool" where
  "gpuCapScales m s =
     (let pNat = naturalPower m (clamp01 (ds_utilization s)) s; capW = boardCap m s
      in if capW \<le> 0 \<or> pNat \<le> 0 \<or> capW \<ge> pNat then (1, 1, False)
         else (let ratio = clamp01 (capW / pNat)
               in (ratio powr orDefault (gb_computeGamma m) 1,
                   1 - orDefault (gb_memoryEpsilon m) (2/10) * (1 - ratio) powr orDefault (gb_memoryGamma m) (11/10), True)))"

definition boardThroughput :: "CappedBoardGPUModel \<Rightarrow> DeviceState \<Rightarrow> string \<Rightarrow> f64" where
  "boardThroughput m s c =
     (let pNat = naturalPower m (clamp01 (ds_utilization s)) s; capW = boardCap m s
      in if capW \<le> 0 \<or> pNat \<le> 0 then 1
         else if capW \<ge> pNat then 1
         else (let ratio = clamp01 (capW / pNat);
                   computeScale = ratio powr orDefault (gb_computeGamma m) 1;
                   memScale = 1 - orDefault (gb_memoryEpsilon m) (2/10) * (1 - ratio) powr orDefault (gb_memoryGamma m) (11/10);
                   (wc, wm) = gpuBoundnessWeights s c
               in applyThermalPenalty (clamp01 (wc * computeScale + wm * memScale)) s))"

section \<open>GPU clocks\<close>

datatype DataPathLevel = DataPathMax | DataPathMid | DataPathMin

record GPUClock =
  ck_computeMHz :: f64
  ck_computeMaxMHz :: f64
  ck_dataPath :: DataPathLevel
  ck_dataPathAuto :: bool
  ck_gatingOff :: bool

record GPUClockFacts =
  cf_clockBeta :: f64
  cf_memoryKneeFrac :: f64
  cf_memoryKneeGamma :: f64
  cf_dataPathHoldW :: f64
  cf_gatingOffIdleW :: f64
  cf_dataPathGamma :: f64

definition gpuIdleUtil :: f64 where
  "gpuIdleUtil = 5/100"

definition gpuGovernorScale :: "GPUClock \<Rightarrow> f64" where
  "gpuGovernorScale c = (if ck_computeMHz c \<le> 0 then 1 else clamp01 (ck_computeMHz c / ck_computeMaxMHz c))"

definition clockBeta :: "GPUClockFacts \<Rightarrow> f64" where
  "clockBeta f = orDefault (cf_clockBeta f) 1"

definition memoryKnee :: "GPUClockFacts \<Rightarrow> f64 \<Rightarrow> f64" where
  "memoryKnee f r =
     (let knee = clamp01 (cf_memoryKneeFrac f)
      in if knee \<le> 0 \<or> r \<ge> knee then 1 else (clamp01 r / knee) powr orDefault (cf_memoryKneeGamma f) 1)"

definition gpuClockScales :: "CappedBoardGPUModel \<Rightarrow> DeviceState \<Rightarrow> GPUClock \<Rightarrow> GPUClockFacts \<Rightarrow> f64 \<times> f64 \<times> bool" where
  "gpuClockScales m s c f =
     (case gpuCapScales m s of
        (capClock, capMemory, capBinds) \<Rightarrow>
          (let clock = gpuGovernorScale c; memory = min capMemory (memoryKnee f clock)
           in (min clock capClock, if ck_dataPath c = DataPathMin then memory * (1 - clamp01 (cf_dataPathGamma f)) else memory, capBinds)))"

definition GPUPowerWithClock :: "CappedBoardGPUModel \<Rightarrow> DeviceState \<Rightarrow> GPUClock \<Rightarrow> GPUClockFacts \<Rightarrow> f64" where
  "GPUPowerWithClock m s c f =
     (let p0 = boardPower m s
      in if ck_computeMaxMHz c \<le> 0 then p0
         else (let capClock = fst (gpuCapScales m s); clock = gpuGovernorScale c;
                   p1 = (if clock < capClock then gb_idleW m + (p0 - gb_idleW m) * (clock / capClock) powr clockBeta f else p0);
                   pNat = max (naturalPower m (clamp01 (ds_utilization s)) s) (gb_idleW m);
                   uncapped = gb_idleW m + (pNat - gb_idleW m) * clock powr clockBeta f;
                   p2 = (if uncapped < p1 then uncapped else p1)
               in if clamp01 (ds_utilization s) < gpuIdleUtil
                  then p2 + (if ck_dataPath c = DataPathMax then cf_dataPathHoldW f else 0) + (if ck_gatingOff c then cf_gatingOffIdleW f else 0)
                  else p2))"

definition GPUThroughputWithClock :: "CappedBoardGPUModel \<Rightarrow> DeviceState \<Rightarrow> GPUClock \<Rightarrow> GPUClockFacts \<Rightarrow> string \<Rightarrow> f64" where
  "GPUThroughputWithClock m s c f cl =
     (if ck_computeMaxMHz c \<le> 0 then boardThroughput m s cl
      else (case gpuClockScales m s c f of
              (compute, memory, capBinds) \<Rightarrow>
                (case gpuBoundnessWeights s cl of
                   (wc, wm) \<Rightarrow>
                     (let out = clamp01 (wc * compute + wm * memory) in if capBinds then applyThermalPenalty out s else out))))"

section \<open>Peer copies\<close>

record ReceiverGate =
  rg_enabled :: bool
  rg_slowFraction :: f64
  rg_midFraction :: f64
  rg_midPairFraction :: f64
  rg_seed :: "64 word"

text \<open>The splitmix64 finalizer on the pair; a node's GPUs are numbered by \<open>int\<close>, cut to 32 bits.\<close>

definition gatePairUnit :: "64 word \<Rightarrow> int \<Rightarrow> int \<Rightarrow> f64" where
  "gatePairUnit seed src dst =
     (let x0 = seed XOR (push_bit 32 (ucast (word_of_int src :: 32 word)) OR ucast (word_of_int dst :: 32 word));
          x1 = x0 + 0x9e3779b97f4a7c15;
          x2 = (x1 XOR drop_bit 30 x1) * 0xbf58476d1ce4e5b9;
          x3 = (x2 XOR drop_bit 27 x2) * 0x94d049bb133111eb;
          x4 = x3 XOR drop_bit 31 x3
      in real (unat (drop_bit 11 x4)) / 2 ^ 53)"

definition gatedFraction :: "GPUClock \<Rightarrow> ReceiverGate \<Rightarrow> int \<Rightarrow> int \<Rightarrow> f64" where
  "gatedFraction recv gate src dst =
     (if ck_dataPath recv = DataPathMax then 1
      else if ck_dataPathAuto recv
      then (if gatePairUnit (rg_seed gate) src dst < clamp01 (rg_midPairFraction gate) then rg_midFraction gate else rg_slowFraction gate)
      else if ck_dataPath recv = DataPathMid then rg_midFraction gate
      else rg_slowFraction gate)"

definition PeerRate :: "f64 \<Rightarrow> f64 \<Rightarrow> GPUClock \<Rightarrow> ReceiverGate \<Rightarrow> int \<Rightarrow> int \<Rightarrow> f64" where
  "PeerRate demandBps linkBps recv gate src dst =
     (if demandBps \<le> 0 then 0
      else if linkBps \<le> 0 then demandBps
      else (let g = (if rg_enabled gate \<and> src \<ge> 0 \<and> dst \<ge> 0 then clamp01 (gatedFraction recv gate src dst) else 1)
            in min demandBps (linkBps * g)))"

section \<open>Lemmas: weights and exponents\<close>

lemma clamp01_pos: "0 < v \<Longrightarrow> 0 < clamp01 v"
  by (simp add: clamp01_def)

lemma clamp01_idem [simp]: "clamp01 (clamp01 v) = clamp01 v"
  by (simp add: clamp01_def)

lemma orDefault_pos: "0 < def \<Longrightarrow> 0 < orDefault v def"
  by (simp add: orDefault_def)

lemma powr_unit: "0 \<le> x \<Longrightarrow> x \<le> 1 \<Longrightarrow> 0 < k \<Longrightarrow> x powr k \<le> (1 :: real)"
  by (metis less_eq_real_def powr_mono2 powr_one_eq_one)

lemma gpuBoundnessWeights_unit:
  assumes "gpuBoundnessWeights s c = (wc, wm)"
  shows "0 \<le> wc \<and> 0 \<le> wm \<and> wc + wm = 1"
proof -
  obtain c0 m0 where "gpuClassWeights c = (c0, m0)" by (meson surj_pair)
  then show ?thesis using assms clamp01_bounds
    by (auto simp: gpuBoundnessWeights_def Let_def add_nonneg_nonneg simp flip: add_divide_distrib split: if_splits)
qed

lemma weighted_ge:
  fixes wc wm x y z :: real
  assumes "0 \<le> wc" "0 \<le> wm" "wc + wm = 1" "z \<le> x" "z \<le> y"
  shows "z \<le> wc * x + wm * y"
proof -
  have "wc * z + wm * z \<le> wc * x + wm * y" using assms by (intro add_mono mult_left_mono) auto
  moreover have "wc * z + wm * z = z" using assms(3) by (simp flip: distrib_right)
  ultimately show ?thesis by simp
qed

lemma naturalPower_ge_idle: "gb_idleW m \<le> naturalPower m u s"
proof -
  obtain wc wm where w: "gpuBoundnessWeights s (ds_class s) = (wc, wm)" by (meson surj_pair)
  have "gb_idleW m \<le> wc * (gb_idleW m + max 0 (gb_maxW m - gb_idleW m) * clamp01 u powr (102 / 100)) +
      wm * (gb_idleW m + max 0 (gb_maxW m - gb_idleW m) * (35 / 100 * sqrt (clamp01 u) + 30 / 100 * clamp01 u))"
    using gpuBoundnessWeights_unit [OF w] clamp01_bounds [of u] by (intro weighted_ge) auto
  then show ?thesis by (simp add: naturalPower_def Let_def w)
qed

section \<open>Lemmas: a cap and a clock on one board\<close>

text \<open>The dynamic power a cap leaves at a fixed clock below the one it implies, as a function of the cap, rises and then falls:
  at any cap in between it is at least as high as at one of the two ends.\<close>

lemma ln_power_peak:
  fixes i a b n k :: real
  assumes "0 \<le> i" "i < a" "a \<le> b" "b \<le> n" "0 < k"
  shows "ln (a - i) - k * ln a \<le> ln (b - i) - k * ln b \<or> ln (n - i) - k * ln n \<le> ln (b - i) - k * ln b"
proof -
  have deriv: "((\<lambda>c. ln (c - i) - k * ln c) has_real_derivative (1 / (x - i) - k / x)) (at x)" if "i < x" for x
    using that assms(1) by (auto intro!: derivative_eq_intros simp: field_simps)
  have sign: "1 / (x - i) - k / x = (x * (1 - k) + k * i) / (x * (x - i))" if "i < x" for x
    using that assms(1) by (simp add: field_simps)
  show ?thesis
  proof (cases "0 \<le> b * (1 - k) + k * i")
    case True
    have "ln (a - i) - k * ln a \<le> ln (b - i) - k * ln b"
    proof (rule DERIV_nonneg_imp_nondecreasing [OF assms(3)])
      fix x assume x: "a \<le> x" "x \<le> b"
      have "0 \<le> x * (1 - k) + k * i"
      proof (cases "k \<le> 1")
        case False
        then have "b * (1 - k) \<le> x * (1 - k)" using x(2) by (intro mult_right_mono_neg) auto
        then show ?thesis using True by simp
      qed (use x assms in auto)
      then show "\<exists>y. ((\<lambda>c. ln (c - i) - k * ln c) has_real_derivative y) (at x) \<and> 0 \<le> y"
        using deriv [of x] sign [of x] x assms by (intro exI [of _ "1 / (x - i) - k / x"]) auto
    qed
    then show ?thesis by simp
  next
    case False
    then have k: "1 < k" using assms by (smt (verit, best) mult_nonneg_nonneg)
    have "ln (n - i) - k * ln n \<le> ln (b - i) - k * ln b"
    proof (rule DERIV_nonpos_imp_nonincreasing [OF assms(4)])
      fix x assume x: "b \<le> x" "x \<le> n"
      have "x * (1 - k) \<le> b * (1 - k)" using x(1) k by (intro mult_right_mono_neg) auto
      then have "x * (1 - k) + k * i \<le> 0" using False by simp
      then show "\<exists>y. ((\<lambda>c. ln (c - i) - k * ln c) has_real_derivative y) (at x) \<and> y \<le> 0"
        using deriv [of x] sign [of x] x assms by (intro exI [of _ "1 / (x - i) - k / x"]) (auto intro: divide_nonpos_pos)
    qed
    then show ?thesis by simp
  qed
qed

lemma power_peak:
  fixes i a b n r g k :: real
  assumes "0 \<le> i" "i < a" "a \<le> b" "b \<le> n" "0 < r" "0 < g" "0 < k"
  defines "p \<equiv> \<lambda>c. (c - i) * (r / (c / n) powr g) powr k"
  shows "min (p a) (p n) \<le> p b"
proof -
  have eq: "p c = exp (ln (c - i) - (g * k) * ln c) * (r powr k * n powr (g * k))" if "i < c" for c
  proof -
    have "(r / (c / n) powr g) powr k = r powr k * (n powr (g * k) / c powr (g * k))"
      using assms(1-7) that by (simp add: powr_divide powr_powr powr_mult)
    moreover have "c powr (g * k) = exp ((g * k) * ln c)" using that assms(1) by (simp add: powr_def)
    moreover have "exp (ln (c - i)) = c - i" using that by simp
    ultimately show ?thesis unfolding p_def exp_diff by (simp only: times_divide_eq_left times_divide_eq_right)
  qed
  have pos: "0 \<le> r powr k * n powr (g * k)" by simp
  from ln_power_peak [OF assms(1-4), of "g * k"] assms(6,7)
  consider "ln (a - i) - (g * k) * ln a \<le> ln (b - i) - (g * k) * ln b" | "ln (n - i) - (g * k) * ln n \<le> ln (b - i) - (g * k) * ln b"
    by auto
  then show ?thesis
  proof cases
    case 1
    then have "p a \<le> p b" using eq [of a] eq [of b] assms(2,3) pos by (simp add: mult_right_mono)
    then show ?thesis by simp
  next
    case 2
    then have "p n \<le> p b" using eq [of n] eq [of b] assms(2,3,4) pos by (simp add: mult_right_mono)
    then show ?thesis by simp
  qed
qed

text \<open>The power of a clocked board in terms of its idle power \<open>i\<close>, its natural power \<open>n\<close>, the cap and the clock: \<open>capPart\<close> is
  what the cap allows at the clock, and the uncapped power at the clock bounds it.\<close>

definition impliedClock :: "f64 \<Rightarrow> f64 \<Rightarrow> f64 \<Rightarrow> f64" where
  "impliedClock g n capW = (if n \<le> 0 \<or> capW \<ge> n then 1 else (capW / n) powr g)"

definition capPart :: "f64 \<Rightarrow> f64 \<Rightarrow> f64 \<Rightarrow> f64 \<Rightarrow> f64 \<Rightarrow> f64 \<Rightarrow> f64" where
  "capPart i n g k capW r =
     (let p = max (min n capW) i; kc = impliedClock g n capW in if r < kc then i + (p - i) * (r / kc) powr k else p)"

definition clockedPower :: "f64 \<Rightarrow> f64 \<Rightarrow> f64 \<Rightarrow> f64 \<Rightarrow> f64 \<Rightarrow> f64 \<Rightarrow> f64" where
  "clockedPower i n g k capW r = min (i + (n - i) * r powr k) (capPart i n g k capW r)"

lemma impliedClock_unit: "0 < g \<Longrightarrow> 0 < capW \<Longrightarrow> 0 < impliedClock g n capW \<and> impliedClock g n capW \<le> 1"
  by (auto simp: impliedClock_def intro!: powr_unit)

lemma impliedClock_mono: "0 < g \<Longrightarrow> 0 < a \<Longrightarrow> a \<le> b \<Longrightarrow> impliedClock g n a \<le> impliedClock g n b"
  by (auto simp: impliedClock_def intro!: powr_mono2 divide_right_mono powr_unit)

lemma capPart_ge_idle: "i \<le> capPart i n g k capW r"
  by (auto simp: capPart_def Let_def)

lemma clockedPower_clock_mono:
  assumes "0 < r" "r \<le> r'" "i \<le> n" "0 < g" "0 < k" "0 < capW"
  shows "clockedPower i n g k capW r \<le> clockedPower i n g k capW r'"
proof -
  note kc = impliedClock_unit [OF assms(4,6), of n]
  have "r powr k \<le> r' powr k" using assms by (intro powr_mono2) auto
  then have "i + (n - i) * r powr k \<le> i + (n - i) * r' powr k" using assms(3) by (simp add: mult_left_mono)
  moreover have "capPart i n g k capW r \<le> capPart i n g k capW r'"
  proof (cases "r' < impliedClock g n capW")
    case True
    have "(r / impliedClock g n capW) powr k \<le> (r' / impliedClock g n capW) powr k"
      using assms kc by (intro powr_mono2 divide_right_mono) auto
    then show ?thesis using True assms(2) by (simp add: capPart_def Let_def mult_left_mono)
  next
    case False
    have "(r / impliedClock g n capW) powr k \<le> 1" if "r < impliedClock g n capW"
      using that assms kc by (intro powr_unit) auto
    then have "(max (min n capW) i - i) * (r / impliedClock g n capW) powr k \<le> max (min n capW) i - i" if "r < impliedClock g n capW"
      using that by (intro mult_left_le) auto
    then show ?thesis using False by (cases "r < impliedClock g n capW") (simp_all add: capPart_def Let_def le_diff_eq add.commute)
  qed
  ultimately show ?thesis unfolding clockedPower_def by linarith
qed

lemma clockedPower_cap_mono:
  assumes r: "0 < r" "r \<le> 1" and i: "0 \<le> i" "i \<le> n" and g: "0 < g" "0 < k" and c: "0 < a" "a \<le> b"
  shows "clockedPower i n g k a r \<le> clockedPower i n g k b r"
proof -
  define p where "p c = (c - i) * (r / (c / n) powr g) powr k" for c
  define U where "U = i + (n - i) * r powr k"
  have board: "max (min n a) i \<le> max (min n b) i" using c by auto
  have below: "capPart i n g k c r = (if r < impliedClock g n c then i + p c else c)" if "i < c" "c < n" for c
    using that i by (simp add: capPart_def Let_def impliedClock_def p_def)
  have "min U (capPart i n g k a r) \<le> capPart i n g k b r"
  proof (cases "r < impliedClock g n b")
    case False
    then have "\<not> r < impliedClock g n a" using impliedClock_mono [OF g(1) c, of n] by simp
    then show ?thesis using False board by (simp add: capPart_def Let_def)
  next
    case rb: True
    consider "n \<le> 0 \<or> n \<le> a" | "a \<le> i" "0 < n" "a < n" | "i < a" "a < n" "n \<le> b" "0 < n" | "i < a" "b < n" "0 < n" using c i by linarith
    then show ?thesis
    proof cases
      case 1
      then have "n \<le> 0 \<or> (n \<le> a \<and> n \<le> b)" using c by auto
      then have "max (min n a) i = max (min n b) i" "impliedClock g n a = impliedClock g n b"
        using i c by (auto simp: impliedClock_def)
      then show ?thesis by (simp add: capPart_def)
    next
      case 2
      then have "capPart i n g k a r = i" using i by (simp add: capPart_def Let_def)
      then show ?thesis using capPart_ge_idle [of i n g k b r] by simp
    next
      case 3
      then have "capPart i n g k b r = U" using rb i by (simp add: capPart_def Let_def impliedClock_def U_def)
      then show ?thesis by simp
    next
      case 4
      have pn: "i + p n = U" using 4 by (simp add: p_def U_def)
      have Lb: "capPart i n g k b r = i + p b" using below [of b] rb 4 c by simp
      show ?thesis
      proof (cases "r < impliedClock g n a")
        case True
        have "min (p a) (p n) \<le> p b" unfolding p_def using 4 c i r g by (intro power_peak) auto
        then show ?thesis using below [of a] True 4 c Lb pn by auto
      next
        case False
        define m where "m = n * r powr (1 / g)"
        have ra: "(a / n) powr g \<le> r" "r < (b / n) powr g" using False rb 4 c by (auto simp: impliedClock_def)
        have "((a / n) powr g) powr (1 / g) \<le> r powr (1 / g)" "r powr (1 / g) \<le> ((b / n) powr g) powr (1 / g)"
          using ra r g by (intro powr_mono2; simp)+
        then have am: "a \<le> m" "m \<le> b" using 4 c g by (simp_all add: m_def powr_powr field_simps)
        have "(m / n) powr g = r" using 4 g r by (simp add: m_def powr_powr)
        then have "p m = m - i" using r by (simp add: p_def)
        moreover have "min (p m) (p n) \<le> p b" unfolding p_def using 4 am i r g by (intro power_peak) auto
        ultimately show ?thesis using below [of a] False 4 c Lb pn am(1) by auto
      qed
    qed
  qed
  then show ?thesis unfolding clockedPower_def U_def by auto
qed

text \<open>The model of the code is that function, plus what an idle board adds.\<close>

definition idleExtra :: "DeviceState \<Rightarrow> GPUClock \<Rightarrow> GPUClockFacts \<Rightarrow> f64" where
  "idleExtra s c f =
     (if clamp01 (ds_utilization s) < gpuIdleUtil
      then (if ck_dataPath c = DataPathMax then cf_dataPathHoldW f else 0) + (if ck_gatingOff c then cf_gatingOffIdleW f else 0) else 0)"

lemma gpuGovernorScale_unit: "0 < ck_computeMaxMHz c \<Longrightarrow> 0 < gpuGovernorScale c \<and> gpuGovernorScale c \<le> 1"
  by (auto simp: gpuGovernorScale_def clamp01_def divide_less_0_iff)

lemma clockBeta_pos: "0 < clockBeta f"
  by (simp add: clockBeta_def orDefault_pos)

lemma gpuCapScales_clock:
  assumes "0 < boardCap m s"
  shows "fst (gpuCapScales m s) = impliedClock (orDefault (gb_computeGamma m) 1) (naturalPower m (ds_utilization s) s) (boardCap m s)"
proof -
  have "naturalPower m (clamp01 (ds_utilization s)) s = naturalPower m (ds_utilization s) s" by (simp add: naturalPower_def)
  then show ?thesis using assms by (auto simp: gpuCapScales_def Let_def impliedClock_def clamp01_id)
qed

lemma GPUPowerWithClock_eq:
  assumes "0 < ck_computeMaxMHz c" "0 < boardCap m s"
  shows "GPUPowerWithClock m s c f =
    clockedPower (gb_idleW m) (naturalPower m (ds_utilization s) s) (orDefault (gb_computeGamma m) 1) (clockBeta f) (boardCap m s) (gpuGovernorScale c)
    + idleExtra s c f"
proof -
  have "naturalPower m (clamp01 (ds_utilization s)) s = naturalPower m (ds_utilization s) s" by (simp add: naturalPower_def)
  then show ?thesis
    using assms naturalPower_ge_idle [of m "ds_utilization s" s] gpuCapScales_clock [OF assms(2)]
    by (simp add: GPUPowerWithClock_def clockedPower_def capPart_def boardPower_def Let_def idleExtra_def max_absorb1 min_def)
qed

lemma boardCap_set: "0 < w \<Longrightarrow> boardCap m (s\<lparr>ds_capWatts := w\<rparr>) = w"
  by (simp add: boardCap_def)

lemma naturalPower_cap [simp]: "naturalPower m u (s\<lparr>ds_capWatts := w\<rparr>) = naturalPower m u s"
  by (simp add: naturalPower_def gpuBoundnessWeights_def)

lemma idleExtra_cap [simp]: "idleExtra (s\<lparr>ds_capWatts := w\<rparr>) c f = idleExtra s c f"
  by (simp add: idleExtra_def)

lemma idleExtra_clock [simp]: "idleExtra s (c\<lparr>ck_computeMHz := x\<rparr>) f = idleExtra s c f"
  by (simp add: idleExtra_def)

lemma gpuGovernorScale_mono:
  "0 < x \<Longrightarrow> x \<le> y \<Longrightarrow> 0 < ck_computeMaxMHz c \<Longrightarrow> gpuGovernorScale (c\<lparr>ck_computeMHz := x\<rparr>) \<le> gpuGovernorScale (c\<lparr>ck_computeMHz := y\<rparr>)"
  by (auto simp: gpuGovernorScale_def intro!: clamp01_mono divide_right_mono)

lemma power_cap_mono:
  assumes "0 < ck_computeMaxMHz c" "0 \<le> gb_idleW m" "0 < a" "a \<le> b"
  shows "GPUPowerWithClock m (s\<lparr>ds_capWatts := a\<rparr>) c f \<le> GPUPowerWithClock m (s\<lparr>ds_capWatts := b\<rparr>) c f"
  using assms clockedPower_cap_mono [of "gpuGovernorScale c" "gb_idleW m" "naturalPower m (ds_utilization s) s"
      "orDefault (gb_computeGamma m) 1" "clockBeta f" a b] gpuGovernorScale_unit naturalPower_ge_idle
  by (simp add: GPUPowerWithClock_eq boardCap_set orDefault_pos clockBeta_pos)

lemma power_clock_mono:
  assumes "0 < ck_computeMaxMHz c" "0 < boardCap m s" "0 < x" "x \<le> y"
  shows "GPUPowerWithClock m s (c\<lparr>ck_computeMHz := x\<rparr>) f \<le> GPUPowerWithClock m s (c\<lparr>ck_computeMHz := y\<rparr>) f"
  using assms clockedPower_clock_mono [of "gpuGovernorScale (c\<lparr>ck_computeMHz := x\<rparr>)" "gpuGovernorScale (c\<lparr>ck_computeMHz := y\<rparr>)" "gb_idleW m"
      "naturalPower m (ds_utilization s) s" "orDefault (gb_computeGamma m) 1" "clockBeta f" "boardCap m s"]
    gpuGovernorScale_unit [of "c\<lparr>ck_computeMHz := x\<rparr>"] gpuGovernorScale_mono naturalPower_ge_idle
  by (simp add: GPUPowerWithClock_eq orDefault_pos clockBeta_pos)

section \<open>Lemmas: throughput\<close>

lemma memoryKnee_mono: "0 \<le> r \<Longrightarrow> r \<le> r' \<Longrightarrow> memoryKnee f r \<le> memoryKnee f r'"
proof -
  assume r: "0 \<le> r" "r \<le> r'"
  define knee where "knee = clamp01 (cf_memoryKneeFrac f)"
  have knee: "knee \<le> 1" by (simp add: knee_def clamp01_bounds)
  have gam: "0 < orDefault (cf_memoryKneeGamma f) 1" by (simp add: orDefault_pos)
  have low: "clamp01 x = x" "0 \<le> x / knee" "x / knee \<le> 1" if "0 \<le> x" "x < knee" "0 < knee" for x
    using that knee by (simp_all add: clamp01_id)
  show ?thesis
  proof (cases "knee \<le> 0 \<or> r' \<ge> knee")
    case True
    then show ?thesis using r low [of r] gam powr_unit [of "r / knee"] by (simp add: memoryKnee_def Let_def flip: knee_def)
  next
    case False
    then have "r / knee \<le> r' / knee" using r by (simp add: divide_right_mono)
    then show ?thesis using False r low [of r] low [of r'] gam by (auto simp: memoryKnee_def Let_def simp flip: knee_def intro!: powr_mono2)
  qed
qed

lemma penalty_mono: "u \<le> v \<Longrightarrow> applyThermalPenalty u s \<le> applyThermalPenalty v s"
  unfolding applyThermalPenalty_def using clamp01_bounds by (intro clamp01_mono mult_right_mono) auto

lemma penalty_le: "0 \<le> v \<Longrightarrow> v \<le> 1 \<Longrightarrow> applyThermalPenalty v s \<le> v"
proof -
  assume v: "0 \<le> v" "v \<le> 1"
  have "v * (1 - clamp01 (ds_thermalThrottle s)) \<le> v" "0 \<le> v * (1 - clamp01 (ds_thermalThrottle s))"
    using v clamp01_bounds [of "ds_thermalThrottle s"] by (auto intro: mult_left_le)
  then show ?thesis using v by (simp add: applyThermalPenalty_def clamp01_def)
qed

lemma penalty_cap [simp]: "applyThermalPenalty v (s\<lparr>ds_capWatts := w\<rparr>) = applyThermalPenalty v s"
  by (simp add: applyThermalPenalty_def)

lemma weights_cap [simp]: "gpuBoundnessWeights (s\<lparr>ds_capWatts := w\<rparr>) c = gpuBoundnessWeights s c"
  by (simp add: gpuBoundnessWeights_def)

lemma gpuCapScales_mono:
  assumes c: "0 < a" "a \<le> b"
    and A: "gpuCapScales m (s\<lparr>ds_capWatts := a\<rparr>) = (k, e, x)" and B: "gpuCapScales m (s\<lparr>ds_capWatts := b\<rparr>) = (k', e', x')"
  shows "k \<le> k' \<and> e \<le> e' \<and> (x' \<longrightarrow> x)"
proof -
  define n where "n = naturalPower m (clamp01 (ds_utilization s)) s"
  show ?thesis
  proof (cases "n \<le> 0 \<or> a \<ge> n")
    case True
    then show ?thesis using A B c by (auto simp: gpuCapScales_def boardCap_set Let_def n_def)
  next
    case n: False
    then have ra: "clamp01 (a / n) = a / n" "0 \<le> a / n" "a / n \<le> 1" using c by (auto simp: clamp01_id)
    have eps: "0 < orDefault (gb_memoryEpsilon m) (2/10)" "0 < orDefault (gb_memoryGamma m) (11/10)" "0 < orDefault (gb_computeGamma m) 1"
      by (simp_all add: orDefault_pos)
    have A': "k = (a / n) powr orDefault (gb_computeGamma m) 1"
      "e = 1 - orDefault (gb_memoryEpsilon m) (2/10) * (1 - a / n) powr orDefault (gb_memoryGamma m) (11/10)" x
      using A c n ra by (auto simp: gpuCapScales_def boardCap_set Let_def simp flip: n_def)
    show ?thesis
    proof (cases "b \<ge> n")
      case True
      then have "k' = 1" "e' = 1" using B c by (auto simp: gpuCapScales_def boardCap_set Let_def simp flip: n_def)
      then show ?thesis using A' ra eps powr_unit [of "a / n"] by simp
    next
      case False
      then have rb: "clamp01 (b / n) = b / n" "a / n \<le> b / n" "b / n \<le> 1" using c n by (auto simp: clamp01_id divide_right_mono)
      have B': "k' = (b / n) powr orDefault (gb_computeGamma m) 1"
        "e' = 1 - orDefault (gb_memoryEpsilon m) (2/10) * (1 - b / n) powr orDefault (gb_memoryGamma m) (11/10)"
        using B c n False rb by (auto simp: gpuCapScales_def boardCap_set Let_def simp flip: n_def)
      have "(1 - b / n) powr orDefault (gb_memoryGamma m) (11/10) \<le> (1 - a / n) powr orDefault (gb_memoryGamma m) (11/10)"
        using rb eps by (intro powr_mono2) auto
      then show ?thesis using A' B' ra rb eps by (auto intro!: powr_mono2 mult_left_mono)
    qed
  qed
qed

lemma throughput_cap_mono:
  assumes "0 < ck_computeMaxMHz c" "0 < a" "a \<le> b"
  shows "GPUThroughputWithClock m (s\<lparr>ds_capWatts := a\<rparr>) c f cl \<le> GPUThroughputWithClock m (s\<lparr>ds_capWatts := b\<rparr>) c f cl"
proof -
  obtain k e x where A: "gpuCapScales m (s\<lparr>ds_capWatts := a\<rparr>) = (k, e, x)" by (cases "gpuCapScales m (s\<lparr>ds_capWatts := a\<rparr>)")
  obtain k' e' x' where B: "gpuCapScales m (s\<lparr>ds_capWatts := b\<rparr>) = (k', e', x')" by (cases "gpuCapScales m (s\<lparr>ds_capWatts := b\<rparr>)")
  note le = gpuCapScales_mono [OF assms(2,3) A B]
  obtain wc wm where w: "gpuBoundnessWeights s cl = (wc, wm)" by (meson surj_pair)
  define mem where "mem e = (if ck_dataPath c = DataPathMin then min e (memoryKnee f (gpuGovernorScale c)) * (1 - clamp01 (cf_dataPathGamma f))
    else min e (memoryKnee f (gpuGovernorScale c)))" for e
  define out where "out k e = clamp01 (wc * min (gpuGovernorScale c) k + wm * mem e)" for k e
  have "mem e \<le> mem e'" using le clamp01_bounds(2) by (auto simp: mem_def intro!: mult_right_mono)
  then have "wc * min (gpuGovernorScale c) k + wm * mem e \<le> wc * min (gpuGovernorScale c) k' + wm * mem e'"
    using le gpuBoundnessWeights_unit [OF w] by (intro add_mono mult_left_mono) auto
  then have out: "out k e \<le> out k' e'" unfolding out_def by (rule clamp01_mono)
  have unit: "0 \<le> out k' e'" "out k' e' \<le> 1" "0 \<le> out k e" "out k e \<le> 1" by (simp_all add: out_def clamp01_bounds)
  have "GPUThroughputWithClock m (s\<lparr>ds_capWatts := a\<rparr>) c f cl = (if x then applyThermalPenalty (out k e) s else out k e)"
    "GPUThroughputWithClock m (s\<lparr>ds_capWatts := b\<rparr>) c f cl = (if x' then applyThermalPenalty (out k' e') s else out k' e')"
    using assms(1) by (simp_all add: GPUThroughputWithClock_def gpuClockScales_def A B w Let_def out_def mem_def)
  then show ?thesis using le out penalty_mono [OF out, of s] penalty_le [OF unit(3,4), of s] by auto
qed

lemma throughput_clock_mono:
  assumes "0 < ck_computeMaxMHz c" "0 < x" "x \<le> y"
  shows "GPUThroughputWithClock m s (c\<lparr>ck_computeMHz := x\<rparr>) f cl \<le> GPUThroughputWithClock m s (c\<lparr>ck_computeMHz := y\<rparr>) f cl"
proof -
  define r r' where "r = gpuGovernorScale (c\<lparr>ck_computeMHz := x\<rparr>)" and "r' = gpuGovernorScale (c\<lparr>ck_computeMHz := y\<rparr>)"
  have r: "0 \<le> r" "r \<le> r'" using gpuGovernorScale_unit [of "c\<lparr>ck_computeMHz := x\<rparr>"] gpuGovernorScale_mono assms by (auto simp: r_def r'_def)
  obtain k e b where A: "gpuCapScales m s = (k, e, b)" by (cases "gpuCapScales m s")
  obtain wc wm where w: "gpuBoundnessWeights s cl = (wc, wm)" by (meson surj_pair)
  define mem where "mem r = (if ck_dataPath c = DataPathMin then min e (memoryKnee f r) * (1 - clamp01 (cf_dataPathGamma f))
    else min e (memoryKnee f r))" for r
  define out where "out r = clamp01 (wc * min r k + wm * mem r)" for r
  have "mem r \<le> mem r'" using memoryKnee_mono [OF r, of f] clamp01_bounds(2) by (auto simp: mem_def intro!: mult_right_mono)
  then have "wc * min r k + wm * mem r \<le> wc * min r' k + wm * mem r'"
    using r gpuBoundnessWeights_unit [OF w] by (intro add_mono mult_left_mono) auto
  then have out: "out r \<le> out r'" unfolding out_def by (rule clamp01_mono)
  have "GPUThroughputWithClock m s (c\<lparr>ck_computeMHz := x\<rparr>) f cl = (if b then applyThermalPenalty (out r) s else out r)"
    "GPUThroughputWithClock m s (c\<lparr>ck_computeMHz := y\<rparr>) f cl = (if b then applyThermalPenalty (out r') s else out r')"
    using assms(1) by (simp_all add: GPUThroughputWithClock_def gpuClockScales_def A w Let_def out_def mem_def r_def r'_def)
  then show ?thesis using out penalty_mono [OF out, of s] by simp
qed

section \<open>The interface of a power model\<close>

text \<open>What the search for a frequency relies on: without a cap, a model draws no less at a higher frequency.\<close>

locale power_model =
  fixes pow :: "DeviceState \<Rightarrow> f64"
  assumes freq_mono: "0 \<le> f \<Longrightarrow> f \<le> f' \<Longrightarrow> f' \<le> 1 \<Longrightarrow> pow (probeAt s f) \<le> pow (probeAt s f')"
begin

lemma bisect_invariant:
  assumes "lo \<le> hi" "pow (probeAt s hi) > capW"
  shows "\<exists>hi'. bisect (\<lambda>f. pow (probeAt s f)) capW n lo hi \<in> {lo..hi} \<and>
    (bisect (\<lambda>f. pow (probeAt s f)) capW n lo hi = lo \<or> pow (probeAt s (bisect (\<lambda>f. pow (probeAt s f)) capW n lo hi)) \<le> capW) \<and>
    hi' \<le> hi \<and> pow (probeAt s hi') > capW \<and> hi' - bisect (\<lambda>f. pow (probeAt s f)) capW n lo hi = (hi - lo) / 2 ^ n"
  using assms
proof (induction n arbitrary: lo hi)
  case 0
  then show ?case by (intro exI [of _ hi]) simp
next
  case (Suc n)
  define mid where "mid = (lo + hi) / 2"
  have mid: "lo \<le> mid" "mid \<le> hi" "hi - mid = (hi - lo) / 2" "mid - lo = (hi - lo) / 2" using Suc.prems by (auto simp: mid_def field_simps)
  show ?case
  proof (cases "pow (probeAt s mid) > capW")
    case True
    then have b: "bisect (\<lambda>f. pow (probeAt s f)) capW (Suc n) lo hi = bisect (\<lambda>f. pow (probeAt s f)) capW n lo mid" by (simp add: mid_def)
    have "(mid - lo) / 2 ^ n = (hi - lo) / 2 ^ Suc n" unfolding mid(4) by simp
    moreover obtain hi' where h: "bisect (\<lambda>f. pow (probeAt s f)) capW n lo mid \<in> {lo..mid}"
      "bisect (\<lambda>f. pow (probeAt s f)) capW n lo mid = lo \<or> pow (probeAt s (bisect (\<lambda>f. pow (probeAt s f)) capW n lo mid)) \<le> capW"
      "hi' \<le> mid" "pow (probeAt s hi') > capW" "hi' - bisect (\<lambda>f. pow (probeAt s f)) capW n lo mid = (mid - lo) / 2 ^ n"
      using Suc.IH [OF mid(1) True] by blast
    ultimately show ?thesis unfolding b using mid(2) by (intro exI [of _ hi'] conjI) auto
  next
    case False
    then have b: "bisect (\<lambda>f. pow (probeAt s f)) capW (Suc n) lo hi = bisect (\<lambda>f. pow (probeAt s f)) capW n mid hi" by (simp add: mid_def)
    have "(hi - mid) / 2 ^ n = (hi - lo) / 2 ^ Suc n" unfolding mid(3) by simp
    moreover obtain hi' where h: "bisect (\<lambda>f. pow (probeAt s f)) capW n mid hi \<in> {mid..hi}"
      "bisect (\<lambda>f. pow (probeAt s f)) capW n mid hi = mid \<or> pow (probeAt s (bisect (\<lambda>f. pow (probeAt s f)) capW n mid hi)) \<le> capW"
      "hi' \<le> hi" "pow (probeAt s hi') > capW" "hi' - bisect (\<lambda>f. pow (probeAt s f)) capW n mid hi = (hi - mid) / 2 ^ n"
      using Suc.IH [OF mid(2) Suc.prems(2)] by blast
    ultimately show ?thesis unfolding b using mid(1) False by (intro exI [of _ hi'] conjI) auto
  qed
qed

text \<open>The result keeps the cap unless even the lowest scale breaks it, and no scale that keeps the cap is higher by more than
  the last interval.\<close>

lemma bisect_best:
  fixes n :: nat
  assumes "0 \<le> lo" "lo \<le> 1" "pow (probeAt s 1) > capW"
  defines "r \<equiv> bisect (\<lambda>f. pow (probeAt s f)) capW n lo 1"
  shows "lo \<le> r \<and> r \<le> 1 \<and> (r = lo \<or> pow (probeAt s r) \<le> capW) \<and>
    (\<forall>f \<in> {0..1}. pow (probeAt s f) \<le> capW \<longrightarrow> f \<le> r + (1 - lo) / 2 ^ n)"
proof -
  obtain hi' where hi': "r \<in> {lo..1}" "r = lo \<or> pow (probeAt s r) \<le> capW" "hi' \<le> 1" "pow (probeAt s hi') > capW" "hi' - r = (1 - lo) / 2 ^ n"
    using bisect_invariant [OF assms(2,3), of n] unfolding r_def by blast
  have "0 \<le> hi'" using hi'(1,5) assms(1,2) by (smt (verit, ccfv_SIG) atLeastAtMost_iff divide_nonneg_nonneg zero_le_power)
  have "f \<le> r + (1 - lo) / 2 ^ n" if f: "f \<in> {0..1}" "pow (probeAt s f) \<le> capW" for f
  proof (rule ccontr)
    assume "\<not> f \<le> r + (1 - lo) / 2 ^ n"
    then have "pow (probeAt s hi') \<le> pow (probeAt s f)" using hi' f(1) \<open>0 \<le> hi'\<close> by (intro freq_mono) auto
    then show False using hi'(4) f(2) by simp
  qed
  then show ?thesis using hi' by auto
qed

end

lemma powr_scale_mono: "0 \<le> f \<Longrightarrow> f \<le> f' \<Longrightarrow> f' \<le> 1 \<Longrightarrow> 0 < k \<Longrightarrow> clamp01 f powr k \<le> clamp01 f' powr (k :: real)"
  by (simp add: clamp01_id powr_mono2)

interpretation measured: power_model "measuredPower m" for m
proof
  fix f f' :: f64 and s :: DeviceState
  assume f: "0 \<le> f" "f \<le> f'" "f' \<le> 1"
  have "clamp01 f powr orDefault (mc_betaFreq m) 1 \<le> clamp01 f' powr orDefault (mc_betaFreq m) 1"
    using f by (intro powr_scale_mono) (auto simp: orDefault_pos)
  then show "measuredPower m (probeAt s f) \<le> measuredPower m (probeAt s f')"
    using clamp01_bounds(2) [of "ds_thermalThrottle s"]
    by (auto simp: measuredPower_def probeAt_def Let_def capped_def intro!: mult_right_mono mult_left_mono)
qed

interpretation proxy: power_model "proxyPower m" for m
  by unfold_locales (simp add: proxyPower_def probeAt_def split: list.split)

lemma solve_bisected:
  fixes s :: DeviceState and capW minScale :: f64
  assumes "m = Measured m' \<or> m = Proxy m''" "0 < clamp01 (ds_utilization s)"
  defines "r \<equiv> SolveFreqScaleForCap m s capW minScale"
  shows "clamp01 minScale \<le> r \<and> r \<le> 1 \<and> (r = clamp01 minScale \<or> modelPower m (probeAt s r) \<le> capW) \<and>
    (\<forall>f \<in> {0..1}. modelPower m (probeAt s f) \<le> capW \<longrightarrow> f \<le> r + (1 - clamp01 minScale) / 2 ^ 22)"
proof (cases "modelPower m (probeAt s 1) \<le> capW")
  case True
  then have "r = 1" using assms by (auto simp: SolveFreqScaleForCap_def)
  then show ?thesis using True clamp01_bounds [of minScale] by (auto simp: divide_nonneg_nonneg add_increasing2)
next
  case False
  then have "r = bisect (\<lambda>f. modelPower m (probeAt s f)) capW 22 (clamp01 minScale) 1" using assms by (auto simp: SolveFreqScaleForCap_def)
  then show ?thesis using assms(1) False clamp01_bounds [of minScale]
      measured.bisect_best [of "clamp01 minScale" capW m' s 22] proxy.bisect_best [of "clamp01 minScale" capW m'' s 22]
    by (auto simp del: bisect.simps)
qed

lemma solve_analytic:
  assumes "0 < clamp01 (ds_utilization s)" "an_idleW a < an_maxW a" "an_idleW a < capW" "ds_thermalThrottle s \<le> 0"
    and r: "r = SolveFreqScaleForCap (Analytic a) s capW minScale" "r \<le> 1"
  shows "modelPower (Analytic a) (probeAt s r) = capW"
proof -
  define al be A where "al = orDefault (an_alphaUtil a) 1" and "be = orDefault (an_betaFreq a) 1"
    and "A = clamp01 (clamp01 (ds_utilization s) * analyticActivity s) powr al"
  have "0 < analyticActivity s" by (simp add: analyticActivity_def)
  then have "0 < clamp01 (ds_utilization s) * analyticActivity s" using assms(1) by simp
  then have "0 < clamp01 (clamp01 (ds_utilization s) * analyticActivity s)" by (rule clamp01_pos)
  then have A: "0 < A" by (simp add: A_def)
  define x where "x = (capW - an_idleW a) / ((an_maxW a - an_idleW a) * A)"
  have x: "0 < x" using assms A by (simp add: x_def)
  have be: "0 < be" by (simp add: be_def orDefault_pos)
  have den: "\<not> (an_maxW a - an_idleW a) * A \<le> 0" using assms(2) A by (simp add: not_le)
  have r': "r = x powr (1 / be)"
    using assms(1,2) x den
    unfolding r(1) SolveFreqScaleForCap_def analyticSolve_def Let_def PowerModel.case al_def [symmetric] be_def [symmetric] A_def [symmetric] x_def [symmetric]
    by simp
  then have "clamp01 r powr be = x" using r(2) x be by (simp add: clamp01_id powr_powr)
  moreover have "clamp01 (ds_thermalThrottle s) = 0" using assms(4) by (auto simp: clamp01_def)
  moreover have "analyticActivity (probeAt s r) = analyticActivity s" by (simp add: analyticActivity_def probeAt_def)
  ultimately have "modelPower (Analytic a) (probeAt s r) = an_idleW a + (an_maxW a - an_idleW a) * A * x"
    by (simp add: analyticPower_def probeAt_def Let_def A_def al_def be_def analyticActivity_def)
  also have "\<dots> = capW" using assms(2) A by (simp add: x_def)
  finally show ?thesis .
qed

section \<open>Lemmas: peer copies\<close>

lemma gatePairUnit_unit: "0 \<le> gatePairUnit seed src dst \<and> gatePairUnit seed src dst < 1"
proof -
  have "unat (drop_bit 11 (x :: 64 word)) < 2 ^ 53" for x
  proof -
    have "unat x < 2 ^ 64" using unsigned_less [of x] by simp
    then have "drop_bit 11 (unat x) < 2 ^ 53" "take_bit 64 (unat x) = unat x"
      by (simp_all add: drop_bit_eq_div less_mult_imp_div_less take_bit_nat_eq_self)
    then show ?thesis by (simp add: unsigned_drop_bit_eq)
  qed
  moreover obtain y :: "64 word" where y: "gatePairUnit seed src dst = real (unat (drop_bit 11 y)) / 2 ^ 53"
    unfolding gatePairUnit_def Let_def by blast
  moreover have "0 \<le> real k / 2 ^ 53 \<and> real k / 2 ^ 53 < 1" if "k < 2 ^ 53" for k :: nat using that by simp
  ultimately show ?thesis unfolding y by blast
qed

lemma PeerRate_bounds:
  "0 \<le> PeerRate demandBps linkBps recv gate src dst \<and> PeerRate demandBps linkBps recv gate src dst \<le> max 0 demandBps \<and>
   (0 < linkBps \<longrightarrow> PeerRate demandBps linkBps recv gate src dst \<le> linkBps)"
proof -
  have "linkBps * clamp01 g \<le> linkBps" "0 \<le> linkBps * clamp01 g" if "0 < linkBps" for g
    using that clamp01_bounds [of g] by (auto intro: mult_left_le)
  then show ?thesis by (auto simp: PeerRate_def Let_def min.coboundedI2)
qed

section \<open>Properties\<close>

text \<open>C38: A cap and a governor clock are two limits of one GPU: lowering either never raises its power and never raises its
  throughput, whatever the exponents of the model are.\<close>

theorem gpu_limits_monotone:
  assumes "0 < ck_computeMaxMHz c" "0 \<le> gb_idleW m" "0 < a" "a \<le> b" "0 < x" "x \<le> y"
  shows "GPUPowerWithClock m (s\<lparr>ds_capWatts := a\<rparr>) (c\<lparr>ck_computeMHz := x\<rparr>) f \<le> GPUPowerWithClock m (s\<lparr>ds_capWatts := b\<rparr>) (c\<lparr>ck_computeMHz := y\<rparr>) f \<and>
    GPUThroughputWithClock m (s\<lparr>ds_capWatts := a\<rparr>) (c\<lparr>ck_computeMHz := x\<rparr>) f cl \<le>
    GPUThroughputWithClock m (s\<lparr>ds_capWatts := b\<rparr>) (c\<lparr>ck_computeMHz := y\<rparr>) f cl"
proof
  have "GPUPowerWithClock m (s\<lparr>ds_capWatts := a\<rparr>) (c\<lparr>ck_computeMHz := x\<rparr>) f \<le> GPUPowerWithClock m (s\<lparr>ds_capWatts := b\<rparr>) (c\<lparr>ck_computeMHz := x\<rparr>) f"
    using assms by (intro power_cap_mono) auto
  also have "\<dots> \<le> GPUPowerWithClock m (s\<lparr>ds_capWatts := b\<rparr>) (c\<lparr>ck_computeMHz := y\<rparr>) f"
    using assms by (intro power_clock_mono) (auto simp: boardCap_set)
  finally show "GPUPowerWithClock m (s\<lparr>ds_capWatts := a\<rparr>) (c\<lparr>ck_computeMHz := x\<rparr>) f \<le> GPUPowerWithClock m (s\<lparr>ds_capWatts := b\<rparr>) (c\<lparr>ck_computeMHz := y\<rparr>) f" .
  have "GPUThroughputWithClock m (s\<lparr>ds_capWatts := a\<rparr>) (c\<lparr>ck_computeMHz := x\<rparr>) f cl \<le> GPUThroughputWithClock m (s\<lparr>ds_capWatts := b\<rparr>) (c\<lparr>ck_computeMHz := x\<rparr>) f cl"
    using assms by (intro throughput_cap_mono) auto
  also have "\<dots> \<le> GPUThroughputWithClock m (s\<lparr>ds_capWatts := b\<rparr>) (c\<lparr>ck_computeMHz := y\<rparr>) f cl"
    using assms by (intro throughput_clock_mono) auto
  finally show "GPUThroughputWithClock m (s\<lparr>ds_capWatts := a\<rparr>) (c\<lparr>ck_computeMHz := x\<rparr>) f cl \<le>
    GPUThroughputWithClock m (s\<lparr>ds_capWatts := b\<rparr>) (c\<lparr>ck_computeMHz := y\<rparr>) f cl" .
qed

definition exampleBoard :: CappedBoardGPUModel where
  "exampleBoard = \<lparr>gb_idleW = 50, gb_maxW = 400, gb_computeGamma = 2, gb_memoryEpsilon = 1/5, gb_memoryGamma = 1\<rparr>"

definition exampleState :: DeviceState where
  "exampleState = \<lparr>ds_utilization = 1, ds_freqScale = 1, ds_capWatts = 300, ds_maxCapWatts = 400, ds_idlePowerWatts = 0, ds_memoryIntensity = 0, ds_ioIntensity = 0,
     ds_cpuFeedIntensity = 0, ds_temperatureC = 0, ds_thermalThrottle = 0, ds_class = ''gpu.compute_bound''\<rparr>"

definition exampleClock :: GPUClock where
  "exampleClock = \<lparr>ck_computeMHz = 1000, ck_computeMaxMHz = 2000, ck_dataPath = DataPathMax, ck_dataPathAuto = False, ck_gatingOff = False\<rparr>"

definition exampleClockFacts :: GPUClockFacts where
  "exampleClockFacts = \<lparr>cf_clockBeta = 2, cf_memoryKneeFrac = 1/2, cf_memoryKneeGamma = 1, cf_dataPathHoldW = 10, cf_gatingOffIdleW = 5, cf_dataPathGamma = 1/2\<rparr>"

theorem gpu_limits_monotone_witness:
  "GPUPowerWithClock exampleBoard (exampleState\<lparr>ds_capWatts := 200\<rparr>) (exampleClock\<lparr>ck_computeMHz := 800\<rparr>) exampleClockFacts \<le>
   GPUPowerWithClock exampleBoard (exampleState\<lparr>ds_capWatts := 300\<rparr>) (exampleClock\<lparr>ck_computeMHz := 1000\<rparr>) exampleClockFacts"
  using gpu_limits_monotone [of exampleClock exampleBoard 200 300 800 1000 exampleState exampleClockFacts]
  by (simp add: exampleClock_def exampleBoard_def)

text \<open>With the governor clock at its maximum the clock model is the capped board model: the throughput is equal, and the
  power differs by what an idle board adds for a held data path and for disabled gating.\<close>

theorem gpu_full_clock_is_board:
  assumes "0 < ck_computeMaxMHz c" "gpuGovernorScale c = 1" "ck_dataPath c \<noteq> DataPathMin"
  shows "GPUPowerWithClock m s c f = boardPower m s + idleExtra s c f \<and> GPUThroughputWithClock m s c f cl = boardThroughput m s cl"
proof
  define n where "n = naturalPower m (clamp01 (ds_utilization s)) s"
  obtain wc wm where w: "gpuBoundnessWeights s cl = (wc, wm)" by (meson surj_pair)
  have n: "gb_idleW m \<le> n" unfolding n_def by (rule naturalPower_ge_idle)
  have unit: "x powr orDefault (gb_computeGamma m) 1 \<le> 1" if "0 \<le> x" "x \<le> 1" for x
    using that by (intro powr_unit) (simp_all add: orDefault_pos)
  have "fst (gpuCapScales m s) \<le> 1"
    unfolding gpuCapScales_def Let_def by (simp add: unit clamp01_bounds)
  then show "GPUPowerWithClock m s c f = boardPower m s + idleExtra s c f"
    using assms n by (simp add: GPUPowerWithClock_def boardPower_def idleExtra_def Let_def flip: n_def)
  have knee: "memoryKnee f 1 = 1" using clamp01_bounds(2) [of "cf_memoryKneeFrac f"] by (simp add: memoryKnee_def Let_def)
  have mem: "1 - orDefault (gb_memoryEpsilon m) (2/10) * x powr k \<le> 1" for x k
    using orDefault_pos [of "2/10" "gb_memoryEpsilon m"] by simp
  have "clamp01 (wc + wm) = 1" using gpuBoundnessWeights_unit [OF w] by (simp add: clamp01_id)
  then show "GPUThroughputWithClock m s c f cl = boardThroughput m s cl"
    using assms knee mem unit [OF clamp01_bounds] 
    by (auto simp: GPUThroughputWithClock_def gpuClockScales_def gpuCapScales_def boardThroughput_def Let_def w min_absorb1 min_absorb2 split: if_splits)
qed

theorem gpu_full_clock_is_board_witness:
  "GPUPowerWithClock exampleBoard exampleState (exampleClock\<lparr>ck_computeMHz := 2000\<rparr>) exampleClockFacts =
   boardPower exampleBoard exampleState + idleExtra exampleState (exampleClock\<lparr>ck_computeMHz := 2000\<rparr>) exampleClockFacts"
  using gpu_full_clock_is_board [of "exampleClock\<lparr>ck_computeMHz := 2000\<rparr>" exampleBoard exampleState exampleClockFacts]
  by (simp add: exampleClock_def gpuGovernorScale_def clamp01_def)

text \<open>The frequency found for a cap is the best one. On a measured or proxy curve it keeps the cap unless even the lowest
  scale breaks it, and no scale that keeps the cap is higher by more than the last of 22 halvings; the analytic model draws
  exactly the cap at it, where the cap is above the idle power and nothing throttles.\<close>

theorem SolveFreqScaleForCap_best:
  fixes m :: PowerModel and s :: DeviceState and capW minScale :: f64
  assumes "0 < clamp01 (ds_utilization s)"
  defines "r \<equiv> SolveFreqScaleForCap m s capW minScale"
  shows "(case m of
      Analytic a \<Rightarrow>
        an_idleW a < an_maxW a \<and> an_idleW a < capW \<and> ds_thermalThrottle s \<le> 0 \<and> r \<le> 1 \<longrightarrow> modelPower m (probeAt s r) = capW
    | _ \<Rightarrow>
        clamp01 minScale \<le> r \<and> r \<le> 1 \<and> (r = clamp01 minScale \<or> modelPower m (probeAt s r) \<le> capW) \<and>
        (\<forall>f \<in> {0..1}. modelPower m (probeAt s f) \<le> capW \<longrightarrow> f \<le> r + (1 - clamp01 minScale) / 2 ^ 22))"
proof (cases m)
  case (Analytic a)
  then show ?thesis using solve_analytic [of s a capW r minScale] assms by (simp add: r_def del: modelPower.simps)
qed (use solve_bisected [where m = m and s = s and capW = capW and minScale = minScale] assms in \<open>simp_all add: r_def\<close>)

definition exampleCurve :: MeasuredCurveCPUModel where
  "exampleCurve = \<lparr>mc_points = [\<lparr>pp_loadPct = 0, pp_powerW = 100\<rparr>, \<lparr>pp_loadPct = 100, pp_powerW = 300\<rparr>], mc_knee = 0, mc_betaFreq = 0\<rparr>"

theorem SolveFreqScaleForCap_best_witness:
  "SolveFreqScaleForCap (Measured exampleCurve) exampleState 200 (1/4) \<le> 1 \<and> 0 < clamp01 (ds_utilization exampleState)"
  using SolveFreqScaleForCap_best [where s = exampleState and m = "Measured exampleCurve" and capW = 200 and minScale = "1/4"]
  by (simp add: exampleState_def clamp01_def)

text \<open>The rate of a peer copy is never negative, never above what the copy demands, and never above a link that is bounded;
  the unit a pair of GPUs is hashed to lies in [0, 1), so a share of the pairs is well defined.\<close>

theorem PeerRate_bounded:
  "0 \<le> PeerRate demandBps linkBps recv gate src dst \<and> PeerRate demandBps linkBps recv gate src dst \<le> max 0 demandBps \<and>
   (0 < linkBps \<longrightarrow> PeerRate demandBps linkBps recv gate src dst \<le> linkBps) \<and> gatePairUnit (rg_seed gate) src dst \<in> {0..<1}"
  using PeerRate_bounds gatePairUnit_unit by simp

theorem PeerRate_bounded_witness:
  "PeerRate 10 4 exampleClock \<lparr>rg_enabled = True, rg_slowFraction = 1/10, rg_midFraction = 1/2, rg_midPairFraction = 1/2, rg_seed = 7\<rparr> 0 1 \<le> 4"
  using PeerRate_bounded [of 10 4 exampleClock "\<lparr>rg_enabled = True, rg_slowFraction = 1/10, rg_midFraction = 1/2, rg_midPairFraction = 1/2, rg_seed = 7\<rparr>" 0 1]
  by simp

end
