(* ===== verification/Sim_Governor.thy ===== *)
theory Sim_Governor
  imports Go_Prelude
begin

text \<open>
  The cpufreq governors of the simulator (\<^verbatim>\<open>simulator/pkg/phys/governor.go\<close>): the frequency each governor requests for one policy
  at one step. Frequencies are whole kHz, far below the range of \<open>int64\<close>, so they are \<open>int\<close>. The loop of the conservative governor
  is \<open>conservativeLoop\<close>, one unfolding per sampling period.
\<close>

section \<open>Input\<close>

record GovernorTunables =
  gt_schedutilRateLimitUS :: int
  gt_ondemandUpThreshold :: int
  gt_ondemandSamplingRateUS :: int
  gt_conservativeFreqStep :: int
  gt_conservativeUpThreshold :: int
  gt_conservativeDownThreshold :: int

record GovernorInput =
  gi_governor :: string
  gi_hwp :: bool
  gi_epp :: int
  gi_util :: f64
  gi_minKHz :: int
  gi_maxKHz :: int
  gi_tableKHz :: "int list"
  gi_curKHz :: int
  gi_periodS :: f64
  gi_tunables :: GovernorTunables
  gi_eppGain :: f64
  gi_eppCeilingDrop :: f64

section \<open>Frequency table\<close>

datatype freqRelation = relationLow | relationHigh | relationClosest

record tableScan =
  ts_lo :: int
  ts_hi :: int
  ts_below :: "int option"
  ts_above :: "int option"

definition scanEntry :: "int \<Rightarrow> int \<Rightarrow> tableScan \<Rightarrow> tableScan" where
  "scanEntry v f s =
     s\<lparr>ts_lo := min (ts_lo s) f, ts_hi := max (ts_hi s) f,
       ts_below := (if f \<le> v \<and> (case ts_below s of None \<Rightarrow> True | Some b \<Rightarrow> b < f) then Some f else ts_below s),
       ts_above := (if v \<le> f \<and> (case ts_above s of None \<Rightarrow> True | Some a \<Rightarrow> f < a) then Some f else ts_above s)\<rparr>"

definition resolveTableKHz :: "int list \<Rightarrow> int \<Rightarrow> freqRelation \<Rightarrow> int" where
  "resolveTableKHz tbl v rel =
     (case tbl of
        [] \<Rightarrow> v
      | f0 # _ \<Rightarrow>
          (let s = fold (scanEntry v) tbl \<lparr>ts_lo = f0, ts_hi = f0, ts_below = None, ts_above = None\<rparr>
           in case ts_below s of
                None \<Rightarrow> ts_lo s
              | Some blw \<Rightarrow>
                  (case ts_above s of
                     None \<Rightarrow> ts_hi s
                   | Some abv \<Rightarrow>
                       (case rel of
                          relationLow \<Rightarrow> abv
                        | relationHigh \<Rightarrow> blw
                        | relationClosest \<Rightarrow> if abv - v < v - blw then abv else blw))))"

section \<open>Policy range\<close>

record policyRange =
  pr_table :: "int list"
  pr_lo :: int
  pr_hi :: int

definition newPolicyRange :: "GovernorInput \<Rightarrow> policyRange option" where
  "newPolicyRange inp =
     (if gi_maxKHz inp \<le> 0 \<and> gi_minKHz inp \<le> 0 then None
      else (let lo = max (gi_minKHz inp) 0; hi = max (gi_maxKHz inp) lo;
                rhi = resolveTableKHz (gi_tableKHz inp) hi relationHigh
            in Some \<lparr>pr_table = gi_tableKHz inp,
                     pr_lo = min (resolveTableKHz (gi_tableKHz inp) lo relationLow) rhi,
                     pr_hi = rhi\<rparr>))"

definition target :: "policyRange \<Rightarrow> int \<Rightarrow> freqRelation \<Rightarrow> int" where
  "target r v rel = resolveTableKHz (pr_table r) (min (max v (pr_lo r)) (pr_hi r)) rel"

section \<open>Governors\<close>

definition tunableOr :: "int \<Rightarrow> int \<Rightarrow> int" where
  "tunableOr v def = (if v > 0 then v else def)"

definition loadPercent :: "f64 \<Rightarrow> int" where
  "loadPercent share = \<lfloor>clamp01 share * 100 + 1 / 10 ^ 9\<rfloor>"

definition ranKHz :: "GovernorInput \<Rightarrow> f64" where
  "ranKHz inp = of_int (if gi_curKHz inp \<le> 0 then max (gi_maxKHz inp) (gi_minKHz inp) else gi_curKHz inp)"

definition schedutilKHz :: "GovernorInput \<Rightarrow> policyRange \<Rightarrow> f64 \<Rightarrow> int" where
  "schedutilKHz inp r util = target r (go_trunc (5 / 4 * ranKHz inp * util)) relationLow"

definition ondemandKHz :: "GovernorInput \<Rightarrow> policyRange \<Rightarrow> f64 \<Rightarrow> int" where
  "ondemandKHz inp r util =
     (let up = tunableOr (gt_ondemandUpThreshold (gi_tunables inp)) 95; load = loadPercent util
      in if load > up then target r (pr_hi r) relationHigh
         else (let lo = max (gi_minKHz inp) 0; hi = max (gi_maxKHz inp) (gi_minKHz inp)
               in target r (lo + go_div (load * (hi - lo)) 100) relationClosest))"

definition maxGovernorPeriods :: nat where
  "maxGovernorPeriods = 100000"

definition conservativePeriods :: "GovernorInput \<Rightarrow> nat" where
  "conservativePeriods inp =
     (if gi_periodS inp \<le> 0 then 1
      else (let samplingUS = tunableOr (gt_ondemandSamplingRateUS (gi_tunables inp)) 2000;
                n = \<lfloor>gi_periodS inp * 10 ^ 6 / of_int samplingUS\<rfloor>
            in nat (min (max n 1) (int maxGovernorPeriods))))"

definition conservativeStep :: "GovernorInput \<Rightarrow> policyRange \<Rightarrow> int" where
  "conservativeStep inp r =
     (let step = go_div (tunableOr (gt_conservativeFreqStep (gi_tunables inp)) 5 * pr_hi r) 100
      in if step \<le> 0 then 5 else step)"

definition conservativeLoad :: "f64 \<Rightarrow> bool \<Rightarrow> int \<Rightarrow> int" where
  "conservativeLoad demand saturated tgt =
     (if \<not> saturated \<and> tgt > 0 then min (loadPercent (demand / of_int tgt)) 100 else 100)"

primrec conservativeLoop :: "policyRange \<Rightarrow> int \<Rightarrow> int \<Rightarrow> int \<Rightarrow> (int \<Rightarrow> int) \<Rightarrow> nat \<Rightarrow> int \<Rightarrow> int \<Rightarrow> int \<times> int" where
  "conservativeLoop r up down step load 0 req tgt = (req, tgt)"
| "conservativeLoop r up down step load (Suc n) req tgt =
     (if load tgt > up \<and> req < pr_hi r then
        (let req' = min (req + step) (pr_hi r)
         in conservativeLoop r up down step load n req' (target r req' relationHigh))
      else if load tgt < down \<and> req > pr_lo r then
        (let req' = max (req - step) (pr_lo r)
         in conservativeLoop r up down step load n req' (target r req' relationLow))
      else (req, tgt))"

definition conservativeCur :: "GovernorInput \<Rightarrow> policyRange \<Rightarrow> int \<Rightarrow> int" where
  "conservativeCur inp r prevKHz =
     (let cur = (if prevKHz \<le> 0 then gi_curKHz inp else prevKHz);
          cur = (if cur \<le> 0 then pr_hi r else cur)
      in target r cur relationHigh)"

definition conservativeKHz :: "GovernorInput \<Rightarrow> policyRange \<Rightarrow> f64 \<Rightarrow> int \<Rightarrow> int \<times> int" where
  "conservativeKHz inp r util prevKHz =
     (let up = tunableOr (gt_conservativeUpThreshold (gi_tunables inp)) 80;
          down = tunableOr (gt_conservativeDownThreshold (gi_tunables inp)) 20;
          cur = conservativeCur inp r prevKHz;
          req = gi_curKHz inp;
          req = (if req \<le> 0 \<or> req > pr_hi r \<or> req < pr_lo r then cur else req);
          demand = util * of_int cur
      in conservativeLoop r up down (conservativeStep inp r) (conservativeLoad demand (util \<ge> 1)) (conservativePeriods inp) req cur)"

definition hwpPowersaveKHz :: "GovernorInput \<Rightarrow> policyRange \<Rightarrow> f64 \<Rightarrow> int" where
  "hwpPowersaveKHz inp r util =
     (let epp = of_int (min (max (gi_epp inp) 0) 255); gain = max 0 (gi_eppGain inp);
          ceil = min 1 (max (1 / 2) (1 - max 0 (gi_eppCeilingDrop inp) * epp / 128));
          x = min 1 (util * (1 + gain * (255 - epp) / 255))
      in pr_lo r + go_round (of_int (pr_hi r - pr_lo r) * ceil * x))"

definition governorStep :: "GovernorInput \<Rightarrow> int \<Rightarrow> int \<times> int" where
  "governorStep inp prevTargetKHz =
     (case newPolicyRange inp of
        None \<Rightarrow> (0, 0)
      | Some r \<Rightarrow>
          (let util = clamp01 (gi_util inp); same = (\<lambda>t. (t, t))
           in if gi_governor inp = ''powersave'' then
                same (if gi_hwp inp then target r (hwpPowersaveKHz inp r util) relationLow else target r (pr_lo r) relationLow)
              else if gi_governor inp = ''schedutil'' then same (schedutilKHz inp r util)
              else if gi_governor inp = ''ondemand'' then same (ondemandKHz inp r util)
              else if gi_governor inp = ''conservative'' then conservativeKHz inp r util prevTargetKHz
              else if gi_governor inp = ''userspace'' then
                same (target r (if gi_curKHz inp \<le> 0 then pr_hi r else gi_curKHz inp) relationLow)
              else same (target r (pr_hi r) relationHigh)))"

definition GovernorStep :: "GovernorInput \<Rightarrow> int \<Rightarrow> int \<times> int" where
  "GovernorStep inp prevTargetKHz = governorStep inp prevTargetKHz"

section \<open>Resolution to the table\<close>

definition belowOf :: "int \<Rightarrow> int set \<Rightarrow> int option" where
  "belowOf v F = (if F \<inter> {..v} = {} then None else Some (Max (F \<inter> {..v})))"

definition aboveOf :: "int \<Rightarrow> int set \<Rightarrow> int option" where
  "aboveOf v F = (if F \<inter> {v..} = {} then None else Some (Min (F \<inter> {v..})))"

lemma belowOf_insert:
  "finite F \<Longrightarrow> belowOf v (insert f F) =
    (if f \<le> v \<and> (case belowOf v F of None \<Rightarrow> True | Some b \<Rightarrow> b < f) then Some f else belowOf v F)"
  by (cases "F \<inter> {..v} = {}") (simp_all add: belowOf_def Int_insert_left max_def del: Max_less_iff)

lemma aboveOf_insert:
  "finite F \<Longrightarrow> aboveOf v (insert f F) =
    (if v \<le> f \<and> (case aboveOf v F of None \<Rightarrow> True | Some a \<Rightarrow> f < a) then Some f else aboveOf v F)"
  by (cases "F \<inter> {v..} = {}") (simp_all add: aboveOf_def Int_insert_left min_def del: Min_gr_iff Min_ge_iff)

definition scanned :: "int \<Rightarrow> int \<Rightarrow> int set \<Rightarrow> tableScan" where
  "scanned v f0 F = \<lparr>ts_lo = Min (insert f0 F), ts_hi = Max (insert f0 F), ts_below = belowOf v F, ts_above = aboveOf v F\<rparr>"

lemma scanEntry_scanned:
  assumes "finite F"
  shows "scanEntry v f (scanned v f0 F) = scanned v f0 (insert f F)"
proof -
  have "Min (insert f0 (insert f F)) = min (Min (insert f0 F)) f" "Max (insert f0 (insert f F)) = max (Max (insert f0 F)) f"
    using assms by (simp_all add: insert_commute[of f0 f] min.commute max.commute)
  then show ?thesis
    unfolding scanEntry_def scanned_def by (simp add: belowOf_insert[OF assms] aboveOf_insert[OF assms])
qed

lemma fold_scanEntry:
  assumes "finite F"
  shows "fold (scanEntry v) fs (scanned v f0 F) = scanned v f0 (F \<union> set fs)"
  using assms
proof (induction fs arbitrary: F)
  case (Cons f fs)
  then show ?case by (simp add: scanEntry_scanned)
qed simp

text \<open>What the table gives, by the relation, in terms of the set of its entries.\<close>

lemma resolveTableKHz_Cons:
  fixes tbl :: "int list"
  assumes "tbl \<noteq> []"
  shows "resolveTableKHz tbl v rel =
    (case belowOf v (set tbl) of
       None \<Rightarrow> Min (set tbl)
     | Some blw \<Rightarrow>
         (case aboveOf v (set tbl) of
            None \<Rightarrow> Max (set tbl)
          | Some abv \<Rightarrow> (case rel of relationLow \<Rightarrow> abv | relationHigh \<Rightarrow> blw
                          | relationClosest \<Rightarrow> if abv - v < v - blw then abv else blw)))"
proof -
  obtain f0 fs where t: "tbl = f0 # fs" using assms by (cases tbl) auto
  have start: "\<lparr>ts_lo = f0, ts_hi = f0, ts_below = None, ts_above = None\<rparr> = scanned v f0 {}"
    by (simp add: scanned_def belowOf_def aboveOf_def)
  have "fold (scanEntry v) tbl (scanned v f0 {}) = scanned v f0 (set tbl)" by (simp add: fold_scanEntry)
  moreover have "insert f0 (set tbl) = set tbl" using t by auto
  ultimately have "fold (scanEntry v) tbl \<lparr>ts_lo = f0, ts_hi = f0, ts_below = None, ts_above = None\<rparr> =
      \<lparr>ts_lo = Min (set tbl), ts_hi = Max (set tbl), ts_below = belowOf v (set tbl), ts_above = aboveOf v (set tbl)\<rparr>"
    unfolding start by (simp only: scanned_def)
  then show ?thesis unfolding resolveTableKHz_def t list.case by (simp only: Let_def tableScan.select_convs)
qed

lemma belowOf_Some:
  assumes "finite F"
  shows "belowOf v F = Some b \<longleftrightarrow> b \<in> F \<and> b \<le> v \<and> (\<forall>f\<in>F. f \<le> v \<longrightarrow> f \<le> b)"
proof -
  have "Max (F \<inter> {..v}) = b \<longleftrightarrow> b \<in> F \<inter> {..v} \<and> (\<forall>f\<in>F \<inter> {..v}. f \<le> b)" if "F \<inter> {..v} \<noteq> {}"
    using that assms by (subst Max_eq_iff) auto
  then show ?thesis by (auto simp: belowOf_def)
qed

lemma aboveOf_Some:
  assumes "finite F"
  shows "aboveOf v F = Some a \<longleftrightarrow> a \<in> F \<and> v \<le> a \<and> (\<forall>f\<in>F. v \<le> f \<longrightarrow> a \<le> f)"
proof -
  have "Min (F \<inter> {v..}) = a \<longleftrightarrow> a \<in> F \<inter> {v..} \<and> (\<forall>f\<in>F \<inter> {v..}. a \<le> f)" if "F \<inter> {v..} \<noteq> {}"
    using that assms by (subst Min_eq_iff) auto
  then show ?thesis by (auto simp: aboveOf_def)
qed

lemma belowOf_None: "belowOf v F = None \<longleftrightarrow> (\<forall>f\<in>F. v < f)"
  unfolding belowOf_def by (auto simp: disjoint_iff not_le)

lemma aboveOf_None: "aboveOf v F = None \<longleftrightarrow> (\<forall>f\<in>F. f < v)"
  unfolding aboveOf_def by (auto simp: disjoint_iff not_le)

lemmas scan_facts = belowOf_Some[OF finite_set] aboveOf_Some[OF finite_set] belowOf_None aboveOf_None

text \<open>The entry a request resolves to, as a relation that says what each rule promises.\<close>

definition fitsNoWorse :: "freqRelation \<Rightarrow> int \<Rightarrow> int \<Rightarrow> int \<Rightarrow> bool" where
  "fitsNoWorse rel v e f =
     (case rel of
        relationLow \<Rightarrow> (v \<le> f \<longrightarrow> v \<le> e \<and> e \<le> f) \<and> (e < v \<longrightarrow> f \<le> e)
      | relationHigh \<Rightarrow> (f \<le> v \<longrightarrow> e \<le> v \<and> f \<le> e) \<and> (v < e \<longrightarrow> e \<le> f)
      | relationClosest \<Rightarrow> \<bar>e - v\<bar> \<le> \<bar>f - v\<bar> \<and> (\<bar>f - v\<bar> = \<bar>e - v\<bar> \<longrightarrow> e \<le> f))"

definition entryFor :: "int set \<Rightarrow> int \<Rightarrow> freqRelation \<Rightarrow> int \<Rightarrow> bool" where
  "entryFor F v rel e \<longleftrightarrow> e \<in> F \<and> (\<forall>f\<in>F. fitsNoWorse rel v e f)"

lemma fits_lowest: "m \<le> f \<Longrightarrow> v < m \<Longrightarrow> fitsNoWorse rel v m f"
  unfolding fitsNoWorse_def by (cases rel; simp only: freqRelation.case; arith)

lemma fits_highest: "f \<le> m \<Longrightarrow> m < v \<Longrightarrow> fitsNoWorse rel v m f"
  unfolding fitsNoWorse_def by (cases rel; simp only: freqRelation.case; arith)

lemma fits_between:
  "b \<le> v \<Longrightarrow> v \<le> a \<Longrightarrow> f \<le> v \<longrightarrow> f \<le> b \<Longrightarrow> v \<le> f \<longrightarrow> a \<le> f \<Longrightarrow>
   fitsNoWorse rel v (case rel of relationLow \<Rightarrow> a | relationHigh \<Rightarrow> b | relationClosest \<Rightarrow> if a - v < v - b then a else b) f"
  unfolding fitsNoWorse_def by (cases rel; cases "a - v < v - b"; simp only: freqRelation.case if_True if_False; arith)

lemma fits_mono:
  "fitsNoWorse rel u d e \<Longrightarrow> fitsNoWorse rel v e d \<Longrightarrow> u \<le> v \<Longrightarrow> d \<le> e"
  unfolding fitsNoWorse_def by (cases rel; simp only: freqRelation.case; arith)

lemma fits_within:
  "fitsNoWorse rel v e lo \<Longrightarrow> fitsNoWorse rel v e hi \<Longrightarrow> lo \<le> v \<Longrightarrow> v \<le> hi \<Longrightarrow> lo \<le> e \<and> e \<le> hi"
  unfolding fitsNoWorse_def by (cases rel; simp only: freqRelation.case; arith)

lemma resolveTableKHz_entry:
  assumes ne: "tbl \<noteq> []"
  shows "entryFor (set tbl) v rel (resolveTableKHz tbl v rel)"
proof (cases "belowOf v (set tbl)")
  case None
  then have r: "resolveTableKHz tbl v rel = Min (set tbl)" using ne by (simp add: resolveTableKHz_Cons)
  then show ?thesis unfolding r using ne None by (auto simp: entryFor_def belowOf_None intro!: fits_lowest)
next
  case (Some b)
  then have b: "b \<in> set tbl" "b \<le> v" "\<forall>f\<in>set tbl. f \<le> v \<longrightarrow> f \<le> b" by (auto simp: scan_facts)
  show ?thesis
  proof (cases "aboveOf v (set tbl)")
    case None
    then have r: "resolveTableKHz tbl v rel = Max (set tbl)" using ne Some by (simp add: resolveTableKHz_Cons)
    then show ?thesis unfolding r using ne None by (auto simp: entryFor_def aboveOf_None intro!: fits_highest)
  next
    case (Some a)
    then have a: "a \<in> set tbl" "v \<le> a" "\<forall>f\<in>set tbl. v \<le> f \<longrightarrow> a \<le> f" by (auto simp: scan_facts)
    then show ?thesis
      unfolding resolveTableKHz_Cons[OF ne] Some \<open>belowOf v (set tbl) = Some b\<close> option.case
      unfolding entryFor_def using a b by (intro conjI ballI fits_between) (auto split: freqRelation.split)
  qed
qed

lemma entryFor_mono: "entryFor F u rel d \<Longrightarrow> entryFor F v rel e \<Longrightarrow> u \<le> v \<Longrightarrow> d \<le> e"
  unfolding entryFor_def by (blast intro: fits_mono)

lemma entryFor_unique: "entryFor F v rel d \<Longrightarrow> entryFor F v rel e \<Longrightarrow> d = e"
  by (meson entryFor_mono order_antisym order_refl)

lemma entryFor_within:
  "entryFor F v rel e \<Longrightarrow> lo \<in> F \<Longrightarrow> hi \<in> F \<Longrightarrow> lo \<le> v \<Longrightarrow> v \<le> hi \<Longrightarrow> lo \<le> e \<and> e \<le> hi"
  unfolding entryFor_def by (blast dest: fits_within)

lemma resolveTableKHz_mono: "u \<le> v \<Longrightarrow> resolveTableKHz tbl u rel \<le> resolveTableKHz tbl v rel"
  by (cases "tbl = []") (simp add: resolveTableKHz_def, blast intro: entryFor_mono resolveTableKHz_entry)

section \<open>The policy range\<close>

definition wfRange :: "policyRange \<Rightarrow> bool" where
  "wfRange r \<longleftrightarrow> pr_lo r \<le> pr_hi r \<and> (pr_table r \<noteq> [] \<longrightarrow> pr_lo r \<in> set (pr_table r) \<and> pr_hi r \<in> set (pr_table r))"

lemma resolveTableKHz_in: "tbl \<noteq> [] \<Longrightarrow> resolveTableKHz tbl v rel \<in> set tbl"
  using resolveTableKHz_entry by (simp add: entryFor_def)

lemma resolveTableKHz_Nil [simp]: "resolveTableKHz [] v rel = v"
  by (simp add: resolveTableKHz_def)

lemma resolveTableKHz_self: "v \<in> set tbl \<Longrightarrow> resolveTableKHz tbl v rel = v"
  using resolveTableKHz_entry[of tbl v rel] entryFor_within[of "set tbl" v rel _ v v] by force

lemma newPolicyRange_wf: "newPolicyRange inp = Some r \<Longrightarrow> wfRange r"
  unfolding newPolicyRange_def wfRange_def
  by (auto simp: Let_def min_def max_def resolveTableKHz_in split: if_splits)

lemma newPolicyRange_table: "newPolicyRange inp = Some r \<Longrightarrow> pr_table r = gi_tableKHz inp"
  by (auto simp: newPolicyRange_def Let_def split: if_splits)

lemma target_within:
  assumes "wfRange r"
  shows "pr_lo r \<le> target r v rel \<and> target r v rel \<le> pr_hi r"
proof (cases "pr_table r = []")
  case False
  then show ?thesis
    using assms entryFor_within[OF resolveTableKHz_entry[OF False, of _ rel], of "pr_lo r" "pr_hi r"]
    unfolding wfRange_def target_def by simp
qed (use assms in \<open>auto simp: wfRange_def target_def\<close>)

lemma target_in: "pr_table r \<noteq> [] \<Longrightarrow> target r v rel \<in> set (pr_table r)"
  by (simp add: target_def resolveTableKHz_in)

lemma target_mono: "u \<le> v \<Longrightarrow> target r u rel \<le> target r v rel"
  unfolding target_def by (intro resolveTableKHz_mono) linarith

lemma target_self:
  "pr_lo r \<le> v \<Longrightarrow> v \<le> pr_hi r \<Longrightarrow> pr_table r \<noteq> [] \<longrightarrow> v \<in> set (pr_table r) \<Longrightarrow> target r v rel = v"
  by (cases "pr_table r = []") (simp_all add: target_def resolveTableKHz_self)

lemma target_ends: "wfRange r \<Longrightarrow> target r (pr_lo r) rel = pr_lo r" "wfRange r \<Longrightarrow> target r (pr_hi r) rel = pr_hi r"
  by (auto intro: target_self simp: wfRange_def)

lemma target_target: "wfRange r \<Longrightarrow> target r (target r v rel) rel' = target r v rel"
  using target_within[of r v rel] target_in[of r v rel] by (auto intro: target_self)

lemma policy_limits:
  assumes r: "newPolicyRange inp = Some r"
    and fit: "gi_tableKHz inp \<noteq> [] \<longrightarrow> (\<exists>f\<in>set (gi_tableKHz inp). max (gi_minKHz inp) 0 \<le> f \<and> f \<le> gi_maxKHz inp)"
    and le: "gi_minKHz inp \<le> gi_maxKHz inp"
  shows "max (gi_minKHz inp) 0 \<le> pr_lo r \<and> pr_hi r \<le> gi_maxKHz inp"
proof (cases "gi_tableKHz inp = []")
  case True
  then show ?thesis using r le by (auto simp: newPolicyRange_def Let_def split: if_splits)
next
  case False
  let ?t = "gi_tableKHz inp" and ?m = "max (gi_minKHz inp) 0"
  obtain f where f: "f \<in> set ?t" "?m \<le> f" "f \<le> gi_maxKHz inp" using fit False by blast
  have "max (gi_maxKHz inp) ?m = gi_maxKHz inp" using f by linarith
  then have pr: "pr_hi r = resolveTableKHz ?t (gi_maxKHz inp) relationHigh"
    "pr_lo r = min (resolveTableKHz ?t ?m relationLow) (pr_hi r)"
    using r by (auto simp: newPolicyRange_def Let_def split: if_splits)
  have "fitsNoWorse relationHigh (gi_maxKHz inp) (pr_hi r) f" "fitsNoWorse relationLow ?m (resolveTableKHz ?t ?m relationLow) f"
    using resolveTableKHz_entry[OF False] f(1) unfolding entryFor_def pr(1) by blast+
  then show ?thesis using f pr(2) by (simp add: fitsNoWorse_def)
qed

lemma conservativeLoop_within:
  assumes "wfRange r" and "0 \<le> step"
    and "pr_lo r \<le> q" and "q \<le> pr_hi r" and "\<exists>w rel. t = target r w rel"
    and "conservativeLoop r up down step load n q t = (q', t')"
  shows "(\<exists>w rel. t' = target r w rel) \<and> pr_lo r \<le> q' \<and> q' \<le> pr_hi r"
  using assms(3-6)
proof (induction n arbitrary: q t)
  case (Suc n)
  have "pr_lo r \<le> min (q + step) (pr_hi r)" "max (q - step) (pr_lo r) \<le> pr_hi r"
    using Suc.prems(1,2) assms(1,2) unfolding wfRange_def by linarith+
  moreover note IH = Suc.IH[of "min (q + step) (pr_hi r)" "target r (min (q + step) (pr_hi r)) relationHigh"]
    Suc.IH[of "max (q - step) (pr_lo r)" "target r (max (q - step) (pr_lo r)) relationLow"]
  ultimately show ?case using Suc.prems by (simp add: Let_def split: if_splits) blast+
qed simp

lemma conservativeStep_pos: "0 < conservativeStep inp r"
  by (simp add: conservativeStep_def Let_def)

lemma GovernorStep_range:
  assumes r: "newPolicyRange inp = Some r" and g: "GovernorStep inp prev = (q, t)"
  shows "(\<exists>w rel. t = target r w rel) \<and> pr_lo r \<le> q \<and> q \<le> pr_hi r"
proof -
  have wf: "wfRange r" using r by (rule newPolicyRange_wf)
  note tw = target_within[OF wf]
  show ?thesis
  proof (cases "gi_governor inp = ''conservative''")
    case True
    let ?cur = "conservativeCur inp r prev"
    let ?req = "if gi_curKHz inp \<le> 0 \<or> gi_curKHz inp > pr_hi r \<or> gi_curKHz inp < pr_lo r then ?cur else gi_curKHz inp"
    have w: "\<exists>w rel. ?cur = target r w rel" by (auto simp: conservativeCur_def Let_def)
    then have "pr_lo r \<le> ?req" "?req \<le> pr_hi r" using tw by auto
    moreover obtain up down load n where "conservativeLoop r up down (conservativeStep inp r) load n ?req ?cur = (q, t)"
      using g True r unfolding GovernorStep_def governorStep_def conservativeKHz_def Let_def by simp
    ultimately show ?thesis
      using conservativeLoop_within[OF wf less_imp_le[OF conservativeStep_pos] _ _ w] by blast
  next
    case False
    then obtain w rel where "q = target r w rel" "t = target r w rel"
      using g r unfolding GovernorStep_def governorStep_def Let_def schedutilKHz_def ondemandKHz_def
      by (simp split: if_splits) blast+
    then show ?thesis using tw by blast
  qed
qed

text \<open>Whatever the governor, its tunables, the load and the previous step, the frequency it sets is an entry of the policy's
  table and lies between the policy's minimum and maximum, and so does the request it keeps, as long as the table has an entry the
  limits allow.\<close>

theorem GovernorStep_within_limits:
  assumes "0 \<le> gi_minKHz inp" and "gi_minKHz inp \<le> gi_maxKHz inp" and "0 < gi_maxKHz inp"
    and "gi_tableKHz inp \<noteq> [] \<longrightarrow> (\<exists>f\<in>set (gi_tableKHz inp). gi_minKHz inp \<le> f \<and> f \<le> gi_maxKHz inp)"
    and "GovernorStep inp prev = (request, tgt)"
  shows "gi_minKHz inp \<le> tgt \<and> tgt \<le> gi_maxKHz inp \<and> gi_minKHz inp \<le> request \<and> request \<le> gi_maxKHz inp
    \<and> (gi_tableKHz inp \<noteq> [] \<longrightarrow> tgt \<in> set (gi_tableKHz inp))"
proof -
  obtain r where r: "newPolicyRange inp = Some r" using assms(3) by (auto simp: newPolicyRange_def Let_def)
  have l: "gi_minKHz inp \<le> pr_lo r" "pr_hi r \<le> gi_maxKHz inp"
    using policy_limits[OF r] assms(1,2,4) by (simp_all add: max_def)
  obtain w rel where t: "tgt = target r w rel" and q: "pr_lo r \<le> request" "request \<le> pr_hi r"
    using GovernorStep_range[OF r assms(5)] by blast
  then show ?thesis
    using l target_within[OF newPolicyRange_wf[OF r], of w rel] target_in[of r w rel] newPolicyRange_table[OF r] by auto
qed

definition exampleInput :: "string \<Rightarrow> f64 \<Rightarrow> GovernorInput" where
  "exampleInput gov util =
     \<lparr>gi_governor = gov, gi_hwp = False, gi_epp = 128, gi_util = util, gi_minKHz = 800, gi_maxKHz = 3000,
      gi_tableKHz = [1000, 2000, 3000], gi_curKHz = 1000, gi_periodS = 0,
      gi_tunables = \<lparr>gt_schedutilRateLimitUS = 0, gt_ondemandUpThreshold = 0, gt_ondemandSamplingRateUS = 0,
        gt_conservativeFreqStep = 50, gt_conservativeUpThreshold = 0, gt_conservativeDownThreshold = 0\<rparr>,
      gi_eppGain = 1, gi_eppCeilingDrop = 2/10\<rparr>"

theorem GovernorStep_within_limits_witness:
  "800 \<le> snd (GovernorStep (exampleInput ''ondemand'' (1/2)) 0)"
  using GovernorStep_within_limits[of "exampleInput ''ondemand'' (1/2)" 0 "fst (GovernorStep (exampleInput ''ondemand'' (1/2)) 0)"
      "snd (GovernorStep (exampleInput ''ondemand'' (1/2)) 0)"]
  by (simp add: exampleInput_def)

section \<open>Load and frequency\<close>

lemma loadPercent_mono: "u \<le> v \<Longrightarrow> loadPercent u \<le> loadPercent v"
  unfolding loadPercent_def by (intro floor_mono) (simp add: clamp01_mono)

lemma loadPercent_nonneg: "0 \<le> loadPercent u"
  unfolding loadPercent_def using clamp01_bounds(1)[of u] by simp

lemma go_trunc_mono: "0 \<le> x \<Longrightarrow> x \<le> y \<Longrightarrow> go_trunc x \<le> go_trunc y"
  by (simp add: go_num floor_mono)

lemma go_round_scale_mono: "0 \<le> s \<Longrightarrow> 0 \<le> x \<Longrightarrow> x \<le> y \<Longrightarrow> go_round (s * x) \<le> go_round (s * y)"
  by (simp add: go_round_mono mult_left_mono)

lemma schedutilKHz_mono:
  assumes "0 \<le> u" and "u \<le> v" and "0 \<le> ranKHz inp"
  shows "schedutilKHz inp r u \<le> schedutilKHz inp r v"
proof -
  have "0 \<le> 5 / 4 * ranKHz inp * u" "5 / 4 * ranKHz inp * u \<le> 5 / 4 * ranKHz inp * v"
    using assms mult_left_mono[OF assms(2,3)] by (auto simp: mult.commute)
  then show ?thesis unfolding schedutilKHz_def by (intro target_mono go_trunc_mono)
qed

lemma ondemandKHz_mono:
  assumes "u \<le> v" and "wfRange r" and "0 < max (gi_maxKHz inp) (gi_minKHz inp)"
  shows "ondemandKHz inp r u \<le> ondemandKHz inp r v"
proof -
  let ?lo = "max (gi_minKHz inp) 0" and ?hi = "max (gi_maxKHz inp) (gi_minKHz inp)"
  let ?next = "\<lambda>l. ?lo + go_div (l * (?hi - ?lo)) 100"
  have l: "0 \<le> loadPercent u" "loadPercent u \<le> loadPercent v" using assms(1) loadPercent_mono loadPercent_nonneg by auto
  moreover have "0 \<le> ?hi - ?lo" using assms(3) by linarith
  ultimately have "?next (loadPercent u) \<le> ?next (loadPercent v)"
    by (simp add: go_num zdiv_mono1 mult_right_mono)
  then have "target r (?next (loadPercent u)) relationClosest \<le> target r (?next (loadPercent v)) relationClosest" by (rule target_mono)
  then show ?thesis
    unfolding ondemandKHz_def Let_def using l target_within[OF assms(2)] by (simp add: target_ends[OF assms(2)])
qed

lemma hwpPowersaveKHz_mono:
  assumes "0 \<le> u" and "u \<le> v" and "pr_lo r \<le> pr_hi r"
  shows "hwpPowersaveKHz inp r u \<le> hwpPowersaveKHz inp r v"
proof -
  let ?e = "of_int (min (max (gi_epp inp) 0) 255) :: real"
  let ?k = "1 + max 0 (gi_eppGain inp) * (255 - ?e) / 255" and ?c = "min 1 (max (1 / 2) (1 - max 0 (gi_eppCeilingDrop inp) * ?e / 128))"
  let ?s = "of_int (pr_hi r - pr_lo r) * ?c"
  have e: "?e \<le> 255" by (simp add: min_def max_def)
  then have k: "0 \<le> ?k" by (intro add_nonneg_nonneg divide_nonneg_nonneg mult_nonneg_nonneg) auto
  have s: "0 \<le> ?s" using assms(3) by (intro mult_nonneg_nonneg) auto
  have "min 1 (u * ?k) \<le> min 1 (v * ?k)" by (intro min.mono order_refl mult_right_mono assms(2) k)
  moreover have "0 \<le> min 1 (u * ?k)" using assms(1) k by simp
  ultimately have "go_round (?s * min 1 (u * ?k)) \<le> go_round (?s * min 1 (v * ?k))" by (intro go_round_scale_mono s)
  then show ?thesis unfolding hwpPowersaveKHz_def Let_def by (rule add_left_mono)
qed

lemma newPolicyRange_cong:
  "newPolicyRange (inp\<lparr>gi_util := u\<rparr>) = newPolicyRange inp"
  "newPolicyRange (inp\<lparr>gi_curKHz := c\<rparr>) = newPolicyRange inp"
  by (simp_all add: newPolicyRange_def cong: if_cong)

text \<open>A busier policy is never given a lower frequency: for every governor that sets the frequency from the load of one step
  (all but conservative, which remembers its request), the frequency set is monotone in the utilization.\<close>

theorem GovernorStep_follows_load:
  assumes "gi_governor inp \<noteq> ''conservative''" and "u \<le> v"
  shows "snd (GovernorStep (inp\<lparr>gi_util := u\<rparr>) prev) \<le> snd (GovernorStep (inp\<lparr>gi_util := v\<rparr>) prev)"
proof (cases "newPolicyRange inp")
  case None
  then show ?thesis by (simp add: GovernorStep_def governorStep_def newPolicyRange_cong)
next
  case (Some r)
  then have r: "newPolicyRange (inp\<lparr>gi_util := w\<rparr>) = Some r" for w by (simp add: newPolicyRange_cong)
  have wf: "wfRange r" and pos: "0 < max (gi_maxKHz inp) (gi_minKHz inp)"
    using newPolicyRange_wf[OF Some] Some by (auto simp: newPolicyRange_def split: if_splits)
  have c: "0 \<le> clamp01 u" "clamp01 u \<le> clamp01 v" using clamp01_bounds clamp01_mono assms(2) by auto
  have upd: "ranKHz (inp\<lparr>gi_util := w\<rparr>) = ranKHz inp" "schedutilKHz (inp\<lparr>gi_util := w\<rparr>) r = schedutilKHz inp r"
    "ondemandKHz (inp\<lparr>gi_util := w\<rparr>) r = ondemandKHz inp r" "hwpPowersaveKHz (inp\<lparr>gi_util := w\<rparr>) r = hwpPowersaveKHz inp r" for w
    by (simp_all add: fun_eq_iff ranKHz_def schedutilKHz_def ondemandKHz_def hwpPowersaveKHz_def Let_def)
  have "0 \<le> ranKHz inp" using pos by (simp add: ranKHz_def)
  then show ?thesis
    unfolding GovernorStep_def governorStep_def r option.case Let_def upd
    using assms(1) schedutilKHz_mono[OF c] ondemandKHz_mono[OF c(2) wf pos] target_mono[OF hwpPowersaveKHz_mono[OF c]] wf
    by (simp add: wfRange_def)
qed

theorem GovernorStep_follows_load_witness:
  "snd (GovernorStep (exampleInput ''ondemand'' (1/2) \<lparr>gi_util := 1/4\<rparr>) 0) \<le> snd (GovernorStep (exampleInput ''ondemand'' (1/2) \<lparr>gi_util := 3/4\<rparr>) 0)"
  using GovernorStep_follows_load[of "exampleInput ''ondemand'' (1/2)" "1/4" "3/4" 0] by (simp add: exampleInput_def)

section \<open>The conservative governor over several steps\<close>

text \<open>A run of the governor: each step gets back the request and the frequency of the step before it.\<close>

definition governorRun :: "GovernorInput \<Rightarrow> nat \<Rightarrow> int \<times> int \<Rightarrow> int \<times> int" where
  "governorRun inp n = (\<lambda>(q, t). GovernorStep (inp\<lparr>gi_curKHz := q\<rparr>) t) ^^ n"

definition holds :: "policyRange \<Rightarrow> int \<Rightarrow> int \<Rightarrow> bool" where
  "holds r q t \<longleftrightarrow> pr_lo r \<le> q \<and> q \<le> pr_hi r \<and> (\<exists>rel. t = target r q rel)"

lemma conservativeLoop_up:
  assumes wf: "wfRange r" and "0 < step" and "\<And>t. up < load t \<and> \<not> load t < down" and "holds r q t"
  shows "\<exists>t'. conservativeLoop r up down step load n q t = (min (q + int n * step) (pr_hi r), t')
    \<and> holds r (min (q + int n * step) (pr_hi r)) t'"
  using assms(4)
proof (induction n arbitrary: q t)
  case (Suc n)
  have d: "q + int (Suc n) * step = (q + step) + int n * step" "0 \<le> int n * step" using assms(2) by (auto simp: algebra_simps)
  show ?case
  proof (cases "q < pr_hi r")
    case True
    let ?q = "min (q + step) (pr_hi r)"
    have "min (?q + int n * step) (pr_hi r) = min (q + int (Suc n) * step) (pr_hi r)" using d by linarith
    moreover have "holds r ?q (target r ?q relationHigh)" using Suc.prems wf assms(2) by (auto simp: holds_def wfRange_def)
    ultimately show ?thesis using Suc.IH[of ?q] True assms(3) by (simp add: Let_def)
  next
    case False
    then have "min (q + int (Suc n) * step) (pr_hi r) = q" using Suc.prems d assms(2) unfolding holds_def by linarith
    then show ?thesis using Suc.prems False assms(3) by simp
  qed
qed (simp add: holds_def min_def)

lemma conservativeLoop_down:
  assumes wf: "wfRange r" and "0 < step" and "\<And>t. pr_lo r \<le> t \<Longrightarrow> load t < down \<and> \<not> up < load t" and "holds r q t"
  shows "\<exists>t'. conservativeLoop r up down step load n q t = (max (q - int n * step) (pr_lo r), t')
    \<and> holds r (max (q - int n * step) (pr_lo r)) t'"
  using assms(4)
proof (induction n arbitrary: q t)
  case (Suc n)
  have d: "q - int (Suc n) * step = (q - step) - int n * step" "0 \<le> int n * step" using assms(2) by (auto simp: algebra_simps)
  have "pr_lo r \<le> t" using Suc.prems target_within[OF wf] by (auto simp: holds_def)
  then have l: "load t < down" "\<not> up < load t" using assms(3) by auto
  show ?case
  proof (cases "pr_lo r < q")
    case True
    let ?q = "max (q - step) (pr_lo r)"
    have "max (?q - int n * step) (pr_lo r) = max (q - int (Suc n) * step) (pr_lo r)" using d by linarith
    moreover have "holds r ?q (target r ?q relationLow)" using Suc.prems wf assms(2) by (auto simp: holds_def wfRange_def)
    ultimately show ?thesis using Suc.IH[of ?q] True l by (simp add: Let_def)
  next
    case False
    then have "max (q - int (Suc n) * step) (pr_lo r) = q" using Suc.prems d assms(2) unfolding holds_def by linarith
    then show ?thesis using Suc.prems False l by simp
  qed
qed (auto simp: holds_def max_def dest: order_antisym)

lemma conservativeStep_cong [simp]: "conservativeStep (inp\<lparr>gi_curKHz := c\<rparr>) r = conservativeStep inp r"
  by (simp add: conservativeStep_def)

lemma conservativePeriods_cong [simp]: "conservativePeriods (inp\<lparr>gi_curKHz := c\<rparr>) = conservativePeriods inp"
  by (simp add: conservativePeriods_def Let_def)

lemma conservativePeriods_bounds: "1 \<le> conservativePeriods inp \<and> conservativePeriods inp \<le> maxGovernorPeriods"
  by (simp add: conservativePeriods_def Let_def maxGovernorPeriods_def le_nat_iff nat_le_iff)

text \<open>One step of the conservative governor in a run: the request and the frequency it was given are those it starts from.\<close>

lemma conservative_step:
  assumes "newPolicyRange inp = Some r" and "0 < pr_lo r" and "gi_governor inp = ''conservative''" and h: "holds r q t"
  shows "GovernorStep (inp\<lparr>gi_curKHz := q\<rparr>) t =
    conservativeLoop r (tunableOr (gt_conservativeUpThreshold (gi_tunables inp)) 80)
      (tunableOr (gt_conservativeDownThreshold (gi_tunables inp)) 20) (conservativeStep inp r)
      (conservativeLoad (clamp01 (gi_util inp) * of_int t) (clamp01 (gi_util inp) \<ge> 1)) (conservativePeriods inp) q t"
proof -
  have wf: "wfRange r" using assms(1) by (rule newPolicyRange_wf)
  obtain rel where t: "t = target r q rel" "pr_lo r \<le> q" "q \<le> pr_hi r" using h by (auto simp: holds_def)
  have "0 < t" using target_within[OF wf, of q rel] t assms(2) by simp
  then have "conservativeCur (inp\<lparr>gi_curKHz := q\<rparr>) r t = t" unfolding conservativeCur_def Let_def by (simp add: t(1) target_target[OF wf])
  then show ?thesis
    unfolding GovernorStep_def governorStep_def newPolicyRange_cong assms(1) option.case conservativeKHz_def Let_def
    using assms(2,3) t(2,3) by simp
qed

lemma holds_end:
  assumes "wfRange r"
  shows "holds r (pr_hi r) t \<Longrightarrow> t = pr_hi r" "holds r (pr_lo r) t \<Longrightarrow> t = pr_lo r"
  using target_ends[OF assms] by (auto simp: holds_def)

lemma conservative_up_step:
  assumes "newPolicyRange inp = Some r" "0 < pr_lo r" "gi_governor inp = ''conservative''" "holds r q t" "1 \<le> gi_util inp"
    and "gt_conservativeUpThreshold (gi_tunables inp) < 100" and "gt_conservativeDownThreshold (gi_tunables inp) \<le> 100"
  shows "\<exists>t'. GovernorStep (inp\<lparr>gi_curKHz := q\<rparr>) t = (min (q + int (conservativePeriods inp) * conservativeStep inp r) (pr_hi r), t')
    \<and> holds r (min (q + int (conservativePeriods inp) * conservativeStep inp r) (pr_hi r)) t'"
  unfolding conservative_step[OF assms(1-4)] using assms(5-7)
  by (intro conservativeLoop_up newPolicyRange_wf[OF assms(1)] conservativeStep_pos assms(4))
     (simp add: conservativeLoad_def tunableOr_def clamp01_def)

lemma conservative_down_step:
  assumes "newPolicyRange inp = Some r" "0 < pr_lo r" "gi_governor inp = ''conservative''" "holds r q t" "gi_util inp \<le> 0"
  shows "\<exists>t'. GovernorStep (inp\<lparr>gi_curKHz := q\<rparr>) t = (max (q - int (conservativePeriods inp) * conservativeStep inp r) (pr_lo r), t')
    \<and> holds r (max (q - int (conservativePeriods inp) * conservativeStep inp r) (pr_lo r)) t'"
  unfolding conservative_step[OF assms(1-4)] using assms(2,5)
  by (intro conservativeLoop_down newPolicyRange_wf[OF assms(1)] conservativeStep_pos assms(4))
     (simp add: conservativeLoad_def tunableOr_def clamp01_def loadPercent_def floor_less_iff)

lemma governorRun_iterates:
  assumes "\<And>q t. holds r q t \<Longrightarrow> \<exists>t'. GovernorStep (inp\<lparr>gi_curKHz := q\<rparr>) t = (g q, t') \<and> holds r (g q) t'" and "holds r q t"
  shows "\<exists>t'. governorRun inp n (q, t) = ((g ^^ n) q, t') \<and> holds r ((g ^^ n) q) t'"
proof (induction n)
  case (Suc n)
  then obtain t' where "governorRun inp n (q, t) = ((g ^^ n) q, t')" "holds r ((g ^^ n) q) t'" by blast
  then show ?case using assms(1) by (simp add: governorRun_def)
qed (simp add: governorRun_def assms(2))

lemma climb: "0 \<le> w \<Longrightarrow> q \<le> hi \<Longrightarrow> ((\<lambda>q. min (q + w) hi) ^^ n) q = min (q + int n * w) (hi :: int)"
  by (induction n) (auto simp: algebra_simps min_def)

lemma descend: "0 \<le> w \<Longrightarrow> lo \<le> q \<Longrightarrow> ((\<lambda>q. max (q - w) lo) ^^ n) q = max (q - int n * w) (lo :: int)"
  by (induction n) (auto simp: algebra_simps max_def)

text \<open>C37: The conservative governor settles: from any request within the limits and the frequency that goes with it, under a
  saturated load the request after \<open>n\<close> steps has climbed by the step of every sampling period up to the maximum, and once it got
  there both the request and the frequency are the maximum; an idle policy falls to the minimum the same way. So the number of steps
  it needs is at most the range divided by what one step covers.\<close>

theorem conservative_settles:
  assumes "newPolicyRange inp = Some r" and "0 < pr_lo r" and "gi_governor inp = ''conservative''"
    and "pr_lo r \<le> q" and "q \<le> pr_hi r" and "t = target r q rel"
    and "gt_conservativeUpThreshold (gi_tunables inp) < 100" and "gt_conservativeDownThreshold (gi_tunables inp) \<le> 100"
    and "d = int n * (int (conservativePeriods inp) * conservativeStep inp r)"
  shows "(1 \<le> gi_util inp \<longrightarrow> fst (governorRun inp n (q, t)) = min (q + d) (pr_hi r)
            \<and> (pr_hi r \<le> q + d \<longrightarrow> governorRun inp n (q, t) = (pr_hi r, pr_hi r)))
    \<and> (gi_util inp \<le> 0 \<longrightarrow> fst (governorRun inp n (q, t)) = max (q - d) (pr_lo r)
            \<and> (q - d \<le> pr_lo r \<longrightarrow> governorRun inp n (q, t) = (pr_lo r, pr_lo r)))"
proof -
  have wf: "wfRange r" using assms(1) by (rule newPolicyRange_wf)
  let ?w = "int (conservativePeriods inp) * conservativeStep inp r"
  have w: "0 \<le> ?w" using conservativeStep_pos[of inp r] by simp
  have start: "holds r q t" using assms(4-6) by (auto simp: holds_def)
  note up = governorRun_iterates[OF conservative_up_step[OF assms(1-3) _ _ assms(7,8)] start, of n, unfolded climb[OF w assms(5)]]
  note down = governorRun_iterates[OF conservative_down_step[OF assms(1-3)] start, of n, unfolded descend[OF w assms(4)]]
  have "min (q + d) (pr_hi r) = pr_hi r" if "pr_hi r \<le> q + d" using that by simp
  moreover have "max (q - d) (pr_lo r) = pr_lo r" if "q - d \<le> pr_lo r" using that by simp
  ultimately show ?thesis using up down holds_end[OF wf] unfolding assms(9)[symmetric] by fastforce
qed

definition exampleRange :: policyRange where
  "exampleRange = \<lparr>pr_table = [1000, 2000, 3000], pr_lo = 1000, pr_hi = 3000\<rparr>"

lemma exampleRange: "newPolicyRange (exampleInput gov util) = Some exampleRange"
proof -
  have "entryFor (set [1000, 2000, 3000]) 800 relationLow 1000" by (simp add: entryFor_def fitsNoWorse_def)
  then have "resolveTableKHz [1000, 2000, 3000] 800 relationLow = 1000"
    by (intro entryFor_unique[OF resolveTableKHz_entry]) simp_all
  moreover have "resolveTableKHz [1000, 2000, 3000] 3000 relationHigh = 3000" by (intro resolveTableKHz_self) simp
  ultimately show ?thesis by (simp add: newPolicyRange_def exampleInput_def exampleRange_def Let_def)
qed

theorem conservative_settles_witness:
  "governorRun (exampleInput ''conservative'' 1) 2 (1000, 1000) = (3000, 3000)"
proof -
  let ?inp = "exampleInput ''conservative'' 1"
  have f: "0 < pr_lo exampleRange" "gi_governor ?inp = ''conservative''" "pr_lo exampleRange \<le> 1000" "1000 \<le> pr_hi exampleRange"
    "gt_conservativeUpThreshold (gi_tunables ?inp) < 100" "gt_conservativeDownThreshold (gi_tunables ?inp) \<le> 100"
    "gi_util ?inp = 1" "pr_hi exampleRange = 3000"
    by (simp_all add: exampleInput_def exampleRange_def)
  have d: "(3000 :: int) = int 2 * (int (conservativePeriods ?inp) * conservativeStep ?inp exampleRange)"
    by (simp add: conservativePeriods_def conservativeStep_def exampleInput_def exampleRange_def tunableOr_def go_div_def)
  have t: "1000 = target exampleRange 1000 relationLow" by (rule target_self[symmetric]) (simp_all add: exampleRange_def)
  show ?thesis using conservative_settles[OF exampleRange f(1-4) t f(5,6) d] unfolding f(7,8) by simp
qed

end
