(* ===== verification/Sim_Slots.thy ===== *)
theory Sim_Slots
  imports Go_Prelude
begin

text \<open>
  Which CPUs and GPU units of one node each running job of the simulator occupies (\<^verbatim>\<open>simulator/pkg/workload/cpuslots.go\<close>,
  \<^verbatim>\<open>gpuslots.go\<close>). Both are pools a job takes slots from when it starts and gives them back to when it ends: the locale
  \<open>slot_pool\<close> is that contract, with the runs of a pool and what holds in every one of them, and it is interpreted on both.
  The Go maps are partial functions, CPU, unit and device numbers are \<open>nat\<close>.
\<close>

section \<open>CPU slots\<close>

text \<open>The loop that updates the entries a list of indices names, one after the other.\<close>

definition updAll :: "('a \<Rightarrow> 'a) \<Rightarrow> nat list \<Rightarrow> 'a list \<Rightarrow> 'a list" where
  "updAll f cs xs = fold (\<lambda>c xs. xs[c := f (xs ! c)]) cs xs"

record CPUSlots =
  cs_holders :: "string list list"
  cs_held :: "string \<Rightarrow> nat list option"
  cs_request :: "string \<Rightarrow> f64 option"

definition NewCPUSlots :: "int \<Rightarrow> CPUSlots" where
  "NewCPUSlots cpus = \<lparr>cs_holders = replicate (nat cpus) [], cs_held = Map.empty, cs_request = Map.empty\<rparr>"

definition cpuWant :: "nat \<Rightarrow> f64 \<Rightarrow> nat" where
  "cpuWant n request = (if request > 1 then nat (min (int n) (go_ceil request)) else 1)"

definition cpuOrder :: "string list list \<Rightarrow> nat list" where
  "cpuOrder holders = sort_key (\<lambda>c. length (holders ! c)) [0..<length holders]"

definition cpuAssign :: "CPUSlots \<Rightarrow> string \<Rightarrow> f64 \<Rightarrow> CPUSlots \<times> nat list" where
  "cpuAssign s job request =
     (case cs_held s job of
        Some cpus \<Rightarrow> (s, cpus)
      | None \<Rightarrow>
          (if cs_holders s = [] then (s, [])
           else (let cpus = sort (take (cpuWant (length (cs_holders s)) request) (cpuOrder (cs_holders s)))
                 in (s\<lparr>cs_holders := updAll (\<lambda>h. h @ [job]) cpus (cs_holders s),
                       cs_held := (cs_held s)(job \<mapsto> cpus),
                       cs_request := (cs_request s)(job \<mapsto> (if request > 0 then request else 0))\<rparr>, cpus))))"

definition cpuRelease :: "CPUSlots \<Rightarrow> string \<Rightarrow> CPUSlots" where
  "cpuRelease s job =
     s\<lparr>cs_holders := updAll (remove1 job) (case cs_held s job of Some cpus \<Rightarrow> cpus | None \<Rightarrow> []) (cs_holders s),
       cs_held := (cs_held s)(job := None),
       cs_request := (cs_request s)(job := None)\<rparr>"

definition CPUs :: "CPUSlots \<Rightarrow> string \<Rightarrow> nat list" where
  "CPUs s job = (case cs_held s job of Some cpus \<Rightarrow> cpus | None \<Rightarrow> [])"

definition Holds :: "CPUSlots \<Rightarrow> string \<Rightarrow> bool" where
  "Holds s job \<longleftrightarrow> cs_held s job \<noteq> None"

definition mapGetF :: "(string \<Rightarrow> f64 option) \<Rightarrow> string \<Rightarrow> f64" where
  "mapGetF m k = (case m k of Some v \<Rightarrow> v | None \<Rightarrow> 0)"

definition cpuAsk :: "CPUSlots \<Rightarrow> (string \<Rightarrow> f64 option) \<Rightarrow> string \<Rightarrow> f64" where
  "cpuAsk s util job = clamp01 (mapGetF util job) * mapGetF (cs_request s) job / real (length (CPUs s job))"

definition demand :: "CPUSlots \<Rightarrow> (string \<Rightarrow> f64 option) \<Rightarrow> f64 list" where
  "demand s util = map (\<lambda>hs. sum_list (map (cpuAsk s util) hs)) (cs_holders s)"

definition Util :: "CPUSlots \<Rightarrow> (string \<Rightarrow> f64 option) \<Rightarrow> f64 list" where
  "Util s util =
     (let out = demand s util;
          over = sum_list (map (\<lambda>d. if d > 1 then d - 1 else 0) out);
          spare = sum_list (map (\<lambda>d. if d > 1 then 0 else 1 - d) out)
      in if over = 0 then out
         else (let fill = (if over < spare then over / spare else 1)
               in map (\<lambda>d. if d \<ge> 1 then 1 else d + (1 - d) * fill) out))"

definition cpuShare :: "CPUSlots \<Rightarrow> (string \<Rightarrow> f64 option) \<Rightarrow> f64" where
  "cpuShare s util =
     (let asked = sum_list (demand s util); n = real (length (cs_holders s))
      in if asked > n then n / asked else 1)"

section \<open>GPU slots\<close>

datatype Sharing = SharingNone | SharingWhole | SharingMIG | SharingTimeslice

definition SharingOf :: "string \<Rightarrow> Sharing" where
  "SharingOf exposure =
     (if exposure = ''whole'' then SharingWhole
      else if HasPrefix exposure ''mig-'' then SharingMIG
      else if HasPrefix exposure ''timeslice-'' then SharingTimeslice
      else SharingNone)"

record DeviceUse =
  du_device :: nat
  du_units :: int

record GPUSlots =
  gs_sharing :: Sharing
  gs_perDev :: int
  gs_unitJob :: "string list"
  gs_jobUtil :: "string \<Rightarrow> f64 option"
  gs_jobUnits :: "string \<Rightarrow> nat list option"

definition gpuPerDev :: "Sharing \<Rightarrow> int \<Rightarrow> int" where
  "gpuPerDev sharing unitsPerDevice =
     (case sharing of SharingNone \<Rightarrow> 0 | SharingWhole \<Rightarrow> 1 | SharingMIG \<Rightarrow> unitsPerDevice | SharingTimeslice \<Rightarrow> unitsPerDevice)"

definition NewGPUSlots :: "int \<Rightarrow> string \<Rightarrow> int \<Rightarrow> GPUSlots" where
  "NewGPUSlots devices exposure unitsPerDevice =
     (let sharing = SharingOf exposure; perDev = gpuPerDev sharing unitsPerDevice
      in \<lparr>gs_sharing = sharing, gs_perDev = perDev,
          gs_unitJob = (if devices > 0 \<and> perDev > 0 then replicate (nat (devices * perDev)) [] else []),
          gs_jobUtil = Map.empty, gs_jobUnits = Map.empty\<rparr>)"

definition Units :: "GPUSlots \<Rightarrow> nat" where
  "Units s = length (gs_unitJob s)"

definition UnitsPerDevice :: "GPUSlots \<Rightarrow> int" where
  "UnitsPerDevice s = gs_perDev s"

definition Devices :: "GPUSlots \<Rightarrow> nat" where
  "Devices s = (if gs_perDev s = 0 then 0 else nat (go_div (int (length (gs_unitJob s))) (gs_perDev s)))"

definition unitsOf :: "GPUSlots \<Rightarrow> string \<Rightarrow> nat list" where
  "unitsOf s job = (case gs_jobUnits s job of Some ks \<Rightarrow> ks | None \<Rightarrow> [])"

fun useUnits :: "nat list \<Rightarrow> DeviceUse list \<Rightarrow> DeviceUse list" where
  "useUnits [] out = rev out"
| "useUnits (d # ds) (u # out) =
     (if du_device u = d then useUnits ds (u\<lparr>du_units := du_units u + 1\<rparr> # out)
      else useUnits ds (\<lparr>du_device = d, du_units = 1\<rparr> # u # out))"
| "useUnits (d # ds) [] = useUnits ds [\<lparr>du_device = d, du_units = 1\<rparr>]"

definition Uses :: "GPUSlots \<Rightarrow> string \<Rightarrow> DeviceUse list" where
  "Uses s job = useUnits (map (\<lambda>k. k div nat (gs_perDev s)) (unitsOf s job)) []"

definition devicesOf :: "GPUSlots \<Rightarrow> string \<Rightarrow> nat list" where
  "devicesOf s job = sort (map du_device (Uses s job))"

definition freeUnits :: "string list \<Rightarrow> int \<Rightarrow> nat list" where
  "freeUnits owners units = take (nat units) (filter (\<lambda>k. owners ! k = []) [0..<length owners])"

definition gpuAssign :: "GPUSlots \<Rightarrow> string \<Rightarrow> int \<Rightarrow> f64 \<Rightarrow> GPUSlots \<times> nat list option" where
  "gpuAssign s job units util =
     (if gs_jobUnits s job \<noteq> None then (s, Some (devicesOf s job))
      else if units \<le> 0 then (s, None)
      else (let free = freeUnits (gs_unitJob s) units
            in if int (length free) < units then (s, None)
               else (let s' = s\<lparr>gs_unitJob := updAll (\<lambda>_. job) free (gs_unitJob s),
                                 gs_jobUnits := (gs_jobUnits s)(job \<mapsto> free),
                                 gs_jobUtil := (gs_jobUtil s)(job \<mapsto> clamp01 util)\<rparr>
                     in (s', Some (devicesOf s' job)))))"

definition gpuRelease :: "GPUSlots \<Rightarrow> string \<Rightarrow> GPUSlots" where
  "gpuRelease s job =
     s\<lparr>gs_unitJob := updAll (\<lambda>_. []) (unitsOf s job) (gs_unitJob s),
       gs_jobUnits := (gs_jobUnits s)(job := None),
       gs_jobUtil := (gs_jobUtil s)(job := None)\<rparr>"

definition deviceSum :: "GPUSlots \<Rightarrow> nat \<Rightarrow> f64" where
  "deviceSum s d =
     sum_list (map (\<lambda>k. let job = gs_unitJob s ! k in if job \<noteq> [] then mapGetF (gs_jobUtil s) job else 0)
       [d * nat (gs_perDev s)..<(d + 1) * nat (gs_perDev s)])"

definition DeviceUtil :: "GPUSlots \<Rightarrow> f64 list" where
  "DeviceUtil s =
     map (\<lambda>d. if gs_sharing s = SharingMIG then deviceSum s d / of_int (gs_perDev s) else min 1 (deviceSum s d)) [0..<Devices s]"

definition gpuShare :: "GPUSlots \<Rightarrow> string \<Rightarrow> f64" where
  "gpuShare s job =
     (if gs_sharing s \<noteq> SharingTimeslice then 1
      else fold (\<lambda>u share. let sm = deviceSum s (du_device u) in if sm > 1 then min share (1 / sm) else share) (Uses s job) 1)"

section \<open>A pool of slots\<close>

text \<open>What a job may do with a pool: take slots (which may fail), give them back. \<open>holding\<close> is what a job holds.\<close>

datatype 'a poolOp = Take string 'a | Give string

primrec poolStep :: "('s \<Rightarrow> string \<Rightarrow> 'a \<Rightarrow> 's) \<Rightarrow> ('s \<Rightarrow> string \<Rightarrow> 's) \<Rightarrow> 's \<Rightarrow> 'a poolOp \<Rightarrow> 's" where
  "poolStep assign release s (Take job a) = assign s job a"
| "poolStep assign release s (Give job) = release s job"

primrec okStep :: "(string \<Rightarrow> bool) \<Rightarrow> 'a poolOp \<Rightarrow> bool" where
  "okStep ok (Take job a) = ok job"
| "okStep ok (Give job) = True"

locale slot_pool =
  fixes pinv :: "'s \<Rightarrow> bool"
    and holding :: "'s \<Rightarrow> string \<Rightarrow> nat list option"
    and assign :: "'s \<Rightarrow> string \<Rightarrow> 'a \<Rightarrow> 's"
    and release :: "'s \<Rightarrow> string \<Rightarrow> 's"
    and okJob :: "string \<Rightarrow> bool"
  assumes assign_inv: "pinv s \<Longrightarrow> okJob job \<Longrightarrow> pinv (assign s job a)"
    and release_inv: "pinv s \<Longrightarrow> pinv (release s job)"
    and assign_keeps: "holding s job = Some ks \<Longrightarrow> assign s job a = s"
    and assign_other: "job' \<noteq> job \<Longrightarrow> holding (assign s job a) job' = holding s job'"
    and release_holding: "holding (release s job) = (holding s)(job := None)"
begin

lemma run_inv: "pinv s \<Longrightarrow> \<forall>x\<in>set xs. okStep okJob x \<Longrightarrow> pinv (foldl (poolStep assign release) s xs)"
proof (induction xs arbitrary: s)
  case (Cons x xs)
  then have "pinv (poolStep assign release s x)" by (cases x) (auto intro: assign_inv release_inv)
  then show ?case using Cons by simp
qed simp

text \<open>A job keeps exactly the slots it got until it gives them back, whatever the others do.\<close>

lemma run_holding:
  "holding s job = Some ks \<Longrightarrow> Give job \<notin> set xs \<Longrightarrow> holding (foldl (poolStep assign release) s xs) job = Some ks"
proof (induction xs arbitrary: s)
  case (Cons x xs)
  have "holding (poolStep assign release s x) job = Some ks"
  proof (cases x)
    case (Take j a)
    then show ?thesis using Cons.prems(1) assign_keeps assign_other by (cases "j = job") auto
  next
    case (Give j)
    then show ?thesis using Cons.prems by (auto simp: release_holding)
  qed
  then show ?case using Cons by simp
qed simp

end

section \<open>Invariants\<close>

lemma length_updAll [simp]: "length (updAll f cs xs) = length xs"
  unfolding updAll_def by (induction cs arbitrary: xs) auto

lemma nth_updAll:
  "distinct cs \<Longrightarrow> i < length xs \<Longrightarrow> updAll f cs xs ! i = (if i \<in> set cs then f (xs ! i) else xs ! i)"
  unfolding updAll_def
proof (induction cs arbitrary: xs)
  case (Cons c cs)
  then show ?case by (cases "i = c") auto
qed simp

lemma updAll_eq_Nil [simp]: "updAll f cs xs = [] \<longleftrightarrow> xs = []"
  by (metis length_updAll length_0_conv)

definition goodSlots :: "nat \<Rightarrow> nat list \<Rightarrow> bool" where
  "goodSlots n ks \<longleftrightarrow> ks \<noteq> [] \<and> distinct ks \<and> sorted ks \<and> set ks \<subseteq> {..<n}"

definition cpuInv :: "CPUSlots \<Rightarrow> bool" where
  "cpuInv s \<longleftrightarrow>
     (\<forall>job cpus. cs_held s job = Some cpus \<longrightarrow> goodSlots (length (cs_holders s)) cpus) \<and>
     (\<forall>c<length (cs_holders s). distinct (cs_holders s ! c) \<and>
        (\<forall>job. job \<in> set (cs_holders s ! c) \<longleftrightarrow> (\<exists>cpus. cs_held s job = Some cpus \<and> c \<in> set cpus))) \<and>
     (\<forall>job. 0 \<le> mapGetF (cs_request s) job) \<and> dom (cs_request s) = dom (cs_held s)"

definition gpuInv :: "GPUSlots \<Rightarrow> bool" where
  "gpuInv s \<longleftrightarrow>
     (\<forall>job ks. gs_jobUnits s job = Some ks \<longrightarrow> job \<noteq> [] \<and> goodSlots (length (gs_unitJob s)) ks) \<and>
     (\<forall>k<length (gs_unitJob s). \<forall>job. job \<noteq> [] \<longrightarrow>
        (gs_unitJob s ! k = job \<longleftrightarrow> (\<exists>ks. gs_jobUnits s job = Some ks \<and> k \<in> set ks))) \<and>
     (\<forall>job. 0 \<le> mapGetF (gs_jobUtil s) job \<and> mapGetF (gs_jobUtil s) job \<le> 1) \<and> dom (gs_jobUtil s) = dom (gs_jobUnits s) \<and>
     (\<exists>devices. length (gs_unitJob s) = devices * nat (gs_perDev s))"

lemma mapGetF_upd: "mapGetF (m(k \<mapsto> v)) j = (if j = k then v else mapGetF m j)" "mapGetF (m(k := None)) j = (if j = k then 0 else mapGetF m j)"
  by (auto simp: mapGetF_def)

lemma cpuInv_new: "cpuInv (NewCPUSlots n)"
  by (simp add: cpuInv_def NewCPUSlots_def mapGetF_def)

lemma gpuInv_new: "gpuInv (NewGPUSlots n exposure u)"
  by (auto simp: gpuInv_def NewGPUSlots_def mapGetF_def Let_def nat_mult_distrib)

lemma cpuOrder_perm: "distinct (cpuOrder hs)" "set (cpuOrder hs) = {..<length hs}" "length (cpuOrder hs) = length hs"
  by (auto simp: cpuOrder_def)

lemma cpuWant_bounds: "0 < n \<Longrightarrow> 1 \<le> cpuWant n request \<and> cpuWant n request \<le> n"
  by (simp add: cpuWant_def go_ceil_def le_nat_iff nat_le_iff)

definition cpuChoice :: "string list list \<Rightarrow> f64 \<Rightarrow> nat list" where
  "cpuChoice hs request = sort (take (cpuWant (length hs) request) (cpuOrder hs))"

lemma cpuChoice_good:
  assumes "hs \<noteq> []"
  shows "goodSlots (length hs) (cpuChoice hs request)"
proof -
  have "0 < cpuWant (length hs) request" using cpuWant_bounds[of "length hs" request] assms by simp
  then have "0 < length (cpuChoice hs request)" using cpuOrder_perm(3)[of hs] assms by (simp add: cpuChoice_def)
  moreover have "set (take (cpuWant (length hs) request) (cpuOrder hs)) \<subseteq> {..<length hs}"
    using set_take_subset[of _ "cpuOrder hs"] cpuOrder_perm(2)[of hs] by blast
  ultimately show ?thesis unfolding goodSlots_def
    by (intro conjI) (auto simp: cpuChoice_def cpuOrder_perm(1) simp flip: length_greater_0_conv)
qed

lemma cpuChoice_length: "hs \<noteq> [] \<Longrightarrow> length (cpuChoice hs request) = cpuWant (length hs) request"
  using cpuWant_bounds[of "length hs" request] by (simp add: cpuChoice_def cpuOrder_perm)

lemma cpuAssign_new:
  assumes "cs_held s job = None" and "cs_holders s \<noteq> []"
  shows "cpuAssign s job request =
    (s\<lparr>cs_holders := updAll (\<lambda>h. h @ [job]) (cpuChoice (cs_holders s) request) (cs_holders s),
       cs_held := (cs_held s)(job \<mapsto> cpuChoice (cs_holders s) request),
       cs_request := (cs_request s)(job \<mapsto> (if request > 0 then request else 0))\<rparr>, cpuChoice (cs_holders s) request)"
  using assms by (simp add: cpuAssign_def cpuChoice_def Let_def)

lemma cpuAssign_old: "cs_held s job = Some cpus \<Longrightarrow> cpuAssign s job request = (s, cpus)"
  by (simp add: cpuAssign_def)

lemma cpuAssign_empty: "cs_held s job = None \<Longrightarrow> cs_holders s = [] \<Longrightarrow> cpuAssign s job request = (s, [])"
  by (simp add: cpuAssign_def)

lemma cpuAssign_inv:
  assumes inv: "cpuInv s"
  shows "cpuInv (fst (cpuAssign s job request))"
proof (cases "cs_held s job = None \<and> cs_holders s \<noteq> []")
  case True
  let ?hs = "cs_holders s" and ?cpus = "cpuChoice (cs_holders s) request"
  have good: "goodSlots (length ?hs) ?cpus" using True by (simp add: cpuChoice_good)
  then have d: "distinct ?cpus" by (simp add: goodSlots_def)
  have notin: "job \<notin> set (?hs ! c)" if "c < length ?hs" for c using inv that True by (auto simp: cpuInv_def)
  have m: "0 \<le> mapGetF ((cs_request s)(job \<mapsto> (if request > 0 then request else 0))) j" for j
    using inv by (auto simp: cpuInv_def mapGetF_upd)
  show ?thesis
    using inv True good notin m unfolding cpuInv_def by (auto simp: cpuAssign_new nth_updAll[OF d])
next
  case False
  then show ?thesis using inv by (cases "cs_held s job") (auto simp: cpuAssign_old cpuAssign_empty)
qed

lemma cpuRelease_inv:
  assumes inv: "cpuInv s"
  shows "cpuInv (cpuRelease s job)"
proof -
  let ?cpus = "case cs_held s job of Some cpus \<Rightarrow> cpus | None \<Rightarrow> []"
  have d: "distinct ?cpus" using inv by (auto simp: cpuInv_def goodSlots_def split: option.split)
  have m: "0 \<le> mapGetF ((cs_request s)(job := None)) j" for j using inv by (auto simp: cpuInv_def mapGetF_upd)
  show ?thesis
    using inv m unfolding cpuRelease_def cpuInv_def
    by (auto simp: nth_updAll[OF d] in_set_remove1 split: option.splits if_splits)
qed

lemma freeUnits_good:
  assumes "0 < units" and "\<not> int (length (freeUnits owners units)) < units"
  shows "goodSlots (length owners) (freeUnits owners units)" "\<forall>k\<in>set (freeUnits owners units). owners ! k = []"
    "length (freeUnits owners units) = nat units"
proof -
  have "set (freeUnits owners units) \<subseteq> set (filter (\<lambda>k. owners ! k = []) [0..<length owners])"
    unfolding freeUnits_def by (rule set_take_subset)
  then have sub: "k < length owners \<and> owners ! k = []" if "k \<in> set (freeUnits owners units)" for k using that by auto
  then show "\<forall>k\<in>set (freeUnits owners units). owners ! k = []" by blast
  have "freeUnits owners units \<noteq> []" using assms by auto
  moreover have "distinct (freeUnits owners units)" "sorted (freeUnits owners units)"
    by (simp_all add: freeUnits_def sorted_wrt_take sorted_wrt_filter)
  ultimately show "goodSlots (length owners) (freeUnits owners units)" using sub by (auto simp: goodSlots_def)
  show "length (freeUnits owners units) = nat units" using assms by (simp add: freeUnits_def)
qed

lemma gpuAssign_new:
  assumes "gs_jobUnits s job = None" and "0 < units" and "\<not> int (length (freeUnits (gs_unitJob s) units)) < units"
  shows "fst (gpuAssign s job units util) =
    s\<lparr>gs_unitJob := updAll (\<lambda>_. job) (freeUnits (gs_unitJob s) units) (gs_unitJob s),
      gs_jobUnits := (gs_jobUnits s)(job \<mapsto> freeUnits (gs_unitJob s) units),
      gs_jobUtil := (gs_jobUtil s)(job \<mapsto> clamp01 util)\<rparr>"
    "snd (gpuAssign s job units util) \<noteq> None"
  using assms by (simp_all add: gpuAssign_def Let_def)

lemma gpuAssign_same:
  "gs_jobUnits s job \<noteq> None \<or> units \<le> 0 \<or> int (length (freeUnits (gs_unitJob s) units)) < units \<Longrightarrow> fst (gpuAssign s job units util) = s"
  by (auto simp: gpuAssign_def Let_def)

lemma gpuAssign_inv:
  assumes inv: "gpuInv s" and job: "job \<noteq> []"
  shows "gpuInv (fst (gpuAssign s job units util))"
proof (cases "gs_jobUnits s job \<noteq> None \<or> units \<le> 0 \<or> int (length (freeUnits (gs_unitJob s) units)) < units")
  case False
  let ?us = "gs_unitJob s" and ?free = "freeUnits (gs_unitJob s) units"
  have new: "gs_jobUnits s job = None" "0 < units" "\<not> int (length ?free) < units" using False by auto
  note good = freeUnits_good[OF new(2,3)]
  have d: "distinct ?free" using good(1) by (simp add: goodSlots_def)
  have m: "0 \<le> mapGetF ((gs_jobUtil s)(job \<mapsto> clamp01 util)) j \<and> mapGetF ((gs_jobUtil s)(job \<mapsto> clamp01 util)) j \<le> 1" for j
    using inv clamp01_bounds by (auto simp: gpuInv_def mapGetF_upd)
  have own: "updAll (\<lambda>_. job) ?free ?us ! k = j \<longleftrightarrow> (\<exists>ks. ((gs_jobUnits s)(job \<mapsto> ?free)) j = Some ks \<and> k \<in> set ks)"
    if "k < length ?us" "j \<noteq> []" for k j
  proof (cases "j = job")
    case True
    then show ?thesis using inv that new(1) by (auto simp: gpuInv_def nth_updAll[OF d])
  next
    case False
    have "?us ! k = j \<longleftrightarrow> (\<exists>ks. gs_jobUnits s j = Some ks \<and> k \<in> set ks)" using inv that by (auto simp: gpuInv_def)
    then show ?thesis using False that good(2) by (auto simp: nth_updAll[OF d])
  qed
  show ?thesis
    unfolding gpuAssign_new(1)[OF new] gpuInv_def using inv own good(1) m job
    by (intro conjI) (auto simp: gpuInv_def)
qed (simp only: gpuAssign_same inv)

lemma gpuRelease_inv:
  assumes inv: "gpuInv s"
  shows "gpuInv (gpuRelease s job)"
proof -
  let ?us = "gs_unitJob s" and ?ks = "unitsOf s job"
  have d: "distinct ?ks" using inv by (auto simp: gpuInv_def goodSlots_def unitsOf_def split: option.split)
  have m: "0 \<le> mapGetF ((gs_jobUtil s)(job := None)) j \<and> mapGetF ((gs_jobUtil s)(job := None)) j \<le> 1" for j
    using inv by (auto simp: gpuInv_def mapGetF_upd)
  have own: "updAll (\<lambda>_. []) ?ks ?us ! k = j \<longleftrightarrow> (\<exists>ks. ((gs_jobUnits s)(job := None)) j = Some ks \<and> k \<in> set ks)"
    if k: "k < length ?us" "j \<noteq> []" for k j
  proof -
    have o: "?us ! k = i \<longleftrightarrow> (\<exists>ks. gs_jobUnits s i = Some ks \<and> k \<in> set ks)" if "i \<noteq> []" for i using inv k that by (auto simp: gpuInv_def)
    have "k \<in> set ?ks \<longleftrightarrow> job \<noteq> [] \<and> ?us ! k = job"
      using o[of job] inv by (cases "gs_jobUnits s job") (auto simp: unitsOf_def gpuInv_def)
    then have "updAll (\<lambda>_. []) ?ks ?us ! k = j \<longleftrightarrow> ?us ! k = j \<and> j \<noteq> job" using k by (auto simp: nth_updAll[OF d k(1)])
    then show ?thesis using o[OF k(2)] by auto
  qed
  show ?thesis
    unfolding gpuRelease_def gpuInv_def using inv own m by (intro conjI) (auto simp: gpuInv_def)
qed

lemma release_held:
  "cs_held (cpuRelease s job) = (cs_held s)(job := None)" "gs_jobUnits (gpuRelease g job) = (gs_jobUnits g)(job := None)"
  by (simp_all add: cpuRelease_def gpuRelease_def)

interpretation cpu: slot_pool cpuInv cs_held "\<lambda>s job request. fst (cpuAssign s job request)" cpuRelease "\<lambda>_. True"
proof
  fix s :: CPUSlots and job job' :: string and a
  show "job' \<noteq> job \<Longrightarrow> cs_held (fst (cpuAssign s job a)) job' = cs_held s job'"
    by (simp add: cpuAssign_def Let_def split: option.split)
qed (simp_all add: cpuAssign_inv cpuRelease_inv cpuAssign_old release_held)

interpretation gpu: slot_pool gpuInv gs_jobUnits "\<lambda>s job (units, util). fst (gpuAssign s job units util)" gpuRelease "\<lambda>job. job \<noteq> []"
proof
  fix s :: GPUSlots and job job' :: string and a :: "int \<times> f64"
  show "job' \<noteq> job \<Longrightarrow> gs_jobUnits (case a of (units, util) \<Rightarrow> fst (gpuAssign s job units util)) job' = gs_jobUnits s job'"
    by (simp add: gpuAssign_def Let_def split: prod.split)
qed (auto simp: gpuAssign_inv gpuRelease_inv gpuAssign_same release_held)

section \<open>What the CPUs run\<close>

lemma cpuInv_finite:
  assumes "cpuInv s"
  shows "finite (dom (cs_held s))"
proof (rule finite_subset)
  show "dom (cs_held s) \<subseteq> (\<Union>c<length (cs_holders s). set (cs_holders s ! c))"
  proof
    fix job assume "job \<in> dom (cs_held s)"
    then obtain cpus where h: "cs_held s job = Some cpus" by blast
    then have "goodSlots (length (cs_holders s)) cpus" using assms by (auto simp: cpuInv_def)
    then have "hd cpus \<in> set cpus" "hd cpus < length (cs_holders s)"
      using hd_in_set[of cpus] unfolding goodSlots_def by blast+
    then show "job \<in> (\<Union>c<length (cs_holders s). set (cs_holders s ! c))" using h assms by (auto simp: cpuInv_def)
  qed
qed simp

lemma demand_total:
  assumes inv: "cpuInv s"
  shows "sum_list (demand s util) = (\<Sum>job\<in>dom (cs_held s). clamp01 (mapGetF util job) * mapGetF (cs_request s) job)"
proof -
  let ?n = "length (cs_holders s)" and ?J = "dom (cs_held s)" and ?ask = "cpuAsk s util"
  have fin: "finite ?J" using inv by (rule cpuInv_finite)
  have row: "sum_list (map ?ask (cs_holders s ! c)) = (\<Sum>job\<in>?J. if c \<in> set (CPUs s job) then ?ask job else 0)" if "c < ?n" for c
  proof -
    have "distinct (cs_holders s ! c)" "set (cs_holders s ! c) = {job \<in> ?J. c \<in> set (CPUs s job)}"
      using inv that by (auto simp: cpuInv_def CPUs_def)
    then show ?thesis using fin by (simp add: sum_list_distinct_conv_sum_set sum.inter_filter)
  qed
  have column: "(\<Sum>c<?n. if c \<in> set (CPUs s job) then ?ask job else 0) = clamp01 (mapGetF util job) * mapGetF (cs_request s) job"
    if "job \<in> ?J" for job
  proof -
    have g: "goodSlots ?n (CPUs s job)" using inv that by (auto simp: cpuInv_def CPUs_def)
    then have "{c \<in> {..<?n}. c \<in> set (CPUs s job)} = set (CPUs s job)" by (auto simp: goodSlots_def)
    then have "(\<Sum>c<?n. if c \<in> set (CPUs s job) then ?ask job else 0) = real (card (set (CPUs s job))) * ?ask job"
      by (simp flip: sum.inter_filter)
    also have "card (set (CPUs s job)) = length (CPUs s job)" using g by (simp add: goodSlots_def distinct_card)
    finally show ?thesis using g by (simp add: cpuAsk_def goodSlots_def)
  qed
  have "sum_list (demand s util) = (\<Sum>c<?n. sum_list (map ?ask (cs_holders s ! c)))"
    by (simp add: demand_def sum_list_sum_nth atLeast0LessThan)
  also have "\<dots> = (\<Sum>c<?n. \<Sum>job\<in>?J. if c \<in> set (CPUs s job) then ?ask job else 0)" using row by simp
  also have "\<dots> = (\<Sum>job\<in>?J. \<Sum>c<?n. if c \<in> set (CPUs s job) then ?ask job else 0)" by (rule sum.swap)
  also have "\<dots> = (\<Sum>job\<in>?J. clamp01 (mapGetF util job) * mapGetF (cs_request s) job)" using column by simp
  finally show ?thesis .
qed

lemma demand_nonneg:
  assumes "cpuInv s" and "d \<in> set (demand s util)"
  shows "0 \<le> d"
proof -
  have "0 \<le> cpuAsk s util job" for job
    using assms(1) clamp01_bounds(1)[of "mapGetF util job"] by (simp add: cpuAsk_def cpuInv_def)
  then show ?thesis using assms(2) by (auto simp: demand_def intro!: sum_list_nonneg)
qed

text \<open>Moving the excess to where there is room: the sum is kept as long as there is room, and each entry ends between 0 and 1.\<close>

definition overOf :: "f64 list \<Rightarrow> f64" where
  "overOf out = sum_list (map (\<lambda>d. if d > 1 then d - 1 else 0) out)"

definition spareOf :: "f64 list \<Rightarrow> f64" where
  "spareOf out = sum_list (map (\<lambda>d. if d > 1 then 0 else 1 - d) out)"

lemma over_spare: "sum_list out + spareOf out = real (length out) + overOf out"
  by (induction out) (auto simp: overOf_def spareOf_def)

lemma over_spare_nonneg: "0 \<le> overOf out" "0 \<le> spareOf out"
  unfolding overOf_def spareOf_def by (auto intro!: sum_list_nonneg)

lemma overOf_zero: "overOf out = 0 \<Longrightarrow> d \<in> set out \<Longrightarrow> d \<le> 1"
proof (rule ccontr)
  assume o: "overOf out = 0" "d \<in> set out" "\<not> d \<le> 1"
  then obtain xs ys where "out = xs @ d # ys" by (meson split_list)
  then show False using o over_spare_nonneg(1)[of xs] over_spare_nonneg(1)[of ys] by (simp add: overOf_def)
qed

lemma fill_sum: "sum_list (map (\<lambda>d. if d \<ge> 1 then 1 else d + (1 - d) * fill) out) = sum_list out - overOf out + spareOf out * fill"
  by (induction out) (auto simp: overOf_def spareOf_def algebra_simps)

lemma Util_over:
  "Util s util = (let out = demand s util in if overOf out = 0 then out
     else map (\<lambda>d. if d \<ge> 1 then 1 else d + (1 - d) * (if overOf out < spareOf out then overOf out / spareOf out else 1)) out)"
  by (simp add: Util_def overOf_def spareOf_def Let_def)

lemma fill_bounds:
  fixes f d :: real
  assumes "0 \<le> f" "f \<le> 1" "0 \<le> d" "d < 1"
  shows "0 \<le> d + (1 - d) * f \<and> d + (1 - d) * f \<le> 1"
proof -
  define x where "x = (1 - d) * f"
  have "x \<le> (1 - d) * 1" "0 \<le> x" unfolding x_def using assms by (intro mult_left_mono mult_nonneg_nonneg; simp)+
  then show ?thesis using assms(3) unfolding x_def[symmetric] by simp
qed

lemma Util_bounds:
  assumes "cpuInv s" and "u \<in> set (Util s util)"
  shows "0 \<le> u \<and> u \<le> 1"
proof (cases "overOf (demand s util) = 0")
  case True
  then show ?thesis using assms demand_nonneg overOf_zero by (auto simp: Util_over)
next
  case False
  let ?out = "demand s util"
  let ?f = "if overOf ?out < spareOf ?out then overOf ?out / spareOf ?out else 1"
  have f: "0 \<le> ?f" "?f \<le> 1" using over_spare_nonneg[of ?out] by auto
  have "u \<in> (\<lambda>d. if d \<ge> 1 then 1 else d + (1 - d) * ?f) ` set ?out" using False assms(2) by (simp add: Util_over Let_def)
  then obtain d where d: "0 \<le> d" "u = (if d \<ge> 1 then 1 else d + (1 - d) * ?f)" using demand_nonneg[OF assms(1)] by blast
  show ?thesis using d(1) fill_bounds[OF f, of d] unfolding d(2) by (cases "d \<ge> 1") (simp_all only: if_True if_False, simp_all)
qed

lemma Util_total: "sum_list (Util s util) = min (real (length (cs_holders s))) (sum_list (demand s util))"
proof -
  let ?out = "demand s util"
  have len: "length ?out = length (cs_holders s)" by (simp add: demand_def)
  note bal = over_spare[of ?out] over_spare_nonneg[of ?out]
  show ?thesis
  proof (cases "overOf ?out = 0")
    case True
    then show ?thesis using bal len by (simp add: Util_over)
  next
    case False
    then show ?thesis using bal len by (auto simp: Util_over Let_def fill_sum)
  qed
qed

text \<open>A run of the CPU slots: jobs that start with a request and jobs that end.\<close>

definition cpuRun :: "int \<Rightarrow> f64 poolOp list \<Rightarrow> CPUSlots" where
  "cpuRun cpus steps = foldl (poolStep (\<lambda>s job request. fst (cpuAssign s job request)) cpuRelease) (NewCPUSlots cpus) steps"

lemma cpuRun_inv: "cpuInv (cpuRun cpus steps)"
proof -
  have "okStep (\<lambda>_. True) x" for x :: "f64 poolOp" by (cases x) simp_all
  then show ?thesis unfolding cpuRun_def by (intro cpu.run_inv cpuInv_new) blast
qed

lemma cpu_length: "length (cs_holders (fst (cpuAssign s job r))) = length (cs_holders s)" "length (cs_holders (cpuRelease s job)) = length (cs_holders s)"
  by (simp_all add: cpuAssign_def cpuRelease_def Let_def split: option.split)

lemma cpuRun_length: "length (cs_holders (cpuRun cpus steps)) = nat cpus"
proof (induction steps rule: rev_induct)
  case (snoc x steps)
  then show ?case by (cases x) (simp_all add: cpuRun_def cpu_length)
qed (simp add: cpuRun_def NewCPUSlots_def)

text \<open>C33: However jobs come and go on a node, the utilization of its CPUs is between 0 and 1 for each, adds up to what the running
  jobs ask for together (utilization times request) or to the number of CPUs where they ask for more, and the share every job is slowed
  by is exactly what that gives: the share of what is asked is what the CPUs run.\<close>

theorem cpu_util_adds_up:
  assumes "s = cpuRun cpus steps"
    and "asked = (\<Sum>job | Holds s job. clamp01 (mapGetF util job) * mapGetF (cs_request s) job)"
  shows "sum_list (Util s util) = min (real (nat cpus)) asked \<and> (\<forall>u\<in>set (Util s util). 0 \<le> u \<and> u \<le> 1)
    \<and> cpuShare s util * asked = sum_list (Util s util) \<and> 0 \<le> cpuShare s util \<and> cpuShare s util \<le> 1"
proof -
  have inv: "cpuInv s" and len: "length (cs_holders s) = nat cpus" unfolding assms(1) by (rule cpuRun_inv cpuRun_length)+
  have "dom (cs_held s) = {job. Holds s job}" by (auto simp: Holds_def)
  then have dem: "sum_list (demand s util) = asked" unfolding assms(2) by (simp add: demand_total[OF inv])
  have "0 \<le> asked" unfolding dem[symmetric] using demand_nonneg[OF inv] by (intro sum_list_nonneg) blast
  then have "cpuShare s util * asked = min (real (nat cpus)) asked" "0 \<le> cpuShare s util" "cpuShare s util \<le> 1"
    by (auto simp: cpuShare_def dem len Let_def)
  then show ?thesis using Util_total[of s util] Util_bounds[OF inv] by (auto simp: dem len)
qed

theorem cpu_util_adds_up_witness:
  "sum_list (Util (cpuRun 4 [Take ''a'' 2, Take ''b'' (1/2), Give ''a'']) (\<lambda>_. Some 1)) \<le> 4"
  using cpu_util_adds_up[OF refl refl, of 4 "[Take ''a'' 2, Take ''b'' (1/2), Give ''a'']" "\<lambda>_. Some 1"] by simp

text \<open>A job that starts gets as many CPUs as its request rounds up to, at least one and at most the node's, and they are the
  least shared: no CPU it was not given has fewer holders than one it was given, so it shares a CPU only where fewer CPUs are free than
  it needs. A job that already runs keeps what it holds.\<close>

theorem cpuAssign_least_shared:
  assumes "cpuInv s" and "cpuAssign s job request = (s', cpus)" and "cs_holders s \<noteq> []"
  shows "CPUs s' job = cpus \<and> (Holds s job \<longrightarrow> s' = s)
    \<and> (\<not> Holds s job \<longrightarrow> length cpus = cpuWant (length (cs_holders s)) request \<and> distinct cpus \<and> sorted cpus
        \<and> (\<forall>c\<in>set cpus. c < length (cs_holders s) \<and> cs_holders s' ! c = cs_holders s ! c @ [job]
            \<and> (\<forall>c'<length (cs_holders s). c' \<notin> set cpus \<longrightarrow> cs_holders s' ! c' = cs_holders s ! c'
                \<and> length (cs_holders s ! c) \<le> length (cs_holders s ! c'))))"
proof (cases "cs_held s job")
  case (Some held)
  then show ?thesis using assms(2) by (auto simp: cpuAssign_old CPUs_def Holds_def)
next
  case None
  let ?hs = "cs_holders s" and ?w = "cpuWant (length (cs_holders s)) request"
  have new: "cpus = cpuChoice ?hs request" "cs_holders s' = updAll (\<lambda>h. h @ [job]) cpus ?hs" "CPUs s' job = cpus"
    using cpuAssign_new[OF None assms(3), of request] assms(2) by (auto simp: CPUs_def)
  have good: "goodSlots (length ?hs) cpus" unfolding new(1) using assms(3) by (rule cpuChoice_good)
  have order: "length (?hs ! c) \<le> length (?hs ! c')" if "c \<in> set cpus" "c' < length ?hs" "c' \<notin> set cpus" for c c'
  proof -
    have "sorted (map (\<lambda>c. length (?hs ! c)) (cpuOrder ?hs))" by (simp add: cpuOrder_def)
    then have "sorted_wrt (\<lambda>a b. length (?hs ! a) \<le> length (?hs ! b)) (take ?w (cpuOrder ?hs) @ drop ?w (cpuOrder ?hs))"
      by (simp add: sorted_wrt_map)
    moreover have "c \<in> set (take ?w (cpuOrder ?hs))" using that(1) by (simp add: new(1) cpuChoice_def)
    moreover have "c' \<in> set (take ?w (cpuOrder ?hs) @ drop ?w (cpuOrder ?hs))" "c' \<notin> set (take ?w (cpuOrder ?hs))"
      using that(2,3) cpuOrder_perm(2)[of ?hs] by (simp_all add: new(1) cpuChoice_def)
    then have "c' \<in> set (drop ?w (cpuOrder ?hs))" unfolding set_append by blast
    ultimately show ?thesis unfolding sorted_wrt_append by blast
  qed
  have "cs_holders s' ! c = (if c \<in> set cpus then ?hs ! c @ [job] else ?hs ! c)" if "c < length ?hs" for c
    unfolding new(2) using good that by (simp add: nth_updAll goodSlots_def)
  then show ?thesis
    using None new(3) good order cpuChoice_length[OF assms(3), of request] by (auto simp: Holds_def new(1) goodSlots_def)
qed

theorem cpuAssign_least_shared_witness:
  "length (snd (cpuAssign (NewCPUSlots 4) ''a'' (3/2))) = 2"
proof -
  have w: "cpuWant 4 (3/2) = 2" by (simp add: cpuWant_def go_ceil_def)
  show ?thesis
    using cpuAssign_least_shared[of "NewCPUSlots 4" "''a''" "3/2" "fst (cpuAssign (NewCPUSlots 4) ''a'' (3/2))"
        "snd (cpuAssign (NewCPUSlots 4) ''a'' (3/2))"] cpuInv_new[of 4] w
    by (simp add: NewCPUSlots_def Holds_def)
qed

section \<open>What the GPUs run\<close>

definition gpuRun :: "int \<Rightarrow> string \<Rightarrow> int \<Rightarrow> (int \<times> f64) poolOp list \<Rightarrow> GPUSlots" where
  "gpuRun devices exposure perDevice steps =
     foldl (poolStep (\<lambda>s job (units, util). fst (gpuAssign s job units util)) gpuRelease) (NewGPUSlots devices exposure perDevice) steps"

lemma gpuRun_inv: "\<forall>x\<in>set steps. okStep (\<lambda>job. job \<noteq> []) x \<Longrightarrow> gpuInv (gpuRun devices exposure perDevice steps)"
  unfolding gpuRun_def by (intro gpu.run_inv gpuInv_new)

lemma gpuInv_disjoint:
  assumes "gpuInv s" and "gs_jobUnits s job = Some ks" and "gs_jobUnits s job' = Some ks'" and "k \<in> set ks" and "k \<in> set ks'"
  shows "job = job'"
proof -
  have "k < length (gs_unitJob s)" "job \<noteq> []" "job' \<noteq> []" using assms by (auto simp: gpuInv_def goodSlots_def)
  then have "gs_unitJob s ! k = job" "gs_unitJob s ! k = job'" using assms unfolding gpuInv_def by blast+
  then show ?thesis by simp
qed

lemma useUnits_devices: "du_device ` set (useUnits ds out) = set ds \<union> du_device ` set out"
  by (induction ds out rule: useUnits.induct) auto

lemma Uses_devices: "du_device ` set (Uses s job) = (\<lambda>k. k div nat (gs_perDev s)) ` set (unitsOf s job)"
  by (simp add: Uses_def useUnits_devices)

text \<open>The units of a device, and what their jobs ask of it.\<close>

definition devUnits :: "GPUSlots \<Rightarrow> nat \<Rightarrow> nat list" where
  "devUnits s d = [d * nat (gs_perDev s)..<(d + 1) * nat (gs_perDev s)]"

definition unitUtil :: "GPUSlots \<Rightarrow> nat \<Rightarrow> f64" where
  "unitUtil s k = (if gs_unitJob s ! k \<noteq> [] then mapGetF (gs_jobUtil s) (gs_unitJob s ! k) else 0)"

lemma deviceSum_units: "deviceSum s d = sum_list (map (unitUtil s) (devUnits s d))"
  by (simp add: deviceSum_def unitUtil_def devUnits_def Let_def cong: map_cong)

lemma unitUtil_bounds: "gpuInv s \<Longrightarrow> 0 \<le> unitUtil s k \<and> unitUtil s k \<le> 1"
  by (auto simp: unitUtil_def gpuInv_def)

lemma sum_list_le_length: "(\<And>x. x \<in> set xs \<Longrightarrow> f x \<le> (1 :: real)) \<Longrightarrow> sum_list (map f xs) \<le> real (length xs)"
  by (induction xs) (auto intro: add_mono)

lemma deviceSum_bounds:
  assumes "gpuInv s"
  shows "0 \<le> deviceSum s d" "deviceSum s d \<le> real (nat (gs_perDev s))"
proof -
  show "0 \<le> deviceSum s d" unfolding deviceSum_units using unitUtil_bounds[OF assms] by (intro sum_list_nonneg) auto
  have "deviceSum s d \<le> real (length (devUnits s d))"
    unfolding deviceSum_units using unitUtil_bounds[OF assms] by (intro sum_list_le_length) blast
  then show "deviceSum s d \<le> real (nat (gs_perDev s))" by (simp add: devUnits_def)
qed

lemma Devices_pos:
  assumes "d < Devices s"
  shows "0 < gs_perDev s"
proof (rule ccontr)
  assume n: "\<not> 0 < gs_perDev s"
  then have "0 \<le> int (length (gs_unitJob s)) div - gs_perDev s" by (cases "gs_perDev s = 0") (auto simp: pos_imp_zdiv_nonneg_iff)
  then show False using assms n by (auto simp: Devices_def go_div_def sgn_if split: if_splits)
qed

definition shareStep :: "GPUSlots \<Rightarrow> DeviceUse \<Rightarrow> f64 \<Rightarrow> f64" where
  "shareStep s u share = (if deviceSum s (du_device u) > 1 then min share (1 / deviceSum s (du_device u)) else share)"

lemma gpuShare_fold: "gpuShare s job = (if gs_sharing s \<noteq> SharingTimeslice then 1 else fold (shareStep s) (Uses s job) 1)"
  by (simp add: gpuShare_def shareStep_def[abs_def] Let_def)

lemma fold_shareStep:
  "0 < x \<Longrightarrow> 0 < fold (shareStep s) us x \<and> fold (shareStep s) us x \<le> x
    \<and> (\<forall>u\<in>set us. deviceSum s (du_device u) > 1 \<longrightarrow> fold (shareStep s) us x \<le> 1 / deviceSum s (du_device u))"
proof (induction us arbitrary: x)
  case (Cons u us)
  have "0 < shareStep s u x" "shareStep s u x \<le> x" "deviceSum s (du_device u) > 1 \<Longrightarrow> shareStep s u x \<le> 1 / deviceSum s (du_device u)"
    using Cons.prems by (auto simp: shareStep_def)
  then show ?case using Cons.IH[of "shareStep s u x"] by fastforce
qed simp

lemma gpuShare_bounds: "0 < gpuShare s job \<and> gpuShare s job \<le> 1"
  using fold_shareStep[of 1 s "Uses s job"] by (simp add: gpuShare_fold)

lemma gpuShare_device:
  assumes "gs_sharing s = SharingTimeslice" and "d \<in> du_device ` set (Uses s job)" and "deviceSum s d > 1"
  shows "gpuShare s job \<le> 1 / deviceSum s d"
  using fold_shareStep[of 1 s "Uses s job"] assms by (auto simp: gpuShare_fold)

lemma unit_device: "k \<in> set (devUnits s d) \<Longrightarrow> k div nat (gs_perDev s) = d"
  by (cases "nat (gs_perDev s) = 0") (auto simp: devUnits_def intro!: div_nat_eqI simp: mult.commute)

lemma device_unit_in_range:
  assumes "gpuInv s" and "d < Devices s" and "k \<in> set (devUnits s d)"
  shows "k < length (gs_unitJob s)"
proof -
  let ?p = "nat (gs_perDev s)"
  obtain devices where len: "length (gs_unitJob s) = devices * ?p" using assms(1) by (auto simp: gpuInv_def)
  have p: "0 < gs_perDev s" using assms(2) by (rule Devices_pos)
  have "int (length (gs_unitJob s)) div gs_perDev s = int devices" using p by (simp add: len)
  then have "Devices s = devices" using p by (simp add: Devices_def go_num)
  then have "(d + 1) * ?p \<le> length (gs_unitJob s)" unfolding len using assms(2) by (intro mult_right_mono) auto
  then show ?thesis using assms(3) by (simp add: devUnits_def)
qed

lemma unit_owner_device:
  assumes inv: "gpuInv s" and "d < Devices s" and k: "k \<in> set (devUnits s d)" and "gs_unitJob s ! k \<noteq> []"
  shows "d \<in> du_device ` set (Uses s (gs_unitJob s ! k))"
proof -
  have "k < length (gs_unitJob s)" using device_unit_in_range assms by blast
  then obtain ks where "gs_jobUnits s (gs_unitJob s ! k) = Some ks" "k \<in> set ks" using inv assms(4) unfolding gpuInv_def by blast
  then have "k \<in> set (unitsOf s (gs_unitJob s ! k))" by (simp add: unitsOf_def)
  then show ?thesis unfolding Uses_devices using unit_device[OF k] by blast
qed

text \<open>C35: However jobs come and go on a node, no GPU unit is held by two jobs, a job holds exactly the units that name it as their
  owner, from the time it got them until it gives them back, and the utilization of every device is between 0 and 1.\<close>

theorem gpu_units_exclusive:
  assumes "\<forall>x\<in>set steps. okStep (\<lambda>job. job \<noteq> []) x" and "s = gpuRun devices exposure perDevice steps"
    and "gs_jobUnits s job = Some ks"
  shows "(\<forall>k\<in>set ks. k < Units s \<and> gs_unitJob s ! k = job \<and> (\<forall>job' ks'. gs_jobUnits s job' = Some ks' \<and> k \<in> set ks' \<longrightarrow> job' = job))
    \<and> (Give job \<notin> set later \<longrightarrow> gs_jobUnits (gpuRun devices exposure perDevice (steps @ later)) job = Some ks)
    \<and> (\<forall>u\<in>set (DeviceUtil s). 0 \<le> u \<and> u \<le> 1)"
proof -
  have inv: "gpuInv s" unfolding assms(2) using assms(1) by (rule gpuRun_inv)
  have "gs_unitJob s ! k = job \<and> k < Units s" if "k \<in> set ks" for k
    using inv assms(3) that unfolding gpuInv_def goodSlots_def Units_def by blast
  moreover have "gs_jobUnits (gpuRun devices exposure perDevice (steps @ later)) job = Some ks" if "Give job \<notin> set later"
    using gpu.run_holding[OF assms(3) that] by (simp add: assms(2) gpuRun_def)
  moreover have "0 \<le> u \<and> u \<le> 1" if u: "u \<in> set (DeviceUtil s)" for u
  proof -
    obtain d where d': "d \<in> set [0..<Devices s]" and du: "u = (if gs_sharing s = SharingMIG then deviceSum s d / of_int (gs_perDev s) else min 1 (deviceSum s d))"
      using u unfolding DeviceUtil_def set_map by blast
    then have "0 < gs_perDev s" by (auto intro: Devices_pos)
    then show ?thesis using deviceSum_bounds[OF inv, of d] du by (auto simp: divide_le_eq)
  qed
  ultimately show ?thesis using gpuInv_disjoint[OF inv assms(3)] by blast
qed

text \<open>C36: The jobs on a time-sliced GPU never get more of it than there is: with every job running at the share of its devices'
  time it is given, what the units of a device use adds up to at most the whole device. No share is zero, so no job is starved.\<close>

theorem gpu_time_shares_fit:
  assumes "\<forall>x\<in>set steps. okStep (\<lambda>job. job \<noteq> []) x" and "s = gpuRun devices exposure perDevice steps"
    and "d < Devices s" and "SharingOf exposure = SharingTimeslice"
  shows "(\<Sum>k\<leftarrow>devUnits s d. unitUtil s k * gpuShare s (gs_unitJob s ! k)) \<le> 1 \<and> (\<forall>job. 0 < gpuShare s job \<and> gpuShare s job \<le> 1)"
proof -
  have inv: "gpuInv s" unfolding assms(2) using assms(1) by (rule gpuRun_inv)
  have same: "gs_sharing (poolStep (\<lambda>s job (units, util). fst (gpuAssign s job units util)) gpuRelease s x) = gs_sharing s" for s x
    by (cases x) (auto simp: gpuAssign_def gpuRelease_def Let_def)
  have "gs_sharing s = SharingOf exposure" unfolding assms(2) gpuRun_def
    by (induction steps rule: rev_induct) (simp_all add: same NewGPUSlots_def Let_def)
  then have ts: "gs_sharing s = SharingTimeslice" using assms(4) by simp
  let ?f = "if deviceSum s d > 1 then 1 / deviceSum s d else 1"
  have "unitUtil s k * gpuShare s (gs_unitJob s ! k) \<le> unitUtil s k * ?f" if "k \<in> set (devUnits s d)" for k
  proof (cases "gs_unitJob s ! k = []")
    case False
    then have "gpuShare s (gs_unitJob s ! k) \<le> ?f"
      using gpuShare_device[OF ts unit_owner_device[OF inv assms(3) that]] gpuShare_bounds by auto
    then show ?thesis using unitUtil_bounds[OF inv] by (intro mult_left_mono) auto
  qed (simp add: unitUtil_def)
  then have "(\<Sum>k\<leftarrow>devUnits s d. unitUtil s k * gpuShare s (gs_unitJob s ! k)) \<le> (\<Sum>k\<leftarrow>devUnits s d. unitUtil s k * ?f)"
    by (rule sum_list_mono)
  also have "\<dots> = deviceSum s d * ?f" unfolding deviceSum_units by (rule sum_list_mult_const)
  also have "\<dots> \<le> 1" by simp
  finally show ?thesis using gpuShare_bounds by blast
qed

lemma lower_taken:
  fixes xs :: "nat list"
  assumes "sorted xs" and "x \<in> set (take n xs)" and "y \<in> set xs" and "y < x"
  shows "y \<in> set (take n xs)"
proof (rule ccontr)
  assume "y \<notin> set (take n xs)"
  then have "y \<in> set (drop n xs)" using assms(3) set_append[of "take n xs" "drop n xs"] by simp
  moreover have "sorted (take n xs @ drop n xs)" using assms(1) by simp
  ultimately have "x \<le> y" using assms(2) unfolding sorted_append by blast
  then show False using assms(4) by simp
qed

text \<open>A job gets GPU units exactly when it asks for some and at least as many are free (a job that holds units keeps them), it then
  gets as many as it asked for, the lowest free ones, and a refusal leaves every unit as it was.\<close>

theorem gpuAssign_correct:
  assumes "gpuInv s" and "gpuAssign s job units util = (s', r)" and "gs_jobUnits s job = None"
  shows "(r \<noteq> None \<longleftrightarrow> 0 < units \<and> units \<le> int (card {k. k < Units s \<and> gs_unitJob s ! k = []})) \<and> (r = None \<longrightarrow> s' = s)
    \<and> (r \<noteq> None \<longrightarrow> (\<exists>ks. gs_jobUnits s' job = Some ks \<and> int (length ks) = units \<and> distinct ks
         \<and> (\<forall>k\<in>set ks. k < Units s \<and> gs_unitJob s ! k = [] \<and> gs_unitJob s' ! k = job
              \<and> (\<forall>k'<k. gs_unitJob s ! k' = [] \<longrightarrow> k' \<in> set ks))))"
proof -
  let ?us = "gs_unitJob s" and ?free = "freeUnits (gs_unitJob s) units"
  let ?all = "filter (\<lambda>k. ?us ! k = []) [0..<length ?us]"
  have "set ?all = {k. k < Units s \<and> ?us ! k = []}" by (auto simp: Units_def)
  then have card: "card {k. k < Units s \<and> ?us ! k = []} = length ?all" using distinct_card[of ?all] by simp
  have enough: "int (length ?free) < units \<longleftrightarrow> int (length ?all) < units" if "0 < units" using that by (auto simp: freeUnits_def)
  have lowest: "k' \<in> set ?free" if "k \<in> set ?free" "k' < k" "?us ! k' = []" for k k'
    using that set_take_subset[of "nat units" ?all] lower_taken[of ?all k "nat units" k'] unfolding freeUnits_def
    by (force simp: sorted_wrt_filter)
  show ?thesis
  proof (cases "0 < units \<and> \<not> int (length ?free) < units")
    case True
    then have new: "0 < units" "\<not> int (length ?free) < units" by auto
    note good = freeUnits_good[OF new] and s' = gpuAssign_new[OF assms(3) new, of util, unfolded assms(2) fst_conv snd_conv]
    have "gs_unitJob s' ! k = job" if "k \<in> set ?free" for k
      unfolding s'(1) using good(1) that by (auto simp: goodSlots_def nth_updAll subset_iff)
    then have "\<forall>k\<in>set ?free. k < Units s \<and> ?us ! k = [] \<and> gs_unitJob s' ! k = job \<and> (\<forall>k'<k. ?us ! k' = [] \<longrightarrow> k' \<in> set ?free)"
      using good(1,2) lowest unfolding goodSlots_def Units_def by blast
    moreover have "gs_jobUnits s' job = Some ?free" "int (length ?free) = units" "distinct ?free" and r: "r \<noteq> None"
      using s' good(1,3) new(1) by (simp_all add: goodSlots_def)
    ultimately have "\<exists>ks. gs_jobUnits s' job = Some ks \<and> int (length ks) = units \<and> distinct ks \<and> (\<forall>k\<in>set ks. k < Units s \<and> ?us ! k = []
        \<and> gs_unitJob s' ! k = job \<and> (\<forall>k'<k. ?us ! k' = [] \<longrightarrow> k' \<in> set ks))" by blast
    moreover have "units \<le> int (card {k. k < Units s \<and> ?us ! k = []})" unfolding card using enough[OF new(1)] new(2) by linarith
    ultimately show ?thesis using r new(1) by blast
  next
    case False
    then have "s' = s" "r = None" using assms(2,3) by (auto simp: gpuAssign_def Let_def split: if_splits)
    then show ?thesis using False enough card by auto
  qed
qed

lemmas gpu_example = gpuRun_def NewGPUSlots_def SharingOf_def HasPrefix_def gpuPerDev_def gpuAssign_def freeUnits_def Let_def

theorem gpu_units_exclusive_witness:
  "gs_jobUnits (gpuRun 1 ''timeslice-rename'' 2 ([Take ''a'' (1, 1/2)] @ [Take ''b'' (1, 1)])) ''a'' = Some [0]"
proof -
  have "gs_jobUnits (gpuRun 1 ''timeslice-rename'' 2 [Take ''a'' (1, 1/2)]) ''a'' = Some [0]"
    by (simp add: gpu_example numeral_2_eq_2)
  then show ?thesis
    using gpu_units_exclusive[of "[Take ''a'' (1, 1/2)]" _ 1 "''timeslice-rename''" 2 "''a''" "[0]" "[Take ''b'' (1, 1)]"] by simp
qed

theorem gpu_time_shares_fit_witness:
  "(\<Sum>k\<leftarrow>devUnits (gpuRun 1 ''timeslice-rename'' 2 [Take ''a'' (1, 1), Take ''b'' (1, 1)]) 0.
      unitUtil (gpuRun 1 ''timeslice-rename'' 2 [Take ''a'' (1, 1), Take ''b'' (1, 1)]) k
      * gpuShare (gpuRun 1 ''timeslice-rename'' 2 [Take ''a'' (1, 1), Take ''b'' (1, 1)])
          (gs_unitJob (gpuRun 1 ''timeslice-rename'' 2 [Take ''a'' (1, 1), Take ''b'' (1, 1)]) ! k)) \<le> 1"
proof -
  have "0 < Devices (gpuRun 1 ''timeslice-rename'' 2 [Take ''a'' (1, 1), Take ''b'' (1, 1)])"
    by (simp add: gpu_example Devices_def numeral_2_eq_2 go_div_def)
  moreover have "SharingOf ''timeslice-rename'' = SharingTimeslice" by (simp add: SharingOf_def HasPrefix_def)
  ultimately show ?thesis
    using gpu_time_shares_fit[of "[Take ''a'' (1, 1), Take ''b'' (1, 1)]" _ 1 "''timeslice-rename''" 2 0] by simp
qed

theorem gpuAssign_correct_witness:
  "snd (gpuAssign (NewGPUSlots 2 ''whole'' 1) ''a'' 3 1) = None"
proof -
  have "{k. k < Units (NewGPUSlots 2 ''whole'' 1) \<and> gs_unitJob (NewGPUSlots 2 ''whole'' 1) ! k = []} \<subseteq> {..<2}"
    by (auto simp: NewGPUSlots_def SharingOf_def gpuPerDev_def Units_def)
  then have "card {k. k < Units (NewGPUSlots 2 ''whole'' 1) \<and> gs_unitJob (NewGPUSlots 2 ''whole'' 1) ! k = []} \<le> 2"
    using card_mono[of "{..<2::nat}"] by fastforce
  then show ?thesis
    using gpuAssign_correct[OF gpuInv_new, of 2 "''whole''" 1 "''a''" 3 1 "fst (gpuAssign (NewGPUSlots 2 ''whole'' 1) ''a'' 3 1)"
        "snd (gpuAssign (NewGPUSlots 2 ''whole'' 1) ''a'' 3 1)"]
    by (simp add: NewGPUSlots_def Let_def)
qed

end
