(* ===== verification/Sim_Workload.thy ===== *)
theory Sim_Workload
  imports Sim_Slots
begin

text \<open>
  The energy and the progress of the jobs of a simulated node: \<open>Attribute\<close> splits what the energy ledgers grew by among the jobs that
  ran (\<^verbatim>\<open>simulator/pkg/workload/attribution.go\<close>), \<open>Rates\<close> is how fast a job's CPU and GPU work advances under its caps and shares
  (\<^verbatim>\<open>rates.go\<close>). The Go maps keyed by class and by job are association lists with distinct keys; instants are nanoseconds.
\<close>

section \<open>Energy by holder\<close>

record EnergySplit =
  es_cpuJ :: f64
  es_gpuJ :: f64

record NodeEnergy =
  ne_time :: int
  ne_cpuEnergyJ :: f64
  ne_cpuIdleW :: f64
  ne_allocatableCPU :: f64
  ne_gpuEnergyJ :: "f64 list"
  ne_gpuIdleW :: f64
  ne_gpuUnitsPerDevice :: int

record JobLoad =
  jl_id :: string
  jl_class :: string
  jl_cpuRequest :: f64
  jl_cpuUtil :: f64
  jl_gpuUtil :: f64
  jl_gpus :: "DeviceUse list"

record Attribution =
  at_classes :: "(string \<times> EnergySplit) list"
  at_jobs :: "(string \<times> EnergySplit) list"

definition ClassStandard :: string where
  "ClassStandard = ''standard''"

definition ClassIdle :: string where
  "ClassIdle = ''idle''"

definition splitTotal :: "EnergySplit \<Rightarrow> f64" where
  "splitTotal e = es_cpuJ e + es_gpuJ e"

fun addSplit :: "string \<Rightarrow> f64 \<Rightarrow> f64 \<Rightarrow> (string \<times> EnergySplit) list \<Rightarrow> (string \<times> EnergySplit) list" where
  "addSplit k c g [] = [(k, \<lparr>es_cpuJ = c, es_gpuJ = g\<rparr>)]"
| "addSplit k c g ((k', e) # m) =
     (if k' = k then (k', \<lparr>es_cpuJ = es_cpuJ e + c, es_gpuJ = es_gpuJ e + g\<rparr>) # m else (k', e) # addSplit k c g m)"

definition chargeEnergy :: "string \<Rightarrow> string \<Rightarrow> f64 \<Rightarrow> f64 \<Rightarrow> Attribution \<Rightarrow> Attribution" where
  "chargeEnergy jid cls cpuJ gpuJ a =
     (let cls = (if cls = [] then ClassStandard else cls)
      in a\<lparr>at_classes := addSplit cls cpuJ gpuJ (at_classes a),
           at_jobs := (if jid \<noteq> [] then addSplit jid cpuJ gpuJ (at_jobs a) else at_jobs a)\<rparr>)"

definition cpuReq :: "JobLoad \<Rightarrow> f64" where
  "cpuReq j = max 0 (jl_cpuRequest j)"

definition eachJob :: "(JobLoad \<Rightarrow> f64 \<times> f64) \<Rightarrow> JobLoad list \<Rightarrow> Attribution \<Rightarrow> Attribution" where
  "eachJob f jobs = fold (\<lambda>j. chargeEnergy (jl_id j) (jl_class j) (fst (f j)) (snd (f j))) jobs"

definition attributeIdle :: "NodeEnergy \<Rightarrow> JobLoad list \<Rightarrow> f64 \<Rightarrow> Attribution \<Rightarrow> Attribution" where
  "attributeIdle cur jobs idle a =
     (let reqSum = sum_list (map cpuReq jobs); denom = max (ne_allocatableCPU cur) reqSum
      in if denom > 0
         then chargeEnergy [] ClassIdle (idle * (denom - reqSum) / denom) 0 (eachJob (\<lambda>j. (idle * cpuReq j / denom, 0)) jobs a)
         else chargeEnergy [] ClassIdle idle 0 a)"

definition attributeDynamic :: "JobLoad list \<Rightarrow> f64 \<Rightarrow> Attribution \<Rightarrow> Attribution" where
  "attributeDynamic jobs dyn a =
     (let weight = (\<lambda>j. cpuReq j * clamp01 (jl_cpuUtil j));
          tot = sum_list (map weight jobs);
          weight = (if tot \<le> 0 then cpuReq else weight);
          tot = (if tot \<le> 0 then sum_list (map cpuReq jobs) else tot)
      in if tot > 0 then eachJob (\<lambda>j. (dyn * weight j / tot, 0)) jobs a else chargeEnergy [] ClassIdle dyn 0 a)"

definition jobUnits :: "nat \<Rightarrow> JobLoad \<Rightarrow> f64" where
  "jobUnits d j = sum_list (map (\<lambda>u. if du_device u \<noteq> d \<or> du_units u \<le> 0 then 0 else of_int (du_units u)) (jl_gpus j))"

definition jobWeight :: "nat \<Rightarrow> JobLoad \<Rightarrow> f64" where
  "jobWeight d j = sum_list (map (\<lambda>u. if du_device u \<noteq> d \<or> du_units u \<le> 0 then 0 else of_int (du_units u) * clamp01 (jl_gpuUtil j)) (jl_gpus j))"

definition holdersOf :: "(JobLoad \<Rightarrow> f64) \<Rightarrow> JobLoad list \<Rightarrow> JobLoad list" where
  "holdersOf w jobs = filter (\<lambda>j. w j > 0) jobs"

definition attributeGPU :: "NodeEnergy \<Rightarrow> NodeEnergy \<Rightarrow> JobLoad list \<Rightarrow> f64 \<Rightarrow> nat \<Rightarrow> Attribution \<Rightarrow> Attribution" where
  "attributeGPU prev cur jobs dt d a =
     (let perDev = max 1 (of_int (ne_gpuUnitsPerDevice cur));
          e = max 0 (ne_gpuEnergyJ cur ! d - ne_gpuEnergyJ prev ! d);
          gpuIdle = min e (max 0 (ne_gpuIdleW cur) * dt);
          unitSum = sum_list (map (jobUnits d) jobs); weightSum = sum_list (map (jobWeight d) jobs)
      in if unitSum \<le> 0 then chargeEnergy [] ClassIdle 0 e a
         else (let denom = max perDev unitSum;
                   a = eachJob (\<lambda>j. (0, gpuIdle * jobUnits d j / denom)) (holdersOf (jobUnits d) jobs) a;
                   a = chargeEnergy [] ClassIdle 0 (gpuIdle * (denom - unitSum) / denom) a;
                   w = (if weightSum \<le> 0 then jobUnits d else jobWeight d);
                   tot = (if weightSum \<le> 0 then unitSum else weightSum)
               in eachJob (\<lambda>j. (0, (e - gpuIdle) * w j / tot)) (holdersOf w jobs) a))"

definition intervalSeconds :: "NodeEnergy \<Rightarrow> NodeEnergy \<Rightarrow> f64" where
  "intervalSeconds prev cur = max 0 (of_int (ne_time cur - ne_time prev) / 10 ^ 9)"

definition Attribute :: "NodeEnergy \<Rightarrow> NodeEnergy \<Rightarrow> JobLoad list \<Rightarrow> Attribution" where
  "Attribute prev cur jobs =
     (let a = eachJob (\<lambda>_. (0, 0)) jobs \<lparr>at_classes = [], at_jobs = []\<rparr>;
          delta = max 0 (ne_cpuEnergyJ cur - ne_cpuEnergyJ prev);
          dt = intervalSeconds prev cur;
          idle = min delta (max 0 (ne_cpuIdleW cur) * dt);
          a = attributeIdle cur jobs idle a;
          a = attributeDynamic jobs (delta - idle) a;
          n = min (length (ne_gpuEnergyJ cur)) (length (ne_gpuEnergyJ prev))
      in fold (attributeGPU prev cur jobs dt) [0..<n] a)"

section \<open>Nothing is lost and nothing is charged twice\<close>

text \<open>What an attribution has charged so far: CPU and GPU joules over all classes, and over all jobs.\<close>

definition cpuSum :: "(string \<times> EnergySplit) list \<Rightarrow> f64" where
  "cpuSum m = sum_list (map (es_cpuJ \<circ> snd) m)"

definition gpuSum :: "(string \<times> EnergySplit) list \<Rightarrow> f64" where
  "gpuSum m = sum_list (map (es_gpuJ \<circ> snd) m)"

definition nonnegSplits :: "(string \<times> EnergySplit) list \<Rightarrow> bool" where
  "nonnegSplits m \<longleftrightarrow> distinct (map fst m) \<and> (\<forall>(k, e)\<in>set m. 0 \<le> es_cpuJ e \<and> 0 \<le> es_gpuJ e)"

lemma addSplit_sums: "cpuSum (addSplit k c g m) = cpuSum m + c" "gpuSum (addSplit k c g m) = gpuSum m + g"
  by (induction m) (auto simp: cpuSum_def gpuSum_def)

lemma addSplit_keys: "fst ` set (addSplit k c g m) = insert k (fst ` set m)"
proof (induction m)
  case (Cons x m)
  then show ?case by (cases x) (simp add: insert_commute)
qed simp

lemma addSplit_nonneg: "0 \<le> c \<Longrightarrow> 0 \<le> g \<Longrightarrow> nonnegSplits m \<Longrightarrow> nonnegSplits (addSplit k c g m)"
proof (induction m)
  case (Cons x m)
  obtain k' e where x: "x = (k', e)" by (cases x)
  have "k' \<notin> fst ` set (addSplit k c g m)" if "k' \<noteq> k" using that Cons.prems by (auto simp: addSplit_keys nonnegSplits_def x)
  then show ?case using Cons by (auto simp: nonnegSplits_def x)
qed (simp add: nonnegSplits_def)

text \<open>A step of the attribution that charges \<open>c\<close> and \<open>g\<close> joules in all.\<close>

definition charges :: "(Attribution \<Rightarrow> Attribution) \<Rightarrow> f64 \<Rightarrow> f64 \<Rightarrow> bool" where
  "charges F c g \<longleftrightarrow> (\<forall>a. nonnegSplits (at_classes a) \<and> nonnegSplits (at_jobs a) \<longrightarrow>
     nonnegSplits (at_classes (F a)) \<and> nonnegSplits (at_jobs (F a)) \<and>
     cpuSum (at_classes (F a)) = cpuSum (at_classes a) + c \<and> gpuSum (at_classes (F a)) = gpuSum (at_classes a) + g \<and>
     cpuSum (at_jobs (F a)) - cpuSum (at_jobs a) \<le> c \<and> gpuSum (at_jobs (F a)) - gpuSum (at_jobs a) \<le> g)"

lemma charges_add: "0 \<le> c \<Longrightarrow> 0 \<le> g \<Longrightarrow> charges (chargeEnergy jid cls c g) c g"
  by (simp add: charges_def chargeEnergy_def Let_def addSplit_nonneg addSplit_sums)

lemma charges_comp:
  assumes "charges F c g" and "charges G c' g'"
  shows "charges (\<lambda>a. G (F a)) (c + c') (g + g')"
  unfolding charges_def
proof (intro allI impI, elim conjE)
  fix a :: Attribution assume "nonnegSplits (at_classes a)" "nonnegSplits (at_jobs a)"
  with assms(1) have F: "nonnegSplits (at_classes (F a))" "nonnegSplits (at_jobs (F a))"
    "cpuSum (at_classes (F a)) = cpuSum (at_classes a) + c" "gpuSum (at_classes (F a)) = gpuSum (at_classes a) + g"
    "cpuSum (at_jobs (F a)) - cpuSum (at_jobs a) \<le> c" "gpuSum (at_jobs (F a)) - gpuSum (at_jobs a) \<le> g"
    by (auto simp: charges_def)
  have G: "nonnegSplits (at_classes (G (F a)))" "nonnegSplits (at_jobs (G (F a)))"
    "cpuSum (at_classes (G (F a))) = cpuSum (at_classes (F a)) + c'" "gpuSum (at_classes (G (F a))) = gpuSum (at_classes (F a)) + g'"
    "cpuSum (at_jobs (G (F a))) - cpuSum (at_jobs (F a)) \<le> c'" "gpuSum (at_jobs (G (F a))) - gpuSum (at_jobs (F a)) \<le> g'"
    using assms(2) F(1,2) unfolding charges_def by blast+
  show "nonnegSplits (at_classes (G (F a))) \<and> nonnegSplits (at_jobs (G (F a))) \<and>
     cpuSum (at_classes (G (F a))) = cpuSum (at_classes a) + (c + c') \<and> gpuSum (at_classes (G (F a))) = gpuSum (at_classes a) + (g + g') \<and>
     cpuSum (at_jobs (G (F a))) - cpuSum (at_jobs a) \<le> c + c' \<and> gpuSum (at_jobs (G (F a))) - gpuSum (at_jobs a) \<le> g + g'"
    using F G by (intro conjI; linarith?)
qed

lemma charges_eachJob:
  "(\<And>j. j \<in> set jobs \<Longrightarrow> 0 \<le> fst (f j) \<and> 0 \<le> snd (f j)) \<Longrightarrow>
   charges (eachJob f jobs) (sum_list (map (fst \<circ> f) jobs)) (sum_list (map (snd \<circ> f) jobs))"
proof (induction jobs)
  case Nil
  then show ?case by (simp add: charges_def eachJob_def)
next
  case (Cons j jobs)
  have "charges (chargeEnergy (jl_id j) (jl_class j) (fst (f j)) (snd (f j))) (fst (f j)) (snd (f j))" using Cons.prems by (intro charges_add) auto
  from charges_comp[OF this Cons.IH] show ?case using Cons.prems by (simp add: eachJob_def)
qed

lemma cpuReq_nonneg: "0 \<le> cpuReq j"
  by (simp add: cpuReq_def)

lemma sum_scaled: "sum_list (map (\<lambda>j. c * w j / t) js) = c * sum_list (map w js) / (t :: real)"
  by (induction js) (simp_all add: algebra_simps add_divide_distrib)

lemma sum_holders: "(\<And>j. 0 \<le> w j) \<Longrightarrow> sum_list (map w (holdersOf w jobs)) = sum_list (map w jobs)"
  by (induction jobs) (auto simp: holdersOf_def not_less dest: order_antisym)

lemma charges_shared:
  assumes w: "\<And>j. 0 \<le> w j" and "0 \<le> c" and "0 < t"
  shows "charges (eachJob (\<lambda>j. (c * w j / t, 0)) jobs) (c * sum_list (map w jobs) / t) 0"
    "charges (eachJob (\<lambda>j. (0, c * w j / t)) (holdersOf w jobs)) 0 (c * sum_list (map w jobs) / t)"
proof -
  have "0 \<le> c * w j / t" for j using assms by simp
  then show "charges (eachJob (\<lambda>j. (c * w j / t, 0)) jobs) (c * sum_list (map w jobs) / t) 0"
    using charges_eachJob[of jobs "\<lambda>j. (c * w j / t, 0)"] by (simp add: comp_def sum_scaled sum_list_triv)
  show "charges (eachJob (\<lambda>j. (0, c * w j / t)) (holdersOf w jobs)) 0 (c * sum_list (map w jobs) / t)"
    using charges_eachJob[of "holdersOf w jobs" "\<lambda>j. (0, c * w j / t)"] \<open>\<And>j. 0 \<le> c * w j / t\<close>
    by (simp add: comp_def sum_scaled sum_list_triv sum_holders[OF w])
qed

lemma charges_idle:
  assumes "0 \<le> idle"
  shows "charges (attributeIdle cur jobs idle) idle 0"
proof (cases "max (ne_allocatableCPU cur) (sum_list (map cpuReq jobs)) > 0")
  case True
  let ?r = "sum_list (map cpuReq jobs)"
  define d where "d = max (ne_allocatableCPU cur) ?r"
  have d: "0 < d" "?r \<le> d" using True by (auto simp: d_def)
  have each: "charges (eachJob (\<lambda>j. (idle * cpuReq j / d, 0)) jobs) (idle * ?r / d) 0"
    using assms d(1) by (intro charges_shared cpuReq_nonneg)
  have rest: "charges (chargeEnergy [] ClassIdle (idle * (d - ?r) / d) 0) (idle * (d - ?r) / d) 0" using assms d by (intro charges_add) auto
  have "attributeIdle cur jobs idle = (\<lambda>a. chargeEnergy [] ClassIdle (idle * (d - ?r) / d) 0 (eachJob (\<lambda>j. (idle * cpuReq j / d, 0)) jobs a))"
    unfolding attributeIdle_def Let_def d_def[symmetric] using d(1) by simp
  with charges_comp[OF each rest] have "charges (attributeIdle cur jobs idle) (idle * ?r / d + idle * (d - ?r) / d) 0" by simp
  moreover have "idle * ?r / d + idle * (d - ?r) / d = idle" using d(1) by (simp add: field_simps)
  ultimately show ?thesis by simp
next
  case False
  then have "attributeIdle cur jobs idle = chargeEnergy [] ClassIdle idle 0"
    unfolding attributeIdle_def Let_def by (simp only: if_False)
  then show ?thesis using charges_add[of idle 0 "[]" ClassIdle] assms by simp
qed

lemma charges_dynamic:
  assumes "0 \<le> dyn"
  shows "charges (attributeDynamic jobs dyn) dyn 0"
proof -
  define w where "w = (if sum_list (map (\<lambda>j. cpuReq j * clamp01 (jl_cpuUtil j)) jobs) \<le> 0 then cpuReq else (\<lambda>j. cpuReq j * clamp01 (jl_cpuUtil j)))"
  have w: "0 \<le> w j" for j using cpuReq_nonneg clamp01_bounds(1) by (simp add: w_def)
  let ?t = "sum_list (map w jobs)"
  have "attributeDynamic jobs dyn a = (if ?t > 0 then eachJob (\<lambda>j. (dyn * w j / ?t, 0)) jobs a else chargeEnergy [] ClassIdle dyn 0 a)" for a
    by (simp add: attributeDynamic_def w_def Let_def)
  then have e: "attributeDynamic jobs dyn = (if ?t > 0 then eachJob (\<lambda>j. (dyn * w j / ?t, 0)) jobs else chargeEnergy [] ClassIdle dyn 0)"
    by (auto simp: fun_eq_iff)
  show ?thesis
  proof (cases "0 < ?t")
    case True
    then show ?thesis using charges_shared(1)[of w dyn ?t jobs] assms w by (simp add: e)
  qed (simp add: e charges_add assms)
qed

lemma jobUnits_nonneg: "0 \<le> jobUnits d j" "0 \<le> jobWeight d j"
  unfolding jobUnits_def jobWeight_def using clamp01_bounds(1) by (auto intro!: sum_list_nonneg)

lemma charges_GPU:
  assumes "0 \<le> dt"
  shows "charges (attributeGPU prev cur jobs dt d) 0 (max 0 (ne_gpuEnergyJ cur ! d - ne_gpuEnergyJ prev ! d))"
proof -
  define e where "e = max 0 (ne_gpuEnergyJ cur ! d - ne_gpuEnergyJ prev ! d)"
  define i where "i = min e (max 0 (ne_gpuIdleW cur) * dt)"
  define m where "m = max (max 1 (of_int (ne_gpuUnitsPerDevice cur))) (sum_list (map (jobUnits d) jobs))"
  define w where "w = (if sum_list (map (jobWeight d) jobs) \<le> 0 then jobUnits d else jobWeight d)"
  let ?u = "sum_list (map (jobUnits d) jobs)" and ?t = "sum_list (map w jobs)"
  have i: "0 \<le> i" "i \<le> e" and e0: "0 \<le> e" using assms by (auto simp: i_def e_def)
  have w: "0 \<le> w j" for j using jobUnits_nonneg by (simp add: w_def)
  have m: "0 < m" "?u \<le> m" by (auto simp: m_def)
  have eq: "attributeGPU prev cur jobs dt d a =
      (if ?u \<le> 0 then chargeEnergy [] ClassIdle 0 e a
       else eachJob (\<lambda>j. (0, (e - i) * w j / ?t)) (holdersOf w jobs)
              (chargeEnergy [] ClassIdle 0 (i * (m - ?u) / m) (eachJob (\<lambda>j. (0, i * jobUnits d j / m)) (holdersOf (jobUnits d) jobs) a)))" for a
    by (simp add: attributeGPU_def Let_def e_def i_def m_def w_def)
  show ?thesis
  proof (cases "?u \<le> 0")
    case True
    then have "attributeGPU prev cur jobs dt d = chargeEnergy [] ClassIdle 0 e" using eq by (simp add: fun_eq_iff)
    then show ?thesis using charges_add[of 0 e "[]" ClassIdle] e0 by (simp add: e_def)
  next
    case False
    then have t: "0 < ?t" by (simp add: w_def)
    have held: "charges (eachJob (\<lambda>j. (0, i * jobUnits d j / m)) (holdersOf (jobUnits d) jobs)) 0 (i * ?u / m)"
      using i(1) m(1) by (intro charges_shared jobUnits_nonneg)
    have rest: "charges (chargeEnergy [] ClassIdle 0 (i * (m - ?u) / m)) 0 (i * (m - ?u) / m)" using i(1) m by (intro charges_add) auto
    have dyn: "charges (eachJob (\<lambda>j. (0, (e - i) * w j / ?t)) (holdersOf w jobs)) 0 ((e - i) * ?t / ?t)"
      using i(2) w t by (intro charges_shared) auto
    have "attributeGPU prev cur jobs dt d = (\<lambda>a. eachJob (\<lambda>j. (0, (e - i) * w j / ?t)) (holdersOf w jobs)
        (chargeEnergy [] ClassIdle 0 (i * (m - ?u) / m) (eachJob (\<lambda>j. (0, i * jobUnits d j / m)) (holdersOf (jobUnits d) jobs) a)))"
      using False by (intro ext) (simp only: eq if_False)
    with charges_comp[OF charges_comp[OF held rest] dyn]
    have "charges (attributeGPU prev cur jobs dt d) (0 + 0 + 0) (i * ?u / m + i * (m - ?u) / m + (e - i) * ?t / ?t)" by (simp only:)
    moreover have "i * ?u / m + i * (m - ?u) / m + (e - i) * ?t / ?t = e" using m(1) t by (simp add: field_simps)
    ultimately show ?thesis by (simp add: e_def)
  qed
qed

lemma charges_fold:
  "(\<And>d. charges (F d) 0 (g d)) \<Longrightarrow> charges (fold F ds) 0 (sum_list (map g ds))"
proof (induction ds)
  case (Cons d ds)
  from charges_comp[OF Cons.prems[of d] Cons.IH[OF Cons.prems]] show ?case by (simp add: comp_def)
qed (simp add: charges_def)

text \<open>C32: The energy of a node is split without loss: over the classes, the CPU joules add up to what the package ledgers grew by and
  the GPU joules to what the ledgers of the GPUs both readings have grew by, no holder is charged a negative amount, each class and job
  appears once, and the jobs together are charged no more than the node used.\<close>

theorem Attribute_conserves:
  "cpuSum (at_classes (Attribute prev cur jobs)) = max 0 (ne_cpuEnergyJ cur - ne_cpuEnergyJ prev)
   \<and> gpuSum (at_classes (Attribute prev cur jobs)) =
       (\<Sum>d\<leftarrow>[0..<min (length (ne_gpuEnergyJ cur)) (length (ne_gpuEnergyJ prev))]. max 0 (ne_gpuEnergyJ cur ! d - ne_gpuEnergyJ prev ! d))
   \<and> nonnegSplits (at_classes (Attribute prev cur jobs)) \<and> nonnegSplits (at_jobs (Attribute prev cur jobs))
   \<and> cpuSum (at_jobs (Attribute prev cur jobs)) \<le> cpuSum (at_classes (Attribute prev cur jobs))
   \<and> gpuSum (at_jobs (Attribute prev cur jobs)) \<le> gpuSum (at_classes (Attribute prev cur jobs))"
proof -
  let ?delta = "max 0 (ne_cpuEnergyJ cur - ne_cpuEnergyJ prev)" and ?dt = "intervalSeconds prev cur"
  let ?idle = "min ?delta (max 0 (ne_cpuIdleW cur) * ?dt)"
  let ?ds = "[0..<min (length (ne_gpuEnergyJ cur)) (length (ne_gpuEnergyJ prev))]"
  have dt: "0 \<le> ?dt" by (simp add: intervalSeconds_def)
  then have i: "0 \<le> ?idle" "0 \<le> ?delta - ?idle" by auto
  have zero: "charges (eachJob (\<lambda>_. (0, 0)) jobs) 0 0" using charges_eachJob[of jobs "\<lambda>_. (0, 0)"] by (simp add: comp_def sum_list_triv)
  have gpus: "charges (fold (attributeGPU prev cur jobs ?dt) ?ds) 0
      (sum_list (map (\<lambda>d. max 0 (ne_gpuEnergyJ cur ! d - ne_gpuEnergyJ prev ! d)) ?ds))"
    by (intro charges_fold charges_GPU dt)
  note cs = charges_comp[OF charges_comp[OF charges_comp[OF zero charges_idle[OF i(1), of cur jobs]] charges_dynamic[OF i(2), of jobs]]
      gpus, unfolded charges_def, rule_format, of "\<lparr>at_classes = [], at_jobs = []\<rparr>"]
  then show ?thesis by (simp add: Attribute_def Let_def nonnegSplits_def[of "[]"] cpuSum_def[of "[]"] gpuSum_def[of "[]"])
qed

section \<open>Progress rates\<close>

datatype Model = ModelLegacy | ModelV1

record RateInputs =
  ri_baseSpeed :: f64
  ri_cpuRequest :: f64
  ri_gpuRequest :: f64
  ri_cpuUtil :: f64
  ri_memoryIntensity :: f64
  ri_ioIntensity :: f64
  ri_cpuFeedIntensity :: f64
  ri_sensitivityCPU :: f64
  ri_sensitivityGPU :: f64
  ri_cpuMul :: f64
  ri_gpuMul :: f64
  ri_cpuShare :: f64
  ri_gpuShare :: f64
  ri_peerTransferIntensity :: f64
  ri_peerMul :: f64

definition peerFactor :: "f64 \<Rightarrow> RateInputs \<Rightarrow> f64" where
  "peerFactor thr inp =
     (let p = clamp01 (ri_peerTransferIntensity inp); g = clamp01 (ri_peerMul inp)
      in if p = 0 then thr else if thr \<le> 0 \<or> g = 0 then 0 else 1 / ((1 - p) / thr + p / g))"

definition cpuThrottleFactor :: "RateInputs \<Rightarrow> f64" where
  "cpuThrottleFactor inp =
     (let baseImpact = clamp01 (60/100 * clamp01 (ri_cpuUtil inp) + 25/100 * (1 - clamp01 (ri_memoryIntensity inp))
            + 15/100 * (1 - clamp01 (ri_ioIntensity inp)));
          effective = 1 - baseImpact * (1 - clamp01 (ri_cpuMul inp));
          effective = 1 - ri_sensitivityCPU inp * (1 - effective)
      in clamp01 effective)"

definition cpuFeedFactor :: "RateInputs \<Rightarrow> f64" where
  "cpuFeedFactor inp =
     (let feed = clamp01 (ri_cpuFeedIntensity inp)
      in if feed \<le> 0 then 1 else clamp01 (1 - (1 - clamp01 (ri_cpuMul inp)) * feed * ri_sensitivityCPU inp))"

definition Rates :: "Model \<Rightarrow> RateInputs \<Rightarrow> f64 \<times> f64" where
  "Rates model inp =
     (let cpuRate = ri_cpuRequest inp * ri_baseSpeed inp * cpuThrottleFactor inp * ri_cpuShare inp;
          gpuBase = max (1/10) (ri_gpuRequest inp) * ri_baseSpeed inp; feed = cpuFeedFactor inp;
          gpuRate = (if model = ModelLegacy then gpuBase * ri_gpuMul inp * feed * ri_gpuShare inp
                     else gpuBase * peerFactor (1 - ri_sensitivityGPU inp * (1 - clamp01 (ri_gpuMul inp))) inp * feed * ri_gpuShare inp)
      in (if cpuRate < 0 then 0 else cpuRate, if gpuRate < 0 then 0 else gpuRate))"

lemma cpuThrottleFactor_mono:
  assumes "c \<le> ri_cpuMul inp" and "0 \<le> ri_sensitivityCPU inp"
  shows "cpuThrottleFactor (inp\<lparr>ri_cpuMul := c, ri_gpuMul := g\<rparr>) \<le> cpuThrottleFactor inp"
proof -
  let ?b = "clamp01 (60/100 * clamp01 (ri_cpuUtil inp) + 25/100 * (1 - clamp01 (ri_memoryIntensity inp)) + 15/100 * (1 - clamp01 (ri_ioIntensity inp)))"
  have "?b * (1 - clamp01 (ri_cpuMul inp)) \<le> ?b * (1 - clamp01 c)"
    using clamp01_mono[OF assms(1)] clamp01_bounds(1) by (intro mult_left_mono) auto
  then have "ri_sensitivityCPU inp * (?b * (1 - clamp01 (ri_cpuMul inp))) \<le> ri_sensitivityCPU inp * (?b * (1 - clamp01 c))"
    using assms(2) by (rule mult_left_mono)
  then show ?thesis unfolding cpuThrottleFactor_def Let_def by (intro clamp01_mono) simp
qed

lemma cpuFeedFactor_mono:
  assumes "c \<le> ri_cpuMul inp" and "0 \<le> ri_sensitivityCPU inp"
  shows "cpuFeedFactor (inp\<lparr>ri_cpuMul := c, ri_gpuMul := g\<rparr>) \<le> cpuFeedFactor inp"
proof -
  have "(1 - clamp01 (ri_cpuMul inp)) * clamp01 (ri_cpuFeedIntensity inp) * ri_sensitivityCPU inp
      \<le> (1 - clamp01 c) * clamp01 (ri_cpuFeedIntensity inp) * ri_sensitivityCPU inp"
    using clamp01_mono[OF assms(1)] clamp01_bounds(1) assms(2) by (intro mult_right_mono) auto
  then show ?thesis unfolding cpuFeedFactor_def Let_def by (auto intro!: clamp01_mono)
qed

lemma factor_bounds:
  "0 \<le> cpuThrottleFactor inp" "cpuThrottleFactor inp \<le> 1" "0 \<le> cpuFeedFactor inp" "cpuFeedFactor inp \<le> 1"
  using clamp01_bounds by (auto simp: cpuThrottleFactor_def cpuFeedFactor_def Let_def)

lemma peerFactor_bounds:
  assumes "0 \<le> thr" and "thr \<le> 1"
  shows "0 \<le> peerFactor thr inp \<and> peerFactor thr inp \<le> 1"
proof -
  define p where "p = clamp01 (ri_peerTransferIntensity inp)"
  define g where "g = clamp01 (ri_peerMul inp)"
  have p: "0 \<le> p" "p \<le> 1" and g: "0 \<le> g" "g \<le> 1" using clamp01_bounds by (auto simp: p_def g_def)
  have one: "1 \<le> (1 - p) / thr + p / g" if "0 < thr" "0 < g"
  proof -
    have "(1 - p) / 1 \<le> (1 - p) / thr" "p / 1 \<le> p / g" using that assms(2) p g by (intro divide_left_mono; simp)+
    then show ?thesis by simp
  qed
  show ?thesis
  proof (cases "p = 0 \<or> thr \<le> 0 \<or> g = 0")
    case True
    then show ?thesis using assms by (auto simp: peerFactor_def Let_def simp flip: p_def g_def)
  next
    case False
    then have "0 < thr" "0 < g" using g by auto
    then show ?thesis using one False by (simp add: peerFactor_def Let_def divide_le_eq flip: p_def g_def)
  qed
qed

lemma peerFactor_mono:
  assumes "0 \<le> t" and "t \<le> thr" and "thr \<le> 1"
  shows "peerFactor t inp \<le> peerFactor thr inp"
proof (cases "clamp01 (ri_peerTransferIntensity inp) = 0 \<or> t \<le> 0 \<or> clamp01 (ri_peerMul inp) = 0")
  case True
  then show ?thesis using assms peerFactor_bounds[of thr inp] by (auto simp: peerFactor_def Let_def)
next
  case False
  define p where "p = clamp01 (ri_peerTransferIntensity inp)"
  define g where "g = clamp01 (ri_peerMul inp)"
  have p: "0 < p" "p \<le> 1" and g: "0 < g" using False clamp01_bounds[of "ri_peerTransferIntensity inp"] clamp01_bounds[of "ri_peerMul inp"]
    by (auto simp: p_def g_def less_le)
  have "(1 - p) / thr \<le> (1 - p) / t" using False assms p by (intro divide_left_mono) auto
  moreover have "0 < (1 - p) / thr + p / g" using p g assms False by (intro add_nonneg_pos divide_nonneg_pos divide_pos_pos) auto
  ultimately have "1 / ((1 - p) / t + p / g) \<le> 1 / ((1 - p) / thr + p / g)" by (intro divide_left_mono) auto
  then show ?thesis using False assms by (auto simp: peerFactor_def Let_def simp flip: p_def g_def)
qed

definition gpuFactor :: "Model \<Rightarrow> RateInputs \<Rightarrow> f64" where
  "gpuFactor model inp = (if model = ModelLegacy then ri_gpuMul inp else peerFactor (1 - ri_sensitivityGPU inp * (1 - clamp01 (ri_gpuMul inp))) inp)"

lemma gpuThr_bounds:
  assumes "0 \<le> s" "s \<le> 1" "0 \<le> m" "m \<le> (1::real)"
  shows "0 \<le> 1 - s * (1 - m) \<and> 1 - s * (1 - m) \<le> 1"
proof -
  have "s * (1 - m) \<le> 1 * 1" using assms by (intro mult_mono) auto
  then show ?thesis using assms by simp
qed

lemma gpuFactor_bounds:
  assumes "0 \<le> ri_sensitivityGPU inp" "ri_sensitivityGPU inp \<le> 1" "0 \<le> ri_gpuMul inp" "ri_gpuMul inp \<le> 1"
  shows "0 \<le> gpuFactor model inp \<and> gpuFactor model inp \<le> 1"
  using assms peerFactor_bounds gpuThr_bounds[OF assms] by (auto simp: gpuFactor_def clamp01_id)

lemma gpuFactor_mono:
  assumes "0 \<le> ri_sensitivityGPU inp" "ri_sensitivityGPU inp \<le> 1" "0 \<le> g" "g \<le> ri_gpuMul inp" "ri_gpuMul inp \<le> 1"
  shows "gpuFactor model (inp\<lparr>ri_cpuMul := c, ri_gpuMul := g\<rparr>) \<le> gpuFactor model inp"
proof -
  have "ri_sensitivityGPU inp * (1 - ri_gpuMul inp) \<le> ri_sensitivityGPU inp * (1 - g)" using assms by (intro mult_left_mono) auto
  moreover have same: "peerFactor t (inp\<lparr>ri_cpuMul := c, ri_gpuMul := g\<rparr>) = peerFactor t inp" for t by (simp add: peerFactor_def)
  ultimately show ?thesis
    unfolding gpuFactor_def same using assms gpuThr_bounds[of "ri_sensitivityGPU inp" g] gpuThr_bounds[of "ri_sensitivityGPU inp" "ri_gpuMul inp"]
    by (auto simp: clamp01_id intro!: peerFactor_mono)
qed

text \<open>A cap only slows a job, and only down from its full speed: with sensitivities, shares and multipliers in their range, both
  progress rates are non-negative, at most the requested cores (or GPUs) times the base speed, and at most what they are with weaker caps.
  A job whose devices run at full speed, without sharing and with unhindered transfers, runs at full speed.\<close>

theorem Rates_caps_slow:
  assumes "0 \<le> ri_baseSpeed inp" "0 \<le> ri_cpuRequest inp" "0 \<le> ri_sensitivityCPU inp" "0 \<le> ri_sensitivityGPU inp" "ri_sensitivityGPU inp \<le> 1"
    and "0 \<le> ri_cpuShare inp" "ri_cpuShare inp \<le> 1" "0 \<le> ri_gpuShare inp" "ri_gpuShare inp \<le> 1"
    and "0 \<le> g" "g \<le> ri_gpuMul inp" "ri_gpuMul inp \<le> 1" "c \<le> ri_cpuMul inp"
    and "slow = inp\<lparr>ri_cpuMul := c, ri_gpuMul := g\<rparr>"
    and "full = max (1/10) (ri_gpuRequest inp) * ri_baseSpeed inp"
  shows "0 \<le> fst (Rates model slow) \<and> fst (Rates model slow) \<le> fst (Rates model inp) \<and> fst (Rates model inp) \<le> ri_cpuRequest inp * ri_baseSpeed inp
    \<and> 0 \<le> snd (Rates model slow) \<and> snd (Rates model slow) \<le> snd (Rates model inp) \<and> snd (Rates model inp) \<le> full
    \<and> (1 \<le> ri_cpuMul inp \<and> ri_cpuShare inp = 1 \<longrightarrow> fst (Rates model inp) = ri_cpuRequest inp * ri_baseSpeed inp)
    \<and> (1 \<le> ri_cpuMul inp \<and> ri_gpuMul inp = 1 \<and> ri_gpuShare inp = 1 \<and> ri_peerMul inp = 1 \<longrightarrow> snd (Rates model inp) = full)"
proof -
  have pos: "0 \<le> ri_cpuRequest inp * ri_baseSpeed inp" "0 \<le> full" using assms(1,2,15) by auto
  have cpu: "fst (Rates model i) = max 0 (ri_cpuRequest i * ri_baseSpeed i * cpuThrottleFactor i * ri_cpuShare i)" for i
    by (simp add: Rates_def Let_def max_def)
  have gpu: "snd (Rates model i) = max 0 (max (1/10) (ri_gpuRequest i) * ri_baseSpeed i * gpuFactor model i * cpuFeedFactor i * ri_gpuShare i)" for i
    by (simp add: Rates_def Let_def max_def gpuFactor_def)
  have F: "0 \<le> gpuFactor model slow" "gpuFactor model slow \<le> gpuFactor model inp" "gpuFactor model inp \<le> 1"
    "cpuThrottleFactor slow \<le> cpuThrottleFactor inp" "cpuFeedFactor slow \<le> cpuFeedFactor inp"
    using gpuFactor_bounds[of slow model] gpuFactor_bounds[of inp model] gpuFactor_mono[of inp g model c] cpuThrottleFactor_mono[of c inp g]
      cpuFeedFactor_mono[of c inp g] assms by simp_all
  note B = factor_bounds[of inp] factor_bounds[of slow]
  have same: "ri_cpuRequest slow = ri_cpuRequest inp" "ri_baseSpeed slow = ri_baseSpeed inp" "ri_cpuShare slow = ri_cpuShare inp"
    "ri_gpuRequest slow = ri_gpuRequest inp" "ri_gpuShare slow = ri_gpuShare inp" by (simp_all add: assms(14))
  have c1: "ri_cpuRequest inp * ri_baseSpeed inp * cpuThrottleFactor slow * ri_cpuShare inp
      \<le> ri_cpuRequest inp * ri_baseSpeed inp * cpuThrottleFactor inp * ri_cpuShare inp"
    using F(4) pos(1) assms(6) by (intro mult_right_mono mult_left_mono)
  have c2: "ri_cpuRequest inp * ri_baseSpeed inp * cpuThrottleFactor inp * ri_cpuShare inp \<le> ri_cpuRequest inp * ri_baseSpeed inp * 1 * 1"
    using B pos(1) assms(1,2,6,7) by (intro mult_mono mult_nonneg_nonneg) auto
  have g1: "full * gpuFactor model slow * cpuFeedFactor slow * ri_gpuShare inp \<le> full * gpuFactor model inp * cpuFeedFactor inp * ri_gpuShare inp"
    using F B pos(2) assms(8) by (intro mult_right_mono mult_mono mult_left_mono mult_nonneg_nonneg) auto
  have g2: "full * gpuFactor model inp * cpuFeedFactor inp * ri_gpuShare inp \<le> full * 1 * 1 * 1"
    using F B pos(2) assms(8,9) by (intro mult_mono mult_nonneg_nonneg) auto
  have one: "cpuThrottleFactor inp = 1" "cpuFeedFactor inp = 1" if "1 \<le> ri_cpuMul inp"
    using that by (simp_all add: cpuThrottleFactor_def cpuFeedFactor_def clamp01_def Let_def)
  have gone: "gpuFactor model inp = 1" if "ri_gpuMul inp = 1" "ri_peerMul inp = 1"
    using that by (simp add: gpuFactor_def peerFactor_def clamp01_def Let_def)
  show ?thesis
    unfolding cpu gpu same assms(15)[symmetric] using c1 c2 g1 g2 pos one gone by auto
qed

definition exampleRates :: RateInputs where
  "exampleRates = \<lparr>ri_baseSpeed = 1, ri_cpuRequest = 4, ri_gpuRequest = 2, ri_cpuUtil = 1, ri_memoryIntensity = 0, ri_ioIntensity = 0,
     ri_cpuFeedIntensity = 1/2, ri_sensitivityCPU = 1, ri_sensitivityGPU = 1, ri_cpuMul = 1, ri_gpuMul = 1, ri_cpuShare = 1, ri_gpuShare = 1,
     ri_peerTransferIntensity = 1/4, ri_peerMul = 1\<rparr>"

theorem Rates_caps_slow_witness:
  "snd (Rates ModelV1 exampleRates) = 2 \<and> snd (Rates ModelV1 (exampleRates\<lparr>ri_cpuMul := 1/2, ri_gpuMul := 1/2\<rparr>)) \<le> 2"
  using Rates_caps_slow[of exampleRates "1/2" "1/2" _ _ ModelV1, OF _ _ _ _ _ _ _ _ _ _ _ _ _ refl refl]
  by (simp add: exampleRates_def)

end
