(* ===== verification/Sim_Jobs.thy ===== *)
theory Sim_Jobs
  imports Node_Fsm "HOL-Library.Word"
begin

unbundle bit_operations_syntax

text \<open>
  The Kubernetes objects of a simulated run (\<^verbatim>\<open>simulator/pkg/workload\<close>: \<^verbatim>\<open>names.go\<close>, \<^verbatim>\<open>placement.go\<close>, \<^verbatim>\<open>build.go\<close>, the settings of
  \<^verbatim>\<open>keys.go\<close>, \<^verbatim>\<open>logline.go\<close>): how the jobs of a trace are gathered into Job objects, what those are called and where their pods may run.
  The classification of the pods is that of the controller, \<open>Node_Fsm\<close>. Code outside the repository is in the record \<open>kubeLib\<close>:
  semantic equality of pod templates, \<open>MatchToleration\<close>, the decimal text of a float, the hex text of a SHA-256. Strings are ASCII.
\<close>

section \<open>Settings\<close>

datatype Owner = OwnerJob | OwnerPod

datatype Intent = IntentAnnotation | IntentAffinity | IntentBoth | IntentNone

datatype Completion = CompletionKWOK | CompletionDelete

definition enumError :: "string \<Rightarrow> string \<Rightarrow> string list \<Rightarrow> goerr" where
  "enumError setting s names = setting @ '': invalid value '' @ CHR 0x22 # s @ CHR 0x22 # '', want one of '' @ Join names '', ''"

text \<open>The valid values are given with their Go names; the result is the value itself.\<close>

definition parseEnum :: "string \<Rightarrow> string \<Rightarrow> (string \<times> 'a) list \<Rightarrow> goerr + 'a" where
  "parseEnum setting s0 valid =
     (let s = TrimSpace s0
      in case map_of valid s of Some v \<Rightarrow> Inr v | None \<Rightarrow> Inl (enumError setting s (map fst valid)))"

definition ParseOwner :: "string \<Rightarrow> goerr + Owner" where
  "ParseOwner s = parseEnum ''SIM_WORKLOAD_OWNER'' s [(''job'', OwnerJob), (''pod'', OwnerPod)]"

definition ParseIntent :: "string \<Rightarrow> goerr + Intent" where
  "ParseIntent s = parseEnum ''SIM_WORKLOAD_INTENT'' s
     [(''annotation'', IntentAnnotation), (''affinity'', IntentAffinity), (''both'', IntentBoth), (''none'', IntentNone)]"

definition ParseCompletion :: "string \<Rightarrow> goerr + Completion" where
  "ParseCompletion s = parseEnum ''SIM_WORKLOAD_COMPLETION'' s [(''kwok'', CompletionKWOK), (''delete'', CompletionDelete)]"

section \<open>Names\<close>

definition nameOk :: "char \<Rightarrow> bool" where
  "nameOk c \<longleftrightarrow> c \<in> set ''abcdefghijklmnopqrstuvwxyz0123456789-''"

definition TrimRightDash :: "string \<Rightarrow> string" where
  "TrimRightDash s = rev (dropWhile (\<lambda>c. c = CHR ''-'') (rev s))"

definition sanitizeName :: "string \<Rightarrow> nat \<Rightarrow> string" where
  "sanitizeName s0 mx =
     (let s = map (\<lambda>c. if nameOk c then c else CHR ''-'') (ToLower (TrimSpace s0));
          out = Trim s ''-'';
          out = (if length out > mx then TrimRightDash (take mx out) else out)
      in if out = [] then ''job'' else out)"

definition labelValue :: "string \<Rightarrow> string" where
  "labelValue s = (if TrimSpace s = [] then [] else sanitizeName s 63)"

text \<open>FNV-64a over bytes, and the eight hex digits of its upper half.\<close>

definition fnv64a :: "string \<Rightarrow> 64 word" where
  "fnv64a bs = fold (\<lambda>c h. (h XOR word_of_int (of_char c)) * 1099511628211) bs 14695981039346656037"

definition hexLower :: "nat \<Rightarrow> char" where
  "hexLower n = ''0123456789abcdef'' ! (n mod 16)"

primrec hexOf :: "nat \<Rightarrow> nat \<Rightarrow> string" where
  "hexOf 0 n = []"
| "hexOf (Suc k) n = hexOf k (n div 16) @ [hexLower n]"

definition hex08 :: "64 word \<Rightarrow> string" where
  "hex08 h = hexOf 8 (unat (drop_bit 32 h))"

definition ObjectName :: "string \<Rightarrow> string \<Rightarrow> string" where
  "ObjectName runID groupKey =
     ''sim-'' @ sanitizeName groupKey 37 @ ''-'' @ hex08 (fnv64a (runID @ CHR 0x00 # groupKey))"

definition logField :: "string \<Rightarrow> string" where
  "logField s = (let t = Join (Fields s) ''_'' in if t = [] then ''unknown'' else t)"

section \<open>Placement\<close>

record SelectorTerm =
  st_expressions :: "NodeSelectorRequirement list"
  st_fields :: "NodeSelectorRequirement list"

text \<open>What the merge does not look at (preferred terms, pod affinity) is of the types \<open>'p\<close> and \<open>'q\<close>.\<close>

record 'p SimNodeAffinity =
  sna_required :: "SelectorTerm list option"
  sna_preferred :: "'p option"

record ('p, 'q) SimAffinity =
  sa_node :: "'p SimNodeAffinity option"
  sa_pod :: "'q option"

record Toleration =
  tol_key :: string
  tol_operator :: string
  tol_value :: string
  tol_effect :: string
  tol_seconds :: "int option"

record ('p, 'q) Placement =
  plc_affinity :: "('p, 'q) SimAffinity option"
  plc_nodeSelector :: strmap
  plc_tolerations :: "Toleration list"

definition notInEco :: NodeSelectorRequirement where
  "notInEco = \<lparr>nsr_key = PowerProfileLabelKey, nsr_operator = ''NotIn'', nsr_values = [profileEco]\<rparr>"

definition termExcludesEco :: "SelectorTerm \<Rightarrow> bool" where
  "termExcludesEco t =
     list_ex (\<lambda>e. nsr_key e = PowerProfileLabelKey \<and> nsr_operator e = ''NotIn'' \<and> profileEco \<in> set (nsr_values e)) (st_expressions t)"

definition mergeTerm :: "SelectorTerm \<Rightarrow> SelectorTerm" where
  "mergeTerm t =
     (if st_expressions t = [] \<and> st_fields t = [] then t
      else if termExcludesEco t then t
      else t\<lparr>st_expressions := st_expressions t @ [notInEco]\<rparr>)"

definition ClassPerformance :: string where
  "ClassPerformance = ''performance''"

definition mergeTerms :: "SelectorTerm list option \<Rightarrow> SelectorTerm list" where
  "mergeTerms req =
     (case req of
        None \<Rightarrow> [\<lparr>st_expressions = [notInEco], st_fields = []\<rparr>]
      | Some terms \<Rightarrow> if terms = [] then [\<lparr>st_expressions = [notInEco], st_fields = []\<rparr>] else map mergeTerm terms)"

definition MergeIntent :: "('p, 'q) SimAffinity option \<Rightarrow> string \<Rightarrow> Intent \<Rightarrow> ('p, 'q) SimAffinity option" where
  "MergeIntent aff cls intent =
     (if cls \<noteq> ClassPerformance \<or> intent \<noteq> IntentAffinity \<and> intent \<noteq> IntentBoth then aff
      else (let a = (case aff of None \<Rightarrow> \<lparr>sa_node = None, sa_pod = None\<rparr> | Some a \<Rightarrow> a);
                n = (case sa_node a of None \<Rightarrow> \<lparr>sna_required = None, sna_preferred = None\<rparr> | Some n \<Rightarrow> n)
            in Some (a\<lparr>sa_node := Some (n\<lparr>sna_required := Some (mergeTerms (sna_required n))\<rparr>)\<rparr>)))"

definition DefaultNodeSelector :: "string \<Rightarrow> strmap" where
  "DefaultNodeSelector cluster = (if cluster = [] then Map.empty else [''sim.joulie.io/cluster'' \<mapsto> cluster])"

definition KWOKToleration :: Toleration where
  "KWOKToleration = \<lparr>tol_key = ''kwok.x-k8s.io/node'', tol_operator = ''Equal'', tol_value = ''fake'', tol_effect = ''NoSchedule'', tol_seconds = None\<rparr>"

section \<open>Job specifications\<close>

record Profile =
  pf_cpuUtil :: f64
  pf_gpuUtil :: f64
  pf_memoryIntensity :: f64
  pf_ioIntensity :: f64

record ('p, 'q) Template =
  tp_namespace :: string
  tp_workloadID :: string
  tp_workloadType :: string
  tp_podRole :: string
  tp_class :: string
  tp_gang :: bool
  tp_submitOffsetSec :: f64
  tp_requests :: "(string \<times> int) list"
  tp_placement :: "('p, 'q) Placement"
  tp_profile :: Profile

record ('p, 'q) JobSpec =
  js_jobID :: string
  js_template :: "('p, 'q) Template"

record ('p, 'q) Group =
  gr_key :: string
  gr_template :: "('p, 'q) Template"
  gr_jobIDs :: "string list"

record ('p, 'q) kubeLib =
  kl_sameTemplate :: "('p, 'q) Template \<Rightarrow> ('p, 'q) Template \<Rightarrow> bool"
  kl_matchToleration :: "Toleration \<Rightarrow> Toleration \<Rightarrow> bool"
  kl_fmtFloat :: "f64 \<Rightarrow> string"
  kl_fmtFixed :: "f64 \<Rightarrow> nat \<Rightarrow> string"
  kl_sha256 :: "string \<Rightarrow> string"

record BuildOptions =
  bo_runID :: string
  bo_intent :: "Intent option"
  bo_image :: string
  bo_namespace :: string
  bo_nodeSelector :: strmap
  bo_tolerations :: "Toleration list"
  bo_jobTTL :: int

definition optIntent :: "BuildOptions \<Rightarrow> Intent" where
  "optIntent opts = (case bo_intent opts of None \<Rightarrow> IntentAnnotation | Some i \<Rightarrow> i)"

definition hasToleration :: "('p, 'q) kubeLib \<Rightarrow> Toleration list \<Rightarrow> Toleration \<Rightarrow> bool" where
  "hasToleration lib ts t = list_ex (\<lambda>x. kl_matchToleration lib x t \<and> tol_seconds x = tol_seconds t) ts"

definition mergePlacement :: "('p, 'q) kubeLib \<Rightarrow> ('p, 'q) Placement \<Rightarrow> string \<Rightarrow> BuildOptions \<Rightarrow> ('p, 'q) Placement" where
  "mergePlacement lib p cls opts =
     \<lparr>plc_affinity = MergeIntent (plc_affinity p) cls (optIntent opts),
      plc_nodeSelector = bo_nodeSelector opts ++ plc_nodeSelector p,
      plc_tolerations = fold (\<lambda>t ts. if hasToleration lib ts t then ts else ts @ [t]) (bo_tolerations opts) (plc_tolerations p)\<rparr>"

section \<open>Groups\<close>

definition GroupKey :: "('p, 'q) kubeLib \<Rightarrow> string \<Rightarrow> string \<Rightarrow> string \<Rightarrow> f64 \<Rightarrow> string" where
  "GroupKey lib jobID workloadID podRole submitOffsetSec =
     (if workloadID = [] then jobID else workloadID @ ''/'' @ podRole @ ''@'' @ kl_fmtFloat lib submitOffsetSec)"

definition numbered :: "string \<Rightarrow> int \<Rightarrow> string" where
  "numbered key i = key @ ''#'' @ Itoa i"

lemma numbered_inj: "numbered key i = numbered key j \<longleftrightarrow> i = j"
  by (auto simp: numbered_def intro: Itoa_inj)

definition takenFrom :: "string list \<Rightarrow> string \<Rightarrow> int \<Rightarrow> int set" where
  "takenFrom used key i = {j. i \<le> j \<and> numbered key j \<in> set used}"

lemma finite_takenFrom: "finite (takenFrom used key i)"
proof (rule finite_imageD)
  show "finite (numbered key ` takenFrom used key i)" by (rule finite_subset[of _ "set used"]) (auto simp: takenFrom_def)
  show "inj_on (numbered key) (takenFrom used key i)" by (simp add: inj_on_def numbered_inj)
qed

lemma takenFrom_step:
  "takenFrom used key i = (if numbered key i \<in> set used then insert i (takenFrom used key (i + 1)) else takenFrom used key (i + 1))"
proof -
  have "i \<le> j \<longleftrightarrow> j = i \<or> i + 1 \<le> j" for j by linarith
  then show ?thesis unfolding takenFrom_def by auto
qed

text \<open>The loop that looks for a key nobody uses. Each turn that finds a used key passes one of the finitely many used ones.\<close>

function freeKey :: "string list \<Rightarrow> string \<Rightarrow> int \<Rightarrow> string \<Rightarrow> string" where
  "freeKey used key i gkey = (if gkey \<in> set used then freeKey used key (i + 1) (numbered key i) else gkey)"
  by pat_completeness auto
termination
proof (relation "measure (\<lambda>(used, key, i, gkey). card (takenFrom used key i) + (if gkey \<in> set used then 1 else 0))", goal_cases)
  case (2 used key i gkey)
  have "i \<notin> takenFrom used key (i + 1)" by (simp add: takenFrom_def)
  then show ?case using 2 finite_takenFrom[of used key "i + 1"] takenFrom_step[of used key i] by simp
qed simp

declare freeKey.simps [simp del]

record ('p, 'q) grouping =
  gp_groups :: "('p, 'q) Group list"
  gp_parts :: "string \<times> bool \<Rightarrow> nat list"
  gp_used :: "string list"
  gp_split :: "string list"

definition findGroup :: "('p, 'q) kubeLib \<Rightarrow> ('p, 'q) Group list \<Rightarrow> ('p, 'q) Template \<Rightarrow> nat list \<Rightarrow> nat option" where
  "findGroup lib groups t idxs = find (\<lambda>i. kl_sameTemplate lib (gr_template (groups ! i)) t) idxs"

definition placeJob :: "('p, 'q) kubeLib \<Rightarrow> ('p, 'q) JobSpec \<Rightarrow> ('p, 'q) grouping \<Rightarrow> ('p, 'q) grouping" where
  "placeJob lib j s =
     (let t = js_template j;
          key = GroupKey lib (js_jobID j) (tp_workloadID t) (tp_podRole t) (tp_submitOffsetSec t);
          pk = (key, tp_workloadID t = [])
      in case findGroup lib (gp_groups s) t (gp_parts s pk) of
           Some gi \<Rightarrow> s\<lparr>gp_groups := (gp_groups s)[gi := (gp_groups s ! gi)\<lparr>gr_jobIDs := gr_jobIDs (gp_groups s ! gi) @ [js_jobID j]\<rparr>]\<rparr>
         | None \<Rightarrow>
             (let n = length (gp_parts s pk);
                  gkey = freeKey (gp_used s) key (int n + 2) (if n > 0 then numbered key (int n + 1) else key)
              in s\<lparr>gp_split := (if n > 0 \<and> key \<notin> set (gp_split s) then key # gp_split s else gp_split s),
                   gp_used := gkey # gp_used s,
                   gp_parts := (gp_parts s)(pk := gp_parts s pk @ [length (gp_groups s)]),
                   gp_groups := gp_groups s @ [\<lparr>gr_key = gkey, gr_template = t, gr_jobIDs = [js_jobID j]\<rparr>]\<rparr>))"

definition groupStart :: "('p, 'q) grouping" where
  "groupStart = \<lparr>gp_groups = [], gp_parts = \<lambda>_. [], gp_used = [], gp_split = []\<rparr>"

definition GroupJobs :: "('p, 'q) kubeLib \<Rightarrow> ('p, 'q) JobSpec list \<Rightarrow> ('p, 'q) Group list \<times> string list" where
  "GroupJobs lib jobs = (let s = fold (placeJob lib) jobs groupStart in (gp_groups s, sort (gp_split s)))"

section \<open>Objects\<close>

definition objNamespace :: "('p, 'q) Template \<Rightarrow> BuildOptions \<Rightarrow> string" where
  "objNamespace t opts =
     (if bo_namespace opts \<noteq> [] then bo_namespace opts else if TrimSpace (tp_namespace t) \<noteq> [] then tp_namespace t else ''default'')"

definition RunLabelValue :: "('p, 'q) kubeLib \<Rightarrow> string \<Rightarrow> string" where
  "RunLabelValue lib runID = take 10 (kl_sha256 lib runID)"

definition putNonEmpty :: "string \<Rightarrow> string \<Rightarrow> strmap \<Rightarrow> strmap" where
  "putNonEmpty k v m = (if v \<noteq> [] then m(k \<mapsto> v) else m)"

definition objectLabels :: "('p, 'q) kubeLib \<Rightarrow> ('p, 'q) Template \<Rightarrow> BuildOptions \<Rightarrow> strmap" where
  "objectLabels lib t opts =
     putNonEmpty ''sim.joulie.io/pod-role'' (labelValue (tp_podRole t))
       (putNonEmpty ''sim.joulie.io/workload-type'' (labelValue (tp_workloadType t))
          [''app.kubernetes.io/part-of'' \<mapsto> ''joulie-sim-workload'', ''sim.joulie.io/run-id'' \<mapsto> RunLabelValue lib (bo_runID opts)])"

definition isExtendedResource :: "string \<Rightarrow> bool" where
  "isExtendedResource name =
     (case Cut name CHR ''/'' of (domain, _, found) \<Rightarrow>
        found \<and> domain \<noteq> ''kubernetes.io'' \<and> \<not> HasSuffix domain ''.kubernetes.io'')"

record ('p, 'q) PodTemplateSpec =
  pt_name :: string
  pt_namespace :: string
  pt_labels :: strmap
  pt_annotations :: strmap
  pt_image :: string
  pt_requests :: "(string \<times> int) list"
  pt_limits :: "(string \<times> int) list"
  pt_placement :: "('p, 'q) Placement"

definition podTemplate :: "('p, 'q) kubeLib \<Rightarrow> ('p, 'q) Template \<Rightarrow> string \<Rightarrow> BuildOptions \<Rightarrow> ('p, 'q) PodTemplateSpec" where
  "podTemplate lib t groupKey opts =
     (let ann = [''sim.joulie.io/group'' \<mapsto> groupKey,
                 ''sim.joulie.io/cpu-util-pct'' \<mapsto> kl_fmtFixed lib (pf_cpuUtil (tp_profile t) * 100) 1,
                 ''sim.joulie.io/gpu-util-pct'' \<mapsto> kl_fmtFixed lib (pf_gpuUtil (tp_profile t) * 100) 1,
                 ''sim.joulie.io/memory-pressure-pct'' \<mapsto> kl_fmtFixed lib (pf_memoryIntensity (tp_profile t) * 100) 1,
                 ''sim.joulie.io/io-intensity'' \<mapsto> kl_fmtFixed lib (pf_ioIntensity (tp_profile t)) 2];
          ann = (if optIntent opts = IntentAnnotation \<or> optIntent opts = IntentBoth
                 then ann(WorkloadClassAnnotation \<mapsto> tp_class t) else ann)
      in \<lparr>pt_name = [], pt_namespace = [], pt_labels = objectLabels lib t opts, pt_annotations = ann,
          pt_image = (if bo_image opts = [] then ''registry.k8s.io/pause:3.9'' else bo_image opts),
          pt_requests = tp_requests t, pt_limits = filter (isExtendedResource \<circ> fst) (tp_requests t),
          pt_placement = mergePlacement lib (tp_placement t) (tp_class t) opts\<rparr>)"

record ('p, 'q) SimJob =
  sj_name :: string
  sj_namespace :: string
  sj_labels :: strmap
  sj_run :: string
  sj_jobIDs :: string
  sj_completions :: int
  sj_indexed :: bool
  sj_backoffLimit :: int
  sj_ttlSeconds :: "int option"
  sj_template :: "('p, 'q) PodTemplateSpec"

definition int32 :: "int \<Rightarrow> int" where
  "int32 x = (x + 2 ^ 31) mod 2 ^ 32 - 2 ^ 31"

definition BuildJob :: "('p, 'q) kubeLib \<Rightarrow> ('p, 'q) Group \<Rightarrow> BuildOptions \<Rightarrow> ('p, 'q) SimJob" where
  "BuildJob lib g opts =
     (let n = int32 (int (length (gr_jobIDs g))); secs = int32 (go_div (bo_jobTTL opts) (10 ^ 9))
      in \<lparr>sj_name = ObjectName (bo_runID opts) (gr_key g), sj_namespace = objNamespace (gr_template g) opts,
          sj_labels = objectLabels lib (gr_template g) opts, sj_run = bo_runID opts, sj_jobIDs = Join (gr_jobIDs g) '','',
          sj_completions = n, sj_indexed = (n > 1), sj_backoffLimit = 0,
          sj_ttlSeconds = (if secs > 0 then Some secs else None), sj_template = podTemplate lib (gr_template g) (gr_key g) opts\<rparr>)"

definition BuildPod :: "('p, 'q) kubeLib \<Rightarrow> ('p, 'q) JobSpec \<Rightarrow> BuildOptions \<Rightarrow> ('p, 'q) PodTemplateSpec" where
  "BuildPod lib j opts =
     (let t = js_template j;
          tpl = podTemplate lib t (GroupKey lib (js_jobID j) (tp_workloadID t) (tp_podRole t) (tp_submitOffsetSec t)) opts
      in tpl\<lparr>pt_annotations := (pt_annotations tpl)(''sim.joulie.io/jobId'' \<mapsto> js_jobID j, ''sim.joulie.io/run'' \<mapsto> bo_runID opts),
             pt_name := ObjectName (bo_runID opts) (js_jobID j), pt_namespace := objNamespace t opts\<rparr>)"

section \<open>Free keys\<close>

definition keyAt :: "string \<Rightarrow> int \<Rightarrow> string \<Rightarrow> nat \<Rightarrow> string" where
  "keyAt key i gkey k = (if k = 0 then gkey else numbered key (i + int k - 1))"

lemma freeKey_reached: "\<exists>k. freeKey used key i gkey = keyAt key i gkey k \<and> (\<forall>j<k. keyAt key i gkey j \<in> set used) \<and> keyAt key i gkey k \<notin> set used"
proof (induction used key i gkey rule: freeKey.induct)
  case (1 used key i gkey)
  show ?case
  proof (cases "gkey \<in> set used")
    case True
    then obtain k where k: "freeKey used key (i + 1) (numbered key i) = keyAt key (i + 1) (numbered key i) k"
      "\<forall>j<k. keyAt key (i + 1) (numbered key i) j \<in> set used" "keyAt key (i + 1) (numbered key i) k \<notin> set used" using 1 by blast
    have shift: "keyAt key (i + 1) (numbered key i) j = keyAt key i gkey (Suc j)" for j by (simp add: keyAt_def)
    have "\<forall>j<Suc k. keyAt key i gkey j \<in> set used" using k(2) True unfolding shift by (auto simp: less_Suc_eq_0_disj keyAt_def)
    then show ?thesis using k True by (intro exI[of _ "Suc k"]) (simp add: freeKey.simps[of used key i gkey] shift)
  next
    case False
    then show ?thesis by (intro exI[of _ 0]) (simp add: keyAt_def freeKey.simps[of used key i gkey])
  qed
qed

lemma freeKey_fresh: "freeKey used key i gkey \<notin> set used"
  using freeKey_reached[of used key i gkey] by auto

text \<open>C40: The search for a key that no group has ends: after at most one turn more than there are keys in use it has one, the first in
  the order it tries them (the key itself, then \<open>#i\<close>, \<open>#i+1\<close> and so on) that is not in use.\<close>

theorem freeKey_terminates:
  "\<exists>k\<le>Suc (length used). freeKey used key i gkey = keyAt key i gkey k \<and> freeKey used key i gkey \<notin> set used
     \<and> (\<forall>j<k. keyAt key i gkey j \<in> set used)"
proof -
  obtain k where k: "freeKey used key i gkey = keyAt key i gkey k" "\<forall>j<k. keyAt key i gkey j \<in> set used" "keyAt key i gkey k \<notin> set used"
    using freeKey_reached by blast
  have "keyAt key i gkey ` {1..<k} \<subseteq> set used" using k(2) by auto
  then have "card (keyAt key i gkey ` {1..<k}) \<le> length used" by (meson List.finite_set card_length card_mono order_trans)
  moreover have "inj_on (keyAt key i gkey) {1..<k}" by (auto simp: inj_on_def keyAt_def numbered_inj)
  ultimately have "k - 1 \<le> length used" by (simp add: card_image)
  then have "k \<le> Suc (length used)" by simp
  then show ?thesis using k by (intro exI[of _ k]) simp
qed

theorem freeKey_terminates_witness:
  "freeKey [''a'', ''a#2''] ''a'' 2 ''a'' = ''a#3'' \<and>
   (\<exists>k\<le>3. ''a#3'' = keyAt ''a'' 2 ''a'' k \<and> (\<forall>j<k. keyAt ''a'' 2 ''a'' j \<in> {''a'', ''a#2''}))"
proof -
  have e: "freeKey [''a'', ''a#2''] ''a'' 2 ''a'' = ''a#3''" by (simp add: freeKey.simps numbered_def Itoa_def nat_str.simps digit_char_def)
  have "\<exists>k\<le>Suc (length [''a'', ''a#2'']). ''a#3'' = keyAt ''a'' 2 ''a'' k \<and> ''a#3'' \<notin> set [''a'', ''a#2'']
      \<and> (\<forall>j<k. keyAt ''a'' 2 ''a'' j \<in> set [''a'', ''a#2''])"
    using freeKey_terminates[of "[''a'', ''a#2'']" "''a''" 2 "''a''"] unfolding e .
  then have "\<exists>k\<le>3. ''a#3'' = keyAt ''a'' 2 ''a'' k \<and> (\<forall>j<k. keyAt ''a'' 2 ''a'' j \<in> {''a'', ''a#2''})" by (simp add: numeral_3_eq_3)
  then show ?thesis using e by blast
qed

section \<open>Groups partition the jobs\<close>

definition goodGroups :: "('p, 'q) kubeLib \<Rightarrow> ('p, 'q) JobSpec list \<Rightarrow> ('p, 'q) grouping \<Rightarrow> bool" where
  "goodGroups lib js s \<longleftrightarrow>
     gp_used s = rev (map gr_key (gp_groups s)) \<and> distinct (map gr_key (gp_groups s)) \<and>
     (\<forall>pk. \<forall>i\<in>set (gp_parts s pk). i < length (gp_groups s)) \<and>
     mset (concat (map gr_jobIDs (gp_groups s))) = mset (map js_jobID js) \<and>
     (\<forall>g\<in>set (gp_groups s). gr_jobIDs g \<noteq> []) \<and>
     (\<forall>j\<in>set js. \<exists>g\<in>set (gp_groups s). js_jobID j \<in> set (gr_jobIDs g) \<and>
        (gr_template g = js_template j \<or> kl_sameTemplate lib (gr_template g) (js_template j))) \<and>
     distinct (gp_split s)"

lemma findGroup_Some:
  assumes "findGroup lib groups t idxs = Some i"
  shows "i \<in> set idxs" "kl_sameTemplate lib (gr_template (groups ! i)) t"
  using assms by (auto simp: findGroup_def find_Some_iff)

lemma mset_concat_update:
  assumes "i < length gs" and "mset (f g') = mset (f (gs ! i)) + {#x#}"
  shows "mset (concat (map f (gs[i := g']))) = mset (concat (map f gs)) + {#x#}"
proof -
  have gs: "gs = take i gs @ gs ! i # drop (Suc i) gs" using assms(1) by (rule id_take_nth_drop)
  have "gs[i := g'] = take i gs @ g' # drop (Suc i) gs" using assms(1) by (rule upd_conv_take_nth_drop)
  then have "mset (concat (map f (gs[i := g']))) = mset (concat (map f (take i gs))) + mset (f g') + mset (concat (map f (drop (Suc i) gs)))"
    by simp
  also have "\<dots> = mset (concat (map f (take i gs @ gs ! i # drop (Suc i) gs))) + {#x#}" by (simp add: assms(2))
  finally show ?thesis using gs by simp
qed

lemma mem_list_update: "i < length xs \<Longrightarrow> y \<in> set xs \<Longrightarrow> y \<in> set (xs[i := z]) \<or> y = xs ! i"
  by (metis in_set_conv_nth length_list_update nth_list_update_neq)

lemma placeJob_join_good:
  fixes s :: "('p, 'q) grouping" and i and j :: "('p, 'q) JobSpec"
  defines "g \<equiv> (gp_groups s ! i)\<lparr>gr_jobIDs := gr_jobIDs (gp_groups s ! i) @ [js_jobID j]\<rparr>"
  assumes good: "goodGroups lib js s" and i: "i < length (gp_groups s)" and same: "kl_sameTemplate lib (gr_template (gp_groups s ! i)) (js_template j)"
  shows "goodGroups lib (js @ [j]) (s\<lparr>gp_groups := (gp_groups s)[i := g]\<rparr>)"
proof -
  let ?gs = "gp_groups s"
  have keys: "map gr_key (?gs[i := g]) = map gr_key ?gs"
    by (simp add: map_update g_def list_update_same_conv i)
  have ids: "mset (concat (map gr_jobIDs (?gs[i := g]))) = mset (map js_jobID (js @ [j]))"
    using mset_concat_update[OF i, of gr_jobIDs g "js_jobID j"] good by (simp add: g_def goodGroups_def)
  have g: "g \<in> set (?gs[i := g])" using i by (simp add: set_update_memI)
  have old: "\<exists>h\<in>set (?gs[i := g]). js_jobID x \<in> set (gr_jobIDs h) \<and> (gr_template h = js_template x \<or> kl_sameTemplate lib (gr_template h) (js_template x))"
    if x: "x \<in> set js" for x
  proof -
    obtain h where h: "h \<in> set ?gs" "js_jobID x \<in> set (gr_jobIDs h)" "gr_template h = js_template x \<or> kl_sameTemplate lib (gr_template h) (js_template x)"
      using good x unfolding goodGroups_def by blast
    consider "h \<in> set (?gs[i := g])" | "h = ?gs ! i" using mem_list_update[OF i h(1)] by blast
    then show ?thesis
    proof cases
      case 2
      have "js_jobID x \<in> set (gr_jobIDs g)" "gr_template g = gr_template h" using h(2) 2 by (simp_all add: g_def)
      then show ?thesis using h(3) g by metis
    qed (use h in blast)
  qed
  have "js_jobID j \<in> set (gr_jobIDs g) \<and> kl_sameTemplate lib (gr_template g) (js_template j)" using same by (simp add: g_def)
  then have all: "\<forall>x\<in>set (js @ [j]). \<exists>h\<in>set (?gs[i := g]). js_jobID x \<in> set (gr_jobIDs h) \<and>
      (gr_template h = js_template x \<or> kl_sameTemplate lib (gr_template h) (js_template x))" using old g by auto
  have ne: "\<forall>h\<in>set (?gs[i := g]). gr_jobIDs h \<noteq> []"
    using good set_update_subset_insert[of ?gs i g] unfolding goodGroups_def by (auto simp: g_def)
  show ?thesis using good keys ids all ne unfolding goodGroups_def by simp
qed

lemma placeJob_new_good:
  fixes s :: "('p, 'q) grouping"
  assumes good: "goodGroups lib js s" and key: "gkey \<notin> set (gp_used s)" and sp: "distinct sp"
  shows "goodGroups lib (js @ [j]) (s\<lparr>gp_split := sp, gp_used := gkey # gp_used s,
      gp_parts := (gp_parts s)(pk := gp_parts s pk @ [length (gp_groups s)]),
      gp_groups := gp_groups s @ [\<lparr>gr_key = gkey, gr_template = js_template j, gr_jobIDs = [js_jobID j]\<rparr>]\<rparr>)"
  using good key sp unfolding goodGroups_def by (auto simp: less_SucI)

lemma placeJob_good:
  assumes "goodGroups lib js s"
  shows "goodGroups lib (js @ [j]) (placeJob lib j s)"
proof -
  let ?t = "js_template j"
  let ?key = "GroupKey lib (js_jobID j) (tp_workloadID ?t) (tp_podRole ?t) (tp_submitOffsetSec ?t)"
  let ?pk = "(?key, tp_workloadID ?t = [])"
  show ?thesis
  proof (cases "findGroup lib (gp_groups s) ?t (gp_parts s ?pk)")
    case (Some i)
    have "i < length (gp_groups s)" using findGroup_Some(1)[OF Some] assms unfolding goodGroups_def by blast
    from placeJob_join_good[OF assms this findGroup_Some(2)[OF Some]] show ?thesis by (simp add: placeJob_def Let_def Some)
  next
    case None
    have "distinct (if 0 < n \<and> ?key \<notin> set (gp_split s) then ?key # gp_split s else gp_split s)" for n :: nat
      using assms by (simp add: goodGroups_def)
    then show ?thesis unfolding placeJob_def Let_def None option.case by (intro placeJob_new_good assms freeKey_fresh)
  qed
qed

lemma GroupJobs_good: "goodGroups lib jobs (fold (placeJob lib) jobs groupStart)"
proof (induction jobs rule: rev_induct)
  case Nil
  then show ?case by (simp add: goodGroups_def groupStart_def)
next
  case (snoc j jobs)
  then show ?case by (simp add: placeJob_good)
qed

text \<open>C39: The groups of a trace are a partition of its jobs into Job objects: every job is in exactly one group, a group whose pod
  template its own equals, no group is empty, and no two groups have the same key, whatever the job and workload ids look like.\<close>

theorem GroupJobs_partition:
  assumes "GroupJobs lib jobs = (groups, split)" and "\<And>t. kl_sameTemplate lib t t"
  shows "mset (concat (map gr_jobIDs groups)) = mset (map js_jobID jobs) \<and> distinct (map gr_key groups) \<and> [] \<notin> set (map gr_jobIDs groups)
    \<and> (\<forall>j\<in>set jobs. \<exists>g\<in>set groups. js_jobID j \<in> set (gr_jobIDs g) \<and> kl_sameTemplate lib (gr_template g) (js_template j))
    \<and> distinct split \<and> sorted split"
proof -
  let ?s = "fold (placeJob lib) jobs groupStart"
  have g: "groups = gp_groups ?s" "split = sort (gp_split ?s)" using assms(1) by (auto simp: GroupJobs_def Let_def)
  note good = GroupJobs_good[of lib jobs, unfolded goodGroups_def]
  have "\<exists>g\<in>set groups. js_jobID j \<in> set (gr_jobIDs g) \<and> kl_sameTemplate lib (gr_template g) (js_template j)" if "j \<in> set jobs" for j
    using good that assms(2) unfolding g by metis
  moreover have "distinct (map gr_key groups)" using good unfolding g by blast
  moreover have "mset (concat (map gr_jobIDs groups)) = mset (map js_jobID jobs)" using good unfolding g by blast
  moreover have "distinct split" "sorted split" using good unfolding g by simp_all
  moreover have "[] \<notin> set (map gr_jobIDs groups)" using good unfolding g by force
  ultimately show ?thesis by blast
qed

definition exampleLib :: "(unit, unit) kubeLib" where
  "exampleLib = \<lparr>kl_sameTemplate = (=), kl_matchToleration = (=), kl_fmtFloat = (\<lambda>_. ''0''), kl_fmtFixed = (\<lambda>_ _. ''0.0''), kl_sha256 = (\<lambda>s. s)\<rparr>"

definition exampleTemplate :: "string \<Rightarrow> string \<Rightarrow> (unit, unit) Template" where
  "exampleTemplate wid cls =
     \<lparr>tp_namespace = [], tp_workloadID = wid, tp_workloadType = [], tp_podRole = ''worker'', tp_class = cls, tp_gang = False,
      tp_submitOffsetSec = 0, tp_requests = [], tp_placement = \<lparr>plc_affinity = None, plc_nodeSelector = Map.empty, plc_tolerations = []\<rparr>,
      tp_profile = \<lparr>pf_cpuUtil = 1, pf_gpuUtil = 0, pf_memoryIntensity = 0, pf_ioIntensity = 0\<rparr>\<rparr>"

theorem GroupJobs_partition_witness:
  "distinct (map gr_key (fst (GroupJobs exampleLib [\<lparr>js_jobID = ''a'', js_template = exampleTemplate ''w'' ''standard''\<rparr>,
     \<lparr>js_jobID = ''b'', js_template = exampleTemplate ''w'' ''performance''\<rparr>])))"
  using GroupJobs_partition[of exampleLib "[\<lparr>js_jobID = ''a'', js_template = exampleTemplate ''w'' ''standard''\<rparr>,
     \<lparr>js_jobID = ''b'', js_template = exampleTemplate ''w'' ''performance''\<rparr>]", OF surjective_pairing]
  by (simp add: exampleLib_def)

section \<open>Intent and the scheduler\<close>

text \<open>
  Which nodes a pod's required node affinity allows, as the scheduler reads it: the terms are alternatives, a term needs all its
  requirements, an empty term allows nothing. \<open>m\<close> says whether the node meets one requirement.
\<close>

definition termAllows :: "(NodeSelectorRequirement \<Rightarrow> bool) \<Rightarrow> SelectorTerm \<Rightarrow> bool" where
  "termAllows m t \<longleftrightarrow> (st_expressions t \<noteq> [] \<or> st_fields t \<noteq> []) \<and> list_all m (st_expressions t) \<and> list_all m (st_fields t)"

definition requiredOf :: "('p, 'q) SimAffinity option \<Rightarrow> SelectorTerm list option" where
  "requiredOf aff = (case aff of None \<Rightarrow> None | Some a \<Rightarrow> (case sa_node a of None \<Rightarrow> None | Some n \<Rightarrow> sna_required n))"

definition affinityAllows :: "(NodeSelectorRequirement \<Rightarrow> bool) \<Rightarrow> ('p, 'q) SimAffinity option \<Rightarrow> bool" where
  "affinityAllows m aff = (case requiredOf aff of None \<Rightarrow> True | Some terms \<Rightarrow> list_ex (termAllows m) terms)"

lemma requiredOf_merge:
  assumes "cls = ClassPerformance" and "intent = IntentAffinity \<or> intent = IntentBoth"
  shows "requiredOf (MergeIntent aff cls intent) = Some (mergeTerms (requiredOf aff))"
  using assms by (auto simp: MergeIntent_def requiredOf_def Let_def split: option.splits)

lemma mergeTerm_allows:
  assumes "\<And>e. nsr_key e = PowerProfileLabelKey \<Longrightarrow> nsr_operator e = ''NotIn'' \<Longrightarrow> m e \<longleftrightarrow> (\<forall>v. profile = Some v \<longrightarrow> v \<notin> set (nsr_values e))"
  shows "termAllows m (mergeTerm t) \<longleftrightarrow> termAllows m t \<and> profile \<noteq> Some profileEco"
proof (cases "st_expressions t = [] \<and> st_fields t = []")
  case False
  have eco: "m notInEco \<longleftrightarrow> profile \<noteq> Some profileEco" using assms[of notInEco] by (auto simp: notInEco_def)
  show ?thesis
  proof (cases "termExcludesEco t")
    case True
    then obtain e where e: "e \<in> set (st_expressions t)" "nsr_key e = PowerProfileLabelKey" "nsr_operator e = ''NotIn''" "profileEco \<in> set (nsr_values e)"
      by (auto simp: termExcludesEco_def list_ex_iff)
    then have "profile \<noteq> Some profileEco" if "termAllows m t" using that assms[OF e(2,3)] by (auto simp: termAllows_def list_all_iff)
    then show ?thesis using True False by (auto simp: mergeTerm_def)
  qed (use False eco in \<open>auto simp: mergeTerm_def termAllows_def\<close>)
qed (simp add: mergeTerm_def termAllows_def)

text \<open>The affinity a performance pod of a run declares by affinity gets keeps it off eco nodes and changes nothing else: with a
  node selector requirement \<open>NotIn\<close> read as documented, a node is allowed exactly when the trace's affinity allowed it and the node is
  not labelled eco, whatever terms the trace had (an empty list of required terms, which Kubernetes refuses, is left out). Any other pod keeps
  its affinity.\<close>

theorem MergeIntent_exact:
  assumes "\<And>e. nsr_key e = PowerProfileLabelKey \<Longrightarrow> nsr_operator e = ''NotIn'' \<Longrightarrow> m e \<longleftrightarrow> (\<forall>v. profile = Some v \<longrightarrow> v \<notin> set (nsr_values e))"
    and "requiredOf aff \<noteq> Some []"
  shows "(cls = ClassPerformance \<and> (intent = IntentAffinity \<or> intent = IntentBoth) \<longrightarrow>
      (affinityAllows m (MergeIntent aff cls intent) \<longleftrightarrow> affinityAllows m aff \<and> profile \<noteq> Some profileEco))
    \<and> (cls \<noteq> ClassPerformance \<or> intent = IntentAnnotation \<or> intent = IntentNone \<longrightarrow> MergeIntent aff cls intent = aff)"
proof -
  have eco: "m notInEco \<longleftrightarrow> profile \<noteq> Some profileEco" using assms(1)[of notInEco] by (auto simp: notInEco_def)
  have "list_ex (termAllows m) (mergeTerms req) \<longleftrightarrow> (case req of None \<Rightarrow> True | Some terms \<Rightarrow> list_ex (termAllows m) terms) \<and> profile \<noteq> Some profileEco"
    if "req \<noteq> Some []" for req
    using that eco mergeTerm_allows[of m profile, OF assms(1)]
    by (auto simp: mergeTerms_def termAllows_def[of m "SelectorTerm.make _ _", unfolded SelectorTerm.defs] list_ex_iff split: option.splits)
  from this[OF assms(2)] show ?thesis
    by (auto simp: affinityAllows_def requiredOf_merge) (auto simp: MergeIntent_def)
qed

theorem MergeIntent_exact_witness:
  "\<not> affinityAllows (\<lambda>e. ''eco'' \<notin> set (nsr_values e)) (MergeIntent (None :: (unit, unit) SimAffinity option) ClassPerformance IntentAffinity)"
  using MergeIntent_exact[of "\<lambda>e. ''eco'' \<notin> set (nsr_values e)" "Some ''eco''" "None :: (unit, unit) SimAffinity option" ClassPerformance IntentAffinity]
  by (simp add: requiredOf_def)

text \<open>The pod of a run as the controller sees it: its annotations, node selector and required node affinity.\<close>

definition fsmPod :: "('p, 'q) PodTemplateSpec \<Rightarrow> string \<Rightarrow> Pod" where
  "fsmPod tpl phase =
     \<lparr>pod_annotations = pt_annotations tpl, pod_nodeSelector = plc_nodeSelector (pt_placement tpl),
      pod_affinity = Some \<lparr>aff_nodeAffinity = Some \<lparr>naff_required = map_option (map st_expressions) (requiredOf (plc_affinity (pt_placement tpl)))\<rparr>\<rparr>,
      pod_deletionTimestamp = None, pod_phase = phase,
      pod_containers = [\<lparr>con_requests = pt_requests tpl, con_limits = pt_limits tpl, con_restartPolicy = None\<rparr>], pod_initContainers = []\<rparr>"

lemma notInEco_excludes: "exprExcludesEco notInEco"
  by (simp add: exprExcludesEco_def notInEco_def TrimSpace_def trim_by_def is_space_def)

lemma containsString_mem: "v \<in> set vs \<Longrightarrow> TrimSpace v = v \<Longrightarrow> containsString vs v"
  by (induction vs) auto

lemma mergeTerm_excludes:
  assumes "st_expressions t \<noteq> [] \<or> st_fields t \<noteq> []"
  shows "list_ex exprExcludesEco (st_expressions (mergeTerm t))"
proof (cases "termExcludesEco t")
  case True
  have eco: "TrimSpace profileEco = profileEco" by (simp add: TrimSpace_def trim_by_def is_space_def)
  show ?thesis using True assms containsString_mem[OF _ eco]
    by (auto simp: mergeTerm_def termExcludesEco_def list_ex_iff exprExcludesEco_def)
qed (use assms notInEco_excludes in \<open>auto simp: mergeTerm_def\<close>)

lemma mergeTerms_excludes:
  assumes "case req of None \<Rightarrow> True | Some terms \<Rightarrow> terms = [] \<or> list_ex (\<lambda>t. st_expressions t \<noteq> [] \<or> st_fields t \<noteq> []) terms"
  shows "list_ex (list_ex exprExcludesEco) (map st_expressions (mergeTerms req))"
proof (cases req)
  case (Some terms)
  show ?thesis
  proof (cases "terms = []")
    case False
    then obtain t where "t \<in> set terms" "st_expressions t \<noteq> [] \<or> st_fields t \<noteq> []" using assms Some by (auto simp: list_ex_iff)
    then show ?thesis using mergeTerm_excludes[of t] False unfolding Some mergeTerms_def list_ex_iff by auto
  qed (simp add: Some mergeTerms_def notInEco_excludes)
qed (simp add: mergeTerms_def notInEco_excludes)

lemma podTemplate_class:
  "optIntent opts = IntentAnnotation \<or> optIntent opts = IntentBoth \<Longrightarrow>
   map_get (pt_annotations (podTemplate lib t key opts)) WorkloadClassAnnotation = tp_class t"
  by (simp add: podTemplate_def Let_def map_get_def)

text \<open>C4: The controller recognises the performance pods of a run however the run declares them (by annotation, by affinity or both):
  the pod the simulator builds from a performance job is one the controller's classification counts as excluding eco, unless the trace
  itself restricts the job to node selector terms that are all empty, which no node meets, and the run declares by affinity alone.\<close>

theorem performance_pods_recognised:
  assumes "tp_class t = ClassPerformance" and "optIntent opts \<noteq> IntentNone"
    and "optIntent opts = IntentAffinity \<longrightarrow> (\<forall>terms. requiredOf (plc_affinity (tp_placement t)) = Some terms \<longrightarrow>
      terms = [] \<or> list_ex (\<lambda>x. st_expressions x \<noteq> [] \<or> st_fields x \<noteq> []) terms)"
  shows "PodExcludesEco (fsmPod (podTemplate lib t key opts) phase)
    \<and> ClassifyPodByScheduling (fsmPod (podTemplate lib t key opts) phase) = ''performance-only''
    \<and> CountPerformanceDemand [fsmPod (podTemplate lib t key opts) ''Pending''] = 1"
proof -
  have ex: "PodExcludesEco (fsmPod (podTemplate lib t key opts) ph)" for ph
  proof (cases "optIntent opts = IntentAffinity")
    case True
    let ?req = "requiredOf (plc_affinity (tp_placement t))"
    have "requiredOf (plc_affinity (pt_placement (podTemplate lib t key opts))) = Some (mergeTerms ?req)"
      using requiredOf_merge[OF assms(1), of IntentAffinity "plc_affinity (tp_placement t)"] True by (simp add: podTemplate_def mergePlacement_def Let_def)
    moreover have "list_ex (list_ex exprExcludesEco) (map st_expressions (mergeTerms ?req))"
      using assms(3) True by (intro mergeTerms_excludes) (auto split: option.split)
    ultimately show ?thesis by (simp add: PodExcludesEco_def requiredTerms_def fsmPod_def)
  next
    case False
    then have "optIntent opts = IntentAnnotation \<or> optIntent opts = IntentBoth" using assms(2) by (cases "optIntent opts") auto
    then have "map_get (pod_annotations (fsmPod (podTemplate lib t key opts) ph)) WorkloadClassAnnotation = ''performance''"
      using podTemplate_class[of opts lib t key] assms(1) by (simp add: fsmPod_def ClassPerformance_def)
    then show ?thesis unfolding PodExcludesEco_def by (simp add: TrimSpace_def trim_by_def is_space_def)
  qed
  have "pod_deletionTimestamp (fsmPod tpl ph) = None" "pod_phase (fsmPod tpl ph) = ph" for tpl :: "('a, 'b) PodTemplateSpec" and ph
    by (simp_all add: fsmPod_def)
  then show ?thesis using ex by (simp add: ClassifyPodByScheduling_def IsPerformanceSensitivePod_def)
qed

definition exampleOptions :: "Intent \<Rightarrow> BuildOptions" where
  "exampleOptions intent = \<lparr>bo_runID = ''run'', bo_intent = Some intent, bo_image = [], bo_namespace = [], bo_nodeSelector = Map.empty,
     bo_tolerations = [KWOKToleration], bo_jobTTL = 600 * 10 ^ 9\<rparr>"

theorem performance_pods_recognised_witness:
  "PodExcludesEco (fsmPod (podTemplate exampleLib (exampleTemplate ''w'' ''performance'') ''k'' (exampleOptions IntentAffinity)) ''Running'')"
  using performance_pods_recognised[of "exampleTemplate ''w'' ''performance''" "exampleOptions IntentAffinity" exampleLib "''k''" "''Running''"]
  by (simp add: exampleTemplate_def exampleOptions_def optIntent_def ClassPerformance_def requiredOf_def)

section \<open>Object names\<close>

text \<open>A DNS label: lower-case letters, digits and dashes, not at the ends, at most 63 characters.\<close>

definition alnum :: "char \<Rightarrow> bool" where
  "alnum c \<longleftrightarrow> nameOk c \<and> c \<noteq> CHR ''-''"

definition dnsLabel :: "string \<Rightarrow> bool" where
  "dnsLabel s \<longleftrightarrow> s \<noteq> [] \<and> length s \<le> 63 \<and> list_all nameOk s \<and> alnum (hd s) \<and> alnum (List.last s)"

lemma TrimRightDash_props:
  "set (TrimRightDash s) \<subseteq> set s" "length (TrimRightDash s) \<le> length s"
  "TrimRightDash s \<noteq> [] \<Longrightarrow> List.last (TrimRightDash s) \<noteq> CHR ''-'' \<and> hd (TrimRightDash s) = hd s"
proof -
  show "set (TrimRightDash s) \<subseteq> set s" unfolding TrimRightDash_def using set_dropWhileD by fastforce
  show "length (TrimRightDash s) \<le> length s" unfolding TrimRightDash_def by (simp add: length_dropWhile_le[of _ "rev s", simplified])
  assume ne: "TrimRightDash s \<noteq> []"
  let ?d = "dropWhile (\<lambda>c. c = CHR ''-'') (rev s)"
  have "?d \<noteq> []" using ne by (simp add: TrimRightDash_def)
  then have "hd ?d \<noteq> CHR ''-''" using hd_dropWhile by blast
  moreover have "rev s = takeWhile (\<lambda>c. c = CHR ''-'') (rev s) @ ?d" by simp
  then have "s = rev ?d @ rev (takeWhile (\<lambda>c. c = CHR ''-'') (rev s))" by (metis rev_append rev_rev_ident)
  ultimately show "List.last (TrimRightDash s) \<noteq> CHR ''-'' \<and> hd (TrimRightDash s) = hd s"
    using \<open>?d \<noteq> []\<close> unfolding TrimRightDash_def by (metis hd_append2 last_rev rev_is_Nil_conv)
qed

lemma sanitizeName_legal:
  assumes "3 \<le> mx"
  shows "sanitizeName s mx \<noteq> [] \<and> length (sanitizeName s mx) \<le> mx \<and> list_all nameOk (sanitizeName s mx)
    \<and> alnum (hd (sanitizeName s mx)) \<and> alnum (List.last (sanitizeName s mx))"
proof -
  define m where "m = map (\<lambda>c. if nameOk c then c else CHR ''-'') (ToLower (TrimSpace s))"
  define out where "out = Trim m ''-''"
  define cut where "cut = (if length out > mx then TrimRightDash (take mx out) else out)"
  have san: "sanitizeName s mx = (if cut = [] then ''job'' else cut)" by (simp add: sanitizeName_def m_def out_def cut_def Let_def)
  have mok: "\<forall>c\<in>set m. nameOk c" by (auto simp: m_def nameOk_def)
  have ook: "\<forall>c\<in>set out. nameOk c" using mok trim_by_set[of _ m] unfolding out_def Trim_def by blast
  have ends: "out \<noteq> [] \<Longrightarrow> hd out \<noteq> CHR ''-'' \<and> List.last out \<noteq> CHR ''-''"
    using trim_by_ends[of "\<lambda>c. c \<in> set ''-''" m] unfolding out_def Trim_def by simp
  have cok: "\<forall>c\<in>set cut. nameOk c" using ook TrimRightDash_props(1)[of "take mx out"] set_take_subset[of mx out] unfolding cut_def by auto
  have clen: "length cut \<le> mx" using TrimRightDash_props(2)[of "take mx out"] unfolding cut_def by auto
  have cends: "hd cut \<noteq> CHR ''-'' \<and> List.last cut \<noteq> CHR ''-''" if "cut \<noteq> []"
  proof (cases "length out > mx")
    case True
    then have "hd (take mx out) = hd out" "out \<noteq> []" using assms by auto
    then show ?thesis using TrimRightDash_props(3)[of "take mx out"] that True ends unfolding cut_def by simp
  next
    case False
    then show ?thesis using that ends unfolding cut_def by simp
  qed
  show ?thesis
  proof (cases "cut = []")
    case True
    then show ?thesis using assms by (simp add: san nameOk_def alnum_def)
  next
    case False
    then show ?thesis using cok clen cends by (auto simp: san list_all_iff alnum_def)
  qed
qed

lemma hexOf_legal: "length (hexOf k n) = k \<and> list_all alnum (hexOf k n)"
proof (induction k arbitrary: n)
  case (Suc k)
  have "hexLower n \<in> set ''0123456789abcdef''" unfolding hexLower_def by (rule nth_mem) simp
  moreover have "list_all alnum ''0123456789abcdef''" by (simp add: alnum_def nameOk_def)
  ultimately have "alnum (hexLower n)" unfolding list_all_iff by blast
  then show ?case using Suc by simp
qed simp

lemma nat_str_length: "n < 10 ^ k \<Longrightarrow> 0 < k \<Longrightarrow> length (nat_str n) \<le> k"
proof (induction k arbitrary: n)
  case (Suc k)
  show ?case
  proof (cases "n < 10")
    case False
    then have "n div 10 < 10 ^ k" "0 < k" using Suc.prems by (auto intro!: Suc_leI gr0I simp: less_mult_imp_div_less mult.commute)
    then show ?thesis using Suc.IH[of "n div 10"] False by (simp add: nat_str.simps[of n])
  qed (simp add: nat_str.simps[of n])
qed simp

lemma Itoa_index:
  assumes "0 \<le> index" and "index < 2 ^ 31"
  shows "length (Itoa index) \<le> 10 \<and> list_all alnum (Itoa index) \<and> Itoa index \<noteq> []"
proof -
  have i: "Itoa index = nat_str (nat index)" using assms(1) by (simp add: Itoa_def)
  have "nat index < 10 ^ 10" using assms by simp
  then have "length (Itoa index) \<le> 10" unfolding i by (rule nat_str_length) simp
  moreover have "list_all alnum ''0123456789''" by (simp add: alnum_def nameOk_def)
  then have "list_all alnum (Itoa index)" unfolding i list_all_iff using nat_str_digits[of "nat index"] by blast
  ultimately show ?thesis unfolding i by simp
qed

text \<open>The name of a Job object, for any run and group key, is a DNS label of at most 50 characters, so that the host name of
  each of its pods, the name followed by a dash and the completion index, is still a DNS label for every index a Job may have
  (a non-negative \<open>int32\<close>).\<close>

theorem ObjectName_legal:
  assumes "0 \<le> index" and "index < 2 ^ 31"
  shows "dnsLabel (ObjectName runID groupKey) \<and> length (ObjectName runID groupKey) \<le> 50
    \<and> dnsLabel (ObjectName runID groupKey @ ''-'' @ Itoa index)"
proof -
  let ?k = "sanitizeName groupKey 37" and ?h = "hex08 (fnv64a (runID @ CHR 0x00 # groupKey))"
  let ?n = "ObjectName runID groupKey"
  have k: "?k \<noteq> []" "length ?k \<le> 37" "list_all nameOk ?k" using sanitizeName_legal[of 37 groupKey] by auto
  have h: "length ?h = 8" "list_all alnum ?h" unfolding hex08_def by (simp_all only: hexOf_legal)
  have name: "?n = ''sim-'' @ ?k @ ''-'' @ ?h" by (simp add: ObjectName_def)
  have len: "length ?n \<le> 50" unfolding name using k(2) h(1) by simp
  have hok: "list_all nameOk ?h" using h(2) by (auto simp: list_all_iff alnum_def)
  have ok: "list_all nameOk ?n" unfolding name using k(3) hok by (simp add: nameOk_def)
  have first: "hd ?n = CHR ''s''" by (simp add: name)
  have "List.last ?n = List.last ?h" unfolding name using h(1) by (cases ?h) auto
  moreover have "List.last ?h \<in> set ?h" using h(1) by (intro last_in_set) auto
  ultimately have dns: "dnsLabel ?n" using len ok first h(2) by (auto simp: dnsLabel_def list_all_iff alnum_def nameOk_def name)
  have i: "length (Itoa index) \<le> 10" "list_all alnum (Itoa index)" "Itoa index \<noteq> []" using Itoa_index[OF assms] by auto
  have "List.last (?n @ ''-'' @ Itoa index) = List.last (Itoa index)" using i(3) by simp
  moreover have "alnum (List.last (Itoa index))" using i(2,3) by (auto simp: list_all_iff)
  moreover have "list_all nameOk (Itoa index)" using i(2) by (auto simp: list_all_iff alnum_def)
  moreover have "nameOk CHR ''-''" by (simp add: nameOk_def)
  ultimately have "dnsLabel (?n @ ''-'' @ Itoa index)" using len ok first i(1) dns unfolding dnsLabel_def by simp
  then show ?thesis using dns len by blast
qed

theorem ObjectName_legal_witness:
  "dnsLabel (ObjectName ''run'' ''w/worker@0'' @ ''-'' @ Itoa 7)"
  using ObjectName_legal[of 7 "''run''" "''w/worker@0''"] by simp

end
