(* ===== verification/Sim_Ledger.thy ===== *)
theory Sim_Ledger
  imports Go_Prelude "HOL-Library.Word"
begin

text \<open>
  The energy ledgers of the hardware emulator (\<^verbatim>\<open>simulator/pkg/emulate/ledger.go\<close>, \<open>WriteFileAtomic\<close> of
  \<^verbatim>\<open>simulator/pkg/hwemu/atomic.go\<close>): counters that grow by what the counters of a node grow, and the files they are kept in.
  The file at the path of a ledger is its inode and its bytes (\<open>ledgerDisk\<close>); what the operating system answers to the calls of
  one write is an argument (\<open>osAnswers\<close>). A write of at most \<open>ledgerInPlaceMax\<close> bytes at offset 0 lands whole or not at all,
  also when it reports an error. JSON is the pair of parameters \<open>enc\<close>, \<open>dec\<close>; \<open>rep\<close> are the values they carry exactly, and
  a reader of JSON skips blanks at the end (\<open>jsonCodec\<close>). A float64 that may be NaN or infinite is a \<open>gofloat\<close>, a Go map of
  numbers a partial function; instants are nanoseconds. Log lines are left out.
\<close>

section \<open>Counters that grow by increases\<close>

datatype gofloat = Fin f64 | NonFin

definition ledgerAccrue :: "f64 \<Rightarrow> f64 \<Rightarrow> gofloat \<Rightarrow> f64 \<times> f64 \<times> bool" where
  "ledgerAccrue tot base v =
     (case v of
        NonFin \<Rightarrow> (tot, base, False)
      | Fin x \<Rightarrow> if x - base < 0 then (tot, x, True) else (tot + (x - base), x, False))"

definition ledgerAccrueBytes :: "64 word \<Rightarrow> 64 word \<Rightarrow> 64 word \<Rightarrow> 64 word \<times> 64 word \<times> bool" where
  "ledgerAccrueBytes tot base v =
     (let d = v - base; wentBack = v < base in (if \<not> wentBack then tot + d else tot, v, wentBack))"

definition ledgerFinite :: "f64 \<Rightarrow> f64" where
  "ledgerFinite v = (if v < 0 then 0 else v)"

definition mapOr :: "'b \<Rightarrow> ('a \<Rightarrow> 'b option) \<Rightarrow> 'a \<Rightarrow> 'b" where
  "mapOr d m k = (case m k of Some v \<Rightarrow> v | None \<Rightarrow> d)"

section \<open>The ledgers\<close>

definition ledgerSchemaVersion :: int where
  "ledgerSchemaVersion = 1"

record gpuIOLedger =
  io_peerRxBytes :: "64 word"
  io_peerTxBytes :: "64 word"

definition noIO :: gpuIOLedger where
  "noIO = \<lparr>io_peerRxBytes = 0, io_peerTxBytes = 0\<rparr>"

text \<open>The fields of a node's ledger that are in its file, and the one that is not.\<close>

record ledgerDoc =
  ld_schemaVersion :: int
  ld_node :: string
  ld_startTime :: int
  ld_hostJ :: f64
  ld_componentsJ :: "string \<Rightarrow> f64 option"
  ld_gpuIO :: "string \<Rightarrow> gpuIOLedger option"

record nodeLedger = ledgerDoc +
  nl_ioBase :: "string \<Rightarrow> gpuIOLedger option"

definition accrueGPUIO :: "string \<Rightarrow> 64 word \<Rightarrow> 64 word \<Rightarrow> nodeLedger \<Rightarrow> nodeLedger \<times> bool" where
  "accrueGPUIO gid rx tx l =
     (let tot = mapOr noIO (ld_gpuIO l) gid; base = mapOr noIO (nl_ioBase l) gid;
          (rxT, rxB, rxBack) = ledgerAccrueBytes (io_peerRxBytes tot) (io_peerRxBytes base) rx;
          (txT, txB, txBack) = ledgerAccrueBytes (io_peerTxBytes tot) (io_peerTxBytes base) tx
      in (l\<lparr>ld_gpuIO := (ld_gpuIO l)(gid \<mapsto> \<lparr>io_peerRxBytes = rxT, io_peerTxBytes = txT\<rparr>),
            nl_ioBase := (nl_ioBase l)(gid \<mapsto> \<lparr>io_peerRxBytes = rxB, io_peerTxBytes = txB\<rparr>)\<rparr>, rxBack \<or> txBack))"

record facilityLedger =
  fl_schemaVersion :: int
  fl_cluster :: string
  fl_startTime :: int
  fl_itJ :: f64
  fl_coolingJ :: f64
  fl_racksJ :: "string \<Rightarrow> f64 option"

section \<open>Ledger files\<close>

record ledgerDisk =
  dk_file :: "(nat \<times> string) option"
  dk_next :: nat

record ledgerFile =
  lf_path :: string
  lf_f :: "nat option"
  lf_size :: nat

record osAnswers =
  oa_lstatFails :: bool
  oa_openErr :: "goerr option"
  oa_statErr :: "goerr option"
  oa_writeErr :: "goerr option"
  oa_landed :: bool
  oa_atomicErr :: "(string \<times> goerr) option"

definition ledgerInPlaceMax :: nat where
  "ledgerInPlaceMax = 2048"

definition ledgerClose :: "ledgerFile \<Rightarrow> ledgerFile" where
  "ledgerClose l = l\<lparr>lf_f := None\<rparr>"

definition ledgerOpen :: "osAnswers \<Rightarrow> ledgerFile \<Rightarrow> ledgerDisk \<Rightarrow> ledgerFile \<times> ledgerDisk \<times> goerr option" where
  "ledgerOpen oa l d =
     (case oa_openErr oa of
        Some e \<Rightarrow> (l, d, Some (''open '' @ lf_path l @ '': '' @ e))
      | None \<Rightarrow>
          (let (i, c) = (case dk_file d of Some ic \<Rightarrow> ic | None \<Rightarrow> (dk_next d, []));
               d' = (if dk_file d = None then d\<lparr>dk_file := Some (i, c), dk_next := Suc i\<rparr> else d)
           in case oa_statErr oa of
                Some e \<Rightarrow> (l, d', Some (''open '' @ lf_path l @ '': '' @ e))
              | None \<Rightarrow> (l\<lparr>lf_f := Some i, lf_size := length c\<rparr>, d', None)))"

definition WriteFileAtomic :: "osAnswers \<Rightarrow> string \<Rightarrow> string \<Rightarrow> ledgerDisk \<Rightarrow> ledgerDisk \<times> goerr option" where
  "WriteFileAtomic oa path data d =
     (case oa_atomicErr oa of
        Some (op, e) \<Rightarrow> (d, Some (op @ '' '' @ path @ '': '' @ e))
      | None \<Rightarrow> (d\<lparr>dk_file := Some (dk_next d, data), dk_next := Suc (dk_next d)\<rparr>, None))"

text \<open>A \<open>pwrite\<close> at offset 0 of inode \<open>i\<close>. An inode the path lost is read by nobody.\<close>

definition ledgerWriteAt :: "nat \<Rightarrow> string \<Rightarrow> ledgerDisk \<Rightarrow> ledgerDisk" where
  "ledgerWriteAt i data d =
     (case dk_file d of
        Some (j, c) \<Rightarrow> if i = j then d\<lparr>dk_file := Some (j, data @ drop (length data) c)\<rparr> else d
      | None \<Rightarrow> d)"

text \<open>The ledger removed or replaced since it was opened is opened again; a file kept open is used as it is.\<close>

definition ledgerReopen :: "osAnswers \<Rightarrow> ledgerFile \<Rightarrow> ledgerDisk \<Rightarrow> ledgerFile" where
  "ledgerReopen oa l d =
     (if lf_f l \<noteq> None \<and> (oa_lstatFails oa \<or> lf_f l \<noteq> map_option fst (dk_file d)) then ledgerClose l else l)"

definition padTo :: "nat \<Rightarrow> string \<Rightarrow> string" where
  "padTo n data = data @ replicate (n - length data) (CHR '' '')"

definition ledgerPut :: "osAnswers \<Rightarrow> string \<Rightarrow> ledgerFile \<Rightarrow> ledgerDisk \<Rightarrow> ledgerFile \<times> ledgerDisk \<times> goerr option" where
  "ledgerPut oa data l d =
     (if max (length data) (lf_size l) > ledgerInPlaceMax
      then (let (d', r) = WriteFileAtomic oa (lf_path l) data d in (ledgerClose l, d', r))
      else (let padded = padTo (lf_size l) data; i = the (lf_f l)
            in case oa_writeErr oa of
                 Some e \<Rightarrow> (ledgerClose l, if oa_landed oa then ledgerWriteAt i padded d else d, Some (''write '' @ lf_path l @ '': '' @ e))
               | None \<Rightarrow> (l\<lparr>lf_size := length padded\<rparr>, ledgerWriteAt i padded d, None)))"

definition ledgerWrite ::
  "('v \<Rightarrow> goerr + string) \<Rightarrow> osAnswers \<Rightarrow> 'v \<Rightarrow> ledgerFile \<times> ledgerDisk \<Rightarrow> (ledgerFile \<times> ledgerDisk) \<times> goerr option" where
  "ledgerWrite enc oa v s =
     (case enc v of
        Inl e \<Rightarrow> (s, Some e)
      | Inr json \<Rightarrow>
          (let data = json @ [CHR 0x0A]; d = snd s; l = ledgerReopen oa (fst s) d
           in if lf_f l = None
              then (case ledgerOpen oa l d of
                      (l', d', Some e) \<Rightarrow> ((l', d'), Some e)
                    | (l', d', None) \<Rightarrow> (let (l'', d'', r) = ledgerPut oa data l' d' in ((l'', d''), r)))
              else (let (l'', d'', r) = ledgerPut oa data l d in ((l'', d''), r))))"

definition ledgerRead :: "(string \<Rightarrow> goerr + 'v) \<Rightarrow> goerr option \<Rightarrow> string \<Rightarrow> ledgerDisk \<Rightarrow> goerr + 'v option" where
  "ledgerRead dec readErr path d =
     (case dk_file d of
        None \<Rightarrow> Inr None
      | Some (i, c) \<Rightarrow>
          (case readErr of
             Some e \<Rightarrow> Inl e
           | None \<Rightarrow> (case dec c of Inl e \<Rightarrow> Inl (''ledger '' @ path @ '': '' @ e) | Inr v \<Rightarrow> Inr (Some v))))"

section \<open>Loading a ledger\<close>

definition newDoc :: "string \<Rightarrow> int \<Rightarrow> ledgerDoc" where
  "newDoc node start =
     \<lparr>ld_schemaVersion = ledgerSchemaVersion, ld_node = node, ld_startTime = start, ld_hostJ = 0, ld_componentsJ = Map.empty,
      ld_gpuIO = Map.empty\<rparr>"

definition schemaError :: "string \<Rightarrow> int \<Rightarrow> goerr" where
  "schemaError path n = ''ledger '' @ path @ '': schemaVersion '' @ Itoa n @ '', want '' @ Itoa ledgerSchemaVersion"

text \<open>\<open>%q\<close> of a name without quotes or control characters.\<close>

definition quotedName :: "string \<Rightarrow> string" where
  "quotedName s = CHR 0x22 # s @ [CHR 0x22]"

definition loadNodeLedger :: "(string \<Rightarrow> goerr + ledgerDoc) \<Rightarrow> goerr option \<Rightarrow> string \<Rightarrow> string \<Rightarrow> int \<Rightarrow> ledgerDisk \<Rightarrow> goerr + nodeLedger" where
  "loadNodeLedger dec readErr path node start d =
     (case ledgerRead dec readErr path d of
        Inl e \<Rightarrow> Inl e
      | Inr None \<Rightarrow> Inr (ledgerDoc.extend (newDoc node start) \<lparr>nl_ioBase = Map.empty\<rparr>)
      | Inr (Some doc) \<Rightarrow>
          if ld_schemaVersion doc \<noteq> ledgerSchemaVersion then Inl (schemaError path (ld_schemaVersion doc))
          else if ld_node doc \<noteq> node then Inl (''ledger '' @ path @ '' belongs to node '' @ quotedName (ld_node doc) @ '', not '' @ quotedName node)
          else Inr (ledgerDoc.extend doc \<lparr>nl_ioBase = Map.empty\<rparr>))"

definition newFacilityLedger :: "string \<Rightarrow> int \<Rightarrow> facilityLedger" where
  "newFacilityLedger cluster start =
     \<lparr>fl_schemaVersion = ledgerSchemaVersion, fl_cluster = cluster, fl_startTime = start, fl_itJ = 0, fl_coolingJ = 0, fl_racksJ = Map.empty\<rparr>"

definition loadFacilityLedger ::
  "(string \<Rightarrow> goerr + facilityLedger) \<Rightarrow> goerr option \<Rightarrow> string \<Rightarrow> string \<Rightarrow> int \<Rightarrow> ledgerDisk \<Rightarrow> goerr + facilityLedger" where
  "loadFacilityLedger dec readErr path cluster start d =
     (case ledgerRead dec readErr path d of
        Inl e \<Rightarrow> Inl e
      | Inr None \<Rightarrow> Inr (newFacilityLedger cluster start)
      | Inr (Some l) \<Rightarrow>
          if fl_schemaVersion l \<noteq> ledgerSchemaVersion then Inl (schemaError path (fl_schemaVersion l))
          else if fl_cluster l \<noteq> cluster then Inr (newFacilityLedger cluster start)
          else Inr l)"

section \<open>What a ledger file holds\<close>

datatype 'v held = Missing | Broken | Held 'v

definition heldBy :: "(string \<Rightarrow> goerr + 'v) \<Rightarrow> ledgerDisk \<Rightarrow> 'v held" where
  "heldBy dec d = (case dk_file d of None \<Rightarrow> Missing | Some (i, c) \<Rightarrow> (case dec c of Inl _ \<Rightarrow> Broken | Inr v \<Rightarrow> Held v))"

definition jsonCodec :: "('v \<Rightarrow> goerr + string) \<Rightarrow> (string \<Rightarrow> goerr + 'v) \<Rightarrow> ('v \<Rightarrow> bool) \<Rightarrow> bool" where
  "jsonCodec enc dec rep \<longleftrightarrow> (\<exists>e. dec [] = Inl e) \<and>
     (\<forall>v. rep v \<longrightarrow> (\<exists>json. enc v = Inr json \<and> (\<forall>n. dec (json @ CHR 0x0A # replicate n (CHR '' '')) = Inr v)))"

text \<open>An open handle on the file at the path knows its length, and inode numbers are given out once.\<close>

definition fileInv :: "('v \<Rightarrow> goerr + string) \<Rightarrow> (string \<Rightarrow> goerr + 'v) \<Rightarrow> ('v \<Rightarrow> bool) \<Rightarrow> ledgerFile \<times> ledgerDisk \<Rightarrow> bool" where
  "fileInv enc dec rep s \<longleftrightarrow> jsonCodec enc dec rep
     \<and> (\<forall>i c. dk_file (snd s) = Some (i, c) \<longrightarrow> i < dk_next (snd s) \<and> (lf_f (fst s) = Some i \<longrightarrow> lf_size (fst s) = length c))
     \<and> (\<forall>i. lf_f (fst s) = Some i \<longrightarrow> i < dk_next (snd s))"

text \<open>What is known of the value a reader would find, with a missing file read as \<open>fresh\<close>.\<close>

definition knownOf :: "('v \<Rightarrow> bool) \<Rightarrow> 'v \<Rightarrow> 'v held \<Rightarrow> bool" where
  "knownOf P fresh h \<longleftrightarrow> (case h of Held v \<Rightarrow> P v | Missing \<Rightarrow> P fresh | Broken \<Rightarrow> True)"

text \<open>What the emulator relies on in a place it keeps a ledger in: a write that succeeds is what is read next, a write that fails
  leaves the value before it or the new one, or an unreadable file where there was none.\<close>

locale ledger_store =
  fixes put :: "'o \<Rightarrow> 'v \<Rightarrow> 's \<Rightarrow> 's \<times> goerr option"
    and content :: "'s \<Rightarrow> 'v held" and good :: "'s \<Rightarrow> bool" and rep :: "'v \<Rightarrow> bool"
  assumes put_good: "good s \<Longrightarrow> rep v \<Longrightarrow> good (fst (put oa v s))"
    and put_ok: "good s \<Longrightarrow> rep v \<Longrightarrow> snd (put oa v s) = None \<Longrightarrow> content (fst (put oa v s)) = Held v"
    and put_fails: "good s \<Longrightarrow> rep v \<Longrightarrow> snd (put oa v s) = Some e \<Longrightarrow>
      content (fst (put oa v s)) \<in> {content s, Held v} \<or> content s = Missing \<and> content (fst (put oa v s)) = Broken"
begin

lemma put_known:
  assumes "good s" and "rep v" and "P v" and "knownOf P fresh (content s)"
  shows "knownOf P fresh (content (fst (put oa v s)))"
proof (cases "snd (put oa v s)")
  case None
  then show ?thesis using put_ok[OF assms(1,2)] assms(3) by (simp add: knownOf_def)
next
  case (Some e)
  then show ?thesis using put_fails[OF assms(1,2) Some] assms(3,4) by (auto simp: knownOf_def)
qed

lemma puts_last:
  assumes "good s" and "\<forall>(oa, v)\<in>set ws. rep v" and "content s = Held v0"
  shows "\<exists>v. content (fold (\<lambda>(oa, v) s. fst (put oa v s)) ws s) = Held v \<and> v \<in> insert v0 (snd ` set ws)"
  using assms
proof (induction ws arbitrary: s v0)
  case (Cons w ws)
  obtain oa v where w: "w = (oa, v)" by fastforce
  then have r: "rep v" using Cons.prems by simp
  have "\<exists>v'. content (fst (put oa v s)) = Held v' \<and> v' \<in> {v0, v}"
    using put_ok[OF Cons.prems(1) r, of oa] put_fails[OF Cons.prems(1) r, of oa] Cons.prems(3)
    by (cases "snd (put oa v s)") auto
  then obtain v' where "content (fst (put oa v s)) = Held v'" "v' \<in> {v0, v}" by blast
  then show ?case using Cons.IH[OF put_good[OF Cons.prems(1) r, of oa], of v'] Cons.prems(2) w by auto
qed simp

end

lemma reopen_handle: "lf_f (ledgerReopen oa l d) = Some i \<Longrightarrow> \<exists>c. dk_file d = Some (i, c)"
  by (cases "dk_file d") (auto simp: ledgerReopen_def ledgerClose_def split: if_splits)

lemma reopen_inv: "fileInv enc dec rep (l, d) \<Longrightarrow> fileInv enc dec rep (ledgerReopen oa l d, d)"
  by (auto simp: fileInv_def ledgerReopen_def ledgerClose_def)

lemma padded_content:
  "length c = n \<Longrightarrow> padTo n data @ drop (length (padTo n data)) c = padTo n data"
  by (simp add: padTo_def)

lemma held_padded:
  assumes "jsonCodec enc dec rep" and "rep v" and "enc v = Inr json"
  shows "dec (padTo n (json @ [CHR 0x0A])) = Inr v"
  using assms by (fastforce simp: jsonCodec_def padTo_def)

text \<open>The last part of a write, over a handle on the file at the path.\<close>

lemma put_cases:
  assumes inv: "fileInv enc dec rep (l, d)" and v: "rep v" "enc v = Inr json" and f: "lf_f l = Some i" "dk_file d = Some (i, c)"
    and p: "ledgerPut oa (json @ [CHR 0x0A]) l d = (l', d', r)"
  shows "fileInv enc dec rep (l', d') \<and> (r = None \<longrightarrow> heldBy dec d' = Held v) \<and> heldBy dec d' \<in> {heldBy dec d, Held v}"
proof -
  have cod: "jsonCodec enc dec rep" and i: "i < dk_next d" "lf_size l = length c" using inv f by (auto simp: fileInv_def)
  have whole: "dec (json @ [CHR 0x0A]) = Inr v" using held_padded[OF cod v, of 0] by (simp add: padTo_def)
  let ?p = "padTo (length c) (json @ [CHR 0x0A])"
  have landed: "ledgerWriteAt i ?p d = d\<lparr>dk_file := Some (i, ?p)\<rparr>" using f padded_content by (simp add: ledgerWriteAt_def)
  show ?thesis
  proof (cases "max (length (json @ [CHR 0x0A])) (lf_size l) > ledgerInPlaceMax")
    case True
    then show ?thesis using p cod f i whole
      by (auto simp: ledgerPut_def WriteFileAtomic_def ledgerClose_def fileInv_def heldBy_def Let_def split: option.splits)
  next
    case False
    then show ?thesis using p cod f i held_padded[OF cod v, of "length c"]
      by (auto simp: landed ledgerPut_def ledgerClose_def fileInv_def heldBy_def Let_def split: option.splits if_splits)
  qed
qed

lemma write_cases:
  assumes inv: "fileInv enc dec rep s" and v: "rep v" and w: "ledgerWrite enc oa v s = (s', r)"
  shows "fileInv enc dec rep s' \<and> (r = None \<longrightarrow> heldBy dec (snd s') = Held v) \<and>
    (heldBy dec (snd s') \<in> {heldBy dec (snd s), Held v} \<or> heldBy dec (snd s) = Missing \<and> heldBy dec (snd s') = Broken)"
proof -
  have cod: "jsonCodec enc dec rep" using inv by (simp add: fileInv_def)
  obtain json where json: "enc v = Inr json" using cod v by (auto simp: jsonCodec_def)
  obtain l d where s: "s = (l, d)" by fastforce
  let ?l = "ledgerReopen oa l d"
  have inv': "fileInv enc dec rep (?l, d)" using inv unfolding s by (rule reopen_inv)
  show ?thesis
  proof (cases "lf_f ?l")
    case (Some i)
    moreover obtain c where "dk_file d = Some (i, c)" using reopen_handle[OF Some] by blast
    moreover obtain l' d' where "ledgerPut oa (json @ [CHR 0x0A]) ?l d = (l', d', r)" "s' = (l', d')"
      using w json Some by (auto simp: s ledgerWrite_def Let_def split: prod.splits)
    ultimately show ?thesis using put_cases[OF inv' v json] by (auto simp: s)
  next
    case None
    obtain l' d' e where o: "ledgerOpen oa ?l d = (l', d', e)" by (cases "ledgerOpen oa ?l d") auto
    have old: "heldBy dec d' = heldBy dec d \<or> heldBy dec d = Missing \<and> heldBy dec d' = Broken"
      using o cod by (auto simp: ledgerOpen_def heldBy_def jsonCodec_def Let_def split: option.splits prod.splits)
    have io: "fileInv enc dec rep (l', d')"
      using o inv' None by (auto simp: ledgerOpen_def fileInv_def Let_def split: option.splits prod.splits)
    show ?thesis
    proof (cases e)
      case (Some e)
      then show ?thesis using w json None o old io by (auto simp: s ledgerWrite_def)
    next
      case e: None
      then obtain i c where ic: "lf_f l' = Some i" "dk_file d' = Some (i, c)"
        using o by (auto simp: ledgerOpen_def Let_def split: option.splits prod.splits)
      obtain l'' d'' where p: "ledgerPut oa (json @ [CHR 0x0A]) l' d' = (l'', d'', r)" "s' = (l'', d'')"
        using w json None o e by (auto simp: s ledgerWrite_def Let_def split: prod.splits)
      show ?thesis using put_cases[OF io v json ic p(1)] old by (auto simp: s p(2))
    qed
  qed
qed

interpretation disk: ledger_store "ledgerWrite enc" "heldBy dec \<circ> snd" "fileInv enc dec rep" rep for enc dec rep
proof unfold_locales
  fix s v oa
  assume s: "fileInv enc dec rep s" "rep v"
  note c = write_cases[OF s, of oa "fst (ledgerWrite enc oa v s)" "snd (ledgerWrite enc oa v s)", simplified]
  show "fileInv enc dec rep (fst (ledgerWrite enc oa v s))" using c by blast
  show "snd (ledgerWrite enc oa v s) = None \<Longrightarrow> (heldBy dec \<circ> snd) (fst (ledgerWrite enc oa v s)) = Held v" using c by simp
  show "snd (ledgerWrite enc oa v s) = Some e \<Longrightarrow>
      (heldBy dec \<circ> snd) (fst (ledgerWrite enc oa v s)) \<in> {(heldBy dec \<circ> snd) s, Held v} \<or>
      (heldBy dec \<circ> snd) s = Missing \<and> (heldBy dec \<circ> snd) (fst (ledgerWrite enc oa v s)) = Broken" for e
    using c by simp
qed

lemma ledgerRead_held:
  "ledgerRead dec None path d = (case heldBy dec d of Missing \<Rightarrow> Inr None | Held v \<Rightarrow> Inr (Some v)
     | Broken \<Rightarrow> Inl (''ledger '' @ path @ '': '' @ projl (dec (snd (the (dk_file d))))))"
  by (auto simp: ledgerRead_def heldBy_def split: option.splits sum.splits)

text \<open>A ledger that is loaded is what the file held, or a new one where there was no file.\<close>

lemma truncate_extend [simp]: "ledgerDoc.truncate (ledgerDoc.extend (doc :: ledgerDoc) rest) = doc"
  by (cases doc) (simp add: ledgerDoc.defs)

lemma loadNodeLedger_known:
  assumes "loadNodeLedger dec readErr path node start d = Inr l" and "knownOf P fresh (heldBy dec d)" and "P fresh \<Longrightarrow> P (newDoc node start)"
  shows "P (ledgerDoc.truncate l)"
  using assms
  by (auto simp: loadNodeLedger_def ledgerRead_def heldBy_def knownOf_def split: option.splits sum.splits if_splits)

lemma loadFacilityLedger_known:
  assumes "loadFacilityLedger dec readErr path cluster start d = Inr l" and "P fresh \<Longrightarrow> P (newFacilityLedger cluster start)"
    and "knownOf (\<lambda>l. if fl_cluster l = cluster then P l else P fresh) fresh (heldBy dec d)" and "fl_cluster fresh = cluster"
  shows "P l \<and> fl_cluster l = cluster"
  using assms
  by (auto simp: loadFacilityLedger_def ledgerRead_def heldBy_def knownOf_def newFacilityLedger_def split: option.splits sum.splits if_splits)

section \<open>What accruing does\<close>

lemma ledgerAccrue_grows: "tot \<le> fst (ledgerAccrue tot base v)"
  by (auto simp: ledgerAccrue_def split: gofloat.splits)

definition docLe :: "ledgerDoc \<Rightarrow> ledgerDoc \<Rightarrow> bool" where
  "docLe d d' \<longleftrightarrow> ld_hostJ d \<le> ld_hostJ d' \<and> (\<forall>k. mapOr 0 (ld_componentsJ d) k \<le> mapOr 0 (ld_componentsJ d') k)"

definition flLe :: "facilityLedger \<Rightarrow> facilityLedger \<Rightarrow> bool" where
  "flLe p l \<longleftrightarrow> fl_itJ p \<le> fl_itJ l \<and> fl_coolingJ p \<le> fl_coolingJ l \<and> (\<forall>r. mapOr 0 (fl_racksJ p) r \<le> mapOr 0 (fl_racksJ l) r)"

lemma docLe_refl [simp]: "docLe d d"
  by (simp add: docLe_def)

lemma docLe_trans: "docLe a b \<Longrightarrow> docLe b c \<Longrightarrow> docLe a c"
  unfolding docLe_def by (meson order_trans)

lemma flLe_refl [simp]: "flLe l l"
  by (simp add: flLe_def)

lemma flLe_trans: "flLe a b \<Longrightarrow> flLe b c \<Longrightarrow> flLe a c"
  unfolding flLe_def by (meson order_trans)

lemma mapOr_upd [simp]: "mapOr d (m(k \<mapsto> v)) k' = (if k' = k then v else mapOr d m k')"
  by (simp add: mapOr_def)

lemma mapOr_empty [simp]: "mapOr d Map.empty k = d"
  by (simp add: mapOr_def)

lemma accrueGPUIO_doc [simp]:
  "ld_hostJ (fst (accrueGPUIO g rx tx l)) = ld_hostJ l" "ld_componentsJ (fst (accrueGPUIO g rx tx l)) = ld_componentsJ l"
  by (simp_all add: accrueGPUIO_def Let_def split_beta)

end
