(* ===== verification/Sim_Emulator.thy ===== *)
theory Sim_Emulator
  imports Sim_Ledger
begin

text \<open>
  The emulator (\<^verbatim>\<open>simulator/pkg/emulate/emulator.go\<close>, \<^verbatim>\<open>tick.go\<close>, \<^verbatim>\<open>types.go\<close>) over the facility model
  (\<^verbatim>\<open>simulator/pkg/facility\<close>): it steps the emulated nodes of a cluster, adds up their energy in the ledgers of \<open>Sim_Ledger\<close> and
  publishes a snapshot after every tick. The Go interface \<open>Runner\<close> of a node is the record \<open>runnerOps\<close>, over a runner state of any
  type. A member carries its ledger file and what is at the path of it (\<open>mb_disk\<close>). The workers of a tick own a member each, so
  a tick steps the members one after the other. Of the root directory and its lock, the copy of fakesmi, the FUSE views and the
  metrics only the errors that end a start are modelled (\<open>startArgs\<close>), not what they do; log lines and the ticker of \<open>Run\<close>,
  which calls \<open>Tick\<close>, are left out. Of the simulator around it there is the facility callback.
\<close>

section \<open>The facility\<close>

record facilityParams =
  fp_baseAmbientC :: f64
  fp_amplitudeC :: f64
  fp_periodH :: f64

record facilityValues =
  fv_ambientC :: f64
  fv_itPowerW :: f64
  fv_pue :: f64
  fv_coolingPowerW :: f64

definition facilityCompute :: "facilityParams \<Rightarrow> int \<Rightarrow> f64 \<Rightarrow> f64 \<Rightarrow> facilityValues \<times> f64" where
  "facilityCompute p elapsed itPowerW peak0 =
     (let periodSec = (if fp_periodH p * 3600 \<le> 0 then 24 * 3600 else fp_periodH p * 3600);
          ambientC = fp_baseAmbientC p + fp_amplitudeC p * sin (2 * pi * (of_int elapsed / 10 ^ 9) / periodSec);
          peak = (if itPowerW > peak0 then itPowerW else peak0);
          loadFrac = (if peak > 0 then itPowerW / peak else 0);
          pue = 1.08 + 0.006 * (ambientC - 15) + 0.04 * loadFrac + 0.015 * loadFrac * (ambientC - 15) / 15;
          pue = (if pue < 1 then 1 else if pue > 3 then 3 else pue)
      in (\<lparr>fv_ambientC = ambientC, fv_itPowerW = itPowerW, fv_pue = pue, fv_coolingPowerW = itPowerW * (pue - 1)\<rparr>, peak))"

text \<open>
  The facility callback the simulator gives its emulator (\<open>emulateFacility\<close> of \<^verbatim>\<open>simulator/cmd/simulator/emulate.go\<close>): the model over the
  power of the emulated nodes and that of the legacy nodes, those of its state that no emulator runs; an entry without a state is
  skipped. \<open>peak\<close> is the simulator's own peak, and the second result its new value.
\<close>

definition legacyPowerW :: "(string \<Rightarrow> bool) \<Rightarrow> (string \<times> f64 option) list \<Rightarrow> f64" where
  "legacyPowerW emulated states =
     (\<Sum>(n, st)\<leftarrow>states. case st of None \<Rightarrow> 0 | Some w \<Rightarrow> if \<not> emulated n \<and> w > 0 then w else 0)"

definition emulateFacility ::
  "facilityParams \<Rightarrow> int \<Rightarrow> (string \<Rightarrow> bool) \<Rightarrow> (string \<times> f64 option) list \<Rightarrow> f64 \<Rightarrow> f64 \<Rightarrow> int \<Rightarrow> facilityValues \<times> f64" where
  "emulateFacility p facStart emulated states peak specITPowerW now =
     facilityCompute p (now - facStart) (specITPowerW + legacyPowerW emulated states) peak"

section \<open>Loads, states and snapshots\<close>

record PeerTransfer =
  pt_src :: int
  pt_dst :: int
  pt_bytesPerS :: f64

record Load =
  lo_cpuUtil :: "f64 list"
  lo_cpuClass :: string
  lo_gpuUtil :: "f64 list"
  lo_gpuClass :: string
  lo_memoryIntensity :: f64
  lo_peerTransfers :: "PeerTransfer list"

record BaseLoad =
  bl_cpuUtil :: "f64 option"
  bl_gpuUtil :: "f64 option"
  bl_memoryIntensity :: "f64 option"
  bl_cpuClass :: string
  bl_gpuClass :: string

record GovernorState =
  gst_native :: string
  gst_preset :: string

record ComponentState =
  cmp_id :: string
  cmp_type :: string
  cmp_name :: string
  cmp_vendor :: string
  cmp_model :: string
  cmp_uuid :: string
  cmp_pciBusID :: string
  cmp_sysfsPath :: string
  cmp_parent :: string
  cmp_index :: int
  cmp_measured :: bool
  cmp_powerW :: f64
  cmp_energyJ :: gofloat
  cmp_deviceEnergyJ :: f64
  cmp_limitW :: f64
  cmp_requestedLimitW :: f64
  cmp_speedHz :: f64
  cmp_speedMaxHz :: f64
  cmp_speedLimitHz :: f64
  cmp_utilization :: f64
  cmp_clockHz :: "string \<Rightarrow> int option"
  cmp_clockMaxHz :: "string \<Rightarrow> int option"
  cmp_clockLimitHz :: "string \<Rightarrow> int option"
  cmp_governorNative :: string
  cmp_governorPreset :: string
  cmp_peerRxBytes :: "64 word"
  cmp_peerTxBytes :: "64 word"

definition componentGovernor :: "ComponentState \<Rightarrow> GovernorState" where
  "componentGovernor c = \<lparr>gst_native = cmp_governorNative c, gst_preset = cmp_governorPreset c\<rparr>"

record HostState =
  hst_measured :: bool
  hst_powerW :: f64
  hst_energyJ :: gofloat
  hst_otherW :: f64

record HwEvent =
  ev_time :: int
  ev_file :: string
  ev_kind :: string
  ev_written :: string
  ev_effective :: string
  ev_component :: string
  ev_errno :: string

text \<open>What the emulator reads of a node's state.\<close>

record NodeState =
  nst_events :: "HwEvent list"
  nst_components :: "ComponentState list"
  nst_host :: HostState
  nst_driverVersion :: string

record 'r runnerOps =
  ro_setLoad :: "Load \<Rightarrow> 'r \<Rightarrow> 'r"
  ro_advanceTo :: "int \<Rightarrow> 'r \<Rightarrow> 'r \<times> goerr option"
  ro_state :: "'r \<Rightarrow> NodeState"

record HostReading =
  hr_measured :: bool
  hr_powerW :: f64
  hr_energyJ :: f64
  hr_otherW :: f64
  hr_inletC :: f64

record NodeSnapshot =
  sn_name :: string
  sn_pool :: string
  sn_profile :: string
  sn_rack :: string
  sn_coolingZone :: string
  sn_root :: string
  sn_startTime :: int
  sn_started :: bool
  sn_fresh :: bool
  sn_added :: "string list"
  sn_driverVersion :: string
  sn_host :: HostReading
  sn_components :: "ComponentState list"
  sn_events :: "HwEvent list"
  sn_err :: string
  sn_previousGovernors :: "string \<Rightarrow> GovernorState option"

record ZoneReading =
  zr_name :: string
  zr_ambientC :: f64

record RackReading =
  rr_name :: string
  rr_powerW :: f64
  rr_energyJ :: f64

record FacilitySnapshot =
  fsn_startTime :: int
  fsn_ambientC :: f64
  fsn_itPowerW :: f64
  fsn_itEnergyJ :: f64
  fsn_pue :: f64
  fsn_coolingPowerW :: f64
  fsn_coolingEnergyJ :: f64
  fsn_zones :: "ZoneReading list"
  fsn_racks :: "RackReading list"

record Snapshot =
  ss_seq :: "64 word"
  ss_cluster :: string
  ss_time :: int
  ss_nodes :: "NodeSnapshot list"
  ss_facility :: FacilitySnapshot

section \<open>Members\<close>

record memberProfile =
  mp_name :: string
  mp_sockets :: int
  mp_gpuCount :: "int option"

record clusterMember =
  cm_name :: string
  cm_pool :: string
  cm_rack :: string
  cm_coolingZone :: string
  cm_zoneOffsetC :: f64
  cm_profile :: "memberProfile option"
  cm_baseLoad :: BaseLoad

record CoolingZone =
  cz_name :: string
  cz_offsetC :: f64

record clusterFacility =
  cf_ambientC :: "f64 option"
  cf_amplitudeC :: "f64 option"
  cf_periodH :: "f64 option"
  cf_coolingZones :: "CoolingZone list"

record 'r emMember =
  mb_spec :: clusterMember
  mb_runner :: 'r
  mb_reportFresh :: bool
  mb_reportAdded :: "string list"
  mb_sockets :: int
  mb_gpus :: int
  mb_ledgerFile :: ledgerFile
  mb_disk :: ledgerDisk
  mb_ledger :: nodeLedger
  mb_hostBase :: f64
  mb_compBase :: "string \<Rightarrow> f64 option"
  mb_lastLoad :: "Load option"
  mb_published :: bool
  mb_last :: NodeSnapshot
  mb_lastErr :: string
  mb_snap :: NodeSnapshot
  mb_hostDelta :: f64
  mb_err :: "goerr option"

section \<open>The load of a member\<close>

definition emulatorClamp :: "f64 \<Rightarrow> f64" where
  "emulatorClamp v = (if v > 1 then 1 else if v > 0 then v else 0)"

definition emulatorOr :: "f64 option \<Rightarrow> f64 \<Rightarrow> f64" where
  "emulatorOr v d = (case v of None \<Rightarrow> d | Some x \<Rightarrow> x)"

definition emulatorAddUtil :: "f64 list \<Rightarrow> f64 \<Rightarrow> int \<Rightarrow> f64 list" where
  "emulatorAddUtil job base width =
     (if job = [] \<and> base = 0 then []
      else if job = [] then [emulatorClamp base]
      else if length job = 1 then [emulatorClamp (job ! 0 + base)]
      else (let n = (if base \<noteq> 0 \<and> int (length job) < width then nat width else length job)
            in map (\<lambda>i. emulatorClamp (if i < length job then base + job ! i else base)) [0..<n]))"

definition noLoad :: Load where
  "noLoad = \<lparr>lo_cpuUtil = [], lo_cpuClass = [], lo_gpuUtil = [], lo_gpuClass = [], lo_memoryIntensity = 0, lo_peerTransfers = []\<rparr>"

definition emulatorLoad :: "Load option \<Rightarrow> BaseLoad \<Rightarrow> bool \<Rightarrow> int \<Rightarrow> int \<Rightarrow> Load" where
  "emulatorLoad jobO base applyBase sockets gpus =
     (let job = (case jobO of None \<Rightarrow> noLoad | Some l \<Rightarrow> l);
          cpuBase = (if applyBase then emulatorOr (bl_cpuUtil base) 0 else 0);
          gpuBase = (if applyBase then emulatorOr (bl_gpuUtil base) 0 else 0);
          memBase = (if applyBase then emulatorOr (bl_memoryIntensity base) 0 else 0);
          cpuClass = (if applyBase then bl_cpuClass base else []);
          gpuClass = (if applyBase then bl_gpuClass base else [])
      in \<lparr>lo_cpuUtil = emulatorAddUtil (lo_cpuUtil job) cpuBase sockets,
          lo_cpuClass = (if lo_cpuClass job \<noteq> [] then lo_cpuClass job else cpuClass),
          lo_gpuUtil = (if gpus = 0 then [] else emulatorAddUtil (lo_gpuUtil job) gpuBase gpus),
          lo_gpuClass = (if lo_gpuClass job \<noteq> [] then lo_gpuClass job else gpuClass),
          lo_memoryIntensity = emulatorClamp (if lo_memoryIntensity job \<noteq> 0 then lo_memoryIntensity job else memBase),
          lo_peerTransfers = (if gpus = 0 then [] else lo_peerTransfers job)\<rparr>)"

definition emulatorLoadEqual :: "Load \<Rightarrow> Load \<Rightarrow> bool" where
  "emulatorLoadEqual a b \<longleftrightarrow> lo_cpuClass a = lo_cpuClass b \<and> lo_gpuClass a = lo_gpuClass b
     \<and> lo_memoryIntensity a = lo_memoryIntensity b \<and> lo_cpuUtil a = lo_cpuUtil b \<and> lo_gpuUtil a = lo_gpuUtil b
     \<and> lo_peerTransfers a = lo_peerTransfers b"

section \<open>A step of a member\<close>

definition accrueComponent :: "ComponentState \<Rightarrow> 'r emMember \<Rightarrow> 'r emMember" where
  "accrueComponent c m =
     (let (tot, base, _) = ledgerAccrue (mapOr 0 (ld_componentsJ (mb_ledger m)) (cmp_id c)) (mapOr 0 (mb_compBase m) (cmp_id c)) (cmp_energyJ c);
          l = (mb_ledger m)\<lparr>ld_componentsJ := (ld_componentsJ (mb_ledger m))(cmp_id c \<mapsto> tot)\<rparr>;
          l = (if cmp_type c = ''gpu'' then fst (accrueGPUIO (cmp_id c) (cmp_peerRxBytes c) (cmp_peerTxBytes c) l) else l)
      in m\<lparr>mb_ledger := l, mb_compBase := (mb_compBase m)(cmp_id c \<mapsto> base)\<rparr>)"

definition memberAccrue :: "NodeState \<Rightarrow> 'r emMember \<Rightarrow> 'r emMember" where
  "memberAccrue st m =
     (let (tot, base, _) = ledgerAccrue (ld_hostJ (mb_ledger m)) (mb_hostBase m) (hst_energyJ (nst_host st))
      in fold accrueComponent (nst_components st) (m\<lparr>mb_ledger := (mb_ledger m)\<lparr>ld_hostJ := tot\<rparr>, mb_hostBase := base\<rparr>))"

definition wasGovernors :: "ComponentState list \<Rightarrow> string \<Rightarrow> GovernorState option" where
  "wasGovernors cs = fold (\<lambda>c was. was(cmp_id c \<mapsto> componentGovernor c)) cs Map.empty"

definition noGovernor :: GovernorState where
  "noGovernor = \<lparr>gst_native = [], gst_preset = []\<rparr>"

definition leftGovernor :: "NodeSnapshot \<Rightarrow> ComponentState \<Rightarrow> GovernorState option" where
  "leftGovernor lst c =
     (let now = componentGovernor c; prev = mapOr noGovernor (wasGovernors (sn_components lst)) (cmp_id c);
          left = (if prev \<noteq> now \<and> prev \<noteq> noGovernor then Some prev else sn_previousGovernors lst (cmp_id c))
      in if left = Some now then None else left)"

definition readingPreviousGovernors :: "NodeSnapshot \<Rightarrow> ComponentState list \<Rightarrow> string \<Rightarrow> GovernorState option" where
  "readingPreviousGovernors lst comps =
     fold (\<lambda>c out. case leftGovernor lst c of Some g \<Rightarrow> out(cmp_id c \<mapsto> g) | None \<Rightarrow> out) comps Map.empty"

definition ledgerReading :: "nodeLedger \<Rightarrow> ComponentState \<Rightarrow> ComponentState" where
  "ledgerReading l c =
     (let io = mapOr noIO (ld_gpuIO l) (cmp_id c)
      in c\<lparr>cmp_energyJ := Fin (mapOr 0 (ld_componentsJ l) (cmp_id c)),
           cmp_peerRxBytes := io_peerRxBytes io, cmp_peerTxBytes := io_peerTxBytes io\<rparr>)"

definition memberReading :: "'r emMember \<Rightarrow> NodeState \<Rightarrow> NodeSnapshot" where
  "memberReading m st =
     (let h = nst_host st; comps = map (ledgerReading (mb_ledger m)) (nst_components st)
      in (mb_last m)\<lparr>sn_started := False, sn_fresh := False, sn_added := [], sn_events := [], sn_err := [],
           sn_driverVersion := nst_driverVersion st,
           sn_host := \<lparr>hr_measured = hst_measured h, hr_powerW = hst_powerW h, hr_energyJ = ld_hostJ (mb_ledger m),
                        hr_otherW = hst_otherW h, hr_inletC = 0\<rparr>,
           sn_components := comps, sn_previousGovernors := readingPreviousGovernors (mb_last m) comps\<rparr>)"

definition advanceMember :: "'r runnerOps \<Rightarrow> int \<Rightarrow> Load \<Rightarrow> 'r emMember \<Rightarrow> 'r emMember \<times> goerr option" where
  "advanceMember ops now l m =
     (let changed = (case mb_lastLoad m of None \<Rightarrow> True | Some l' \<Rightarrow> \<not> emulatorLoadEqual l' l);
          m = (if changed then m\<lparr>mb_runner := ro_setLoad ops l (mb_runner m), mb_lastLoad := Some l\<rparr> else m);
          (r, err) = ro_advanceTo ops now (mb_runner m)
      in (m\<lparr>mb_runner := r\<rparr>, err))"

definition persistMember :: "(ledgerDoc \<Rightarrow> goerr + string) \<Rightarrow> osAnswers \<Rightarrow> NodeState \<Rightarrow> 'r emMember \<Rightarrow> 'r emMember \<times> goerr option" where
  "persistMember enc oa st m =
     (let m = memberAccrue st m;
          ((lf, d), w) = ledgerWrite enc oa (ledgerDoc.truncate (mb_ledger m)) (mb_ledgerFile m, mb_disk m)
      in (m\<lparr>mb_ledgerFile := lf, mb_disk := d\<rparr>, map_option (\<lambda>e. ''persist the ledger: '' @ e) w))"

definition publishMember :: "NodeState \<Rightarrow> goerr option \<Rightarrow> 'r emMember \<Rightarrow> 'r emMember" where
  "publishMember st err m =
     (let prevHostJ = hr_energyJ (sn_host (mb_last m));
          m = (if err = None then m\<lparr>mb_last := memberReading m st\<rparr> else m);
          snap = (mb_last m)\<lparr>sn_events := nst_events st\<rparr>;
          snap = (if \<not> mb_published m then snap\<lparr>sn_started := True, sn_fresh := mb_reportFresh m, sn_added := mb_reportAdded m\<rparr> else snap);
          snap = (case err of Some e \<Rightarrow> snap\<lparr>sn_err := e\<rparr> | None \<Rightarrow> snap)
      in m\<lparr>mb_published := True, mb_hostDelta := hr_energyJ (sn_host snap) - prevHostJ, mb_err := err,
           mb_lastErr := sn_err snap, mb_snap := snap\<rparr>)"

definition stepMember ::
  "'r runnerOps \<Rightarrow> (ledgerDoc \<Rightarrow> goerr + string) \<Rightarrow> osAnswers \<Rightarrow> int \<Rightarrow> Load \<Rightarrow> 'r emMember \<Rightarrow> 'r emMember" where
  "stepMember ops enc oa now l m =
     (let (m, err) = advanceMember ops now l m;
          st = ro_state ops (mb_runner m);
          (m, err) = (case err of None \<Rightarrow> persistMember enc oa st m | Some e \<Rightarrow> (m, Some e))
      in publishMember st err m)"

section \<open>The emulator\<close>

record 'r Emulator =
  em_cluster :: string
  em_start :: int
  em_zones :: "CoolingZone list"
  em_facParams :: facilityParams
  em_members :: "'r emMember list"
  em_closed :: bool
  em_seq :: "64 word"
  em_lastTick :: int
  em_peakITPowerW :: f64
  em_facLedger :: facilityLedger
  em_facFile :: ledgerFile
  em_facDisk :: ledgerDisk
  em_facPublished :: facilityLedger
  em_facErr :: string
  em_latest :: "Snapshot option"

text \<open>Per rack, the sum over its members, in the order of the members.\<close>

definition rackSums :: "('r emMember \<Rightarrow> f64) \<Rightarrow> 'r emMember list \<Rightarrow> string \<Rightarrow> f64 option" where
  "rackSums f ms = fold (\<lambda>m acc. let r = cm_rack (mb_spec m) in if r \<noteq> [] then acc(r \<mapsto> mapOr 0 acc r + f m) else acc) ms Map.empty"

definition rackNames :: "'r emMember list \<Rightarrow> string list" where
  "rackNames ms = sort (remdups (filter (\<lambda>r. r \<noteq> []) (map (\<lambda>m. cm_rack (mb_spec m)) ms)))"

definition snapPower :: "'r emMember \<Rightarrow> f64" where
  "snapPower m = hr_powerW (sn_host (mb_snap m))"

definition facilityAccrue :: "'r emMember list \<Rightarrow> f64 \<Rightarrow> facilityValues \<Rightarrow> f64 \<Rightarrow> facilityLedger \<Rightarrow> facilityLedger" where
  "facilityAccrue ms specITW v dt l =
     (let hostDeltaJ = sum_list (map (\<lambda>m. ledgerFinite (mb_hostDelta m)) ms);
          rackDeltaJ = rackSums (\<lambda>m. ledgerFinite (mb_hostDelta m)) ms;
          legacyW = max 0 (fv_itPowerW v - specITW)
      in l\<lparr>fl_itJ := fl_itJ l + (hostDeltaJ + ledgerFinite (legacyW * dt)),
           fl_coolingJ := fl_coolingJ l + ledgerFinite (fv_coolingPowerW v * dt),
           fl_racksJ := (\<lambda>r. case rackDeltaJ r of None \<Rightarrow> fl_racksJ l r | Some d \<Rightarrow> Some (mapOr 0 (fl_racksJ l) r + d))\<rparr>)"

definition facilityPersist :: "(facilityLedger \<Rightarrow> goerr + string) \<Rightarrow> osAnswers \<Rightarrow> 'r Emulator \<Rightarrow> 'r Emulator \<times> goerr option" where
  "facilityPersist enc oa e =
     (let ((lf, d), w) = ledgerWrite enc oa (em_facLedger e) (em_facFile e, em_facDisk e);
          e = e\<lparr>em_facFile := lf, em_facDisk := d\<rparr>
      in case w of
           Some err \<Rightarrow> (let err = ''emulate: persist the facility ledger: '' @ err in (e\<lparr>em_facErr := err\<rparr>, Some err))
         | None \<Rightarrow> (e\<lparr>em_facErr := [], em_facPublished := em_facLedger e\<rparr>, None))"

definition zoneMap :: "CoolingZone list \<Rightarrow> f64 \<Rightarrow> string \<Rightarrow> f64 option" where
  "zoneMap zs ambientC = fold (\<lambda>z acc. acc(cz_name z \<mapsto> ambientC + cz_offsetC z)) zs Map.empty"

definition fillInlet :: "CoolingZone list \<Rightarrow> f64 \<Rightarrow> 'r emMember \<Rightarrow> NodeSnapshot" where
  "fillInlet zs ambientC m =
     (let s = mb_snap m
      in s\<lparr>sn_host := (sn_host s)\<lparr>hr_inletC := mapOr ambientC (zoneMap zs ambientC) (cm_coolingZone (mb_spec m))\<rparr>\<rparr>)"

definition tickFacility ::
  "(facilityLedger \<Rightarrow> goerr + string) \<Rightarrow> osAnswers \<Rightarrow> int \<Rightarrow> (f64 \<Rightarrow> int \<Rightarrow> facilityValues) option \<Rightarrow> 'r Emulator \<Rightarrow>
   'r Emulator \<times> NodeSnapshot list \<times> FacilitySnapshot \<times> goerr option" where
  "tickFacility enc oa now fac e =
     (let ms = em_members e; specITW = sum_list (map snapPower ms);
          (v, peak) = (case fac of Some f \<Rightarrow> (f specITW now, em_peakITPowerW e)
                       | None \<Rightarrow> facilityCompute (em_facParams e) (now - em_start e) specITW (em_peakITPowerW e));
          dt = of_int (now - em_lastTick e) / 10 ^ 9;
          e = e\<lparr>em_peakITPowerW := peak, em_facLedger := facilityAccrue ms specITW v dt (em_facLedger e)\<rparr>;
          (e, err) = facilityPersist enc oa e;
          rackW = rackSums snapPower ms
      in (e, map (fillInlet (em_zones e) (fv_ambientC v)) ms,
          \<lparr>fsn_startTime = fl_startTime (em_facPublished e), fsn_ambientC = fv_ambientC v, fsn_itPowerW = fv_itPowerW v,
           fsn_itEnergyJ = fl_itJ (em_facPublished e), fsn_pue = fv_pue v, fsn_coolingPowerW = fv_coolingPowerW v,
           fsn_coolingEnergyJ = fl_coolingJ (em_facPublished e),
           fsn_zones = map (\<lambda>z. \<lparr>zr_name = cz_name z, zr_ambientC = fv_ambientC v + cz_offsetC z\<rparr>) (em_zones e),
           fsn_racks = map (\<lambda>r. \<lparr>rr_name = r, rr_powerW = mapOr 0 rackW r, rr_energyJ = mapOr 0 (fl_racksJ (em_facPublished e)) r\<rparr>) (rackNames ms)\<rparr>,
          err))"

record tickArgs =
  ta_now :: int
  ta_loads :: "string \<Rightarrow> Load option"
  ta_applyBase :: bool
  ta_fac :: "(f64 \<Rightarrow> int \<Rightarrow> facilityValues) option"
  ta_os :: "string \<Rightarrow> osAnswers"
  ta_facOs :: osAnswers

definition stepWith :: "'r runnerOps \<Rightarrow> (ledgerDoc \<Rightarrow> goerr + string) \<Rightarrow> tickArgs \<Rightarrow> 'r emMember \<Rightarrow> 'r emMember" where
  "stepWith ops enc a m =
     stepMember ops enc (ta_os a (cm_name (mb_spec m))) (ta_now a)
       (emulatorLoad (ta_loads a (cm_name (mb_spec m))) (cm_baseLoad (mb_spec m)) (ta_applyBase a) (mb_sockets m) (mb_gpus m)) m"

definition Tick ::
  "'r runnerOps \<Rightarrow> (ledgerDoc \<Rightarrow> goerr + string) \<Rightarrow> (facilityLedger \<Rightarrow> goerr + string) \<Rightarrow> tickArgs \<Rightarrow> 'r Emulator \<Rightarrow>
   'r Emulator \<times> Snapshot option \<times> goerr list" where
  "Tick ops encN encF a e =
     (if em_closed e then (e, None, [''emulate: the emulator is closed''])
      else if ta_now a < em_lastTick e then (e, None, [''emulate: tick before the last tick''])
      else (let e = e\<lparr>em_members := map (stepWith ops encN a) (em_members e)\<rparr>;
                errs = List.map_filter (\<lambda>m. map_option (\<lambda>er. ''emulate: node '' @ cm_name (mb_spec m) @ '': '' @ er) (mb_err m)) (em_members e);
                (e, nodes, facSnap, err) = tickFacility encF (ta_facOs a) (ta_now a) (ta_fac a) e;
                snap = \<lparr>ss_seq = em_seq e + 1, ss_cluster = em_cluster e, ss_time = ta_now a, ss_nodes = nodes, ss_facility = facSnap\<rparr>
            in (e\<lparr>em_seq := em_seq e + 1, em_lastTick := ta_now a, em_latest := Some snap\<rparr>, Some snap,
                errs @ (case err of None \<Rightarrow> [] | Some er \<Rightarrow> [er]))))"

definition emulatorClose :: "'r Emulator \<Rightarrow> 'r Emulator" where
  "emulatorClose e =
     (if em_closed e then e
      else e\<lparr>em_closed := True, em_members := map (\<lambda>m. m\<lparr>mb_ledgerFile := ledgerClose (mb_ledgerFile m)\<rparr>) (em_members e),
             em_facFile := ledgerClose (em_facFile e)\<rparr>)"

section \<open>Starting an emulator\<close>

definition memberNameError :: "string list \<Rightarrow> clusterMember \<Rightarrow> goerr option" where
  "memberNameError seen m =
     (let n = cm_name m
      in if n = [] \<or> CHR ''/'' \<in> set n \<or> CHR 0x5C \<in> set n \<or> HasPrefix n ''.'' then Some (''emulate: member name '' @ quotedName n @ '' is not a directory name'')
         else if n = ''lib'' \<or> n = ''fuse'' then Some (''emulate: member name '' @ quotedName n @ '' is the emulator's '' @ n @ '' directory'')
         else if n \<in> set seen then Some (''emulate: member '' @ n @ '' is listed twice'')
         else if cm_profile m = None then Some (''emulate: member '' @ n @ '' has no profile'')
         else None)"

fun checkMembers :: "string list \<Rightarrow> clusterMember list \<Rightarrow> goerr list \<times> clusterMember list" where
  "checkMembers seen [] = ([], [])"
| "checkMembers seen (m # ms) =
     (case memberNameError seen m of
        Some er \<Rightarrow> (let (errs, out) = checkMembers seen ms in (er # errs, out))
      | None \<Rightarrow> (let (errs, out) = checkMembers (cm_name m # seen) ms in (errs, m # out)))"

definition emulatorMembers :: "clusterMember list \<Rightarrow> goerr list + clusterMember list" where
  "emulatorMembers specs =
     (let (errs, out) = checkMembers [] specs in if errs \<noteq> [] then Inl errs else Inr (sort_key cm_name out))"

definition emulatorZones :: "CoolingZone list \<Rightarrow> clusterMember list \<Rightarrow> CoolingZone list" where
  "emulatorZones declared ms =
     (let addZone = (\<lambda>z zs. if cz_name z \<in> set (map cz_name zs) then zs else zs @ [z]);
          zs = fold addZone declared [];
          zs = fold (\<lambda>m zs. if cm_coolingZone m \<noteq> [] then addZone \<lparr>cz_name = cm_coolingZone m, cz_offsetC = cm_zoneOffsetC m\<rparr> zs else zs) ms zs
      in sort_key cz_name zs)"

record hwTree =
  tr_root :: string
  tr_stateRoot :: string
  er_fresh :: bool
  er_added :: "string list"

text \<open>
  What is the same in every start of one emulator, and what each start gets from outside: the trees and runners of the
  members, and the error, if any, of every call to the operating system and to a library, in the order of the code. The lock on
  the root is such a call (a root another emulator holds is its error), as are the installation of the vendor tools, the
  mount of the views (no error where none is asked for) and the registration of the metrics.
\<close>

record emConfig =
  ec_root :: string
  ec_cluster :: string
  ec_members :: "clusterMember list"
  ec_facility :: clusterFacility

record 'r startArgs =
  sa_start :: int
  sa_ensure :: "string \<Rightarrow> goerr + hwTree option"
  sa_newRunner :: "string \<Rightarrow> goerr + 'r"
  sa_mkdirErr :: "string \<Rightarrow> goerr option"
  sa_rmTempsErr :: "string \<Rightarrow> goerr option"
  sa_readErr :: "string \<Rightarrow> goerr option"
  sa_facReadErr :: "goerr option"
  sa_absErr :: "goerr option"
  sa_rootErr :: "goerr option"
  sa_lockErr :: "goerr option"
  sa_fakeSMIErr :: "goerr option"
  sa_viewsErr :: "goerr option"
  sa_facRmTempsErr :: "goerr option"
  sa_metricsErr :: "goerr option"

definition noSnapshot :: NodeSnapshot where
  "noSnapshot = \<lparr>sn_name = [], sn_pool = [], sn_profile = [], sn_rack = [], sn_coolingZone = [], sn_root = [], sn_startTime = 0,
     sn_started = False, sn_fresh = False, sn_added = [], sn_driverVersion = [],
     sn_host = \<lparr>hr_measured = False, hr_powerW = 0, hr_energyJ = 0, hr_otherW = 0, hr_inletC = 0\<rparr>,
     sn_components = [], sn_events = [], sn_err = [], sn_previousGovernors = Map.empty\<rparr>"

definition memberFirstReading :: "clusterMember \<Rightarrow> memberProfile \<Rightarrow> hwTree \<Rightarrow> nodeLedger \<Rightarrow> NodeSnapshot" where
  "memberFirstReading m p tree l =
     noSnapshot\<lparr>sn_name := cm_name m, sn_pool := cm_pool m, sn_profile := mp_name p, sn_rack := cm_rack m,
       sn_coolingZone := cm_coolingZone m, sn_root := tr_root tree, sn_startTime := ld_startTime l,
       sn_host := (sn_host noSnapshot)\<lparr>hr_energyJ := ld_hostJ l\<rparr>\<rparr>"

definition startMember ::
  "(string \<Rightarrow> goerr + ledgerDoc) \<Rightarrow> 'r startArgs \<Rightarrow> ledgerDisk \<Rightarrow> clusterMember \<Rightarrow> goerr + 'r emMember" where
  "startMember dec a d m =
     (let name = cm_name m; p = the (cm_profile m)
      in case sa_ensure a name of
           Inl er \<Rightarrow> Inl er
         | Inr None \<Rightarrow> Inl ''ensure returned no tree''
         | Inr (Some tree) \<Rightarrow>
             (case sa_newRunner a name of
                Inl er \<Rightarrow> Inl er
              | Inr r \<Rightarrow>
                  (let stateRoot = (if tr_stateRoot tree = [] then tr_root tree @ ''/state'' else tr_stateRoot tree);
                       path = stateRoot @ ''/ledger.json''
                   in case sa_mkdirErr a name of
                        Some er \<Rightarrow> Inl er
                      | None \<Rightarrow>
                          (case (case sa_rmTempsErr a name of
                                   Some er \<Rightarrow> Inl er
                                 | None \<Rightarrow> loadNodeLedger dec (sa_readErr a name) path name (sa_start a) d) of
                             Inl er \<Rightarrow> Inl er
                           | Inr l \<Rightarrow>
                               Inr \<lparr>mb_spec = m, mb_runner = r, mb_reportFresh = er_fresh tree, mb_reportAdded = er_added tree,
                                    mb_sockets = mp_sockets p, mb_gpus = (case mp_gpuCount p of Some n \<Rightarrow> n | None \<Rightarrow> 0),
                                    mb_ledgerFile = \<lparr>lf_path = path, lf_f = None, lf_size = 0\<rparr>, mb_disk = d, mb_ledger = l,
                                    mb_hostBase = 0, mb_compBase = Map.empty, mb_lastLoad = None, mb_published = False,
                                    mb_last = memberFirstReading m p tree l, mb_lastErr = [], mb_snap = noSnapshot, mb_hostDelta = 0,
                                    mb_err = None\<rparr>))))"

fun startMembers ::
  "(string \<Rightarrow> goerr + ledgerDoc) \<Rightarrow> 'r startArgs \<Rightarrow> (string \<Rightarrow> ledgerDisk) \<Rightarrow> clusterMember list \<Rightarrow> goerr list \<times> 'r emMember list" where
  "startMembers dec a disks [] = ([], [])"
| "startMembers dec a disks (m # ms) =
     (let (errs, out) = startMembers dec a disks ms
      in case startMember dec a (disks (cm_name m)) m of
           Inl er \<Rightarrow> ((''emulate: node '' @ cm_name m @ '': '' @ er) # errs, out)
         | Inr mb \<Rightarrow> (errs, mb # out))"

text \<open>The first error of some calls in a row, with what the code puts before it.\<close>

fun firstErr :: "(string \<times> goerr option) list \<Rightarrow> goerr option" where
  "firstErr [] = None"
| "firstErr ((prefix, r) # rs) = (case r of Some er \<Rightarrow> Some (prefix @ er) | None \<Rightarrow> firstErr rs)"

definition emulatorNew ::
  "(string \<Rightarrow> goerr + ledgerDoc) \<Rightarrow> (string \<Rightarrow> goerr + facilityLedger) \<Rightarrow> emConfig \<Rightarrow> 'r startArgs \<Rightarrow> (string \<Rightarrow> ledgerDisk) \<Rightarrow> ledgerDisk \<Rightarrow>
   goerr list + 'r Emulator" where
  "emulatorNew decN decF c a disks facDisk =
     (if ec_root c = [] then Inl [''emulate: Config.Root is empty'']
      else case sa_absErr a of
        Some er \<Rightarrow> Inl [''emulate: '' @ er]
      | None \<Rightarrow>
      (case emulatorMembers (ec_members c) of
        Inl errs \<Rightarrow> Inl errs
      | Inr specs \<Rightarrow>
          (case firstErr [(''emulate: '', sa_rootErr a), ([], sa_lockErr a), ([], sa_fakeSMIErr a)] of
             Some er \<Rightarrow> Inl [er]
           | None \<Rightarrow>
          (case startMembers decN a disks specs of
             (er # errs, _) \<Rightarrow> Inl (er # errs)
           | ([], ms) \<Rightarrow>
          (case firstErr [([], sa_viewsErr a), (''emulate: '', sa_facRmTempsErr a)] of
             Some er \<Rightarrow> Inl [er]
           | None \<Rightarrow>
               (let path = ec_root c @ ''/facility-ledger.json''; f = ec_facility c
                in case loadFacilityLedger decF (sa_facReadErr a) path (ec_cluster c) (sa_start a) facDisk of
                     Inl er \<Rightarrow> Inl [''emulate: '' @ er]
                   | Inr fl \<Rightarrow>
                       (case sa_metricsErr a of
                          Some er \<Rightarrow> Inl [er]
                        | None \<Rightarrow>
                       Inr \<lparr>em_cluster = ec_cluster c, em_start = sa_start a, em_zones = emulatorZones (cf_coolingZones f) specs,
                            em_facParams = \<lparr>fp_baseAmbientC = emulatorOr (cf_ambientC f) 20, fp_amplitudeC = emulatorOr (cf_amplitudeC f) 5,
                                            fp_periodH = emulatorOr (cf_periodH f) 24\<rparr>,
                            em_members = ms, em_closed = False, em_seq = 0, em_lastTick = sa_start a, em_peakITPowerW = 0,
                            em_facLedger = fl, em_facFile = \<lparr>lf_path = path, lf_f = None, lf_size = 0\<rparr>, em_facDisk = facDisk,
                            em_facPublished = fl, em_facErr = [], em_latest = None\<rparr>)))))))"

end
