(* ===== verification/Sim_Energy.thy ===== *)
theory Sim_Energy
  imports Sim_Emulator
begin

text \<open>
  Runs of the emulator of \<open>Sim_Emulator\<close>, with ticks, failing writes and restarts in any order, and what holds of the energies it
  publishes: they never go back, and the energy of the facility is that of its hosts.
\<close>

section \<open>Runs of an emulator\<close>

text \<open>The parameters of a run: the runners, the JSON codecs of the two ledgers and the configuration. A restart is a start over what
  the process before left on disk; after one that fails nothing ticks until the next. The disk of a member is found by its name.\<close>

record 'r emEnv =
  ee_ops :: "'r runnerOps"
  ee_encN :: "ledgerDoc \<Rightarrow> goerr + string"
  ee_decN :: "string \<Rightarrow> goerr + ledgerDoc"
  ee_encF :: "facilityLedger \<Rightarrow> goerr + string"
  ee_decF :: "string \<Rightarrow> goerr + facilityLedger"
  ee_cfg :: emConfig

datatype 'r emEvent = Ticks tickArgs | Restart "'r startArgs"

definition diskOf :: "'r Emulator \<Rightarrow> string \<Rightarrow> ledgerDisk" where
  "diskOf e n = (case find (\<lambda>m. cm_name (mb_spec m) = n) (em_members e) of Some m \<Rightarrow> mb_disk m | None \<Rightarrow> \<lparr>dk_file = None, dk_next = 0\<rparr>)"

fun emStep :: "'r emEnv \<Rightarrow> 'r emEvent \<Rightarrow> 'r Emulator \<Rightarrow> 'r Emulator \<times> Snapshot option" where
  "emStep v (Ticks a) e = (let (e', s, _) = Tick (ee_ops v) (ee_encN v) (ee_encF v) a e in (e', s))"
| "emStep v (Restart a) e =
     (case emulatorNew (ee_decN v) (ee_decF v) (ee_cfg v) a (diskOf e) (em_facDisk e) of
        Inr e' \<Rightarrow> (e', None)
      | Inl _ \<Rightarrow> (e\<lparr>em_closed := True\<rparr>, None))"

fun emSnaps :: "'r emEnv \<Rightarrow> 'r emEvent list \<Rightarrow> 'r Emulator \<Rightarrow> Snapshot list" where
  "emSnaps v [] e = []"
| "emSnaps v (x # xs) e = (case emStep v x e of (e', Some s) \<Rightarrow> s # emSnaps v xs e' | (e', None) \<Rightarrow> emSnaps v xs e')"

fun emStates :: "'r emEnv \<Rightarrow> 'r emEvent list \<Rightarrow> 'r Emulator \<Rightarrow> 'r Emulator list" where
  "emStates v [] e = [e]"
| "emStates v (x # xs) e = e # emStates v xs (fst (emStep v x e))"

text \<open>Every number of the ledgers is a float64, which JSON carries exactly.\<close>

definition exactLedgers :: "(ledgerDoc \<Rightarrow> bool) \<Rightarrow> (facilityLedger \<Rightarrow> bool) \<Rightarrow> 'r Emulator \<Rightarrow> bool" where
  "exactLedgers repN repF e \<longleftrightarrow> repF (em_facLedger e) \<and> (\<forall>m\<in>set (em_members e). repN (ledgerDoc.truncate (mb_ledger m)))"

definition nodeLe :: "NodeSnapshot \<Rightarrow> NodeSnapshot \<Rightarrow> bool" where
  "nodeLe s t \<longleftrightarrow> hr_energyJ (sn_host s) \<le> hr_energyJ (sn_host t) \<and>
     (\<forall>c\<in>set (sn_components s). \<forall>c'\<in>set (sn_components t). cmp_id c = cmp_id c' \<longrightarrow>
        (\<exists>x y. cmp_energyJ c = Fin x \<and> cmp_energyJ c' = Fin y \<and> x \<le> y))"

definition facilityLe :: "FacilitySnapshot \<Rightarrow> FacilitySnapshot \<Rightarrow> bool" where
  "facilityLe a b \<longleftrightarrow> fsn_itEnergyJ a \<le> fsn_itEnergyJ b \<and> fsn_coolingEnergyJ a \<le> fsn_coolingEnergyJ b \<and>
     (\<forall>r\<in>set (fsn_racks a). \<forall>r'\<in>set (fsn_racks b). rr_name r = rr_name r' \<longrightarrow> rr_energyJ r \<le> rr_energyJ r')"

definition snapshotLe :: "Snapshot \<Rightarrow> Snapshot \<Rightarrow> bool" where
  "snapshotLe a b \<longleftrightarrow> list_all2 nodeLe (ss_nodes a) (ss_nodes b) \<and> facilityLe (ss_facility a) (ss_facility b)"

section \<open>What a published reading may rely on\<close>

definition docCovers :: "NodeSnapshot \<Rightarrow> ledgerDoc \<Rightarrow> bool" where
  "docCovers s d \<longleftrightarrow> hr_energyJ (sn_host s) \<le> ld_hostJ d \<and>
     (\<forall>c\<in>set (sn_components s). \<exists>x. cmp_energyJ c = Fin x \<and> x \<le> mapOr 0 (ld_componentsJ d) (cmp_id c))"

text \<open>Neither the readings of the last good step nor the ledger, in memory or on disk, are behind reading \<open>s\<close>.\<close>

definition covers :: "'r emEnv \<Rightarrow> 'r emMember \<Rightarrow> NodeSnapshot \<Rightarrow> bool" where
  "covers v m s \<longleftrightarrow> nodeLe s (mb_last m) \<and> docCovers s (ledgerDoc.truncate (mb_ledger m)) \<and>
     knownOf (docCovers s) (newDoc [] 0) (heldBy (ee_decN v) (mb_disk m))"

lemma docCovers_le: "docCovers s d \<Longrightarrow> docLe d d' \<Longrightarrow> docCovers s d'"
  unfolding docCovers_def docLe_def by (meson order_trans)

lemma truncate_fields [simp]:
  "ld_hostJ (ledgerDoc.truncate l) = ld_hostJ l" "ld_componentsJ (ledgerDoc.truncate l) = ld_componentsJ l"
  by (simp_all add: ledgerDoc.defs)

lemma accrueComponent_le: "docLe (ledgerDoc.truncate (mb_ledger m)) (ledgerDoc.truncate (mb_ledger (accrueComponent c m)))"
  using ledgerAccrue_grows[of "mapOr 0 (ld_componentsJ (mb_ledger m)) (cmp_id c)" "mapOr 0 (mb_compBase m) (cmp_id c)" "cmp_energyJ c"]
  by (simp add: accrueComponent_def docLe_def Let_def split_beta)

lemma accrueComponent_frame [simp]:
  "mb_last (accrueComponent c m) = mb_last m" "mb_ledgerFile (accrueComponent c m) = mb_ledgerFile m"
  "mb_disk (accrueComponent c m) = mb_disk m" "mb_spec (accrueComponent c m) = mb_spec m"
  by (simp_all add: accrueComponent_def Let_def split_beta)

lemma fold_accrueComponent:
  "docLe (ledgerDoc.truncate (mb_ledger m)) (ledgerDoc.truncate (mb_ledger (fold accrueComponent cs m)))
   \<and> mb_last (fold accrueComponent cs m) = mb_last m \<and> mb_ledgerFile (fold accrueComponent cs m) = mb_ledgerFile m
   \<and> mb_disk (fold accrueComponent cs m) = mb_disk m \<and> mb_spec (fold accrueComponent cs m) = mb_spec m"
proof (induction cs arbitrary: m)
  case (Cons c cs)
  show ?case using Cons[of "accrueComponent c m"] docLe_trans[OF accrueComponent_le[of m c]] by simp
qed simp

lemma memberAccrue_le:
  "docLe (ledgerDoc.truncate (mb_ledger m)) (ledgerDoc.truncate (mb_ledger (memberAccrue st m)))
   \<and> mb_last (memberAccrue st m) = mb_last m \<and> mb_ledgerFile (memberAccrue st m) = mb_ledgerFile m
   \<and> mb_disk (memberAccrue st m) = mb_disk m \<and> mb_spec (memberAccrue st m) = mb_spec m"
proof -
  obtain tot base b where a: "ledgerAccrue (ld_hostJ (mb_ledger m)) (mb_hostBase m) (hst_energyJ (nst_host st)) = (tot, base, b)"
    by (cases "ledgerAccrue (ld_hostJ (mb_ledger m)) (mb_hostBase m) (hst_energyJ (nst_host st))") auto
  let ?m = "m\<lparr>mb_ledger := (mb_ledger m)\<lparr>ld_hostJ := tot\<rparr>, mb_hostBase := base\<rparr>"
  have "docLe (ledgerDoc.truncate (mb_ledger m)) (ledgerDoc.truncate (mb_ledger ?m))"
    using ledgerAccrue_grows[of "ld_hostJ (mb_ledger m)" "mb_hostBase m" "hst_energyJ (nst_host st)"] unfolding a by (simp add: docLe_def)
  then show ?thesis using fold_accrueComponent[of ?m "nst_components st"] docLe_trans by (auto simp: memberAccrue_def a)
qed

text \<open>A reading made of a ledger, and readings of an older ledger.\<close>

lemma reading_fields:
  "hr_energyJ (sn_host (memberReading m st)) = ld_hostJ (mb_ledger m)"
  "sn_components (memberReading m st) = map (ledgerReading (mb_ledger m)) (nst_components st)"
  by (simp_all add: memberReading_def Let_def)

lemma ledgerReading_fields [simp]:
  "cmp_id (ledgerReading l c) = cmp_id c" "cmp_energyJ (ledgerReading l c) = Fin (mapOr 0 (ld_componentsJ l) (cmp_id c))"
  by (simp_all add: ledgerReading_def Let_def)

lemma reading_covered: "docCovers (memberReading m st) (ledgerDoc.truncate (mb_ledger m))"
  by (simp add: docCovers_def reading_fields)

lemma reading_above: "docCovers s (ledgerDoc.truncate (mb_ledger m)) \<Longrightarrow> nodeLe s (memberReading m st)"
  by (force simp: docCovers_def nodeLe_def reading_fields)

lemma energies_only:
  assumes "hr_energyJ (sn_host s') = hr_energyJ (sn_host s)" and "sn_components s' = sn_components s"
  shows "nodeLe s' = nodeLe s" and "nodeLe t s' = nodeLe t s" and "docCovers s' = docCovers s" and "covers v m s' = covers v m s"
proof -
  show l: "nodeLe s' = nodeLe s" and "nodeLe t s' = nodeLe t s" and d: "docCovers s' = docCovers s"
    using assms by (auto simp: nodeLe_def docCovers_def fun_eq_iff)
  then show "covers v m s' = covers v m s" by (simp add: covers_def)
qed

text \<open>The invariant of a member: its file is well kept, and nothing is behind its last good readings.\<close>

definition memberOk :: "'r emEnv \<Rightarrow> (ledgerDoc \<Rightarrow> bool) \<Rightarrow> 'r emMember \<Rightarrow> bool" where
  "memberOk v repN m \<longleftrightarrow> fileInv (ee_encN v) (ee_decN v) repN (mb_ledgerFile m, mb_disk m) \<and> covers v m (mb_last m)"

lemma advance_frame:
  "advanceMember ops now l m = (m', err) \<Longrightarrow> mb_last m' = mb_last m \<and> mb_ledger m' = mb_ledger m \<and> mb_ledgerFile m' = mb_ledgerFile m
     \<and> mb_disk m' = mb_disk m \<and> mb_spec m' = mb_spec m"
  by (auto simp: advanceMember_def Let_def split: prod.splits if_splits)

lemma publish_frame:
  "mb_ledger (publishMember st err m) = mb_ledger m" "mb_ledgerFile (publishMember st err m) = mb_ledgerFile m"
  "mb_disk (publishMember st err m) = mb_disk m" "mb_spec (publishMember st err m) = mb_spec m"
  "mb_last (publishMember st err m) = (if err = None then memberReading m st else mb_last m)"
  "hr_energyJ (sn_host (mb_snap (publishMember st err m))) = hr_energyJ (sn_host (mb_last (publishMember st err m)))"
  "sn_components (mb_snap (publishMember st err m)) = sn_components (mb_last (publishMember st err m))"
  "mb_hostDelta (publishMember st err m) = hr_energyJ (sn_host (mb_last (publishMember st err m))) - hr_energyJ (sn_host (mb_last m))"
  by (simp_all add: publishMember_def Let_def split: option.splits)

lemma persist_covers:
  assumes "persistMember enc oa st m = (m', err)" and "enc = ee_encN v"
    and "fileInv enc (ee_decN v) repN (mb_ledgerFile m, mb_disk m)" and "repN (ledgerDoc.truncate (mb_ledger m'))"
  shows "fileInv enc (ee_decN v) repN (mb_ledgerFile m', mb_disk m') \<and> mb_last m' = mb_last m \<and> mb_spec m' = mb_spec m
    \<and> docLe (ledgerDoc.truncate (mb_ledger m)) (ledgerDoc.truncate (mb_ledger m'))
    \<and> (err = None \<longrightarrow> heldBy (ee_decN v) (mb_disk m') = Held (ledgerDoc.truncate (mb_ledger m')))
    \<and> (covers v m s \<longrightarrow> knownOf (docCovers s) (newDoc [] 0) (heldBy (ee_decN v) (mb_disk m')))"
proof -
  let ?m = "memberAccrue st m" and ?w = "ledgerWrite enc oa (ledgerDoc.truncate (mb_ledger (memberAccrue st m))) (mb_ledgerFile m, mb_disk m)"
  note acc = memberAccrue_le[of m st]
  have m': "m' = ?m\<lparr>mb_ledgerFile := fst (fst ?w), mb_disk := snd (fst ?w)\<rparr>" and e: "err = None \<longleftrightarrow> snd ?w = None"
    using assms(1) acc by (auto simp: persistMember_def Let_def split_beta)
  have rep: "repN (ledgerDoc.truncate (mb_ledger ?m))" using assms(4) by (simp add: m')
  have "knownOf (docCovers s) (newDoc [] 0) (heldBy (ee_decN v) (snd (fst ?w)))" if c: "covers v m s"
  proof -
    have "docCovers s (ledgerDoc.truncate (mb_ledger ?m))" using c acc docCovers_le unfolding covers_def by blast
    then show ?thesis
      using disk.put_known[OF assms(3) rep, of "docCovers s" "newDoc [] 0" oa] c by (simp add: covers_def)
  qed
  then show ?thesis
    using acc disk.put_good[OF assms(3) rep, of oa] disk.put_ok[OF assms(3) rep, of oa] e by (simp add: m')
qed

lemma step_covers:
  assumes m': "m' = stepMember ops (ee_encN v) oa now l m" and ok: "memberOk v repN m" and rep: "repN (ledgerDoc.truncate (mb_ledger m'))"
  shows "memberOk v repN m' \<and> mb_spec m' = mb_spec m \<and> covers v m' (mb_snap m')
    \<and> (covers v m s \<longrightarrow> covers v m' s \<and> nodeLe s (mb_snap m'))
    \<and> 0 \<le> mb_hostDelta m' \<and> mb_hostDelta m' = hr_energyJ (sn_host (mb_last m')) - hr_energyJ (sn_host (mb_last m))"
proof -
  obtain m1 err1 where a: "advanceMember ops now l m = (m1, err1)" by fastforce
  let ?st = "ro_state ops (mb_runner m1)"
  obtain m2 err2 where p: "(case err1 of None \<Rightarrow> persistMember (ee_encN v) oa ?st m1 | Some e \<Rightarrow> (m1, Some e)) = (m2, err2)" by fastforce
  have eq: "m' = publishMember ?st err2 m2" using m' a p by (simp add: stepMember_def Let_def)
  note fr = advance_frame[OF a]
  have same: "covers v m1 = covers v m" using fr by (simp add: covers_def fun_eq_iff)
  have inv1: "fileInv (ee_encN v) (ee_decN v) repN (mb_ledgerFile m1, mb_disk m1)" using ok fr by (simp add: memberOk_def)
  have rep2: "repN (ledgerDoc.truncate (mb_ledger m2))" using rep by (simp add: eq publish_frame)
  have m2: "fileInv (ee_encN v) (ee_decN v) repN (mb_ledgerFile m2, mb_disk m2) \<and> mb_last m2 = mb_last m \<and> mb_spec m2 = mb_spec m
      \<and> (covers v m s \<longrightarrow> covers v m2 s) \<and> (err2 = None \<longrightarrow> heldBy (ee_decN v) (mb_disk m2) = Held (ledgerDoc.truncate (mb_ledger m2)))" for s
  proof (cases err1)
    case None
    then have "persistMember (ee_encN v) oa ?st m1 = (m2, err2)" using p by simp
    from persist_covers[OF this refl inv1 rep2, of s] show ?thesis
      using fr unfolding same covers_def by (auto intro: docCovers_le)
  next
    case (Some e)
    then show ?thesis using p fr inv1 same by auto
  qed
  have c': "covers v m' s" if s: "covers v m s" for s
  proof (cases "err2 = None")
    case True
    then show ?thesis using m2[of s] s reading_above unfolding covers_def eq publish_frame by auto
  next
    case False
    then show ?thesis using m2[of s] s unfolding covers_def eq publish_frame by auto
  qed
  have self: "covers v m' (mb_last m')"
  proof (cases "err2 = None")
    case True
    then show ?thesis using m2 reading_above[OF reading_covered[of m2 ?st], of ?st] reading_covered[of m2 ?st] unfolding covers_def eq publish_frame
      by (simp add: knownOf_def)
  next
    case False
    then have "mb_last m' = mb_last m" using m2 by (auto simp: eq publish_frame)
    then show ?thesis using c'[of "mb_last m"] ok by (simp add: memberOk_def)
  qed
  have snap: "nodeLe t (mb_snap m') = nodeLe t (mb_last m')" "covers v m' (mb_snap m') = covers v m' (mb_last m')" for t
    by (rule energies_only; simp add: eq publish_frame)+
  have delta: "mb_hostDelta m' = hr_energyJ (sn_host (mb_last m')) - hr_energyJ (sn_host (mb_last m))"
    using m2 by (simp add: eq publish_frame)
  moreover have "0 \<le> mb_hostDelta m'"
    using c'[of "mb_last m"] ok unfolding delta by (simp add: memberOk_def covers_def nodeLe_def)
  moreover have "memberOk v repN m'" using self m2 by (simp add: memberOk_def eq publish_frame)
  moreover have "mb_spec m' = mb_spec m" using m2 by (simp add: eq publish_frame)
  ultimately show ?thesis using c'[of s] self unfolding snap by (auto simp: covers_def)
qed

lemma start_covers:
  assumes "startMember (ee_decN v) a d spec = Inr m'" and "fileInv (ee_encN v) (ee_decN v) repN (lf, d)"
  shows "memberOk v repN m' \<and> mb_spec m' = spec
    \<and> (knownOf (docCovers s) (newDoc [] 0) (heldBy (ee_decN v) d) \<longrightarrow> covers v m' s)"
proof -
  obtain l path p tree where ld: "loadNodeLedger (ee_decN v) (sa_readErr a (cm_name spec)) path (cm_name spec) (sa_start a) d = Inr l"
    and f: "mb_ledger m' = l" "mb_disk m' = d" "mb_spec m' = spec" "lf_f (mb_ledgerFile m') = None" "mb_last m' = memberFirstReading spec p tree l"
    using assms(1) by (auto simp: startMember_def Let_def split: sum.splits option.splits)
  have lst: "hr_energyJ (sn_host (mb_last m')) = ld_hostJ l" "sn_components (mb_last m') = []"
    by (simp_all add: f memberFirstReading_def noSnapshot_def)
  have fresh: "docCovers s (newDoc [] 0) \<Longrightarrow> docCovers s (newDoc n t)" for s n t by (simp add: docCovers_def newDoc_def)
  have "covers v m' s" if s: "knownOf (docCovers s) (newDoc [] 0) (heldBy (ee_decN v) d)" for s
  proof -
    have "docCovers s (ledgerDoc.truncate l)"
      using loadNodeLedger_known[OF ld, of "docCovers s" "newDoc [] 0"] s fresh by simp
    then show ?thesis using s f(1,2) lst by (simp add: covers_def docCovers_def nodeLe_def)
  qed
  moreover have "covers v m' (mb_last m')"
  proof -
    have "knownOf (docCovers (mb_last m')) (newDoc [] 0) (heldBy (ee_decN v) d)"
      using ld lst by (auto simp: loadNodeLedger_def ledgerRead_def heldBy_def knownOf_def docCovers_def newDoc_def ledgerDoc.defs
          split: option.splits sum.splits if_splits)
    then show ?thesis using lst by (simp add: covers_def f(1,2) docCovers_def nodeLe_def)
  qed
  moreover have "fileInv (ee_encN v) (ee_decN v) repN (mb_ledgerFile m', mb_disk m')"
    using assms(2) f(2,4) by (auto simp: fileInv_def)
  ultimately show ?thesis using f(3) by (simp add: memberOk_def)
qed

section \<open>The facility\<close>

definition shows_ledger :: "FacilitySnapshot \<Rightarrow> facilityLedger \<Rightarrow> bool" where
  "shows_ledger s l \<longleftrightarrow> fsn_itEnergyJ s = fl_itJ l \<and> fsn_coolingEnergyJ s = fl_coolingJ l \<and>
     (\<forall>r\<in>set (fsn_racks s). rr_energyJ r = mapOr 0 (fl_racksJ l) (rr_name r))"

text \<open>A ledger of another cluster counts as a new one, as it does for a start.\<close>

definition clusterCovers :: "string \<Rightarrow> facilityLedger \<Rightarrow> facilityLedger \<Rightarrow> bool" where
  "clusterCovers cl p l \<longleftrightarrow> (if fl_cluster l = cl then flLe p l else flLe p (newFacilityLedger cl 0))"

definition facilityCovers :: "'r emEnv \<Rightarrow> 'r Emulator \<Rightarrow> facilityLedger \<Rightarrow> bool" where
  "facilityCovers v e p \<longleftrightarrow> flLe p (em_facPublished e) \<and> flLe p (em_facLedger e) \<and>
     knownOf (clusterCovers (ec_cluster (ee_cfg v)) p) (newFacilityLedger (ec_cluster (ee_cfg v)) 0) (heldBy (ee_decF v) (em_facDisk e))"

definition facilityOk :: "'r emEnv \<Rightarrow> (facilityLedger \<Rightarrow> bool) \<Rightarrow> 'r Emulator \<Rightarrow> bool" where
  "facilityOk v repF e \<longleftrightarrow> fileInv (ee_encF v) (ee_decF v) repF (em_facFile e, em_facDisk e)
     \<and> fl_cluster (em_facLedger e) = ec_cluster (ee_cfg v) \<and> facilityCovers v e (em_facPublished e)"

lemma facilityLe_shows: "shows_ledger a p \<Longrightarrow> shows_ledger b q \<Longrightarrow> flLe p q \<Longrightarrow> facilityLe a b"
  by (auto simp: shows_ledger_def facilityLe_def flLe_def)

lemma ledgerFinite_nonneg [simp]: "0 \<le> ledgerFinite x"
  by (simp add: ledgerFinite_def)

lemma rackSums_from:
  "mapOr 0 (fold (\<lambda>m acc. let r = cm_rack (mb_spec m) in if r \<noteq> [] then acc(r \<mapsto> mapOr 0 acc r + f m) else acc) ms acc) r
     = mapOr 0 acc r + (\<Sum>m\<leftarrow>filter (\<lambda>m. r \<noteq> [] \<and> cm_rack (mb_spec m) = r) ms. f m)"
  by (induction ms arbitrary: acc) (auto simp: Let_def add.assoc)

lemma rackSums_sum: "mapOr 0 (rackSums f ms) r = (\<Sum>m\<leftarrow>filter (\<lambda>m. r \<noteq> [] \<and> cm_rack (mb_spec m) = r) ms. f m)"
  by (simp add: rackSums_def rackSums_from del: fun_upd_apply)

lemma accrued_racks:
  "mapOr 0 (fl_racksJ (facilityAccrue ms w val dt l)) r = mapOr 0 (fl_racksJ l) r + mapOr 0 (rackSums (\<lambda>m. ledgerFinite (mb_hostDelta m)) ms) r"
  by (cases "rackSums (\<lambda>m. ledgerFinite (mb_hostDelta m)) ms r") (simp_all add: facilityAccrue_def Let_def mapOr_def)

lemma facilityAccrue_le: "flLe l (facilityAccrue ms w val dt l)"
proof -
  have "0 \<le> mapOr 0 (rackSums (\<lambda>m. ledgerFinite (mb_hostDelta m)) ms) r" for r
    unfolding rackSums_sum by (rule sum_list_nonneg) auto
  moreover have "0 \<le> (\<Sum>m\<leftarrow>ms. ledgerFinite (mb_hostDelta m))" by (rule sum_list_nonneg) auto
  ultimately show ?thesis unfolding flLe_def accrued_racks by (simp add: facilityAccrue_def Let_def)
qed

lemma accrue_cluster [simp]: "fl_cluster (facilityAccrue ms w val dt l) = fl_cluster l"
  by (simp add: facilityAccrue_def Let_def)

lemma tickFacility_covers:
  assumes t: "tickFacility (ee_encF v) oa now fac e = (e', nodes, fs, err)" and ok: "facilityOk v repF e" and rep: "repF (em_facLedger e')"
  shows "facilityOk v repF e' \<and> shows_ledger fs (em_facPublished e') \<and> (facilityCovers v e p \<longrightarrow> facilityCovers v e' p)
    \<and> em_members e' = em_members e \<and> (\<exists>amb. nodes = map (fillInlet (em_zones e) amb) (em_members e))
    \<and> (\<exists>val. em_facLedger e' = facilityAccrue (em_members e) (sum_list (map snapPower (em_members e))) val (of_int (now - em_lastTick e) / 10 ^ 9) (em_facLedger e)
          \<and> fv_itPowerW val = (case fac of None \<Rightarrow> sum_list (map snapPower (em_members e)) | Some f \<Rightarrow> fv_itPowerW (f (sum_list (map snapPower (em_members e))) now)))
    \<and> (err = None \<longrightarrow> em_facPublished e' = em_facLedger e') \<and> (em_facErr e' = [] \<longleftrightarrow> err = None)"
proof -
  let ?w = "sum_list (map snapPower (em_members e))"
  obtain val peak where vp: "(case fac of Some f \<Rightarrow> (f ?w now, em_peakITPowerW e)
      | None \<Rightarrow> facilityCompute (em_facParams e) (now - em_start e) ?w (em_peakITPowerW e)) = (val, peak)" by fastforce
  define L where "L = facilityAccrue (em_members e) ?w val (of_int (now - em_lastTick e) / 10 ^ 9) (em_facLedger e)"
  let ?e1 = "e\<lparr>em_peakITPowerW := peak, em_facLedger := L\<rparr>"
  let ?wr = "ledgerWrite (ee_encF v) oa L (em_facFile e, em_facDisk e)"
  have p: "facilityPersist (ee_encF v) oa ?e1 = (e', err)" and fs: "shows_ledger fs (em_facPublished e')"
    and nodes: "nodes = map (fillInlet (em_zones e') (fv_ambientC val)) (em_members e)"
    using t vp unfolding tickFacility_def Let_def L_def
    by (auto simp: shows_ledger_def split: prod.splits)
  have e': "em_facLedger e' = L" "em_facFile e' = fst (fst ?wr)" "em_facDisk e' = snd (fst ?wr)" "em_members e' = em_members e"
    "em_zones e' = em_zones e" "em_facPublished e' = (if err = None then L else em_facPublished e)" "err = None \<longleftrightarrow> snd ?wr = None"
    "em_facErr e' = [] \<longleftrightarrow> err = None"
    using p by (auto simp: facilityPersist_def Let_def split: prod.splits option.splits)
  have inv: "fileInv (ee_encF v) (ee_decF v) repF (em_facFile e, em_facDisk e)" and cl: "fl_cluster (em_facLedger e) = ec_cluster (ee_cfg v)"
    using ok by (simp_all add: facilityOk_def)
  have repL: "repF L" using rep e' by simp
  have le: "flLe (em_facLedger e) L" unfolding L_def by (rule facilityAccrue_le)
  have clL: "fl_cluster L = ec_cluster (ee_cfg v)" using cl by (simp add: L_def)
  have cov: "facilityCovers v e' p" if p: "facilityCovers v e p" for p
  proof -
    let ?fresh = "newFacilityLedger (ec_cluster (ee_cfg v)) 0"
    let ?P = "clusterCovers (ec_cluster (ee_cfg v)) p"
    have pL: "flLe p L" using p le flLe_trans by (simp add: facilityCovers_def) blast
    then have "knownOf ?P ?fresh ((heldBy (ee_decF v) \<circ> snd) (fst ?wr))"
      using disk.put_known[OF inv repL, of ?P ?fresh oa] p clL by (simp add: facilityCovers_def clusterCovers_def)
    then show ?thesis using pL p e' by (simp add: facilityCovers_def)
  qed
  have "facilityCovers v e' L" if "err = None"
    using disk.put_ok[OF inv repL, of oa] e' that clL by (simp add: facilityCovers_def knownOf_def clusterCovers_def)
  then have "facilityCovers v e' (em_facPublished e')" using cov[of "em_facPublished e"] ok e'(6) by (auto simp: facilityOk_def)
  then have "facilityOk v repF e'" using disk.put_good[OF inv repL, of oa] e' clL by (simp add: facilityOk_def)
  moreover have "fv_itPowerW val = (case fac of None \<Rightarrow> ?w | Some f \<Rightarrow> fv_itPowerW (f ?w now))"
    using vp by (auto simp: facilityCompute_def Let_def split: option.splits)
  ultimately show ?thesis using cov fs nodes e' L_def by auto
qed

section \<open>The whole emulator\<close>

definition emOk :: "'r emEnv \<Rightarrow> (ledgerDoc \<Rightarrow> bool) \<Rightarrow> (facilityLedger \<Rightarrow> bool) \<Rightarrow> 'r Emulator \<Rightarrow> bool" where
  "emOk v repN repF e \<longleftrightarrow> facilityOk v repF e \<and> (\<forall>m\<in>set (em_members e). memberOk v repN m)
     \<and> emulatorMembers (ec_members (ee_cfg v)) = Inr (map mb_spec (em_members e))"

definition covered :: "'r emEnv \<Rightarrow> 'r Emulator \<Rightarrow> Snapshot \<Rightarrow> bool" where
  "covered v e S \<longleftrightarrow> list_all2 (covers v) (em_members e) (ss_nodes S) \<and> (\<exists>p. shows_ledger (ss_facility S) p \<and> facilityCovers v e p)"

lemma stepWith_covers:
  assumes "memberOk v repN m" and "repN (ledgerDoc.truncate (mb_ledger (stepWith (ee_ops v) (ee_encN v) a m)))"
  shows "memberOk v repN (stepWith (ee_ops v) (ee_encN v) a m) \<and> mb_spec (stepWith (ee_ops v) (ee_encN v) a m) = mb_spec m
    \<and> covers v (stepWith (ee_ops v) (ee_encN v) a m) (fillInlet zs amb (stepWith (ee_ops v) (ee_encN v) a m))
    \<and> (covers v m s \<longrightarrow> covers v (stepWith (ee_ops v) (ee_encN v) a m) s
         \<and> nodeLe s (fillInlet zs amb (stepWith (ee_ops v) (ee_encN v) a m)))"
proof -
  have fill: "nodeLe s (fillInlet zs amb m') = nodeLe s (mb_snap m')" "covers v m' (fillInlet zs amb m') = covers v m' (mb_snap m')" for m' :: "'a emMember"
    by (rule energies_only; simp add: fillInlet_def Let_def)+
  show ?thesis using step_covers[OF stepWith_def[of "ee_ops v" "ee_encN v" a m] assms, of s] unfolding fill by blast
qed

lemma list_all2_map1: "list_all2 P (map f xs) ys \<longleftrightarrow> list_all2 (\<lambda>x. P (f x)) xs ys"
  by (simp add: list_all2_conv_all_nth)

lemma Tick_covers:
  assumes t: "Tick (ee_ops v) (ee_encN v) (ee_encF v) a e = (e', s, errs)" and ok: "emOk v repN repF e" and ex: "exactLedgers repN repF e'"
  shows "emOk v repN repF e' \<and> (covered v e S \<longrightarrow> covered v e' S)
    \<and> (\<forall>s'. s = Some s' \<longrightarrow> covered v e' s' \<and> (covered v e S \<longrightarrow> snapshotLe S s'))"
proof (cases "em_closed e \<or> ta_now a < em_lastTick e")
  case True
  then show ?thesis using t ok by (auto simp: Tick_def split: if_splits)
next
  case False
  let ?f = "stepWith (ee_ops v) (ee_encN v) a"
  let ?e1 = "e\<lparr>em_members := map ?f (em_members e)\<rparr>"
  obtain e2 nodes fs err where tf: "tickFacility (ee_encF v) (ta_facOs a) (ta_now a) (ta_fac a) ?e1 = (e2, nodes, fs, err)"
    using prod_cases4 by blast
  have e': "em_members e' = em_members e2" "em_facLedger e' = em_facLedger e2" "em_facPublished e' = em_facPublished e2"
    "em_facFile e' = em_facFile e2" "em_facDisk e' = em_facDisk e2"
    and s: "\<exists>s'. s = Some s' \<and> ss_nodes s' = nodes \<and> ss_facility s' = fs"
    using t False tf by (auto simp: Tick_def Let_def)
  have "facilityOk v repF ?e1" using ok by (simp add: emOk_def facilityOk_def facilityCovers_def)
  note fc = tickFacility_covers[OF tf this]
  have ex2: "repF (em_facLedger e2)" using ex e' by (simp add: exactLedgers_def)
  have mem: "em_members e' = map ?f (em_members e)" using fc[OF ex2] e' by simp
  obtain amb where nodes: "nodes = map (fillInlet (em_zones e) amb) (map ?f (em_members e))"
    using fc[OF ex2, of "em_facPublished e"] by auto
  have fcov: "facilityCovers v e' p = facilityCovers v e2 p" "facilityCovers v ?e1 p = facilityCovers v e p" for p
    using e' by (simp_all add: facilityCovers_def)
  have step: "memberOk v repN (?f m) \<and> mb_spec (?f m) = mb_spec m \<and> covers v (?f m) (fillInlet (em_zones e) amb (?f m))
      \<and> (covers v m s \<longrightarrow> covers v (?f m) s \<and> nodeLe s (fillInlet (em_zones e) amb (?f m)))" if "m \<in> set (em_members e)" for m s
    using that ok ex mem by (intro stepWith_covers) (auto simp: emOk_def exactLedgers_def)
  have ok': "emOk v repN repF e'"
    using fc[OF ex2] ok step mem e' fcov by (auto simp: emOk_def facilityOk_def comp_def cong: map_cong)
  have self: "covered v e' s'" if "s = Some s'" for s'
    using that s fc[OF ex2] ok' nodes step unfolding covered_def mem emOk_def facilityOk_def fcov
    by (auto simp: list_all2_conv_all_nth e')
  have "covered v e' S \<and> (\<forall>s'. s = Some s' \<longrightarrow> snapshotLe S s')" if S: "covered v e S"
  proof -
    obtain p where p: "shows_ledger (ss_facility S) p" "facilityCovers v e p" using S by (auto simp: covered_def)
    have ns: "list_all2 (covers v) (em_members e) (ss_nodes S)" using S by (simp add: covered_def)
    have "facilityCovers v e2 p" using fc[OF ex2, of p] p(2) unfolding fcov by simp
    moreover have "list_all2 (covers v) (em_members e') (ss_nodes S)" and le: "list_all2 nodeLe (ss_nodes S) nodes"
      using ns step unfolding mem nodes by (auto simp: list_all2_conv_all_nth)
    moreover have "facilityLe (ss_facility S) fs"
      using facilityLe_shows[OF p(1)] fc[OF ex2] \<open>facilityCovers v e2 p\<close> by (auto simp: facilityCovers_def)
    ultimately show ?thesis using p(1) s unfolding covered_def fcov snapshotLe_def by auto
  qed
  then show ?thesis using ok' self by blast
qed

lemma startMembers_ok:
  "startMembers dec a disks specs = ([], ms) \<Longrightarrow> list_all2 (\<lambda>sp m. startMember dec a (disks (cm_name sp)) sp = Inr m) specs ms"
  by (induction specs arbitrary: ms) (auto simp: Let_def split: sum.splits prod.splits)

lemma checkMembers_distinct:
  "checkMembers seen specs = (errs, out) \<Longrightarrow> distinct (map cm_name out) \<and> set (map cm_name out) \<inter> set seen = {}"
proof (induction seen specs arbitrary: errs out rule: checkMembers.induct)
  case (2 seen m ms)
  show ?case
  proof (cases "memberNameError seen m")
    case None
    then obtain out' where out: "out = m # out'" "checkMembers (cm_name m # seen) ms = (errs, out')"
      using "2.prems" by (auto simp: Let_def split: prod.splits)
    moreover have "cm_name m \<notin> set seen" using None by (auto simp: memberNameError_def Let_def split: if_splits)
    ultimately show ?thesis using "2.IH"(1)[OF None out(2)] by auto
  next
    case (Some er)
    then obtain errs' where "checkMembers seen ms = (errs', out)" using "2.prems" by (auto simp: Let_def split: prod.splits)
    then show ?thesis using "2.IH"(2)[OF Some] by blast
  qed
qed simp

lemma emulatorMembers_distinct: "emulatorMembers specs = Inr out \<Longrightarrow> distinct (map cm_name out)"
proof -
  assume "emulatorMembers specs = Inr out"
  then obtain ms where "checkMembers [] specs = ([], ms)" "out = sort_key cm_name ms"
    by (auto simp: emulatorMembers_def Let_def split: prod.splits if_splits)
  then show ?thesis using checkMembers_distinct[of "[]" specs "[]" ms]
    by (metis distinct_map distinct_sort set_sort inj_on_def)
qed

lemma diskOf_member:
  assumes "distinct (map cm_name (map mb_spec (em_members e)))" and "m \<in> set (em_members e)"
  shows "diskOf e (cm_name (mb_spec m)) = mb_disk m"
proof -
  obtain m' where f: "find (\<lambda>x. cm_name (mb_spec x) = cm_name (mb_spec m)) (em_members e) = Some m'"
    using assms(2) by (metis (mono_tags, lifting) find_None_iff option.exhaust)
  then have "m' \<in> set (em_members e)" "cm_name (mb_spec m') = cm_name (mb_spec m)" by (auto simp: find_Some_iff)
  then have "m' = m" using assms by (auto simp: distinct_map inj_on_def)
  then show ?thesis using f by (simp add: diskOf_def)
qed

lemma emulatorNew_fields:
  assumes "emulatorNew decN decF c a disks d = Inr e"
  shows "\<exists>specs fl path. emulatorMembers (ec_members c) = Inr specs \<and> startMembers decN a disks specs = ([], em_members e)
    \<and> loadFacilityLedger decF (sa_facReadErr a) path (ec_cluster c) (sa_start a) d = Inr fl
    \<and> em_facLedger e = fl \<and> em_facPublished e = fl \<and> em_facDisk e = d \<and> lf_f (em_facFile e) = None
    \<and> em_lastTick e = sa_start a \<and> \<not> em_closed e"
  using assms by (auto simp: emulatorNew_def Let_def split: if_splits sum.splits prod.splits list.splits option.splits)

text \<open>A start over well-kept disks: \<open>old\<close> is a member over the same disk.\<close>

lemma New_facility:
  assumes n: "emulatorNew (ee_decN v) (ee_decF v) (ee_cfg v) a disks d = Inr e'" and inv: "fileInv (ee_encF v) (ee_decF v) repF (lf, d)"
  shows "facilityOk v repF e'
    \<and> (knownOf (clusterCovers (ec_cluster (ee_cfg v)) p) (newFacilityLedger (ec_cluster (ee_cfg v)) 0) (heldBy (ee_decF v) d) \<longrightarrow> facilityCovers v e' p)"
proof -
  let ?c = "ec_cluster (ee_cfg v)"
  obtain fl path where l: "loadFacilityLedger (ee_decF v) (sa_facReadErr a) path ?c (sa_start a) d = Inr fl"
    and e': "em_facLedger e' = fl" "em_facPublished e' = fl" "em_facDisk e' = d" "lf_f (em_facFile e') = None"
    using emulatorNew_fields[OF n] by blast
  have cov: "facilityCovers v e' p" if k: "knownOf (clusterCovers ?c p) (newFacilityLedger ?c 0) (heldBy (ee_decF v) d)" for p
  proof -
    have "flLe p (newFacilityLedger ?c 0) \<Longrightarrow> flLe p (newFacilityLedger ?c (sa_start a))" by (simp add: flLe_def newFacilityLedger_def)
    then have "flLe p fl" using loadFacilityLedger_known[OF l, of "flLe p" "newFacilityLedger ?c 0"] k
      by (simp add: clusterCovers_def[abs_def] newFacilityLedger_def)
    then show ?thesis using k e' by (simp add: facilityCovers_def)
  qed
  have cl: "fl_cluster fl = ?c" using l by (auto simp: loadFacilityLedger_def newFacilityLedger_def split: sum.splits option.splits if_splits)
  have "knownOf (clusterCovers ?c fl) (newFacilityLedger ?c 0) (heldBy (ee_decF v) d)"
    using l by (auto simp: loadFacilityLedger_def ledgerRead_def heldBy_def knownOf_def clusterCovers_def flLe_def newFacilityLedger_def
        split: sum.splits option.splits if_splits)
  then have "facilityOk v repF e'" using cov[of fl] inv cl e' by (auto simp: facilityOk_def fileInv_def)
  then show ?thesis using cov by blast
qed

lemma Restart_covers:
  assumes n: "emulatorNew (ee_decN v) (ee_decF v) (ee_cfg v) a (diskOf e) (em_facDisk e) = Inr e'" and ok: "emOk v repN repF e"
  shows "emOk v repN repF e' \<and> (covered v e S \<longrightarrow> covered v e' S)"
proof -
  obtain specs where sp: "emulatorMembers (ec_members (ee_cfg v)) = Inr specs" "startMembers (ee_decN v) a (diskOf e) specs = ([], em_members e')"
    using emulatorNew_fields[OF n] by blast
  then have specs: "specs = map mb_spec (em_members e)" using ok by (simp add: emOk_def)
  have dist: "distinct (map cm_name (map mb_spec (em_members e)))" using emulatorMembers_distinct[OF sp(1)] specs by simp
  have started: "list_all2 (\<lambda>m m'. startMember (ee_decN v) a (mb_disk m) (mb_spec m) = Inr m') (em_members e) (em_members e')"
    using startMembers_ok[OF sp(2)] diskOf_member[OF dist] unfolding specs
    by (auto simp: list_all2_conv_all_nth)
  have each: "memberOk v repN m' \<and> mb_spec m' = mb_spec m \<and> (covers v m s \<longrightarrow> covers v m' s)"
    if "m \<in> set (em_members e)" "startMember (ee_decN v) a (mb_disk m) (mb_spec m) = Inr m'" for m m' s
    using start_covers[OF that(2), of repN "mb_ledgerFile m" s] ok that(1) by (auto simp: emOk_def memberOk_def covers_def)
  have mems: "\<forall>m'\<in>set (em_members e'). memberOk v repN m'" "map mb_spec (em_members e') = map mb_spec (em_members e)"
  proof -
    have "list_all2 (\<lambda>m m'. memberOk v repN m' \<and> mb_spec m' = mb_spec m) (em_members e) (em_members e')"
      by (rule list.rel_mono_strong[OF started]) (use each in blast)
    then show "\<forall>m'\<in>set (em_members e'). memberOk v repN m'" "map mb_spec (em_members e') = map mb_spec (em_members e)"
      by (induction rule: list_all2_induct) auto
  qed
  have inv: "fileInv (ee_encF v) (ee_decF v) repF (em_facFile e, em_facDisk e)" using ok by (simp add: emOk_def facilityOk_def)
  note fac = New_facility[OF n inv]
  have ok': "emOk v repN repF e'" using fac mems ok by (simp add: emOk_def)
  have "covered v e' S" if S: "covered v e S"
  proof -
    have "list_all2 (covers v) (em_members e') (ss_nodes S)"
    proof -
      have "list_all2 (\<lambda>m m'. \<forall>s. covers v m s \<longrightarrow> covers v m' s) (em_members e) (em_members e')"
        by (rule list.rel_mono_strong[OF started]) (use each in blast)
      then show ?thesis using S by (simp add: covered_def list_all2_conv_all_nth)
    qed
    moreover obtain p where "shows_ledger (ss_facility S) p" "facilityCovers v e p" using S by (auto simp: covered_def)
    moreover from this(2) have "facilityCovers v e' p" using fac[of p] by (simp add: facilityCovers_def)
    ultimately show ?thesis by (auto simp: covered_def)
  qed
  then show ?thesis using ok' by blast
qed

lemma emStep_covers:
  assumes "emStep v x e = (e', s)" and "emOk v repN repF e" and "exactLedgers repN repF e'"
  shows "emOk v repN repF e' \<and> (covered v e S \<longrightarrow> covered v e' S)
    \<and> (\<forall>s'. s = Some s' \<longrightarrow> covered v e' s' \<and> (covered v e S \<longrightarrow> snapshotLe S s'))"
proof (cases x)
  case (Ticks a)
  then obtain errs where "Tick (ee_ops v) (ee_encN v) (ee_encF v) a e = (e', s, errs)" using assms(1) by (auto split: prod.splits)
  from Tick_covers[OF this assms(2,3)] show ?thesis .
next
  case (Restart a)
  show ?thesis
  proof (cases "emulatorNew (ee_decN v) (ee_decF v) (ee_cfg v) a (diskOf e) (em_facDisk e)")
    case (Inr e'')
    then show ?thesis using Restart_covers[OF Inr assms(2), of S] assms(1) Restart by simp
  next
    case (Inl errs)
    then show ?thesis using assms(1,2) Restart by (auto simp: emOk_def facilityOk_def facilityCovers_def covered_def)
  qed
qed

lemma emSnaps_covers:
  assumes "emOk v repN repF e" and "\<forall>e'\<in>set (emStates v xs e). exactLedgers repN repF e'" and "covered v e S"
  shows "\<forall>s\<in>set (emSnaps v xs e). snapshotLe S s"
  using assms
proof (induction xs arbitrary: e)
  case (Cons x xs)
  obtain e' s where st: "emStep v x e = (e', s)" by fastforce
  have "emStates v xs e' \<noteq> [] \<and> hd (emStates v xs e') = e'" by (cases xs) auto
  then have "e' \<in> set (emStates v xs e')" using hd_in_set by metis
  then have ex: "exactLedgers repN repF e'" using Cons.prems(2) st by simp
  note c = emStep_covers[OF st Cons.prems(1) ex, of S]
  then show ?case using Cons.IH[of e'] Cons.prems(2,3) st by (auto split: option.splits)
qed simp

lemma emSnaps_sorted:
  assumes "emOk v repN repF e" and "\<forall>e'\<in>set (emStates v xs e). exactLedgers repN repF e'"
  shows "sorted_wrt snapshotLe (emSnaps v xs e)"
  using assms
proof (induction xs arbitrary: e)
  case (Cons x xs)
  obtain e' s where st: "emStep v x e = (e', s)" by fastforce
  have "emStates v xs e' \<noteq> [] \<and> hd (emStates v xs e') = e'" by (cases xs) auto
  then have "e' \<in> set (emStates v xs e')" using hd_in_set by metis
  then have ex: "exactLedgers repN repF e'" using Cons.prems(2) st by simp
  note c = emStep_covers[OF st Cons.prems(1) ex]
  then show ?case using Cons.IH[of e'] Cons.prems(2) st emSnaps_covers[of v repN repF e' xs]
    by (auto split: option.splits)
qed simp

definition diskKept :: "ledgerDisk \<Rightarrow> bool" where
  "diskKept d \<longleftrightarrow> (\<forall>i c. dk_file d = Some (i, c) \<longrightarrow> i < dk_next d)"

lemma New_ok:
  assumes n: "emulatorNew (ee_decN v) (ee_decF v) (ee_cfg v) a disks d = Inr e" and "jsonCodec (ee_encN v) (ee_decN v) repN"
    and "jsonCodec (ee_encF v) (ee_decF v) repF" and "\<forall>n. diskKept (disks n)" and "diskKept d"
  shows "emOk v repN repF e"
proof -
  let ?lf = "\<lparr>lf_path = [], lf_f = None, lf_size = 0\<rparr>"
  obtain specs where sp: "emulatorMembers (ec_members (ee_cfg v)) = Inr specs" "startMembers (ee_decN v) a disks specs = ([], em_members e)"
    using emulatorNew_fields[OF n] by blast
  have inv: "fileInv (ee_encN v) (ee_decN v) repN (?lf, disks n)" for n using assms(2,4) by (simp add: fileInv_def diskKept_def)
  have "fileInv (ee_encF v) (ee_decF v) repF (?lf, d)" using assms(3,5) by (simp add: fileInv_def diskKept_def)
  note fac = New_facility[OF n this]
  have "list_all2 (\<lambda>sp m. memberOk v repN m \<and> mb_spec m = sp) specs (em_members e)"
    by (rule list.rel_mono_strong[OF startMembers_ok[OF sp(2)]]) (use start_covers inv in blast)
  then have "(\<forall>m\<in>set (em_members e). memberOk v repN m) \<and> specs = map mb_spec (em_members e)"
    by (induction rule: list_all2_induct) auto
  then show ?thesis using fac sp(1) by (simp add: emOk_def)
qed

text \<open>C5: The energies the emulator publishes never go back. Over any run, with ticks whose nodes or ledger writes fail in any way
  and restarts in any place (those that fail too), every snapshot shows each host's energy, the energy of every component it
  has in common with an earlier snapshot, and the energies of the facility, of its cooling and of its racks at least as large
  as every earlier snapshot did, also one of a process before. What is relied on: a ledger of float64 numbers comes back from JSON
  as it went in, and only the emulator writes its files.\<close>

theorem energies_never_go_back:
  assumes "emulatorNew (ee_decN v) (ee_decF v) (ee_cfg v) a disks d = Inr e" and "jsonCodec (ee_encN v) (ee_decN v) repN"
    and "jsonCodec (ee_encF v) (ee_decF v) repF" and "\<forall>n. diskKept (disks n)" and "diskKept d"
    and "\<forall>e'\<in>set (emStates v xs e). exactLedgers repN repF e'"
  shows "sorted_wrt snapshotLe (emSnaps v xs e)"
  by (rule emSnaps_sorted[OF New_ok[OF assms(1-5)] assms(6)])

section \<open>The energy of the facility\<close>

definition hostJ :: "'r emMember \<Rightarrow> f64" where
  "hostJ m = hr_energyJ (sn_host (mb_last m))"

definition rackHosts :: "string \<Rightarrow> 'r emMember list \<Rightarrow> 'r emMember list" where
  "rackHosts r ms = filter (\<lambda>m. cm_rack (mb_spec m) = r) ms"

lemma sum_deltas:
  assumes "\<forall>m\<in>set ms. hostJ m \<le> hostJ (f m) \<and> mb_hostDelta (f m) = hostJ (f m) - hostJ m"
  shows "(\<Sum>m\<leftarrow>ms. ledgerFinite (mb_hostDelta (f m))) = (\<Sum>m\<leftarrow>ms. hostJ (f m)) - (\<Sum>m\<leftarrow>ms. hostJ m)"
  using assms
proof (induction ms)
  case (Cons m ms)
  then have "ledgerFinite (mb_hostDelta (f m)) = hostJ (f m) - hostJ m" by (simp add: ledgerFinite_def)
  then show ?case using Cons by simp
qed simp

text \<open>
  The energy the facility is charged at a tick beside that of its hosts: what the facility callback adds to the power of the
  emulated nodes, over the time of the tick; none for a tick that is refused, and none without a callback.
\<close>

definition tickLegacyJ :: "'r emEnv \<Rightarrow> tickArgs \<Rightarrow> 'r Emulator \<Rightarrow> f64" where
  "tickLegacyJ v a e =
     (if em_closed e \<or> ta_now a < em_lastTick e then 0
      else (let specW = sum_list (map (\<lambda>m. snapPower (stepWith (ee_ops v) (ee_encN v) a m)) (em_members e))
            in case ta_fac a of
                 None \<Rightarrow> 0
               | Some f \<Rightarrow> max 0 (fv_itPowerW (f specW (ta_now a)) - specW) * (of_int (ta_now a - em_lastTick e) / 10 ^ 9)))"

fun legacyJ :: "'r emEnv \<Rightarrow> tickArgs list \<Rightarrow> 'r Emulator \<Rightarrow> f64" where
  "legacyJ v [] e = 0"
| "legacyJ v (a # as) e = tickLegacyJ v a e + legacyJ v as (fst (emStep v (Ticks a) e))"

lemma tickLegacyJ_nonneg: "0 \<le> tickLegacyJ v a e"
  by (auto simp: tickLegacyJ_def Let_def split: option.split intro!: mult_nonneg_nonneg)

lemma legacyJ_nonneg: "0 \<le> legacyJ v as e"
proof (induction as arbitrary: e)
  case (Cons a as)
  show ?case using add_nonneg_nonneg[OF tickLegacyJ_nonneg[of v a e] Cons.IH[of "fst (emStep v (Ticks a) e)"]]
    by (simp del: emStep.simps)
qed simp

text \<open>With the callback of the simulator it is the power of the legacy nodes over the time of the tick.\<close>

lemma legacyPowerW_nonneg: "0 \<le> legacyPowerW emulated states"
  unfolding legacyPowerW_def by (rule sum_list_nonneg) (auto split: option.split)

lemma tickLegacyJ_simulator:
  assumes "ta_fac a = Some (\<lambda>w now. fst (emulateFacility p facStart emulated states peak w now))"
  shows "tickLegacyJ v a e = (if em_closed e \<or> ta_now a < em_lastTick e then 0
    else legacyPowerW emulated states * (of_int (ta_now a - em_lastTick e) / 10 ^ 9))"
  using assms legacyPowerW_nonneg [of emulated states]
  by (simp add: tickLegacyJ_def emulateFacility_def facilityCompute_def Let_def)

lemma Tick_conserves:
  assumes t: "Tick (ee_ops v) (ee_encN v) (ee_encF v) a e = (e', s, errs)" and ok: "emOk v repN repF e" and ex: "exactLedgers repN repF e'"
    and "r \<noteq> []" and "em_facErr e = [] \<longrightarrow> em_facPublished e = em_facLedger e"
  shows "fl_itJ (em_facLedger e') - fl_itJ (em_facLedger e)
      = sum_list (map hostJ (em_members e')) - sum_list (map hostJ (em_members e)) + tickLegacyJ v a e
    \<and> mapOr 0 (fl_racksJ (em_facLedger e')) r - mapOr 0 (fl_racksJ (em_facLedger e)) r
        = sum_list (map hostJ (rackHosts r (em_members e'))) - sum_list (map hostJ (rackHosts r (em_members e)))
    \<and> (em_facErr e' = [] \<longrightarrow> em_facPublished e' = em_facLedger e')"
proof (cases "em_closed e \<or> ta_now a < em_lastTick e")
  case True
  then show ?thesis using t assms(5) by (auto simp: Tick_def tickLegacyJ_def split: if_splits)
next
  case False
  let ?f = "stepWith (ee_ops v) (ee_encN v) a"
  let ?e1 = "e\<lparr>em_members := map ?f (em_members e)\<rparr>"
  obtain e2 nodes fs err where tf: "tickFacility (ee_encF v) (ta_facOs a) (ta_now a) (ta_fac a) ?e1 = (e2, nodes, fs, err)"
    using prod_cases4 by blast
  have e': "em_members e' = em_members e2" "em_facLedger e' = em_facLedger e2" "em_facPublished e' = em_facPublished e2" "em_facErr e' = em_facErr e2"
    using t False tf by (auto simp: Tick_def Let_def)
  have "facilityOk v repF ?e1" using ok by (simp add: emOk_def facilityOk_def facilityCovers_def)
  note fc = tickFacility_covers[OF tf this, of "em_facPublished e"]
  have ex2: "repF (em_facLedger e2)" using ex e' by (simp add: exactLedgers_def)
  have mem: "em_members e' = map ?f (em_members e)" using fc[OF ex2] e' by simp
  let ?w = "sum_list (map (\<lambda>m. snapPower (?f m)) (em_members e))" and ?dt = "of_int (ta_now a - em_lastTick e) / 10 ^ 9 :: f64"
  have w: "sum_list (map snapPower (em_members ?e1)) = ?w" by (simp add: comp_def)
  obtain val where L: "em_facLedger e' = facilityAccrue (map ?f (em_members e)) ?w val ?dt (em_facLedger e)"
    "fv_itPowerW val = (case ta_fac a of None \<Rightarrow> ?w | Some f \<Rightarrow> fv_itPowerW (f ?w (ta_now a)))"
    using fc[OF ex2, unfolded w] unfolding e'(2) by (elim conjE exE) simp
  have dt: "0 \<le> ?dt" using False by simp
  have "max 0 (fv_itPowerW val - ?w) * ?dt = tickLegacyJ v a e"
    unfolding L(2) tickLegacyJ_def if_not_P[OF False] Let_def by (simp split: option.split)
  then have legacy: "ledgerFinite (max 0 (fv_itPowerW val - ?w) * ?dt) = tickLegacyJ v a e"
    using tickLegacyJ_nonneg[of v a e] by (simp add: ledgerFinite_def)
  have delta: "hostJ m \<le> hostJ (?f m) \<and> mb_hostDelta (?f m) = hostJ (?f m) - hostJ m \<and> mb_spec (?f m) = mb_spec m" if "m \<in> set (em_members e)" for m
  proof -
    have "memberOk v repN m" "repN (ledgerDoc.truncate (mb_ledger (?f m)))" using that ok ex mem by (auto simp: emOk_def exactLedgers_def)
    from step_covers[OF stepWith_def this, of "mb_last m"] show ?thesis by (simp add: hostJ_def)
  qed
  have racks: "rackHosts r (map ?f (em_members e)) = map ?f (rackHosts r (em_members e))"
    using delta unfolding rackHosts_def filter_map comp_def by (auto intro!: arg_cong[where f = "map ?f"] filter_cong)
  have it: "fl_itJ (em_facLedger e') = fl_itJ (em_facLedger e) + ((\<Sum>m\<leftarrow>em_members e. ledgerFinite (mb_hostDelta (?f m))) + tickLegacyJ v a e)"
    unfolding L(1) facilityAccrue_def Let_def legacy by (simp add: comp_def)
  have rk: "mapOr 0 (fl_racksJ (em_facLedger e')) r
      = mapOr 0 (fl_racksJ (em_facLedger e)) r + (\<Sum>m\<leftarrow>rackHosts r (em_members e). ledgerFinite (mb_hostDelta (?f m)))"
    unfolding L(1) accrued_racks rackSums_sum using assms(4) racks by (simp add: rackHosts_def[symmetric] comp_def)
  have s1: "(\<Sum>m\<leftarrow>em_members e. ledgerFinite (mb_hostDelta (?f m))) = (\<Sum>m\<leftarrow>em_members e. hostJ (?f m)) - (\<Sum>m\<leftarrow>em_members e. hostJ m)"
    using delta by (intro sum_deltas) auto
  have s2: "(\<Sum>m\<leftarrow>rackHosts r (em_members e). ledgerFinite (mb_hostDelta (?f m)))
      = (\<Sum>m\<leftarrow>rackHosts r (em_members e). hostJ (?f m)) - (\<Sum>m\<leftarrow>rackHosts r (em_members e). hostJ m)"
    using delta by (intro sum_deltas) (auto simp: rackHosts_def)
  have "em_facErr e' = [] \<longrightarrow> em_facPublished e' = em_facLedger e'" using fc[OF ex2] e' by simp
  then show ?thesis using it rk s1 s2 unfolding mem racks by (simp add: comp_def)
qed

text \<open>C34: The energy of the facility is that of its hosts and of the legacy nodes. While one emulator ticks, the IT energy it keeps grows
  by what the energies of the hosts it publishes grow by, and beside that by exactly what its facility callback adds to their power
  over the time of each tick it accepts: nothing without a callback, and with the simulator's callback the power of the legacy nodes.
  The energy of a rack grows by what those of its hosts do alone. All this whatever nodes and writes fail; and it is what snapshots
  show unless the last write of the facility ledger failed.\<close>

theorem facility_energy_is_hosts:
  assumes "emulatorNew (ee_decN v) (ee_decF v) (ee_cfg v) a disks d = Inr e" and "jsonCodec (ee_encN v) (ee_decN v) repN"
    and "jsonCodec (ee_encF v) (ee_decF v) repF" and "\<forall>n. diskKept (disks n)" and "diskKept d"
    and "\<forall>e'\<in>set (emStates v (map Ticks ts) e). exactLedgers repN repF e'"
    and "e' = last (emStates v (map Ticks ts) e)" and "r \<noteq> []"
  shows "fl_itJ (em_facLedger e') - fl_itJ (em_facLedger e)
      = sum_list (map hostJ (em_members e')) - sum_list (map hostJ (em_members e)) + legacyJ v ts e
    \<and> mapOr 0 (fl_racksJ (em_facLedger e')) r - mapOr 0 (fl_racksJ (em_facLedger e)) r
        = sum_list (map hostJ (rackHosts r (em_members e'))) - sum_list (map hostJ (rackHosts r (em_members e)))
    \<and> (em_facErr e' = [] \<longrightarrow> em_facPublished e' = em_facLedger e')
    \<and> 0 \<le> legacyJ v ts e \<and> ((\<forall>t\<in>set ts. ta_fac t = None) \<longrightarrow> legacyJ v ts e = 0)
    \<and> (\<forall>t em p facStart emulated states peak. ta_fac t = Some (\<lambda>w now. fst (emulateFacility p facStart emulated states peak w now)) \<longrightarrow>
         tickLegacyJ v t em = (if em_closed em \<or> ta_now t < em_lastTick em then 0
           else legacyPowerW emulated states * (of_int (ta_now t - em_lastTick em) / 10 ^ 9)))"
proof -
  have "fl_itJ (em_facLedger e') - fl_itJ (em_facLedger e)
      = sum_list (map hostJ (em_members e')) - sum_list (map hostJ (em_members e)) + legacyJ v ts e
    \<and> mapOr 0 (fl_racksJ (em_facLedger e')) r - mapOr 0 (fl_racksJ (em_facLedger e)) r
        = sum_list (map hostJ (rackHosts r (em_members e'))) - sum_list (map hostJ (rackHosts r (em_members e)))
    \<and> (em_facErr e' = [] \<longrightarrow> em_facPublished e' = em_facLedger e')"
  proof -
    have "em_facErr e = [] \<longrightarrow> em_facPublished e = em_facLedger e" using emulatorNew_fields[OF assms(1)] by auto
    with New_ok[OF assms(1-5)] assms(6,7) show ?thesis
    proof (induction ts arbitrary: e)
      case (Cons t ts)
      obtain e1 s errs where T: "Tick (ee_ops v) (ee_encN v) (ee_encF v) t e = (e1, s, errs)" using prod_cases3 by blast
      have st: "emStep v (Ticks t) e = (e1, s)" using T by simp
      have ne: "emStates v (map Ticks ts) e1 \<noteq> []" "e1 \<in> set (emStates v (map Ticks ts) e1)" by (cases ts; simp)+
      then have ex: "exactLedgers repN repF e1" using Cons.prems(2) st by simp
      note T' = Tick_conserves[OF T Cons.prems(1) ex assms(8) Cons.prems(4)]
      have ok1: "emOk v repN repF e1" using Tick_covers[OF T Cons.prems(1) ex] by blast
      have "\<forall>e'\<in>set (emStates v (map Ticks ts) e1). exactLedgers repN repF e'" "e' = last (emStates v (map Ticks ts) e1)"
        "em_facErr e1 = [] \<longrightarrow> em_facPublished e1 = em_facLedger e1"
        using Cons.prems(2,3) st ne T' by auto
      from Cons.IH[OF ok1 this] show ?case using T' st by simp
    qed simp
  qed
  moreover have "(\<forall>t\<in>set ts. ta_fac t = None) \<longrightarrow> legacyJ v ts e = 0" for e
    by (induction ts arbitrary: e) (auto simp: tickLegacyJ_def)
  ultimately show ?thesis using legacyJ_nonneg[of v ts e] tickLegacyJ_simulator by blast
qed

section \<open>An example run\<close>

text \<open>A cluster of one node whose energy grows by one joule a tick, with a codec that writes a ledger as so many ones.\<close>

definition exampleMember :: clusterMember where
  "exampleMember = \<lparr>cm_name = ''n'', cm_pool = [], cm_rack = [], cm_coolingZone = [], cm_zoneOffsetC = 0,
     cm_profile = Some \<lparr>mp_name = ''p'', mp_sockets = 1, mp_gpuCount = None\<rparr>,
     cm_baseLoad = \<lparr>bl_cpuUtil = None, bl_gpuUtil = None, bl_memoryIntensity = None, bl_cpuClass = [], bl_gpuClass = []\<rparr>\<rparr>"

definition exampleOps :: "nat runnerOps" where
  "exampleOps = \<lparr>ro_setLoad = (\<lambda>_ r. r), ro_advanceTo = (\<lambda>_ r. (Suc r, None)),
     ro_state = (\<lambda>r. \<lparr>nst_events = [], nst_components = [], nst_host = \<lparr>hst_measured = True, hst_powerW = 0, hst_energyJ = Fin (real r), hst_otherW = 0\<rparr>,
       nst_driverVersion = []\<rparr>)\<rparr>"

definition ones :: "nat \<Rightarrow> goerr + string" where
  "ones k = Inr (CHR ''x'' # replicate k (CHR ''1''))"

definition countOnes :: "string \<Rightarrow> nat" where
  "countOnes c = length (filter (\<lambda>x. x = CHR ''1'') c)"

definition nodeDoc :: "nat \<Rightarrow> ledgerDoc" where
  "nodeDoc k = (newDoc ''n'' 0)\<lparr>ld_hostJ := real k\<rparr>"

definition facDoc :: "nat \<Rightarrow> facilityLedger" where
  "facDoc k = (newFacilityLedger ''c'' 0)\<lparr>fl_itJ := real k\<rparr>"

definition exampleEmEnv :: "nat emEnv" where
  "exampleEmEnv = \<lparr>ee_ops = exampleOps, ee_encN = (\<lambda>v. ones (nat \<lfloor>ld_hostJ v\<rfloor>)),
     ee_decN = (\<lambda>c. if c = [] then Inl ''EOF'' else Inr (nodeDoc (countOnes c))),
     ee_encF = (\<lambda>v. ones (nat \<lfloor>fl_itJ v\<rfloor>)), ee_decF = (\<lambda>c. if c = [] then Inl ''EOF'' else Inr (facDoc (countOnes c))),
     ee_cfg = \<lparr>ec_root = ''/r'', ec_cluster = ''c'', ec_members = [exampleMember],
       ec_facility = \<lparr>cf_ambientC = None, cf_amplitudeC = Some 0, cf_periodH = None, cf_coolingZones = []\<rparr>\<rparr>\<rparr>"

definition exampleStartArgs :: "nat startArgs" where
  "exampleStartArgs = \<lparr>sa_start = 0, sa_ensure = (\<lambda>_. Inr (Some \<lparr>tr_root = ''/r/n'', tr_stateRoot = [], er_fresh = True, er_added = []\<rparr>)),
     sa_newRunner = (\<lambda>_. Inr 0), sa_mkdirErr = (\<lambda>_. None), sa_rmTempsErr = (\<lambda>_. None), sa_readErr = (\<lambda>_. None), sa_facReadErr = None,
     sa_absErr = None, sa_rootErr = None, sa_lockErr = None, sa_fakeSMIErr = None, sa_viewsErr = None, sa_facRmTempsErr = None, sa_metricsErr = None\<rparr>"

definition noErrors :: osAnswers where
  "noErrors = \<lparr>oa_lstatFails = False, oa_openErr = None, oa_statErr = None, oa_writeErr = None, oa_landed = True, oa_atomicErr = None\<rparr>"

text \<open>The second \<open>t\<close>, with a legacy node of five watts beside the emulated one, in a facility so cold that it needs no cooling.\<close>

definition exampleColdFacility :: facilityParams where
  "exampleColdFacility = \<lparr>fp_baseAmbientC = -100, fp_amplitudeC = 0, fp_periodH = 24\<rparr>"

definition exampleLegacy :: "(string \<times> f64 option) list" where
  "exampleLegacy = [(''n'', Some 7), (''old'', Some 5), (''gone'', None)]"

definition exampleEmTick :: "int \<Rightarrow> tickArgs" where
  "exampleEmTick t = \<lparr>ta_now = 10 ^ 9 * t, ta_loads = (\<lambda>_. None), ta_applyBase = True,
     ta_fac = Some (\<lambda>w now. fst (emulateFacility exampleColdFacility 0 (\<lambda>n. n = ''n'') exampleLegacy 5 w now)),
     ta_os = (\<lambda>_. noErrors), ta_facOs = noErrors\<rparr>"

lemma example_legacy: "legacyPowerW (\<lambda>n. n = ''n'') exampleLegacy = 5"
  by (simp add: legacyPowerW_def exampleLegacy_def)

lemma example_facility:
  "fst (emulateFacility exampleColdFacility 0 (\<lambda>n. n = ''n'') exampleLegacy 5 0 now)
     = \<lparr>fv_ambientC = -100, fv_itPowerW = 5, fv_pue = 1, fv_coolingPowerW = 0\<rparr>"
  by (simp add: emulateFacility_def example_legacy facilityCompute_def exampleColdFacility_def Let_def)

definition noDisk :: ledgerDisk where
  "noDisk = \<lparr>dk_file = None, dk_next = 0\<rparr>"

definition exampleEmulator :: "nat Emulator" where
  "exampleEmulator = projr (emulatorNew (ee_decN exampleEmEnv) (ee_decF exampleEmEnv) (ee_cfg exampleEmEnv) exampleStartArgs (\<lambda>_. noDisk) noDisk)"

lemma example_codec:
  "jsonCodec (ee_encN exampleEmEnv) (ee_decN exampleEmEnv) (\<lambda>v. \<exists>k. v = nodeDoc k)"
  "jsonCodec (ee_encF exampleEmEnv) (ee_decF exampleEmEnv) (\<lambda>v. \<exists>k. v = facDoc k)"
  by (auto simp: jsonCodec_def exampleEmEnv_def ones_def countOnes_def nodeDoc_def facDoc_def)

lemma example_starts:
  "emulatorNew (ee_decN exampleEmEnv) (ee_decF exampleEmEnv) (ee_cfg exampleEmEnv) exampleStartArgs (\<lambda>_. noDisk) noDisk = Inr exampleEmulator"
  unfolding exampleEmulator_def
  by (simp add: emulatorNew_def exampleEmEnv_def exampleMember_def emulatorMembers_def memberNameError_def HasPrefix_def
      startMember_def exampleStartArgs_def loadNodeLedger_def ledgerRead_def noDisk_def loadFacilityLedger_def Let_def)

text \<open>Every state of a run of the example has whole joules in its ledgers, whatever was written where.\<close>

definition exampleMemberOk :: "nat emMember \<Rightarrow> bool" where
  "exampleMemberOk m \<longleftrightarrow> mb_spec m = exampleMember \<and> hr_powerW (sn_host (mb_last m)) = 0 \<and>
     (\<exists>k b h. ledgerDoc.truncate (mb_ledger m) = nodeDoc k \<and> mb_hostBase m = real b \<and> b \<le> mb_runner m \<and> hostJ m = real h \<and> h \<le> k)"

definition exampleEmOk :: "nat Emulator \<Rightarrow> bool" where
  "exampleEmOk e \<longleftrightarrow> (\<exists>m j k. em_members e = [m] \<and> exampleMemberOk m \<and> em_facLedger e = facDoc j \<and> em_lastTick e = 10 ^ 9 * k)"

lemma nodeDoc_hostJ: "ledgerDoc.truncate l = nodeDoc k \<Longrightarrow> ld_hostJ l = real k"
  using truncate_fields(1)[of l] by (simp add: nodeDoc_def)

lemma truncate_hostJ: "ledgerDoc.truncate (l\<lparr>ld_hostJ := x\<rparr>) = (ledgerDoc.truncate l)\<lparr>ld_hostJ := x\<rparr>" for l :: nodeLedger
  by (simp add: ledgerDoc.defs)

lemma example_persist:
  assumes ok: "exampleMemberOk m" and p: "persistMember enc oa (ro_state exampleOps (mb_runner m)) m = (m', err)"
  shows "mb_spec m' = mb_spec m \<and> mb_last m' = mb_last m \<and> mb_runner m' = mb_runner m \<and> mb_hostBase m' = real (mb_runner m)
    \<and> (\<exists>k'. ledgerDoc.truncate (mb_ledger m') = nodeDoc k' \<and> (\<forall>h. hostJ m = real h \<longrightarrow> h \<le> k'))"
proof -
  obtain k b h where k: "ledgerDoc.truncate (mb_ledger m) = nodeDoc k" "mb_hostBase m = real b" "b \<le> mb_runner m" "hostJ m = real h" "h \<le> k"
    using ok by (auto simp: exampleMemberOk_def)
  let ?tot = "real k + (real (mb_runner m) - real b)"
  have acc: "memberAccrue (ro_state exampleOps (mb_runner m)) m
      = m\<lparr>mb_ledger := (mb_ledger m)\<lparr>ld_hostJ := ?tot\<rparr>, mb_hostBase := real (mb_runner m)\<rparr>"
    using k nodeDoc_hostJ[OF k(1)] by (simp add: memberAccrue_def exampleOps_def ledgerAccrue_def)
  have "ledgerDoc.truncate (mb_ledger m') = nodeDoc (k + (mb_runner m - b))" "mb_spec m' = mb_spec m" "mb_last m' = mb_last m"
    "mb_runner m' = mb_runner m" "mb_hostBase m' = real (mb_runner m)"
    using p k by (auto simp: persistMember_def acc Let_def truncate_hostJ nodeDoc_def of_nat_diff split: prod.splits)
  then show ?thesis using k(4,5) by (auto intro!: exI[of _ "k + (mb_runner m - b)"])
qed

lemma example_advance:
  assumes "advanceMember exampleOps now l m = (m1, err)"
  shows "err = None \<and> mb_runner m1 = Suc (mb_runner m) \<and> mb_hostBase m1 = mb_hostBase m"
  using assms by (auto simp: advanceMember_def exampleOps_def Let_def split: if_splits)

lemma publish_power:
  "mb_runner (publishMember st err m) = mb_runner m" "mb_hostBase (publishMember st err m) = mb_hostBase m"
  "snapPower (publishMember st err m) = hr_powerW (sn_host (mb_last (publishMember st err m)))"
  by (simp_all add: publishMember_def snapPower_def Let_def split: option.splits)

lemma example_step:
  assumes ok: "exampleMemberOk m" and m': "m' = stepMember exampleOps enc oa now l m"
  shows "exampleMemberOk m' \<and> snapPower m' = 0 \<and> (\<exists>n. ledgerFinite (mb_hostDelta m') = real n)"
proof -
  obtain m1 err1 where a: "advanceMember exampleOps now l m = (m1, err1)" by fastforce
  have ok1: "exampleMemberOk m1" using ok advance_frame[OF a] example_advance[OF a] by (auto simp: exampleMemberOk_def hostJ_def)
  obtain m2 err2 where p: "persistMember enc oa (ro_state exampleOps (mb_runner m1)) m1 = (m2, err2)" by fastforce
  have eq: "m' = publishMember (ro_state exampleOps (mb_runner m1)) err2 m2"
    using m' a p example_advance[OF a] by (simp add: stepMember_def Let_def)
  note ps = example_persist[OF ok1 p]
  obtain h where h: "hostJ m1 = real h" using ok1 by (auto simp: exampleMemberOk_def)
  obtain k where k: "ledgerDoc.truncate (mb_ledger m2) = nodeDoc k" "h \<le> k" using ps h by auto
  have lst: "hr_powerW (sn_host (mb_last m')) = 0 \<and> (hostJ m' = real h \<or> hostJ m' = real k)"
    using ps ok1 h nodeDoc_hostJ[OF k(1)] reading_fields(1)[of m2]
    by (auto simp: eq publish_frame hostJ_def exampleMemberOk_def memberReading_def exampleOps_def Let_def)
  then have "exampleMemberOk m'"
    using ps ok1 k by (auto simp: exampleMemberOk_def eq publish_frame publish_power)
  moreover have "snapPower m' = 0" using lst by (simp add: eq publish_power)
  moreover have "mb_hostDelta m' = hostJ m' - real h" using ps h by (simp add: eq publish_frame hostJ_def)
  then have "ledgerFinite (mb_hostDelta m') = real (k - h) \<or> ledgerFinite (mb_hostDelta m') = real 0"
    using lst k(2) by (auto simp: ledgerFinite_def of_nat_diff)
  ultimately show ?thesis by blast
qed

lemma example_ticks:
  assumes ok: "exampleEmOk e" and t: "Tick exampleOps encN encF (exampleEmTick t) e = (e', s, errs)"
  shows "exampleEmOk e'"
proof (cases "em_closed e \<or> ta_now (exampleEmTick t) < em_lastTick e")
  case True
  then show ?thesis using t ok by (auto simp: Tick_def split: if_splits)
next
  case False
  obtain m j k where m: "em_members e = [m]" "exampleMemberOk m" "em_facLedger e = facDoc j" "em_lastTick e = 10 ^ 9 * k"
    using ok by (auto simp: exampleEmOk_def)
  define m' where "m' = stepWith exampleOps encN (exampleEmTick t) m"
  obtain n where m': "exampleMemberOk m'" "snapPower m' = 0" "ledgerFinite (mb_hostDelta m') = real n"
    using example_step[OF m(2) m'_def[unfolded stepWith_def]] by blast
  let ?e1 = "e\<lparr>em_members := [m']\<rparr>"
  obtain e2 nodes fs err where tf: "tickFacility encF (ta_facOs (exampleEmTick t)) (ta_now (exampleEmTick t)) (ta_fac (exampleEmTick t)) ?e1 = (e2, nodes, fs, err)"
    using prod_cases4 by blast
  have e': "em_members e' = em_members e2" "em_facLedger e' = em_facLedger e2" "em_lastTick e' = 10 ^ 9 * t"
    using t False tf m(1) by (auto simp: Tick_def Let_def m'_def exampleEmTick_def)
  have rack: "cm_rack (mb_spec m') = []" using m'(1) by (simp add: exampleMemberOk_def exampleMember_def)
  have le: "k \<le> t" using False m(4) by (simp add: exampleEmTick_def)
  have dt: "(1000000000 * real_of_int t - 1000000000 * real_of_int k) / 1000000000 = real (nat (t - k))"
    using le by (simp add: field_simps of_nat_diff)
  have acc: "em_members e2 = [m'] \<and> em_facLedger e2 = facilityAccrue [m'] 0
      \<lparr>fv_ambientC = -100, fv_itPowerW = 5, fv_pue = 1, fv_coolingPowerW = 0\<rparr> (real (nat (t - k))) (facDoc j)"
    using tf m m' unfolding tickFacility_def facilityPersist_def Let_def exampleEmTick_def
    by (simp add: example_facility dt split: prod.splits option.splits) auto
  have "facilityAccrue [m'] 0 \<lparr>fv_ambientC = -100, fv_itPowerW = 5, fv_pue = 1, fv_coolingPowerW = 0\<rparr> (real (nat (t - k))) (facDoc j)
      = facDoc (j + (n + 5 * nat (t - k)))"
    using m' rack by (simp add: facilityAccrue_def rackSums_def ledgerFinite_def facDoc_def newFacilityLedger_def Let_def)
  then show ?thesis using acc e' m'(1) by (auto simp: exampleEmOk_def)
qed

lemma example_start:
  assumes "emulatorNew (ee_decN exampleEmEnv) (ee_decF exampleEmEnv) (ee_cfg exampleEmEnv) exampleStartArgs disks d = Inr e"
  shows "exampleEmOk e"
proof -
  obtain specs path where sp: "emulatorMembers (ec_members (ee_cfg exampleEmEnv)) = Inr specs"
    "startMembers (ee_decN exampleEmEnv) exampleStartArgs disks specs = ([], em_members e)"
    "loadFacilityLedger (ee_decF exampleEmEnv) None path ''c'' 0 d = Inr (em_facLedger e)"
    using emulatorNew_fields[OF assms] by (auto simp: exampleEmEnv_def exampleStartArgs_def)
  have "specs = [exampleMember]" using sp(1)
    by (auto simp: exampleEmEnv_def emulatorMembers_def memberNameError_def HasPrefix_def exampleMember_def)
  then obtain m where m: "em_members e = [m]" "startMember (ee_decN exampleEmEnv) exampleStartArgs (disks ''n'') exampleMember = Inr m"
    using startMembers_ok[OF sp(2)] by (auto simp: list_all2_Cons1 exampleMember_def)
  obtain l path' where l: "loadNodeLedger (ee_decN exampleEmEnv) None path' ''n'' 0 (disks ''n'') = Inr l"
    and f: "mb_ledger m = l" "mb_spec m = exampleMember" "mb_hostBase m = 0" "mb_runner m = 0"
      "hr_powerW (sn_host (mb_last m)) = 0" "hostJ m = ld_hostJ l"
    using m(2) by (auto simp: startMember_def exampleStartArgs_def exampleMember_def memberFirstReading_def noSnapshot_def hostJ_def Let_def
        split: sum.splits option.splits)
  have "\<exists>k. ledgerDoc.truncate l = nodeDoc k"
    using l by (auto simp: loadNodeLedger_def ledgerRead_def exampleEmEnv_def nodeDoc_def newDoc_def
        split: sum.splits option.splits if_splits intro: exI[of _ 0])
  then obtain k where k: "ledgerDoc.truncate l = nodeDoc k" by blast
  then have "exampleMemberOk m" using f nodeDoc_hostJ[OF k] unfolding exampleMemberOk_def by (auto intro!: exI[of _ k])
  moreover have "newFacilityLedger ''c'' 0 = facDoc 0" by (simp add: facDoc_def newFacilityLedger_def)
  then have "\<exists>j. em_facLedger e = facDoc j"
    using sp(3) by (auto simp: loadFacilityLedger_def ledgerRead_def exampleEmEnv_def split: sum.splits option.splits if_splits) metis+
  moreover have "em_lastTick e = 0" using emulatorNew_fields[OF assms] by (auto simp: exampleStartArgs_def)
  ultimately show ?thesis using m(1) by (auto simp: exampleEmOk_def)
qed

lemma example_run:
  assumes "\<forall>x\<in>set xs. x = Restart exampleStartArgs \<or> (\<exists>t. x = Ticks (exampleEmTick t))" and "exampleEmOk e"
  shows "\<forall>e'\<in>set (emStates exampleEmEnv xs e). exactLedgers (\<lambda>v. \<exists>k. v = nodeDoc k) (\<lambda>v. \<exists>k. v = facDoc k) e'"
  using assms
proof (induction xs arbitrary: e)
  case Nil
  then show ?case by (auto simp: exactLedgers_def exampleEmOk_def exampleMemberOk_def)
next
  case (Cons x xs)
  have ops: "ee_ops exampleEmEnv = exampleOps" by (simp add: exampleEmEnv_def)
  have "exampleEmOk (fst (emStep exampleEmEnv x e))"
  proof (cases x)
    case (Ticks a)
    then obtain t where "a = exampleEmTick t" using Cons.prems(1) by auto
    then show ?thesis using example_ticks[OF Cons.prems(2)] Ticks by (auto simp: ops split: prod.splits)
  next
    case (Restart a)
    then show ?thesis using Cons.prems example_start by (auto simp: exampleEmOk_def split: sum.splits)
  qed
  then show ?case using Cons by (auto simp: exactLedgers_def exampleEmOk_def exampleMemberOk_def)
qed

lemma noDisk_kept: "diskKept noDisk"
  by (simp add: diskKept_def noDisk_def)

theorem energies_never_go_back_witness:
  "sorted_wrt snapshotLe (emSnaps exampleEmEnv [Ticks (exampleEmTick 1), Restart exampleStartArgs, Ticks (exampleEmTick 2)] exampleEmulator)"
  by (rule energies_never_go_back[OF example_starts example_codec(1) example_codec(2) _ noDisk_kept
        example_run[OF _ example_start[OF example_starts]]]) (auto simp: noDisk_kept)

lemma example_tick_time:
  assumes "Tick exampleOps encN encF (exampleEmTick t) e = (e', s, errs)" and "\<not> em_closed e" and "em_lastTick e \<le> 10 ^ 9 * t"
  shows "em_lastTick e' = 10 ^ 9 * t \<and> \<not> em_closed e'"
  using assms by (auto simp: Tick_def exampleEmTick_def tickFacility_def facilityPersist_def Let_def split: prod.splits option.splits)

theorem facility_energy_is_hosts_witness:
  "\<exists>e'. e' = last (emStates exampleEmEnv (map Ticks [exampleEmTick 1, exampleEmTick 3]) exampleEmulator) \<and>
     fl_itJ (em_facLedger e') - fl_itJ (em_facLedger exampleEmulator)
       = sum_list (map hostJ (em_members e')) - sum_list (map hostJ (em_members exampleEmulator)) + 15"
proof -
  let ?ts = "[exampleEmTick 1, exampleEmTick 3]"
  have exact: "\<forall>e'\<in>set (emStates exampleEmEnv (map Ticks ?ts) exampleEmulator). exactLedgers (\<lambda>v. \<exists>k. v = nodeDoc k) (\<lambda>v. \<exists>k. v = facDoc k) e'"
    by (rule example_run[OF _ example_start[OF example_starts]]) auto
  have kept: "\<forall>n :: string. diskKept noDisk" and rack: "''r'' \<noteq> []" using noDisk_kept by simp_all
  note all = facility_energy_is_hosts[OF example_starts example_codec(1) example_codec(2) kept noDisk_kept exact refl rack]
  have fac: "ta_fac (exampleEmTick t) = Some (\<lambda>w now. fst (emulateFacility exampleColdFacility 0 (\<lambda>n. n = ''n'') exampleLegacy 5 w now))" for t
    by (simp add: exampleEmTick_def)
  note simulator = all[THEN conjunct2, THEN conjunct2, THEN conjunct2, THEN conjunct2, THEN conjunct2]
  have J: "tickLegacyJ exampleEmEnv (exampleEmTick t) e
      = (if em_closed e \<or> 10 ^ 9 * t < em_lastTick e then 0 else 5 * (of_int (10 ^ 9 * t - em_lastTick e) / 10 ^ 9))" for t e
    using simulator[rule_format, OF fac[of t], of e, unfolded example_legacy] by (simp add: exampleEmTick_def)
  have start: "em_lastTick exampleEmulator = 0" "\<not> em_closed exampleEmulator"
    using emulatorNew_fields[OF example_starts] by (auto simp: exampleStartArgs_def)
  obtain e1 s errs where T: "Tick exampleOps (ee_encN exampleEmEnv) (ee_encF exampleEmEnv) (exampleEmTick 1) exampleEmulator = (e1, s, errs)"
    using prod_cases3 by blast
  have e1: "em_lastTick e1 = 10 ^ 9" "\<not> em_closed e1" using example_tick_time[OF T] start by simp_all
  have st: "fst (emStep exampleEmEnv (Ticks (exampleEmTick 1)) exampleEmulator) = e1" using T by (simp add: exampleEmEnv_def)
  have "legacyJ exampleEmEnv ?ts exampleEmulator = 15"
    unfolding legacyJ.simps st J using start e1 by simp
  then show ?thesis using all by auto
qed

section \<open>The first write of a ledger\<close>

text \<open>C29: A first write that fails leaves a node that does not start again. The write creates the file before it writes to it, so when
  there was no ledger and the write itself fails (a full disk, or a process killed between the two), an empty file is left, and every later
  start of the node refuses it as a ledger that cannot be read, although nothing was lost.\<close>

theorem unwritten_ledger_blocks_start:
  assumes "jsonCodec enc dec rep" and "rep doc" and "enc doc = Inr json" and "length json < ledgerInPlaceMax"
    and "dk_file d = None" and "lf_f l = None" and "oa_openErr oa = None" and "oa_statErr oa = None" and "oa_writeErr oa = Some er"
    and "\<not> oa_landed oa"
  shows "snd (ledgerWrite enc oa doc (l, d)) \<noteq> None
    \<and> (\<exists>i. dk_file (snd (fst (ledgerWrite enc oa doc (l, d)))) = Some (i, []))
    \<and> (\<forall>a spec. \<exists>er'. startMember dec a (snd (fst (ledgerWrite enc oa doc (l, d)))) spec = Inl er')"
proof -
  have w: "snd (ledgerWrite enc oa doc (l, d)) \<noteq> None" "dk_file (snd (fst (ledgerWrite enc oa doc (l, d)))) = Some (dk_next d, [])"
    using assms(3-10) by (simp_all add: ledgerWrite_def ledgerReopen_def ledgerOpen_def ledgerPut_def Let_def)
  define d' where "d' = snd (fst (ledgerWrite enc oa doc (l, d)))"
  obtain e0 where "dec [] = Inl e0" using assms(1) by (auto simp: jsonCodec_def)
  then have load: "\<exists>er'. loadNodeLedger dec readErr path node start d' = Inl er'" for readErr path node start
    using w(2) unfolding d'_def[symmetric] by (cases readErr) (simp_all add: loadNodeLedger_def ledgerRead_def)
  have "\<exists>er'. startMember dec a d' spec = Inl er'" for a spec
  proof (cases "startMember dec a d' spec")
    case (Inr m)
    then obtain p lg where "loadNodeLedger dec (sa_readErr a (cm_name spec)) p (cm_name spec) (sa_start a) d' = Inr lg"
      by (auto simp: startMember_def Let_def split: sum.splits option.splits)
    then show ?thesis using load by (metis Inr_not_Inl)
  qed blast
  then show ?thesis using w unfolding d'_def by blast
qed

theorem unwritten_ledger_blocks_start_witness:
  "\<exists>er. startMember (ee_decN exampleEmEnv) exampleStartArgs
     (snd (fst (ledgerWrite (ee_encN exampleEmEnv) (noErrors\<lparr>oa_writeErr := Some ''ENOSPC'', oa_landed := False\<rparr>) (nodeDoc 1)
       (\<lparr>lf_path = [], lf_f = None, lf_size = 0\<rparr>, noDisk)))) exampleMember = Inl er"
proof -
  let ?l = "\<lparr>lf_path = [], lf_f = None, lf_size = 0\<rparr>" and ?oa = "noErrors\<lparr>oa_writeErr := Some ''ENOSPC'', oa_landed := False\<rparr>"
  have rep: "\<exists>k. nodeDoc 1 = nodeDoc k" by blast
  have enc: "ee_encN exampleEmEnv (nodeDoc 1) = Inr ''x1''" by (simp add: exampleEmEnv_def ones_def nodeDoc_def)
  have "length ''x1'' < ledgerInPlaceMax" "dk_file noDisk = None" "lf_f ?l = None" "oa_openErr ?oa = None" "oa_statErr ?oa = None"
    "oa_writeErr ?oa = Some ''ENOSPC''" "\<not> oa_landed ?oa"
    by (simp_all add: ledgerInPlaceMax_def noDisk_def noErrors_def)
  from unwritten_ledger_blocks_start[OF example_codec(1) rep enc this] show ?thesis by blast
qed

end
