(* ===== verification/Spec2Isabelle.thy ===== *)
theory Spec2Isabelle
  imports Node_Fsm Digital_Twin Sched_Extender Dvfs_Control Agent_Reconcile Pod_Cache Controller_Measure Sim_Power Sim_Governor Sim_Workload Sim_Jobs Sim_Counter Sim_Energy
begin

text \<open>
  Joulie keeps the power of a Kubernetes cluster within what its policy allows. Three programs cooperate through
  two custom resources, \<^verbatim>\<open>NodeHardware\<close> and \<^verbatim>\<open>NodeTwin\<close> (\<^verbatim>\<open>api/v1alpha1\<close>):

  \<^item> the \<^emph>\<open>controller manager\<close> (\<^verbatim>\<open>cmd/controller-manager\<close>) reads nodes, pods and NodeHardware, plans a power
    profile for every node (\<^verbatim>\<open>pkg/controller/policy\<close>, guarded by \<^verbatim>\<open>pkg/controller/fsm\<close>), computes caps and the
    digital twin (\<^verbatim>\<open>pkg/controller/twin\<close>, \<^verbatim>\<open>pkg/hwinv\<close>) and writes the NodeTwin of every node;
  \<^item> the \<^emph>\<open>scheduler extender\<close> (\<^verbatim>\<open>cmd/scheduler\<close>) reads the NodeTwins, filters the nodes a pod may go to and scores
    them with an estimate of the power the pod adds (\<^verbatim>\<open>pkg/scheduler/powerest\<close>);
  \<^item> the \<^emph>\<open>node agent\<close> (\<^verbatim>\<open>cmd/agent\<close>) reads the NodeTwin of its node, discovers and reports the hardware and sets the
    caps (RAPL, GPU tools and sysfs, an HTTP backend, the DVFS controller of \<^verbatim>\<open>pkg/agent/dvfs\<close>) and the governors
    (\<^verbatim>\<open>pkg/governor\<close>).

  Beside them the repository has a \<^emph>\<open>simulator\<close> (\<^verbatim>\<open>simulator/\<close>): it runs the jobs of a trace as pods on simulated nodes, computes
  the power those nodes would draw under the caps and governors the agent sets, and shows it to the agent in emulated files.

  \<^bold>\<open>Theories.\<close> Each theory names the files it models in its own opening block.

  \<^item> \<open>Go_Prelude\<close>, \<open>Go_Json\<close>: numbers, strings, maps, sorting and decoded JSON of Go, with the lemmas the components
    share. \<open>float64\<close> is an exact real (\<open>f64\<close>), which leaves out rounding; NaN and the infinities are explicit where the
    code handles them (\<open>Controller_Inputs\<close>). \<open>int\<close> is unbounded except where the code relies on the width (the FNV hash of
    the shards is a 32-bit word).
  \<^item> \<open>Joulie_Api\<close>, \<open>Crd_Types\<close>: the structs of \<^verbatim>\<open>pkg/api\<close> and of the custom resources.
  \<^item> \<open>Power_Policy\<close>, \<open>Node_Fsm\<close>, \<open>Pod_Cache\<close>, \<open>Hw_Catalog\<close>, \<open>Digital_Twin\<close>: the pure parts of the controller manager.
    \<open>Power_Policy\<close> shows the properties of the Sainte-Lague division of the performance slots over the hardware families
    (locale \<open>divisor_loop\<close>), \<open>Node_Fsm\<close> that no node becomes eco under a running performance pod, \<open>Pod_Cache\<close> that the
    pods kept in the cache are classified as the full pods are.
  \<^item> \<open>Controller_Plan\<close>, \<open>Controller_Twin\<close>: a reconcile of the controller manager, first up to the plan, then its writes to
    the API server (record \<open>TwinStore\<close>, with an error for every verb and object, and what another client does to an object
    between the read of it and the write).
  \<^item> \<open>Controller_Inputs\<close>: the measured inputs of the controller manager (\<^verbatim>\<open>pkg/controller/inputs\<close>): queries and their
    answers, over the Prometheus names of \<open>Prom_Names\<close> (\<^verbatim>\<open>pkg/otel\<close>).
  \<^item> \<open>Otlp_Power\<close>: power from HTTP telemetry endpoints, for the agent and the controller manager.
  \<^item> \<open>Controller_Measure\<close>: the measured inputs as the controller manager runs them, with the choice between the two forms of
    the node power query, the error log, the facility poll and their configuration.
  \<^item> \<open>Power_Est\<close>, \<open>Sched_Extender\<close>: the marginal power estimate and the extender, with its two caches under concurrent
    requests (locale \<open>ttl_cache\<close>, an inductive step relation).
  \<^item> \<open>Governor\<close>, \<open>Governor_Native\<close>, \<open>Gov_Discovery\<close>: the governor presets of CPUs and GPUs as plans (locale
    \<open>preset_planner\<close>), their native spelling and its parser, what discovery reads.
  \<^item> \<open>Dvfs_Control\<close>: the DVFS controller over the files of a host; its runs, with the percent caps that throttle without
    the control loop, are in \<open>Agent_Caps\<close>.
  \<^item> \<open>Agent_Status\<close>, \<open>Agent_Governor\<close>, \<open>Agent_Gpu_Governor\<close>, \<open>Agent_Caps\<close>, \<open>Agent_Hardware\<close>, \<open>Agent_Reconcile\<close>: the node
    agent, from its writes to the API server (locale \<open>writer_view\<close>: two writers of one object) over the governor control
    loop (locale \<open>governor_mechanism\<close>) and the caps to a whole tick and the pool of a pool agent.
  \<^item> \<open>Sim_Power\<close>, \<open>Sim_Governor\<close>: what a simulated device draws and delivers (\<^verbatim>\<open>simulator/pkg/phys\<close>). The Go interface of the power
    models is the locale \<open>power_model\<close>; a cap and a clock never contradict each other, and every cpufreq governor stays within
    the limits of its policy.
  \<^item> \<open>Sim_Slots\<close>, \<open>Sim_Workload\<close>: the CPUs and GPU units the running jobs hold (locale \<open>slot_pool\<close>, interpreted on both), the shares
    they get, their rates, and the energy charged to them (\<^verbatim>\<open>simulator/pkg/workload\<close>).
  \<^item> \<open>Sim_Jobs\<close>: the Kubernetes objects of a run, from the grouping of the jobs to the pods, and that the controller's
    classification (\<open>Node_Fsm\<close>) recognises the performance pods among them.
  \<^item> \<open>Sim_Counter\<close>: the energy counters of the hardware emulator (\<^verbatim>\<open>simulator/pkg/hwemu\<close>), and that the agent's power reading
    (\<open>Dvfs_Control\<close>) gets the true power from them.
  \<^item> \<open>Sim_Ledger\<close>, \<open>Sim_Emulator\<close>, \<open>Sim_Energy\<close>: the emulator (\<^verbatim>\<open>simulator/pkg/emulate\<close>), its energy ledgers down to the bytes of
    their files (locale \<open>ledger_store\<close>) and the facility around it (\<^verbatim>\<open>simulator/pkg/facility\<close>): over runs with failing writes and
    restarts no published energy goes back, and the energy of the facility is that of its hosts and of the legacy nodes the
    simulator adds (\<^verbatim>\<open>emulateFacility\<close>).
  \<^item> this theory: the properties that span programs. What the controller manager publishes reaches the scheduler
    (\<open>scheduler_follows_plan\<close>) and the hardware (\<open>published_cap_enforced\<close>).

  \<^bold>\<open>State and effects.\<close> A program's state is a record and every operation returns the new one; the API server, the
  operating system (\<open>Kernel\<close>: what a write to an attribute or a run of a tool does), the clock and the environment are
  arguments. An error is a value (\<open>goerr\<close>, a sum or an option) and every early return of the code is a branch. Runs of a
  program are lists of steps or an inductive relation, so a property of a run holds for every order of its steps.

  \<^bold>\<open>Bounds.\<close> Loops are structural recursions over the list they range over. The one loop of the agent with a deadline,
  which waits for an amdgpu overdrive table to read back, polls \<open>governorODPolls\<close> = 250 times: its deadline over its
  interval (5 s, 20 ms). Two searches of the simulator need an argument of their own: the bisection of a frequency has the
  fixed number of turns the code gives it, and the search for an unused key (\<open>freeKey\<close>) has a measure. No other fuel is used.

  \<^bold>\<open>Hypotheses.\<close> What is not code of the repository is a parameter with a named hypothesis where a property needs one:
  \<open>keepsLimits\<close> (a RAPL limit keeps the value written in whole power units of its zone, or refuses the write),
  \<open>attributesIndependent\<close> (a write to a governor or energy preference attribute changes no governor of another policy),
  \<open>reachable\<close> (an API server without errors, and nobody else writing an object between the read of it and the write),
  \<open>codecOk\<close> (the status of a NodeHardware can be encoded), \<open>keysAgree\<close> (a twin is stored under the name of its node), reflexivity of the semantic
  equality of pod templates (record \<open>kubeLib\<close>) and the meaning of a \<open>NotIn\<close> requirement for the objects of a run, and
  \<open>jsonCodec\<close> (a ledger of float64 numbers comes back from JSON as it went in).

  \<^bold>\<open>Not modelled.\<close> Process start-up, informers and HTTP servers (wiring of libraries), metrics and log lines (no effect on
  what the programs do), the YAML and JSON decoders (libraries; decoded values are the inputs), generated deep copies, the
  kubectl plugin (it prints what the objects hold), and of the simulator the programs and packages whose effect is text, files and
  processes: the rendering of sysfs trees and of the output of vendor tools, HTTP servers and their main loops, the drawing of random
  traces, scenario files and the set-up of test clusters.
\<close>

section \<open>The controller manager and the scheduler extender\<close>

text \<open>
  Every NodeTwin is stored under the object name of the node its spec names, so a listing of the
  store has one twin per node name. Only \<^const>\<open>upsertNodeTwinSpec\<close> and
  \<^const>\<open>upsertNodeTwinStatus\<close> create twins, and both keep this.
\<close>

definition keysAgree :: "TwinStore \<Rightarrow> bool" where
  "keysAgree s \<longleftrightarrow> (\<forall>m t. sto_twins s m = Some t \<longrightarrow> m = ObjectNameForNode (nsp_nodeName (nt_spec t)))"

definition listsTwins :: "TwinStore \<Rightarrow> V1NodeTwin list \<Rightarrow> bool" where
  "listsTwins s items \<longleftrightarrow> set items = ran (sto_twins s)"

lemma keyed_other: "\<forall>x \<in> set xs. fst (f x) \<noteq> n \<Longrightarrow> map_of (keyed f xs m) n = map_of m n"
  by (induction xs arbitrary: m) (auto simp: update_conv)

lemma keyed_lookup:
  assumes "t \<in> set xs" "\<forall>x \<in> set xs. fst (f x) = n \<longrightarrow> x = t" "fst (f t) = n" "n \<noteq> []"
  shows "map_of (keyed f xs m) n = Some (snd (f t))"
  using assms(1,2)
proof (induction xs arbitrary: m)
  case (Cons x xs)
  show ?case
  proof (cases "t \<in> set xs")
    case True
    then show ?thesis using Cons by simp
  next
    case False
    then have "x = t" "\<forall>y \<in> set xs. fst (f y) \<noteq> n" using Cons.prems by auto
    then show ?thesis using assms(3,4) by (simp add: keyed_other update_conv)
  qed
qed simp

lemma listed_twin:
  assumes "keysAgree s" "listsTwins s items" "sto_twins s (ObjectNameForNode n) = Some t" "nsp_nodeName (nt_spec t) = n" "n \<noteq> []"
  shows "map_of (keyed (twinStatusFromObject parseTime) items []) n = Some (snd (twinStatusFromObject parseTime t))"
proof (rule keyed_lookup)
  show "t \<in> set items" using assms(2,3) by (auto simp: listsTwins_def ran_def)
  show "\<forall>x \<in> set items. fst (twinStatusFromObject parseTime x) = n \<longrightarrow> x = t"
    using assms(1-3) by (auto simp: listsTwins_def keysAgree_def ran_def twinStatusFromObject_def Let_def)
qed (use assms(4,5) in \<open>simp_all add: twinStatusFromObject_def Let_def\<close>)

lemma filterNodes_names:
  assumes "ea_nodes args = None" "ea_nodeNames args = Some names"
  shows "fr_nodeNames (filterNodes states args) = Some (filter (\<lambda>n. eligible states args n None) names)"
  using assms filterLoop_passed [of "\<lambda>n. n" "\<lambda>n. shouldFilterNode n states None (podWorkloadClass (podAnnotations (ea_pod args)) = ''performance'')" names "[]"]
  by (simp add: filterNodes_def Let_def eligible_iff split_beta)

lemma filterNodes_items:
  assumes "ea_nodes args = Some offered"
  shows "fr_nodes (filterNodes states args) = Some (filter (\<lambda>n. eligible states args (ni_name n) (ni_labels n)) offered)"
  using assms filterLoop_passed [of ni_name "\<lambda>n. shouldFilterNode (ni_name n) states (ni_labels n) (podWorkloadClass (podAnnotations (ea_pod args)) = ''performance'')" offered "[]"]
  by (simp add: filterNodes_def Let_def eligible_iff split_beta)

text \<open>The object of a planned node after a reconcile, and that the keys still agree.\<close>

lemma reconcile_keys:
  assumes "keysAgree s" "set (map na_nodeName plan) = set names"
    and "\<forall>a \<in> set plan. \<exists>t. sto_twins s' (ObjectNameForNode (na_nodeName a)) = Some t \<and> nt_spec t = twinSpecOf a"
    and "\<forall>m. m \<notin> ObjectNameForNode ` set names \<longrightarrow> sto_twins s' m = sto_twins s m"
  shows "keysAgree s'"
  unfolding keysAgree_def
proof (intro allI impI)
  fix m t assume t: "sto_twins s' m = Some t"
  show "m = ObjectNameForNode (nsp_nodeName (nt_spec t))"
  proof (cases "m \<in> ObjectNameForNode ` set names")
    case True
    then obtain n where "n \<in> set (map na_nodeName plan)" "m = ObjectNameForNode n" unfolding assms(2) by blast
    then obtain a where "a \<in> set plan" "m = ObjectNameForNode (na_nodeName a)" by auto
    then show ?thesis using assms(3) t by (force simp: twinSpecOf_def)
  next
    case False
    then show ?thesis using assms(1,4) t by (simp add: keysAgree_def)
  qed
qed

lemma reconcile_keeps_nodes:
  assumes "planReconcile cfg cl u = Inr (plan, hw, objs)" and "cl_nodes cl = Inr nodes"
    and "distinct (map ObjectNameForNode (eligibleNames cfg nodes))"
    and "reachable s" and "\<forall>n \<in> set (eligibleNames cfg nodes). sto_nodes s n \<noteq> None"
    and "reconcileWithCatalog cfg cl env u now (samples, s) = (None, samples', s')"
  shows "\<forall>n \<in> set (eligibleNames cfg nodes). \<exists>k. sto_nodes s' n = Some k"
proof
  fix n assume "n \<in> set (eligibleNames cfg nodes)"
  then obtain a where a: "a \<in> set plan" "na_nodeName a = n" using planReconcile_names [OF assms(1,2)] by (metis imageE list.set_map)
  obtain samples2 s2 where "reconcileWithCatalog cfg cl env u now (samples, s) = (None, samples2, s2)"
    and "\<forall>a \<in> set plan. \<exists>t k. sto_twins s2 (ObjectNameForNode (na_nodeName a)) = Some t \<and> nt_spec t = twinSpecOf a \<and>
        vts_schedulableClass (nt_status t) = classOf (na_profile a) (na_draining a) \<and>
        sto_nodes s2 (na_nodeName a) = Some k \<and> TrimSpace (map_get (kn_labels k) (pc_profileLabel cfg)) = na_profile a"
    using reconcileWithCatalog_ok [OF assms(1-5), of env now samples] by blast
  then show "\<exists>k. sto_nodes s' n = Some k" using a assms(6) by auto
qed

text \<open>Whether a performance pod may go to a node, read off the assignment that was published for it.\<close>

lemma published_eligible:
  assumes "keysAgree s" "listsTwins s items" "sto_twins s (ObjectNameForNode (na_nodeName a)) = Some t" "nt_spec t = twinSpecOf a"
    and "vts_schedulableClass (nt_status t) = classOf (na_profile a) (na_draining a)" "na_nodeName a \<noteq> []"
    and "na_profile a \<in> {profilePerformance, profileEco}" "podWorkloadClass (podAnnotations (ea_pod args)) = ''performance''"
    and "\<forall>l. labels = Some l \<longrightarrow> TrimSpace (map_get l ''joulie.io/power-profile'') = na_profile a"
  shows "eligible (keyed (twinStatusFromObject parseTime) items []) args (na_nodeName a) labels \<longleftrightarrow>
    na_profile a = ''performance'' \<and> \<not> na_draining a"
proof -
  have look: "map_of (keyed (twinStatusFromObject parseTime) items []) (na_nodeName a) = Some (snd (twinStatusFromObject parseTime t))"
    using listed_twin [OF assms(1-3)] assms(4,6) by (simp add: twinSpecOf_def)
  have trim: "TrimSpace ''eco'' = ''eco''" by code_simp
  have "eligible (keyed (twinStatusFromObject parseTime) items []) args (na_nodeName a) labels \<longleftrightarrow>
      classOf (na_profile a) (na_draining a) \<noteq> ''eco'' \<and> classOf (na_profile a) (na_draining a) \<noteq> ''draining''"
    unfolding eligible_def look using assms(5,7,8,9) trim by (auto simp: twinStatusFromObject_def classOf_def Let_def)
  also have "\<dots> \<longleftrightarrow> na_profile a = ''performance'' \<and> \<not> na_draining a" using assms(7) by (auto simp: classOf_def)
  finally show ?thesis .
qed

text \<open>A node item of a request as kube-scheduler sends it: the labels are those the store holds for the node.\<close>

definition itemStored :: "TwinStore \<Rightarrow> NodeItem \<Rightarrow> bool" where
  "itemStored s it \<longleftrightarrow> (\<exists>k. sto_nodes s (ni_name it) = Some k \<and> ni_labels it = Some (kn_labels k))"

text \<open>A node the plan opens to performance pods.\<close>

definition plannedOpen :: "NodeAssignment list \<Rightarrow> string \<Rightarrow> bool" where
  "plannedOpen plan n \<longleftrightarrow> (\<exists>a \<in> set plan. na_nodeName a = n \<and> na_profile a = ''performance'' \<and> \<not> na_draining a)"

text \<open>C1: The scheduler follows the plan. After a reconcile of the controller manager against a reachable API server that
  nobody else writes meanwhile, a scheduler extender that rebuilds its cache from a listing of the NodeTwins lets a
  performance pod through on exactly those of the offered planned nodes that are planned for performance and not draining.
  It holds for both forms of a request: node names, and whole nodes with the labels the reconcile left on them, where the
  extender also looks at the profile label (the controller's configured label being the one the extender reads).\<close>

theorem scheduler_follows_plan:
  assumes "planReconcile cfg cl u = Inr (plan, hw, objs)" and "cl_nodes cl = Inr nodes"
    and "distinct (map ObjectNameForNode (eligibleNames cfg nodes))" and "[] \<notin> set (eligibleNames cfg nodes)"
    and "reachable s" and "\<forall>n \<in> set (eligibleNames cfg nodes). sto_nodes s n \<noteq> None"
    and "keysAgree s" and "\<not> cacheFresh ttl t0 c"
  shows "\<exists>samples' s'. reconcileWithCatalog cfg cl env u now (samples, s) = (None, samples', s') \<and> keysAgree s' \<and>
    (\<forall>items args. listsTwins s' items \<longrightarrow> podWorkloadClass (podAnnotations (ea_pod args)) = ''performance'' \<longrightarrow>
       (\<forall>names. ea_nodes args = None \<longrightarrow> ea_nodeNames args = Some names \<longrightarrow> set names \<subseteq> set (eligibleNames cfg nodes) \<longrightarrow>
          fr_nodeNames (filterNodes (fst (getNodeTwinStates ttl parseTime (Some (Inr items)) t0 c)) args) = Some (filter (plannedOpen plan) names)) \<and>
       (\<forall>offered. ea_nodes args = Some offered \<longrightarrow> pc_profileLabel cfg = ''joulie.io/power-profile'' \<longrightarrow>
          (\<forall>it \<in> set offered. ni_name it \<in> set (eligibleNames cfg nodes) \<and> itemStored s' it) \<longrightarrow>
          fr_nodes (filterNodes (fst (getNodeTwinStates ttl parseTime (Some (Inr items)) t0 c)) args) =
            Some (filter (\<lambda>it. plannedOpen plan (ni_name it)) offered)))"
proof -
  note names = planReconcile_names [OF assms(1,2)]
  obtain samples' s' where R: "reconcileWithCatalog cfg cl env u now (samples, s) = (None, samples', s')"
    and pub: "\<forall>a \<in> set plan. \<exists>t k. sto_twins s' (ObjectNameForNode (na_nodeName a)) = Some t \<and> nt_spec t = twinSpecOf a \<and>
        vts_schedulableClass (nt_status t) = classOf (na_profile a) (na_draining a) \<and>
        sto_nodes s' (na_nodeName a) = Some k \<and> TrimSpace (map_get (kn_labels k) (pc_profileLabel cfg)) = na_profile a"
    and other: "\<forall>m. m \<notin> ObjectNameForNode ` set (eligibleNames cfg nodes) \<longrightarrow> sto_twins s' m = sto_twins s m"
    using reconcileWithCatalog_ok [OF assms(1-3,5,6), of env now samples] by blast
  have keys: "keysAgree s'" by (rule reconcile_keys [OF assms(7) _ _ other]) (use pub in \<open>auto simp only: names\<close>)
  have uniq: "distinct (map na_nodeName plan)" using assms(3) unfolding names by (simp add: distinct_map)
  have el: "eligible (fst (getNodeTwinStates ttl parseTime (Some (Inr items)) t0 c)) args n labels \<longleftrightarrow> plannedOpen plan n"
    if items: "listsTwins s' items" and cls: "podWorkloadClass (podAnnotations (ea_pod args)) = ''performance''"
      and n: "n \<in> set (eligibleNames cfg nodes)"
      and labels: "labels = None \<or> pc_profileLabel cfg = ''joulie.io/power-profile'' \<and> (\<exists>k. sto_nodes s' n = Some k \<and> labels = Some (kn_labels k))"
    for items args n labels
  proof -
    from n names obtain a where a: "a \<in> set plan" "na_nodeName a = n" by (metis imageE list.set_map)
    with pub obtain t k where t: "sto_twins s' (ObjectNameForNode n) = Some t" "nt_spec t = twinSpecOf a"
      "vts_schedulableClass (nt_status t) = classOf (na_profile a) (na_draining a)"
      "sto_nodes s' n = Some k" "TrimSpace (map_get (kn_labels k) (pc_profileLabel cfg)) = na_profile a" by blast
    have same: "b = a" if "b \<in> set plan" "na_nodeName b = n" for b using uniq a that by (metis distinct_map inj_onD)
    have "n \<noteq> []" using n assms(4) by auto
    moreover have "\<forall>l. labels = Some l \<longrightarrow> TrimSpace (map_get l ''joulie.io/power-profile'') = na_profile a" using labels t(4,5) by auto
    ultimately have "eligible (keyed (twinStatusFromObject parseTime) items []) args n labels \<longleftrightarrow> na_profile a = ''performance'' \<and> \<not> na_draining a"
      using published_eligible [OF keys items _ t(2,3) _ planReconcile_profiles [OF assms(1,2) a(1)] cls] t(1) a(2) by simp
    also have "\<dots> \<longleftrightarrow> plannedOpen plan n" unfolding plannedOpen_def using a same by blast
    finally show ?thesis using assms(8) by (simp add: getNodeTwinStates_def twinRefresh_def Let_def)
  qed
  have "filter (\<lambda>n. eligible (fst (getNodeTwinStates ttl parseTime (Some (Inr items)) t0 c)) args n None) names = filter (plannedOpen plan) names"
    if "listsTwins s' items" "podWorkloadClass (podAnnotations (ea_pod args)) = ''performance''" "set names \<subseteq> set (eligibleNames cfg nodes)"
    for items args names using that el by (intro filter_cong) auto
  moreover have "filter (\<lambda>it. eligible (fst (getNodeTwinStates ttl parseTime (Some (Inr items)) t0 c)) args (ni_name it) (ni_labels it)) offered =
      filter (\<lambda>it. plannedOpen plan (ni_name it)) offered"
    if "listsTwins s' items" "podWorkloadClass (podAnnotations (ea_pod args)) = ''performance''" "pc_profileLabel cfg = ''joulie.io/power-profile''"
      "\<forall>it \<in> set offered. ni_name it \<in> set (eligibleNames cfg nodes) \<and> itemStored s' it" for items args offered
    using that el by (intro filter_cong) (auto simp: itemStored_def)
  ultimately show ?thesis using R keys filterNodes_names filterNodes_items by auto
qed

text \<open>A fresh cache, a performance pod and a cluster of two nodes whose twins do not exist yet, in both forms of the request.\<close>

definition examplePerfNames :: ExtenderArgs where
  "examplePerfNames = examplePerfArgs\<lparr>ea_nodes := None, ea_nodeNames := Some [''a'', ''b'']\<rparr>"

definition exampleOffered :: "TwinStore \<Rightarrow> NodeItem list" where
  "exampleOffered s = map (\<lambda>n. \<lparr>ni_name = n, ni_labels = map_option kn_labels (sto_nodes s n)\<rparr>) [''a'', ''b'']"

definition examplePerfItems :: "TwinStore \<Rightarrow> ExtenderArgs" where
  "examplePerfItems s = examplePerfArgs\<lparr>ea_nodes := Some (exampleOffered s)\<rparr>"

lemma examplePerf_class:
  "podWorkloadClass (podAnnotations (ea_pod examplePerfNames)) = ''performance''"
  "podWorkloadClass (podAnnotations (ea_pod (examplePerfItems s))) = ''performance''"
  by (simp_all add: examplePerfNames_def examplePerfItems_def examplePerfArgs_def podAnnotations_def podWorkloadClass_def jgetObj_def jget_def map_get_def)

theorem scheduler_follows_plan_witness:
  "\<exists>plan hw objs samples' s'. planReconcile examplePlanConfig exampleCluster 0 = Inr (plan, hw, objs) \<and>
     reconcileWithCatalog examplePlanConfig exampleCluster exampleTwinEnv 0 0 (\<lambda>_. [], exampleStore) = (None, samples', s') \<and>
     (\<forall>items. listsTwins s' items \<longrightarrow>
        fr_nodeNames (filterNodes (fst (getNodeTwinStates 30 Atoi (Some (Inr items)) 0 \<lparr>tc_value = None, tc_lastRefresh = None\<rparr>)) examplePerfNames)
          = Some (filter (plannedOpen plan) [''a'', ''b'']) \<and>
        fr_nodes (filterNodes (fst (getNodeTwinStates 30 Atoi (Some (Inr items)) 0 \<lparr>tc_value = None, tc_lastRefresh = None\<rparr>)) (examplePerfItems s'))
          = Some (filter (\<lambda>it. plannedOpen plan (ni_name it)) (exampleOffered s')))"
proof -
  obtain plan hw objs where R: "planReconcile examplePlanConfig exampleCluster 0 = Inr (plan, hw, objs)"
    using example_plan_exists by blast
  have dis: "distinct (map ObjectNameForNode (eligibleNames examplePlanConfig [Controller_Plan.exampleNode ''b'', Controller_Plan.exampleNode ''a'']))"
    "[] \<notin> set (eligibleNames examplePlanConfig [Controller_Plan.exampleNode ''b'', Controller_Plan.exampleNode ''a''])"
    unfolding example_eligible example_object_names by simp_all
  have st: "reachable exampleStore"
    "\<forall>n \<in> set (eligibleNames examplePlanConfig [Controller_Plan.exampleNode ''b'', Controller_Plan.exampleNode ''a'']). sto_nodes exampleStore n \<noteq> None"
    "keysAgree exampleStore" by (simp_all add: exampleStore_def keysAgree_def reachable_def)
  have args: "ea_nodes examplePerfNames = None" "ea_nodeNames examplePerfNames = Some [''a'', ''b'']"
    "set [''a'', ''b''] \<subseteq> set (eligibleNames examplePlanConfig [Controller_Plan.exampleNode ''b'', Controller_Plan.exampleNode ''a''])"
    unfolding example_eligible by (simp_all add: examplePerfNames_def)
  have fresh: "\<not> cacheFresh 30 0 \<lparr>tc_value = None, tc_lastRefresh = None\<rparr>" by (simp add: cacheFresh_def)
  have label: "pc_profileLabel examplePlanConfig = ''joulie.io/power-profile''" by (simp add: examplePlanConfig_def)
  obtain samples' s' where S: "reconcileWithCatalog examplePlanConfig exampleCluster exampleTwinEnv 0 0 (\<lambda>_. [], exampleStore) = (None, samples', s')"
    and F: "\<forall>items args. listsTwins s' items \<longrightarrow> podWorkloadClass (podAnnotations (ea_pod args)) = ''performance'' \<longrightarrow>
       (\<forall>names. ea_nodes args = None \<longrightarrow> ea_nodeNames args = Some names \<longrightarrow>
          set names \<subseteq> set (eligibleNames examplePlanConfig [Controller_Plan.exampleNode ''b'', Controller_Plan.exampleNode ''a'']) \<longrightarrow>
          fr_nodeNames (filterNodes (fst (getNodeTwinStates 30 Atoi (Some (Inr items)) 0 \<lparr>tc_value = None, tc_lastRefresh = None\<rparr>)) args) = Some (filter (plannedOpen plan) names)) \<and>
       (\<forall>offered. ea_nodes args = Some offered \<longrightarrow> pc_profileLabel examplePlanConfig = ''joulie.io/power-profile'' \<longrightarrow>
          (\<forall>it \<in> set offered. ni_name it \<in> set (eligibleNames examplePlanConfig [Controller_Plan.exampleNode ''b'', Controller_Plan.exampleNode ''a'']) \<and> itemStored s' it) \<longrightarrow>
          fr_nodes (filterNodes (fst (getNodeTwinStates 30 Atoi (Some (Inr items)) 0 \<lparr>tc_value = None, tc_lastRefresh = None\<rparr>)) args) =
            Some (filter (\<lambda>it. plannedOpen plan (ni_name it)) offered))"
    using scheduler_follows_plan [OF R exampleCluster_nodes dis st fresh, of exampleTwinEnv 0 "\<lambda>_. []" Atoi] by blast
  have "ea_nodes (examplePerfItems s') = Some (exampleOffered s')" by (simp add: examplePerfItems_def)
  moreover have "\<forall>it \<in> set (exampleOffered s'). ni_name it \<in> set (eligibleNames examplePlanConfig
      [Controller_Plan.exampleNode ''b'', Controller_Plan.exampleNode ''a'']) \<and> itemStored s' it"
    using reconcile_keeps_nodes [OF R exampleCluster_nodes dis(1) st(1,2) S] unfolding example_eligible
    by (auto simp: exampleOffered_def itemStored_def)
  ultimately show ?thesis using R S F examplePerf_class args label by blast
qed

section \<open>The controller manager and the node agent\<close>

text \<open>What the agent of a node gets when it reads its NodeTwin from the store.\<close>

definition storedTwin :: "TwinStore \<Rightarrow> string \<Rightarrow> ListErr + V1NodeTwin" where
  "storedTwin s nodeName = (case sto_twins s (ObjectNameForNode nodeName) of None \<Rightarrow> Inl NotFoundErr | Some t \<Rightarrow> Inr t)"

lemma desired_of_published:
  assumes "reachable s" "upsertNodeTwinSpec a s = (None, s')"
  obtains sel where "resolveDesiredStateForNode (storedTwin s' (na_nodeName a)) (na_nodeName a) = Inr (Some sel)"
    "ds_powerWatts sel = (if na_cpuCapPctOfMax a = None \<and> na_capWatts a > 0 then Some (na_capWatts a) else None)"
    "ds_powerPctOfMax sel = na_cpuCapPctOfMax a" "na_gpu a = None \<Longrightarrow> ds_gpu sel = None"
proof -
  obtain t where u: "upsertNodeTwinSpec a s = (None, s\<lparr>sto_twins := (sto_twins s)(ObjectNameForNode (na_nodeName a) \<mapsto> t)\<rparr>)"
    "nt_spec t = twinSpecOf a" using upsertNodeTwinSpec_ok [OF assms(1) refl] by blast
  then have t: "sto_twins s' (ObjectNameForNode (na_nodeName a)) = Some t" "nt_spec t = twinSpecOf a" using assms(2) by auto
  show thesis
    by (rule that) (use t in \<open>auto simp: resolveDesiredStateForNode_def getNodeTwinSpec_def storedTwin_def nodeTwinSpecFromObject_def
        twinSpecOf_def gpuCapFromSpec_def Let_def\<close>)
qed


text \<open>
  A cap of 180 W for a node whose first package allows 150.1 W and whose second refuses writes: the limit of the first reads
  150 W, which is 150.1 W in whole units of an eighth of a watt.
\<close>

definition exampleAssignment :: NodeAssignment where
  "exampleAssignment =
     \<lparr>na_nodeName = ''n1'', na_profile = ''eco'', na_capWatts = 180, na_cpuCapPctOfMax = None, na_gpu = None, na_cpuGovernor = None,
      na_gpuGovernor = None, na_managedBy = [], na_sourceProfile = ''eco'', na_sourceDrain = False, na_draining = False, na_state = ''ActiveEco''\<rparr>"

definition exampleReadTick :: "TwinStore \<Rightarrow> TickEnv" where
  "exampleReadTick s = (exampleTick (exampleKernel exampleOk) exampleCapTwin)\<lparr>tk_getTwin := storedTwin s ''n1''\<rparr>"


end
